(* ===== verification/ESP_Prelude.thy ===== *)
theory ESP_Prelude
  imports Main "HOL-Library.Word" "HOL-Library.Sublist"
begin

text \<open>
  Shared types, collections and generic lemmas of the development.

  A \<^verbatim>\<open>std::uint8_t\<close> is an 8-bit word, \<^verbatim>\<open>std::uint32_t\<close> and \<^verbatim>\<open>std::uint64_t\<close> are 32- and 64-bit
  words, so arithmetic wraps as it does in C++.  A \<^verbatim>\<open>ByteBuffer\<close> or a \<^verbatim>\<open>ByteView\<close> is a list of bytes;
  \<^verbatim>\<open>std::size_t\<close> values are lengths of and positions in such lists and are natural numbers.
  A \<^verbatim>\<open>std::string\<close> that carries protocol bytes is a byte list too; text that only appears in an
  exception message is a HOL string.
\<close>

unbundle bit_operations_syntax

type_synonym byte = "8 word"
type_synonym u16 = "16 word"
type_synonym u32 = "32 word"
type_synonym u64 = "64 word"
type_synonym bytes = "byte list"

named_theorems codec_simps \<open>round trips and lengths of the byte codecs\<close>
named_theorems keeps_intros \<open>operations that keep an invariant\<close>

section \<open>Exceptions\<close>

text \<open>The exception hierarchy of \<^verbatim>\<open>exception.hpp\<close>: one constructor per class, with its message.\<close>

datatype api_error =
    ApiError string
  | ConnectionError string
  | ProtocolError string
  | HandshakeError string
  | EncryptionMismatchError string
  | AuthenticationError string
  | TimeoutError string
  | EncryptionError string

text \<open>\<^verbatim>\<open>catch (const ProtocolError&)\<close> catches the class and everything derived from it.\<close>

fun is_protocol_error :: "api_error \<Rightarrow> bool" where
  "is_protocol_error (ProtocolError _) = True"
| "is_protocol_error (HandshakeError _) = True"
| "is_protocol_error (EncryptionMismatchError _) = True"
| "is_protocol_error (EncryptionError _) = True"
| "is_protocol_error _ = False"

text \<open>\<^verbatim>\<open>std::to_string\<close> of an unsigned number: decimal digits.\<close>

fun to_string_nat :: "nat \<Rightarrow> string" where
  "to_string_nat n =
     (if n < 10 then [char_of (48 + n)] else to_string_nat (n div 10) @ [char_of (48 + n mod 10)])"

declare to_string_nat.simps [simp del]

section \<open>Words and naturals\<close>

lemma unat_byte_lt [simp]: "unat (b :: byte) < 256"
  using unsigned_less [of b, where ?'a = nat] by simp

lemma unat_u32_lt: "unat (v :: u32) < 2 ^ 32"
  using unsigned_less [of v, where ?'a = nat] by simp

lemma unat_u64_lt: "unat (v :: u64) < 2 ^ 64"
  using unsigned_less [of v, where ?'a = nat] by simp

lemma unat_take_bit_word: "unat (take_bit n w) = unat w mod 2 ^ n" for w :: "'a::len word"
  by (metis unsigned_take_bit_eq take_bit_eq_mod)

lemma unat_drop_bit_word: "unat (drop_bit n w) = unat w div 2 ^ n" for w :: "'a::len word"
  by (metis unat_drop_bit_eq drop_bit_eq_div)

lemma bit_word_iff_unat: "bit w n \<longleftrightarrow> odd (unat w div 2 ^ n)" for w :: "'a::len word"
proof -
  have "bit w n = bit (unat w) n" by (simp add: bit_unsigned_iff)
  then show ?thesis by (simp only: bit_iff_odd)
qed

lemma unat_and_7f: "unat (b AND 0x7F :: byte) = unat b mod 128"
proof -
  have "b AND 0x7F = take_bit 7 b"
    by (simp only: take_bit_eq_mask mask_eq_exp_minus_1) simp
  then show ?thesis by (simp only: unat_take_bit_word) simp
qed

lemma byte_high_bit_iff: "(b AND 0x80 = 0) \<longleftrightarrow> unat (b :: byte) < 128"
proof -
  have "(b AND 0x80 = 0) \<longleftrightarrow> \<not> bit b 7"
    by (auto simp: bit_eq_iff bit_simps) (auto simp: bit_simps numeral_eq_Suc less_Suc_eq)
  also have "bit b 7 = odd (unat b div 128)"
    by (simp only: bit_word_iff_unat) simp
  also have "(\<not> odd (unat b div 128)) = (unat b < 128)"
  proof -
    have "unat b div 128 < 2" using unat_byte_lt [of b] by (simp add: div_less_iff_less_mult)
    then show ?thesis by (cases "unat b div 128 = 0") (auto simp: div_eq_0_iff less_2_cases_iff)
  qed
  finally show ?thesis .
qed

lemma unat_ucast_word: "unat (ucast v :: 'b::len word) = unat v mod 2 ^ LENGTH('b)" for v :: "'a::len word"
proof -
  have "unat (ucast v :: 'b word) = take_bit LENGTH('b) (unat v)"
    by (simp add: unsigned_ucast_eq)
  then show ?thesis by (simp only: take_bit_eq_mod)
qed

lemma unat_push_bit_word:
  "unat (push_bit n w) = unat w * 2 ^ n mod 2 ^ LENGTH('a)" for w :: "'a::len word"
proof -
  have "unat (push_bit n w) = take_bit LENGTH('a) (push_bit n (unat w))"
    by (simp add: unsigned_push_bit_eq)
  then show ?thesis by (simp only: take_bit_eq_mod push_bit_eq_mult)
qed

text \<open>Or-ing a field in above the bits already set is an addition, as long as it fits.\<close>

lemma unat_or_push_bit:
  fixes r x :: "'a::len word"
  assumes r: "unat r < 2 ^ s" and x: "unat x * 2 ^ s < 2 ^ LENGTH('a)"
  shows "unat (r OR push_bit s x) = unat r + unat x * 2 ^ s"
proof -
  have "\<not> bit r k" if "s \<le> k" for k
  proof -
    have "unat r < 2 ^ k" using r power_increasing [OF that, of "2::nat"] by linarith
    then show ?thesis by (simp add: bit_word_iff_unat)
  qed
  then have "r AND push_bit s x = 0"
    by (intro bit_word_eqI) (auto simp: bit_simps not_less)
  then have "unat (r OR push_bit s x) = unat (r + push_bit s x)"
    by (simp add: disjunctive_add_eq_or)
  also have "unat (push_bit s x) = unat x * 2 ^ s"
    using x by (simp only: unat_push_bit_word) simp
  moreover have "unat r + unat x * 2 ^ s < 2 ^ LENGTH('a)"
  proof (cases "unat x = 0")
    case True
    then show ?thesis using unsigned_less [of r, where ?'a = nat] by simp
  next
    case False
    have s: "s \<le> LENGTH('a)"
    proof (rule ccontr)
      assume "\<not> s \<le> LENGTH('a)"
      then have "(2::nat) ^ LENGTH('a) \<le> 2 ^ s" by simp
      moreover have "2 ^ s \<le> unat x * 2 ^ s" using False by simp
      ultimately show False using x by linarith
    qed
    then have split: "(2::nat) ^ LENGTH('a) = 2 ^ (LENGTH('a) - s) * 2 ^ s"
      by (simp flip: power_add)
    with x have "unat x < 2 ^ (LENGTH('a) - s)" by simp
    then have "Suc (unat x) * 2 ^ s \<le> 2 ^ LENGTH('a)"
      unfolding split by (intro mult_le_mono1) simp
    with r show ?thesis by simp
  qed
  ultimately show ?thesis by (simp add: unat_word_ariths)
qed

lemma unat_or_80: "unat (b OR 0x80 :: byte) = unat b mod 128 + 128"
proof -
  have "b OR 0x80 = (b AND 0x7F) OR push_bit 7 1"
    by (rule bit_word_eqI) (auto simp: bit_simps numeral_eq_Suc less_Suc_eq)
  then show ?thesis
    using unat_or_push_bit [of "b AND 0x7F" 7 1] by (simp add: unat_and_7f)
qed

lemma unat_or_push_bit_mod:
  fixes r x :: "'a::len word"
  assumes r: "unat r < 2 ^ s" and s: "s \<le> LENGTH('a)"
  shows "unat (r OR push_bit s x) = (unat r + unat x * 2 ^ s) mod 2 ^ LENGTH('a)"
proof -
  let ?L = "LENGTH('a)" and ?y = "take_bit (LENGTH('a) - s) x"
  have split: "(2::nat) ^ ?L = 2 ^ (?L - s) * 2 ^ s"
    using s by (simp flip: power_add)
  have "push_bit s x = push_bit s ?y"
    by (rule bit_word_eqI) (auto simp: bit_simps)
  moreover have "unat ?y * 2 ^ s < 2 ^ ?L"
    unfolding split unat_take_bit_word by simp
  ultimately have "unat (r OR push_bit s x) = unat r + unat ?y * 2 ^ s"
    using unat_or_push_bit [OF r] by simp
  also have "unat ?y * 2 ^ s = unat x * 2 ^ s mod 2 ^ ?L"
    unfolding unat_take_bit_word split by (simp add: mult_mod_left)
  also have "unat r + \<dots> = (unat r + unat x * 2 ^ s) mod 2 ^ ?L"
  proof -
    have "unat x * 2 ^ s mod 2 ^ ?L = (unat x mod 2 ^ (?L - s)) * 2 ^ s"
      unfolding split by (simp add: mult_mod_left)
    moreover have "(unat x mod 2 ^ (?L - s)) * 2 ^ s + 2 ^ s \<le> 2 ^ ?L"
    proof -
      have "Suc (unat x mod 2 ^ (?L - s)) * 2 ^ s \<le> 2 ^ (?L - s) * 2 ^ s"
        by (rule mult_le_mono1) (simp add: Suc_leI)
      then show ?thesis unfolding split by simp
    qed
    ultimately have "unat r + unat x * 2 ^ s mod 2 ^ ?L < 2 ^ ?L" using r by linarith
    then show ?thesis by (metis mod_add_right_eq mod_less)
  qed
  finally show ?thesis .
qed

section \<open>Prefixes\<close>

lemma strict_prefix_append_cases:
  assumes "strict_prefix b (u @ v)"
  obtains (left) "strict_prefix b u" | (right) c where "b = u @ c" "strict_prefix c v"
proof -
  obtain zs where z: "u @ v = b @ zs" "zs \<noteq> []" using assms by (auto simp: strict_prefix_def prefix_def)
  then consider us where "b = u @ us" "v = us @ zs" | us where "u = b @ us" "us \<noteq> []" "zs = us @ v"
    by (auto simp: append_eq_append_conv2) blast
  then show thesis using that z by cases (auto simp: strict_prefix_def)
qed

section \<open>Prefix codecs\<close>

text \<open>
  The contract of an encoding that can be read off the front of a byte stream: decoding the
  encoding of a value followed by anything gives the value back and leaves the rest.
\<close>

fun decode_many :: "(bytes \<Rightarrow> ('a \<times> bytes) option) \<Rightarrow> nat \<Rightarrow> bytes \<Rightarrow> 'a list option" where
  "decode_many dec 0 bs = (if bs = [] then Some [] else None)"
| "decode_many dec (Suc fuel) bs =
     (if bs = [] then Some []
      else case dec bs of
        None \<Rightarrow> None
      | Some (x, rest) \<Rightarrow> map_option ((#) x) (decode_many dec fuel rest))"

locale prefix_codec =
  fixes enc :: "'a \<Rightarrow> bytes" and dec :: "bytes \<Rightarrow> ('a \<times> bytes) option" and ok :: "'a \<Rightarrow> bool"
  assumes dec_enc: "ok x \<Longrightarrow> dec (enc x @ rest) = Some (x, rest)"
    and enc_nonempty: "enc x \<noteq> []"
begin

lemma enc_prefix_free: "ok x \<Longrightarrow> ok y \<Longrightarrow> prefix (enc x) (enc y) \<Longrightarrow> x = y"
  using dec_enc [of x] dec_enc [of y "[]"] by (fastforce simp: prefix_def)

lemma enc_inj: "ok x \<Longrightarrow> ok y \<Longrightarrow> enc x = enc y \<Longrightarrow> x = y"
  by (simp add: enc_prefix_free)

lemma concat_enc_inj:
  "list_all ok xs \<Longrightarrow> list_all ok ys \<Longrightarrow> concat (map enc xs) = concat (map enc ys) \<Longrightarrow> xs = ys"
proof (induction xs arbitrary: ys)
  case Nil
  then show ?case by (cases ys) (auto simp: enc_nonempty)
next
  case (Cons x xs)
  have "ys \<noteq> []" using Cons.prems(3) enc_nonempty [of x] by auto
  then obtain y ys' where ys: "ys = y # ys'" by (cases ys) auto
  have e: "enc x @ concat (map enc xs) = enc y @ concat (map enc ys')"
    using Cons.prems(3) by (simp only: ys list.map concat.simps)
  have "Some (x, concat (map enc xs)) = dec (enc x @ concat (map enc xs))"
    using Cons.prems(1) by (simp add: dec_enc)
  also have "\<dots> = Some (y, concat (map enc ys'))"
    using Cons.prems(2) by (simp add: e dec_enc ys)
  finally have "x = y" and eq: "concat (map enc xs) = concat (map enc ys')" by simp_all
  moreover have "xs = ys'" using Cons.IH [OF _ _ eq] Cons.prems ys by simp
  ultimately show ?case by (simp add: ys)
qed

lemma length_concat_enc: "length xs \<le> length (concat (map enc xs))"
proof (induction xs)
  case (Cons x xs)
  then show ?case using enc_nonempty [of x] by (cases "enc x") auto
qed simp

lemma decode_many_concat:
  "list_all ok xs \<Longrightarrow> length xs \<le> fuel \<Longrightarrow> decode_many dec fuel (concat (map enc xs)) = Some xs"
proof (induction xs arbitrary: fuel)
  case Nil
  then show ?case by (cases fuel) auto
next
  case (Cons x xs)
  then obtain f where "fuel = Suc f" "length xs \<le> f" by (cases fuel) auto
  with Cons show ?case using enc_nonempty [of x] by (simp add: dec_enc)
qed

end

section \<open>Strings as bytes\<close>

text \<open>A \<^verbatim>\<open>std::string\<close> seen as bytes and back (\<open>reinterpret_cast\<close> of its data).\<close>

definition bytes_of_string :: "string \<Rightarrow> bytes" where
  "bytes_of_string s = map of_char s"

definition string_of_bytes :: "bytes \<Rightarrow> string" where
  "string_of_bytes bs = map (\<lambda>b. char_of (unat b)) bs"

lemma unat_of_nat_byte_small: "n < 256 \<Longrightarrow> unat (of_nat n :: byte) = n"
  by (simp add: unat_of_nat)

lemma string_bytes_roundtrip [simp]: "string_of_bytes (bytes_of_string s) = s" "bytes_of_string (string_of_bytes bs) = bs"
proof -
  have u: "unat (of_char c :: byte) = of_char c" for c :: char
    using of_nat_of_char [of c, where ?'a = byte] unat_of_nat_byte_small [OF nat_of_char_less_256, of c] by simp
  have c: "char_of (unat (of_char c :: byte)) = c" for c :: char
    by (simp add: u)
  have b: "(of_char (char_of (unat b)) :: byte) = b" for b :: byte
    by (simp add: word_unat_eq_iff u)
  show "string_of_bytes (bytes_of_string s) = s" "bytes_of_string (string_of_bytes bs) = bs"
    by (simp_all add: string_of_bytes_def bytes_of_string_def c b map_idI)
qed

section \<open>Little-endian numbers\<close>

fun le_val :: "bytes \<Rightarrow> nat" where
  "le_val [] = 0"
| "le_val (b # bs) = unat b + 256 * le_val bs"

lemma le_val_append: "le_val (a @ b) = le_val a + 256 ^ length a * le_val b"
  by (induction a) (simp_all add: algebra_simps)

lemma le_val_lt: "le_val a < 256 ^ length a"
proof (induction a)
  case (Cons b a)
  then have "unat b + 256 * le_val a < 256 + 256 * le_val a" by simp
  also have "\<dots> \<le> 256 * 256 ^ length a" using Cons by simp
  finally show ?case by simp
qed simp

lemma le_val_drop: "i \<le> length m \<Longrightarrow> le_val (drop i m) = le_val m div 256 ^ i"
  using le_val_append [of "take i m" "drop i m"] le_val_lt [of "take i m"] by simp

lemma le_val_take: "i \<le> length m \<Longrightarrow> le_val (take i m) = le_val m mod 256 ^ i"
  using le_val_append [of "take i m" "drop i m"] le_val_lt [of "take i m"] by simp

end
