(* ===== verification/Varint.thy ===== *)
theory Varint
  imports ESP_Prelude
begin

text \<open>
  The base-128 varint codec of \<^verbatim>\<open>bytes.hpp\<close> and \<^verbatim>\<open>bytes.cpp\<close>: \<open>varint_size\<close>, \<open>append_varint\<close> and
  \<open>decode_varint\<close>, each loop a recursive function with its termination proof.  The reference is
  \<open>leb128\<close>, the base-128 digits of a natural number with the continuation bit set on all but the
  last; the encoder is shown to produce it, the decoder to invert it, and the decoder's three
  outcomes are characterised on every input.
\<close>

section \<open>Reference encoding\<close>

fun leb128 :: "nat \<Rightarrow> bytes" where
  "leb128 n = (if n < 128 then [of_nat n] else of_nat (n mod 128 + 128) # leb128 (n div 128))"

declare leb128.simps [simp del]

text \<open>Value of a run of base-128 digits, least significant first, continuation bits ignored.\<close>

fun leb128_value :: "bytes \<Rightarrow> nat" where
  "leb128_value [] = 0"
| "leb128_value (b # bs) = unat b mod 128 + 128 * leb128_value bs"

abbreviation cont_byte :: "byte \<Rightarrow> bool" where
  "cont_byte b \<equiv> b AND 0x80 \<noteq> 0"

section \<open>The code\<close>

text \<open>\<^verbatim>\<open>std::size_t varint_size(std::uint32_t value)\<close>\<close>

function varint_size_loop :: "u32 \<Rightarrow> nat \<Rightarrow> nat" where
  "varint_size_loop v n = (if v \<ge> 0x80 then varint_size_loop (drop_bit 7 v) (n + 1) else n)"
  by pat_completeness auto
termination
  by (relation "measure (\<lambda>(v, n). unat v)") (auto simp: unat_drop_bit_word word_le_nat_alt)

definition varint_size :: "u32 \<Rightarrow> nat" where
  "varint_size v = varint_size_loop v 1"

text \<open>\<^verbatim>\<open>void append_varint(ByteBuffer& out, std::uint32_t value)\<close>\<close>

function append_varint :: "bytes \<Rightarrow> u32 \<Rightarrow> bytes" where
  "append_varint out v =
     (if v \<ge> 0x80 then append_varint (out @ [ucast v OR 0x80]) (drop_bit 7 v)
      else out @ [ucast v])"
  by pat_completeness auto
termination
  by (relation "measure (\<lambda>(out, v). unat v)") (auto simp: unat_drop_bit_word word_le_nat_alt)

declare varint_size_loop.simps [simp del] append_varint.simps [simp del]

text \<open>
  \<^verbatim>\<open>VarintStatus decode_varint(data, len, value, consumed, max_bytes)\<close>: the status with the two
  out-parameters that are set on \<^verbatim>\<open>Ok\<close>.
\<close>

datatype varint_status = VOk u32 nat | VIncomplete | VOverflow

fun decode_varint_loop :: "bytes \<Rightarrow> nat \<Rightarrow> u64 \<Rightarrow> nat \<Rightarrow> nat \<Rightarrow> varint_status" where
  "decode_varint_loop [] i result shift max_bytes =
     (if i \<ge> max_bytes then VOverflow else VIncomplete)"
| "decode_varint_loop (b # bs) i result shift max_bytes =
     (if i \<ge> max_bytes then VOverflow
      else let result' = result OR push_bit shift (ucast (b AND 0x7F))
           in if b AND 0x80 = 0
              then (if result' > 0xFFFFFFFF then VOverflow else VOk (ucast result') (i + 1))
              else decode_varint_loop bs (i + 1) result' (shift + 7) max_bytes)"

definition decode_varint :: "bytes \<Rightarrow> nat \<Rightarrow> varint_status" where
  "decode_varint data max_bytes = decode_varint_loop data 0 0 0 max_bytes"

definition max_varint_bytes :: nat where
  "max_varint_bytes = 5"

section \<open>Facts about the reference\<close>

lemma leb128_nonempty [simp]: "leb128 n \<noteq> []"
  by (subst leb128.simps) simp

lemma length_leb128_pos [simp]: "0 < length (leb128 n)"
  by simp

lemma unat_of_nat_byte: "n < 256 \<Longrightarrow> unat (of_nat n :: byte) = n"
  by (simp add: unat_of_nat)

lemma cont_byte_iff: "cont_byte b \<longleftrightarrow> 128 \<le> unat b"
  by (simp add: byte_high_bit_iff not_less)

lemma leb128_shape:
  "\<exists>xs x. leb128 n = xs @ [x] \<and> list_all cont_byte xs \<and> \<not> cont_byte x"
proof (induction n rule: leb128.induct)
  case (1 n)
  show ?case
  proof (cases "n < 128")
    case True
    then show ?thesis
      by (subst leb128.simps) (auto simp: cont_byte_iff unat_of_nat_byte intro: exI [of _ "[]"])
  next
    case False
    with 1 obtain xs x where IH: "leb128 (n div 128) = xs @ [x]" "list_all cont_byte xs" "\<not> cont_byte x"
      by blast
    have "cont_byte (of_nat (n mod 128 + 128))"
      unfolding cont_byte_iff by (subst unat_of_nat_byte) auto
    with False IH show ?thesis
      by (subst leb128.simps) (auto intro!: exI [of _ "of_nat (n mod 128 + 128) # xs"] exI [of _ x])
  qed
qed

lemma leb128_value_append: "leb128_value (xs @ ys) = leb128_value xs + 128 ^ length xs * leb128_value ys"
  by (induction xs) (auto simp: algebra_simps)

lemma leb128_value_lt: "leb128_value bs < 128 ^ length bs"
proof (induction bs)
  case (Cons b bs)
  have "unat b mod 128 \<le> 127" by (simp flip: less_Suc_eq_le)
  with Cons show ?case by simp
qed simp

lemma leb128_value_leb128 [simp]: "leb128_value (leb128 n) = n"
proof (induction n rule: leb128.induct)
  case (1 n)
  show ?case
  proof (cases "n < 128")
    case True
    then show ?thesis by (subst leb128.simps) (simp add: unat_of_nat_byte)
  next
    case False
    then have "leb128_value (leb128 n) =
        unat (of_nat (n mod 128 + 128) :: byte) mod 128 + 128 * (n div 128)"
      using 1 by (subst leb128.simps) simp
    also have "unat (of_nat (n mod 128 + 128) :: byte) = n mod 128 + 128"
      by (rule unat_of_nat_byte) (use mod_less_divisor [of 128 n] in linarith)
    finally show ?thesis by simp
  qed
qed

lemma length_leb128_le: "n < 128 ^ k \<Longrightarrow> 0 < k \<Longrightarrow> length (leb128 n) \<le> k"
proof (induction n arbitrary: k rule: leb128.induct)
  case (1 n)
  show ?case
  proof (cases "n < 128")
    case True
    with 1 show ?thesis by (subst leb128.simps) simp
  next
    case False
    with 1 obtain j where k: "k = Suc j" "0 < j" by (cases k; cases "k - 1") auto
    with 1 have "n div 128 < 128 ^ j" by (simp add: div_less_iff_less_mult mult.commute)
    with 1 False k have "length (leb128 (n div 128)) \<le> j" by blast
    with False k show ?thesis by (subst leb128.simps) simp
  qed
qed

lemma length_leb128_u32: "length (leb128 (unat (v :: u32))) \<le> 5"
  by (rule length_leb128_le) (use unat_u32_lt [of v] in simp_all)

section \<open>The encoder produces the reference encoding\<close>

lemma unat_ucast_byte: "unat (ucast v :: byte) = unat v mod 256" for v :: "'a::len word"
  by (simp add: unat_ucast_word)

lemma ucast_or_80: "(ucast v OR 0x80 :: byte) = of_nat (unat v mod 128 + 128)" for v :: "'a::len word"
proof (rule unsigned_word_eqI [where ?'a = nat])
  have "unat (of_nat (unat v mod 128 + 128) :: byte) = unat v mod 128 + 128"
    by (rule unat_of_nat_byte) (use mod_less_divisor [of 128 "unat v"] in linarith)
  moreover have "unat v mod 256 mod 128 = unat v mod 128"
    by (rule mod_mod_cancel) simp
  ultimately show "unat (ucast v OR 0x80 :: byte) = unat (of_nat (unat v mod 128 + 128) :: byte)"
    by (simp add: unat_or_80 unat_ucast_byte)
qed

lemma ucast_small: "unat v < 128 \<Longrightarrow> (ucast v :: byte) = of_nat (unat v)" for v :: "'a::len word"
  by (rule unsigned_word_eqI [where ?'a = nat]) (simp add: unat_ucast_byte unat_of_nat_byte)

lemma varint_size_loop_eq: "Suc (varint_size_loop v n) = n + length (leb128 (unat v))"
proof (induction v n rule: varint_size_loop.induct)
  case (1 v n)
  then show ?case
    by (subst varint_size_loop.simps, subst leb128.simps)
      (auto simp: unat_drop_bit_word word_le_nat_alt)
qed

lemma varint_size_eq [codec_simps]: "varint_size v = length (leb128 (unat v))"
  using varint_size_loop_eq [of v 1] by (simp add: varint_size_def)

lemma append_varint_eq [codec_simps]: "append_varint out v = out @ leb128 (unat v)"
proof (induction out v rule: append_varint.induct)
  case (1 out v)
  show ?case
  proof (cases "v \<ge> 0x80")
    case True
    with 1 have "append_varint out v = out @ (ucast v OR 0x80) # leb128 (unat v div 128)"
      by (subst append_varint.simps) (simp add: unat_drop_bit_word)
    with True show ?thesis
      by (subst leb128.simps) (simp add: ucast_or_80 word_le_nat_alt)
  next
    case False
    then have lt: "unat v < 128" by (simp add: word_le_nat_alt)
    have "append_varint out v = out @ [ucast v]"
      using False by (subst append_varint.simps) simp
    moreover have "leb128 (unat v) = [ucast v]"
      using lt by (subst leb128.simps) (simp only: if_True ucast_small [OF lt])
    ultimately show ?thesis by (simp only:)
  qed
qed

section \<open>The decoder on every input\<close>

definition decode_varint_spec :: "bytes \<Rightarrow> nat \<Rightarrow> varint_status" where
  "decode_varint_spec data max_bytes =
     (let k = length (takeWhile cont_byte data)
      in if max_bytes \<le> k then VOverflow
         else if k = length data then VIncomplete
         else let v = leb128_value (take (Suc k) data)
              in if 2 ^ 32 \<le> v then VOverflow else VOk (of_nat v) (Suc k))"

lemma decode_step:
  fixes result :: u64 and b :: byte
  assumes "unat result < 128 ^ i" "i \<le> 8"
  shows "unat (result OR push_bit (7 * i) (ucast (b AND 0x7F))) = unat result + (unat b mod 128) * 128 ^ i"
proof -
  have p: "(2::nat) ^ (7 * i) = 128 ^ i" by (simp add: power_mult)
  have u: "unat (ucast (b AND 0x7F) :: u64) = unat b mod 128"
    unfolding unat_ucast_word unat_and_7f by (simp add: less_imp_le_nat order.strict_trans2)
  have "unat b mod 128 * 128 ^ i < 128 * 128 ^ i" by simp
  also have "(128::nat) * 128 ^ i \<le> 128 * 128 ^ 8"
    using power_increasing [OF assms(2), of "128::nat"] by (intro mult_le_mono) simp_all
  also have "(128::nat) * 128 ^ 8 \<le> 2 ^ 64" by simp
  finally have "unat (ucast (b AND 0x7F) :: u64) * 2 ^ (7 * i) < 2 ^ 64" by (simp add: p u)
  then show ?thesis
    using unat_or_push_bit [of result "7 * i" "ucast (b AND 0x7F)"] assms(1) by (simp add: p u)
qed

lemma decode_varint_loop_spec:
  assumes "unat result < 128 ^ i" and "i \<le> max_bytes" and "max_bytes \<le> 9"
  shows "decode_varint_loop data i result (7 * i) max_bytes =
     (let k = length (takeWhile cont_byte data)
      in if max_bytes \<le> i + k then VOverflow
         else if k = length data then VIncomplete
         else let v = unat result + 128 ^ i * leb128_value (take (Suc k) data)
              in if 2 ^ 32 \<le> v then VOverflow else VOk (of_nat v) (Suc (i + k)))"
  using assms
proof (induction data arbitrary: i result)
  case Nil
  then show ?case by simp
next
  case (Cons b bs)
  show ?case
  proof (cases "i = max_bytes")
    case True
    then show ?thesis by simp
  next
    case False
    with Cons.prems have i: "i < max_bytes" "i \<le> 8" by auto
    define r where "r = result OR push_bit (7 * i) (ucast (b AND 0x7F))"
    have r: "unat r = unat result + (unat b mod 128) * 128 ^ i"
      unfolding r_def using Cons.prems i by (intro decode_step)
    have "unat b mod 128 \<le> 127" by (simp flip: less_Suc_eq_le)
    then have "(unat b mod 128) * 128 ^ i \<le> 127 * 128 ^ i" by (rule mult_le_mono1)
    with Cons.prems(1) have r_lt: "unat r < 128 ^ Suc i"
      unfolding r power_Suc by linarith
    have ucast_r: "(ucast r :: u32) = of_nat (unat r)" by simp
    show ?thesis
    proof (cases "cont_byte b")
      case True
      have sh: "7 * i + 7 = 7 * Suc i" by simp
      have "decode_varint_loop (b # bs) i result (7 * i) max_bytes =
          decode_varint_loop bs (Suc i) r (7 * Suc i) max_bytes"
        using True i by (simp only: decode_varint_loop.simps Let_def sh flip: r_def) simp
      also note Cons.IH [of r "Suc i", OF r_lt _ Cons.prems(3)]
      finally show ?thesis using i True by (simp add: Let_def r algebra_simps)
    next
      case cb: False
      have "(r > 0xFFFFFFFF) = (2 ^ 32 \<le> unat r)" by (auto simp: word_less_nat_alt)
      with cb False i show ?thesis
        by (auto simp: Let_def r ucast_r mult.commute [of "unat b mod 128" "128 ^ i"]
            simp del: of_nat_unat simp flip: r_def)
    qed
  qed
qed

lemma decode_varint_eq_spec: "max_bytes \<le> 9 \<Longrightarrow> decode_varint data max_bytes = decode_varint_spec data max_bytes"
  using decode_varint_loop_spec [of 0 0 max_bytes data]
  by (simp add: decode_varint_def decode_varint_spec_def Let_def)

section \<open>Round trip, prefixes, injectivity\<close>

lemma takeWhile_leb128: "takeWhile cont_byte (leb128 n @ rest) = butlast (leb128 n)"
  using leb128_shape [of n]
  by (auto simp: takeWhile_append list_all_iff)

lemma decode_varint_leb128 [codec_simps]:
  assumes "n < 2 ^ 32" "length (leb128 n) \<le> max_bytes" "max_bytes \<le> 9"
  shows "decode_varint (leb128 n @ rest) max_bytes = VOk (of_nat n) (length (leb128 n))"
proof -
  have "Suc (length (butlast (leb128 n))) = length (leb128 n)"
    by (metis append_butlast_last_id length_append_singleton leb128_nonempty)
  then obtain m where "length (leb128 n) = Suc m" "length (butlast (leb128 n)) = m" by auto
  then show ?thesis
    using assms
    by (simp add: decode_varint_eq_spec decode_varint_spec_def takeWhile_leb128 Let_def del: length_butlast)
qed

lemma decode_varint_strict_prefix [codec_simps]:
  assumes p: "strict_prefix p (leb128 n)" and "length (leb128 n) \<le> max_bytes" "max_bytes \<le> 9"
  shows "decode_varint p max_bytes = VIncomplete"
proof -
  obtain xs x where xs: "leb128 n = xs @ [x]" "list_all cont_byte xs" "\<not> cont_byte x"
    using leb128_shape by blast
  from p xs(1) obtain q where q: "xs = p @ q"
    by (metis prefix_order.less_le prefix_snoc prefix_def)
  with xs have "takeWhile cont_byte p = p" and lt: "length p < length (leb128 n)"
    by (auto simp: list_all_iff)
  then have "length (takeWhile cont_byte p) = length p" by (simp only:)
  with lt assms show ?thesis
    by (simp add: decode_varint_eq_spec decode_varint_spec_def Let_def)
qed

text \<open>What a successful decode read: all of it is in the buffer and the value is that of the digits.\<close>

lemma decode_varint_VOk:
  assumes "decode_varint data max_bytes = VOk v k" "max_bytes \<le> 9"
  shows "0 < k \<and> k \<le> length data \<and> k \<le> max_bytes \<and> unat v = leb128_value (take k data)"
proof -
  let ?k = "length (takeWhile cont_byte data)"
  from assms have *: "k = Suc ?k" "?k < max_bytes" "?k \<noteq> length data"
      "leb128_value (take k data) < 2 ^ 32" "v = of_nat (leb128_value (take k data))"
    by (auto simp: decode_varint_eq_spec decode_varint_spec_def Let_def split: if_splits)
  moreover have "?k \<le> length data" by (rule length_takeWhile_le)
  ultimately show ?thesis by (auto simp: unat_of_nat)
qed

text \<open>Bytes after a complete varint do not change how it decodes.\<close>

lemma decode_varint_append:
  assumes "decode_varint data max_bytes = VOk v k" "max_bytes \<le> 9"
  shows "decode_varint (data @ more) max_bytes = VOk v k"
proof -
  let ?w = "takeWhile cont_byte data"
  from assms have "length ?w \<noteq> length data"
    by (auto simp: decode_varint_eq_spec decode_varint_spec_def Let_def split: if_splits)
  then have ne: "?w \<noteq> data" by (rule contrapos_nn) (rule arg_cong)
  then obtain x where "x \<in> set data" "\<not> cont_byte x"
    by (auto simp: takeWhile_eq_all_conv)
  then have "takeWhile cont_byte (data @ more) = ?w" by (rule takeWhile_append1)
  moreover have "length ?w < length data"
    using ne by (metis length_takeWhile_le nat_less_le take_all takeWhile_eq_take)
  ultimately show ?thesis
    using assms by (auto simp: decode_varint_eq_spec decode_varint_spec_def Let_def split: if_splits)
qed

lemma decode_varint_append_Overflow:
  assumes "decode_varint data max_bytes = VOverflow" "max_bytes \<le> 9"
  shows "decode_varint (data @ more) max_bytes = VOverflow"
proof -
  let ?w = "takeWhile cont_byte data"
  have le: "length ?w \<le> length (takeWhile cont_byte (data @ more))"
    by (auto simp: takeWhile_append intro: order_trans [OF length_takeWhile_le])
  show ?thesis
  proof (cases "max_bytes \<le> length ?w")
    case True
    with le assms show ?thesis by (simp add: decode_varint_eq_spec decode_varint_spec_def Let_def)
  next
    case False
    with assms have "length ?w \<noteq> length data"
      by (auto simp: decode_varint_eq_spec decode_varint_spec_def Let_def split: if_splits)
    then have ne: "?w \<noteq> data" by (rule contrapos_nn) (rule arg_cong)
    then obtain x where "x \<in> set data" "\<not> cont_byte x"
      by (auto simp: takeWhile_eq_all_conv)
    then have "takeWhile cont_byte (data @ more) = ?w" by (rule takeWhile_append1)
    moreover have "length ?w < length data"
      using ne by (metis length_takeWhile_le nat_less_le take_all takeWhile_eq_take)
    ultimately show ?thesis
      using assms by (simp add: decode_varint_eq_spec decode_varint_spec_def Let_def split: if_splits)
  qed
qed

section \<open>Properties\<close>

text \<open>
  a 32-bit value survives the varint codec: whatever bytes follow, decoding what \<^verbatim>\<open>append_varint\<close>
  wrote gives the value back and consumes exactly \<^verbatim>\<open>varint_size\<close> bytes, at most five.
\<close>

theorem varint_roundtrip:
  "decode_varint (append_varint [] v @ rest) max_varint_bytes = VOk v (varint_size v) \<and>
   length (append_varint out v) = length out + varint_size v \<and> varint_size v \<le> 5"
proof -
  have "unat v < 2 ^ 32" using unsigned_less [of v, where ?'a = nat] by simp
  moreover from this have "length (leb128 (unat v)) \<le> 5"
    by (intro length_leb128_le) simp_all
  ultimately show ?thesis
    by (simp add: append_varint_eq varint_size_eq max_varint_bytes_def decode_varint_leb128)
qed

text \<open>
  The decoder on every input, for every budget the code uses: it reports an overflow when the first
  \<open>max_bytes\<close> bytes all have the continuation bit or the value does not fit 32 bits, asks for more when
  the input ends inside a varint, and otherwise returns the base-128 value and its length.
\<close>

theorem decode_varint_characterised:
  assumes "max_bytes \<le> 9"
  shows "decode_varint data max_bytes = decode_varint_spec data max_bytes"
  by (rule decode_varint_eq_spec [OF assms])

theorem decode_varint_characterised_witness:
  "decode_varint [0xFF, 0xFF, 0xFF, 0xFF, 0x1F] 5 = VOverflow \<and> decode_varint [0x80, 0x01, 0x07] 4 = VOk 128 2"
  using decode_varint_characterised [of 5 "[0xFF, 0xFF, 0xFF, 0xFF, 0x1F]"]
    decode_varint_characterised [of 4 "[0x80, 0x01, 0x07]"]
  by (simp add: decode_varint_spec_def Let_def)

end
