(* ===== verification/Wire.thy ===== *)
theory Wire
  imports Varint
begin

text \<open>
  The protobuf wire primitives of \<^verbatim>\<open>proto/wire.hpp\<close>: ZigZag, the size helpers, \<^verbatim>\<open>ProtoWriter\<close> (which
  appends to a buffer) and \<^verbatim>\<open>ProtoReader\<close> (a cursor over a byte range with a latched error flag).
  A reader is the bytes from its cursor to its end together with that flag, so a read past the end
  is not expressible and the cursor only moves forward.
\<close>

section \<open>ZigZag and sizes\<close>

text \<open>Signed integers are two's-complement words; \<open>v >> 31\<close> on a signed value is arithmetic.\<close>

definition zigzag_encode32 :: "u32 \<Rightarrow> u32" where
  "zigzag_encode32 v = push_bit 1 v XOR signed_drop_bit 31 v"

definition zigzag_decode32 :: "u32 \<Rightarrow> u32" where
  "zigzag_decode32 v = drop_bit 1 v XOR (NOT (v AND 1) + 1)"

definition zigzag_encode64 :: "u64 \<Rightarrow> u64" where
  "zigzag_encode64 v = push_bit 1 v XOR signed_drop_bit 63 v"

definition zigzag_decode64 :: "u64 \<Rightarrow> u64" where
  "zigzag_decode64 v = drop_bit 1 v XOR (NOT (v AND 1) + 1)"

function varint_size64_loop :: "u64 \<Rightarrow> nat \<Rightarrow> nat" where
  "varint_size64_loop v n = (if v \<ge> 0x80 then varint_size64_loop (drop_bit 7 v) (n + 1) else n)"
  by pat_completeness auto
termination
  by (relation "measure (\<lambda>(v, n). unat v)") (auto simp: unat_drop_bit_word word_le_nat_alt)

declare varint_size64_loop.simps [simp del]

definition varint_size64 :: "u64 \<Rightarrow> nat" where
  "varint_size64 v = varint_size64_loop v 1"

definition tag_size :: "u32 \<Rightarrow> nat" where
  "tag_size field_number = varint_size64 (push_bit 3 (ucast field_number))"

section \<open>ProtoWriter\<close>

datatype wire_type = WVarint | WFixed64 | WLengthDelimited | WFixed32

fun wire_type_num :: "wire_type \<Rightarrow> u64" where
  "wire_type_num WVarint = 0"
| "wire_type_num WFixed64 = 1"
| "wire_type_num WLengthDelimited = 2"
| "wire_type_num WFixed32 = 5"

function w_varint :: "u64 \<Rightarrow> bytes \<Rightarrow> bytes" where
  "w_varint v out =
     (if v \<ge> 0x80 then w_varint (drop_bit 7 v) (out @ [ucast v OR 0x80])
      else out @ [ucast v])"
  by pat_completeness auto
termination
  by (relation "measure (\<lambda>(v, out). unat v)") (auto simp: unat_drop_bit_word word_le_nat_alt)

declare w_varint.simps [simp del]

definition w_tag :: "u32 \<Rightarrow> wire_type \<Rightarrow> bytes \<Rightarrow> bytes" where
  "w_tag field_number wt = w_varint (push_bit 3 (ucast field_number) OR wire_type_num wt)"

definition w_fixed32 :: "u32 \<Rightarrow> bytes \<Rightarrow> bytes" where
  "w_fixed32 v out = out @ map (\<lambda>i. ucast (drop_bit (8 * i) v)) [0..<4]"

definition w_fixed64 :: "u64 \<Rightarrow> bytes \<Rightarrow> bytes" where
  "w_fixed64 v out = out @ map (\<lambda>i. ucast (drop_bit (8 * i) v)) [0..<8]"

definition w_length_delimited :: "bytes \<Rightarrow> bytes \<Rightarrow> bytes" where
  "w_length_delimited s out = w_varint (of_nat (length s)) out @ s"

section \<open>ProtoReader\<close>

record reader =
  rd_rest :: bytes
  rd_ok :: bool

definition mk_reader :: "bytes \<Rightarrow> reader" where
  "mk_reader data = \<lparr>rd_rest = data, rd_ok = True\<rparr>"

definition rd_fail :: "reader \<Rightarrow> reader" where
  "rd_fail r = r\<lparr>rd_ok := False\<rparr>"

definition rd_eof :: "reader \<Rightarrow> bool" where
  "rd_eof r = (rd_rest r = [])"

fun r_varint_loop :: "bytes \<Rightarrow> nat \<Rightarrow> u64 \<Rightarrow> u64 option \<times> bytes" where
  "r_varint_loop [] shift result = (None, [])"
| "r_varint_loop (b # bs) shift result =
     (if shift < 64
      then let result' = result OR push_bit shift (ucast (b AND 0x7F))
           in if b AND 0x80 = 0 then (Some result', bs)
              else r_varint_loop bs (shift + 7) result'
      else (None, b # bs))"

definition r_varint :: "reader \<Rightarrow> u64 option \<times> reader" where
  "r_varint r =
     (case r_varint_loop (rd_rest r) 0 0 of
        (None, rest) \<Rightarrow> (None, rd_fail (r\<lparr>rd_rest := rest\<rparr>))
      | (Some v, rest) \<Rightarrow> (Some v, r\<lparr>rd_rest := rest\<rparr>))"

text \<open>
  \<^verbatim>\<open>static_cast<WireType>(key & 7)\<close> can produce a value that is none of the four enumerators;
  \<^verbatim>\<open>None\<close> stands for those.  The result is \<open>None\<close> at the end of the input or on an error, which
  \<open>rd_ok\<close> tells apart.
\<close>

definition wire_type_of_num :: "u64 \<Rightarrow> wire_type option" where
  "wire_type_of_num k =
     (if k = 0 then Some WVarint else if k = 1 then Some WFixed64
      else if k = 2 then Some WLengthDelimited else if k = 5 then Some WFixed32 else None)"

definition read_tag :: "reader \<Rightarrow> (u32 \<times> wire_type option) option \<times> reader" where
  "read_tag r =
     (if rd_eof r then (None, r)
      else case r_varint r of
        (None, r') \<Rightarrow> (None, r')
      | (Some key, r') \<Rightarrow> (Some (ucast (drop_bit 3 key), wire_type_of_num (key AND 7)), r'))"

definition r_fixed32 :: "reader \<Rightarrow> u32 option \<times> reader" where
  "r_fixed32 r =
     (if length (rd_rest r) < 4 then (None, rd_fail r)
      else let p = rd_rest r;
               v = (((0 OR ucast (p ! 0)) OR push_bit 8 (ucast (p ! 1)))
                      OR push_bit 16 (ucast (p ! 2))) OR push_bit 24 (ucast (p ! 3))
           in (Some v, r\<lparr>rd_rest := drop 4 p\<rparr>))"

definition r_fixed64 :: "reader \<Rightarrow> u64 option \<times> reader" where
  "r_fixed64 r =
     (if length (rd_rest r) < 8 then (None, rd_fail r)
      else let p = rd_rest r;
               v = foldl (\<lambda>v i. v OR push_bit (8 * i) (ucast (p ! i))) 0 [0..<8]
           in (Some v, r\<lparr>rd_rest := drop 8 p\<rparr>))"

definition r_length_delimited :: "reader \<Rightarrow> bytes option \<times> reader" where
  "r_length_delimited r =
     (case r_varint r of
        (None, r') \<Rightarrow> (None, r')
      | (Some len, r') \<Rightarrow>
          if length (rd_rest r') < unat len then (None, rd_fail r')
          else (Some (take (unat len) (rd_rest r')), r'\<lparr>rd_rest := drop (unat len) (rd_rest r')\<rparr>))"

definition r_sub_reader :: "reader \<Rightarrow> reader option \<times> reader" where
  "r_sub_reader r =
     (case r_varint r of
        (None, r') \<Rightarrow> (None, r')
      | (Some len, r') \<Rightarrow>
          if length (rd_rest r') < unat len then (None, rd_fail r')
          else (Some (mk_reader (take (unat len) (rd_rest r'))),
                r'\<lparr>rd_rest := drop (unat len) (rd_rest r')\<rparr>))"

definition skip_field :: "wire_type option \<Rightarrow> reader \<Rightarrow> bool \<times> reader" where
  "skip_field wt r =
     (case wt of
        Some WVarint \<Rightarrow> (case r_varint r of (v, r') \<Rightarrow> (v \<noteq> None, r'))
      | Some WFixed64 \<Rightarrow> (case r_fixed64 r of (v, r') \<Rightarrow> (v \<noteq> None, r'))
      | Some WFixed32 \<Rightarrow> (case r_fixed32 r of (v, r') \<Rightarrow> (v \<noteq> None, r'))
      | Some WLengthDelimited \<Rightarrow>
          (case r_varint r of
             (None, r') \<Rightarrow> (False, r')
           | (Some len, r') \<Rightarrow>
               if length (rd_rest r') < unat len then (False, rd_fail r')
               else (True, r'\<lparr>rd_rest := drop (unat len) (rd_rest r')\<rparr>))
      | None \<Rightarrow> (False, rd_fail r))"

section \<open>ZigZag is a bijection that maps small magnitudes to small numbers\<close>

lemma minus_and_1: "NOT (v AND 1) + 1 = (if bit v 0 then - 1 else 0)" for v :: "'a::len word"
proof -
  have "v AND 1 = (if bit v 0 then 1 else 0)"
    by (simp add: and_one_eq bit_0 mod2_eq_if)
  then show ?thesis by (simp add: minus_eq_not_plus_1 [symmetric])
qed

lemma zigzag_bits:
  "bit (push_bit 1 v XOR signed_drop_bit (LENGTH('a) - 1) v) n \<longleftrightarrow>
     n < LENGTH('a) \<and> ((0 < n \<and> bit v (n - 1)) \<noteq> bit v (LENGTH('a) - 1))"
  for v :: "'a::len word"
  unfolding bit_xor_iff bit_push_bit_iff bit_signed_drop_bit_iff
  by (auto simp: bit_simps Suc_le_eq not_less dest: bit_imp_le_length)

lemma unzigzag_zigzag_bits:
  fixes v :: "'a::len word"
  defines "z \<equiv> push_bit 1 v XOR signed_drop_bit (LENGTH('a) - 1) v"
  shows "drop_bit 1 z XOR (NOT (z AND 1) + 1) = v"
proof (rule bit_word_eqI)
  fix n assume n: "n < LENGTH('a)"
  have z: "bit z k \<longleftrightarrow> k < LENGTH('a) \<and> ((0 < k \<and> bit v (k - 1)) \<noteq> bit v (LENGTH('a) - 1))" for k
    unfolding z_def by (rule zigzag_bits)
  have "bit z 0 = bit v (LENGTH('a) - 1)" by (simp add: z)
  moreover have "bit (drop_bit 1 z) n = (Suc n < LENGTH('a) \<and> bit v n \<noteq> bit v (LENGTH('a) - 1))"
    by (auto simp: bit_simps z)
  ultimately show "bit (drop_bit 1 z XOR (NOT (z AND 1) + 1)) n = bit v n"
    unfolding minus_and_1 bit_xor_iff using n
    by (cases "LENGTH('a) = Suc n") (auto simp: bit_simps)
qed

lemma zigzag_unzigzag_bits:
  fixes z :: "'a::len word"
  defines "v \<equiv> drop_bit 1 z XOR (NOT (z AND 1) + 1)"
  shows "push_bit 1 v XOR signed_drop_bit (LENGTH('a) - 1) v = z"
proof (rule bit_word_eqI)
  fix n assume n: "n < LENGTH('a)"
  have v: "bit v k = (k < LENGTH('a) \<and> (bit z (Suc k) \<noteq> bit z 0))" for k
    unfolding v_def minus_and_1 bit_xor_iff by (auto simp: bit_simps dest: bit_imp_le_length)
  have "bit v (LENGTH('a) - 1) = bit z 0"
    by (auto simp: v dest: bit_imp_le_length)
  then show "bit (push_bit 1 v XOR signed_drop_bit (LENGTH('a) - 1) v) n = bit z n"
    using n unfolding zigzag_bits by (cases n) (auto simp: v)
qed

lemma zigzag32_roundtrip: "zigzag_decode32 (zigzag_encode32 v) = v"
  using unzigzag_zigzag_bits [of v] by (simp add: zigzag_decode32_def zigzag_encode32_def)

lemma zigzag32_roundtrip': "zigzag_encode32 (zigzag_decode32 z) = z"
  using zigzag_unzigzag_bits [of z] by (simp add: zigzag_decode32_def zigzag_encode32_def)

lemma zigzag64_roundtrip: "zigzag_decode64 (zigzag_encode64 v) = v"
  using unzigzag_zigzag_bits [of v] by (simp add: zigzag_decode64_def zigzag_encode64_def)

lemma zigzag64_roundtrip': "zigzag_encode64 (zigzag_decode64 z) = z"
  using zigzag_unzigzag_bits [of z] by (simp add: zigzag_decode64_def zigzag_encode64_def)

section \<open>Varints on the wire\<close>

lemma varint_size64_loop_eq: "Suc (varint_size64_loop v n) = n + length (leb128 (unat v))"
proof (induction v n rule: varint_size64_loop.induct)
  case (1 v n)
  then show ?case
    by (subst varint_size64_loop.simps, subst leb128.simps)
      (auto simp: unat_drop_bit_word word_le_nat_alt)
qed

lemma varint_size64_eq [codec_simps]: "varint_size64 v = length (leb128 (unat v))"
  using varint_size64_loop_eq [of v 1] by (simp add: varint_size64_def)

lemma w_varint_eq [codec_simps]: "w_varint v out = out @ leb128 (unat v)"
proof (induction v out rule: w_varint.induct)
  case (1 v out)
  show ?case
  proof (cases "v \<ge> 0x80")
    case True
    with 1 have "w_varint v out = out @ (ucast v OR 0x80) # leb128 (unat v div 128)"
      by (subst w_varint.simps) (simp add: unat_drop_bit_word)
    with True show ?thesis
      by (subst leb128.simps) (simp add: ucast_or_80 word_le_nat_alt)
  next
    case False
    then have lt: "unat v < 128" by (simp add: word_le_nat_alt)
    have "w_varint v out = out @ [ucast v]"
      using False by (subst w_varint.simps) simp
    moreover have "leb128 (unat v) = [ucast v]"
      using lt by (subst leb128.simps) (simp only: if_True ucast_small [OF lt])
    ultimately show ?thesis by (simp only:)
  qed
qed

lemma length_leb128_u64: "length (leb128 (unat (v :: u64))) \<le> 10"
  by (rule length_leb128_le) (use unat_u64_lt [of v] in simp_all)

lemma r_varint_step:
  fixes result :: u64 and b :: byte
  assumes "unat result < 128 ^ i" "i \<le> 9"
  shows "result OR push_bit (7 * i) (ucast (b AND 0x7F)) = of_nat (unat result + (unat b mod 128) * 128 ^ i)"
proof (rule unsigned_word_eqI [where ?'a = nat])
  have p: "(2::nat) ^ (7 * i) = 128 ^ i" by (simp add: power_mult)
  have u: "unat (ucast (b AND 0x7F) :: u64) = unat b mod 128"
    unfolding unat_ucast_word unat_and_7f by (simp add: less_imp_le_nat order.strict_trans2)
  show "unat (result OR push_bit (7 * i) (ucast (b AND 0x7F))) =
      unat (of_nat (unat result + (unat b mod 128) * 128 ^ i) :: u64)"
    unfolding unat_of_nat
    using unat_or_push_bit_mod [of result "7 * i" "ucast (b AND 0x7F)"] assms
    by (simp add: p u)
qed

lemma r_varint_loop_spec:
  assumes "i \<le> 10" and "i \<le> 9 \<longrightarrow> unat result < 128 ^ i"
  shows "r_varint_loop data (7 * i) result =
     (let k = length (takeWhile cont_byte data)
      in if k < length data \<and> i + k < 10
         then (Some (of_nat (unat result + 128 ^ i * leb128_value (take (Suc k) data))), drop (Suc k) data)
         else (None, drop (10 - i) data))"
  using assms
proof (induction data arbitrary: i result)
  case Nil
  then show ?case by simp
next
  case (Cons b bs)
  show ?case
  proof (cases "i = 10")
    case True
    then show ?thesis by simp
  next
    case False
    with Cons.prems have i: "i \<le> 9" and lt: "unat result < 128 ^ i" by auto
    define s where "s = unat result + (unat b mod 128) * 128 ^ i"
    have step: "result OR push_bit (7 * i) (ucast (b AND 0x7F)) = of_nat s"
      unfolding s_def by (rule r_varint_step [OF lt i])
    have "10 - i = Suc (9 - i)" using i by simp
    then have d: "drop (10 - i) (b # bs) = drop (9 - i) bs" by simp
    have "unat b mod 128 \<le> 127" by (simp flip: less_Suc_eq_le)
    then have "(unat b mod 128) * 128 ^ i \<le> 127 * 128 ^ i" by (rule mult_le_mono1)
    with lt have s_lt: "s < 128 ^ Suc i" unfolding s_def power_Suc by linarith
    show ?thesis
    proof (cases "cont_byte b")
      case cb: True
      have sh: "7 * i + 7 = 7 * Suc i" by simp
      have us: "Suc i \<le> 9 \<Longrightarrow> unat (of_nat s :: u64) = s"
        using s_lt power_increasing [of "Suc i" 9 "128::nat"] by (auto simp: unat_of_nat)
      have "r_varint_loop (b # bs) (7 * i) result = r_varint_loop bs (7 * Suc i) (of_nat s)"
        using cb i by (simp only: r_varint_loop.simps Let_def step sh) simp
      also note Cons.IH [of "Suc i" "of_nat s"]
      finally show ?thesis
        using i cb s_lt us
        by (cases "Suc i \<le> 9") (auto simp: Let_def d s_def algebra_simps)
    next
      case cb: False
      then show ?thesis
        using i by (simp add: Let_def step s_def mult.commute [of "unat b mod 128" "128 ^ i"])
    qed
  qed
qed

lemma r_varint_spec:
  "r_varint r =
     (let k = length (takeWhile cont_byte (rd_rest r))
      in if k < length (rd_rest r) \<and> k < 10
         then (Some (of_nat (leb128_value (take (Suc k) (rd_rest r)))),
               r\<lparr>rd_rest := drop (Suc k) (rd_rest r)\<rparr>)
         else (None, r\<lparr>rd_rest := drop 10 (rd_rest r), rd_ok := False\<rparr>))"
  using r_varint_loop_spec [of 0 0 "rd_rest r"]
  by (auto simp: r_varint_def rd_fail_def Let_def)

lemma r_varint_leb128 [codec_simps]:
  "rd_rest r = leb128 (unat v) @ rest \<Longrightarrow> r_varint r = (Some v, r\<lparr>rd_rest := rest\<rparr>)"
proof -
  assume r: "rd_rest r = leb128 (unat v) @ rest"
  have "Suc (length (butlast (leb128 (unat v)))) = length (leb128 (unat v))"
    by (metis append_butlast_last_id length_append_singleton leb128_nonempty)
  then obtain m where "length (leb128 (unat v)) = Suc m" "length (butlast (leb128 (unat v))) = m" by auto
  then show ?thesis
    using length_leb128_u64 [of v]
    by (simp add: r r_varint_spec takeWhile_leb128 Let_def del: length_butlast)
qed

section \<open>Fixed-width fields\<close>

definition le_bytes :: "nat \<Rightarrow> 'a::len word \<Rightarrow> bytes" where
  "le_bytes n v = map (\<lambda>i. ucast (drop_bit (8 * i) v)) [0..<n]"

lemma length_le_bytes [simp]: "length (le_bytes n v) = n"
  by (simp add: le_bytes_def)

lemma le_bytes_read:
  fixes v :: "'a::len word"
  assumes "8 * n = LENGTH('a)"
  shows "foldl (\<lambda>acc i. acc OR push_bit (8 * i) (ucast (le_bytes n v ! i))) 0 [0..<n] = v"
proof -
  have step: "foldl (\<lambda>acc i. acc OR push_bit (8 * i) (ucast (le_bytes n v ! i))) 0 [0..<m] = take_bit (8 * m) v"
    if "m \<le> n" for m
    using that
  proof (induction m)
    case (Suc m)
    have "le_bytes n v ! m = ucast (drop_bit (8 * m) v)"
      using Suc.prems by (simp add: le_bytes_def)
    then have "take_bit (8 * m) v OR push_bit (8 * m) (ucast (le_bytes n v ! m)) = take_bit (8 * Suc m) v"
      by (intro bit_word_eqI) (auto simp: bit_simps not_less)
    with Suc show ?case by simp
  qed simp
  from step [of n] assms show ?thesis by simp
qed

lemma w_fixed32_eq [codec_simps]: "w_fixed32 v out = out @ le_bytes 4 v"
  by (simp add: w_fixed32_def le_bytes_def)

lemma w_fixed64_eq [codec_simps]: "w_fixed64 v out = out @ le_bytes 8 v"
  by (simp add: w_fixed64_def le_bytes_def)

lemma r_fixed32_le_bytes [codec_simps]:
  "rd_rest r = le_bytes 4 v @ rest \<Longrightarrow> r_fixed32 r = (Some v, r\<lparr>rd_rest := rest\<rparr>)"
  using le_bytes_read [of 4 v]
  by (simp add: r_fixed32_def Let_def nth_append upt_rec numeral_eq_Suc)

lemma r_fixed64_le_bytes [codec_simps]:
  assumes "rd_rest r = le_bytes 8 v @ rest"
  shows "r_fixed64 r = (Some v, r\<lparr>rd_rest := rest\<rparr>)"
proof -
  have "foldl (\<lambda>acc i. acc OR push_bit (8 * i) (ucast (rd_rest r ! i))) (0 :: u64) [0..<8] =
      foldl (\<lambda>acc i. acc OR push_bit (8 * i) (ucast (le_bytes 8 v ! i))) 0 [0..<8]"
    by (rule foldl_cong) (simp_all add: assms nth_append)
  then show ?thesis using le_bytes_read [of 8 v] assms by (simp add: r_fixed64_def Let_def)
qed

section \<open>Length-delimited fields\<close>

lemma w_length_delimited_eq [codec_simps]:
  "length s < 2 ^ 64 \<Longrightarrow> w_length_delimited s out = out @ leb128 (length s) @ s"
  by (simp add: w_length_delimited_def w_varint_eq unat_of_nat)

lemma r_length_delimited_eq [codec_simps]:
  "rd_rest r = leb128 (length s) @ s @ rest \<Longrightarrow> length s < 2 ^ 64 \<Longrightarrow>
   r_length_delimited r = (Some s, r\<lparr>rd_rest := rest\<rparr>)"
  using r_varint_leb128 [of r "of_nat (length s)" "s @ rest"]
  by (simp add: r_length_delimited_def unat_of_nat)

lemma r_sub_reader_eq [codec_simps]:
  "rd_rest r = leb128 (length s) @ s @ rest \<Longrightarrow> length s < 2 ^ 64 \<Longrightarrow>
   r_sub_reader r = (Some (mk_reader s), r\<lparr>rd_rest := rest\<rparr>)"
  using r_varint_leb128 [of r "of_nat (length s)" "s @ rest"]
  by (simp add: r_sub_reader_def unat_of_nat)

section \<open>Tags\<close>

lemma tag_key:
  "unat (push_bit 3 (ucast f) OR wire_type_num wt :: u64) = 8 * unat (f :: u32) + unat (wire_type_num wt)"
proof -
  have "unat (ucast f :: u64) = unat f"
    using unat_u32_lt [of f] by (simp add: unat_ucast_word)
  moreover have "unat (wire_type_num wt) < 2 ^ 3" by (cases wt) simp_all
  ultimately have "unat (wire_type_num wt OR push_bit 3 (ucast f)) = unat (wire_type_num wt) + unat f * 2 ^ 3"
    using unat_or_push_bit [of "wire_type_num wt" 3 "ucast f"] unat_u32_lt [of f] by simp
  then show ?thesis by (simp add: or.commute)
qed

lemma tag_decode:
  fixes f :: u32 and wt :: wire_type
  defines "key \<equiv> push_bit 3 (ucast f) OR wire_type_num wt :: u64"
  shows "ucast (drop_bit 3 key) = f" "wire_type_of_num (key AND 7) = Some wt"
proof -
  have lt: "unat (wire_type_num wt) < 8" by (cases wt) simp_all
  have k: "unat key = 8 * unat f + unat (wire_type_num wt)" unfolding key_def by (rule tag_key)
  have "unat (ucast (drop_bit 3 key) :: u32) = unat f"
    unfolding unat_ucast_word unat_drop_bit_word k using lt unat_u32_lt [of f] by simp
  then show "ucast (drop_bit 3 key) = f" by (simp add: word_unat_eq_iff)
  have "key AND 7 = take_bit 3 key" by (simp add: take_bit_eq_mask mask_eq_exp_minus_1)
  then have "unat (key AND 7) = unat (wire_type_num wt)"
    using lt by (simp only: unat_take_bit_word k) simp
  then have "key AND 7 = wire_type_num wt" by (simp add: word_unat_eq_iff)
  then show "wire_type_of_num (key AND 7) = Some wt"
    by (cases wt) (simp_all add: wire_type_of_num_def)
qed

definition tag_bytes :: "u32 \<Rightarrow> wire_type \<Rightarrow> bytes" where
  "tag_bytes f wt = leb128 (8 * unat f + unat (wire_type_num wt))"

lemma w_tag_eq [codec_simps]: "w_tag f wt out = out @ tag_bytes f wt"
  by (simp add: w_tag_def w_varint_eq tag_key tag_bytes_def)

lemma tag_bytes_nonempty [simp]: "tag_bytes f wt \<noteq> []"
  by (simp add: tag_bytes_def)

lemma read_tag_eq [codec_simps]:
  assumes "rd_rest r = tag_bytes f wt @ rest"
  shows "read_tag r = (Some (f, Some wt), r\<lparr>rd_rest := rest\<rparr>)"
proof -
  have "r_varint r = (Some (push_bit 3 (ucast f) OR wire_type_num wt), r\<lparr>rd_rest := rest\<rparr>)"
    by (rule r_varint_leb128) (simp only: assms tag_bytes_def tag_key)
  with assms show ?thesis
    using tag_decode [of f wt] by (simp add: read_tag_def rd_eof_def)
qed

text \<open>The wire type fills the low three bits and never changes the size of a tag.\<close>

lemma length_leb128_low_bits: "t < 8 \<Longrightarrow> length (leb128 (8 * f + t)) = length (leb128 (8 * f))"
proof -
  assume t: "t < 8"
  have div128: "x div 128 = x div 8 div 16" for x :: nat
    using div_mult2_eq [of x 8 16] by simp
  have eq: "(8 * f + t) div 128 = 8 * f div 128" using t by (simp add: div128)
  moreover have "(8 * f + t < 128) = (8 * f < 128)"
  proof -
    have "(x < 128) = (x div 128 = 0)" for x :: nat by (simp add: div_eq_0_iff)
    then show ?thesis by (simp only: eq)
  qed
  ultimately show ?thesis by (subst (1 2) leb128.simps) simp
qed

lemma tag_size_eq [codec_simps]: "tag_size f = length (tag_bytes f wt)"
proof -
  have "unat (wire_type_num wt) < 8" by (cases wt) simp_all
  then show ?thesis
    using tag_key [of f WVarint]
    by (simp add: tag_size_def varint_size64_eq tag_bytes_def length_leb128_low_bits)
qed

lemma skip_blob:
  assumes "length s < 2 ^ 64"
  shows "skip_field (Some WLengthDelimited) (mk_reader (w_length_delimited s [] @ rest)) = (True, mk_reader rest)"
proof -
  let ?r = "mk_reader (w_length_delimited s [] @ rest)"
  have u: "unat (of_nat (length s) :: u64) = length s" using assms by (simp add: unat_of_nat)
  have "r_varint ?r = (Some (of_nat (length s)), ?r\<lparr>rd_rest := s @ rest\<rparr>)"
    by (rule r_varint_leb128) (simp add: mk_reader_def w_length_delimited_eq [OF assms] u)
  then show ?thesis
    unfolding skip_field_def by (simp add: u) (simp add: mk_reader_def)
qed

section \<open>The codecs as prefix codecs\<close>

definition of_reader :: "(reader \<Rightarrow> 'a option \<times> reader) \<Rightarrow> bytes \<Rightarrow> ('a \<times> bytes) option" where
  "of_reader f bs = (case f (mk_reader bs) of (Some x, r) \<Rightarrow> Some (x, rd_rest r) | (None, r) \<Rightarrow> None)"

interpretation varint64: prefix_codec "\<lambda>v. w_varint v []" "of_reader r_varint" "\<lambda>_. True"
  by unfold_locales (simp_all add: of_reader_def mk_reader_def codec_simps)

interpretation fixed32: prefix_codec "\<lambda>v. w_fixed32 v []" "of_reader r_fixed32" "\<lambda>_. True"
  by unfold_locales (simp_all add: of_reader_def mk_reader_def codec_simps le_bytes_def upt_rec)

interpretation fixed64: prefix_codec "\<lambda>v. w_fixed64 v []" "of_reader r_fixed64" "\<lambda>_. True"
  by unfold_locales (simp_all add: of_reader_def mk_reader_def codec_simps le_bytes_def upt_rec)

interpretation blob: prefix_codec "\<lambda>s. w_length_delimited s []" "of_reader r_length_delimited"
    "\<lambda>s. length s < 2 ^ 64"
  by unfold_locales
    (simp_all add: of_reader_def mk_reader_def w_length_delimited_def w_varint_eq r_length_delimited_eq unat_of_nat)

section \<open>Readers stay inside their range and move forward\<close>

definition advances :: "reader \<Rightarrow> reader \<Rightarrow> bool" where
  "advances r r' \<longleftrightarrow> suffix (rd_rest r') (rd_rest r)"

lemma advances_refl [simp]: "advances r r" "advances r (rd_fail r)"
  by (simp_all add: advances_def rd_fail_def)

lemma r_varint_advances:
  "r_varint r = (v, r') \<Longrightarrow> advances r r' \<and> (v \<noteq> None \<longrightarrow> length (rd_rest r') < length (rd_rest r))"
  by (auto simp: r_varint_spec advances_def Let_def suffix_drop split: if_splits)

lemma r_fixed32_advances:
  "r_fixed32 r = (v, r') \<Longrightarrow> advances r r' \<and> (v \<noteq> None \<longrightarrow> length (rd_rest r') < length (rd_rest r))"
  by (auto simp: r_fixed32_def advances_def rd_fail_def Let_def suffix_drop split: if_splits)

lemma r_fixed64_advances:
  "r_fixed64 r = (v, r') \<Longrightarrow> advances r r' \<and> (v \<noteq> None \<longrightarrow> length (rd_rest r') < length (rd_rest r))"
  by (auto simp: r_fixed64_def advances_def rd_fail_def Let_def suffix_drop split: if_splits)

lemma suffix_drop_trans: "suffix xs ys \<Longrightarrow> suffix (drop n xs) ys"
  by (meson suffix_drop suffix_order.trans)

lemma r_length_delimited_advances:
  "r_length_delimited r = (v, r') \<Longrightarrow> advances r r' \<and> (v \<noteq> None \<longrightarrow> length (rd_rest r') < length (rd_rest r))"
  using r_varint_advances [of r]
  by (cases "r_varint r")
    (auto simp: r_length_delimited_def advances_def rd_fail_def suffix_drop_trans split: option.splits if_splits)

lemma r_sub_reader_advances:
  "r_sub_reader r = (v, r') \<Longrightarrow> advances r r' \<and> (v \<noteq> None \<longrightarrow> length (rd_rest r') < length (rd_rest r))"
  using r_varint_advances [of r]
  by (cases "r_varint r")
    (auto simp: r_sub_reader_def advances_def rd_fail_def suffix_drop_trans split: option.splits if_splits)

lemma skip_field_advances:
  "skip_field wt r = (b, r') \<Longrightarrow> advances r r' \<and> (b \<longrightarrow> length (rd_rest r') < length (rd_rest r))"
  using r_varint_advances [of r] r_fixed32_advances [of r] r_fixed64_advances [of r]
  by (cases wt; cases "the wt"; cases "r_varint r"; cases "r_fixed32 r"; cases "r_fixed64 r")
    (auto simp: skip_field_def advances_def rd_fail_def suffix_drop_trans split: option.splits if_splits)

lemma read_tag_advances:
  "read_tag r = (v, r') \<Longrightarrow> advances r r' \<and> (v \<noteq> None \<longrightarrow> length (rd_rest r') < length (rd_rest r))"
  using r_varint_advances [of r]
  by (cases "r_varint r") (auto simp: read_tag_def split: option.splits if_splits)

lemmas reader_advances = r_varint_advances r_fixed32_advances r_fixed64_advances
  r_length_delimited_advances r_sub_reader_advances skip_field_advances read_tag_advances

section \<open>Properties\<close>

text \<open>
  The ZigZag maps are mutually inverse bijections on 32- and 64-bit words, negative numbers and the
  extremes included.
\<close>

theorem zigzag_bijective:
  "zigzag_decode32 (zigzag_encode32 a) = a \<and> zigzag_encode32 (zigzag_decode32 a) = a \<and>
   zigzag_decode64 (zigzag_encode64 b) = b \<and> zigzag_encode64 (zigzag_decode64 b) = b"
  by (simp add: zigzag32_roundtrip zigzag32_roundtrip' zigzag64_roundtrip zigzag64_roundtrip')

text \<open>
  \<^verbatim>\<open>ProtoReader\<close> inverts \<^verbatim>\<open>ProtoWriter\<close>: a field key, a varint, a fixed32 and a fixed64 are read back
  exactly and the cursor stands on the byte after them; the size helpers agree with what is written.
\<close>

theorem reader_inverts_writer:
  "read_tag (mk_reader (w_tag f wt [] @ rest)) = (Some (f, Some wt), mk_reader rest) \<and>
   r_varint (mk_reader (w_varint v [] @ rest)) = (Some v, mk_reader rest) \<and>
   r_fixed32 (mk_reader (w_fixed32 a [] @ rest)) = (Some a, mk_reader rest) \<and>
   r_fixed64 (mk_reader (w_fixed64 b [] @ rest)) = (Some b, mk_reader rest) \<and>
   tag_size f = length (w_tag f wt []) \<and> varint_size64 v = length (w_varint v [])"
proof -
  have "tag_size f = length (w_tag f wt [])"
    by (simp add: w_tag_eq tag_size_eq [of f wt])
  moreover have "read_tag (mk_reader (w_tag f wt [] @ rest)) = (Some (f, Some wt), mk_reader rest)"
    by (simp add: w_tag_eq read_tag_eq mk_reader_def)
  ultimately show ?thesis
    by (simp add: mk_reader_def w_varint_eq r_varint_leb128 w_fixed32_eq r_fixed32_le_bytes
        w_fixed64_eq r_fixed64_le_bytes varint_size64_eq)
qed

text \<open>
  A length-delimited field is read back whole by \<^verbatim>\<open>length_delimited\<close>, as a nested reader by
  \<^verbatim>\<open>sub_reader\<close>, and passed over by \<^verbatim>\<open>skip\<close>; all three leave the cursor right after it.
\<close>

theorem length_delimited_roundtrip:
  assumes "length s < 2 ^ 64"
  shows "r_length_delimited (mk_reader (w_length_delimited s [] @ rest)) = (Some s, mk_reader rest) \<and>
     r_sub_reader (mk_reader (w_length_delimited s [] @ rest)) = (Some (mk_reader s), mk_reader rest) \<and>
     skip_field (Some WLengthDelimited) (mk_reader (w_length_delimited s [] @ rest)) = (True, mk_reader rest)"
proof -
  let ?r = "mk_reader (w_length_delimited s [] @ rest)"
  have r: "rd_rest ?r = leb128 (length s) @ s @ rest"
    using assms by (simp add: mk_reader_def w_length_delimited_eq)
  show ?thesis
    using r_length_delimited_eq [OF r assms] r_sub_reader_eq [OF r assms] skip_blob [OF assms] by (simp add: mk_reader_def)
qed

theorem length_delimited_roundtrip_witness:
  "length [0xAA, 0xBB :: byte] < 2 ^ 64 \<and>
   r_length_delimited (mk_reader (w_length_delimited [0xAA, 0xBB] [] @ [0x01])) = (Some [0xAA, 0xBB], mk_reader [0x01])"
  using length_delimited_roundtrip [of "[0xAA, 0xBB]" "[0x01]"] by simp

text \<open>
  No reader operation moves backwards or past the end, on any input and any wire type: what remains
  is a suffix of what there was, and a successful read of a key or skip of a field consumes at least one
  byte, so a decoding loop over \<^verbatim>\<open>read_tag\<close> and \<^verbatim>\<open>skip\<close> ends.
\<close>

theorem reader_monotone:
  "(case read_tag r of (v, r') \<Rightarrow> suffix (rd_rest r') (rd_rest r) \<and>
      (v = None \<or> length (rd_rest r') < length (rd_rest r))) \<and>
   (case skip_field wt r of (b, r') \<Rightarrow> suffix (rd_rest r') (rd_rest r) \<and>
      (b = False \<or> length (rd_rest r') < length (rd_rest r)))"
proof -
  obtain v r1 where 1: "read_tag r = (v, r1)" by fastforce
  obtain b r2 where 2: "skip_field wt r = (b, r2)" by fastforce
  show ?thesis
    using read_tag_advances [OF 1] skip_field_advances [OF 2] by (cases v) (auto simp: advances_def 1 2)
qed

end
