(* ===== verification/Proto_Model.thy ===== *)
theory Proto_Model
  imports ESP_Prelude
begin

text \<open>
  The data model of the code generator \<^verbatim>\<open>tools/protogen\<close> (\<^verbatim>\<open>model.hpp\<close>) with the type helpers of
  \<^verbatim>\<open>parser.cpp\<close> and \<^verbatim>\<open>emit_messages.cpp\<close> that classify a field: its scalar type, wire category and packing.
  A C++ \<^verbatim>\<open>int\<close> or \<^verbatim>\<open>std::int64_t\<close> of the generator is an integer.
\<close>

datatype field_type =
    FDouble | FFloat | FInt32 | FInt64 | FUint32 | FUint64 | FSint32 | FSint64
  | FFixed32 | FFixed64 | FSfixed32 | FSfixed64 | FBool | FString | FBytes | FEnum | FMessage

record proto_field =
  f_name :: string
  f_type_name :: string
  f_type :: field_type
  f_number :: int
  f_repeated :: bool
  f_packed_explicit :: bool
  f_packed_value :: bool

definition new_proto_field :: proto_field where
  "new_proto_field = \<lparr>f_name = [], f_type_name = [], f_type = FInt32, f_number = 0, f_repeated = False,
     f_packed_explicit = False, f_packed_value = False\<rparr>"

record proto_enum_value =
  ev_name :: string
  ev_number :: int

record proto_enum =
  e_name :: string
  e_values :: "proto_enum_value list"

record proto_message_def =
  m_name :: string
  m_fields :: "proto_field list"
  m_id :: u32
  m_base_class :: string

definition new_proto_message :: proto_message_def where
  "new_proto_message = \<lparr>m_name = [], m_fields = [], m_id = 0, m_base_class = []\<rparr>"

record proto_file =
  p_package :: string
  p_enums :: "proto_enum list"
  p_messages :: "proto_message_def list"

section \<open>Type helpers\<close>

definition scalar_types :: "string list" where
  "scalar_types =
     [''double'', ''float'', ''int32'', ''int64'', ''uint32'', ''uint64'', ''sint32'', ''sint64'',
      ''fixed32'', ''fixed64'', ''sfixed32'', ''sfixed64'', ''bool'', ''string'', ''bytes'']"

definition is_scalar_type :: "string \<Rightarrow> bool" where
  "is_scalar_type t = list_ex (\<lambda>s. t = s) scalar_types"

definition scalar_field_type :: "string \<Rightarrow> field_type" where
  "scalar_field_type t =
     (if t = ''double'' then FDouble
      else if t = ''float'' then FFloat
      else if t = ''int32'' then FInt32
      else if t = ''int64'' then FInt64
      else if t = ''uint32'' then FUint32
      else if t = ''uint64'' then FUint64
      else if t = ''sint32'' then FSint32
      else if t = ''sint64'' then FSint64
      else if t = ''fixed32'' then FFixed32
      else if t = ''fixed64'' then FFixed64
      else if t = ''sfixed32'' then FSfixed32
      else if t = ''sfixed64'' then FSfixed64
      else if t = ''bool'' then FBool
      else if t = ''string'' then FString
      else FBytes)"

fun wire_type_of :: "field_type \<Rightarrow> nat" where
  "wire_type_of FDouble = 1"
| "wire_type_of FFixed64 = 1"
| "wire_type_of FSfixed64 = 1"
| "wire_type_of FFloat = 5"
| "wire_type_of FFixed32 = 5"
| "wire_type_of FSfixed32 = 5"
| "wire_type_of FString = 2"
| "wire_type_of FBytes = 2"
| "wire_type_of FMessage = 2"
| "wire_type_of _ = 0"

definition is_packed :: "proto_field \<Rightarrow> bool" where
  "is_packed f =
     (if \<not> f_repeated f then False
      else if f_type f = FString \<or> f_type f = FBytes \<or> f_type f = FMessage then False
      else if f_packed_explicit f then f_packed_value f
      else True)"

datatype category = CVarint | CFixed32 | CFixed64 | CString | CBytes | CMessage

fun category_of :: "field_type \<Rightarrow> category" where
  "category_of FDouble = CFixed64"
| "category_of FFixed64 = CFixed64"
| "category_of FSfixed64 = CFixed64"
| "category_of FFloat = CFixed32"
| "category_of FFixed32 = CFixed32"
| "category_of FSfixed32 = CFixed32"
| "category_of FString = CString"
| "category_of FBytes = CBytes"
| "category_of FMessage = CMessage"
| "category_of _ = CVarint"

definition sorted_fields :: "proto_message_def \<Rightarrow> proto_field list" where
  "sorted_fields m = sort_key f_number (m_fields m)"

end
