(* ===== verification/Proto_Codec.thy ===== *)
theory Proto_Codec
  imports Wire Proto_Model
begin

text \<open>
  The message classes that \<^verbatim>\<open>tools/protogen/emit_messages.cpp\<close> generates, with the non-virtual wrappers of
  \<^verbatim>\<open>proto/proto_message.hpp\<close>.  The emitter writes, for every field of a message, the statements of
  \<^verbatim>\<open>encode\<close>, \<^verbatim>\<open>calculate_size\<close> and \<^verbatim>\<open>decode\<close>; the definitions here are what the emitted statements do, as
  functions of the field's description.

  A class is the list of its fields in ascending field number, the order the emitted bodies go through
  them (\<^verbatim>\<open>sorted_fields\<close>); a field of message type carries the class of its member, which the emitted
  header must have declared before.  An object is the list of its data members in the same order.  Signed
  and unsigned integers, enumerators and floats are words of their width, so that the \<^verbatim>\<open>memcpy\<close> casts of
  \<^verbatim>\<open>wire.hpp\<close> are the identity.
\<close>

section \<open>Classes and objects\<close>

datatype class_field = ClassField (cf_field: proto_field) (cf_class: "class_field list")

type_synonym msg_class = "class_field list"

definition cf_no :: "class_field \<Rightarrow> u32" where
  "cf_no c = of_int (f_number (cf_field c))"

definition cf_type :: "class_field \<Rightarrow> field_type" where
  "cf_type c = f_type (cf_field c)"

datatype elem = W32 u32 | W64 u64 | B bool | S bytes

datatype member =
    Single elem
  | Repeated "elem list"
  | Sub bool "member list"
  | SubRepeated "member list list"

type_synonym message = "member list"

text \<open>The classes of a file in the order of their declarations: a class may use those before it.\<close>

fun resolve_field :: "(string \<times> msg_class) list \<Rightarrow> proto_field \<Rightarrow> class_field option" where
  "resolve_field env f =
     (if f_type f = FMessage then map_option (ClassField f) (map_of env (f_type_name f))
      else Some (ClassField f []))"

fun resolve_fields :: "(string \<times> msg_class) list \<Rightarrow> proto_field list \<Rightarrow> msg_class option" where
  "resolve_fields env [] = Some []"
| "resolve_fields env (f # fs) =
     (case resolve_field env f of
        None \<Rightarrow> None
      | Some c \<Rightarrow> map_option ((#) c) (resolve_fields env fs))"

fun emit_classes :: "(string \<times> msg_class) list \<Rightarrow> proto_message_def list \<Rightarrow> (string \<times> msg_class) list option" where
  "emit_classes env [] = Some env"
| "emit_classes env (m # ms) =
     (case resolve_fields env (sorted_fields m) of
        None \<Rightarrow> None
      | Some cls \<Rightarrow> emit_classes (env @ [(m_name m, cls)]) ms)"

text \<open>A member's initial value (\<^verbatim>\<open>emit_member\<close>): \<^verbatim>\<open>{}\<close> zeroes it, a string or a vector is empty.\<close>

fun zero_elem :: "field_type \<Rightarrow> elem" where
  "zero_elem FDouble = W64 0"
| "zero_elem FFloat = W32 0"
| "zero_elem FInt32 = W32 0"
| "zero_elem FInt64 = W64 0"
| "zero_elem FUint32 = W32 0"
| "zero_elem FUint64 = W64 0"
| "zero_elem FSint32 = W32 0"
| "zero_elem FSint64 = W64 0"
| "zero_elem FFixed32 = W32 0"
| "zero_elem FFixed64 = W64 0"
| "zero_elem FSfixed32 = W32 0"
| "zero_elem FSfixed64 = W64 0"
| "zero_elem FBool = B False"
| "zero_elem FEnum = W32 0"
| "zero_elem _ = S []"

fun new_member :: "class_field \<Rightarrow> member" where
  "new_member (ClassField f cls) =
     (if f_repeated f
      then (if category_of (f_type f) = CMessage then SubRepeated [] else Repeated [])
      else (if category_of (f_type f) = CMessage then Sub False (map new_member cls)
            else Single (zero_elem (f_type f))))"

definition new_message :: "msg_class \<Rightarrow> message" where
  "new_message cls = map new_member cls"

section \<open>Encoding one value\<close>

fun varint_encode_expr :: "field_type \<Rightarrow> elem \<Rightarrow> u64" where
  "varint_encode_expr FSint32 (W32 v) = ucast (zigzag_encode32 v)"
| "varint_encode_expr FSint64 (W64 v) = zigzag_encode64 v"
| "varint_encode_expr FInt32 (W32 v) = scast v"
| "varint_encode_expr FEnum (W32 v) = scast v"
| "varint_encode_expr FInt64 (W64 v) = v"
| "varint_encode_expr FBool (B v) = (if v then 1 else 0)"
| "varint_encode_expr _ (W32 v) = ucast v"
| "varint_encode_expr _ (W64 v) = v"
| "varint_encode_expr _ _ = 0"

fun write_value :: "field_type \<Rightarrow> elem \<Rightarrow> bytes \<Rightarrow> bytes" where
  "write_value ft v w =
     (case category_of ft of
        CVarint \<Rightarrow> w_varint (varint_encode_expr ft v) w
      | CFixed32 \<Rightarrow> (case v of W32 x \<Rightarrow> w_fixed32 x w | _ \<Rightarrow> w)
      | CFixed64 \<Rightarrow> (case v of W64 x \<Rightarrow> w_fixed64 x w | _ \<Rightarrow> w)
      | _ \<Rightarrow> (case v of S s \<Rightarrow> w_length_delimited s w | _ \<Rightarrow> w))"

definition value_size :: "field_type \<Rightarrow> elem \<Rightarrow> nat" where
  "value_size ft v =
     (case category_of ft of
        CVarint \<Rightarrow> varint_size64 (varint_encode_expr ft v)
      | CFixed32 \<Rightarrow> 4
      | CFixed64 \<Rightarrow> 8
      | _ \<Rightarrow> (case v of S s \<Rightarrow> varint_size64 (of_nat (length s)) + length s | _ \<Rightarrow> 0))"

text \<open>
  \<^verbatim>\<open>m != 0\<close> on a float or a double compares values: both zeros are equal to 0, a NaN is not.
\<close>

fun nondefault_cond :: "field_type \<Rightarrow> elem \<Rightarrow> bool" where
  "nondefault_cond FBool v = (v = B True)"
| "nondefault_cond FFloat v = (case v of W32 x \<Rightarrow> x AND 0x7FFFFFFF \<noteq> 0 | _ \<Rightarrow> False)"
| "nondefault_cond FDouble v = (case v of W64 x \<Rightarrow> x AND 0x7FFFFFFFFFFFFFFF \<noteq> 0 | _ \<Rightarrow> False)"
| "nondefault_cond ft v = (v \<noteq> zero_elem ft)"

fun wire_type_token :: "category \<Rightarrow> wire_type" where
  "wire_type_token CVarint = WVarint"
| "wire_type_token CFixed32 = WFixed32"
| "wire_type_token CFixed64 = WFixed64"
| "wire_type_token _ = WLengthDelimited"

section \<open>encode and calculate\_size\<close>

definition packed_size :: "field_type \<Rightarrow> elem list \<Rightarrow> nat" where
  "packed_size ft vs =
     (case category_of ft of
        CFixed32 \<Rightarrow> length vs * 4
      | CFixed64 \<Rightarrow> length vs * 8
      | _ \<Rightarrow> sum_list (map (value_size ft) vs))"

definition size_single :: "class_field \<Rightarrow> elem \<Rightarrow> nat" where
  "size_single c v =
     (if nondefault_cond (cf_type c) v then tag_size (cf_no c) + value_size (cf_type c) v else 0)"

definition size_repeated :: "class_field \<Rightarrow> elem list \<Rightarrow> nat" where
  "size_repeated c vs =
     (if is_packed (cf_field c)
      then (if vs = [] then 0
            else let s = packed_size (cf_type c) vs in tag_size (cf_no c) + varint_size64 (of_nat s) + s)
      else sum_list (map (\<lambda>v. tag_size (cf_no c) + value_size (cf_type c) v) vs))"

fun calculate_size :: "msg_class \<Rightarrow> message \<Rightarrow> nat"
  and size_field :: "class_field \<Rightarrow> member \<Rightarrow> nat"
  and size_subs :: "class_field \<Rightarrow> message list \<Rightarrow> nat"
where
  "calculate_size (c # cs) (m # ms) = size_field c m + calculate_size cs ms"
| "calculate_size _ _ = 0"
| "size_field c (Single v) = size_single c v"
| "size_field c (Repeated vs) = size_repeated c vs"
| "size_field c (Sub present ms) =
     (if present
      then let s = calculate_size (cf_class c) ms in tag_size (cf_no c) + varint_size64 (of_nat s) + s
      else 0)"
| "size_field c (SubRepeated mss) = size_subs c mss"
| "size_subs c [] = 0"
| "size_subs c (ms # mss) =
     (let s = calculate_size (cf_class c) ms
      in tag_size (cf_no c) + varint_size64 (of_nat s) + s + size_subs c mss)"

definition encode_single :: "class_field \<Rightarrow> elem \<Rightarrow> bytes \<Rightarrow> bytes" where
  "encode_single c v w =
     (if nondefault_cond (cf_type c) v
      then write_value (cf_type c) v (w_tag (cf_no c) (wire_type_token (category_of (cf_type c))) w)
      else w)"

definition encode_repeated :: "class_field \<Rightarrow> elem list \<Rightarrow> bytes \<Rightarrow> bytes" where
  "encode_repeated c vs w =
     (if is_packed (cf_field c)
      then (if vs = [] then w
            else foldl (\<lambda>w v. write_value (cf_type c) v w)
                   (w_varint (of_nat (packed_size (cf_type c) vs)) (w_tag (cf_no c) WLengthDelimited w)) vs)
      else foldl (\<lambda>w v. write_value (cf_type c) v
                          (w_tag (cf_no c) (wire_type_token (category_of (cf_type c))) w)) w vs)"

fun encode :: "msg_class \<Rightarrow> message \<Rightarrow> bytes \<Rightarrow> bytes"
  and encode_field :: "class_field \<Rightarrow> member \<Rightarrow> bytes \<Rightarrow> bytes"
  and encode_subs :: "class_field \<Rightarrow> message list \<Rightarrow> bytes \<Rightarrow> bytes"
where
  "encode (c # cs) (m # ms) w = encode cs ms (encode_field c m w)"
| "encode _ _ w = w"
| "encode_field c (Single v) w = encode_single c v w"
| "encode_field c (Repeated vs) w = encode_repeated c vs w"
| "encode_field c (Sub present ms) w =
     (if present
      then encode (cf_class c) ms
             (w_varint (of_nat (calculate_size (cf_class c) ms)) (w_tag (cf_no c) WLengthDelimited w))
      else w)"
| "encode_field c (SubRepeated mss) w = encode_subs c mss w"
| "encode_subs c [] w = w"
| "encode_subs c (ms # mss) w =
     encode_subs c mss
       (encode (cf_class c) ms
          (w_varint (of_nat (calculate_size (cf_class c) ms)) (w_tag (cf_no c) WLengthDelimited w)))"

section \<open>decode\<close>

text \<open>The raw value of a varint or fixed-width element, as it stands in a 64-bit variable.\<close>

definition read_raw :: "category \<Rightarrow> reader \<Rightarrow> u64 option \<times> reader" where
  "read_raw c r =
     (case c of
        CVarint \<Rightarrow> r_varint r
      | CFixed32 \<Rightarrow> (case r_fixed32 r of (v, r') \<Rightarrow> (map_option ucast v, r'))
      | _ \<Rightarrow> r_fixed64 r)"

fun decode_convert_expr :: "field_type \<Rightarrow> u64 \<Rightarrow> elem" where
  "decode_convert_expr FUint32 v = W32 (ucast v)"
| "decode_convert_expr FFixed32 v = W32 (ucast v)"
| "decode_convert_expr FInt32 v = W32 (ucast v)"
| "decode_convert_expr FSfixed32 v = W32 (ucast v)"
| "decode_convert_expr FBool v = B (v \<noteq> 0)"
| "decode_convert_expr FEnum v = W32 (ucast v)"
| "decode_convert_expr FSint32 v = W32 (zigzag_decode32 (ucast v))"
| "decode_convert_expr FSint64 v = W64 (zigzag_decode64 v)"
| "decode_convert_expr FFloat v = W32 (ucast v)"
| "decode_convert_expr _ v = W64 v"

lemma read_raw_advances:
  "read_raw c r = (v, r') \<Longrightarrow> advances r r' \<and> (v \<noteq> None \<longrightarrow> length (rd_rest r') < length (rd_rest r))"
  using r_varint_advances [of r] r_fixed32_advances [of r] r_fixed64_advances [of r]
  by (cases "r_fixed32 r") (auto simp: read_raw_def split: category.splits)

text \<open>The loop over a packed region.\<close>

function decode_packed :: "field_type \<Rightarrow> reader \<Rightarrow> elem list \<Rightarrow> elem list option" where
  "decode_packed ft r acc =
     (if rd_eof r then (if rd_ok r then Some acc else None)
      else case read_raw (category_of ft) r of
             (None, r') \<Rightarrow> None
           | (Some v, r') \<Rightarrow> decode_packed ft r' (acc @ [decode_convert_expr ft v]))"
  by pat_completeness auto
termination
  by (relation "measure (\<lambda>(ft, r, acc). length (rd_rest r))") (auto dest!: read_raw_advances [OF sym])

declare decode_packed.simps [simp del]

text \<open>
  The \<^verbatim>\<open>case\<close> of a field that is not of message type: the new value of its member.  Only a repeated
  numeric field looks at the wire type.
\<close>

definition decode_value_field :: "class_field \<Rightarrow> wire_type option \<Rightarrow> reader \<Rightarrow> member \<Rightarrow> (member \<times> reader) option" where
  "decode_value_field c wt r m =
     (let ft = cf_type c; cat = category_of ft in
      if cat = CString \<or> cat = CBytes
      then (case r_length_delimited r of
              (None, r') \<Rightarrow> None
            | (Some s, r') \<Rightarrow>
                Some (if f_repeated (cf_field c)
                      then Repeated ((case m of Repeated vs \<Rightarrow> vs | _ \<Rightarrow> []) @ [S s]) else Single (S s), r'))
      else if f_repeated (cf_field c)
      then (let vs = (case m of Repeated vs \<Rightarrow> vs | _ \<Rightarrow> []) in
            if wt = Some WLengthDelimited
            then (case r_sub_reader r of
                    (None, r') \<Rightarrow> None
                  | (Some sub, r') \<Rightarrow> map_option (\<lambda>vs'. (Repeated vs', r')) (decode_packed ft sub vs))
            else (case read_raw cat r of
                    (None, r') \<Rightarrow> None
                  | (Some v, r') \<Rightarrow> Some (Repeated (vs @ [decode_convert_expr ft v]), r')))
      else (case read_raw cat r of
              (None, r') \<Rightarrow> None
            | (Some v, r') \<Rightarrow> Some (Single (decode_convert_expr ft v), r')))"

text \<open>The label of the \<^verbatim>\<open>switch\<close> that a field number selects.\<close>

fun find_case :: "msg_class \<Rightarrow> u32 \<Rightarrow> nat option" where
  "find_case [] n = None"
| "find_case (c # cs) n = (if cf_no c = n then Some 0 else map_option Suc (find_case cs n))"

lemma decode_value_field_advances:
  "decode_value_field c wt r m = Some (m', r') \<Longrightarrow> length (rd_rest r') < length (rd_rest r)"
  using r_length_delimited_advances [of r] r_sub_reader_advances [of r] read_raw_advances [of "category_of (cf_type c)" r]
  by (auto simp: decode_value_field_def Let_def split: if_splits option.splits prod.splits)

text \<open>
  \<^verbatim>\<open>decode\<close> of an object whose members are \<open>ms\<close>.  \<open>None\<close> is the result \<^verbatim>\<open>false\<close>; what the members hold then is
  not observed by any caller.
\<close>

function decode :: "msg_class \<Rightarrow> reader \<Rightarrow> message \<Rightarrow> message option" where
  "decode cs r ms =
     (case read_tag r of
        (None, r') \<Rightarrow> if rd_ok r' then Some ms else None
      | (Some (field_number, wt), r') \<Rightarrow>
          (case find_case cs field_number of
             None \<Rightarrow> (case skip_field wt r' of (ok, r'') \<Rightarrow> if ok then decode cs r'' ms else None)
           | Some i \<Rightarrow>
               if category_of (cf_type (cs ! i)) = CMessage
               then (case r_sub_reader r' of
                       (None, r'') \<Rightarrow> None
                     | (Some sub, r'') \<Rightarrow>
                         if f_repeated (cf_field (cs ! i))
                         then (case decode (cf_class (cs ! i)) sub (new_message (cf_class (cs ! i))) of
                                 None \<Rightarrow> None
                               | Some m \<Rightarrow>
                                   decode cs r''
                                     (ms[i := SubRepeated ((case ms ! i of SubRepeated mss \<Rightarrow> mss | _ \<Rightarrow> []) @ [m])]))
                         else (case decode (cf_class (cs ! i)) sub (case ms ! i of Sub _ m \<Rightarrow> m | _ \<Rightarrow> []) of
                                 None \<Rightarrow> None
                               | Some m \<Rightarrow> decode cs r'' (ms[i := Sub True m])))
               else (case decode_value_field (cs ! i) wt r' (ms ! i) of
                       None \<Rightarrow> None
                     | Some (m, r'') \<Rightarrow> decode cs r'' (ms[i := m]))))"
  by pat_completeness auto

lemma r_sub_reader_shorter:
  "r_sub_reader r = (Some sub, r') \<Longrightarrow> length (rd_rest sub) < length (rd_rest r)"
  using r_varint_advances [of r]
  by (cases "r_varint r") (auto simp: r_sub_reader_def mk_reader_def split: option.splits if_splits)

lemma read_tag_shorter: "read_tag r = (Some x, r') \<Longrightarrow> length (rd_rest r') < length (rd_rest r)"
  using read_tag_advances by fastforce

lemma skip_field_shorter: "skip_field wt r = (True, r') \<Longrightarrow> length (rd_rest r') < length (rd_rest r)"
  using skip_field_advances by fastforce

lemma r_sub_reader_rest_shorter: "r_sub_reader r = (Some sub, r') \<Longrightarrow> length (rd_rest r') < length (rd_rest r)"
  using r_sub_reader_advances by fastforce

lemmas decode_shorter = read_tag_shorter skip_field_shorter r_sub_reader_shorter r_sub_reader_rest_shorter
  decode_value_field_advances

termination decode
  by (relation "measure (\<lambda>(cs, r, ms). length (rd_rest r))";
      (simp only: in_measure split | simp); force dest: decode_shorter decode_shorter [OF sym])

declare decode.simps [simp del]

section \<open>The wrappers of ProtoMessage\<close>

definition ByteSizeLong :: "msg_class \<Rightarrow> message \<Rightarrow> nat" where
  "ByteSizeLong cs ms = calculate_size cs ms"

definition SerializeAsString :: "msg_class \<Rightarrow> message \<Rightarrow> bytes" where
  "SerializeAsString cs ms = encode cs ms []"

definition SerializeToArray :: "msg_class \<Rightarrow> message \<Rightarrow> int \<Rightarrow> bytes option" where
  "SerializeToArray cs ms n =
     (if n < 0 then None
      else let buf = encode cs ms [] in if int (length buf) \<noteq> n then None else Some buf)"

definition ParseFromArray :: "msg_class \<Rightarrow> bytes \<Rightarrow> int \<Rightarrow> message \<Rightarrow> message option" where
  "ParseFromArray cs data n ms =
     (if n < 0 then None else decode cs (mk_reader (take (nat n) data)) ms)"

section \<open>Typing\<close>

definition elem_ok :: "field_type \<Rightarrow> elem \<Rightarrow> bool" where
  "elem_ok ft v =
     (case (zero_elem ft, v) of
        (W32 _, W32 _) \<Rightarrow> True | (W64 _, W64 _) \<Rightarrow> True | (B _, B _) \<Rightarrow> True | (S _, S _) \<Rightarrow> True | _ \<Rightarrow> False)"

fun typed :: "msg_class \<Rightarrow> message \<Rightarrow> bool"
  and typed_field :: "class_field \<Rightarrow> member \<Rightarrow> bool"
  and typed_subs :: "class_field \<Rightarrow> message list \<Rightarrow> bool"
where
  "typed (c # cs) (m # ms) = (typed_field c m \<and> typed cs ms)"
| "typed [] [] = True"
| "typed _ _ = False"
| "typed_field c (Single v) =
     (\<not> f_repeated (cf_field c) \<and> category_of (cf_type c) \<noteq> CMessage \<and> elem_ok (cf_type c) v)"
| "typed_field c (Repeated vs) =
     (f_repeated (cf_field c) \<and> category_of (cf_type c) \<noteq> CMessage \<and> list_all (elem_ok (cf_type c)) vs)"
| "typed_field c (Sub present ms) =
     (\<not> f_repeated (cf_field c) \<and> category_of (cf_type c) = CMessage \<and> typed (cf_class c) ms)"
| "typed_field c (SubRepeated mss) =
     (f_repeated (cf_field c) \<and> category_of (cf_type c) = CMessage \<and> typed_subs c mss)"
| "typed_subs c [] = True"
| "typed_subs c (ms # mss) = (typed (cf_class c) ms \<and> typed_subs c mss)"

lemma typed_iff: "typed cs ms \<longleftrightarrow> list_all2 typed_field cs ms"
  by (induction cs arbitrary: ms) (case_tac ms; simp)+

lemma typed_subs_iff: "typed_subs c mss \<longleftrightarrow> list_all (typed (cf_class c)) mss"
  by (induction mss) auto

section \<open>Bytes of one value\<close>

lemma write_value_append: "write_value ft v w = w @ write_value ft v []"
  by (auto simp: codec_simps w_length_delimited_def split: category.splits elem.splits)

lemma elem_ok_zero [simp]: "elem_ok ft (zero_elem ft)"
  by (cases ft) (simp_all add: elem_ok_def)

lemma elem_ok_cases:
  assumes "elem_ok ft v"
  obtains (w32) x where "v = W32 x" "ft \<in> {FFloat, FInt32, FUint32, FSint32, FFixed32, FSfixed32, FEnum}"
  | (w64) x where "v = W64 x" "ft \<in> {FDouble, FInt64, FUint64, FSint64, FFixed64, FSfixed64}"
  | (b) x where "v = B x" "ft = FBool"
  | (s) x where "v = S x" "ft \<in> {FString, FBytes, FMessage}"
  using assms by (cases ft; cases v) (simp_all add: elem_ok_def)

lemma value_size_eq: "elem_ok ft v \<Longrightarrow> length (write_value ft v []) = value_size ft v"
  by (erule elem_ok_cases) (auto simp: value_size_def codec_simps w_length_delimited_def)

lemma value_size_pos: "0 < value_size ft v \<or> \<not> elem_ok ft v"
  by (cases "elem_ok ft v"; simp) (erule elem_ok_cases, auto simp: value_size_def varint_size64_eq)

lemma write_value_nonempty: "elem_ok ft v \<Longrightarrow> write_value ft v [] \<noteq> []"
  using value_size_eq [of ft v] value_size_pos [of ft v] by fastforce

lemma ucast_scast_u32: "(ucast (scast v :: u64) :: u32) = v"
proof (rule bit_word_eqI)
  fix n assume "n < LENGTH(32)"
  then show "bit (ucast (scast v :: u64) :: u32) n = bit v n"
    by (cases "n = 31") (auto simp: bit_simps min_def)
qed

lemma ucast_ucast_u32: "(ucast (ucast v :: u64) :: u32) = v"
  by (rule bit_word_eqI) (simp add: bit_simps)

text \<open>A numeric value is read back by the read of its category, whatever follows it.\<close>

lemma read_value:
  assumes "elem_ok ft v" "category_of ft \<noteq> CString" "category_of ft \<noteq> CBytes" "category_of ft \<noteq> CMessage"
    and "rd_rest r = write_value ft v [] @ rest"
  obtains raw where "read_raw (category_of ft) r = (Some raw, r\<lparr>rd_rest := rest\<rparr>)"
    and "decode_convert_expr ft raw = v"
proof -
  have "\<exists>raw. read_raw (category_of ft) r = (Some raw, r\<lparr>rd_rest := rest\<rparr>) \<and> decode_convert_expr ft raw = v"
    using assms
    by (elim elem_ok_cases)
      (auto simp: read_raw_def codec_simps ucast_scast_u32 ucast_ucast_u32 zigzag32_roundtrip zigzag64_roundtrip)
  then show thesis using that by blast
qed

section \<open>Encoding appends, and calculate\_size is exact\<close>

lemma foldl_append_cong:
  assumes "\<And>w v. g w v = w @ g [] v"
  shows "foldl g w vs = w @ concat (map (g []) vs)"
proof (induction vs arbitrary: w)
  case (Cons v vs)
  then show ?case using assms [of w v] by simp
qed simp

lemma encode_single_append: "encode_single c v w = w @ encode_single c v []"
  using write_value_append [of _ _ "tag_bytes n wt" for n wt] write_value_append [of _ _ "w @ tag_bytes n wt" for n wt]
  by (simp add: encode_single_def w_tag_eq del: write_value.simps)

lemma encode_repeated_eq:
  "encode_repeated c vs w = w @
     (if is_packed (cf_field c)
      then (if vs = [] then []
            else tag_bytes (cf_no c) WLengthDelimited @ leb128 (unat (of_nat (packed_size (cf_type c) vs) :: u64)) @
              concat (map (\<lambda>v. write_value (cf_type c) v []) vs))
      else concat (map (\<lambda>v. tag_bytes (cf_no c) (wire_type_token (category_of (cf_type c))) @ write_value (cf_type c) v []) vs))"
proof -
  have packed: "foldl (\<lambda>w v. write_value (cf_type c) v w) u vs = u @ concat (map (\<lambda>v. write_value (cf_type c) v []) vs)" for u
    by (rule foldl_append_cong) (rule write_value_append)
  have unpacked: "foldl (\<lambda>w v. write_value (cf_type c) v (w @ t)) u vs = u @ concat (map (\<lambda>v. t @ write_value (cf_type c) v []) vs)"
    for t u
    by (induction vs arbitrary: u) (simp, simp del: write_value.simps, subst write_value_append, simp del: write_value.simps)
  show ?thesis
    by (simp add: encode_repeated_def w_tag_eq w_varint_eq packed unpacked del: write_value.simps)
qed

lemma encode_append_all:
  "\<forall>w. encode cs ms w = w @ encode cs ms []"
  "\<forall>w. encode_field c m w = w @ encode_field c m []"
  "\<forall>w. encode_subs c mss w = w @ encode_subs c mss []"
proof (induction cs ms and c m and c mss rule: calculate_size_size_field_size_subs.induct)
  case (1 c cs m ms)
  show ?case
  proof
    fix w
    have "encode (c # cs) (m # ms) w = (w @ encode_field c m []) @ encode cs ms []"
      by (metis 1 encode.simps(1))
    moreover have "encode (c # cs) (m # ms) [] = encode_field c m [] @ encode cs ms []"
      by (metis 1(2) encode.simps(1))
    ultimately show "encode (c # cs) (m # ms) w = w @ encode (c # cs) (m # ms) []" by simp
  qed
next
  case (3 c v)
  then show ?case using encode_single_append [of c v] by (metis encode_field.simps(1))
next
  case (4 c vs)
  show ?case by (simp add: encode_repeated_eq)
next
  case (5 c present ms)
  then have "encode (cf_class c) ms (w @ u) = w @ encode (cf_class c) ms u" if present for w u
    using that by (metis append.assoc)
  then show ?case by (simp add: w_tag_eq w_varint_eq)
next
  case (8 c ms mss)
  have "encode (cf_class c) ms (w @ u) = w @ encode (cf_class c) ms u" for w u
    by (metis 8(1) append.assoc)
  moreover have "encode_subs c mss (w @ u) = w @ encode_subs c mss u" for w u
    by (metis 8(2) append.assoc)
  ultimately show ?case by (simp add: w_tag_eq w_varint_eq)
next
  case (6 c mss)
  show ?case unfolding encode_field.simps by (rule 6)
qed simp_all

lemma encode_append: "encode cs ms w = w @ encode cs ms []" "encode_field c m w = w @ encode_field c m []"
    "encode_subs c mss w = w @ encode_subs c mss []"
  using encode_append_all by blast+

lemma encode_Cons: "encode (c # cs) (m # ms) [] = encode_field c m [] @ encode cs ms []"
  unfolding encode.simps(1) by (rule encode_append(1))

definition sub_record :: "class_field \<Rightarrow> message \<Rightarrow> bytes" where
  "sub_record c ms = tag_bytes (cf_no c) WLengthDelimited @
     leb128 (unat (of_nat (calculate_size (cf_class c) ms) :: u64)) @ encode (cf_class c) ms []"

lemma encode_sub_eq:
  "encode_field c (Sub present ms) [] = (if present then sub_record c ms else [])"
  "encode_subs c (ms # mss) [] = sub_record c ms @ encode_subs c mss []"
proof -
  have e: "encode (cf_class c) ms (w_varint (of_nat (calculate_size (cf_class c) ms)) (w_tag (cf_no c) WLengthDelimited [])) =
      sub_record c ms"
    by (subst encode_append(1)) (simp add: sub_record_def w_tag_eq w_varint_eq)
  then show "encode_field c (Sub present ms) [] = (if present then sub_record c ms else [])" by simp
  show "encode_subs c (ms # mss) [] = sub_record c ms @ encode_subs c mss []"
    by (simp only: encode_subs.simps e) (subst encode_append(3), simp)
qed

lemma packed_size_eq:
  assumes "list_all (elem_ok ft) vs" "category_of ft \<noteq> CMessage"
  shows "length (concat (map (\<lambda>v. write_value ft v []) vs)) = packed_size ft vs"
proof -
  have "length (concat (map (\<lambda>v. write_value ft v []) vs)) = sum_list (map (value_size ft) vs)"
    using assms by (induction vs) (simp_all add: value_size_eq del: write_value.simps)
  also have "\<dots> = packed_size ft vs"
  proof -
    have const: "sum_list (map (value_size ft) vs) = length vs * k" if "\<And>v. value_size ft v = k" for k
      by (induction vs) (simp_all add: that)
    show ?thesis
      using const [of 4] const [of 8] by (simp add: packed_size_def value_size_def split: category.splits)
  qed
  finally show ?thesis .
qed

lemma calculate_size_exact_all:
  "typed cs ms \<Longrightarrow> calculate_size cs ms = length (encode cs ms [])"
  "typed_field c m \<Longrightarrow> size_field c m = length (encode_field c m [])"
  "typed_subs c mss \<Longrightarrow> size_subs c mss = length (encode_subs c mss [])"
proof (induction cs ms and c m and c mss rule: calculate_size_size_field_size_subs.induct)
  case (1 c cs m ms)
  then show ?case by (simp add: encode_Cons del: encode.simps(1))
next
  case (3 c v)
  then show ?case using write_value_append [of "cf_type c" v "tag_bytes (cf_no c) (wire_type_token (category_of (cf_type c)))"]
    by (simp add: size_single_def encode_single_def w_tag_eq value_size_eq
         tag_size_eq [where wt = "wire_type_token (category_of (cf_type c))"] del: write_value.simps)
next
  case (4 c vs)
  have "length (concat (map (\<lambda>v. t @ write_value ft v []) vs)) =
      sum_list (map (\<lambda>v. length t + value_size ft v) vs)" if "list_all (elem_ok ft) vs" for t ft
    using that by (induction vs) (simp_all add: value_size_eq del: write_value.simps)
  with 4 show ?case
    using packed_size_eq [of "cf_type c" vs]
    by (simp add: size_repeated_def encode_repeated_eq Let_def varint_size64_eq
        tag_size_eq [where wt = WLengthDelimited]
        del: write_value.simps)
       (metis tag_size_eq)
next
  case (5 c present ms)
  then show ?case
    by (simp add: encode_sub_eq sub_record_def Let_def varint_size64_eq tag_size_eq [where wt = WLengthDelimited]
        del: encode_field.simps)
next
  case (8 c ms mss)
  then show ?case
    by (simp add: encode_sub_eq sub_record_def Let_def varint_size64_eq tag_size_eq [where wt = WLengthDelimited]
        del: encode_subs.simps)
qed simp_all

section \<open>Decoding one record\<close>

lemma mk_reader_rest [simp]: "rd_rest (mk_reader bs) = bs" "(mk_reader bs)\<lparr>rd_rest := bs'\<rparr> = mk_reader bs'"
  by (simp_all add: mk_reader_def)

lemma decode_eof [simp]: "decode cs (mk_reader []) ms = Some ms"
  by (subst decode.simps) (simp add: read_tag_def rd_eof_def mk_reader_def)

lemma decode_value_step:
  assumes "find_case cs (cf_no c) = Some i" "cs ! i = c" "category_of (cf_type c) \<noteq> CMessage"
    and "decode_value_field c (Some wt) (mk_reader (body @ rest)) (ms ! i) = Some (m', mk_reader rest)"
  shows "decode cs (mk_reader (tag_bytes (cf_no c) wt @ body @ rest)) ms = decode cs (mk_reader rest) (ms[i := m'])"
  using assms by (subst decode.simps) (simp add: read_tag_eq)

lemma decode_skip_step:
  assumes "find_case cs n = None" "skip_field (Some wt) (mk_reader (body @ rest)) = (True, mk_reader rest)"
  shows "decode cs (mk_reader (tag_bytes n wt @ body @ rest)) ms = decode cs (mk_reader rest) ms"
  using assms by (subst decode.simps) (simp add: read_tag_eq)

lemma decode_sub_step:
  assumes "find_case cs (cf_no c) = Some i" "cs ! i = c" "category_of (cf_type c) = CMessage"
    and "calculate_size (cf_class c) sub = length (encode (cf_class c) sub [])"
    and "length (encode (cf_class c) sub []) < 2 ^ 64"
    and "decode (cf_class c) (mk_reader (encode (cf_class c) sub []))
           (if f_repeated (cf_field c) then new_message (cf_class c) else case ms ! i of Sub _ m \<Rightarrow> m | _ \<Rightarrow> []) = Some sub'"
  shows "decode cs (mk_reader (sub_record c sub @ rest)) ms =
     decode cs (mk_reader rest)
       (ms[i := if f_repeated (cf_field c)
                then SubRepeated ((case ms ! i of SubRepeated mss \<Rightarrow> mss | _ \<Rightarrow> []) @ [sub']) else Sub True sub'])"
proof -
  let ?e = "encode (cf_class c) sub []"
  have "sub_record c sub = tag_bytes (cf_no c) WLengthDelimited @ leb128 (length ?e) @ ?e"
    using assms(4,5) by (simp add: sub_record_def unat_of_nat)
  then show ?thesis
    using assms(1-3,5,6) by (subst decode.simps) (auto simp: read_tag_eq r_sub_reader_eq)
qed

lemma decode_sub_skip:
  assumes "find_case cs (cf_no c) = None"
    and "calculate_size (cf_class c) sub = length (encode (cf_class c) sub [])"
    and "length (encode (cf_class c) sub []) < 2 ^ 64"
  shows "decode cs (mk_reader (sub_record c sub @ rest)) ms = decode cs (mk_reader rest) ms"
proof -
  let ?e = "encode (cf_class c) sub []"
  have s: "sub_record c sub = tag_bytes (cf_no c) WLengthDelimited @ w_length_delimited ?e []"
    using assms(2,3) by (simp add: sub_record_def unat_of_nat w_length_delimited_eq)
  show ?thesis
    unfolding s append.assoc
    by (rule decode_skip_step [OF assms(1)]) (rule skip_blob [OF assms(3)])
qed

lemma skip_value:
  assumes "elem_ok ft v" "category_of ft \<noteq> CMessage" "length (write_value ft v []) < 2 ^ 64"
  shows "skip_field (Some (wire_type_token (category_of ft))) (mk_reader (write_value ft v [] @ rest)) = (True, mk_reader rest)"
  using assms(1)
proof (cases rule: elem_ok_cases)
  case (s x)
  then have "category_of ft = CString \<or> category_of ft = CBytes" using assms(2) by auto
  moreover have "length x < 2 ^ 64" using assms(3) s by (auto simp: w_length_delimited_def)
  ultimately show ?thesis using s skip_blob by auto
qed (auto simp: skip_field_def codec_simps)

lemma decode_packed_values:
  assumes "list_all (elem_ok ft) vs" "category_of ft \<notin> {CString, CBytes, CMessage}"
  shows "decode_packed ft (mk_reader (concat (map (\<lambda>v. write_value ft v []) vs))) acc = Some (acc @ vs)"
  using assms(1)
proof (induction vs arbitrary: acc)
  case Nil
  then show ?case by (subst decode_packed.simps) (simp add: rd_eof_def mk_reader_def)
next
  case (Cons v vs)
  let ?r = "mk_reader (concat (map (\<lambda>v. write_value ft v []) (v # vs)))"
  have v: "elem_ok ft v" using Cons.prems by simp
  obtain raw where "read_raw (category_of ft) ?r = (Some raw, mk_reader (concat (map (\<lambda>v. write_value ft v []) vs)))"
    and "decode_convert_expr ft raw = v"
    using read_value [OF v, of ?r "concat (map (\<lambda>v. write_value ft v []) vs)"] assms(2)
    by (auto simp del: write_value.simps)
  moreover have "\<not> rd_eof ?r" using write_value_nonempty [OF v] by (simp add: rd_eof_def del: write_value.simps)
  ultimately show ?case
    using Cons by (subst decode_packed.simps) (simp del: write_value.simps)
qed

section \<open>Decoding inverts encoding\<close>

text \<open>
  What survives a round trip: everything except the sign of a singular zero float and the contents of a
  sub-message whose presence flag is not set.
\<close>

fun normalise :: "msg_class \<Rightarrow> message \<Rightarrow> message"
  and normalise_field :: "class_field \<Rightarrow> member \<Rightarrow> member"
  and normalise_subs :: "class_field \<Rightarrow> message list \<Rightarrow> message list"
where
  "normalise (c # cs) (m # ms) = normalise_field c m # normalise cs ms"
| "normalise _ _ = []"
| "normalise_field c (Single v) =
     Single (if nondefault_cond (cf_type c) v then v else zero_elem (cf_type c))"
| "normalise_field c (Repeated vs) = Repeated vs"
| "normalise_field c (Sub present ms) =
     Sub present (if present then normalise (cf_class c) ms else new_message (cf_class c))"
| "normalise_field c (SubRepeated mss) = SubRepeated (normalise_subs c mss)"
| "normalise_subs c [] = []"
| "normalise_subs c (ms # mss) = normalise (cf_class c) ms # normalise_subs c mss"

text \<open>The emitted \<^verbatim>\<open>switch\<close> compiles only when its labels differ; this goes for every nested class too.\<close>

fun wf_field :: "class_field \<Rightarrow> bool" where
  "wf_field (ClassField f cls) = (distinct (map cf_no cls) \<and> list_all wf_field cls)"

definition wf_class :: "msg_class \<Rightarrow> bool" where
  "wf_class cs = (distinct (map cf_no cs) \<and> list_all wf_field cs)"

lemma wf_class_sub: "wf_field c \<Longrightarrow> wf_class (cf_class c)"
  by (cases c) (simp add: wf_class_def)

lemma wf_class_Cons: "wf_class (c # cs) \<Longrightarrow> wf_field c \<and> wf_class cs \<and> cf_no c \<notin> cf_no ` set cs"
  by (auto simp: wf_class_def)

lemma find_case_nth:
  "distinct (map cf_no cs) \<Longrightarrow> i < length cs \<Longrightarrow> find_case cs (cf_no (cs ! i)) = Some i"
proof (induction cs arbitrary: i)
  case (Cons c cs)
  then show ?case by (cases i) (auto simp: image_iff)
qed simp

lemma find_case_lt: "find_case cs n = Some i \<Longrightarrow> i < length cs \<and> cf_no (cs ! i) = n"
  by (induction cs arbitrary: i) (auto split: if_splits)

text \<open>
  A field of the sender meets a receiver's class: either the receiver has no such number, or it has the
  same field and its member is still as constructed.
\<close>

definition fresh_case :: "msg_class \<Rightarrow> message \<Rightarrow> class_field \<Rightarrow> bool" where
  "fresh_case cs ms c \<longleftrightarrow>
     (\<forall>i. find_case cs (cf_no c) = Some i \<longrightarrow> cs ! i = c \<and> i < length ms \<and> ms ! i = new_member c)"

definition store_member :: "msg_class \<Rightarrow> class_field \<Rightarrow> member \<Rightarrow> message \<Rightarrow> message" where
  "store_member cs c m ms = (case find_case cs (cf_no c) of None \<Rightarrow> ms | Some i \<Rightarrow> ms[i := m])"

fun store_members :: "msg_class \<Rightarrow> msg_class \<Rightarrow> message \<Rightarrow> message \<Rightarrow> message" where
  "store_members cs (c # cs') (m # ms') ms = store_members cs cs' ms' (store_member cs c m ms)"
| "store_members cs _ _ ms = ms"

lemma new_member_eq:
  "new_member c =
     (if f_repeated (cf_field c)
      then (if category_of (cf_type c) = CMessage then SubRepeated [] else Repeated [])
      else (if category_of (cf_type c) = CMessage then Sub False (new_message (cf_class c))
            else Single (zero_elem (cf_type c))))"
  by (cases c) (simp add: cf_type_def new_message_def)

lemma store_member_new: "fresh_case cs ms c \<Longrightarrow> store_member cs c (new_member c) ms = ms"
  by (auto simp: store_member_def fresh_case_def split: option.splits) (metis list_update_id)

lemma read_string:
  assumes "elem_ok ft v" "category_of ft \<in> {CString, CBytes}" "length (write_value ft v []) < 2 ^ 64"
  obtains s where "v = S s" "\<And>rest. r_length_delimited (mk_reader (write_value ft v [] @ rest)) = (Some s, mk_reader rest)"
proof -
  obtain s where v: "v = S s" using assms(1,2) by (auto elim!: elem_ok_cases)
  have "length s < 2 ^ 64" using assms(2,3) v by (auto simp: w_length_delimited_def)
  then have "r_length_delimited (mk_reader (write_value ft v [] @ rest)) = (Some s, mk_reader rest)" for rest
    using assms(2) v by (auto simp: w_length_delimited_eq r_length_delimited_eq)
  with v that show thesis by blast
qed

lemma decode_single:
  assumes "typed_field c (Single v)" "fresh_case cs ms c" "length (encode_single c v []) < 2 ^ 64"
  shows "decode cs (mk_reader (encode_single c v [] @ rest)) ms =
     decode cs (mk_reader rest) (store_member cs c (normalise_field c (Single v)) ms)"
proof (cases "nondefault_cond (cf_type c) v")
  case False
  then show ?thesis
    using assms(1) store_member_new [OF assms(2)] by (simp add: encode_single_def new_member_eq)
next
  case True
  let ?t = "wire_type_token (category_of (cf_type c))" and ?b = "write_value (cf_type c) v []"
  have e: "encode_single c v [] @ rest = tag_bytes (cf_no c) ?t @ ?b @ rest"
    using True write_value_append [of "cf_type c" v "tag_bytes (cf_no c) ?t"]
    by (simp add: encode_single_def w_tag_eq del: write_value.simps)
  have ok: "elem_ok (cf_type c) v" "category_of (cf_type c) \<noteq> CMessage" "\<not> f_repeated (cf_field c)"
    using assms(1) by simp_all
  have len: "length ?b < 2 ^ 64"
    using assms(3) arg_cong [OF e, of length] by (simp del: write_value.simps)
  show ?thesis
  proof (cases "find_case cs (cf_no c)")
    case None
    then show ?thesis
      unfolding e using decode_skip_step [OF None skip_value [OF ok(1,2) len]] by (simp add: store_member_def)
  next
    case (Some i)
    have "decode_value_field c (Some ?t) (mk_reader (?b @ rest)) (ms ! i) = Some (Single v, mk_reader rest)"
    proof (cases "category_of (cf_type c) \<in> {CString, CBytes}")
      case True
      obtain s where "v = S s" "r_length_delimited (mk_reader (?b @ rest)) = (Some s, mk_reader rest)"
        using read_string [OF ok(1) True len] by blast
      then show ?thesis
        using True ok(3) by (auto simp: decode_value_field_def simp del: write_value.simps)
    next
      case False
      obtain raw where "read_raw (category_of (cf_type c)) (mk_reader (?b @ rest)) = (Some raw, mk_reader rest)"
        and "decode_convert_expr (cf_type c) raw = v"
        by (rule read_value [OF ok(1), of "mk_reader (?b @ rest)" rest]) (use False ok in \<open>simp_all del: write_value.simps\<close>)
      then show ?thesis
        using False ok(3) by (simp add: decode_value_field_def Let_def del: write_value.simps)
    qed
    then show ?thesis
      unfolding e using decode_value_step [OF Some _ ok(2)] Some True assms(2)
      by (simp add: store_member_def fresh_case_def)
  qed
qed


text \<open>The records of a repeated field append to its vector one by one, or in one packed record.\<close>

lemma decode_unpacked:
  assumes ok: "list_all (elem_ok (cf_type c)) vs" "category_of (cf_type c) \<noteq> CMessage" "f_repeated (cf_field c)"
    and fit: "\<And>v. v \<in> set vs \<Longrightarrow> length (write_value (cf_type c) v []) < 2 ^ 64"
    and c: "find_case cs (cf_no c) = Some i" "cs ! i = c" "i < length ms" "ms ! i = Repeated acc"
  shows "decode cs (mk_reader (concat (map (\<lambda>v. tag_bytes (cf_no c) (wire_type_token (category_of (cf_type c))) @
       write_value (cf_type c) v []) vs) @ rest)) ms =
     decode cs (mk_reader rest) (ms[i := Repeated (acc @ vs)])"
  using ok(1) fit c(3,4)
proof (induction vs arbitrary: ms acc)
  case Nil
  then show ?case by (metis append_Nil append_Nil2 concat.simps(1) list.map(1) list_update_id)
next
  case (Cons v vs)
  let ?t = "wire_type_token (category_of (cf_type c))"
  let ?rest = "concat (map (\<lambda>v. tag_bytes (cf_no c) ?t @ write_value (cf_type c) v []) vs) @ rest"
  have v: "elem_ok (cf_type c) v" and len: "length (write_value (cf_type c) v []) < 2 ^ 64"
    using Cons.prems(1,2) by (simp_all del: write_value.simps)
  have "decode_value_field c (Some ?t) (mk_reader (write_value (cf_type c) v [] @ ?rest)) (ms ! i) =
      Some (Repeated (acc @ [v]), mk_reader ?rest)"
  proof (cases "category_of (cf_type c) \<in> {CString, CBytes}")
    case True
    obtain s where "v = S s" "r_length_delimited (mk_reader (write_value (cf_type c) v [] @ ?rest)) = (Some s, mk_reader ?rest)"
      using read_string [OF v True len] by blast
    then show ?thesis
      using True ok(3) Cons.prems(4) by (auto simp: decode_value_field_def simp del: write_value.simps)
  next
    case False
    moreover have "?t \<noteq> WLengthDelimited" using False ok(2) by (cases "category_of (cf_type c)") auto
    moreover obtain raw where "read_raw (category_of (cf_type c)) (mk_reader (write_value (cf_type c) v [] @ ?rest)) =
        (Some raw, mk_reader ?rest)" and "decode_convert_expr (cf_type c) raw = v"
      by (rule read_value [OF v, of "mk_reader (write_value (cf_type c) v [] @ ?rest)" ?rest])
        (use False ok in \<open>simp_all del: write_value.simps\<close>)
    ultimately show ?thesis
      using ok(3) Cons.prems(4) by (simp add: decode_value_field_def Let_def del: write_value.simps)
  qed
  then have "decode cs (mk_reader (tag_bytes (cf_no c) ?t @ write_value (cf_type c) v [] @ ?rest)) ms =
      decode cs (mk_reader ?rest) (ms[i := Repeated (acc @ [v])])"
    using decode_value_step [OF c(1,2) ok(2)] by blast
  also have "\<dots> = decode cs (mk_reader rest) (ms[i := Repeated (acc @ v # vs)])"
    using Cons.IH [of "ms[i := Repeated (acc @ [v])]" "acc @ [v]"] Cons.prems by (simp del: write_value.simps)
  finally show ?case by (simp del: write_value.simps)
qed

lemma skip_unpacked:
  assumes "list_all (elem_ok (cf_type c)) vs" "category_of (cf_type c) \<noteq> CMessage" "find_case cs (cf_no c) = None"
    and "\<And>v. v \<in> set vs \<Longrightarrow> length (write_value (cf_type c) v []) < 2 ^ 64"
  shows "decode cs (mk_reader (concat (map (\<lambda>v. tag_bytes (cf_no c) (wire_type_token (category_of (cf_type c))) @
       write_value (cf_type c) v []) vs) @ rest)) ms = decode cs (mk_reader rest) ms"
  using assms(1,4)
  by (induction vs) (simp_all add: decode_skip_step [OF assms(3) skip_value [OF _ assms(2)]] del: write_value.simps)

lemma decode_repeated:
  assumes "typed_field c (Repeated vs)" "fresh_case cs ms c" "length (encode_repeated c vs []) < 2 ^ 64"
  shows "decode cs (mk_reader (encode_repeated c vs [] @ rest)) ms =
     decode cs (mk_reader rest) (store_member cs c (Repeated vs) ms)"
proof -
  have ok: "list_all (elem_ok (cf_type c)) vs" "category_of (cf_type c) \<noteq> CMessage" "f_repeated (cf_field c)"
    using assms(1) by simp_all
  let ?vals = "concat (map (\<lambda>v. write_value (cf_type c) v []) vs)"
  show ?thesis
  proof (cases "is_packed (cf_field c)")
    case True
    show ?thesis
    proof (cases "vs = []")
      case True
      then show ?thesis
        using ok store_member_new [OF assms(2)] by (simp add: encode_repeated_def new_member_eq)
    next
      case False
      have len: "length ?vals < 2 ^ 64"
        using assms(3) True False by (simp add: encode_repeated_eq del: write_value.simps length_concat)
      have e: "encode_repeated c vs [] @ rest = tag_bytes (cf_no c) WLengthDelimited @ w_length_delimited ?vals [] @ rest"
        using True False packed_size_eq [OF ok(1,2)] len
        by (simp add: encode_repeated_eq w_length_delimited_eq unat_of_nat del: write_value.simps length_concat)
      show ?thesis
      proof (cases "find_case cs (cf_no c)")
        case None
        then show ?thesis
          unfolding e using decode_skip_step [OF None skip_blob [OF len]] by (simp add: store_member_def)
      next
        case (Some i)
        have num: "category_of (cf_type c) \<notin> {CString, CBytes, CMessage}"
          using True ok(2) by (cases "cf_type c") (auto simp: is_packed_def cf_type_def split: if_splits)
        have new: "ms ! i = Repeated []" using assms(2) Some ok by (simp add: fresh_case_def new_member_eq)
        have "decode_value_field c (Some WLengthDelimited) (mk_reader (w_length_delimited ?vals [] @ rest)) (ms ! i) =
            Some (Repeated vs, mk_reader rest)"
          using num ok(3) new decode_packed_values [OF ok(1) num, of "[]"] len
          by (simp add: decode_value_field_def Let_def w_length_delimited_eq r_sub_reader_eq
              del: write_value.simps length_concat)
        then show ?thesis
          unfolding e using decode_value_step [OF Some _ ok(2)] Some assms(2)
          by (simp add: store_member_def fresh_case_def)
      qed
    qed
  next
    case False
    have fit: "length (write_value (cf_type c) v []) < 2 ^ 64" if "v \<in> set vs" for v
    proof -
      from that obtain us zs where "vs = us @ v # zs" by (auto simp: in_set_conv_decomp)
      then show ?thesis
        using assms(3) False by (simp add: encode_repeated_eq del: write_value.simps)
    qed
    show ?thesis
      using skip_unpacked [OF ok(1,2) _ fit, of cs] decode_unpacked [OF ok fit, of cs _ ms "[]"] False assms(2) ok
      by (cases "find_case cs (cf_no c)")
        (simp_all add: encode_repeated_eq store_member_def fresh_case_def new_member_eq del: write_value.simps)
  qed
qed

lemma length_encode_sub_record: "length (encode (cf_class c) ms []) \<le> length (sub_record c ms)"
  by (simp add: sub_record_def)

lemma fresh_case_store:
  assumes "fresh_case cs ms c'" "cf_no c' \<noteq> cf_no c"
  shows "fresh_case cs (store_member cs c m ms) c'"
  using assms find_case_lt [of cs "cf_no c"] find_case_lt [of cs "cf_no c'"]
  by (auto simp: fresh_case_def store_member_def split: option.splits) (metis nth_list_update_neq)

lemma store_members_self_aux:
  assumes "distinct (map cf_no (as @ cs))" "length xs = length as" "length ms' = length cs" "length ms = length cs"
  shows "store_members (as @ cs) cs ms' (xs @ ms) = xs @ ms'"
  using assms
proof (induction cs arbitrary: as xs ms ms')
  case (Cons c cs)
  then obtain m ms1 m' ms1' where ms: "ms = m # ms1" "ms' = m' # ms1'" by (auto simp: length_Suc_conv)
  have "find_case (as @ c # cs) (cf_no c) = Some (length as)"
    using find_case_nth [OF Cons.prems(1), of "length as"] by simp
  then have "store_member (as @ c # cs) c m' (xs @ ms) = (xs @ [m']) @ ms1"
    using Cons.prems(2) by (simp add: store_member_def ms list_update_append)
  then show ?case
    using Cons.IH [of "as @ [c]" "xs @ [m']" ms1' ms1] Cons.prems by (simp add: ms)
qed simp

lemma store_members_self:
  "distinct (map cf_no cs) \<Longrightarrow> length ms' = length cs \<Longrightarrow> store_members cs cs ms' (new_message cs) = ms'"
  using store_members_self_aux [of "[]" cs "[]" ms' "new_message cs"] by (simp add: new_message_def)

lemma length_normalise: "typed cs ms \<Longrightarrow> length (normalise cs ms) = length cs"
  by (induction cs arbitrary: ms) (case_tac ms; simp)+

lemma fresh_case_new: "wf_class cs \<Longrightarrow> c \<in> set cs \<Longrightarrow> fresh_case cs (new_message cs) c"
  by (auto simp: fresh_case_def in_set_conv_nth find_case_nth wf_class_def new_message_def)

definition decodes :: "msg_class \<Rightarrow> message \<Rightarrow> bool" where
  "decodes cs' ms' \<longleftrightarrow>
     (\<forall>cs ms. list_all (fresh_case cs ms) cs' \<longrightarrow>
        decode cs (mk_reader (encode cs' ms' [])) ms = Some (store_members cs cs' (normalise cs' ms') ms))"

lemma decodes_self:
  assumes "decodes cs ms" "wf_class cs" "typed cs ms"
  shows "decode cs (mk_reader (encode cs ms [])) (new_message cs) = Some (normalise cs ms)"
  using assms fresh_case_new [OF assms(2)] store_members_self [of cs "normalise cs ms"]
  by (simp add: decodes_def list_all_iff length_normalise wf_class_def)

text \<open>The records of a repeated message field.\<close>

lemma decode_subs:
  assumes sub: "\<And>ms'. ms' \<in> set mss \<Longrightarrow>
      decode (cf_class c) (mk_reader (encode (cf_class c) ms' [])) (new_message (cf_class c)) = Some (normalise (cf_class c) ms')"
    and ok: "typed_subs c mss" "category_of (cf_type c) = CMessage" "f_repeated (cf_field c)"
      "length (encode_subs c mss []) < 2 ^ 64"
    and c: "find_case cs (cf_no c) = Some i" "cs ! i = c" "i < length ms" "ms ! i = SubRepeated acc"
  shows "decode cs (mk_reader (encode_subs c mss [] @ rest)) ms =
     decode cs (mk_reader rest) (ms[i := SubRepeated (acc @ normalise_subs c mss)])"
  using sub ok(1,4) c(3,4)
proof (induction mss arbitrary: ms acc)
  case Nil
  then show ?case by (metis append_Nil append_Nil2 encode_subs.simps(1) list_update_id normalise_subs.simps(1))
next
  case (Cons s mss)
  have t: "typed (cf_class c) s" and len: "length (encode (cf_class c) s []) < 2 ^ 64"
    using Cons.prems(2,3) length_encode_sub_record [of c s] by (simp_all add: encode_sub_eq del: encode_subs.simps(2))
  have "decode cs (mk_reader (sub_record c s @ encode_subs c mss [] @ rest)) ms =
      decode cs (mk_reader (encode_subs c mss [] @ rest)) (ms[i := SubRepeated (acc @ [normalise (cf_class c) s])])"
    using decode_sub_step [OF c(1,2) ok(2) calculate_size_exact_all(1) [OF t] len, of ms "normalise (cf_class c) s"]
      Cons.prems(1,5) ok(3) by simp
  also have "\<dots> = decode cs (mk_reader rest) (ms[i := SubRepeated (acc @ normalise_subs c (s # mss))])"
    using Cons.IH [of "ms[i := SubRepeated (acc @ [normalise (cf_class c) s])]" "acc @ [normalise (cf_class c) s]"] Cons.prems
    by (simp add: encode_sub_eq del: encode_subs.simps(2))
  finally show ?case by (simp add: encode_sub_eq del: encode_subs.simps(2))
qed

lemma skip_subs:
  assumes "typed_subs c mss" "length (encode_subs c mss []) < 2 ^ 64" "find_case cs (cf_no c) = None"
  shows "decode cs (mk_reader (encode_subs c mss [] @ rest)) ms = decode cs (mk_reader rest) ms"
  using assms(1,2)
proof (induction mss)
  case (Cons s mss)
  then show ?case
    using decode_sub_skip [OF assms(3) calculate_size_exact_all(1), of s] length_encode_sub_record [of c s]
    by (simp add: encode_sub_eq del: encode_subs.simps(2))
qed simp

lemma decode_subs_field:
  assumes sub: "\<And>ms'. ms' \<in> set mss \<Longrightarrow>
      decode (cf_class c) (mk_reader (encode (cf_class c) ms' [])) (new_message (cf_class c)) = Some (normalise (cf_class c) ms')"
    and ok: "typed_field c (SubRepeated mss)" "fresh_case cs ms c" "length (encode_subs c mss []) < 2 ^ 64"
  shows "decode cs (mk_reader (encode_subs c mss [] @ rest)) ms =
     decode cs (mk_reader rest) (store_member cs c (SubRepeated (normalise_subs c mss)) ms)"
  using skip_subs [of c mss cs rest ms] decode_subs [OF sub, of mss cs _ ms "[]" rest] ok
  by (cases "find_case cs (cf_no c)") (simp_all add: store_member_def fresh_case_def new_member_eq)

lemma decode_sub_field:
  assumes sub: "present \<Longrightarrow> decode (cf_class c) (mk_reader (encode (cf_class c) s [])) (new_message (cf_class c)) =
      Some (normalise (cf_class c) s)"
    and ok: "typed_field c (Sub present s)" "fresh_case cs ms c" "length (encode_field c (Sub present s) []) < 2 ^ 64"
  shows "decode cs (mk_reader (encode_field c (Sub present s) [] @ rest)) ms =
     decode cs (mk_reader rest) (store_member cs c (normalise_field c (Sub present s)) ms)"
proof (cases present)
  case False
  then show ?thesis
    using ok(1) store_member_new [OF ok(2)] by (simp add: new_member_eq)
next
  case True
  have len: "length (encode (cf_class c) s []) < 2 ^ 64"
    using ok(3) True length_encode_sub_record [of c s] by (simp add: encode_sub_eq del: encode_field.simps)
  have size: "calculate_size (cf_class c) s = length (encode (cf_class c) s [])"
    using ok(1) by (simp add: calculate_size_exact_all(1))
  show ?thesis
    using decode_sub_skip [OF _ size len, of cs rest ms] decode_sub_step [OF _ _ _ size len, of cs _ ms "normalise (cf_class c) s"]
      True sub ok(1,2)
    by (cases "find_case cs (cf_no c)")
      (simp_all add: encode_sub_eq store_member_def fresh_case_def new_member_eq del: encode_field.simps)
qed

lemma encode_decodes_all:
  "typed cs' ms' \<Longrightarrow> wf_class cs' \<Longrightarrow> length (encode cs' ms' []) < 2 ^ 64 \<Longrightarrow> decodes cs' ms'"
  "typed_field c m \<Longrightarrow> wf_field c \<Longrightarrow> length (encode_field c m []) < 2 ^ 64 \<Longrightarrow>
     \<forall>cs ms rest. fresh_case cs ms c \<longrightarrow>
       decode cs (mk_reader (encode_field c m [] @ rest)) ms =
       decode cs (mk_reader rest) (store_member cs c (normalise_field c m) ms)"
  "typed_subs c mss \<Longrightarrow> wf_field c \<Longrightarrow> length (encode_subs c mss []) < 2 ^ 64 \<Longrightarrow>
     \<forall>ms \<in> set mss. decode (cf_class c) (mk_reader (encode (cf_class c) ms [])) (new_message (cf_class c)) =
       Some (normalise (cf_class c) ms)"
proof (induction cs' ms' and c m and c mss rule: calculate_size_size_field_size_subs.induct)
  case (1 c cs m ms)
  have field: "decode ds (mk_reader (encode_field c m [] @ rest)) ns =
       decode ds (mk_reader rest) (store_member ds c (normalise_field c m) ns)" if "fresh_case ds ns c" for ds ns rest
    using 1(1) 1(3-5) that by (simp add: encode_Cons wf_class_Cons del: encode.simps(1))
  have "decodes cs ms"
    using 1(2) 1(3-5) by (simp add: encode_Cons wf_class_Cons del: encode.simps(1))
  moreover have "fresh_case ds (store_member ds c x ns) c'" if "c' \<in> set cs" "fresh_case ds ns c'" for ds ns x c'
    using that 1(4) wf_class_Cons [of c cs] by (intro fresh_case_store) (auto simp: image_iff)
  ultimately show ?case
    by (simp add: decodes_def encode_Cons field list_all_iff del: encode.simps(1))
next
  case (3 c v)
  then show ?case using decode_single [of c v] by simp
next
  case (4 c vs)
  then show ?case using decode_repeated [of c vs] by simp
next
  case (5 c present ms)
  have "decode (cf_class c) (mk_reader (encode (cf_class c) ms [])) (new_message (cf_class c)) =
      Some (normalise (cf_class c) ms)" if present
    using 5(1) [OF that] 5(2-4) that wf_class_sub [of c] length_encode_sub_record [of c ms]
    by (intro decodes_self) (simp_all add: encode_sub_eq del: encode_field.simps(3))
  then show ?case using decode_sub_field 5(2,4) by blast
next
  case (6 c mss)
  then show ?case using decode_subs_field [of mss c] by simp
next
  case (8 c ms mss)
  have "decode (cf_class c) (mk_reader (encode (cf_class c) ms [])) (new_message (cf_class c)) =
      Some (normalise (cf_class c) ms)"
    using 8(1) 8(3-5) wf_class_sub [of c] length_encode_sub_record [of c ms]
    by (intro decodes_self) (simp_all add: encode_sub_eq del: encode_subs.simps(2))
  moreover have "\<forall>ms \<in> set mss. decode (cf_class c) (mk_reader (encode (cf_class c) ms [])) (new_message (cf_class c)) =
      Some (normalise (cf_class c) ms)"
    using 8(2) 8(3-5) by (simp add: encode_sub_eq del: encode_subs.simps(2))
  ultimately show ?case by simp
qed (simp_all add: decodes_def)


section \<open>Every decoded object has the members of its class\<close>

lemma decode_convert_ok:
  "category_of ft \<notin> {CString, CBytes, CMessage} \<Longrightarrow> elem_ok ft (decode_convert_expr ft v)"
  by (cases ft) (simp_all add: elem_ok_def)

lemma elem_ok_string: "category_of ft = CString \<or> category_of ft = CBytes \<Longrightarrow> elem_ok ft (S s)"
  by (cases ft) (simp_all add: elem_ok_def)

lemma decode_packed_ok:
  "decode_packed ft r acc = Some vs \<Longrightarrow> category_of ft \<notin> {CString, CBytes, CMessage} \<Longrightarrow>
   list_all (elem_ok ft) acc \<Longrightarrow> list_all (elem_ok ft) vs"
proof (induction ft r acc rule: decode_packed.induct)
  case (1 ft r acc)
  then show ?case
    by (subst (asm) (2) decode_packed.simps) (auto simp: decode_convert_ok split: if_splits option.splits prod.splits)
qed

lemma decode_value_field_typed:
  assumes "typed_field c m" "decode_value_field c wt r m = Some (m', r')" "category_of (cf_type c) \<noteq> CMessage"
  shows "typed_field c m'"
proof (cases m)
  case (Repeated vs)
  with assms show ?thesis
    by (auto simp: decode_value_field_def Let_def elem_ok_string decode_convert_ok dest!: decode_packed_ok
        split: if_splits option.splits prod.splits)
qed (use assms in \<open>auto simp: decode_value_field_def Let_def elem_ok_string decode_convert_ok
        split: if_splits option.splits prod.splits\<close>)

lemma typed_new_message: "typed (cf_class c) (new_message (cf_class c))" "typed_field c (new_member c)"
proof -
  have "typed_field c (new_member c)" for c
  proof (induction c)
    case (ClassField f cls)
    then have "typed cls (map new_member cls)" by (simp add: typed_iff list_all2_map2 list_all2_same)
    then show ?case by (simp add: cf_type_def)
  qed
  then show "typed (cf_class c) (new_message (cf_class c))" "typed_field c (new_member c)"
    by (simp_all add: new_message_def typed_iff list_all2_map2 list_all2_same)
qed

lemma typed_update:
  "typed cs ms \<Longrightarrow> i < length cs \<Longrightarrow> typed_field (cs ! i) m \<Longrightarrow> typed cs (ms[i := m])"
  by (auto simp: typed_iff list_all2_conv_all_nth nth_list_update)

lemma typed_nth: "typed cs ms \<Longrightarrow> i < length cs \<Longrightarrow> typed_field (cs ! i) (ms ! i)"
  by (simp add: typed_iff list_all2_conv_all_nth)

lemma typed_sub_of: "typed_field c m \<Longrightarrow> category_of (cf_type c) = CMessage \<Longrightarrow> \<not> f_repeated (cf_field c) \<Longrightarrow>
    typed (cf_class c) (case m of Sub _ s \<Rightarrow> s | _ \<Rightarrow> [])"
  by (cases m) auto

lemma typed_subs_of: "typed_field c m \<Longrightarrow> category_of (cf_type c) = CMessage \<Longrightarrow> f_repeated (cf_field c) \<Longrightarrow>
    typed (cf_class c) s \<Longrightarrow> typed_field c (SubRepeated ((case m of SubRepeated mss \<Rightarrow> mss | _ \<Rightarrow> []) @ [s]))"
  by (cases m) (auto simp: typed_subs_iff)

lemma decode_typed: "decode cs r ms = Some ms' \<Longrightarrow> typed cs ms \<Longrightarrow> typed cs ms'"
proof (induction "length (rd_rest r)" arbitrary: cs r ms ms' rule: less_induct)
  case less
  note run = less.prems(1) [unfolded decode.simps [of cs r ms]] and t = less.prems(2)
  obtain tag r1 where tag: "read_tag r = (tag, r1)" by fastforce
  show ?case
  proof (cases tag)
    case None
    then show ?thesis using run t tag by (simp split: if_splits)
  next
    case (Some x)
    then obtain n wt where x: "read_tag r = (Some (n, wt), r1)" using tag by (cases x) auto
    note short = read_tag_shorter [OF x]
    have step: "typed cs ms'" if "decode cs r2 ms2 = Some ms'" "typed cs ms2" "length (rd_rest r2) < length (rd_rest r1)" for r2 ms2
      using less.hyps [of r2] that short by fastforce
    show ?thesis
    proof (cases "find_case cs n")
      case None
      then show ?thesis
        using run x t by (auto intro!: step dest: skip_field_shorter split: prod.splits if_splits)
    next
      case (Some i)
      let ?c = "cs ! i"
      note i = find_case_lt [OF Some]
      then have m: "typed_field ?c (ms ! i)" using typed_nth t by blast
      show ?thesis
      proof (cases "category_of (cf_type ?c) = CMessage")
        case False
        then obtain m' r2 where dv: "decode_value_field ?c wt r1 (ms ! i) = Some (m', r2)" "decode cs r2 (ms[i := m']) = Some ms'"
          using run x Some by (auto split: option.splits)
        then show ?thesis
          using step typed_update [OF t] i decode_value_field_typed [OF m dv(1) False] decode_value_field_advances by blast
      next
        case True
        then obtain sub r2 where sub: "r_sub_reader r1 = (Some sub, r2)"
          using run x Some by (auto split: option.splits prod.splits if_splits)
        note lens = r_sub_reader_shorter [OF sub] r_sub_reader_rest_shorter [OF sub]
        have inner: "typed (cf_class ?c) s'" if "decode (cf_class ?c) sub s = Some s'" "typed (cf_class ?c) s" for s s'
          using less.hyps [OF _ that] lens short by linarith
        show ?thesis
          using run x Some True sub inner typed_new_message(1) [of ?c] typed_sub_of [OF m True] typed_subs_of [OF m True]
          by (auto intro!: step [OF _ _ lens(2)] typed_update [OF t] split: if_splits option.splits simp: i)
      qed
    qed
  qed
qed

section \<open>Sender and receiver of different versions\<close>

definition received :: "msg_class \<Rightarrow> msg_class \<Rightarrow> message \<Rightarrow> message" where
  "received cs cs' ms' =
     map (\<lambda>c. case map_of (zip (map cf_no cs') ms') (cf_no c) of None \<Rightarrow> new_member c | Some m \<Rightarrow> m) cs"

lemma length_store_member [simp]: "length (store_member cs c m ms) = length ms"
  by (simp add: store_member_def split: option.splits)

lemma length_store_members [simp]: "length (store_members cs cs' ms' ms) = length ms"
  by (induction cs cs' ms' ms rule: store_members.induct) auto

lemma store_members_nth:
  assumes "distinct (map cf_no cs)" "distinct (map cf_no cs')" "length ms' = length cs'" "length ms = length cs" "i < length cs"
  shows "store_members cs cs' ms' ms ! i =
     (case map_of (zip (map cf_no cs') ms') (cf_no (cs ! i)) of None \<Rightarrow> ms ! i | Some m \<Rightarrow> m)"
  using assms(2-4)
proof (induction cs' arbitrary: ms' ms)
  case (Cons c cs')
  then obtain m ms1 where ms': "ms' = m # ms1" by (auto simp: length_Suc_conv)
  have stored: "store_member cs c m ms ! i = (if cf_no (cs ! i) = cf_no c then m else ms ! i)"
    using find_case_nth [OF assms(1,5)] find_case_lt [of cs "cf_no c"] assms(5) Cons.prems(3)
    by (auto simp: store_member_def nth_list_update split: option.splits)
  have none: "map_of (zip (map cf_no cs') ms1) (cf_no c) = None"
    using Cons.prems(1) by (auto simp: map_of_eq_None_iff dest!: set_zip_leftD)
  show ?case
    using Cons.IH [of ms1 "store_member cs c m ms"] Cons.prems by (simp add: ms' stored none cong: option.case_cong)
qed simp

lemma store_members_received:
  "wf_class cs \<Longrightarrow> wf_class cs' \<Longrightarrow> length ms' = length cs' \<Longrightarrow> store_members cs cs' ms' (new_message cs) = received cs cs' ms'"
  by (rule nth_equalityI)
    (simp_all add: received_def store_members_nth wf_class_def new_message_def cong: option.case_cong)

section \<open>A class with every kind of member\<close>

definition demo_field :: "string \<Rightarrow> field_type \<Rightarrow> int \<Rightarrow> bool \<Rightarrow> proto_field" where
  "demo_field name ft n rep = new_proto_field\<lparr>f_name := name, f_type := ft, f_number := n, f_repeated := rep\<rparr>"

definition demo_class :: msg_class where
  "demo_class =
     [ClassField (demo_field ''key'' FFixed32 1 False) [],
      ClassField (demo_field ''name'' FString 2 False) [],
      ClassField (demo_field ''offsets'' FSint32 3 True) [],
      ClassField (demo_field ''area'' FMessage 16 False) [ClassField (demo_field ''id'' FUint32 1 False) []],
      ClassField (demo_field ''modes'' FMessage 17 True) [ClassField (demo_field ''on'' FBool 2 False) []]]"

definition demo_message :: message where
  "demo_message =
     [Single (W32 0xDEADBEEF), Single (S [0x68, 0x69]), Repeated [W32 1, W32 (- 2)],
      Sub True [Single (W32 300)], SubRepeated [[Single (B True)], [Single (B False)]]]"

lemma demo_class_wf: "wf_class demo_class"
  by code_simp

lemma demo_typed: "typed demo_class demo_message"
  by code_simp

lemma demo_size: "calculate_size demo_class demo_message = 27"
  by code_simp

lemma demo_normal: "normalise demo_class demo_message = demo_message"
  by code_simp

section \<open>Properties\<close>

text \<open>
  C27: the size a message announces is the size it has: for every object of a generated class
  \<^verbatim>\<open>calculate_size\<close> is exactly the number of bytes \<^verbatim>\<open>encode\<close> appends, nested messages and packed fields included, so
  \<^verbatim>\<open>SerializeToArray\<close> with \<^verbatim>\<open>ByteSizeLong\<close> bytes always succeeds and any other size fails.
\<close>

theorem calculate_size_exact:
  assumes "typed cs ms"
  shows "encode cs ms w = w @ SerializeAsString cs ms \<and> length (SerializeAsString cs ms) = calculate_size cs ms \<and>
    SerializeToArray cs ms n = (if n = int (ByteSizeLong cs ms) then Some (SerializeAsString cs ms) else None)"
  using calculate_size_exact_all(1) [OF assms] encode_append(1) [of cs ms w]
  by (auto simp: SerializeAsString_def SerializeToArray_def ByteSizeLong_def Let_def)

theorem calculate_size_exact_witness:
  "typed demo_class demo_message \<and>
   SerializeToArray demo_class demo_message 27 = Some (SerializeAsString demo_class demo_message)"
  using calculate_size_exact [OF demo_typed, of "[]" 27] demo_typed by (simp add: ByteSizeLong_def demo_size)

text \<open>
  C24: a message of any generated class survives the wire: parsing its serialisation into a fresh object gives
  back every member, up to the sign of a singular floating-point zero and the contents of a sub-message that is
  marked absent, which are the only things not written.
\<close>

theorem message_roundtrip:
  assumes "wf_class cs" "typed cs ms" "ByteSizeLong cs ms < 2 ^ 31"
  shows "ParseFromArray cs (SerializeAsString cs ms) (int (ByteSizeLong cs ms)) (new_message cs) = Some (normalise cs ms)"
proof -
  have size: "ByteSizeLong cs ms = length (encode cs ms [])"
    using calculate_size_exact_all(1) [OF assms(2)] by (simp add: ByteSizeLong_def)
  then have "decodes cs ms" using encode_decodes_all(1) assms by simp
  then show ?thesis
    using decodes_self assms(1,2) by (simp add: ParseFromArray_def SerializeAsString_def size)
qed

theorem message_roundtrip_witness:
  "wf_class demo_class \<and> typed demo_class demo_message \<and> ByteSizeLong demo_class demo_message < 2 ^ 31 \<and>
   ParseFromArray demo_class (SerializeAsString demo_class demo_message) 27 (new_message demo_class) = Some demo_message"
  using message_roundtrip [OF demo_class_wf demo_typed] demo_class_wf demo_typed
  by (simp add: ByteSizeLong_def demo_size demo_normal)

text \<open>
  C25: sender and receiver may be of different versions: a receiver that knows only some of the sender's fields
  reads exactly those and passes over the others, and a field that only the receiver knows keeps its initial
  value, as long as a field number means the same field on both sides.
\<close>

theorem versions_compatible:
  assumes "wf_class cs" "wf_class cs'" "typed cs' ms'" "ByteSizeLong cs' ms' < 2 ^ 31"
    and "\<forall>c \<in> set cs. \<forall>c' \<in> set cs'. cf_no c = cf_no c' \<longrightarrow> c = c'"
  shows "decode cs (mk_reader (SerializeAsString cs' ms')) (new_message cs) = Some (received cs cs' (normalise cs' ms'))"
proof -
  have "decodes cs' ms'"
    using encode_decodes_all(1) assms(2-4) calculate_size_exact_all(1) [OF assms(3)] by (simp add: ByteSizeLong_def)
  moreover have "fresh_case cs (new_message cs) c'" if "c' \<in> set cs'" for c'
  proof -
    have "cs ! i = c' \<and> i < length cs" if "find_case cs (cf_no c') = Some i" for i
      using find_case_lt [OF that] assms(5) \<open>c' \<in> set cs'\<close> by auto
    then show ?thesis by (auto simp: fresh_case_def new_message_def)
  qed
  ultimately show ?thesis
    using store_members_received [OF assms(1,2)] assms(3)
    by (simp add: decodes_def list_all_iff SerializeAsString_def length_normalise)
qed

theorem versions_compatible_witness:
  "decode [demo_class ! 1, ClassField (demo_field ''icon'' FString 9 False) []]
     (mk_reader (SerializeAsString demo_class demo_message))
     (new_message [demo_class ! 1, ClassField (demo_field ''icon'' FString 9 False) []]) =
   Some [Single (S [0x68, 0x69]), Single (S [])]"
proof -
  let ?cs = "[demo_class ! 1, ClassField (demo_field ''icon'' FString 9 False) []]"
  have "wf_class ?cs" by code_simp
  moreover have "\<forall>c \<in> set ?cs. \<forall>c' \<in> set demo_class. cf_no c = cf_no c' \<longrightarrow> c = c'" by code_simp
  moreover have "received ?cs demo_class (normalise demo_class demo_message) = [Single (S [0x68, 0x69]), Single (S [])]"
    by code_simp
  ultimately show ?thesis
    using versions_compatible [of ?cs demo_class demo_message] demo_class_wf demo_typed
    by (simp add: ByteSizeLong_def demo_size)
qed

text \<open>
  C26: decoding is safe on any bytes: whatever a peer sends, \<^verbatim>\<open>decode\<close> ends, and if it reports success the object
  still has exactly the members of its class, each of its declared type, nested objects included.
\<close>

theorem decode_keeps_types:
  "ParseFromArray cs data n (new_message cs) = Some ms \<Longrightarrow> typed cs ms"
  using decode_typed typed_new_message(1) [of "ClassField f cs" for f]
  by (auto simp: ParseFromArray_def split: if_splits)

theorem decode_keeps_types_witness:
  "\<exists>ms. ParseFromArray demo_class [0x0D, 1, 0, 0, 0, 0x78, 5] 7 (new_message demo_class) = Some ms \<and> typed demo_class ms"
proof -
  have "ParseFromArray demo_class [0x0D, 1, 0, 0, 0, 0x78, 5] 7 (new_message demo_class) =
      Some (Single (W32 1) # tl (new_message demo_class))" by code_simp
  then show ?thesis using decode_keeps_types by blast
qed

text \<open>The sign of a zero is lost: the float \<open>-0.0\<close> counts as the default value and is not written.\<close>

theorem negative_zero_lost:
  "encode [ClassField (demo_field ''position'' FFloat 1 False) []] [Single (W32 0x80000000)] [] = []"
  by code_simp

end
