(* ===== verification/Proto_Lexer.thy ===== *)
theory Proto_Lexer
  imports ESP_Prelude
begin

text \<open>
  The tokenizer of the code generator (\<^verbatim>\<open>tools/protogen/lexer.cpp\<close>).  The position \<open>i\<close> of the source is the
  suffix of the text that starts there, so \<open>i + 1 < n\<close> is that the suffix has two characters.  A
  \<^verbatim>\<open>std::runtime_error\<close> is a value \<open>Inl\<close> with its message.
\<close>

section \<open>Characters\<close>

text \<open>The classification of \<^verbatim>\<open><cctype>\<close> in the C locale.\<close>

definition is_digit :: "char \<Rightarrow> bool" where
  "is_digit c = (48 \<le> (of_char c :: nat) \<and> (of_char c :: nat) \<le> 57)"

definition is_alpha :: "char \<Rightarrow> bool" where
  "is_alpha c = (65 \<le> (of_char c :: nat) \<and> (of_char c :: nat) \<le> 90 \<or> 97 \<le> (of_char c :: nat) \<and> (of_char c :: nat) \<le> 122)"

definition is_alnum :: "char \<Rightarrow> bool" where
  "is_alnum c = (is_alpha c \<or> is_digit c)"

definition is_space :: "char \<Rightarrow> bool" where
  "is_space c = (of_char c = (32 :: nat) \<or> 9 \<le> (of_char c :: nat) \<and> (of_char c :: nat) \<le> 13)"

definition newline :: char where "newline = CHR 0x0A"
definition tab :: char where "tab = CHR 0x09"
definition carriage_return :: char where "carriage_return = CHR 0x0D"
definition backslash :: char where "backslash = CHR 0x5C"
definition dquote :: char where "dquote = CHR 0x22"
definition squote :: char where "squote = CHR 0x27"

definition ident_start :: "char \<Rightarrow> bool" where
  "ident_start c = (is_alpha c \<or> c = CHR ''_'')"

definition ident_cont :: "char \<Rightarrow> bool" where
  "ident_cont c = (is_alnum c \<or> c = CHR ''_'' \<or> c = CHR ''.'')"

section \<open>Tokens\<close>

datatype tok_kind = Identifier | Number | StringLit | Symbol | End

record token =
  tk_kind :: tok_kind
  tk_text :: string
  tk_line :: nat

definition Token :: "tok_kind \<Rightarrow> string \<Rightarrow> nat \<Rightarrow> token" where
  "Token k t l = \<lparr>tk_kind = k, tk_text = t, tk_line = l\<rparr>"

definition lex_error :: "string \<Rightarrow> nat \<Rightarrow> string \<Rightarrow> string + 'a" where
  "lex_error filename line msg = Inl (filename @ '':'' @ to_string_nat line @ '': lexer: '' @ msg)"

section \<open>The inner loops\<close>

text \<open>The loop over a block comment stops on its end or with fewer than two characters left.\<close>

fun skip_block :: "string \<Rightarrow> nat \<Rightarrow> string \<times> nat" where
  "skip_block (a # b # cs) line =
     (if a = CHR ''*'' \<and> b = CHR ''/'' then (a # b # cs, line)
      else skip_block (b # cs) (if a = newline then line + 1 else line))"
| "skip_block cs line = (cs, line)"

definition escaped :: "char \<Rightarrow> char" where
  "escaped esc =
     (if esc = CHR ''n'' then newline
      else if esc = CHR ''t'' then tab
      else if esc = CHR ''r'' then carriage_return
      else esc)"

text \<open>The loop over a string literal stops on the closing quote or at the end of the text.\<close>

fun lex_string :: "char \<Rightarrow> string \<Rightarrow> nat \<Rightarrow> string \<Rightarrow> string \<times> nat \<times> string" where
  "lex_string quote [] line v = ([], line, v)"
| "lex_string quote [c] line v =
     (if c = quote then ([c], line, v)
      else ([], if c = newline then line + 1 else line, v @ [c]))"
| "lex_string quote (c # d # cs) line v =
     (if c = quote then (c # d # cs, line, v)
      else if c = backslash then lex_string quote cs line (v @ [escaped d])
      else lex_string quote (d # cs) (if c = newline then line + 1 else line) (v @ [c]))"

text \<open>The characters of a number from \<open>i\<close> on; \<open>prev\<close> is \<open>src[i - 1]\<close> when \<open>i > start\<close>.\<close>

fun number_span :: "char option \<Rightarrow> string \<Rightarrow> string" where
  "number_span prev [] = []"
| "number_span prev (c # cs) =
     (if is_alnum c \<or> c = CHR ''.'' \<or> c = CHR ''+'' \<or> c = CHR ''-''
      then (if (c = CHR ''+'' \<or> c = CHR ''-'') \<and> \<not> (prev = Some (CHR ''e'') \<or> prev = Some (CHR ''E''))
            then [] else c # number_span (Some c) cs)
      else [])"

definition lex_number :: "string \<Rightarrow> string" where
  "lex_number cs =
     (case cs of
        c # cs' \<Rightarrow> if c = CHR ''-'' then c # number_span (Some c) cs' else number_span None cs
      | [] \<Rightarrow> [])"

definition starts_number :: "string \<Rightarrow> bool" where
  "starts_number cs =
     (case cs of
        [] \<Rightarrow> False
      | c # cs' \<Rightarrow> is_digit c \<or> c = CHR ''-'' \<and> (case cs' of [] \<Rightarrow> False | d # _ \<Rightarrow> is_digit d))"

definition is_symbol_char :: "char \<Rightarrow> bool" where
  "is_symbol_char c = (c \<in> set ''{}[]()=;,<>.'')"

section \<open>The main loop\<close>

lemma length_skip_block: "skip_block cs line = (cs', line') \<Longrightarrow> length cs' \<le> length cs"
  by (induction cs line rule: skip_block.induct) (auto split: if_splits)

lemma length_lex_string: "lex_string q cs line v = (cs', line', v') \<Longrightarrow> length cs' \<le> length cs"
  by (induction q cs line v rule: lex_string.induct) (auto split: if_splits)

lemma length_number_span: "length (number_span p cs) \<le> length cs"
  by (induction p cs rule: number_span.induct) auto

lemma lex_number_nonempty:
  "starts_number (c # cs) \<Longrightarrow> 0 < length (lex_number (c # cs))"
  by (auto simp: starts_number_def lex_number_def is_alnum_def is_digit_def split: list.splits)

function lex_loop :: "string \<Rightarrow> string \<Rightarrow> nat \<Rightarrow> token list \<Rightarrow> string + token list" where
  "lex_loop filename [] line out = Inr (out @ [Token End [] line])"
| "lex_loop filename (c # cs) line out =
     (if c = newline then lex_loop filename cs (line + 1) out
      else if is_space c then lex_loop filename cs line out
      else if c = CHR ''/'' \<and> cs \<noteq> [] \<and> hd cs = CHR ''/''
        then lex_loop filename (dropWhile (\<lambda>d. d \<noteq> newline) (tl cs)) line out
      else if c = CHR ''/'' \<and> cs \<noteq> [] \<and> hd cs = CHR ''*''
        then (case skip_block (tl cs) line of
                (cs', line') \<Rightarrow>
                  if length cs' \<le> 1 then lex_error filename line' ''unterminated block comment''
                  else lex_loop filename (drop 2 cs') line' out)
      else if c = dquote \<or> c = squote
        then (case lex_string c cs line [] of
                (cs', line', v) \<Rightarrow>
                  if cs' = [] then lex_error filename line ''unterminated string literal''
                  else lex_loop filename (tl cs') line' (out @ [Token StringLit v line]))
      else if ident_start c
        then lex_loop filename (dropWhile ident_cont (c # cs)) line
               (out @ [Token Identifier (takeWhile ident_cont (c # cs)) line])
      else if starts_number (c # cs)
        then (let t = lex_number (c # cs)
              in lex_loop filename (drop (length t) (c # cs)) line (out @ [Token Number t line]))
      else if is_symbol_char c then lex_loop filename cs line (out @ [Token Symbol [c] line])
      else lex_error filename line (''unexpected character '' @ [squote, c, squote]))"
  by pat_completeness auto

lemma ident_start_cont: "ident_start c \<Longrightarrow> ident_cont c"
  by (auto simp: ident_start_def ident_cont_def is_alnum_def)

lemma length_dropWhile_lt: "P c \<Longrightarrow> length (dropWhile P (c # cs)) < Suc (length cs)"
  using length_dropWhile_le [of P cs] by (simp add: le_imp_less_Suc)

lemma length_dropWhile_tl: "length (dropWhile P (tl cs)) < Suc (length cs)"
  using length_dropWhile_le [of P "tl cs"] by simp

termination lex_loop
  apply (relation "measure (\<lambda>(filename, cs, line, out). length cs)")
           apply simp_all
  subgoal by (simp add: length_dropWhile_tl)
  subgoal by (force dest: length_skip_block [OF sym])
  subgoal by (force dest: length_lex_string [OF sym])
  subgoal by (force simp: ident_start_cont intro: le_imp_less_Suc length_dropWhile_le)
  subgoal using lex_number_nonempty by force
  done

declare lex_loop.simps(2) [simp del]

definition lex :: "string \<Rightarrow> string \<Rightarrow> string + token list" where
  "lex src filename = lex_loop filename src 1 []"

section \<open>Tokens and their text\<close>

definition token_ok :: "token \<Rightarrow> bool" where
  "token_ok t =
     (case tk_kind t of
        Identifier \<Rightarrow> tk_text t \<noteq> [] \<and> ident_start (hd (tk_text t)) \<and> list_all ident_cont (tk_text t)
      | Number \<Rightarrow> starts_number (tk_text t) \<and> lex_number (tk_text t) = tk_text t
      | StringLit \<Rightarrow> True
      | Symbol \<Rightarrow> length (tk_text t) = 1 \<and> is_symbol_char (hd (tk_text t))
      | End \<Rightarrow> False)"

definition quote_char :: "char \<Rightarrow> string" where
  "quote_char c =
     (if c = newline then [backslash, CHR ''n'']
      else if c = dquote \<or> c = backslash then [backslash, c] else [c])"

definition render_token :: "token \<Rightarrow> string" where
  "render_token t =
     (if tk_kind t = StringLit then dquote # concat (map quote_char (tk_text t)) @ [dquote] else tk_text t) @ '' ''"

lemma number_span_prefix: "number_span p (number_span p cs) = number_span p cs"
  by (induction p cs rule: number_span.induct) auto

lemma number_span_space: "number_span p (cs @ CHR '' '' # rest) = number_span p cs"
  by (induction p cs rule: number_span.induct) (auto simp: is_alnum_def is_alpha_def is_digit_def)

lemma number_span_take: "take (length (number_span p cs)) cs = number_span p cs"
  by (induction p cs rule: number_span.induct) auto

lemma lex_number_take: "take (length (lex_number cs)) cs = lex_number cs"
  by (cases cs) (auto simp: lex_number_def number_span_take simp del: number_span.simps)

lemma lex_number_space: "cs \<noteq> [] \<Longrightarrow> lex_number (cs @ CHR '' '' # rest) = lex_number cs"
  using number_span_space [of None cs rest]
  by (cases cs) (auto simp: lex_number_def number_span_space simp del: number_span.simps)

lemma starts_number_head: "starts_number (c # cs) \<Longrightarrow> is_digit c \<or> c = CHR ''-''"
  by (auto simp: starts_number_def split: list.splits)

lemma starts_number_space: "cs \<noteq> [] \<Longrightarrow> starts_number (cs @ CHR '' '' # rest) = starts_number cs"
  by (cases cs; cases "tl cs") (auto simp: starts_number_def is_digit_def split: list.splits)

lemma lex_number_ok:
  assumes "starts_number (c # cs)"
  shows "starts_number (lex_number (c # cs)) \<and> lex_number (lex_number (c # cs)) = lex_number (c # cs)"
proof (cases "c = CHR ''-''")
  case True
  then obtain d ds where "cs = d # ds" "is_digit d"
    using assms by (cases cs) (auto simp: starts_number_def is_digit_def)
  then show ?thesis
    using True by (auto simp: lex_number_def starts_number_def number_span_prefix is_alnum_def is_digit_def)
next
  case False
  then have c: "is_digit c" using starts_number_head [OF assms] by simp
  then have "c \<noteq> CHR ''+''" by (auto simp: is_digit_def)
  with False c show ?thesis
    by (simp add: lex_number_def starts_number_def number_span_prefix is_alnum_def)
qed

text \<open>The classes of first characters are disjoint.\<close>

lemmas char_class_defs = newline_def tab_def carriage_return_def backslash_def dquote_def squote_def is_space_def
  ident_start_def is_alpha_def is_digit_def is_symbol_char_def

lemma ident_start_class:
  "ident_start c \<Longrightarrow> c \<noteq> newline \<and> \<not> is_space c \<and> c \<noteq> CHR ''/'' \<and> c \<noteq> dquote \<and> c \<noteq> squote"
  by (auto simp: char_class_defs)

lemma number_class:
  "is_digit c \<or> c = CHR ''-'' \<Longrightarrow>
   c \<noteq> newline \<and> \<not> is_space c \<and> c \<noteq> CHR ''/'' \<and> c \<noteq> dquote \<and> c \<noteq> squote \<and> \<not> ident_start c"
  by (auto simp: char_class_defs)

lemma symbol_class:
  "is_symbol_char c \<Longrightarrow>
   c \<noteq> newline \<and> \<not> is_space c \<and> c \<noteq> CHR ''/'' \<and> c \<noteq> dquote \<and> c \<noteq> squote \<and> \<not> ident_start c \<and> \<not> is_digit c \<and> c \<noteq> CHR ''-''"
  by (auto simp: char_class_defs)

lemma lex_space: "lex_loop fn (CHR '' '' # cs) line out = lex_loop fn cs line out"
  by (subst lex_loop.simps) (simp add: newline_def is_space_def)

lemma lex_string_quoted:
  "lex_string dquote (concat (map quote_char s) @ dquote # cs) line v = (dquote # cs, line, v @ s)"
proof (induction s arbitrary: v)
  case Nil
  then show ?case by (cases cs) simp_all
next
  case (Cons c s)
  obtain d ds where rest: "concat (map quote_char s) @ dquote # cs = d # ds"
    by (cases "concat (map quote_char s) @ dquote # cs") auto
  have q: "backslash \<noteq> dquote" "escaped (CHR ''n'') = newline" "escaped dquote = dquote" "escaped backslash = backslash"
    by (simp_all add: char_class_defs escaped_def)
  have step: "lex_string dquote (quote_char c @ d # ds) line v = lex_string dquote (d # ds) line (v @ [c])"
    using q by (simp add: quote_char_def)
  show ?case
    using Cons [of "v @ [c]"] by (simp only: list.map concat.simps append.assoc rest step) simp
qed

lemma token_line: "t\<lparr>tk_line := l\<rparr> = Token (tk_kind t) (tk_text t) l"
  by (simp add: Token_def)

lemma lex_render:
  assumes "token_ok t"
  shows "lex_loop fn (render_token t @ rest) line out = lex_loop fn rest line (out @ [t\<lparr>tk_line := line\<rparr>])"
proof (cases "tk_kind t")
  case Identifier
  then obtain c cs where t: "tk_text t = c # cs" "ident_start c" "list_all ident_cont (c # cs)"
    using assms by (cases "tk_text t") (auto simp: token_ok_def)
  have "\<not> ident_cont (CHR '' '')" by (simp add: ident_cont_def is_alnum_def char_class_defs)
  then have "takeWhile ident_cont (c # cs @ CHR '' '' # rest) = c # cs" "dropWhile ident_cont (c # cs @ CHR '' '' # rest) = CHR '' '' # rest"
    using t(3) by (simp_all add: list_all_iff)
  then show ?thesis
    using t(2) ident_start_class [OF t(2)] Identifier
    by (simp add: render_token_def t(1) lex_loop.simps(2) [of fn c] lex_space token_line del: takeWhile.simps dropWhile.simps)
next
  case Number
  then obtain c cs where t: "tk_text t = c # cs" "starts_number (c # cs)" "lex_number (c # cs) = c # cs"
    using assms by (cases "tk_text t") (auto simp: token_ok_def starts_number_def)
  have "lex_number (c # cs @ CHR '' '' # rest) = c # cs" "starts_number (c # cs @ CHR '' '' # rest)"
    using lex_number_space [of "c # cs" rest] starts_number_space [of "c # cs" rest] t(2,3) by simp_all
  then show ?thesis
    using number_class [OF starts_number_head [OF t(2)]] Number
    by (simp add: render_token_def t(1) lex_loop.simps(2) [of fn c] lex_space token_line Let_def)
next
  case StringLit
  have "dquote \<noteq> newline" "\<not> is_space dquote" "dquote \<noteq> CHR ''/''" by (simp_all add: char_class_defs)
  then show ?thesis
    using StringLit lex_string_quoted [of "tk_text t" "CHR '' '' # rest" line "[]"]
    by (simp add: render_token_def lex_loop.simps(2) [of fn dquote] lex_space token_line)
next
  case Symbol
  then obtain c where t: "tk_text t = [c]" "is_symbol_char c"
    using assms by (cases "tk_text t") (auto simp: token_ok_def)
  have "\<not> starts_number (c # CHR '' '' # rest)"
    using symbol_class [OF t(2)] by (auto simp: starts_number_def)
  then show ?thesis
    using symbol_class [OF t(2)] t(2) Symbol
    by (simp add: render_token_def t(1) lex_loop.simps(2) [of fn c] lex_space token_line)
qed (use assms in \<open>simp add: token_ok_def\<close>)

lemma lex_render_all:
  "list_all token_ok ts \<Longrightarrow>
   lex_loop fn (concat (map render_token ts)) line out = Inr (out @ map (\<lambda>t. t\<lparr>tk_line := line\<rparr>) ts @ [Token End [] line])"
  by (induction ts arbitrary: out) (simp_all add: lex_render)

section \<open>What the lexer delivers\<close>

definition tokens_ok :: "token list \<Rightarrow> bool" where
  "tokens_ok ts = (ts \<noteq> [] \<and> tk_kind (last ts) = End \<and> list_all token_ok (butlast ts))"

lemma token_ok_ident: "ident_start c \<Longrightarrow> token_ok (Token Identifier (takeWhile ident_cont (c # cs)) line)"
  by (auto simp: token_ok_def Token_def ident_start_cont list_all_iff dest: set_takeWhileD)

lemma token_ok_number: "starts_number (c # cs) \<Longrightarrow> token_ok (Token Number (lex_number (c # cs)) line)"
  using lex_number_ok [of c cs] by (simp add: token_ok_def Token_def)

lemma token_ok_other: "token_ok (Token StringLit v line)" "is_symbol_char c \<Longrightarrow> token_ok (Token Symbol [c] line)"
  by (simp_all add: token_ok_def Token_def)

lemma lex_loop_ok:
  "lex_loop fn cs line out = Inr ts \<Longrightarrow> list_all token_ok out \<Longrightarrow> tokens_ok ts"
proof (induction "length cs" arbitrary: cs line out rule: less_induct)
  case less
  show ?case
  proof (cases cs)
    case Nil
    then show ?thesis using less.prems by (auto simp: tokens_ok_def Token_def)
  next
    case (Cons c cs')
    have step: "tokens_ok ts" if "lex_loop fn ds l (out @ new) = Inr ts" "length ds \<le> length cs'" "list_all token_ok new" for ds l new
      using less.hyps [OF _ that(1)] that(2,3) less.prems(2) Cons by simp
    have step0: "tokens_ok ts" if "lex_loop fn ds l out = Inr ts" "length ds \<le> length cs'" for ds l
      using step [of ds l "[]"] that by simp
    have step1: "tokens_ok ts" if "lex_loop fn ds l (out @ [t]) = Inr ts" "length ds \<le> length cs'" "token_ok t" for ds l t
      using step [of ds l "[t]"] that by simp
    have drops: "length (dropWhile (\<lambda>d. d \<noteq> newline) (tl cs')) \<le> length cs'"
      "ident_start c \<Longrightarrow> length (dropWhile ident_cont (c # cs')) \<le> length cs'"
      "starts_number (c # cs') \<Longrightarrow> length (drop (length (lex_number (c # cs'))) (c # cs')) \<le> length cs'"
      using length_dropWhile_tl [of "\<lambda>d. d \<noteq> newline" cs'] length_dropWhile_le [of ident_cont cs'] ident_start_cont [of c]
        lex_number_nonempty [of c cs'] by (simp_all add: less_Suc_eq_le del: length_greater_0_conv)
    show ?thesis
      using less.prems(1) unfolding Cons lex_loop.simps(2) Let_def lex_error_def
      by (auto simp del: takeWhile.simps dropWhile.simps drop.simps
          elim!: step0 step1 intro!: token_ok_ident token_ok_number token_ok_other drops
          dest!: length_skip_block length_lex_string split: if_splits prod.splits)
  qed
qed


section \<open>Properties\<close>

definition demo_tokens :: "token list" where
  "demo_tokens = [Token Identifier ''message'' 1, Token Identifier ''A.b'' 1, Token Symbol ''{'' 1,
     Token Number ''-12e+3'' 1, Token StringLit [newline, dquote, backslash] 1]"

text \<open>
  The tokenizer reads back any sequence of tokens: identifiers, numbers and symbols separated by blanks
  and string literals with their quotes, backslashes and line breaks escaped come out as the same tokens,
  followed by the end marker.
\<close>

theorem lex_roundtrip:
  assumes "list_all (\<lambda>t. token_ok t \<and> tk_line t = 1) ts"
  shows "lex (concat (map render_token ts)) filename = Inr (ts @ [Token End [] 1])"
proof -
  have "map (\<lambda>t. t\<lparr>tk_line := 1\<rparr>) ts = ts"
    using assms by (intro map_idI) (simp add: list_all_iff)
  then show ?thesis
    using lex_render_all [of ts filename 1 "[]"] assms by (simp add: lex_def list_all_iff)
qed

theorem lex_roundtrip_witness:
  "lex (concat (map render_token demo_tokens)) ''a.proto'' = Inr (demo_tokens @ [Token End [] 1])"
  by (rule lex_roundtrip) code_simp

text \<open>
  On any text the tokenizer ends, and if it reports no error the result is a sequence of well-formed tokens
  closed by exactly one end marker, which is what the parser's unchecked look-ahead relies on.
\<close>

theorem lex_tokens_ok: "lex src filename = Inr ts \<Longrightarrow> tokens_ok ts"
  using lex_loop_ok [of filename src 1 "[]"] by (simp add: lex_def)

theorem lex_tokens_ok_witness:
  "lex ''a /* b */ = 3; // c'' ''a.proto'' =
     Inr [Token Identifier ''a'' 1, Token Symbol ''='' 1, Token Number ''3'' 1, Token Symbol '';'' 1, Token End [] 1] \<and>
   tokens_ok [Token Identifier ''a'' 1, Token Symbol ''='' 1, Token Number ''3'' 1, Token Symbol '';'' 1, Token End [] 1]"
proof -
  have "lex ''a /* b */ = 3; // c'' ''a.proto'' =
     Inr [Token Identifier ''a'' 1, Token Symbol ''='' 1, Token Number ''3'' 1, Token Symbol '';'' 1, Token End [] 1]"
    by code_simp
  then show ?thesis using lex_tokens_ok by blast
qed

end
