(* ===== verification/Proto_Parser.thy ===== *)
theory Proto_Parser
  imports Proto_Lexer Proto_Model
begin

text \<open>
  The recursive-descent parser of the code generator (\<^verbatim>\<open>tools/protogen/parser.cpp\<close>).  The parser's position is
  the list of the tokens from \<open>pos_\<close> on; a parsing method maps it to its result and the tokens after it.
  \<^verbatim>\<open>toks_[pos_]\<close> is unchecked, so looking at the empty list is a read past the vector and has the value
  \<open>Out_of_range\<close>, which no input of the lexer leads to.
\<close>

datatype parse_error = Runtime_error string | Out_of_range

type_synonym 'a parser = "token list \<Rightarrow> parse_error + ('a \<times> token list)"

definition p_return :: "'a \<Rightarrow> 'a parser" where
  "p_return x ts = Inr (x, ts)"

definition p_bind :: "'a parser \<Rightarrow> ('a \<Rightarrow> 'b parser) \<Rightarrow> 'b parser" where
  "p_bind p f ts = (case p ts of Inl e \<Rightarrow> Inl e | Inr (x, ts') \<Rightarrow> f x ts')"

definition p_then :: "'a parser \<Rightarrow> 'b parser \<Rightarrow> 'b parser" where
  "p_then p q = p_bind p (\<lambda>_. q)"

section \<open>Looking at the next token\<close>

definition peek :: "(token \<Rightarrow> 'a parser) \<Rightarrow> 'a parser" where
  "peek f ts = (case ts of [] \<Rightarrow> Inl Out_of_range | t # _ \<Rightarrow> f t ts)"

definition advance :: "token parser" where
  "advance ts = (case ts of [] \<Rightarrow> Inl Out_of_range | t # ts' \<Rightarrow> Inr (t, ts'))"

definition at_end :: "token \<Rightarrow> bool" where
  "at_end t = (tk_kind t = End)"

definition is_ident :: "string \<Rightarrow> token \<Rightarrow> bool" where
  "is_ident s t = (tk_kind t = Identifier \<and> tk_text t = s)"

definition is_symbol :: "char \<Rightarrow> token \<Rightarrow> bool" where
  "is_symbol c t = (tk_kind t = Symbol \<and> tk_text t = [c])"

definition p_error :: "string \<Rightarrow> string \<Rightarrow> 'a parser" where
  "p_error filename msg =
     peek (\<lambda>t ts. Inl (Runtime_error (filename @ '':'' @ to_string_nat (tk_line t) @ '': parser: '' @ msg @
       '' (got '' @ [squote] @ tk_text t @ [squote] @ '')'')))"

definition expect_symbol :: "string \<Rightarrow> char \<Rightarrow> unit parser" where
  "expect_symbol fn c =
     peek (\<lambda>t. if \<not> is_symbol c t then p_error fn (''expected '' @ [squote, c, squote])
               else p_then advance (p_return ()))"

definition expect_identifier :: "string \<Rightarrow> string parser" where
  "expect_identifier fn =
     peek (\<lambda>t. if tk_kind t \<noteq> Identifier then p_error fn ''expected identifier''
               else p_bind advance (\<lambda>t. p_return (tk_text t)))"

section \<open>Integers\<close>

text \<open>
  \<^verbatim>\<open>std::stoll(text, nullptr, 0)\<close>: blanks, a sign, a prefix that selects the base, then the longest run of
  digits; what follows is ignored.  \<open>None\<close> is the exception, for no digits or a value out of range.
\<close>

definition digit_value :: "char \<Rightarrow> nat" where
  "digit_value c =
     (let n = (of_char c :: nat)
      in if is_digit c then n - 48 else if 97 \<le> n \<and> n \<le> 122 then n - 87
         else if 65 \<le> n \<and> n \<le> 90 then n - 55 else 99)"

fun digits_value :: "nat \<Rightarrow> string \<Rightarrow> nat \<Rightarrow> nat" where
  "digits_value base [] acc = acc"
| "digits_value base (c # cs) acc =
     (if digit_value c < base then digits_value base cs (acc * base + digit_value c) else acc)"

definition stoll_magnitude :: "string \<Rightarrow> nat option" where
  "stoll_magnitude cs =
     (case cs of
        [] \<Rightarrow> None
      | c # cs' \<Rightarrow>
          if \<not> is_digit c then None
          else if c = CHR ''0'' then
            (case cs' of
               x # d # ds \<Rightarrow>
                 if (x = CHR ''x'' \<or> x = CHR ''X'') \<and> digit_value d < 16 then Some (digits_value 16 (d # ds) 0)
                 else Some (digits_value 8 cs 0)
             | _ \<Rightarrow> Some (digits_value 8 cs 0))
          else Some (digits_value 10 cs 0))"

definition stoll :: "string \<Rightarrow> int option" where
  "stoll text =
     (let cs = dropWhile is_space text;
          neg = (cs \<noteq> [] \<and> hd cs = CHR ''-'');
          ds = (if cs \<noteq> [] \<and> (hd cs = CHR ''-'' \<or> hd cs = CHR ''+'') then tl cs else cs)
      in case stoll_magnitude ds of
           None \<Rightarrow> None
         | Some n \<Rightarrow>
             (let v = (if neg then - int n else int n)
              in if - (2 ^ 63) \<le> v \<and> v < 2 ^ 63 then Some v else None))"

definition parse_integer :: "string \<Rightarrow> int parser" where
  "parse_integer fn =
     peek (\<lambda>t. if tk_kind t \<noteq> Number then p_error fn ''expected integer''
               else p_bind advance (\<lambda>t.
                 case stoll (tk_text t) of
                   Some v \<Rightarrow> p_return v
                 | None \<Rightarrow> p_error fn (''invalid integer '' @ [squote] @ tk_text t @ [squote])))"

definition parse_bool :: "string \<Rightarrow> bool parser" where
  "parse_bool fn =
     peek (\<lambda>t. if is_ident ''true'' t then p_then advance (p_return True)
               else if is_ident ''false'' t then p_then advance (p_return False)
               else p_error fn ''expected true/false'')"

section \<open>Skipping\<close>

text \<open>The loop of \<open>skip_braced_block\<close> with \<open>depth > 0\<close> blocks open.\<close>

fun skip_braces_loop :: "string \<Rightarrow> nat \<Rightarrow> unit parser" where
  "skip_braces_loop fn depth [] = (if depth = 0 then Inr ((), []) else Inl Out_of_range)"
| "skip_braces_loop fn depth (t # ts) =
     (if depth = 0 then Inr ((), t # ts)
      else if at_end t then p_error fn ''unterminated block'' (t # ts)
      else skip_braces_loop fn
             (if is_symbol (CHR ''{'') t then depth + 1 else if is_symbol (CHR ''}'') t then depth - 1 else depth) ts)"

definition skip_braced_block :: "string \<Rightarrow> unit parser" where
  "skip_braced_block fn = p_then (expect_symbol fn (CHR ''{'')) (skip_braces_loop fn 1)"

text \<open>
  The \<^verbatim>\<open>do\<close> loop of \<open>skip_balanced\<close>.  Its depth is 0 only before the first token, which opens a block, so
  it never decreases below 0.
\<close>

fun skip_balanced_loop :: "string \<Rightarrow> char \<Rightarrow> char \<Rightarrow> int \<Rightarrow> unit parser" where
  "skip_balanced_loop fn open close depth [] = Inl Out_of_range"
| "skip_balanced_loop fn open close depth (t # ts) =
     (if at_end t then p_error fn ''unterminated block'' (t # ts)
      else let d = (if is_symbol open t then depth + 1 else if is_symbol close t then depth - 1 else depth)
           in if d > 0 then skip_balanced_loop fn open close d ts else Inr ((), ts))"

definition skip_balanced :: "string \<Rightarrow> unit parser" where
  "skip_balanced fn =
     peek (\<lambda>t. let open = hd (tk_text t); close = (if open = CHR ''{'' then CHR ''}'' else CHR '']'')
               in skip_balanced_loop fn open close 0)"

definition skip_option_value :: "string \<Rightarrow> unit parser" where
  "skip_option_value fn =
     peek (\<lambda>t. if is_symbol (CHR ''{'') t then skip_braced_block fn
               else if tk_kind t = StringLit \<or> tk_kind t = Number \<or> tk_kind t = Identifier
               then p_then advance (p_return ())
               else p_error fn ''expected option value'')"

text \<open>
  The \<^verbatim>\<open>do\<close> loop over the options of an enum value: the condition is tested after the first round only, and the
  loop stops quietly on the end marker.
\<close>

fun skip_options_loop :: "bool \<Rightarrow> int \<Rightarrow> unit parser" where
  "skip_options_loop first depth [] = (if \<not> first \<and> depth \<le> 0 then Inr ((), []) else Inl Out_of_range)"
| "skip_options_loop first depth (t # ts) =
     (if \<not> first \<and> (depth \<le> 0 \<or> at_end t) then Inr ((), t # ts)
      else skip_options_loop False
             (if is_symbol (CHR ''['') t then depth + 1 else if is_symbol (CHR '']'') t then depth - 1 else depth) ts)"

definition skip_field_options_if_present :: "unit parser" where
  "skip_field_options_if_present =
     peek (\<lambda>t. if is_symbol (CHR ''['') t then skip_options_loop True 0 else p_return ())"

subsection \<open>Every loop consumes tokens\<close>

definition shrinks :: "'a parser \<Rightarrow> bool" where
  "shrinks p \<longleftrightarrow> (\<forall>ts x ts'. p ts = Inr (x, ts') \<longrightarrow> length ts' < length ts)"

definition keeps_tokens :: "'a parser \<Rightarrow> bool" where
  "keeps_tokens p \<longleftrightarrow> (\<forall>ts x ts'. p ts = Inr (x, ts') \<longrightarrow> length ts' \<le> length ts)"

lemma skip_balanced_loop_shrinks: "skip_balanced_loop fn a b d ts = Inr (x, ts') \<Longrightarrow> length ts' < length ts"
  by (induction fn a b d ts rule: skip_balanced_loop.induct)
    (fastforce simp: Let_def p_error_def peek_def split: if_splits)+

lemma skip_balanced_shrinks: "skip_balanced fn ts = Inr (x, ts') \<Longrightarrow> length ts' < length ts"
  by (cases ts) (auto simp: skip_balanced_def peek_def Let_def simp del: skip_balanced_loop.simps
      dest: skip_balanced_loop_shrinks)

function skip_until_semicolon :: "string \<Rightarrow> unit parser" where
  "skip_until_semicolon fn [] = Inl Out_of_range"
| "skip_until_semicolon fn (t # ts) =
     (if is_symbol (CHR '';'') t then Inr ((), ts)
      else if at_end t then p_error fn (''expected '' @ [squote, CHR '';'', squote]) (t # ts)
      else if is_symbol (CHR ''{'') t \<or> is_symbol (CHR ''['') t
      then (case skip_balanced fn (t # ts) of Inl e \<Rightarrow> Inl e | Inr (_, ts') \<Rightarrow> skip_until_semicolon fn ts')
      else skip_until_semicolon fn ts)"
  by pat_completeness auto
termination
  by (relation "measure (\<lambda>(fn, ts). length ts)") (auto dest: skip_balanced_shrinks)


text \<open>The parsers that always consume a token, and those that never give one back.\<close>

named_theorems token_intros \<open>parsers that consume tokens\<close>

lemma shrinksD: "shrinks p \<Longrightarrow> p ts = Inr (x, ts') \<Longrightarrow> length ts' < length ts"
  by (simp add: shrinks_def)

lemma keeps_tokensD: "keeps_tokens p \<Longrightarrow> p ts = Inr (x, ts') \<Longrightarrow> length ts' \<le> length ts"
  by (simp add: keeps_tokens_def)

lemma shrinks_keeps: "shrinks p \<Longrightarrow> keeps_tokens p"
  by (simp add: shrinks_def keeps_tokens_def less_imp_le)

lemma error_never [simp]: "p_error fn msg ts \<noteq> Inr y"
  by (simp add: p_error_def peek_def split: list.splits)

lemma token_basic [token_intros]:
  "keeps_tokens (p_return x)" "shrinks (p_error fn msg)" "keeps_tokens (p_error fn msg)" "shrinks advance" "keeps_tokens advance"
  by (auto simp: keeps_tokens_def shrinks_def p_return_def advance_def split: list.splits)

lemma keeps_bind [token_intros]: "keeps_tokens p \<Longrightarrow> (\<And>x. keeps_tokens (f x)) \<Longrightarrow> keeps_tokens (p_bind p f)"
  by (fastforce simp: keeps_tokens_def p_bind_def split: sum.splits prod.splits)

lemma shrinks_bind_left [token_intros]: "shrinks p \<Longrightarrow> (\<And>x. keeps_tokens (f x)) \<Longrightarrow> shrinks (p_bind p f)"
  by (fastforce simp: shrinks_def keeps_tokens_def p_bind_def split: sum.splits prod.splits)

lemma shrinks_bind_right: "keeps_tokens p \<Longrightarrow> (\<And>x. shrinks (f x)) \<Longrightarrow> shrinks (p_bind p f)"
  by (fastforce simp: shrinks_def keeps_tokens_def p_bind_def split: sum.splits prod.splits)

lemma token_then [token_intros]:
  "shrinks p \<Longrightarrow> keeps_tokens q \<Longrightarrow> shrinks (p_then p q)"
  "keeps_tokens p \<Longrightarrow> keeps_tokens q \<Longrightarrow> keeps_tokens (p_then p q)"
  by (simp_all add: p_then_def shrinks_bind_left keeps_bind)

lemma token_peek [token_intros]:
  "(\<And>t. shrinks (f t)) \<Longrightarrow> shrinks (peek f)" "(\<And>t. keeps_tokens (f t)) \<Longrightarrow> keeps_tokens (peek f)"
  unfolding shrinks_def keeps_tokens_def peek_def by (simp_all split: list.splits) fastforce+

lemma token_if [token_intros]:
  "(b \<Longrightarrow> shrinks p) \<Longrightarrow> (\<not> b \<Longrightarrow> shrinks q) \<Longrightarrow> shrinks (if b then p else q)"
  "(b \<Longrightarrow> keeps_tokens p) \<Longrightarrow> (\<not> b \<Longrightarrow> keeps_tokens q) \<Longrightarrow> keeps_tokens (if b then p else q)"
  by simp_all

lemma token_case [token_intros]:
  "keeps_tokens p \<Longrightarrow> (\<And>x. keeps_tokens (f x)) \<Longrightarrow> keeps_tokens (case v of None \<Rightarrow> p | Some x \<Rightarrow> f x)"
  "(\<And>x y. keeps_tokens (g x y)) \<Longrightarrow> keeps_tokens (case z of (x, y) \<Rightarrow> g x y)"
  by (simp_all split: option.splits prod.splits)

lemma shrinks_expect_symbol [token_intros]: "shrinks (expect_symbol fn c)"
  unfolding expect_symbol_def by (intro token_intros)

lemma shrinks_expect_identifier [token_intros]: "shrinks (expect_identifier fn)"
  unfolding expect_identifier_def by (intro token_intros)

lemma shrinks_parse_integer [token_intros]: "shrinks (parse_integer fn)"
  unfolding parse_integer_def by (intro token_intros)

lemma shrinks_parse_bool [token_intros]: "shrinks (parse_bool fn)"
  unfolding parse_bool_def by (intro token_intros)

lemma keeps_skip_braces_loop [token_intros]: "keeps_tokens (skip_braces_loop fn d)"
proof -
  have "skip_braces_loop fn d ts = Inr (x, ts') \<Longrightarrow> length ts' \<le> length ts" for ts x ts'
    by (induction fn d ts rule: skip_braces_loop.induct) (fastforce split: if_splits)+
  then show ?thesis by (simp add: keeps_tokens_def)
qed

lemma shrinks_skip_braced_block [token_intros]: "shrinks (skip_braced_block fn)"
  unfolding skip_braced_block_def by (intro token_intros)

lemma shrinks_skip_option_value [token_intros]: "shrinks (skip_option_value fn)"
  unfolding skip_option_value_def by (intro token_intros)

lemma shrinks_skip_until_semicolon [token_intros]: "shrinks (skip_until_semicolon fn)"
proof -
  have "skip_until_semicolon fn ts = Inr (x, ts') \<Longrightarrow> length ts' < length ts" for ts x ts'
  proof (induction fn ts rule: skip_until_semicolon.induct)
    case (2 fn t ts)
    then show ?case
      by (auto dest!: skip_balanced_shrinks split: if_splits sum.splits prod.splits) (force intro: less_trans)+
  qed simp
  then show ?thesis by (simp add: shrinks_def)
qed

lemma keeps_skip_field_options [token_intros]: "keeps_tokens skip_field_options_if_present"
proof -
  have "skip_options_loop b d ts = Inr (x, ts') \<Longrightarrow> length ts' \<le> length ts" for b d ts x ts'
    by (induction b d ts rule: skip_options_loop.induct) (fastforce split: if_splits)+
  then have [token_intros]: "keeps_tokens (skip_options_loop b d)" for b d by (simp add: keeps_tokens_def)
  show ?thesis unfolding skip_field_options_if_present_def by (intro token_intros)
qed

lemmas shrinking_keeps [token_intros] = shrinks_expect_symbol [THEN shrinks_keeps] shrinks_expect_identifier [THEN shrinks_keeps]
  shrinks_parse_integer [THEN shrinks_keeps] shrinks_parse_bool [THEN shrinks_keeps]
  shrinks_skip_option_value [THEN shrinks_keeps] shrinks_skip_until_semicolon [THEN shrinks_keeps]

section \<open>Fields and messages\<close>

text \<open>One round of the loop over the options of a field.\<close>

definition parse_field_option :: "string \<Rightarrow> proto_field \<Rightarrow> proto_field parser" where
  "parse_field_option fn f =
     peek (\<lambda>t. p_bind
       (if is_symbol (CHR ''('') t
        then p_then advance
               (p_bind (expect_identifier fn) (\<lambda>name.
                  p_then (expect_symbol fn (CHR '')'')) (p_return (True, name))))
        else p_bind (expect_identifier fn) (\<lambda>name. p_return (False, name)))
       (\<lambda>(parenthesized, name).
          p_then (expect_symbol fn (CHR ''=''))
            (p_bind
               (if \<not> parenthesized \<and> name = ''packed''
                then p_bind (parse_bool fn) (\<lambda>b. p_return (f\<lparr>f_packed_explicit := True, f_packed_value := b\<rparr>))
                else p_then (skip_option_value fn) (p_return f))
               (\<lambda>f. peek (\<lambda>t. if is_symbol (CHR '','') t then p_then advance (p_return f) else p_return f)))))"

lemma shrinks_parse_field_option [token_intros]: "shrinks (parse_field_option fn f)"
  unfolding parse_field_option_def by (intro token_intros)

function parse_field_options_loop :: "string \<Rightarrow> proto_field \<Rightarrow> proto_field parser" where
  "parse_field_options_loop fn f [] = Inl Out_of_range"
| "parse_field_options_loop fn f (t # ts) =
     (if is_symbol (CHR '']'') t then Inr (f, t # ts)
      else if at_end t then p_error fn ''unterminated field options'' (t # ts)
      else case parse_field_option fn f (t # ts) of
             Inl e \<Rightarrow> Inl e
           | Inr (f', ts') \<Rightarrow> parse_field_options_loop fn f' ts')"
  by pat_completeness auto
termination
  by (relation "measure (\<lambda>(fn, f, ts). length ts)") (auto dest: shrinksD [OF shrinks_parse_field_option])

definition parse_field_options :: "string \<Rightarrow> proto_field \<Rightarrow> proto_field parser" where
  "parse_field_options fn f =
     peek (\<lambda>t. if \<not> is_symbol (CHR ''['') t then p_return f
               else p_then advance
                      (p_bind (parse_field_options_loop fn f) (\<lambda>f'.
                         p_then (expect_symbol fn (CHR '']'')) (p_return f'))))"

definition parse_message_option :: "string \<Rightarrow> proto_message_def \<Rightarrow> proto_message_def parser" where
  "parse_message_option fn m =
     p_then advance
       (p_bind
          (peek (\<lambda>t. if is_symbol (CHR ''('') t
                     then p_then advance
                            (p_bind (expect_identifier fn) (\<lambda>n. p_then (expect_symbol fn (CHR '')'')) (p_return n)))
                     else expect_identifier fn))
          (\<lambda>opt_name.
             p_then (expect_symbol fn (CHR ''=''))
               (p_bind
                  (if opt_name = ''id''
                   then p_bind (parse_integer fn) (\<lambda>v. p_return (m\<lparr>m_id := of_int v\<rparr>))
                   else if opt_name = ''base_class''
                   then peek (\<lambda>t. if tk_kind t \<noteq> StringLit then p_error fn ''expected string for (base_class)''
                                  else p_bind advance (\<lambda>t. p_return (m\<lparr>m_base_class := tk_text t\<rparr>)))
                   else p_then (skip_option_value fn) (p_return m))
                  (\<lambda>m. p_then (expect_symbol fn (CHR '';'')) (p_return m)))))"

definition unsupported_members :: "string list" where
  "unsupported_members = [''oneof'', ''map'', ''group'', ''message'', ''enum'', ''extend'', ''extensions'']"

definition parse_field :: "string \<Rightarrow> proto_message_def \<Rightarrow> proto_message_def parser" where
  "parse_field fn m =
     peek (\<lambda>t. p_bind
       (if is_ident ''repeated'' t then p_then advance (p_return True)
        else if is_ident ''optional'' t \<or> is_ident ''required'' t then p_then advance (p_return False)
        else p_return False)
       (\<lambda>repeated.
          p_bind (expect_identifier fn) (\<lambda>type_name.
            p_bind (expect_identifier fn) (\<lambda>name.
              p_then (expect_symbol fn (CHR ''=''))
                (p_bind (parse_integer fn) (\<lambda>number.
                   p_bind (parse_field_options fn
                             (new_proto_field\<lparr>f_repeated := repeated, f_type_name := type_name, f_name := name,
                                f_number := signed_take_bit 31 number\<rparr>)) (\<lambda>f.
                     p_then (expect_symbol fn (CHR '';''))
                       (p_return (m\<lparr>m_fields := m_fields m @ [f]\<rparr>)))))))))"

definition parse_message_member :: "string \<Rightarrow> proto_message_def \<Rightarrow> proto_message_def parser" where
  "parse_message_member fn m =
     peek (\<lambda>t.
       if is_ident ''option'' t then parse_message_option fn m
       else if is_ident ''reserved'' t then p_then (skip_until_semicolon fn) (p_return m)
       else if list_ex (\<lambda>s. is_ident s t) unsupported_members
       then p_error fn ''unsupported construct in message body''
       else parse_field fn m)"

lemma keeps_parse_field_options [token_intros]: "keeps_tokens (parse_field_options fn f)"
proof -
  have "parse_field_options_loop fn f ts = Inr (x, ts') \<Longrightarrow> length ts' \<le> length ts" for f ts x ts'
  proof (induction fn f ts rule: parse_field_options_loop.induct)
    case (2 fn f t ts)
    then show ?case
      by (auto dest!: shrinksD [OF shrinks_parse_field_option] split: if_splits sum.splits prod.splits) force
  qed simp
  then have [token_intros]: "keeps_tokens (parse_field_options_loop fn f)" by (simp add: keeps_tokens_def)
  show ?thesis unfolding parse_field_options_def by (intro token_intros)
qed

lemma shrinks_parse_message_option [token_intros]: "shrinks (parse_message_option fn m)"
  unfolding parse_message_option_def by (intro token_intros)

lemma shrinks_parse_field [token_intros]: "shrinks (parse_field fn m)"
  unfolding parse_field_def by (rule token_intros, rule shrinks_bind_right) (intro token_intros)+

lemma shrinks_parse_message_member [token_intros]: "shrinks (parse_message_member fn m)"
  unfolding parse_message_member_def by (intro token_intros)


function parse_members_loop :: "string \<Rightarrow> proto_message_def \<Rightarrow> proto_message_def parser" where
  "parse_members_loop fn m [] = Inl Out_of_range"
| "parse_members_loop fn m (t # ts) =
     (if is_symbol (CHR ''}'') t then Inr (m, t # ts)
      else if at_end t then p_error fn ''unterminated message'' (t # ts)
      else case parse_message_member fn m (t # ts) of
             Inl e \<Rightarrow> Inl e
           | Inr (m', ts') \<Rightarrow> parse_members_loop fn m' ts')"
  by pat_completeness auto
termination
  by (relation "measure (\<lambda>(fn, m, ts). length ts)") (auto dest: shrinksD [OF shrinks_parse_message_member])

definition parse_message :: "string \<Rightarrow> proto_file \<Rightarrow> proto_file parser" where
  "parse_message fn file =
     p_then advance
       (p_bind (expect_identifier fn) (\<lambda>name.
          p_then (expect_symbol fn (CHR ''{''))
            (p_bind (parse_members_loop fn (new_proto_message\<lparr>m_name := name\<rparr>)) (\<lambda>m.
               p_then (expect_symbol fn (CHR ''}''))
                 (p_return (file\<lparr>p_messages := p_messages file @ [m]\<rparr>))))))"

section \<open>Enums\<close>

definition parse_enum_member :: "string \<Rightarrow> proto_enum \<Rightarrow> proto_enum parser" where
  "parse_enum_member fn e =
     peek (\<lambda>t.
       if is_ident ''option'' t \<or> is_ident ''reserved'' t then p_then (skip_until_semicolon fn) (p_return e)
       else p_bind (expect_identifier fn) (\<lambda>name.
              p_then (expect_symbol fn (CHR ''=''))
                (p_bind (parse_integer fn) (\<lambda>number.
                   p_then skip_field_options_if_present
                     (p_then (expect_symbol fn (CHR '';''))
                        (p_return (e\<lparr>e_values := e_values e @ [\<lparr>ev_name = name, ev_number = number\<rparr>]\<rparr>)))))))"

lemma shrinks_parse_enum_member [token_intros]: "shrinks (parse_enum_member fn e)"
  unfolding parse_enum_member_def by (intro token_intros)

function parse_enum_loop :: "string \<Rightarrow> proto_enum \<Rightarrow> proto_enum parser" where
  "parse_enum_loop fn e [] = Inl Out_of_range"
| "parse_enum_loop fn e (t # ts) =
     (if is_symbol (CHR ''}'') t then Inr (e, t # ts)
      else if at_end t then p_error fn ''unterminated enum'' (t # ts)
      else case parse_enum_member fn e (t # ts) of
             Inl err \<Rightarrow> Inl err
           | Inr (e', ts') \<Rightarrow> parse_enum_loop fn e' ts')"
  by pat_completeness auto
termination
  by (relation "measure (\<lambda>(fn, e, ts). length ts)") (auto dest: shrinksD [OF shrinks_parse_enum_member])

definition parse_enum :: "string \<Rightarrow> proto_file \<Rightarrow> proto_file parser" where
  "parse_enum fn file =
     p_then advance
       (p_bind (expect_identifier fn) (\<lambda>name.
          p_then (expect_symbol fn (CHR ''{''))
            (p_bind (parse_enum_loop fn \<lparr>e_name = name, e_values = []\<rparr>) (\<lambda>e.
               p_then (expect_symbol fn (CHR ''}''))
                 (p_return (file\<lparr>p_enums := p_enums file @ [e]\<rparr>))))))"

section \<open>The file\<close>

definition parse_top_level :: "string \<Rightarrow> proto_file \<Rightarrow> proto_file parser" where
  "parse_top_level fn file =
     peek (\<lambda>t.
       if is_ident ''syntax'' t
       then p_then advance
              (p_then (expect_symbol fn (CHR ''=''))
                 (peek (\<lambda>t. if tk_kind t \<noteq> StringLit then p_error fn ''expected syntax string''
                   else p_bind advance (\<lambda>t.
                     if tk_text t \<noteq> ''proto3'' \<and> tk_text t \<noteq> ''proto2''
                     then p_error fn (''unsupported syntax '' @ [squote] @ tk_text t @ [squote])
                     else p_then (expect_symbol fn (CHR '';'')) (p_return file)))))
       else if is_ident ''package'' t
       then p_then advance
              (p_bind (expect_identifier fn) (\<lambda>name.
                 p_then (expect_symbol fn (CHR '';'')) (p_return (file\<lparr>p_package := name\<rparr>))))
       else if is_ident ''import'' t
       then p_then advance
              (peek (\<lambda>t. if tk_kind t \<noteq> StringLit then p_error fn ''expected import path string''
                 else p_then advance (p_then (expect_symbol fn (CHR '';'')) (p_return file))))
       else if is_ident ''option'' t then p_then (skip_until_semicolon fn) (p_return file)
       else if is_ident ''enum'' t then parse_enum fn file
       else if is_ident ''message'' t then parse_message fn file
       else if is_ident ''service'' t \<or> is_ident ''extend'' t
       then p_then advance (p_then (expect_identifier fn) (p_then (skip_braced_block fn) (p_return file)))
       else p_error fn ''unexpected top-level token'')"

lemma keeps_loops [token_intros]: "keeps_tokens (parse_members_loop fn m)" "keeps_tokens (parse_enum_loop fn e)"
proof -
  have "parse_members_loop fn m ts = Inr (x, ts') \<Longrightarrow> length ts' \<le> length ts" for m ts x ts'
  proof (induction fn m ts rule: parse_members_loop.induct)
    case (2 fn m t ts)
    then show ?case
      by (auto dest!: shrinksD [OF shrinks_parse_message_member] split: if_splits sum.splits prod.splits) force
  qed simp
  moreover have "parse_enum_loop fn e ts = Inr (x, ts') \<Longrightarrow> length ts' \<le> length ts" for e ts x ts'
  proof (induction fn e ts rule: parse_enum_loop.induct)
    case (2 fn e t ts)
    then show ?case
      by (auto dest!: shrinksD [OF shrinks_parse_enum_member] split: if_splits sum.splits prod.splits) force
  qed simp
  ultimately show "keeps_tokens (parse_members_loop fn m)" "keeps_tokens (parse_enum_loop fn e)"
    by (simp_all add: keeps_tokens_def)
qed

lemma shrinks_parse_message [token_intros]: "shrinks (parse_message fn file)"
  unfolding parse_message_def by (intro token_intros)

lemma shrinks_parse_enum [token_intros]: "shrinks (parse_enum fn file)"
  unfolding parse_enum_def by (intro token_intros)

lemmas braced_keeps [token_intros] = shrinks_skip_braced_block [THEN shrinks_keeps]

lemma shrinks_parse_top_level [token_intros]: "shrinks (parse_top_level fn file)"
  unfolding parse_top_level_def by (intro token_intros)

function parse_into :: "string \<Rightarrow> token list \<Rightarrow> proto_file \<Rightarrow> parse_error + proto_file" where
  "parse_into fn [] file = Inl Out_of_range"
| "parse_into fn (t # ts) file =
     (if at_end t then Inr file
      else case parse_top_level fn file (t # ts) of
             Inl e \<Rightarrow> Inl e
           | Inr (file', ts') \<Rightarrow> parse_into fn ts' file')"
  by pat_completeness auto
termination
  by (relation "measure (\<lambda>(fn, ts, file). length ts)") (auto dest: shrinksD [OF shrinks_parse_top_level])

declare skip_until_semicolon.simps(2) [simp del] parse_field_options_loop.simps(2) [simp del]
  parse_members_loop.simps(2) [simp del] parse_enum_loop.simps(2) [simp del] parse_into.simps(2) [simp del]

section \<open>Type resolution\<close>

text \<open>\<^verbatim>\<open>t.rfind('.')\<close>: what follows the last dot.\<close>

definition after_last_dot :: "string \<Rightarrow> string" where
  "after_last_dot t = (if CHR ''.'' \<in> set t then rev (takeWhile (\<lambda>c. c \<noteq> CHR ''.'') (rev t)) else t)"

definition simple_name :: "string \<Rightarrow> string" where
  "simple_name raw = after_last_dot (if raw \<noteq> [] \<and> hd raw = CHR ''.'' then tl raw else raw)"

definition resolve_type :: "string list \<Rightarrow> string list \<Rightarrow> string \<Rightarrow> proto_field \<Rightarrow> parse_error + proto_field" where
  "resolve_type enums messages mname f =
     (if is_scalar_type (f_type_name f) then Inr (f\<lparr>f_type := scalar_field_type (f_type_name f)\<rparr>)
      else let name = simple_name (f_type_name f)
           in if name \<in> set enums then Inr (f\<lparr>f_type := FEnum, f_type_name := name\<rparr>)
              else if name \<in> set messages then Inr (f\<lparr>f_type := FMessage, f_type_name := name\<rparr>)
              else Inl (Runtime_error (''unknown field type '' @ [squote] @ f_type_name f @ [squote] @ '' in message '' @
                     mname @ '' field '' @ f_name f)))"

fun traverse_sum :: "('a \<Rightarrow> 'e + 'b) \<Rightarrow> 'a list \<Rightarrow> 'e + 'b list" where
  "traverse_sum f [] = Inr []"
| "traverse_sum f (x # xs) =
     (case f x of Inl e \<Rightarrow> Inl e | Inr y \<Rightarrow> (case traverse_sum f xs of Inl e \<Rightarrow> Inl e | Inr ys \<Rightarrow> Inr (y # ys)))"

definition resolve_message :: "string list \<Rightarrow> string list \<Rightarrow> proto_message_def \<Rightarrow> parse_error + proto_message_def" where
  "resolve_message enums messages m =
     (case traverse_sum (resolve_type enums messages (m_name m)) (m_fields m) of
        Inl e \<Rightarrow> Inl e
      | Inr fs \<Rightarrow> Inr (m\<lparr>m_fields := fs\<rparr>))"

definition resolve_types :: "proto_file \<Rightarrow> parse_error + proto_file" where
  "resolve_types file =
     (case traverse_sum (resolve_message (map e_name (p_enums file)) (map m_name (p_messages file))) (p_messages file) of
        Inl e \<Rightarrow> Inl e
      | Inr ms \<Rightarrow> Inr (file\<lparr>p_messages := ms\<rparr>))"

section \<open>The parser stays inside its tokens\<close>

definition ended :: "token list \<Rightarrow> bool" where
  "ended ts = (ts \<noteq> [] \<and> tk_kind (last ts) = End \<and> list_all (\<lambda>t. tk_kind t \<noteq> End) (butlast ts))"

text \<open>At a position whose next token is \<open>t\<close>, the parser reads no token past the end and stops before it.\<close>

definition safe_at :: "token \<Rightarrow> 'a parser \<Rightarrow> bool" where
  "safe_at t p \<longleftrightarrow>
     (\<forall>ts. ended (t # ts) \<longrightarrow> p (t # ts) \<noteq> Inl Out_of_range \<and> (\<forall>x ts'. p (t # ts) = Inr (x, ts') \<longrightarrow> ended ts'))"

named_theorems safe_intros \<open>parsers that stay inside their tokens\<close>

lemma ended_Cons: "ended (t # ts) \<longleftrightarrow> (if ts = [] then tk_kind t = End else tk_kind t \<noteq> End \<and> ended ts)"
  by (auto simp: ended_def)

lemma ended_nonempty: "ended ts \<Longrightarrow> \<exists>t ts'. ts = t # ts'"
  by (cases ts) (simp_all add: ended_def)

lemma ended_tail: "ended (t # ts) \<Longrightarrow> tk_kind t \<noteq> End \<Longrightarrow> ended ts"
  by (simp add: ended_Cons split: if_splits)

lemma safe_atD:
  "safe_at t p \<Longrightarrow> ended (t # ts) \<Longrightarrow> p (t # ts) \<noteq> Inl Out_of_range"
  "safe_at t p \<Longrightarrow> ended (t # ts) \<Longrightarrow> p (t # ts) = Inr (x, ts') \<Longrightarrow> ended ts'"
  by (simp_all add: safe_at_def)

lemma safe_basic [safe_intros]:
  "safe_at t (p_return x)" "safe_at t (p_error fn msg)" "tk_kind t \<noteq> End \<Longrightarrow> safe_at t advance"
  by (auto simp: safe_at_def p_return_def p_error_def peek_def advance_def dest: ended_tail)

lemma safe_bind [safe_intros]:
  assumes "safe_at t p" "\<And>x u. safe_at u (f x)"
  shows "safe_at t (p_bind p f)"
  unfolding safe_at_def
proof (intro allI impI)
  fix ts assume "ended (t # ts)"
  note p = safe_atD [OF assms(1) this]
  show "p_bind p f (t # ts) \<noteq> Inl Out_of_range \<and> (\<forall>x ts'. p_bind p f (t # ts) = Inr (x, ts') \<longrightarrow> ended ts')"
  proof (cases "p (t # ts)")
    case (Inl e)
    then show ?thesis using p(1) by (simp add: p_bind_def)
  next
    case (Inr y)
    obtain x us where y: "y = (x, us)" by fastforce
    obtain u us' where us: "us = u # us'" using ended_nonempty p(2) Inr y by blast
    with p(2) Inr y have "ended (u # us')" by blast
    then show ?thesis using safe_atD [OF assms(2)] Inr y us by (auto simp: p_bind_def)
  qed
qed

lemma safe_then [safe_intros]: "safe_at t p \<Longrightarrow> (\<And>u. safe_at u q) \<Longrightarrow> safe_at t (p_then p q)"
  unfolding p_then_def by (intro safe_intros)

lemma safe_peek [safe_intros]: "safe_at t (f t) \<Longrightarrow> safe_at t (peek f)"
  by (simp add: safe_at_def peek_def)

lemma safe_if [safe_intros]:
  "(b \<Longrightarrow> safe_at t p) \<Longrightarrow> (\<not> b \<Longrightarrow> safe_at t q) \<Longrightarrow> safe_at t (if b then p else q)"
  by simp

lemma safe_case [safe_intros]:
  "safe_at t p \<Longrightarrow> (\<And>x. safe_at t (f x)) \<Longrightarrow> safe_at t (case v of None \<Rightarrow> p | Some x \<Rightarrow> f x)"
  "(\<And>x y. safe_at t (g x y)) \<Longrightarrow> safe_at t (case z of (x, y) \<Rightarrow> g x y)"
  by (simp_all split: option.splits prod.splits)

lemma not_end: "is_ident s t \<Longrightarrow> tk_kind t \<noteq> End" "is_symbol c t \<Longrightarrow> tk_kind t \<noteq> End"
  by (auto simp: is_ident_def is_symbol_def)

lemma safe_leaves [safe_intros]:
  "safe_at t (expect_symbol fn c)" "safe_at t (expect_identifier fn)" "safe_at t (parse_integer fn)" "safe_at t (parse_bool fn)"
  unfolding expect_symbol_def expect_identifier_def parse_integer_def parse_bool_def
  by (intro safe_intros; auto simp: not_end)+

lemma safe_by_run:
  assumes "\<And>ts. ended ts \<Longrightarrow> p ts \<noteq> Inl Out_of_range \<and> (\<forall>x ts'. p ts = Inr (x, ts') \<longrightarrow> ended ts')"
  shows "safe_at t p"
  using assms by (simp add: safe_at_def)

lemma error_runtime [simp]: "p_error fn msg (t # ts) \<noteq> Inl Out_of_range"
  by (simp add: p_error_def peek_def)

lemma safe_skip_braces_loop [safe_intros]: "safe_at t (skip_braces_loop fn d)"
proof (rule safe_by_run)
  fix ts assume "ended ts"
  then show "skip_braces_loop fn d ts \<noteq> Inl Out_of_range \<and> (\<forall>x ts'. skip_braces_loop fn d ts = Inr (x, ts') \<longrightarrow> ended ts')"
    by (induction fn d ts rule: skip_braces_loop.induct) (auto simp: ended_def [of "[]"] at_end_def dest: ended_tail)
qed

lemma safe_skip_balanced_loop [safe_intros]: "safe_at t (skip_balanced_loop fn a b d)"
proof (rule safe_by_run)
  fix ts assume "ended ts"
  then show "skip_balanced_loop fn a b d ts \<noteq> Inl Out_of_range \<and>
      (\<forall>x ts'. skip_balanced_loop fn a b d ts = Inr (x, ts') \<longrightarrow> ended ts')"
    by (induction fn a b d ts rule: skip_balanced_loop.induct)
      (auto simp: ended_def [of "[]"] at_end_def Let_def dest: ended_tail)
qed

lemma safe_skip_options_loop:
  "ended ts \<Longrightarrow> (first \<longrightarrow> tk_kind (hd ts) \<noteq> End) \<Longrightarrow>
   skip_options_loop first d ts \<noteq> Inl Out_of_range \<and> (\<forall>x ts'. skip_options_loop first d ts = Inr (x, ts') \<longrightarrow> ended ts')"
  by (induction first d ts rule: skip_options_loop.induct) (auto simp: ended_def [of "[]"] at_end_def dest: ended_tail)

lemma safe_skip_options_loop_at [safe_intros]: "is_symbol c t \<Longrightarrow> safe_at t (skip_options_loop first d)"
  using safe_skip_options_loop [of "t # ts" for ts] not_end(2) by (fastforce simp: safe_at_def)

lemma safe_skips [safe_intros]:
  "safe_at t (skip_braced_block fn)" "safe_at t (skip_balanced fn)" "safe_at t skip_field_options_if_present"
  unfolding skip_braced_block_def skip_balanced_def skip_field_options_if_present_def Let_def
  by (intro safe_intros; assumption?)+

lemma safe_skip_option_value [safe_intros]: "safe_at t (skip_option_value fn)"
  unfolding skip_option_value_def by (intro safe_intros) auto

lemma safe_skip_until_semicolon [safe_intros]: "safe_at t (skip_until_semicolon fn)"
proof (rule safe_by_run)
  fix ts assume "ended ts"
  then show "skip_until_semicolon fn ts \<noteq> Inl Out_of_range \<and> (\<forall>x ts'. skip_until_semicolon fn ts = Inr (x, ts') \<longrightarrow> ended ts')"
  proof (induction fn ts rule: skip_until_semicolon.induct)
    case (2 fn t ts)
    show ?case
      using 2 safe_atD [OF safe_skips(2) "2.prems", of fn] ended_tail [OF "2.prems"]
      by (auto simp: skip_until_semicolon.simps(2) at_end_def not_end split: sum.splits prod.splits)
  qed (simp add: ended_def)
qed

lemma safe_parse_field_option [safe_intros]: "safe_at t (parse_field_option fn f)"
  unfolding parse_field_option_def by (intro safe_intros) (auto simp: not_end)

lemma safe_parse_field_options_loop [safe_intros]: "safe_at t (parse_field_options_loop fn f)"
proof (rule safe_by_run)
  fix ts assume "ended ts"
  then show "parse_field_options_loop fn f ts \<noteq> Inl Out_of_range \<and>
      (\<forall>x ts'. parse_field_options_loop fn f ts = Inr (x, ts') \<longrightarrow> ended ts')"
  proof (induction fn f ts rule: parse_field_options_loop.induct)
    case (2 fn f t ts)
    show ?case
      using 2 safe_atD [OF safe_parse_field_option "2.prems", of fn f]
      by (auto simp: parse_field_options_loop.simps(2) split: sum.splits prod.splits)
  qed (simp add: ended_def)
qed

lemma safe_parse_field_options [safe_intros]: "safe_at t (parse_field_options fn f)"
  unfolding parse_field_options_def by (intro safe_intros) (auto simp: not_end)

lemma safe_parse_message_option [safe_intros]: "is_ident s t \<Longrightarrow> safe_at t (parse_message_option fn m)"
  unfolding parse_message_option_def by (intro safe_intros) (auto simp: not_end)

lemma safe_parse_field [safe_intros]: "safe_at t (parse_field fn m)"
  unfolding parse_field_def by (intro safe_intros) (auto simp: not_end)

lemma safe_parse_message_member [safe_intros]: "safe_at t (parse_message_member fn m)"
  unfolding parse_message_member_def by (intro safe_intros)

lemma safe_parse_members_loop [safe_intros]: "safe_at t (parse_members_loop fn m)"
proof (rule safe_by_run)
  fix ts assume "ended ts"
  then show "parse_members_loop fn m ts \<noteq> Inl Out_of_range \<and>
      (\<forall>x ts'. parse_members_loop fn m ts = Inr (x, ts') \<longrightarrow> ended ts')"
  proof (induction fn m ts rule: parse_members_loop.induct)
    case (2 fn m t ts)
    show ?case
      using 2 safe_atD [OF safe_parse_message_member "2.prems", of fn m]
      by (auto simp: parse_members_loop.simps(2) split: sum.splits prod.splits)
  qed (simp add: ended_def)
qed

lemma safe_parse_enum_member [safe_intros]: "safe_at t (parse_enum_member fn e)"
  unfolding parse_enum_member_def by (intro safe_intros)

lemma safe_parse_enum_loop [safe_intros]: "safe_at t (parse_enum_loop fn e)"
proof (rule safe_by_run)
  fix ts assume "ended ts"
  then show "parse_enum_loop fn e ts \<noteq> Inl Out_of_range \<and>
      (\<forall>x ts'. parse_enum_loop fn e ts = Inr (x, ts') \<longrightarrow> ended ts')"
  proof (induction fn e ts rule: parse_enum_loop.induct)
    case (2 fn e t ts)
    show ?case
      using 2 safe_atD [OF safe_parse_enum_member "2.prems", of fn e]
      by (auto simp: parse_enum_loop.simps(2) split: sum.splits prod.splits)
  qed (simp add: ended_def)
qed

lemma safe_parse_block [safe_intros]:
  "is_ident s t \<Longrightarrow> safe_at t (parse_message fn file)" "is_ident s t \<Longrightarrow> safe_at t (parse_enum fn file)"
  unfolding parse_message_def parse_enum_def by (intro safe_intros, auto simp: not_end)+

lemma safe_parse_top_level [safe_intros]: "safe_at t (parse_top_level fn file)"
  unfolding parse_top_level_def by (intro safe_intros) (auto simp: not_end)

lemma parse_into_in_range: "ended ts \<Longrightarrow> parse_into fn ts pf \<noteq> Inl Out_of_range"
proof (induction fn ts pf rule: parse_into.induct)
  case (2 fn t ts pf)
  then show ?case
    using safe_atD [OF safe_parse_top_level "2.prems", of fn pf]
    by (auto simp: parse_into.simps(2) split: sum.splits prod.splits)
qed (simp add: ended_def)

lemma tokens_ok_ended: "tokens_ok ts \<Longrightarrow> ended ts"
  by (auto simp: tokens_ok_def ended_def list_all_iff token_ok_def)

section \<open>Printing\<close>

text \<open>The proto text of a parsed file, as the tokens it is made of.\<close>

definition idt :: "string \<Rightarrow> token" where "idt s = Token Identifier s 1"
definition symb :: "char \<Rightarrow> token" where "symb c = Token Symbol [c] 1"

definition print_int :: "int \<Rightarrow> string" where
  "print_int v = (if v < 0 then CHR ''-'' # to_string_nat (nat (- v)) else to_string_nat (nat v))"

definition numt :: "int \<Rightarrow> token" where "numt v = Token Number (print_int v) 1"

definition field_tokens :: "proto_field \<Rightarrow> token list" where
  "field_tokens f =
     (if f_repeated f then [idt ''repeated''] else []) @
     [idt (f_type_name f), idt (f_name f), symb (CHR ''=''), numt (f_number f)] @
     (if f_packed_explicit f
      then [symb (CHR ''[''), idt ''packed'', symb (CHR ''=''), idt (if f_packed_value f then ''true'' else ''false''), symb (CHR '']'')]
      else []) @ [symb (CHR '';'')]"

definition message_tokens :: "proto_message_def \<Rightarrow> token list" where
  "message_tokens m =
     [idt ''message'', idt (m_name m), symb (CHR ''{''),
      idt ''option'', symb (CHR ''(''), idt ''id'', symb (CHR '')''), symb (CHR ''=''), numt (uint (m_id m)), symb (CHR '';''),
      idt ''option'', symb (CHR ''(''), idt ''base_class'', symb (CHR '')''), symb (CHR ''=''),
        Token StringLit (m_base_class m) 1, symb (CHR '';'')] @
     concat (map field_tokens (m_fields m)) @ [symb (CHR ''}'')]"

definition enum_value_tokens :: "proto_enum_value \<Rightarrow> token list" where
  "enum_value_tokens v = [idt (ev_name v), symb (CHR ''=''), numt (ev_number v), symb (CHR '';'')]"

definition enum_tokens :: "proto_enum \<Rightarrow> token list" where
  "enum_tokens e =
     [idt ''enum'', idt (e_name e), symb (CHR ''{'')] @ concat (map enum_value_tokens (e_values e)) @ [symb (CHR ''}'')]"

definition file_tokens :: "proto_file \<Rightarrow> token list" where
  "file_tokens file =
     (if p_package file = [] then [] else [idt ''package'', idt (p_package file), symb (CHR '';'')]) @
     concat (map enum_tokens (p_enums file)) @ concat (map message_tokens (p_messages file))"

subsection \<open>What can be printed\<close>

definition ident_ok :: "string \<Rightarrow> bool" where
  "ident_ok s = (s \<noteq> [] \<and> ident_start (hd s) \<and> list_all ident_cont s)"

definition field_ok :: "proto_field \<Rightarrow> bool" where
  "field_ok f =
     (ident_ok (f_name f) \<and> ident_ok (f_type_name f) \<and> f_type f = FInt32 \<and>
      - (2 ^ 31) \<le> f_number f \<and> f_number f < 2 ^ 31 \<and> (f_packed_value f \<longrightarrow> f_packed_explicit f) \<and>
      f_type_name f \<notin> set (unsupported_members @ [''option'', ''reserved'', ''repeated'', ''optional'', ''required'']))"

definition message_ok :: "proto_message_def \<Rightarrow> bool" where
  "message_ok m = (ident_ok (m_name m) \<and> list_all field_ok (m_fields m))"

definition enum_ok :: "proto_enum \<Rightarrow> bool" where
  "enum_ok e =
     (ident_ok (e_name e) \<and>
      list_all (\<lambda>v. ident_ok (ev_name v) \<and> ev_name v \<notin> {''option'', ''reserved''} \<and>
        - (2 ^ 63) \<le> ev_number v \<and> ev_number v < 2 ^ 63) (e_values e))"

definition file_ok :: "proto_file \<Rightarrow> bool" where
  "file_ok file =
     ((p_package file \<noteq> [] \<longrightarrow> ident_ok (p_package file)) \<and> list_all enum_ok (p_enums file) \<and> list_all message_ok (p_messages file))"


subsection \<open>Numbers\<close>

lemma to_string_nat_digits: "list_all is_digit (to_string_nat n) \<and> to_string_nat n \<noteq> []"
proof (induction n rule: to_string_nat.induct)
  case (1 n)
  have d: "is_digit (char_of (48 + m))" if "m < 10" for m :: nat
    using that by (simp add: is_digit_def of_char_of)
  show ?case using 1 d [of n] d [of "n mod 10"] by (subst (1 2) to_string_nat.simps) auto
qed

lemma digit_value_of: "m < 10 \<Longrightarrow> digit_value (char_of (48 + m :: nat)) = m"
  by (simp add: digit_value_def is_digit_def of_char_of)

lemma digits_value_append:
  "list_all (\<lambda>c. digit_value c < base) xs \<Longrightarrow>
   digits_value base (xs @ ys) acc = digits_value base ys (digits_value base xs acc)"
  by (induction xs arbitrary: acc) simp_all

lemma digit_value_lt: "is_digit c \<Longrightarrow> digit_value c < 10"
  by (auto simp: digit_value_def is_digit_def Let_def)

lemma digits_value_to_string: "digits_value 10 (to_string_nat n) 0 = n"
proof (induction n rule: to_string_nat.induct)
  case (1 n)
  show ?case
  proof (cases "n < 10")
    case True
    then show ?thesis by (subst to_string_nat.simps) (simp add: digit_value_of)
  next
    case False
    have "list_all (\<lambda>c. digit_value c < 10) (to_string_nat (n div 10))"
      using to_string_nat_digits [of "n div 10"] by (auto simp: list_all_iff digit_value_lt)
    then show ?thesis
      using 1 False by (subst to_string_nat.simps) (simp add: digits_value_append digit_value_of)
  qed
qed

lemma to_string_nat_head: "0 < n \<Longrightarrow> hd (to_string_nat n) \<noteq> CHR ''0''"
proof (induction n rule: to_string_nat.induct)
  case (1 n)
  show ?case
  proof (cases "n < 10")
    case True
    then have "of_char (char_of (48 + n)) \<noteq> (48 :: nat)" using 1(2) by (simp add: of_char_of)
    then have "char_of (48 + n) \<noteq> CHR ''0''" by force
    then show ?thesis using True by (subst to_string_nat.simps) simp
  next
    case False
    then show ?thesis
      using 1 to_string_nat_digits [of "n div 10"] by (subst to_string_nat.simps) (simp add: div_greater_zero_iff)
  qed
qed

lemma stoll_magnitude_to_string: "stoll_magnitude (to_string_nat n) = Some n"
proof (cases "n = 0")
  case True
  have "to_string_nat 0 = ''0''" by code_simp
  moreover have "stoll_magnitude ''0'' = Some 0" by code_simp
  ultimately show ?thesis using True by simp
next
  case False
  obtain c cs where s: "to_string_nat n = c # cs" using to_string_nat_digits [of n] by (cases "to_string_nat n") auto
  then have "is_digit c" "c \<noteq> CHR ''0''"
    using to_string_nat_digits [of n] to_string_nat_head [of n] False by auto
  then show ?thesis using digits_value_to_string [of n] s by (simp add: stoll_magnitude_def)
qed

lemma stoll_print_int:
  assumes "- (2 ^ 63) \<le> v" "v < 2 ^ 63"
  shows "stoll (print_int v) = Some v"
proof -
  have sp: "\<not> is_space c \<and> c \<noteq> CHR ''-'' \<and> c \<noteq> CHR ''+''" if "is_digit c" for c
    using that by (auto simp: is_space_def is_digit_def)
  obtain c cs where s: "to_string_nat (nat v) = c # cs" "is_digit c"
    using to_string_nat_digits [of "nat v"] by (cases "to_string_nat (nat v)") auto
  have "\<not> is_space (CHR ''-'')" by (simp add: is_space_def)
  then show ?thesis
    using assms sp [OF s(2)] s(1) stoll_magnitude_to_string [of "nat v"] stoll_magnitude_to_string [of "nat (- v)"]
    by (auto simp: stoll_def print_int_def Let_def)
qed

lemma number_span_digits: "list_all is_digit cs \<Longrightarrow> number_span p cs = cs"
  by (induction cs arbitrary: p) (auto simp: is_alnum_def is_digit_def)

lemma token_ok_num: "token_ok (numt v)"
proof -
  have digits: "starts_number (to_string_nat n)" "lex_number (to_string_nat n) = to_string_nat n"
    "starts_number (CHR ''-'' # to_string_nat n)" "lex_number (CHR ''-'' # to_string_nat n) = CHR ''-'' # to_string_nat n" for n
  proof -
    note d = to_string_nat_digits [of n]
    obtain c cs where s: "to_string_nat n = c # cs" "is_digit c" using d by (cases "to_string_nat n") auto
    have "c \<noteq> CHR ''-''" using s(2) by (auto simp: is_digit_def)
    then show "starts_number (to_string_nat n)" "lex_number (to_string_nat n) = to_string_nat n"
      "starts_number (CHR ''-'' # to_string_nat n)" "lex_number (CHR ''-'' # to_string_nat n) = CHR ''-'' # to_string_nat n"
      using s number_span_digits [of "to_string_nat n"] d by (simp_all add: starts_number_def lex_number_def del: number_span.simps)
  qed
  then show ?thesis by (simp add: token_ok_def numt_def Token_def print_int_def)
qed

subsection \<open>Parsing what is printed\<close>

lemma token_fields [simp]:
  "tk_kind (Token k s l) = k" "tk_text (Token k s l) = s" "tk_line (Token k s l) = l"
  by (simp_all add: Token_def)

lemma p_run:
  "p_bind p f ts = (case p ts of Inl e \<Rightarrow> Inl e | Inr (x, ts') \<Rightarrow> f x ts')"
  "p_then p q ts = (case p ts of Inl e \<Rightarrow> Inl e | Inr (x, ts') \<Rightarrow> q ts')"
  "peek g (t # ts) = g t (t # ts)" "p_return x ts = Inr (x, ts)" "advance (t # ts) = Inr (t, ts)"
  by (simp_all add: p_bind_def p_then_def peek_def p_return_def advance_def)

lemma expect_run:
  "expect_symbol fn c (symb c # ts) = Inr ((), ts)" "expect_identifier fn (idt s # ts) = Inr (s, ts)"
  "- (2 ^ 63) \<le> v \<Longrightarrow> v < 2 ^ 63 \<Longrightarrow> parse_integer fn (numt v # ts) = Inr (v, ts)"
  by (simp_all add: expect_symbol_def expect_identifier_def parse_integer_def p_run is_symbol_def symb_def idt_def
      numt_def stoll_print_int)

lemma is_tokens [simp]:
  "is_ident s (idt s') = (s' = s)" "is_ident s (symb c) = False" "is_symbol c (symb c') = (c' = c)" "is_symbol c (idt s) = False"
  "is_ident s (numt v) = False" "is_symbol c (numt v) = False"
  "at_end (idt s) = False" "at_end (symb c) = False" "at_end (numt v) = False"
  by (simp_all add: is_ident_def is_symbol_def at_end_def idt_def symb_def numt_def)

lemma parse_packed_tokens:
  "parse_field_options fn f ([symb (CHR ''[''), idt ''packed'', symb (CHR ''=''), idt (if b then ''true'' else ''false''), symb (CHR '']''),
     symb (CHR '';'')] @ ts) = Inr (f\<lparr>f_packed_explicit := True, f_packed_value := b\<rparr>, symb (CHR '';'') # ts)"
  by (simp add: parse_field_options_def parse_field_options_loop.simps(2) parse_field_option_def parse_bool_def p_run expect_run)

lemma parse_no_options: "parse_field_options fn f (symb (CHR '';'') # ts) = Inr (f, symb (CHR '';'') # ts)"
  by (simp add: parse_field_options_def p_run)

lemma parse_field_tokens:
  assumes "field_ok f"
  shows "parse_message_member fn m (field_tokens f @ ts) = Inr (m\<lparr>m_fields := m_fields m @ [f]\<rparr>, ts)"
proof -
  have n: "signed_take_bit 31 (f_number f) = f_number f"
    using assms by (intro signed_take_bit_int_eq_self) (simp_all add: field_ok_def)
  have range: "- (2 ^ 63) \<le> f_number f" "f_number f < 2 ^ 63" using assms by (simp_all add: field_ok_def)
  let ?g = "new_proto_field\<lparr>f_repeated := f_repeated f, f_type_name := f_type_name f, f_name := f_name f, f_number := f_number f\<rparr>"
  have f: "f = (if f_packed_explicit f then ?g\<lparr>f_packed_explicit := True, f_packed_value := f_packed_value f\<rparr> else ?g)"
    using assms by (cases f) (auto simp: field_ok_def new_proto_field_def)
  have opts: "parse_field_options fn ?g
      ((if f_packed_explicit f
        then [symb (CHR ''[''), idt ''packed'', symb (CHR ''=''), idt (if f_packed_value f then ''true'' else ''false''), symb (CHR '']'')]
        else []) @ symb (CHR '';'') # ts) = Inr (f, symb (CHR '';'') # ts)"
    using parse_packed_tokens [of fn ?g "f_packed_value f" ts] parse_no_options [of fn ?g ts] f by auto
  have "f_type_name f \<notin> set (unsupported_members @ [''option'', ''reserved'', ''repeated'', ''optional'', ''required''])"
    using assms by (simp add: field_ok_def)
  then have "parse_message_member fn m (field_tokens f @ ts) = parse_field fn m (field_tokens f @ ts)"
    by (auto simp: parse_message_member_def field_tokens_def p_run unsupported_members_def list_ex_iff)
  also have "\<dots> = Inr (m\<lparr>m_fields := m_fields m @ [f]\<rparr>, ts)"
    using assms opts [simplified]
    by (cases "f_repeated f"; cases "f_packed_explicit f")
      (simp_all add: parse_field_def field_tokens_def p_run expect_run range n field_ok_def)
  finally show ?thesis .
qed

lemma parse_members_tokens:
  "list_all field_ok fs \<Longrightarrow>
   parse_members_loop fn m (concat (map field_tokens fs) @ symb (CHR ''}'') # ts) =
     Inr (m\<lparr>m_fields := m_fields m @ fs\<rparr>, symb (CHR ''}'') # ts)"
proof (induction fs arbitrary: m)
  case Nil
  then show ?case by (simp add: parse_members_loop.simps(2))
next
  case (Cons f fs)
  let ?r = "concat (map field_tokens fs) @ symb (CHR ''}'') # ts"
  obtain s us where "field_tokens f @ ?r = idt s # us"
    by (cases "f_repeated f") (auto simp: field_tokens_def)
  then have "parse_members_loop fn m (field_tokens f @ ?r) = parse_members_loop fn (m\<lparr>m_fields := m_fields m @ [f]\<rparr>) ?r"
    using parse_field_tokens [of f fn m ?r] Cons.prems by (simp add: parse_members_loop.simps(2))
  then show ?case using Cons by simp
qed

lemma parse_option_tokens:
  "parse_message_member fn m ([idt ''option'', symb (CHR ''(''), idt ''id'', symb (CHR '')''), symb (CHR ''=''), numt (uint i), symb (CHR '';'')] @ ts) =
     Inr (m\<lparr>m_id := i\<rparr>, ts)" (is ?id)
  "parse_message_member fn m ([idt ''option'', symb (CHR ''(''), idt ''base_class'', symb (CHR '')''), symb (CHR ''=''),
     Token StringLit b 1, symb (CHR '';'')] @ ts) = Inr (m\<lparr>m_base_class := b\<rparr>, ts)" (is ?base)
proof -
  have "uint (i :: u32) < 2 ^ 32" using uint_lt2p [of i] by simp
  then have "- (2 ^ 63) \<le> uint i" "uint i < 2 ^ 63" using order_trans [OF _ uint_ge_0 [of i], of "- (2 ^ 63)"] by auto
  then show ?id by (simp add: parse_message_member_def parse_message_option_def p_run expect_run)
  show ?base by (simp add: parse_message_member_def parse_message_option_def p_run expect_run)
qed

lemma parse_message_tokens:
  assumes "message_ok m"
  shows "parse_top_level fn pf (message_tokens m @ ts) = Inr (pf\<lparr>p_messages := p_messages pf @ [m]\<rparr>, ts)"
proof -
  let ?r = "concat (map field_tokens (m_fields m)) @ symb (CHR ''}'') # ts"
  have loop: "parse_members_loop fn n (idt ''option'' # us) =
      (case parse_message_member fn n (idt ''option'' # us) of Inl e \<Rightarrow> Inl e | Inr (n', ts') \<Rightarrow> parse_members_loop fn n' ts')" for n us
    by (simp add: parse_members_loop.simps(2))
  have "new_proto_message\<lparr>m_name := m_name m, m_id := m_id m, m_base_class := m_base_class m, m_fields := m_fields m\<rparr> = m"
    by (cases m) (simp add: new_proto_message_def)
  moreover have "m_fields new_proto_message = []" by (simp add: new_proto_message_def)
  ultimately show ?thesis
    using assms parse_option_tokens [of fn, simplified]
    by (simp add: parse_top_level_def parse_message_def message_tokens_def p_run expect_run loop message_ok_def
        parse_members_tokens)
qed

lemma parse_enum_values_tokens:
  "list_all (\<lambda>v. ident_ok (ev_name v) \<and> ev_name v \<notin> {''option'', ''reserved''} \<and> - (2 ^ 63) \<le> ev_number v \<and> ev_number v < 2 ^ 63) vs \<Longrightarrow>
   parse_enum_loop fn e (concat (map enum_value_tokens vs) @ symb (CHR ''}'') # ts) =
     Inr (e\<lparr>e_values := e_values e @ vs\<rparr>, symb (CHR ''}'') # ts)"
proof (induction vs arbitrary: e)
  case Nil
  then show ?case by (simp add: parse_enum_loop.simps(2))
next
  case (Cons v vs)
  let ?r = "concat (map enum_value_tokens vs) @ symb (CHR ''}'') # ts"
  have "parse_enum_member fn e (enum_value_tokens v @ ?r) = Inr (e\<lparr>e_values := e_values e @ [v]\<rparr>, ?r)"
    using Cons.prems
    by (simp add: parse_enum_member_def enum_value_tokens_def p_run expect_run skip_field_options_if_present_def)
  moreover obtain s us where "enum_value_tokens v @ ?r = idt s # us" by (simp add: enum_value_tokens_def)
  ultimately have "parse_enum_loop fn e (enum_value_tokens v @ ?r) = parse_enum_loop fn (e\<lparr>e_values := e_values e @ [v]\<rparr>) ?r"
    by (simp add: parse_enum_loop.simps(2))
  then show ?case using Cons by simp
qed

lemma parse_enum_tokens:
  "enum_ok e \<Longrightarrow> parse_top_level fn pf (enum_tokens e @ ts) = Inr (pf\<lparr>p_enums := p_enums pf @ [e]\<rparr>, ts)"
  by (simp add: parse_top_level_def parse_enum_def enum_tokens_def p_run expect_run parse_enum_values_tokens enum_ok_def)


definition new_proto_file :: proto_file where
  "new_proto_file = \<lparr>p_package = [], p_enums = [], p_messages = []\<rparr>"

lemma parse_into_step:
  "parse_top_level fn pf (idt s # us) = Inr (pf', ts) \<Longrightarrow> parse_into fn (idt s # us) pf = parse_into fn ts pf'"
  by (simp add: parse_into.simps(2))

lemma parse_messages_tokens:
  "list_all message_ok ms \<Longrightarrow>
   parse_into fn (concat (map message_tokens ms) @ ts) pf = parse_into fn ts (pf\<lparr>p_messages := p_messages pf @ ms\<rparr>)"
proof (induction ms arbitrary: pf)
  case (Cons m ms)
  obtain s us where m: "message_tokens m @ concat (map message_tokens ms) @ ts = idt s # us"
    by (simp add: message_tokens_def)
  show ?case
    using parse_into_step [of fn pf s us] parse_message_tokens [of m fn pf "concat (map message_tokens ms) @ ts"] Cons
    by (simp add: m)
qed simp

lemma parse_enums_tokens:
  "list_all enum_ok es \<Longrightarrow>
   parse_into fn (concat (map enum_tokens es) @ ts) pf = parse_into fn ts (pf\<lparr>p_enums := p_enums pf @ es\<rparr>)"
proof (induction es arbitrary: pf)
  case (Cons e es)
  obtain s us where e: "enum_tokens e @ concat (map enum_tokens es) @ ts = idt s # us"
    by (simp add: enum_tokens_def)
  show ?case
    using parse_into_step [of fn pf s us] parse_enum_tokens [of e fn pf "concat (map enum_tokens es) @ ts"] Cons
    by (simp add: e)
qed simp

lemma parse_package_tokens:
  "parse_into fn ([idt ''package'', idt n, symb (CHR '';'')] @ ts) pf = parse_into fn ts (pf\<lparr>p_package := n\<rparr>)"
  by (simp add: parse_into.simps(2) parse_top_level_def p_run expect_run)

lemma parse_file_tokens:
  assumes "file_ok pf"
  shows "parse_into fn (file_tokens pf @ [Token End [] 1]) new_proto_file = Inr pf"
proof -
  have "parse_into fn [Token End [] 1] qf = Inr qf" for qf by (simp add: parse_into.simps(2) at_end_def)
  moreover have "\<lparr>p_package = p_package pf, p_enums = p_enums pf, p_messages = p_messages pf\<rparr> = pf" by simp
  ultimately show ?thesis
    using assms parse_package_tokens [of fn "p_package pf"]
    by (simp add: file_ok_def file_tokens_def parse_enums_tokens parse_messages_tokens new_proto_file_def)
qed

lemma token_ok_simps: "ident_ok s \<Longrightarrow> token_ok (idt s)" "is_symbol_char c \<Longrightarrow> token_ok (symb c)" "token_ok (Token StringLit s l)"
  by (simp_all add: token_ok_def idt_def symb_def ident_ok_def)

lemma ident_keywords: "list_all ident_ok [''repeated'', ''packed'', ''true'', ''false'', ''message'', ''option'', ''id'', ''base_class'', ''enum'', ''package'']"
  by code_simp

lemma symbols_ok: "list_all is_symbol_char ''{}[]()=;''"
  by code_simp

lemma lines_one: "tk_line (idt s) = 1" "tk_line (symb c) = 1" "tk_line (numt v) = 1"
  by (simp_all add: idt_def symb_def numt_def)

lemma file_tokens_ok: "file_ok pf \<Longrightarrow> list_all (\<lambda>t. token_ok t \<and> tk_line t = 1) (file_tokens pf)"
proof -
  note basics = token_ok_simps token_ok_num lines_one ident_keywords [simplified] symbols_ok [simplified]
  have "list_all (\<lambda>t. token_ok t \<and> tk_line t = 1) (field_tokens f)" if "field_ok f" for f
    using that by (auto simp: field_tokens_def field_ok_def basics)
  then have "list_all (\<lambda>t. token_ok t \<and> tk_line t = 1) (message_tokens m)" if "message_ok m" for m
    using that by (auto simp: message_tokens_def message_ok_def basics list_all_iff)
  moreover have "list_all (\<lambda>t. token_ok t \<and> tk_line t = 1) (enum_tokens e)" if "enum_ok e" for e
    using that by (auto simp: enum_tokens_def enum_ok_def enum_value_tokens_def basics list_all_iff)
  ultimately show "file_ok pf \<Longrightarrow> list_all (\<lambda>t. token_ok t \<and> tk_line t = 1) (file_tokens pf)"
    by (auto simp: file_tokens_def file_ok_def basics list_all_iff)
qed

definition front_end :: "string \<Rightarrow> string \<Rightarrow> parse_error + proto_file" where
  "front_end src fn = (case lex src fn of Inl e \<Rightarrow> Inl (Runtime_error e) | Inr ts \<Rightarrow> parse_into fn ts new_proto_file)"

section \<open>Properties\<close>

definition demo_file :: proto_file where
  "demo_file = \<lparr>p_package = ''api'',
     p_enums = [\<lparr>e_name = ''Mode'', e_values = [\<lparr>ev_name = ''OFF'', ev_number = 0\<rparr>, \<lparr>ev_name = ''ODD'', ev_number = - 7\<rparr>]\<rparr>],
     p_messages = [\<lparr>m_name = ''void'', m_fields = [], m_id = 0, m_base_class = []\<rparr>,
       \<lparr>m_name = ''Reply'', m_fields =
          [new_proto_field\<lparr>f_name := ''key'', f_type_name := ''fixed32'', f_number := 1\<rparr>,
           new_proto_field\<lparr>f_name := ''mode'', f_type_name := ''Mode'', f_number := 3, f_repeated := True,
             f_packed_explicit := True, f_packed_value := False\<rparr>],
        m_id = 12, m_base_class = ''Base''\<rparr>]\<rparr>"

lemma demo_file_ok: "file_ok demo_file"
  by code_simp

text \<open>
  C28: the front end of the generator reads back what it means: the proto text of any file description, with its
  package, enums, messages, ids, base classes, repeated fields and explicit packing, is tokenized and parsed to
  exactly that description.
\<close>

theorem front_end_roundtrip:
  assumes "file_ok pf"
  shows "front_end (concat (map render_token (file_tokens pf))) filename = Inr pf"
proof -
  have "lex (concat (map render_token (file_tokens pf))) filename = Inr (file_tokens pf @ [Token End [] 1])"
    using lex_render_all [of "file_tokens pf" filename 1 "[]"] file_tokens_ok [OF assms]
    by (auto simp: lex_def list_all_iff intro!: map_idI)
  then show ?thesis using parse_file_tokens [OF assms] by (simp add: front_end_def)
qed

theorem front_end_roundtrip_witness:
  "front_end (concat (map render_token (file_tokens demo_file))) ''api.proto'' = Inr demo_file"
  by (rule front_end_roundtrip [OF demo_file_ok])

text \<open>
  C29: the front end never reads a token past the end of its vector, on any text: every unchecked
  \<^verbatim>\<open>toks_[pos_]\<close> of the parser stands at or before the end marker, so a malformed file leads to an error
  message and not to a read out of range.
\<close>

theorem front_end_in_range: "front_end src filename \<noteq> Inl Out_of_range"
  using lex_loop_ok [of filename src 1 "[]"] parse_into_in_range tokens_ok_ended
  by (auto simp: front_end_def lex_def split: sum.splits)

end
