(* ===== verification/Proto_Generator.thy ===== *)
theory Proto_Generator
  imports Proto_Codec Proto_Parser
begin

text \<open>
  The code generator as a whole (\<^verbatim>\<open>tools/protogen/main.cpp\<close>) and the id registry it emits
  (\<^verbatim>\<open>emit_registry.cpp\<close>, used through \<^verbatim>\<open>src/proto/message_registry.cpp\<close>).  The contents of the two proto files are
  arguments; the emitted program is its classes (\<open>emit_classes\<close> of the resolved file) and its registry, the
  table of message ids that every emitted \<^verbatim>\<open>switch\<close> is made from.
\<close>

section \<open>The registry\<close>

text \<open>The first pair of neighbours with the same id.\<close>

fun first_duplicate :: "(string \<times> u32) list \<Rightarrow> (string \<times> string \<times> u32) option" where
  "first_duplicate ((n, i) # (n', i') # es) =
     (if i' = i then Some (n, n', i') else first_duplicate ((n', i') # es))"
| "first_duplicate _ = None"

definition id_entries :: "proto_file \<Rightarrow> parse_error + (string \<times> u32) list" where
  "id_entries pf =
     (let entries = sort_key snd (map (\<lambda>m. (m_name m, m_id m)) (filter (\<lambda>m. m_id m \<noteq> 0) (p_messages pf)))
      in case first_duplicate entries of
           Some (n, n', i) \<Rightarrow>
             Inl (Runtime_error (''duplicate message id '' @ to_string_nat (unat i) @ '' ('' @ n @ '' and '' @ n' @ '')''))
         | None \<Rightarrow>
             if entries = [] then Inl (Runtime_error ''no messages carry an (id) option'') else Inr entries)"

text \<open>The functions of the emitted \<^verbatim>\<open>api_registry.cpp\<close>: a \<^verbatim>\<open>switch\<close> with one label per entry.\<close>

definition create_message :: "(string \<times> u32) list \<Rightarrow> u32 \<Rightarrow> string option" where
  "create_message entries i = map_of (map (\<lambda>(n, j). (j, n)) entries) i"

definition registry_contains :: "(string \<times> u32) list \<Rightarrow> u32 \<Rightarrow> bool" where
  "registry_contains entries i = list_ex (\<lambda>(n, j). i = j) entries"

definition registry_size :: "(string \<times> u32) list \<Rightarrow> nat" where
  "registry_size entries = length entries"

definition registry_name :: "(string \<times> u32) list \<Rightarrow> u32 \<Rightarrow> string" where
  "registry_name entries i =
     (case map_of (map (\<lambda>(n, j). (j, n)) entries) i of Some n \<Rightarrow> n | None \<Rightarrow> ''Unknown'')"

text \<open>\<^verbatim>\<open>message_id_max\<close> of the emitted \<^verbatim>\<open>message_id.hpp\<close>.\<close>

definition message_id_max_of :: "(string \<times> u32) list \<Rightarrow> u32" where
  "message_id_max_of entries = snd (last entries)"

section \<open>The run of the generator\<close>

record generated =
  g_file :: proto_file
  g_entries :: "(string \<times> u32) list"

definition read_proto :: "string \<Rightarrow> string \<Rightarrow> proto_file \<Rightarrow> parse_error + proto_file" where
  "read_proto path src pf =
     (case lex src path of
        Inl e \<Rightarrow> Inl (Runtime_error e)
      | Inr tokens \<Rightarrow> parse_into path tokens pf)"

definition protogen :: "string \<Rightarrow> string \<Rightarrow> string \<Rightarrow> string \<Rightarrow> parse_error + generated" where
  "protogen api_path api_src options_path options_src =
     (case read_proto api_path api_src new_proto_file of
        Inl e \<Rightarrow> Inl e
      | Inr pf1 \<Rightarrow>
          (case read_proto options_path options_src pf1 of
             Inl e \<Rightarrow> Inl e
           | Inr pf2 \<Rightarrow>
               (case resolve_types pf2 of
                  Inl e \<Rightarrow> Inl e
                | Inr pf \<Rightarrow>
                    (case id_entries pf of
                       Inl e \<Rightarrow> Inl e
                     | Inr entries \<Rightarrow> Inr \<lparr>g_file = pf, g_entries = entries\<rparr>))))"

section \<open>Type resolution\<close>

lemma traverse_sum_Inr:
  "traverse_sum f xs = Inr ys \<longleftrightarrow> list_all2 (\<lambda>x y. f x = Inr y) xs ys"
proof (induction xs arbitrary: ys)
  case (Cons x xs)
  show ?case
  proof (cases ys)
    case ys: (Cons y ys')
    then show ?thesis using Cons.IH [of ys'] by (cases "f x"; cases "traverse_sum f xs") auto
  qed (auto split: sum.splits)
qed auto

text \<open>What the emitters rely on: a resolved field is a scalar, or names an enum, or names a message.\<close>

definition resolved_field :: "proto_file \<Rightarrow> proto_field \<Rightarrow> bool" where
  "resolved_field pf f =
     (if f_type f = FEnum then f_type_name f \<in> e_name ` set (p_enums pf)
      else if f_type f = FMessage then f_type_name f \<in> m_name ` set (p_messages pf)
      else is_scalar_type (f_type_name f) \<and> f_type f = scalar_field_type (f_type_name f))"

definition same_but_type :: "proto_field \<Rightarrow> proto_field \<Rightarrow> bool" where
  "same_but_type f f' = (f' = f\<lparr>f_type := f_type f', f_type_name := f_type_name f'\<rparr>)"

definition same_but_types :: "proto_message_def \<Rightarrow> proto_message_def \<Rightarrow> bool" where
  "same_but_types m m' =
     (list_all2 same_but_type (m_fields m) (m_fields m') \<and> m' = m\<lparr>m_fields := m_fields m'\<rparr>)"

lemma scalar_never_compound: "scalar_field_type t \<noteq> FEnum" "scalar_field_type t \<noteq> FMessage"
  by (simp_all add: scalar_field_type_def)

lemma resolve_type_resolved:
  "resolve_type (map e_name (p_enums pf)) (map m_name (p_messages pf)) mname f = Inr f' \<Longrightarrow> resolved_field pf f' \<and> same_but_type f f'"
  by (auto simp: resolve_type_def resolved_field_def same_but_type_def Let_def scalar_never_compound split: if_splits)

lemma resolve_message_resolved:
  assumes "resolve_message (map e_name (p_enums pf)) (map m_name (p_messages pf)) m = Inr m'"
  shows "list_all (resolved_field pf) (m_fields m') \<and> same_but_types m m'"
proof -
  let ?r = "resolve_type (map e_name (p_enums pf)) (map m_name (p_messages pf)) (m_name m)"
  obtain fs where fs: "list_all2 (\<lambda>f f'. ?r f = Inr f') (m_fields m) fs" "m' = m\<lparr>m_fields := fs\<rparr>"
    using assms by (auto simp: resolve_message_def traverse_sum_Inr split: sum.splits)
  then have "list_all2 (\<lambda>f f'. resolved_field pf f' \<and> same_but_type f f') (m_fields m) fs"
    using resolve_type_resolved by (elim list_all2_mono) blast
  then show ?thesis
    using fs(2) by (auto simp: same_but_types_def list_all_iff list_all2_conv_all_nth in_set_conv_nth)
qed

lemma same_but_types_name: "list_all2 same_but_types ms ms' \<Longrightarrow> map m_name ms' = map m_name ms \<and> map m_id ms' = map m_id ms"
proof (induction ms ms' rule: list_all2_induct)
  case (Cons m ms m' ms')
  then have eq: "m' = m\<lparr>m_fields := m_fields m'\<rparr>" by (simp add: same_but_types_def)
  have "m_name m' = m_name m" "m_id m' = m_id m" using arg_cong [OF eq, of m_name] arg_cong [OF eq, of m_id] by simp_all
  with Cons.IH show ?case by simp
qed simp

lemma resolve_types_resolved:
  assumes "resolve_types pf = Inr pf'"
  shows "list_all2 same_but_types (p_messages pf) (p_messages pf')"
    and "pf' = pf\<lparr>p_messages := p_messages pf'\<rparr>"
    and "m \<in> set (p_messages pf') \<Longrightarrow> f \<in> set (m_fields m) \<Longrightarrow> resolved_field pf' f"
proof -
  let ?r = "resolve_message (map e_name (p_enums pf)) (map m_name (p_messages pf))"
  obtain ms where ms: "list_all2 (\<lambda>m m'. ?r m = Inr m') (p_messages pf) ms" "pf' = pf\<lparr>p_messages := ms\<rparr>"
    using assms by (auto simp: resolve_types_def traverse_sum_Inr split: sum.splits)
  then have r: "list_all2 (\<lambda>m m'. list_all (resolved_field pf) (m_fields m') \<and> same_but_types m m') (p_messages pf) ms"
    using resolve_message_resolved by (elim list_all2_mono) blast
  then show same: "list_all2 same_but_types (p_messages pf) (p_messages pf')"
    using ms(2) by (auto elim: list_all2_mono)
  show "pf' = pf\<lparr>p_messages := p_messages pf'\<rparr>" using ms(2) by simp
  have "m_name ` set (p_messages pf') = m_name ` set (p_messages pf)"
    using same_but_types_name [OF same] by (metis list.set_map)
  then have eq: "resolved_field pf' = resolved_field pf"
    using ms(2) by (auto simp: resolved_field_def fun_eq_iff)
  show "resolved_field pf' f" if "m \<in> set (p_messages pf')" "f \<in> set (m_fields m)"
  proof -
    have "\<forall>m\<in>set ms. list_all (resolved_field pf) (m_fields m)"
      using r by (auto simp: list_all2_conv_all_nth in_set_conv_nth)
    then show ?thesis unfolding eq using that ms(2) by (auto simp: list_all_iff)
  qed
qed

section \<open>The registry is a bijection\<close>

lemma first_duplicate_None:
  "sorted (map snd es) \<Longrightarrow> first_duplicate es = None \<Longrightarrow> sorted_wrt (<) (map snd es)"
  by (induction es rule: first_duplicate.induct) (auto split: if_splits simp: less_le)

lemma id_entries_Inr:
  assumes "id_entries pf = Inr es"
  shows "sorted_wrt (<) (map snd es)" "es \<noteq> []"
    "set es = (\<lambda>m. (m_name m, m_id m)) ` {m \<in> set (p_messages pf). m_id m \<noteq> 0}"
    "length es = length (filter (\<lambda>m. m_id m \<noteq> 0) (p_messages pf))"
proof -
  let ?es = "sort_key snd (map (\<lambda>m. (m_name m, m_id m)) (filter (\<lambda>m. m_id m \<noteq> 0) (p_messages pf)))"
  have es: "es = ?es" "first_duplicate ?es = None" "es \<noteq> []"
    using assms by (auto simp: id_entries_def Let_def split: option.splits if_splits)
  then show "sorted_wrt (<) (map snd es)" "es \<noteq> []" using first_duplicate_None by auto
  show "set es = (\<lambda>m. (m_name m, m_id m)) ` {m \<in> set (p_messages pf). m_id m \<noteq> 0}"
    "length es = length (filter (\<lambda>m. m_id m \<noteq> 0) (p_messages pf))"
    unfolding es(1) by (auto simp: image_iff)
qed

lemma distinct_ids: "sorted_wrt (<) (map snd es) \<Longrightarrow> distinct (map snd es)" for es :: "(string \<times> u32) list"
  by (rule strict_sorted_iff [THEN iffD1, THEN conjunct2])

lemma create_message_iff:
  assumes "distinct (map snd es)"
  shows "create_message es i = Some n \<longleftrightarrow> (n, i) \<in> set es"
proof -
  have "distinct (map fst (map (\<lambda>(n, j). (j, n)) es))"
    using assms by (simp add: comp_def case_prod_beta)
  from map_of_eq_Some_iff [OF this] show ?thesis
    by (force simp: create_message_def)
qed


section \<open>The emitted classes\<close>

text \<open>
  The emitted \<^verbatim>\<open>switch\<close> statements compile: no message has two fields of one number.
\<close>

definition numbers_distinct :: "proto_message_def \<Rightarrow> bool" where
  "numbers_distinct m = distinct (map (\<lambda>f. of_int (f_number f) :: u32) (m_fields m))"

lemma resolve_fields_Some:
  "resolve_fields env fs = Some cs \<longleftrightarrow> list_all2 (\<lambda>f c. resolve_field env f = Some c) fs cs"
proof (induction fs arbitrary: cs)
  case (Cons f fs)
  show ?case
  proof (cases cs)
    case cs: (Cons c cs')
    then show ?thesis using Cons.IH [of cs'] by (cases "resolve_field env f") auto
  qed (auto split: option.splits)
qed auto

lemma resolve_field_Some:
  assumes "resolve_field env f = Some c" "\<forall>(n, cls) \<in> set env. wf_class cls"
  shows "cf_field c = f \<and> wf_field c"
proof (cases "f_type f = FMessage")
  case True
  then obtain cls where "map_of env (f_type_name f) = Some cls" "c = ClassField f cls" using assms(1) by auto
  then show ?thesis using assms(2) map_of_SomeD [of env "f_type_name f" cls] by (auto simp: wf_class_def)
qed (use assms in auto)

lemma resolve_fields_wf:
  assumes "resolve_fields env fs = Some cs" "\<forall>(n, cls) \<in> set env. wf_class cls"
    and "distinct (map (\<lambda>f. of_int (f_number f) :: u32) fs)"
  shows "wf_class cs"
proof -
  have c: "list_all2 (\<lambda>f c. cf_field c = f \<and> wf_field c) fs cs"
    using assms(1) resolve_field_Some [OF _ assms(2)] unfolding resolve_fields_Some by (auto elim: list_all2_mono)
  then have "map cf_no cs = map (\<lambda>f. of_int (f_number f)) fs"
    by (induction fs cs rule: list_all2_induct) (auto simp: cf_no_def)
  moreover have "list_all wf_field cs"
    using c by (auto simp: list_all_iff list_all2_conv_all_nth in_set_conv_nth)
  ultimately show ?thesis using assms(3) by (simp add: wf_class_def)
qed

lemma emit_classes_wf:
  "emit_classes env ms = Some env' \<Longrightarrow> \<forall>(n, cls) \<in> set env. wf_class cls \<Longrightarrow> list_all numbers_distinct ms \<Longrightarrow>
   \<forall>(n, cls) \<in> set env'. wf_class cls"
proof (induction env ms rule: emit_classes.induct)
  case (2 env m ms)
  then obtain cls where cls: "resolve_fields env (sorted_fields m) = Some cls"
    "emit_classes (env @ [(m_name m, cls)]) ms = Some env'" by (auto split: option.splits)
  have "distinct (map (\<lambda>f. of_int (f_number f) :: u32) (sorted_fields m))"
    using 2(4) by (simp add: numbers_distinct_def sorted_fields_def distinct_map)
  then have "wf_class cls" using resolve_fields_wf [OF cls(1) 2(3)] by blast
  then show ?case using 2 cls by auto
qed simp

lemma emit_classes_names: "emit_classes env ms = Some env' \<Longrightarrow> map fst env' = map fst env @ map m_name ms"
  by (induction env ms rule: emit_classes.induct) (auto split: option.splits)

lemma protogen_Inr:
  assumes "protogen p s q t = Inr g"
  shows "id_entries (g_file g) = Inr (g_entries g)" "\<exists>pf. resolve_types pf = Inr (g_file g)"
  using assms by (auto simp: protogen_def split: sum.splits)

section \<open>Properties\<close>

definition demo_proto :: string where
  "demo_proto = ''enum Mode{ON=1;}message Area{string name=2;}message Reply{option(id)=12;repeated Area a=17;Mode m=3;fixed32 key=0x1;}''"

definition demo_area :: msg_class where
  "demo_area = [ClassField (new_proto_field\<lparr>f_name := ''name'', f_type_name := ''string'', f_type := FString, f_number := 2\<rparr>) []]"

definition demo_reply_fields :: "proto_field list" where
  "demo_reply_fields =
     [new_proto_field\<lparr>f_name := ''a'', f_type_name := ''Area'', f_type := FMessage, f_number := 17, f_repeated := True\<rparr>,
      new_proto_field\<lparr>f_name := ''m'', f_type_name := ''Mode'', f_type := FEnum, f_number := 3\<rparr>,
      new_proto_field\<lparr>f_name := ''key'', f_type_name := ''fixed32'', f_type := FFixed32, f_number := 1\<rparr>]"

definition demo_reply :: msg_class where
  "demo_reply = [ClassField (demo_reply_fields ! 2) [], ClassField (demo_reply_fields ! 1) [], ClassField (demo_reply_fields ! 0) demo_area]"

definition demo_generated :: generated where
  "demo_generated =
     \<lparr>g_file = \<lparr>p_package = [], p_enums = [\<lparr>e_name = ''Mode'', e_values = [\<lparr>ev_name = ''ON'', ev_number = 1\<rparr>]\<rparr>],
        p_messages = [new_proto_message\<lparr>m_name := ''Area'', m_fields := map cf_field demo_area\<rparr>,
          new_proto_message\<lparr>m_name := ''Reply'', m_fields := demo_reply_fields, m_id := 12\<rparr>]\<rparr>,
      g_entries = [(''Reply'', 12)]\<rparr>"

lemma demo_run: "protogen ''a'' demo_proto ''b'' [] = Inr demo_generated"
  by code_simp

lemma demo_emitted: "emit_classes [] (p_messages (g_file demo_generated)) = Some [(''Area'', demo_area), (''Reply'', demo_reply)]"
  by code_simp

lemma demo_numbers: "list_all numbers_distinct (p_messages (g_file demo_generated))"
  by code_simp

lemma demo_entries: "g_entries demo_generated = [(''Reply'', 12)]"
  by (simp add: demo_generated_def)

lemma sorted_le_last: "sorted xs \<Longrightarrow> x \<in> set xs \<Longrightarrow> x \<le> last xs"
  by (induction xs) auto

text \<open>
  C30: the registry of a generated program is a bijection between message ids and message classes: an id that is
  not 0 creates exactly the message that carries it in the proto file and every other id creates none, no two
  messages share an id, and the emitted count, names, membership test and largest id agree with it.
\<close>

theorem generated_registry:
  assumes "protogen api_path api_src options_path options_src = Inr g"
  shows "(create_message (g_entries g) i = Some n \<longleftrightarrow>
           i \<noteq> 0 \<and> (\<exists>m \<in> set (p_messages (g_file g)). m_id m = i \<and> m_name m = n)) \<and>
     (registry_contains (g_entries g) i \<longleftrightarrow> create_message (g_entries g) i \<noteq> None) \<and>
     registry_name (g_entries g) i = (case create_message (g_entries g) i of Some n \<Rightarrow> n | None \<Rightarrow> ''Unknown'') \<and>
     registry_size (g_entries g) = length (filter (\<lambda>m. m_id m \<noteq> 0) (p_messages (g_file g))) \<and>
     distinct (map snd (g_entries g)) \<and>
     (registry_contains (g_entries g) i \<longrightarrow> i \<le> message_id_max_of (g_entries g))"
proof -
  note e = id_entries_Inr [OF protogen_Inr(1) [OF assms]]
  note d = distinct_ids [OF e(1)]
  have c: "create_message (g_entries g) j = Some k \<longleftrightarrow> (k, j) \<in> set (g_entries g)" for j k
    by (rule create_message_iff [OF d])
  have contains: "registry_contains (g_entries g) i \<longleftrightarrow> (\<exists>k. (k, i) \<in> set (g_entries g))"
    by (auto simp: registry_contains_def list_ex_iff)
  have "i \<le> message_id_max_of (g_entries g)" if "(k, i) \<in> set (g_entries g)" for k
  proof -
    have "i \<le> last (map snd (g_entries g))"
      using e(1) that by (intro sorted_le_last) (auto simp: strict_sorted_iff image_iff intro!: bexI)
    then show ?thesis using e(2) by (simp add: message_id_max_of_def last_map)
  qed
  moreover have "(n, i) \<in> set (g_entries g) \<longleftrightarrow> i \<noteq> 0 \<and> (\<exists>m \<in> set (p_messages (g_file g)). m_id m = i \<and> m_name m = n)"
    unfolding e(3) by auto
  moreover have "(\<exists>k. (k, i) \<in> set (g_entries g)) \<longleftrightarrow> create_message (g_entries g) i \<noteq> None"
    using c [of i] by auto
  ultimately show ?thesis
    using c [of i n] contains d e(4) by (auto simp: registry_size_def registry_name_def create_message_def)
qed

theorem generated_registry_witness:
  "create_message [(''Reply'', 12)] 12 = Some ''Reply'' \<and> distinct (map snd [(''Reply'', 12 :: u32)])"
  using generated_registry [OF demo_run, of 12 "''Reply''"] by (simp add: create_message_def demo_entries)



end
