(* ===== verification/Frame_Api.thy ===== *)
theory Frame_Api
  imports Varint
begin

text \<open>
  The frame-codec interface of \<^verbatim>\<open>frame/frame_helper.hpp\<close>.  A codec owns a reassembly buffer: \<open>feed\<close>
  appends received bytes, \<open>next\<close> returns a whole frame, asks for more bytes or throws.  The contract
  both codecs are shown to meet is the locale \<open>frame_channel\<close>: a sender state and a receiver that
  \<open>holds\<close> some not yet consumed bytes, where a complete frame at the front is returned and removed
  and a proper prefix of a frame leaves the receiver waiting.  From that contract alone, every
  sequence of messages is delivered once and in order however the byte stream is cut into chunks.
\<close>

datatype frame_status = FOk u32 bytes | FNeedMore

type_synonym frame_result = "api_error + frame_status"

definition max_frame_payload :: nat where
  "max_frame_payload = 16 * 1024 * 1024"

section \<open>Receiving a byte stream in chunks\<close>

text \<open>Call \<open>next\<close> until it stops returning frames (at most \<open>n\<close> calls).\<close>

fun pump :: "('d \<Rightarrow> frame_result \<times> 'd) \<Rightarrow> nat \<Rightarrow> 'd \<Rightarrow> (u32 \<times> bytes) list \<times> api_error option \<times> 'd" where
  "pump nxt 0 d = ([], None, d)"
| "pump nxt (Suc n) d =
     (case nxt d of
        (Inl e, d') \<Rightarrow> ([], Some e, d')
      | (Inr FNeedMore, d') \<Rightarrow> ([], None, d')
      | (Inr (FOk t p), d') \<Rightarrow>
          (case pump nxt n d' of (ms, e, d'') \<Rightarrow> ((t, p) # ms, e, d'')))"

text \<open>Feed the chunks one after the other, draining after each; an exception ends the run.\<close>

fun receive ::
  "(bytes \<Rightarrow> 'd \<Rightarrow> 'd) \<Rightarrow> ('d \<Rightarrow> frame_result \<times> 'd) \<Rightarrow> nat \<Rightarrow> bytes list \<Rightarrow> 'd
   \<Rightarrow> (u32 \<times> bytes) list \<times> api_error option \<times> 'd" where
  "receive fd nxt n [] d = ([], None, d)"
| "receive fd nxt n (c # cs) d =
     (case pump nxt n (fd c d) of
        (ms, Some e, d') \<Rightarrow> (ms, Some e, d')
      | (ms, None, d') \<Rightarrow> (case receive fd nxt n cs d' of (ms', e, d'') \<Rightarrow> (ms @ ms', e, d'')))"

text \<open>What a sender puts on the wire for a list of messages.\<close>

fun encode_all :: "('s \<Rightarrow> u32 \<times> bytes \<Rightarrow> bytes \<times> 's) \<Rightarrow> 's \<Rightarrow> (u32 \<times> bytes) list \<Rightarrow> bytes \<times> 's" where
  "encode_all enc s [] = ([], s)"
| "encode_all enc s (m # ms) =
     (case enc s m of (w, s') \<Rightarrow> (case encode_all enc s' ms of (ws, s'') \<Rightarrow> (w @ ws, s'')))"

section \<open>The contract\<close>

locale frame_channel =
  fixes enc :: "'s \<Rightarrow> u32 \<times> bytes \<Rightarrow> bytes \<times> 's"
    and fd :: "bytes \<Rightarrow> 'd \<Rightarrow> 'd"
    and nxt :: "'d \<Rightarrow> frame_result \<times> 'd"
    and holds :: "'s \<Rightarrow> 'd \<Rightarrow> bytes \<Rightarrow> bool"
    and okm :: "u32 \<times> bytes \<Rightarrow> bool"
  assumes holds_feed: "holds s d b \<Longrightarrow> holds s (fd x d) (b @ x)"
    and next_frame: "holds s d (w @ rest) \<Longrightarrow> enc s m = (w, s') \<Longrightarrow> okm m \<Longrightarrow>
        \<exists>d'. nxt d = (Inr (FOk (fst m) (snd m)), d') \<and> holds s' d' rest"
    and next_partial: "holds s d b \<Longrightarrow> enc s m = (w, s') \<Longrightarrow> okm m \<Longrightarrow> strict_prefix b w \<Longrightarrow>
        \<exists>d'. nxt d = (Inr FNeedMore, d') \<and> holds s d' b"
    and next_empty: "holds s d [] \<Longrightarrow> \<exists>d'. nxt d = (Inr FNeedMore, d') \<and> holds s d' []"
begin

text \<open>
  One drain: the messages split into those already complete in the buffer, which are returned, and
  those still to come, of which the receiver holds a part.
\<close>

lemma pump_delivers:
  assumes "holds s d b" "encode_all enc s ms = (b @ rest, s')" "list_all okm ms" "length ms < n"
  shows "\<exists>ms1 ms2 s1 d' b'. ms = ms1 @ ms2 \<and> pump nxt n d = (ms1, None, d') \<and> holds s1 d' b' \<and>
      encode_all enc s1 ms2 = (b' @ rest, s') \<and> (rest = [] \<longrightarrow> ms2 = [] \<and> b' = [])"
  using assms
proof (induction ms arbitrary: s d b n)
  case Nil
  then obtain k where "n = Suc k" by (cases n) auto
  with Nil next_empty [of s d] show ?case by fastforce
next
  case (Cons m ms)
  then obtain k where n: "n = Suc k" and k: "length ms < k" by (cases n) auto
  obtain w s1 ws where m: "enc s m = (w, s1)" and ms: "encode_all enc s1 ms = (ws, s')"
    and eq: "w @ ws = b @ rest"
    using Cons.prems(2) by (auto split: prod.splits)
  have ok: "okm m" "list_all okm ms" using Cons.prems(3) by auto
  from eq consider (short) "strict_prefix b w" | (full) b1 where "b = w @ b1" "ws = b1 @ rest"
    by (auto simp: append_eq_append_conv2 strict_prefix_def prefix_def) blast
  then show ?case
  proof cases
    case short
    then have "rest \<noteq> []" using eq by (auto simp: strict_prefix_def prefix_def)
    moreover obtain d' where "nxt d = (Inr FNeedMore, d')" "holds s d' b"
      using next_partial [OF Cons.prems(1) m ok(1) short] by blast
    ultimately show ?thesis
      using n Cons.prems(2) by (intro exI [of _ "[]"] exI [of _ "m # ms"] exI [of _ s]) auto
  next
    case full
    obtain d' where d': "nxt d = (Inr (FOk (fst m) (snd m)), d')" "holds s1 d' b1"
      using next_frame [OF _ m ok(1)] Cons.prems(1) full(1) by blast
    with Cons.IH [of s1 d' b1 k] ms full(2) ok(2) k
    obtain ms1 ms2 s2 d'' b' where IH: "ms = ms1 @ ms2" "pump nxt k d' = (ms1, None, d'')"
        "holds s2 d'' b'" "encode_all enc s2 ms2 = (b' @ rest, s')" "rest = [] \<longrightarrow> ms2 = [] \<and> b' = []"
      by blast
    then show ?thesis
      using n d'(1) by (intro exI [of _ "m # ms1"] exI [of _ ms2] exI [of _ s2]) auto
  qed
qed

text \<open>The whole stream, from any point on: what the receiver holds is a part of what is still due.\<close>

lemma receive_delivers:
  assumes "holds s d b" "encode_all enc s ms = (b @ concat cs, s')" "list_all okm ms"
    and "length ms < n" "cs = [] \<longrightarrow> ms = []"
  shows "\<exists>d'. receive fd nxt n cs d = (ms, None, d') \<and> holds s' d' []"
  using assms
proof (induction cs arbitrary: s d b ms)
  case Nil
  then show ?case by auto
next
  case (Cons c cs)
  have h: "holds s (fd c d) (b @ c)" using Cons.prems(1) by (rule holds_feed)
  have e: "encode_all enc s ms = ((b @ c) @ concat cs, s')" using Cons.prems(2) by simp
  obtain ms1 ms2 s1 d' b' where p: "ms = ms1 @ ms2" "pump nxt n (fd c d) = (ms1, None, d')"
      "holds s1 d' b'" "encode_all enc s1 ms2 = (b' @ concat cs, s')" "concat cs = [] \<longrightarrow> ms2 = [] \<and> b' = []"
    using pump_delivers [OF h e Cons.prems(3,4)] by (elim exE conjE)
  with Cons.prems have "list_all okm ms2" "length ms2 < n" "cs = [] \<longrightarrow> ms2 = []" by auto
  with Cons.IH [OF p(3,4)] obtain d'' where "receive fd nxt n cs d' = (ms2, None, d'')" "holds s' d'' []"
    by blast
  with p show ?case by simp
qed

lemma receive_all:
  assumes "holds s d []" "encode_all enc s ms = (concat cs, s')" "list_all okm ms" "length ms < n"
    and "\<And>s m. okm m \<Longrightarrow> fst (enc s m) \<noteq> []"
  shows "\<exists>d'. receive fd nxt n cs d = (ms, None, d') \<and> holds s' d' []"
proof -
  have c: "cs = [] \<longrightarrow> ms = []"
  proof
    assume "cs = []"
    with assms show "ms = []"
      by (cases ms) (auto split: prod.splits, metis fst_conv)
  qed
  show ?thesis
    by (rule receive_delivers [OF assms(1) _ assms(3,4) c]) (simp only: append_Nil assms(2))
qed

end

end
