(* ===== verification/Plaintext_Frame.thy ===== *)
theory Plaintext_Frame
  imports Frame_Api
begin

text \<open>
  \<^verbatim>\<open>PlaintextFrameHelper\<close> (\<^verbatim>\<open>frame/plaintext_frame_helper.cpp\<close>): frames
  \<^verbatim>\<open>[0x00][varint payload_length][varint msg_type][payload]\<close> with both varints limited to four
  bytes on receipt.  The state is the reassembly buffer and the number of bytes the previous
  successful \<open>next\<close> consumed, dropped by the following call.
\<close>

record plaintext =
  pf_buffer :: bytes
  pf_consumed :: nat

definition plain_init :: plaintext where
  "plain_init = \<lparr>pf_buffer = [], pf_consumed = 0\<rparr>"

definition plain_indicator :: byte where
  "plain_indicator = 0x00"

definition varint_budget :: nat where
  "varint_budget = 4"

definition plain_encode :: "u32 \<Rightarrow> bytes \<Rightarrow> bytes \<Rightarrow> bytes" where
  "plain_encode msg_type payload out =
     append_varint (append_varint (out @ [plain_indicator]) (of_nat (length payload))) msg_type @ payload"

definition plain_feed :: "bytes \<Rightarrow> plaintext \<Rightarrow> plaintext" where
  "plain_feed data st = st\<lparr>pf_buffer := pf_buffer st @ data\<rparr>"

definition plain_compact :: "plaintext \<Rightarrow> plaintext" where
  "plain_compact st =
     (if pf_consumed st = 0 then st
      else if pf_consumed st \<ge> length (pf_buffer st) then st\<lparr>pf_buffer := [], pf_consumed := 0\<rparr>
      else st\<lparr>pf_buffer := drop (pf_consumed st) (pf_buffer st), pf_consumed := 0\<rparr>)"

definition plain_next :: "plaintext \<Rightarrow> frame_result \<times> plaintext" where
  "plain_next st0 =
     (let st = plain_compact st0; p = pf_buffer st; n = length p
      in if n < 1 then (Inr FNeedMore, st)
         else if p ! 0 \<noteq> plain_indicator then
           (if p ! 0 = 0x01
            then (Inl (EncryptionMismatchError
                    ''device requires encryption; provide a Noise PSK with --key / -k''), st)
            else (Inl (ProtocolError (''plaintext frame: bad indicator byte (got 0x'' @
                    to_string_nat (unat (p ! 0)) @ '', expected 0x00)'')), st))
         else
           (case decode_varint (drop 1 p) varint_budget of
              VIncomplete \<Rightarrow> (Inr FNeedMore, st)
            | VOverflow \<Rightarrow> (Inl (ProtocolError ''plaintext frame: payload length varint too long''), st)
            | VOk payload_len c1 \<Rightarrow>
                (let cursor = 1 + c1
                 in case decode_varint (drop cursor p) varint_budget of
                      VIncomplete \<Rightarrow> (Inr FNeedMore, st)
                    | VOverflow \<Rightarrow> (Inl (ProtocolError ''plaintext frame: message type varint too long''), st)
                    | VOk msg_type c2 \<Rightarrow>
                        (let cursor = cursor + c2
                         in if unat payload_len > max_frame_payload
                            then (Inl (ProtocolError ''plaintext frame: payload length exceeds maximum''), st)
                            else if n - cursor < unat payload_len then (Inr FNeedMore, st)
                            else (Inr (FOk msg_type (take (unat payload_len) (drop cursor p))),
                                  st\<lparr>pf_consumed := cursor + unat payload_len\<rparr>)))))"

section \<open>The bytes a state still has to process\<close>

definition plain_pending :: "plaintext \<Rightarrow> bytes" where
  "plain_pending st = drop (pf_consumed st) (pf_buffer st)"

text \<open>The cursor never runs past the buffer.\<close>

definition plain_inv :: "plaintext \<Rightarrow> bool" where
  "plain_inv st \<longleftrightarrow> pf_consumed st \<le> length (pf_buffer st)"

lemma plain_compact_simps [simp]:
  "pf_buffer (plain_compact st) = plain_pending st" "pf_consumed (plain_compact st) = 0"
  by (simp_all add: plain_compact_def plain_pending_def)

lemma plain_pending_feed: "plain_inv st \<Longrightarrow> plain_pending (plain_feed x st) = plain_pending st @ x"
  by (simp add: plain_pending_def plain_feed_def plain_inv_def)

lemma plain_inv_feed: "plain_inv st \<Longrightarrow> plain_inv (plain_feed x st)"
  by (simp add: plain_inv_def plain_feed_def)

lemma plain_compact_inv [simp]: "plain_inv (plain_compact st)" "plain_pending (plain_compact st) = plain_pending st"
  by (simp_all add: plain_inv_def plain_pending_def [of "plain_compact st"])

section \<open>Round trip\<close>

definition plain_frame :: "u32 \<times> bytes \<Rightarrow> bytes" where
  "plain_frame m = plain_encode (fst m) (snd m) []"

text \<open>Messages the receiving side accepts: a type of at most four varint bytes, a payload within the cap.\<close>

definition plain_ok :: "u32 \<times> bytes \<Rightarrow> bool" where
  "plain_ok m \<longleftrightarrow> unat (fst m) < 2 ^ 28 \<and> length (snd m) \<le> max_frame_payload"

lemma plain_encode_eq: "plain_encode t p out = out @ plain_frame (t, p)"
  by (simp add: plain_encode_def plain_frame_def append_varint_eq)

lemma plain_frame_eq:
  "length p \<le> max_frame_payload \<Longrightarrow>
   plain_frame (t, p) = 0x00 # leb128 (length p) @ leb128 (unat t) @ p"
  by (simp add: plain_frame_def plain_encode_def append_varint_eq plain_indicator_def
      max_frame_payload_def unat_of_nat)

lemma plain_ok_lengths:
  assumes "plain_ok (t, p)"
  shows "length (leb128 (unat t)) \<le> 4" "length (leb128 (length p)) \<le> 4" "length p < 2 ^ 32"
  using assms length_leb128_le [of "unat t" 4] length_leb128_le [of "length p" 4]
  by (simp_all add: plain_ok_def max_frame_payload_def)

lemma plain_next_frame:
  assumes pend: "plain_pending st = plain_frame (t, p) @ rest" and ok: "plain_ok (t, p)"
  shows "\<exists>st'. plain_next st = (Inr (FOk t p), st') \<and> plain_inv st' \<and> plain_pending st' = rest"
proof -
  note len = plain_ok_lengths [OF ok]
  let ?b = "0x00 # leb128 (length p) @ leb128 (unat t) @ p @ rest"
  let ?c = "length (leb128 (length p)) + length (leb128 (unat t))"
  have b: "plain_pending st = ?b"
    using pend ok by (simp add: plain_frame_eq plain_ok_def)
  have ul: "unat (word_of_nat (length p) :: u32) = length p" using len(3) by (simp add: unat_of_nat)
  have d1: "decode_varint (leb128 (length p) @ leb128 (unat t) @ p @ rest) varint_budget =
      VOk (of_nat (length p)) (length (leb128 (length p)))"
    using len by (simp add: decode_varint_leb128 varint_budget_def)
  have d2: "decode_varint (leb128 (unat t) @ p @ rest) varint_budget = VOk t (length (leb128 (unat t)))"
    using len unat_u32_lt [of t] by (simp add: decode_varint_leb128 varint_budget_def)
  have "plain_next st = (Inr (FOk t p), (plain_compact st)\<lparr>pf_consumed := Suc (?c + length p)\<rparr>)"
    using ok by (simp add: plain_next_def Let_def b plain_indicator_def d1 d2 ul plain_ok_def)
  then show ?thesis
    by (simp add: plain_inv_def b
        plain_pending_def [of "(plain_compact st)\<lparr>pf_consumed := Suc (?c + length p)\<rparr>"])
qed

text \<open>Every proper prefix of a frame leaves the codec waiting, with nothing consumed.\<close>

lemma plain_next_partial:
  assumes pend: "strict_prefix (plain_pending st) (plain_frame (t, p))" and ok: "plain_ok (t, p)"
  shows "plain_next st = (Inr FNeedMore, plain_compact st)"
proof (cases "plain_pending st")
  case Nil
  then show ?thesis by (simp add: plain_next_def Let_def)
next
  case (Cons x b)
  note len = plain_ok_lengths [OF ok]
  let ?l = "leb128 (length p)" and ?t = "leb128 (unat t)"
  have x: "x = 0" and b: "strict_prefix b (?l @ ?t @ p)"
    using pend ok Cons by (auto simp: plain_frame_eq plain_ok_def)
  have ul: "unat (word_of_nat (length p) :: u32) = length p" using len(3) by (simp add: unat_of_nat)
  have nx: "plain_next st = (Inr FNeedMore, plain_compact st)"
    if "decode_varint b varint_budget = VIncomplete \<or>
        (\<exists>c. b = ?l @ c \<and> decode_varint c varint_budget = VIncomplete) \<or>
        (\<exists>c. b = ?l @ ?t @ c \<and> length c < length p)"
  proof -
    have d1: "decode_varint (?l @ c) varint_budget = VOk (of_nat (length p)) (length ?l)" for c
      using len by (simp add: decode_varint_leb128 varint_budget_def)
    have d2: "decode_varint (?t @ c) varint_budget = VOk t (length ?t)" for c
      using len unat_u32_lt [of t] by (simp add: decode_varint_leb128 varint_budget_def)
    from that show ?thesis
      using ok by (elim disjE exE conjE)
        (simp_all add: plain_next_def Let_def Cons x plain_indicator_def d1 d2 ul plain_ok_def)
  qed
  show ?thesis
    using b
  proof (cases rule: strict_prefix_append_cases)
    case left
    then show ?thesis using len by (intro nx) (simp add: decode_varint_strict_prefix varint_budget_def)
  next
    case (right c)
    from right(2) show ?thesis
    proof (cases rule: strict_prefix_append_cases)
      case left
      with right(1) len show ?thesis
        by (intro nx) (auto simp: decode_varint_strict_prefix varint_budget_def)
    next
      case inner: (right c')
      with right(1) show ?thesis by (intro nx) (auto dest: prefix_length_less)
    qed
  qed
qed

section \<open>The codec is a frame channel\<close>

definition plain_enc :: "unit \<Rightarrow> u32 \<times> bytes \<Rightarrow> bytes \<times> unit" where
  "plain_enc s m = (plain_encode (fst m) (snd m) [], s)"

definition plain_holds :: "unit \<Rightarrow> plaintext \<Rightarrow> bytes \<Rightarrow> bool" where
  "plain_holds s st b \<longleftrightarrow> plain_inv st \<and> plain_pending st = b"

interpretation plain: frame_channel plain_enc plain_feed plain_next plain_holds plain_ok
proof (unfold_locales, goal_cases)
  case (1 s d b x)
  then show ?case by (simp add: plain_holds_def plain_pending_feed plain_inv_feed)
next
  case (2 s d w rest m s')
  then show ?case
    using plain_next_frame [of d "fst m" "snd m" rest]
    by (auto simp: plain_holds_def plain_enc_def plain_frame_def)
next
  case (3 s d b m w s')
  then show ?case
    using plain_next_partial [of d "fst m" "snd m"]
    by (auto simp: plain_holds_def plain_enc_def plain_frame_def)
next
  case (4 s d)
  then show ?case by (simp add: plain_holds_def plain_next_def Let_def)
qed

lemma plain_enc_nonempty: "fst (plain_enc s m) \<noteq> []"
  by (simp add: plain_enc_def plain_encode_def append_varint_eq)

section \<open>Safety on arbitrary input\<close>

lemma decode_varint_consumed:
  "decode_varint data m = VOk v c \<Longrightarrow> m \<le> 9 \<Longrightarrow> 1 \<le> c \<and> c \<le> length data"
proof -
  assume "decode_varint data m = VOk v c" "m \<le> 9"
  then have c: "c = Suc (length (takeWhile cont_byte data))" and ne: "length (takeWhile cont_byte data) \<noteq> length data"
    by (auto simp: decode_varint_eq_spec decode_varint_spec_def Let_def split: if_splits)
  have "length (takeWhile cont_byte data) \<le> length data" by (rule length_takeWhile_le)
  then show ?thesis using c ne by simp
qed

lemma plain_next_Inl: "plain_next st = (Inl e, st') \<Longrightarrow> st' = plain_compact st \<and> is_protocol_error e"
  by (auto simp: plain_next_def Let_def split: if_splits varint_status.splits)

lemma plain_next_NeedMore: "plain_next st = (Inr FNeedMore, st') \<Longrightarrow> st' = plain_compact st"
  by (auto simp: plain_next_def Let_def split: if_splits varint_status.splits)

lemma plain_next_FOk:
  assumes "plain_next st = (Inr (FOk t p), st')"
  obtains k where "3 \<le> k" "k + length p \<le> length (plain_pending st)" "p = take (length p) (drop k (plain_pending st))"
    "st' = (plain_compact st)\<lparr>pf_consumed := k + length p\<rparr>" "length p \<le> max_frame_payload"
proof -
  let ?q = "plain_pending st"
  from assms obtain n c1 t2 c2 where
    d: "decode_varint (drop 1 ?q) varint_budget = VOk n c1"
      "decode_varint (drop (1 + c1) ?q) varint_budget = VOk t2 c2"
    and n: "unat n \<le> max_frame_payload" "\<not> length ?q - (1 + c1 + c2) < unat n"
    and p: "p = take (unat n) (drop (1 + c1 + c2) ?q)" "st' = (plain_compact st)\<lparr>pf_consumed := 1 + c1 + c2 + unat n\<rparr>"
    and ne: "\<not> length ?q < 1"
    by (auto simp: plain_next_def Let_def split: if_splits varint_status.splits)
  from decode_varint_consumed [OF d(1)] decode_varint_consumed [OF d(2)]
  have c: "1 \<le> c1" "1 \<le> c2" "1 + c1 + c2 \<le> length ?q" using ne by (auto simp: varint_budget_def)
  then have "length p = unat n" using n(2) p(1) by simp
  then show ?thesis using that [of "1 + c1 + c2"] c n p by simp
qed

lemma plain_next_safe:
  "case plain_next st of (r, st') \<Rightarrow>
     plain_inv st' \<and> suffix (plain_pending st') (plain_pending st) \<and>
     (case r of
        Inl e \<Rightarrow> plain_pending st' = plain_pending st \<and> is_protocol_error e
      | Inr FNeedMore \<Rightarrow> plain_pending st' = plain_pending st
      | Inr (FOk t p) \<Rightarrow> length p \<le> max_frame_payload \<and> length (plain_pending st') + length p + 3 \<le> length (plain_pending st) \<and>
          (\<exists>hd. plain_pending st = hd @ p @ plain_pending st'))"
proof -
  obtain r st' where eq: "plain_next st = (r, st')" by fastforce
  consider e where "r = Inl e" | "r = Inr FNeedMore" | t p where "r = Inr (FOk t p)"
    by (cases r) (auto intro: frame_status.exhaust)
  then show ?thesis
  proof cases
    case (3 t p)
    obtain k where k: "3 \<le> k" "k + length p \<le> length (plain_pending st)"
        "p = take (length p) (drop k (plain_pending st))"
        "st' = (plain_compact st)\<lparr>pf_consumed := k + length p\<rparr>" "length p \<le> max_frame_payload"
      by (rule plain_next_FOk [OF eq [unfolded 3]])
    have pend: "plain_pending st' = drop (length p) (drop k (plain_pending st))"
      unfolding k(4) by (subst plain_pending_def) (simp add: add.commute)
    have "plain_pending st = take k (plain_pending st) @ p @ plain_pending st'"
      using k(3) unfolding pend by (metis append_take_drop_id)
    moreover have "plain_inv st'" using k(2) by (simp add: plain_inv_def k(4))
    moreover have "length (plain_pending st') + length p + 3 \<le> length (plain_pending st)"
      using k(1,2) by (simp add: pend)
    ultimately show ?thesis using k(5) 3 by (auto simp: eq pend suffix_drop)
  qed (use eq in \<open>auto dest: plain_next_Inl plain_next_NeedMore\<close>)
qed

section \<open>Properties\<close>

text \<open>
  The plaintext codec delivers every message exactly once and in order, whatever way the byte
  stream is cut into chunks: after all chunks nothing is left in the buffer and no error was raised.
\<close>

theorem plaintext_stream_delivery:
  assumes "list_all plain_ok ms" "concat cs = concat (map (\<lambda>m. plain_encode (fst m) (snd m) []) ms)" "length ms < n"
  shows "\<exists>st. receive plain_feed plain_next n cs plain_init = (ms, None, st) \<and> plain_pending st = []"
proof -
  have e: "encode_all plain_enc () ms = (concat (map (\<lambda>m. plain_encode (fst m) (snd m) []) ms), ())" for ms
    by (induction ms) (simp_all add: plain_enc_def)
  have "plain_holds () plain_init []" by (simp add: plain_holds_def plain_inv_def plain_pending_def plain_init_def)
  from plain.receive_all [OF this, of ms cs "()" n] e [of ms] assms plain_enc_nonempty
  show ?thesis by (auto simp: plain_holds_def)
qed

theorem plaintext_stream_delivery_witness:
  "\<exists>st. receive plain_feed plain_next 2 [[0x00, 0x02, 0x07, 0xAA], [0xBB]] plain_init = ([(7, [0xAA, 0xBB])], None, st) \<and>
     plain_pending st = []"
  by (rule plaintext_stream_delivery)
    (simp_all add: plain_ok_def max_frame_payload_def plain_encode_def plain_indicator_def append_varint.simps)

text \<open>
  C38: on any buffer, however malformed, \<^verbatim>\<open>next\<close> stays inside it: the cursor remains within the buffer,
  what is left is a suffix of what was there, only a delivered frame consumes bytes (at least three),
  and a delivered payload is a contiguous part of the buffer no longer than the cap.
\<close>

theorem plaintext_next_safe:
  "case plain_next st of (r, st') \<Rightarrow>
     plain_inv st' \<and> suffix (plain_pending st') (plain_pending st) \<and>
     (case r of
        Inl e \<Rightarrow> plain_pending st' = plain_pending st \<and> is_protocol_error e
      | Inr FNeedMore \<Rightarrow> plain_pending st' = plain_pending st
      | Inr (FOk t p) \<Rightarrow> length p \<le> max_frame_payload \<and> length (plain_pending st') + length p + 3 \<le> length (plain_pending st) \<and>
          (\<exists>hd. plain_pending st = hd @ p @ plain_pending st'))"
  by (rule plain_next_safe)

text \<open>
  The encoder is more permissive than the decoder.  A type of 2^28 or more takes five varint bytes,
  which the receiving side, limited to four, rejects.
\<close>

theorem plaintext_encode_too_wide:
  "fst (plain_next (plain_feed (plain_encode 0x10000000 [] []) plain_init)) =
     Inl (ProtocolError ''plaintext frame: message type varint too long'')"
proof -
  have l: "leb128 268435456 = [0x80, 0x80, 0x80, 0x80, 0x01]" "leb128 0 = [0x00]"
    by (simp_all add: leb128.simps [of 268435456] leb128.simps [of 2097152] leb128.simps [of 16384]
        leb128.simps [of 128] leb128.simps [of "Suc 0"] leb128.simps [of 0])
  have "plain_pending (plain_feed (plain_encode 0x10000000 [] []) plain_init) =
      [0x00, 0x00, 0x80, 0x80, 0x80, 0x80, 0x01]"
    by (simp add: plain_encode_def append_varint_eq l plain_indicator_def plain_pending_def plain_feed_def plain_init_def)
  then show ?thesis
    by (simp add: plain_next_def Let_def plain_indicator_def varint_budget_def decode_varint_eq_spec decode_varint_spec_def)
qed

end
