(* ===== verification/Sha256.thy ===== *)
theory Sha256
  imports ESP_Prelude
begin

text \<open>
  The streaming SHA-256 of \<^verbatim>\<open>src/crypto/detail/sha256.cpp\<close>: context, \<open>init\<close>, \<open>update\<close>, \<open>final\<close> and the
  one-shot helper.  The reference is the block-wise definition: pad the whole message, cut it into
  64-byte blocks and fold the compression function over them.  The streaming code is shown equal to
  it for every way of splitting the input over calls of \<open>update\<close>.
\<close>

section \<open>The code\<close>

record sha256_ctx =
  sc_data :: bytes
  sc_datalen :: nat
  sc_bitlen :: u64
  sc_state :: "u32 list"

text \<open>The 64 round constants of the source's table, in decimal.\<close>

definition sha_k :: "u32 list" where
  "sha_k = [
    1116352408, 1899447441, 3049323471, 3921009573, 961987163, 1508970993, 2453635748, 2870763221,
    3624381080, 310598401, 607225278, 1426881987, 1925078388, 2162078206, 2614888103, 3248222580,
    3835390401, 4022224774, 264347078, 604807628, 770255983, 1249150122, 1555081692, 1996064986,
    2554220882, 2821834349, 2952996808, 3210313671, 3336571891, 3584528711, 113926993, 338241895,
    666307205, 773529912, 1294757372, 1396182291, 1695183700, 1986661051, 2177026350, 2456956037,
    2730485921, 2820302411, 3259730800, 3345764771, 3516065817, 3600352804, 4094571909, 275423344,
    430227734, 506948616, 659060556, 883997877, 958139571, 1322822218, 1537002063, 1747873779,
    1955562222, 2024104815, 2227730452, 2361852424, 2428436474, 2756734187, 3204031479, 3329325298]"

definition rotr :: "u32 \<Rightarrow> nat \<Rightarrow> u32" where
  "rotr x n = drop_bit n x OR push_bit (32 - n) x"

definition sha_load :: "bytes \<Rightarrow> nat \<Rightarrow> u32" where
  "sha_load data j =
     push_bit 24 (ucast (data ! j)) OR push_bit 16 (ucast (data ! (j + 1))) OR
     push_bit 8 (ucast (data ! (j + 2))) OR ucast (data ! (j + 3))"

definition sha_extend :: "nat \<Rightarrow> u32 list \<Rightarrow> u32 list" where
  "sha_extend i m =
     (let s0 = rotr (m ! (i - 15)) 7 XOR rotr (m ! (i - 15)) 18 XOR drop_bit 3 (m ! (i - 15));
          s1 = rotr (m ! (i - 2)) 17 XOR rotr (m ! (i - 2)) 19 XOR drop_bit 10 (m ! (i - 2))
      in m @ [m ! (i - 16) + s0 + m ! (i - 7) + s1])"

definition sha_schedule :: "bytes \<Rightarrow> u32 list" where
  "sha_schedule data = fold sha_extend [16..<64] (map (\<lambda>i. sha_load data (4 * i)) [0..<16])"

type_synonym sha_regs = "u32 \<times> u32 \<times> u32 \<times> u32 \<times> u32 \<times> u32 \<times> u32 \<times> u32"

definition sha_round :: "u32 list \<Rightarrow> nat \<Rightarrow> sha_regs \<Rightarrow> sha_regs" where
  "sha_round m i = (\<lambda>(a, b, c, d, e, f, g, h).
     let t1 = h + (rotr e 6 XOR rotr e 11 XOR rotr e 25) + ((e AND f) XOR (NOT e AND g)) + sha_k ! i + m ! i;
         t2 = (rotr a 2 XOR rotr a 13 XOR rotr a 22) + ((a AND b) XOR (a AND c) XOR (b AND c))
     in (t1 + t2, a, b, c, d + t1, e, f, g))"

definition sha256_transform :: "u32 list \<Rightarrow> bytes \<Rightarrow> u32 list" where
  "sha256_transform st data =
     (case fold (sha_round (sha_schedule data)) [0..<64]
             (st ! 0, st ! 1, st ! 2, st ! 3, st ! 4, st ! 5, st ! 6, st ! 7) of
        (a, b, c, d, e, f, g, h) \<Rightarrow>
          [st ! 0 + a, st ! 1 + b, st ! 2 + c, st ! 3 + d, st ! 4 + e, st ! 5 + f, st ! 6 + g, st ! 7 + h])"

definition sha_iv :: "u32 list" where
  "sha_iv = [0x6a09e667, 0xbb67ae85, 0x3c6ef372, 0xa54ff53a, 0x510e527f, 0x9b05688c, 0x1f83d9ab, 0x5be0cd19]"

definition sha256_init :: "sha256_ctx \<Rightarrow> sha256_ctx" where
  "sha256_init ctx = ctx\<lparr>sc_datalen := 0, sc_bitlen := 0, sc_state := sha_iv\<rparr>"

definition sha256_update_byte :: "sha256_ctx \<Rightarrow> byte \<Rightarrow> sha256_ctx" where
  "sha256_update_byte ctx b =
     (let data = (sc_data ctx)[sc_datalen ctx := b]; n = sc_datalen ctx + 1
      in if n = 64
         then ctx\<lparr>sc_data := data, sc_state := sha256_transform (sc_state ctx) data,
                  sc_bitlen := sc_bitlen ctx + 512, sc_datalen := 0\<rparr>
         else ctx\<lparr>sc_data := data, sc_datalen := n\<rparr>)"

definition sha256_update :: "sha256_ctx \<Rightarrow> bytes \<Rightarrow> sha256_ctx" where
  "sha256_update ctx data = foldl sha256_update_byte ctx data"

text \<open>\<open>while (i < hi) data[i++] = 0\<close>\<close>

definition zero_fill :: "nat \<Rightarrow> nat \<Rightarrow> bytes \<Rightarrow> bytes" where
  "zero_fill lo hi data = take lo data @ replicate (hi - lo) 0 @ drop hi data"

definition sha_digest :: "u32 list \<Rightarrow> bytes" where
  "sha_digest st = concat (map (\<lambda>w. map (\<lambda>i. ucast (drop_bit (24 - i * 8) w AND 0xff)) [0..<4]) st)"

definition sha_be64 :: "u64 \<Rightarrow> bytes" where
  "sha_be64 v = map (\<lambda>i. ucast (drop_bit (56 - 8 * i) v)) [0..<8]"

definition sha256_final :: "sha256_ctx \<Rightarrow> bytes" where
  "sha256_final ctx =
     (let n = sc_datalen ctx; data = (sc_data ctx)[n := 0x80];
          (data1, st1) =
            (if n < 56 then (zero_fill (n + 1) 56 data, sc_state ctx)
             else let data' = zero_fill (n + 1) 64 data
                  in (zero_fill 0 56 data', sha256_transform (sc_state ctx) data'));
          bitlen = sc_bitlen ctx + of_nat n * 8;
          data2 = take 56 data1 @ sha_be64 bitlen
      in sha_digest (sha256_transform st1 data2))"

text \<open>The one-shot helper's context is a local variable; \<open>sha_blank\<close> stands for its initial content.\<close>

definition sha_blank :: sha256_ctx where
  "sha_blank = \<lparr>sc_data = replicate 64 0, sc_datalen = 0, sc_bitlen = 0, sc_state = replicate 8 0\<rparr>"

definition sha256 :: "bytes \<Rightarrow> bytes" where
  "sha256 data = sha256_final (sha256_update (sha256_init sha_blank) data)"

section \<open>Reference: pad, cut into blocks, fold\<close>

fun blocks64 :: "bytes \<Rightarrow> bytes list" where
  "blocks64 bs = (if length bs < 64 then [] else take 64 bs # blocks64 (drop 64 bs))"

declare blocks64.simps [simp del]

definition sha_pad :: "bytes \<Rightarrow> bytes" where
  "sha_pad msg = msg @ 0x80 # replicate ((119 - length msg mod 64) mod 64) 0 @ sha_be64 (of_nat (8 * length msg))"

definition sha256_spec :: "bytes \<Rightarrow> bytes" where
  "sha256_spec msg = sha_digest (foldl sha256_transform sha_iv (blocks64 (sha_pad msg)))"

section \<open>Streaming equals the reference\<close>

lemma blocks64_short: "length bs < 64 \<Longrightarrow> blocks64 bs = []"
  by (subst blocks64.simps) simp

lemma blocks64_one: "length bs = 64 \<Longrightarrow> blocks64 bs = [bs]"
  by (subst blocks64.simps) (simp add: blocks64_short)

lemma blocks64_append: "length xs mod 64 = 0 \<Longrightarrow> blocks64 (xs @ ys) = blocks64 xs @ blocks64 ys"
proof (induction xs rule: blocks64.induct)
  case (1 xs)
  show ?case
  proof (cases "length xs < 64")
    case True
    with "1.prems" have "xs = []" by simp
    then show ?thesis by (simp add: blocks64_short)
  next
    case False
    with "1.prems" have "length (drop 64 xs) mod 64 = 0" by (simp add: mod_if)
    with False "1.IH" show ?thesis
      by (subst (1 2) blocks64.simps) simp
  qed
qed

text \<open>A context has absorbed \<open>msg\<close>: its full blocks are in the state, the rest is in the buffer.\<close>

definition absorbed :: "sha256_ctx \<Rightarrow> bytes \<Rightarrow> bool" where
  "absorbed ctx msg \<longleftrightarrow> (\<exists>full part. msg = full @ part \<and> length full mod 64 = 0 \<and> length part < 64 \<and>
     sc_datalen ctx = length part \<and> length (sc_data ctx) = 64 \<and> take (length part) (sc_data ctx) = part \<and>
     sc_bitlen ctx = of_nat (8 * length full) \<and> sc_state ctx = foldl sha256_transform sha_iv (blocks64 full))"

lemma absorbed_init: "length (sc_data ctx) = 64 \<Longrightarrow> absorbed (sha256_init ctx) []"
  by (simp add: absorbed_def sha256_init_def blocks64_short)

lemma absorbed_byte:
  assumes "absorbed ctx msg"
  shows "absorbed (sha256_update_byte ctx b) (msg @ [b])"
proof -
  from assms obtain full part where *: "msg = full @ part" "length full mod 64 = 0" "length part < 64"
      "sc_datalen ctx = length part" "length (sc_data ctx) = 64" "take (length part) (sc_data ctx) = part"
      "sc_bitlen ctx = of_nat (8 * length full)" "sc_state ctx = foldl sha256_transform sha_iv (blocks64 full)"
    unfolding absorbed_def by (elim exE conjE)
  let ?data = "(sc_data ctx)[length part := b]"
  have tk: "take (Suc (length part)) ?data = part @ [b]"
    using * by (simp add: take_Suc_conv_app_nth)
  show ?thesis
  proof (cases "Suc (length part) = 64")
    case True
    with tk * have data: "?data = part @ [b]" by (metis length_list_update take_all_iff order_refl)
    have "blocks64 (full @ part @ [b]) = blocks64 full @ [part @ [b]]"
      using True *(2) by (simp add: blocks64_append blocks64_one)
    then have st: "sha256_transform (sc_state ctx) (part @ [b]) =
        foldl sha256_transform sha_iv (blocks64 (full @ part @ [b]))"
      by (simp add: *(8))
    have "length (full @ part @ [b]) mod 64 = 0" using True *(2) by (simp add: mod_add_eq [symmetric])
    moreover have "sc_bitlen ctx + 512 = of_nat (8 * length (full @ part @ [b]))"
      using True by (simp add: *(7) algebra_simps)
    ultimately show ?thesis
      unfolding absorbed_def using True * data st
      by (intro exI [of _ "full @ part @ [b]"] exI [of _ "[]"]) (simp add: sha256_update_byte_def Let_def)
  next
    case False
    then show ?thesis
      unfolding absorbed_def using * tk
      by (intro exI [of _ full] exI [of _ "part @ [b]"]) (simp add: sha256_update_byte_def Let_def)
  qed
qed

lemma absorbed_update: "absorbed ctx msg \<Longrightarrow> absorbed (sha256_update ctx data) (msg @ data)"
proof (induction data arbitrary: ctx msg)
  case (Cons b bs)
  from Cons.IH [OF absorbed_byte [OF Cons.prems]] show ?case by (simp add: sha256_update_def)
qed (simp add: sha256_update_def)

lemma length_sha_be64 [simp]: "length (sha_be64 v) = 8"
  by (simp add: sha_be64_def)

lemma absorbed_final:
  assumes "absorbed ctx msg"
  shows "sha256_final ctx = sha256_spec msg"
proof -
  from assms obtain full part where *: "msg = full @ part" "length full mod 64 = 0" "length part < 64"
      "sc_datalen ctx = length part" "length (sc_data ctx) = 64" "take (length part) (sc_data ctx) = part"
      "sc_bitlen ctx = of_nat (8 * length full)" "sc_state ctx = foldl sha256_transform sha_iv (blocks64 full)"
    unfolding absorbed_def by (elim exE conjE)
  let ?n = "length part" and ?be = "sha_be64 (of_nat (8 * length msg))"
  let ?data = "(sc_data ctx)[?n := 0x80]"
  have len: "length msg mod 64 = ?n" using * by (simp add: mod_add_eq [symmetric])
  have bits: "sc_bitlen ctx + of_nat ?n * 8 = of_nat (8 * length msg)" by (simp add: * algebra_simps)
  have data: "take (Suc ?n) ?data = part @ [0x80]" using * by (simp add: take_Suc_conv_app_nth)
  show ?thesis
  proof (cases "?n < 56")
    case True
    let ?blk = "part @ 0x80 # replicate (55 - ?n) 0 @ ?be"
    have "(119 - ?n) mod 64 = 55 - ?n" using True by (simp add: le_mod_geq)
    then have "sha_pad msg = full @ ?blk" unfolding sha_pad_def len by (simp add: *(1))
    then have "blocks64 (sha_pad msg) = blocks64 full @ [?blk]"
      using True *(2) by (simp add: blocks64_append blocks64_one)
    moreover have "take 56 (zero_fill (Suc ?n) 56 ?data) @ ?be = ?blk"
    proof -
      have "56 - ?n = Suc (55 - ?n)" using True by simp
      then show ?thesis using True data by (simp add: zero_fill_def)
    qed
    ultimately show ?thesis
      using True * bits by (simp add: sha256_final_def sha256_spec_def Let_def mult.commute)
  next
    case False
    let ?b1 = "part @ 0x80 # replicate (63 - ?n) 0" and ?b2 = "replicate 56 0 @ ?be"
    have "replicate (119 - ?n) (0 :: byte) = replicate (63 - ?n) 0 @ replicate 56 0"
      using *(3) by (simp flip: replicate_add)
    moreover have "(119 - ?n) mod 64 = 119 - ?n" using False by simp
    ultimately have "sha_pad msg = full @ ?b1 @ ?b2" unfolding sha_pad_def len by (simp add: *(1))
    then have "blocks64 (sha_pad msg) = blocks64 full @ [?b1, ?b2]"
      using False *(2,3) by (simp add: blocks64_append blocks64_one del: append.simps append_assoc)
    moreover have z: "zero_fill (Suc ?n) 64 ?data = ?b1"
      using data * by (simp add: zero_fill_def)
    moreover have "take 56 (zero_fill 0 56 ?b1) = replicate 56 0"
      using False *(3) by (simp add: zero_fill_def)
    ultimately show ?thesis
      using False * bits by (simp add: sha256_final_def sha256_spec_def Let_def mult.commute)
  qed
qed

lemma sha256_eq_spec: "sha256 msg = sha256_spec msg"
  using absorbed_final [OF absorbed_update [OF absorbed_init [of sha_blank], of msg]]
  by (simp add: sha256_def sha_blank_def)

lemma length_sha256 [simp]: "length (sha256 msg) = 32"
proof -
  have "length (sha256_transform st data) = 8" for st data
    by (simp add: sha256_transform_def split: prod.splits)
  then show ?thesis
    by (simp add: sha256_def sha256_final_def sha_digest_def Let_def length_concat comp_def
        sum_list_triv split: prod.splits)
qed

section \<open>Properties\<close>

text \<open>
  C35: the streaming implementation (block buffer, bit counter, padding in one or two blocks) computes
  SHA-256: the digest of every message equals the reference that pads the whole message and folds the
  compression function over its blocks, and has 32 bytes.
\<close>

theorem sha256_correct: "sha256 msg = sha256_spec msg \<and> length (sha256 msg) = 32"
  using sha256_eq_spec length_sha256 by blast

end
