(* ===== verification/Chacha20.thy ===== *)
theory Chacha20
  imports ESP_Prelude
begin

text \<open>
  ChaCha20 as in \<^verbatim>\<open>src/crypto/detail/chacha20poly1305.cpp\<close>: the quarter round, the block function and
  the keystream XOR, which is shown to preserve length, to be its own inverse, and to be the XOR with
  the keystream of consecutive blocks.
\<close>

definition load32_le :: "bytes \<Rightarrow> nat \<Rightarrow> u32" where
  "load32_le p i = ucast (p ! i) OR push_bit 8 (ucast (p ! (i + 1))) OR
     push_bit 16 (ucast (p ! (i + 2))) OR push_bit 24 (ucast (p ! (i + 3)))"

definition store32_le :: "u32 \<Rightarrow> bytes" where
  "store32_le v = [ucast v, ucast (drop_bit 8 v), ucast (drop_bit 16 v), ucast (drop_bit 24 v)]"

definition rotl32 :: "u32 \<Rightarrow> nat \<Rightarrow> u32" where
  "rotl32 x n = push_bit n x OR drop_bit (32 - n) x"

definition quarter_round :: "u32 \<times> u32 \<times> u32 \<times> u32 \<Rightarrow> u32 \<times> u32 \<times> u32 \<times> u32" where
  "quarter_round = (\<lambda>(a, b, c, d).
     let a = a + b; d = d XOR a; d = rotl32 d 16;
         c = c + d; b = b XOR c; b = rotl32 b 12;
         a = a + b; d = d XOR a; d = rotl32 d 8;
         c = c + d; b = b XOR c; b = rotl32 b 7
     in (a, b, c, d))"

definition qround :: "nat \<Rightarrow> nat \<Rightarrow> nat \<Rightarrow> nat \<Rightarrow> u32 list \<Rightarrow> u32 list" where
  "qround i j k l w =
     (case quarter_round (w ! i, w ! j, w ! k, w ! l) of
        (a, b, c, d) \<Rightarrow> w[i := a, j := b, k := c, l := d])"

definition double_round :: "u32 list \<Rightarrow> u32 list" where
  "double_round w =
     (let w = qround 0 4 8 12 w; w = qround 1 5 9 13 w; w = qround 2 6 10 14 w; w = qround 3 7 11 15 w;
          w = qround 0 5 10 15 w; w = qround 1 6 11 12 w; w = qround 2 7 8 13 w; w = qround 3 4 9 14 w
      in w)"

definition chacha20_state :: "bytes \<Rightarrow> u32 \<Rightarrow> bytes \<Rightarrow> u32 list" where
  "chacha20_state key counter nonce =
     [0x61707865, 0x3320646e, 0x79622d32, 0x6b206574] @
     map (\<lambda>i. load32_le key (4 * i)) [0..<8] @
     [counter, load32_le nonce 0, load32_le nonce 4, load32_le nonce 8]"

definition chacha20_block :: "bytes \<Rightarrow> u32 \<Rightarrow> bytes \<Rightarrow> bytes" where
  "chacha20_block key counter nonce =
     (let state = chacha20_state key counter nonce;
          working = fold (\<lambda>_. double_round) [0..<10] state
      in concat (map (\<lambda>i. store32_le (working ! i + state ! i)) [0..<16]))"

function chacha20_xor :: "bytes \<Rightarrow> u32 \<Rightarrow> bytes \<Rightarrow> bytes \<Rightarrow> bytes" where
  "chacha20_xor key counter nonce inp =
     (if inp = [] then []
      else let block = chacha20_block key counter nonce; n = min (length inp) 64
           in map (\<lambda>i. inp ! i XOR block ! i) [0..<n] @ chacha20_xor key (counter + 1) nonce (drop n inp))"
  by pat_completeness auto
termination
  by (relation "measure (\<lambda>(key, counter, nonce, inp). length inp)") auto

declare chacha20_xor.simps [simp del]

section \<open>Keystream\<close>

lemma length_store32_le [simp]: "length (store32_le v) = 4"
  by (simp add: store32_le_def)

lemma length_chacha20_block [simp]: "length (chacha20_block key counter nonce) = 64"
  by (simp add: chacha20_block_def Let_def length_concat comp_def sum_list_triv)

lemma chacha20_xor_Nil [simp]: "chacha20_xor key counter nonce [] = []"
  by (subst chacha20_xor.simps) simp

lemma length_chacha20_xor [simp]: "length (chacha20_xor key counter nonce inp) = length inp"
proof (induction key counter nonce inp rule: chacha20_xor.induct)
  case (1 key counter nonce inp)
  then show ?case by (subst chacha20_xor.simps) (auto simp: Let_def min_def)
qed

definition xor_bytes :: "bytes \<Rightarrow> bytes \<Rightarrow> bytes" where
  "xor_bytes = map2 (XOR)"

lemma length_xor_bytes [simp]: "length (xor_bytes xs ys) = min (length xs) (length ys)"
  by (simp add: xor_bytes_def)

lemma xor_bytes_append:
  "length xs = length ys \<Longrightarrow> xor_bytes (xs @ xs') (ys @ ys') = xor_bytes xs ys @ xor_bytes xs' ys'"
  by (simp add: xor_bytes_def)

lemma xor_bytes_cancel: "length xs \<le> length ks \<Longrightarrow> xor_bytes (xor_bytes xs ks) ks = xs"
proof (induction xs arbitrary: ks)
  case (Cons x xs)
  then show ?case by (cases ks) (auto simp: xor_bytes_def xor.assoc)
qed (simp add: xor_bytes_def)

text \<open>The keystream: the blocks of consecutive counter values.\<close>

fun keystream :: "bytes \<Rightarrow> u32 \<Rightarrow> bytes \<Rightarrow> nat \<Rightarrow> bytes" where
  "keystream key counter nonce 0 = []"
| "keystream key counter nonce (Suc k) = chacha20_block key counter nonce @ keystream key (counter + 1) nonce k"

lemma length_keystream [simp]: "length (keystream key counter nonce k) = 64 * k"
  by (induction k arbitrary: counter) auto

lemma map_xor_upt:
  "n \<le> length xs \<Longrightarrow> n \<le> length ys \<Longrightarrow> map (\<lambda>i. xs ! i XOR ys ! i) [0..<n] = xor_bytes (take n xs) ys"
  by (rule nth_equalityI) (auto simp: xor_bytes_def)

lemma xor_bytes_Nil [simp]: "xor_bytes [] ys = []"
  by (simp add: xor_bytes_def)

lemma chacha20_xor_keystream:
  "length inp \<le> 64 * k \<Longrightarrow> chacha20_xor key counter nonce inp = xor_bytes inp (keystream key counter nonce k)"
proof (induction k arbitrary: counter inp)
  case 0
  then show ?case by (simp add: xor_bytes_def)
next
  case (Suc k)
  let ?b = "chacha20_block key counter nonce" and ?n = "min (length inp) 64"
  show ?case
  proof (cases "inp = []")
    case True
    then show ?thesis by (simp add: xor_bytes_def)
  next
    case False
    have "chacha20_xor key counter nonce inp =
        xor_bytes (take ?n inp) ?b @ chacha20_xor key (counter + 1) nonce (drop ?n inp)"
      using False by (subst chacha20_xor.simps) (simp add: Let_def map_xor_upt)
    also have "chacha20_xor key (counter + 1) nonce (drop ?n inp) =
        xor_bytes (drop ?n inp) (keystream key (counter + 1) nonce k)"
      using Suc.prems by (intro Suc.IH) auto
    also have "xor_bytes (take ?n inp) ?b @ \<dots> = xor_bytes inp (keystream key counter nonce (Suc k))"
    proof (cases "length inp \<le> 64")
      case True
      then have "drop ?n inp = []" "take ?n inp = inp" by auto
      moreover have "xor_bytes inp (?b @ ks) = xor_bytes inp ?b" for ks
        using True by (simp add: xor_bytes_def zip_append2)
      ultimately show ?thesis by simp
    next
      case False
      then have n: "?n = 64" "length (take 64 inp) = length ?b" by auto
      show ?thesis unfolding n(1) keystream.simps
        using xor_bytes_append [OF n(2), of "drop 64 inp" "keystream key (counter + 1) nonce k"] by simp
    qed
    finally show ?thesis .
  qed
qed

lemma chacha20_xor_involution: "chacha20_xor key counter nonce (chacha20_xor key counter nonce inp) = inp"
proof -
  let ?ks = "keystream key counter nonce (length inp)"
  have "chacha20_xor key counter nonce (chacha20_xor key counter nonce inp) = xor_bytes (xor_bytes inp ?ks) ?ks"
    using chacha20_xor_keystream [of inp "length inp" key counter nonce]
      chacha20_xor_keystream [of "xor_bytes inp ?ks" "length inp" key counter nonce] by simp
  then show ?thesis by (simp add: xor_bytes_cancel)
qed

section \<open>Properties\<close>

text \<open>
  \<^verbatim>\<open>chacha20_xor\<close> adds the keystream of consecutive counter blocks to its input, for every input
  length, partial last block included, and applying it twice gives the input back.
\<close>

theorem chacha20_stream:
  assumes "length inp \<le> 64 * k"
  shows "chacha20_xor key counter nonce inp = xor_bytes inp (keystream key counter nonce k) \<and>
     chacha20_xor key counter nonce (chacha20_xor key counter nonce inp) = inp"
  using chacha20_xor_keystream [OF assms] chacha20_xor_involution by blast

theorem chacha20_stream_witness:
  "chacha20_xor (replicate 32 0) 1 (replicate 12 0) [0x41, 0x42, 0x43] =
     xor_bytes [0x41, 0x42, 0x43] (keystream (replicate 32 0) 1 (replicate 12 0) 1)"
  using chacha20_stream [of "[0x41, 0x42, 0x43]" 1 "replicate 32 0" 1 "replicate 12 0"] by simp

end
