(* ===== verification/Poly1305.thy ===== *)
theory Poly1305
  imports Chacha20
begin

text \<open>
  The 32-bit Poly1305 of \<^verbatim>\<open>src/crypto/detail/chacha20poly1305.cpp\<close> (poly1305-donna): five 26-bit limbs,
  64-bit products, lazy carries, a constant-time final reduction and a streaming interface with a
  16-byte buffer.  The reference is the textbook definition over the naturals: evaluate the message
  blocks as a polynomial at the clamped key modulo \<open>2^130 - 5\<close> and add the pad modulo \<open>2^128\<close>.
\<close>

section \<open>The code\<close>

type_synonym limbs = "u32 \<times> u32 \<times> u32 \<times> u32 \<times> u32"

record poly1305 =
  po_r :: limbs
  po_h :: limbs
  po_pad :: "u32 \<times> u32 \<times> u32 \<times> u32"
  po_leftover :: nat
  po_buffer :: bytes
  po_final :: bool

definition poly1305_init :: "poly1305 \<Rightarrow> bytes \<Rightarrow> poly1305" where
  "poly1305_init st key = st\<lparr>
     po_r := (load32_le key 0 AND 0x3ffffff,
              drop_bit 2 (load32_le key 3) AND 0x3ffff03,
              drop_bit 4 (load32_le key 6) AND 0x3ffc0ff,
              drop_bit 6 (load32_le key 9) AND 0x3f03fff,
              drop_bit 8 (load32_le key 12) AND 0x00fffff),
     po_h := (0, 0, 0, 0, 0),
     po_pad := (load32_le key 16, load32_le key 20, load32_le key 24, load32_le key 28),
     po_leftover := 0, po_final := False\<rparr>"

text \<open>One iteration of the loop of \<^verbatim>\<open>poly1305_blocks\<close>: \<open>h += m[i]\<close>, then \<open>h *= r\<close> with a partial reduction.\<close>

definition poly_add :: "u32 \<Rightarrow> bytes \<Rightarrow> limbs \<Rightarrow> limbs" where
  "poly_add hibit m = (\<lambda>(h0, h1, h2, h3, h4).
     (h0 + (load32_le m 0 AND 0x3ffffff),
      h1 + (drop_bit 2 (load32_le m 3) AND 0x3ffffff),
      h2 + (drop_bit 4 (load32_le m 6) AND 0x3ffffff),
      h3 + (drop_bit 6 (load32_le m 9) AND 0x3ffffff),
      h4 + (drop_bit 8 (load32_le m 12) OR hibit)))"

definition poly_products :: "limbs \<Rightarrow> limbs \<Rightarrow> u64 \<times> u64 \<times> u64 \<times> u64 \<times> u64" where
  "poly_products = (\<lambda>(r0, r1, r2, r3, r4) (h0, h1, h2, h3, h4).
     let s1 = r1 * 5; s2 = r2 * 5; s3 = r3 * 5; s4 = r4 * 5
     in (ucast h0 * ucast r0 + ucast h1 * ucast s4 + ucast h2 * ucast s3 + ucast h3 * ucast s2 + ucast h4 * ucast s1,
         ucast h0 * ucast r1 + ucast h1 * ucast r0 + ucast h2 * ucast s4 + ucast h3 * ucast s3 + ucast h4 * ucast s2,
         ucast h0 * ucast r2 + ucast h1 * ucast r1 + ucast h2 * ucast r0 + ucast h3 * ucast s4 + ucast h4 * ucast s3,
         ucast h0 * ucast r3 + ucast h1 * ucast r2 + ucast h2 * ucast r1 + ucast h3 * ucast r0 + ucast h4 * ucast s4,
         ucast h0 * ucast r4 + ucast h1 * ucast r3 + ucast h2 * ucast r2 + ucast h3 * ucast r1 + ucast h4 * ucast r0))"

definition poly_carry :: "u64 \<times> u64 \<times> u64 \<times> u64 \<times> u64 \<Rightarrow> limbs" where
  "poly_carry = (\<lambda>(d0, d1, d2, d3, d4).
     let c = (ucast (drop_bit 26 d0) :: u32); h0 = (ucast d0 :: u32) AND 0x3ffffff; d1 = d1 + ucast c;
         c = (ucast (drop_bit 26 d1) :: u32); h1 = (ucast d1 :: u32) AND 0x3ffffff; d2 = d2 + ucast c;
         c = (ucast (drop_bit 26 d2) :: u32); h2 = (ucast d2 :: u32) AND 0x3ffffff; d3 = d3 + ucast c;
         c = (ucast (drop_bit 26 d3) :: u32); h3 = (ucast d3 :: u32) AND 0x3ffffff; d4 = d4 + ucast c;
         c = (ucast (drop_bit 26 d4) :: u32); h4 = (ucast d4 :: u32) AND 0x3ffffff;
         h0 = h0 + c * 5; c = drop_bit 26 h0; h0 = h0 AND 0x3ffffff; h1 = h1 + c
     in (h0, h1, h2, h3, h4))"

definition poly_block :: "limbs \<Rightarrow> u32 \<Rightarrow> limbs \<Rightarrow> bytes \<Rightarrow> limbs" where
  "poly_block r hibit h m = poly_carry (poly_products r (poly_add hibit m h))"

function poly_blocks_loop :: "limbs \<Rightarrow> u32 \<Rightarrow> limbs \<Rightarrow> bytes \<Rightarrow> limbs" where
  "poly_blocks_loop r hibit h m =
     (if length m \<ge> 16 then poly_blocks_loop r hibit (poly_block r hibit h (take 16 m)) (drop 16 m) else h)"
  by pat_completeness auto
termination
  by (relation "measure (\<lambda>(r, hibit, h, m). length m)") auto

declare poly_blocks_loop.simps [simp del]

definition poly1305_blocks :: "poly1305 \<Rightarrow> bytes \<Rightarrow> poly1305" where
  "poly1305_blocks st m =
     (let hibit = (if po_final st then 0 else 0x1000000)
      in st\<lparr>po_h := poly_blocks_loop (po_r st) hibit (po_h st) m\<rparr>)"

text \<open>\<open>for (i = 0; i < n; ++i) buffer[off + i] = m[i]\<close>\<close>

definition buffer_write :: "bytes \<Rightarrow> nat \<Rightarrow> bytes \<Rightarrow> bytes" where
  "buffer_write buf off m = take off buf @ m @ drop (off + length m) buf"

text \<open>\<^verbatim>\<open>poly1305_update\<close>: fill a started block first, then process whole blocks, then keep the rest.\<close>

definition poly_update_rest :: "poly1305 \<Rightarrow> bytes \<Rightarrow> poly1305" where
  "poly_update_rest st m =
     (let want = (if length m \<ge> 16 then 16 * (length m div 16) else 0);
          st1 = (if length m \<ge> 16 then poly1305_blocks st (take want m) else st);
          m1 = drop want m
      in if m1 \<noteq> []
         then st1\<lparr>po_buffer := buffer_write (po_buffer st1) (po_leftover st1) m1,
                  po_leftover := po_leftover st1 + length m1\<rparr>
         else st1)"

definition poly1305_update :: "poly1305 \<Rightarrow> bytes \<Rightarrow> poly1305" where
  "poly1305_update st m =
     (if po_leftover st \<noteq> 0
      then let want = min (16 - po_leftover st) (length m);
               st1 = st\<lparr>po_buffer := buffer_write (po_buffer st) (po_leftover st) (take want m),
                        po_leftover := po_leftover st + want\<rparr>
           in if po_leftover st1 < 16 then st1
              else poly_update_rest ((poly1305_blocks st1 (po_buffer st1))\<lparr>po_leftover := 0\<rparr>) (drop want m)
      else poly_update_rest st m)"

definition poly_full_carry :: "limbs \<Rightarrow> limbs" where
  "poly_full_carry = (\<lambda>(h0, h1, h2, h3, h4).
     let c = drop_bit 26 h1; h1 = h1 AND 0x3ffffff; h2 = h2 + c;
         c = drop_bit 26 h2; h2 = h2 AND 0x3ffffff; h3 = h3 + c;
         c = drop_bit 26 h3; h3 = h3 AND 0x3ffffff; h4 = h4 + c;
         c = drop_bit 26 h4; h4 = h4 AND 0x3ffffff; h0 = h0 + c * 5;
         c = drop_bit 26 h0; h0 = h0 AND 0x3ffffff; h1 = h1 + c
     in (h0, h1, h2, h3, h4))"

text \<open>\<open>h - p\<close> in limbs, with the borrow in the top bit of the last one; then the constant-time select.\<close>

definition poly_minus_p :: "limbs \<Rightarrow> limbs" where
  "poly_minus_p = (\<lambda>(h0, h1, h2, h3, h4).
     let g0 = h0 + 5; c = drop_bit 26 g0; g0 = g0 AND 0x3ffffff;
         g1 = h1 + c; c = drop_bit 26 g1; g1 = g1 AND 0x3ffffff;
         g2 = h2 + c; c = drop_bit 26 g2; g2 = g2 AND 0x3ffffff;
         g3 = h3 + c; c = drop_bit 26 g3; g3 = g3 AND 0x3ffffff;
         g4 = h4 + c - 0x4000000
     in (g0, g1, g2, g3, g4))"

definition poly_select :: "limbs \<Rightarrow> limbs \<Rightarrow> limbs" where
  "poly_select = (\<lambda>(h0, h1, h2, h3, h4) (g0, g1, g2, g3, g4).
     let mask = drop_bit 31 g4 - 1; nmask = NOT mask
     in ((h0 AND nmask) OR (g0 AND mask), (h1 AND nmask) OR (g1 AND mask),
         (h2 AND nmask) OR (g2 AND mask), (h3 AND nmask) OR (g3 AND mask),
         (h4 AND nmask) OR (g4 AND mask)))"

definition poly_pack :: "limbs \<Rightarrow> u32 \<times> u32 \<times> u32 \<times> u32" where
  "poly_pack = (\<lambda>(h0, h1, h2, h3, h4).
     ((h0 OR push_bit 26 h1) AND 0xffffffff,
      (drop_bit 6 h1 OR push_bit 20 h2) AND 0xffffffff,
      (drop_bit 12 h2 OR push_bit 14 h3) AND 0xffffffff,
      (drop_bit 18 h3 OR push_bit 8 h4) AND 0xffffffff))"

definition poly_add_pad :: "u32 \<times> u32 \<times> u32 \<times> u32 \<Rightarrow> u32 \<times> u32 \<times> u32 \<times> u32 \<Rightarrow> bytes" where
  "poly_add_pad = (\<lambda>(h0, h1, h2, h3) (p0, p1, p2, p3).
     let f = (ucast h0 + ucast p0 :: u64); h0 = (ucast f :: u32);
         f = ucast h1 + ucast p1 + drop_bit 32 f; h1 = ucast f;
         f = ucast h2 + ucast p2 + drop_bit 32 f; h2 = ucast f;
         f = ucast h3 + ucast p3 + drop_bit 32 f; h3 = ucast f
     in store32_le h0 @ store32_le h1 @ store32_le h2 @ store32_le h3)"

definition poly1305_finish :: "poly1305 \<Rightarrow> bytes" where
  "poly1305_finish st =
     (let st1 = (if po_leftover st \<noteq> 0
                 then let i = po_leftover st;
                          buf = take i (po_buffer st) @ 1 # replicate (15 - i) 0
                      in poly1305_blocks (st\<lparr>po_buffer := buf, po_final := True\<rparr>) buf
                 else st);
          h = poly_full_carry (po_h st1)
      in poly_add_pad (poly_pack (poly_select h (poly_minus_p h))) (po_pad st1))"

text \<open>\<^verbatim>\<open>poly1305_verify\<close>: the differences are or-ed together and turned into 0 or 1 without a branch.\<close>

definition poly1305_verify :: "bytes \<Rightarrow> bytes \<Rightarrow> u32" where
  "poly1305_verify mac1 mac2 =
     (let dif = foldl (\<lambda>dif i. dif OR ucast (mac1 ! i XOR mac2 ! i)) (0 :: u32) [0..<16]
      in drop_bit 31 (dif - 1))"

definition poly1305_update_u64_le :: "poly1305 \<Rightarrow> u64 \<Rightarrow> poly1305" where
  "poly1305_update_u64_le st v = poly1305_update st (map (\<lambda>i. ucast (drop_bit (8 * i) v)) [0..<8])"

section \<open>Reference\<close>

abbreviation poly_p :: nat where
  "poly_p \<equiv> 2 ^ 130 - 5"

fun chunks16 :: "bytes \<Rightarrow> bytes list" where
  "chunks16 bs = (if bs = [] then [] else take 16 bs # chunks16 (drop 16 bs))"

declare chunks16.simps [simp del]

definition poly_step :: "nat \<Rightarrow> nat \<Rightarrow> bytes \<Rightarrow> nat" where
  "poly_step r a c = (a + le_val c + 2 ^ (8 * length c)) * r mod poly_p"

definition poly_clamp :: "bytes \<Rightarrow> nat" where
  "poly_clamp key = le_val (take 16 key) AND 0x0ffffffc0ffffffc0ffffffc0fffffff"

definition poly1305_spec :: "bytes \<Rightarrow> bytes \<Rightarrow> nat" where
  "poly1305_spec key msg =
     (foldl (poly_step (poly_clamp key)) 0 (chunks16 msg) + le_val (take 16 (drop 16 key))) mod 2 ^ 128"

section \<open>Limbs and their values\<close>

definition limb_val :: "limbs \<Rightarrow> nat" where
  "limb_val = (\<lambda>(a0, a1, a2, a3, a4).
     unat a0 + 2 ^ 26 * unat a1 + 2 ^ 52 * unat a2 + 2 ^ 78 * unat a3 + 2 ^ 104 * unat a4)"

lemma unat_add_nowrap: "unat a + unat b < 2 ^ LENGTH('a) \<Longrightarrow> unat (a + b) = unat a + unat b"
  for a b :: "'a::len word"
  by (simp add: unat_word_ariths)

lemma unat_mult_nowrap: "unat a * unat b < 2 ^ LENGTH('a) \<Longrightarrow> unat (a * b) = unat a * unat b"
  for a b :: "'a::len word"
  by (simp add: unat_word_ariths)

lemma unat_mask26: "unat (w AND 0x3ffffff :: u32) = unat w mod 2 ^ 26"
proof -
  have "w AND 0x3ffffff = take_bit 26 w"
    by (simp only: take_bit_eq_mask mask_eq_exp_minus_1) simp
  then show ?thesis by (simp only: unat_take_bit_word)
qed

lemma unat_u32_u64 [simp]: "unat (ucast (w :: u32) :: u64) = unat w"
  using unat_u32_lt [of w] by (simp add: unat_ucast_word)

lemma unat_low32: "unat (ucast (d :: u64) :: u32) = unat d mod 2 ^ 32"
  by (simp add: unat_ucast_word)

lemma unat_low26: "unat ((ucast (d :: u64) :: u32) AND 0x3ffffff) = unat d mod 2 ^ 26"
  by (simp only: unat_mask26 unat_low32) (simp add: mod_mod_cancel)

lemma unat_high26: "unat d < 2 ^ 58 \<Longrightarrow> unat (ucast (drop_bit 26 (d :: u64)) :: u32) = unat d div 2 ^ 26"
  by (simp add: unat_ucast_word unat_drop_bit_word div_less_iff_less_mult less_mult_imp_div_less)

section \<open>Multiplication modulo the prime\<close>

text \<open>The bounds below are \<open>2^27 + 64\<close> on the limbs of the accumulator after adding a block and \<open>2^26\<close> on those of \<open>r\<close>.\<close>

lemma unat_product:
  fixes h r :: u32
  assumes "unat h \<le> 134217792" "unat r < 67108864"
  shows "unat (ucast h * ucast r :: u64) = unat h * unat r"
    and "unat (ucast h * ucast (r * 5) :: u64) = 5 * (unat h * unat r)"
    and "unat h * unat r \<le> 9007203549708288"
proof -
  have "unat h * unat r \<le> 134217792 * 67108864"
    using assms by (intro mult_le_mono) simp_all
  then show le: "unat h * unat r \<le> 9007203549708288" by simp
  then show "unat (ucast h * ucast r :: u64) = unat h * unat r"
    by (subst unat_mult_nowrap) simp_all
  have "unat (r * 5) = unat r * 5" using assms(2) by (subst unat_mult_nowrap) simp_all
  then show "unat (ucast h * ucast (r * 5) :: u64) = 5 * (unat h * unat r)"
    using le by (subst unat_mult_nowrap) (simp_all add: mult.assoc [symmetric])
qed

lemma product_le:
  fixes h r :: u32
  assumes "unat h \<le> 134217792" "unat r < 67108864"
  shows "unat (ucast h * ucast r :: u64) \<le> 2 ^ 57" "unat (ucast h * ucast (r * 5) :: u64) \<le> 2 ^ 57"
  using unat_product [OF assms] by simp_all

lemma unat_sum5:
  fixes a b c d e :: u64
  assumes "unat a \<le> 2 ^ 57" "unat b \<le> 2 ^ 57" "unat c \<le> 2 ^ 57" "unat d \<le> 2 ^ 57" "unat e \<le> 2 ^ 57"
  shows "unat (a + b + c + d + e) = unat a + unat b + unat c + unat d + unat e"
  using assms by (simp add: unat_add_nowrap)

definition limbs_le :: "nat \<Rightarrow> limbs \<Rightarrow> bool" where
  "limbs_le n = (\<lambda>(a0, a1, a2, a3, a4). unat a0 \<le> n \<and> unat a1 \<le> n \<and> unat a2 \<le> n \<and> unat a3 \<le> n \<and> unat a4 \<le> n)"

definition limbs_lt26 :: "limbs \<Rightarrow> bool" where
  "limbs_lt26 = (\<lambda>(a0, a1, a2, a3, a4). unat a0 < 67108864 \<and> unat a1 < 67108864 \<and> unat a2 < 67108864
     \<and> unat a3 < 67108864 \<and> unat a4 < 67108864)"

lemma poly_products_val:
  assumes h: "limbs_le 134217792 (h0, h1, h2, h3, h4)" and r: "limbs_lt26 (r0, r1, r2, r3, r4)"
    and d: "poly_products (r0, r1, r2, r3, r4) (h0, h1, h2, h3, h4) = (d0, d1, d2, d3, d4)"
  shows "unat d0 = unat h0 * unat r0 + 5 * (unat h1 * unat r4) + 5 * (unat h2 * unat r3) + 5 * (unat h3 * unat r2) + 5 * (unat h4 * unat r1)"
    and "unat d1 = unat h0 * unat r1 + unat h1 * unat r0 + 5 * (unat h2 * unat r4) + 5 * (unat h3 * unat r3) + 5 * (unat h4 * unat r2)"
    and "unat d2 = unat h0 * unat r2 + unat h1 * unat r1 + unat h2 * unat r0 + 5 * (unat h3 * unat r4) + 5 * (unat h4 * unat r3)"
    and "unat d3 = unat h0 * unat r3 + unat h1 * unat r2 + unat h2 * unat r1 + unat h3 * unat r0 + 5 * (unat h4 * unat r4)"
    and "unat d4 = unat h0 * unat r4 + unat h1 * unat r3 + unat h2 * unat r2 + unat h3 * unat r1 + unat h4 * unat r0"
proof -
  have hs: "unat h0 \<le> 134217792" "unat h1 \<le> 134217792" "unat h2 \<le> 134217792" "unat h3 \<le> 134217792" "unat h4 \<le> 134217792"
    using h by (simp_all add: limbs_le_def)
  have rs: "unat r0 < 67108864" "unat r1 < 67108864" "unat r2 < 67108864" "unat r3 < 67108864" "unat r4 < 67108864"
    using r by (simp_all add: limbs_lt26_def)
  have D: "d0 = ucast h0 * ucast r0 + ucast h1 * ucast (r4 * 5) + ucast h2 * ucast (r3 * 5) + ucast h3 * ucast (r2 * 5) + ucast h4 * ucast (r1 * 5)"
      "d1 = ucast h0 * ucast r1 + ucast h1 * ucast r0 + ucast h2 * ucast (r4 * 5) + ucast h3 * ucast (r3 * 5) + ucast h4 * ucast (r2 * 5)"
      "d2 = ucast h0 * ucast r2 + ucast h1 * ucast r1 + ucast h2 * ucast r0 + ucast h3 * ucast (r4 * 5) + ucast h4 * ucast (r3 * 5)"
      "d3 = ucast h0 * ucast r3 + ucast h1 * ucast r2 + ucast h2 * ucast r1 + ucast h3 * ucast r0 + ucast h4 * ucast (r4 * 5)"
      "d4 = ucast h0 * ucast r4 + ucast h1 * ucast r3 + ucast h2 * ucast r2 + ucast h3 * ucast r1 + ucast h4 * ucast r0"
    using d by (simp_all add: poly_products_def Let_def)
  note step = product_le unat_product(1,2)
  show "unat d0 = unat h0 * unat r0 + 5 * (unat h1 * unat r4) + 5 * (unat h2 * unat r3) + 5 * (unat h3 * unat r2) + 5 * (unat h4 * unat r1)"
    unfolding D by (subst unat_sum5; (intro product_le hs rs)?) (simp only: unat_product hs rs)
  show "unat d1 = unat h0 * unat r1 + unat h1 * unat r0 + 5 * (unat h2 * unat r4) + 5 * (unat h3 * unat r3) + 5 * (unat h4 * unat r2)"
    unfolding D by (subst unat_sum5; (intro product_le hs rs)?) (simp only: unat_product hs rs)
  show "unat d2 = unat h0 * unat r2 + unat h1 * unat r1 + unat h2 * unat r0 + 5 * (unat h3 * unat r4) + 5 * (unat h4 * unat r3)"
    unfolding D by (subst unat_sum5; (intro product_le hs rs)?) (simp only: unat_product hs rs)
  show "unat d3 = unat h0 * unat r3 + unat h1 * unat r2 + unat h2 * unat r1 + unat h3 * unat r0 + 5 * (unat h4 * unat r4)"
    unfolding D by (subst unat_sum5; (intro product_le hs rs)?) (simp only: unat_product hs rs)
  show "unat d4 = unat h0 * unat r4 + unat h1 * unat r3 + unat h2 * unat r2 + unat h3 * unat r1 + unat h4 * unat r0"
    unfolding D by (subst unat_sum5; (intro product_le hs rs)?) (simp only: unat_product hs rs)
qed

lemma carry_sum_digits:
  fixes d0 d1 d2 d3 d4 :: nat
  assumes "q0 * 2 ^ 26 + a0 = d0" "q1 * 2 ^ 26 + a1 = d1 + q0" "q2 * 2 ^ 26 + a2 = d2 + q1"
    "q3 * 2 ^ 26 + a3 = d3 + q2" "q4 * 2 ^ 26 + a4 = d4 + q3" "q5 * 2 ^ 26 + a5 = a0 + 5 * q4"
  shows "d0 + 2 ^ 26 * d1 + 2 ^ 52 * d2 + 2 ^ 78 * d3 + 2 ^ 104 * d4
       = a5 + 2 ^ 26 * (a1 + q5) + 2 ^ 52 * a2 + 2 ^ 78 * a3 + 2 ^ 104 * a4 + poly_p * q4"
  using assms by simp

lemma carry_sum:
  fixes d0 d1 d2 d3 d4 :: nat
  assumes "e1 = d1 + d0 div 2 ^ 26" "e2 = d2 + e1 div 2 ^ 26" "e3 = d3 + e2 div 2 ^ 26" "e4 = d4 + e3 div 2 ^ 26"
    and "g = d0 mod 2 ^ 26 + 5 * (e4 div 2 ^ 26)"
  shows "d0 + 2 ^ 26 * d1 + 2 ^ 52 * d2 + 2 ^ 78 * d3 + 2 ^ 104 * d4
       = g mod 2 ^ 26 + 2 ^ 26 * (e1 mod 2 ^ 26 + g div 2 ^ 26) + 2 ^ 52 * (e2 mod 2 ^ 26)
         + 2 ^ 78 * (e3 mod 2 ^ 26) + 2 ^ 104 * (e4 mod 2 ^ 26) + poly_p * (e4 div 2 ^ 26)"
  by (rule carry_sum_digits) (simp_all only: div_mult_mod_eq assms)

lemma poly_carry_val:
  assumes d: "unat d0 < 2 ^ 58 - 2 ^ 32" "unat d1 < 2 ^ 58 - 2 ^ 32" "unat d2 < 2 ^ 58 - 2 ^ 32"
      "unat d3 < 2 ^ 58 - 2 ^ 32" "unat d4 \<le> 2 ^ 55 + 2 ^ 54"
    and h: "poly_carry (d0, d1, d2, d3, d4) = (h0, h1, h2, h3, h4)"
  shows "\<exists>c. unat d0 + 2 ^ 26 * unat d1 + 2 ^ 52 * unat d2 + 2 ^ 78 * unat d3 + 2 ^ 104 * unat d4
             = limb_val (h0, h1, h2, h3, h4) + poly_p * c"
    and "unat h0 < 67108864" "unat h1 < 67108928" "unat h2 < 67108864" "unat h3 < 67108864" "unat h4 < 67108864"
proof -
  define e1 where "e1 = d1 + ucast (ucast (drop_bit 26 d0) :: u32)"
  define e2 where "e2 = d2 + ucast (ucast (drop_bit 26 e1) :: u32)"
  define e3 where "e3 = d3 + ucast (ucast (drop_bit 26 e2) :: u32)"
  define e4 where "e4 = d4 + ucast (ucast (drop_bit 26 e3) :: u32)"
  define c where "c = (ucast (drop_bit 26 e4) :: u32)"
  define g where "g = ((ucast d0 :: u32) AND 0x3ffffff) + c * 5"
  have eqs: "h0 = g AND 0x3ffffff" "h1 = (ucast e1 AND 0x3ffffff) + drop_bit 26 g" "h2 = ucast e2 AND 0x3ffffff"
      "h3 = ucast e3 AND 0x3ffffff" "h4 = ucast e4 AND 0x3ffffff"
    using h by (simp_all add: poly_carry_def Let_def e1_def e2_def e3_def e4_def c_def g_def)
  have 1: "unat e1 = unat d1 + unat d0 div 2 ^ 26" "unat e1 < 2 ^ 58"
    using d unat_high26 [of d0] by (simp_all add: e1_def unat_add_nowrap)
  have 2: "unat e2 = unat d2 + unat e1 div 2 ^ 26" "unat e2 < 2 ^ 58"
    using d 1(2) unat_high26 [of e1] by (simp_all add: e2_def unat_add_nowrap)
  have 3: "unat e3 = unat d3 + unat e2 div 2 ^ 26" "unat e3 < 2 ^ 58"
    using d 2(2) unat_high26 [of e2] by (simp_all add: e3_def unat_add_nowrap)
  have 4: "unat e4 = unat d4 + unat e3 div 2 ^ 26" "unat e4 < 2 ^ 55 + 2 ^ 54 + 2 ^ 32"
    using d 3(2) unat_high26 [of e3] by (simp_all add: e4_def unat_add_nowrap)
  have c: "unat c = unat e4 div 2 ^ 26"
    using 4(2) by (simp add: c_def unat_high26)
  then have "unat c < 805306432" using 4(2) by simp
  then have c5: "unat (c * 5) = 5 * unat c" by (simp add: unat_mult_nowrap)
  have g: "unat g = unat d0 mod 2 ^ 26 + 5 * (unat e4 div 2 ^ 26)" "unat g < 4093641280"
    using c c5 \<open>unat c < 805306432\<close> unfolding g_def
    by (simp_all add: unat_add_nowrap unat_low26)
  then have "unat g div 2 ^ 26 < 62" by simp
  then have h1: "unat h1 = unat e1 mod 2 ^ 26 + unat g div 2 ^ 26"
    unfolding eqs by (subst unat_add_nowrap) (simp_all add: unat_low26 unat_drop_bit_word)
  then show "unat h1 < 67108928" using \<open>unat g div 2 ^ 26 < 62\<close> by simp
  have hs: "unat h0 = unat g mod 2 ^ 26" "unat h2 = unat e2 mod 2 ^ 26" "unat h3 = unat e3 mod 2 ^ 26" "unat h4 = unat e4 mod 2 ^ 26"
    unfolding eqs by (simp_all only: unat_low26) (simp only: unat_mask26)
  then show "unat h0 < 67108864" "unat h2 < 67108864" "unat h3 < 67108864" "unat h4 < 67108864" by simp_all
  show "\<exists>c. unat d0 + 2 ^ 26 * unat d1 + 2 ^ 52 * unat d2 + 2 ^ 78 * unat d3 + 2 ^ 104 * unat d4
             = limb_val (h0, h1, h2, h3, h4) + poly_p * c"
    using carry_sum [OF 1(1) 2(1) 3(1) 4(1) g(1)] unfolding limb_val_def prod.case hs h1 by blast
qed

lemma limb_mult_expand:
  fixes h0 h1 h2 h3 h4 r0 r1 r2 r3 r4 :: nat
  shows "(h0 + 2 ^ 26 * h1 + 2 ^ 52 * h2 + 2 ^ 78 * h3 + 2 ^ 104 * h4) * (r0 + 2 ^ 26 * r1 + 2 ^ 52 * r2 + 2 ^ 78 * r3 + 2 ^ 104 * r4)
    = (h0 * r0 + 5 * (h1 * r4) + 5 * (h2 * r3) + 5 * (h3 * r2) + 5 * (h4 * r1))
      + 2 ^ 26 * (h0 * r1 + h1 * r0 + 5 * (h2 * r4) + 5 * (h3 * r3) + 5 * (h4 * r2))
      + 2 ^ 52 * (h0 * r2 + h1 * r1 + h2 * r0 + 5 * (h3 * r4) + 5 * (h4 * r3))
      + 2 ^ 78 * (h0 * r3 + h1 * r2 + h2 * r1 + h3 * r0 + 5 * (h4 * r4))
      + 2 ^ 104 * (h0 * r4 + h1 * r3 + h2 * r2 + h3 * r1 + h4 * r0)
      + poly_p * ((h1 * r4 + h2 * r3 + h3 * r2 + h4 * r1) + 2 ^ 26 * (h2 * r4 + h3 * r3 + h4 * r2)
          + 2 ^ 52 * (h3 * r4 + h4 * r3) + 2 ^ 78 * (h4 * r4))"
  by (simp add: algebra_simps)

definition limbs_inv :: "limbs \<Rightarrow> bool" where
  "limbs_inv = (\<lambda>(h0, h1, h2, h3, h4). unat h0 < 67108864 \<and> unat h1 < 67108928 \<and> unat h2 < 67108864
     \<and> unat h3 < 67108864 \<and> unat h4 < 67108864)"

lemma poly_multiply:
  assumes h: "limbs_le 134217792 h" and r: "limbs_lt26 r"
  shows "limb_val (poly_carry (poly_products r h)) mod poly_p = limb_val h * limb_val r mod poly_p"
    and "limbs_inv (poly_carry (poly_products r h))"
proof -
  obtain h0 h1 h2 h3 h4 where he: "h = (h0, h1, h2, h3, h4)" by (cases h)
  obtain r0 r1 r2 r3 r4 where re: "r = (r0, r1, r2, r3, r4)" by (cases r)
  obtain d0 d1 d2 d3 d4 where de: "poly_products r h = (d0, d1, d2, d3, d4)" by (cases "poly_products r h")
  obtain g0 g1 g2 g3 g4 where ge: "poly_carry (d0, d1, d2, d3, d4) = (g0, g1, g2, g3, g4)"
    by (cases "poly_carry (d0, d1, d2, d3, d4)")
  note vals = poly_products_val [OF h [unfolded he] r [unfolded re] de [unfolded he re]]
  have le: "unat a * unat b \<le> 9007203549708288" if "a \<in> {h0, h1, h2, h3, h4}" "b \<in> {r0, r1, r2, r3, r4}" for a b
    using that h r by (intro unat_product(3)) (auto simp: he re limbs_le_def limbs_lt26_def)
  have ds: "unat d0 < 2 ^ 58 - 2 ^ 32" "unat d1 < 2 ^ 58 - 2 ^ 32" "unat d2 < 2 ^ 58 - 2 ^ 32"
      "unat d3 < 2 ^ 58 - 2 ^ 32" "unat d4 \<le> 2 ^ 55 + 2 ^ 54"
    unfolding vals
    using le [of h0 r0] le [of h1 r4] le [of h2 r3] le [of h3 r2] le [of h4 r1]
      apply simp
    using le [of h0 r1] le [of h1 r0] le [of h2 r4] le [of h3 r3] le [of h4 r2]
     apply simp
    using le [of h0 r2] le [of h1 r1] le [of h2 r0] le [of h3 r4] le [of h4 r3]
    apply simp
    using le [of h0 r3] le [of h1 r2] le [of h2 r1] le [of h3 r0] le [of h4 r4]
     apply simp
    using le [of h0 r4] le [of h1 r3] le [of h2 r2] le [of h3 r1] le [of h4 r0]
    apply simp
    done
  note carry = poly_carry_val [OF ds ge]
  show "limbs_inv (poly_carry (poly_products r h))"
    using carry(2-) by (simp add: de ge limbs_inv_def)
  obtain c where "unat d0 + 2 ^ 26 * unat d1 + 2 ^ 52 * unat d2 + 2 ^ 78 * unat d3 + 2 ^ 104 * unat d4
             = limb_val (g0, g1, g2, g3, g4) + poly_p * c"
    using carry(1) by blast
  then have "\<exists>e. limb_val h * limb_val r = limb_val (g0, g1, g2, g3, g4) + poly_p * c + poly_p * e"
    unfolding he re limb_val_def prod.case limb_mult_expand vals [symmetric] by (intro exI) (simp only:)
  then show "limb_val (poly_carry (poly_products r h)) mod poly_p = limb_val h * limb_val r mod poly_p"
    unfolding de ge by (elim exE) (simp only: add.assoc mod_mult_self2 distrib_left [symmetric])
qed

section \<open>Little-endian loads\<close>

lemma unat_byte_u32: "unat (ucast (b :: byte) :: u32) = unat b"
  by (simp only: unat_ucast_word) (rule mod_less, rule less_trans [OF unat_byte_lt], simp)

lemma unat_byte_le: "unat (b :: byte) \<le> 255"
  using unat_byte_lt [of b] by linarith

lemma take4_drop: "i + 4 \<le> length m \<Longrightarrow> take 4 (drop i m) = [m ! i, m ! (i + 1), m ! (i + 2), m ! (i + 3)]"
  by (rule nth_equalityI) (auto simp: less_Suc_eq numeral_eq_Suc)

lemma unat_load32_le:
  assumes "i + 4 \<le> length m" "a = 8 * i"
  shows "unat (load32_le m i) = le_val m div 2 ^ a mod 2 ^ 32"
proof -
  note b = unat_byte_le [of "m ! i"] unat_byte_le [of "m ! (i + 1)"] unat_byte_le [of "m ! (i + 2)"] unat_byte_le [of "m ! (i + 3)"]
  define w1 where "w1 = (ucast (m ! i) OR push_bit 8 (ucast (m ! (i + 1))) :: u32)"
  define w2 where "w2 = (w1 OR push_bit 16 (ucast (m ! (i + 2))) :: u32)"
  have 1: "unat w1 = unat (m ! i) + unat (m ! (i + 1)) * 2 ^ 8"
    unfolding w1_def using b by (subst unat_or_push_bit) (simp_all add: unat_byte_u32)
  have 2: "unat w2 = unat w1 + unat (m ! (i + 2)) * 2 ^ 16"
    unfolding w2_def using b
    by (subst unat_or_push_bit) (simp_all add: unat_byte_u32 1)
  have "unat (load32_le m i) = unat w2 + unat (m ! (i + 3)) * 2 ^ 24"
    unfolding load32_le_def or.assoc [symmetric] w1_def [symmetric] w2_def [symmetric]
    using b
    by (subst unat_or_push_bit) (simp_all add: unat_byte_u32 1 2)
  also have "\<dots> = le_val (take 4 (drop i m))"
    using assms by (simp add: take4_drop 1 2)
  also have "\<dots> = le_val m div 2 ^ a mod 2 ^ 32"
    using assms by (simp add: le_val_take le_val_drop power_mult)
  finally show ?thesis .
qed

lemma limb_digits_sum:
  fixes w :: nat
  assumes "w = q0 * 2 ^ 26 + a0" "q0 = q1 * 2 ^ 26 + a1" "q1 = q2 * 2 ^ 26 + a2" "q2 = q3 * 2 ^ 26 + a3"
  shows "a0 + 2 ^ 26 * a1 + 2 ^ 52 * a2 + 2 ^ 78 * a3 + 2 ^ 104 * q3 = w"
  using assms by simp

lemma limb_digits:
  fixes w :: nat
  shows "w mod 2 ^ 26 + 2 ^ 26 * (w div 2 ^ 26 mod 2 ^ 26) + 2 ^ 52 * (w div 2 ^ 52 mod 2 ^ 26)
     + 2 ^ 78 * (w div 2 ^ 78 mod 2 ^ 26) + 2 ^ 104 * (w div 2 ^ 104) = w"
proof (rule limb_digits_sum)
  have d: "w div 2 ^ (a + 26) = w div 2 ^ a div 2 ^ 26" for a
    by (simp only: power_add div_mult2_eq)
  show "w = w div 2 ^ 26 * 2 ^ 26 + w mod 2 ^ 26" by (simp only: div_mult_mod_eq)
  show "w div 2 ^ 26 = w div 2 ^ 52 * 2 ^ 26 + w div 2 ^ 26 mod 2 ^ 26"
    using d [of 26] by (simp only: arith_simps div_mult_mod_eq)
  show "w div 2 ^ 52 = w div 2 ^ 78 * 2 ^ 26 + w div 2 ^ 52 mod 2 ^ 26"
    using d [of 52] by (simp only: arith_simps div_mult_mod_eq)
  show "w div 2 ^ 78 = w div 2 ^ 104 * 2 ^ 26 + w div 2 ^ 78 mod 2 ^ 26"
    using d [of 78] by (simp only: arith_simps div_mult_mod_eq)
qed

lemma div_mod_window:
  fixes v :: nat
  assumes "b + n \<le> 32" "c = a + b"
  shows "v div 2 ^ a mod 2 ^ 32 div 2 ^ b mod 2 ^ n = v div 2 ^ c mod 2 ^ n"
proof -
  have "v div 2 ^ a mod 2 ^ 32 div 2 ^ b mod 2 ^ n = take_bit n (drop_bit b (take_bit 32 (drop_bit a v)))"
    by (simp only: take_bit_eq_mod drop_bit_eq_div)
  also have "\<dots> = take_bit n (drop_bit c v)"
    using assms by (simp add: drop_bit_take_bit ac_simps min_absorb1)
  finally show ?thesis by (simp only: take_bit_eq_mod drop_bit_eq_div)
qed

lemma load_limbs:
  assumes m: "length m = 16"
  shows "unat (load32_le m 0 AND 0x3ffffff) = le_val m mod 2 ^ 26"
    and "unat (drop_bit 2 (load32_le m 3) AND 0x3ffffff) = le_val m div 2 ^ 26 mod 2 ^ 26"
    and "unat (drop_bit 4 (load32_le m 6) AND 0x3ffffff) = le_val m div 2 ^ 52 mod 2 ^ 26"
    and "unat (drop_bit 6 (load32_le m 9) AND 0x3ffffff) = le_val m div 2 ^ 78 mod 2 ^ 26"
    and "unat (drop_bit 8 (load32_le m 12)) = le_val m div 2 ^ 104"
    and "le_val m div 2 ^ 104 < 2 ^ 24"
proof -
  have load: "unat (load32_le m 0) = le_val m div 2 ^ 0 mod 2 ^ 32" "unat (load32_le m 3) = le_val m div 2 ^ 24 mod 2 ^ 32"
      "unat (load32_le m 6) = le_val m div 2 ^ 48 mod 2 ^ 32" "unat (load32_le m 9) = le_val m div 2 ^ 72 mod 2 ^ 32"
      "unat (load32_le m 12) = le_val m div 2 ^ 96 mod 2 ^ 32"
    by (rule unat_load32_le; simp add: m)+
  note unats = unat_mask26 unat_drop_bit_word load
  have 0: "unat (load32_le m 0 AND 0x3ffffff) = le_val m div 2 ^ 0 mod 2 ^ 32 div 2 ^ 0 mod 2 ^ 26"
    by (simp only: unats power_0 div_by_1)
  show "unat (load32_le m 0 AND 0x3ffffff) = le_val m mod 2 ^ 26"
    unfolding 0 by (subst div_mod_window [where c = 0]) (simp, simp, simp only: power_0 div_by_1)
  show "unat (drop_bit 2 (load32_le m 3) AND 0x3ffffff) = le_val m div 2 ^ 26 mod 2 ^ 26"
    by (simp only: unats, rule div_mod_window) simp_all
  show "unat (drop_bit 4 (load32_le m 6) AND 0x3ffffff) = le_val m div 2 ^ 52 mod 2 ^ 26"
    by (simp only: unats, rule div_mod_window) simp_all
  show "unat (drop_bit 6 (load32_le m 9) AND 0x3ffffff) = le_val m div 2 ^ 78 mod 2 ^ 26"
    by (simp only: unats, rule div_mod_window) simp_all
  have "le_val m < 2 ^ 24 * 2 ^ 104" using le_val_lt [of m] m by simp
  then show lt: "le_val m div 2 ^ 104 < 2 ^ 24" by (simp only: less_mult_imp_div_less)
  have "unat (drop_bit 8 (load32_le m 12)) mod 2 ^ 24 = le_val m div 2 ^ 104 mod 2 ^ 24"
    by (simp only: unats, rule div_mod_window) simp_all
  moreover have "unat (drop_bit 8 (load32_le m 12)) < 2 ^ 24"
    using unat_u32_lt [of "load32_le m 12"] by (simp add: unat_drop_bit_word less_mult_imp_div_less)
  ultimately show "unat (drop_bit 8 (load32_le m 12)) = le_val m div 2 ^ 104"
    using lt by (simp only: mod_less)
qed

lemma unat_or_hibit:
  assumes "unat x < 2 ^ 24" "hibit = 0 \<or> hibit = 0x1000000"
  shows "unat (x OR hibit :: u32) = unat x + unat hibit"
proof (cases "hibit = 0")
  case False
  then have "hibit = push_bit 24 1" using assms(2) by (simp add: push_bit_eq_mult)
  then show ?thesis using assms(1) unat_or_push_bit [of x 24 1] False assms(2) by simp
qed simp

lemma unat_add_limb:
  assumes "unat h < 67108928" "unat m = v" "v < 67108864"
  shows "unat (h + m :: u32) = unat h + v" "unat (h + m) \<le> 134217792"
proof -
  show "unat (h + m) = unat h + v" using assms by (subst unat_add_nowrap) simp_all
  then show "unat (h + m) \<le> 134217792" using assms by simp
qed

lemma poly_add_val:
  assumes h: "limbs_inv h" and m: "length m = 16" and b: "hibit = 0 \<or> hibit = 0x1000000"
  shows "limbs_le 134217792 (poly_add hibit m h)"
    and "limb_val (poly_add hibit m h) = limb_val h + le_val m + 2 ^ 104 * unat hibit"
proof -
  obtain h0 h1 h2 h3 h4 where he: "h = (h0, h1, h2, h3, h4)" by (cases h)
  obtain a0 a1 a2 a3 a4 where ae: "poly_add hibit m h = (a0, a1, a2, a3, a4)" by (cases "poly_add hibit m h")
  note L = load_limbs [OF m]
  have hs: "unat h0 < 67108864" "unat h1 < 67108928" "unat h2 < 67108864" "unat h3 < 67108864" "unat h4 < 67108864"
    using h by (simp_all add: he limbs_inv_def)
  have hb: "unat hibit \<le> 16777216" using b by auto
  have lt: "x mod 2 ^ 26 < 67108864" for x :: nat by simp
  have or: "unat (drop_bit 8 (load32_le m 12) OR hibit) = le_val m div 2 ^ 104 + unat hibit"
    using L(5,6) b by (simp only: unat_or_hibit)
  have defs: "a0 = h0 + (load32_le m 0 AND 0x3ffffff)" "a1 = h1 + (drop_bit 2 (load32_le m 3) AND 0x3ffffff)"
      "a2 = h2 + (drop_bit 4 (load32_le m 6) AND 0x3ffffff)" "a3 = h3 + (drop_bit 6 (load32_le m 9) AND 0x3ffffff)"
      "a4 = h4 + (drop_bit 8 (load32_le m 12) OR hibit)"
    using ae by (simp_all add: he poly_add_def)
  have "le_val m div 2 ^ 104 + unat hibit < 67108864" using hb L(6) by simp
  note a = unat_add_limb [OF less_trans [OF hs(1)] L(1) lt] unat_add_limb [OF hs(2) L(2) lt] unat_add_limb [OF less_trans [OF hs(3)] L(3) lt]
    unat_add_limb [OF less_trans [OF hs(4)] L(4) lt] unat_add_limb [OF less_trans [OF hs(5)] or this]
  have 0: "unat a0 = unat h0 + le_val m mod 2 ^ 26" "unat a1 = unat h1 + le_val m div 2 ^ 26 mod 2 ^ 26"
      "unat a2 = unat h2 + le_val m div 2 ^ 52 mod 2 ^ 26" "unat a3 = unat h3 + le_val m div 2 ^ 78 mod 2 ^ 26"
      "unat a4 = unat h4 + (le_val m div 2 ^ 104 + unat hibit)"
    unfolding defs by (rule a; simp)+
  have 1: "unat a0 \<le> 134217792" "unat a1 \<le> 134217792" "unat a2 \<le> 134217792" "unat a3 \<le> 134217792" "unat a4 \<le> 134217792"
    unfolding defs by (rule a; simp)+
  show "limbs_le 134217792 (poly_add hibit m h)"
    using 1 by (simp only: ae limbs_le_def prod.case)
  show "limb_val (poly_add hibit m h) = limb_val h + le_val m + 2 ^ 104 * unat hibit"
    unfolding ae unfolding he limb_val_def prod.case 0
    by (subst (6) limb_digits [of "le_val m", symmetric]) (simp only: distrib_left ac_simps)
qed

lemma poly_block_val:
  assumes h: "limbs_inv h" and r: "limbs_lt26 r" and m: "length m = 16" and b: "hibit = 0 \<or> hibit = 0x1000000"
  shows "limbs_inv (poly_block r hibit h m)"
    and "limb_val (poly_block r hibit h m) mod poly_p
       = (limb_val h + le_val m + 2 ^ 104 * unat hibit) * limb_val r mod poly_p"
  unfolding poly_block_def using poly_multiply [OF poly_add_val(1) [OF h m b] r] poly_add_val(2) [OF h m b]
  by (simp_all only:)

section \<open>Streaming\<close>

lemma poly_step_mod: "poly_step r (a mod poly_p) c = poly_step r a c"
  unfolding poly_step_def by (simp only: add.assoc mod_mult_left_eq [of "a mod _ + _", symmetric] mod_add_left_eq mod_mult_left_eq)

lemma poly_step_lt: "poly_step r a c < poly_p"
  unfolding poly_step_def by (rule mod_less_divisor) simp

lemma chunks16_append: "16 dvd length a \<Longrightarrow> chunks16 (a @ b) = chunks16 a @ chunks16 b"
proof (induction a rule: chunks16.induct)
  case (1 a)
  show ?case
  proof (cases "a = []")
    case False
    then have "16 \<le> length a" using 1(2) by (auto dest: dvd_imp_le)
    then have "chunks16 (a @ b) = take 16 a # chunks16 (drop 16 a @ b)"
      using False by (simp add: chunks16.simps [of "a @ b"])
    also have "chunks16 (drop 16 a @ b) = chunks16 (drop 16 a) @ chunks16 b"
      using 1(2) \<open>16 \<le> length a\<close> by (intro 1(1) [OF False]) (simp add: dvd_diff_nat)
    finally show ?thesis using False by (simp add: chunks16.simps [of a])
  qed (simp add: chunks16.simps [of "[]"])
qed

lemma chunks16_short: "t \<noteq> [] \<Longrightarrow> length t \<le> 16 \<Longrightarrow> chunks16 t = [t]"
  by (simp add: chunks16.simps [of t] chunks16.simps [of "[]"])

lemma chunks16_Nil [simp]: "chunks16 [] = []"
  by (simp add: chunks16.simps)

lemma poly_blocks_loop_val:
  assumes "limbs_lt26 r" "limbs_inv h" "16 dvd length m"
  shows "limbs_inv (poly_blocks_loop r 0x1000000 h m)
     \<and> limb_val (poly_blocks_loop r 0x1000000 h m) mod poly_p
       = foldl (poly_step (limb_val r)) (limb_val h mod poly_p) (chunks16 m)"
  using assms
proof (induction r "0x1000000 :: u32" h m rule: poly_blocks_loop.induct)
  case (1 r h m)
  show ?case
  proof (cases "length m \<ge> 16")
    case True
    let ?h = "poly_block r 0x1000000 h (take 16 m)"
    have len: "length (take 16 m) = 16" using True by simp
    note b = poly_block_val [OF 1(3) 1(2) len, of "0x1000000"]
    have "limb_val ?h mod poly_p = poly_step (limb_val r) (limb_val h mod poly_p) (take 16 m)"
      unfolding poly_step_mod using b(2) len by (simp only: poly_step_def) simp
    moreover have "16 dvd length (drop 16 m)" using 1(4) True by (simp add: dvd_diff_nat)
    ultimately show ?thesis
      using 1(1) [OF True 1(2) b(1)] True
      by (auto simp: poly_blocks_loop.simps [of r _ h m] chunks16.simps [of m])
  next
    case False
    then have "m = []" using 1(4) by (auto dest: dvd_imp_le)
    then show ?thesis using 1(3) by (simp add: poly_blocks_loop.simps)
  qed
qed

definition poly_absorbed :: "bytes \<Rightarrow> bytes \<Rightarrow> poly1305 \<Rightarrow> bool" where
  "poly_absorbed key msg st \<longleftrightarrow>
     (let n = 16 * (length msg div 16)
      in limbs_inv (po_h st) \<and> limbs_lt26 (po_r st) \<and> limb_val (po_r st) = poly_clamp key
       \<and> limb_val (po_h st) mod poly_p = foldl (poly_step (poly_clamp key)) 0 (chunks16 (take n msg))
       \<and> po_leftover st = length msg mod 16 \<and> length (po_buffer st) = 16 \<and> take (po_leftover st) (po_buffer st) = drop n msg
       \<and> po_pad st = (load32_le key 16, load32_le key 20, load32_le key 24, load32_le key 28) \<and> \<not> po_final st)"

lemma poly_absorbed_aligned:
  assumes "16 dvd length msg"
  shows "poly_absorbed key msg st \<longleftrightarrow>
     limbs_inv (po_h st) \<and> limbs_lt26 (po_r st) \<and> limb_val (po_r st) = poly_clamp key
     \<and> limb_val (po_h st) mod poly_p = foldl (poly_step (poly_clamp key)) 0 (chunks16 msg)
     \<and> po_leftover st = 0 \<and> length (po_buffer st) = 16
     \<and> po_pad st = (load32_le key 16, load32_le key 20, load32_le key 24, load32_le key 28) \<and> \<not> po_final st"
proof -
  have "16 * (length msg div 16) = length msg" "length msg mod 16 = 0" using assms by simp_all
  then show ?thesis unfolding poly_absorbed_def Let_def by (auto simp del: power_numeral)
qed

lemma poly_absorbed_blocks:
  assumes a: "poly_absorbed key msg st" and d: "16 dvd length msg" "16 dvd length b"
  shows "poly_absorbed key (msg @ b) (poly1305_blocks st b)"
proof -
  have "16 dvd length (msg @ b)" using d by simp
  then show ?thesis
    using a poly_blocks_loop_val [of "po_r st" "po_h st" b] d
    unfolding poly_absorbed_aligned [OF \<open>16 dvd length (msg @ b)\<close>] poly_absorbed_aligned [OF d(1)]
    by (auto simp: poly1305_blocks_def Let_def chunks16_append)
qed

lemma poly_absorbed_buffer:
  assumes a: "poly_absorbed key msg st" and t: "po_leftover st + length t < 16"
  shows "poly_absorbed key (msg @ t)
    (st\<lparr>po_buffer := buffer_write (po_buffer st) (po_leftover st) t, po_leftover := po_leftover st + length t\<rparr>)"
proof -
  define n where "n = 16 * (length msg div 16)"
  have l: "po_leftover st = length msg mod 16" using a by (auto simp add: poly_absorbed_def Let_def)
  have e: "length (msg @ t) = 16 * (length msg div 16) + (po_leftover st + length t)" by (simp add: l)
  have n: "16 * (length (msg @ t) div 16) = n" "n \<le> length msg" unfolding e n_def using t by simp_all
  have m: "length (msg @ t) mod 16 = po_leftover st + length t" unfolding e using t by simp
  have "drop n msg = take (po_leftover st) (po_buffer st)" "length (po_buffer st) = 16"
    using a by (auto simp add: poly_absorbed_def Let_def n_def)
  then show ?thesis
    using a [unfolded poly_absorbed_def Let_def, folded n_def] t unfolding poly_absorbed_def Let_def n m
    by (auto simp add: n buffer_write_def)
qed

lemma poly_update_rest_absorbed:
  assumes a: "poly_absorbed key msg st" and d: "16 dvd length msg"
  shows "poly_absorbed key (msg @ m) (poly_update_rest st m)"
proof -
  define b where "b = take (16 * (length m div 16)) m"
  define t where "t = drop (16 * (length m div 16)) m"
  define st1 where "st1 = poly1305_blocks st b"
  have m: "m = b @ t" by (simp add: b_def t_def)
  have db: "16 dvd length b" by (simp add: b_def min_absorb2)
  have lt: "length t < 16" by (simp add: t_def minus_mult_div_eq_mod)
  have st1: "poly_absorbed key (msg @ b) st1" unfolding st1_def by (rule poly_absorbed_blocks [OF a d db])
  then have "po_leftover st1 = 0"
    using d db poly_absorbed_aligned [of "msg @ b"] by simp
  have rest: "poly_update_rest st m = (if t \<noteq> [] then st1\<lparr>po_buffer := buffer_write (po_buffer st1) (po_leftover st1) t,
                  po_leftover := po_leftover st1 + length t\<rparr> else st1)"
  proof (cases "16 \<le> length m")
    case True
    then show ?thesis by (simp add: poly_update_rest_def Let_def b_def t_def st1_def)
  next
    case False
    then have "b = []" by (simp add: b_def)
    moreover have "t = m" using False by (simp add: t_def)
    ultimately show ?thesis
      using False by (simp add: poly_update_rest_def Let_def st1_def poly1305_blocks_def poly_blocks_loop.simps)
  qed
  show ?thesis
  proof (cases "t = []")
    case False
    then show ?thesis
      unfolding rest using poly_absorbed_buffer [OF st1, of t] lt \<open>po_leftover st1 = 0\<close> by (simp add: m)
  qed (use st1 in \<open>simp add: rest, simp add: m\<close>)
qed

lemma poly1305_update_absorbed:
  assumes a: "poly_absorbed key msg st"
  shows "poly_absorbed key (msg @ m) (poly1305_update st m)"
proof -
  define l where "l = po_leftover st"
  define n where "n = 16 * (length msg div 16)"
  have l: "l = length msg mod 16" "l < 16" "length (po_buffer st) = 16" "take l (po_buffer st) = drop n msg"
    using a by (auto simp add: poly_absorbed_def Let_def l_def n_def)
  consider "l = 0" | "l \<noteq> 0" "l + length m < 16" | "l \<noteq> 0" "16 \<le> l + length m" by linarith
  then show ?thesis
  proof cases
    case 1
    then have "16 dvd length msg" using l by auto
    then show ?thesis using 1 poly_update_rest_absorbed [OF a] by (simp add: poly1305_update_def l_def)
  next
    case 2
    moreover have "min (16 - l) (length m) = length m" using 2 by simp
    ultimately show ?thesis using poly_absorbed_buffer [OF a, of m] by (simp add: poly1305_update_def Let_def l_def)
  next
    case 3
    define w where "w = 16 - l"
    define st1 where "st1 = st\<lparr>po_buffer := buffer_write (po_buffer st) l (take w m), po_leftover := 16\<rparr>"
    define st2 where "st2 = (poly1305_blocks st1 (po_buffer st1))\<lparr>po_leftover := 0\<rparr>"
    have msg: "msg = take n msg @ drop n msg" by simp
    have dn: "16 dvd length (take n msg)" by (simp add: n_def min_absorb2)
    have buf: "po_buffer st1 = drop n msg @ take w m"
      using 3 l by (simp add: st1_def buffer_write_def w_def)
    have len: "length (po_buffer st1) = 16" using 3 l(2,3) by (simp add: st1_def buffer_write_def w_def)
    have a0: "poly_absorbed key (take n msg) (st1\<lparr>po_leftover := 0\<rparr>)"
      using a len unfolding poly_absorbed_aligned [OF dn] unfolding poly_absorbed_def Let_def n_def by (auto simp add: st1_def)
    have "poly_absorbed key (take n msg @ po_buffer st1) (poly1305_blocks (st1\<lparr>po_leftover := 0\<rparr>) (po_buffer st1))"
      by (rule poly_absorbed_blocks [OF a0 dn]) (simp add: len)
    moreover have "poly1305_blocks (st1\<lparr>po_leftover := 0\<rparr>) (po_buffer st1) = st2"
      by (simp add: poly1305_blocks_def st2_def)
    moreover have "take n msg @ po_buffer st1 = msg @ take w m" unfolding buf by simp
    ultimately have "poly_absorbed key (msg @ take w m) st2" by simp
    moreover have "16 dvd length (msg @ take w m)"
      using dn len by (simp only: \<open>take n msg @ po_buffer st1 = msg @ take w m\<close> [symmetric] length_append) simp
    ultimately have "poly_absorbed key ((msg @ take w m) @ drop w m) (poly_update_rest st2 (drop w m))"
      by (rule poly_update_rest_absorbed)
    moreover have "poly1305_update st m = poly_update_rest st2 (drop w m)"
      using 3 l(2) by (simp add: poly1305_update_def Let_def st2_def st1_def w_def min_def l_def)
    ultimately show ?thesis by simp
  qed
qed

section \<open>Final reduction\<close>

lemma unat_drop26: "unat (drop_bit 26 (w :: u32)) = unat w div 2 ^ 26"
  by (simp only: unat_drop_bit_word)

lemma poly_full_carry_val:
  assumes h: "limbs_inv h"
  shows "limbs_lt26 (poly_full_carry h)" "limb_val (poly_full_carry h) mod poly_p = limb_val h mod poly_p"
proof -
  obtain h0 h1 h2 h3 h4 where he: "h = (h0, h1, h2, h3, h4)" by (cases h)
  define e2 where "e2 = h2 + drop_bit 26 h1"
  define e3 where "e3 = h3 + drop_bit 26 e2"
  define e4 where "e4 = h4 + drop_bit 26 e3"
  define g where "g = h0 + drop_bit 26 e4 * 5"
  have fe: "poly_full_carry h = (g AND 0x3ffffff, (h1 AND 0x3ffffff) + drop_bit 26 g, e2 AND 0x3ffffff,
      e3 AND 0x3ffffff, e4 AND 0x3ffffff)"
    by (simp add: he poly_full_carry_def Let_def e2_def e3_def e4_def g_def)
  have hs: "unat h0 < 67108864" "unat h1 < 67108928" "unat h2 < 67108864" "unat h3 < 67108864" "unat h4 < 67108864"
    using h by (simp_all add: he limbs_inv_def)
  have q1: "unat h1 div 2 ^ 26 \<le> 1" using hs by simp
  have 2: "unat e2 = unat h2 + unat h1 div 2 ^ 26" "unat e2 div 2 ^ 26 \<le> 1"
    using hs q1 unfolding e2_def by (simp_all add: unat_add_nowrap unat_drop26)
  have 3: "unat e3 = unat h3 + unat e2 div 2 ^ 26" "unat e3 div 2 ^ 26 \<le> 1"
    using hs 2 unfolding e3_def by (simp_all add: unat_add_nowrap unat_drop26)
  have 4: "unat e4 = unat h4 + unat e3 div 2 ^ 26" "unat e4 div 2 ^ 26 \<le> 1"
    using hs 3 unfolding e4_def by (simp_all add: unat_add_nowrap unat_drop26)
  have "unat (drop_bit 26 e4 * 5) = 5 * (unat e4 div 2 ^ 26)"
    using 4(2) by (simp add: unat_mult_nowrap unat_drop26)
  then have g: "unat g = unat h0 + 5 * (unat e4 div 2 ^ 26)"
    using hs 4(2) unfolding g_def by (simp add: unat_add_nowrap)
  have out: "unat h1 mod 2 ^ 26 + unat g div 2 ^ 26 < 67108864"
  proof (cases "unat h1 < 2 ^ 26")
    case True
    then have "unat g = unat h0" using g 4(1) 3(1) 2(1) hs by simp
    then show ?thesis using hs by simp
  next
    case False
    then have "unat h1 mod 2 ^ 26 < 64" using hs by (simp add: le_mod_geq)
    moreover have "unat g div 2 ^ 26 \<le> 1" using g hs 4(2) by simp
    ultimately show ?thesis by simp
  qed
  have f1: "unat ((h1 AND 0x3ffffff) + drop_bit 26 g) = unat h1 mod 2 ^ 26 + unat g div 2 ^ 26"
    using out by (subst unat_add_nowrap) (simp_all only: unat_mask26 unat_drop26, simp)
  show "limbs_lt26 (poly_full_carry h)"
    using out by (simp only: fe limbs_lt26_def prod.case f1 unat_mask26) simp
  have "unat h0 + 2 ^ 26 * unat h1 + 2 ^ 52 * unat h2 + 2 ^ 78 * unat h3 + 2 ^ 104 * unat h4
      = limb_val (poly_full_carry h) + poly_p * (unat e4 div 2 ^ 26)"
    unfolding fe limb_val_def prod.case f1 unat_mask26
    by (rule carry_sum_digits [where ?q0.0 = 0 and ?a0.0 = "unat h0"])
      (simp_all only: div_mult_mod_eq 2(1) 3(1) 4(1) g mult_0 add_0 add_0_right)
  then have "limb_val h = limb_val (poly_full_carry h) + poly_p * (unat e4 div 2 ^ 26)"
    by (simp only: he limb_val_def prod.case)
  then show "limb_val (poly_full_carry h) mod poly_p = limb_val h mod poly_p"
    by (simp only: mod_mult_self2)
qed

lemma limb_val_lt: "limbs_lt26 h \<Longrightarrow> limb_val h < 2 ^ 130"
  by (cases h) (simp add: limbs_lt26_def limb_val_def)

lemma minus_p_digits:
  fixes h0 h1 h2 h3 h4 :: nat
  assumes "q0 * 2 ^ 26 + a0 = h0 + 5" "q1 * 2 ^ 26 + a1 = h1 + q0" "q2 * 2 ^ 26 + a2 = h2 + q1" "q3 * 2 ^ 26 + a3 = h3 + q2"
  shows "h0 + 2 ^ 26 * h1 + 2 ^ 52 * h2 + 2 ^ 78 * h3 + 2 ^ 104 * h4 + 5
       = a0 + 2 ^ 26 * a1 + 2 ^ 52 * a2 + 2 ^ 78 * a3 + 2 ^ 104 * (h4 + q3)"
  using assms by simp

lemma poly_minus_p_val:
  assumes h: "limbs_lt26 h"
  obtains g0 g1 g2 g3 g4 e4 where "poly_minus_p h = (g0, g1, g2, g3, g4)" "g4 = e4 - 0x4000000" "unat e4 \<le> 67108864"
    "limbs_lt26 (g0, g1, g2, g3, 0)"
    "limb_val h + 5 = limb_val (g0, g1, g2, g3, e4)"
proof -
  obtain h0 h1 h2 h3 h4 where he: "h = (h0, h1, h2, h3, h4)" by (cases h)
  define e0 where "e0 = h0 + 5"
  define e1 where "e1 = h1 + drop_bit 26 e0"
  define e2 where "e2 = h2 + drop_bit 26 e1"
  define e3 where "e3 = h3 + drop_bit 26 e2"
  define e4 where "e4 = h4 + drop_bit 26 e3"
  have ge: "poly_minus_p h = (e0 AND 0x3ffffff, e1 AND 0x3ffffff, e2 AND 0x3ffffff, e3 AND 0x3ffffff, e4 - 0x4000000)"
    by (simp add: he poly_minus_p_def Let_def e0_def e1_def e2_def e3_def e4_def)
  have hs: "unat h0 < 67108864" "unat h1 < 67108864" "unat h2 < 67108864" "unat h3 < 67108864" "unat h4 < 67108864"
    using h by (simp_all add: he limbs_lt26_def)
  have 0: "unat e0 = unat h0 + 5" "unat e0 div 2 ^ 26 \<le> 1"
    using hs unfolding e0_def by (simp_all add: unat_add_nowrap)
  have 1: "unat e1 = unat h1 + unat e0 div 2 ^ 26" "unat e1 div 2 ^ 26 \<le> 1"
    using hs 0(2) unfolding e1_def by (simp_all add: unat_add_nowrap unat_drop26)
  have 2: "unat e2 = unat h2 + unat e1 div 2 ^ 26" "unat e2 div 2 ^ 26 \<le> 1"
    using hs 1(2) unfolding e2_def by (simp_all add: unat_add_nowrap unat_drop26)
  have 3: "unat e3 = unat h3 + unat e2 div 2 ^ 26" "unat e3 div 2 ^ 26 \<le> 1"
    using hs 2(2) unfolding e3_def by (simp_all add: unat_add_nowrap unat_drop26)
  have 4: "unat e4 = unat h4 + unat e3 div 2 ^ 26" "unat e4 \<le> 67108864"
    using hs 3(2) unfolding e4_def by (simp_all add: unat_add_nowrap unat_drop26)
  show thesis
  proof (rule that [OF ge refl 4(2)])
    show "limbs_lt26 (e0 AND 0x3ffffff, e1 AND 0x3ffffff, e2 AND 0x3ffffff, e3 AND 0x3ffffff, 0)"
      by (simp only: limbs_lt26_def prod.case unat_mask26) simp
    show "limb_val h + 5 = limb_val (e0 AND 0x3ffffff, e1 AND 0x3ffffff, e2 AND 0x3ffffff, e3 AND 0x3ffffff, e4)"
      unfolding he limb_val_def prod.case unat_mask26 4(1)
      by (rule minus_p_digits) (simp_all only: div_mult_mod_eq 0(1) 1(1) 2(1) 3(1))
  qed
qed

lemma unat_sub_wrap:
  fixes e k :: u32
  shows "unat k \<le> unat e \<Longrightarrow> unat (e - k) = unat e - unat k"
    and "unat e < unat k \<Longrightarrow> unat (e - k) = 2 ^ 32 + unat e - unat k"
proof -
  show "unat k \<le> unat e \<Longrightarrow> unat (e - k) = unat e - unat k"
    by (simp add: unat_sub_if')
  show "unat e < unat k \<Longrightarrow> unat (e - k) = 2 ^ 32 + unat e - unat k"
    by (simp add: unat_sub_if')
qed

lemma poly_select_val:
  assumes h: "limbs_lt26 h"
  shows "limbs_lt26 (poly_select h (poly_minus_p h))"
    and "limb_val (poly_select h (poly_minus_p h)) = limb_val h mod poly_p"
proof -
  obtain g0 g1 g2 g3 g4 e4 where ge: "poly_minus_p h = (g0, g1, g2, g3, g4)" and g4: "g4 = e4 - 0x4000000" and e4: "unat e4 \<le> 67108864"
    and gl: "limbs_lt26 (g0, g1, g2, g3, 0)" and sum: "limb_val h + 5 = limb_val (g0, g1, g2, g3, e4)"
    by (rule poly_minus_p_val [OF h])
  obtain h0 h1 h2 h3 h4 where he: "h = (h0, h1, h2, h3, h4)" by (cases h)
  have gs: "unat g0 < 67108864" "unat g1 < 67108864" "unat g2 < 67108864" "unat g3 < 67108864"
    using gl by (simp_all add: limbs_lt26_def)
  consider "unat e4 < 67108864" | "unat e4 = 67108864" using e4 by linarith
  then have "limbs_lt26 (poly_select h (poly_minus_p h)) \<and> limb_val (poly_select h (poly_minus_p h)) = limb_val h mod poly_p"
  proof cases
    case 1
    then have "unat g4 = 2 ^ 32 + unat e4 - 67108864"
      unfolding g4 using unat_sub_wrap(2) [of e4 "0x4000000"] by simp
    then have "unat (drop_bit 31 g4) = 1"
      using 1 unfolding unat_drop_bit_word by (simp add: div_nat_eqI)
    then have "drop_bit 31 g4 = 1" by (simp add: word_unat_eq_iff)
    then have "poly_select h (poly_minus_p h) = h"
      unfolding he ge [unfolded he] by (simp add: poly_select_def)
    moreover have "limb_val h < poly_p"
      using sum 1 gs by (simp add: limb_val_def)
    ultimately show ?thesis using h by simp
  next
    case 2
    then have g4': "g4 = 0"
      unfolding g4 by (simp add: word_unat_eq_iff unat_sub_if')
    then have "poly_select h (poly_minus_p h) = (g0, g1, g2, g3, 0)"
      unfolding he ge [unfolded he] by (simp add: poly_select_def)
    moreover have "limb_val h = limb_val (g0, g1, g2, g3, 0) + poly_p"
      using sum 2 by (simp add: limb_val_def)
    moreover have "limb_val (g0, g1, g2, g3, 0) < poly_p"
      using gs by (simp add: limb_val_def)
    ultimately show ?thesis using gl by simp
  qed
  then show "limbs_lt26 (poly_select h (poly_minus_p h))"
    and "limb_val (poly_select h (poly_minus_p h)) = limb_val h mod poly_p" by simp_all
qed

definition words_val :: "u32 \<times> u32 \<times> u32 \<times> u32 \<Rightarrow> nat" where
  "words_val = (\<lambda>(w0, w1, w2, w3). unat w0 + 2 ^ 32 * unat w1 + 2 ^ 64 * unat w2 + 2 ^ 96 * unat w3)"

lemma unat_or_split:
  fixes a b :: u32
  assumes "unat a < 2 ^ s" "s \<le> 32"
  shows "unat (a OR push_bit s b) = unat a + 2 ^ s * (unat b mod 2 ^ (32 - s))"
proof -
  have "(2 :: nat) ^ 32 = 2 ^ s * 2 ^ (32 - s)" using assms(2) by (simp add: power_add [symmetric])
  then have "(unat a + unat b * 2 ^ s) mod 2 ^ 32 = 2 ^ s * (unat b mod 2 ^ (32 - s)) + unat a"
    using assms(1) by (simp only: mod_mult2_eq) simp
  then show ?thesis using unat_or_push_bit_mod [of a s b] assms by simp
qed

lemma pack_digits:
  fixes h0 h1 h2 h3 h4 :: nat
  assumes "q1 * 2 ^ 6 + a1 = h1" "q2 * 2 ^ 12 + a2 = h2" "q3 * 2 ^ 18 + a3 = h3" "q4 * 2 ^ 24 + a4 = h4"
  shows "h0 + 2 ^ 26 * h1 + 2 ^ 52 * h2 + 2 ^ 78 * h3 + 2 ^ 104 * h4
    = (h0 + 2 ^ 26 * a1) + 2 ^ 32 * (q1 + 2 ^ 20 * a2) + 2 ^ 64 * (q2 + 2 ^ 14 * a3) + 2 ^ 96 * (q3 + 2 ^ 8 * a4) + 2 ^ 128 * q4"
  using assms by simp

lemma poly_pack_val:
  assumes h: "limbs_lt26 h"
  shows "words_val (poly_pack h) mod 2 ^ 128 = limb_val h mod 2 ^ 128"
proof -
  obtain h0 h1 h2 h3 h4 where he: "h = (h0, h1, h2, h3, h4)" by (cases h)
  have full: "w AND 0xffffffff = w" for w :: u32
    using take_bit_length_eq [of w] by (simp add: take_bit_eq_mask mask_eq_exp_minus_1)
  have hs: "unat h0 < 67108864" "unat h1 < 67108864" "unat h2 < 67108864" "unat h3 < 67108864" "unat h4 < 67108864"
    using h by (simp_all add: he limbs_lt26_def)
  have w: "unat (h0 OR push_bit 26 h1) = unat h0 + 2 ^ 26 * (unat h1 mod 2 ^ 6)"
      "unat (drop_bit 6 h1 OR push_bit 20 h2) = unat h1 div 2 ^ 6 + 2 ^ 20 * (unat h2 mod 2 ^ 12)"
      "unat (drop_bit 12 h2 OR push_bit 14 h3) = unat h2 div 2 ^ 12 + 2 ^ 14 * (unat h3 mod 2 ^ 18)"
      "unat (drop_bit 18 h3 OR push_bit 8 h4) = unat h3 div 2 ^ 18 + 2 ^ 8 * (unat h4 mod 2 ^ 24)"
    using hs by (subst unat_or_split; simp add: unat_drop_bit_word)+
  have "limb_val h = words_val (poly_pack h) + 2 ^ 128 * (unat h4 div 2 ^ 24)"
    unfolding he limb_val_def words_val_def poly_pack_def prod.case full w
    by (rule pack_digits) (simp_all only: div_mult_mod_eq)
  then show ?thesis by (simp only: mod_mult_self2)
qed

lemma byte_digits:
  fixes v :: nat
  assumes "q0 * 2 ^ 8 + a0 = v" "q1 * 2 ^ 8 + a1 = q0" "q2 * 2 ^ 8 + a2 = q1"
  shows "a0 + 256 * (a1 + 256 * (a2 + 256 * q2)) = v"
  using assms by simp

lemma le_val_store32 [simp]: "le_val (store32_le v) = unat v"
proof -
  have q: "unat v div 2 ^ 16 = unat v div 2 ^ 8 div 2 ^ 8" "unat v div 2 ^ 24 = unat v div 2 ^ 16 div 2 ^ 8"
    by (simp_all only: div_mult2_eq [symmetric] power_add [symmetric]) simp_all
  have "unat v div 2 ^ 24 < 2 ^ 8" using unat_u32_lt [of v] by (simp add: less_mult_imp_div_less)
  then have "le_val (store32_le v) = unat v mod 2 ^ 8 + 256 * (unat v div 2 ^ 8 mod 2 ^ 8 + 256 * (unat v div 2 ^ 16 mod 2 ^ 8 + 256 * (unat v div 2 ^ 24)))"
    unfolding store32_le_def le_val.simps unat_ucast_word unat_drop_bit_word by simp
  also have "\<dots> = unat v"
    by (rule byte_digits [where ?q0.0 = "unat v div 2 ^ 8" and ?q1.0 = "unat v div 2 ^ 16"])
      (simp_all only: div_mult_mod_eq q)
  finally show ?thesis .
qed

lemma pad_digits:
  fixes s0 s1 s2 s3 :: nat
  assumes "q0 * 2 ^ 32 + a0 = s0" "q1 * 2 ^ 32 + a1 = s1 + q0" "q2 * 2 ^ 32 + a2 = s2 + q1" "q3 * 2 ^ 32 + a3 = s3 + q2"
  shows "s0 + 2 ^ 32 * s1 + 2 ^ 64 * s2 + 2 ^ 96 * s3 = a0 + 2 ^ 32 * a1 + 2 ^ 64 * a2 + 2 ^ 96 * a3 + 2 ^ 128 * q3"
  using assms by simp

lemma poly_add_pad_val: "le_val (poly_add_pad w p) = (words_val w + words_val p) mod 2 ^ 128"
proof -
  obtain w0 w1 w2 w3 where we: "w = (w0, w1, w2, w3)" by (cases w)
  obtain p0 p1 p2 p3 where pe: "p = (p0, p1, p2, p3)" by (cases p)
  define f0 where "f0 = (ucast w0 + ucast p0 :: u64)"
  define f1 where "f1 = (ucast w1 + ucast p1 + drop_bit 32 f0 :: u64)"
  define f2 where "f2 = (ucast w2 + ucast p2 + drop_bit 32 f1 :: u64)"
  define f3 where "f3 = (ucast w3 + ucast p3 + drop_bit 32 f2 :: u64)"
  have out: "poly_add_pad w p = store32_le (ucast f0) @ store32_le (ucast f1) @ store32_le (ucast f2) @ store32_le (ucast f3)"
    by (simp add: we pe poly_add_pad_def Let_def f0_def f1_def f2_def f3_def)
  note lt = unat_u32_lt [of w0] unat_u32_lt [of w1] unat_u32_lt [of w2] unat_u32_lt [of w3]
    unat_u32_lt [of p0] unat_u32_lt [of p1] unat_u32_lt [of p2] unat_u32_lt [of p3]
  have d: "unat (drop_bit 32 f) = unat f div 2 ^ 32" "unat f div 2 ^ 32 < 2 ^ 32" for f :: u64
    using unat_u64_lt [of f] by (simp_all add: unat_drop_bit_word less_mult_imp_div_less)
  have 0: "unat f0 = unat w0 + unat p0"
    using lt unfolding f0_def by (simp add: unat_add_nowrap)
  have 1: "unat f1 = unat w1 + unat p1 + unat f0 div 2 ^ 32"
    using lt d(2) [of f0] unfolding f1_def by (simp add: unat_add_nowrap d(1))
  have 2: "unat f2 = unat w2 + unat p2 + unat f1 div 2 ^ 32"
    using lt d(2) [of f1] unfolding f2_def by (simp add: unat_add_nowrap d(1))
  have 3: "unat f3 = unat w3 + unat p3 + unat f2 div 2 ^ 32"
    using lt d(2) [of f2] unfolding f3_def by (simp add: unat_add_nowrap d(1))
  let ?v = "unat f0 mod 2 ^ 32 + 2 ^ 32 * (unat f1 mod 2 ^ 32) + 2 ^ 64 * (unat f2 mod 2 ^ 32) + 2 ^ 96 * (unat f3 mod 2 ^ 32)"
  have v: "le_val (poly_add_pad w p) = ?v"
    unfolding out by (simp add: le_val_append length_store32_le unat_low32)
  have "(unat w0 + unat p0) + 2 ^ 32 * (unat w1 + unat p1) + 2 ^ 64 * (unat w2 + unat p2) + 2 ^ 96 * (unat w3 + unat p3)
      = ?v + 2 ^ 128 * (unat f3 div 2 ^ 32)"
    by (rule pad_digits) (simp_all only: div_mult_mod_eq 0 1 2 3)
  moreover have "words_val w + words_val p
      = (unat w0 + unat p0) + 2 ^ 32 * (unat w1 + unat p1) + 2 ^ 64 * (unat w2 + unat p2) + 2 ^ 96 * (unat w3 + unat p3)"
    by (simp add: words_val_def we pe)
  moreover have "?v < 2 ^ 128"
    using le_val_lt [of "poly_add_pad w p"] unfolding v by (simp add: out length_store32_le)
  ultimately show ?thesis unfolding v by (simp only: mod_mult_self2 mod_less)
qed

section \<open>The tag is the reference tag\<close>

lemma words_val_load:
  assumes "length m \<ge> i + 16"
  shows "words_val (load32_le m i, load32_le m (i + 4), load32_le m (i + 8), load32_le m (i + 12)) = le_val (take 16 (drop i m))"
proof -
  have step: "unat (load32_le m j) = le_val (take 4 (drop j m))" if "j + 4 \<le> length m" for j
    using unat_load32_le [OF that refl] that by (simp add: le_val_take le_val_drop power_mult)
  have "take 16 (drop i m) = take 4 (drop i m) @ take 4 (drop (i + 4) m) @ take 4 (drop (i + 8) m) @ take 4 (drop (i + 12) m)"
    using take_add [of 4 12 "drop i m"] take_add [of 4 8 "drop (i + 4) m"] take_add [of 4 4 "drop (i + 8) m"]
    by (simp add: add.commute)
  then show ?thesis
    using assms by (simp add: words_val_def step le_val_append)
qed

lemma unat_and_word: "unat (a AND b) = unat a AND unat b" for a b :: "'a::len word"
  by (simp add: unsigned_and_eq)

lemma poly_clamp_limbs:
  assumes k: "length key \<ge> 32"
  shows "limbs_lt26 (po_r (poly1305_init st key))" "limb_val (po_r (poly1305_init st key)) = poly_clamp key"
proof -
  define m where "m = take 16 key"
  define w where "w = le_val m"
  define M :: nat where "M = 0x0ffffffc0ffffffc0ffffffc0fffffff"
  have m: "length m = 16" using k by (simp add: m_def)
  have load: "load32_le key i = load32_le m i" if "i + 4 \<le> 16" for i
    using that by (simp add: load32_le_def m_def)
  have low: "x AND k = (x AND 0x3ffffff) AND k" if "0x3ffffff AND k = k" for x k :: u32
    using that by (simp add: and.assoc)
  have digit: "(w AND M) div 2 ^ a mod 2 ^ 26 = (w div 2 ^ a mod 2 ^ 26) AND (M div 2 ^ a mod 2 ^ 26)" for a
    by (simp only: take_bit_eq_mod [symmetric] drop_bit_eq_div [symmetric] drop_bit_and take_bit_and)
  note L = load_limbs [OF m, folded w_def]
  have top: "(w AND M) div 2 ^ 104 = (w div 2 ^ 104) AND (M div 2 ^ 104)"
    by (simp only: drop_bit_eq_div [symmetric] drop_bit_and)
  have Md: "M mod 2 ^ 26 = 0x3ffffff" "M div 2 ^ 26 mod 2 ^ 26 = 0x3ffff03" "M div 2 ^ 52 mod 2 ^ 26 = 0x3ffc0ff"
      "M div 2 ^ 78 mod 2 ^ 26 = 0x3f03fff" "M div 2 ^ 104 = 0x00fffff"
    by (simp_all add: M_def)
  have r0: "unat (load32_le m 0 AND 0x3ffffff) = (w AND M) mod 2 ^ 26"
    using digit [of 0] L(1) unat_and_word [of "load32_le m 0 AND 0x3ffffff" "0x3ffffff"]
    by (simp add: Md and.assoc del: power_numeral) 
  have r1: "unat (drop_bit 2 (load32_le m 3) AND 0x3ffff03) = (w AND M) div 2 ^ 26 mod 2 ^ 26"
    by (subst low, simp, subst unat_and_word) (simp only: L digit Md, simp)
  have r2: "unat (drop_bit 4 (load32_le m 6) AND 0x3ffc0ff) = (w AND M) div 2 ^ 52 mod 2 ^ 26"
    by (subst low, simp, subst unat_and_word) (simp only: L digit Md, simp)
  have r3: "unat (drop_bit 6 (load32_le m 9) AND 0x3f03fff) = (w AND M) div 2 ^ 78 mod 2 ^ 26"
    by (subst low, simp, subst unat_and_word) (simp only: L digit Md, simp)
  have r4: "unat (drop_bit 8 (load32_le m 12) AND 0x00fffff) = (w AND M) div 2 ^ 104"
    by (subst unat_and_word) (simp only: L top Md, simp)
  have init: "po_r (poly1305_init st key) = (load32_le m 0 AND 0x3ffffff, drop_bit 2 (load32_le m 3) AND 0x3ffff03,
      drop_bit 4 (load32_le m 6) AND 0x3ffc0ff, drop_bit 6 (load32_le m 9) AND 0x3f03fff, drop_bit 8 (load32_le m 12) AND 0x00fffff)"
    by (simp add: poly1305_init_def load)
  have "unat (drop_bit 8 (load32_le m 12) AND 0x00fffff) < 67108864"
    by (rule le_less_trans [OF word_and_le1 [THEN word_le_nat_alt [THEN iffD1]]]) simp
  then show "limbs_lt26 (po_r (poly1305_init st key))"
    unfolding init limbs_lt26_def prod.case r0 r1 r2 r3 by simp
  show "limb_val (po_r (poly1305_init st key)) = poly_clamp key"
    unfolding poly_clamp_def m_def [symmetric] w_def [symmetric] M_def [symmetric] init limb_val_def prod.case r0 r1 r2 r3 r4
    by (rule limb_digits)
qed

lemma poly1305_init_absorbed:
  assumes "length key \<ge> 32" "length (po_buffer st) = 16"
  shows "poly_absorbed key [] (poly1305_init st key)"
  using poly_clamp_limbs [OF assms(1), of st] assms(2)
  by (simp add: poly_absorbed_aligned) (simp add: poly1305_init_def limbs_inv_def limb_val_def)

lemma le_val_zeros [simp]: "le_val (replicate n 0) = 0"
  by (induction n) simp_all

lemma le_val_padded: "le_val (t @ 1 # replicate n 0) = le_val t + 2 ^ (8 * length t)"
  by (simp add: le_val_append power_mult)

definition poly_last :: "poly1305 \<Rightarrow> poly1305" where
  "poly_last st =
     (if po_leftover st \<noteq> 0
      then let buf = take (po_leftover st) (po_buffer st) @ 1 # replicate (15 - po_leftover st) 0
           in poly1305_blocks (st\<lparr>po_buffer := buf, po_final := True\<rparr>) buf
      else st)"

lemma poly_last_val:
  assumes a: "poly_absorbed key msg st"
  shows "limbs_inv (po_h (poly_last st))" "po_pad (poly_last st) = po_pad st"
    and "limb_val (po_h (poly_last st)) mod poly_p = foldl (poly_step (poly_clamp key)) 0 (chunks16 msg)"
proof -
  define n where "n = 16 * (length msg div 16)"
  define t where "t = drop n msg"
  have st: "limbs_inv (po_h st)" "limbs_lt26 (po_r st)" "limb_val (po_r st) = poly_clamp key"
      "limb_val (po_h st) mod poly_p = foldl (poly_step (poly_clamp key)) 0 (chunks16 (take n msg))"
      "take (po_leftover st) (po_buffer st) = t" "po_leftover st = length t" "length t < 16"
    using a by (auto simp: poly_absorbed_def Let_def n_def t_def minus_mult_div_eq_mod simp del: power_numeral)
  have dn: "16 dvd length (take n msg)" by (simp add: n_def min_absorb2)
  have msg: "chunks16 msg = chunks16 (take n msg) @ chunks16 t"
    using chunks16_append [OF dn, of t] by (simp add: t_def)
  show "po_pad (poly_last st) = po_pad st" by (simp add: poly_last_def poly1305_blocks_def Let_def)
  have "limbs_inv (po_h (poly_last st)) \<and>
    limb_val (po_h (poly_last st)) mod poly_p = foldl (poly_step (poly_clamp key)) 0 (chunks16 msg)"
  proof (cases "t = []")
    case True
    then show ?thesis using st(1,4,6) by (simp add: poly_last_def msg del: power_numeral)
  next
    case False
    define buf where "buf = t @ 1 # replicate (15 - length t) 0"
    have len: "length buf = 16" using st(7) by (simp add: buf_def)
    have last: "po_h (poly_last st) = poly_block (po_r st) 0 (po_h st) buf"
      using False len st(5,6)
      by (simp add: poly_last_def poly1305_blocks_def Let_def buf_def [symmetric] poly_blocks_loop.simps [of _ _ _ buf]
          poly_blocks_loop.simps [of _ _ _ "[]"])
    note b = poly_block_val [OF st(1,2) len, of 0]
    have "limb_val (po_h (poly_last st)) mod poly_p = (limb_val (po_h st) + le_val t + 2 ^ (8 * length t)) * poly_clamp key mod poly_p"
      using b(2) by (simp only: last st(3) buf_def le_val_padded) (simp add: add.assoc)
    also have "\<dots> = poly_step (poly_clamp key) (limb_val (po_h st) mod poly_p) t"
      unfolding poly_step_mod by (simp only: poly_step_def)
    also have "\<dots> = foldl (poly_step (poly_clamp key)) 0 (chunks16 msg)"
      unfolding st(4) msg using False st(7) by (simp add: chunks16_short)
    finally show ?thesis using b(1) last by simp
  qed
  then show "limbs_inv (po_h (poly_last st))"
    and "limb_val (po_h (poly_last st)) mod poly_p = foldl (poly_step (poly_clamp key)) 0 (chunks16 msg)"
    by simp_all
qed

lemma poly1305_finish_val:
  assumes a: "poly_absorbed key msg st" and k: "length key \<ge> 32"
  shows "le_val (poly1305_finish st) = poly1305_spec key msg"
proof -
  define h where "h = poly_full_carry (po_h (poly_last st))"
  have fin: "poly1305_finish st = poly_add_pad (poly_pack (poly_select h (poly_minus_p h))) (po_pad st)"
    by (simp add: poly1305_finish_def poly_last_def poly1305_blocks_def Let_def h_def)
  note L = poly_last_val [OF a]
  have h: "limbs_lt26 h" "limb_val h mod poly_p = foldl (poly_step (poly_clamp key)) 0 (chunks16 msg)"
    unfolding h_def using poly_full_carry_val [OF L(1)] L(3) by (simp_all only:)
  note S = poly_select_val [OF h(1)]
  have pad: "words_val (po_pad st) = le_val (take 16 (drop 16 key))"
    using a words_val_load [of 16 key] k by (auto simp: poly_absorbed_def Let_def)
  have "le_val (poly1305_finish st) = (words_val (poly_pack (poly_select h (poly_minus_p h))) mod 2 ^ 128 + words_val (po_pad st)) mod 2 ^ 128"
    unfolding fin poly_add_pad_val by (simp only: mod_add_left_eq)
  also have "\<dots> = poly1305_spec key msg"
    unfolding poly_pack_val [OF S(1)] S(2) h(2) pad poly1305_spec_def by (simp only: mod_add_left_eq)
  finally show ?thesis .
qed

lemma length_poly1305_finish [simp]: "length (poly1305_finish st) = 16"
  by (simp add: poly1305_finish_def poly_add_pad_def Let_def length_store32_le split: prod.splits)

lemma le_val_inj: "length a = length b \<Longrightarrow> le_val a = le_val b \<Longrightarrow> a = b"
proof (induction a b rule: list_induct2)
  case (Cons x xs y ys)
  have m: "(unat x + 256 * le_val xs) mod 256 = unat x" "(unat y + 256 * le_val ys) mod 256 = unat y" by simp_all
  then have "unat x = unat y" using Cons.prems by (metis le_val.simps(2))
  then show ?case using Cons by (simp add: word_unat_eq_iff)
qed simp

text \<open>The constant-time comparison is equality.\<close>

lemma byte_xor_zero: "a XOR b = 0 \<longleftrightarrow> a = b" for a b :: byte
  by (auto simp: bit_eq_iff bit_simps)

lemma dif_fold_zero:
  "foldl (\<lambda>dif i. dif OR ucast ((a ! i) XOR (b ! i) :: byte)) (d :: u32) xs = 0 \<longleftrightarrow> d = 0 \<and> (\<forall>i \<in> set xs. a ! i = b ! i)"
proof (induction xs arbitrary: d)
  case (Cons i xs)
  have u: "(ucast v :: u32) = 0 \<longleftrightarrow> v = 0" for v :: byte
    by (simp add: word_unat_eq_iff unat_byte_u32)
  have "d OR ucast ((a ! i) XOR (b ! i) :: byte) = 0 \<longleftrightarrow> d = 0 \<and> a ! i = b ! i"
    by (simp add: or_eq_0_iff u byte_xor_zero)
  then show ?case using Cons [of "d OR ucast ((a ! i) XOR (b ! i))"] by auto
qed simp

lemma dif_fold_byte:
  "foldl (\<lambda>dif i. dif OR ucast ((a ! i) XOR (b ! i) :: byte)) (ucast (d :: byte) :: u32) xs
     = ucast (foldl (\<lambda>dif i. dif OR ((a ! i) XOR (b ! i))) d xs)"
proof (induction xs arbitrary: d)
  case (Cons i xs)
  have "(ucast d OR ucast ((a ! i) XOR (b ! i)) :: u32) = ucast (d OR ((a ! i) XOR (b ! i)))"
    by (rule bit_word_eqI) (auto simp: bit_simps)
  then show ?case using Cons by simp
qed simp

lemma poly1305_verify_iff:
  assumes "length a = 16" "length b = 16"
  shows "poly1305_verify a b = (if a = b then 1 else 0)"
proof -
  define dif where "dif = foldl (\<lambda>dif i. dif OR ucast ((a ! i) XOR (b ! i) :: byte)) (0 :: u32) [0..<16]"
  have "dif = 0 \<longleftrightarrow> a = b"
    unfolding dif_def dif_fold_zero using assms by (auto intro: nth_equalityI)
  moreover have "drop_bit 31 (dif - 1) = 0" if "dif \<noteq> 0"
  proof -
    have "unat dif \<le> 255" using dif_fold_byte [of a b 0 "[0..<16]"] unat_byte_le by (simp add: dif_def unat_byte_u32)
    moreover have "unat dif \<noteq> 0" using that by (simp add: word_unat_eq_iff)
    ultimately have "unat (dif - 1) < 2 ^ 31" by (simp add: unat_sub_wrap)
    then show ?thesis by (simp add: word_unat_eq_iff unat_drop_bit_word)
  qed
  moreover have "drop_bit 31 (0 - 1 :: u32) = 1" by code_simp
  ultimately show ?thesis by (auto simp: poly1305_verify_def dif_def [symmetric] Let_def)
qed

text \<open>A one-shot MAC over any split of the message is the reference tag.\<close>

lemma poly1305_update_many:
  assumes "poly_absorbed key msg st"
  shows "poly_absorbed key (msg @ concat ms) (foldl poly1305_update st ms)"
  using assms
proof (induction ms arbitrary: msg st)
  case (Cons m ms)
  then show ?case using Cons.IH [OF poly1305_update_absorbed [OF Cons.prems, of m]] by simp
qed simp

lemma poly1305_mac:
  assumes "length key \<ge> 32" "length (po_buffer st) = 16"
  shows "le_val (poly1305_finish (foldl poly1305_update (poly1305_init st key) ms)) = poly1305_spec key (concat ms)"
  using poly1305_update_many [OF poly1305_init_absorbed [OF assms], of ms] poly1305_finish_val assms(1) by simp

section \<open>Properties\<close>

text \<open>
  C34: the 26-bit limb implementation computes Poly1305.  Fed any sequence of fragments, whatever their
  lengths, the tag is the little-endian value of the polynomial in the clamped key over the 17-byte
  blocks modulo 2^130 - 5, plus the second key half, modulo 2^128.
\<close>

theorem poly1305_correct:
  assumes "length key \<ge> 32" "length (po_buffer st) = 16"
  shows "le_val (poly1305_finish (foldl poly1305_update (poly1305_init st key) ms)) = poly1305_spec key (concat ms)"
  by (rule poly1305_mac [OF assms])

theorem poly1305_correct_witness:
  "le_val (poly1305_finish (foldl poly1305_update
       (poly1305_init \<lparr>po_r = (0, 0, 0, 0, 0), po_h = (0, 0, 0, 0, 0), po_pad = (0, 0, 0, 0), po_leftover = 0,
          po_buffer = replicate 16 0, po_final = False\<rparr> (replicate 32 1)) [[0x01], [0x02, 0x03]])) =
     poly1305_spec (replicate 32 1) [0x01, 0x02, 0x03]"
  using poly1305_correct [of "replicate 32 1" "\<lparr>po_r = (0, 0, 0, 0, 0), po_h = (0, 0, 0, 0, 0), po_pad = (0, 0, 0, 0),
      po_leftover = 0, po_buffer = replicate 16 0, po_final = False\<rparr>" "[[0x01], [0x02, 0x03]]"]
  by simp

end
