(* ===== verification/Aead.thy ===== *)
theory Aead
  imports Poly1305
begin

text \<open>
  The IETF ChaCha20-Poly1305 construction: \<^verbatim>\<open>aead_mac\<close>, \<^verbatim>\<open>chacha20poly1305_encrypt\<close> and
  \<^verbatim>\<open>chacha20poly1305_decrypt\<close> of \<^verbatim>\<open>src/crypto/detail/chacha20poly1305.cpp\<close> and their callers
  \<^verbatim>\<open>build_nonce\<close>, \<^verbatim>\<open>aead_encrypt\<close> and \<^verbatim>\<open>aead_decrypt\<close> of \<^verbatim>\<open>src/crypto/primitives.cpp\<close>.  The tag
  is the Poly1305 reference over the padded transcript, and decryption accepts exactly the outputs of
  encryption.
\<close>

section \<open>The code\<close>

text \<open>The MAC state is an uninitialised local variable; \<open>poly_blank\<close> stands for its first content.\<close>

definition poly_blank :: poly1305 where
  "poly_blank = \<lparr>po_r = (0, 0, 0, 0, 0), po_h = (0, 0, 0, 0, 0), po_pad = (0, 0, 0, 0), po_leftover = 0,
     po_buffer = replicate 16 0, po_final = False\<rparr>"

definition zero_pad :: bytes where
  "zero_pad = replicate 16 0"

text \<open>One \<open>if (len) { update(data); if (len % 16) update(zero_pad) }\<close> of \<^verbatim>\<open>aead_mac\<close>.\<close>

definition mac_padded :: "bytes \<Rightarrow> poly1305 \<Rightarrow> poly1305" where
  "mac_padded data st =
     (if length data \<noteq> 0
      then let st1 = poly1305_update st data
           in if length data mod 16 \<noteq> 0 then poly1305_update st1 (take (16 - length data mod 16) zero_pad) else st1
      else st)"

definition aead_mac :: "bytes \<Rightarrow> bytes \<Rightarrow> bytes \<Rightarrow> bytes \<Rightarrow> bytes" where
  "aead_mac key nonce ad ciphertext =
     (let poly_key_block = chacha20_block key 0 nonce;
          st = poly1305_init poly_blank poly_key_block;
          st = mac_padded ad st;
          st = mac_padded ciphertext st;
          st = poly1305_update_u64_le st (of_nat (length ad));
          st = poly1305_update_u64_le st (of_nat (length ciphertext))
      in poly1305_finish st)"

definition chacha20poly1305_encrypt :: "bytes \<Rightarrow> bytes \<Rightarrow> bytes \<Rightarrow> bytes \<Rightarrow> bytes \<times> bytes" where
  "chacha20poly1305_encrypt key nonce ad plaintext =
     (let ciphertext = chacha20_xor key 1 nonce plaintext
      in (ciphertext, aead_mac key nonce ad ciphertext))"

definition chacha20poly1305_decrypt :: "bytes \<Rightarrow> bytes \<Rightarrow> bytes \<Rightarrow> bytes \<Rightarrow> bytes \<Rightarrow> bytes option" where
  "chacha20poly1305_decrypt key nonce ad ciphertext tag =
     (let expected = aead_mac key nonce ad ciphertext
      in if poly1305_verify expected tag \<noteq> 1 then None
         else Some (chacha20_xor key 1 nonce ciphertext))"

definition build_nonce :: "u64 \<Rightarrow> bytes" where
  "build_nonce counter = [0, 0, 0, 0] @ map (\<lambda>i. ucast (drop_bit (8 * i) counter AND 0xFF)) [0..<8]"

definition aead_tag_len :: nat where
  "aead_tag_len = 16"

definition aead_encrypt :: "bytes \<Rightarrow> u64 \<Rightarrow> bytes \<Rightarrow> bytes \<Rightarrow> bytes" where
  "aead_encrypt key nonce ad plaintext =
     (case chacha20poly1305_encrypt key (build_nonce nonce) ad plaintext of (ct, tag) \<Rightarrow> ct @ tag)"

definition aead_decrypt :: "bytes \<Rightarrow> u64 \<Rightarrow> bytes \<Rightarrow> bytes \<Rightarrow> bytes option" where
  "aead_decrypt key nonce ad ciphertext =
     (if length ciphertext < aead_tag_len then None
      else let ct_len = length ciphertext - aead_tag_len
           in chacha20poly1305_decrypt key (build_nonce nonce) ad (take ct_len ciphertext) (drop ct_len ciphertext))"

section \<open>The transcript under the MAC\<close>

definition pad16 :: "bytes \<Rightarrow> bytes" where
  "pad16 data = replicate ((16 - length data mod 16) mod 16) 0"

definition le64 :: "u64 \<Rightarrow> bytes" where
  "le64 v = map (\<lambda>i. ucast (drop_bit (8 * i) v)) [0..<8]"

definition aead_transcript :: "bytes \<Rightarrow> bytes \<Rightarrow> bytes" where
  "aead_transcript ad ct = ad @ pad16 ad @ ct @ pad16 ct @ le64 (of_nat (length ad)) @ le64 (of_nat (length ct))"

lemma mac_padded_absorbed:
  assumes "poly_absorbed key msg st"
  shows "poly_absorbed key (msg @ data @ pad16 data) (mac_padded data st)"
proof -
  have "pad16 data = take (16 - length data mod 16) zero_pad" if "length data mod 16 \<noteq> 0"
    using that by (simp add: pad16_def zero_pad_def min_absorb1)
  moreover have "pad16 data = []" if "length data mod 16 = 0" using that by (simp add: pad16_def)
  moreover note 1 = poly1305_update_absorbed [OF assms, of data]
  moreover note 2 = poly1305_update_absorbed [OF 1]
  ultimately show ?thesis using assms 2 by (auto simp: mac_padded_def Let_def)
qed

lemma length_aead_mac [simp]: "length (aead_mac key nonce ad ct) = 16"
  by (simp add: aead_mac_def Let_def)

lemma aead_mac_spec:
  "le_val (aead_mac key nonce ad ct) = poly1305_spec (chacha20_block key 0 nonce) (aead_transcript ad ct)"
proof -
  let ?k = "chacha20_block key 0 nonce"
  have k: "32 \<le> length ?k" by (simp add: length_chacha20_block)
  have "poly_absorbed ?k [] (poly1305_init poly_blank ?k)"
    using k by (intro poly1305_init_absorbed) (simp_all add: poly_blank_def)
  from poly1305_update_absorbed [OF poly1305_update_absorbed [OF mac_padded_absorbed [OF mac_padded_absorbed [OF this, of ad], of ct]],
      of "le64 (of_nat (length ad))" "le64 (of_nat (length ct))"]
  have "poly_absorbed ?k (aead_transcript ad ct)
      (poly1305_update_u64_le (poly1305_update_u64_le
        (mac_padded ct (mac_padded ad (poly1305_init poly_blank ?k))) (of_nat (length ad))) (of_nat (length ct)))"
    by (simp only: aead_transcript_def poly1305_update_u64_le_def le64_def append.assoc append_Nil)
  from poly1305_finish_val [OF this k] show ?thesis by (simp add: aead_mac_def Let_def)
qed

section \<open>Decryption accepts exactly what encryption produces\<close>

lemma length_aead_encrypt [simp]: "length (aead_encrypt key nonce ad p) = length p + 16"
  by (simp add: aead_encrypt_def chacha20poly1305_encrypt_def Let_def)

lemma chacha20poly1305_decrypt_iff:
  assumes "length tag = 16"
  shows "chacha20poly1305_decrypt key nonce ad ct tag = Some p \<longleftrightarrow> chacha20poly1305_encrypt key nonce ad p = (ct, tag)"
  using assms
  by (auto simp: chacha20poly1305_decrypt_def chacha20poly1305_encrypt_def Let_def poly1305_verify_iff
      chacha20_xor_involution)

lemma aead_decrypt_iff: "aead_decrypt key nonce ad c = Some p \<longleftrightarrow> c = aead_encrypt key nonce ad p"
proof
  assume "c = aead_encrypt key nonce ad p"
  then show "aead_decrypt key nonce ad c = Some p"
    using chacha20poly1305_decrypt_iff [of "aead_mac key (build_nonce nonce) ad (chacha20_xor key 1 (build_nonce nonce) p)" key "build_nonce nonce" ad]
    by (simp add: aead_decrypt_def aead_tag_len_def Let_def) (simp add: aead_encrypt_def chacha20poly1305_encrypt_def Let_def)
next
  assume a: "aead_decrypt key nonce ad c = Some p"
  then have l: "16 \<le> length c" by (auto simp: aead_decrypt_def aead_tag_len_def split: if_splits)
  let ?n = "length c - 16"
  have "chacha20poly1305_decrypt key (build_nonce nonce) ad (take ?n c) (drop ?n c) = Some p"
    using a l by (simp add: aead_decrypt_def aead_tag_len_def Let_def)
  then have "chacha20poly1305_encrypt key (build_nonce nonce) ad p = (take ?n c, drop ?n c)"
    using l by (subst (asm) chacha20poly1305_decrypt_iff) simp_all
  then show "c = aead_encrypt key nonce ad p" by (simp add: aead_encrypt_def)
qed

lemma aead_roundtrip [simp]: "aead_decrypt key nonce ad (aead_encrypt key nonce ad p) = Some p"
  by (simp add: aead_decrypt_iff)

lemma aead_decrypt_None: "aead_decrypt key nonce ad c = None \<longleftrightarrow> (\<forall>p. c \<noteq> aead_encrypt key nonce ad p)"
  using aead_decrypt_iff [of key nonce ad c] by (metis not_Some_eq option.distinct(1))

section \<open>Properties\<close>

text \<open>
  C36: the AEAD construction.  The tag authenticates the associated data and the ciphertext, each padded
  to 16 bytes and followed by both lengths, under a key taken from keystream block 0; and \<^verbatim>\<open>aead_decrypt\<close>
  accepts a byte string if and only if it is what \<^verbatim>\<open>aead_encrypt\<close> produces for the plaintext it returns.
\<close>

theorem aead_exact:
  "le_val (aead_mac key nonce12 ad ct) = poly1305_spec (chacha20_block key 0 nonce12) (aead_transcript ad ct) \<and>
   (aead_decrypt key nonce ad c = Some p \<longleftrightarrow> c = aead_encrypt key nonce ad p) \<and>
   aead_decrypt key nonce ad (aead_encrypt key nonce ad p) = Some p"
  by (simp add: aead_mac_spec aead_decrypt_iff)

end
