(* ===== verification/Base64.thy ===== *)
theory Base64
  imports ESP_Prelude
begin

text \<open>
  The strict base64 decoder of \<^verbatim>\<open>src/crypto/primitives.cpp\<close> (\<^verbatim>\<open>base64_value\<close>, \<^verbatim>\<open>base64_decode\<close>), used for the
  pre-shared key.  It is shown to accept exactly the canonical encodings, by comparison with a
  reference encoder.
\<close>

section \<open>The code\<close>

definition base64_value :: "char \<Rightarrow> int" where
  "base64_value c =
     (let n = (of_char c :: int)
      in if of_char CHR ''A'' \<le> n \<and> n \<le> of_char CHR ''Z'' then n - of_char CHR ''A''
         else if of_char CHR ''a'' \<le> n \<and> n \<le> of_char CHR ''z'' then n - of_char CHR ''a'' + 26
         else if of_char CHR ''0'' \<le> n \<and> n \<le> of_char CHR ''9'' then n - of_char CHR ''0'' + 52
         else if c = CHR ''+'' then 62
         else if c = CHR ''/'' then 63
         else -1)"

text \<open>The loop over quartets; \<open>rest \<noteq> []\<close> is \<open>i + 4 != n\<close>.  \<^term>\<open>None\<close> is \<open>out.clear(); return false\<close>.\<close>

fun base64_loop :: "string \<Rightarrow> bytes \<Rightarrow> bytes option" where
  "base64_loop (c0 # c1 # c2 # c3 # rest) out =
     (let v0 = base64_value c0; v1 = base64_value c1
      in if v0 < 0 \<or> v1 < 0 then None
         else
           let out = out @ [of_int (push_bit 2 v0 OR drop_bit 4 v1)]
           in if c2 = CHR ''=''
              then (if rest \<noteq> [] \<or> c3 \<noteq> CHR ''='' \<or> v1 AND 0x0F \<noteq> 0 then None else Some out)
              else
                let v2 = base64_value c2
                in if v2 < 0 then None
                   else
                     let out = out @ [of_int (push_bit 4 v1 OR drop_bit 2 v2)]
                     in if c3 = CHR ''=''
                        then (if rest \<noteq> [] \<or> v2 AND 0x03 \<noteq> 0 then None else Some out)
                        else
                          let v3 = base64_value c3
                          in if v3 < 0 then None
                             else base64_loop rest (out @ [of_int (push_bit 6 v2 OR v3)]))"
| "base64_loop _ out = Some out"

definition base64_decode :: "string \<Rightarrow> bytes option" where
  "base64_decode tx = (if length tx mod 4 \<noteq> 0 then None else base64_loop tx [])"

section \<open>Reference encoder\<close>

definition b64_alphabet :: string where
  "b64_alphabet = ''ABCDEFGHIJKLMNOPQRSTUVWXYZabcdefghijklmnopqrstuvwxyz0123456789+/''"

definition b64_char :: "nat \<Rightarrow> char" where
  "b64_char v = b64_alphabet ! v"

fun base64_encode :: "bytes \<Rightarrow> string" where
  "base64_encode [] = []"
| "base64_encode [a] = [b64_char (unat a div 4), b64_char (unat a mod 4 * 16), CHR ''='', CHR ''='']"
| "base64_encode [a, b] = [b64_char (unat a div 4), b64_char (unat a mod 4 * 16 + unat b div 16),
     b64_char (unat b mod 16 * 4), CHR ''='']"
| "base64_encode (a # b # c # bs) = b64_char (unat a div 4) # b64_char (unat a mod 4 * 16 + unat b div 16) #
     b64_char (unat b mod 16 * 4 + unat c div 64) # b64_char (unat c mod 64) # base64_encode bs"

section \<open>Digits\<close>

lemma b64_all_values: "list_all (\<lambda>v. base64_value (b64_char v) = int v \<and> b64_char v \<noteq> CHR ''='') [0..<64]"
  by code_simp

lemma base64_value_b64_char [simp]: "v < 64 \<Longrightarrow> base64_value (b64_char v) = int v"
  and b64_char_not_pad [simp]: "v < 64 \<Longrightarrow> b64_char v \<noteq> CHR ''=''"
  using b64_all_values by (auto simp: list_all_iff)

lemma b64_all_chars:
  "list_all (\<lambda>c. base64_value c < 64 \<and> (0 \<le> base64_value c \<longrightarrow> b64_char (nat (base64_value c)) = c)) Enum.enum"
  by code_simp

lemma base64_value_lt: "base64_value c < 64"
  and b64_char_base64_value: "0 \<le> base64_value c \<Longrightarrow> b64_char (nat (base64_value c)) = c"
  using b64_all_chars by (auto simp: list_all_iff enum_UNIV)

lemma base64_digit:
  assumes "\<not> base64_value c < 0"
  obtains v where "v < 64" "c = b64_char v" "base64_value c = int v"
  using assms base64_value_lt [of c] b64_char_base64_value [of c]
  by (intro that [of "nat (base64_value c)"]) auto

lemma push_or_int: "push_bit n a OR b = a * 2 ^ n + b" if "0 \<le> b" "b < 2 ^ n" for a b :: int
proof -
  have "take_bit n b = b" using that by (simp add: take_bit_int_eq_self)
  then show ?thesis using concat_bit_eq [of n b a] concat_bit_def [of n b a] by (simp add: or.commute push_bit_eq_mult add.commute)
qed

lemma b64_byte0: "v1 < 64 \<Longrightarrow> push_bit 2 (int v0) OR drop_bit 4 (int v1) = int (v0 * 4 + v1 div 16)"
  by (subst push_or_int) (auto simp: drop_bit_eq_div zdiv_int)

lemma b64_byte1: "v2 < 64 \<Longrightarrow> push_bit 4 (int v1) OR drop_bit 2 (int v2) = int (v1 * 16 + v2 div 4)"
  by (subst push_or_int) (auto simp: drop_bit_eq_div zdiv_int)

lemma b64_byte2: "v3 < 64 \<Longrightarrow> push_bit 6 (int v2) OR int v3 = int (v2 * 64 + v3)"
  by (subst push_or_int) auto

lemma and_0F_int: "int v AND 0x0F = int (v mod 16)" and and_03_int: "int v AND 0x03 = int (v mod 4)"
proof -
  have "int v AND 0x0F = take_bit 4 (int v)" "int v AND 0x03 = take_bit 2 (int v)"
    by (simp_all add: take_bit_eq_mask mask_eq_exp_minus_1)
  then show "int v AND 0x0F = int (v mod 16)" "int v AND 0x03 = int (v mod 4)"
    by (simp_all add: take_bit_eq_mod zmod_int)
qed

lemma unat_of_nat_byte': "unat (of_nat n :: byte) = n mod 256"
  by (simp add: unat_of_nat)

lemmas b64_digits = b64_byte0 b64_byte1 b64_byte2 and_0F_int and_03_int

section \<open>One quartet\<close>

lemma base64_quartet:
  assumes "v0 < 64" "v1 < 64" "v2 < 64" "v3 < 64"
  shows "base64_loop (b64_char v0 # b64_char v1 # b64_char v2 # b64_char v3 # rest) out =
    base64_loop rest (out @ [of_nat (v0 * 4 + v1 div 16), of_nat (v1 * 16 + v2 div 4), of_nat (v2 * 64 + v3)])"
  using assms by (simp add: b64_digits Let_def del: of_nat_add of_nat_mult)

lemma base64_quartet_pad1:
  assumes "v0 < 64" "v1 < 64" "v2 < 64"
  shows "base64_loop (b64_char v0 # b64_char v1 # b64_char v2 # CHR ''='' # rest) out =
    (if rest = [] \<and> v2 mod 4 = 0 then Some (out @ [of_nat (v0 * 4 + v1 div 16), of_nat (v1 * 16 + v2 div 4)]) else None)"
  using assms by (simp add: b64_digits Let_def del: of_nat_add of_nat_mult)

lemma base64_quartet_pad2:
  assumes "v0 < 64" "v1 < 64"
  shows "base64_loop (b64_char v0 # b64_char v1 # CHR ''='' # c3 # rest) out =
    (if rest = [] \<and> c3 = CHR ''='' \<and> v1 mod 16 = 0 then Some (out @ [of_nat (v0 * 4 + v1 div 16)]) else None)"
  using assms by (simp add: b64_digits Let_def del: of_nat_add of_nat_mult)

lemmas base64_quartets = base64_quartet base64_quartet_pad1 base64_quartet_pad2

section \<open>Decoding inverts encoding\<close>

lemma byte_parts:
  fixes a b :: byte
  shows "unat a div 4 < 64" "unat a mod 4 * 16 < 64" "unat a mod 16 * 4 < 64"
    "unat a mod 4 * 16 + unat b div 16 < 64" "unat a mod 16 * 4 + unat b div 64 < 64" "unat a mod 64 < 64"
proof -
  have "unat a < 64 * 4" "unat b < 16 * 16" "unat b < 4 * 64"
    using unat_byte_lt [of a] unat_byte_lt [of b] by linarith+
  then have d: "unat a div 4 < 64" "unat b div 16 < 16" "unat b div 64 < 4"
    by (simp_all only: less_mult_imp_div_less)
  have m: "unat a mod 4 < 4" "unat a mod 16 < 16" by simp_all
  show "unat a div 4 < 64" "unat a mod 4 * 16 < 64" "unat a mod 16 * 4 < 64"
    "unat a mod 4 * 16 + unat b div 16 < 64" "unat a mod 16 * 4 + unat b div 64 < 64" "unat a mod 64 < 64"
    using d m by simp_all
qed

lemma of_nat_byte_eqI: "n = 256 * k + unat b \<Longrightarrow> of_nat n = (b :: byte)"
  unfolding word_unat_eq_iff unat_of_nat by simp

lemma b64_rebuild:
  fixes a b c :: byte
  shows "(of_nat (unat a div 4 * 4 + (unat a mod 4 * 16 + unat b div 16) div 16) :: byte) = a"
    and "(of_nat (unat a div 4 * 4 + unat a mod 4 * 16 div 16) :: byte) = a"
    and "(of_nat ((unat a mod 4 * 16 + unat b div 16) * 16 + (unat b mod 16 * 4 + unat c div 64) div 4) :: byte) = b"
    and "(of_nat ((unat a mod 4 * 16 + unat b div 16) * 16 + unat b mod 16 * 4 div 4) :: byte) = b"
    and "(of_nat ((unat a mod 16 * 4 + unat b div 64) * 64 + unat b mod 64) :: byte) = b"
proof -
  have "unat b < 16 * 16" "unat c < 4 * 64"
    using unat_byte_lt [of b] unat_byte_lt [of c] by linarith+
  then have lt: "unat b div 16 < 16" "unat c div 64 < 4"
    by (simp_all only: less_mult_imp_div_less)
  show "(of_nat (unat a div 4 * 4 + (unat a mod 4 * 16 + unat b div 16) div 16) :: byte) = a"
    using lt by (intro of_nat_byte_eqI [of _ 0]) simp
  show "(of_nat (unat a div 4 * 4 + unat a mod 4 * 16 div 16) :: byte) = a"
    by (intro of_nat_byte_eqI [of _ 0]) simp
  show "(of_nat ((unat a mod 4 * 16 + unat b div 16) * 16 + (unat b mod 16 * 4 + unat c div 64) div 4) :: byte) = b"
    using lt by (intro of_nat_byte_eqI [of _ "unat a mod 4"]) simp
  show "(of_nat ((unat a mod 4 * 16 + unat b div 16) * 16 + unat b mod 16 * 4 div 4) :: byte) = b"
    by (intro of_nat_byte_eqI [of _ "unat a mod 4"]) simp
  show "(of_nat ((unat a mod 16 * 4 + unat b div 64) * 64 + unat b mod 64) :: byte) = b"
    by (intro of_nat_byte_eqI [of _ "unat a mod 16"]) simp
qed

lemma base64_loop_encode: "base64_loop (base64_encode bs) out = Some (out @ bs)"
proof (induction bs arbitrary: out rule: base64_encode.induct)
  case (2 a)
  then show ?case unfolding base64_encode.simps
    by (subst base64_quartet_pad2) (simp_all only: byte_parts b64_rebuild, simp_all)
next
  case (3 a b)
  then show ?case unfolding base64_encode.simps
    by (subst base64_quartet_pad1) (simp_all only: byte_parts b64_rebuild, simp_all)
next
  case (4 a b c bs)
  then show ?case unfolding base64_encode.simps
    by (subst base64_quartet) (simp_all only: byte_parts b64_rebuild, simp_all)
qed simp

lemma length_base64_encode: "length (base64_encode bs) mod 4 = 0"
  by (induction bs rule: base64_encode.induct) simp_all

text \<open>The other direction: whatever is accepted is a canonical encoding.\<close>

lemma unat_of_nat_byteI: "n = m + 256 * k \<Longrightarrow> m < 256 \<Longrightarrow> unat (of_nat n :: byte) = m"
  unfolding unat_of_nat by simp

lemma unat_digits:
  assumes v: "v0 < 64" "v1 < 64" "v2 < 64" "v3 < 64"
  shows "unat (of_nat (v0 * 4 + v1 div 16) :: byte) = v0 * 4 + v1 div 16"
    and "unat (of_nat (v1 * 16 + v2 div 4) :: byte) = v1 mod 16 * 16 + v2 div 4"
    and "unat (of_nat (v2 * 64 + v3) :: byte) = v2 mod 4 * 64 + v3"
proof -
  have "v1 < 4 * 16" "v2 < 16 * 4" using v by simp_all
  then have d: "v1 div 16 < 4" "v2 div 4 < 16" by (simp_all only: less_mult_imp_div_less)
  show "unat (of_nat (v0 * 4 + v1 div 16) :: byte) = v0 * 4 + v1 div 16"
    unfolding unat_of_nat using v d by simp
  have "v1 * 16 + v2 div 4 = (v1 mod 16 * 16 + v2 div 4) + 256 * (v1 div 16)"
    using div_mult_mod_eq [of v1 16] by linarith
  moreover have "v1 mod 16 * 16 + v2 div 4 < 256"
    using d(2) mod_less_divisor [of 16 v1] by linarith
  ultimately show "unat (of_nat (v1 * 16 + v2 div 4) :: byte) = v1 mod 16 * 16 + v2 div 4"
    by (rule unat_of_nat_byteI)
  have "v2 * 64 + v3 = (v2 mod 4 * 64 + v3) + 256 * (v2 div 4)"
    using div_mult_mod_eq [of v2 4] by linarith
  moreover have "v2 mod 4 * 64 + v3 < 256"
    using v(4) mod_less_divisor [of 4 v2] by linarith
  ultimately show "unat (of_nat (v2 * 64 + v3) :: byte) = v2 mod 4 * 64 + v3"
    by (rule unat_of_nat_byteI)
qed

lemma encode_digits:
  assumes v: "v0 < 64" "v1 < 64" "v2 < 64" "v3 < 64"
  defines "a \<equiv> of_nat (v0 * 4 + v1 div 16) :: byte" and "b \<equiv> of_nat (v1 * 16 + v2 div 4) :: byte"
    and "c \<equiv> of_nat (v2 * 64 + v3) :: byte"
  shows "base64_encode (a # b # c # bs) = b64_char v0 # b64_char v1 # b64_char v2 # b64_char v3 # base64_encode bs"
    and "v2 mod 4 = 0 \<Longrightarrow> base64_encode [a, b] = [b64_char v0, b64_char v1, b64_char v2, CHR ''='']"
    and "v1 mod 16 = 0 \<Longrightarrow> base64_encode [a] = [b64_char v0, b64_char v1, CHR ''='', CHR ''='']"
proof -
  have "v1 < 4 * 16" "v2 < 16 * 4" using v by simp_all
  then have d: "v1 div 16 < 4" "v2 div 4 < 16" by (simp_all only: less_mult_imp_div_less)
  note u = unat_digits [OF v, folded a_def b_def c_def]
  have a: "unat a div 4 = v0" "unat a mod 4 = v1 div 16" unfolding u using d by simp_all
  have b: "unat b div 16 = v1 mod 16" "unat b mod 16 = v2 div 4" unfolding u using d by simp_all
  have c: "unat c div 64 = v2 mod 4" "unat c mod 64 = v3" unfolding u using v by simp_all
  show "base64_encode (a # b # c # bs) = b64_char v0 # b64_char v1 # b64_char v2 # b64_char v3 # base64_encode bs"
    unfolding base64_encode.simps a b c by simp
  show "v2 mod 4 = 0 \<Longrightarrow> base64_encode [a, b] = [b64_char v0, b64_char v1, b64_char v2, CHR ''='']"
    unfolding base64_encode.simps a b using div_mult_mod_eq [of v2 4] by simp
  show "v1 mod 16 = 0 \<Longrightarrow> base64_encode [a] = [b64_char v0, b64_char v1, CHR ''='', CHR ''='']"
    unfolding base64_encode.simps a using div_mult_mod_eq [of v1 16] by simp
qed

text \<open>The first quartet of an accepted text: either the last one, or three bytes and the rest.\<close>

lemma base64_loop_first:
  assumes l: "base64_loop (c0 # c1 # c2 # c3 # rest) out = Some r"
  shows "(\<exists>bs. r = out @ bs \<and> c0 # c1 # c2 # c3 # rest = base64_encode bs) \<or>
    (\<exists>a b c. base64_loop rest (out @ [a, b, c]) = Some r \<and>
      (\<forall>bs. base64_encode (a # b # c # bs) = c0 # c1 # c2 # c3 # base64_encode bs))"
proof -
  from l have "\<not> base64_value c0 < 0" "\<not> base64_value c1 < 0"
    by (auto simp: Let_def split: if_splits)
  then obtain v0 v1 where v0: "v0 < 64" "c0 = b64_char v0" "base64_value c0 = int v0"
    and v1: "v1 < 64" "c1 = b64_char v1" "base64_value c1 = int v1" by (meson base64_digit)
  show ?thesis
  proof (cases "c2 = CHR ''=''")
    case True
    then show ?thesis
      using l v0 v1 encode_digits(3) [of v0 v1 0 0] base64_quartet_pad2 [of v0 v1 c3 rest out]
      by (auto split: if_splits simp del: base64_loop.simps base64_encode.simps)
  next
    case c2: False
    with l v0 v1 have "\<not> base64_value c2 < 0" by (auto simp: Let_def split: if_splits)
    then obtain v2 where v2: "v2 < 64" "c2 = b64_char v2" "base64_value c2 = int v2" by (rule base64_digit)
    show ?thesis
    proof (cases "c3 = CHR ''=''")
      case True
      then show ?thesis
        using l v0 v1 v2 encode_digits(2) [of v0 v1 v2 0] base64_quartet_pad1 [of v0 v1 v2 rest out]
        by (auto split: if_splits simp del: base64_loop.simps base64_encode.simps)
    next
      case c3: False
      with l v0 v1 v2 c2 have "\<not> base64_value c3 < 0" by (auto simp: Let_def split: if_splits)
      then obtain v3 where v3: "v3 < 64" "c3 = b64_char v3" "base64_value c3 = int v3" by (rule base64_digit)
      then show ?thesis
        using l v0 v1 v2 base64_quartet [of v0 v1 v2 v3 rest out] encode_digits(1) [of v0 v1 v2 v3]
        by (intro disjI2 exI) (auto simp del: base64_loop.simps base64_encode.simps of_nat_add of_nat_mult)
    qed
  qed
qed

lemma quartet_cases:
  assumes "length t mod 4 = 0" "t \<noteq> []"
  obtains c0 c1 c2 c3 rest where "t = c0 # c1 # c2 # c3 # rest" "length rest mod 4 = 0"
proof -
  have "4 \<le> length t" using assms by (cases "length t < 4") auto
  then obtain c0 c1 c2 c3 rest where t: "t = c0 # c1 # c2 # c3 # rest"
    by (auto simp: numeral_eq_Suc Suc_le_length_iff)
  then show thesis using that [OF t] assms(1) by simp
qed

lemma base64_loop_canonical:
  "base64_loop tx out = Some r \<Longrightarrow> length tx mod 4 = 0 \<Longrightarrow> \<exists>bs. r = out @ bs \<and> tx = base64_encode bs"
proof (induction tx arbitrary: out r rule: length_induct)
  case (1 tx)
  show ?case
  proof (cases "tx = []")
    case True
    then show ?thesis using 1(2) by (intro exI [of _ "[]"]) simp
  next
    case False
    with 1(3) obtain c0 c1 c2 c3 rest where t: "tx = c0 # c1 # c2 # c3 # rest" "length rest mod 4 = 0"
      by (rule quartet_cases)
    from base64_loop_first [OF 1(2) [unfolded t]] show ?thesis
    proof (elim disjE exE conjE)
      fix a b c
      assume l: "base64_loop rest (out @ [a, b, c]) = Some r"
        and e: "\<forall>bs. base64_encode (a # b # c # bs) = c0 # c1 # c2 # c3 # base64_encode bs"
      have "length rest < length tx" by (simp add: t)
      from 1(1) [rule_format, OF this l t(2)]
      obtain bs where "r = (out @ [a, b, c]) @ bs" "rest = base64_encode bs" by (elim exE conjE)
      then show ?thesis using e t by (intro exI [of _ "a # b # c # bs"]) simp
    qed (use t in auto)
  qed
qed

lemma base64_decode_iff: "base64_decode tx = Some bs \<longleftrightarrow> tx = base64_encode bs"
  using base64_loop_canonical [of tx "[]" bs] base64_loop_encode [of bs "[]"] length_base64_encode [of bs]
  by (auto simp: base64_decode_def split: if_splits)

lemma length_base64_decode: "base64_decode tx = Some bs \<Longrightarrow> length tx = 4 * ((length bs + 2) div 3)"
proof -
  have "length (base64_encode bs) = 4 * ((length bs + 2) div 3)"
  proof (induction bs rule: base64_encode.induct)
    case (4 a b c bs)
    have "(length bs + 3 + 2) div 3 = Suc ((length bs + 2) div 3)" by presburger
    with 4 show ?case by simp
  qed simp_all
  then show "base64_decode tx = Some bs \<Longrightarrow> length tx = 4 * ((length bs + 2) div 3)"
    by (simp add: base64_decode_iff)
qed

section \<open>Properties\<close>

text \<open>
  the decoder accepts exactly the canonical encodings: it returns \<open>bs\<close> if and only if the text is the
  standard padded base64 of \<open>bs\<close>, so stray characters, missing or misplaced padding, a bad length and
  nonzero trailing bits are all rejected.
\<close>

theorem base64_decode_exact: "base64_decode tx = Some bs \<longleftrightarrow> tx = base64_encode bs"
  by (rule base64_decode_iff)

end
