(* ===== verification/X25519.thy ===== *)
theory X25519
  imports ESP_Prelude
begin

text \<open>
  Curve25519 scalar multiplication of \<^verbatim>\<open>src/crypto/detail/x25519.cpp\<close>: sixteen signed 16-bit limbs kept in
  \<open>int64_t\<close>, lazy carries, constant-time selection, a Montgomery ladder and inversion by Fermat's
  theorem.  A limb is an \<^typ>\<open>int\<close>; the theory \<open>X25519_Overflow\<close> shows that no \<open>int64_t\<close> operation of the code
  overflows, the theory \<open>X25519_Field\<close> what the limbs compute.
\<close>

type_synonym gf = "int list"

definition base9 :: bytes where
  "base9 = 9 # replicate 31 0"

definition c121665 :: gf where
  "c121665 = [0xDB41, 1] @ replicate 14 0"

definition car_step :: "gf \<Rightarrow> nat \<Rightarrow> gf" where
  "car_step o1 i =
     (let o2 = o1[i := o1 ! i + 2 ^ 16];
          c = drop_bit 16 (o2 ! i);
          j = (i + 1) * of_bool (i < 15);
          o3 = o2[j := o2 ! j + (c - 1 + 37 * (c - 1) * of_bool (i = 15))]
      in o3[i := o3 ! i - c * 65536])"

definition car25519 :: "gf \<Rightarrow> gf" where
  "car25519 o1 = foldl car_step o1 [0..<16]"

definition sel25519 :: "gf \<Rightarrow> gf \<Rightarrow> int \<Rightarrow> gf \<times> gf" where
  "sel25519 p q b =
     (let c = NOT (b - 1)
      in (map (\<lambda>i. p ! i XOR (c AND (p ! i XOR q ! i))) [0..<16],
          map (\<lambda>i. q ! i XOR (c AND (p ! i XOR q ! i))) [0..<16]))"

definition pack_sub_step :: "gf \<Rightarrow> gf \<Rightarrow> nat \<Rightarrow> gf" where
  "pack_sub_step t m i =
     (let m = m[i := t ! i - 0xffff - (drop_bit 16 (m ! (i - 1)) AND 1)]
      in m[i - 1 := m ! (i - 1) AND 0xffff])"

definition pack_round :: "gf \<Rightarrow> gf" where
  "pack_round t =
     (let m = (replicate 16 0)[0 := t ! 0 - 0xffed];
          m = foldl (pack_sub_step t) m [1..<15];
          m = m[15 := t ! 15 - 0x7fff - (drop_bit 16 (m ! 14) AND 1)];
          b = drop_bit 16 (m ! 15) AND 1;
          m = m[14 := m ! 14 AND 0xffff]
      in fst (sel25519 t m (1 - b)))"

definition pack25519 :: "gf \<Rightarrow> bytes" where
  "pack25519 n =
     (let t = car25519 (car25519 (car25519 n));
          t = pack_round (pack_round t)
      in concat (map (\<lambda>i. [of_int (t ! i AND 0xff), of_int (drop_bit 8 (t ! i))]) [0..<16]))"

definition unpack25519 :: "bytes \<Rightarrow> gf" where
  "unpack25519 n =
     (let o1 = map (\<lambda>i. uint (n ! (2 * i)) + push_bit 8 (uint (n ! (2 * i + 1)))) [0..<16]
      in o1[15 := o1 ! 15 AND 0x7fff])"

definition gf_add :: "gf \<Rightarrow> gf \<Rightarrow> gf" where
  "gf_add a b = map (\<lambda>i. a ! i + b ! i) [0..<16]"

definition gf_sub :: "gf \<Rightarrow> gf \<Rightarrow> gf" where
  "gf_sub a b = map (\<lambda>i. a ! i - b ! i) [0..<16]"

definition gf_mul :: "gf \<Rightarrow> gf \<Rightarrow> gf" where
  "gf_mul a b =
     (let t = foldl (\<lambda>t i. foldl (\<lambda>t j. t[i + j := t ! (i + j) + a ! i * b ! j]) t [0..<16])
                (replicate 31 0) [0..<16];
          t = foldl (\<lambda>t i. t[i := t ! i + 38 * t ! (i + 16)]) t [0..<15];
          o1 = map (\<lambda>i. t ! i) [0..<16]
      in car25519 (car25519 o1))"

definition gf_sqr :: "gf \<Rightarrow> gf" where
  "gf_sqr a = gf_mul a a"

definition inv25519 :: "gf \<Rightarrow> gf" where
  "inv25519 i =
     foldl (\<lambda>c a. let c = gf_sqr c in if a \<noteq> 2 \<and> a \<noteq> 4 then gf_mul c i else c) i (rev [0..<254])"

type_synonym ladder = "gf \<times> gf \<times> gf \<times> gf"

text \<open>The body of the ladder's loop, for the scalar bit \<open>r\<close> and the point coordinate \<open>x\<close>.\<close>

definition ladder_step :: "gf \<Rightarrow> ladder \<Rightarrow> int \<Rightarrow> ladder" where
  "ladder_step x = (\<lambda>(a, b, c, d) r.
     let (a, b) = sel25519 a b r;
         (c, d) = sel25519 c d r;
         e = gf_add a c;
         a = gf_sub a c;
         c = gf_add b d;
         b = gf_sub b d;
         d = gf_sqr e;
         f = gf_sqr a;
         a = gf_mul c a;
         c = gf_mul b e;
         e = gf_add a c;
         a = gf_sub a c;
         b = gf_sqr a;
         c = gf_sub d f;
         a = gf_mul c c121665;
         a = gf_add a d;
         c = gf_mul c a;
         a = gf_mul d f;
         d = gf_mul b x;
         b = gf_sqr e;
         (a, b) = sel25519 a b r;
         (c, d) = sel25519 c d r
     in (a, b, c, d))"

definition clamp_scalar :: "bytes \<Rightarrow> bytes" where
  "clamp_scalar n =
     (let z = take 31 n @ [(n ! 31 AND 127) OR 64] in z[0 := z ! 0 AND 248])"

definition scalar_bit :: "bytes \<Rightarrow> nat \<Rightarrow> int" where
  "scalar_bit z i = uint (drop_bit (i mod 8) (z ! (i div 8)) AND 1)"

definition x25519_scalarmult :: "bytes \<Rightarrow> bytes \<Rightarrow> bytes" where
  "x25519_scalarmult n p =
     (let z = clamp_scalar n;
          x = unpack25519 p;
          one = 1 # replicate 15 0;
          zero = replicate 16 0;
          (a, b, c, d) = foldl (\<lambda>s i. ladder_step x s (scalar_bit z i)) (one, x, zero, one) (rev [0..<255]);
          c = inv25519 c;
          a = gf_mul a c
      in pack25519 a)"

definition x25519_scalarmult_base :: "bytes \<Rightarrow> bytes" where
  "x25519_scalarmult_base n = x25519_scalarmult n base9"

lemma length_pack25519 [simp]: "length (pack25519 n) = 32"
  by (simp add: pack25519_def Let_def length_concat comp_def sum_list_triv)

lemma length_x25519_scalarmult [simp]: "length (x25519_scalarmult n p) = 32"
  by (simp add: x25519_scalarmult_def Let_def split: prod.splits)

text \<open>The branch-free selection swaps when the bit is 1 and leaves both operands alone when it is 0.\<close>

lemma sel25519_swap:
  assumes "length p = 16" "length q = 16" "b = 0 \<or> b = 1"
  shows "sel25519 p q b = (if b = 1 then (q, p) else (p, q))"
proof -
  have x: "x XOR (x XOR y) = y" "y XOR (x XOR y) = x" for x y :: int
    by (auto simp: bit_eq_iff bit_simps)
  have m: "map ((!) p) [0..<16] = p" "map ((!) q) [0..<16] = q"
    using assms(1,2) map_nth [of p] map_nth [of q] by simp_all
  show ?thesis using assms(3) m by (auto simp: sel25519_def Let_def x)
qed

end
