(* ===== verification/Primitives.thy ===== *)
theory Primitives
  imports Sha256 Aead Base64 X25519
begin

text \<open>
  The remaining functions of \<^verbatim>\<open>src/crypto/primitives.cpp\<close>: HMAC-SHA-256, the Noise HKDF and the X25519
  wrappers.  The operating system's random generator (\<^verbatim>\<open>detail::secure_random\<close>) is a parameter: the
  bytes it delivers or the exception it throws.  Also the interface the protocol layer relies on: the
  locale \<open>aead\<close>, interpreted on the ChaCha20-Poly1305 model.
\<close>

section \<open>HMAC and HKDF\<close>

definition hmac_k_pad :: "bytes \<Rightarrow> bytes" where
  "hmac_k_pad key =
     (if length key > 64 then sha256 key @ replicate 32 0 else key @ replicate (64 - length key) 0)"

definition hmac_sha256 :: "bytes \<Rightarrow> bytes \<Rightarrow> bytes" where
  "hmac_sha256 key data =
     (let k_pad = hmac_k_pad key;
          ipad = map (\<lambda>b. b XOR 0x36) k_pad;
          opad = map (\<lambda>b. b XOR 0x5c) k_pad;
          inner = sha256_update (sha256_update (sha256_init sha_blank) ipad) data;
          inner_hash = sha256_final inner;
          outer = sha256_update (sha256_update (sha256_init sha_blank) opad) inner_hash
      in sha256_final outer)"

definition hkdf :: "bytes \<Rightarrow> bytes \<Rightarrow> nat \<Rightarrow> bytes \<Rightarrow> bytes \<Rightarrow> bytes \<times> bytes \<times> bytes" where
  "hkdf chaining_key ikm num_outputs o2 o3 =
     (let temp_key = hmac_sha256 chaining_key ikm;
          o1 = hmac_sha256 temp_key [0x01]
      in if num_outputs = 1 then (o1, o2, o3)
         else
           let o2 = hmac_sha256 temp_key (o1 @ [0x02])
           in if num_outputs = 2 then (o1, o2, o3)
              else (o1, o2, hmac_sha256 temp_key (o2 @ [0x03])))"

lemma sha256_two_updates:
  "sha256_final (sha256_update (sha256_update (sha256_init sha_blank) a) b) = sha256_spec (a @ b)"
  using absorbed_final [OF absorbed_update [OF absorbed_update [OF absorbed_init [of sha_blank], of a], of b]]
  by (simp add: sha_blank_def)

lemma hmac_sha256_eq:
  "hmac_sha256 key data =
     sha256_spec (map (\<lambda>b. b XOR 0x5c) (hmac_k_pad key) @ sha256_spec (map (\<lambda>b. b XOR 0x36) (hmac_k_pad key) @ data))"
  by (simp add: hmac_sha256_def Let_def sha256_two_updates)

lemma length_hmac_k_pad: "length (hmac_k_pad key) = 64"
  by (simp add: hmac_k_pad_def)

lemma length_hmac_sha256 [simp]: "length (hmac_sha256 key data) = 32"
  using length_sha256 [of "map (\<lambda>b. b XOR 0x5c) (hmac_k_pad key) @ sha256_spec (map (\<lambda>b. b XOR 0x36) (hmac_k_pad key) @ data)"]
  by (simp add: hmac_sha256_eq sha256_eq_spec)

lemma hkdf_lengths:
  assumes "hkdf ck ikm n o2 o3 = (p1, p2, p3)" "length o2 = 32" "length o3 = 32"
  shows "length p1 = 32" "length p2 = 32" "length p3 = 32"
  using assms by (auto simp: hkdf_def Let_def split: if_splits)

section \<open>Key agreement\<close>

definition key_len :: nat where
  "key_len = 32"

definition hash_len :: nat where
  "hash_len = 32"

definition x25519_base :: "bytes \<Rightarrow> bytes" where
  "x25519_base private_key = x25519_scalarmult_base private_key"

definition x25519 :: "bytes \<Rightarrow> bytes \<Rightarrow> api_error + bytes" where
  "x25519 private_key peer_public =
     (let out = x25519_scalarmult private_key peer_public;
          acc = foldl (OR) 0 out
      in if acc = 0 then Inl (EncryptionError ''X25519 produced a degenerate shared secret'') else Inr out)"

definition generate_keypair :: "(api_error + bytes) \<Rightarrow> api_error + (bytes \<times> bytes)" where
  "generate_keypair rnd =
     (case rnd of Inl e \<Rightarrow> Inl e | Inr private_key \<Rightarrow> Inr (private_key, x25519_scalarmult_base private_key))"

lemma fold_or_zero: "foldl (OR) (a :: byte) xs = 0 \<longleftrightarrow> a = 0 \<and> (\<forall>x \<in> set xs. x = 0)"
  by (induction xs arbitrary: a) (auto simp: or_eq_0_iff)

text \<open>The constant-time fold rejects the all-zero secret and nothing else.\<close>

lemma x25519_result:
  "x25519 k p = (if x25519_scalarmult k p = replicate 32 0
     then Inl (EncryptionError ''X25519 produced a degenerate shared secret'') else Inr (x25519_scalarmult k p))"
proof -
  have "(\<forall>x \<in> set xs. x = 0) \<longleftrightarrow> xs = replicate 32 0" if "length xs = 32" for xs :: bytes
    using that by (metis in_set_replicate replicate_eqI)
  then show ?thesis by (simp add: x25519_def Let_def fold_or_zero)
qed

section \<open>Authenticated encryption as an interface\<close>

text \<open>What a run of a sender and of a receiver that count their nonces in step produce.\<close>

fun seal :: "(bytes \<Rightarrow> u64 \<Rightarrow> bytes \<Rightarrow> bytes \<Rightarrow> bytes) \<Rightarrow> bytes \<Rightarrow> u64 \<Rightarrow> bytes \<Rightarrow> bytes list \<Rightarrow> bytes list" where
  "seal enc k n ad [] = []"
| "seal enc k n ad (p # ps) = enc k n ad p # seal enc k (n + 1) ad ps"

fun unseal :: "(bytes \<Rightarrow> u64 \<Rightarrow> bytes \<Rightarrow> bytes \<Rightarrow> bytes option) \<Rightarrow> bytes \<Rightarrow> u64 \<Rightarrow> bytes \<Rightarrow> bytes list \<Rightarrow> bytes list option" where
  "unseal dec k n ad [] = Some []"
| "unseal dec k n ad (c # cs) =
     (case dec k n ad c of None \<Rightarrow> None
      | Some p \<Rightarrow> (case unseal dec k (n + 1) ad cs of None \<Rightarrow> None | Some ps \<Rightarrow> Some (p # ps)))"

locale aead =
  fixes enc :: "bytes \<Rightarrow> u64 \<Rightarrow> bytes \<Rightarrow> bytes \<Rightarrow> bytes"
    and dec :: "bytes \<Rightarrow> u64 \<Rightarrow> bytes \<Rightarrow> bytes \<Rightarrow> bytes option"
    and tag_len :: nat
  assumes dec_iff: "dec k n ad c = Some p \<longleftrightarrow> c = enc k n ad p"
    and enc_length: "length (enc k n ad p) = length p + tag_len"
begin

lemma dec_enc: "dec k n ad (enc k n ad p) = Some p"
  by (simp add: dec_iff)

lemma enc_inj: "enc k n ad p = enc k n ad q \<Longrightarrow> p = q"
  by (metis dec_enc option.inject)

lemma dec_length: "dec k n ad c = Some p \<Longrightarrow> length c = length p + tag_len"
  by (simp add: dec_iff enc_length)

lemma unseal_seal: "unseal dec k n ad (seal enc k n ad ps) = Some ps"
  by (induction ps arbitrary: n) (simp_all add: dec_enc)

text \<open>A receiver that accepts a whole sequence accepts exactly the sender's, with nothing reordered, dropped or replayed.\<close>

lemma unseal_only: "unseal dec k n ad cs = Some ps \<Longrightarrow> cs = seal enc k n ad ps"
proof (induction cs arbitrary: n ps)
  case (Cons c cs)
  from Cons.prems obtain p qs where "dec k n ad c = Some p" "unseal dec k (n + 1) ad cs = Some qs" "ps = p # qs"
    by (auto split: option.splits)
  then show ?case using Cons.IH [of "n + 1" qs] by (simp add: dec_iff)
qed simp

end

interpretation chachapoly: aead aead_encrypt aead_decrypt aead_tag_len
  by unfold_locales (simp_all add: aead_decrypt_iff aead_tag_len_def)

section \<open>Properties\<close>

text \<open>
  a stream of AEAD messages under consecutive nonces opens only as a whole and in order: what the
  receiver accepts is exactly what the sender sealed, so a dropped, repeated, reordered or altered
  message is detected.
\<close>

theorem aead_stream_exact:
  "unseal aead_decrypt key n ad cs = Some ps \<longleftrightarrow> cs = seal aead_encrypt key n ad ps"
  using chachapoly.unseal_seal chachapoly.unseal_only by blast

end
