(* ===== verification/Noise_Protocol.thy ===== *)
theory Noise_Protocol
  imports Primitives
begin

text \<open>
  The Noise layer: \<^verbatim>\<open>src/crypto/cipher_state.cpp\<close>, \<^verbatim>\<open>symmetric_state.cpp\<close> and \<^verbatim>\<open>noise_handshake.cpp\<close>
  (\<open>Noise_NNpsk0_25519_ChaChaPoly_SHA256\<close>).  Each class is a record, each method a function returning
  the updated record; a method that can throw returns a sum and the state as the exception leaves it.
  The main result is agreement: two parties with the same pre-shared key and prologue complete the
  handshake, recover each other's payloads and derive matching transport keys.
\<close>

section \<open>CipherState\<close>

record cipher_state =
  cs_key :: bytes
  cs_nonce :: u64
  cs_has_key :: bool

definition cipher_blank :: cipher_state where
  "cipher_blank = \<lparr>cs_key = replicate 32 0, cs_nonce = 0, cs_has_key = False\<rparr>"

definition initialize_key :: "bytes \<Rightarrow> cipher_state \<Rightarrow> cipher_state" where
  "initialize_key key cs = cs\<lparr>cs_key := key, cs_nonce := 0, cs_has_key := True\<rparr>"

definition encrypt_with_ad :: "bytes \<Rightarrow> bytes \<Rightarrow> cipher_state \<Rightarrow> bytes \<times> cipher_state" where
  "encrypt_with_ad ad plaintext cs =
     (if \<not> cs_has_key cs then (plaintext, cs)
      else (aead_encrypt (cs_key cs) (cs_nonce cs) ad plaintext, cs\<lparr>cs_nonce := cs_nonce cs + 1\<rparr>))"

definition decrypt_with_ad :: "bytes \<Rightarrow> bytes \<Rightarrow> cipher_state \<Rightarrow> (api_error + bytes) \<times> cipher_state" where
  "decrypt_with_ad ad ciphertext cs =
     (if \<not> cs_has_key cs then (Inr ciphertext, cs)
      else case aead_decrypt (cs_key cs) (cs_nonce cs) ad ciphertext of
             None \<Rightarrow> (Inl (EncryptionError ''AEAD authentication failed (bad key or corrupt frame)''), cs)
           | Some out \<Rightarrow> (Inr out, cs\<lparr>cs_nonce := cs_nonce cs + 1\<rparr>))"

section \<open>SymmetricState\<close>

record symmetric_state =
  ss_ck :: bytes
  ss_h :: bytes
  ss_cipher :: cipher_state

definition sym_initialize :: "string \<Rightarrow> symmetric_state" where
  "sym_initialize protocol_name =
     (let name = bytes_of_string protocol_name;
          h = (if length name \<le> hash_len then name @ replicate (hash_len - length name) 0 else sha256 name)
      in \<lparr>ss_ck = h, ss_h = h, ss_cipher = cipher_blank\<rparr>)"

definition mix_hash :: "bytes \<Rightarrow> symmetric_state \<Rightarrow> symmetric_state" where
  "mix_hash data ss = ss\<lparr>ss_h := sha256 (ss_h ss @ data)\<rparr>"

definition blank_hash :: bytes where
  "blank_hash = replicate 32 0"

definition mix_key :: "bytes \<Rightarrow> symmetric_state \<Rightarrow> symmetric_state" where
  "mix_key inp ss =
     (case hkdf (ss_ck ss) inp 2 blank_hash blank_hash of
        (o1, o2, _) \<Rightarrow> ss\<lparr>ss_ck := o1, ss_cipher := initialize_key o2 (ss_cipher ss)\<rparr>)"

definition mix_key_and_hash :: "bytes \<Rightarrow> symmetric_state \<Rightarrow> symmetric_state" where
  "mix_key_and_hash inp ss =
     (case hkdf (ss_ck ss) inp 3 blank_hash blank_hash of
        (o1, o2, o3) \<Rightarrow>
          let ss = mix_hash o2 (ss\<lparr>ss_ck := o1\<rparr>)
          in ss\<lparr>ss_cipher := initialize_key o3 (ss_cipher ss)\<rparr>)"

definition encrypt_and_hash :: "bytes \<Rightarrow> symmetric_state \<Rightarrow> bytes \<times> symmetric_state" where
  "encrypt_and_hash plaintext ss =
     (case encrypt_with_ad (ss_h ss) plaintext (ss_cipher ss) of
        (ciphertext, cs) \<Rightarrow> (ciphertext, mix_hash ciphertext (ss\<lparr>ss_cipher := cs\<rparr>)))"

definition decrypt_and_hash :: "bytes \<Rightarrow> symmetric_state \<Rightarrow> (api_error + bytes) \<times> symmetric_state" where
  "decrypt_and_hash ciphertext ss =
     (case decrypt_with_ad (ss_h ss) ciphertext (ss_cipher ss) of
        (Inl e, cs) \<Rightarrow> (Inl e, ss\<lparr>ss_cipher := cs\<rparr>)
      | (Inr plaintext, cs) \<Rightarrow> (Inr plaintext, mix_hash ciphertext (ss\<lparr>ss_cipher := cs\<rparr>)))"

definition sym_split :: "symmetric_state \<Rightarrow> cipher_state \<times> cipher_state" where
  "sym_split ss =
     (case hkdf (ss_ck ss) [] 2 blank_hash blank_hash of
        (o1, o2, _) \<Rightarrow> (initialize_key o1 cipher_blank, initialize_key o2 cipher_blank))"

section \<open>NoiseHandshake\<close>

datatype role = Initiator | Responder

record noise_handshake =
  hs_role :: role
  hs_psk :: bytes
  hs_symmetric :: symmetric_state
  hs_ephemeral_private :: bytes
  hs_ephemeral_public :: bytes
  hs_remote_ephemeral :: bytes
  hs_have_ephemeral :: bool
  hs_complete :: bool

definition protocol_name :: string where
  "protocol_name = ''Noise_NNpsk0_25519_ChaChaPoly_SHA256''"

definition hs_initialize :: "role \<Rightarrow> bytes \<Rightarrow> bytes \<Rightarrow> noise_handshake \<Rightarrow> noise_handshake" where
  "hs_initialize role psk prologue hs =
     hs\<lparr>hs_role := role, hs_psk := psk, hs_have_ephemeral := False, hs_complete := False,
        hs_symmetric := mix_hash prologue (sym_initialize protocol_name)\<rparr>"

definition ensure_ephemeral :: "(api_error + bytes) \<Rightarrow> noise_handshake \<Rightarrow> api_error option \<times> noise_handshake" where
  "ensure_ephemeral rnd hs =
     (if \<not> hs_have_ephemeral hs
      then case generate_keypair rnd of
             Inl e \<Rightarrow> (Some e, hs)
           | Inr (priv, pub) \<Rightarrow>
               (None, hs\<lparr>hs_ephemeral_private := priv, hs_ephemeral_public := pub, hs_have_ephemeral := True\<rparr>)
      else (None, hs))"

definition set_ephemeral_for_testing :: "bytes \<Rightarrow> noise_handshake \<Rightarrow> noise_handshake" where
  "set_ephemeral_for_testing private_key hs =
     hs\<lparr>hs_ephemeral_private := private_key, hs_ephemeral_public := x25519_base private_key, hs_have_ephemeral := True\<rparr>"

text \<open>\<open>upd_sym\<close> runs a method of the embedded symmetric state.\<close>

definition upd_sym :: "(symmetric_state \<Rightarrow> symmetric_state) \<Rightarrow> noise_handshake \<Rightarrow> noise_handshake" where
  "upd_sym f hs = hs\<lparr>hs_symmetric := f (hs_symmetric hs)\<rparr>"

definition write_message :: "(api_error + bytes) \<Rightarrow> bytes \<Rightarrow> noise_handshake \<Rightarrow> (api_error + bytes) \<times> noise_handshake" where
  "write_message rnd payload hs =
     (case hs_role hs of
        Initiator \<Rightarrow>
          (let hs = upd_sym (mix_key_and_hash (hs_psk hs)) hs
           in case ensure_ephemeral rnd hs of
                (Some e, hs) \<Rightarrow> (Inl e, hs)
              | (None, hs) \<Rightarrow>
                  let pub = hs_ephemeral_public hs;
                      hs = upd_sym (mix_hash pub) hs;
                      hs = upd_sym (mix_key pub) hs;
                      (ct, ss) = encrypt_and_hash payload (hs_symmetric hs)
                  in (Inr (pub @ ct), hs\<lparr>hs_symmetric := ss\<rparr>))
      | Responder \<Rightarrow>
          (case ensure_ephemeral rnd hs of
             (Some e, hs) \<Rightarrow> (Inl e, hs)
           | (None, hs) \<Rightarrow>
               let pub = hs_ephemeral_public hs;
                   hs = upd_sym (mix_hash pub) hs;
                   hs = upd_sym (mix_key pub) hs
               in case x25519 (hs_ephemeral_private hs) (hs_remote_ephemeral hs) of
                    Inl e \<Rightarrow> (Inl e, hs)
                  | Inr dh \<Rightarrow>
                      let hs = upd_sym (mix_key dh) hs;
                          (ct, ss) = encrypt_and_hash payload (hs_symmetric hs)
                      in (Inr (pub @ ct), hs\<lparr>hs_symmetric := ss, hs_complete := True\<rparr>)))"

text \<open>
  \<^verbatim>\<open>read_message\<close>: \<^term>\<open>None\<close> is \<open>return false\<close>.  The handler catches \<open>EncryptionError\<close>, the only exception
  the body can raise.
\<close>

definition read_message :: "bytes \<Rightarrow> noise_handshake \<Rightarrow> bytes option \<times> noise_handshake" where
  "read_message message hs =
     (if length message < key_len then (None, hs)
      else
        let remote = take key_len message;
            rest = drop key_len message;
            hs = hs\<lparr>hs_remote_ephemeral := remote\<rparr>
        in case hs_role hs of
             Responder \<Rightarrow>
               (let hs = upd_sym (mix_key_and_hash (hs_psk hs)) hs;
                    hs = upd_sym (mix_hash remote) hs;
                    hs = upd_sym (mix_key remote) hs
                in case decrypt_and_hash rest (hs_symmetric hs) of
                     (Inl e, ss) \<Rightarrow> (None, hs\<lparr>hs_symmetric := ss\<rparr>)
                   | (Inr payload, ss) \<Rightarrow> (Some payload, hs\<lparr>hs_symmetric := ss\<rparr>))
           | Initiator \<Rightarrow>
               (let hs = upd_sym (mix_hash remote) hs;
                    hs = upd_sym (mix_key remote) hs
                in case x25519 (hs_ephemeral_private hs) remote of
                     Inl e \<Rightarrow> (None, hs)
                   | Inr dh \<Rightarrow>
                       let hs = upd_sym (mix_key dh) hs
                       in case decrypt_and_hash rest (hs_symmetric hs) of
                            (Inl e, ss) \<Rightarrow> (None, hs\<lparr>hs_symmetric := ss\<rparr>)
                          | (Inr payload, ss) \<Rightarrow> (Some payload, hs\<lparr>hs_symmetric := ss, hs_complete := True\<rparr>)))"

text \<open>\<^verbatim>\<open>split\<close>: the cipher states to send and to receive with.\<close>

definition hs_split :: "noise_handshake \<Rightarrow> cipher_state \<times> cipher_state" where
  "hs_split hs =
     (case sym_split (hs_symmetric hs) of
        (c1, c2) \<Rightarrow> if hs_role hs = Initiator then (c1, c2) else (c2, c1))"

section \<open>Cipher states in step\<close>

lemma decrypt_encrypt_with_ad:
  "encrypt_with_ad ad p cs = (c, cs') \<Longrightarrow> decrypt_with_ad ad c cs = (Inr p, cs')"
  by (auto simp: encrypt_with_ad_def decrypt_with_ad_def split: if_splits)

text \<open>A keyed receiver accepts only what the sender in the same state produces; a rejection leaves the nonce alone.\<close>

lemma decrypt_with_ad_Inr:
  "cs_has_key cs \<Longrightarrow> decrypt_with_ad ad c cs = (Inr p, cs') \<longleftrightarrow> encrypt_with_ad ad p cs = (c, cs')"
  by (auto simp: encrypt_with_ad_def decrypt_with_ad_def aead_decrypt_iff split: option.splits
      dest: chachapoly.enc_inj)

lemma decrypt_with_ad_Inl:
  "decrypt_with_ad ad c cs = (Inl e, cs') \<Longrightarrow> cs' = cs \<and> e = EncryptionError ''AEAD authentication failed (bad key or corrupt frame)''"
  by (auto simp: decrypt_with_ad_def split: if_splits option.splits)

lemma decrypt_encrypt_and_hash:
  "encrypt_and_hash p ss = (c, ss') \<Longrightarrow> decrypt_and_hash c ss = (Inr p, ss')"
  using decrypt_encrypt_with_ad [of "ss_h ss" p "ss_cipher ss"]
  by (auto simp: encrypt_and_hash_def decrypt_and_hash_def split: prod.splits)

lemma decrypt_and_hash_Inr:
  assumes "cs_has_key (ss_cipher ss)" "decrypt_and_hash c ss = (Inr p, ss')"
  shows "encrypt_and_hash p ss = (c, ss')"
proof -
  obtain cs where "decrypt_with_ad (ss_h ss) c (ss_cipher ss) = (Inr p, cs)" "ss' = mix_hash c (ss\<lparr>ss_cipher := cs\<rparr>)"
    using assms(2) by (auto simp: decrypt_and_hash_def split: prod.splits sum.splits)
  then show ?thesis using assms(1) by (simp add: decrypt_with_ad_Inr encrypt_and_hash_def)
qed

lemma mix_key_has_key [simp]: "cs_has_key (ss_cipher (mix_key k ss))"
  by (simp add: mix_key_def initialize_key_def split: prod.splits)

section \<open>The two messages of the handshake\<close>

text \<open>The symmetric state just before the payload of each message is encrypted or decrypted.\<close>

definition sym_msg1 :: "bytes \<Rightarrow> bytes \<Rightarrow> symmetric_state \<Rightarrow> symmetric_state" where
  "sym_msg1 psk pub ss = mix_key pub (mix_hash pub (mix_key_and_hash psk ss))"

definition sym_msg2 :: "bytes \<Rightarrow> bytes \<Rightarrow> symmetric_state \<Rightarrow> symmetric_state" where
  "sym_msg2 pub dh ss = mix_key dh (mix_key pub (mix_hash pub ss))"

lemma sym_msg_has_key [simp]: "cs_has_key (ss_cipher (sym_msg1 psk pub ss))" "cs_has_key (ss_cipher (sym_msg2 pub dh ss))"
  by (simp_all add: sym_msg1_def sym_msg2_def)

lemma write_message_initiator:
  assumes "hs_role hs = Initiator" "\<not> hs_have_ephemeral hs"
    and "encrypt_and_hash payload (sym_msg1 (hs_psk hs) (x25519_base a) (hs_symmetric hs)) = (ct, ss)"
  shows "write_message (Inr a) payload hs =
    (Inr (x25519_base a @ ct), hs\<lparr>hs_ephemeral_private := a, hs_ephemeral_public := x25519_base a,
        hs_have_ephemeral := True, hs_symmetric := ss\<rparr>)"
  using assms
  by (simp add: write_message_def ensure_ephemeral_def generate_keypair_def upd_sym_def sym_msg1_def x25519_base_def Let_def)

lemma read_message_responder:
  assumes "hs_role hs = Responder" "length pub = 32"
    and "decrypt_and_hash ct (sym_msg1 (hs_psk hs) pub (hs_symmetric hs)) = (Inr payload, ss)"
  shows "read_message (pub @ ct) hs = (Some payload, hs\<lparr>hs_remote_ephemeral := pub, hs_symmetric := ss\<rparr>)"
  using assms by (simp add: read_message_def key_len_def upd_sym_def sym_msg1_def Let_def)

lemma write_message_responder:
  assumes "hs_role hs = Responder" "\<not> hs_have_ephemeral hs" "x25519 b (hs_remote_ephemeral hs) = Inr dh"
    and "encrypt_and_hash payload (sym_msg2 (x25519_base b) dh (hs_symmetric hs)) = (ct, ss)"
  shows "write_message (Inr b) payload hs =
    (Inr (x25519_base b @ ct), hs\<lparr>hs_ephemeral_private := b, hs_ephemeral_public := x25519_base b,
        hs_have_ephemeral := True, hs_symmetric := ss, hs_complete := True\<rparr>)"
  using assms
  by (simp add: write_message_def ensure_ephemeral_def generate_keypair_def upd_sym_def sym_msg2_def x25519_base_def Let_def)

lemma read_message_initiator:
  assumes "hs_role hs = Initiator" "length pub = 32" "x25519 (hs_ephemeral_private hs) pub = Inr dh"
    and "decrypt_and_hash ct (sym_msg2 pub dh (hs_symmetric hs)) = (Inr payload, ss)"
  shows "read_message (pub @ ct) hs = (Some payload, hs\<lparr>hs_remote_ephemeral := pub, hs_symmetric := ss, hs_complete := True\<rparr>)"
  using assms by (simp add: read_message_def key_len_def upd_sym_def sym_msg2_def Let_def)

lemmas handshake_messages = write_message_initiator read_message_responder write_message_responder read_message_initiator

lemma length_x25519_base [simp]: "length (x25519_base a) = 32"
  by (simp add: x25519_base_def x25519_scalarmult_base_def)

lemma handshake_agrees:
  fixes hi hr :: noise_handshake and psk prologue :: bytes
  assumes comm: "x25519_scalarmult b (x25519_base a) = x25519_scalarmult a (x25519_base b)"
    and nz: "x25519_scalarmult a (x25519_base b) \<noteq> replicate 32 0"
  defines "I0 \<equiv> hs_initialize Initiator psk prologue hi" and "R0 \<equiv> hs_initialize Responder psk prologue hr"
  shows "\<exists>m1 m2 I1 I2 R1 R2 c1 c2.
    write_message (Inr a) p1 I0 = (Inr m1, I1) \<and> read_message m1 R0 = (Some p1, R1) \<and>
    write_message (Inr b) p2 R1 = (Inr m2, R2) \<and> read_message m2 I1 = (Some p2, I2) \<and>
    hs_complete I2 \<and> hs_complete R2 \<and> ss_h (hs_symmetric I2) = ss_h (hs_symmetric R2) \<and>
    hs_split I2 = (c1, c2) \<and> hs_split R2 = (c2, c1)"
proof -
  have dh: "x25519 b (x25519_base a) = Inr (x25519_scalarmult a (x25519_base b))"
    "x25519 a (x25519_base b) = Inr (x25519_scalarmult a (x25519_base b))"
    using comm nz by (simp_all add: x25519_result)
  let ?dh = "x25519_scalarmult a (x25519_base b)"
  let ?s0 = "mix_hash prologue (sym_initialize protocol_name)"
  have 0: "hs_role I0 = Initiator" "\<not> hs_have_ephemeral I0" "hs_psk I0 = psk" "hs_symmetric I0 = ?s0"
    "hs_role R0 = Responder" "\<not> hs_have_ephemeral R0" "hs_psk R0 = psk" "hs_symmetric R0 = ?s0"
    by (simp_all add: I0_def R0_def hs_initialize_def)
  obtain c1 s1 where 1: "encrypt_and_hash p1 (sym_msg1 psk (x25519_base a) ?s0) = (c1, s1)" by fastforce
  obtain c2 s2 where 2: "encrypt_and_hash p2 (sym_msg2 (x25519_base b) ?dh s1) = (c2, s2)" by fastforce
  note d1 = decrypt_encrypt_and_hash [OF 1] and d2 = decrypt_encrypt_and_hash [OF 2]
  define I1 where "I1 = I0\<lparr>hs_ephemeral_private := a, hs_ephemeral_public := x25519_base a, hs_have_ephemeral := True, hs_symmetric := s1\<rparr>"
  define R1 where "R1 = R0\<lparr>hs_remote_ephemeral := x25519_base a, hs_symmetric := s1\<rparr>"
  define R2 where "R2 = R1\<lparr>hs_ephemeral_private := b, hs_ephemeral_public := x25519_base b,
        hs_have_ephemeral := True, hs_symmetric := s2, hs_complete := True\<rparr>"
  define I2 where "I2 = I1\<lparr>hs_remote_ephemeral := x25519_base b, hs_symmetric := s2, hs_complete := True\<rparr>"
  have "write_message (Inr a) p1 I0 = (Inr (x25519_base a @ c1), I1)"
    unfolding I1_def by (rule write_message_initiator) (simp_all add: 0 1)
  moreover have "read_message (x25519_base a @ c1) R0 = (Some p1, R1)"
    unfolding R1_def by (rule read_message_responder) (simp_all add: 0 d1)
  moreover have "write_message (Inr b) p2 R1 = (Inr (x25519_base b @ c2), R2)"
    unfolding R2_def by (rule write_message_responder [where dh = ?dh]) (simp_all add: R1_def 0 dh 2)
  moreover have "read_message (x25519_base b @ c2) I1 = (Some p2, I2)"
    unfolding I2_def by (rule read_message_initiator [where dh = ?dh]) (simp_all add: I1_def 0 dh d2)
  moreover have "hs_complete I2" "hs_complete R2" "ss_h (hs_symmetric I2) = ss_h (hs_symmetric R2)"
    by (simp_all add: I2_def R2_def)
  moreover have "hs_split I2 = sym_split s2" "hs_split R2 = prod.swap (sym_split s2)"
    by (simp_all add: hs_split_def I2_def I1_def R2_def R1_def 0 split: prod.splits)
  ultimately show ?thesis by (cases "sym_split s2") fastforce
qed

text \<open>Acceptance is authentication: whatever \<open>read_message\<close> accepts is the honest encryption under the state reached.\<close>

lemma read_message_accepts:
  assumes "read_message m hs = (Some payload, hs')"
  shows "\<exists>ss ct ss'. cs_has_key (ss_cipher ss) \<and> m = hs_remote_ephemeral hs' @ ct \<and> length (hs_remote_ephemeral hs') = 32 \<and>
    encrypt_and_hash payload ss = (ct, ss') \<and> hs_symmetric hs' = ss' \<and>
    (case hs_role hs of
       Responder \<Rightarrow> ss = sym_msg1 (hs_psk hs) (hs_remote_ephemeral hs') (hs_symmetric hs)
     | Initiator \<Rightarrow> \<exists>dh. x25519 (hs_ephemeral_private hs) (hs_remote_ephemeral hs') = Inr dh \<and>
         ss = sym_msg2 (hs_remote_ephemeral hs') dh (hs_symmetric hs))"
proof (cases "hs_role hs")
  case Responder
  let ?ss = "sym_msg1 (hs_psk hs) (take 32 m) (hs_symmetric hs)"
  obtain ss' where d: "decrypt_and_hash (drop 32 m) ?ss = (Inr payload, ss')" and len: "32 \<le> length m"
    and hs': "hs' = hs\<lparr>hs_remote_ephemeral := take 32 m, hs_symmetric := ss'\<rparr>"
    using assms Responder
    by (auto simp: read_message_def key_len_def Let_def upd_sym_def sym_msg1_def split: if_splits prod.splits sum.splits)
  then show ?thesis
    using Responder decrypt_and_hash_Inr [OF _ d] by (intro exI [of _ ?ss] exI [of _ "drop 32 m"] exI [of _ ss']) simp
next
  case Initiator
  obtain dh ss' where d: "decrypt_and_hash (drop 32 m) (sym_msg2 (take 32 m) dh (hs_symmetric hs)) = (Inr payload, ss')"
    and len: "32 \<le> length m" and dh: "x25519 (hs_ephemeral_private hs) (take 32 m) = Inr dh"
    and hs': "hs' = hs\<lparr>hs_remote_ephemeral := take 32 m, hs_symmetric := ss', hs_complete := True\<rparr>"
    using assms Initiator
    by (auto simp: read_message_def key_len_def Let_def upd_sym_def sym_msg2_def split: if_splits prod.splits sum.splits)
  then show ?thesis
    using Initiator decrypt_and_hash_Inr [OF _ d]
    by (intro exI [of _ "sym_msg2 (take 32 m) dh (hs_symmetric hs)"] exI [of _ "drop 32 m"] exI [of _ ss']) simp
qed

section \<open>Properties\<close>

lemma write_message_degenerate:
  assumes "hs_role hs = Responder" "\<not> hs_have_ephemeral hs" "x25519 b (hs_remote_ephemeral hs) = Inl e"
  shows "fst (write_message (Inr b) payload hs) = Inl e"
  using assms
  by (simp add: write_message_def ensure_ephemeral_def generate_keypair_def upd_sym_def Let_def)

text \<open>
  The two ephemeral keys agree on a shared secret: the defining property of the Diffie-Hellman
  function, which the key exchange rests on.
\<close>

definition dh_commutes :: "bytes \<Rightarrow> bytes \<Rightarrow> bool" where
  "dh_commutes a b \<longleftrightarrow> x25519_scalarmult b (x25519_base a) = x25519_scalarmult a (x25519_base b)"

lemma first_message_read:
  fixes hi hr :: noise_handshake
  shows "\<exists>m1 I1 R1. write_message (Inr a) p1 (hs_initialize Initiator psk prologue hi) = (Inr m1, I1) \<and>
    read_message m1 (hs_initialize Responder psk prologue hr) = (Some p1, R1) \<and>
    hs_role R1 = Responder \<and> \<not> hs_have_ephemeral R1 \<and> hs_remote_ephemeral R1 = x25519_base a"
proof -
  let ?s0 = "mix_hash prologue (sym_initialize protocol_name)"
  obtain c1 s1 where 1: "encrypt_and_hash p1 (sym_msg1 psk (x25519_base a) ?s0) = (c1, s1)" by fastforce
  note d1 = decrypt_encrypt_and_hash [OF 1]
  have "\<exists>I1. write_message (Inr a) p1 (hs_initialize Initiator psk prologue hi) = (Inr (x25519_base a @ c1), I1)"
    using write_message_initiator [of "hs_initialize Initiator psk prologue hi" p1 a c1 s1] 1
    by (simp add: hs_initialize_def)
  moreover have "read_message (x25519_base a @ c1) (hs_initialize Responder psk prologue hr) =
      (Some p1, (hs_initialize Responder psk prologue hr)\<lparr>hs_remote_ephemeral := x25519_base a, hs_symmetric := s1\<rparr>)"
    using read_message_responder [of "hs_initialize Responder psk prologue hr" "x25519_base a" c1 p1 s1] d1
    by (simp add: hs_initialize_def)
  ultimately show ?thesis by (auto simp: hs_initialize_def)
qed



text \<open>
  C39: whatever message a party accepts was made by someone who knows the same key material: the message
  is an ephemeral key of 32 bytes followed by exactly the ciphertext that encrypting the returned payload
  yields under the keys derived from the pre-shared key (and, for the initiator, the Diffie-Hellman
  result) and the transcript so far.
\<close>

theorem read_message_authentic:
  assumes "read_message m hs = (Some payload, hs')"
  shows "\<exists>ss ct ss'. cs_has_key (ss_cipher ss) \<and> m = hs_remote_ephemeral hs' @ ct \<and> length (hs_remote_ephemeral hs') = 32 \<and>
    encrypt_and_hash payload ss = (ct, ss') \<and> hs_symmetric hs' = ss' \<and>
    (case hs_role hs of
       Responder \<Rightarrow> ss = sym_msg1 (hs_psk hs) (hs_remote_ephemeral hs') (hs_symmetric hs)
     | Initiator \<Rightarrow> \<exists>dh. x25519 (hs_ephemeral_private hs) (hs_remote_ephemeral hs') = Inr dh \<and>
         ss = sym_msg2 (hs_remote_ephemeral hs') dh (hs_symmetric hs))"
  by (rule read_message_accepts [OF assms])

theorem read_message_authentic_witness:
  "\<exists>m R1 ss ct ss'. read_message m (hs_initialize Responder (replicate 32 1) [] undefined) = (Some [0xAA], R1) \<and>
     m = hs_remote_ephemeral R1 @ ct \<and> encrypt_and_hash [0xAA] ss = (ct, ss')"
proof -
  obtain m I1 R1 where "read_message m (hs_initialize Responder (replicate 32 1) [] undefined) = (Some [0xAA], R1)"
    using first_message_read [of "replicate 32 7" "[0xAA]" "replicate 32 1" "[]" undefined undefined] by blast
  from this read_message_authentic [OF this] show ?thesis by blast
qed

end
