(* ===== verification/Noise_Frame.thy ===== *)
theory Noise_Frame
  imports Frame_Api Noise_Protocol
begin

text \<open>
  \<^verbatim>\<open>NoiseFrameHelper\<close> (\<^verbatim>\<open>frame/noise_frame_helper.cpp\<close>): frames \<^verbatim>\<open>[0x01][u16 length][ciphertext]\<close> around the
  Noise handshake and, once it is done, around encrypted messages
  \<^verbatim>\<open>[u16 type][u16 length][payload]\<close>.  The helper's callbacks \<open>on_ready_\<close> and \<open>on_error_\<close> are returned
  as a list of events: the rest of the call that fires one only reads the receive buffer, which the
  callbacks do not touch.
\<close>

section \<open>The code\<close>

datatype noise_state = ExpectServerHello | ExpectHandshake | Ready | NFailed

datatype handshake_event = HReady | HError string

record noise_frame =
  nf_psk :: bytes
  nf_expected_name :: string
  nf_server_name :: string
  nf_handshake :: noise_handshake
  nf_encrypt :: cipher_state
  nf_decrypt :: cipher_state
  nf_state :: noise_state
  nf_buffer :: bytes
  nf_consumed :: nat
  nf_plaintext :: bytes

definition noise_prologue :: bytes where
  "noise_prologue = bytes_of_string ''NoiseAPIInit'' @ [0x00, 0x00]"

definition append_u16 :: "bytes \<Rightarrow> nat \<Rightarrow> bytes" where
  "append_u16 out value = out @ [of_nat (value div 2 ^ 8 mod 256), of_nat (value mod 256)]"

definition noise_indicator :: byte where
  "noise_indicator = 0x01"

definition handshake_blank :: noise_handshake where
  "handshake_blank = \<lparr>hs_role = Initiator, hs_psk = replicate 32 0,
     hs_symmetric = \<lparr>ss_ck = replicate 32 0, ss_h = replicate 32 0, ss_cipher = cipher_blank\<rparr>,
     hs_ephemeral_private = replicate 32 0, hs_ephemeral_public = replicate 32 0,
     hs_remote_ephemeral = replicate 32 0, hs_have_ephemeral = False, hs_complete = False\<rparr>"

definition noise_init :: "string \<Rightarrow> string \<Rightarrow> api_error + noise_frame" where
  "noise_init psk_base64 expected_name =
     (case base64_decode psk_base64 of
        None \<Rightarrow> Inl (ApiError ''invalid Noise PSK: expected base64 of a 32-byte key'')
      | Some decoded \<Rightarrow>
          if length decoded \<noteq> key_len
          then Inl (ApiError ''invalid Noise PSK: expected base64 of a 32-byte key'')
          else Inr \<lparr>nf_psk = decoded, nf_expected_name = expected_name, nf_server_name = [],
                 nf_handshake = hs_initialize Initiator decoded noise_prologue handshake_blank,
                 nf_encrypt = cipher_blank, nf_decrypt = cipher_blank, nf_state = ExpectServerHello,
                 nf_buffer = [], nf_consumed = 0, nf_plaintext = []\<rparr>)"

definition noise_connect_bytes :: "(api_error + bytes) \<Rightarrow> noise_frame \<Rightarrow> (api_error + bytes) \<times> noise_frame" where
  "noise_connect_bytes rnd st =
     (case write_message rnd [] (nf_handshake st) of
        (Inl e, hs) \<Rightarrow> (Inl e, st\<lparr>nf_handshake := hs\<rparr>)
      | (Inr handshake_msg, hs) \<Rightarrow>
          let out = [noise_indicator, 0x00, 0x00] @ [noise_indicator];
              out = append_u16 out (length handshake_msg + 1)
          in (Inr (out @ [0x00] @ handshake_msg), st\<lparr>nf_handshake := hs\<rparr>))"

definition noise_encode :: "u32 \<Rightarrow> bytes \<Rightarrow> bytes \<Rightarrow> noise_frame \<Rightarrow> bytes \<times> noise_frame" where
  "noise_encode msg_type payload out st =
     (let inner = append_u16 [] (unat msg_type);
          inner = append_u16 inner (length payload) @ payload;
          (ct, cs) = encrypt_with_ad [] inner (nf_encrypt st)
      in (append_u16 (out @ [noise_indicator]) (length ct) @ ct, st\<lparr>nf_encrypt := cs\<rparr>))"

definition noise_feed :: "bytes \<Rightarrow> noise_frame \<Rightarrow> noise_frame" where
  "noise_feed data st = st\<lparr>nf_buffer := nf_buffer st @ data\<rparr>"

definition noise_compact :: "noise_frame \<Rightarrow> noise_frame" where
  "noise_compact st =
     (if nf_consumed st = 0 then st
      else if nf_consumed st \<ge> length (nf_buffer st) then st\<lparr>nf_buffer := [], nf_consumed := 0\<rparr>
      else st\<lparr>nf_buffer := drop (nf_consumed st) (nf_buffer st), nf_consumed := 0\<rparr>)"

text \<open>\<^verbatim>\<open>next_raw\<close>: \<^term>\<open>Inr None\<close> is \<open>NeedMore\<close>.\<close>

definition next_raw :: "noise_frame \<Rightarrow> (api_error + bytes option) \<times> noise_frame" where
  "next_raw st0 =
     (let st = noise_compact st0; p = nf_buffer st; n = length p
      in if n < 3 then (Inr None, st)
         else if p ! 0 \<noteq> noise_indicator then
           (if p ! 0 = 0x00
            then (Inl (EncryptionMismatchError ''device is not using encryption; retry without --key / -k''), st)
            else (Inl (ProtocolError ''noise frame: bad indicator byte (expected 0x01)''), st))
         else
           let len = unat (p ! 1) * 2 ^ 8 + unat (p ! 2)
           in if len > max_frame_payload then (Inl (ProtocolError ''noise frame: length exceeds maximum''), st)
              else if n - 3 < len then (Inr None, st)
              else (Inr (Some (take len (drop 3 p))), st\<lparr>nf_consumed := 3 + len\<rparr>))"

definition report_error :: "string \<Rightarrow> noise_frame \<Rightarrow> handshake_event list \<times> noise_frame" where
  "report_error what st = ([HError what], st\<lparr>nf_state := NFailed\<rparr>)"

definition handle_server_hello :: "bytes \<Rightarrow> noise_frame \<Rightarrow> handshake_event list \<times> noise_frame" where
  "handle_server_hello payload st =
     (if payload = [] then report_error ''empty server hello'' st
      else if hd payload \<noteq> 0x01 then report_error ''device selected an unsupported encryption protocol'' st
      else
        let name = string_of_bytes (takeWhile (\<lambda>b. b \<noteq> 0x00) (tl payload));
            st = st\<lparr>nf_server_name := name\<rparr>
        in if nf_expected_name st \<noteq> [] \<and> nf_server_name st \<noteq> nf_expected_name st
           then report_error (''connected to '' @ [CHR 0x27] @ nf_server_name st @ [CHR 0x27] @ '' but expected '' @
                  [CHR 0x27] @ nf_expected_name st @ [CHR 0x27]) st
           else ([], st\<lparr>nf_state := ExpectHandshake\<rparr>))"

definition handle_server_handshake :: "bytes \<Rightarrow> noise_frame \<Rightarrow> handshake_event list \<times> noise_frame" where
  "handle_server_handshake payload st =
     (if payload = [] then report_error ''empty handshake message'' st
      else if hd payload \<noteq> 0x00
      then report_error (''handshake rejected by device: '' @ string_of_bytes (tl payload)) st
      else
        case read_message (tl payload) (nf_handshake st) of
          (None, hs) \<Rightarrow> report_error ''Noise handshake failed (wrong PSK?)'' (st\<lparr>nf_handshake := hs\<rparr>)
        | (Some _, hs) \<Rightarrow>
            (case hs_split hs of
               (send, recv) \<Rightarrow>
                 ([HReady], st\<lparr>nf_handshake := hs, nf_encrypt := send, nf_decrypt := recv, nf_state := Ready\<rparr>)))"

text \<open>The \<open>Ready\<close> branch of \<^verbatim>\<open>next\<close>.\<close>

definition noise_open :: "bytes \<Rightarrow> noise_frame \<Rightarrow> frame_result \<times> noise_frame" where
  "noise_open raw st =
     (case decrypt_with_ad [] raw (nf_decrypt st) of
        (Inl (EncryptionError e), cs) \<Rightarrow>
          (Inl (ProtocolError (''noise frame decrypt failed: '' @ e)), st\<lparr>nf_decrypt := cs\<rparr>)
      | (Inl e, cs) \<Rightarrow> (Inl e, st\<lparr>nf_decrypt := cs\<rparr>)
      | (Inr pt, cs) \<Rightarrow>
          let st = st\<lparr>nf_decrypt := cs\<rparr>
          in if length pt < 4 then (Inl (ProtocolError ''noise frame: inner header too short''), st)
             else
               let type = push_bit 8 (ucast (pt ! 0)) OR ucast (pt ! 1);
                   msg_len = unat (pt ! 2) * 2 ^ 8 + unat (pt ! 3)
               in if length pt < 4 + msg_len
                  then (Inl (ProtocolError ''noise frame: inner length exceeds plaintext''), st)
                  else (Inr (FOk type (take msg_len (drop 4 pt))), st\<lparr>nf_plaintext := pt\<rparr>))"

fun noise_rank :: "noise_state \<Rightarrow> nat" where
  "noise_rank ExpectServerHello = 2"
| "noise_rank ExpectHandshake = 1"
| "noise_rank Ready = 0"
| "noise_rank NFailed = 0"

lemma next_raw_state: "next_raw st = (r, st') \<Longrightarrow> nf_state st' = nf_state st"
  by (auto simp: next_raw_def noise_compact_def Let_def split: if_splits)

lemma handle_server_hello_rank: "handle_server_hello p st = (evs, st') \<Longrightarrow> noise_rank (nf_state st') < 2"
  by (auto simp: handle_server_hello_def report_error_def Let_def split: if_splits)

lemma handle_server_handshake_rank: "handle_server_handshake p st = (evs, st') \<Longrightarrow> noise_rank (nf_state st') = 0"
  by (auto simp: handle_server_handshake_def report_error_def split: if_splits prod.splits option.splits)

text \<open>\<^verbatim>\<open>next\<close>: the \<open>for (;;)\<close> loop ends because every handshake frame moves the state forward.\<close>

function noise_next :: "noise_frame \<Rightarrow> frame_result \<times> handshake_event list \<times> noise_frame" where
  "noise_next st0 =
     (case next_raw st0 of
        (Inl e, st) \<Rightarrow> (Inl e, [], st)
      | (Inr None, st) \<Rightarrow> (Inr FNeedMore, [], st)
      | (Inr (Some raw), st) \<Rightarrow>
          (case nf_state st of
             ExpectServerHello \<Rightarrow>
               (case handle_server_hello raw st of
                  (evs, st1) \<Rightarrow> (case noise_next st1 of (r, evs', st2) \<Rightarrow> (r, evs @ evs', st2)))
           | ExpectHandshake \<Rightarrow>
               (case handle_server_handshake raw st of
                  (evs, st1) \<Rightarrow> (case noise_next st1 of (r, evs', st2) \<Rightarrow> (r, evs @ evs', st2)))
           | NFailed \<Rightarrow> (Inr FNeedMore, [], st)
           | Ready \<Rightarrow> (case noise_open raw st of (r, st1) \<Rightarrow> (r, [], st1))))"
  by pat_completeness auto
termination
proof (relation "measure (\<lambda>st. noise_rank (nf_state st))", goal_cases)
  case (2 st0 r st r' raw evs st1)
  then have "next_raw st0 = (Inr (Some raw), st)" "handle_server_hello raw st = (evs, st1)" by simp_all
  from next_raw_state [OF this(1)] handle_server_hello_rank [OF this(2)] 2(4) show ?case by simp
next
  case (3 st0 r st r' raw evs st1)
  then have "next_raw st0 = (Inr (Some raw), st)" "handle_server_handshake raw st = (evs, st1)" by simp_all
  from next_raw_state [OF this(1)] handle_server_handshake_rank [OF this(2)] 3(4) show ?case by simp
qed simp

declare noise_next.simps [simp del]

section \<open>Bytes not yet processed\<close>

definition noise_pending :: "noise_frame \<Rightarrow> bytes" where
  "noise_pending st = drop (nf_consumed st) (nf_buffer st)"

definition noise_inv :: "noise_frame \<Rightarrow> bool" where
  "noise_inv st \<longleftrightarrow> nf_consumed st \<le> length (nf_buffer st)"

lemma noise_compact_simps [simp]:
  "nf_buffer (noise_compact st) = noise_pending st" "nf_consumed (noise_compact st) = 0"
  "nf_state (noise_compact st) = nf_state st" "nf_decrypt (noise_compact st) = nf_decrypt st"
  "nf_encrypt (noise_compact st) = nf_encrypt st" "nf_handshake (noise_compact st) = nf_handshake st"
  "nf_expected_name (noise_compact st) = nf_expected_name st"
  by (simp_all add: noise_compact_def noise_pending_def)

lemma noise_pending_feed: "noise_inv st \<Longrightarrow> noise_pending (noise_feed x st) = noise_pending st @ x"
  by (simp add: noise_pending_def noise_feed_def noise_inv_def)

lemma noise_inv_feed: "noise_inv st \<Longrightarrow> noise_inv (noise_feed x st)"
  by (simp add: noise_inv_def noise_feed_def)

definition noise_wrap :: "bytes \<Rightarrow> bytes" where
  "noise_wrap payload = append_u16 [noise_indicator] (length payload) @ payload"

lemma noise_wrap_drop: "drop (3 + length ct) (noise_wrap ct @ rest) = rest"
  by (simp add: noise_wrap_def append_u16_def numeral_3_eq_3)

lemma length_noise_wrap: "length (noise_wrap ct) = 3 + length ct"
  by (simp add: noise_wrap_def append_u16_def)

lemma u16_bytes:
  assumes "n < 65536"
  shows "unat (of_nat (n div 256 mod 256) :: byte) * 256 + unat (of_nat (n mod 256) :: byte) = n"
proof -
  have "n < 256 * 256" using assms by simp
  then have "n div 256 < 256" by (simp only: less_mult_imp_div_less)
  then show ?thesis by (simp add: unat_of_nat_byte_small del: of_nat_mod)
qed

lemma next_raw_frame:
  assumes "noise_pending st = noise_wrap payload @ rest" "length payload < 65536"
  shows "next_raw st = (Inr (Some payload), (noise_compact st)\<lparr>nf_consumed := 3 + length payload\<rparr>)"
proof -
  define a where "a = (of_nat (length payload div 256 mod 256) :: byte)"
  define b where "b = (of_nat (length payload mod 256) :: byte)"
  have p: "noise_pending st = noise_indicator # a # b # payload @ rest"
    using assms(1) by (simp add: noise_wrap_def append_u16_def a_def b_def)
  have len: "unat a * 256 + unat b = length payload"
    unfolding a_def b_def by (rule u16_bytes [OF assms(2)])
  then have "unat a * 256 + unat b \<le> max_frame_payload" using assms(2) by (simp add: max_frame_payload_def)
  then show ?thesis using len by (simp add: next_raw_def Let_def p)
qed

lemma next_raw_partial:
  assumes "strict_prefix (noise_pending st) (noise_wrap payload)" "length payload < 65536"
  shows "next_raw st = (Inr None, noise_compact st)"
proof -
  define a where "a = (of_nat (length payload div 256 mod 256) :: byte)"
  define b where "b = (of_nat (length payload mod 256) :: byte)"
  have pre: "strict_prefix (noise_pending st) ([noise_indicator, a, b] @ payload)"
    using assms(1) by (simp add: noise_wrap_def append_u16_def a_def b_def)
  have len: "unat a * 256 + unat b = length payload"
    unfolding a_def b_def by (rule u16_bytes [OF assms(2)])
  have max: "length payload \<le> max_frame_payload" using assms(2) by (simp add: max_frame_payload_def)
  show ?thesis
    using pre
  proof (cases rule: strict_prefix_append_cases)
    case left
    then have "length (noise_pending st) < 3" using prefix_length_less [of "noise_pending st"] by fastforce
    then show ?thesis by (simp add: next_raw_def Let_def)
  next
    case (right c)
    then have "length c < length payload" by (auto dest: prefix_length_less)
    then show ?thesis using right len max by (simp add: next_raw_def Let_def)
  qed
qed

section \<open>The transport phase is a frame channel\<close>

text \<open>What the 16-bit length and type fields can carry: the payload, 4 header bytes and the 16-byte tag.\<close>

definition noise_ok :: "u32 \<times> bytes \<Rightarrow> bool" where
  "noise_ok m \<longleftrightarrow> unat (fst m) < 65536 \<and> length (snd m) \<le> 65515"

definition noise_inner :: "u32 \<times> bytes \<Rightarrow> bytes" where
  "noise_inner m = append_u16 (append_u16 [] (unat (fst m))) (length (snd m)) @ snd m"

definition noise_enc :: "noise_frame \<Rightarrow> u32 \<times> bytes \<Rightarrow> bytes \<times> noise_frame" where
  "noise_enc st m = noise_encode (fst m) (snd m) [] st"

definition noise_nxt :: "noise_frame \<Rightarrow> frame_result \<times> noise_frame" where
  "noise_nxt st = (case noise_next st of (r, evs, st') \<Rightarrow> (r, st'))"

definition noise_holds :: "noise_frame \<Rightarrow> noise_frame \<Rightarrow> bytes \<Rightarrow> bool" where
  "noise_holds s d b \<longleftrightarrow> nf_encrypt s = nf_decrypt d \<and> cs_has_key (nf_decrypt d) \<and> nf_state d = Ready \<and>
     noise_inv d \<and> noise_pending d = b"

lemma noise_enc_eq:
  assumes "cs_has_key (nf_encrypt st)"
  shows "noise_enc st m = (noise_wrap (aead_encrypt (cs_key (nf_encrypt st)) (cs_nonce (nf_encrypt st)) [] (noise_inner m)),
    st\<lparr>nf_encrypt := (nf_encrypt st)\<lparr>cs_nonce := cs_nonce (nf_encrypt st) + 1\<rparr>\<rparr>)"
  using assms by (simp add: noise_enc_def noise_encode_def noise_inner_def noise_wrap_def encrypt_with_ad_def Let_def)

lemma length_noise_inner [simp]: "length (noise_inner m) = length (snd m) + 4"
  by (simp add: noise_inner_def append_u16_def)

lemma u16_type:
  fixes t :: u32
  assumes "unat t < 65536"
  shows "push_bit 8 (ucast (of_nat (unat t div 256 mod 256) :: byte)) OR ucast (of_nat (unat t mod 256) :: byte) = t"
proof -
  define a b where "a = (of_nat (unat t div 256 mod 256) :: byte)" and "b = (of_nat (unat t mod 256) :: byte)"
  have u: "unat (ucast x :: u32) = unat x" for x :: byte by (rule unat_byte_u32)
  have "unat (ucast b OR push_bit 8 (ucast a) :: u32) = unat a * 256 + unat b"
    using unat_byte_le [of a] unat_byte_le [of b] by (subst unat_or_push_bit) (simp_all add: u)
  also have "\<dots> = unat t" unfolding a_def b_def by (rule u16_bytes [OF assms])
  finally show ?thesis by (simp add: word_unat_eq_iff or.commute a_def b_def)
qed

lemma noise_open_inner:
  assumes "cs_has_key (nf_decrypt st)" "noise_ok m"
  shows "noise_open (aead_encrypt (cs_key (nf_decrypt st)) (cs_nonce (nf_decrypt st)) [] (noise_inner m)) st =
    (Inr (FOk (fst m) (snd m)),
     st\<lparr>nf_decrypt := (nf_decrypt st)\<lparr>cs_nonce := cs_nonce (nf_decrypt st) + 1\<rparr>, nf_plaintext := noise_inner m\<rparr>)"
proof -
  let ?t = "fst m" and ?p = "snd m"
  define a b c d where e: "a = (of_nat (unat ?t div 256 mod 256) :: byte)" "b = (of_nat (unat ?t mod 256) :: byte)"
    "c = (of_nat (length ?p div 256 mod 256) :: byte)" "d = (of_nat (length ?p mod 256) :: byte)"
  have inner: "noise_inner m = a # b # c # d # ?p"
    by (simp add: noise_inner_def append_u16_def e)
  have "push_bit 8 (ucast a) OR ucast b = ?t"
    using assms(2) unfolding e by (intro u16_type) (simp add: noise_ok_def)
  moreover have "unat c * 256 + unat d = length ?p"
    using assms(2) unfolding e by (intro u16_bytes) (simp add: noise_ok_def)
  ultimately show ?thesis
    using assms(1) by (simp add: noise_open_def decrypt_with_ad_def Let_def inner)
qed

interpretation noise: frame_channel noise_enc noise_feed noise_nxt noise_holds noise_ok
proof (unfold_locales, goal_cases)
  case (1 s d b x)
  then show ?case by (simp add: noise_holds_def noise_pending_feed noise_inv_feed) (simp add: noise_feed_def)
next
  case (2 s d w rest m s')
  let ?cs = "nf_decrypt d"
  let ?ct = "aead_encrypt (cs_key ?cs) (cs_nonce ?cs) [] (noise_inner m)"
  from 2(1) have h: "nf_encrypt s = ?cs" "cs_has_key ?cs" "nf_state d = Ready" by (simp_all add: noise_holds_def)
  have w: "w = noise_wrap ?ct" and s': "nf_encrypt s' = ?cs\<lparr>cs_nonce := cs_nonce ?cs + 1\<rparr>"
    using 2(2) h by (auto simp: noise_enc_eq)
  have pend: "noise_pending d = noise_wrap ?ct @ rest" using 2(1) w by (simp add: noise_holds_def)
  have len: "length ?ct < 65536" using 2(3) by (simp add: noise_ok_def)
  let ?d = "(noise_compact d)\<lparr>nf_consumed := 3 + length ?ct\<rparr>"
  have "noise_nxt d = noise_open ?ct ?d"
    using next_raw_frame [OF pend len] h(3) by (simp add: noise_nxt_def noise_next.simps split: prod.splits)
  also have "\<dots> = (Inr (FOk (fst m) (snd m)),
     ?d\<lparr>nf_decrypt := ?cs\<lparr>cs_nonce := cs_nonce ?cs + 1\<rparr>, nf_plaintext := noise_inner m\<rparr>)"
    using noise_open_inner [of ?d m] h(2) 2(3) by simp
  finally have "noise_nxt d = (Inr (FOk (fst m) (snd m)),
     ?d\<lparr>nf_decrypt := ?cs\<lparr>cs_nonce := cs_nonce ?cs + 1\<rparr>, nf_plaintext := noise_inner m\<rparr>)" .
  moreover have "noise_holds s' (?d\<lparr>nf_decrypt := ?cs\<lparr>cs_nonce := cs_nonce ?cs + 1\<rparr>, nf_plaintext := noise_inner m\<rparr>) rest"
    using h s' pend noise_wrap_drop [of ?ct rest] length_noise_wrap [of ?ct]
    by (simp add: noise_holds_def noise_inv_def noise_pending_def [of "noise_frame.nf_plaintext_update _ _"]
        del: length_aead_encrypt)
  ultimately show ?case by blast
next
  case (3 s d b m w s')
  from 3(1) have h: "nf_encrypt s = nf_decrypt d" "cs_has_key (nf_decrypt d)" "nf_state d = Ready" "noise_pending d = b"
    by (simp_all add: noise_holds_def)
  have "length (aead_encrypt (cs_key (nf_decrypt d)) (cs_nonce (nf_decrypt d)) [] (noise_inner m)) < 65536"
    using 3(3) by (simp add: noise_ok_def)
  then have "next_raw d = (Inr None, noise_compact d)"
    using next_raw_partial 3(2,4) h by (auto simp: noise_enc_eq)
  then show ?case
    using h by (simp add: noise_nxt_def noise_next.simps noise_holds_def noise_inv_def noise_pending_def [of "noise_compact d"])
next
  case (4 s d)
  then show ?case
    by (simp add: noise_nxt_def noise_next.simps next_raw_def noise_holds_def noise_inv_def noise_pending_def [of "noise_compact d"] Let_def)
qed

lemma noise_enc_nonempty: "fst (noise_enc s m) \<noteq> []"
  by (simp add: noise_enc_def noise_encode_def append_u16_def Let_def split: prod.splits)

section \<open>The handshake phase\<close>

lemma noise_init_cases:
  "noise_init psk_base64 expected = Inr st \<longleftrightarrow>
     (\<exists>psk. length psk = 32 \<and> psk_base64 = base64_encode psk \<and>
       st = \<lparr>nf_psk = psk, nf_expected_name = expected, nf_server_name = [],
             nf_handshake = hs_initialize Initiator psk noise_prologue handshake_blank,
             nf_encrypt = cipher_blank, nf_decrypt = cipher_blank, nf_state = ExpectServerHello,
             nf_buffer = [], nf_consumed = 0, nf_plaintext = []\<rparr>)"
  by (auto simp: noise_init_def key_len_def base64_decode_iff [symmetric] split: option.splits)

text \<open>A frame at the front of the buffer, whatever follows it.\<close>

lemma noise_next_hello:
  assumes "nf_state st = ExpectServerHello" "noise_pending st = noise_wrap payload @ rest" "length payload < 65536"
    and "handle_server_hello payload ((noise_compact st)\<lparr>nf_consumed := 3 + length payload\<rparr>) = (evs, st1)"
  shows "noise_next st = (case noise_next st1 of (r, evs', st2) \<Rightarrow> (r, evs @ evs', st2))"
  using assms next_raw_frame [OF assms(2,3)] by (simp add: noise_next.simps [of st])

lemma noise_next_handshake:
  assumes "nf_state st = ExpectHandshake" "noise_pending st = noise_wrap payload @ rest" "length payload < 65536"
    and "handle_server_handshake payload ((noise_compact st)\<lparr>nf_consumed := 3 + length payload\<rparr>) = (evs, st1)"
  shows "noise_next st = (case noise_next st1 of (r, evs', st2) \<Rightarrow> (r, evs @ evs', st2))"
  using assms next_raw_frame [OF assms(2,3)] by (simp add: noise_next.simps [of st])

lemma noise_next_empty: "noise_pending st = [] \<Longrightarrow> noise_next st = (Inr FNeedMore, [], noise_compact st)"
  by (simp add: noise_next.simps next_raw_def Let_def)

text \<open>
  The client side of a successful connection: after the device's hello and handshake frames, in one
  chunk, the helper reports readiness once and holds exactly the cipher states the handshake gives.
\<close>

lemma noise_handshake_completes:
  assumes st: "nf_state st = ExpectServerHello" "noise_inv st" "noise_pending st = []"
    and name: "nf_expected_name st = [] \<or> nf_expected_name st = string_of_bytes name" "0 \<notin> set name" "length name < 60000"
    and msg: "read_message m2 (nf_handshake st) = (Some p2, hs')" "length m2 < 60000"
    and split: "hs_split hs' = (c1, c2)"
  defines "chunk \<equiv> noise_wrap (0x01 # name @ [0x00]) @ noise_wrap (0x00 # m2)"
  shows "\<exists>st'. noise_next (noise_feed chunk st) = (Inr FNeedMore, [HReady], st') \<and>
    nf_state st' = Ready \<and> nf_encrypt st' = c1 \<and> nf_decrypt st' = c2 \<and> noise_inv st' \<and> noise_pending st' = []"
proof -
  let ?hello = "0x01 # name @ [0x00]" and ?msg = "0x00 # m2"
  define s0 where "s0 = noise_feed chunk st"
  have p0: "noise_pending s0 = noise_wrap ?hello @ noise_wrap ?msg"
    using st by (simp add: s0_def noise_pending_feed chunk_def)
  have f0: "nf_state s0 = ExpectServerHello" "nf_handshake s0 = nf_handshake st" "nf_expected_name s0 = nf_expected_name st"
    using st by (simp_all add: s0_def noise_feed_def)
  define s1 where "s1 = (noise_compact s0)\<lparr>nf_consumed := 3 + length ?hello, nf_server_name := string_of_bytes name, nf_state := ExpectHandshake\<rparr>"
  have tw: "takeWhile (\<lambda>b. b \<noteq> 0x00) (name @ [0x00]) = name"
    using name(2) by (induction name) auto
  have "handle_server_hello ?hello ((noise_compact s0)\<lparr>nf_consumed := 3 + length ?hello\<rparr>) = ([], s1)"
    using name(1) by (auto simp: handle_server_hello_def Let_def tw s1_def f0)
  from noise_next_hello [OF f0(1) p0 _ this] name(3)
  have n0: "noise_next s0 = noise_next s1" by (simp split: prod.splits)
  have p1: "noise_pending s1 = noise_wrap ?msg @ []"
    unfolding noise_pending_def [of s1] unfolding s1_def
    using noise_wrap_drop [of ?hello "noise_wrap ?msg"] by (simp add: p0)
  have f1: "nf_state s1 = ExpectHandshake" "nf_handshake s1 = nf_handshake st"
    by (simp_all add: s1_def f0)
  define s2 where "s2 = (noise_compact s1)\<lparr>nf_consumed := 3 + length ?msg, nf_handshake := hs', nf_encrypt := c1, nf_decrypt := c2, nf_state := Ready\<rparr>"
  have "handle_server_handshake ?msg ((noise_compact s1)\<lparr>nf_consumed := 3 + length ?msg\<rparr>) = ([HReady], s2)"
    using msg(1) split by (simp add: handle_server_handshake_def f1 s2_def)
  from noise_next_handshake [OF f1(1) p1 _ this] msg(2)
  have n1: "noise_next s1 = (case noise_next s2 of (r, evs', st2) \<Rightarrow> (r, [HReady] @ evs', st2))" by simp
  have p2: "noise_pending s2 = []"
    unfolding noise_pending_def [of s2] unfolding s2_def
    using noise_wrap_drop [of ?msg "[]"] by (simp add: p1)
  have "noise_next s0 = (Inr FNeedMore, [HReady], noise_compact s2)"
    unfolding n0 n1 noise_next_empty [OF p2] by simp
  then show ?thesis
    by (simp add: s0_def noise_inv_def noise_pending_def [of "noise_compact s2"] p2) (simp add: s2_def)
qed

text \<open>A handshake failure is reported and final: the helper never becomes ready afterwards.\<close>

lemma noise_next_failed_absorbing:
  assumes "nf_state st = NFailed"
  shows "case noise_next st of (r, evs, st') \<Rightarrow> evs = [] \<and> nf_state st' = NFailed \<and> (\<forall>t p. r \<noteq> Inr (FOk t p))"
  using assms next_raw_state [of st]
  by (subst noise_next.simps) (auto split: prod.splits sum.splits option.splits)

text \<open>The length field holds the ciphertext length modulo \<open>2^16\<close>: larger payloads are sent with a wrong length.\<close>

lemma noise_encode_truncates:
  assumes "cs_has_key (nf_encrypt st)"
  shows "take 3 (fst (noise_enc st (t, p))) =
    noise_indicator # [of_nat ((length p + 20) div 256 mod 256), of_nat ((length p + 20) mod 256)]"
  using assms by (simp add: noise_enc_eq noise_wrap_def append_u16_def add.commute)

section \<open>Properties\<close>

text \<open>
  Once both ends hold matching keys, the encrypted codec delivers every message exactly once and in
  order, however the byte stream is cut into chunks, and ends in step with the sender.
\<close>

theorem noise_stream_delivery:
  assumes "noise_holds snd_st rcv_st []" "encode_all noise_enc snd_st ms = (concat cs, snd_st')"
    and "list_all noise_ok ms" "length ms < n"
  shows "\<exists>rcv_st'. receive noise_feed noise_nxt n cs rcv_st = (ms, None, rcv_st') \<and> noise_holds snd_st' rcv_st' []"
  by (rule noise.receive_all [OF assms]) (rule noise_enc_nonempty)

theorem noise_stream_delivery_witness:
  "let k = initialize_key (replicate 32 1) cipher_blank;
       st = \<lparr>nf_psk = [], nf_expected_name = [], nf_server_name = [], nf_handshake = handshake_blank,
             nf_encrypt = k, nf_decrypt = k, nf_state = Ready, nf_buffer = [], nf_consumed = 0, nf_plaintext = []\<rparr>
   in \<exists>st'. receive noise_feed noise_nxt 2 [fst (encode_all noise_enc st [(7, [0xAA])])] st = ([(7, [0xAA])], None, st')"
proof -
  define k where "k = initialize_key (replicate 32 1) cipher_blank"
  define st where "st = \<lparr>nf_psk = [], nf_expected_name = [], nf_server_name = [], nf_handshake = handshake_blank,
             nf_encrypt = k, nf_decrypt = k, nf_state = Ready, nf_buffer = [], nf_consumed = 0, nf_plaintext = []\<rparr>"
  have h: "noise_holds st st []"
    by (simp add: noise_holds_def st_def k_def initialize_key_def noise_inv_def noise_pending_def)
  have "encode_all noise_enc st [(7, [0xAA])] =
      (concat [fst (encode_all noise_enc st [(7, [0xAA])])], snd (encode_all noise_enc st [(7, [0xAA])]))"
    by simp
  from noise_stream_delivery [OF h this, of 2] show ?thesis
    by (auto simp: noise_ok_def Let_def st_def k_def)
qed

text \<open>The server's half of the frame exchange: its name and the second handshake message.\<close>

definition server_greeting :: "bytes \<Rightarrow> bytes \<Rightarrow> bytes" where
  "server_greeting name m2 = noise_wrap (0x01 # name @ [0x00]) @ noise_wrap (0x00 # m2)"

lemma length_encrypt_empty: "encrypt_and_hash [] ss = (ct, ss') \<Longrightarrow> length ct \<le> 16"
  using length_aead_encrypt [of "cs_key (ss_cipher ss)" "cs_nonce (ss_cipher ss)" "ss_h ss" "[]"]
  by (auto simp: encrypt_and_hash_def encrypt_with_ad_def aead_tag_len_def split: prod.splits if_splits)

lemma length_read_message:
  assumes "read_message m hs = (Some [], hs')"
  shows "length m \<le> 48"
  using read_message_accepts [OF assms] length_encrypt_empty by (fastforce)

lemma noise_connect_bytes_eq:
  "write_message (Inr a) [] (nf_handshake st) = (Inr m1, I1) \<Longrightarrow>
   noise_connect_bytes (Inr a) st = (Inr ([0x01, 0x00, 0x00] @ noise_wrap (0x00 # m1)), st\<lparr>nf_handshake := I1\<rparr>)"
  by (simp add: noise_connect_bytes_def noise_wrap_def append_u16_def noise_indicator_def Let_def)

lemma hs_split_has_key: "cs_has_key (fst (hs_split hs))" "cs_has_key (snd (hs_split hs))"
  by (auto simp: hs_split_def sym_split_def initialize_key_def split: prod.splits)

text \<open>The client made by a successful constructor, and the state in which the greeting leaves it.\<close>

lemma noise_init_eq:
  assumes "noise_init (base64_encode psk) expected = Inr st"
  shows "st = \<lparr>nf_psk = psk, nf_expected_name = expected, nf_server_name = [],
        nf_handshake = hs_initialize Initiator psk noise_prologue handshake_blank,
        nf_encrypt = cipher_blank, nf_decrypt = cipher_blank, nf_state = ExpectServerHello,
        nf_buffer = [], nf_consumed = 0, nf_plaintext = []\<rparr>"
  using assms by (auto simp: noise_init_def base64_decode_iff [THEN iffD2, OF refl] split: if_splits)

lemma noise_session_ready:
  assumes "dh_commutes a b" "x25519 b (x25519_base a) = Inr dh" "noise_init (base64_encode psk) expected = Inr st0"
    and "expected = [] \<or> expected = string_of_bytes name" "0 \<notin> set name" "length name < 60000"
  shows "\<exists>m1 m2 I1 R1 R2 st2.
    write_message (Inr a) [] (nf_handshake st0) = (Inr m1, I1) \<and>
    read_message m1 (hs_initialize Responder psk noise_prologue hr) = (Some [], R1) \<and>
    write_message (Inr b) [] R1 = (Inr m2, R2) \<and>
    noise_next (noise_feed (server_greeting name m2) (st0\<lparr>nf_handshake := I1\<rparr>)) = (Inr FNeedMore, [HReady], st2) \<and>
    nf_state st2 = Ready \<and> nf_decrypt st2 = fst (hs_split R2) \<and> nf_encrypt st2 = snd (hs_split R2) \<and>
    noise_inv st2 \<and> noise_pending st2 = []"
proof -
  note st0 = noise_init_eq [OF assms(3)]
  have nz: "x25519_scalarmult a (x25519_base b) \<noteq> replicate 32 0"
    using assms(1,2) by (auto simp: x25519_result dh_commutes_def split: if_splits)
  obtain m1 m2 I1 I2 R1 R2 c1 c2 where
    w1: "write_message (Inr a) [] (nf_handshake st0) = (Inr m1, I1)" and
    r1: "read_message m1 (hs_initialize Responder psk noise_prologue hr) = (Some [], R1)" and
    w2: "write_message (Inr b) [] R1 = (Inr m2, R2)" and r2: "read_message m2 I1 = (Some [], I2)" and
    sp: "hs_split I2 = (c1, c2)" "hs_split R2 = (c2, c1)"
    using handshake_agrees [OF assms(1) [unfolded dh_commutes_def] nz, of "[]" psk noise_prologue handshake_blank hr "[]"]
    by (auto simp: st0)
  let ?st1 = "st0\<lparr>nf_handshake := I1\<rparr>"
  have "\<exists>st2. noise_next (noise_feed (server_greeting name m2) ?st1) = (Inr FNeedMore, [HReady], st2) \<and>
      nf_state st2 = Ready \<and> nf_encrypt st2 = c1 \<and> nf_decrypt st2 = c2 \<and> noise_inv st2 \<and> noise_pending st2 = []"
    unfolding server_greeting_def
    using noise_handshake_completes [of ?st1 name m2 "[]" I2 c1 c2] assms(4-6) r2 sp(1) length_read_message [OF r2]
    by (simp add: st0 noise_inv_def noise_pending_def)
  moreover have "c2 = fst (hs_split R2)" "c1 = snd (hs_split R2)" by (simp_all add: sp)
  ultimately show ?thesis using w1 r1 w2 by blast
qed



text \<open>
  a failed handshake is final: afterwards \<^verbatim>\<open>next\<close> fires no callback, stays failed and never returns a
  message, whatever bytes arrive.
\<close>

theorem noise_failed_absorbing:
  assumes "nf_state st = NFailed"
  shows "case noise_next (noise_feed data st) of (r, evs, st') \<Rightarrow>
    evs = [] \<and> nf_state st' = NFailed \<and> (\<forall>t p. r \<noteq> Inr (FOk t p))"
  using noise_next_failed_absorbing [of "noise_feed data st"] assms by (simp add: noise_feed_def)

theorem noise_failed_absorbing_witness:
  "case noise_next (noise_feed [0x01, 0x00, 0x00]
      \<lparr>nf_psk = [], nf_expected_name = [], nf_server_name = [], nf_handshake = handshake_blank,
       nf_encrypt = cipher_blank, nf_decrypt = cipher_blank, nf_state = NFailed, nf_buffer = [], nf_consumed = 0,
       nf_plaintext = []\<rparr>) of (r, evs, st') \<Rightarrow> evs = [] \<and> nf_state st' = NFailed"
  using noise_failed_absorbing [of "\<lparr>nf_psk = [], nf_expected_name = [], nf_server_name = [], nf_handshake = handshake_blank,
       nf_encrypt = cipher_blank, nf_decrypt = cipher_blank, nf_state = NFailed, nf_buffer = [], nf_consumed = 0,
       nf_plaintext = []\<rparr>" "[0x01, 0x00, 0x00]"]
  by (auto split: prod.splits)

text \<open>
  The encoder does not check lengths: the frame header carries the ciphertext length modulo 2^16, so
  a payload of 65516 bytes or more goes out with a header that does not cover it.
\<close>

theorem noise_encode_wraps:
  assumes "cs_has_key (nf_encrypt st)" "65516 \<le> length p"
  shows "take 3 (fst (noise_encode t p [] st)) =
      [0x01, of_nat ((length p + 20) div 256 mod 256), of_nat ((length p + 20) mod 256)] \<and>
    (length p + 20) div 256 mod 256 * 256 + (length p + 20) mod 256 < length (fst (noise_encode t p [] st)) - 3"
proof -
  have e: "noise_encode t p [] st = noise_enc st (t, p)" by (simp add: noise_enc_def)
  have l: "length (fst (noise_encode t p [] st)) - 3 = length p + 20"
    unfolding e by (simp add: noise_enc_eq [OF assms(1)] length_noise_wrap length_aead_encrypt aead_tag_len_def)
  have "(length p + 20) div 256 mod 256 * 256 + (length p + 20) mod 256 = (length p + 20) mod 65536"
    using mod_mult2_eq [of "length p + 20" 256 256] by simp
  also have "\<dots> < 65536" by simp
  finally have "(length p + 20) div 256 mod 256 * 256 + (length p + 20) mod 256 < length p + 20"
    using assms(2) by simp
  then show ?thesis unfolding l using noise_encode_truncates [OF assms(1), of t p] e by (simp add: noise_indicator_def)
qed

theorem noise_encode_wraps_witness:
  "take 3 (fst (noise_encode 1 (replicate 65536 0) []
     \<lparr>nf_psk = [], nf_expected_name = [], nf_server_name = [], nf_handshake = handshake_blank,
      nf_encrypt = initialize_key (replicate 32 1) cipher_blank, nf_decrypt = cipher_blank, nf_state = Ready,
      nf_buffer = [], nf_consumed = 0, nf_plaintext = []\<rparr>)) = [0x01, 0x00, 0x14]"
  using noise_encode_wraps [of "\<lparr>nf_psk = [], nf_expected_name = [], nf_server_name = [], nf_handshake = handshake_blank,
      nf_encrypt = initialize_key (replicate 32 1) cipher_blank, nf_decrypt = cipher_blank, nf_state = Ready,
      nf_buffer = [], nf_consumed = 0, nf_plaintext = []\<rparr>" "replicate 65536 0" 1]
  by (simp add: initialize_key_def)

end
