(* ===== verification/Frame_Helper.thy ===== *)
theory Frame_Helper
  imports Plaintext_Frame Noise_Frame
begin

text \<open>
  The dynamic dispatch of \<^verbatim>\<open>FrameHelper\<close>'s virtual methods (\<^verbatim>\<open>frame/frame_helper.hpp\<close>) over its two
  implementations, as the connection uses it.
\<close>

datatype frame_helper = FHPlain plaintext | FHNoise noise_frame

fun fh_encode :: "u32 \<Rightarrow> bytes \<Rightarrow> bytes \<Rightarrow> frame_helper \<Rightarrow> bytes \<times> frame_helper" where
  "fh_encode t p out (FHPlain st) = (plain_encode t p out, FHPlain st)"
| "fh_encode t p out (FHNoise st) = (case noise_encode t p out st of (w, st') \<Rightarrow> (w, FHNoise st'))"

fun fh_feed :: "bytes \<Rightarrow> frame_helper \<Rightarrow> frame_helper" where
  "fh_feed data (FHPlain st) = FHPlain (plain_feed data st)"
| "fh_feed data (FHNoise st) = FHNoise (noise_feed data st)"

fun fh_next :: "frame_helper \<Rightarrow> frame_result \<times> handshake_event list \<times> frame_helper" where
  "fh_next (FHPlain st) = (case plain_next st of (r, st') \<Rightarrow> (r, [], FHPlain st'))"
| "fh_next (FHNoise st) = (case noise_next st of (r, evs, st') \<Rightarrow> (r, evs, FHNoise st'))"

fun needs_handshake :: "frame_helper \<Rightarrow> bool" where
  "needs_handshake (FHPlain _) = False"
| "needs_handshake (FHNoise _) = True"

fun connect_bytes :: "(api_error + bytes) \<Rightarrow> frame_helper \<Rightarrow> (api_error + bytes) \<times> frame_helper" where
  "connect_bytes rnd (FHPlain st) = (Inr [], FHPlain st)"
| "connect_bytes rnd (FHNoise st) = (case noise_connect_bytes rnd st of (r, st') \<Rightarrow> (r, FHNoise st'))"

section \<open>Progress: a returned frame has consumed bytes\<close>

fun fh_pending :: "frame_helper \<Rightarrow> bytes" where
  "fh_pending (FHPlain st) = plain_pending st"
| "fh_pending (FHNoise st) = noise_pending st"

lemma plain_next_progress:
  assumes "plain_next st = (Inr (FOk t p), st')"
  shows "length (plain_pending st') < length (plain_pending st)"
  using assms
  by (auto simp: plain_next_def Let_def plain_pending_def [of "_\<lparr>pf_consumed := _\<rparr>"] not_less Suc_le_eq
      split: if_splits varint_status.splits)

lemma next_raw_progress:
  "next_raw st = (Inr (Some raw), st') \<Longrightarrow> length (noise_pending st') < length (noise_pending st)"
  "next_raw st = (r, st') \<Longrightarrow> length (noise_pending st') \<le> length (noise_pending st)"
  by (auto simp: next_raw_def Let_def noise_pending_def [of "_\<lparr>nf_consumed := _\<rparr>"] noise_pending_def [of "noise_compact _"]
      split: if_splits)

lemma handlers_pending:
  "handle_server_hello raw st = (evs, st') \<Longrightarrow> noise_pending st' = noise_pending st"
  "handle_server_handshake raw st = (evs, st') \<Longrightarrow> noise_pending st' = noise_pending st"
  "noise_open raw st = (r, st') \<Longrightarrow> noise_pending st' = noise_pending st"
  by (auto simp: handle_server_hello_def handle_server_handshake_def noise_open_def report_error_def noise_pending_def Let_def
      split: if_splits prod.splits option.splits sum.splits api_error.splits)

lemma noise_next_progress:
  "noise_next st = (Inr (FOk t p), evs, st') \<Longrightarrow> length (noise_pending st') < length (noise_pending st)"
proof (induction st arbitrary: evs st' rule: noise_next.induct)
  case (1 st0)
  from 1(3) obtain raw st where raw: "next_raw st0 = (Inr (Some raw), st)"
    by (subst (asm) noise_next.simps) (auto split: prod.splits sum.splits option.splits)
  note lt = next_raw_progress(1) [OF raw]
  show ?case
  proof (cases "nf_state st")
    case ExpectServerHello
    obtain e st1 where h: "handle_server_hello raw st = (e, st1)" by fastforce
    with 1(3) raw ExpectServerHello obtain e' where "noise_next st1 = (Inr (FOk t p), e', st')"
      by (subst (asm) noise_next.simps) (auto split: prod.splits)
    from 1(1) [OF raw [symmetric] refl refl ExpectServerHello h [symmetric] this] handlers_pending(1) [OF h] lt show ?thesis by simp
  next
    case ExpectHandshake
    obtain e st1 where h: "handle_server_handshake raw st = (e, st1)" by fastforce
    with 1(3) raw ExpectHandshake obtain e' where "noise_next st1 = (Inr (FOk t p), e', st')"
      by (subst (asm) noise_next.simps) (auto split: prod.splits)
    from 1(2) [OF raw [symmetric] refl refl ExpectHandshake h [symmetric] this] handlers_pending(2) [OF h] lt show ?thesis by simp
  next
    case Ready
    with 1(3) raw lt show ?thesis
      by (subst (asm) noise_next.simps) (auto split: prod.splits dest: handlers_pending(3))
  next
    case NFailed
    with 1(3) raw show ?thesis by (subst (asm) noise_next.simps) simp
  qed
qed

lemma fh_next_progress: "fh_next fh = (Inr (FOk t p), evs, fh') \<Longrightarrow> length (fh_pending fh') < length (fh_pending fh)"
  by (cases fh) (auto split: prod.splits dest: plain_next_progress noise_next_progress)

lemma fh_encode_pending: "fh_encode t p out fh = (w, fh') \<Longrightarrow> fh_pending fh' = fh_pending fh"
  by (cases fh) (auto simp: noise_encode_def noise_pending_def Let_def split: prod.splits)

lemma fh_next_plain_events: "fh_next (FHPlain st) = (r, evs, fh') \<Longrightarrow> evs = []"
  by (auto split: prod.splits)

end
