(* ===== verification/Executor.thy ===== *)
theory Executor
  imports ESP_Prelude
begin

text \<open>
  \<^verbatim>\<open>AsioExecutor\<close> (\<^verbatim>\<open>src/transport/asio_executor.cpp\<close>).  A timer is pending or expired; an expired one has its
  completion handler queued, and \<open>cancel\<close> has no effect on it any more (the documented behaviour of
  Asio's \<open>steady_timer::cancel\<close>).  The handler itself is named by what it does for its owner, the type
  parameter.  Identifiers count up from 1, so 0 (\<open>invalid_timer\<close>) is never given out; the 64-bit counter
  does not wrap within the life of a process and is a natural number here.
\<close>

type_synonym timer_id = nat

definition invalid_timer :: timer_id where
  "invalid_timer = 0"

record 'k timer =
  tm_id :: timer_id
  tm_fn :: 'k
  tm_expired :: bool

record 'k executor =
  ex_next_id :: timer_id
  ex_timers :: "'k timer list"

definition executor_init :: "'k executor" where
  "executor_init = \<lparr>ex_next_id = 1, ex_timers = []\<rparr>"

definition schedule_after :: "'k \<Rightarrow> 'k executor \<Rightarrow> timer_id \<times> 'k executor" where
  "schedule_after fn ex =
     (let i = ex_next_id ex
      in (i, ex\<lparr>ex_next_id := i + 1, ex_timers := ex_timers ex @ [\<lparr>tm_id = i, tm_fn = fn, tm_expired = False\<rparr>]\<rparr>))"

text \<open>A cancelled timer's handler runs with \<open>operation_aborted\<close>, which only erases the table entry.\<close>

definition ex_cancel :: "timer_id \<Rightarrow> 'k executor \<Rightarrow> 'k executor" where
  "ex_cancel i ex = ex\<lparr>ex_timers := filter (\<lambda>t. tm_id t \<noteq> i \<or> tm_expired t) (ex_timers ex)\<rparr>"

text \<open>The clock reaches a timer; later its handler is taken from the queue, erases the entry and runs.\<close>

definition ex_expire :: "timer_id \<Rightarrow> 'k executor \<Rightarrow> 'k executor" where
  "ex_expire i ex = ex\<lparr>ex_timers := map (\<lambda>t. if tm_id t = i then t\<lparr>tm_expired := True\<rparr> else t) (ex_timers ex)\<rparr>"

definition ex_take :: "timer_id \<Rightarrow> 'k executor \<Rightarrow> ('k \<times> 'k executor) option" where
  "ex_take i ex =
     (case find (\<lambda>t. tm_id t = i \<and> tm_expired t) (ex_timers ex) of
        None \<Rightarrow> None
      | Some t \<Rightarrow> Some (tm_fn t, ex\<lparr>ex_timers := filter (\<lambda>t. tm_id t \<noteq> i) (ex_timers ex)\<rparr>))"

section \<open>Invariant: live identifiers are distinct, positive and below the counter\<close>

definition ex_inv :: "'k executor \<Rightarrow> bool" where
  "ex_inv ex \<longleftrightarrow> 0 < ex_next_id ex \<and> distinct (map tm_id (ex_timers ex)) \<and>
     (\<forall>t \<in> set (ex_timers ex). 0 < tm_id t \<and> tm_id t < ex_next_id ex)"

lemma ex_inv_init [simp]: "ex_inv executor_init"
  by (simp add: ex_inv_def executor_init_def)

lemma ex_inv_schedule: "ex_inv ex \<Longrightarrow> schedule_after fn ex = (i, ex') \<Longrightarrow> ex_inv ex' \<and> 0 < i \<and> i = ex_next_id ex"
  by (fastforce simp: ex_inv_def schedule_after_def Let_def)

lemma distinct_map_filter': "distinct (map f xs) \<Longrightarrow> distinct (map f (filter P xs))"
  by (induction xs) auto

lemma ex_inv_cancel: "ex_inv ex \<Longrightarrow> ex_inv (ex_cancel i ex)"
  by (auto simp: ex_inv_def ex_cancel_def distinct_map_filter')

lemma map_id_expire [simp]:
  "map tm_id (map (\<lambda>t. if tm_id t = i then t\<lparr>tm_expired := True\<rparr> else t) ts) = map tm_id ts"
  by (induction ts) auto

lemma ex_inv_expire: "ex_inv ex \<Longrightarrow> ex_inv (ex_expire i ex)"
  unfolding ex_inv_def ex_expire_def by (simp del: map_map) auto

lemma ex_inv_take: "ex_inv ex \<Longrightarrow> ex_take i ex = Some (fn, ex') \<Longrightarrow> ex_inv ex'"
  by (auto simp: ex_inv_def ex_take_def distinct_map_filter' split: option.splits)

lemmas ex_inv_intros = ex_inv_cancel ex_inv_expire

text \<open>A timer cancelled before it expires never runs; a timer runs at most once.\<close>

lemma ex_cancel_pending:
  "(\<forall>t \<in> set (ex_timers ex). tm_id t = i \<longrightarrow> \<not> tm_expired t) \<Longrightarrow> ex_take i (ex_cancel i ex) = None"
  by (auto simp: ex_take_def ex_cancel_def find_None_iff split: option.splits)

lemma ex_take_once:
  assumes "ex_take i ex = Some (fn, ex')"
  shows "ex_take i (ex_expire i ex') = None"
proof -
  have "i \<notin> tm_id ` set (ex_timers ex')"
    using assms by (auto simp: ex_take_def split: option.splits)
  then have "\<forall>t \<in> set (ex_timers ex'). tm_id t \<noteq> i" by blast
  then have "ex_expire i ex' = ex'"
    by (simp add: ex_expire_def map_idI)
  moreover have "find (\<lambda>t. tm_id t = i \<and> tm_expired t) (ex_timers ex') = None"
    using \<open>\<forall>t \<in> set (ex_timers ex'). tm_id t \<noteq> i\<close> unfolding find_None_iff by blast
  ultimately show ?thesis by (simp add: ex_take_def)
qed

lemma find_append_last: "\<forall>x \<in> set xs. \<not> P x \<Longrightarrow> P y \<Longrightarrow> find P (xs @ [y]) = Some y"
  by (induction xs) auto

section \<open>Properties\<close>

text \<open>
  Timers of the executor.  A new timer gets an identifier that is neither the invalid one nor that
  of a live timer; cancelled before it expires, its handler never runs; and no handler runs twice.
\<close>

theorem timer_discipline:
  assumes "ex_inv ex" "schedule_after fn ex = (i, ex')"
  shows "i \<noteq> invalid_timer \<and> i \<notin> tm_id ` set (ex_timers ex) \<and> ex_inv ex' \<and>
    ex_take i (ex_cancel i ex') = None \<and> ex_take i (ex_expire i (ex_cancel i ex')) = None \<and>
    (\<exists>ex2. ex_take i (ex_expire i ex') = Some (fn, ex2) \<and> ex_take i (ex_expire i ex2) = None)"
proof -
  have e: "i = ex_next_id ex" "ex' = ex\<lparr>ex_next_id := i + 1, ex_timers := ex_timers ex @ [\<lparr>tm_id = i, tm_fn = fn, tm_expired = False\<rparr>]\<rparr>"
    using assms(2) by (auto simp: schedule_after_def Let_def)
  have i: "\<forall>t \<in> set (ex_timers ex). tm_id t \<noteq> i" using assms(1) by (auto simp: ex_inv_def e(1))
  have gone: "ex_timers (ex_cancel i ex') = ex_timers ex"
    using i by (simp add: ex_cancel_def e(2) filter_id_conv)
  have none: "find (\<lambda>t. tm_id t = i \<and> tm_expired t) (ex_timers ex) = None"
    using i by (auto simp: find_None_iff)
  have same: "map (\<lambda>t. if tm_id t = i then t\<lparr>tm_expired := True\<rparr> else t) (ex_timers ex) = ex_timers ex"
    using i by (simp add: map_idI)
  have f: "find (\<lambda>t. tm_id t = i \<and> tm_expired t) (ex_timers ex @ [\<lparr>tm_id = i, tm_fn = fn, tm_expired = True\<rparr>]) =
      Some \<lparr>tm_id = i, tm_fn = fn, tm_expired = True\<rparr>"
    using i by (intro find_append_last) auto
  have "\<exists>ex2. ex_take i (ex_expire i ex') = Some (fn, ex2)"
    by (simp add: ex_take_def ex_expire_def e(2) same f)
  then obtain ex2 where ex2: "ex_take i (ex_expire i ex') = Some (fn, ex2)" by blast
  from ex2 ex_take_once [OF ex2]
  have "\<exists>ex2. ex_take i (ex_expire i ex') = Some (fn, ex2) \<and> ex_take i (ex_expire i ex2) = None" by blast
  moreover have "ex_take i (ex_cancel i ex') = None" "ex_take i (ex_expire i (ex_cancel i ex')) = None"
    by (simp_all add: ex_take_def ex_expire_def gone none same)
  ultimately show ?thesis
    using i ex_inv_schedule [OF assms] by (auto simp: invalid_timer_def)
qed

theorem timer_discipline_witness:
  "ex_take 1 (ex_cancel 1 (snd (schedule_after True executor_init))) = None \<and> fst (schedule_after True executor_init) = 1"
  using timer_discipline [of executor_init True 1 "snd (schedule_after True executor_init)"]
  by (simp add: schedule_after_def executor_init_def Let_def ex_inv_def)

end
