(* ===== verification/Connection.thy ===== *)
theory Connection
  imports Frame_Helper Executor
begin

text \<open>
  The protocol state machine \<^verbatim>\<open>Connection\<close> (\<^verbatim>\<open>src/connection/connection.cpp\<close>).

  The state is one record: the fields of the class, the executor it shares, and the list of
  observable effects so far (what is written to the transport and which callbacks run).  A callback
  of the application (\<open>on_done\<close>, \<open>on_state\<close>, \<open>on_error\<close>, message handlers) is recorded as an effect;
  calls it makes back into the connection are separate steps after the current one.  The message
  classes are generated at build time, so the registry is a parameter.  Methods that can throw return
  the exception with the state it leaves.
\<close>

section \<open>State\<close>

datatype conn_state = Disconnected | Connecting | HelloSent | Connected | Closing | Closed | Failed

text \<open>The \<^verbatim>\<open>std::error_code\<close> values in play; \<open>Ec_transport\<close> is any code of the socket layer.\<close>

datatype error_code = Ec_ok | Ec_timed_out | Ec_protocol_error | Ec_permission_denied | Ec_connection_aborted | Ec_transport nat

datatype timer_fn = Connect_timeout | Send_ping | Pong_timeout

record server_hello =
  sh_major :: int
  sh_minor :: int
  sh_server_info :: string
  sh_name :: string

record conn_options =
  op_client_info :: string
  op_expected_name :: string
  op_login :: bool
  op_password :: string
  op_keepalive_interval :: int

text \<open>The generated message layer: \<^verbatim>\<open>proto::create_message\<close> and the members of the message classes.\<close>

record 'm registry =
  rg_contains :: "u32 \<Rightarrow> bool"
  rg_parse :: "u32 \<Rightarrow> bytes \<Rightarrow> 'm option"
  rg_id :: "'m \<Rightarrow> u32"
  rg_size :: "'m \<Rightarrow> nat"
  rg_encode :: "'m \<Rightarrow> bytes"
  rg_hello_request :: "string \<Rightarrow> nat \<Rightarrow> nat \<Rightarrow> 'm"
  rg_auth_request :: "string option \<Rightarrow> 'm"
  rg_disconnect_request :: 'm
  rg_disconnect_response :: 'm
  rg_ping_request :: 'm
  rg_ping_response :: 'm
  rg_hello_response :: "'m \<Rightarrow> u32 \<times> u32 \<times> string \<times> string"
  rg_invalid_password :: "'m \<Rightarrow> bool"

datatype 'm effect =
    Eff_state conn_state
  | Eff_done error_code
  | Eff_error error_code string
  | Eff_connect string nat
  | Eff_start_read
  | Eff_write bytes
  | Eff_write_notify bytes
  | Eff_close
  | Eff_raw u32 bytes
  | Eff_message u32 'm
  | Eff_any 'm

record 'm conn =
  c_state :: conn_state
  c_hello :: server_hello
  c_options :: conn_options
  c_frame :: frame_helper
  c_handlers :: "bool list"
  c_any_handler :: bool
  c_raw_handler :: bool
  c_state_handler :: bool
  c_error_handler :: bool
  c_connect_handler :: bool
  c_last_error :: "api_error option"
  c_connect_timer :: timer_id
  c_ping_timer :: timer_id
  c_pong_timer :: timer_id
  c_awaiting_pong :: bool
  c_executor :: "timer_fn executor"
  c_out :: "'m effect list"

definition conn_init :: "nat \<Rightarrow> conn_options \<Rightarrow> frame_helper \<Rightarrow> 'm conn" where
  "conn_init message_id_max opts fh =
     \<lparr>c_state = Disconnected, c_hello = \<lparr>sh_major = 0, sh_minor = 0, sh_server_info = [], sh_name = []\<rparr>,
      c_options = opts, c_frame = fh, c_handlers = replicate (message_id_max + 1) False,
      c_any_handler = False, c_raw_handler = False, c_state_handler = False, c_error_handler = False,
      c_connect_handler = False, c_last_error = None, c_connect_timer = invalid_timer,
      c_ping_timer = invalid_timer, c_pong_timer = invalid_timer, c_awaiting_pong = False,
      c_executor = executor_init, c_out = []\<rparr>"

definition emit :: "'m effect \<Rightarrow> 'm conn \<Rightarrow> 'm conn" where
  "emit e c = c\<lparr>c_out := c_out c @ [e]\<rparr>"

definition c_schedule :: "timer_fn \<Rightarrow> 'm conn \<Rightarrow> timer_id \<times> 'm conn" where
  "c_schedule fn c = (case schedule_after fn (c_executor c) of (i, ex) \<Rightarrow> (i, c\<lparr>c_executor := ex\<rparr>))"

definition c_cancel :: "timer_id \<Rightarrow> 'm conn \<Rightarrow> 'm conn" where
  "c_cancel i c = c\<lparr>c_executor := ex_cancel i (c_executor c)\<rparr>"

text \<open>\<^verbatim>\<open>e.what()\<close>.\<close>

fun what_of :: "api_error \<Rightarrow> string" where
  "what_of (ApiError s) = s"
| "what_of (ConnectionError s) = s"
| "what_of (ProtocolError s) = s"
| "what_of (HandshakeError s) = s"
| "what_of (EncryptionMismatchError s) = s"
| "what_of (AuthenticationError s) = s"
| "what_of (TimeoutError s) = s"
| "what_of (EncryptionError s) = s"

section \<open>Operations\<close>

definition set_state :: "conn_state \<Rightarrow> 'm conn \<Rightarrow> 'm conn" where
  "set_state s c =
     (if s = c_state c then c
      else let c = c\<lparr>c_state := s\<rparr> in if c_state_handler c then emit (Eff_state s) c else c)"

definition stop_keepalive :: "'m conn \<Rightarrow> 'm conn" where
  "stop_keepalive c =
     (let c = (if c_ping_timer c \<noteq> invalid_timer
               then (c_cancel (c_ping_timer c) c)\<lparr>c_ping_timer := invalid_timer\<rparr> else c);
          c = (if c_pong_timer c \<noteq> invalid_timer
               then (c_cancel (c_pong_timer c) c)\<lparr>c_pong_timer := invalid_timer\<rparr> else c)
      in c\<lparr>c_awaiting_pong := False\<rparr>)"

definition cancel_connect_timer :: "'m conn \<Rightarrow> 'm conn" where
  "cancel_connect_timer c =
     (if c_connect_timer c \<noteq> invalid_timer
      then (c_cancel (c_connect_timer c) c)\<lparr>c_connect_timer := invalid_timer\<rparr> else c)"

definition finish_connect :: "error_code \<Rightarrow> 'm conn \<Rightarrow> 'm conn" where
  "finish_connect ec c =
     (if c_connect_handler c then emit (Eff_done ec) (c\<lparr>c_connect_handler := False\<rparr>) else c)"

definition fail :: "error_code \<Rightarrow> string \<Rightarrow> 'm conn \<Rightarrow> 'm conn" where
  "fail ec what c =
     (if c_state c = Failed \<or> c_state c = Closed then c
      else
        let c = stop_keepalive c;
            c = cancel_connect_timer c;
            c = emit Eff_close c;
            was_connecting = c_connect_handler c;
            c = set_state Failed c
        in if was_connecting then finish_connect ec c
           else if c_error_handler c then emit (Eff_error ec what) c else c)"

definition serialize :: "'m registry \<Rightarrow> 'm \<Rightarrow> api_error + bytes" where
  "serialize rg msg =
     (let n = rg_size rg msg; buf = rg_encode rg msg
      in if n \<noteq> 0 \<and> (n \<ge> 2 ^ 31 \<or> length buf \<noteq> n)
         then Inl (ProtocolError ''failed to serialize outgoing protobuf message'')
         else if n = 0 then Inr [] else Inr buf)"

definition send_raw :: "u32 \<Rightarrow> bytes \<Rightarrow> 'm conn \<Rightarrow> 'm conn" where
  "send_raw msg_type payload c =
     (case fh_encode msg_type payload [] (c_frame c) of
        (wire, fh) \<Rightarrow> emit (Eff_write wire) (c\<lparr>c_frame := fh\<rparr>))"

text \<open>Statements that can throw, in sequence: an exception skips the rest.\<close>

type_synonym 'm act = "'m conn \<Rightarrow> api_error option \<times> 'm conn"

fun run_acts :: "'m act list \<Rightarrow> 'm act" where
  "run_acts [] c = (None, c)"
| "run_acts (a # as) c = (case a c of (Some e, c') \<Rightarrow> (Some e, c') | (None, c') \<Rightarrow> run_acts as c')"

definition nothrow :: "('m conn \<Rightarrow> 'm conn) \<Rightarrow> 'm act" where
  "nothrow f c = (None, f c)"

definition send :: "'m registry \<Rightarrow> 'm \<Rightarrow> 'm act" where
  "send rg msg c =
     (case serialize rg msg of
        Inl e \<Rightarrow> (Some e, c)
      | Inr payload \<Rightarrow> (None, send_raw (rg_id rg msg) payload c))"

definition client_api_version_major :: nat where
  "client_api_version_major = 1"

definition client_api_version_minor :: nat where
  "client_api_version_minor = 14"

definition send_hello :: "'m registry \<Rightarrow> 'm act" where
  "send_hello rg c =
     run_acts
       ([send rg (rg_hello_request rg (op_client_info (c_options c)) client_api_version_major client_api_version_minor)] @
        (if op_login (c_options c)
         then [send rg (rg_auth_request rg
                 (if op_password (c_options c) \<noteq> [] then Some (op_password (c_options c)) else None))]
         else [])) c"

definition start_keepalive :: "'m conn \<Rightarrow> 'm conn" where
  "start_keepalive c =
     (if op_keepalive_interval (c_options c) \<le> 0 then c
      else case c_schedule Send_ping c of (i, c) \<Rightarrow> c\<lparr>c_ping_timer := i\<rparr>)"

definition send_ping :: "'m registry \<Rightarrow> 'm act" where
  "send_ping rg c =
     (if c_state c \<noteq> Connected then (None, c)
      else run_acts
        [send rg (rg_ping_request rg),
         nothrow (\<lambda>c. if \<not> c_awaiting_pong c
                      then case c_schedule Pong_timeout (c\<lparr>c_awaiting_pong := True\<rparr>) of (i, c) \<Rightarrow> c\<lparr>c_pong_timer := i\<rparr>
                      else c),
         nothrow (\<lambda>c. case c_schedule Send_ping c of (i, c) \<Rightarrow> c\<lparr>c_ping_timer := i\<rparr>)] c)"

text \<open>The three timer callbacks.\<close>

definition run_timer :: "'m registry \<Rightarrow> timer_fn \<Rightarrow> 'm act" where
  "run_timer rg fn c =
     (case fn of
        Connect_timeout \<Rightarrow> (None, if c_state c \<noteq> Connected then fail Ec_timed_out ''handshake timed out'' c else c)
      | Send_ping \<Rightarrow> send_ping rg c
      | Pong_timeout \<Rightarrow>
          let c = c\<lparr>c_pong_timer := invalid_timer\<rparr>
          in (None, if c_awaiting_pong c then fail Ec_timed_out ''keepalive pong timed out'' c else c))"

definition start :: "string \<Rightarrow> nat \<Rightarrow> 'm conn \<Rightarrow> 'm conn" where
  "start host port c =
     (let c = c\<lparr>c_connect_handler := True, c_last_error := None\<rparr>;
          c = set_state Connecting c;
          c = (case c_schedule Connect_timeout c of (i, c) \<Rightarrow> c\<lparr>c_connect_timer := i\<rparr>)
      in emit (Eff_connect host port) c)"

text \<open>The two handshake callbacks installed on an encrypting frame helper.\<close>

definition handshake_callback :: "'m registry \<Rightarrow> handshake_event \<Rightarrow> 'm act" where
  "handshake_callback rg ev =
     (case ev of
        HReady \<Rightarrow> run_acts [send_hello rg, nothrow (set_state HelloSent)]
      | HError what \<Rightarrow> nothrow (\<lambda>c. fail Ec_protocol_error what (c\<lparr>c_last_error := Some (HandshakeError what)\<rparr>)))"

definition on_connected_transport :: "'m registry \<Rightarrow> (api_error + bytes) \<Rightarrow> error_code \<Rightarrow> 'm act" where
  "on_connected_transport rg rnd ec c =
     (if ec \<noteq> Ec_ok then (None, fail ec ''tcp connect failed'' c)
      else
        let c = emit Eff_start_read c
        in if needs_handshake (c_frame c)
           then (case connect_bytes rnd (c_frame c) of
                   (Inl e, fh) \<Rightarrow> (Some e, c\<lparr>c_frame := fh\<rparr>)
                 | (Inr initial, fh) \<Rightarrow>
                     (None, if initial \<noteq> [] then emit (Eff_write initial) (c\<lparr>c_frame := fh\<rparr>) else c\<lparr>c_frame := fh\<rparr>))
           else run_acts [send_hello rg, nothrow (set_state HelloSent)] c)"

text \<open>The message ids handled by the connection itself (\<^verbatim>\<open>proto/api.proto\<close>, option \<open>(id)\<close>).\<close>

definition id_HelloResponse :: u32 where "id_HelloResponse = 2"
definition id_AuthenticationResponse :: u32 where "id_AuthenticationResponse = 4"
definition id_DisconnectRequest :: u32 where "id_DisconnectRequest = 5"
definition id_DisconnectResponse :: u32 where "id_DisconnectResponse = 6"
definition id_PingRequest :: u32 where "id_PingRequest = 7"
definition id_PingResponse :: u32 where "id_PingResponse = 8"

definition handle_hello_response :: "'m registry \<Rightarrow> 'm \<Rightarrow> 'm conn \<Rightarrow> 'm conn" where
  "handle_hello_response rg msg c =
     (if c_state c \<noteq> HelloSent then c
      else case rg_hello_response rg msg of
        (major, minor, server_info, name) \<Rightarrow>
          let c = c\<lparr>c_hello := \<lparr>sh_major = sint major, sh_minor = sint minor, sh_server_info = server_info, sh_name = name\<rparr>\<rparr>
          in if sh_major (c_hello c) > 2
             then fail Ec_protocol_error (''unsupported API major version '' @ to_string_nat (nat (sh_major (c_hello c)))) c
             else if op_expected_name (c_options c) \<noteq> [] \<and> name \<noteq> [] \<and> name \<noteq> op_expected_name (c_options c)
             then fail Ec_protocol_error (''connected to '' @ [CHR 0x27] @ name @ [CHR 0x27] @ '' but expected '' @
                    [CHR 0x27] @ op_expected_name (c_options c) @ [CHR 0x27]) c
             else
               let c = cancel_connect_timer c;
                   c = set_state Connected c;
                   c = start_keepalive c
               in finish_connect Ec_ok c)"

text \<open>The statements shared by the two disconnect messages, and the pong.\<close>

definition close_down :: "'m conn \<Rightarrow> 'm conn" where
  "close_down c = set_state Closed (emit Eff_close (stop_keepalive c))"

definition handle_pong :: "'m conn \<Rightarrow> 'm conn" where
  "handle_pong c =
     (let c = c\<lparr>c_awaiting_pong := False\<rparr>
      in if c_pong_timer c \<noteq> invalid_timer
         then (c_cancel (c_pong_timer c) c)\<lparr>c_pong_timer := invalid_timer\<rparr> else c)"

definition handle_internal :: "'m registry \<Rightarrow> u32 \<Rightarrow> 'm \<Rightarrow> 'm act" where
  "handle_internal rg msg_type msg c =
     (if msg_type = id_HelloResponse then (None, handle_hello_response rg msg c)
      else if msg_type = id_AuthenticationResponse then
        (None, if rg_invalid_password rg msg
               then fail Ec_permission_denied ''authentication rejected: invalid password'' c else c)
      else if msg_type = id_DisconnectRequest then
        run_acts
          [send rg (rg_disconnect_response rg),
           nothrow close_down,
           nothrow (\<lambda>c. if c_connect_handler c then finish_connect Ec_connection_aborted c else c)] c
      else if msg_type = id_DisconnectResponse then
        (None, close_down c)
      else if msg_type = id_PingRequest then send rg (rg_ping_response rg) c
      else if msg_type = id_PingResponse then
        (None, handle_pong c)
      else (None, c))"

definition terminated :: "'m conn \<Rightarrow> bool" where
  "terminated c \<longleftrightarrow> c_state c = Failed \<or> c_state c = Closed"

definition handle_frame :: "'m registry \<Rightarrow> u32 \<Rightarrow> bytes \<Rightarrow> 'm act" where
  "handle_frame rg msg_type payload c0 =
     (let c = (if c_raw_handler c0 then emit (Eff_raw msg_type payload) c0 else c0)
      in if \<not> rg_contains rg msg_type then (None, c)
         else case rg_parse rg msg_type payload of
           None \<Rightarrow> (None, fail Ec_protocol_error ''failed to parse message payload'' c)
         | Some msg \<Rightarrow>
             (case handle_internal rg msg_type msg c of
                (Some e, c) \<Rightarrow> (Some e, c)
              | (None, c) \<Rightarrow>
                  if terminated c then (None, c)
                  else
                    let c = (if unat msg_type < length (c_handlers c) \<and> c_handlers c ! unat msg_type
                             then emit (Eff_message msg_type msg) c else c)
                    in (None, if c_any_handler c then emit (Eff_any msg) c else c)))"

definition disconnect :: "'m registry \<Rightarrow> 'm act" where
  "disconnect rg c =
     (if c_state c \<noteq> Connected \<and> c_state c \<noteq> HelloSent then (None, c)
      else
        let c = stop_keepalive c;
            c = set_state Closing c;
            req = rg_disconnect_request rg
        in case serialize rg req of
             Inl e \<Rightarrow> (Some e, c)
           | Inr payload \<Rightarrow>
               (case fh_encode (rg_id rg req) payload [] (c_frame c) of
                  (wire, fh) \<Rightarrow> (None, emit (Eff_write_notify wire) (c\<lparr>c_frame := fh\<rparr>))))"

text \<open>The completion handler of the disconnect write.\<close>

definition disconnect_written :: "'m conn \<Rightarrow> 'm conn" where
  "disconnect_written c = set_state Closed (emit Eff_close c)"

definition conn_destroy :: "'m conn \<Rightarrow> 'm conn" where
  "conn_destroy c =
     (let c = stop_keepalive c;
          c = (if c_connect_timer c \<noteq> invalid_timer then c_cancel (c_connect_timer c) c else c)
      in emit Eff_close c)"

definition on_handler :: "nat \<Rightarrow> 'm conn \<Rightarrow> 'm conn" where
  "on_handler msg_type c =
     (if msg_type < length (c_handlers c) then c\<lparr>c_handlers := (c_handlers c)[msg_type := True]\<rparr> else c)"

section \<open>The receive loop\<close>

text \<open>Bytes still to be decoded only shrink, and only \<open>next\<close> removes any: the loop ends.\<close>

lemma pending_simps [simp]:
  "c_frame (emit e c) = c_frame c" "c_frame (set_state s c) = c_frame c" "c_frame (stop_keepalive c) = c_frame c"
  "c_frame (cancel_connect_timer c) = c_frame c" "c_frame (finish_connect ec c) = c_frame c"
  "c_frame (fail ec what c) = c_frame c" "c_frame (close_down c) = c_frame c" "c_frame (handle_pong c) = c_frame c"
  "c_frame (start_keepalive c) = c_frame c" "c_frame (c_cancel i c) = c_frame c"
  by (simp_all add: emit_def set_state_def stop_keepalive_def cancel_connect_timer_def finish_connect_def fail_def
      start_keepalive_def c_cancel_def c_schedule_def close_down_def handle_pong_def Let_def split: prod.splits)

lemma handle_hello_response_frame [simp]: "c_frame (handle_hello_response rg m c) = c_frame c"
  by (simp add: handle_hello_response_def Let_def split: prod.splits)

lemma send_raw_pending [simp]: "fh_pending (c_frame (send_raw t p c)) = fh_pending (c_frame c)"
  by (simp add: send_raw_def emit_def fh_encode_pending split: prod.splits)

lemma send_pending [simp]: "fh_pending (c_frame (snd (send rg m c))) = fh_pending (c_frame c)"
  by (simp add: send_def split: sum.splits)

lemma run_acts_nothrow [simp]: "run_acts (nothrow f # as) c = run_acts as (f c)"
  by (simp add: nothrow_def)

text \<open>\<open>keeps P a\<close>: the action keeps \<open>P\<close> whether or not it throws.\<close>

definition keeps :: "('m conn \<Rightarrow> bool) \<Rightarrow> 'm act \<Rightarrow> bool" where
  "keeps P a \<longleftrightarrow> (\<forall>c. P c \<longrightarrow> P (snd (a c)))"

lemma keepsI: "(\<And>c. P c \<Longrightarrow> P (snd (a c))) \<Longrightarrow> keeps P a"
  by (simp add: keeps_def)

lemma keepsD: "keeps P a \<Longrightarrow> P c \<Longrightarrow> a c = (e, c') \<Longrightarrow> P c'"
  by (metis keeps_def snd_conv)

lemma keeps_snd: "keeps P a \<Longrightarrow> P c \<Longrightarrow> P (snd (a c))"
  by (simp add: keeps_def)

lemma keeps_run_acts [keeps_intros]: "(\<And>a. a \<in> set as \<Longrightarrow> keeps P a) \<Longrightarrow> keeps P (run_acts as)"
proof (induction as)
  case (Cons a as)
  then have a: "keeps P a" and as: "keeps P (run_acts as)" by simp_all
  show ?case
  proof (rule keepsI)
    fix c assume "P c"
    with a have "P (snd (a c))" by (rule keeps_snd)
    then show "P (snd (run_acts (a # as) c))"
      using as by (auto simp: keeps_snd split: prod.splits option.splits)
  qed
qed (simp add: keeps_def)

lemma keeps_nothrow [keeps_intros]: "(\<And>c. P c \<Longrightarrow> P (f c)) \<Longrightarrow> keeps P (nothrow f)"
  by (simp add: keeps_def nothrow_def)

lemma keeps_send_hello [keeps_intros]:
  assumes "\<And>m. keeps P (send rg m)"
  shows "keeps P (send_hello rg)"
proof (rule keepsI)
  fix c assume "P c"
  show "P (snd (send_hello rg c))"
    unfolding send_hello_def
    by (rule keeps_snd [where P = P, OF keeps_run_acts]) (use assms \<open>P c\<close> in \<open>auto split: if_splits\<close>)
qed

lemma keeps_handle_internal:
  assumes "\<And>c. P c \<Longrightarrow> P (handle_hello_response rg msg c)"
    and "\<And>c. P c \<Longrightarrow> P (fail Ec_permission_denied ''authentication rejected: invalid password'' c)"
    and "\<And>m. keeps P (send rg m)" and "\<And>c. P c \<Longrightarrow> P (close_down c)"
    and "\<And>c. P c \<Longrightarrow> P (finish_connect Ec_connection_aborted c)" and "\<And>c. P c \<Longrightarrow> P (handle_pong c)"
  shows "keeps P (handle_internal rg t msg)"
proof (rule keepsI)
  fix c assume c: "P c"
  have "P (snd (run_acts [send rg (rg_disconnect_response rg), nothrow close_down,
      nothrow (\<lambda>c. if c_connect_handler c then finish_connect Ec_connection_aborted c else c)] c))"
    by (rule keeps_snd [where P = P, OF keeps_run_acts]) (use assms c in \<open>auto intro: keeps_nothrow\<close>)
  then show "P (snd (handle_internal rg t msg c))"
    using assms c by (simp add: handle_internal_def keeps_snd del: run_acts.simps run_acts_nothrow)
qed

lemma keeps_handle_frame:
  assumes "\<And>e c. P c \<Longrightarrow> (\<forall>s. e \<noteq> Eff_state s) \<Longrightarrow> (\<forall>ec. e \<noteq> Eff_done ec) \<Longrightarrow> P (emit e c)"
    and "\<And>m. keeps P (handle_internal rg t m)"
    and "\<And>c. P c \<Longrightarrow> P (fail Ec_protocol_error ''failed to parse message payload'' c)"
  shows "keeps P (handle_frame rg t p)"
proof (rule keepsI)
  fix c assume c: "P c"
  define c1 where "c1 = (if c_raw_handler c then emit (Eff_raw t p) c else c)"
  have c1: "P c1" using c assms(1) by (simp add: c1_def)
  have hi: "P d" if "handle_internal rg t m c1 = (e, d)" for m e d
    using keepsD [OF assms(2) c1 that] .
  show "P (snd (handle_frame rg t p c))"
    unfolding handle_frame_def c1_def [symmetric] Let_def
    using c1 assms(1,3) by (auto split: option.split prod.split dest!: hi)
qed

lemma keeps_handshake_callback:
  assumes "\<And>m. keeps P (send rg m)" and "\<And>c. P c \<Longrightarrow> P (set_state HelloSent c)"
    and "\<And>what c. P c \<Longrightarrow> P (fail Ec_protocol_error what (c\<lparr>c_last_error := Some (HandshakeError what)\<rparr>))"
  shows "keeps P (handshake_callback rg ev)"
  using assms by (cases ev) (auto simp: handshake_callback_def intro!: keeps_intros)

abbreviation pends :: "bytes \<Rightarrow> 'm conn \<Rightarrow> bool" where
  "pends q c \<equiv> fh_pending (c_frame c) = q"

lemma send_pends: "keeps (pends q) (send rg m)"
  by (simp add: keeps_def)

lemma handle_frame_pends: "keeps (pends q) (handle_frame rg t p)"
  by (intro keeps_handle_frame keeps_handle_internal send_pends) simp_all

lemma handshake_callback_pends: "keeps (pends q) (handshake_callback rg ev)"
  by (intro keeps_handshake_callback send_pends) simp_all

lemma run_callbacks_pends: "keeps (pends q) (run_acts (map (handshake_callback rg) evs))"
  by (rule keeps_run_acts) (auto intro: handshake_callback_pends)

lemma drain_progress:
  assumes "fh_next (c_frame c) = (Inr (FOk t p), evs, fh)"
    and "run_acts (map (handshake_callback rg) evs) (c\<lparr>c_frame := fh\<rparr>) = (None, c1)" "handle_frame rg t p c1 = (None, c2)"
  shows "length (fh_pending (c_frame c2)) < length (fh_pending (c_frame c))"
proof -
  have "fh_pending (c_frame c1) = fh_pending fh"
    by (rule keepsD [OF run_callbacks_pends _ assms(2)]) simp
  moreover have "fh_pending (c_frame c2) = fh_pending (c_frame c1)"
    by (rule keepsD [OF handle_frame_pends _ assms(3)]) simp
  ultimately show ?thesis using fh_next_progress [OF assms(1)] by simp
qed

text \<open>\<^verbatim>\<open>drain_frames\<close>; the callbacks of an encrypting helper run before \<open>next\<close>'s result is used.\<close>

function drain_frames :: "'m registry \<Rightarrow> 'm act" where
  "drain_frames rg c =
     (case fh_next (c_frame c) of
        (r, evs, fh) \<Rightarrow>
          (case run_acts (map (handshake_callback rg) evs) (c\<lparr>c_frame := fh\<rparr>) of
             (Some e, c1) \<Rightarrow> (Some e, c1)
           | (None, c1) \<Rightarrow>
               (case r of
                  Inl e \<Rightarrow> (Some e, c1)
                | Inr FNeedMore \<Rightarrow> (None, c1)
                | Inr (FOk t p) \<Rightarrow>
                    (case handle_frame rg t p c1 of
                       (Some e, c2) \<Rightarrow> (Some e, c2)
                     | (None, c2) \<Rightarrow> if terminated c2 then (None, c2) else drain_frames rg c2))))"
  by pat_completeness auto
termination
  by (relation "measure (\<lambda>(rg, c). length (fh_pending (c_frame c)))") (simp, simp, metis drain_progress)

declare drain_frames.simps [simp del]

definition on_bytes :: "'m registry \<Rightarrow> error_code \<Rightarrow> bytes \<Rightarrow> 'm act" where
  "on_bytes rg ec data c =
     (if ec \<noteq> Ec_ok then
        (None, if c_state c = Closing \<or> c_state c = Closed then c else fail ec ''read failed'' c)
      else
        case drain_frames rg (c\<lparr>c_frame := fh_feed data (c_frame c)\<rparr>) of
          (None, c) \<Rightarrow> (None, c)
        | (Some e, c) \<Rightarrow>
            if is_protocol_error e
            then (None, fail Ec_protocol_error (what_of e) (c\<lparr>c_last_error := Some e\<rparr>))
            else (Some e, c))"

section \<open>Executions\<close>

text \<open>
  A connection with its environment: whether the TCP connect is outstanding, whether the read pump
  runs, and how many disconnect writes have yet to complete.  Completions may still arrive after
  \<open>close\<close>: Asio delivers handlers that were already queued.
\<close>

record 'm world =
  w_conn :: "'m conn"
  w_connecting :: bool
  w_reading :: bool
  w_notify :: nat

datatype 'm conn_event =
    Ev_install "'m conn \<Rightarrow> 'm conn"
  | Ev_start string nat
  | Ev_connected error_code "api_error + bytes"
  | Ev_bytes error_code bytes
  | Ev_expire timer_id
  | Ev_fire timer_id
  | Ev_send u32 bytes
  | Ev_disconnect
  | Ev_written

definition on_any :: "'m conn \<Rightarrow> 'm conn" where "on_any c = c\<lparr>c_any_handler := True\<rparr>"
definition on_raw :: "'m conn \<Rightarrow> 'm conn" where "on_raw c = c\<lparr>c_raw_handler := True\<rparr>"
definition on_state :: "'m conn \<Rightarrow> 'm conn" where "on_state c = c\<lparr>c_state_handler := True\<rparr>"
definition on_error :: "'m conn \<Rightarrow> 'm conn" where "on_error c = c\<lparr>c_error_handler := True\<rparr>"

definition notifies :: "'m registry \<Rightarrow> 'm conn \<Rightarrow> bool" where
  "notifies rg c \<longleftrightarrow> (c_state c = Connected \<or> c_state c = HelloSent) \<and> \<not> isl (serialize rg (rg_disconnect_request rg))"

inductive conn_step :: "'m registry \<Rightarrow> 'm world \<Rightarrow> 'm conn_event \<Rightarrow> 'm world \<Rightarrow> bool" for rg where
  step_install: "f \<in> range on_handler \<union> {on_any, on_raw, on_state, on_error} \<Longrightarrow>
    conn_step rg w (Ev_install f) (w\<lparr>w_conn := f (w_conn w)\<rparr>)"
| step_start: "c_state (w_conn w) = Disconnected \<Longrightarrow>
    conn_step rg w (Ev_start host port) (w\<lparr>w_conn := start host port (w_conn w), w_connecting := True\<rparr>)"
| step_connected: "w_connecting w \<Longrightarrow>
    conn_step rg w (Ev_connected ec rnd) (w\<lparr>w_conn := snd (on_connected_transport rg rnd ec (w_conn w)),
      w_connecting := False, w_reading := (ec = Ec_ok)\<rparr>)"
| step_bytes: "w_reading w \<Longrightarrow>
    conn_step rg w (Ev_bytes ec data) (w\<lparr>w_conn := snd (on_bytes rg ec data (w_conn w)), w_reading := (ec = Ec_ok)\<rparr>)"
| step_expire: "conn_step rg w (Ev_expire i) (w\<lparr>w_conn := (w_conn w)\<lparr>c_executor := ex_expire i (c_executor (w_conn w))\<rparr>\<rparr>)"
| step_fire: "ex_take i (c_executor (w_conn w)) = Some (fn, ex) \<Longrightarrow>
    conn_step rg w (Ev_fire i) (w\<lparr>w_conn := snd (run_timer rg fn ((w_conn w)\<lparr>c_executor := ex\<rparr>))\<rparr>)"
| step_send: "conn_step rg w (Ev_send t p) (w\<lparr>w_conn := send_raw t p (w_conn w)\<rparr>)"
| step_disconnect: "conn_step rg w Ev_disconnect (w\<lparr>w_conn := snd (disconnect rg (w_conn w)),
      w_notify := w_notify w + (if notifies rg (w_conn w) then 1 else 0)\<rparr>)"
| step_written: "0 < w_notify w \<Longrightarrow>
    conn_step rg w Ev_written (w\<lparr>w_conn := disconnect_written (w_conn w), w_notify := w_notify w - 1\<rparr>)"

inductive_cases conn_stepE: "conn_step rg w ev w'"

definition world_init :: "nat \<Rightarrow> conn_options \<Rightarrow> frame_helper \<Rightarrow> 'm world" where
  "world_init message_id_max opts fh =
     \<lparr>w_conn = conn_init message_id_max opts fh, w_connecting = False, w_reading = False, w_notify = 0\<rparr>"

inductive conn_reach :: "'m registry \<Rightarrow> 'm world \<Rightarrow> 'm world \<Rightarrow> bool" for rg w0 where
  reach_refl: "conn_reach rg w0 w0"
| reach_step: "conn_reach rg w0 w \<Longrightarrow> conn_step rg w ev w' \<Longrightarrow> conn_reach rg w0 w'"

end
