(* ===== verification/Connection_Inv.thy ===== *)
theory Connection_Inv
  imports Connection
begin

text \<open>
  Invariants of every reachable connection, whatever the order in which the network, the timers and
  the application act: keepalive timers exist only while connected, the completion callback fires at
  most once, an expected pong has its timer, and an encrypted connection exchanges application
  messages only after the handshake.
\<close>

section \<open>The handshake phase of the frame helper\<close>

fun handshake_done :: "frame_helper \<Rightarrow> bool" where
  "handshake_done (FHPlain _) = True"
| "handshake_done (FHNoise st) = (nf_state st = Ready)"

lemma noise_open_state: "noise_open raw st = (r, st') \<Longrightarrow> nf_state st' = nf_state st"
  by (auto simp: noise_open_def Let_def split: prod.splits sum.splits api_error.splits if_splits)

lemma noise_next_ready:
  assumes n: "noise_next st = (r, evs, st')" and s: "nf_state st = Ready"
  shows "evs = [] \<and> nf_state st' = Ready"
proof -
  obtain q s1 where q: "next_raw st = (q, s1)" by fastforce
  then have "nf_state s1 = Ready" using next_raw_state s by simp
  with n q show ?thesis
    by (subst (asm) noise_next.simps) (auto split: sum.splits option.splits prod.splits dest: noise_open_state)
qed

lemma noise_next_failed:
  "noise_next st = (r, evs, st') \<Longrightarrow> nf_state st = NFailed \<Longrightarrow> evs = [] \<and> nf_state st' = NFailed \<and> r \<noteq> Inr (FOk t p)"
  using noise_next_failed_absorbing [of st] by auto

text \<open>The frame the loop works on, and the state the matching handler leaves.\<close>

lemma noise_next_step:
  assumes "noise_next st = (r, evs, st')"
  shows "(\<exists>e. r = Inl e \<and> evs = [] \<and> nf_state st' = nf_state st) \<or> (r = Inr FNeedMore \<and> evs = [] \<and> nf_state st' = nf_state st) \<or>
    nf_state st = Ready \<or>
    (nf_state st = ExpectServerHello \<and> (\<exists>raw st1 evs1 st2 evs2. handle_server_hello raw st1 = (evs1, st2) \<and>
       noise_next st2 = (r, evs2, st') \<and> evs = evs1 @ evs2)) \<or>
    (nf_state st = ExpectHandshake \<and> (\<exists>raw st1 evs1 st2 evs2. handle_server_handshake raw st1 = (evs1, st2) \<and>
       noise_next st2 = (r, evs2, st') \<and> evs = evs1 @ evs2))"
proof -
  obtain q s1 where q: "next_raw st = (q, s1)" by fastforce
  then have s1: "nf_state s1 = nf_state st" by (rule next_raw_state)
  show ?thesis
    using assms q s1
    by (subst (asm) noise_next.simps) (auto split: sum.splits option.splits noise_state.splits prod.splits; blast)
qed

lemma handle_server_hello_phase:
  "handle_server_hello raw st = (evs, st') \<Longrightarrow>
   (evs = [] \<and> nf_state st' = ExpectHandshake) \<or> (\<exists>what. evs = [HError what]) \<and> nf_state st' = NFailed"
  by (auto simp: handle_server_hello_def report_error_def Let_def split: if_splits)

lemma handle_server_handshake_phase:
  "handle_server_handshake raw st = (evs, st') \<Longrightarrow>
   (evs = [HReady] \<and> nf_state st' = Ready) \<or> (\<exists>what. evs = [HError what]) \<and> nf_state st' = NFailed"
  by (auto simp: handle_server_handshake_def report_error_def split: if_splits prod.splits option.splits)

definition phase_step :: "noise_frame \<Rightarrow> frame_result \<Rightarrow> handshake_event list \<Rightarrow> noise_frame \<Rightarrow> bool" where
  "phase_step st r evs st' \<longleftrightarrow>
     ((evs = [] \<and> (nf_state st' = Ready \<longleftrightarrow> nf_state st = Ready)) \<or>
      (nf_state st \<noteq> Ready \<and> evs = [HReady] \<and> nf_state st' = Ready) \<or>
      (nf_state st \<noteq> Ready \<and> (\<exists>what. evs = [HError what]) \<and> nf_state st' = NFailed)) \<and>
     (\<forall>t p. r = Inr (FOk t p) \<longrightarrow> nf_state st' = Ready)"

lemma noise_next_phase_handshake:
  assumes n: "noise_next st = (r, evs, st')" and s: "nf_state st = ExpectHandshake"
  shows "phase_step st r evs st'"
  using noise_next_step [OF n] s
  by (auto simp: phase_step_def dest!: handle_server_handshake_phase dest: noise_next_ready noise_next_failed)

lemma noise_next_phase:
  assumes n: "noise_next st = (r, evs, st')"
  shows "phase_step st r evs st'"
proof (cases "nf_state st")
  case ExpectServerHello
  from noise_next_step [OF n] this show ?thesis
    by (auto simp: phase_step_def dest!: handle_server_hello_phase dest: noise_next_failed noise_next_phase_handshake)
next
  case ExpectHandshake
  with n show ?thesis by (rule noise_next_phase_handshake)
next
  case Ready
  with noise_next_ready [OF n] show ?thesis by (simp add: phase_step_def)
next
  case NFailed
  with noise_next_failed [OF n] show ?thesis by (auto simp: phase_step_def)
qed

lemma fh_next_phase:
  assumes "fh_next fh = (r, evs, fh')"
  shows "(evs = [] \<and> (handshake_done fh' \<longleftrightarrow> handshake_done fh)) \<or>
    (\<not> handshake_done fh \<and> evs = [HReady] \<and> handshake_done fh') \<or>
    (\<not> handshake_done fh \<and> (\<exists>what. evs = [HError what]) \<and> \<not> handshake_done fh')"
    and "r = Inr (FOk t p) \<Longrightarrow> handshake_done fh'"
  using assms noise_next_phase
  by (cases fh; fastforce simp: phase_step_def split: prod.splits)+

lemma fh_encode_phase: "fh_encode t p out fh = (w, fh') \<Longrightarrow> handshake_done fh' = handshake_done fh"
  by (cases fh) (auto simp: noise_encode_def Let_def split: prod.splits)

lemma fh_feed_phase [simp]: "handshake_done (fh_feed d fh) = handshake_done fh"
  by (cases fh) (simp_all add: noise_feed_def)

section \<open>The invariant\<close>

definition ka_off :: "'m conn \<Rightarrow> bool" where
  "ka_off c \<longleftrightarrow> c_ping_timer c = invalid_timer \<and> c_pong_timer c = invalid_timer \<and> \<not> c_awaiting_pong c"

fun is_done :: "'m effect \<Rightarrow> bool" where
  "is_done (Eff_done _) = True"
| "is_done _ = False"

definition dones :: "'m conn \<Rightarrow> nat" where
  "dones c = length (filter is_done (c_out c))"

fun past_handshake :: "conn_state \<Rightarrow> bool" where
  "past_handshake s \<longleftrightarrow> s \<in> {HelloSent, Connected, Closing, Closed}"

definition conn_inv :: "'m conn \<Rightarrow> bool" where
  "conn_inv c \<longleftrightarrow>
     (c_state c \<noteq> Connected \<longrightarrow> ka_off c) \<and>
     (c_awaiting_pong c \<longleftrightarrow> c_pong_timer c \<noteq> invalid_timer) \<and>
     (c_state c = Connected \<or> c_state c = Failed \<or> c_state c = Disconnected \<longrightarrow>
        c_connect_timer c = invalid_timer \<and> \<not> c_connect_handler c) \<and>
     dones c + (if c_connect_handler c then 1 else 0) \<le> 1 \<and>
     (c_state c = Disconnected \<longrightarrow> dones c = 0) \<and>
     (past_handshake (c_state c) \<longrightarrow> handshake_done (c_frame c)) \<and>
     ex_inv (c_executor c)"

lemma dones_emit [simp]: "dones (emit e c) = dones c + (if is_done e then 1 else 0)"
  by (simp add: dones_def emit_def)

lemmas field_defs = emit_def set_state_def stop_keepalive_def cancel_connect_timer_def finish_connect_def c_cancel_def
  c_schedule_def

section \<open>Every operation keeps it\<close>

text \<open>After \<open>stop_keepalive\<close> nothing of the keepalive is left, and nothing else changes.\<close>

lemma stop_keepalive_fields [simp]:
  "ka_off (stop_keepalive c)" "c_state (stop_keepalive c) = c_state c" "c_connect_timer (stop_keepalive c) = c_connect_timer c"
  "c_connect_handler (stop_keepalive c) = c_connect_handler c" "c_out (stop_keepalive c) = c_out c"
  "c_options (stop_keepalive c) = c_options c" "c_error_handler (stop_keepalive c) = c_error_handler c"
  "ex_inv (c_executor c) \<Longrightarrow> ex_inv (c_executor (stop_keepalive c))"
  "dones (stop_keepalive c) = dones c"
  by (simp_all add: ka_off_def stop_keepalive_def c_cancel_def Let_def ex_inv_cancel dones_def)

lemma cancel_connect_timer_fields [simp]:
  "c_connect_timer (cancel_connect_timer c) = invalid_timer" "c_state (cancel_connect_timer c) = c_state c"
  "c_connect_handler (cancel_connect_timer c) = c_connect_handler c" "c_out (cancel_connect_timer c) = c_out c"
  "ka_off (cancel_connect_timer c) = ka_off c" "c_options (cancel_connect_timer c) = c_options c"
  "c_error_handler (cancel_connect_timer c) = c_error_handler c"
  "c_awaiting_pong (cancel_connect_timer c) = c_awaiting_pong c" "c_pong_timer (cancel_connect_timer c) = c_pong_timer c"
  "c_ping_timer (cancel_connect_timer c) = c_ping_timer c"
  "ex_inv (c_executor c) \<Longrightarrow> ex_inv (c_executor (cancel_connect_timer c))"
  "dones (cancel_connect_timer c) = dones c"
  by (simp_all add: ka_off_def cancel_connect_timer_def c_cancel_def ex_inv_cancel dones_def)

lemma emit_fields [simp]:
  "c_state (emit e c) = c_state c" "c_connect_timer (emit e c) = c_connect_timer c" "c_connect_handler (emit e c) = c_connect_handler c"
  "c_executor (emit e c) = c_executor c" "ka_off (emit e c) = ka_off c" "c_options (emit e c) = c_options c"
  "c_error_handler (emit e c) = c_error_handler c" "c_awaiting_pong (emit e c) = c_awaiting_pong c"
  "c_pong_timer (emit e c) = c_pong_timer c" "c_ping_timer (emit e c) = c_ping_timer c" "c_out (emit e c) = c_out c @ [e]"
  by (simp_all add: emit_def ka_off_def)

lemma set_state_fields [simp]:
  "c_state (set_state s c) = s" "c_connect_timer (set_state s c) = c_connect_timer c"
  "c_connect_handler (set_state s c) = c_connect_handler c" "c_executor (set_state s c) = c_executor c"
  "ka_off (set_state s c) = ka_off c" "c_options (set_state s c) = c_options c" "c_error_handler (set_state s c) = c_error_handler c"
  "c_awaiting_pong (set_state s c) = c_awaiting_pong c" "c_pong_timer (set_state s c) = c_pong_timer c"
  "c_ping_timer (set_state s c) = c_ping_timer c" "dones (set_state s c) = dones c"
  by (simp_all add: set_state_def Let_def ka_off_def dones_def)

lemma finish_connect_fields [simp]:
  "c_state (finish_connect ec c) = c_state c" "c_connect_timer (finish_connect ec c) = c_connect_timer c"
  "\<not> c_connect_handler (finish_connect ec c)" "c_executor (finish_connect ec c) = c_executor c"
  "ka_off (finish_connect ec c) = ka_off c" "c_awaiting_pong (finish_connect ec c) = c_awaiting_pong c"
  "c_pong_timer (finish_connect ec c) = c_pong_timer c" "c_ping_timer (finish_connect ec c) = c_ping_timer c"
  "dones (finish_connect ec c) = dones c + (if c_connect_handler c then 1 else 0)"
  by (simp_all add: finish_connect_def ka_off_def dones_def)

lemma inv_emit: "conn_inv c \<Longrightarrow> \<not> is_done e \<Longrightarrow> conn_inv (emit e c)"
  by (simp add: conn_inv_def)

lemma inv_set_state:
  assumes "conn_inv c" "ka_off c" "s = HelloSent \<or> s = Closing \<or> s = Closed \<or> s = Connecting" "past_handshake s \<longrightarrow> handshake_done (c_frame c)"
  shows "conn_inv (set_state s c)"
  using assms by (auto simp: conn_inv_def ka_off_def)

lemma inv_stop_keepalive: "conn_inv c \<Longrightarrow> conn_inv (stop_keepalive c)"
  using stop_keepalive_fields [of c] by (auto simp: conn_inv_def ka_off_def)

lemma inv_finish_connect: "conn_inv c \<Longrightarrow> conn_inv (finish_connect ec c)"
  by (auto simp: conn_inv_def split: if_splits)

lemma fail_fields:
  assumes "conn_inv c"
  shows "c_state (fail ec what c) = (if terminated c then c_state c else Failed)"
  by (simp add: fail_def Let_def terminated_def)

lemma inv_failedI:
  assumes "c_state d = Failed" "ka_off d" "c_connect_timer d = invalid_timer" "\<not> c_connect_handler d" "dones d \<le> 1"
    "ex_inv (c_executor d)"
  shows "conn_inv d"
  using assms by (simp add: conn_inv_def ka_off_def)

lemma inv_fail:
  assumes "conn_inv c"
  shows "conn_inv (fail ec what c)"
proof (cases "c_state c = Failed \<or> c_state c = Closed")
  case False
  define d where "d = set_state Failed (emit Eff_close (cancel_connect_timer (stop_keepalive c)))"
  have d: "c_state d = Failed" "ka_off d" "c_connect_timer d = invalid_timer" "c_connect_handler d = c_connect_handler c"
      "dones d = dones c" "ex_inv (c_executor d)"
    using assms by (simp_all add: d_def conn_inv_def)
  have "dones c + (if c_connect_handler c then 1 else 0) \<le> 1" using assms by (simp add: conn_inv_def)
  then have "conn_inv (if c_connect_handler c then finish_connect ec d else if c_error_handler d then emit (Eff_error ec what) d else d)"
    using d by (auto intro!: inv_failedI)
  moreover have "fail ec what c = (if c_connect_handler c then finish_connect ec d else if c_error_handler d then emit (Eff_error ec what) d else d)"
    using False by (simp add: fail_def Let_def d_def)
  ultimately show ?thesis by simp
qed (use assms in \<open>simp add: fail_def\<close>)

lemma inv_close_down: "conn_inv c \<Longrightarrow> handshake_done (c_frame c) \<Longrightarrow> conn_inv (close_down c)"
  unfolding close_down_def by (intro inv_set_state inv_emit inv_stop_keepalive) simp_all

lemma inv_handle_pong: "conn_inv c \<Longrightarrow> conn_inv (handle_pong c)"
  by (auto simp: handle_pong_def Let_def conn_inv_def ka_off_def c_cancel_def ex_inv_cancel dones_def)

lemma inv_send_raw: "conn_inv c \<Longrightarrow> conn_inv (send_raw t p c)"
  by (auto simp: send_raw_def conn_inv_def ka_off_def dones_def fh_encode_phase split: prod.splits)

lemma inv_send: "keeps conn_inv (send rg m)"
  by (auto simp: keeps_def send_def inv_send_raw split: sum.splits)

lemma schedule_cases:
  assumes "ex_inv (c_executor c)" "c_schedule fn c = (i, c')"
  obtains ex where "c' = c\<lparr>c_executor := ex\<rparr>" "ex_inv ex" "i \<noteq> invalid_timer"
proof -
  obtain ex where s: "schedule_after fn (c_executor c) = (i, ex)" and c': "c' = c\<lparr>c_executor := ex\<rparr>"
    using assms(2) by (auto simp: c_schedule_def split: prod.splits)
  show thesis using that [OF c'] ex_inv_schedule [OF assms(1) s] by (simp add: invalid_timer_def)
qed

lemma inv_past: "conn_inv c \<Longrightarrow> past_handshake (c_state c) \<Longrightarrow> handshake_done (c_frame c)"
  unfolding conn_inv_def by blast

lemma conn_inv_ex: "conn_inv c \<Longrightarrow> ex_inv (c_executor c)"
  by (simp add: conn_inv_def)

lemma inv_executor: "conn_inv c \<Longrightarrow> ex_inv ex \<Longrightarrow> conn_inv (c\<lparr>c_executor := ex\<rparr>)"
  by (simp add: conn_inv_def ka_off_def dones_def)

lemma inv_new_ping:
  assumes "conn_inv c" "c_state c = Connected" "c_schedule Send_ping c = (i, c')"
  shows "conn_inv (c'\<lparr>c_ping_timer := i\<rparr>)"
proof -
  obtain ex where "c' = c\<lparr>c_executor := ex\<rparr>" "ex_inv ex" "i \<noteq> invalid_timer"
    by (rule schedule_cases [OF conn_inv_ex [OF assms(1)] assms(3)])
  then show ?thesis using assms(1,2) by (simp add: conn_inv_def dones_def)
qed

lemma inv_new_pong:
  assumes "conn_inv c" "c_state c = Connected" "c_schedule Pong_timeout (c\<lparr>c_awaiting_pong := True\<rparr>) = (i, c')"
  shows "conn_inv (c'\<lparr>c_pong_timer := i\<rparr>)"
proof -
  have "ex_inv (c_executor (c\<lparr>c_awaiting_pong := True\<rparr>))" using conn_inv_ex [OF assms(1)] by simp
  then obtain ex where "c' = c\<lparr>c_awaiting_pong := True, c_executor := ex\<rparr>" "ex_inv ex" "i \<noteq> invalid_timer"
    by (rule schedule_cases [OF _ assms(3)])
  then show ?thesis using assms(1,2) by (simp add: conn_inv_def dones_def)
qed

lemma inv_start_keepalive: "conn_inv c \<Longrightarrow> c_state c = Connected \<Longrightarrow> conn_inv (start_keepalive c)"
  by (auto simp: start_keepalive_def inv_new_ping split: prod.splits)

lemma start_keepalive_fields [simp]:
  "c_state (start_keepalive c) = c_state c" "c_connect_handler (start_keepalive c) = c_connect_handler c"
  by (simp_all add: start_keepalive_def c_schedule_def split: prod.splits)

lemma finish_start_keepalive: "finish_connect ec (start_keepalive c) = start_keepalive (finish_connect ec c)"
  by (simp add: start_keepalive_def finish_connect_def c_schedule_def emit_def split: prod.splits)

text \<open>Becoming connected: the completion callback runs, so the state satisfies the invariant only at the end.\<close>

lemma inv_hello_done:
  assumes "conn_inv c" "c_state c = HelloSent"
  shows "conn_inv (finish_connect Ec_ok (start_keepalive (set_state Connected (cancel_connect_timer c))))"
proof -
  let ?c = "set_state Connected (cancel_connect_timer c)"
  have a: "conn_inv (finish_connect Ec_ok ?c)"
    using assms by (auto simp: conn_inv_def ka_off_def split: if_splits)
  show ?thesis unfolding finish_start_keepalive using inv_start_keepalive [OF a] by simp
qed

lemma inv_hello_response: "conn_inv c \<Longrightarrow> conn_inv (handle_hello_response rg m c)"
proof -
  have h: "conn_inv (c\<lparr>c_hello := h\<rparr>)" if "conn_inv c" for h
    using that by (simp add: conn_inv_def ka_off_def dones_def)
  assume "conn_inv c"
  then show ?thesis
    by (auto simp: handle_hello_response_def Let_def intro!: inv_fail inv_hello_done h split: prod.splits)
qed

abbreviation talking :: "'m conn \<Rightarrow> bool" where
  "talking c \<equiv> conn_inv c \<and> handshake_done (c_frame c)"

lemma send_talking: "keeps talking (send rg m)"
proof (rule keepsI)
  fix c :: "'a conn" assume c: "talking c"
  have "handshake_done (c_frame (snd (send rg m c)))"
    using c by (auto simp: send_def send_raw_def fh_encode_phase split: sum.splits prod.splits)
  then show "talking (snd (send rg m c))" using c inv_send [of rg m] by (simp add: keeps_snd)
qed

lemma inv_handle_internal: "keeps talking (handle_internal rg t m)"
  by (rule keeps_handle_internal)
    (auto intro: inv_hello_response inv_fail inv_close_down inv_finish_connect inv_handle_pong
      keeps_snd [OF send_talking] send_talking)

lemma inv_handle_frame: "keeps talking (handle_frame rg t p)"
  by (rule keeps_handle_frame [OF _ inv_handle_internal]) (auto intro: inv_emit inv_fail elim!: is_done.elims)

abbreviation greeting :: "'m conn \<Rightarrow> bool" where
  "greeting c \<equiv> talking c \<and> ka_off c"

lemma send_greeting: "keeps greeting (send rg m)"
proof (rule keepsI)
  fix c :: "'a conn" assume c: "greeting c"
  have "ka_off (snd (send rg m c))"
    using c by (auto simp: ka_off_def send_def send_raw_def split: sum.splits prod.splits)
  then show "greeting (snd (send rg m c))" using c keeps_snd [OF send_talking [of rg m], of c] by blast
qed

lemma keeps_greet:
  assumes "\<And>m. keeps P (send rg m)" "\<And>c. P c \<Longrightarrow> P (set_state HelloSent c)"
  shows "keeps P (run_acts [send_hello rg, nothrow (set_state HelloSent)])"
proof (rule keeps_run_acts)
  fix a assume "a \<in> set [send_hello rg, nothrow (set_state HelloSent)]"
  then show "keeps P a" using keeps_send_hello [of P rg, OF assms(1)] keeps_nothrow [of P, OF assms(2)] by auto
qed

lemma greet_greeting: "keeps greeting (run_acts [send_hello rg, nothrow (set_state HelloSent)])"
  by (rule keeps_greet [OF send_greeting]) (auto intro: inv_set_state)

lemma inv_last_error: "conn_inv c \<Longrightarrow> conn_inv (c\<lparr>c_last_error := e\<rparr>)"
  by (simp add: conn_inv_def ka_off_def dones_def)

lemma inv_frame: "conn_inv c \<Longrightarrow> (past_handshake (c_state c) \<longrightarrow> handshake_done fh) \<Longrightarrow> conn_inv (c\<lparr>c_frame := fh\<rparr>)"
  by (simp add: conn_inv_def ka_off_def dones_def)

text \<open>The callbacks of one \<open>next\<close>, run on the state holding the helper it left.\<close>

lemma inv_callbacks:
  assumes c: "conn_inv c" and n: "fh_next (c_frame c) = (r, evs, fh)"
    and run: "run_acts (map (handshake_callback rg) evs) (c\<lparr>c_frame := fh\<rparr>) = (e, c1)"
  shows "conn_inv c1 \<and> ((\<exists>t p. r = Inr (FOk t p)) \<longrightarrow> handshake_done (c_frame c1))"
proof -
  have dn: "handshake_done fh" if "r = Inr (FOk t p)" for t p using fh_next_phase(2) [OF n that] .
  consider (quiet) "evs = []" "handshake_done fh \<longleftrightarrow> handshake_done (c_frame c)"
    | (ready) "\<not> handshake_done (c_frame c)" "evs = [HReady]" "handshake_done fh"
    | (error) what where "\<not> handshake_done (c_frame c)" "evs = [HError what]" "\<not> handshake_done fh"
    using fh_next_phase(1) [OF n] by blast
  then show ?thesis
  proof cases
    case quiet
    then have "conn_inv (c\<lparr>c_frame := fh\<rparr>)" using c by (intro inv_frame) (auto simp: conn_inv_def)
    then show ?thesis using run quiet dn by auto
  next
    case ready
    then have "\<not> past_handshake (c_state c)" using c by (auto simp: conn_inv_def)
    then have "greeting (c\<lparr>c_frame := fh\<rparr>)" using c ready inv_frame [of c fh] by (auto simp: conn_inv_def ka_off_def)
    moreover have "run_acts [send_hello rg, nothrow (set_state HelloSent)] (c\<lparr>c_frame := fh\<rparr>) = (e, c1)"
      using run ready by (simp add: handshake_callback_def split: prod.splits option.splits)
    ultimately show ?thesis using keepsD [OF greet_greeting] by blast
  next
    case error
    then have "conn_inv (c\<lparr>c_frame := fh\<rparr>)" using c by (intro inv_frame) (auto simp: conn_inv_def)
    then have "conn_inv c1"
      using run error by (auto simp: handshake_callback_def nothrow_def intro!: inv_fail inv_last_error)
    then show ?thesis using error dn by auto
  qed
qed

text \<open>
  One rule for the receive loop: \<open>P\<close> holds before every iteration, \<open>R\<close> before a frame is handled and
  \<open>Q\<close> wherever the loop can stop.
\<close>

lemma drain_frames_rule:
  assumes next_ok: "\<And>c r evs fh e1 c1. P c \<Longrightarrow> fh_next (c_frame c) = (r, evs, fh) \<Longrightarrow>
      run_acts (map (handshake_callback rg) evs) (c\<lparr>c_frame := fh\<rparr>) = (e1, c1) \<Longrightarrow>
      Q c1 \<and> ((\<exists>t p. r = Inr (FOk t p)) \<longrightarrow> R c1)"
    and frame_ok: "\<And>c1 t p e2 c2. R c1 \<Longrightarrow> handle_frame rg t p c1 = (e2, c2) \<Longrightarrow> Q c2 \<and> (\<not> terminated c2 \<longrightarrow> P c2)"
    and "P c" "drain_frames rg c = (e, c')"
  shows "Q c'"
  using assms
proof (induction rg c arbitrary: e c' rule: drain_frames.induct)
  case (1 rg c)
  obtain r evs fh where n: "fh_next (c_frame c) = (r, evs, fh)" by (metis prod_cases3)
  obtain e1 c1 where run: "run_acts (map (handshake_callback rg) evs) (c\<lparr>c_frame := fh\<rparr>) = (e1, c1)" by fastforce
  note c1 = 1(2) [OF 1(4) n run]
  show ?case
  proof (cases "\<exists>t p. e1 = None \<and> r = Inr (FOk t p)")
    case False
    then show ?thesis
      using 1(5) c1 n run by (subst (asm) drain_frames.simps) (auto split: option.splits sum.splits frame_status.splits)
  next
    case True
    then obtain t p where r: "e1 = None" "r = Inr (FOk t p)" by blast
    obtain e2 c2 where h: "handle_frame rg t p c1 = (e2, c2)" by fastforce
    have c2: "Q c2 \<and> (\<not> terminated c2 \<longrightarrow> P c2)" using 1(3) [OF _ h] c1 r by blast
    show ?thesis
    proof (cases "e2 = None \<and> \<not> terminated c2")
      case True
      have "drain_frames rg c = drain_frames rg c2" using n run r h True by (subst drain_frames.simps) simp
      then have d: "drain_frames rg c2 = (e, c')" using 1(5) by simp
      show ?thesis
        by (rule 1(1) [OF n [symmetric] refl run [symmetric] r(1,2) refl h [symmetric] _ _ 1(2,3) _ d]) (use True c2 in auto)
    next
      case False
      then show ?thesis using 1(5) n run r h c2
        by (subst (asm) drain_frames.simps) (auto split: option.splits if_splits)
    qed
  qed
qed

lemma inv_drain_frames: "conn_inv c \<Longrightarrow> drain_frames rg c = (e, c') \<Longrightarrow> conn_inv c'"
proof (rule drain_frames_rule [where P = conn_inv and Q = conn_inv and R = talking])
  fix c :: "'a conn" and r evs fh e1 c1
  assume "conn_inv c" "fh_next (c_frame c) = (r, evs, fh)"
    "run_acts (map (handshake_callback rg) evs) (c\<lparr>c_frame := fh\<rparr>) = (e1, c1)"
  then show "conn_inv c1 \<and> ((\<exists>t p. r = Inr (FOk t p)) \<longrightarrow> talking c1)" using inv_callbacks by blast
qed (use keepsD [OF inv_handle_frame] in blast)+

lemma inv_on_bytes: "keeps conn_inv (on_bytes rg ec data)"
proof (rule keepsI)
  fix c :: "'a conn" assume c: "conn_inv c"
  have f: "conn_inv (c\<lparr>c_frame := fh_feed data (c_frame c)\<rparr>)"
    using c by (intro inv_frame) (auto simp: conn_inv_def)
  show "conn_inv (snd (on_bytes rg ec data c))"
    using c inv_drain_frames [OF f, of rg]
    by (auto simp: on_bytes_def intro!: inv_fail inv_last_error split: prod.splits option.splits)
qed

lemma connect_bytes_phase: "connect_bytes rnd fh = (r, fh') \<Longrightarrow> handshake_done fh' = handshake_done fh"
  by (cases fh) (auto simp: noise_connect_bytes_def Let_def split: prod.splits sum.splits)

lemma inv_on_connected:
  assumes "conn_inv c" "c_state c \<noteq> Connected"
  shows "conn_inv (snd (on_connected_transport rg rnd ec c))"
proof (cases "needs_handshake (c_frame c)")
  case True
  have "conn_inv ((emit Eff_start_read c)\<lparr>c_frame := fh\<rparr>)" if "connect_bytes rnd (c_frame c) = (r, fh)" for r fh
    using inv_emit [OF assms(1), of Eff_start_read] connect_bytes_phase [OF that] assms(1)
    by (intro inv_frame) (auto simp: conn_inv_def)
  then show ?thesis
    using True assms by (auto simp: on_connected_transport_def Let_def intro: inv_fail inv_emit split: prod.splits sum.splits)
next
  case False
  then have "handshake_done (c_frame c)" by (cases "c_frame c") auto
  then have "greeting (emit Eff_start_read c)" using assms inv_emit [of c Eff_start_read] by (auto simp: conn_inv_def)
  from keeps_snd [where P = greeting, OF greet_greeting this] show ?thesis
    using False assms by (auto simp: on_connected_transport_def Let_def intro: inv_fail simp del: run_acts.simps run_acts_nothrow)
qed

lemma inv_pong_timeout: "conn_inv c \<Longrightarrow> c_awaiting_pong c \<Longrightarrow> conn_inv (fail ec what (c\<lparr>c_pong_timer := invalid_timer\<rparr>))"
proof -
  assume c: "conn_inv c" "c_awaiting_pong c"
  then have s: "c_state c = Connected" by (auto simp: conn_inv_def ka_off_def)
  define d where "d = c\<lparr>c_pong_timer := invalid_timer, c_awaiting_pong := False\<rparr>"
  have "stop_keepalive (c\<lparr>c_pong_timer := invalid_timer\<rparr>) = stop_keepalive d"
    by (simp add: stop_keepalive_def d_def c_cancel_def Let_def)
  then have "fail ec what (c\<lparr>c_pong_timer := invalid_timer\<rparr>) = fail ec what d"
    using s by (simp add: fail_def d_def)
  moreover have "conn_inv d" using c s by (simp add: d_def conn_inv_def dones_def)
  ultimately show ?thesis by (simp add: inv_fail)
qed

lemma inv_send_ping:
  assumes "conn_inv c"
  shows "conn_inv (snd (send_ping rg c))"
proof (cases "c_state c = Connected")
  case True
  let ?P = "\<lambda>c. conn_inv c \<and> c_state c = Connected"
  have 1: "keeps ?P (send rg m)" for m
  proof (rule keepsI)
    fix c :: "'a conn" assume c: "?P c"
    then have "c_state (snd (send rg m c)) = Connected"
      by (auto simp: send_def send_raw_def split: sum.splits prod.splits)
    then show "?P (snd (send rg m c))" using c inv_send [of rg m] by (simp add: keeps_snd)
  qed
  have 2: "keeps ?P (nothrow (\<lambda>c. if \<not> c_awaiting_pong c
       then case c_schedule Pong_timeout (c\<lparr>c_awaiting_pong := True\<rparr>) of (i, c) \<Rightarrow> c\<lparr>c_pong_timer := i\<rparr> else c))"
    by (rule keeps_nothrow) (auto intro: inv_new_pong split: prod.splits, auto simp: c_schedule_def split: prod.splits)
  have 3: "keeps ?P (nothrow (\<lambda>c. case c_schedule Send_ping c of (i, c) \<Rightarrow> c\<lparr>c_ping_timer := i\<rparr>))"
    by (rule keeps_nothrow) (auto intro: inv_new_ping split: prod.splits, auto simp: c_schedule_def split: prod.splits)
  show ?thesis
    unfolding send_ping_def using True
    by (simp del: run_acts.simps run_acts_nothrow)
      (rule keeps_snd [where P = ?P, OF keeps_run_acts, THEN conjunct1]; use assms True 1 2 3 in auto)
qed (use assms in \<open>simp add: send_ping_def\<close>)

lemma inv_run_timer: "conn_inv c \<Longrightarrow> conn_inv (snd (run_timer rg fn c))"
proof -
  assume c: "conn_inv c"
  have "conn_inv (c\<lparr>c_pong_timer := invalid_timer\<rparr>)" if "\<not> c_awaiting_pong c"
    using that c by (simp add: conn_inv_def ka_off_def dones_def)
  then show ?thesis
    using c by (cases fn) (auto simp: run_timer_def Let_def intro: inv_fail inv_send_ping inv_pong_timeout)
qed

lemma inv_start:
  assumes c: "conn_inv c" "c_state c = Disconnected"
  shows "conn_inv (start host port c)"
proof -
  define d where "d = set_state Connecting (c\<lparr>c_connect_handler := True, c_last_error := None\<rparr>)"
  obtain i c' where s: "c_schedule Connect_timeout d = (i, c')" by fastforce
  have "ex_inv (c_executor d)" using c by (simp add: d_def conn_inv_def)
  then obtain ex where "c' = d\<lparr>c_executor := ex\<rparr>" "ex_inv ex" by (rule schedule_cases [OF _ s])
  moreover have "dones d = 0" "ka_off d" using c by (auto simp: d_def conn_inv_def dones_def set_state_def Let_def ka_off_def)
  ultimately have "conn_inv (c'\<lparr>c_connect_timer := i\<rparr>)"
    by (simp add: conn_inv_def ka_off_def dones_def) (simp add: d_def)
  then show ?thesis using s by (simp add: start_def Let_def d_def [symmetric] inv_emit)
qed

lemma inv_disconnect: "conn_inv c \<Longrightarrow> conn_inv (snd (disconnect rg c))"
proof -
  assume c: "conn_inv c"
  have d: "conn_inv (set_state Closing (stop_keepalive c))" if "c_state c = Connected \<or> c_state c = HelloSent"
    using c that by (intro inv_set_state inv_stop_keepalive) (auto simp: conn_inv_def)
  have "conn_inv (emit (Eff_write_notify w) ((set_state Closing (stop_keepalive c))\<lparr>c_frame := fh\<rparr>))"
    if "c_state c = Connected \<or> c_state c = HelloSent" "fh_encode t p [] (c_frame c) = (w, fh)" for t p w fh
    using d [OF that(1)] fh_encode_phase [OF that(2)] that(1) c
    by (intro inv_emit inv_frame) (auto simp: conn_inv_def)
  then show ?thesis using c d by (auto simp: disconnect_def Let_def split: sum.splits prod.splits)
qed

section \<open>Every reachable world\<close>

text \<open>Once a disconnect is under way the connection only closes or fails.\<close>

abbreviation ending :: "'m conn \<Rightarrow> bool" where
  "ending c \<equiv> talking c \<and> c_state c \<in> {Closing, Closed, Failed}"

lemma fail_state: "c_state (fail ec what c) = (if c_state c = Failed \<or> c_state c = Closed then c_state c else Failed)"
  by (simp add: fail_def Let_def)

lemma close_down_state [simp]: "c_state (close_down c) = Closed"
  by (simp add: close_down_def)

lemma handle_pong_state [simp]: "c_state (handle_pong c) = c_state c"
  by (simp add: handle_pong_def Let_def c_cancel_def)

lemma send_raw_state [simp]: "c_state (send_raw t p c) = c_state c"
  by (simp add: send_raw_def split: prod.splits)

lemma send_state [simp]: "c_state (snd (send rg m c)) = c_state c"
  by (simp add: send_def split: sum.splits)

lemma send_ending: "keeps ending (send rg m)"
  using send_talking [of rg m] by (auto simp: keeps_def)

lemma handle_frame_ending: "keeps ending (handle_frame rg t p)"
proof (rule keeps_handle_frame)
  show "keeps ending (handle_internal rg t m)" for m
    by (rule keeps_handle_internal [OF _ _ send_ending])
      (auto simp: handle_hello_response_def fail_state intro: inv_fail inv_close_down inv_finish_connect inv_handle_pong)
qed (auto simp: fail_state intro: inv_emit inv_fail elim!: is_done.elims)

lemma drain_ending: "ending c \<Longrightarrow> drain_frames rg c = (e, c') \<Longrightarrow> ending c'"
proof (rule drain_frames_rule [where P = ending and Q = ending and R = ending])
  fix c :: "'a conn" and r evs fh e1 c1
  assume c: "ending c" and n: "fh_next (c_frame c) = (r, evs, fh)"
    and run: "run_acts (map (handshake_callback rg) evs) (c\<lparr>c_frame := fh\<rparr>) = (e1, c1)"
  have "evs = []" "handshake_done fh" using fh_next_phase(1) [OF n] c by auto
  then show "ending c1 \<and> ((\<exists>t p. r = Inr (FOk t p)) \<longrightarrow> ending c1)" using run c inv_frame [of c fh] by auto
qed (use keepsD [OF handle_frame_ending] in blast)+

lemma on_bytes_ending: "ending c \<Longrightarrow> ending (snd (on_bytes rg ec data c))"
proof -
  assume c: "ending c"
  then have f: "ending (c\<lparr>c_frame := fh_feed data (c_frame c)\<rparr>)" using inv_frame [of c] by auto
  show ?thesis
    using c drain_ending [OF f, of rg]
    by (auto simp: on_bytes_def fail_state intro!: inv_fail inv_last_error split: prod.splits option.splits)
qed

definition world_inv :: "'m world \<Rightarrow> bool" where
  "world_inv w \<longleftrightarrow> conn_inv (w_conn w) \<and>
     (w_connecting w \<longrightarrow> c_state (w_conn w) \<in> {Connecting, Failed} \<and> \<not> w_reading w \<and> w_notify w = 0) \<and>
     (0 < w_notify w \<longrightarrow> ending (w_conn w)) \<and>
     (c_state (w_conn w) = Disconnected \<longrightarrow> \<not> w_connecting w \<and> \<not> w_reading w \<and> w_notify w = 0)"

lemma world_inv_init: "world_inv (world_init n opts fh)"
  by (simp add: world_inv_def world_init_def conn_inv_def conn_init_def ka_off_def dones_def invalid_timer_def)

abbreviation alive :: "'m conn \<Rightarrow> bool" where
  "alive c \<equiv> c_state c \<noteq> Disconnected"

lemma send_alive: "keeps alive (send rg m)"
  by (simp add: keeps_def)

lemma handle_hello_response_state:
  "c_state (handle_hello_response rg m c) = c_state c \<or>
   (c_state c = HelloSent \<and> c_state (handle_hello_response rg m c) \<in> {Failed, Connected})"
  by (auto simp: handle_hello_response_def Let_def fail_state split: prod.splits)

lemma handle_frame_alive: "keeps alive (handle_frame rg t p)"
proof (rule keeps_handle_frame)
  show "keeps alive (handle_internal rg t m)" for m
  proof (rule keeps_handle_internal [OF _ _ send_alive])
    fix c :: "'a conn" assume "alive c"
    then show "alive (handle_hello_response rg m c)" using handle_hello_response_state [of rg m c] by auto
  qed (auto simp: fail_state)
qed (auto simp: fail_state)

lemma callbacks_alive: "keeps alive (run_acts (map (handshake_callback rg) evs))"
  by (rule keeps_run_acts) (auto intro!: keeps_handshake_callback send_alive simp: fail_state split: if_splits)

lemma drain_alive: "alive c \<Longrightarrow> drain_frames rg c = (e, c') \<Longrightarrow> alive c'"
proof (rule drain_frames_rule [where P = alive and Q = alive and R = alive])
  fix c :: "'a conn" and r evs fh e1 c1
  assume "alive c" "run_acts (map (handshake_callback rg) evs) (c\<lparr>c_frame := fh\<rparr>) = (e1, c1)"
  then show "alive c1 \<and> ((\<exists>t p. r = Inr (FOk t p)) \<longrightarrow> alive c1)"
    using keepsD [OF callbacks_alive, of "c\<lparr>c_frame := fh\<rparr>"] by auto
qed (use keepsD [OF handle_frame_alive] in blast)+

lemma on_bytes_alive: "alive c \<Longrightarrow> alive (snd (on_bytes rg ec data c))"
  using drain_alive [of "c\<lparr>c_frame := fh_feed data (c_frame c)\<rparr>" rg]
  by (auto simp: on_bytes_def fail_state split: prod.splits option.splits if_splits)

lemma on_connected_alive: "alive c \<Longrightarrow> alive (snd (on_connected_transport rg rnd ec c))"
proof -
  assume c: "alive c"
  have "keeps alive (run_acts [send_hello rg, nothrow (set_state HelloSent)])"
    by (rule keeps_greet [OF send_alive]) simp
  from keeps_snd [OF this, of "emit Eff_start_read c"] c show ?thesis
    by (auto simp: on_connected_transport_def Let_def fail_state split: prod.splits sum.splits
        simp del: run_acts.simps run_acts_nothrow)
qed

lemma send_ping_state [simp]: "c_state (snd (send_ping rg c)) = c_state c"
proof (cases "c_state c = Connected")
  case True
  let ?P = "\<lambda>d. c_state d = c_state c"
  show ?thesis
    unfolding send_ping_def using True
    by (simp del: run_acts.simps run_acts_nothrow)
      (rule keeps_snd [where P = ?P and c = c, OF keeps_run_acts, unfolded True];
        auto simp: keeps_def nothrow_def c_schedule_def split: prod.splits)
qed (simp add: send_ping_def)

lemma run_timer_state:
  "c_state (snd (run_timer rg fn c)) = c_state c \<or> (\<not> terminated c \<and> c_state (snd (run_timer rg fn c)) = Failed)"
  by (cases fn) (auto simp: run_timer_def Let_def fail_state terminated_def)

lemma run_timer_frame: "ending c \<Longrightarrow> ending (snd (run_timer rg fn c))"
proof -
  assume c: "ending c"
  then have "c_state c \<noteq> Connected" by auto
  then have "c_frame (snd (run_timer rg fn c)) = c_frame c"
    by (cases fn) (auto simp: run_timer_def send_ping_def Let_def)
  then show ?thesis using c run_timer_state [of rg fn c] inv_run_timer [of c rg fn] by auto
qed

lemma install_fields:
  assumes f: "f \<in> range on_handler \<union> {on_any, on_raw, on_state, on_error}"
  shows "c_state (f c) = c_state c" "c_frame (f c) = c_frame c" "c_out (f c) = c_out c" "conn_inv (f c) = conn_inv c"
proof -
  have h: "conn_inv (c\<lparr>c_handlers := b\<rparr>) = conn_inv c" "conn_inv (c\<lparr>c_any_handler := a\<rparr>) = conn_inv c"
    "conn_inv (c\<lparr>c_raw_handler := a\<rparr>) = conn_inv c" "conn_inv (c\<lparr>c_state_handler := a\<rparr>) = conn_inv c"
    "conn_inv (c\<lparr>c_error_handler := a\<rparr>) = conn_inv c" for a b
    by (simp_all add: conn_inv_def ka_off_def dones_def)
  note defs = on_handler_def on_any_def on_raw_def on_state_def on_error_def
  show "c_state (f c) = c_state c" using f by (elim UnE rangeE insertE emptyE) (simp_all add: defs)
  show "c_frame (f c) = c_frame c" using f by (elim UnE rangeE insertE emptyE) (simp_all add: defs)
  show "c_out (f c) = c_out c" using f by (elim UnE rangeE insertE emptyE) (simp_all add: defs)
  show "conn_inv (f c) = conn_inv c" using f by (elim UnE rangeE insertE emptyE) (simp_all add: defs h)
qed

lemma start_state: "c_state (start host port c) = Connecting"
  by (simp add: start_def Let_def c_schedule_def split: prod.splits)

lemma disconnect_state:
  "c_state (snd (disconnect rg c)) = (if c_state c = Connected \<or> c_state c = HelloSent then Closing else c_state c)"
  by (auto simp: disconnect_def Let_def split: sum.splits prod.splits)

lemma disconnect_frame: "handshake_done (c_frame (snd (disconnect rg c))) = handshake_done (c_frame c)"
  by (auto simp: disconnect_def Let_def fh_encode_phase split: sum.splits prod.splits)

lemma world_inv_step: "conn_step rg w ev w' \<Longrightarrow> world_inv w \<Longrightarrow> world_inv w'"
proof (induction rule: conn_step.induct)
  case (step_install f w)
  then show ?case by (simp add: world_inv_def install_fields)
next
  case (step_start w host port)
  then show ?case by (simp add: world_inv_def inv_start start_state)
next
  case (step_connected w ec rnd)
  then show ?case
    using on_connected_alive [of "w_conn w" rg rnd ec] inv_on_connected [of "w_conn w" rg rnd ec]
    by (auto simp: world_inv_def)
next
  case (step_bytes w ec data)
  then show ?case
    using on_bytes_alive [of "w_conn w" rg ec data] on_bytes_ending [of "w_conn w" rg ec data]
      keeps_snd [OF inv_on_bytes, of "w_conn w" rg ec data]
    by (auto simp: world_inv_def)
next
  case (step_expire w i)
  then show ?case by (auto simp: world_inv_def inv_executor conn_inv_ex ex_inv_expire)
next
  case (step_fire i w fn ex)
  from step_fire have c: "conn_inv (w_conn w)" by (simp add: world_inv_def)
  have "conn_inv ((w_conn w)\<lparr>c_executor := ex\<rparr>)"
    by (rule inv_executor [OF c ex_inv_take [OF conn_inv_ex [OF c] step_fire(1)]])
  then show ?case
    using step_fire run_timer_state [of rg fn "(w_conn w)\<lparr>c_executor := ex\<rparr>"] run_timer_frame [of "(w_conn w)\<lparr>c_executor := ex\<rparr>" rg fn]
    by (auto simp: world_inv_def inv_run_timer terminated_def)
next
  case (step_send w t p)
  then have "handshake_done (c_frame (send_raw t p (w_conn w))) = handshake_done (c_frame (w_conn w))"
    by (auto simp: send_raw_def fh_encode_phase split: prod.splits)
  with step_send show ?case by (simp add: world_inv_def inv_send_raw)
next
  case (step_disconnect w)
  then have c: "conn_inv (w_conn w)" by (simp add: world_inv_def)
  from step_disconnect show ?case
    using inv_disconnect [OF c, of rg] disconnect_state [of rg "w_conn w"] disconnect_frame [of rg "w_conn w"]
      inv_past [OF c]
    by (auto simp: world_inv_def notifies_def)
next
  case (step_written w)
  then have c: "ending (w_conn w)" by (simp add: world_inv_def)
  then have "ka_off (w_conn w)" by (auto simp: conn_inv_def)
  with c have "conn_inv (disconnect_written (w_conn w))"
    unfolding disconnect_written_def by (intro inv_set_state inv_emit) simp_all
  with step_written c show ?case by (auto simp: world_inv_def disconnect_written_def)
qed

lemma world_inv_reach: "conn_reach rg w0 w \<Longrightarrow> world_inv w0 \<Longrightarrow> world_inv w"
  by (induction rule: conn_reach.induct) (auto intro: world_inv_step)

section \<open>The order of the states\<close>

text \<open>The documented order, with \<open>Failed\<close> before \<open>Closed\<close>: a disconnect write may complete after a failure.\<close>

fun state_rank :: "conn_state \<Rightarrow> nat" where
  "state_rank Disconnected = 0"
| "state_rank Connecting = 1"
| "state_rank HelloSent = 2"
| "state_rank Connected = 3"
| "state_rank Closing = 4"
| "state_rank Failed = 5"
| "state_rank Closed = 6"

lemma state_rank_le: "state_rank s \<le> 6" "state_rank s = 6 \<longleftrightarrow> s = Closed" "state_rank s \<ge> 5 \<longleftrightarrow> s = Failed \<or> s = Closed"
  by (cases s; simp)+

text \<open>No successful completion of the transport reaches a connection that has already failed.\<close>

fun orderly :: "'m world \<Rightarrow> 'm conn_event \<Rightarrow> bool" where
  "orderly w (Ev_connected ec _) = (ec = Ec_ok \<longrightarrow> c_state (w_conn w) \<noteq> Failed)"
| "orderly w (Ev_bytes ec _) = (ec = Ec_ok \<longrightarrow> c_state (w_conn w) \<noteq> Failed)"
| "orderly w _ = True"

lemma fail_rank: "state_rank (c_state c) \<le> state_rank (c_state (fail ec what c))"
  by (cases "c_state c") (simp_all add: fail_state)

lemma handle_frame_rank: "keeps (\<lambda>c. r \<le> state_rank (c_state c)) (handle_frame rg t p)"
proof (rule keeps_handle_frame)
  show "keeps (\<lambda>c. r \<le> state_rank (c_state c)) (handle_internal rg t m)" for m
  proof (rule keeps_handle_internal)
    fix c :: "'a conn" assume r: "r \<le> state_rank (c_state c)"
    show "r \<le> state_rank (c_state (handle_hello_response rg m c))"
      using handle_hello_response_state [of rg m c] r by auto
    show "r \<le> state_rank (c_state (close_down c))" using r state_rank_le(1) [of "c_state c"] by simp
  qed (auto intro: order_trans [OF _ fail_rank] simp: keeps_def)
qed (auto intro: order_trans [OF _ fail_rank])

lemma drain_rank:
  assumes "conn_inv c \<and> r \<le> state_rank (c_state c) \<and> c_state c \<noteq> Failed" "drain_frames rg c = (e, c')"
  shows "conn_inv c' \<and> r \<le> state_rank (c_state c')"
proof (rule drain_frames_rule [where P = "\<lambda>c. conn_inv c \<and> r \<le> state_rank (c_state c) \<and> c_state c \<noteq> Failed"
      and Q = "\<lambda>c. conn_inv c \<and> r \<le> state_rank (c_state c)" and R = "\<lambda>c. talking c \<and> r \<le> state_rank (c_state c)",
      OF _ _ assms])
  fix c1 c2 :: "'a conn" and t p e2
  assume c1: "talking c1 \<and> r \<le> state_rank (c_state c1)" and h: "handle_frame rg t p c1 = (e2, c2)"
  show "(conn_inv c2 \<and> r \<le> state_rank (c_state c2)) \<and> (\<not> terminated c2 \<longrightarrow> conn_inv c2 \<and> r \<le> state_rank (c_state c2) \<and> c_state c2 \<noteq> Failed)"
    using keepsD [OF inv_handle_frame _ h] keepsD [OF handle_frame_rank [of r] _ h] c1 by (auto simp: terminated_def)
next
  fix c :: "'a conn" and q evs fh e1 c1
  assume c: "conn_inv c \<and> r \<le> state_rank (c_state c) \<and> c_state c \<noteq> Failed" and n: "fh_next (c_frame c) = (q, evs, fh)"
    and run: "run_acts (map (handshake_callback rg) evs) (c\<lparr>c_frame := fh\<rparr>) = (e1, c1)"
  have "r \<le> state_rank (c_state c1)"
  proof (cases "evs = [HReady]")
    case True
    have k: "keeps (\<lambda>c. r \<le> state_rank (c_state c) \<and> state_rank (c_state c) \<le> 2) (handshake_callback rg HReady)"
      unfolding handshake_callback_def handshake_event.case
      by (rule keeps_greet) (auto simp: keeps_def)
    have "\<not> handshake_done (c_frame c)" using fh_next_phase(1) [OF n] True by auto
    then have "\<not> past_handshake (c_state c)" using c inv_past by blast
    then have "state_rank (c_state c) \<le> 2" using c by (cases "c_state c") auto
    then show ?thesis using keepsD [OF k, of "c\<lparr>c_frame := fh\<rparr>"] run c True by (auto split: prod.splits option.splits)
  next
    case False
    then consider "evs = []" | what where "evs = [HError what]" using fh_next_phase(1) [OF n] by blast
    then show ?thesis
      using run c by cases (auto simp: handshake_callback_def nothrow_def intro!: order_trans [OF _ fail_rank])
  qed
  with inv_callbacks [OF _ n run] c
  show "(conn_inv c1 \<and> r \<le> state_rank (c_state c1)) \<and> ((\<exists>t p. q = Inr (FOk t p)) \<longrightarrow> talking c1 \<and> r \<le> state_rank (c_state c1))"
    by blast
qed

lemma on_bytes_rank:
  assumes "conn_inv c" "ec = Ec_ok \<longrightarrow> c_state c \<noteq> Failed"
  shows "state_rank (c_state c) \<le> state_rank (c_state (snd (on_bytes rg ec data c)))"
proof (cases "ec = Ec_ok")
  case True
  let ?c = "c\<lparr>c_frame := fh_feed data (c_frame c)\<rparr>"
  have "conn_inv ?c" using assms inv_past by (intro inv_frame) auto
  then have "state_rank (c_state c) \<le> state_rank (c_state c')" if "drain_frames rg ?c = (e, c')" for e c'
    using drain_rank [OF _ that, of "state_rank (c_state c)"] assms True by simp
  then show ?thesis
    using True by (auto simp: on_bytes_def split: prod.splits option.splits intro: order_trans [OF _ fail_rank])
qed (use assms fail_rank in \<open>auto simp: on_bytes_def\<close>)

lemma conn_step_rank:
  "conn_step rg w ev w' \<Longrightarrow> world_inv w \<Longrightarrow> orderly w ev \<Longrightarrow>
   state_rank (c_state (w_conn w)) \<le> state_rank (c_state (w_conn w'))"
proof (induction rule: conn_step.induct)
  case (step_install f w)
  then show ?case by (simp add: install_fields)
next
  case (step_connected w ec rnd)
  have k: "keeps (\<lambda>c. state_rank (c_state c) \<in> {1, 2}) (run_acts [send_hello rg, nothrow (set_state HelloSent)])"
    by (rule keeps_greet) (auto simp: keeps_def)
  show ?case
  proof (cases "ec = Ec_ok")
    case True
    then have "c_state (w_conn w) = Connecting" using step_connected by (auto simp: world_inv_def)
    then show ?thesis
      using True keeps_snd [OF k, of "emit Eff_start_read (w_conn w)"]
      by (auto simp: on_connected_transport_def Let_def split: prod.splits sum.splits simp del: run_acts.simps run_acts_nothrow)
  qed (simp add: on_connected_transport_def fail_rank)
next
  case (step_bytes w ec data)
  then show ?case by (simp add: world_inv_def on_bytes_rank)
next
  case (step_fire i w fn ex)
  then show ?case
    using run_timer_state [of rg fn "(w_conn w)\<lparr>c_executor := ex\<rparr>"] by (cases "c_state (w_conn w)") (auto simp: terminated_def)
next
  case (step_disconnect w)
  then show ?case by (auto simp: disconnect_state)
next
  case (step_written w)
  then show ?case by (simp add: disconnect_written_def state_rank_le)
qed (simp_all add: start_state)

end
