(* ===== verification/Connection_Props.thy ===== *)
theory Connection_Props
  imports Connection_Inv
begin

text \<open>
  Properties of whole executions of the connection: the completion callback is accounted for, messages
  reach their handlers in order, deadlines end in failure, and traces that show where the code and its
  documentation differ.  A small concrete message layer, \<open>demo\<close>, serves for the traces and witnesses.
\<close>

section \<open>The completion callback is accounted for\<close>

text \<open>Callbacks already run plus callbacks still armed: only \<open>start\<close> changes the sum.\<close>

definition owed :: "'m conn \<Rightarrow> nat" where
  "owed c = dones c + (if c_connect_handler c then 1 else 0)"

lemma owed_simps [simp]:
  "owed (emit e c) = owed c + (if is_done e then 1 else 0)" "owed (set_state s c) = owed c"
  "owed (stop_keepalive c) = owed c" "owed (cancel_connect_timer c) = owed c" "owed (finish_connect ec c) = owed c"
  "owed (c\<lparr>c_frame := fh\<rparr>) = owed c" "owed (c\<lparr>c_executor := ex\<rparr>) = owed c" "owed (c\<lparr>c_last_error := le\<rparr>) = owed c"
  "owed (c\<lparr>c_hello := h\<rparr>) = owed c" "owed (c\<lparr>c_ping_timer := i\<rparr>) = owed c" "owed (c\<lparr>c_pong_timer := i\<rparr>) = owed c"
  "owed (c\<lparr>c_awaiting_pong := b\<rparr>) = owed c"
  by (simp_all add: owed_def) (simp_all add: dones_def)

lemma owed_fail [simp]: "owed (fail ec what c) = owed c"
  by (simp add: fail_def Let_def)

lemma owed_close_down [simp]: "owed (close_down c) = owed c"
  by (simp add: close_down_def)

lemma owed_handle_pong [simp]: "owed (handle_pong c) = owed c"
  by (simp add: handle_pong_def Let_def c_cancel_def)

lemma owed_start_keepalive [simp]: "owed (start_keepalive c) = owed c"
  by (simp add: start_keepalive_def c_schedule_def split: prod.split)

lemma owed_hello_response [simp]: "owed (handle_hello_response rg m c) = owed c"
  by (simp add: handle_hello_response_def Let_def split: prod.split)

lemma owed_send_raw [simp]: "owed (send_raw t p c) = owed c"
  by (simp add: send_raw_def split: prod.split)

abbreviation owes :: "nat \<Rightarrow> 'm conn \<Rightarrow> bool" where
  "owes k c \<equiv> owed c = k"

lemma send_owes: "keeps (owes k) (send rg m)"
  by (auto simp: keeps_def send_def split: sum.splits)

lemma not_done: "\<forall>ec. e \<noteq> Eff_done ec \<Longrightarrow> \<not> is_done e"
  by (cases e) auto

lemma handle_frame_owes: "keeps (owes k) (handle_frame rg t p)"
  by (intro keeps_handle_frame keeps_handle_internal send_owes) (simp_all add: not_done)

lemma callbacks_owes: "keeps (owes k) (run_acts (map (handshake_callback rg) evs))"
  by (rule keeps_run_acts) (auto intro!: keeps_handshake_callback send_owes)

lemma drain_owes:
  assumes "drain_frames rg c = (e, c')"
  shows "owed c' = owed c"
proof (rule drain_frames_rule [where P = "owes (owed c)" and Q = "owes (owed c)" and R = "owes (owed c)", OF _ _ refl assms])
  fix d d1 :: "'a conn" and r evs fh e1
  assume d: "owed d = owed c" and run: "run_acts (map (handshake_callback rg) evs) (d\<lparr>c_frame := fh\<rparr>) = (e1, d1)"
  have "owed d1 = owed c" by (rule keepsD [OF callbacks_owes _ run]) (simp add: d)
  then show "owed d1 = owed c \<and> ((\<exists>t p. r = Inr (FOk t p)) \<longrightarrow> owed d1 = owed c)" by blast
next
  fix d d2 :: "'a conn" and t p e2
  assume "owed d = owed c" "handle_frame rg t p d = (e2, d2)"
  then show "owed d2 = owed c \<and> (\<not> terminated d2 \<longrightarrow> owed d2 = owed c)"
    using keepsD [OF handle_frame_owes [of "owed c"]] by blast
qed

lemma on_bytes_owes: "owed (snd (on_bytes rg ec data c)) = owed c"
  using drain_owes [of rg "c\<lparr>c_frame := fh_feed data (c_frame c)\<rparr>"]
  by (auto simp: on_bytes_def split: prod.splits option.splits)

lemma on_connected_owes: "owed (snd (on_connected_transport rg rnd ec c)) = owed c"
proof -
  have "owed (snd (run_acts [send_hello rg, nothrow (set_state HelloSent)] (emit Eff_start_read c))) = owed c"
    by (rule keeps_snd [where P = "owes (owed c)", OF keeps_greet]) (simp_all add: send_owes)
  then show ?thesis
    by (auto simp: on_connected_transport_def Let_def split: prod.splits sum.splits simp del: run_acts.simps run_acts_nothrow)
qed

lemma send_ping_owes: "owed (snd (send_ping rg c)) = owed c"
proof -
  have "keeps (owes (owed c)) (run_acts [send rg (rg_ping_request rg),
         nothrow (\<lambda>c. if \<not> c_awaiting_pong c
                      then case c_schedule Pong_timeout (c\<lparr>c_awaiting_pong := True\<rparr>) of (i, c) \<Rightarrow> c\<lparr>c_pong_timer := i\<rparr>
                      else c),
         nothrow (\<lambda>c. case c_schedule Send_ping c of (i, c) \<Rightarrow> c\<lparr>c_ping_timer := i\<rparr>)])"
    by (rule keeps_run_acts) (auto intro!: keeps_nothrow send_owes simp: c_schedule_def split: prod.split)
  from keeps_snd [OF this refl] show ?thesis
    by (simp add: send_ping_def del: run_acts.simps run_acts_nothrow)
qed

lemma run_timer_owes: "owed (snd (run_timer rg fn c)) = owed c"
  by (cases fn) (simp_all add: run_timer_def send_ping_owes Let_def)

lemma disconnect_owes: "owed (snd (disconnect rg c)) = owed c"
  by (auto simp: disconnect_def Let_def split: sum.splits prod.splits)

lemma start_owes: "owed (start host port c) = dones c + 1"
proof -
  have o: "owed (set_state Connecting (c\<lparr>c_connect_handler := True, c_last_error := None\<rparr>)) = dones c + 1"
    by (simp only: owed_simps) (simp add: owed_def dones_def)
  have t: "owed (c\<lparr>c_executor := ex, c_connect_timer := i\<rparr>) = owed c" for ex i and c :: "'a conn"
    by (simp add: owed_def dones_def)
  show ?thesis
    using o by (simp add: start_def Let_def c_schedule_def t split: prod.split del: owed_simps(2,8))
qed

lemma install_owes:
  assumes "f \<in> range on_handler \<union> {on_any, on_raw, on_state, on_error}"
  shows "owed (f c) = owed c"
  using assms
  by (auto simp: owed_def dones_def on_handler_def on_any_def on_raw_def on_state_def on_error_def split: if_splits)

definition settled :: "'m world \<Rightarrow> bool" where
  "settled w \<longleftrightarrow> owed (w_conn w) = (if c_state (w_conn w) = Disconnected then 0 else 1) \<and>
     (c_state (w_conn w) = Disconnected \<longrightarrow> ex_timers (c_executor (w_conn w)) = [])"

lemma install_executor:
  assumes "f \<in> range on_handler \<union> {on_any, on_raw, on_state, on_error}"
  shows "c_executor (f c) = c_executor c"
  using assms by (auto simp: on_handler_def on_any_def on_raw_def on_state_def on_error_def split: if_splits)

lemma send_raw_executor: "c_executor (send_raw t p c) = c_executor c"
  by (simp add: send_raw_def split: prod.split)

lemma disconnect_idle: "c_state c = Disconnected \<Longrightarrow> snd (disconnect rg c) = c"
  by (simp add: disconnect_def)

lemma settled_step: "conn_step rg w ev w' \<Longrightarrow> world_inv w \<Longrightarrow> settled w \<Longrightarrow> settled w'"
proof (induction rule: conn_step.induct)
  case (step_install f w)
  then show ?case by (simp add: settled_def install_owes install_fields install_executor)
next
  case (step_start w host port)
  then show ?case by (simp add: settled_def start_owes start_state world_inv_def conn_inv_def)
next
  case (step_connected w ec rnd)
  then have "c_state (w_conn w) \<noteq> Disconnected" by (auto simp: world_inv_def)
  then show ?case
    using step_connected on_connected_alive [of "w_conn w" rg rnd ec] by (simp add: settled_def on_connected_owes)
next
  case (step_bytes w ec data)
  then have "c_state (w_conn w) \<noteq> Disconnected" by (auto simp: world_inv_def)
  then show ?case
    using step_bytes on_bytes_alive [of "w_conn w" rg ec data] by (simp add: settled_def on_bytes_owes)
next
  case (step_fire i w fn ex)
  let ?c = "(w_conn w)\<lparr>c_executor := ex\<rparr>"
  have "owed (snd (run_timer rg fn ?c)) = owed (w_conn w)" by (simp add: run_timer_owes)
  moreover have "c_state (w_conn w) \<noteq> Disconnected"
    using step_fire by (auto simp: settled_def ex_take_def)
  ultimately show ?case
    using step_fire run_timer_state [of rg fn ?c] by (auto simp: settled_def)
next
  case (step_disconnect w)
  then show ?case by (auto simp: settled_def disconnect_owes disconnect_state disconnect_idle)
next
  case (step_written w)
  then show ?case by (auto simp: settled_def disconnect_written_def world_inv_def)
qed (simp_all add: settled_def send_raw_executor ex_expire_def)

lemma settled_reach:
  assumes "conn_reach rg (world_init n opts fh) w"
  shows "world_inv w \<and> settled w"
  using assms
proof (induction rule: conn_reach.induct)
  case reach_refl
  show ?case using world_inv_init
    by (simp add: settled_def owed_def dones_def world_init_def conn_init_def executor_init_def)
next
  case (reach_step w ev w')
  then show ?case using world_inv_step settled_step by blast
qed

section \<open>Delivery to the handlers\<close>

text \<open>The ids the connection answers itself; any other known message goes to the application.\<close>

definition internal_id :: "u32 \<Rightarrow> bool" where
  "internal_id t \<longleftrightarrow> t \<in> {id_HelloResponse, id_AuthenticationResponse, id_DisconnectRequest, id_DisconnectResponse,
     id_PingRequest, id_PingResponse}"

definition app_message :: "'m registry \<Rightarrow> u32 \<times> bytes \<Rightarrow> bool" where
  "app_message rg m \<longleftrightarrow> \<not> internal_id (fst m) \<and> (rg_contains rg (fst m) \<longrightarrow> rg_parse rg (fst m) (snd m) \<noteq> None)"

text \<open>What the handlers see of one message: raw bytes, then the typed handler, then the catch-all.\<close>

definition dispatched :: "'m registry \<Rightarrow> 'm conn \<Rightarrow> u32 \<times> bytes \<Rightarrow> 'm effect list" where
  "dispatched rg c m =
     (if c_raw_handler c then [Eff_raw (fst m) (snd m)] else []) @
     (if \<not> rg_contains rg (fst m) then []
      else case rg_parse rg (fst m) (snd m) of None \<Rightarrow> []
      | Some x \<Rightarrow>
          (if unat (fst m) < length (c_handlers c) \<and> c_handlers c ! unat (fst m) then [Eff_message (fst m) x] else []) @
          (if c_any_handler c then [Eff_any x] else []))"

lemma dispatched_cong [simp]:
  "dispatched rg (c\<lparr>c_frame := fh\<rparr>) = dispatched rg c" "dispatched rg (c\<lparr>c_out := es\<rparr>) = dispatched rg c"
  by (simp_all add: dispatched_def fun_eq_iff split: option.split)

lemma handle_internal_app: "\<not> internal_id t \<Longrightarrow> handle_internal rg t m c = (None, c)"
  by (simp add: internal_id_def handle_internal_def)

lemma handle_frame_app:
  assumes "app_message rg (t, p)" "\<not> terminated c"
  shows "handle_frame rg t p c = (None, c\<lparr>c_out := c_out c @ dispatched rg c (t, p)\<rparr>)"
  using assms
  by (auto simp: handle_frame_def app_message_def handle_internal_app dispatched_def terminated_def emit_def Let_def
      split: option.splits)

text \<open>The frame helper as a receiver of a byte stream, once its handshake is done.\<close>

definition fh_nxt :: "frame_helper \<Rightarrow> frame_result \<times> frame_helper" where
  "fh_nxt fh = (case fh_next fh of (r, evs, fh') \<Rightarrow> (r, fh'))"

lemma fh_nxt_quiet:
  assumes "handshake_done fh" "fh_nxt fh = (r, fh')"
  shows "fh_next fh = (r, [], fh') \<and> handshake_done fh'"
proof -
  obtain evs where n: "fh_next fh = (r, evs, fh')" using assms(2) by (auto simp: fh_nxt_def split: prod.splits)
  then have "evs = []" using fh_next_phase(1) [OF n] assms(1) by auto
  with n show ?thesis using fh_next_phase(1) [OF n] assms(1) by auto
qed

lemma drain_dispatches:
  assumes "handshake_done (c_frame c)" "\<not> terminated c" "pump fh_nxt n (c_frame c) = (ms, None, fh)"
    and "length ms < n" "list_all (app_message rg) ms"
  shows "drain_frames rg c = (None, c\<lparr>c_frame := fh, c_out := c_out c @ concat (map (dispatched rg c) ms)\<rparr>) \<and>
    handshake_done fh"
  using assms
proof (induction n arbitrary: c ms)
  case (Suc n)
  obtain r fh1 where x: "fh_nxt (c_frame c) = (r, fh1)" by fastforce
  note q = fh_nxt_quiet [OF Suc.prems(1) x]
  show ?case
  proof (cases "\<exists>t p. r = Inr (FOk t p)")
    case False
    then have "ms = []" "fh = fh1" "r = Inr FNeedMore"
      using Suc.prems(3) x by (auto split: sum.splits frame_status.splits prod.splits)
    then show ?thesis using q by (subst drain_frames.simps) simp
  next
    case True
    then obtain t p where r: "r = Inr (FOk t p)" by blast
    obtain ms' where ms: "ms = (t, p) # ms'" and p: "pump fh_nxt n fh1 = (ms', None, fh)"
      using Suc.prems(3) x r by (auto split: prod.splits)
    let ?c1 = "c\<lparr>c_frame := fh1\<rparr>"
    let ?c2 = "?c1\<lparr>c_out := c_out c @ dispatched rg c (t, p)\<rparr>"
    have h: "handle_frame rg t p ?c1 = (None, ?c2)"
      using handle_frame_app [of rg t p ?c1] Suc.prems(2,5) by (simp add: ms terminated_def)
    have t: "\<not> terminated ?c2" using Suc.prems(2) by (simp add: terminated_def)
    have "drain_frames rg ?c2 = (None, ?c2\<lparr>c_frame := fh, c_out := c_out ?c2 @ concat (map (dispatched rg ?c2) ms')\<rparr>) \<and>
        handshake_done fh"
      by (rule Suc.IH) (use q p Suc.prems(4,5) t in \<open>simp_all add: ms\<close>)
    then show ?thesis using q r h t by (subst drain_frames.simps) (simp add: ms)
  qed
qed simp

text \<open>Successful reads, one after the other.\<close>

definition read_all :: "'m registry \<Rightarrow> bytes list \<Rightarrow> 'm conn \<Rightarrow> 'm conn" where
  "read_all rg cs c = fold (\<lambda>data c. snd (on_bytes rg Ec_ok data c)) cs c"

lemma on_bytes_dispatches:
  assumes "handshake_done (c_frame c)" "\<not> terminated c" "pump fh_nxt n (fh_feed d (c_frame c)) = (ms, None, fh)"
    and "length ms < n" "list_all (app_message rg) ms"
  shows "on_bytes rg Ec_ok d c = (None, c\<lparr>c_frame := fh, c_out := c_out c @ concat (map (dispatched rg c) ms)\<rparr>) \<and> handshake_done fh"
  using drain_dispatches [of "c\<lparr>c_frame := fh_feed d (c_frame c)\<rparr>" n ms fh rg] assms by (simp add: on_bytes_def terminated_def)

lemma read_all_dispatches:
  assumes "handshake_done (c_frame c)" "\<not> terminated c" "receive fh_feed fh_nxt n cs (c_frame c) = (ms, None, fh)"
    and "length ms < n" "list_all (app_message rg) ms"
  shows "read_all rg cs c = c\<lparr>c_frame := fh, c_out := c_out c @ concat (map (dispatched rg c) ms)\<rparr>"
  using assms
proof (induction cs arbitrary: c ms)
  case Nil
  then show ?case by (simp add: read_all_def)
next
  case (Cons d cs)
  obtain ms1 fh1 ms2 where p: "pump fh_nxt n (fh_feed d (c_frame c)) = (ms1, None, fh1)"
    and rest: "receive fh_feed fh_nxt n cs fh1 = (ms2, None, fh)" and ms: "ms = ms1 @ ms2"
    using Cons.prems(3) by (auto split: prod.splits option.splits)
  let ?c1 = "c\<lparr>c_frame := fh1, c_out := c_out c @ concat (map (dispatched rg c) ms1)\<rparr>"
  have b: "on_bytes rg Ec_ok d c = (None, ?c1)" "handshake_done fh1"
    using on_bytes_dispatches [OF Cons.prems(1,2) p, of rg] Cons.prems(4,5) by (simp_all add: ms)
  have "read_all rg cs ?c1 = ?c1\<lparr>c_frame := fh, c_out := c_out ?c1 @ concat (map (dispatched rg ?c1) ms2)\<rparr>"
    by (rule Cons.IH) (use b(2) rest Cons.prems(2,4,5) in \<open>simp_all add: ms terminated_def\<close>)
  moreover have "dispatched rg ?c1 = dispatched rg c" by (simp add: dispatched_def fun_eq_iff split: option.split)
  ultimately show ?case by (simp add: read_all_def b ms)
qed

text \<open>Both codecs, seen through the dispatch.\<close>

lemma pump_plain: "pump fh_nxt n (FHPlain st) = (case pump plain_next n st of (ms, e, st') \<Rightarrow> (ms, e, FHPlain st'))"
  by (induction n arbitrary: st) (auto simp: fh_nxt_def split: prod.splits sum.splits frame_status.splits)

lemma receive_plain:
  "receive fh_feed fh_nxt n cs (FHPlain st) = (case receive plain_feed plain_next n cs st of (ms, e, st') \<Rightarrow> (ms, e, FHPlain st'))"
  by (induction cs arbitrary: st) (auto simp: pump_plain split: prod.splits option.splits)

lemma pump_noise: "pump fh_nxt n (FHNoise st) = (case pump noise_nxt n st of (ms, e, st') \<Rightarrow> (ms, e, FHNoise st'))"
  by (induction n arbitrary: st) (auto simp: fh_nxt_def noise_nxt_def split: prod.splits sum.splits frame_status.splits)

lemma receive_noise:
  "receive fh_feed fh_nxt n cs (FHNoise st) = (case receive noise_feed noise_nxt n cs st of (ms, e, st') \<Rightarrow> (ms, e, FHNoise st'))"
  by (induction cs arbitrary: st) (auto simp: pump_noise split: prod.splits option.splits)

lemma plain_received:
  assumes "plain_holds () st []" "list_all plain_ok ms" "concat cs = concat (map (\<lambda>m. plain_encode (fst m) (snd m) []) ms)"
  shows "\<exists>st'. receive fh_feed fh_nxt (Suc (length ms)) cs (FHPlain st) = (ms, None, FHPlain st') \<and> plain_holds () st' []"
proof -
  have e: "encode_all plain_enc () ms = (concat (map (\<lambda>m. plain_encode (fst m) (snd m) []) ms), ())" for ms
    by (induction ms) (simp_all add: plain_enc_def)
  show ?thesis
    using plain.receive_all [of "()" st ms cs "()" "Suc (length ms)"] e [of ms] assms plain_enc_nonempty
    by (auto simp: receive_plain)
qed

lemma noise_received:
  assumes "noise_holds dev st []" "list_all noise_ok ms" "encode_all noise_enc dev ms = (concat cs, dev')"
  shows "\<exists>st'. receive fh_feed fh_nxt (Suc (length ms)) cs (FHNoise st) = (ms, None, FHNoise st') \<and> noise_holds dev' st' []"
  using noise.receive_all [OF assms(1,3,2), of "Suc (length ms)"] noise_enc_nonempty by (auto simp: receive_noise)

section \<open>A concrete message layer\<close>

text \<open>Messages that are their own encoding: the type id and the payload.\<close>

definition demo :: "(u32 \<times> bytes) registry" where
  "demo = \<lparr>rg_contains = (\<lambda>t. unat t \<le> 200), rg_parse = (\<lambda>t p. Some (t, p)), rg_id = fst,
     rg_size = (\<lambda>m. length (snd m)), rg_encode = snd, rg_hello_request = (\<lambda>info major minor. (1, [])),
     rg_auth_request = (\<lambda>pw. (3, [])), rg_disconnect_request = (5, []), rg_disconnect_response = (6, []),
     rg_ping_request = (7, []), rg_ping_response = (8, []),
     rg_hello_response = (\<lambda>m. (if snd m = [] then 1 else 0x80000000, 10, [], [])),
     rg_invalid_password = (\<lambda>m. snd m \<noteq> [])\<rparr>"

definition demo_options :: conn_options where
  "demo_options = \<lparr>op_client_info = [], op_expected_name = [], op_login = False, op_password = [], op_keepalive_interval = 20\<rparr>"

definition demo_conn :: "(u32 \<times> bytes) conn" where
  "demo_conn = conn_init 200 demo_options (FHPlain plain_init)"

lemma reach_start:
  "conn_reach demo (world_init 200 demo_options (FHPlain plain_init))
     \<lparr>w_conn = start [] 6053 demo_conn, w_connecting = True, w_reading = False, w_notify = 0\<rparr>"
proof -
  have "conn_step demo (world_init 200 demo_options (FHPlain plain_init)) (Ev_start [] 6053)
      ((world_init 200 demo_options (FHPlain plain_init))
        \<lparr>w_conn := start [] 6053 (w_conn (world_init 200 demo_options (FHPlain plain_init))), w_connecting := True\<rparr>)"
    by (rule step_start) (simp add: world_init_def conn_init_def)
  from reach_step [OF reach_refl this] show ?thesis by (simp add: world_init_def demo_conn_def)
qed

section \<open>Deadlines and greetings\<close>

lemma set_state_out: "x \<in> set (c_out c) \<Longrightarrow> x \<in> set (c_out (set_state s c))"
  by (simp add: set_state_def Let_def)

lemma finish_connect_out:
  "x \<in> set (c_out c) \<Longrightarrow> x \<in> set (c_out (finish_connect ec c))"
  "c_connect_handler c \<Longrightarrow> Eff_done ec \<in> set (c_out (finish_connect ec c))"
  by (simp_all add: finish_connect_def)

lemma dones_frame [simp]: "dones (c\<lparr>c_frame := fh\<rparr>) = dones c"
  by (simp add: dones_def)

lemma fail_effect:
  assumes "\<not> terminated c"
  shows "c_state (fail ec what c) = Failed \<and> ka_off (fail ec what c) \<and> c_connect_timer (fail ec what c) = invalid_timer \<and>
    Eff_close \<in> set (c_out (fail ec what c)) \<and>
    (if c_connect_handler c then Eff_done ec \<in> set (c_out (fail ec what c))
     else c_error_handler c \<longrightarrow> Eff_error ec what \<in> set (c_out (fail ec what c)))"
  using assms
  by (auto simp: fail_def terminated_def Let_def set_state_out finish_connect_out)

lemma fail_hello [simp]: "c_hello (fail ec what c) = c_hello c"
  by (simp add: fail_def set_state_def finish_connect_def emit_def cancel_connect_timer_def stop_keepalive_def c_cancel_def Let_def)

lemma connected_hello:
  "c_hello (finish_connect Ec_ok (start_keepalive (set_state Connected (cancel_connect_timer c)))) = c_hello c"
  by (simp add: set_state_def finish_connect_def emit_def cancel_connect_timer_def start_keepalive_def c_schedule_def
      c_cancel_def Let_def split: prod.split)

lemma hello_response_major:
  assumes "rg_hello_response rg m = (major, minor, info, name)"
  shows "c_state c = HelloSent \<Longrightarrow> sh_major (c_hello (handle_hello_response rg m c)) = sint major \<and>
    sh_name (c_hello (handle_hello_response rg m c)) = name"
  using assms by (simp add: handle_hello_response_def Let_def connected_hello)

lemma start_keepalive_out [simp]: "c_out (start_keepalive c) = c_out c" "c_connect_timer (start_keepalive c) = c_connect_timer c"
  by (simp_all add: start_keepalive_def c_schedule_def split: prod.split)

lemma fail_handler: "\<not> terminated c \<Longrightarrow> \<not> c_connect_handler (fail ec what c)"
  by (simp add: fail_def terminated_def Let_def)

lemma hello_response_cases:
  assumes r: "rg_hello_response rg m = (major, minor, info, name)"
  shows "let d = handle_hello_response rg m c;
             bad = (sint major > 2 \<or> (op_expected_name (c_options c) \<noteq> [] \<and> name \<noteq> [] \<and> name \<noteq> op_expected_name (c_options c)))
         in if c_state c \<noteq> HelloSent then d = c
            else c_state d = (if bad then Failed else Connected) \<and> c_connect_timer d = invalid_timer \<and>
              \<not> c_connect_handler d \<and> sh_name (c_hello d) = name \<and>
              (c_connect_handler c \<longrightarrow> Eff_done (if bad then Ec_protocol_error else Ec_ok) \<in> set (c_out d))"
proof (cases "c_state c = HelloSent")
  case True
  let ?c = "c\<lparr>c_hello := \<lparr>sh_major = sint major, sh_minor = sint minor, sh_server_info = info, sh_name = name\<rparr>\<rparr>"
  have t: "\<not> terminated ?c" using True by (simp add: terminated_def)
  have f: "c_state (fail ec what ?c) = Failed \<and> c_connect_timer (fail ec what ?c) = invalid_timer \<and>
      \<not> c_connect_handler (fail ec what ?c) \<and> (c_connect_handler c \<longrightarrow> Eff_done ec \<in> set (c_out (fail ec what ?c)))" for ec what
    using fail_effect [OF t, of ec what] fail_handler [OF t, of ec what] by simp
  show ?thesis
    unfolding Let_def using hello_response_major [OF r True] True f
    by (auto simp: handle_hello_response_def r Let_def finish_connect_out)
qed (simp add: handle_hello_response_def Let_def)

lemma unat_high_bit:
  fixes w :: u32
  assumes "2 ^ 31 \<le> unat w"
  shows "sint w < 0"
proof -
  have "unat w < 2 ^ 31 * 2" using unsigned_less [of w, where ?'a = nat] by simp
  then have "unat w div 2 ^ 31 = 1" using assms by (intro div_nat_eqI) simp_all
  then have "bit (unat w) 31" by (simp add: bit_iff_odd)
  then have "bit w (LENGTH(32) - Suc 0)" by (simp add: bit_unsigned_iff)
  then show ?thesis by (simp only: bit_last_iff)
qed

section \<open>The receive loop ends\<close>

text \<open>
  The loop cut after \<open>n\<close> rounds: \<open>None\<close> when it has not ended by then.
\<close>

fun drain_upto :: "nat \<Rightarrow> 'm registry \<Rightarrow> 'm conn \<Rightarrow> (api_error option \<times> 'm conn) option" where
  "drain_upto 0 rg c = None"
| "drain_upto (Suc n) rg c =
     (case fh_next (c_frame c) of
        (r, evs, fh) \<Rightarrow>
          (case run_acts (map (handshake_callback rg) evs) (c\<lparr>c_frame := fh\<rparr>) of
             (Some e, c1) \<Rightarrow> Some (Some e, c1)
           | (None, c1) \<Rightarrow>
               (case r of
                  Inl e \<Rightarrow> Some (Some e, c1)
                | Inr FNeedMore \<Rightarrow> Some (None, c1)
                | Inr (FOk t p) \<Rightarrow>
                    (case handle_frame rg t p c1 of
                       (Some e, c2) \<Rightarrow> Some (Some e, c2)
                     | (None, c2) \<Rightarrow> if terminated c2 then Some (None, c2) else drain_upto n rg c2))))"

lemma drain_upto_enough: "length (fh_pending (c_frame c)) < n \<Longrightarrow> drain_upto n rg c = Some (drain_frames rg c)"
proof (induction n arbitrary: c)
  case (Suc n)
  have "drain_upto n rg c2 = Some (drain_frames rg c2)"
    if "fh_next (c_frame c) = (Inr (FOk t p), evs, fh)" "run_acts (map (handshake_callback rg) evs) (c\<lparr>c_frame := fh\<rparr>) = (None, c1)"
      "handle_frame rg t p c1 = (None, c2)" for t p evs fh c1 c2
    using Suc.IH [of c2] Suc.prems drain_progress [OF that] by simp
  then show ?case
    by (subst drain_frames.simps) (simp split: prod.split option.split sum.split frame_status.split)
qed simp

lemma fh_pending_feed: "length (fh_pending (fh_feed data fh)) \<le> length (fh_pending fh) + length data"
  by (cases fh) (simp_all add: plain_pending_def plain_feed_def noise_pending_def noise_feed_def)

section \<open>Properties\<close>

text \<open>
  C2: the completion callback of \<^verbatim>\<open>start\<close>, over every interleaving of network, timer and application
  events.  It never runs twice, and never both has run and is still armed; and whenever the connection is
  connected or has failed, it has run exactly once.
\<close>

theorem connect_callback_once:
  assumes "conn_reach rg (world_init n opts fh) w"
  shows "let c = w_conn w; k = length (filter is_done (c_out c)) in
     k = (if c_state c = Disconnected \<or> c_connect_handler c then 0 else 1) \<and>
     (c_state c = Connected \<or> c_state c = Failed \<longrightarrow> k = 1)"
proof -
  have "conn_inv (w_conn w)" "owed (w_conn w) = (if c_state (w_conn w) = Disconnected then 0 else 1)"
    using settled_reach [OF assms] by (simp_all add: world_inv_def settled_def)
  then show ?thesis
    by (auto simp: Let_def owed_def conn_inv_def dones_def [symmetric] split: if_splits)
qed

theorem connect_callback_once_witness:
  "c_connect_handler (start [] 6053 demo_conn) \<and> filter is_done (c_out (start [] 6053 demo_conn)) = []"
  using connect_callback_once [OF reach_start]
  by (simp add: Let_def start_def c_schedule_def schedule_after_def demo_conn_def conn_init_def set_state_def split: if_splits)





text \<open>
  C22: the states only move forward, in the order \<open>Disconnected\<close>, \<open>Connecting\<close>, \<open>HelloSent\<close>, \<open>Connected\<close>,
  \<open>Closing\<close>, \<open>Failed\<close>, \<open>Closed\<close>, on every step of every execution, except when a successful transport
  completion that was already queued reaches a connection that has failed in the meantime.
\<close>

theorem states_monotone:
  assumes "conn_reach rg (world_init n opts fh) w" "conn_step rg w ev w'" "orderly w ev"
  shows "state_rank (c_state (w_conn w)) \<le> state_rank (c_state (w_conn w'))"
  using conn_step_rank [OF assms(2) _ assms(3)] settled_reach [OF assms(1)] by blast

theorem states_monotone_witness:
  "state_rank Connecting \<le> state_rank (c_state (snd (disconnect demo (start [] 6053 demo_conn))))"
proof -
  let ?w = "\<lparr>w_conn = start [] 6053 demo_conn, w_connecting = True, w_reading = False, w_notify = 0\<rparr> :: (u32 \<times> bytes) world"
  have "orderly ?w Ev_disconnect" by simp
  from states_monotone [OF reach_start step_disconnect this] show ?thesis by (simp add: start_state)
qed

text \<open>
  C18: delivery through a plaintext connection.  However the bytes of a list of application messages are
  cut into reads, a live connection hands each message to its handlers exactly once and in order (raw
  handler, typed handler, catch-all), and nothing else about the connection changes.
\<close>

theorem plaintext_messages_dispatched:
  assumes "c_frame c = FHPlain plain_init" "\<not> terminated c" "list_all plain_ok ms" "list_all (app_message rg) ms"
    and "concat cs = concat (map (\<lambda>m. plain_encode (fst m) (snd m) []) ms)"
  shows "\<exists>fh. read_all rg cs c = c\<lparr>c_frame := fh, c_out := c_out c @ concat (map (dispatched rg c) ms)\<rparr> \<and> fh_pending fh = []"
proof -
  have "plain_holds () plain_init []" by (simp add: plain_holds_def plain_inv_def plain_pending_def plain_init_def)
  from plain_received [OF this assms(3,5)] obtain st
    where r: "receive fh_feed fh_nxt (Suc (length ms)) cs (c_frame c) = (ms, None, FHPlain st)" "plain_pending st = []"
    by (auto simp: assms(1) plain_holds_def)
  from read_all_dispatches [OF _ assms(2) r(1) _ assms(4)] r(2) assms(1) show ?thesis by auto
qed

theorem plaintext_messages_dispatched_witness:
  "\<exists>fh. read_all demo [[0x00, 0x01], [0x09, 0xAA]] (demo_conn\<lparr>c_state := Connected, c_any_handler := True\<rparr>) =
     demo_conn\<lparr>c_state := Connected, c_any_handler := True, c_frame := fh, c_out := [Eff_any (9, [0xAA])]\<rparr>"
proof -
  let ?c = "demo_conn\<lparr>c_state := Connected, c_any_handler := True\<rparr>"
  have "dispatched demo ?c (9, [0xAA]) = [Eff_any (9, [0xAA])]"
    by (simp add: dispatched_def demo_def demo_conn_def conn_init_def nth_replicate)
  then show ?thesis
    using plaintext_messages_dispatched [of ?c "[(9, [0xAA])]" demo "[[0x00, 0x01], [0x09, 0xAA]]"]
    by (auto simp: demo_conn_def conn_init_def terminated_def plain_ok_def max_frame_payload_def app_message_def
        internal_id_def demo_def id_HelloResponse_def id_AuthenticationResponse_def id_DisconnectRequest_def
        id_DisconnectResponse_def id_PingRequest_def id_PingResponse_def plain_encode_def plain_indicator_def
        append_varint_eq leb128.simps)
qed

text \<open>
  C19: delivery through an encrypted connection in step with its peer: every application message the
  device encrypts reaches the handlers exactly once and in order, for every way of cutting the bytes
  into reads.
\<close>

theorem encrypted_messages_dispatched:
  assumes "c_frame c = FHNoise st" "noise_holds dev st []" "\<not> terminated c"
    and "list_all noise_ok ms" "list_all (app_message rg) ms" "encode_all noise_enc dev ms = (concat cs, dev')"
  shows "\<exists>st'. read_all rg cs c = c\<lparr>c_frame := FHNoise st', c_out := c_out c @ concat (map (dispatched rg c) ms)\<rparr> \<and>
    noise_holds dev' st' []"
proof -
  from noise_received [OF assms(2,4,6)] obtain st'
    where r: "receive fh_feed fh_nxt (Suc (length ms)) cs (c_frame c) = (ms, None, FHNoise st')" "noise_holds dev' st' []"
    by (auto simp: assms(1))
  from read_all_dispatches [OF _ assms(3) r(1) _ assms(5)] assms(1,2) r(2) show ?thesis
    by (auto simp: noise_holds_def)
qed

theorem encrypted_messages_dispatched_witness:
  "let k = initialize_key (replicate 32 1) cipher_blank;
       st = \<lparr>nf_psk = [], nf_expected_name = [], nf_server_name = [], nf_handshake = handshake_blank,
             nf_encrypt = k, nf_decrypt = k, nf_state = Ready, nf_buffer = [], nf_consumed = 0, nf_plaintext = []\<rparr>;
       c = demo_conn\<lparr>c_state := Connected, c_raw_handler := True, c_frame := FHNoise st\<rparr>
   in \<exists>st'. c_out (read_all demo [fst (encode_all noise_enc st [(199, [0xAA])])] c) = [Eff_raw 199 [0xAA]] \<and>
        c_frame (read_all demo [fst (encode_all noise_enc st [(199, [0xAA])])] c) = FHNoise st'"
proof -
  define k where "k = initialize_key (replicate 32 1) cipher_blank"
  define st where "st = \<lparr>nf_psk = [], nf_expected_name = [], nf_server_name = [], nf_handshake = handshake_blank,
             nf_encrypt = k, nf_decrypt = k, nf_state = Ready, nf_buffer = [], nf_consumed = 0, nf_plaintext = []\<rparr>"
  define c where "c = demo_conn\<lparr>c_state := Connected, c_raw_handler := True, c_frame := FHNoise st\<rparr>"
  have h: "noise_holds st st []"
    by (simp add: noise_holds_def st_def k_def initialize_key_def noise_inv_def noise_pending_def)
  have "dispatched demo c (199, [0xAA]) = [Eff_raw 199 [0xAA]]"
    by (simp add: dispatched_def demo_def c_def demo_conn_def conn_init_def nth_replicate)
  then show ?thesis
    using encrypted_messages_dispatched [of c st st "[(199, [0xAA])]" demo "[fst (encode_all noise_enc st [(199, [0xAA])])]"
        "snd (encode_all noise_enc st [(199, [0xAA])])"] h
    by (auto simp: c_def demo_conn_def conn_init_def terminated_def noise_ok_def app_message_def Let_def
        internal_id_def demo_def id_HelloResponse_def id_AuthenticationResponse_def id_DisconnectRequest_def
        id_DisconnectResponse_def id_PingRequest_def id_PingResponse_def st_def [symmetric] k_def [symmetric])
qed

text \<open>
  the decision on the device's hello.  In \<open>HelloSent\<close>, a major version above 2 or an unexpected name
  fails the connection with a protocol error; otherwise it becomes connected, the connect timer is gone
  and the callback reports success.  Outside \<open>HelloSent\<close> the message changes nothing.
\<close>

theorem hello_response_decides:
  assumes "rg_hello_response rg m = (major, minor, info, name)"
  shows "let d = handle_hello_response rg m c;
             bad = (sint major > 2 \<or> (op_expected_name (c_options c) \<noteq> [] \<and> name \<noteq> [] \<and> name \<noteq> op_expected_name (c_options c)))
         in if c_state c \<noteq> HelloSent then d = c
            else c_state d = (if bad then Failed else Connected) \<and> c_connect_timer d = invalid_timer \<and>
              \<not> c_connect_handler d \<and> sh_name (c_hello d) = name \<and>
              (c_connect_handler c \<longrightarrow> Eff_done (if bad then Ec_protocol_error else Ec_ok) \<in> set (c_out d))"
  by (rule hello_response_cases [OF assms])

theorem hello_response_decides_witness:
  "c_state (handle_hello_response demo (2, []) (demo_conn\<lparr>c_state := HelloSent, c_connect_handler := True\<rparr>)) = Connected"
  using hello_response_decides [of demo "(2, [])" 1 10 "[]" "[]" "demo_conn\<lparr>c_state := HelloSent, c_connect_handler := True\<rparr>"]
  by (simp add: demo_def Let_def demo_conn_def conn_init_def demo_options_def)

text \<open>
  The version check is made after a cast to \<^verbatim>\<open>int\<close>: a major version of 2^31 or more turns negative and
  passes the test for versions above 2.
\<close>

theorem hello_version_wraps:
  assumes "c_state c = HelloSent" "op_expected_name (c_options c) = []"
    and "rg_hello_response rg m = (major, minor, info, name)" "2 ^ 31 \<le> unat major"
  shows "c_state (handle_hello_response rg m c) = Connected \<and> sh_major (c_hello (handle_hello_response rg m c)) < 0"
proof -
  have "sint major < 0"
    by (rule unat_high_bit [OF assms(4)])
  then show ?thesis
    using hello_response_cases [OF assms(3), of c] assms(1-3) hello_response_major [OF assms(3), of c]
    by (simp add: Let_def)
qed

theorem hello_version_wraps_witness:
  "c_state (handle_hello_response demo (2, [0x01]) (demo_conn\<lparr>c_state := HelloSent\<rparr>)) = Connected"
  using hello_version_wraps [of "demo_conn\<lparr>c_state := HelloSent\<rparr>" demo "(2, [0x01])" "0x80000000" 10 "[]" "[]"]
  by (simp add: demo_def demo_conn_def conn_init_def demo_options_def)

text \<open>
  C40: the deadlines.  When the connect timer fires before the connection is established, or the pong timer
  while a pong is awaited, the connection fails: its timers are gone, the transport is closed and the
  application is told \<open>timed_out\<close>, through the completion callback if that is still armed and through the
  error handler otherwise.
\<close>

theorem deadlines_fail:
  assumes "\<not> terminated c" "fn = Connect_timeout \<and> c_state c \<noteq> Connected \<or> fn = Pong_timeout \<and> c_awaiting_pong c"
  shows "let d = snd (run_timer rg fn c) in
     c_state d = Failed \<and> c_ping_timer d = invalid_timer \<and> c_pong_timer d = invalid_timer \<and> c_connect_timer d = invalid_timer \<and>
     Eff_close \<in> set (c_out d) \<and>
     (if c_connect_handler c then Eff_done Ec_timed_out \<in> set (c_out d)
      else c_error_handler c \<longrightarrow> (\<exists>what. Eff_error Ec_timed_out what \<in> set (c_out d)))"
  using assms fail_effect [of c Ec_timed_out "''handshake timed out''"]
    fail_effect [of "c\<lparr>c_pong_timer := invalid_timer\<rparr>" Ec_timed_out "''keepalive pong timed out''"]
  by (auto simp: run_timer_def Let_def terminated_def ka_off_def)

theorem deadlines_fail_witness:
  "c_state (snd (run_timer demo Pong_timeout (demo_conn\<lparr>c_state := Connected, c_awaiting_pong := True\<rparr>))) = Failed"
  using deadlines_fail [of "demo_conn\<lparr>c_state := Connected, c_awaiting_pong := True\<rparr>" Pong_timeout demo]
  by (simp add: Let_def terminated_def)

text \<open>
  A pong that arrives in time does not always save the connection.  If the pong timer has already
  expired and its handler is queued, cancelling it has no effect; when the next ping has been sent before
  the handler runs, the handler finds a pong awaited and fails the live connection.
\<close>

theorem stale_pong_timer:
  assumes "c_state c = Connected" "c_pong_timer c = i" "i \<noteq> invalid_timer"
    and "ex_timers (c_executor c) = [\<lparr>tm_id = i, tm_fn = Pong_timeout, tm_expired = True\<rparr>]" "i < ex_next_id (c_executor c)"
    and "serialize rg (rg_ping_request rg) = Inr payload"
  shows "\<exists>ex. ex_take i (c_executor (snd (send_ping rg (handle_pong c)))) = Some (Pong_timeout, ex) \<and>
    c_state (snd (run_timer rg Pong_timeout ((snd (send_ping rg (handle_pong c)))\<lparr>c_executor := ex\<rparr>))) = Failed"
  using assms
  by (auto simp: send_ping_def handle_pong_def c_cancel_def ex_cancel_def Let_def send_def send_raw_def nothrow_def c_schedule_def
      schedule_after_def ex_take_def run_timer_def fail_state split: prod.splits)

theorem stale_pong_timer_witness:
  "let c = demo_conn\<lparr>c_state := Connected, c_pong_timer := 1, c_awaiting_pong := True,
         c_executor := \<lparr>ex_next_id = 2, ex_timers = [\<lparr>tm_id = 1, tm_fn = Pong_timeout, tm_expired = True\<rparr>]\<rparr>\<rparr>
   in \<exists>ex. ex_take 1 (c_executor (snd (send_ping demo (handle_pong c)))) = Some (Pong_timeout, ex)"
  using stale_pong_timer [of "demo_conn\<lparr>c_state := Connected, c_pong_timer := 1, c_awaiting_pong := True,
         c_executor := \<lparr>ex_next_id = 2, ex_timers = [\<lparr>tm_id = 1, tm_fn = Pong_timeout, tm_expired = True\<rparr>]\<rparr>\<rparr>" 1 demo "[]"]
  by (auto simp: Let_def invalid_timer_def serialize_def demo_def)

text \<open>
  A disconnect during the greeting loses the completion callback.  From \<open>HelloSent\<close> with the callback
  armed, the disconnect and the completion of its write lead to \<open>Closed\<close> with the callback still armed and
  not run, and the connect timeout, which would have reported the failure, then does nothing.
\<close>

theorem disconnect_loses_callback:
  assumes "c_state c = HelloSent" "c_connect_handler c" "serialize rg (rg_disconnect_request rg) = Inr payload"
  shows "let d = disconnect_written (snd (disconnect rg c)) in
     c_state d = Closed \<and> c_connect_handler d \<and> dones d = dones c \<and> snd (run_timer rg Connect_timeout d) = d"
  using assms
  by (auto simp: disconnect_def disconnect_written_def Let_def run_timer_def fail_def split: prod.splits)

theorem disconnect_loses_callback_witness:
  "c_connect_handler (disconnect_written (snd (disconnect demo (demo_conn\<lparr>c_state := HelloSent, c_connect_handler := True\<rparr>))))"
  using disconnect_loses_callback [of "demo_conn\<lparr>c_state := HelloSent, c_connect_handler := True\<rparr>" demo "[]"]
  by (simp add: Let_def serialize_def demo_def)

text \<open>
  C8: The receive loop ends.  Whatever bytes arrive on a connection in whatever state, with whatever registry and
  codec, the loop over the received frames ends after at most one round more than there are bytes
  in the buffer, and what it then returns is what \<^verbatim>\<open>drain_frames\<close> returns.
\<close>

theorem receive_loop_ends:
  "drain_upto (Suc (length (fh_pending (c_frame c)) + length data)) rg (c\<lparr>c_frame := fh_feed data (c_frame c)\<rparr>) =
     Some (drain_frames rg (c\<lparr>c_frame := fh_feed data (c_frame c)\<rparr>))"
  using fh_pending_feed [of data "c_frame c"] by (intro drain_upto_enough) simp

end
