(* ===== verification/Discovery.thy ===== *)
theory Discovery
  imports ESP_Prelude "HOL-Library.AList" "HOL-Library.List_Lexorder" "HOL-Library.Char_ord"
begin

text \<open>
  The mDNS parser of \<^verbatim>\<open>src/discovery.cpp\<close>, which reads untrusted packets with raw pointers.  Every read
  goes through \<open>rd\<close> or \<open>rd_range\<close>, which yield \<^term>\<open>None\<close> outside the buffer, so a result other than
  \<^term>\<open>None\<close> means that no read was out of bounds.  A \<^verbatim>\<open>std::set\<close> of strings is a strictly sorted list, a
  \<^verbatim>\<open>std::map\<close> an association list.
\<close>

section \<open>Reading a packet\<close>

definition rd :: "bytes \<Rightarrow> nat \<Rightarrow> byte option" where
  "rd buf i = (if i < length buf then Some (buf ! i) else None)"

definition rd_range :: "bytes \<Rightarrow> nat \<Rightarrow> nat \<Rightarrow> bytes option" where
  "rd_range buf i n = (if i + n \<le> length buf then Some (take n (drop i buf)) else None)"

definition read_u16 :: "bytes \<Rightarrow> nat \<Rightarrow> nat option" where
  "read_u16 buf i =
     (case rd buf i of None \<Rightarrow> None
      | Some a \<Rightarrow> (case rd buf (i + 1) of None \<Rightarrow> None | Some b \<Rightarrow> Some (unat a * 256 + unat b)))"

text \<open>
  The loop of \<^verbatim>\<open>read_name\<close>.  Every label moves \<open>pos\<close> forward and \<open>guard\<close> bounds the jumps, so it ends.
\<close>

definition read_name_done :: "bool \<Rightarrow> nat \<Rightarrow> nat \<Rightarrow> string \<Rightarrow> nat \<times> string" where
  "read_name_done jumped next pos out = (if jumped then next else pos, out)"

function read_name_loop :: "bytes \<Rightarrow> nat \<Rightarrow> bool \<Rightarrow> nat \<Rightarrow> nat \<Rightarrow> string \<Rightarrow> (nat \<times> string) option" where
  "read_name_loop buf pos jumped next guard out =
     (if pos < length buf then
        (case rd buf pos of
           None \<Rightarrow> None
         | Some label_len \<Rightarrow>
             if label_len AND 0xC0 = 0xC0 then
               (if pos + 1 \<ge> length buf then Some (read_name_done jumped next pos out)
                else case rd buf (pos + 1) of
                  None \<Rightarrow> None
                | Some lo \<Rightarrow>
                    let target = unat (label_len AND 0x3F) * 256 + unat lo;
                        next = (if \<not> jumped then pos + 2 else next)
                    in if guard + 1 > 128 then Some (read_name_done True next target out)
                       else read_name_loop buf target True next (guard + 1) out)
             else if label_len = 0 then Some (read_name_done jumped next (pos + 1) out)
             else if pos + 1 + unat label_len > length buf then Some (read_name_done jumped next pos out)
             else case rd_range buf (pos + 1) (unat label_len) of
               None \<Rightarrow> None
             | Some label \<Rightarrow>
                 read_name_loop buf (pos + 1 + unat label_len) jumped next guard
                   ((if out \<noteq> [] then out @ ''.'' else out) @ string_of_bytes label))
      else Some (read_name_done jumped next pos out))"
  by pat_completeness auto
termination
  by (relation "measures [\<lambda>(buf, pos, jumped, next, guard, out). 129 - guard, \<lambda>(buf, pos, jumped, next, guard, out). length buf - pos]") auto

declare read_name_loop.simps [simp del]

definition read_name :: "bytes \<Rightarrow> nat \<Rightarrow> (nat \<times> string) option" where
  "read_name buf pos = read_name_loop buf pos False pos 0 []"

section \<open>Records\<close>

record accumulator =
  ac_instances :: "string list"
  ac_srv :: "(string \<times> (string \<times> nat)) list"
  ac_txt :: "(string \<times> (string \<times> string) list) list"
  ac_ipv4 :: "(string \<times> string) list"

definition acc_init :: accumulator where
  "acc_init = \<lparr>ac_instances = [], ac_srv = [], ac_txt = [], ac_ipv4 = []\<rparr>"

definition sset_insert :: "string \<Rightarrow> string list \<Rightarrow> string list" where
  "sset_insert x xs = (if x \<in> set xs then xs else insort x xs)"

text \<open>\<open>out[k]\<close> with no assignment creates an empty value if the key is new.\<close>

definition touch :: "string \<Rightarrow> (string \<times> string) list \<Rightarrow> (string \<times> string) list" where
  "touch k m = (if map_of m k = None then AList.update k [] m else m)"

function parse_txt :: "bytes \<Rightarrow> nat \<Rightarrow> (string \<times> string) list \<Rightarrow> (string \<times> string) list option" where
  "parse_txt rdata i out =
     (if i < length rdata then
        (case rd rdata i of
           None \<Rightarrow> None
         | Some b \<Rightarrow>
             let n = unat b; i = i + 1
             in if i + n > length rdata then Some out
                else case rd_range rdata i n of
                  None \<Rightarrow> None
                | Some e \<Rightarrow>
                    let entry = string_of_bytes e; k = takeWhile (\<lambda>c. c \<noteq> CHR ''='') entry
                    in parse_txt rdata (i + n)
                         (if CHR ''='' \<notin> set entry then touch entry out
                          else AList.update k (drop (length k + 1) entry) out))
      else Some out)"
  by pat_completeness auto
termination
  by (relation "measure (\<lambda>(rdata, i, out). length rdata - i)") auto

declare parse_txt.simps [simp del]

definition type_a :: nat where "type_a = 1"
definition type_ptr :: nat where "type_ptr = 12"
definition type_txt :: nat where "type_txt = 16"
definition type_srv :: nat where "type_srv = 33"

definition dotted :: "bytes \<Rightarrow> string" where
  "dotted r = to_string_nat (unat (r ! 0)) @ ''.'' @ to_string_nat (unat (r ! 1)) @ ''.'' @
     to_string_nat (unat (r ! 2)) @ ''.'' @ to_string_nat (unat (r ! 3))"

text \<open>The \<open>switch\<close> of \<^verbatim>\<open>parse_packet\<close>, for a record named \<open>name\<close> whose data of length \<open>rdlen\<close> starts at \<open>pos\<close>.\<close>

definition parse_record :: "bytes \<Rightarrow> nat \<Rightarrow> nat \<Rightarrow> nat \<Rightarrow> string \<Rightarrow> accumulator \<Rightarrow> accumulator option" where
  "parse_record buf type pos rdlen name acc =
     (case rd_range buf pos rdlen of
        None \<Rightarrow> None
      | Some rdata \<Rightarrow>
          if type = type_ptr then
            (case read_name buf pos of
               None \<Rightarrow> None
             | Some (_, target) \<Rightarrow> Some (acc\<lparr>ac_instances := sset_insert target (ac_instances acc)\<rparr>))
          else if type = type_srv then
            (if rdlen \<ge> 6 then
               (case read_u16 rdata 4 of
                  None \<Rightarrow> None
                | Some port \<Rightarrow>
                    (case read_name buf (pos + 6) of
                       None \<Rightarrow> None
                     | Some (_, target) \<Rightarrow> Some (acc\<lparr>ac_srv := AList.update name (target, port) (ac_srv acc)\<rparr>)))
             else Some acc)
          else if type = type_txt then
            (case parse_txt rdata 0 (case map_of (ac_txt acc) name of None \<Rightarrow> [] | Some kv \<Rightarrow> kv) of
               None \<Rightarrow> None
             | Some kv \<Rightarrow> Some (acc\<lparr>ac_txt := AList.update name kv (ac_txt acc)\<rparr>))
          else if type = type_a then
            Some (if rdlen = 4 then acc\<lparr>ac_ipv4 := AList.update name (dotted rdata) (ac_ipv4 acc)\<rparr> else acc)
          else Some acc)"

fun skip_questions :: "bytes \<Rightarrow> nat \<Rightarrow> nat \<Rightarrow> nat option" where
  "skip_questions buf 0 pos = Some pos"
| "skip_questions buf (Suc n) pos =
     (if pos < length buf then
        (case read_name buf pos of None \<Rightarrow> None | Some (pos, _) \<Rightarrow> skip_questions buf n (pos + 4))
      else Some pos)"

fun parse_records :: "bytes \<Rightarrow> nat \<Rightarrow> nat \<Rightarrow> accumulator \<Rightarrow> accumulator option" where
  "parse_records buf 0 pos acc = Some acc"
| "parse_records buf (Suc n) pos acc =
     (if pos < length buf then
        (case read_name buf pos of
           None \<Rightarrow> None
         | Some (pos, name) \<Rightarrow>
             if pos + 10 > length buf then Some acc
             else
               (case (read_u16 buf pos, read_u16 buf (pos + 8)) of
                  (Some type, Some rdlen) \<Rightarrow>
                    let pos = pos + 10
                    in if pos + rdlen > length buf then Some acc
                       else (case parse_record buf type pos rdlen name acc of
                               None \<Rightarrow> None
                             | Some acc \<Rightarrow> parse_records buf n (pos + rdlen) acc)
                | _ \<Rightarrow> None))
      else Some acc)"

definition parse_packet :: "bytes \<Rightarrow> accumulator \<Rightarrow> accumulator option" where
  "parse_packet buf acc =
     (if length buf < 12 then Some acc
      else
        (case (read_u16 buf 4, read_u16 buf 6, read_u16 buf 8, read_u16 buf 10) of
           (Some qd, Some an, Some ns, Some ar) \<Rightarrow>
             (case skip_questions buf qd 12 of
                None \<Rightarrow> None
              | Some pos \<Rightarrow> parse_records buf (an + ns + ar) pos acc)
         | _ \<Rightarrow> None))"

section \<open>Devices\<close>

record discovered_device =
  dd_name :: string
  dd_hostname :: string
  dd_address :: string
  dd_port :: nat
  dd_mac :: string
  dd_version :: string
  dd_friendly_name :: string
  dd_platform :: string
  dd_board :: string
  dd_network :: string
  dd_project_name :: string
  dd_project_version :: string
  dd_requires_encryption :: bool
  dd_supports_encryption :: bool
  dd_properties :: "(string \<times> string) list"

text \<open>\<^verbatim>\<open>std::string::find\<close>: the first position of \<open>pat\<close>.\<close>

fun find_sub :: "string \<Rightarrow> string \<Rightarrow> nat option" where
  "find_sub pat s =
     (if take (length pat) s = pat then Some 0
      else case s of [] \<Rightarrow> None | _ # s' \<Rightarrow> map_option Suc (find_sub pat s'))"

declare find_sub.simps [simp del]

definition service_suffix :: string where
  "service_suffix = ''._esphomelib._tcp''"

definition instance_short_name :: "string \<Rightarrow> string" where
  "instance_short_name instance' =
     (case find_sub service_suffix instance' of None \<Rightarrow> instance' | Some p \<Rightarrow> take p instance')"

definition device_init :: discovered_device where
  "device_init = \<lparr>dd_name = [], dd_hostname = [], dd_address = [], dd_port = 6053, dd_mac = [], dd_version = [],
     dd_friendly_name = [], dd_platform = [], dd_board = [], dd_network = [], dd_project_name = [],
     dd_project_version = [], dd_requires_encryption = False, dd_supports_encryption = False, dd_properties = []\<rparr>"

definition txt_get :: "(string \<times> string) list \<Rightarrow> string \<Rightarrow> string" where
  "txt_get kv k = (case map_of kv k of None \<Rightarrow> [] | Some v \<Rightarrow> v)"

definition device_of :: "accumulator \<Rightarrow> string \<Rightarrow> discovered_device" where
  "device_of acc instance' =
     (let dev = device_init\<lparr>dd_name := instance_short_name instance'\<rparr>;
          dev = (case map_of (ac_srv acc) instance' of
                   None \<Rightarrow> dev
                 | Some (host, port) \<Rightarrow>
                     dev\<lparr>dd_hostname := host, dd_port := port,
                         dd_address := (case map_of (ac_ipv4 acc) host of None \<Rightarrow> dd_address dev | Some a \<Rightarrow> a)\<rparr>)
      in case map_of (ac_txt acc) instance' of
           None \<Rightarrow> dev
         | Some kv \<Rightarrow>
             let req = (map_of kv ''api_encryption'' \<noteq> None)
             in dev\<lparr>dd_properties := kv, dd_mac := txt_get kv ''mac'', dd_version := txt_get kv ''version'',
                    dd_friendly_name := txt_get kv ''friendly_name'', dd_platform := txt_get kv ''platform'',
                    dd_board := txt_get kv ''board'', dd_network := txt_get kv ''network'',
                    dd_project_name := txt_get kv ''project_name'', dd_project_version := txt_get kv ''project_version'',
                    dd_requires_encryption := req,
                    dd_supports_encryption := (req \<or> map_of kv ''api_encryption_supported'' \<noteq> None)\<rparr>)"

fun parse_packets :: "bytes list \<Rightarrow> accumulator \<Rightarrow> accumulator option" where
  "parse_packets [] acc = Some acc"
| "parse_packets (p # ps) acc = (case parse_packet p acc of None \<Rightarrow> None | Some acc \<Rightarrow> parse_packets ps acc)"

definition candidate_instances :: "accumulator \<Rightarrow> string list" where
  "candidate_instances acc = fold sset_insert (map fst (ac_srv acc)) (ac_instances acc)"

definition parse_mdns_packets :: "bytes list \<Rightarrow> discovered_device list option" where
  "parse_mdns_packets packets =
     (case parse_packets packets acc_init of
        None \<Rightarrow> None
      | Some acc \<Rightarrow>
          Some (map (device_of acc) (filter (\<lambda>i. find_sub ''_esphomelib'' i \<noteq> None) (candidate_instances acc))))"

section \<open>Memory safety: no packet makes the parser read outside it\<close>

lemma rd_in: "i < length buf \<Longrightarrow> \<exists>b. rd buf i = Some b"
  by (simp add: rd_def)

lemma rd_range_in: "i + n \<le> length buf \<Longrightarrow> rd_range buf i n = Some (take n (drop i buf))"
  by (simp add: rd_range_def)

lemma read_u16_in: "i + 1 < length buf \<Longrightarrow> \<exists>v. read_u16 buf i = Some v"
  by (simp add: read_u16_def rd_def)

lemma read_name_loop_safe: "\<exists>r. read_name_loop buf pos jumped next guard out = Some r"
proof (induction buf pos jumped "next" guard out rule: read_name_loop.induct)
  case (1 buf pos jumped nxt guard out)
  show ?case
  proof (cases "pos < length buf")
    case True
    then have p: "rd buf pos = Some (buf ! pos)" by (simp add: rd_def)
    show ?thesis
      using 1 True p
      by (subst read_name_loop.simps) (auto simp: rd_def rd_range_def Let_def split: option.splits)
  qed (subst read_name_loop.simps, simp)
qed

lemma read_name_safe: "\<exists>p s. read_name buf pos = Some (p, s)"
  using read_name_loop_safe [of buf pos False pos 0 "[]"] by (auto simp: read_name_def)

lemma parse_txt_safe: "\<exists>kv. parse_txt rdata i out = Some kv"
proof (induction rdata i out rule: parse_txt.induct)
  case (1 rdata i out)
  show ?case
  proof (cases "i < length rdata")
    case True
    then have p: "rd rdata i = Some (rdata ! i)" by (simp add: rd_def)
    show ?thesis
      using 1 True p by (subst parse_txt.simps) (auto simp: rd_range_def Let_def split: option.splits)
  qed (subst parse_txt.simps, simp)
qed

lemma length_rd_range: "rd_range buf i n = Some r \<Longrightarrow> length r = n"
  by (auto simp: rd_range_def split: if_splits)

lemma parse_record_safe: "pos + rdlen \<le> length buf \<Longrightarrow> \<exists>acc'. parse_record buf type pos rdlen name acc = Some acc'"
proof -
  assume a: "pos + rdlen \<le> length buf"
  let ?r = "take rdlen (drop pos buf)"
  have "\<exists>v. read_u16 ?r 4 = Some v" if "6 \<le> rdlen" using that a by (intro read_u16_in) simp
  moreover obtain p s where "read_name buf pos = Some (p, s)" using read_name_safe by blast
  moreover obtain p' s' where "read_name buf (pos + 6) = Some (p', s')" using read_name_safe by blast
  moreover obtain kv where "parse_txt ?r 0 (case map_of (ac_txt acc) name of None \<Rightarrow> [] | Some kv \<Rightarrow> kv) = Some kv"
    using parse_txt_safe by blast
  ultimately show ?thesis by (auto simp: parse_record_def rd_range_in [OF a])
qed

lemma skip_questions_safe: "\<exists>p. skip_questions buf n pos = Some p"
proof (induction n arbitrary: pos)
  case (Suc n)
  obtain p s where "read_name buf pos = Some (p, s)" using read_name_safe by blast
  then show ?case using Suc by simp
qed simp

lemma parse_records_safe: "\<exists>acc'. parse_records buf n pos acc = Some acc'"
proof (induction n arbitrary: pos acc)
  case (Suc n)
  obtain p s where n: "read_name buf pos = Some (p, s)" using read_name_safe by blast
  show ?case
  proof (cases "p + 10 \<le> length buf")
    case True
    obtain t l where "read_u16 buf p = Some t" "read_u16 buf (p + 8) = Some l"
      using read_u16_in [of p buf] read_u16_in [of "p + 8" buf] True by fastforce
    then show ?thesis
      using n Suc True parse_record_safe [of "p + 10" l buf t s acc] by (auto simp: Let_def)
  qed (use n in simp)
qed simp

lemma parse_packet_safe: "\<exists>acc'. parse_packet buf acc = Some acc'"
proof (cases "length buf < 12")
  case False
  obtain a b c d where "read_u16 buf 4 = Some a" "read_u16 buf 6 = Some b" "read_u16 buf 8 = Some c" "read_u16 buf 10 = Some d"
    using read_u16_in [of 4 buf] read_u16_in [of 6 buf] read_u16_in [of 8 buf] read_u16_in [of 10 buf] False by fastforce
  moreover obtain p where "skip_questions buf a 12 = Some p" using skip_questions_safe by blast
  ultimately show ?thesis using parse_records_safe False by (simp add: parse_packet_def)
qed (simp add: parse_packet_def)

lemma parse_packets_safe: "\<exists>acc'. parse_packets ps acc = Some acc'"
proof (induction ps arbitrary: acc)
  case (Cons p ps)
  then show ?case using parse_packet_safe [of p acc] by fastforce
qed simp

lemma parse_mdns_safe: "\<exists>ds. parse_mdns_packets ps = Some ds"
  using parse_packets_safe [of ps acc_init] by (auto simp: parse_mdns_packets_def)

section \<open>Names: decoding inverts the DNS encoding\<close>

definition encode_label :: "bytes \<Rightarrow> bytes" where
  "encode_label l = of_nat (length l) # l"

definition encode_name :: "bytes list \<Rightarrow> bytes" where
  "encode_name ls = concat (map encode_label ls) @ [0]"

definition label_ok :: "bytes \<Rightarrow> bool" where
  "label_ok l \<longleftrightarrow> l \<noteq> [] \<and> length l \<le> 63"

fun join_dots :: "string \<Rightarrow> bytes list \<Rightarrow> string" where
  "join_dots out [] = out"
| "join_dots out (l # ls) = join_dots ((if out \<noteq> [] then out @ ''.'' else out) @ string_of_bytes l) ls"

lemma label_c0_bit: "bit (0xC0 :: byte) 6"
  by code_simp

lemma label_len_byte:
  assumes "label_ok l"
  shows "unat (of_nat (length l) :: byte) = length l" "(of_nat (length l) :: byte) AND 0xC0 \<noteq> 0xC0" "(of_nat (length l) :: byte) \<noteq> 0"
proof -
  let ?b = "of_nat (length l) :: byte"
  show u: "unat ?b = length l" using assms by (intro unat_of_nat_byte_small) (simp add: label_ok_def)
  have "\<not> bit ?b 6"
    using assms u by (simp add: bit_word_iff_unat label_ok_def)
  then show "?b AND 0xC0 \<noteq> 0xC0" by (metis bit_and_iff label_c0_bit)
  show "?b \<noteq> 0" using u assms by (auto simp: word_unat_eq_iff label_ok_def)
qed

lemma read_name_loop_labels:
  assumes "list_all label_ok ls"
  shows "read_name_loop (pre @ encode_name ls @ rest) (length pre) jumped nxt guard out =
    Some (read_name_done jumped nxt (length pre + length (encode_name ls)) (join_dots out ls))"
  using assms
proof (induction ls arbitrary: pre out)
  case Nil
  then show ?case
    by (subst read_name_loop.simps) (simp add: encode_name_def rd_def nth_append)
next
  case (Cons l ls)
  let ?buf = "pre @ encode_name (l # ls) @ rest" and ?b = "of_nat (length l) :: byte"
  have buf: "?buf = (pre @ encode_label l) @ encode_name ls @ rest" by (simp add: encode_name_def)
  have buf': "?buf = pre @ ?b # l @ encode_name ls @ rest" by (simp add: encode_name_def encode_label_def)
  have ok: "label_ok l" using Cons.prems by simp
  note b = label_len_byte [OF ok]
  have r: "rd ?buf (length pre) = Some ?b" "length pre < length ?buf" unfolding buf' by (simp_all add: rd_def nth_append)
  have "rd_range ?buf (length pre + 1) (length l) = Some l" "\<not> length pre + 1 + length l > length ?buf"
    unfolding buf' by (simp_all add: rd_range_def)
  then have "read_name_loop ?buf (length pre) jumped nxt guard out =
      read_name_loop ?buf (length (pre @ encode_label l)) jumped nxt guard
        ((if out \<noteq> [] then out @ ''.'' else out) @ string_of_bytes l)"
    using r b by (subst read_name_loop.simps) (simp add: encode_label_def)
  also have "\<dots> = Some (read_name_done jumped nxt (length (pre @ encode_label l) + length (encode_name ls)) (join_dots out (l # ls)))"
    unfolding buf using Cons.IH [of "pre @ encode_label l"] Cons.prems by simp
  also have "length (pre @ encode_label l) + length (encode_name ls) = length pre + length (encode_name (l # ls))"
    by (simp add: encode_name_def)
  finally show ?case .
qed

lemma read_name_encoded:
  "list_all label_ok ls \<Longrightarrow>
   read_name (pre @ encode_name ls @ rest) (length pre) = Some (length pre + length (encode_name ls), join_dots [] ls)"
  by (simp add: read_name_def read_name_loop_labels read_name_done_def)

text \<open>A compression pointer: the name is read at the target, the cursor moves past the two pointer bytes.\<close>

lemma read_name_pointer:
  assumes buf: "buf = pre @ encode_name ls @ rest" and ls: "list_all label_ok ls" and tgt: "length pre < 16384"
    and ptr: "pos + 1 < length buf" "buf ! pos = 0xC0 OR of_nat (length pre div 256)" "buf ! (pos + 1) = of_nat (length pre mod 256)"
  shows "read_name buf pos = Some (pos + 2, join_dots [] ls)"
proof -
  define hi where "hi = length pre div 256"
  have hi: "hi < 64" using tgt by (simp add: hi_def)
  have all: "list_all (\<lambda>h. ((0xC0 OR of_nat h) AND 0xC0 = (0xC0 :: byte)) \<and> unat ((0xC0 OR of_nat h) AND 0x3F :: byte) = h) [0..<64]"
    by code_simp
  then have h: "(0xC0 OR of_nat hi) AND 0xC0 = (0xC0 :: byte)" "unat ((0xC0 OR of_nat hi) AND 0x3F :: byte) = hi"
    using hi by (simp_all add: list_all_iff del: of_nat_numeral)
  have lo: "unat (of_nat (length pre mod 256) :: byte) = length pre mod 256"
    by (rule unat_of_nat_byte_small) simp
  have target: "hi * 256 + length pre mod 256 = length pre" by (simp add: hi_def)
  have "read_name buf pos = read_name_loop buf (length pre) True (pos + 2) 1 []"
    using ptr h lo target unfolding read_name_def
    by (subst read_name_loop.simps) (simp add: rd_def hi_def [symmetric] Let_def)
  then show ?thesis unfolding buf using ls by (simp add: read_name_loop_labels read_name_done_def)
qed

section \<open>The reported devices\<close>

lemma sset_insert_props: "sorted xs \<Longrightarrow> distinct xs \<Longrightarrow>
  sorted (sset_insert x xs) \<and> distinct (sset_insert x xs) \<and> set (sset_insert x xs) = insert x (set xs)"
  by (auto simp: sset_insert_def sorted_insort distinct_insort set_insort_key)

definition acc_inv :: "accumulator \<Rightarrow> bool" where
  "acc_inv acc \<longleftrightarrow> sorted (ac_instances acc) \<and> distinct (ac_instances acc)"

lemma parse_record_inv: "parse_record buf type pos rdlen name acc = Some acc' \<Longrightarrow> acc_inv acc \<Longrightarrow> acc_inv acc'"
  by (auto simp: parse_record_def acc_inv_def sset_insert_props split: option.splits if_splits)

lemma parse_records_inv: "parse_records buf n pos acc = Some acc' \<Longrightarrow> acc_inv acc \<Longrightarrow> acc_inv acc'"
proof (induction n arbitrary: pos acc)
  case (Suc n)
  then show ?case
    by (auto simp: Let_def split: option.splits if_splits prod.splits dest: parse_record_inv)
qed simp

lemma parse_packet_inv: "parse_packet buf acc = Some acc' \<Longrightarrow> acc_inv acc \<Longrightarrow> acc_inv acc'"
  by (auto simp: parse_packet_def split: option.splits if_splits dest: parse_records_inv)

lemma parse_packets_inv: "parse_packets ps acc = Some acc' \<Longrightarrow> acc_inv acc \<Longrightarrow> acc_inv acc'"
  by (induction ps acc rule: parse_packets.induct) (auto split: option.splits dest: parse_packet_inv)

lemma candidate_instances_props:
  assumes "acc_inv acc"
  shows "sorted (candidate_instances acc)" "distinct (candidate_instances acc)"
    "set (candidate_instances acc) = set (ac_instances acc) \<union> fst ` set (ac_srv acc)"
proof -
  have "sorted (fold sset_insert ks xs) \<and> distinct (fold sset_insert ks xs) \<and> set (fold sset_insert ks xs) = set xs \<union> set ks"
    if "sorted xs" "distinct xs" for ks xs
    using that
  proof (induction ks arbitrary: xs)
    case (Cons k ks)
    then show ?case using sset_insert_props [OF Cons.prems, of k] by auto
  qed simp
  from this [of "ac_instances acc" "map fst (ac_srv acc)"] assms
  show "sorted (candidate_instances acc)" "distinct (candidate_instances acc)"
    "set (candidate_instances acc) = set (ac_instances acc) \<union> fst ` set (ac_srv acc)"
    by (auto simp: candidate_instances_def acc_inv_def)
qed

lemma device_of_encryption: "dd_requires_encryption (device_of acc i) \<Longrightarrow> dd_supports_encryption (device_of acc i)"
  by (auto simp: device_of_def device_init_def Let_def split: option.splits prod.splits)

section \<open>Properties\<close>


text \<open>
  a domain name written as a sequence of labels is read back, joined with dots, and the cursor ends
  up right after it; a compression pointer to such a name yields the same name and a cursor right after
  the two pointer bytes.
\<close>

theorem dns_name_roundtrip:
  assumes "list_all label_ok ls" "length pre < 16384" "buf = pre @ encode_name ls @ rest"
    and "pos + 1 < length buf" "buf ! pos = 0xC0 OR of_nat (length pre div 256)" "buf ! (pos + 1) = of_nat (length pre mod 256)"
  shows "read_name buf (length pre) = Some (length pre + length (encode_name ls), join_dots [] ls) \<and>
    read_name buf pos = Some (pos + 2, join_dots [] ls)"
  using read_name_encoded [OF assms(1), of pre rest] read_name_pointer [OF assms(3) assms(1,2,4-6)] assms(3) by simp

theorem dns_name_roundtrip_witness:
  "read_name [0x02, 0x61, 0x62, 0x00, 0xC0, 0x00] 4 = Some (6, [char_of (97 :: nat), char_of (98 :: nat)])"
  using dns_name_roundtrip [of "[[0x61, 0x62]]" "[]" "[0x02, 0x61, 0x62, 0x00, 0xC0, 0x00]" "[0xC0, 0x00]" 4]
  by (simp add: label_ok_def encode_name_def encode_label_def string_of_bytes_def)

text \<open>
  the devices found are one per service instance, from pointer and service records alike, in
  ascending order of the instance name and without duplicates, only instances of the ESPHome service; and a device
  that requires encryption is always reported as supporting it.
\<close>

theorem mdns_devices:
  assumes "parse_packets packets acc_init = Some acc" "parse_mdns_packets packets = Some devices"
  shows "\<exists>names. devices = map (device_of acc) names \<and> sorted names \<and> distinct names \<and>
    set names = {i \<in> set (ac_instances acc) \<union> fst ` set (ac_srv acc). find_sub ''_esphomelib'' i \<noteq> None} \<and>
    list_all (\<lambda>d. dd_requires_encryption d \<longrightarrow> dd_supports_encryption d) devices"
proof -
  have "acc_inv acc" using parse_packets_inv [OF assms(1)] by (simp add: acc_inv_def acc_init_def)
  note c = candidate_instances_props [OF this]
  show ?thesis
    using assms c device_of_encryption
    by (intro exI [of _ "filter (\<lambda>i. find_sub ''_esphomelib'' i \<noteq> None) (candidate_instances acc)"])
      (auto simp: parse_mdns_packets_def sorted_filter [where f = id, simplified] list_all_iff)
qed

theorem mdns_devices_witness:
  "\<exists>names. sorted names \<and> [] = map (device_of acc_init) names"
  using mdns_devices [of "[]" acc_init "[]"]
  by (auto simp: parse_mdns_packets_def candidate_instances_def acc_init_def)

end
