(* ===== verification/Entity_Store.thy ===== *)
theory Entity_Store
  imports ESP_Prelude
begin

text \<open>
  The entity model of \<^verbatim>\<open>src/model\<close>: the domain names of \<^verbatim>\<open>entity_type.cpp\<close>, the \<^verbatim>\<open>object_id\<close> derivation of
  \<^verbatim>\<open>entity_common.hpp\<close> and the \<^verbatim>\<open>EntityStore\<close> of \<^verbatim>\<open>entity_store.cpp\<close> with its typed accessors.  A protobuf
  message is a record with its name, what \<^verbatim>\<open>dynamic_cast\<close> sees of its base class, and its remaining
  fields, which the store only copies.  A \<^verbatim>\<open>static_cast\<close> of a message to a generated class is checked
  against the class the message really has: a mismatch, undefined in C++, is the value \<open>Bad_Cast\<close>.
\<close>

section \<open>Entity domains\<close>

datatype entity_type =
    Unknown
  | BinarySensor
  | Sensor
  | TextSensor
  | Switch
  | Light
  | Cover
  | Fan
  | Climate
  | Number
  | Select
  | Text
  | Button
  | Lock
  | MediaPlayer
  | Camera
  | Siren
  | AlarmControlPanel
  | Date
  | Time
  | DateTime
  | Valve
  | Event
  | Update
  | WaterHeater
  | Infrared
  | RadioFrequency

fun entity_type_name :: "entity_type \<Rightarrow> string" where
  "entity_type_name BinarySensor = ''BinarySensor''"
| "entity_type_name Sensor = ''Sensor''"
| "entity_type_name TextSensor = ''TextSensor''"
| "entity_type_name Switch = ''Switch''"
| "entity_type_name Light = ''Light''"
| "entity_type_name Cover = ''Cover''"
| "entity_type_name Fan = ''Fan''"
| "entity_type_name Climate = ''Climate''"
| "entity_type_name Number = ''Number''"
| "entity_type_name Select = ''Select''"
| "entity_type_name Text = ''Text''"
| "entity_type_name Button = ''Button''"
| "entity_type_name Lock = ''Lock''"
| "entity_type_name MediaPlayer = ''MediaPlayer''"
| "entity_type_name Camera = ''Camera''"
| "entity_type_name Siren = ''Siren''"
| "entity_type_name AlarmControlPanel = ''AlarmControlPanel''"
| "entity_type_name Date = ''Date''"
| "entity_type_name Time = ''Time''"
| "entity_type_name DateTime = ''DateTime''"
| "entity_type_name Valve = ''Valve''"
| "entity_type_name Event = ''Event''"
| "entity_type_name Update = ''Update''"
| "entity_type_name WaterHeater = ''WaterHeater''"
| "entity_type_name Infrared = ''Infrared''"
| "entity_type_name RadioFrequency = ''RadioFrequency''"
| "entity_type_name Unknown = ''Unknown''"

text \<open>The static \<^verbatim>\<open>unordered_map\<close> of \<^verbatim>\<open>entity_type_from_token\<close>.\<close>

definition entity_type_tokens :: "(string \<times> entity_type) list" where
  "entity_type_tokens =
     [(''BinarySensor'', BinarySensor),
      (''Sensor'', Sensor),
      (''TextSensor'', TextSensor),
      (''Switch'', Switch),
      (''Light'', Light),
      (''Cover'', Cover),
      (''Fan'', Fan),
      (''Climate'', Climate),
      (''Number'', Number),
      (''Select'', Select),
      (''Text'', Text),
      (''Button'', Button),
      (''Lock'', Lock),
      (''MediaPlayer'', MediaPlayer),
      (''Camera'', Camera),
      (''Siren'', Siren),
      (''AlarmControlPanel'', AlarmControlPanel),
      (''Date'', Date),
      (''Time'', Time),
      (''DateTime'', DateTime),
      (''Valve'', Valve),
      (''Event'', Event),
      (''Update'', Update),
      (''WaterHeater'', WaterHeater),
      (''Infrared'', Infrared),
      (''RadioFrequency'', RadioFrequency)]"

definition entity_type_from_token :: "string \<Rightarrow> entity_type" where
  "entity_type_from_token token =
     (case map_of entity_type_tokens token of None \<Rightarrow> Unknown | Some t \<Rightarrow> t)"

section \<open>Object identifiers\<close>

text \<open>\<^verbatim>\<open>std::tolower\<close> of the C locale.\<close>

definition tolower :: "char \<Rightarrow> char" where
  "tolower c = (if 65 \<le> (of_char c :: nat) \<and> (of_char c :: nat) \<le> 90 then char_of ((of_char c :: nat) + 32) else c)"

definition id_char :: "char \<Rightarrow> bool" where
  "id_char c \<longleftrightarrow>
     c = CHR ''-'' \<or> c = CHR ''_'' \<or>
     (of_char CHR ''0'' \<le> (of_char c :: nat) \<and> (of_char c :: nat) \<le> of_char CHR ''9'') \<or>
     (of_char CHR ''a'' \<le> (of_char c :: nat) \<and> (of_char c :: nat) \<le> of_char CHR ''z'')"

fun object_id_from_name :: "string \<Rightarrow> string" where
  "object_id_from_name [] = []"
| "object_id_from_name (ch # name) =
     (let c = tolower ch;
          c = (if c = CHR '' '' then CHR ''_'' else c)
      in if id_char c then c # object_id_from_name name else object_id_from_name name)"

section \<open>Messages as the store sees them\<close>

datatype message_base =
    Plain_Base
  | Info_Base (info_key: u32) (info_name: string) (info_object_id: string)
  | State_Base (state_key: u32)

record 'b proto_message =
  message_name :: string
  base :: message_base
  payload :: 'b

section \<open>The store\<close>

record 'b stored_entity =
  se_type :: entity_type
  se_key :: u32
  se_object_id :: string
  se_name :: string
  se_info :: "'b proto_message option"
  se_state :: "'b proto_message option"

definition new_entity :: "'b stored_entity" where
  "new_entity = \<lparr>se_type = Unknown, se_key = 0, se_object_id = [], se_name = [],
                 se_info = None, se_state = None\<rparr>"

record 'b entity_store =
  entities :: "u32 \<rightharpoonup> 'b stored_entity"
  state_cb :: bool

text \<open>\<^verbatim>\<open>entities_[key]\<close> default-constructs an absent entry.\<close>

definition entry :: "'b entity_store \<Rightarrow> u32 \<Rightarrow> 'b stored_entity" where
  "entry s k = (case entities s k of None \<Rightarrow> new_entity | Some e \<Rightarrow> e)"

definition put :: "'b entity_store \<Rightarrow> u32 \<Rightarrow> 'b stored_entity \<Rightarrow> 'b entity_store" where
  "put s k e = s\<lparr>entities := (entities s)(k \<mapsto> e)\<rparr>"

definition ends_with :: "string \<Rightarrow> string \<Rightarrow> bool" where
  "ends_with name suf \<longleftrightarrow> drop (length name - length suf) name = suf"

definition is_list_message :: "string \<Rightarrow> bool" where
  "is_list_message name \<longleftrightarrow>
     take 12 name = ''ListEntities'' \<and> 8 < length name \<and> ends_with name ''Response'' \<and>
     name \<noteq> ''ListEntitiesDoneResponse'' \<and> name \<noteq> ''ListEntitiesServicesResponse''"

definition is_event_message :: "string \<Rightarrow> bool" where
  "is_event_message name \<longleftrightarrow> name = ''EventResponse''"

definition is_state_message :: "string \<Rightarrow> bool" where
  "is_state_message name \<longleftrightarrow>
     is_event_message name \<or> (13 < length name \<and> ends_with name ''StateResponse'')"

text \<open>\<^verbatim>\<open>name.substr(12, name.size() - 12 - 8)\<close> and \<^verbatim>\<open>name.substr(0, name.size() - 13)\<close>.\<close>

definition list_token :: "string \<Rightarrow> string" where
  "list_token name = take (length name - 12 - 8) (drop 12 name)"

definition state_token :: "string \<Rightarrow> string" where
  "state_token name = (if is_event_message name then ''Event'' else take (length name - 13) name)"

text \<open>
  \<^verbatim>\<open>ingest\<close>: the result, the store, and the calls of the state callback.
\<close>

definition ingest ::
  "'b entity_store \<Rightarrow> 'b proto_message \<Rightarrow> bool \<times> 'b entity_store \<times> (entity_type \<times> u32) list" where
  "ingest s msg =
     (let name = message_name msg in
      if is_list_message name then
        (case base msg of
           Info_Base key nm oid \<Rightarrow>
             (True,
              put s key ((entry s key)
                \<lparr>se_type := entity_type_from_token (list_token name), se_key := key, se_name := nm,
                 se_object_id := (if oid = [] then object_id_from_name nm else oid),
                 se_info := Some msg\<rparr>), [])
         | _ \<Rightarrow> (False, s, []))
      else if is_state_message name then
        (case base msg of
           State_Base key \<Rightarrow>
             (let type = entity_type_from_token (state_token name);
                  e = entry s key;
                  e = (if se_type e = Unknown then e\<lparr>se_type := type\<rparr> else e)
              in (True, put s key (e\<lparr>se_key := key, se_state := Some msg\<rparr>),
                  if state_cb s then [(type, key)] else []))
         | _ \<Rightarrow> (False, s, []))
      else (False, s, []))"

definition clear :: "'b entity_store \<Rightarrow> 'b entity_store" where
  "clear s = s\<lparr>entities := Map.empty\<rparr>"

definition es_on_state :: "'b entity_store \<Rightarrow> 'b entity_store" where
  "es_on_state s = s\<lparr>state_cb := True\<rparr>"

definition store_find :: "'b entity_store \<Rightarrow> u32 \<Rightarrow> 'b stored_entity option" where
  "store_find s key = entities s key"

text \<open>
  Iteration over the \<^verbatim>\<open>unordered_map\<close> visits its entries in an order the container chooses: the keys
  in that order are the argument \<open>iter\<close>.
\<close>

type_synonym 'b iteration = "(u32 \<rightharpoonup> 'b stored_entity) \<Rightarrow> u32 list"

definition iterates :: "'b iteration \<Rightarrow> bool" where
  "iterates iter \<longleftrightarrow> (\<forall>m. finite (dom m) \<longrightarrow> distinct (iter m) \<and> set (iter m) = dom m)"

definition all_entities :: "'b iteration \<Rightarrow> 'b entity_store \<Rightarrow> 'b stored_entity list" where
  "all_entities iter s = map (\<lambda>k. the (entities s k)) (iter (entities s))"

definition find_by_object_id :: "'b iteration \<Rightarrow> 'b entity_store \<Rightarrow> string \<Rightarrow> 'b stored_entity option" where
  "find_by_object_id iter s oid = find (\<lambda>e. se_object_id e = oid) (all_entities iter s)"

section \<open>Typed accessors\<close>

datatype 'r access = Nullopt | Access 'r | Bad_Cast

definition cast_to :: "string \<Rightarrow> ('b \<Rightarrow> 'r) \<Rightarrow> 'b proto_message \<Rightarrow> 'r access" where
  "cast_to cls parse m = (if message_name m = cls then Access (parse (payload m)) else Bad_Cast)"

definition typed_info ::
  "entity_type \<Rightarrow> string \<Rightarrow> ('b \<Rightarrow> 'r) \<Rightarrow> 'b entity_store \<Rightarrow> u32 \<Rightarrow> 'r access" where
  "typed_info ty cls parse s key =
     (case entities s key of
        None \<Rightarrow> Nullopt
      | Some e \<Rightarrow>
          if se_type e \<noteq> ty then Nullopt
          else case se_info e of None \<Rightarrow> Nullopt | Some m \<Rightarrow> cast_to cls parse m)"

definition typed_state ::
  "entity_type \<Rightarrow> string \<Rightarrow> ('b \<Rightarrow> 'r) \<Rightarrow> 'b entity_store \<Rightarrow> u32 \<Rightarrow> 'r access" where
  "typed_state ty cls parse s key =
     (case entities s key of
        None \<Rightarrow> Nullopt
      | Some e \<Rightarrow>
          if se_type e \<noteq> ty then Nullopt
          else case se_state e of None \<Rightarrow> Nullopt | Some m \<Rightarrow> cast_to cls parse m)"

text \<open>
  The 48 accessors.  Each takes the \<^verbatim>\<open>parse_*\<close> function of its entity as an argument.
\<close>

definition binary_sensor_info ::
  "('b \<Rightarrow> 'r) \<Rightarrow> 'b entity_store \<Rightarrow> u32 \<Rightarrow> 'r access" where
  "binary_sensor_info parse = typed_info BinarySensor ''ListEntitiesBinarySensorResponse'' parse"

definition binary_sensor_state ::
  "('b \<Rightarrow> 'r) \<Rightarrow> 'b entity_store \<Rightarrow> u32 \<Rightarrow> 'r access" where
  "binary_sensor_state parse = typed_state BinarySensor ''BinarySensorStateResponse'' parse"

definition sensor_info ::
  "('b \<Rightarrow> 'r) \<Rightarrow> 'b entity_store \<Rightarrow> u32 \<Rightarrow> 'r access" where
  "sensor_info parse = typed_info Sensor ''ListEntitiesSensorResponse'' parse"

definition sensor_state ::
  "('b \<Rightarrow> 'r) \<Rightarrow> 'b entity_store \<Rightarrow> u32 \<Rightarrow> 'r access" where
  "sensor_state parse = typed_state Sensor ''SensorStateResponse'' parse"

definition text_sensor_info ::
  "('b \<Rightarrow> 'r) \<Rightarrow> 'b entity_store \<Rightarrow> u32 \<Rightarrow> 'r access" where
  "text_sensor_info parse = typed_info TextSensor ''ListEntitiesTextSensorResponse'' parse"

definition text_sensor_state ::
  "('b \<Rightarrow> 'r) \<Rightarrow> 'b entity_store \<Rightarrow> u32 \<Rightarrow> 'r access" where
  "text_sensor_state parse = typed_state TextSensor ''TextSensorStateResponse'' parse"

definition switch_info ::
  "('b \<Rightarrow> 'r) \<Rightarrow> 'b entity_store \<Rightarrow> u32 \<Rightarrow> 'r access" where
  "switch_info parse = typed_info Switch ''ListEntitiesSwitchResponse'' parse"

definition switch_state ::
  "('b \<Rightarrow> 'r) \<Rightarrow> 'b entity_store \<Rightarrow> u32 \<Rightarrow> 'r access" where
  "switch_state parse = typed_state Switch ''SwitchStateResponse'' parse"

definition light_info ::
  "('b \<Rightarrow> 'r) \<Rightarrow> 'b entity_store \<Rightarrow> u32 \<Rightarrow> 'r access" where
  "light_info parse = typed_info Light ''ListEntitiesLightResponse'' parse"

definition light_state ::
  "('b \<Rightarrow> 'r) \<Rightarrow> 'b entity_store \<Rightarrow> u32 \<Rightarrow> 'r access" where
  "light_state parse = typed_state Light ''LightStateResponse'' parse"

definition cover_info ::
  "('b \<Rightarrow> 'r) \<Rightarrow> 'b entity_store \<Rightarrow> u32 \<Rightarrow> 'r access" where
  "cover_info parse = typed_info Cover ''ListEntitiesCoverResponse'' parse"

definition cover_state ::
  "('b \<Rightarrow> 'r) \<Rightarrow> 'b entity_store \<Rightarrow> u32 \<Rightarrow> 'r access" where
  "cover_state parse = typed_state Cover ''CoverStateResponse'' parse"

definition fan_info ::
  "('b \<Rightarrow> 'r) \<Rightarrow> 'b entity_store \<Rightarrow> u32 \<Rightarrow> 'r access" where
  "fan_info parse = typed_info Fan ''ListEntitiesFanResponse'' parse"

definition fan_state ::
  "('b \<Rightarrow> 'r) \<Rightarrow> 'b entity_store \<Rightarrow> u32 \<Rightarrow> 'r access" where
  "fan_state parse = typed_state Fan ''FanStateResponse'' parse"

definition climate_info ::
  "('b \<Rightarrow> 'r) \<Rightarrow> 'b entity_store \<Rightarrow> u32 \<Rightarrow> 'r access" where
  "climate_info parse = typed_info Climate ''ListEntitiesClimateResponse'' parse"

definition climate_state ::
  "('b \<Rightarrow> 'r) \<Rightarrow> 'b entity_store \<Rightarrow> u32 \<Rightarrow> 'r access" where
  "climate_state parse = typed_state Climate ''ClimateStateResponse'' parse"

definition number_info ::
  "('b \<Rightarrow> 'r) \<Rightarrow> 'b entity_store \<Rightarrow> u32 \<Rightarrow> 'r access" where
  "number_info parse = typed_info Number ''ListEntitiesNumberResponse'' parse"

definition number_state ::
  "('b \<Rightarrow> 'r) \<Rightarrow> 'b entity_store \<Rightarrow> u32 \<Rightarrow> 'r access" where
  "number_state parse = typed_state Number ''NumberStateResponse'' parse"

definition select_info ::
  "('b \<Rightarrow> 'r) \<Rightarrow> 'b entity_store \<Rightarrow> u32 \<Rightarrow> 'r access" where
  "select_info parse = typed_info Select ''ListEntitiesSelectResponse'' parse"

definition select_state ::
  "('b \<Rightarrow> 'r) \<Rightarrow> 'b entity_store \<Rightarrow> u32 \<Rightarrow> 'r access" where
  "select_state parse = typed_state Select ''SelectStateResponse'' parse"

definition text_info ::
  "('b \<Rightarrow> 'r) \<Rightarrow> 'b entity_store \<Rightarrow> u32 \<Rightarrow> 'r access" where
  "text_info parse = typed_info Text ''ListEntitiesTextResponse'' parse"

definition text_state ::
  "('b \<Rightarrow> 'r) \<Rightarrow> 'b entity_store \<Rightarrow> u32 \<Rightarrow> 'r access" where
  "text_state parse = typed_state Text ''TextStateResponse'' parse"

definition button_info ::
  "('b \<Rightarrow> 'r) \<Rightarrow> 'b entity_store \<Rightarrow> u32 \<Rightarrow> 'r access" where
  "button_info parse = typed_info Button ''ListEntitiesButtonResponse'' parse"

definition lock_info ::
  "('b \<Rightarrow> 'r) \<Rightarrow> 'b entity_store \<Rightarrow> u32 \<Rightarrow> 'r access" where
  "lock_info parse = typed_info Lock ''ListEntitiesLockResponse'' parse"

definition lock_state ::
  "('b \<Rightarrow> 'r) \<Rightarrow> 'b entity_store \<Rightarrow> u32 \<Rightarrow> 'r access" where
  "lock_state parse = typed_state Lock ''LockStateResponse'' parse"

definition media_player_info ::
  "('b \<Rightarrow> 'r) \<Rightarrow> 'b entity_store \<Rightarrow> u32 \<Rightarrow> 'r access" where
  "media_player_info parse = typed_info MediaPlayer ''ListEntitiesMediaPlayerResponse'' parse"

definition media_player_state ::
  "('b \<Rightarrow> 'r) \<Rightarrow> 'b entity_store \<Rightarrow> u32 \<Rightarrow> 'r access" where
  "media_player_state parse = typed_state MediaPlayer ''MediaPlayerStateResponse'' parse"

definition camera_info ::
  "('b \<Rightarrow> 'r) \<Rightarrow> 'b entity_store \<Rightarrow> u32 \<Rightarrow> 'r access" where
  "camera_info parse = typed_info Camera ''ListEntitiesCameraResponse'' parse"

definition siren_info ::
  "('b \<Rightarrow> 'r) \<Rightarrow> 'b entity_store \<Rightarrow> u32 \<Rightarrow> 'r access" where
  "siren_info parse = typed_info Siren ''ListEntitiesSirenResponse'' parse"

definition siren_state ::
  "('b \<Rightarrow> 'r) \<Rightarrow> 'b entity_store \<Rightarrow> u32 \<Rightarrow> 'r access" where
  "siren_state parse = typed_state Siren ''SirenStateResponse'' parse"

definition alarm_control_panel_info ::
  "('b \<Rightarrow> 'r) \<Rightarrow> 'b entity_store \<Rightarrow> u32 \<Rightarrow> 'r access" where
  "alarm_control_panel_info parse = typed_info AlarmControlPanel ''ListEntitiesAlarmControlPanelResponse'' parse"

definition alarm_control_panel_state ::
  "('b \<Rightarrow> 'r) \<Rightarrow> 'b entity_store \<Rightarrow> u32 \<Rightarrow> 'r access" where
  "alarm_control_panel_state parse = typed_state AlarmControlPanel ''AlarmControlPanelStateResponse'' parse"

definition date_info ::
  "('b \<Rightarrow> 'r) \<Rightarrow> 'b entity_store \<Rightarrow> u32 \<Rightarrow> 'r access" where
  "date_info parse = typed_info Date ''ListEntitiesDateResponse'' parse"

definition date_state ::
  "('b \<Rightarrow> 'r) \<Rightarrow> 'b entity_store \<Rightarrow> u32 \<Rightarrow> 'r access" where
  "date_state parse = typed_state Date ''DateStateResponse'' parse"

definition time_info ::
  "('b \<Rightarrow> 'r) \<Rightarrow> 'b entity_store \<Rightarrow> u32 \<Rightarrow> 'r access" where
  "time_info parse = typed_info Time ''ListEntitiesTimeResponse'' parse"

definition time_state ::
  "('b \<Rightarrow> 'r) \<Rightarrow> 'b entity_store \<Rightarrow> u32 \<Rightarrow> 'r access" where
  "time_state parse = typed_state Time ''TimeStateResponse'' parse"

definition datetime_info ::
  "('b \<Rightarrow> 'r) \<Rightarrow> 'b entity_store \<Rightarrow> u32 \<Rightarrow> 'r access" where
  "datetime_info parse = typed_info DateTime ''ListEntitiesDateTimeResponse'' parse"

definition datetime_state ::
  "('b \<Rightarrow> 'r) \<Rightarrow> 'b entity_store \<Rightarrow> u32 \<Rightarrow> 'r access" where
  "datetime_state parse = typed_state DateTime ''DateTimeStateResponse'' parse"

definition valve_info ::
  "('b \<Rightarrow> 'r) \<Rightarrow> 'b entity_store \<Rightarrow> u32 \<Rightarrow> 'r access" where
  "valve_info parse = typed_info Valve ''ListEntitiesValveResponse'' parse"

definition valve_state ::
  "('b \<Rightarrow> 'r) \<Rightarrow> 'b entity_store \<Rightarrow> u32 \<Rightarrow> 'r access" where
  "valve_state parse = typed_state Valve ''ValveStateResponse'' parse"

definition event_info ::
  "('b \<Rightarrow> 'r) \<Rightarrow> 'b entity_store \<Rightarrow> u32 \<Rightarrow> 'r access" where
  "event_info parse = typed_info Event ''ListEntitiesEventResponse'' parse"

definition event_state ::
  "('b \<Rightarrow> 'r) \<Rightarrow> 'b entity_store \<Rightarrow> u32 \<Rightarrow> 'r access" where
  "event_state parse = typed_state Event ''EventResponse'' parse"

definition update_info ::
  "('b \<Rightarrow> 'r) \<Rightarrow> 'b entity_store \<Rightarrow> u32 \<Rightarrow> 'r access" where
  "update_info parse = typed_info Update ''ListEntitiesUpdateResponse'' parse"

definition update_state ::
  "('b \<Rightarrow> 'r) \<Rightarrow> 'b entity_store \<Rightarrow> u32 \<Rightarrow> 'r access" where
  "update_state parse = typed_state Update ''UpdateStateResponse'' parse"

definition water_heater_info ::
  "('b \<Rightarrow> 'r) \<Rightarrow> 'b entity_store \<Rightarrow> u32 \<Rightarrow> 'r access" where
  "water_heater_info parse = typed_info WaterHeater ''ListEntitiesWaterHeaterResponse'' parse"

definition water_heater_state ::
  "('b \<Rightarrow> 'r) \<Rightarrow> 'b entity_store \<Rightarrow> u32 \<Rightarrow> 'r access" where
  "water_heater_state parse = typed_state WaterHeater ''WaterHeaterStateResponse'' parse"

definition infrared_info ::
  "('b \<Rightarrow> 'r) \<Rightarrow> 'b entity_store \<Rightarrow> u32 \<Rightarrow> 'r access" where
  "infrared_info parse = typed_info Infrared ''ListEntitiesInfraredResponse'' parse"

definition radio_frequency_info ::
  "('b \<Rightarrow> 'r) \<Rightarrow> 'b entity_store \<Rightarrow> u32 \<Rightarrow> 'r access" where
  "radio_frequency_info parse = typed_info RadioFrequency ''ListEntitiesRadioFrequencyResponse'' parse"

section \<open>Names and tokens\<close>

lemma entity_type_from_token_name [simp]: "entity_type_from_token (entity_type_name t) = t"
  by (cases t) (simp_all add: entity_type_from_token_def entity_type_tokens_def)

lemma entity_type_from_token_known:
  assumes "entity_type_from_token token \<noteq> Unknown"
  shows "token = entity_type_name (entity_type_from_token token)"
proof -
  obtain t where t: "map_of entity_type_tokens token = Some t"
    and eq: "entity_type_from_token token = t"
    using assms by (auto simp: entity_type_from_token_def split: option.splits)
  have "(token, t) \<in> set entity_type_tokens" using t by (rule map_of_SomeD)
  then have "token = entity_type_name t"
    by (auto simp: entity_type_tokens_def)
  then show ?thesis using eq by simp
qed

section \<open>Derived object identifiers\<close>

lemma id_char_fixed:
  assumes "id_char c"
  shows "tolower c = c" "c \<noteq> CHR '' ''"
  using assms by (auto simp: id_char_def tolower_def)

lemma object_id_from_name_chars: "list_all id_char (object_id_from_name name)"
  by (induction name) (simp_all add: Let_def)

lemma object_id_from_name_fixed: "list_all id_char s \<Longrightarrow> object_id_from_name s = s"
  by (induction s) (simp_all add: id_char_fixed)

lemma object_id_from_name_append:
  "object_id_from_name (a @ b) = object_id_from_name a @ object_id_from_name b"
  by (induction a) (simp_all add: Let_def)

lemma length_object_id_from_name: "length (object_id_from_name name) \<le> length name"
  by (induction name) (simp_all add: Let_def)

section \<open>Message names\<close>

lemma ends_withE:
  assumes "ends_with name suf"
  obtains p where "name = p @ suf"
  using assms unfolding ends_with_def by (metis append_take_drop_id)

text \<open>
  A list message is \<^verbatim>\<open>ListEntities\<close>, a token and \<^verbatim>\<open>Response\<close>: prefix and suffix cannot overlap, so the
  unsigned subtraction in the code does not wrap.
\<close>

lemma list_message_shape:
  assumes "is_list_message name"
  shows "name = ''ListEntities'' @ list_token name @ ''Response''" and "20 \<le> length name"
proof -
  from assms have pre: "take 12 name = ''ListEntities''" and suf: "ends_with name ''Response''"
    by (simp_all add: is_list_message_def)
  from suf obtain p where p: "name = p @ ''Response''" by (rule ends_withE)
  have "12 \<le> length p"
  proof (rule ccontr)
    assume "\<not> 12 \<le> length p"
    then have "length p < 12" by simp
    then have "name ! length p = ''ListEntities'' ! length p"
      using pre by (metis nth_take)
    moreover have "name ! length p = CHR ''R''" by (simp add: p)
    moreover have "CHR ''R'' \<notin> set ''ListEntities''" by simp
    moreover have "length p < length ''ListEntities''" using \<open>length p < 12\<close> by simp
    ultimately show False by (metis nth_mem)
  qed
  then obtain t where t: "p = ''ListEntities'' @ t"
    using pre p by (metis append_take_drop_id take_append diff_is_0_eq take0 append_Nil2)
  show "name = ''ListEntities'' @ list_token name @ ''Response''" and "20 \<le> length name"
    by (simp_all add: p t list_token_def)
qed

lemma list_message_class:
  assumes "is_list_message name" "entity_type_from_token (list_token name) = ty" "ty \<noteq> Unknown"
  shows "name = ''ListEntities'' @ entity_type_name ty @ ''Response''"
  using list_message_shape(1) [OF assms(1)] entity_type_from_token_known [of "list_token name"] assms(2,3)
  by simp

lemma state_message_class:
  assumes "is_state_message name" "entity_type_from_token (state_token name) = ty" "ty \<noteq> Unknown"
    "\<not> is_event_message name"
  shows "name = entity_type_name ty @ ''StateResponse''"
proof -
  have "13 < length name" "ends_with name ''StateResponse''"
    using assms by (simp_all add: is_state_message_def)
  from this(2) obtain p where p: "name = p @ ''StateResponse''" by (rule ends_withE)
  then have "state_token name = p" using assms(4) by (simp add: state_token_def)
  then show ?thesis using entity_type_from_token_known [of p] assms p by simp
qed

section \<open>What ingest does\<close>

lemma entities_put [simp]: "entities (put s k e) = (entities s)(k \<mapsto> e)"
  by (simp add: put_def)

lemma state_cb_put [simp]: "state_cb (put s k e) = state_cb s"
  by (simp add: put_def)

definition info_update :: "'b proto_message \<Rightarrow> u32 \<Rightarrow> string \<Rightarrow> string \<Rightarrow> 'b stored_entity \<Rightarrow> 'b stored_entity" where
  "info_update msg key nm oid e =
     e\<lparr>se_type := entity_type_from_token (list_token (message_name msg)), se_key := key, se_name := nm,
       se_object_id := (if oid = [] then object_id_from_name nm else oid), se_info := Some msg\<rparr>"

definition state_update :: "'b proto_message \<Rightarrow> u32 \<Rightarrow> 'b stored_entity \<Rightarrow> 'b stored_entity" where
  "state_update msg key e =
     e\<lparr>se_type := (if se_type e = Unknown then entity_type_from_token (state_token (message_name msg))
                   else se_type e), se_key := key, se_state := Some msg\<rparr>"

lemma ingest_cases:
  obtains (info) key nm oid where
      "is_list_message (message_name msg)" "base msg = Info_Base key nm oid"
      "ingest s msg = (True, put s key (info_update msg key nm oid (entry s key)), [])"
  | (state) key where
      "\<not> is_list_message (message_name msg)" "is_state_message (message_name msg)"
      "base msg = State_Base key"
      "ingest s msg = (True, put s key (state_update msg key (entry s key)),
         if state_cb s then [(entity_type_from_token (state_token (message_name msg)), key)] else [])"
  | (ignored) "ingest s msg = (False, s, [])"
proof -
  consider "is_list_message (message_name msg)"
    | "\<not> is_list_message (message_name msg)" "is_state_message (message_name msg)"
    | "\<not> is_list_message (message_name msg)" "\<not> is_state_message (message_name msg)" by blast
  then show ?thesis
  proof cases
    case 1
    then show ?thesis
      by (cases "base msg") (auto simp: ingest_def Let_def info_update_def intro: info ignored)
  next
    case 2
    then show ?thesis
      by (cases "base msg") (auto simp: ingest_def Let_def state_update_def intro: state ignored)
  next
    case 3
    then show ?thesis by (simp add: ingest_def ignored)
  qed
qed


section \<open>Runs of the store\<close>

datatype 'b store_op = Ingest "'b proto_message" | Clear | On_State

definition new_store :: "'b entity_store" where
  "new_store = \<lparr>entities = Map.empty, state_cb = False\<rparr>"

fun apply_op :: "'b store_op \<Rightarrow> 'b entity_store \<Rightarrow> 'b entity_store" where
  "apply_op (Ingest m) s = fst (snd (ingest s m))"
| "apply_op Clear s = clear s"
| "apply_op On_State s = es_on_state s"

definition store_run :: "'b store_op list \<Rightarrow> 'b entity_store" where
  "store_run ops = fold apply_op ops new_store"

text \<open>
  The invariant.  Every entry is filed under its own key; its description is the last list message,
  its state the last state message.
\<close>

definition info_ok :: "u32 \<Rightarrow> 'b stored_entity \<Rightarrow> bool" where
  "info_ok k e \<longleftrightarrow>
     (case se_info e of None \<Rightarrow> True
      | Some m \<Rightarrow> is_list_message (message_name m) \<and>
          base m = Info_Base k (se_name e) (info_object_id (base m)) \<and>
          se_object_id e = (if info_object_id (base m) = [] then object_id_from_name (se_name e)
                            else info_object_id (base m)) \<and>
          entity_type_from_token (list_token (message_name m)) \<in> {se_type e, Unknown})"

definition state_ok :: "u32 \<Rightarrow> 'b stored_entity \<Rightarrow> bool" where
  "state_ok k e \<longleftrightarrow>
     (case se_state e of None \<Rightarrow> True
      | Some m \<Rightarrow> is_state_message (message_name m) \<and> base m = State_Base k)"

definition entity_ok :: "u32 \<Rightarrow> 'b stored_entity \<Rightarrow> bool" where
  "entity_ok k e \<longleftrightarrow> se_key e = k \<and> info_ok k e \<and> state_ok k e \<and> (se_info e \<noteq> None \<or> se_state e \<noteq> None)"

text \<open>A property of every entry, kept by every operation when the two updates keep it.\<close>

definition all_entries :: "(u32 \<Rightarrow> 'b stored_entity \<Rightarrow> bool) \<Rightarrow> 'b entity_store \<Rightarrow> bool" where
  "all_entries P s \<longleftrightarrow> (\<forall>k e. entities s k = Some e \<longrightarrow> P k e)"

definition keeps_entry :: "(u32 \<Rightarrow> 'b stored_entity \<Rightarrow> bool) \<Rightarrow> 'b proto_message \<Rightarrow> bool" where
  "keeps_entry P m \<longleftrightarrow>
     (\<forall>k e. e = new_entity \<or> P k e \<longrightarrow>
        (\<forall>nm oid. is_list_message (message_name m) \<longrightarrow> base m = Info_Base k nm oid \<longrightarrow>
           P k (info_update m k nm oid e)) \<and>
        (\<not> is_list_message (message_name m) \<longrightarrow> is_state_message (message_name m) \<longrightarrow>
           base m = State_Base k \<longrightarrow> P k (state_update m k e)))"

lemma keeps_entryI:
  assumes "\<And>k e nm oid. e = new_entity \<or> P k e \<Longrightarrow> is_list_message (message_name m) \<Longrightarrow>
      base m = Info_Base k nm oid \<Longrightarrow> P k (info_update m k nm oid e)"
    and "\<And>k e. e = new_entity \<or> P k e \<Longrightarrow> \<not> is_list_message (message_name m) \<Longrightarrow>
      is_state_message (message_name m) \<Longrightarrow> base m = State_Base k \<Longrightarrow> P k (state_update m k e)"
  shows "keeps_entry P m"
  using assms by (simp add: keeps_entry_def)

lemma entry_ok: "all_entries P s \<Longrightarrow> entry s k = new_entity \<or> P k (entry s k)"
  by (auto simp: all_entries_def entry_def split: option.splits)

lemma all_entries_ingest:
  assumes "all_entries P s" "keeps_entry P m"
  shows "all_entries P (fst (snd (ingest s m)))"
proof (cases rule: ingest_cases [where msg = m and s = s])
  case (info key nm oid)
  have "P key (info_update m key nm oid (entry s key))"
    using assms(2) entry_ok [OF assms(1), of key] info(1,2) unfolding keeps_entry_def by blast
  then show ?thesis using assms(1) by (simp add: info(3) all_entries_def)
next
  case (state key)
  have "P key (state_update m key (entry s key))"
    using assms(2) entry_ok [OF assms(1), of key] state(1-3) unfolding keeps_entry_def by blast
  then show ?thesis using assms(1) by (simp add: state(4) all_entries_def)
qed (simp add: assms)

lemma fold_invariant_set:
  "I x \<Longrightarrow> (\<And>p s. p \<in> set ps \<Longrightarrow> I s \<Longrightarrow> I (f p s)) \<Longrightarrow> I (fold f ps x)"
  by (induction ps arbitrary: x) simp_all

lemma store_run_entries:
  assumes "\<And>m. Ingest m \<in> set ops \<Longrightarrow> keeps_entry P m"
  shows "all_entries P (store_run ops)"
  unfolding store_run_def
proof (rule fold_invariant_set)
  show "all_entries P new_store" by (simp add: all_entries_def new_store_def)
next
  fix p s
  assume p: "p \<in> set ops" and s: "all_entries P s"
  show "all_entries P (apply_op p s)"
  proof (cases p)
    case (Ingest m)
    then show ?thesis using p s assms by (simp add: all_entries_ingest)
  qed (use s in \<open>simp_all add: all_entries_def clear_def es_on_state_def\<close>)
qed

lemma keeps_entity_ok:
  fixes m :: "'b proto_message"
  shows "keeps_entry entity_ok m"
proof (rule keeps_entryI)
  fix k and e :: "'b stored_entity" and nm oid
  assume "e = new_entity \<or> entity_ok k e" "is_list_message (message_name m)" "base m = Info_Base k nm oid"
  then show "entity_ok k (info_update m k nm oid e)"
    by (auto simp: entity_ok_def info_update_def info_ok_def state_ok_def new_entity_def)
next
  fix k and e :: "'b stored_entity"
  assume "e = new_entity \<or> entity_ok k e" "is_state_message (message_name m)" "base m = State_Base k"
  then show "entity_ok k (state_update m k e)"
    by (auto simp: entity_ok_def state_update_def info_ok_def state_ok_def new_entity_def split: option.splits)
qed

lemma entity_ok_run: "all_entries entity_ok (store_run ops)"
  by (rule store_run_entries) (rule keeps_entity_ok)

lemma finite_ingest: "finite (dom (entities s)) \<Longrightarrow> finite (dom (entities (fst (snd (ingest s m)))))"
  by (cases rule: ingest_cases [where msg = m and s = s]) simp_all

lemma finite_store_run:
  fixes ops :: "'b store_op list"
  shows "finite (dom (entities (store_run ops)))"
  unfolding store_run_def
proof (rule fold_invariant_set)
  show "finite (dom (entities new_store))" by (simp add: new_store_def)
next
  fix p :: "'b store_op" and s :: "'b entity_store"
  assume "finite (dom (entities s))"
  then show "finite (dom (entities (apply_op p s)))"
    by (cases p) (auto simp: clear_def es_on_state_def finite_ingest)
qed

section \<open>Type safety of the accessors\<close>

definition msg_type :: "'b proto_message \<Rightarrow> entity_type" where
  "msg_type m = entity_type_from_token
     (if is_list_message (message_name m) then list_token (message_name m) else state_token (message_name m))"

text \<open>Every list message names a domain the library knows.\<close>

definition known_lists :: "'b store_op list \<Rightarrow> bool" where
  "known_lists ops \<longleftrightarrow>
     list_all (\<lambda>p. case p of Ingest m \<Rightarrow> is_list_message (message_name m) \<longrightarrow> msg_type m \<noteq> Unknown | _ \<Rightarrow> True) ops"

definition typed_by_list :: "u32 \<Rightarrow> 'b stored_entity \<Rightarrow> bool" where
  "typed_by_list k e \<longleftrightarrow>
     (\<forall>m. se_info e = Some m \<longrightarrow>
        is_list_message (message_name m) \<and> se_type e = msg_type m \<and> msg_type m \<noteq> Unknown)"

lemma typed_by_list_run:
  fixes ops :: "'b store_op list"
  assumes "known_lists ops"
  shows "all_entries typed_by_list (store_run ops)"
proof (rule store_run_entries)
  fix m
  assume "Ingest m \<in> set ops"
  then have "is_list_message (message_name m) \<longrightarrow> msg_type m \<noteq> Unknown"
    using assms by (auto simp: known_lists_def list_all_iff)
  then show "keeps_entry typed_by_list m"
    by (intro keeps_entryI)
      (auto simp: typed_by_list_def info_update_def state_update_def new_entity_def msg_type_def [of m])
qed

lemma typed_info_safe:
  assumes "all_entries typed_by_list s" "cls = ''ListEntities'' @ entity_type_name ty @ ''Response''"
  shows "typed_info ty cls parse s key \<noteq> Bad_Cast"
proof (rule notI)
  assume "typed_info ty cls parse s key = Bad_Cast"
  then obtain e m where e: "entities s key = Some e" and ty: "se_type e = ty" and m: "se_info e = Some m"
    and ne: "message_name m \<noteq> cls"
    by (auto simp: typed_info_def cast_to_def split: option.splits if_splits)
  have "is_list_message (message_name m)" "msg_type m = ty" "ty \<noteq> Unknown"
    using assms(1) e m ty unfolding typed_by_list_def all_entries_def by auto
  then have "message_name m = cls"
    using list_message_class [of "message_name m" ty] assms(2) by (simp add: msg_type_def)
  then show False using ne by simp
qed

text \<open>
  The device keeps to one domain per key, and sends no message \<^verbatim>\<open>EventStateResponse\<close> (\<^verbatim>\<open>api.proto\<close> has none),
  which the code would take for an event.
\<close>

definition consistent :: "(u32 \<Rightarrow> entity_type) \<Rightarrow> 'b store_op list \<Rightarrow> bool" where
  "consistent dom_of ops \<longleftrightarrow>
     list_all (\<lambda>p. case p of
        Ingest m \<Rightarrow> (case base m of
            Plain_Base \<Rightarrow> True
          | Info_Base k _ _ \<Rightarrow> msg_type m = dom_of k \<and> dom_of k \<noteq> Unknown
          | State_Base k \<Rightarrow> msg_type m = dom_of k \<and> dom_of k \<noteq> Unknown \<and>
              message_name m \<noteq> ''EventStateResponse'')
      | _ \<Rightarrow> True) ops"

definition typed_by_state :: "(u32 \<Rightarrow> entity_type) \<Rightarrow> u32 \<Rightarrow> 'b stored_entity \<Rightarrow> bool" where
  "typed_by_state dom_of k e \<longleftrightarrow> se_type e = dom_of k \<and> dom_of k \<noteq> Unknown \<and>
     (\<forall>m. se_state e = Some m \<longrightarrow> msg_type m = dom_of k \<and>
        \<not> is_list_message (message_name m) \<and> is_state_message (message_name m) \<and>
        message_name m \<noteq> ''EventStateResponse'')"

lemma typed_by_state_run:
  fixes ops :: "'b store_op list"
  assumes "consistent dom_of ops"
  shows "all_entries (typed_by_state dom_of) (store_run ops)"
proof (rule store_run_entries)
  fix m
  assume "Ingest m \<in> set ops"
  then have c: "consistent dom_of [Ingest m]"
    using assms by (auto simp: consistent_def list_all_iff)
  show "keeps_entry (typed_by_state dom_of) m"
  proof (rule keeps_entryI)
    fix k and e :: "'b stored_entity" and nm oid
    assume "e = new_entity \<or> typed_by_state dom_of k e" "is_list_message (message_name m)"
      "base m = Info_Base k nm oid"
    then show "typed_by_state dom_of k (info_update m k nm oid e)"
      using c by (auto simp: typed_by_state_def info_update_def msg_type_def consistent_def new_entity_def)
  next
    fix k and e :: "'b stored_entity"
    assume "e = new_entity \<or> typed_by_state dom_of k e" "\<not> is_list_message (message_name m)"
      "is_state_message (message_name m)" "base m = State_Base k"
    then show "typed_by_state dom_of k (state_update m k e)"
      using c by (auto simp: typed_by_state_def state_update_def msg_type_def consistent_def new_entity_def)
  qed
qed

definition state_class :: "entity_type \<Rightarrow> string" where
  "state_class ty = (if ty = Event then ''EventResponse'' else entity_type_name ty @ ''StateResponse'')"

lemma typed_state_safe:
  assumes "all_entries (typed_by_state dom_of) s" "cls = state_class ty"
  shows "typed_state ty cls parse s key \<noteq> Bad_Cast"
proof (rule notI)
  assume "typed_state ty cls parse s key = Bad_Cast"
  then obtain e m where e: "entities s key = Some e" and ty: "se_type e = ty" and m: "se_state e = Some m"
    and ne: "message_name m \<noteq> cls"
    by (auto simp: typed_state_def cast_to_def split: option.splits if_splits)
  have st: "\<not> is_list_message (message_name m)" "is_state_message (message_name m)" "msg_type m = ty" "ty \<noteq> Unknown"
    "message_name m \<noteq> ''EventStateResponse''"
    using assms(1) e m ty unfolding typed_by_state_def all_entries_def by auto
  show False
  proof (cases "is_event_message (message_name m)")
    case True
    then have "message_name m = ''EventResponse''" by (simp add: is_event_message_def)
    moreover have "ty = Event" using st(1,3) True
      by (simp add: msg_type_def state_token_def entity_type_from_token_def entity_type_tokens_def)
    ultimately show False using ne assms(2) by (simp add: state_class_def)
  next
    case False
    then have "message_name m = entity_type_name ty @ ''StateResponse''"
      using state_message_class [of "message_name m" ty] st by (simp add: msg_type_def)
    then show False using ne assms(2) st(5) by (auto simp: state_class_def split: if_splits)
  qed
qed

lemmas info_accessor_defs =
  binary_sensor_info_def
  sensor_info_def
  text_sensor_info_def
  switch_info_def
  light_info_def
  cover_info_def
  fan_info_def
  climate_info_def
  number_info_def
  select_info_def
  text_info_def
  button_info_def
  lock_info_def
  media_player_info_def
  camera_info_def
  siren_info_def
  alarm_control_panel_info_def
  date_info_def
  time_info_def
  datetime_info_def
  valve_info_def
  event_info_def
  update_info_def
  water_heater_info_def
  infrared_info_def
  radio_frequency_info_def

lemmas state_accessor_defs =
  binary_sensor_state_def
  sensor_state_def
  text_sensor_state_def
  switch_state_def
  light_state_def
  cover_state_def
  fan_state_def
  climate_state_def
  number_state_def
  select_state_def
  text_state_def
  lock_state_def
  media_player_state_def
  siren_state_def
  alarm_control_panel_state_def
  date_state_def
  time_state_def
  datetime_state_def
  valve_state_def
  event_state_def
  update_state_def
  water_heater_state_def

section \<open>Searching by object id\<close>

lemma find_by_object_id_None:
  assumes "iterates iter" "finite (dom (entities s))"
  shows "find_by_object_id iter s oid = None \<longleftrightarrow> (\<forall>k e. entities s k = Some e \<longrightarrow> se_object_id e \<noteq> oid)"
proof -
  have "set (iter (entities s)) = dom (entities s)" using assms by (simp add: iterates_def)
  then have "set (all_entities iter s) = ran (entities s)"
    by (force simp: all_entities_def ran_def dom_def)
  then show ?thesis by (auto simp: find_by_object_id_def find_None_iff ran_def)
qed

lemma find_by_object_id_Some:
  assumes "iterates iter" "finite (dom (entities s))" "find_by_object_id iter s oid = Some e"
  shows "se_object_id e = oid \<and> (\<exists>k. entities s k = Some e)"
proof -
  have "e \<in> set (all_entities iter s)" "se_object_id e = oid"
    using assms(3) by (auto simp: find_by_object_id_def find_Some_iff)
  moreover have "set (iter (entities s)) = dom (entities s)"
    using assms(1,2) by (simp add: iterates_def)
  ultimately show ?thesis by (auto simp: all_entities_def dom_def)
qed

section \<open>Properties\<close>

text \<open>
  Domain names and tokens are inverse to each other: every domain is recovered from its printed
  name, and a token with a known domain is exactly that domain's name.
\<close>

theorem token_roundtrip:
  "entity_type_from_token (entity_type_name t) = t \<and>
   (entity_type_from_token token = t \<and> t \<noteq> Unknown \<longleftrightarrow> token = entity_type_name t \<and> t \<noteq> Unknown)"
  using entity_type_from_token_known [of token] by auto

text \<open>
  \<^verbatim>\<open>object_id_from_name\<close> yields only the characters \<^verbatim>\<open>[a-z0-9_-]\<close>, leaves exactly such strings
  unchanged, is idempotent, works character by character and never lengthens the name.
\<close>

theorem object_id_sanitised:
  "list_all id_char (object_id_from_name name) \<and>
   (object_id_from_name name = name \<longleftrightarrow> list_all id_char name) \<and>
   object_id_from_name (object_id_from_name name) = object_id_from_name name \<and>
   object_id_from_name (name @ name') = object_id_from_name name @ object_id_from_name name' \<and>
   length (object_id_from_name name) \<le> length name"
  using object_id_from_name_chars [of name] object_id_from_name_fixed
  by (metis object_id_from_name_append length_object_id_from_name)

text \<open>
  C31: after any sequence of ingested messages, clears and callback registrations the store is finite
  and every entry is filed under its own key, holds a description or a state, its description is a
  list message of that key from which name and object id were taken, and its state is a state message
  of that key.
\<close>

theorem store_invariant:
  "finite (dom (entities (store_run ops))) \<and> all_entries entity_ok (store_run ops)"
  using finite_store_run entity_ok_run by blast

text \<open>
  what one message does to the store, whatever the message.  Exactly the entity and state messages
  are accepted; a rejected message changes nothing and calls nothing; an accepted one changes only the
  entry of its key; the description and the identity of an entry survive a state message, its state
  survives a list message; and only a state message reports to the callback, once.
\<close>

theorem ingest_effect:
  fixes s :: "'b entity_store"
  shows "case ingest s m of (ok, s', calls) \<Rightarrow>
     (ok \<longleftrightarrow> (is_list_message (message_name m) \<and> (\<exists>k nm oid. base m = Info_Base k nm oid)) \<or>
             (\<not> is_list_message (message_name m) \<and> is_state_message (message_name m) \<and>
              (\<exists>k. base m = State_Base k))) \<and>
     (\<not> ok \<longrightarrow> s' = s \<and> calls = []) \<and>
     state_cb s' = state_cb s \<and>
     (\<forall>k nm oid. ok \<longrightarrow> base m = Info_Base k nm oid \<longrightarrow> calls = [] \<and>
        (\<forall>k'. k' \<noteq> k \<longrightarrow> entities s' k' = entities s k') \<and>
        (\<exists>e. entities s' k = Some e \<and> se_key e = k \<and> se_name e = nm \<and> se_info e = Some m \<and>
           se_type e = entity_type_from_token (list_token (message_name m)) \<and>
           se_object_id e = (if oid = [] then object_id_from_name nm else oid) \<and>
           se_state e = se_state (entry s k))) \<and>
     (\<forall>k. ok \<longrightarrow> base m = State_Base k \<longrightarrow>
        calls = (if state_cb s then [(entity_type_from_token (state_token (message_name m)), k)] else []) \<and>
        (\<forall>k'. k' \<noteq> k \<longrightarrow> entities s' k' = entities s k') \<and>
        (\<exists>e. entities s' k = Some e \<and> se_key e = k \<and> se_state e = Some m \<and>
           se_info e = se_info (entry s k) \<and> se_name e = se_name (entry s k) \<and>
           se_object_id e = se_object_id (entry s k)))"
  by (cases "base m") (auto simp: ingest_def Let_def)

theorem ingest_effect_witness:
  "case ingest (es_on_state new_store)
        \<lparr>message_name = ''SwitchStateResponse'', base = State_Base 7, payload = ()\<rparr> of (ok, s', calls) \<Rightarrow>
     ok \<and> calls = [(Switch, 7)]"
  using ingest_effect [where s = "es_on_state new_store" and
      m = "\<lparr>message_name = ''SwitchStateResponse'', base = State_Base 7, payload = ()\<rparr>"]
  by (simp add: ingest_def Let_def is_list_message_def is_state_message_def is_event_message_def ends_with_def
      es_on_state_def new_store_def state_token_def entity_type_from_token_def entity_type_tokens_def)

text \<open>
  Type safety of the info accessors.  As long as the list messages name known domains, no
  \<^verbatim>\<open>static_cast\<close> in the 26 info accessors reaches a message of another class, whatever state messages
  arrive in between.
\<close>

theorem info_accessors_safe:
  assumes "known_lists ops"
  shows
    "binary_sensor_info parse (store_run ops) key \<noteq> Bad_Cast \<and>
     sensor_info parse (store_run ops) key \<noteq> Bad_Cast \<and>
     text_sensor_info parse (store_run ops) key \<noteq> Bad_Cast \<and>
     switch_info parse (store_run ops) key \<noteq> Bad_Cast \<and>
     light_info parse (store_run ops) key \<noteq> Bad_Cast \<and>
     cover_info parse (store_run ops) key \<noteq> Bad_Cast \<and>
     fan_info parse (store_run ops) key \<noteq> Bad_Cast \<and>
     climate_info parse (store_run ops) key \<noteq> Bad_Cast \<and>
     number_info parse (store_run ops) key \<noteq> Bad_Cast \<and>
     select_info parse (store_run ops) key \<noteq> Bad_Cast \<and>
     text_info parse (store_run ops) key \<noteq> Bad_Cast \<and>
     button_info parse (store_run ops) key \<noteq> Bad_Cast \<and>
     lock_info parse (store_run ops) key \<noteq> Bad_Cast \<and>
     media_player_info parse (store_run ops) key \<noteq> Bad_Cast \<and>
     camera_info parse (store_run ops) key \<noteq> Bad_Cast \<and>
     siren_info parse (store_run ops) key \<noteq> Bad_Cast \<and>
     alarm_control_panel_info parse (store_run ops) key \<noteq> Bad_Cast \<and>
     date_info parse (store_run ops) key \<noteq> Bad_Cast \<and>
     time_info parse (store_run ops) key \<noteq> Bad_Cast \<and>
     datetime_info parse (store_run ops) key \<noteq> Bad_Cast \<and>
     valve_info parse (store_run ops) key \<noteq> Bad_Cast \<and>
     event_info parse (store_run ops) key \<noteq> Bad_Cast \<and>
     update_info parse (store_run ops) key \<noteq> Bad_Cast \<and>
     water_heater_info parse (store_run ops) key \<noteq> Bad_Cast \<and>
     infrared_info parse (store_run ops) key \<noteq> Bad_Cast \<and>
     radio_frequency_info parse (store_run ops) key \<noteq> Bad_Cast"
  unfolding info_accessor_defs by (intro conjI typed_info_safe [OF typed_by_list_run [OF assms]]) simp_all

theorem info_accessors_safe_witness:
  "switch_info id (store_run [Ingest
     \<lparr>message_name = ''ListEntitiesSwitchResponse'', base = Info_Base 5 ''Relay'' [], payload = True\<rparr>]) 5 \<noteq> Bad_Cast"
  using info_accessors_safe [of "[Ingest
     \<lparr>message_name = ''ListEntitiesSwitchResponse'', base = Info_Base 5 ''Relay'' [], payload = True\<rparr>]" id 5]
  by (simp add: known_lists_def msg_type_def is_list_message_def ends_with_def list_token_def
      entity_type_from_token_def entity_type_tokens_def)

text \<open>
  Type safety of the state accessors, for a device that keeps each key in one domain.
\<close>

theorem state_accessors_safe:
  assumes "consistent dom_of ops"
  shows
    "binary_sensor_state parse (store_run ops) key \<noteq> Bad_Cast \<and>
     sensor_state parse (store_run ops) key \<noteq> Bad_Cast \<and>
     text_sensor_state parse (store_run ops) key \<noteq> Bad_Cast \<and>
     switch_state parse (store_run ops) key \<noteq> Bad_Cast \<and>
     light_state parse (store_run ops) key \<noteq> Bad_Cast \<and>
     cover_state parse (store_run ops) key \<noteq> Bad_Cast \<and>
     fan_state parse (store_run ops) key \<noteq> Bad_Cast \<and>
     climate_state parse (store_run ops) key \<noteq> Bad_Cast \<and>
     number_state parse (store_run ops) key \<noteq> Bad_Cast \<and>
     select_state parse (store_run ops) key \<noteq> Bad_Cast \<and>
     text_state parse (store_run ops) key \<noteq> Bad_Cast \<and>
     lock_state parse (store_run ops) key \<noteq> Bad_Cast \<and>
     media_player_state parse (store_run ops) key \<noteq> Bad_Cast \<and>
     siren_state parse (store_run ops) key \<noteq> Bad_Cast \<and>
     alarm_control_panel_state parse (store_run ops) key \<noteq> Bad_Cast \<and>
     date_state parse (store_run ops) key \<noteq> Bad_Cast \<and>
     time_state parse (store_run ops) key \<noteq> Bad_Cast \<and>
     datetime_state parse (store_run ops) key \<noteq> Bad_Cast \<and>
     valve_state parse (store_run ops) key \<noteq> Bad_Cast \<and>
     event_state parse (store_run ops) key \<noteq> Bad_Cast \<and>
     update_state parse (store_run ops) key \<noteq> Bad_Cast \<and>
     water_heater_state parse (store_run ops) key \<noteq> Bad_Cast"
  unfolding state_accessor_defs
  by (intro conjI typed_state_safe [OF typed_by_state_run [OF assms]]) (simp_all add: state_class_def)

theorem state_accessors_safe_witness:
  "switch_state id (store_run [Ingest
     \<lparr>message_name = ''SwitchStateResponse'', base = State_Base 5, payload = True\<rparr>]) 5 \<noteq> Bad_Cast"
  using state_accessors_safe [of "\<lambda>_. Switch" "[Ingest
     \<lparr>message_name = ''SwitchStateResponse'', base = State_Base 5, payload = True\<rparr>]" id 5]
  by (simp add: consistent_def msg_type_def is_list_message_def is_event_message_def ends_with_def state_token_def
      entity_type_from_token_def entity_type_tokens_def)

text \<open>
  The restriction on the device is needed.  A state message of another domain is stored without a
  look at the type of the entry, so after the description of a switch and a sensor state under its key
  \<^verbatim>\<open>switch_state\<close> casts a \<^verbatim>\<open>SensorStateResponse\<close> to \<^verbatim>\<open>SwitchStateResponse\<close>.
\<close>

theorem state_accessor_confused:
  "switch_state parse (store_run
     [Ingest \<lparr>message_name = ''ListEntitiesSwitchResponse'', base = Info_Base k nm oid, payload = p\<rparr>,
      Ingest \<lparr>message_name = ''SensorStateResponse'', base = State_Base k, payload = q\<rparr>]) k = Bad_Cast"
  by (simp add: store_run_def new_store_def ingest_def Let_def is_list_message_def is_state_message_def
      is_event_message_def ends_with_def list_token_def state_token_def entity_type_from_token_def
      entity_type_tokens_def switch_state_def typed_state_def cast_to_def entry_def)

text \<open>
  \<^verbatim>\<open>find_by_object_id\<close> is complete and sound for every iteration order of the container: it fails only
  if no entry has the id, and what it finds is an entry of the store with that id.
\<close>

theorem find_by_object_id_correct:
  assumes "iterates iter"
  shows "case find_by_object_id iter (store_run ops) oid of
       None \<Rightarrow> \<forall>k e. store_find (store_run ops) k = Some e \<longrightarrow> se_object_id e \<noteq> oid
     | Some e \<Rightarrow> se_object_id e = oid \<and> store_find (store_run ops) (se_key e) = Some e"
  using find_by_object_id_None [OF assms finite_store_run, of ops oid]
    find_by_object_id_Some [OF assms finite_store_run, of ops oid] entity_ok_run [of ops]
  by (fastforce simp: store_find_def all_entries_def entity_ok_def split: option.splits)

lemma iterates_sorted: "iterates (\<lambda>m. sorted_list_of_set (dom m))"
  by (simp add: iterates_def)

theorem find_by_object_id_correct_witness:
  "find_by_object_id (\<lambda>m. sorted_list_of_set (dom m)) (store_run ([] :: unit store_op list)) ''relay'' = None \<and>
   iterates (\<lambda>m :: u32 \<rightharpoonup> unit stored_entity. sorted_list_of_set (dom m))"
  using find_by_object_id_correct [OF iterates_sorted, of "[] :: unit store_op list" "''relay''"]
  by (simp add: iterates_sorted store_run_def new_store_def find_by_object_id_def all_entities_def)

end
