(* ===== verification/One_Shot.thy ===== *)
theory One_Shot
  imports ESP_Prelude "HOL-Library.Multiset" "HOL-Library.AList"
begin

text \<open>
  Tables of one-shot completions, the bookkeeping that the Bluetooth and the serial proxy share: an
  \<^verbatim>\<open>std::unordered_map\<close> from a correlation key to what waits for it.  The map is an association list with distinct
  keys; no operation depends on its order.  A callback is a number, its identity.
\<close>

type_synonym callback = nat

definition tab_at :: "'v \<Rightarrow> 'k \<Rightarrow> ('k \<times> 'v) list \<Rightarrow> 'v" where
  "tab_at v0 k t = (case map_of t k of None \<Rightarrow> v0 | Some v \<Rightarrow> v)"

text \<open>\<^verbatim>\<open>table[key].push_back(callback)\<close>, and the lookup that moves an entry out of the table.\<close>

definition pend :: "'k \<Rightarrow> callback \<Rightarrow> ('k \<times> callback list) list \<Rightarrow> ('k \<times> callback list) list" where
  "pend k cb t = AList.update k (tab_at [] k t @ [cb]) t"

definition take_out :: "'k \<Rightarrow> ('k \<times> 'v) list \<Rightarrow> 'v option \<times> ('k \<times> 'v) list" where
  "take_out k t = (case map_of t k of None \<Rightarrow> (None, t) | Some v \<Rightarrow> (Some v, AList.delete k t))"

text \<open>All pairs of a key and a callback that wait in a table whose entries hold the callbacks in a component \<open>f\<close>.\<close>

definition waiting :: "('v \<Rightarrow> callback list) \<Rightarrow> ('k \<times> 'v) list \<Rightarrow> ('k \<times> callback) multiset" where
  "waiting f t = mset (concat (map (\<lambda>(k, v). map (Pair k) (f v)) t))"

definition tab_ok :: "('k \<times> 'v) list \<Rightarrow> bool" where
  "tab_ok t = distinct (map fst t)"

lemma waiting_simps [simp]:
  "waiting f [] = {#}" "waiting f ((k, v) # t) = mset (map (Pair k) (f v)) + waiting f t"
  by (simp_all add: waiting_def)

lemma tab_ok_update [simp]: "tab_ok t \<Longrightarrow> tab_ok (AList.update k v t)"
  by (simp add: tab_ok_def distinct_update)

lemma tab_ok_delete [simp]: "tab_ok t \<Longrightarrow> tab_ok (AList.delete k t)"
  by (simp add: tab_ok_def distinct_delete)

lemma tab_ok_Nil [simp]: "tab_ok []"
  by (simp add: tab_ok_def)

lemma tab_ok_pend [simp]: "tab_ok t \<Longrightarrow> tab_ok (pend k cb t)"
  by (simp add: pend_def)

lemma waiting_update:
  "tab_ok t \<Longrightarrow> waiting f (AList.update k v t) + mset (map (Pair k) (case map_of t k of None \<Rightarrow> [] | Some w \<Rightarrow> f w)) =
   waiting f t + mset (map (Pair k) (f v))"
proof (induction t)
  case (Cons e t)
  obtain k' v' where e: "e = (k', v')" by fastforce
  with Cons show ?case by (auto simp: tab_ok_def union_assoc union_commute union_lcomm)
qed simp

lemma delete_fresh: "k \<notin> fst ` set t \<Longrightarrow> AList.delete k t = t"
  by (simp add: AList.delete_eq filter_id_conv image_iff) force

lemma waiting_delete:
  "tab_ok t \<Longrightarrow> waiting f (AList.delete k t) + mset (map (Pair k) (case map_of t k of None \<Rightarrow> [] | Some w \<Rightarrow> f w)) = waiting f t"
proof (induction t)
  case (Cons e t)
  obtain k' v' where e: "e = (k', v')" by fastforce
  show ?case
  proof (cases "k' = k")
    case True
    then show ?thesis using Cons.prems e delete_fresh [of k t] by (simp add: tab_ok_def)
  next
    case False
    then show ?thesis using Cons e by (auto simp: tab_ok_def union_assoc union_commute union_lcomm)
  qed
qed simp

lemma waiting_pend [simp]: "tab_ok t \<Longrightarrow> waiting id (pend k cb t) = add_mset (k, cb) (waiting id t)"
  using waiting_update [of t id k "tab_at [] k t @ [cb]"]
  by (auto simp: pend_def tab_at_def split: option.splits)

lemma take_out_None [simp]: "take_out k t = (None, t') \<longleftrightarrow> map_of t k = None \<and> t' = t"
  by (auto simp: take_out_def split: option.splits)

lemma take_out_Some:
  "take_out k t = (Some v, t') \<longleftrightarrow> map_of t k = Some v \<and> t' = AList.delete k t"
  by (auto simp: take_out_def split: option.splits)

lemma waiting_take_out:
  "take_out k t = (Some v, t') \<Longrightarrow> tab_ok t \<Longrightarrow> tab_ok t' \<and> waiting f t = waiting f t' + mset (map (Pair k) (f v))"
  using waiting_delete [of t f k] by (auto simp: take_out_Some)

text \<open>The sum of what a function reads from the events of a log.\<close>

definition tally :: "('e \<Rightarrow> 'a list) \<Rightarrow> 'e list \<Rightarrow> 'a multiset" where
  "tally f es = mset (concat (map f es))"

lemma tally_append [simp]: "tally f (es @ es') = tally f es + tally f es'"
  by (simp add: tally_def)

lemma tally_simps [simp]: "tally f [] = {#}" "tally f (e # es) = mset (f e) + tally f es"
  by (simp_all add: tally_def)

lemma map_Pair_ran: "concat (map (\<lambda>cb. [(k, cb)]) cbs) = map (Pair k) cbs"
  by (induction cbs) simp_all

end
