(* ===== verification/Bluetooth_Proxy.thy ===== *)
theory Bluetooth_Proxy
  imports One_Shot
begin

text \<open>
  The Bluetooth proxy (\<^verbatim>\<open>src/subsystems/bluetooth_proxy.cpp\<close>): scanning, connections and GATT operations with
  one-shot completions.

  A message of the device is a value of \<open>bt_msg\<close> with the fields of its proto class, a request is a value of
  \<open>bt_request\<close>.  The state carries the log of what crosses the boundary to the application and to the
  client: calls of the application, requests sent, callbacks run.  A callback may call back into the proxy:
  \<open>react\<close> gives the calls that the application makes while an event is delivered, and they are carried out at
  that point, before the handler goes on.  The calls themselves never run a callback.
  Signed 32-bit fields (signal strength, errors) are their bit patterns, enumerators their numbers.  A callback
  that replaces the very handler it is run from is outside the model: it would destroy the running function object.
\<close>

section \<open>Values\<close>

record ble_descriptor = de_uuid :: "u64 list"   de_handle :: u32
record ble_characteristic = ch_uuid :: "u64 list"   ch_handle :: u32   ch_properties :: u32   ch_descriptors :: "ble_descriptor list"
record ble_service = sv_uuid :: "u64 list"   sv_handle :: u32   sv_characteristics :: "ble_characteristic list"

text \<open>The proto classes \<^verbatim>\<open>BluetoothGATTDescriptor\<close>, \<^verbatim>\<open>BluetoothGATTCharacteristic\<close> and \<^verbatim>\<open>BluetoothGATTService\<close>.\<close>

datatype pb_descriptor = Pb_descriptor "u64 list" u32
datatype pb_characteristic = Pb_characteristic "u64 list" u32 u32 "pb_descriptor list"
datatype pb_service = Pb_service "u64 list" u32 "pb_characteristic list"

fun to_descriptor :: "pb_descriptor \<Rightarrow> ble_descriptor" where
  "to_descriptor (Pb_descriptor uuid handle) = \<lparr>de_uuid = uuid, de_handle = handle\<rparr>"

fun to_characteristic :: "pb_characteristic \<Rightarrow> ble_characteristic" where
  "to_characteristic (Pb_characteristic uuid handle properties ds) =
     \<lparr>ch_uuid = uuid, ch_handle = handle, ch_properties = properties, ch_descriptors = map to_descriptor ds\<rparr>"

fun to_gatt_service :: "pb_service \<Rightarrow> ble_service" where
  "to_gatt_service (Pb_service uuid handle cs) =
     \<lparr>sv_uuid = uuid, sv_handle = handle, sv_characteristics = map to_characteristic cs\<rparr>"

record ble_char_properties =
  pr_broadcast :: bool
  pr_read :: bool
  pr_write_without_response :: bool
  pr_write :: bool
  pr_notify :: bool
  pr_indicate :: bool
  pr_authenticated_signed_writes :: bool
  pr_extended_properties :: bool

definition properties_from_bits :: "u32 \<Rightarrow> ble_char_properties" where
  "properties_from_bits b =
     \<lparr>pr_broadcast = (b AND 0x01 \<noteq> 0), pr_read = (b AND 0x02 \<noteq> 0), pr_write_without_response = (b AND 0x04 \<noteq> 0),
      pr_write = (b AND 0x08 \<noteq> 0), pr_notify = (b AND 0x10 \<noteq> 0), pr_indicate = (b AND 0x20 \<noteq> 0),
      pr_authenticated_signed_writes = (b AND 0x40 \<noteq> 0), pr_extended_properties = (b AND 0x80 \<noteq> 0)\<rparr>"

record ble_blob = bl_uuid :: bytes   bl_data :: bytes
record ble_advertisement =
  av_address :: u64
  av_name :: bytes
  av_rssi :: u32
  av_address_type :: u32
  av_service_data :: "ble_blob list"
  av_service_uuids :: "bytes list"
  av_manufacturer_data :: "ble_blob list"
record ble_raw_advertisement = rw_address :: u64   rw_rssi :: u32   rw_address_type :: u32   rw_data :: bytes
record ble_scanner_state = sc_state :: u32   sc_mode :: u32   sc_configured_mode :: u32
record ble_connection = cn_address :: u64   cn_connected :: bool   cn_mtu :: u32   cn_error :: u32
record ble_connections_free = fr_free :: u32   fr_limit :: u32   fr_allocated :: "u64 list"

record read_result = rr_address :: u64   rr_handle :: u32   rr_ok :: bool   rr_data :: bytes   rr_error :: u32
record write_result = wr_address :: u64   wr_handle :: u32   wr_ok :: bool   wr_error :: u32
record services_result = sr_address :: u64   sr_ok :: bool   sr_services :: "ble_service list"   sr_error :: u32

datatype bt_msg =
    Advertisement u64 bytes u32 u32 "bytes list" "(bytes \<times> bytes) list" "(bytes \<times> bytes) list"
  | Raw_Advertisements "(u64 \<times> u32 \<times> u32 \<times> bytes) list"
  | Scanner_State u32 u32 u32
  | Device_Connection u64 bool u32 u32
  | Connections_Free u32 u32 "u64 list"
  | GATT_Read u64 u32 bytes
  | GATT_Write u64 u32
  | GATT_Notify_Data u64 u32 bytes
  | GATT_Services u64 "pb_service list"
  | GATT_Services_Done u64
  | GATT_Error u64 u32 u32

datatype device_request = Connect_With_Cache | Connect_Without_Cache | Disconnect_Device

datatype bt_request =
    Subscribe_Advertisements u32
  | Unsubscribe_Advertisements
  | Scanner_Set_Mode u32
  | Device_Request u64 device_request
  | Subscribe_Connections_Free
  | GATT_Read_Request u64 u32
  | GATT_Write_Request u64 u32 bool bytes
  | GATT_Notify_Request u64 u32 bool
  | GATT_Get_Services_Request u64

text \<open>The public methods; an optional callback is an \<^verbatim>\<open>std::function\<close> that may be empty.\<close>

datatype bt_op =
    Op_subscribe_advertisements "callback option" u32
  | Op_on_raw_advertisements "callback option"
  | Op_unsubscribe_advertisements
  | Op_set_scanner_mode u32
  | Op_on_scanner_state "callback option"
  | Op_request_connection u64 bool
  | Op_disconnect u64
  | Op_subscribe_connections_free
  | Op_on_connection "callback option"
  | Op_on_connections_free "callback option"
  | Op_read u64 u32 "callback option"
  | Op_write u64 u32 bytes bool "callback option"
  | Op_get_services u64 "callback option"
  | Op_raw_read u64 u32
  | Op_raw_write u64 u32 bytes bool
  | Op_notify u64 u32 bool
  | Op_raw_get_services u64
  | Op_on_read "callback option"
  | Op_on_notify_data "callback option"
  | Op_on_services "callback option"
  | Op_on_services_done "callback option"
  | Op_on_error "callback option"

datatype bt_event =
    Asked bt_op
  | Sent bt_request
  | Ran_advertisement callback ble_advertisement
  | Ran_raw callback "ble_raw_advertisement list"
  | Ran_scanner callback ble_scanner_state
  | Ran_connection callback ble_connection
  | Ran_free callback ble_connections_free
  | Ran_read callback u64 u32 bytes
  | Ran_notify callback u64 u32 bytes
  | Ran_services callback u64 "ble_service list"
  | Ran_services_done callback u64
  | Ran_error callback u64 u32 u32
  | Once_read callback read_result
  | Once_write callback write_result
  | Once_services callback services_result

section \<open>State\<close>

datatype bt_slot = Slot_advertisement | Slot_raw | Slot_scanner | Slot_connection | Slot_free

record bluetooth =
  b_advertisement_handler :: "callback option"
  b_raw_handler :: "callback option"
  b_scanner_handler :: "callback option"
  b_connection_handler :: "callback option"
  b_free_handler :: "callback option"
  b_read_handler :: "callback option"
  b_notify_handler :: "callback option"
  b_services_handler :: "callback option"
  b_services_done_handler :: "callback option"
  b_error_handler :: "callback option"
  b_gatt_registered :: bool
  b_slots :: "bt_slot list"
  b_pending_reads :: "(u64 \<times> callback list) list"
  b_pending_writes :: "(u64 \<times> callback list) list"
  b_pending_services :: "(u64 \<times> ble_service list \<times> callback list) list"
  b_log :: "bt_event list"

definition bt_init :: bluetooth where
  "bt_init = \<lparr>b_advertisement_handler = None, b_raw_handler = None, b_scanner_handler = None, b_connection_handler = None,
     b_free_handler = None, b_read_handler = None, b_notify_handler = None, b_services_handler = None,
     b_services_done_handler = None, b_error_handler = None, b_gatt_registered = False, b_slots = [],
     b_pending_reads = [], b_pending_writes = [], b_pending_services = [], b_log = []\<rparr>"

definition bt_emit :: "bt_event \<Rightarrow> bluetooth \<Rightarrow> bluetooth" where
  "bt_emit e s = s\<lparr>b_log := b_log s @ [e]\<rparr>"

definition bt_send :: "bt_request \<Rightarrow> bluetooth \<Rightarrow> bluetooth" where
  "bt_send r = bt_emit (Sent r)"

text \<open>\<^verbatim>\<open>client_.on(id, handler)\<close> for the messages that are registered one by one.\<close>

definition bt_listen :: "bt_slot \<Rightarrow> bluetooth \<Rightarrow> bluetooth" where
  "bt_listen i s = s\<lparr>b_slots := i # b_slots s\<rparr>"

definition ensure_gatt_handlers :: "bluetooth \<Rightarrow> bluetooth" where
  "ensure_gatt_handlers s = (if b_gatt_registered s then s else s\<lparr>b_gatt_registered := True\<rparr>)"

definition gatt_key :: "u64 \<Rightarrow> u32 \<Rightarrow> u64" where
  "gatt_key address handle = push_bit 16 address OR ucast (handle AND 0xFFFF)"

section \<open>The public methods\<close>

definition bt_subscribe_advertisements :: "callback option \<Rightarrow> u32 \<Rightarrow> bluetooth \<Rightarrow> bluetooth" where
  "bt_subscribe_advertisements h flags s =
     bt_send (Subscribe_Advertisements flags) (bt_listen Slot_advertisement (s\<lparr>b_advertisement_handler := h\<rparr>))"

definition bt_on_raw_advertisements :: "callback option \<Rightarrow> bluetooth \<Rightarrow> bluetooth" where
  "bt_on_raw_advertisements h s = bt_listen Slot_raw (s\<lparr>b_raw_handler := h\<rparr>)"

definition bt_unsubscribe_advertisements :: "bluetooth \<Rightarrow> bluetooth" where
  "bt_unsubscribe_advertisements s = bt_send Unsubscribe_Advertisements s"

definition bt_set_scanner_mode :: "u32 \<Rightarrow> bluetooth \<Rightarrow> bluetooth" where
  "bt_set_scanner_mode mode s = bt_send (Scanner_Set_Mode mode) s"

definition bt_on_scanner_state :: "callback option \<Rightarrow> bluetooth \<Rightarrow> bluetooth" where
  "bt_on_scanner_state h s = bt_listen Slot_scanner (s\<lparr>b_scanner_handler := h\<rparr>)"

definition bt_request_connection :: "u64 \<Rightarrow> bool \<Rightarrow> bluetooth \<Rightarrow> bluetooth" where
  "bt_request_connection address with_cache s =
     bt_send (Device_Request address (if with_cache then Connect_With_Cache else Connect_Without_Cache)) s"

definition bt_disconnect :: "u64 \<Rightarrow> bluetooth \<Rightarrow> bluetooth" where
  "bt_disconnect address s = bt_send (Device_Request address Disconnect_Device) s"

definition bt_subscribe_connections_free :: "bluetooth \<Rightarrow> bluetooth" where
  "bt_subscribe_connections_free s = bt_send Subscribe_Connections_Free s"

definition bt_on_connection :: "callback option \<Rightarrow> bluetooth \<Rightarrow> bluetooth" where
  "bt_on_connection h s = bt_listen Slot_connection (s\<lparr>b_connection_handler := h\<rparr>)"

definition bt_on_connections_free :: "callback option \<Rightarrow> bluetooth \<Rightarrow> bluetooth" where
  "bt_on_connections_free h s = bt_listen Slot_free (s\<lparr>b_free_handler := h\<rparr>)"

definition bt_raw_read :: "u64 \<Rightarrow> u32 \<Rightarrow> bluetooth \<Rightarrow> bluetooth" where
  "bt_raw_read address handle s = bt_send (GATT_Read_Request address handle) s"

definition bt_raw_write :: "u64 \<Rightarrow> u32 \<Rightarrow> bytes \<Rightarrow> bool \<Rightarrow> bluetooth \<Rightarrow> bluetooth" where
  "bt_raw_write address handle d response s = bt_send (GATT_Write_Request address handle response d) s"

definition bt_raw_get_services :: "u64 \<Rightarrow> bluetooth \<Rightarrow> bluetooth" where
  "bt_raw_get_services address s = bt_send (GATT_Get_Services_Request address) s"

definition bt_read :: "u64 \<Rightarrow> u32 \<Rightarrow> callback option \<Rightarrow> bluetooth \<Rightarrow> bluetooth" where
  "bt_read address handle h s =
     (let s = ensure_gatt_handlers s;
          s = (case h of None \<Rightarrow> s
               | Some cb \<Rightarrow> s\<lparr>b_pending_reads := pend (gatt_key address handle) cb (b_pending_reads s)\<rparr>)
      in bt_raw_read address handle s)"

definition bt_write :: "u64 \<Rightarrow> u32 \<Rightarrow> bytes \<Rightarrow> bool \<Rightarrow> callback option \<Rightarrow> bluetooth \<Rightarrow> bluetooth" where
  "bt_write address handle d response h s =
     (let s = ensure_gatt_handlers s;
          s = (case h of None \<Rightarrow> s
               | Some cb \<Rightarrow> s\<lparr>b_pending_writes := pend (gatt_key address handle) cb (b_pending_writes s)\<rparr>)
      in bt_raw_write address handle d response s)"

definition bt_get_services :: "u64 \<Rightarrow> callback option \<Rightarrow> bluetooth \<Rightarrow> bluetooth" where
  "bt_get_services address h s =
     (let s = ensure_gatt_handlers s;
          s = (case h of None \<Rightarrow> s
               | Some cb \<Rightarrow>
                   (case tab_at ([], []) address (b_pending_services s) of
                      (svs, cbs) \<Rightarrow>
                        s\<lparr>b_pending_services := AList.update address (svs, cbs @ [cb]) (b_pending_services s)\<rparr>))
      in bt_raw_get_services address s)"

definition bt_enable_notify :: "u64 \<Rightarrow> u32 \<Rightarrow> bool \<Rightarrow> bluetooth \<Rightarrow> bluetooth" where
  "bt_enable_notify address handle enable s = bt_send (GATT_Notify_Request address handle enable) s"

definition bt_on_read :: "callback option \<Rightarrow> bluetooth \<Rightarrow> bluetooth" where
  "bt_on_read h s = ensure_gatt_handlers (s\<lparr>b_read_handler := h\<rparr>)"

definition bt_on_notify_data :: "callback option \<Rightarrow> bluetooth \<Rightarrow> bluetooth" where
  "bt_on_notify_data h s = ensure_gatt_handlers (s\<lparr>b_notify_handler := h\<rparr>)"

definition bt_on_services :: "callback option \<Rightarrow> bluetooth \<Rightarrow> bluetooth" where
  "bt_on_services h s = ensure_gatt_handlers (s\<lparr>b_services_handler := h\<rparr>)"

definition bt_on_services_done :: "callback option \<Rightarrow> bluetooth \<Rightarrow> bluetooth" where
  "bt_on_services_done h s = ensure_gatt_handlers (s\<lparr>b_services_done_handler := h\<rparr>)"

definition bt_on_error :: "callback option \<Rightarrow> bluetooth \<Rightarrow> bluetooth" where
  "bt_on_error h s = ensure_gatt_handlers (s\<lparr>b_error_handler := h\<rparr>)"

fun bt_call :: "bt_op \<Rightarrow> bluetooth \<Rightarrow> bluetooth" where
  "bt_call (Op_subscribe_advertisements h flags) s = bt_subscribe_advertisements h flags s"
| "bt_call (Op_on_raw_advertisements h) s = bt_on_raw_advertisements h s"
| "bt_call Op_unsubscribe_advertisements s = bt_unsubscribe_advertisements s"
| "bt_call (Op_set_scanner_mode mode) s = bt_set_scanner_mode mode s"
| "bt_call (Op_on_scanner_state h) s = bt_on_scanner_state h s"
| "bt_call (Op_request_connection address with_cache) s = bt_request_connection address with_cache s"
| "bt_call (Op_disconnect address) s = bt_disconnect address s"
| "bt_call Op_subscribe_connections_free s = bt_subscribe_connections_free s"
| "bt_call (Op_on_connection h) s = bt_on_connection h s"
| "bt_call (Op_on_connections_free h) s = bt_on_connections_free h s"
| "bt_call (Op_raw_read address handle) s = bt_raw_read address handle s"
| "bt_call (Op_raw_write address handle d response) s = bt_raw_write address handle d response s"
| "bt_call (Op_raw_get_services address) s = bt_raw_get_services address s"
| "bt_call (Op_read address handle h) s = bt_read address handle h s"
| "bt_call (Op_write address handle d response h) s = bt_write address handle d response h s"
| "bt_call (Op_get_services address h) s = bt_get_services address h s"
| "bt_call (Op_notify address handle enable) s = bt_enable_notify address handle enable s"
| "bt_call (Op_on_read h) s = bt_on_read h s"
| "bt_call (Op_on_notify_data h) s = bt_on_notify_data h s"
| "bt_call (Op_on_services h) s = bt_on_services h s"
| "bt_call (Op_on_services_done h) s = bt_on_services_done h s"
| "bt_call (Op_on_error h) s = bt_on_error h s"

lemmas bt_methods =
  bt_subscribe_advertisements_def bt_on_raw_advertisements_def bt_unsubscribe_advertisements_def bt_set_scanner_mode_def bt_on_scanner_state_def bt_request_connection_def bt_disconnect_def bt_subscribe_connections_free_def bt_on_connection_def bt_on_connections_free_def bt_raw_read_def bt_raw_write_def bt_raw_get_services_def bt_read_def bt_write_def bt_get_services_def bt_enable_notify_def bt_on_read_def bt_on_notify_data_def bt_on_services_def bt_on_services_done_def bt_on_error_def

definition bt_do :: "bt_op \<Rightarrow> bluetooth \<Rightarrow> bluetooth" where
  "bt_do op s = bt_call op (bt_emit (Asked op) s)"

section \<open>Callbacks\<close>

definition bt_deliver :: "(bt_event \<Rightarrow> bt_op list) \<Rightarrow> bt_event \<Rightarrow> bluetooth \<Rightarrow> bluetooth" where
  "bt_deliver react e s = fold bt_do (react e) (bt_emit e s)"

definition bt_notify :: "(bt_event \<Rightarrow> bt_op list) \<Rightarrow> callback option \<Rightarrow> (callback \<Rightarrow> bt_event) \<Rightarrow> bluetooth \<Rightarrow> bluetooth" where
  "bt_notify react h ev s = (case h of None \<Rightarrow> s | Some cb \<Rightarrow> bt_deliver react (ev cb) s)"

text \<open>The completion of all one-shot callbacks under a key: the entry is moved out and erased, then they run.\<close>

definition complete_reads :: "(bt_event \<Rightarrow> bt_op list) \<Rightarrow> u64 \<Rightarrow> read_result \<Rightarrow> bluetooth \<Rightarrow> bluetooth" where
  "complete_reads react key r s =
     (case take_out key (b_pending_reads s) of
        (None, _) \<Rightarrow> s
      | (Some once, t) \<Rightarrow> fold (\<lambda>cb. bt_deliver react (Once_read cb r)) once (s\<lparr>b_pending_reads := t\<rparr>))"

definition complete_writes :: "(bt_event \<Rightarrow> bt_op list) \<Rightarrow> u64 \<Rightarrow> write_result \<Rightarrow> bluetooth \<Rightarrow> bluetooth" where
  "complete_writes react key r s =
     (case take_out key (b_pending_writes s) of
        (None, _) \<Rightarrow> s
      | (Some once, t) \<Rightarrow> fold (\<lambda>cb. bt_deliver react (Once_write cb r)) once (s\<lparr>b_pending_writes := t\<rparr>))"

definition complete_services ::
  "(bt_event \<Rightarrow> bt_op list) \<Rightarrow> u64 \<Rightarrow> (ble_service list \<Rightarrow> services_result) \<Rightarrow> bluetooth \<Rightarrow> bluetooth" where
  "complete_services react address res s =
     (case take_out address (b_pending_services s) of
        (None, _) \<Rightarrow> s
      | (Some (svs, cbs), t) \<Rightarrow>
          fold (\<lambda>cb. bt_deliver react (Once_services cb (res svs))) cbs (s\<lparr>b_pending_services := t\<rparr>))"

section \<open>Messages\<close>

definition to_advertisement ::
  "u64 \<Rightarrow> bytes \<Rightarrow> u32 \<Rightarrow> u32 \<Rightarrow> bytes list \<Rightarrow> (bytes \<times> bytes) list \<Rightarrow> (bytes \<times> bytes) list \<Rightarrow> ble_advertisement" where
  "to_advertisement address name rssi address_type uuids sdata mdata =
     \<lparr>av_address = address, av_name = name, av_rssi = rssi, av_address_type = address_type,
      av_service_data = map (\<lambda>(u, d). \<lparr>bl_uuid = u, bl_data = d\<rparr>) sdata, av_service_uuids = uuids,
      av_manufacturer_data = map (\<lambda>(u, d). \<lparr>bl_uuid = u, bl_data = d\<rparr>) mdata\<rparr>"

definition bt_gatt_read :: "(bt_event \<Rightarrow> bt_op list) \<Rightarrow> u64 \<Rightarrow> u32 \<Rightarrow> bytes \<Rightarrow> bluetooth \<Rightarrow> bluetooth" where
  "bt_gatt_read react address handle d s =
     (let s = bt_notify react (b_read_handler s) (\<lambda>cb. Ran_read cb address handle d) s
      in complete_reads react (gatt_key address handle)
           \<lparr>rr_address = address, rr_handle = handle, rr_ok = True, rr_data = d, rr_error = 0\<rparr> s)"

definition bt_gatt_write :: "(bt_event \<Rightarrow> bt_op list) \<Rightarrow> u64 \<Rightarrow> u32 \<Rightarrow> bluetooth \<Rightarrow> bluetooth" where
  "bt_gatt_write react address handle s =
     complete_writes react (gatt_key address handle)
       \<lparr>wr_address = address, wr_handle = handle, wr_ok = True, wr_error = 0\<rparr> s"

definition bt_gatt_notify_data :: "(bt_event \<Rightarrow> bt_op list) \<Rightarrow> u64 \<Rightarrow> u32 \<Rightarrow> bytes \<Rightarrow> bluetooth \<Rightarrow> bluetooth" where
  "bt_gatt_notify_data react address handle d s =
     bt_notify react (b_notify_handler s) (\<lambda>cb. Ran_notify cb address handle d) s"

definition bt_gatt_services :: "(bt_event \<Rightarrow> bt_op list) \<Rightarrow> u64 \<Rightarrow> pb_service list \<Rightarrow> bluetooth \<Rightarrow> bluetooth" where
  "bt_gatt_services react address ps s =
     (let svs = map to_gatt_service ps;
          s = bt_notify react (b_services_handler s) (\<lambda>cb. Ran_services cb address svs) s
      in case tab_at ([], []) address (b_pending_services s) of
           (acc, cbs) \<Rightarrow> s\<lparr>b_pending_services := AList.update address (acc @ svs, cbs) (b_pending_services s)\<rparr>)"

definition bt_gatt_services_done :: "(bt_event \<Rightarrow> bt_op list) \<Rightarrow> u64 \<Rightarrow> bluetooth \<Rightarrow> bluetooth" where
  "bt_gatt_services_done react address s =
     (let s = bt_notify react (b_services_done_handler s) (\<lambda>cb. Ran_services_done cb address) s
      in complete_services react address
           (\<lambda>svs. \<lparr>sr_address = address, sr_ok = True, sr_services = svs, sr_error = 0\<rparr>) s)"

definition bt_gatt_error :: "(bt_event \<Rightarrow> bt_op list) \<Rightarrow> u64 \<Rightarrow> u32 \<Rightarrow> u32 \<Rightarrow> bluetooth \<Rightarrow> bluetooth" where
  "bt_gatt_error react address handle error s =
     (let s = bt_notify react (b_error_handler s) (\<lambda>cb. Ran_error cb address handle error) s;
          s = complete_reads react (gatt_key address handle)
                \<lparr>rr_address = address, rr_handle = handle, rr_ok = False, rr_data = [], rr_error = error\<rparr> s;
          s = complete_writes react (gatt_key address handle)
                \<lparr>wr_address = address, wr_handle = handle, wr_ok = False, wr_error = error\<rparr> s
      in complete_services react address
           (\<lambda>_. \<lparr>sr_address = address, sr_ok = False, sr_services = [], sr_error = error\<rparr>) s)"

fun bt_on_gatt :: "(bt_event \<Rightarrow> bt_op list) \<Rightarrow> bt_msg \<Rightarrow> bluetooth \<Rightarrow> bluetooth" where
  "bt_on_gatt react (GATT_Read address handle d) s = bt_gatt_read react address handle d s"
| "bt_on_gatt react (GATT_Write address handle) s = bt_gatt_write react address handle s"
| "bt_on_gatt react (GATT_Notify_Data address handle d) s = bt_gatt_notify_data react address handle d s"
| "bt_on_gatt react (GATT_Services address ps) s = bt_gatt_services react address ps s"
| "bt_on_gatt react (GATT_Services_Done address) s = bt_gatt_services_done react address s"
| "bt_on_gatt react (GATT_Error address handle error) s = bt_gatt_error react address handle error s"
| "bt_on_gatt react _ s = s"

lemmas bt_gatt_handlers =
  bt_gatt_read_def bt_gatt_write_def bt_gatt_notify_data_def bt_gatt_services_def bt_gatt_services_done_def bt_gatt_error_def

definition bt_advertisement :: "(bt_event \<Rightarrow> bt_op list) \<Rightarrow> u64 \<Rightarrow> bytes \<Rightarrow> u32 \<Rightarrow> u32 \<Rightarrow> bytes list \<Rightarrow> (bytes \<times> bytes) list \<Rightarrow> (bytes \<times> bytes) list \<Rightarrow> bluetooth \<Rightarrow> bluetooth" where
  "bt_advertisement react address name rssi atype uuids sdata mdata s =
     (if Slot_advertisement \<in> set (b_slots s)
      then bt_notify react (b_advertisement_handler s)
             (\<lambda>cb. Ran_advertisement cb (to_advertisement address name rssi atype uuids sdata mdata)) s
      else s)"

definition bt_raw_advertisements :: "(bt_event \<Rightarrow> bt_op list) \<Rightarrow> (u64 \<times> u32 \<times> u32 \<times> bytes) list \<Rightarrow> bluetooth \<Rightarrow> bluetooth" where
  "bt_raw_advertisements react as s =
     (if Slot_raw \<in> set (b_slots s)
      then bt_notify react (b_raw_handler s)
             (\<lambda>cb. Ran_raw cb (map (\<lambda>(a, r, t, d). \<lparr>rw_address = a, rw_rssi = r, rw_address_type = t, rw_data = d\<rparr>) as)) s
      else s)"

definition bt_scanner_state :: "(bt_event \<Rightarrow> bt_op list) \<Rightarrow> u32 \<Rightarrow> u32 \<Rightarrow> u32 \<Rightarrow> bluetooth \<Rightarrow> bluetooth" where
  "bt_scanner_state react st mode conf s =
     (if Slot_scanner \<in> set (b_slots s)
      then bt_notify react (b_scanner_handler s)
             (\<lambda>cb. Ran_scanner cb \<lparr>sc_state = st, sc_mode = mode, sc_configured_mode = conf\<rparr>) s
      else s)"

definition bt_device_connection :: "(bt_event \<Rightarrow> bt_op list) \<Rightarrow> u64 \<Rightarrow> bool \<Rightarrow> u32 \<Rightarrow> u32 \<Rightarrow> bluetooth \<Rightarrow> bluetooth" where
  "bt_device_connection react address connected mtu error s =
     (if Slot_connection \<in> set (b_slots s)
      then bt_notify react (b_connection_handler s)
             (\<lambda>cb. Ran_connection cb \<lparr>cn_address = address, cn_connected = connected, cn_mtu = mtu, cn_error = error\<rparr>) s
      else s)"

definition bt_connections_free :: "(bt_event \<Rightarrow> bt_op list) \<Rightarrow> u32 \<Rightarrow> u32 \<Rightarrow> u64 list \<Rightarrow> bluetooth \<Rightarrow> bluetooth" where
  "bt_connections_free react free limit allocated s =
     (if Slot_free \<in> set (b_slots s)
      then bt_notify react (b_free_handler s)
             (\<lambda>cb. Ran_free cb \<lparr>fr_free = free, fr_limit = limit, fr_allocated = allocated\<rparr>) s
      else s)"

fun bt_on_message :: "(bt_event \<Rightarrow> bt_op list) \<Rightarrow> bt_msg \<Rightarrow> bluetooth \<Rightarrow> bluetooth" where
  "bt_on_message react (Advertisement address name rssi atype uuids sdata mdata) s = bt_advertisement react address name rssi atype uuids sdata mdata s"
| "bt_on_message react (Raw_Advertisements as) s = bt_raw_advertisements react as s"
| "bt_on_message react (Scanner_State st mode conf) s = bt_scanner_state react st mode conf s"
| "bt_on_message react (Device_Connection address connected mtu error) s = bt_device_connection react address connected mtu error s"
| "bt_on_message react (Connections_Free free limit allocated) s = bt_connections_free react free limit allocated s"
| "bt_on_message react m s = (if b_gatt_registered s then bt_on_gatt react m s else s)"

lemmas bt_message_handlers =
  bt_advertisement_def bt_raw_advertisements_def bt_scanner_state_def bt_device_connection_def bt_connections_free_def

datatype bt_input = App bt_op | Msg bt_msg

fun bt_step :: "(bt_event \<Rightarrow> bt_op list) \<Rightarrow> bt_input \<Rightarrow> bluetooth \<Rightarrow> bluetooth" where
  "bt_step react (App op) s = bt_do op s"
| "bt_step react (Msg m) s = bt_on_message react m s"

definition bt_run :: "(bt_event \<Rightarrow> bt_op list) \<Rightarrow> bt_input list \<Rightarrow> bluetooth" where
  "bt_run react ins = fold (bt_step react) ins bt_init"

section \<open>Accounting of the one-shot callbacks\<close>

text \<open>
  What an event says of the one-shot callbacks of a kind: the pairs of a correlation key and a callback that the
  application asks for, and the pairs that are run.
\<close>

fun asked_read :: "bt_event \<Rightarrow> (u64 \<times> callback) list" where
  "asked_read (Asked (Op_read a h (Some cb))) = [(gatt_key a h, cb)]"
| "asked_read _ = []"

fun ran_read :: "bt_event \<Rightarrow> (u64 \<times> callback) list" where
  "ran_read (Once_read cb r) = [(gatt_key (rr_address r) (rr_handle r), cb)]"
| "ran_read _ = []"

fun asked_write :: "bt_event \<Rightarrow> (u64 \<times> callback) list" where
  "asked_write (Asked (Op_write a h d response (Some cb))) = [(gatt_key a h, cb)]"
| "asked_write _ = []"

fun ran_write :: "bt_event \<Rightarrow> (u64 \<times> callback) list" where
  "ran_write (Once_write cb r) = [(gatt_key (wr_address r) (wr_handle r), cb)]"
| "ran_write _ = []"

fun asked_services :: "bt_event \<Rightarrow> (u64 \<times> callback) list" where
  "asked_services (Asked (Op_get_services a (Some cb))) = [(a, cb)]"
| "asked_services _ = []"

fun ran_services :: "bt_event \<Rightarrow> (u64 \<times> callback) list" where
  "ran_services (Once_services cb r) = [(sr_address r, cb)]"
| "ran_services _ = []"

definition bt_tables_ok :: "bluetooth \<Rightarrow> bool" where
  "bt_tables_ok s \<longleftrightarrow> tab_ok (b_pending_reads s) \<and> tab_ok (b_pending_writes s) \<and> tab_ok (b_pending_services s)"

definition bt_waiting_reads :: "bluetooth \<Rightarrow> (u64 \<times> callback) multiset" where
  "bt_waiting_reads s = waiting id (b_pending_reads s)"

definition bt_waiting_writes :: "bluetooth \<Rightarrow> (u64 \<times> callback) multiset" where
  "bt_waiting_writes s = waiting id (b_pending_writes s)"

definition bt_waiting_services :: "bluetooth \<Rightarrow> (u64 \<times> callback) multiset" where
  "bt_waiting_services s = waiting snd (b_pending_services s)"

lemmas bt_waiting_defs = bt_waiting_reads_def bt_waiting_writes_def bt_waiting_services_def
lemmas bt_basic = bt_methods bt_emit_def bt_send_def bt_listen_def ensure_gatt_handlers_def bt_tables_ok_def bt_waiting_defs

lemma bt_call_tables_ok: "bt_tables_ok s \<Longrightarrow> bt_tables_ok (bt_call op s)"
  by (cases op) (auto simp: bt_basic split: option.splits prod.splits)

lemma bt_call_waiting:
  assumes "bt_tables_ok s"
  shows "bt_waiting_reads (bt_call op s) = mset (asked_read (Asked op)) + bt_waiting_reads s"
    and "bt_waiting_writes (bt_call op s) = mset (asked_write (Asked op)) + bt_waiting_writes s"
  using assms by (cases op; auto simp: bt_basic split: option.splits prod.splits)+

lemma bt_call_waiting_services:
  assumes "bt_tables_ok s"
  shows "bt_waiting_services (bt_call op s) = mset (asked_services (Asked op)) + bt_waiting_services s"
proof (cases "\<exists>a cb. op = Op_get_services a (Some cb)")
  case True
  then obtain a cb where op: "op = Op_get_services a (Some cb)" by blast
  obtain svs cbs where "tab_at ([], []) a (b_pending_services s) = (svs, cbs)" by fastforce
  with op show ?thesis
    using assms waiting_update [of "b_pending_services s" snd a "(svs, cbs @ [cb])"]
    by (auto simp: bt_basic tab_at_def split: option.splits)
next
  case False
  then show ?thesis by (cases op) (auto simp: bt_basic split: option.splits prod.splits)
qed

lemma bt_call_log: "\<exists>rs. b_log (bt_call op s) = b_log s @ map Sent rs"
proof (cases op)
qed (auto simp: bt_basic Let_def split: option.splits prod.splits intro: exI [of _ "[]"] exI [of _ "[_]"])

text \<open>
  A ledger of one kind of one-shot callbacks: what has been asked is what has run, what waits in the table, and
  what a handler holds in its hands (\<open>X\<close>: moved out of the table, not run yet).  The locale states what the
  methods and the three completions do to the ledger; that every run keeps it follows once for the three kinds.
\<close>

definition settled ::
  "(bt_event \<Rightarrow> (u64 \<times> callback) list) \<Rightarrow> (bt_event \<Rightarrow> (u64 \<times> callback) list) \<Rightarrow>
   (bluetooth \<Rightarrow> (u64 \<times> callback) multiset) \<Rightarrow> (u64 \<times> callback) multiset \<Rightarrow> bluetooth \<Rightarrow> bool" where
  "settled asked shot held X s \<longleftrightarrow>
     bt_tables_ok s \<and> tally asked (b_log s) = tally shot (b_log s) + held s + X"

locale one_shot_ledger =
  fixes asked shot :: "bt_event \<Rightarrow> (u64 \<times> callback) list"
    and held :: "bluetooth \<Rightarrow> (u64 \<times> callback) multiset"
  assumes init: "held bt_init = {#}"
    and log_held: "held (s\<lparr>b_log := l\<rparr>) = held s"
    and call_held: "bt_tables_ok s \<Longrightarrow> held (bt_call op s) = mset (asked (Asked op)) + held s"
    and asked_only: "(\<And>op. e \<noteq> Asked op) \<Longrightarrow> asked e = []"
    and ran_op: "shot (Asked op) = []" "shot (Sent r) = []"
    and ran_handlers: "shot (Ran_advertisement cb av) = []" "shot (Ran_raw cb rws) = []" "shot (Ran_scanner cb sc) = []"
      "shot (Ran_connection cb cn) = []" "shot (Ran_free cb fr) = []" "shot (Ran_read cb a h d) = []"
      "shot (Ran_notify cb a h d) = []" "shot (Ran_services cb a svs) = []" "shot (Ran_services_done cb a) = []"
      "shot (Ran_error cb a h err) = []"
    and reads_held: "\<lbrakk>tab_ok (b_pending_reads s); take_out (gatt_key (rr_address rr) (rr_handle rr)) (b_pending_reads s) = (Some once, t)\<rbrakk>
      \<Longrightarrow> held s = held (s\<lparr>b_pending_reads := t\<rparr>) + mset (concat (map (\<lambda>cb. shot (Once_read cb rr)) once))"
    and writes_held: "\<lbrakk>tab_ok (b_pending_writes s); take_out (gatt_key (wr_address wr) (wr_handle wr)) (b_pending_writes s) = (Some once, t)\<rbrakk>
      \<Longrightarrow> held s = held (s\<lparr>b_pending_writes := t\<rparr>) + mset (concat (map (\<lambda>cb. shot (Once_write cb wr)) once))"
    and services_held: "\<lbrakk>tab_ok (b_pending_services s); take_out (sr_address sr) (b_pending_services s) = (Some (svs, cbs), t')\<rbrakk>
      \<Longrightarrow> held s = held (s\<lparr>b_pending_services := t'\<rparr>) + mset (concat (map (\<lambda>cb. shot (Once_services cb sr)) cbs))"
    and batch_held: "\<lbrakk>tab_ok (b_pending_services s); tab_at ([], []) address (b_pending_services s) = (acc, cbs)\<rbrakk>
      \<Longrightarrow> held (s\<lparr>b_pending_services := AList.update address (acc', cbs) (b_pending_services s)\<rparr>) = held s"
begin

lemma do_settled: "settled asked shot held X s \<Longrightarrow> settled asked shot held X (bt_do op s)"
proof -
  assume s: "settled asked shot held X s"
  then have ok: "bt_tables_ok (bt_emit (Asked op) s)" by (simp add: settled_def bt_basic)
  obtain rs where log: "b_log (bt_do op s) = b_log s @ Asked op # map Sent rs"
    using bt_call_log [of op "bt_emit (Asked op) s"] by (auto simp: bt_do_def bt_emit_def)
  have "tally asked (map Sent rs) = {#}" "tally shot (map Sent rs) = {#}"
    by (induction rs) (auto simp: asked_only ran_op)
  moreover have "held (bt_do op s) = mset (asked (Asked op)) + held s"
    using call_held [OF ok, of op] log_held by (simp add: bt_do_def bt_emit_def)
  ultimately show ?thesis
    using s log bt_call_tables_ok [OF ok, of op] by (simp add: settled_def bt_do_def ran_op union_assoc union_lcomm)
qed

lemma calls_settled: "settled asked shot held X s \<Longrightarrow> settled asked shot held X (fold bt_do ops s)"
  by (induction ops arbitrary: s) (auto intro: do_settled)

lemma deliver_settled:
  assumes "settled asked shot held (mset (shot e) + X) s" and "\<And>op. e \<noteq> Asked op"
  shows "settled asked shot held X (bt_deliver react e s)"
proof -
  have "settled asked shot held X (bt_emit e s)"
    using assms by (auto simp: settled_def bt_basic log_held asked_only union_assoc union_lcomm union_commute)
  then show ?thesis unfolding bt_deliver_def by (rule calls_settled)
qed

lemma notify_settled:
  assumes "settled asked shot held X s" and "\<And>cb. shot (ev cb) = []" and "\<And>cb op. ev cb \<noteq> Asked op"
  shows "settled asked shot held X (bt_notify react h ev s)"
  using assms by (auto simp: bt_notify_def intro: deliver_settled split: option.splits)

lemma completions_settled:
  assumes "settled asked shot held (mset (concat (map (\<lambda>cb. shot (ev cb)) once)) + X) s" and "\<And>cb op. ev cb \<noteq> Asked op"
  shows "settled asked shot held X (fold (\<lambda>cb. bt_deliver react (ev cb)) once s)"
  using assms(1)
proof (induction once arbitrary: s)
  case (Cons cb once)
  then have "settled asked shot held (mset (shot (ev cb)) + (mset (concat (map (\<lambda>cb. shot (ev cb)) once)) + X)) s"
    by (simp add: union_assoc)
  from deliver_settled [OF this assms(2)] show ?case by (auto intro: Cons.IH)
qed simp

lemma complete_reads_settled:
  assumes "settled asked shot held X s" and "key = gatt_key (rr_address r) (rr_handle r)"
  shows "settled asked shot held X (complete_reads react key r s)"
proof (cases "take_out key (b_pending_reads s)")
  case (Pair once t)
  show ?thesis
  proof (cases once)
    case (Some cbs)
    then have "settled asked shot held (mset (concat (map (\<lambda>cb. shot (Once_read cb r)) cbs)) + X) (s\<lparr>b_pending_reads := t\<rparr>)"
      using assms Pair reads_held [of s r cbs t] waiting_take_out [of key "b_pending_reads s" cbs t id]
      by (simp add: settled_def bt_tables_ok_def union_assoc)
    with Some Pair show ?thesis by (simp add: complete_reads_def completions_settled)
  qed (use Pair assms in \<open>simp add: complete_reads_def del: take_out_None\<close>)
qed

lemma complete_writes_settled:
  assumes "settled asked shot held X s" and "key = gatt_key (wr_address r) (wr_handle r)"
  shows "settled asked shot held X (complete_writes react key r s)"
proof (cases "take_out key (b_pending_writes s)")
  case (Pair once t)
  show ?thesis
  proof (cases once)
    case (Some cbs)
    then have "settled asked shot held (mset (concat (map (\<lambda>cb. shot (Once_write cb r)) cbs)) + X) (s\<lparr>b_pending_writes := t\<rparr>)"
      using assms Pair writes_held [of s r cbs t] waiting_take_out [of key "b_pending_writes s" cbs t id]
      by (simp add: settled_def bt_tables_ok_def union_assoc)
    with Some Pair show ?thesis by (simp add: complete_writes_def completions_settled)
  qed (use Pair assms in \<open>simp add: complete_writes_def del: take_out_None\<close>)
qed

lemma complete_services_settled:
  assumes "settled asked shot held X s" and "\<And>svs. sr_address (res svs) = address"
  shows "settled asked shot held X (complete_services react address res s)"
proof (cases "take_out address (b_pending_services s)")
  case (Pair entry t)
  show ?thesis
  proof (cases entry)
    case (Some e)
    obtain svs cbs where e: "e = (svs, cbs)" by fastforce
    with Some have "settled asked shot held (mset (concat (map (\<lambda>cb. shot (Once_services cb (res svs))) cbs)) + X) (s\<lparr>b_pending_services := t\<rparr>)"
      using assms Pair services_held [of s "res svs" svs cbs t] waiting_take_out [of address "b_pending_services s" e t snd]
      by (simp add: settled_def bt_tables_ok_def union_assoc)
    with Some Pair e show ?thesis by (simp add: complete_services_def completions_settled)
  qed (use Pair assms in \<open>simp add: complete_services_def del: take_out_None\<close>)
qed

lemma batch_settled:
  assumes "settled asked shot held X s" and "tab_at ([], []) address (b_pending_services s) = (acc, cbs)"
  shows "settled asked shot held X (s\<lparr>b_pending_services := AList.update address (acc', cbs) (b_pending_services s)\<rparr>)"
  using assms batch_held by (simp add: settled_def bt_tables_ok_def)

lemma gatt_settled: "settled asked shot held X s \<Longrightarrow> settled asked shot held X (bt_on_gatt react m s)"
  by (cases m) (auto simp: bt_gatt_handlers Let_def ran_handlers split: prod.splits
      intro!: batch_settled notify_settled complete_reads_settled complete_writes_settled complete_services_settled)

lemma step_settled: "settled asked shot held X s \<Longrightarrow> settled asked shot held X (bt_step react i s)"
proof (cases i)
  case (Msg m)
  assume "settled asked shot held X s"
  with Msg show ?thesis by (cases m) (auto simp: bt_message_handlers ran_handlers simp del: bt_on_gatt.simps intro!: notify_settled gatt_settled)
qed (simp add: do_settled)

lemma run_settled: "settled asked shot held {#} (bt_run react ins)"
proof -
  have "settled asked shot held {#} bt_init" by (simp add: settled_def bt_tables_ok_def init) (simp add: bt_init_def)
  then have "settled asked shot held {#} (fold (bt_step react) ins bt_init)"
    by (induction ins rule: rev_induct) (auto intro: step_settled)
  then show ?thesis by (simp add: bt_run_def)
qed

end

lemma asked_others:
  assumes "\<And>op. e \<noteq> Asked op"
  shows "asked_read e = []" "asked_write e = []" "asked_services e = []"
  using assms by (cases e; auto)+

lemma bt_init_simps [simp]:
  "b_pending_reads bt_init = []" "b_pending_writes bt_init = []" "b_pending_services bt_init = []" "b_log bt_init = []"
  by (simp_all add: bt_init_def)

lemma waiting_batch:
  assumes "tab_ok t" and "tab_at ([], []) k t = (acc, cbs)"
  shows "waiting snd (AList.update k (acc', cbs) t) = waiting snd t"
  using waiting_update [OF assms(1), of snd k "(acc', cbs)"] assms(2) by (auto simp: tab_at_def split: option.splits)

interpretation reads: one_shot_ledger asked_read ran_read bt_waiting_reads
  by unfold_locales (auto simp: bt_waiting_defs bt_call_waiting [unfolded bt_waiting_defs] map_Pair_ran asked_others
      dest: waiting_take_out [where f = id])

interpretation writes: one_shot_ledger asked_write ran_write bt_waiting_writes
  by unfold_locales (auto simp: bt_waiting_defs bt_call_waiting [unfolded bt_waiting_defs] map_Pair_ran asked_others
      dest: waiting_take_out [where f = id])

interpretation services: one_shot_ledger asked_services ran_services bt_waiting_services
  by unfold_locales (auto simp: bt_waiting_defs bt_call_waiting_services [unfolded bt_waiting_defs] map_Pair_ran asked_others waiting_batch
      dest: waiting_take_out [where f = snd])

text \<open>
  C32: Whatever the device sends, whatever the application calls and whatever its callbacks call while they run: for every
  characteristic (the correlation key of an address and a handle) and every callback, the number of one-shot reads
  asked is the number of completions run with a result for that key plus the number still waiting in the
  table, and the same holds of writes and of service discoveries, keyed by the address.  So a callback is never
  run twice for one request, none is lost, and none gets the result of another key.
\<close>

theorem one_shots_accounted:
  "tally asked_read (b_log (bt_run react ins)) = tally ran_read (b_log (bt_run react ins)) + bt_waiting_reads (bt_run react ins) \<and>
   tally asked_write (b_log (bt_run react ins)) = tally ran_write (b_log (bt_run react ins)) + bt_waiting_writes (bt_run react ins) \<and>
   tally asked_services (b_log (bt_run react ins)) = tally ran_services (b_log (bt_run react ins)) + bt_waiting_services (bt_run react ins)"
  using reads.run_settled [of react ins] writes.run_settled [of react ins] services.run_settled [of react ins]
  by (simp add: settled_def)

lemma gatt_key_alt: "gatt_key a h = push_bit 16 a OR ucast (take_bit 16 h)"
  by (simp add: gatt_key_def take_bit_eq_mask mask_eq_exp_minus_1)

lemma bit_gatt_key: "bit (gatt_key a h) n \<longleftrightarrow> (if n < 16 then bit h n else n < 64 \<and> bit a (n - 16))"
  by (auto simp: gatt_key_alt bit_simps)

text \<open>
  The correlation key loses the bits of an address above 48 and of a handle above 16: two characteristics share a key
  exactly when these low parts agree.  So on the addresses and handles of Bluetooth (48 and 16 bits) the key
  is injective.
\<close>

theorem gatt_key_exact:
  "gatt_key a h = gatt_key a' h' \<longleftrightarrow> take_bit 48 a = take_bit 48 a' \<and> take_bit 16 h = take_bit 16 h'"
proof
  assume eq: "gatt_key a h = gatt_key a' h'"
  have "bit a n = bit a' n" if "n < 48" for n
    using arg_cong [OF eq, of "\<lambda>w. bit w (n + 16)"] that by (simp add: bit_gatt_key)
  moreover have "bit h n = bit h' n" if "n < 16" for n
    using arg_cong [OF eq, of "\<lambda>w. bit w n"] that by (simp add: bit_gatt_key)
  ultimately show "take_bit 48 a = take_bit 48 a' \<and> take_bit 16 h = take_bit 16 h'"
    by (auto simp: bit_eq_iff bit_take_bit_iff)
next
  assume eq: "take_bit 48 a = take_bit 48 a' \<and> take_bit 16 h = take_bit 16 h'"
  have a: "bit a n = bit a' n" if "n < 48" for n
    using arg_cong [OF conjunct1 [OF eq], of "\<lambda>w. bit w n"] that by (simp add: bit_take_bit_iff)
  have "bit h n = bit h' n" if "n < 16" for n
    using arg_cong [OF conjunct2 [OF eq], of "\<lambda>w. bit w n"] that by (simp add: bit_take_bit_iff)
  with a show "gatt_key a h = gatt_key a' h'" by (auto simp: bit_eq_iff bit_gatt_key)
qed

section \<open>Results\<close>

text \<open>Callbacks that make no calls: completions are then a single extension of the log.\<close>

definition quiet :: "bt_event \<Rightarrow> bt_op list" where
  "quiet e = []"

lemma quiet_deliver [simp]: "bt_deliver quiet e s = s\<lparr>b_log := b_log s @ [e]\<rparr>"
  by (simp add: bt_deliver_def quiet_def bt_emit_def)

lemma quiet_notify [simp]: "bt_notify quiet h ev s = s\<lparr>b_log := b_log s @ (case h of None \<Rightarrow> [] | Some cb \<Rightarrow> [ev cb])\<rparr>"
  by (simp add: bt_notify_def split: option.splits)

lemma quiet_completions: "fold (\<lambda>cb. bt_deliver quiet (ev cb)) cbs s = s\<lparr>b_log := b_log s @ map ev cbs\<rparr>"
  by (induction cbs arbitrary: s) simp_all

lemma delete_absent: "map_of t k = None \<Longrightarrow> AList.delete k t = t"
  by (simp add: map_of_eq_None_iff delete_fresh)

lemma quiet_reads:
  "complete_reads quiet key r s =
   s\<lparr>b_pending_reads := AList.delete key (b_pending_reads s),
     b_log := b_log s @ map (\<lambda>cb. Once_read cb r) (tab_at [] key (b_pending_reads s))\<rparr>"
  by (simp add: complete_reads_def take_out_def quiet_completions tab_at_def delete_absent split: option.splits)

lemma quiet_writes:
  "complete_writes quiet key r s =
   s\<lparr>b_pending_writes := AList.delete key (b_pending_writes s),
     b_log := b_log s @ map (\<lambda>cb. Once_write cb r) (tab_at [] key (b_pending_writes s))\<rparr>"
  by (simp add: complete_writes_def take_out_def quiet_completions tab_at_def delete_absent split: option.splits)

lemma quiet_services:
  "complete_services quiet address res s =
   s\<lparr>b_pending_services := AList.delete address (b_pending_services s),
     b_log := b_log s @ (case tab_at ([], []) address (b_pending_services s) of
                           (svs, cbs) \<Rightarrow> map (\<lambda>cb. Once_services cb (res svs)) cbs)\<rparr>"
  by (auto simp: complete_services_def take_out_def quiet_completions tab_at_def delete_absent split: option.splits)

text \<open>
  A GATT error for a characteristic completes, in this order, every waiting read and every waiting write of its key
  with the error, and every service discovery of its address, each in the order of the requests; the entries are
  gone afterwards and nothing else changes.
\<close>

theorem gatt_error_fails_all:
  "bt_on_gatt quiet (GATT_Error a h err) s =
   s\<lparr>b_pending_reads := AList.delete (gatt_key a h) (b_pending_reads s),
     b_pending_writes := AList.delete (gatt_key a h) (b_pending_writes s),
     b_pending_services := AList.delete a (b_pending_services s),
     b_log := b_log s
       @ (case b_error_handler s of None \<Rightarrow> [] | Some cb \<Rightarrow> [Ran_error cb a h err])
       @ map (\<lambda>cb. Once_read cb \<lparr>rr_address = a, rr_handle = h, rr_ok = False, rr_data = [], rr_error = err\<rparr>)
           (tab_at [] (gatt_key a h) (b_pending_reads s))
       @ map (\<lambda>cb. Once_write cb \<lparr>wr_address = a, wr_handle = h, wr_ok = False, wr_error = err\<rparr>)
           (tab_at [] (gatt_key a h) (b_pending_writes s))
       @ map (\<lambda>cb. Once_services cb \<lparr>sr_address = a, sr_ok = False, sr_services = [], sr_error = err\<rparr>)
           (snd (tab_at ([], []) a (b_pending_services s)))\<rparr>"
  by (simp add: bt_gatt_handlers quiet_reads quiet_writes quiet_services split_beta)

lemma tab_at_update [simp]: "tab_at v0 k (AList.update k v t) = v"
  by (simp add: tab_at_def update_conv')

lemma services_batch:
  "bt_on_gatt quiet (GATT_Services a ps) s =
   s\<lparr>b_log := b_log s @ (case b_services_handler s of None \<Rightarrow> [] | Some cb \<Rightarrow> [Ran_services cb a (map to_gatt_service ps)]),
     b_pending_services :=
       AList.update a (fst (tab_at ([], []) a (b_pending_services s)) @ map to_gatt_service ps,
                       snd (tab_at ([], []) a (b_pending_services s))) (b_pending_services s)\<rparr>"
  by (simp add: bt_gatt_handlers split_beta Let_def)

lemma services_batches:
  "tab_at ([], []) a (b_pending_services (fold (\<lambda>ps. bt_on_gatt quiet (GATT_Services a ps)) batches s)) =
   (fst (tab_at ([], []) a (b_pending_services s)) @ concat (map (map to_gatt_service) batches),
    snd (tab_at ([], []) a (b_pending_services s)))"
proof (induction batches arbitrary: s)
  case (Cons ps batches)
  then show ?case by (simp only: fold_simps comp_apply Cons.IH services_batch) simp
qed simp

text \<open>
  Service discovery: the batches of an address are collected in their order, and the end of the table completes
  every discovery of the address with all that was collected since the entry of the address was made.
\<close>

theorem services_collected:
  "\<exists>pre. b_log (bt_on_gatt quiet (GATT_Services_Done a) (fold (\<lambda>ps. bt_on_gatt quiet (GATT_Services a ps)) batches s)) =
     pre @ map (\<lambda>cb. Once_services cb
        \<lparr>sr_address = a, sr_ok = True,
         sr_services = fst (tab_at ([], []) a (b_pending_services s)) @ concat (map (map to_gatt_service) batches),
         sr_error = 0\<rparr>)
       (snd (tab_at ([], []) a (b_pending_services s)))"
  by (simp add: bt_gatt_services_done_def quiet_services services_batches del: bt_on_gatt.simps(4))

text \<open>
  A connection that is lost while the services arrive leaves what was collected in the table, so the next discovery
  of the same address reports those services a second time: after one batch, a disconnection and a complete
  second discovery of the same single service, the callback gets it twice.
\<close>

theorem stale_services:
  "let sv = Pb_service [1] 1 [] in
   Once_services 8 \<lparr>sr_address = 5, sr_ok = True, sr_services = [to_gatt_service sv, to_gatt_service sv], sr_error = 0\<rparr>
     \<in> set (b_log (bt_run quiet
          [App (Op_get_services 5 (Some 7)), Msg (GATT_Services 5 [sv]), Msg (Device_Connection 5 False 0 0),
           App (Op_get_services 5 (Some 8)), Msg (GATT_Services 5 [sv]), Msg (GATT_Services_Done 5)]))"
  by (simp add: bt_run_def bt_do_def bt_basic bt_gatt_handlers bt_message_handlers bt_init_def quiet_services tab_at_def)

text \<open>
  A write that a read callback issues for the same characteristic while a GATT error is handled is completed by the
  same handler with that error, although its request has only just been sent.
\<close>

definition retry :: "bt_event \<Rightarrow> bt_op list" where
  "retry e = (case e of Once_read cb r \<Rightarrow> [Op_write (rr_address r) (rr_handle r) [1] True (Some 9)] | _ \<Rightarrow> [])"

theorem fresh_write_failed:
  "b_log (bt_run retry [App (Op_read 5 3 (Some 7)), Msg (GATT_Error 5 3 133)]) =
     [Asked (Op_read 5 3 (Some 7)), Sent (GATT_Read_Request 5 3),
      Once_read 7 \<lparr>rr_address = 5, rr_handle = 3, rr_ok = False, rr_data = [], rr_error = 133\<rparr>,
      Asked (Op_write 5 3 [1] True (Some 9)), Sent (GATT_Write_Request 5 3 True [1]),
      Once_write 9 \<lparr>wr_address = 5, wr_handle = 3, wr_ok = False, wr_error = 133\<rparr>]"
  by (simp add: bt_run_def bt_do_def bt_basic bt_gatt_handlers bt_message_handlers bt_init_def tab_at_def pend_def complete_reads_def complete_writes_def
      complete_services_def bt_notify_def take_out_def bt_deliver_def retry_def)

end
