(* ===== verification/Serial_Proxy.thy ===== *)
theory Serial_Proxy
  imports One_Shot
begin

text \<open>
  The serial proxy (\<^verbatim>\<open>src/subsystems/serial_proxy.cpp\<close>, \<^verbatim>\<open>include/esphome/api/subsystems/serial_proxy.hpp\<close>): a UART of the
  device per instance, data handlers for all and for single instances, and one-shot requests of the modem pins.
  The events and the calls that callbacks make are modelled as for the Bluetooth proxy.
\<close>

section \<open>Values\<close>

record line_states = ls_rts :: bool   ls_dtr :: bool

definition lines_from_bits :: "u32 \<Rightarrow> line_states" where
  "lines_from_bits bits = \<lparr>ls_rts = (bits AND push_bit 0 1 \<noteq> 0), ls_dtr = (bits AND push_bit 1 1 \<noteq> 0)\<rparr>"

definition lines_to_bits :: "line_states \<Rightarrow> u32" where
  "lines_to_bits l = (if ls_rts l then push_bit 0 1 else 0) OR (if ls_dtr l then push_bit 1 1 else 0)"

record serial_config =
  sc_instance :: u32
  sc_baudrate :: u32
  sc_flow_control :: bool
  sc_parity :: u32
  sc_stop_bits :: u32
  sc_data_size :: u32

record serial_response = re_instance :: u32   re_type :: u32   re_status :: u32   re_error_message :: bytes
record modem_pins = mp_instance :: u32   mp_lines :: line_states

datatype serial_type = Serial_Subscribe | Serial_Unsubscribe | Serial_Flush

datatype serial_request =
    Serial_Request u32 serial_type
  | Serial_Configure serial_config
  | Serial_Write u32 bytes
  | Serial_Get_Pins u32
  | Serial_Set_Pins u32 u32

datatype serial_op =
    On_data "callback option"
  | On_instance_data u32 "callback option"
  | On_request_response "callback option"
  | On_modem_pins "callback option"
  | Request u32 serial_type
  | Configure serial_config
  | Write u32 bytes
  | Get_modem_pins u32 "callback option"
  | Set_modem_pins u32 line_states
  | Set_modem_pins_raw u32 u32

datatype serial_msg =
    Data_Received u32 bytes
  | Request_Response u32 u32 u32 bytes
  | Get_Pins_Response u32 u32

datatype serial_event =
    Called serial_op
  | Requested serial_request
  | Ran_data callback u32 bytes
  | Ran_instance_data callback u32 bytes
  | Ran_response callback serial_response
  | Ran_pins callback modem_pins
  | Once_pins callback modem_pins

record serial =
  s_data_handler :: "callback option"
  s_instance_handlers :: "(u32 \<times> callback option) list"
  s_response_handler :: "callback option"
  s_pins_handler :: "callback option"
  s_pending_pins :: "(u32 \<times> callback list) list"
  s_data_registered :: bool
  s_pins_registered :: bool
  s_response_registered :: bool
  s_log :: "serial_event list"

definition serial_init :: serial where
  "serial_init = \<lparr>s_data_handler = None, s_instance_handlers = [], s_response_handler = None, s_pins_handler = None,
     s_pending_pins = [], s_data_registered = False, s_pins_registered = False, s_response_registered = False, s_log = []\<rparr>"

section \<open>Operations\<close>

definition serial_emit :: "serial_event \<Rightarrow> serial \<Rightarrow> serial" where
  "serial_emit e s = s\<lparr>s_log := s_log s @ [e]\<rparr>"

definition ensure_data_handler :: "serial \<Rightarrow> serial" where
  "ensure_data_handler s = (if s_data_registered s then s else s\<lparr>s_data_registered := True\<rparr>)"

definition ensure_modem_pins_handler :: "serial \<Rightarrow> serial" where
  "ensure_modem_pins_handler s = (if s_pins_registered s then s else s\<lparr>s_pins_registered := True\<rparr>)"

definition set_modem_pins_raw :: "u32 \<Rightarrow> u32 \<Rightarrow> serial \<Rightarrow> serial" where
  "set_modem_pins_raw i bits = serial_emit (Requested (Serial_Set_Pins i bits))"

fun serial_call :: "serial_op \<Rightarrow> serial \<Rightarrow> serial" where
  "serial_call (On_data h) s = ensure_data_handler (s\<lparr>s_data_handler := h\<rparr>)"
| "serial_call (On_instance_data i h) s =
     ensure_data_handler (s\<lparr>s_instance_handlers := AList.update i h (s_instance_handlers s)\<rparr>)"
| "serial_call (On_request_response h) s = s\<lparr>s_response_handler := h, s_response_registered := True\<rparr>"
| "serial_call (On_modem_pins h) s = ensure_modem_pins_handler (s\<lparr>s_pins_handler := h\<rparr>)"
| "serial_call (Request i t) s = serial_emit (Requested (Serial_Request i t)) s"
| "serial_call (Configure c) s = serial_emit (Requested (Serial_Configure c)) s"
| "serial_call (Write i d) s = serial_emit (Requested (Serial_Write i d)) s"
| "serial_call (Get_modem_pins i h) s =
     (let s = (case h of None \<Rightarrow> s
               | Some cb \<Rightarrow> (let s = ensure_modem_pins_handler s in s\<lparr>s_pending_pins := pend i cb (s_pending_pins s)\<rparr>))
      in serial_emit (Requested (Serial_Get_Pins i)) s)"
| "serial_call (Set_modem_pins i l) s = set_modem_pins_raw i (lines_to_bits l) s"
| "serial_call (Set_modem_pins_raw i bits) s = set_modem_pins_raw i bits s"

definition serial_do :: "serial_op \<Rightarrow> serial \<Rightarrow> serial" where
  "serial_do op s = serial_call op (serial_emit (Called op) s)"

definition serial_deliver :: "(serial_event \<Rightarrow> serial_op list) \<Rightarrow> serial_event \<Rightarrow> serial \<Rightarrow> serial" where
  "serial_deliver react e s = fold serial_do (react e) (serial_emit e s)"

definition serial_notify ::
  "(serial_event \<Rightarrow> serial_op list) \<Rightarrow> callback option \<Rightarrow> (callback \<Rightarrow> serial_event) \<Rightarrow> serial \<Rightarrow> serial" where
  "serial_notify react h ev s = (case h of None \<Rightarrow> s | Some cb \<Rightarrow> serial_deliver react (ev cb) s)"

definition serial_on_data :: "(serial_event \<Rightarrow> serial_op list) \<Rightarrow> u32 \<Rightarrow> bytes \<Rightarrow> serial \<Rightarrow> serial" where
  "serial_on_data react i d s =
     (let s = serial_notify react (s_data_handler s) (\<lambda>cb. Ran_data cb i d) s
      in serial_notify react (tab_at None i (s_instance_handlers s)) (\<lambda>cb. Ran_instance_data cb i d) s)"

definition serial_on_pins :: "(serial_event \<Rightarrow> serial_op list) \<Rightarrow> modem_pins \<Rightarrow> serial \<Rightarrow> serial" where
  "serial_on_pins react out s =
     (let s = (case take_out (mp_instance out) (s_pending_pins s) of
                 (None, _) \<Rightarrow> s
               | (Some once, t) \<Rightarrow> fold (\<lambda>cb. serial_deliver react (Once_pins cb out)) once (s\<lparr>s_pending_pins := t\<rparr>))
      in serial_notify react (s_pins_handler s) (\<lambda>cb. Ran_pins cb out) s)"

fun serial_on_message :: "(serial_event \<Rightarrow> serial_op list) \<Rightarrow> serial_msg \<Rightarrow> serial \<Rightarrow> serial" where
  "serial_on_message react (Data_Received i d) s =
     (if s_data_registered s then serial_on_data react i d s else s)"
| "serial_on_message react (Request_Response i t status err) s =
     (if s_response_registered s
      then serial_notify react (s_response_handler s)
             (\<lambda>cb. Ran_response cb \<lparr>re_instance = i, re_type = t, re_status = status, re_error_message = err\<rparr>) s
      else s)"
| "serial_on_message react (Get_Pins_Response i bits) s =
     (if s_pins_registered s
      then serial_on_pins react \<lparr>mp_instance = i, mp_lines = lines_from_bits bits\<rparr> s
      else s)"

datatype serial_input = Serial_app serial_op | Serial_msg serial_msg

fun serial_step :: "(serial_event \<Rightarrow> serial_op list) \<Rightarrow> serial_input \<Rightarrow> serial \<Rightarrow> serial" where
  "serial_step react (Serial_app op) s = serial_do op s"
| "serial_step react (Serial_msg m) s = serial_on_message react m s"

definition serial_run :: "(serial_event \<Rightarrow> serial_op list) \<Rightarrow> serial_input list \<Rightarrow> serial" where
  "serial_run react ins = fold (serial_step react) ins serial_init"

text \<open>\<^verbatim>\<open>SerialPort\<close>: the calls of an instance-bound handle.\<close>

datatype port_op =
    Port_subscribe
  | Port_unsubscribe
  | Port_flush
  | Port_configure serial_config
  | Port_write bytes
  | Port_get_modem_pins "callback option"
  | Port_set_modem_pins line_states
  | Port_on_data "callback option"

fun port_call :: "u32 \<Rightarrow> port_op \<Rightarrow> serial_op" where
  "port_call i Port_subscribe = Request i Serial_Subscribe"
| "port_call i Port_unsubscribe = Request i Serial_Unsubscribe"
| "port_call i Port_flush = Request i Serial_Flush"
| "port_call i (Port_configure c) = Configure (c\<lparr>sc_instance := i\<rparr>)"
| "port_call i (Port_write d) = Write i d"
| "port_call i (Port_get_modem_pins h) = Get_modem_pins i h"
| "port_call i (Port_set_modem_pins l) = Set_modem_pins i l"
| "port_call i (Port_on_data h) = On_instance_data i h"

section \<open>Invariant\<close>

text \<open>
  The ledger of the one-shot requests, with what a handler holds (\<open>X\<close>), and where the handlers of single instances
  come from.
\<close>

fun asked_pins :: "serial_event \<Rightarrow> (u32 \<times> callback) list" where
  "asked_pins (Called (Get_modem_pins i (Some cb))) = [(i, cb)]"
| "asked_pins _ = []"

fun ran_pins :: "serial_event \<Rightarrow> (u32 \<times> callback) list" where
  "ran_pins (Once_pins cb out) = [(mp_instance out, cb)]"
| "ran_pins _ = []"

definition serial_inv :: "(u32 \<times> callback) multiset \<Rightarrow> serial \<Rightarrow> bool" where
  "serial_inv X s \<longleftrightarrow>
     tab_ok (s_pending_pins s) \<and>
     tally asked_pins (s_log s) = tally ran_pins (s_log s) + waiting id (s_pending_pins s) + X \<and>
     (s_pending_pins s \<noteq> [] \<longrightarrow> s_pins_registered s) \<and>
     (\<forall>(i, h) \<in> set (s_instance_handlers s). Called (On_instance_data i h) \<in> set (s_log s)) \<and>
     (\<forall>cb i d. Ran_instance_data cb i d \<in> set (s_log s) \<longrightarrow> Called (On_instance_data i (Some cb)) \<in> set (s_log s))"

lemmas serial_basic = serial_emit_def ensure_data_handler_def ensure_modem_pins_handler_def set_modem_pins_raw_def

lemma update_entries: "(k', l) \<in> set (AList.update k v t) \<Longrightarrow> (k', l) \<in> set t \<or> k' = k \<and> l = v"
  by (induction t) (auto split: if_splits)

lemma pend_not_Nil [simp]: "pend k cb t \<noteq> []"
  by (cases t) (auto simp: pend_def)

lemma do_inv: "serial_inv X s \<Longrightarrow> serial_inv X (serial_do op s)"
  by (cases op) (auto simp: serial_inv_def serial_do_def serial_basic Let_def dest!: update_entries split: option.splits)

lemma calls_inv: "serial_inv X s \<Longrightarrow> serial_inv X (fold serial_do ops s)"
  by (induction ops arbitrary: s) (auto intro: do_inv)

lemma deliver_inv:
  assumes "serial_inv (mset (ran_pins e) + X) s" and "\<And>op. e \<noteq> Called op"
    and "\<And>cb i d. e = Ran_instance_data cb i d \<Longrightarrow> Called (On_instance_data i (Some cb)) \<in> set (s_log s)"
  shows "serial_inv X (serial_deliver react e s)"
proof -
  have "asked_pins e = []" using assms(2) by (cases e) auto
  moreover have "Called (On_instance_data i (Some cb)) \<in> set (s_log s)"
    if "Ran_instance_data cb i d \<in> insert e (set (s_log s))" for cb i d
    using that assms(1) assms(3) [of cb i d] unfolding serial_inv_def by blast
  ultimately have "serial_inv X (serial_emit e s)"
    using assms(1) by (force simp: serial_inv_def serial_basic union_assoc union_lcomm union_commute)
  then show ?thesis unfolding serial_deliver_def by (rule calls_inv)
qed

lemma notify_inv:
  assumes "serial_inv X s" and "\<And>cb. ran_pins (ev cb) = []" and "\<And>cb op. ev cb \<noteq> Called op"
    and "\<And>c cb i d. h = Some c \<Longrightarrow> ev c = Ran_instance_data cb i d \<Longrightarrow> Called (On_instance_data i (Some cb)) \<in> set (s_log s)"
  shows "serial_inv X (serial_notify react h ev s)"
  using assms by (cases h) (auto simp: serial_notify_def intro!: deliver_inv)

lemma once_inv:
  "serial_inv (mset (map (Pair (mp_instance out)) once) + X) s \<Longrightarrow>
   serial_inv X (fold (\<lambda>cb. serial_deliver react (Once_pins cb out)) once s)"
proof (induction once arbitrary: s)
  case (Cons cb once)
  have "serial_inv (mset (map (Pair (mp_instance out)) once) + X) (serial_deliver react (Once_pins cb out) s)"
    by (rule deliver_inv) (use Cons.prems in auto)
  then show ?case by (simp add: Cons.IH)
qed simp

lemma data_inv: "serial_inv X s \<Longrightarrow> serial_inv X (serial_on_data react i d s)"
proof -
  assume "serial_inv X s"
  then have inv: "serial_inv X (serial_notify react (s_data_handler s) (\<lambda>cb. Ran_data cb i d) s)" (is "serial_inv X ?s")
    by (intro notify_inv) auto
  have "Called (On_instance_data i (Some cb)) \<in> set (s_log ?s)" if "tab_at None i (s_instance_handlers ?s) = Some cb" for cb
    using inv that by (auto simp: serial_inv_def tab_at_def dest!: map_of_SomeD split: option.splits)
  then show ?thesis unfolding serial_on_data_def Let_def by (intro notify_inv [OF inv]) auto
qed

lemma pins_inv: "serial_inv X s \<Longrightarrow> serial_inv X (serial_on_pins react out s)"
proof -
  assume inv: "serial_inv X s"
  let ?t = "take_out (mp_instance out) (s_pending_pins s)"
  have "serial_inv X (case ?t of (None, _) \<Rightarrow> s
      | (Some once, t) \<Rightarrow> fold (\<lambda>cb. serial_deliver react (Once_pins cb out)) once (s\<lparr>s_pending_pins := t\<rparr>))"
  proof (cases ?t)
    case (Pair o1 t)
    show ?thesis
    proof (cases o1)
      case (Some once)
      then have "serial_inv (mset (map (Pair (mp_instance out)) once) + X) (s\<lparr>s_pending_pins := t\<rparr>)"
        using inv Pair waiting_take_out [of "mp_instance out" "s_pending_pins s" once t id]
        by (auto simp: serial_inv_def union_assoc take_out_Some)
      with Pair Some show ?thesis by (simp add: once_inv)
    qed (use inv Pair in \<open>simp del: take_out_None\<close>)
  qed
  then show ?thesis unfolding serial_on_pins_def Let_def by (intro notify_inv) auto
qed

lemma step_inv: "serial_inv X s \<Longrightarrow> serial_inv X (serial_step react i s)"
proof (cases i)
  case (Serial_msg m)
  assume "serial_inv X s"
  with Serial_msg show ?thesis by (cases m) (auto intro!: data_inv pins_inv notify_inv)
qed (simp add: do_inv)

lemma run_inv: "serial_inv {#} (serial_run react ins)"
proof -
  have "serial_inv {#} serial_init" by (simp add: serial_inv_def serial_init_def)
  then have "serial_inv {#} (fold (serial_step react) ins serial_init)"
    by (induction ins rule: rev_induct) (auto intro: step_inv)
  then show ?thesis by (simp add: serial_run_def)
qed

section \<open>Properties\<close>

text \<open>
  C33: The one-shot requests of the modem pins: for every instance and callback the requests are the completions run
  with a response of that instance plus those that still wait, and while any waits the handler of the
  response message is registered, so the next response of its instance completes it.  Data of an instance only
  reaches a callback that was registered for that instance.  All this holds whatever the callbacks call.
\<close>

theorem serial_dispatch:
  "tally asked_pins (s_log (serial_run react ins)) =
     tally ran_pins (s_log (serial_run react ins)) + waiting id (s_pending_pins (serial_run react ins)) \<and>
   (s_pending_pins (serial_run react ins) \<noteq> [] \<longrightarrow> s_pins_registered (serial_run react ins)) \<and>
   (\<forall>cb i d. Ran_instance_data cb i d \<in> set (s_log (serial_run react ins)) \<longrightarrow>
      Called (On_instance_data i (Some cb)) \<in> set (s_log (serial_run react ins)))"
  using run_inv [of react ins] unfolding serial_inv_def by simp

lemma bit_three: "bit (3 :: u32) n \<longleftrightarrow> n < 2"
  using bit_mask_iff [where 'a = u32, of 2 n] by (auto simp: mask_eq_exp_minus_1)

theorem serial_dispatch_witness:
  "let s = serial_run (\<lambda>_. []) [Serial_app (On_instance_data 1 (Some 4)), Serial_app (Get_modem_pins 2 (Some 5)),
             Serial_msg (Data_Received 1 [65])]
   in s_pending_pins s \<noteq> [] \<and> s_pins_registered s \<and> Ran_instance_data 4 1 [65] \<in> set (s_log s) \<and>
      Called (On_instance_data 1 (Some 4)) \<in> set (s_log s)"
proof -
  let ?ins = "[Serial_app (On_instance_data 1 (Some 4)), Serial_app (Get_modem_pins 2 (Some 5)), Serial_msg (Data_Received 1 [65])]"
  let ?s = "serial_run (\<lambda>_. []) ?ins"
  have "s_pending_pins ?s \<noteq> []" "Ran_instance_data 4 1 [65] \<in> set (s_log ?s)"
    by (simp_all add: serial_run_def serial_do_def serial_basic serial_init_def serial_on_data_def serial_notify_def
        serial_deliver_def tab_at_def Let_def)
  then show ?thesis using serial_dispatch [of "\<lambda>_. []" ?ins] by (auto simp: Let_def)
qed

lemma lines_rts: "ls_rts (lines_from_bits b) \<longleftrightarrow> bit b 0"
  by (simp add: lines_from_bits_def and_exp_eq_0_iff_not_bit [of b 0, simplified])

lemma lines_dtr: "ls_dtr (lines_from_bits b) \<longleftrightarrow> bit b 1"
  by (simp add: lines_from_bits_def and_exp_eq_0_iff_not_bit [of b 1, simplified])

text \<open>The bits of the line states: both directions keep RTS and DTR, and the other bits are dropped.\<close>

theorem line_states_roundtrip:
  "lines_from_bits (lines_to_bits l) = l \<and> lines_to_bits (lines_from_bits b) = b AND 3"
proof
  show "lines_from_bits (lines_to_bits l) = l"
    by (cases l) (simp add: lines_from_bits_def lines_to_bits_def)
  show "lines_to_bits (lines_from_bits b) = b AND 3"
  proof (rule bit_word_eqI)
    fix n
    show "bit (lines_to_bits (lines_from_bits b)) n = bit (b AND 3) n"
      by (cases n; cases "n - 1") (auto simp: lines_to_bits_def lines_rts lines_dtr bit_simps bit_three)
  qed
qed

text \<open>A port only ever names its own instance in what it sends.\<close>

fun request_instance :: "serial_request \<Rightarrow> u32" where
  "request_instance (Serial_Request i t) = i"
| "request_instance (Serial_Configure c) = sc_instance c"
| "request_instance (Serial_Write i d) = i"
| "request_instance (Serial_Get_Pins i) = i"
| "request_instance (Serial_Set_Pins i bits) = i"

theorem port_confined:
  "\<exists>rs. s_log (serial_do (port_call i op) s) = s_log s @ Called (port_call i op) # map Requested rs \<and>
        (\<forall>r \<in> set rs. request_instance r = i)"
  by (cases op) (auto simp: serial_do_def serial_basic Let_def split: option.splits intro: exI [of _ "[]"] exI [of _ "[_]"])

end
