(* ===== verification/Home_Services.thy ===== *)
theory Home_Services
  imports One_Shot
begin

text \<open>
  User-defined services (\<^verbatim>\<open>src/subsystems/home_assistant_services.cpp\<close>): discovery of the services that a device
  advertises and their invocation with positional arguments and a call id.  A float is its 32-bit pattern.
\<close>

datatype service_value =
    Bool_value bool
  | Int_value u32
  | Float_value u32
  | String_value bytes
  | Bool_array "bool list"
  | Int_array "u32 list"
  | Float_array "u32 list"
  | String_array "bytes list"

text \<open>The fields of the proto class \<^verbatim>\<open>ExecuteServiceArgument\<close>, in its order; the setters below are those of the class.\<close>

record service_argument =
  ea_bool :: bool
  ea_legacy_int :: u32
  ea_float :: u32
  ea_string :: bytes
  ea_int :: u32
  ea_bool_array :: "bool list"
  ea_int_array :: "u32 list"
  ea_float_array :: "u32 list"
  ea_string_array :: "bytes list"

definition new_argument :: service_argument where
  "new_argument = \<lparr>ea_bool = False, ea_legacy_int = 0, ea_float = 0, ea_string = [], ea_int = 0,
     ea_bool_array = [], ea_int_array = [], ea_float_array = [], ea_string_array = []\<rparr>"

definition add_bool_array :: "bool \<Rightarrow> service_argument \<Rightarrow> service_argument" where
  "add_bool_array v out = out\<lparr>ea_bool_array := ea_bool_array out @ [v]\<rparr>"

definition add_int_array :: "u32 \<Rightarrow> service_argument \<Rightarrow> service_argument" where
  "add_int_array v out = out\<lparr>ea_int_array := ea_int_array out @ [v]\<rparr>"

definition add_float_array :: "u32 \<Rightarrow> service_argument \<Rightarrow> service_argument" where
  "add_float_array v out = out\<lparr>ea_float_array := ea_float_array out @ [v]\<rparr>"

definition add_string_array :: "bytes \<Rightarrow> service_argument \<Rightarrow> service_argument" where
  "add_string_array v out = out\<lparr>ea_string_array := ea_string_array out @ [v]\<rparr>"

fun set_argument :: "service_value \<Rightarrow> service_argument \<Rightarrow> service_argument" where
  "set_argument (Bool_value v) out = out\<lparr>ea_bool := v\<rparr>"
| "set_argument (Int_value v) out = out\<lparr>ea_int := v\<rparr>"
| "set_argument (Float_value v) out = out\<lparr>ea_float := v\<rparr>"
| "set_argument (String_value v) out = out\<lparr>ea_string := v\<rparr>"
| "set_argument (Bool_array v) out = fold add_bool_array v out"
| "set_argument (Int_array v) out = fold add_int_array v out"
| "set_argument (Float_array v) out = fold add_float_array v out"
| "set_argument (String_array v) out = fold add_string_array v out"

record user_service_arg = ua_name :: bytes   ua_type :: u32
record user_service = us_name :: bytes   us_key :: u32   us_args :: "user_service_arg list"   us_supports_response :: u32

record execute_request = ex_key :: u32   ex_call_id :: u32   ex_return_response :: bool   ex_args :: "service_argument list"

text \<open>\<^verbatim>\<open>ListEntitiesServicesResponse\<close>: name, key, arguments (name and type), response support.\<close>

datatype services_msg = Services_Response bytes u32 "(bytes \<times> u32) list" u32

record home_services =
  h_handler :: "callback option"
  h_registered :: bool
  h_services :: "user_service list"
  h_next_call_id :: u32
  h_sent :: "execute_request list"
  h_ran :: "(callback \<times> user_service) list"

definition services_init :: home_services where
  "services_init = \<lparr>h_handler = None, h_registered = False, h_services = [], h_next_call_id = 1, h_sent = [], h_ran = []\<rparr>"

definition on_service :: "callback option \<Rightarrow> home_services \<Rightarrow> home_services" where
  "on_service h s = s\<lparr>h_handler := h, h_registered := True\<rparr>"

fun to_user_service :: "services_msg \<Rightarrow> user_service" where
  "to_user_service (Services_Response name key args support) =
     \<lparr>us_name = name, us_key = key, us_args = map (\<lambda>(n, t). \<lparr>ua_name = n, ua_type = t\<rparr>) args, us_supports_response = support\<rparr>"

definition services_on_message :: "services_msg \<Rightarrow> home_services \<Rightarrow> home_services" where
  "services_on_message m s =
     (if \<not> h_registered s then s
      else let service = to_user_service m; s = s\<lparr>h_services := h_services s @ [service]\<rparr>
           in case h_handler s of None \<Rightarrow> s | Some cb \<Rightarrow> s\<lparr>h_ran := h_ran s @ [(cb, service)]\<rparr>)"

definition execute_service :: "u32 \<Rightarrow> service_value list \<Rightarrow> bool \<Rightarrow> home_services \<Rightarrow> home_services" where
  "execute_service key args return_response s =
     (let req = \<lparr>ex_key = key, ex_call_id = h_next_call_id s, ex_return_response = return_response,
                 ex_args = map (\<lambda>v. set_argument v new_argument) args\<rparr>
      in s\<lparr>h_next_call_id := h_next_call_id s + 1, h_sent := h_sent s @ [req]\<rparr>)"

datatype services_input = Register "callback option" | Listed services_msg | Execute u32 "service_value list" bool

fun services_step :: "services_input \<Rightarrow> home_services \<Rightarrow> home_services" where
  "services_step (Register h) s = on_service h s"
| "services_step (Listed m) s = services_on_message m s"
| "services_step (Execute key args r) s = execute_service key args r s"

section \<open>Properties\<close>

text \<open>What a device reads from an argument, given the type that it declared (\<^verbatim>\<open>ServiceArgType\<close>, by the shape of the value).\<close>

fun read_argument :: "service_value \<Rightarrow> service_argument \<Rightarrow> service_value" where
  "read_argument (Bool_value _) a = Bool_value (ea_bool a)"
| "read_argument (Int_value _) a = Int_value (ea_int a)"
| "read_argument (Float_value _) a = Float_value (ea_float a)"
| "read_argument (String_value _) a = String_value (ea_string a)"
| "read_argument (Bool_array _) a = Bool_array (ea_bool_array a)"
| "read_argument (Int_array _) a = Int_array (ea_int_array a)"
| "read_argument (Float_array _) a = Float_array (ea_float_array a)"
| "read_argument (String_array _) a = String_array (ea_string_array a)"

lemma add_arrays:
  "fold add_bool_array bs a = a\<lparr>ea_bool_array := ea_bool_array a @ bs\<rparr>"
  "fold add_int_array ns a = a\<lparr>ea_int_array := ea_int_array a @ ns\<rparr>"
  "fold add_float_array fs a = a\<lparr>ea_float_array := ea_float_array a @ fs\<rparr>"
  "fold add_string_array ss a = a\<lparr>ea_string_array := ea_string_array a @ ss\<rparr>"
proof -
  show "fold add_bool_array bs a = a\<lparr>ea_bool_array := ea_bool_array a @ bs\<rparr>"
    by (induction bs arbitrary: a) (simp_all add: add_bool_array_def)
  show "fold add_int_array ns a = a\<lparr>ea_int_array := ea_int_array a @ ns\<rparr>"
    by (induction ns arbitrary: a) (simp_all add: add_int_array_def)
  show "fold add_float_array fs a = a\<lparr>ea_float_array := ea_float_array a @ fs\<rparr>"
    by (induction fs arbitrary: a) (simp_all add: add_float_array_def)
  show "fold add_string_array ss a = a\<lparr>ea_string_array := ea_string_array a @ ss\<rparr>"
    by (induction ss arbitrary: a) (simp_all add: add_string_array_def)
qed

lemma read_set_argument: "read_argument v (set_argument v new_argument) = v"
  by (cases v) (simp_all add: add_arrays new_argument_def)

definition services_run :: "services_input list \<Rightarrow> home_services" where
  "services_run ins = fold services_step ins services_init"

definition call_ids_ok :: "home_services \<Rightarrow> bool" where
  "call_ids_ok s \<longleftrightarrow>
     h_next_call_id s = 1 + of_nat (length (h_sent s)) \<and>
     map ex_call_id (h_sent s) = map (\<lambda>k. 1 + of_nat k) [0..<length (h_sent s)]"

lemma call_ids_run: "call_ids_ok (services_run ins)"
proof -
  have "call_ids_ok (services_step i s)" if "call_ids_ok s" for i s
    using that by (cases i) (auto simp: call_ids_ok_def on_service_def services_on_message_def execute_service_def
        Let_def split: option.splits)
  moreover have "call_ids_ok services_init" by (simp add: call_ids_ok_def services_init_def)
  ultimately have "call_ids_ok (fold services_step ins services_init)"
    by (induction ins rule: rev_induct) auto
  then show ?thesis by (simp add: services_run_def)
qed

text \<open>
  The call ids: the \<open>k\<close>-th invocation of a session carries \<open>k + 1\<close> modulo \<open>2\<^sup>3\<^sup>2\<close>, so two invocations carry the same
  id exactly when a multiple of \<open>2\<^sup>3\<^sup>2\<close> invocations lies between them, whatever is registered or listed meanwhile.
\<close>

theorem call_ids_unique:
  assumes "j < length (h_sent (services_run ins))" and "k < length (h_sent (services_run ins))"
  shows "ex_call_id (h_sent (services_run ins) ! j) = ex_call_id (h_sent (services_run ins) ! k) \<longleftrightarrow>
         j mod 2 ^ 32 = k mod 2 ^ 32"
proof -
  have "ex_call_id (h_sent (services_run ins) ! m) = 1 + of_nat m" if "m < length (h_sent (services_run ins))" for m
    using call_ids_run [of ins] that arg_cong [of _ _ "\<lambda>l. l ! m"] unfolding call_ids_ok_def
    by (metis (no_types, lifting) add.left_neutral length_map length_upt minus_nat.diff_0 nth_map nth_upt)
  then show ?thesis
    using assms by (simp add: word_of_nat_eq_iff take_bit_eq_mod)
qed

theorem call_ids_unique_witness:
  "ex_call_id (h_sent (services_run [Execute 3 [] False, Register None, Execute 3 [Int_value 1] True]) ! 0) \<noteq>
   ex_call_id (h_sent (services_run [Execute 3 [] False, Register None, Execute 3 [Int_value 1] True]) ! 1)"
  using call_ids_unique [of 0 "[Execute 3 [] False, Register None, Execute 3 [Int_value 1] True]" 1]
  by (simp add: services_run_def services_init_def execute_service_def on_service_def Let_def)

text \<open>
  An invocation hands over exactly its arguments: the last request carries the key, one proto argument per value in
  order, and a device that reads the field of the declared type gets each value back.
\<close>

theorem execute_arguments:
  "\<exists>req. h_sent (execute_service key args r s) = h_sent s @ [req] \<and> ex_key req = key \<and> ex_return_response req = r \<and>
     length (ex_args req) = length args \<and> map2 read_argument args (ex_args req) = args"
proof -
  have "map2 read_argument args (map (\<lambda>v. set_argument v new_argument) args) = args"
    by (induction args) (simp_all add: read_set_argument)
  then show ?thesis by (simp add: execute_service_def)
qed

end
