(* ===== verification/X25519_Field.thy ===== *)
theory X25519_Field
  imports X25519
begin

text \<open>
  The limb arithmetic of \<^verbatim>\<open>src/crypto/detail/x25519.cpp\<close> refines the field of integers modulo \<open>2\<^sup>2\<^sup>5\<^sup>5 - 19\<close>.  The
  abstraction function is the value of a limb list in base \<open>2\<^sup>1\<^sup>6\<close>; a carry pass is characterised exactly by the
  digits of that value.
\<close>

definition prime25519 :: int where
  "prime25519 = 2 ^ 255 - 19"

fun fval :: "int list \<Rightarrow> int" where
  "fval [] = 0"
| "fval (x # xs) = x + 2 ^ 16 * fval xs"

fun digits :: "nat \<Rightarrow> int \<Rightarrow> int list" where
  "digits 0 v = []"
| "digits (Suc n) v = v mod 2 ^ 16 # digits n (v div 2 ^ 16)"

lemma length_digits [simp]: "length (digits n v) = n"
  by (induction n arbitrary: v) simp_all

lemma fval_append: "fval (xs @ ys) = fval xs + 2 ^ (16 * length xs) * fval ys"
  by (induction xs) (simp_all add: algebra_simps power_add)

lemma fval_update: "k < length t \<Longrightarrow> fval (t[k := t ! k + v]) = fval t + v * 2 ^ (16 * k)"
proof (induction t arbitrary: k)
  case (Cons x t)
  then show ?case by (cases k) (simp_all add: algebra_simps power_add)
qed simp

lemma fval_digits: "fval (digits n v) = v mod 2 ^ (16 * n)"
proof (induction n arbitrary: v)
  case (Suc n)
  have "v mod 2 ^ (16 * Suc n) = 2 ^ 16 * (v div 2 ^ 16 mod 2 ^ (16 * n)) + v mod 2 ^ 16"
    using mod_mult2_eq' [of v "2 ^ 16" "2 ^ (16 * n)"] zmod_zmult2_eq [of "2 ^ (16 * n)" v "2 ^ 16"]
    by (simp add: power_add)
  then show ?case by (simp add: Suc.IH)
qed simp

section \<open>Carry passes\<close>

fun carry :: "int \<Rightarrow> int list \<Rightarrow> int list" where
  "carry c [] = []"
| "carry c (x # xs) = (x + c) mod 2 ^ 16 # carry ((x + c) div 2 ^ 16) xs"

lemma carry_digits: "carry c xs = digits (length xs) (fval xs + c)"
proof (induction xs arbitrary: c)
  case (Cons x xs)
  have "(fval (x # xs) + c) div 2 ^ 16 = (x + c) div 2 ^ 16 + fval xs"
    using div_mult_self2 [of "2 ^ 16 :: int" "x + c" "fval xs"] by (simp add: algebra_simps)
  moreover have "(fval (x # xs) + c) mod 2 ^ 16 = (x + c) mod 2 ^ 16"
    using mod_mult_self2 [of "x + c" "2 ^ 16 :: int" "fval xs"] by (simp add: algebra_simps)
  ultimately show ?case using Cons by (simp add: algebra_simps)
qed simp

lemma shift_carry: "drop_bit 16 (x + 65536 :: int) = x div 65536 + 1"
  by (simp add: drop_bit_eq_div)

lemma car_step_middle:
  assumes "length ys < 15"
  shows "car_step (ys @ x # x' # xs) (length ys) = ys @ x mod 2 ^ 16 # (x' + x div 2 ^ 16) # xs"
  using assms
  by (simp add: car_step_def Let_def shift_carry list_update_append nth_append minus_div_mult_eq_mod [symmetric])

lemma car_step_last:
  assumes "length ys = 15"
  shows "car_step (ys @ [x]) 15 = (ys @ [x mod 2 ^ 16])[0 := ys ! 0 + 38 * (x div 2 ^ 16)]"
proof -
  obtain y ys' where "ys = y # ys'" using assms by (cases ys) auto
  with assms show ?thesis
    by (simp add: car_step_def Let_def shift_carry list_update_append nth_append minus_div_mult_eq_mod [symmetric])
qed

lemma fval_div:
  "(x + 2 ^ 16 * v) div 2 ^ (16 * Suc n) = (x div 2 ^ 16 + v) div (2 ^ (16 * n) :: int)"
proof -
  have "(x + 2 ^ 16 * v) div 2 ^ (16 * Suc n) = (x + 2 ^ 16 * v) div 2 ^ 16 div 2 ^ (16 * n)"
    by (simp add: power_add zdiv_zmult2_eq)
  then show ?thesis by (simp add: add.commute)
qed

lemma car_loop:
  assumes "length ys + length (x # xs) = 16"
  shows "foldl car_step (ys @ x # xs) [length ys..<16] =
    (let ds = ys @ carry 0 (x # xs) in ds[0 := ds ! 0 + 38 * (fval (x # xs) div 2 ^ (16 * length (x # xs)))])"
  using assms
proof (induction xs arbitrary: x ys)
  case Nil
  then have "[length ys..<16] = [15]" by (simp add: upt_rec)
  moreover have "ys \<noteq> []" using Nil by auto
  ultimately show ?case using Nil car_step_last [of ys x] by (simp add: nth_append)
next
  case (Cons x' xs)
  then have len: "length ys < 15" "length (ys @ [x mod 2 ^ 16]) + length ((x' + x div 2 ^ 16) # xs) = 16" by simp_all
  have "[length ys..<16] = length ys # [length (ys @ [x mod 2 ^ 16])..<16]" using len(1) by (simp add: upt_rec)
  then have "foldl car_step (ys @ x # x' # xs) [length ys..<16] =
      foldl car_step ((ys @ [x mod 2 ^ 16]) @ (x' + x div 2 ^ 16) # xs) [length (ys @ [x mod 2 ^ 16])..<16]"
    using car_step_middle [OF len(1)] by simp
  also have "\<dots> = (let ds = ys @ carry 0 (x # x' # xs)
      in ds[0 := ds ! 0 + 38 * (fval ((x' + x div 2 ^ 16) # xs) div 2 ^ (16 * length ((x' + x div 2 ^ 16) # xs)))])"
    unfolding Cons.IH [OF len(2)] by simp
  also have "fval ((x' + x div 2 ^ 16) # xs) div 2 ^ (16 * length ((x' + x div 2 ^ 16) # xs)) =
      fval (x # x' # xs) div 2 ^ (16 * length (x # x' # xs))"
    using fval_div [of x "fval (x' # xs)" "length (x' # xs)"] by (simp add: algebra_simps)
  finally show ?case .
qed

text \<open>A carry pass: the sixteen digits of the value, and 38 times what overflows added to the lowest limb.\<close>

lemma car25519_digits:
  assumes "length g = 16"
  shows "car25519 g = (digits 16 (fval g))[0 := digits 16 (fval g) ! 0 + 38 * (fval g div 2 ^ 256)]"
proof -
  obtain x xs where g: "g = x # xs" using assms by (cases g) auto
  have "carry 0 (x # xs) = digits 16 (fval g)" "length (x # xs) = 16" using carry_digits [of 0 g] assms g
    by (simp_all del: carry.simps digits.simps fval.simps)
  then show ?thesis
    using car_loop [of "[]" x xs] unfolding car25519_def g Let_def by (simp del: carry.simps digits.simps fval.simps)
qed

lemma length_car25519 [simp]: "length g = 16 \<Longrightarrow> length (car25519 g) = 16"
  by (simp add: car25519_digits)

lemma fval_car25519:
  assumes "length g = 16"
  shows "fval (car25519 g) = fval g mod 2 ^ 256 + 38 * (fval g div 2 ^ 256)"
  using fval_update [of 0 "digits 16 (fval g)" "38 * (fval g div 2 ^ 256)"] fval_digits [of 16 "fval g"]
  by (simp add: car25519_digits assms)

definition eqp :: "int \<Rightarrow> int \<Rightarrow> bool" where
  "eqp x y \<longleftrightarrow> x mod prime25519 = y mod prime25519"

lemma eqp_refl [simp]: "eqp x x"
  by (simp add: eqp_def)

lemma eqp_trans [trans]: "eqp x y \<Longrightarrow> eqp y z \<Longrightarrow> eqp x z"
  by (simp add: eqp_def)

lemma eqp_add: "eqp x x' \<Longrightarrow> eqp y y' \<Longrightarrow> eqp (x + y) (x' + y')"
  unfolding eqp_def by (rule mod_add_cong)

lemma eqp_diff: "eqp x x' \<Longrightarrow> eqp y y' \<Longrightarrow> eqp (x - y) (x' - y')"
  unfolding eqp_def by (rule mod_diff_cong)

lemma eqp_mult: "eqp x x' \<Longrightarrow> eqp y y' \<Longrightarrow> eqp (x * y) (x' * y')"
  unfolding eqp_def by (rule mod_mult_cong)

lemma eqp_power: "eqp x x' \<Longrightarrow> eqp (x ^ n) (x' ^ n)"
  by (induction n) (auto intro: eqp_mult)

lemma eqp_fold: "eqp (a + 38 * b) (a + 2 ^ 256 * b)"
proof -
  have "(a + 2 ^ 256 * b) - (a + 38 * b) = prime25519 * (2 * b)" by (simp add: prime25519_def algebra_simps)
  then show ?thesis unfolding eqp_def by (metis mod_eq_dvd_iff dvd_triv_left)
qed

lemma eqp_car25519: "length g = 16 \<Longrightarrow> eqp (fval (car25519 g)) (fval g)"
  using eqp_fold [of "fval g mod 2 ^ 256" "fval g div 2 ^ 256"]
  by (simp add: fval_car25519)

section \<open>Addition, subtraction, multiplication\<close>

lemma fval_map2:
  "length a = length b \<Longrightarrow> fval (map2 (+) a b) = fval a + fval b"
  "length a = length b \<Longrightarrow> fval (map2 (-) a b) = fval a - fval b"
  by (induction a b rule: list_induct2) (simp_all add: algebra_simps)

lemma gf_map2:
  assumes "length a = 16" "length b = 16"
  shows "gf_add a b = map2 (+) a b" "gf_sub a b = map2 (-) a b"
  using assms by (auto simp: gf_add_def gf_sub_def intro!: nth_equalityI)

lemma length_gf [simp]: "length (gf_add a b) = 16" "length (gf_sub a b) = 16"
  by (simp_all add: gf_add_def gf_sub_def)

lemma fval_add: "length a = 16 \<Longrightarrow> length b = 16 \<Longrightarrow> fval (gf_add a b) = fval a + fval b"
  by (simp add: gf_map2 fval_map2)

lemma fval_sub: "length a = 16 \<Longrightarrow> length b = 16 \<Longrightarrow> fval (gf_sub a b) = fval a - fval b"
  by (simp add: gf_map2 fval_map2)

lemma fval_take_Suc: "n < length a \<Longrightarrow> fval (take (Suc n) a) = fval (take n a) + a ! n * 2 ^ (16 * n)"
  by (simp add: take_Suc_conv_app_nth fval_append)

lemma mul_row:
  assumes "n \<le> length b" "i + length b \<le> length t"
  shows "fval (foldl (\<lambda>t j. t[i + j := t ! (i + j) + x * b ! j]) t [0..<n]) = fval t + x * 2 ^ (16 * i) * fval (take n b) \<and>
         length (foldl (\<lambda>t j. t[i + j := t ! (i + j) + x * b ! j]) t [0..<n]) = length t"
  using assms
proof (induction n)
  case (Suc n)
  let ?t = "foldl (\<lambda>t j. t[i + j := t ! (i + j) + x * b ! j]) t [0..<n]"
  have "length ?t = length t" "fval ?t = fval t + x * 2 ^ (16 * i) * fval (take n b)" using Suc by simp_all
  then show ?case using Suc.prems fval_update [of "i + n" ?t "x * b ! n"]
    by (simp add: fval_take_Suc power_add distrib_left)
qed simp

lemma mul_rows:
  assumes "n \<le> length a" "length b = 16" "n \<le> 16" "length t = 31"
  shows "fval (foldl (\<lambda>t i. foldl (\<lambda>t j. t[i + j := t ! (i + j) + a ! i * b ! j]) t [0..<16]) t [0..<n]) =
           fval t + fval (take n a) * fval b \<and>
         length (foldl (\<lambda>t i. foldl (\<lambda>t j. t[i + j := t ! (i + j) + a ! i * b ! j]) t [0..<16]) t [0..<n]) = 31"
  using assms
proof (induction n)
  case (Suc n)
  let ?t = "foldl (\<lambda>t i. foldl (\<lambda>t j. t[i + j := t ! (i + j) + a ! i * b ! j]) t [0..<16]) t [0..<n]"
  have "length ?t = 31" "fval ?t = fval t + fval (take n a) * fval b" using Suc by simp_all
  then show ?case using Suc.prems mul_row [of 16 b n ?t "a ! n"] by (simp add: fval_take_Suc algebra_simps)
qed simp

lemma fold_high:
  assumes "length t = 31" "n \<le> 15"
  shows "let r = foldl (\<lambda>t i. t[i := t ! i + 38 * t ! (i + 16)]) t [0..<n]
         in length r = 31 \<and> drop 16 r = drop 16 t \<and> fval (take 16 r) = fval (take 16 t) + 38 * fval (take n (drop 16 t))"
  using assms(2)
proof (induction n)
  case (Suc n)
  let ?r = "foldl (\<lambda>t i. t[i := t ! i + 38 * t ! (i + 16)]) t [0..<n]"
  have r: "length ?r = 31" "drop 16 ?r = drop 16 t" "fval (take 16 ?r) = fval (take 16 t) + 38 * fval (take n (drop 16 t))"
    using Suc by (simp_all add: Let_def)
  have hi: "?r ! (n + 16) = drop 16 t ! n"
    using arg_cong [OF r(2), of "\<lambda>l. l ! n"] r(1) assms(1) Suc.prems by (simp add: add.commute)
  have "take 16 (?r[n := ?r ! n + 38 * ?r ! (n + 16)]) = (take 16 ?r)[n := take 16 ?r ! n + 38 * ?r ! (n + 16)]"
    using Suc.prems by (simp add: take_update_swap)
  then have "fval (take 16 (?r[n := ?r ! n + 38 * ?r ! (n + 16)])) = fval (take 16 ?r) + 38 * drop 16 t ! n * 2 ^ (16 * n)"
    using fval_update [of n "take 16 ?r" "38 * ?r ! (n + 16)"] hi r(1) Suc.prems by simp
  then show ?case using r Suc.prems assms(1) by (simp add: Let_def fval_take_Suc)
qed (simp add: assms(1))

lemma map_nth_take: "n \<le> length t \<Longrightarrow> map (\<lambda>i. t ! i) [0..<n] = take n t"
  by (auto intro!: nth_equalityI)

lemma gf_mul_raw:
  assumes "length a = 16" "length b = 16"
  shows "\<exists>o1. length o1 = 16 \<and> eqp (fval o1) (fval a * fval b) \<and> gf_mul a b = car25519 (car25519 o1)"
proof -
  let ?t = "foldl (\<lambda>t i. foldl (\<lambda>t j. t[i + j := t ! (i + j) + a ! i * b ! j]) t [0..<16]) (replicate 31 0) [0..<16]"
  let ?r = "foldl (\<lambda>t i. t[i := t ! i + 38 * t ! (i + 16)]) ?t [0..<15]"
  have zero: "fval (replicate n 0) = 0" for n by (induction n) simp_all
  have t: "length ?t = 31" "fval ?t = fval a * fval b"
    using mul_rows [of 16 a b "replicate 31 0"] assms zero [of 31] by simp_all
  have r: "length ?r = 31" "fval (take 16 ?r) = fval (take 16 ?t) + 38 * fval (drop 16 ?t)"
    using fold_high [of ?t 15] t(1) by (simp_all add: Let_def)
  have "fval ?t = fval (take 16 ?t) + 2 ^ 256 * fval (drop 16 ?t)"
    using fval_append [of "take 16 ?t" "drop 16 ?t"] t(1) by simp
  then have "eqp (fval (take 16 ?r)) (fval a * fval b)" using eqp_fold r(2) t(2) by simp
  moreover have "gf_mul a b = car25519 (car25519 (take 16 ?r))"
    unfolding gf_mul_def Let_def using map_nth_take [of 16 ?r] r(1) by simp
  ultimately show ?thesis using r(1) by (intro exI [of _ "take 16 ?r"]) simp
qed

lemma length_gf_mul [simp]: "length a = 16 \<Longrightarrow> length b = 16 \<Longrightarrow> length (gf_mul a b) = 16"
  using gf_mul_raw [of a b] by auto

lemma eqp_mul:
  assumes "length a = 16" "length b = 16"
  shows "eqp (fval (gf_mul a b)) (fval a * fval b)"
proof -
  obtain o1 where "length o1 = 16" "eqp (fval o1) (fval a * fval b)" "gf_mul a b = car25519 (car25519 o1)"
    using gf_mul_raw [OF assms] by blast
  then show ?thesis by (metis eqp_car25519 eqp_trans length_car25519)
qed

section \<open>Bounds on the limbs\<close>

definition limbs_within :: "int \<Rightarrow> int list \<Rightarrow> bool" where
  "limbs_within c g \<longleftrightarrow> (\<forall>x \<in> set g. \<bar>x\<bar> \<le> c)"

text \<open>What multiplication returns, and what it accepts: sums and differences of two such results.\<close>

definition tight :: "gf \<Rightarrow> bool" where
  "tight g \<longleftrightarrow> length g = 16 \<and> limbs_within (2 ^ 16 + 38) g"

definition loose :: "gf \<Rightarrow> bool" where
  "loose g \<longleftrightarrow> length g = 16 \<and> limbs_within (2 ^ 18) g"

lemma limbs_within_nth: "limbs_within c g \<Longrightarrow> k < length g \<Longrightarrow> \<bar>g ! k\<bar> \<le> c"
  by (simp add: limbs_within_def)

lemma tight_loose: "tight g \<Longrightarrow> loose g"
  by (force simp: tight_def loose_def limbs_within_def)

lemma loose_add:
  assumes "tight a" "tight b"
  shows "loose (gf_add a b)"
proof -
  have "\<bar>a ! i\<bar> \<le> 65574" "\<bar>b ! i\<bar> \<le> 65574" if "i < 16" for i
    using assms that limbs_within_nth [of "2 ^ 16 + 38" _ i] by (simp_all add: tight_def)
  then have "\<bar>a ! i + b ! i\<bar> \<le> 2 ^ 18" if "i < 16" for i using that by force
  then show ?thesis by (auto simp: loose_def limbs_within_def gf_add_def)
qed

lemma loose_sub:
  assumes "tight a" "tight b"
  shows "loose (gf_sub a b)"
proof -
  have "\<bar>a ! i\<bar> \<le> 65574" "\<bar>b ! i\<bar> \<le> 65574" if "i < 16" for i
    using assms that limbs_within_nth [of "2 ^ 16 + 38" _ i] by (simp_all add: tight_def)
  then have "\<bar>a ! i - b ! i\<bar> \<le> 2 ^ 18" if "i < 16" for i using that by force
  then show ?thesis by (auto simp: loose_def limbs_within_def gf_sub_def)
qed

lemma scale_bound: "65535 * b \<le> m \<Longrightarrow> a \<le> c \<Longrightarrow> y \<le> a + 65536 * b \<Longrightarrow> 65535 * y \<le> 65535 * c + 65536 * m" for a b c m y :: int
  by linarith

lemma fval_within: "limbs_within c g \<Longrightarrow> 0 \<le> c \<Longrightarrow> 65535 * \<bar>fval g\<bar> \<le> c * (2 ^ (16 * length g) - 1)"
proof (induction g)
  case (Cons x g)
  define m where "m = c * (2 ^ (16 * length g) - 1)"
  have "65535 * \<bar>fval g\<bar> \<le> m" "\<bar>x\<bar> \<le> c" using Cons by (simp_all add: limbs_within_def m_def)
  moreover have "\<bar>x + 65536 * fval g\<bar> \<le> \<bar>x\<bar> + 65536 * \<bar>fval g\<bar>"
    using abs_triangle_ineq [of x "65536 * fval g"] by (simp add: abs_mult)
  ultimately have "65535 * \<bar>x + 65536 * fval g\<bar> \<le> 65535 * c + 65536 * m"
    by (rule scale_bound)
  then show ?case by (simp add: m_def power_add algebra_simps)
qed simp

lemma fval_div_within:
  assumes "length g = 16" "limbs_within c g" "0 \<le> c"
  shows "\<bar>fval g div 2 ^ 256\<bar> \<le> c"
proof -
  have "65535 * \<bar>fval g\<bar> \<le> c * 2 ^ 256 - c" using fval_within [OF assms(2,3)] assms(1) by (simp add: algebra_simps)
  then have "\<bar>fval g\<bar> \<le> c * 2 ^ 256" using assms(3) by linarith
  then have "- c * 2 ^ 256 \<le> fval g" "fval g \<le> c * 2 ^ 256" by linarith+
  then have "- c \<le> fval g div 2 ^ 256" "fval g div 2 ^ 256 \<le> c"
    using zdiv_mono1 [of "- c * 2 ^ 256" "fval g" "2 ^ 256"] zdiv_mono1 [of "fval g" "c * 2 ^ 256" "2 ^ 256"] by simp_all
  then show ?thesis by linarith
qed

lemma digits_range: "x \<in> set (digits n v) \<Longrightarrow> 0 \<le> x \<and> x < 2 ^ 16"
  by (induction n arbitrary: v) auto

lemma mul_row_within:
  assumes "n \<le> length b" "i + length b \<le> length t" "limbs_within c t" "\<bar>x\<bar> \<le> l" "limbs_within l b" "0 \<le> l"
  shows "\<forall>k < length t. \<bar>foldl (\<lambda>t j. t[i + j := t ! (i + j) + x * b ! j]) t [0..<n] ! k\<bar> \<le> c + (if k < i + n then l * l else 0)"
  using assms(1)
proof (induction n)
  case 0
  have "0 \<le> l * l" using assms(6) by simp
  moreover have "\<bar>t ! k\<bar> \<le> c" if "k < length t" for k using limbs_within_nth [OF assms(3) that] .
  ultimately show ?case by (auto simp: add_increasing2)
next
  case (Suc n)
  let ?t = "foldl (\<lambda>t j. t[i + j := t ! (i + j) + x * b ! j]) t [0..<n]"
  have IH: "\<forall>k < length t. \<bar>?t ! k\<bar> \<le> c + (if k < i + n then l * l else 0)" and len: "length ?t = length t"
    using Suc assms(2) mul_row [of n b i t x] by simp_all
  have "\<bar>x * b ! n\<bar> \<le> l * l"
    unfolding abs_mult using assms(4-6) Suc.prems by (intro mult_mono) (auto simp: limbs_within_def)
  moreover have "\<bar>?t ! (i + n)\<bar> \<le> c" using IH Suc.prems assms(2) by (auto dest!: spec [of _ "i + n"])
  ultimately have "\<bar>?t ! (i + n) + x * b ! n\<bar> \<le> c + l * l" by linarith
  moreover have "0 \<le> l * l" using assms(6) by simp
  ultimately show ?case using IH len by (auto simp: nth_list_update less_Suc_eq split: if_splits)
qed

lemma mul_rows_within:
  assumes "length a = 16" "length b = 16" "n \<le> 16" "limbs_within l a" "limbs_within l b" "0 \<le> l"
  shows "limbs_within (int n * (l * l))
    (foldl (\<lambda>t i. foldl (\<lambda>t j. t[i + j := t ! (i + j) + a ! i * b ! j]) t [0..<16]) (replicate 31 0) [0..<n])"
  using assms(3)
proof (induction n)
  case (Suc n)
  let ?t = "foldl (\<lambda>t i. foldl (\<lambda>t j. t[i + j := t ! (i + j) + a ! i * b ! j]) t [0..<16]) (replicate 31 0) [0..<n]"
  let ?r = "foldl (\<lambda>t j. t[n + j := t ! (n + j) + a ! n * b ! j]) ?t [0..<16]"
  have len: "length ?t = 31" using mul_rows [of n a b "replicate 31 0"] assms Suc.prems by simp
  have lenr: "length ?r = 31" using mul_row [of 16 b n ?t "a ! n"] assms(2) len Suc.prems by simp
  have "\<forall>k < length ?t. \<bar>?r ! k\<bar> \<le> int n * (l * l) + (if k < n + 16 then l * l else 0)"
    by (rule mul_row_within) (use Suc limbs_within_nth [OF assms(4), of n] assms len in auto)
  then have "\<bar>?r ! k\<bar> \<le> int n * (l * l) + (if k < n + 16 then l * l else 0)" if "k < 31" for k using that len by simp
  moreover have "int n * (l * l) + (if k < n + 16 then l * l else 0) \<le> int (Suc n) * (l * l)" for k
    by (simp add: distrib_right)
  ultimately have "\<bar>?r ! k\<bar> \<le> int (Suc n) * (l * l)" if "k < 31" for k using that order_trans by blast
  then show ?case using lenr by (auto simp: limbs_within_def in_set_conv_nth)
qed (simp add: limbs_within_def)

lemma fold_high_within:
  assumes "length t = 31" "limbs_within c t" "n \<le> 15" "0 \<le> c"
  shows "limbs_within (39 * c) (foldl (\<lambda>t i. t[i := t ! i + 38 * t ! (i + 16)]) t [0..<n]) \<and>
    (\<forall>k. n \<le> k \<longrightarrow> foldl (\<lambda>t i. t[i := t ! i + 38 * t ! (i + 16)]) t [0..<n] ! k = t ! k)"
  using assms(3)
proof (induction n)
  case 0
  then show ?case using assms by (force simp: limbs_within_def)
next
  case (Suc n)
  let ?r = "foldl (\<lambda>t i. t[i := t ! i + 38 * t ! (i + 16)]) t [0..<n]"
  have "?r ! n = t ! n" "?r ! (n + 16) = t ! (n + 16)" using Suc by simp_all
  then have "\<bar>?r ! n + 38 * ?r ! (n + 16)\<bar> \<le> 39 * c"
    using limbs_within_nth [OF assms(2), of n] limbs_within_nth [OF assms(2), of "n + 16"] assms(1) Suc.prems by simp
  then show ?case using Suc set_update_subset_insert [of ?r n] by (force simp: limbs_within_def)
qed

lemma car_car_tight:
  assumes "length g = 16" "limbs_within (2 ^ 60) g"
  shows "tight (car25519 (car25519 g))"
proof -
  let ?v = "fval (car25519 g)"
  have "\<bar>fval g div 2 ^ 256\<bar> \<le> 2 ^ 60" using fval_div_within assms by simp
  moreover have "0 \<le> fval g mod 2 ^ 256" "fval g mod 2 ^ 256 < 2 ^ 256" by simp_all
  ultimately have "- (2 ^ 256) \<le> ?v" "?v < 2 * 2 ^ 256" using fval_car25519 [OF assms(1)] by simp_all
  then have k: "- 1 \<le> ?v div 2 ^ 256" "?v div 2 ^ 256 \<le> 1"
    using zdiv_mono1 [of "- (2 ^ 256)" ?v "2 ^ 256"] zdiv_mono1 [of ?v "2 * 2 ^ 256 - 1" "2 ^ 256"] by simp_all
  have d: "\<bar>x\<bar> \<le> 65535" if "x \<in> set (digits 16 ?v)" for x using digits_range [OF that] by simp
  then have "\<bar>digits 16 ?v ! 0\<bar> \<le> 65535" by simp
  with k have "\<bar>digits 16 ?v ! 0 + 38 * (?v div 2 ^ 256)\<bar> \<le> 65535 + 38" by arith
  with d show ?thesis using set_update_subset_insert [of "digits 16 ?v" 0]
    by (force simp: tight_def limbs_within_def car25519_digits [of "car25519 g"] assms(1))
qed

lemma mul_tight:
  assumes "loose a" "loose b"
  shows "tight (gf_mul a b)"
proof -
  let ?t = "foldl (\<lambda>t i. foldl (\<lambda>t j. t[i + j := t ! (i + j) + a ! i * b ! j]) t [0..<16]) (replicate 31 0) [0..<16]"
  let ?r = "foldl (\<lambda>t i. t[i := t ! i + 38 * t ! (i + 16)]) ?t [0..<15]"
  have a: "length a = 16" "length b = 16" "limbs_within (2 ^ 18) a" "limbs_within (2 ^ 18) b"
    using assms by (simp_all add: loose_def)
  have len: "length ?t = 31" using mul_rows [of 16 a b "replicate 31 0"] a by simp
  have "limbs_within (2 ^ 40) ?t" using mul_rows_within [of a b 16 "2 ^ 18"] a by simp
  from fold_high_within [OF len this, of 15] have "limbs_within (39 * 2 ^ 40) ?r" by simp
  then have "limbs_within (2 ^ 60) (take 16 ?r)" unfolding limbs_within_def by (force dest: in_set_takeD)
  moreover have "length ?r = 31" using fold_high [OF len, of 15] by (simp add: Let_def)
  moreover have "gf_mul a b = car25519 (car25519 (take 16 ?r))"
    unfolding gf_mul_def Let_def using map_nth_take [of 16 ?r] calculation(2) by simp
  ultimately show ?thesis using car_car_tight [of "take 16 ?r"] by simp
qed

section \<open>Representatives\<close>

text \<open>A limb list as a multiplication returns it, and one as a multiplication takes it, for a residue.\<close>

definition rept :: "gf \<Rightarrow> int \<Rightarrow> bool" where
  "rept g v \<longleftrightarrow> tight g \<and> eqp (fval g) v"

definition repl :: "gf \<Rightarrow> int \<Rightarrow> bool" where
  "repl g v \<longleftrightarrow> loose g \<and> eqp (fval g) v"

lemma rept_repl: "rept g v \<Longrightarrow> repl g v"
  by (simp add: rept_def repl_def tight_loose)

lemma repl_add: "rept a x \<Longrightarrow> rept b y \<Longrightarrow> repl (gf_add a b) (x + y)"
  by (simp add: rept_def repl_def loose_add fval_add eqp_add tight_def)

lemma repl_sub: "rept a x \<Longrightarrow> rept b y \<Longrightarrow> repl (gf_sub a b) (x - y)"
  by (simp add: rept_def repl_def loose_sub fval_sub eqp_diff tight_def)

lemma rept_mul: "repl a x \<Longrightarrow> repl b y \<Longrightarrow> rept (gf_mul a b) (x * y)"
  unfolding rept_def repl_def using eqp_mul eqp_mult eqp_trans mul_tight by (metis loose_def)

lemma rept_sqr: "repl a x \<Longrightarrow> rept (gf_sqr a) (x * x)"
  by (simp add: gf_sqr_def rept_mul)

lemma rept_eqp: "rept a x \<Longrightarrow> eqp x y \<Longrightarrow> rept a y"
  using eqp_trans by (auto simp: rept_def)

lemma eqp_mod [simp]: "eqp x (x mod prime25519)"
  by (simp add: eqp_def)

lemma rept_mod: "rept a x \<Longrightarrow> rept a (x mod prime25519)"
  by (rule rept_eqp [OF _ eqp_mod])

lemma rept_length: "rept a x \<Longrightarrow> length a = 16"
  by (simp add: rept_def tight_def)

lemma repl_c121665: "repl c121665 121665"
  by (simp add: repl_def loose_def limbs_within_def c121665_def numeral_eq_Suc)

section \<open>The ladder of RFC 7748\<close>

type_synonym points = "int \<times> int \<times> int \<times> int"

definition swap_points :: "bool \<Rightarrow> points \<Rightarrow> points" where
  "swap_points b = (\<lambda>(x2, x3, z2, z3). if b then (x3, x2, z3, z2) else (x2, x3, z2, z3))"

definition rfc_step :: "int \<Rightarrow> points \<Rightarrow> points" where
  "rfc_step x1 = (\<lambda>(x2, x3, z2, z3).
     let a = x2 + z2; aa = a * a; b = x2 - z2; bb = b * b; e = aa - bb;
         c = x3 + z3; d = x3 - z3; da = d * a; cb = c * b
     in (aa * bb mod prime25519,
         (da + cb) ^ 2 mod prime25519,
         e * (aa + 121665 * e) mod prime25519,
         x1 * (da - cb) ^ 2 mod prime25519))"

definition rfc_round :: "int \<Rightarrow> points \<Rightarrow> bool \<Rightarrow> points" where
  "rfc_round x1 s b = swap_points b (rfc_step x1 (swap_points b s))"

fun rept4 :: "ladder \<Rightarrow> points \<Rightarrow> bool" where
  "rept4 (a, b, c, d) (x2, x3, z2, z3) \<longleftrightarrow> rept a x2 \<and> rept b x3 \<and> rept c z2 \<and> rept d z3"

text \<open>The arithmetic of the loop's body between the two selections.\<close>

definition ladder_core :: "gf \<Rightarrow> ladder \<Rightarrow> ladder" where
  "ladder_core x = (\<lambda>(a, b, c, d).
     let e = gf_add a c;
         a = gf_sub a c;
         c = gf_add b d;
         b = gf_sub b d;
         d = gf_sqr e;
         f = gf_sqr a;
         a = gf_mul c a;
         c = gf_mul b e;
         e = gf_add a c;
         a = gf_sub a c;
         b = gf_sqr a;
         c = gf_sub d f;
         a = gf_mul c c121665;
         a = gf_add a d;
         c = gf_mul c a;
         a = gf_mul d f;
         d = gf_mul b x;
         b = gf_sqr e
     in (a, b, c, d))"

lemma ladder_core_refines:
  assumes "rept4 s (x2, x3, z2, z3)" "rept x x1"
  shows "rept4 (ladder_core x s) (rfc_step x1 (x2, x3, z2, z3))"
proof -
  obtain a b c d where s: "s = (a, b, c, d)" by (cases s)
  with assms have r: "rept a x2" "rept b x3" "rept c z2" "rept d z3" by simp_all
  define e f a' c' where "e = gf_sqr (gf_add a c)" and "f = gf_sqr (gf_sub a c)"
    and "a' = gf_mul (gf_add b d) (gf_sub a c)" and "c' = gf_mul (gf_sub b d) (gf_add a c)"
  have e: "rept e ((x2 + z2) * (x2 + z2))" and f: "rept f ((x2 - z2) * (x2 - z2))"
    unfolding e_def f_def by (intro rept_sqr repl_add repl_sub r)+
  have a': "rept a' ((x3 + z3) * (x2 - z2))" and c': "rept c' ((x3 - z3) * (x2 + z2))"
    unfolding a'_def c'_def by (intro rept_mul repl_add repl_sub r)+
  note rules = rept_mod rept_sqr rept_mul repl_add repl_sub rept_repl repl_c121665 e f a' c' assms(2)
  let ?E = "(x2 + z2) * (x2 + z2) - (x2 - z2) * (x2 - z2)"
  let ?M = "(x3 + z3) * (x2 - z2)" and ?N = "(x3 - z3) * (x2 + z2)"
  have "rept (gf_mul e f) ((x2 + z2) * (x2 + z2) * ((x2 - z2) * (x2 - z2)) mod prime25519)"
    by (intro rules)
  moreover have "rept (gf_sqr (gf_add a' c')) ((?M + ?N) * (?M + ?N) mod prime25519)"
    by (intro rules)
  moreover have "rept (gf_mul (gf_sub e f) (gf_add (gf_mul (gf_sub e f) c121665) e))
      (?E * (?E * 121665 + (x2 + z2) * (x2 + z2)) mod prime25519)"
    by (intro rules)
  moreover have "rept (gf_mul (gf_sqr (gf_sub a' c')) x) ((?M - ?N) * (?M - ?N) * x1 mod prime25519)"
    by (intro rules)
  moreover have "(?M + ?N) * (?M + ?N) = (?N + ?M) ^ 2" "(?M - ?N) * (?M - ?N) * x1 = x1 * (?N - ?M) ^ 2"
    "?E * 121665 + (x2 + z2) * (x2 + z2) = (x2 + z2) * (x2 + z2) + 121665 * ?E"
    by (simp_all add: power2_eq_square algebra_simps)
  ultimately show ?thesis
    unfolding s ladder_core_def rfc_step_def Let_def split e_def f_def a'_def c'_def rept4.simps by (simp only: simp_thms)
qed

definition swap_limbs :: "bool \<Rightarrow> ladder \<Rightarrow> ladder" where
  "swap_limbs b = (\<lambda>(x2, x3, z2, z3). if b then (x3, x2, z3, z2) else (x2, x3, z2, z3))"

lemma rept4_swap: "rept4 s S \<Longrightarrow> rept4 (swap_limbs b s) (swap_points b S)"
  by (cases s; cases S) (simp add: swap_limbs_def swap_points_def)

lemma rept4_length: "rept4 (a, b, c, d) S \<Longrightarrow> length a = 16 \<and> length b = 16 \<and> length c = 16 \<and> length d = 16"
  by (cases S) (auto dest: rept_length)

lemma ladder_step_core:
  assumes "rept4 s S" "rept x x1"
  shows "ladder_step x s (of_bool b) = swap_limbs b (ladder_core x (swap_limbs b s))"
proof -
  obtain a1 b1 c1 d1 where sw: "swap_limbs b s = (a1, b1, c1, d1)" by (cases "swap_limbs b s")
  obtain a2 b2 c2 d2 where core: "ladder_core x (a1, b1, c1, d1) = (a2, b2, c2, d2)"
    by (cases "ladder_core x (a1, b1, c1, d1)")
  obtain a b' c d where s: "s = (a, b', c, d)" by (cases s)
  obtain S1 S2 S3 S4 where S: "swap_points b S = (S1, S2, S3, S4)" by (cases "swap_points b S")
  have r1: "rept4 (a1, b1, c1, d1) (S1, S2, S3, S4)" using rept4_swap [OF assms(1), of b] sw S by simp
  from ladder_core_refines [OF this assms(2)] have r2: "rept4 (a2, b2, c2, d2) (rfc_step x1 (S1, S2, S3, S4))"
    unfolding core .
  have l: "length a = 16" "length b' = 16" "length c = 16" "length d = 16"
    using rept4_length assms(1) s by blast+
  have l2: "length a2 = 16" "length b2 = 16" "length c2 = 16" "length d2 = 16"
    using rept4_length [OF r2] by simp_all
  have sel: "sel25519 a b' (of_bool b) = (a1, b1)" "sel25519 c d (of_bool b) = (c1, d1)"
    using sw s l by (auto simp: swap_limbs_def sel25519_swap split: if_splits)
  have sel2: "sel25519 a2 b2 (of_bool b) = (if b then (b2, a2) else (a2, b2))"
    "sel25519 c2 d2 (of_bool b) = (if b then (d2, c2) else (c2, d2))"
    using l2 by (auto simp: sel25519_swap)
  show ?thesis
    using core sel2 unfolding ladder_step_def s split sel Let_def ladder_core_def sw [unfolded s]
    by (auto simp: swap_limbs_def)
qed

lemma ladder_round:
  assumes "rept4 s S" "rept x x1"
  shows "rept4 (ladder_step x s (of_bool b)) (rfc_round x1 S b)"
proof -
  have "rept4 (ladder_core x (swap_limbs b s)) (rfc_step x1 (swap_points b S))"
    using ladder_core_refines [of "swap_limbs b s" _ _ _ _ x x1] rept4_swap [OF assms(1), of b] assms(2)
    by (cases "swap_points b S") simp
  then show ?thesis unfolding ladder_step_core [OF assms] rfc_round_def by (rule rept4_swap)
qed

lemma ladder_rounds:
  assumes "rept4 s S" "rept x x1" "\<And>i. i \<in> set is \<Longrightarrow> f i = of_bool (g i)"
  shows "rept4 (foldl (\<lambda>s i. ladder_step x s (f i)) s is) (foldl (\<lambda>S i. rfc_round x1 S (g i)) S is)"
  using assms(1,3)
proof (induction "is" arbitrary: s S)
  case (Cons i "is")
  then show ?case using ladder_round [OF Cons.prems(1) assms(2), of "g i"] by simp
qed simp

section \<open>Inversion\<close>

lemma inv_exponent:
  "rept c (x ^ k) \<Longrightarrow> rept i x \<Longrightarrow>
   rept (foldl (\<lambda>c a. let c = gf_sqr c in if a \<noteq> 2 \<and> a \<noteq> 4 then gf_mul c i else c) c as)
     (x ^ foldl (\<lambda>e a. if a \<noteq> 2 \<and> a \<noteq> 4 then 2 * e + 1 else 2 * e) k as)" for as :: "nat list"
proof (induction as arbitrary: c k)
  case (Cons a as)
  have sq: "rept (gf_sqr c) (x ^ (2 * k))"
    using rept_sqr [OF rept_repl [OF Cons.prems(1)]] by (simp add: mult_2 power_add)
  then have "rept (gf_mul (gf_sqr c) i) (x ^ (2 * k + 1))"
    using rept_mul [OF rept_repl rept_repl, OF sq Cons.prems(2)] by (simp add: mult.commute)
  then show ?case using sq Cons by (simp add: Let_def)
qed simp

abbreviation next_exponent :: "nat \<Rightarrow> nat \<Rightarrow> nat" where
  "next_exponent e a \<equiv> if a \<noteq> 2 \<and> a \<noteq> 4 then 2 * e + 1 else 2 * e"

lemma ones_exponent: "\<forall>a \<in> set as. 4 < a \<Longrightarrow> foldl next_exponent e as + 1 = 2 ^ length as * (e + 1)"
  by (induction as arbitrary: e) (auto simp: algebra_simps)

lemma inverse_exponent: "foldl next_exponent 1 (rev [0..<254]) = 2 ^ 255 - 21"
proof -
  have "[0..<254] = [0, 1, 2, 3, 4] @ [5..<254]" using upt_add_eq_append [of 0 5 249] by (simp add: upt_rec)
  then have split: "rev [0..<254] = rev [5..<254] @ [4, 3, 2, 1, 0]" by simp
  have "foldl next_exponent 1 (rev [5..<254]) + 1 = 2 ^ 250"
    using ones_exponent [of "rev [5..<254]" 1] by simp
  then obtain e where "foldl next_exponent 1 (rev [5..<254]) = e" "e = 2 ^ 250 - 1" by simp
  then show ?thesis unfolding split foldl_append by simp
qed

lemma rept_inv: "rept i x \<Longrightarrow> rept (inv25519 i) (x ^ (2 ^ 255 - 21))"
  unfolding inv25519_def inverse_exponent [symmetric] by (rule inv_exponent) simp_all

section \<open>The scalar\<close>

lemma bit_le_val: "i < 8 * length z \<Longrightarrow> bit (le_val z) i \<longleftrightarrow> bit (z ! (i div 8)) (i mod 8)"
proof (induction z arbitrary: i)
  case (Cons b z)
  have lo: "take_bit 8 (le_val (b # z)) = unat b" using unat_byte_lt [of b] by (simp add: take_bit_eq_mod)
  have hi: "drop_bit 8 (le_val (b # z)) = le_val z" using unat_byte_lt [of b] by (simp add: drop_bit_eq_div)
  show ?case
  proof (cases "i < 8")
    case True
    then show ?thesis using arg_cong [OF lo, of "\<lambda>v. bit v i"] by (simp add: bit_take_bit_iff bit_simps)
  next
    case False
    then obtain j where j: "i = 8 + j" using le_Suc_ex by (metis not_less)
    then have "i div 8 = Suc (j div 8)" by simp
    then show ?thesis using j arg_cong [OF hi, of "\<lambda>v. bit v j"] Cons by (simp add: bit_drop_bit_eq)
  qed
qed simp

lemma scalar_bit_le_val:
  assumes "length z = 32" "i < 255"
  shows "scalar_bit z i = of_bool (bit (le_val z) i)"
proof -
  have "drop_bit k w AND 1 = of_bool (bit w k)" for k and w :: byte
    by (simp add: and_one_eq mod_2_eq_odd bit_iff_odd_drop_bit)
  then show ?thesis using assms bit_le_val [of i z] by (simp add: scalar_bit_def)
qed

text \<open>The clamping of RFC 7748, as arithmetic on the scalar.\<close>

definition clamp_spec :: "nat \<Rightarrow> nat" where
  "clamp_spec k = 2 ^ 254 + 8 * (k div 8 mod 2 ^ 251)"

lemma unat_and_248: "unat (b AND 248 :: byte) = 8 * (unat b div 8)"
proof -
  have "(248 :: byte) = push_bit 3 (mask 5)" by (simp add: mask_eq_exp_minus_1 push_bit_eq_mult)
  then have "b AND 248 = push_bit 3 (drop_bit 3 b)" by (auto simp: bit_eq_iff bit_simps)
  moreover have "8 * (unat b div 8) < 256" using unat_byte_lt [of b] by linarith
  ultimately show ?thesis by (simp add: unat_drop_bit_eq drop_bit_eq_div push_bit_eq_mult unat_word_ariths mult.commute)
qed

lemma unat_top_byte: "unat ((b AND 127) OR 64 :: byte) = 64 + unat b mod 64"
proof -
  have "(64 :: byte) = push_bit 6 1" by simp
  then have b64: "bit (64 :: byte) n \<longleftrightarrow> n = 6" for n by (simp only: bit_push_bit_iff bit_1_iff) auto
  have "(127 :: byte) = mask 7" by (simp add: mask_eq_exp_minus_1)
  then have b127: "bit (127 :: byte) n \<longleftrightarrow> n < 7" for n by (simp only: bit_mask_iff) auto
  have "(b AND 127) OR 64 = take_bit 6 b OR 64"
  proof (rule bit_word_eqI)
    show "bit ((b AND 127) OR 64) n = bit (take_bit 6 b OR 64) n" for n
      by (simp only: bit_or_iff bit_and_iff bit_take_bit_iff b64 b127) auto
  qed
  moreover have "take_bit 6 b OR 64 = take_bit 6 b + 64"
    by (rule disjunctive_add [symmetric]) (simp only: bit_take_bit_iff b64, auto)
  moreover have "unat b mod 64 + 64 < 256" by (rule less_trans [of _ "64 + 64"]) simp_all
  ultimately show ?thesis by (simp add: unat_word_ariths unsigned_take_bit_eq take_bit_eq_mod)
qed

lemma le_val_clamp:
  assumes "length n = 32"
  shows "le_val (clamp_scalar n) = clamp_spec (le_val n)"
proof -
  obtain b mid c where n: "n = b # mid @ [c]" "length mid = 30"
    using assms by (cases n; cases "tl n" rule: rev_cases) auto
  have clamp: "clamp_scalar n = (b AND 248) # mid @ [(c AND 127) OR 64]"
    using n by (simp add: clamp_scalar_def Let_def nth_append)
  define m where "m = le_val mid"
  have m: "m < 2 ^ 240" using le_val_lt [of mid] n(2) by (simp add: m_def)
  have nv: "le_val n = unat b + 256 * (m + 2 ^ 240 * unat c)"
    by (simp add: n le_val_append m_def)
  have cv: "le_val (clamp_scalar n) = 8 * (unat b div 8) + 256 * (m + 2 ^ 240 * (64 + unat c mod 64))"
    by (simp add: clamp le_val_append n(2) m_def unat_and_248 unat_top_byte)
  have "le_val n div 8 = unat b div 8 + 32 * m + 2 ^ 245 * unat c"
    unfolding nv by simp
  moreover have "(unat b div 8 + 32 * m + 2 ^ 245 * unat c) mod 2 ^ 251 = unat b div 8 + 32 * m + 2 ^ 245 * (unat c mod 64)"
  proof -
    have "unat b div 8 < 32" using unat_byte_lt [of b] by linarith
    then have small: "unat b div 8 + 32 * m < 2 ^ 245" using m by simp
    have "2 ^ 245 * unat c = 2 ^ 245 * (unat c mod 64 + 64 * (unat c div 64))" by simp
    also have "\<dots> = 2 ^ 245 * (unat c mod 64) + 2 ^ 251 * (unat c div 64)" by (simp only: distrib_left) simp
    finally have "unat b div 8 + 32 * m + 2 ^ 245 * unat c =
        unat b div 8 + 32 * m + 2 ^ 245 * (unat c mod 64) + 2 ^ 251 * (unat c div 64)" by simp
    moreover have "unat c mod 64 < 64" by simp
    with small have "unat b div 8 + 32 * m + 2 ^ 245 * (unat c mod 64) < 2 ^ 251" by simp
    ultimately show ?thesis by (simp only: mod_mult_self2 mod_less)
  qed
  ultimately show ?thesis unfolding cv clamp_spec_def by simp
qed

section \<open>Bytes\<close>

abbreviation limb_at :: "bytes \<Rightarrow> nat \<Rightarrow> int" where
  "limb_at n i \<equiv> uint (n ! (2 * i)) + push_bit 8 (uint (n ! (2 * i + 1)))"

lemma fval_bytes: "length n = 2 * k \<Longrightarrow> fval (map (limb_at n) [0..<k]) = int (le_val n)"
proof (induction k arbitrary: n)
  case (Suc k)
  then obtain x y n' where n: "n = x # y # n'" by (cases n; cases "tl n") auto
  have "map (limb_at n) [0..<Suc k] = limb_at n 0 # map (limb_at n') [0..<k]"
    unfolding map_upt_Suc by (simp add: n)
  then show ?case using Suc.IH [of n'] Suc.prems n by (simp add: push_bit_eq_mult)
qed simp

lemma uint_byte_lt: "uint (b :: byte) < 256"
  using uint_lt2p [of b] by simp

lemma limb_at_range: "0 \<le> limb_at n i \<and> limb_at n i < 65536"
  using uint_byte_lt [of "n ! (2 * i)"] uint_byte_lt [of "n ! (2 * i + 1)"] by (simp add: push_bit_eq_mult)

lemma fval_range: "\<forall>x \<in> set g. 0 \<le> x \<and> x < 65536 \<Longrightarrow> 0 \<le> fval g \<and> fval g < 2 ^ (16 * length g)"
proof (induction g)
  case (Cons x g)
  then have "0 \<le> x" "x < 65536" "0 \<le> fval g" "fval g + 1 \<le> 2 ^ (16 * length g)" by simp_all
  moreover have "65536 * (fval g + 1) \<le> 65536 * 2 ^ (16 * length g)" using calculation(4) by simp
  ultimately have "0 \<le> x + 65536 * fval g" "x + 65536 * fval g < 65536 * 2 ^ (16 * length g)" by linarith+
  then show ?case by (simp add: power_add)
qed simp

lemma unpack_rept:
  assumes "length n = 32"
  shows "rept (unpack25519 n) (int (le_val n mod 2 ^ 255))"
proof -
  let ?o = "map (limb_at n) [0..<16]"
  define h where "h = limb_at n 15"
  have low: "h AND 32767 = h mod 2 ^ 15" using take_bit_eq_mask [of 15 h] by (simp add: take_bit_eq_mod mask_eq_exp_minus_1)
  have up: "unpack25519 n = take 15 ?o @ [h mod 2 ^ 15]"
    unfolding unpack25519_def Let_def using low by (simp add: h_def upt_rec numeral_eq_Suc)
  have o: "?o = take 15 ?o @ [h]" by (simp add: h_def upt_rec)
  define l where "l = fval (take 15 ?o)"
  have lim: "\<forall>x \<in> set (take 15 ?o). 0 \<le> x \<and> x < 65536" using limb_at_range [of n] by (auto dest!: in_set_takeD)
  have l: "0 \<le> l" "l < 2 ^ 240" using fval_range [OF lim] by (simp_all add: l_def)
  have "int (le_val n) = l + 2 ^ 240 * h"
    using fval_bytes [of n 16] assms arg_cong [OF o, of fval] by (simp add: fval_append l_def)
  then have "int (le_val n) mod 2 ^ 240 = l" "int (le_val n) div 2 ^ 240 = h" using l by simp_all
  then have "int (le_val n) mod 2 ^ 255 = l + 2 ^ 240 * (h mod 2 ^ 15)"
    using zmod_zmult2_eq [of "2 ^ 15" "int (le_val n)" "2 ^ 240"] by simp
  then have "fval (unpack25519 n) = int (le_val n mod 2 ^ 255)"
    unfolding up by (simp add: fval_append l_def zmod_int)
  moreover have "tight (unpack25519 n)"
    using lim pos_mod_bound [of "2 ^ 15" h] pos_mod_sign [of "2 ^ 15" h]
    unfolding up tight_def limbs_within_def by (auto simp del: pos_mod_bound pos_mod_sign)
  ultimately show ?thesis by (simp add: rept_def)
qed

lemma digits_Suc_last: "digits (Suc k) v = digits k v @ [v div 2 ^ (16 * k) mod 2 ^ 16]"
proof (induction k arbitrary: v)
  case (Suc k)
  have "digits (Suc (Suc k)) v = v mod 2 ^ 16 # digits (Suc k) (v div 2 ^ 16)" by simp
  also have "\<dots> = v mod 2 ^ 16 # digits k (v div 2 ^ 16) @ [v div 2 ^ 16 div 2 ^ (16 * k) mod 2 ^ 16]"
    by (simp only: Suc.IH)
  also have "v div 2 ^ 16 div 2 ^ (16 * k) = v div 2 ^ (16 * Suc k)"
    by (simp add: power_add zdiv_zmult2_eq)
  finally show ?case by simp
qed simp

lemma digits_high: "digits k (v + 2 ^ (16 * k) * u) = digits k v"
proof (induction k arbitrary: v)
  case (Suc k)
  have "v + 2 ^ (16 * Suc k) * u = v + 2 ^ 16 * (2 ^ (16 * k) * u)" by (simp add: power_add)
  then have "(v + 2 ^ (16 * Suc k) * u) div 2 ^ 16 = v div 2 ^ 16 + 2 ^ (16 * k) * u"
    "(v + 2 ^ (16 * Suc k) * u) mod 2 ^ 16 = v mod 2 ^ 16"
    by (simp_all only: div_mult_self2 [of "2 ^ 16 :: int"] mod_mult_self2) simp_all
  then show ?case using Suc by (simp only: digits.simps)
qed simp

lemma digits_fval: "\<forall>x \<in> set g. 0 \<le> x \<and> x < 65536 \<Longrightarrow> digits (length g) (fval g) = g"
  by (induction g) simp_all

text \<open>The prime as limbs, and the differences that the subtraction of the prime works on.\<close>

definition prime_limbs :: "int list" where
  "prime_limbs = 0xffed # replicate 14 0xffff @ [0x7fff]"

lemma fval_prime: "fval prime_limbs = prime25519"
  by (simp add: prime_limbs_def prime25519_def numeral_eq_Suc)

lemma borrow: "- 65536 \<le> y \<Longrightarrow> y < 65536 \<Longrightarrow> drop_bit 16 y AND 1 = - (y div 65536)" for y :: int
proof -
  assume "- 65536 \<le> y" "y < 65536"
  then have "y div 65536 = -1 \<or> y div 65536 = 0" by auto
  then show ?thesis by (auto simp: drop_bit_eq_div)
qed

lemma mask16: "y AND 65535 = y mod 65536" for y :: int
  using take_bit_eq_mask [of 16 y] by (simp add: take_bit_eq_mod mask_eq_exp_minus_1)

lemma unscale_bound: "65535 * w \<le> 65535 * (q - 1) \<Longrightarrow> w < q" for w q :: int
  by simp

lemma div_minus_one_or_zero: "- d \<le> v \<Longrightarrow> v < d \<Longrightarrow> 0 < d \<Longrightarrow> v div d = - 1 \<or> v div d = 0" for v d :: int
  using int_div_pos_eq [of v d "- 1" "v + d"] by (cases "v < 0") auto

lemma prefix_borrow:
  assumes "limbs_within 65535 u" "k \<le> length u"
  shows "fval (take k u) div 2 ^ (16 * k) = - 1 \<or> fval (take k u) div 2 ^ (16 * k) = 0"
proof -
  have "limbs_within 65535 (take k u)" using assms(1) by (auto simp: limbs_within_def dest: in_set_takeD)
  from fval_within [OF this] have "65535 * \<bar>fval (take k u)\<bar> \<le> 65535 * (2 ^ (16 * k) - 1)"
    using assms(2) by (simp add: min_absorb2)
  then have "\<bar>fval (take k u)\<bar> < 2 ^ (16 * k)" by (rule unscale_bound)
  then have "- (2 ^ (16 * k)) \<le> fval (take k u)" "fval (take k u) < 2 ^ (16 * k)" by linarith+
  then show ?thesis by (intro div_minus_one_or_zero) simp_all
qed

text \<open>The running limb before it is masked.\<close>

definition run_limb :: "int list \<Rightarrow> nat \<Rightarrow> int" where
  "run_limb u k = u ! k + fval (take k u) div 2 ^ (16 * k)"

lemma run_limb_div:
  assumes "k < length u"
  shows "run_limb u k div 2 ^ 16 = fval (take (Suc k) u) div 2 ^ (16 * Suc k)"
    and "run_limb u k = fval (take (Suc k) u) div 2 ^ (16 * k)"
proof -
  show r: "run_limb u k = fval (take (Suc k) u) div 2 ^ (16 * k)"
    using assms by (simp add: run_limb_def fval_take_Suc)
  show "run_limb u k div 2 ^ 16 = fval (take (Suc k) u) div 2 ^ (16 * Suc k)"
    unfolding r by (simp add: power_add zdiv_zmult2_eq [symmetric] mult.commute)
qed

lemma run_limb_digits:
  assumes "k < length u"
  shows "digits (Suc k) (fval (take (Suc k) u)) = digits k (fval (take k u)) @ [run_limb u k mod 2 ^ 16]"
  using assms digits_high [of k "fval (take k u)" "u ! k"] run_limb_div(2) [OF assms]
  by (simp only: digits_Suc_last fval_take_Suc mult.commute)

lemma run_limb_range:
  assumes "limbs_within 65535 u" "k < length u"
  shows "- 65536 \<le> run_limb u k" "run_limb u k < 65536"
  using prefix_borrow [OF assms(1), of k] limbs_within_nth [OF assms] assms(2) by (auto simp: run_limb_def)

definition sub_pair :: "int list \<Rightarrow> int list \<Rightarrow> bool" where
  "sub_pair t u \<longleftrightarrow> length t = 16 \<and> (\<forall>x \<in> set t. 0 \<le> x \<and> x < 65536) \<and> u = map2 (-) t prime_limbs"

lemma u_facts:
  assumes "sub_pair t u"
  shows "length u = 16" "limbs_within 65535 u" "fval u = fval t - prime25519"
    "u ! 0 = t ! 0 - 0xffed" "u ! 15 = t ! 15 - 0x7fff" "\<And>i. 0 < i \<Longrightarrow> i < 15 \<Longrightarrow> u ! i = t ! i - 0xffff"
proof -
  have t: "length t = 16" "\<forall>x \<in> set t. 0 \<le> x \<and> x < 65536" and u: "u = map2 (-) t prime_limbs"
    using assms by (auto simp: sub_pair_def)
  have len: "length prime_limbs = 16" by (simp add: prime_limbs_def)
  have p: "prime_limbs ! 0 = 0xffed" "prime_limbs ! 15 = 0x7fff" "\<And>i. 0 < i \<Longrightarrow> i < 15 \<Longrightarrow> prime_limbs ! i = 0xffff"
    by (simp_all add: prime_limbs_def nth_append nth_Cons')
  show "length u = 16" using t(1) len u by simp
  show "fval u = fval t - prime25519" using t(1) len u fval_map2(2) [of t prime_limbs] fval_prime by simp
  show "u ! 0 = t ! 0 - 0xffed" "u ! 15 = t ! 15 - 0x7fff" "\<And>i. 0 < i \<Longrightarrow> i < 15 \<Longrightarrow> u ! i = t ! i - 0xffff"
    using t(1) len p unfolding u by simp_all
  have "\<bar>u ! i\<bar> \<le> 65535" if "i < 16" for i
  proof -
    have "0 \<le> t ! i" "t ! i < 65536" using t that by auto
    moreover have "0 \<le> prime_limbs ! i" "prime_limbs ! i \<le> 65535" using p(1,2) p(3) [of i] that by (cases "i = 0"; cases "i = 15"; simp)+
    ultimately show ?thesis using t(1) len that unfolding u by simp
  qed
  then show "limbs_within 65535 u" using \<open>length u = 16\<close> by (auto simp: limbs_within_def in_set_conv_nth)
qed

lemma pack_sub_prefix:
  assumes "sub_pair t u"
  shows "k \<le> 14 \<Longrightarrow> foldl (pack_sub_step t) ((replicate 16 0)[0 := t ! 0 - 0xffed]) [1..<Suc k] =
    digits k (fval (take k u)) @ run_limb u k # replicate (15 - k) 0"
proof (induction k)
  case 0
  then show ?case using u_facts [OF assms] by (simp add: run_limb_def numeral_eq_Suc)
next
  case (Suc k)
  let ?m = "digits k (fval (take k u)) @ run_limb u k # replicate (15 - k) 0"
  have rep: "replicate (15 - k) 0 = (0 :: int) # replicate (15 - Suc k) 0" using Suc.prems by (metis Suc_diff_le Suc_le_mono diff_Suc_Suc numeral_eq_Suc pred_numeral_simps(3) replicate_Suc le_SucI Suc_eq_plus1 add_le_imp_le_diff)
  have "run_limb u (Suc k) = t ! Suc k - 0xffff - (drop_bit 16 (run_limb u k) AND 1)"
    using run_limb_div(1) [of k u] run_limb_range [OF u_facts(2) [OF assms], of k] u_facts [OF assms] Suc.prems borrow [of "run_limb u k"]
    by (simp add: run_limb_def)
  then have "pack_sub_step t ?m (Suc k) = digits k (fval (take k u)) @ (run_limb u k mod 2 ^ 16) # run_limb u (Suc k) # replicate (15 - Suc k) 0"
    unfolding rep by (simp add: pack_sub_step_def Let_def nth_append list_update_append mask16)
  then show ?case using Suc run_limb_digits [of k u] u_facts(1) [OF assms] by simp
qed

lemma pack_round_digits:
  assumes "length t = 16" "\<forall>x \<in> set t. 0 \<le> x \<and> x < 65536"
  shows "pack_round t = digits 16 (if prime25519 \<le> fval t then fval t - prime25519 else fval t)"
proof -
  note t = assms
  define u where "u = map2 (-) t prime_limbs"
  have su: "sub_pair t u" using t by (simp add: sub_pair_def u_def)
  let ?m = "digits 14 (fval (take 14 u)) @ [run_limb u 14, 0]"
  have fold: "foldl (pack_sub_step t) ((replicate 16 0)[0 := t ! 0 - 0xffed]) [1..<15] = ?m"
    using pack_sub_prefix [OF su, of 14] by simp
  have r: "run_limb u 15 = t ! 15 - 0x7fff - (drop_bit 16 (run_limb u 14) AND 1)"
    using run_limb_div(1) [of 14 u] run_limb_range [OF u_facts(2) [OF su], of 14] u_facts [OF su] borrow [of "run_limb u 14"]
    by (simp add: run_limb_def)
  let ?n = "digits 15 (fval (take 15 u)) @ [run_limb u 15]"
  have n: "digits 15 (fval (take 15 u)) = digits 14 (fval (take 14 u)) @ [run_limb u 14 AND 0xffff]"
    using run_limb_digits [of 14 u] u_facts(1) [OF su] by (simp add: mask16)
  have pr: "pack_round t = fst (sel25519 t ?n (1 - (drop_bit 16 (run_limb u 15) AND 1)))"
    unfolding pack_round_def Let_def fold by (simp add: n nth_append list_update_append list_update_swap r)
  have b: "drop_bit 16 (run_limb u 15) AND 1 = - (fval u div 2 ^ 256)"
    using borrow [of "run_limb u 15"] run_limb_range [OF u_facts(2) [OF su], of 15] run_limb_div(1) [of 15 u] u_facts(1) [OF su] by simp
  have d: "fval u div 2 ^ 256 = - 1 \<or> fval u div 2 ^ 256 = 0" using prefix_borrow [OF u_facts(2) [OF su], of 16] u_facts(1) [OF su] by simp
  have neg: "fval u div 2 ^ 256 = - 1 \<longleftrightarrow> fval u < 0"
    using d pos_imp_zdiv_neg_iff [of "2 ^ 256" "fval u"] by auto
  have lens: "length ?n = 16" "length t = 16" using t by simp_all
  show ?thesis
  proof (cases "prime25519 \<le> fval t")
    case True
    then have "fval u div 2 ^ 256 = 0" using d neg u_facts(3) [OF su] by auto
    then have "pack_round t = ?n" using pr b lens by (simp add: sel25519_swap)
    moreover have "run_limb u 15 div 2 ^ 16 = 0" using run_limb_div(1) [of 15 u] u_facts(1) [OF su] \<open>fval u div 2 ^ 256 = 0\<close> by simp
    then have "run_limb u 15 mod 2 ^ 16 = run_limb u 15" by (metis div_mult_mod_eq mult_zero_left add_0)
    then have "?n = digits 16 (fval u)" using run_limb_digits [of 15 u] u_facts(1) [OF su] by simp
    ultimately show ?thesis using True u_facts(3) [OF su] by simp
  next
    case False
    then have "fval u div 2 ^ 256 = - 1" using neg u_facts(3) [OF su] by simp
    then have "pack_round t = t" using pr b lens by (simp add: sel25519_swap)
    then show ?thesis using False digits_fval [OF t(2)] t(1) by simp
  qed
qed

lemma second_pass_range:
  fixes v k :: int
  assumes "\<bar>k\<bar> \<le> 2 ^ 60" "0 \<le> v" "v < 2 ^ 256"
  shows "0 \<le> (v + 38 * k) mod 2 ^ 256 + 38 * ((v + 38 * k) div 2 ^ 256)"
    "(v + 38 * k) mod 2 ^ 256 + 38 * ((v + 38 * k) div 2 ^ 256) < 2 ^ 256"
proof -
  define w where "w = v + 38 * k"
  have w: "- (38 * 2 ^ 60) \<le> w" "w < 2 ^ 256 + 38 * 2 ^ 60" using assms by (auto simp: w_def abs_le_iff)
  consider "w < 0" | "0 \<le> w" "w < 2 ^ 256" | "2 ^ 256 \<le> w" by linarith
  then have "0 \<le> w mod 2 ^ 256 + 38 * (w div 2 ^ 256) \<and> w mod 2 ^ 256 + 38 * (w div 2 ^ 256) < 2 ^ 256"
  proof cases
    case 1
    then have "w div 2 ^ 256 = - 1" using int_div_pos_eq [of w "2 ^ 256" "- 1" "w + 2 ^ 256"] w by simp
    moreover have "w mod 2 ^ 256 = w + 2 ^ 256" using int_mod_pos_eq [of w "2 ^ 256" "- 1" "w + 2 ^ 256"] 1 w by simp
    ultimately show ?thesis using 1 w by simp
  next
    case 3
    then have "w div 2 ^ 256 = 1" using int_div_pos_eq [of w "2 ^ 256" 1 "w - 2 ^ 256"] w by simp
    moreover have "w mod 2 ^ 256 = w - 2 ^ 256" using int_mod_pos_eq [of w "2 ^ 256" 1 "w - 2 ^ 256"] 3 w by simp
    ultimately show ?thesis using 3 w by simp
  qed simp
  then show "0 \<le> (v + 38 * k) mod 2 ^ 256 + 38 * ((v + 38 * k) div 2 ^ 256)"
    "(v + 38 * k) mod 2 ^ 256 + 38 * ((v + 38 * k) div 2 ^ 256) < 2 ^ 256" by (simp_all add: w_def)
qed

lemma three_passes:
  assumes "length n = 16" "limbs_within (2 ^ 60) n"
  obtains v where "car25519 (car25519 (car25519 n)) = digits 16 v" "0 \<le> v" "v < 2 ^ 256" "eqp v (fval n)"
proof -
  let ?v = "fval (car25519 (car25519 n))"
  have k: "\<bar>fval n div 2 ^ 256\<bar> \<le> 2 ^ 60" using fval_div_within assms by simp
  have e: "?v = (fval n mod 2 ^ 256 + 38 * (fval n div 2 ^ 256)) mod 2 ^ 256 + 38 * ((fval n mod 2 ^ 256 + 38 * (fval n div 2 ^ 256)) div 2 ^ 256)"
    by (simp only: fval_car25519 assms(1) length_car25519)
  have v: "0 \<le> ?v" "?v < 2 ^ 256" unfolding e by (rule second_pass_range [OF k]; simp)+
  then have "car25519 (car25519 (car25519 n)) = digits 16 ?v"
    using car25519_digits [of "car25519 (car25519 n)"] assms(1) by simp
  moreover have "eqp ?v (fval n)" using eqp_car25519 assms(1) eqp_trans length_car25519 by metis
  ultimately show ?thesis using that v by blast
qed

lemma unat_byte_of_int: "0 \<le> y \<Longrightarrow> y < 256 \<Longrightarrow> unat (of_int y :: byte) = nat y"
  by (simp add: unat_eq_nat_uint uint_word_of_int_eq take_bit_int_eq_self)

lemma le_val_limbs:
  "\<forall>x \<in> set t. 0 \<le> x \<and> x < 65536 \<Longrightarrow>
   int (le_val (concat (map (\<lambda>x. [of_int (x AND 0xff), of_int (drop_bit 8 x)]) t))) = fval t"
proof (induction t)
  case (Cons x t)
  then have x: "0 \<le> x" "x < 65536" by simp_all
  have "x AND 0xff = x mod 256" using take_bit_eq_mask [of 8 x] by (simp add: take_bit_eq_mod mask_eq_exp_minus_1)
  then have "unat (of_int (x AND 0xff) :: byte) = nat (x mod 256)" by (simp add: unat_byte_of_int)
  moreover have "unat (of_int (drop_bit 8 x) :: byte) = nat (x div 256)"
    using x by (simp add: drop_bit_eq_div unat_byte_of_int)
  moreover have "0 \<le> x div 256" "x mod 256 + 256 * (x div 256) = x" using x by (simp_all add: pos_imp_zdiv_nonneg_iff)
  ultimately show ?case using Cons x by (simp add: algebra_simps)
qed simp

text \<open>Packing gives the canonical representative of the residue, in thirty-two bytes.\<close>

lemma pack25519_canonical:
  assumes "length n = 16" "limbs_within (2 ^ 60) n"
  shows "int (le_val (pack25519 n)) = fval n mod prime25519"
proof -
  obtain v where v: "car25519 (car25519 (car25519 n)) = digits 16 v" "0 \<le> v" "v < 2 ^ 256" "eqp v (fval n)"
    using three_passes [OF assms] .
  have fd: "fval (digits 16 w) = w" if "0 \<le> w" "w < 2 ^ 256" for w using fval_digits [of 16 w] that by simp
  have round: "pack_round (digits 16 w) = digits 16 (if prime25519 \<le> w then w - prime25519 else w)"
    if "0 \<le> w" "w < 2 ^ 256" for w
    using pack_round_digits [of "digits 16 w"] digits_range fd [OF that] by simp
  define w1 where "w1 = (if prime25519 \<le> v then v - prime25519 else v)"
  define w2 where "w2 = (if prime25519 \<le> w1 then w1 - prime25519 else w1)"
  have b1: "0 \<le> w1" "w1 < 2 ^ 256" and b2: "0 \<le> w2" "w2 < prime25519"
    using v(2,3) by (auto simp: w1_def w2_def prime25519_def)
  have "pack_round (pack_round (digits 16 v)) = digits 16 w2"
    using round [OF v(2,3)] round [OF b1] by (simp add: w1_def w2_def)
  moreover have "w2 < 2 ^ 256" using b2 by (simp add: prime25519_def)
  then have "int (le_val (concat (map (\<lambda>x. [of_int (x AND 0xff), of_int (drop_bit 8 x)]) (digits 16 w2)))) = w2"
    using le_val_limbs [of "digits 16 w2"] digits_range fd [OF b2(1)] by simp
  moreover have "map (\<lambda>i. f (digits 16 w2 ! i)) [0..<16] = map f (digits 16 w2)" for f :: "int \<Rightarrow> bytes"
    by (rule nth_equalityI) simp_all
  note this [of "\<lambda>x. [of_int (x AND 0xff), of_int (drop_bit 8 x)]"]
  ultimately have "int (le_val (pack25519 n)) = w2" unfolding pack25519_def Let_def v(1) by simp
  moreover have "w2 mod prime25519 = v mod prime25519" by (auto simp: w1_def w2_def mod_diff_right_eq)
  ultimately show ?thesis using b2 v(4) by (simp add: eqp_def)
qed

section \<open>Scalar multiplication\<close>

definition x25519_spec :: "nat \<Rightarrow> nat \<Rightarrow> int" where
  "x25519_spec k u =
     (let x1 = int u;
          (x2, _, z2, _) = foldl (\<lambda>s i. rfc_round x1 s (bit k i)) (1, x1, 0, 1) (rev [0..<255])
      in x2 * z2 ^ (2 ^ 255 - 21) mod prime25519)"

lemma rept_const: "rept (replicate 16 0) 0" "rept (1 # replicate 15 0) 1"
  by (simp_all add: rept_def tight_def limbs_within_def numeral_eq_Suc)

text \<open>
  C16: The limb implementation of X25519 refines RFC 7748 over the integers modulo \<open>2\<^sup>2\<^sup>5\<^sup>5 - 19\<close>: on any thirty-two bytes of
  scalar and of point, the result is the little-endian encoding of the canonical residue that the ladder of the
  standard computes for the clamped scalar and the point's coordinate without its top bit; the inversion is
  the power \<open>2\<^sup>2\<^sup>5\<^sup>5 - 21\<close>.
\<close>

theorem x25519_refines:
  assumes "length n = 32" "length q = 32"
  shows "int (le_val (x25519_scalarmult n q)) = x25519_spec (clamp_spec (le_val n)) (le_val q mod 2 ^ 255)"
proof -
  let ?z = "clamp_scalar n" and ?x = "unpack25519 q" and ?x1 = "int (le_val q mod 2 ^ 255)"
  let ?one = "1 # replicate 15 (0 :: int)" and ?zero = "replicate 16 (0 :: int)"
  let ?l = "foldl (\<lambda>s i. ladder_step ?x s (scalar_bit ?z i)) (?one, ?x, ?zero, ?one) (rev [0..<255])"
  let ?p = "foldl (\<lambda>s i. rfc_round ?x1 s (bit (le_val ?z) i)) (1, ?x1, 0, 1) (rev [0..<255])"
  have x: "rept ?x ?x1" by (rule unpack_rept [OF assms(2)])
  have z: "length ?z = 32" using assms(1) by (simp add: clamp_scalar_def Let_def)
  have "rept4 ?l ?p"
    by (rule ladder_rounds [OF _ x]) (use rept_const x scalar_bit_le_val [OF z] in auto)
  moreover obtain a b c d where l: "?l = (a, b, c, d)" by (cases ?l)
  moreover obtain x2 x3 z2 z3 where p: "?p = (x2, x3, z2, z3)" by (cases ?p)
  ultimately have "rept a x2" "rept c z2" by simp_all
  then have r: "rept (gf_mul a (inv25519 c)) (x2 * z2 ^ (2 ^ 255 - 21))"
    by (intro rept_mul rept_repl rept_inv)
  then have "limbs_within (2 ^ 60) (gf_mul a (inv25519 c))" "length (gf_mul a (inv25519 c)) = 16"
    by (force simp: rept_def tight_def limbs_within_def)+
  then have "int (le_val (pack25519 (gf_mul a (inv25519 c)))) = x2 * z2 ^ (2 ^ 255 - 21) mod prime25519"
    using pack25519_canonical r by (simp only: rept_def eqp_def)
  moreover have "x25519_scalarmult n q = pack25519 (gf_mul a (inv25519 c))"
    unfolding x25519_scalarmult_def Let_def l by simp
  ultimately show ?thesis
    using p unfolding x25519_spec_def Let_def le_val_clamp [OF assms(1), symmetric] by (simp only: split)
qed

theorem x25519_refines_witness:
  "int (le_val (x25519_scalarmult (replicate 32 0) base9)) = x25519_spec (2 ^ 254) 9"
proof -
  have zero: "le_val (replicate k 0) = 0" for k by (induction k) simp_all
  have nine: "le_val base9 = 9" "length base9 = 32" using zero [of 31] by (simp_all only: base9_def le_val.simps) simp_all
  have "clamp_spec 0 = 2 ^ 254" "(9 :: nat) mod 2 ^ 255 = 9" by (simp_all add: clamp_spec_def)
  then show ?thesis using x25519_refines [of "replicate 32 0" base9] zero [of 32] nine by simp
qed

end
