(* ===== verification/X25519_Overflow.thy ===== *)
theory X25519_Overflow
  imports X25519_Field "HOL-Library.Monad_Syntax"
begin

text \<open>
  The limb arithmetic of \<^verbatim>\<open>src/crypto/detail/x25519.cpp\<close> in \<open>int64_t\<close>: the same operations, where every addition,
  subtraction and multiplication whose result leaves the range of the type, which is undefined behaviour in C++,
  gives \<^term>\<open>None\<close>.  The shifts, masks and exclusive ors of the code cannot leave it.
\<close>

definition i64 :: "int \<Rightarrow> int option" where
  "i64 x = (if - (2 ^ 63) \<le> x \<and> x < 2 ^ 63 then Some x else None)"

fun fold_ck :: "('s \<Rightarrow> 'a \<Rightarrow> 's option) \<Rightarrow> 's \<Rightarrow> 'a list \<Rightarrow> 's option" where
  "fold_ck f s [] = Some s"
| "fold_ck f s (x # xs) = f s x \<bind> (\<lambda>s. fold_ck f s xs)"

definition car_step_ck :: "gf \<Rightarrow> nat \<Rightarrow> gf option" where
  "car_step_ck o1 i = do {
     a \<leftarrow> i64 (o1 ! i + 2 ^ 16);
     let o2 = o1[i := a];
     let c = drop_bit 16 (o2 ! i);
     let j = (i + 1) * of_bool (i < 15);
     d \<leftarrow> i64 (c - 1);
     e \<leftarrow> i64 (37 * d);
     e \<leftarrow> i64 (e * of_bool (i = 15));
     e \<leftarrow> i64 (d + e);
     e \<leftarrow> i64 (o2 ! j + e);
     let o3 = o2[j := e];
     c \<leftarrow> i64 (c * 65536);
     e \<leftarrow> i64 (o3 ! i - c);
     Some (o3[i := e])
   }"

definition car25519_ck :: "gf \<Rightarrow> gf option" where
  "car25519_ck o1 = fold_ck car_step_ck o1 [0..<16]"

definition add_ck :: "gf \<Rightarrow> gf \<Rightarrow> gf option" where
  "add_ck a b = those (map (\<lambda>i. i64 (a ! i + b ! i)) [0..<16])"

definition sub_ck :: "gf \<Rightarrow> gf \<Rightarrow> gf option" where
  "sub_ck a b = those (map (\<lambda>i. i64 (a ! i - b ! i)) [0..<16])"

definition mul_acc_ck :: "gf \<Rightarrow> gf \<Rightarrow> nat \<Rightarrow> int list \<Rightarrow> nat \<Rightarrow> int list option" where
  "mul_acc_ck a b i t j = do {
     p \<leftarrow> i64 (a ! i * b ! j);
     s \<leftarrow> i64 (t ! (i + j) + p);
     Some (t[i + j := s])
   }"

definition mul_high_ck :: "int list \<Rightarrow> nat \<Rightarrow> int list option" where
  "mul_high_ck t i = do {
     p \<leftarrow> i64 (38 * t ! (i + 16));
     s \<leftarrow> i64 (t ! i + p);
     Some (t[i := s])
   }"

definition mul_ck :: "gf \<Rightarrow> gf \<Rightarrow> gf option" where
  "mul_ck a b = do {
     t \<leftarrow> fold_ck (\<lambda>t i. fold_ck (mul_acc_ck a b i) t [0..<16]) (replicate 31 0) [0..<16];
     t \<leftarrow> fold_ck mul_high_ck t [0..<15];
     o1 \<leftarrow> car25519_ck (map (\<lambda>i. t ! i) [0..<16]);
     car25519_ck o1
   }"

definition inv25519_ck :: "gf \<Rightarrow> gf option" where
  "inv25519_ck i =
     fold_ck (\<lambda>c a. mul_ck c c \<bind> (\<lambda>c. if a \<noteq> 2 \<and> a \<noteq> 4 then mul_ck c i else Some c)) i (rev [0..<254])"

definition pack_sub_step_ck :: "gf \<Rightarrow> gf \<Rightarrow> nat \<Rightarrow> gf option" where
  "pack_sub_step_ck t m i = do {
     d \<leftarrow> i64 (t ! i - 0xffff);
     d \<leftarrow> i64 (d - (drop_bit 16 (m ! (i - 1)) AND 1));
     let m = m[i := d];
     Some (m[i - 1 := m ! (i - 1) AND 0xffff])
   }"

definition pack_round_ck :: "gf \<Rightarrow> gf option" where
  "pack_round_ck t = do {
     d \<leftarrow> i64 (t ! 0 - 0xffed);
     m \<leftarrow> fold_ck (pack_sub_step_ck t) ((replicate 16 0)[0 := d]) [1..<15];
     d \<leftarrow> i64 (t ! 15 - 0x7fff);
     d \<leftarrow> i64 (d - (drop_bit 16 (m ! 14) AND 1));
     let m = m[15 := d];
     let b = drop_bit 16 (m ! 15) AND 1;
     let m = m[14 := m ! 14 AND 0xffff];
     Some (fst (sel25519 t m (1 - b)))
   }"

definition pack25519_ck :: "gf \<Rightarrow> bytes option" where
  "pack25519_ck n = do {
     t \<leftarrow> car25519_ck n;
     t \<leftarrow> car25519_ck t;
     t \<leftarrow> car25519_ck t;
     t \<leftarrow> pack_round_ck t;
     t \<leftarrow> pack_round_ck t;
     Some (concat (map (\<lambda>i. [of_int (t ! i AND 0xff), of_int (drop_bit 8 (t ! i))]) [0..<16]))
   }"

definition ladder_step_ck :: "gf \<Rightarrow> ladder \<Rightarrow> int \<Rightarrow> ladder option" where
  "ladder_step_ck x = (\<lambda>(a, b, c, d) r. do {
     let (a, b) = sel25519 a b r;
     let (c, d) = sel25519 c d r;
     e \<leftarrow> add_ck a c;
     a \<leftarrow> sub_ck a c;
     c \<leftarrow> add_ck b d;
     b \<leftarrow> sub_ck b d;
     d \<leftarrow> mul_ck e e;
     f \<leftarrow> mul_ck a a;
     a \<leftarrow> mul_ck c a;
     c \<leftarrow> mul_ck b e;
     e \<leftarrow> add_ck a c;
     a \<leftarrow> sub_ck a c;
     b \<leftarrow> mul_ck a a;
     c \<leftarrow> sub_ck d f;
     a \<leftarrow> mul_ck c c121665;
     a \<leftarrow> add_ck a d;
     c \<leftarrow> mul_ck c a;
     a \<leftarrow> mul_ck d f;
     d \<leftarrow> mul_ck b x;
     b \<leftarrow> mul_ck e e;
     let (a, b) = sel25519 a b r;
     let (c, d) = sel25519 c d r;
     Some (a, b, c, d)
   })"

definition x25519_scalarmult_ck :: "bytes \<Rightarrow> bytes \<Rightarrow> bytes option" where
  "x25519_scalarmult_ck n p = do {
     let z = clamp_scalar n;
     let x = unpack25519 p;
     let one = 1 # replicate 15 0;
     let zero = replicate 16 0;
     (a, b, c, d) \<leftarrow> fold_ck (\<lambda>s i. ladder_step_ck x s (scalar_bit z i)) (one, x, zero, one) (rev [0..<255]);
     c \<leftarrow> inv25519_ck c;
     a \<leftarrow> mul_ck a c;
     pack25519_ck a
   }"

section \<open>No overflow\<close>

lemma i64_small: "\<bar>x\<bar> \<le> 2 ^ 62 \<Longrightarrow> i64 x = Some x"
  by (auto simp: i64_def abs_le_iff)

lemma fold_ck_Some:
  assumes "P 0 s" and "\<And>k s. k < length xs \<Longrightarrow> P k s \<Longrightarrow> f s (xs ! k) = Some (g s (xs ! k)) \<and> P (Suc k) (g s (xs ! k))"
  shows "fold_ck f s xs = Some (foldl g s xs) \<and> P (length xs) (foldl g s xs)"
  using assms
proof (induction xs arbitrary: s P)
  case (Cons x xs)
  have "f s x = Some (g s x)" "P 1 (g s x)" using Cons.prems(2) [of 0 s] Cons.prems(1) by simp_all
  then show ?case using Cons.IH [of "\<lambda>k. P (Suc k)" "g s x"] Cons.prems(2) by force
qed simp

lemma those_Some: "(\<And>i. i \<in> set is \<Longrightarrow> f i = Some (g i)) \<Longrightarrow> those (map f is) = Some (map g is)"
  by (induction "is") simp_all

lemma tight_nth: "tight g \<Longrightarrow> i < 16 \<Longrightarrow> \<bar>g ! i\<bar> \<le> 65574"
  using limbs_within_nth [of "2 ^ 16 + 38" g i] by (simp add: tight_def)

lemma add_ck: "tight a \<Longrightarrow> tight b \<Longrightarrow> add_ck a b = Some (gf_add a b)"
  unfolding add_ck_def gf_add_def
  by (intro those_Some i64_small) (use tight_nth [of a] tight_nth [of b] in fastforce)

lemma sub_ck: "tight a \<Longrightarrow> tight b \<Longrightarrow> sub_ck a b = Some (gf_sub a b)"
  unfolding sub_ck_def gf_sub_def
  by (intro those_Some i64_small) (use tight_nth [of a] tight_nth [of b] in fastforce)

section \<open>Carry passes\<close>

lemma car_step_eq:
  assumes "length g = 16" "i < 16"
  shows "car_step g i =
    (if i < 15 then g[i := g ! i mod 65536, Suc i := g ! Suc i + g ! i div 65536]
     else g[15 := g ! 15 mod 65536, 0 := g ! 0 + 38 * (g ! 15 div 65536)])"
proof (cases "i < 15")
  case True
  then show ?thesis using assms
    by (simp add: car_step_def Let_def shift_carry list_update_swap [of "Suc i" i] minus_div_mult_eq_mod [symmetric])
next
  case False
  then have "i = 15" using assms by simp
  then show ?thesis using assms
    by (simp add: car_step_def Let_def shift_carry list_update_swap [of 0 15] minus_div_mult_eq_mod [symmetric])
qed

lemma carry_small: "\<bar>x\<bar> \<le> 2 ^ 57 \<Longrightarrow> \<bar>x div 65536\<bar> \<le> 2 ^ 42" for x :: int
  by auto

lemma car_step_ck_Some:
  assumes "length g = 16" "i < 16" "\<forall>j < 16. \<bar>g ! j\<bar> \<le> 2 ^ 57"
  shows "car_step_ck g i = Some (car_step g i)"
proof -
  define x q where "x = g ! i" and "q = x div 65536"
  define j where "j = (i + 1) * of_bool (i < 15)"
  have j: "j < 16" "j \<noteq> i" using assms(2) by (auto simp: j_def)
  have x: "\<bar>x\<bar> \<le> 2 ^ 57" "\<bar>q\<bar> \<le> 2 ^ 42" using assms carry_small by (auto simp: x_def q_def)
  have y: "\<bar>g ! j\<bar> \<le> 2 ^ 57" using assms(3) j by simp
  define m where "m = 37 * q * of_bool (i = 15)"
  have m: "\<bar>37 * q\<bar> \<le> 2 ^ 50" "\<bar>m\<bar> \<le> 2 ^ 50" using x(2) by (auto simp: m_def)
  have s: "\<bar>q + m\<bar> \<le> 2 ^ 62" "\<bar>g ! j + (q + m)\<bar> \<le> 2 ^ 62" using m x y by (simp_all add: abs_le_iff)
  have c: "\<bar>x + 65536\<bar> \<le> 2 ^ 62" "\<bar>(q + 1) * 65536\<bar> \<le> 2 ^ 62" "\<bar>x + 65536 - (q + 1) * 65536\<bar> \<le> 2 ^ 62"
    using x by (simp_all add: abs_le_iff)
  have q: "\<bar>q\<bar> \<le> 2 ^ 62" "\<bar>37 * q\<bar> \<le> 2 ^ 62" "\<bar>m\<bar> \<le> 2 ^ 62" using x m by simp_all
  note small = i64_small [OF q(1)] i64_small [OF q(2)] i64_small [OF q(3)] i64_small [OF s(1)] i64_small [OF s(2)]
    i64_small [OF c(1)] i64_small [OF c(2)] i64_small [OF c(3)]
  show ?thesis
    using small assms(1,2) j unfolding car_step_ck_def car_step_def Let_def j_def [symmetric]
    by (simp add: shift_carry x_def [symmetric] q_def [symmetric] m_def)
qed

lemma car_bound_step:
  assumes "length g = 16" "k < 16" "\<forall>j < 16. \<bar>g ! j\<bar> \<le> 2 ^ 56 + (if j = k then 2 ^ 50 else 0)"
  shows "length (car_step g k) = 16 \<and> (\<forall>j < 16. \<bar>car_step g k ! j\<bar> \<le> 2 ^ 56 + (if j = Suc k \<or> k = 15 then 2 ^ 50 else 0))"
proof -
  have "\<bar>g ! k\<bar> \<le> 2 ^ 57" using assms(2,3) by (force dest!: spec [of _ k])
  then have q: "\<bar>g ! k div 65536\<bar> \<le> 2 ^ 42" by (rule carry_small)
  then have q38: "\<bar>38 * (g ! k div 65536)\<bar> \<le> 2 ^ 50" by (simp add: abs_mult)
  have m: "\<bar>g ! k mod 65536\<bar> \<le> 2 ^ 56" using pos_mod_bound [of 65536 "g ! k"] pos_mod_sign [of 65536 "g ! k"] by (simp add: abs_le_iff)
  have other: "\<bar>g ! j\<bar> \<le> 2 ^ 56" if "j < 16" "j \<noteq> k" for j using assms(3) that by (auto dest!: spec [of _ j])
  have s: "\<bar>g ! Suc k + g ! k div 65536\<bar> \<le> 2 ^ 56 + 2 ^ 50" if "k < 15"
    using other [of "Suc k"] that q abs_triangle_ineq [of "g ! Suc k" "g ! k div 65536"] by simp
  have z: "\<bar>g ! 0 + 38 * (g ! k div 65536)\<bar> \<le> 2 ^ 56 + 2 ^ 50" if "k = 15"
    using other [of 0] that q38 abs_triangle_ineq [of "g ! 0" "38 * (g ! k div 65536)"] by simp
  have "\<bar>car_step g k ! j\<bar> \<le> 2 ^ 56 + (if j = Suc k \<or> k = 15 then 2 ^ 50 else 0)" if j: "j < 16" for j
  proof (cases "k < 15")
    case True
    then have "car_step g k ! j = (if j = Suc k then g ! Suc k + g ! k div 65536 else if j = k then g ! k mod 65536 else g ! j)"
      using assms(1) j by (simp add: car_step_eq nth_list_update)
    then show ?thesis using s [OF True] m other [OF j] True by simp
  next
    case False
    then have k: "k = 15" using assms(2) by simp
    then have "car_step g k ! j = (if j = 0 then g ! 0 + 38 * (g ! k div 65536) else if j = k then g ! k mod 65536 else g ! j)"
      using assms(1) j by (simp add: car_step_eq nth_list_update)
    moreover have "\<bar>g ! j\<bar> \<le> 2 ^ 56 + 2 ^ 50" if "j \<noteq> k" using other [OF j that] by simp
    moreover have "\<bar>g ! k mod 65536\<bar> \<le> 2 ^ 56 + 2 ^ 50" using m by simp
    ultimately show ?thesis using z [OF k] k by simp
  qed
  then show ?thesis using assms(1,2) by (simp add: car_step_eq)
qed

lemma car25519_ck_Some:
  assumes "length g = 16" "limbs_within (2 ^ 56) g"
  shows "car25519_ck g = Some (car25519 g)"
proof -
  let ?P = "\<lambda>k g. length g = 16 \<and> (\<forall>j < 16. \<bar>g ! j\<bar> \<le> 2 ^ 56 + (if j = k \<or> k = 16 then 2 ^ 50 else 0))"
  have "fold_ck car_step_ck g [0..<16] = Some (foldl car_step g [0..<16]) \<and> ?P (length [0..<16]) (foldl car_step g [0..<16])"
  proof (rule fold_ck_Some [where P = ?P])
    show "?P 0 g" using assms limbs_within_nth [OF assms(2)] by force
    fix k and g :: gf
    assume k: "k < length [0..<16]" and P: "?P k g"
    then have "\<forall>j < 16. \<bar>g ! j\<bar> \<le> 2 ^ 57" by (auto split: if_splits elim!: order_trans)
    then have "car_step_ck g k = Some (car_step g k)" using car_step_ck_Some [of g k] k P by simp
    moreover have "?P (Suc k) (car_step g k)" using car_bound_step [of g k] k P by (auto split: if_splits)
    ultimately show "car_step_ck g ([0..<16] ! k) = Some (car_step g ([0..<16] ! k)) \<and> ?P (Suc k) (car_step g ([0..<16] ! k))"
      using k by simp
  qed
  then show ?thesis by (simp add: car25519_ck_def car25519_def)
qed

lemma car_limbs:
  assumes "length g = 16" "\<bar>fval g div 2 ^ 256\<bar> \<le> 2 ^ 46"
  shows "limbs_within (2 ^ 56) (car25519 g)"
proof -
  have d: "\<bar>x\<bar> \<le> 65535" if "x \<in> set (digits 16 (fval g))" for x using digits_range [OF that] by simp
  then have "\<bar>digits 16 (fval g) ! 0\<bar> \<le> 65535" by simp
  then have "\<bar>digits 16 (fval g) ! 0 + 38 * (fval g div 2 ^ 256)\<bar> \<le> 2 ^ 56" using assms(2) by (simp add: abs_le_iff)
  with d show ?thesis using set_update_subset_insert [of "digits 16 (fval g)" 0]
    by (force simp: limbs_within_def car25519_digits [OF assms(1)])
qed

section \<open>Multiplication\<close>

abbreviation acc :: "gf \<Rightarrow> gf \<Rightarrow> nat \<Rightarrow> int list \<Rightarrow> nat \<Rightarrow> int list" where
  "acc a b i t j \<equiv> t[i + j := t ! (i + j) + a ! i * b ! j]"

abbreviation high :: "int list \<Rightarrow> nat \<Rightarrow> int list" where
  "high t i \<equiv> t[i := t ! i + 38 * t ! (i + 16)]"

text \<open>A loop whose states are known in closed form.\<close>

lemma fold_ck_upt:
  assumes "\<And>k. k < n \<Longrightarrow> f (foldl g s [0..<k]) k = Some (g (foldl g s [0..<k]) k)"
  shows "fold_ck f s [0..<n] = Some (foldl g s [0..<n])"
  using fold_ck_Some [where P = "\<lambda>k t. t = foldl g s [0..<k]" and xs = "[0..<n]" and f = f and g = g and s = s] assms by simp

lemma mul_row_ck:
  assumes "loose a" "loose b" "i < 16" "length t = 31" "limbs_within (2 ^ 50) t"
  shows "fold_ck (mul_acc_ck a b i) t [0..<16] = Some (foldl (acc a b i) t [0..<16])"
proof (rule fold_ck_upt)
  fix j :: nat
  assume j: "j < 16"
  let ?t = "foldl (acc a b i) t [0..<j]"
  have ai: "\<bar>a ! i\<bar> \<le> 2 ^ 18" and bj: "\<bar>b ! j\<bar> \<le> 2 ^ 18"
    using assms(1-3) j by (simp_all add: loose_def limbs_within_nth)
  have "\<bar>?t ! (i + j)\<bar> \<le> 2 ^ 50 + (if i + j < i + j then 2 ^ 18 * 2 ^ 18 else 0)"
    by (rule mul_row_within [THEN spec [of _ "i + j"], THEN mp]) (use ai assms j in \<open>simp_all add: loose_def\<close>)
  moreover have p: "\<bar>a ! i * b ! j\<bar> \<le> 2 ^ 36"
    using mult_mono [OF ai bj] by (simp add: abs_mult)
  ultimately have "\<bar>?t ! (i + j) + a ! i * b ! j\<bar> \<le> 2 ^ 62" "\<bar>a ! i * b ! j\<bar> \<le> 2 ^ 62"
    using abs_triangle_ineq [of "?t ! (i + j)" "a ! i * b ! j"] by simp_all
  then show "mul_acc_ck a b i ?t j = Some (acc a b i ?t j)"
    unfolding mul_acc_ck_def by (simp add: i64_small)
qed

lemma mul_ck_Some:
  assumes "loose a" "loose b"
  shows "mul_ck a b = Some (gf_mul a b)"
proof -
  have ab: "length a = 16" "length b = 16" "limbs_within (2 ^ 18) a" "limbs_within (2 ^ 18) b"
    using assms by (simp_all add: loose_def)
  let ?row = "\<lambda>t i. foldl (acc a b i) t [0..<16]"
  let ?t = "foldl ?row (replicate 31 0) [0..<16]"
  have rows: "fold_ck (\<lambda>t i. fold_ck (mul_acc_ck a b i) t [0..<16]) (replicate 31 0) [0..<16] = Some ?t"
  proof (rule fold_ck_upt)
    fix i :: nat
    assume i: "i < 16"
    have "limbs_within (int i * (2 ^ 18 * 2 ^ 18)) (foldl ?row (replicate 31 0) [0..<i])"
      using mul_rows_within [of a b i "2 ^ 18"] ab i by simp
    moreover have "int i * (2 ^ 18 * 2 ^ 18) \<le> 2 ^ 50" using i by simp
    ultimately have "limbs_within (2 ^ 50) (foldl ?row (replicate 31 0) [0..<i])"
      unfolding limbs_within_def by (meson order_trans)
    moreover have "length (foldl ?row (replicate 31 0) [0..<i]) = 31"
      using mul_rows [of i a b "replicate 31 0"] ab i by simp
    ultimately show "fold_ck (mul_acc_ck a b i) (foldl ?row (replicate 31 0) [0..<i]) [0..<16] = Some (?row (foldl ?row (replicate 31 0) [0..<i]) i)"
      using mul_row_ck assms i by blast
  qed
  have len: "length ?t = 31" using mul_rows [of 16 a b "replicate 31 0"] ab by simp
  have tw: "limbs_within (2 ^ 40) ?t" using mul_rows_within [of a b 16 "2 ^ 18"] ab by simp
  have highs: "fold_ck mul_high_ck ?t [0..<15] = Some (foldl high ?t [0..<15])"
  proof (rule fold_ck_upt)
    fix i :: nat
    assume i: "i < 15"
    let ?h = "foldl high ?t [0..<i]"
    have "?h ! i = ?t ! i" "?h ! (i + 16) = ?t ! (i + 16)" using fold_high_within [OF len tw, of i] i by simp_all
    then have "\<bar>?h ! i\<bar> \<le> 2 ^ 40" "\<bar>?h ! (i + 16)\<bar> \<le> 2 ^ 40" using limbs_within_nth [OF tw] i len by simp_all
    then have "\<bar>38 * ?h ! (i + 16)\<bar> \<le> 2 ^ 62" "\<bar>?h ! i + 38 * ?h ! (i + 16)\<bar> \<le> 2 ^ 62" by (simp_all add: abs_le_iff)
    then show "mul_high_ck ?h i = Some (high ?h i)" unfolding mul_high_ck_def by (simp add: i64_small)
  qed
  let ?r = "foldl high ?t [0..<15]"
  let ?o = "map (\<lambda>i. ?r ! i) [0..<16]"
  have lr: "length ?r = 31" using fold_high [OF len, of 15] by (simp add: Let_def)
  have "limbs_within (39 * 2 ^ 40) ?r" using fold_high_within [OF len tw, of 15] by simp
  then have "\<bar>?r ! i\<bar> \<le> 39 * 2 ^ 40" if "i < 16" for i using limbs_within_nth [of _ ?r i] lr that by simp
  then have ow: "limbs_within (2 ^ 46) ?o" unfolding limbs_within_def by fastforce
  have "\<bar>fval ?o div 2 ^ 256\<bar> \<le> 2 ^ 46" using fval_div_within [of ?o "2 ^ 46"] ow by simp
  then have c1: "limbs_within (2 ^ 56) (car25519 ?o)"
    using car_limbs [of ?o] by simp
  have "limbs_within (2 ^ 56) ?o" using ow unfolding limbs_within_def by force
  then have "car25519_ck ?o = Some (car25519 ?o)" by (intro car25519_ck_Some) simp_all
  moreover have "car25519_ck (car25519 ?o) = Some (car25519 (car25519 ?o))" by (rule car25519_ck_Some [OF _ c1]) simp
  ultimately show ?thesis unfolding mul_ck_def gf_mul_def Let_def rows by (simp add: highs)
qed

section \<open>Inversion, ladder and packing\<close>

lemma inv25519_ck_Some:
  assumes "tight i"
  shows "inv25519_ck i = Some (inv25519 i)"
proof -
  have "mul_ck c c \<bind> (\<lambda>c. if a \<noteq> 2 \<and> a \<noteq> 4 then mul_ck c i else Some c) =
      Some (let c = gf_sqr c in if a \<noteq> 2 \<and> a \<noteq> 4 then gf_mul c i else c) \<and>
      tight (let c = gf_sqr c in if a \<noteq> 2 \<and> a \<noteq> 4 then gf_mul c i else c)" if "tight c" for c and a :: nat
    using that assms by (simp add: mul_ck_Some tight_loose mul_tight gf_sqr_def Let_def)
  then show ?thesis unfolding inv25519_ck_def inv25519_def
    by (intro conjunct1 [OF fold_ck_Some [where P = "\<lambda>_. tight"]]) (use assms in auto)
qed

lemma ladder_step_ck_Some:
  assumes "rept4 s S" "rept x x1"
  shows "ladder_step_ck x s (of_bool r) = Some (ladder_step x s (of_bool r))"
proof -
  obtain a b c d where s: "s = (a, b, c, d)" by (cases s)
  obtain x2 x3 z2 z3 where "S = (x2, x3, z2, z3)" by (cases S)
  with assms s have t: "tight a" "tight b" "tight c" "tight d" "tight x" by (simp_all add: rept_def)
  then have l: "length a = 16" "length b = 16" "length c = 16" "length d = 16" by (simp_all add: tight_def)
  obtain a1 b1 where ab: "sel25519 a b (of_bool r) = (a1, b1)" "tight a1" "tight b1"
    using t l by (cases r) (auto simp: sel25519_swap)
  obtain c1 d1 where cd: "sel25519 c d (of_bool r) = (c1, d1)" "tight c1" "tight d1"
    using t l by (cases r) (auto simp: sel25519_swap)
  have c: "loose c121665" using repl_c121665 by (simp add: repl_def)
  note ops = add_ck sub_ck mul_ck_Some loose_add loose_sub tight_loose mul_tight gf_sqr_def c t(5)
  show ?thesis
    unfolding s ladder_step_ck_def ladder_step_def split ab(1) cd(1) Let_def
    using ab(2,3) cd(2,3) by (simp add: ops split: prod.splits)
qed

lemma pack_round_ck_Some:
  assumes "length t = 16" "\<forall>x \<in> set t. 0 \<le> x \<and> x < 65536"
  shows "pack_round_ck t = Some (pack_round t)"
proof -
  have b: "0 \<le> t ! i" "t ! i < 65536" if "i < 16" for i using assms that by auto
  have small: "\<bar>t ! i - p - (y AND 1)\<bar> \<le> 2 ^ 62" if "i < 16" "0 \<le> p" "p \<le> 65535" for i p and y :: int
  proof -
    obtain e where e: "y AND 1 = e" "0 \<le> e" "e \<le> 1" by (simp add: and_one_eq)
    show ?thesis unfolding e(1) using b [OF that(1)] e(2,3) that(2,3) by (simp add: abs_le_iff)
  qed
  have step: "pack_sub_step_ck t m i = Some (pack_sub_step t m i)" if "i < 16" for m i
  proof -
    have "\<bar>t ! i - 0xffff\<bar> \<le> 2 ^ 62" "\<bar>t ! i - 0xffff - (drop_bit 16 (m ! (i - 1)) AND 1)\<bar> \<le> 2 ^ 62"
      using b [OF that] small [OF that, of "0xffff" "drop_bit 16 (m ! (i - 1))"] by (simp_all add: abs_le_iff)
    then show ?thesis unfolding pack_sub_step_ck_def pack_sub_step_def Let_def by (simp add: i64_small)
  qed
  have m: "fold_ck (pack_sub_step_ck t) m [1..<15] = Some (foldl (pack_sub_step t) m [1..<15])" for m
    by (rule conjunct1 [OF fold_ck_Some [where P = "\<lambda>_ _. True"]]) (simp_all add: step)
  have "\<bar>t ! 0 - 0xffed\<bar> \<le> 2 ^ 62" "\<bar>t ! 15 - 0x7fff\<bar> \<le> 2 ^ 62"
    using b [of 0] b [of 15] by (simp_all add: abs_le_iff)
  moreover have "\<bar>t ! 15 - 0x7fff - (y AND 1)\<bar> \<le> 2 ^ 62" for y
    using small [of 15 "0x7fff" y] by simp
  ultimately show ?thesis unfolding pack_round_ck_def pack_round_def Let_def by (simp add: i64_small m [simplified])
qed

lemma pack25519_ck_Some:
  assumes "tight n"
  shows "pack25519_ck n = Some (pack25519 n)"
proof -
  have n: "length n = 16" "limbs_within (2 ^ 46) n" "limbs_within (2 ^ 56) n" "limbs_within (2 ^ 60) n"
    using assms by (force simp: tight_def limbs_within_def)+
  have "limbs_within (2 ^ 56) (car25519 n)" using car_limbs fval_div_within [of n "2 ^ 46"] n by simp
  moreover have "tight (car25519 (car25519 n))" using car_car_tight n by simp
  then have "limbs_within (2 ^ 56) (car25519 (car25519 n))" by (force simp: tight_def limbs_within_def)
  ultimately have cars: "car25519_ck n = Some (car25519 n)" "car25519_ck (car25519 n) = Some (car25519 (car25519 n))"
    "car25519_ck (car25519 (car25519 n)) = Some (car25519 (car25519 (car25519 n)))"
    using n car25519_ck_Some by simp_all
  obtain v where v: "car25519 (car25519 (car25519 n)) = digits 16 v" using three_passes [OF n(1) n(4)] by blast
  have r: "pack_round_ck (digits 16 w) = Some (pack_round (digits 16 w))" for w
    using pack_round_ck_Some [of "digits 16 w"] digits_range by simp
  obtain w where "pack_round (digits 16 v) = digits 16 w"
    using pack_round_digits [of "digits 16 v"] digits_range by simp
  then show ?thesis unfolding pack25519_ck_def pack25519_def Let_def by (simp add: cars v r)
qed

text \<open>
  C17: No operation of X25519 overflows: on any thirty-two bytes of scalar and point, the computation in which every
  \<open>int64_t\<close> addition, subtraction and multiplication is checked goes through, with the result of the unchecked one.
\<close>

theorem x25519_no_overflow:
  assumes "length n = 32" "length q = 32"
  shows "x25519_scalarmult_ck n q = Some (x25519_scalarmult n q)"
proof -
  let ?z = "clamp_scalar n" and ?x = "unpack25519 q" and ?x1 = "int (le_val q mod 2 ^ 255)"
  let ?s = "(1 # replicate 15 0, ?x, replicate 16 0, 1 # replicate 15 0) :: ladder"
  let ?l = "foldl (\<lambda>s i. ladder_step ?x s (scalar_bit ?z i)) ?s (rev [0..<255])"
  have x: "rept ?x ?x1" by (rule unpack_rept [OF assms(2)])
  have z: "length ?z = 32" using assms(1) by (simp add: clamp_scalar_def Let_def)
  have bits: "\<exists>b. scalar_bit ?z (rev [0..<255] ! k) = of_bool b" if "k < 255" for k
    using scalar_bit_le_val [OF z] that by (auto simp: rev_nth)
  have "fold_ck (\<lambda>s i. ladder_step_ck ?x s (scalar_bit ?z i)) ?s (rev [0..<255]) = Some ?l \<and> (\<exists>S. rept4 ?l S)"
  proof (rule fold_ck_Some [where P = "\<lambda>_ s. \<exists>S. rept4 s S"])
    show "\<exists>S. rept4 ?s S" using x rept_const by (intro exI [of _ "(1, ?x1, 0, 1)"]) simp
    fix k s
    assume "k < length (rev [0..<255])" "\<exists>S. rept4 s S"
    then obtain S b where h: "rept4 s S" and e: "scalar_bit ?z (rev [0..<255] ! k) = of_bool b" using bits [of k] by (metis length_rev length_upt minus_nat.diff_0)
    show "ladder_step_ck ?x s (scalar_bit ?z (rev [0..<255] ! k)) = Some (ladder_step ?x s (scalar_bit ?z (rev [0..<255] ! k))) \<and>
        (\<exists>S. rept4 (ladder_step ?x s (scalar_bit ?z (rev [0..<255] ! k))) S)"
      unfolding e using ladder_step_ck_Some [OF h x] ladder_round [OF h x] by blast
  qed
  moreover obtain a b c d where l: "?l = (a, b, c, d)" by (cases ?l)
  ultimately obtain S where f: "fold_ck (\<lambda>s i. ladder_step_ck ?x s (scalar_bit ?z i)) ?s (rev [0..<255]) = Some (a, b, c, d)"
    and S: "rept4 (a, b, c, d) S" by auto
  then obtain x2 z2 where r: "rept a x2" "rept c z2" by (cases S) auto
  then have t: "tight a" "tight c" "tight (inv25519 c)" using rept_inv by (auto simp: rept_def)
  then show ?thesis unfolding x25519_scalarmult_ck_def x25519_scalarmult_def Let_def f l
    by (simp add: inv25519_ck_Some mul_ck_Some tight_loose pack25519_ck_Some mul_tight)
qed

theorem x25519_no_overflow_witness:
  "x25519_scalarmult_ck (replicate 32 255) base9 = Some (x25519_scalarmult (replicate 32 255) base9)"
  using x25519_no_overflow [of "replicate 32 255" base9] by (simp add: base9_def)


end
