(* ===== verification/Message_Fields.thy ===== *)
theory Message_Fields
  imports Proto_Codec
begin

text \<open>
  The accessors of the generated message classes (\<^verbatim>\<open>emit_messages.cpp\<close>): \<^verbatim>\<open>set_x\<close>, \<^verbatim>\<open>x()\<close>, \<^verbatim>\<open>add_x\<close>, \<^verbatim>\<open>x_size()\<close> and \<^verbatim>\<open>x(i)\<close>
  for the field named \<open>x\<close> of a class, and the classes of \<^verbatim>\<open>proto/api.proto\<close> as lists of their fields.  The lemmas say
  how accessors interact with each other and with the trip over the wire.
\<close>

section \<open>Accessors\<close>

fun field_index :: "msg_class \<Rightarrow> string \<Rightarrow> nat option" where
  "field_index [] n = None"
| "field_index (c # cs) n = (if f_name (cf_field c) = n then Some 0 else map_option Suc (field_index cs n))"

definition set_m :: "msg_class \<Rightarrow> string \<Rightarrow> elem \<Rightarrow> message \<Rightarrow> message" where
  "set_m cls n v m = (case field_index cls n of None \<Rightarrow> m | Some i \<Rightarrow> m[i := Single v])"

definition get_m :: "msg_class \<Rightarrow> string \<Rightarrow> message \<Rightarrow> elem" where
  "get_m cls n m =
     (case field_index cls n of
        None \<Rightarrow> B False
      | Some i \<Rightarrow> (if i < length m then (case m ! i of Single v \<Rightarrow> v | _ \<Rightarrow> B False) else B False))"

definition list_m :: "msg_class \<Rightarrow> string \<Rightarrow> message \<Rightarrow> elem list" where
  "list_m cls n m =
     (case field_index cls n of
        None \<Rightarrow> []
      | Some i \<Rightarrow> (if i < length m then (case m ! i of Repeated vs \<Rightarrow> vs | _ \<Rightarrow> []) else []))"

definition subs_m :: "msg_class \<Rightarrow> string \<Rightarrow> message \<Rightarrow> message list" where
  "subs_m cls n m =
     (case field_index cls n of
        None \<Rightarrow> []
      | Some i \<Rightarrow> (if i < length m then (case m ! i of SubRepeated ms \<Rightarrow> ms | _ \<Rightarrow> []) else []))"

definition add_m :: "msg_class \<Rightarrow> string \<Rightarrow> elem \<Rightarrow> message \<Rightarrow> message" where
  "add_m cls n v m = (case field_index cls n of None \<Rightarrow> m | Some i \<Rightarrow> m[i := Repeated (list_m cls n m @ [v])])"

definition add_sub_m :: "msg_class \<Rightarrow> string \<Rightarrow> message \<Rightarrow> message \<Rightarrow> message" where
  "add_sub_m cls n v m = (case field_index cls n of None \<Rightarrow> m | Some i \<Rightarrow> m[i := SubRepeated (subs_m cls n m @ [v])])"

fun as_bool :: "elem \<Rightarrow> bool" where
  "as_bool (B b) = b"
| "as_bool _ = False"

fun as_w32 :: "elem \<Rightarrow> u32" where
  "as_w32 (W32 w) = w"
| "as_w32 _ = 0"

fun as_w64 :: "elem \<Rightarrow> u64" where
  "as_w64 (W64 w) = w"
| "as_w64 _ = 0"

text \<open>A \<^verbatim>\<open>std::string\<close> of the program is a character list, on the wire its bytes.\<close>

definition Str :: "string \<Rightarrow> elem" where
  "Str s = S (bytes_of_string s)"

fun as_str :: "elem \<Rightarrow> string" where
  "as_str (S s) = string_of_bytes s"
| "as_str _ = []"

text \<open>The block that a command writes for a member that is an \<^verbatim>\<open>std::optional\<close>: the flag and the value, when engaged.\<close>

definition set_opt :: "msg_class \<Rightarrow> string \<Rightarrow> ('a \<Rightarrow> elem) \<Rightarrow> 'a option \<Rightarrow> message \<Rightarrow> message" where
  "set_opt cls n wrap x m =
     (case x of None \<Rightarrow> m | Some v \<Rightarrow> set_m cls n (wrap v) (set_m cls (''has_'' @ n) (B True) m))"

definition get_opt :: "msg_class \<Rightarrow> string \<Rightarrow> (elem \<Rightarrow> 'a) \<Rightarrow> message \<Rightarrow> 'a option" where
  "get_opt cls n unwrap m =
     (if as_bool (get_m cls (''has_'' @ n) m) then Some (unwrap (get_m cls n m)) else None)"

section \<open>Classes\<close>

text \<open>A field of a class: singular, repeated (packed or, by option, not), a message, or a repeated message.\<close>

datatype field_kind = One field_type | Many field_type | Unpacked field_type | OneSub msg_class | Subs msg_class

fun mk_field :: "field_kind \<times> string \<times> int \<Rightarrow> class_field" where
  "mk_field (One t, n, k) = ClassField (new_proto_field\<lparr>f_name := n, f_type := t, f_number := k\<rparr>) []"
| "mk_field (Many t, n, k) = ClassField (new_proto_field\<lparr>f_name := n, f_type := t, f_number := k, f_repeated := True\<rparr>) []"
| "mk_field (Unpacked t, n, k) =
     ClassField (new_proto_field\<lparr>f_name := n, f_type := t, f_number := k, f_repeated := True,
       f_packed_explicit := True, f_packed_value := False\<rparr>) []"
| "mk_field (OneSub cls, n, k) =
     ClassField (new_proto_field\<lparr>f_name := n, f_type := FMessage, f_number := k\<rparr>) cls"
| "mk_field (Subs cls, n, k) =
     ClassField (new_proto_field\<lparr>f_name := n, f_type := FMessage, f_number := k, f_repeated := True\<rparr>) cls"

text \<open>The type of a singular, a repeated scalar and a repeated message field of a class, by its name.\<close>

definition single_type :: "msg_class \<Rightarrow> string \<Rightarrow> field_type option" where
  "single_type cls n =
     (case field_index cls n of
        None \<Rightarrow> None
      | Some i \<Rightarrow> (if f_repeated (cf_field (cls ! i)) \<or> category_of (cf_type (cls ! i)) = CMessage then None
                   else Some (cf_type (cls ! i))))"

definition list_type :: "msg_class \<Rightarrow> string \<Rightarrow> field_type option" where
  "list_type cls n =
     (case field_index cls n of
        None \<Rightarrow> None
      | Some i \<Rightarrow> (if \<not> f_repeated (cf_field (cls ! i)) \<or> category_of (cf_type (cls ! i)) = CMessage then None
                   else Some (cf_type (cls ! i))))"

definition subs_class :: "msg_class \<Rightarrow> string \<Rightarrow> msg_class option" where
  "subs_class cls n =
     (case field_index cls n of
        None \<Rightarrow> None
      | Some i \<Rightarrow> (if f_repeated (cf_field (cls ! i)) \<and> category_of (cf_type (cls ! i)) = CMessage
                   then Some (cf_class (cls ! i)) else None))"

text \<open>A value fits a singular field of a class.\<close>

definition single_ok :: "msg_class \<Rightarrow> string \<Rightarrow> elem \<Rightarrow> bool" where
  "single_ok cls n v = (case single_type cls n of None \<Rightarrow> False | Some t \<Rightarrow> elem_ok t v)"

text \<open>A message given by the values of some of its fields, the others at their defaults.\<close>

definition of_fields :: "msg_class \<Rightarrow> (string \<times> member) list \<Rightarrow> message" where
  "of_fields cls fs = map (\<lambda>c. case map_of fs (f_name (cf_field c)) of None \<Rightarrow> new_member c | Some v \<Rightarrow> v) cls"

definition fits_fields :: "msg_class \<Rightarrow> (string \<times> member) list \<Rightarrow> bool" where
  "fits_fields cls fs =
     list_all (\<lambda>c. case map_of fs (f_name (cf_field c)) of None \<Rightarrow> True | Some v \<Rightarrow> typed_field c v) cls"

section \<open>Laws\<close>

declare mk_field.simps [simp del]

lemma as_str_Str [simp]: "as_str (Str s) = s"
  by (simp add: Str_def)

lemma class_types:
  "single_type [] n = None" "list_type [] n = None" "subs_class [] n = None"
  "single_type (mk_field (One t, n', k) # cls) n =
     (if n' = n then (if category_of t = CMessage then None else Some t) else single_type cls n)"
  "list_type (mk_field (One t, n', k) # cls) n = (if n' = n then None else list_type cls n)"
  "subs_class (mk_field (One t, n', k) # cls) n = (if n' = n then None else subs_class cls n)"
  "single_type (mk_field (Many t, n', k) # cls) n = (if n' = n then None else single_type cls n)"
  "list_type (mk_field (Many t, n', k) # cls) n =
     (if n' = n then (if category_of t = CMessage then None else Some t) else list_type cls n)"
  "single_type (mk_field (Subs c, n', k) # cls) n = (if n' = n then None else single_type cls n)"
  "list_type (mk_field (Subs c, n', k) # cls) n = (if n' = n then None else list_type cls n)"
  "subs_class (mk_field (Subs c, n', k) # cls) n = (if n' = n then Some c else subs_class cls n)"
  "single_type (mk_field (OneSub c, n', k) # cls) n = (if n' = n then None else single_type cls n)"
  "list_type (mk_field (OneSub c, n', k) # cls) n = (if n' = n then None else list_type cls n)"
  "subs_class (mk_field (OneSub c, n', k) # cls) n = (if n' = n then None else subs_class cls n)"
  by (auto simp: mk_field.simps single_type_def list_type_def subs_class_def cf_type_def new_proto_field_def split: option.splits)

lemma mk_field_simps:
  "cf_no (mk_field (kd, n, k)) = of_int k"
  "f_name (cf_field (mk_field (kd, n, k))) = n"
  "wf_field (mk_field (One t, n, k))" "wf_field (mk_field (Many t, n, k))"
  "wf_field (mk_field (Unpacked t, n, k))" "wf_field (mk_field (OneSub cls, n, k)) = wf_class cls"
  "wf_field (mk_field (Subs cls, n, k)) = wf_class cls"
  "cf_type (mk_field (One t, n, k)) = t" "cf_type (mk_field (Many t, n, k)) = t"
  "cf_type (mk_field (Subs cls, n, k)) = FMessage" "cf_type (mk_field (OneSub cls, n, k)) = FMessage"
  "cf_type (mk_field (Unpacked t, n, k)) = t" "f_repeated (cf_field (mk_field (Unpacked t, n, k)))"
  "\<not> f_repeated (cf_field (mk_field (OneSub cls, n, k)))" "cf_class (mk_field (OneSub cls, n, k)) = cls"
  "\<not> f_repeated (cf_field (mk_field (One t, n, k)))" "f_repeated (cf_field (mk_field (Many t, n, k)))"
  "f_repeated (cf_field (mk_field (Subs cls, n, k)))" "cf_class (mk_field (Subs cls, n, k)) = cls"
  by (cases kd; auto simp: mk_field.simps cf_no_def cf_type_def new_proto_field_def wf_class_def)+

lemma field_index_Some: "field_index cls n = Some i \<Longrightarrow> i < length cls \<and> f_name (cf_field (cls ! i)) = n"
  by (induction cls arbitrary: i) (auto split: if_splits)

lemma field_index_inj: "field_index cls n = Some i \<Longrightarrow> field_index cls n' = Some i \<Longrightarrow> n = n'"
  using field_index_Some by metis

lemma typed_length: "typed cls m \<Longrightarrow> length m = length cls"
  by (induction cls arbitrary: m) (case_tac m; simp)+

lemma typed_iff_nth: "typed cls m \<longleftrightarrow> length m = length cls \<and> (\<forall>i < length cls. typed_field (cls ! i) (m ! i))"
proof (induction cls arbitrary: m)
  case (Cons c cls)
  then show ?case by (cases m) (auto simp: less_Suc_eq_0_disj)
next
  case Nil
  then show ?case by (cases m) auto
qed

lemma nth_updated: "xs[i := v] ! j = (if j = i \<and> i < length xs then v else xs ! j)"
  by (cases "j = i"; cases "i < length xs") (simp_all add: list_update_beyond)

lemmas field_defs = set_m_def get_m_def list_m_def subs_m_def add_m_def add_sub_m_def single_type_def list_type_def subs_class_def

lemma typed_new: "typed cls (new_message cls)"
  using typed_new_message(1) [of "ClassField f cls" for f] by simp

lemma typed_set [intro]:
  assumes "typed cls m" "single_type cls n = Some t" "elem_ok t v"
  shows "typed cls (set_m cls n v m)"
  using assms by (auto simp: field_defs typed_iff_nth nth_updated split: option.splits if_splits)

lemma typed_add [intro]:
  assumes "typed cls m" "list_type cls n = Some t" "elem_ok t v"
  shows "typed cls (add_m cls n v m)"
proof -
  obtain i where i: "field_index cls n = Some i" "i < length cls" using assms(2) field_index_Some
    by (fastforce simp: list_type_def split: option.splits)
  then have "typed_field (cls ! i) (m ! i)" using assms(1) by (simp add: typed_iff_nth)
  then show ?thesis
    using assms i by (cases "m ! i") (auto simp: field_defs typed_iff_nth nth_updated split: if_splits)
qed

lemma typed_add_sub [intro]:
  assumes "typed cls m" "subs_class cls n = Some cls'" "typed cls' v"
  shows "typed cls (add_sub_m cls n v m)"
proof -
  obtain i where i: "field_index cls n = Some i" "i < length cls" using assms(2) field_index_Some
    by (fastforce simp: subs_class_def split: option.splits)
  then have "typed_field (cls ! i) (m ! i)" using assms(1) by (simp add: typed_iff_nth)
  moreover have "typed_subs c ms \<Longrightarrow> typed (cf_class c) v \<Longrightarrow> typed_subs c (ms @ [v])" for c ms
    by (induction ms) simp_all
  ultimately show ?thesis
    using assms i by (cases "m ! i") (auto simp: field_defs typed_iff_nth nth_updated split: if_splits)
qed

text \<open>Reading after writing: an accessor only sees the field of its own name.\<close>

lemma length_fields [simp]:
  "length (set_m cls n v m) = length m" "length (add_m cls n v m) = length m" "length (add_sub_m cls n s m) = length m"
  "length (set_opt cls n w x m) = length m" "length (new_message cls) = length cls"
  by (simp_all add: field_defs set_opt_def new_message_def split: option.splits)

lemma get_set_same [simp]:
  "length m = length cls \<Longrightarrow> single_type cls n \<noteq> None \<Longrightarrow> get_m cls n (set_m cls n v m) = v"
  using field_index_Some [of cls n] by (auto simp: field_defs nth_updated split: option.splits if_splits)

lemma list_add_same [simp]:
  "length m = length cls \<Longrightarrow> list_type cls n \<noteq> None \<Longrightarrow> list_m cls n (add_m cls n v m) = list_m cls n m @ [v]"
  using field_index_Some [of cls n] by (auto simp: field_defs nth_updated split: option.splits if_splits)

lemma subs_add_same [simp]:
  "length m = length cls \<Longrightarrow> subs_class cls n \<noteq> None \<Longrightarrow> subs_m cls n (add_sub_m cls n v m) = subs_m cls n m @ [v]"
  using field_index_Some [of cls n] by (auto simp: field_defs nth_updated split: option.splits if_splits)

lemma read_other [simp]:
  assumes "n \<noteq> n'"
  shows "get_m cls n (set_m cls n' v m) = get_m cls n m" "get_m cls n (add_m cls n' v m) = get_m cls n m"
    "get_m cls n (add_sub_m cls n' s m) = get_m cls n m"
    "list_m cls n (set_m cls n' v m) = list_m cls n m" "list_m cls n (add_m cls n' v m) = list_m cls n m"
    "list_m cls n (add_sub_m cls n' s m) = list_m cls n m"
    "subs_m cls n (set_m cls n' v m) = subs_m cls n m" "subs_m cls n (add_m cls n' v m) = subs_m cls n m"
    "subs_m cls n (add_sub_m cls n' s m) = subs_m cls n m"
  using assms field_index_inj [of cls n _ n'] by (auto simp: field_defs nth_updated split: option.splits)

lemma get_set_opt_other [simp]:
  "n \<noteq> n' \<Longrightarrow> n \<noteq> ''has_'' @ n' \<Longrightarrow> get_m cls n (set_opt cls n' w x m) = get_m cls n m"
  by (simp add: set_opt_def split: option.splits)

lemma get_opt_other [simp]:
  "n \<noteq> n' \<Longrightarrow> ''has_'' @ n \<noteq> n' \<Longrightarrow> get_opt cls n u (set_m cls n' v m) = get_opt cls n u m"
  by (simp add: get_opt_def)

lemma get_opt_set_opt_other [simp]:
  "n \<noteq> n' \<Longrightarrow> ''has_'' @ n \<noteq> n' \<Longrightarrow> n \<noteq> ''has_'' @ n' \<Longrightarrow> get_opt cls n u (set_opt cls n' w x m) = get_opt cls n u m"
  by (simp add: get_opt_def)

lemma get_opt_set_opt_same [simp]:
  "length m = length cls \<Longrightarrow> single_type cls n \<noteq> None \<Longrightarrow> single_type cls (''has_'' @ n) \<noteq> None \<Longrightarrow> get_opt cls n u m = None \<Longrightarrow>
   get_opt cls n u (set_opt cls n w x m) = map_option (\<lambda>v. u (w v)) x"
  by (cases x) (simp_all add: set_opt_def, simp add: get_opt_def)

lemma typed_set_opt [intro]:
  assumes "typed cls m" "single_type cls n = Some t" "single_type cls (''has_'' @ n) = Some FBool" "\<And>v. x = Some v \<Longrightarrow> elem_ok t (w v)"
  shows "typed cls (set_opt cls n w x m)"
  using assms by (cases x) (auto simp: set_opt_def elem_ok_def intro!: typed_set)

lemma new_member_cf: "new_member c =
  (if f_repeated (cf_field c)
   then (if category_of (cf_type c) = CMessage then SubRepeated [] else Repeated [])
   else (if category_of (cf_type c) = CMessage then Sub False (map new_member (cf_class c)) else Single (zero_elem (cf_type c))))"
  by (cases c) (simp add: cf_type_def)

lemma get_new [simp]: "single_type cls n = Some t \<Longrightarrow> get_m cls n (new_message cls) = zero_elem t"
  using field_index_Some [of cls n] by (auto simp: field_defs new_message_def new_member_cf split: option.splits if_splits)

lemma list_new [simp]: "list_type cls n = Some t \<Longrightarrow> list_m cls n (new_message cls) = []"
  using field_index_Some [of cls n] by (auto simp: field_defs new_message_def new_member_cf split: option.splits if_splits)

lemma subs_new [simp]: "subs_class cls n = Some t \<Longrightarrow> subs_m cls n (new_message cls) = []"
  using field_index_Some [of cls n] by (auto simp: field_defs new_message_def new_member_cf split: option.splits if_splits)

section \<open>Over the wire\<close>

text \<open>What a value is after the trip: a singular floating-point zero loses its sign.\<close>

definition wired :: "field_type \<Rightarrow> elem \<Rightarrow> elem" where
  "wired t v = (if nondefault_cond t v then v else zero_elem t)"

lemma normalise_nth: "length m = length cls \<Longrightarrow> i < length cls \<Longrightarrow> normalise cls m ! i = normalise_field (cls ! i) (m ! i)"
proof (induction cls arbitrary: m i)
  case (Cons c cls)
  then show ?case by (cases m; cases i) simp_all
qed simp

lemma normalise_length: "length m = length cls \<Longrightarrow> length (normalise cls m) = length cls"
proof (induction cls arbitrary: m)
  case (Cons c cls)
  then show ?case by (cases m) simp_all
qed simp

lemma get_wire:
  assumes "typed cls m" "single_type cls n = Some t"
  shows "get_m cls n (normalise cls m) = wired t (get_m cls n m)"
proof -
  obtain i where i: "field_index cls n = Some i" "i < length cls" "\<not> f_repeated (cf_field (cls ! i))"
    "category_of (cf_type (cls ! i)) \<noteq> CMessage" "t = cf_type (cls ! i)"
    using assms(2) field_index_Some by (fastforce simp: single_type_def split: option.splits if_splits)
  moreover have "typed_field (cls ! i) (m ! i)" "length m = length cls" using assms(1) i by (simp_all add: typed_iff_nth)
  ultimately show ?thesis
    by (cases "m ! i") (auto simp: get_m_def wired_def normalise_nth normalise_length)
qed

lemma list_wire:
  assumes "typed cls m" "list_type cls n = Some t"
  shows "list_m cls n (normalise cls m) = list_m cls n m"
proof -
  obtain i where i: "field_index cls n = Some i" "i < length cls" "f_repeated (cf_field (cls ! i))"
    "category_of (cf_type (cls ! i)) \<noteq> CMessage"
    using assms(2) field_index_Some by (fastforce simp: list_type_def split: option.splits if_splits)
  moreover have "typed_field (cls ! i) (m ! i)" "length m = length cls" using assms(1) i by (simp_all add: typed_iff_nth)
  ultimately show ?thesis
    by (cases "m ! i") (auto simp: list_m_def normalise_nth normalise_length)
qed

lemma subs_wire:
  assumes "typed cls m" "subs_class cls n = Some cls'"
  shows "subs_m cls n (normalise cls m) = map (normalise cls') (subs_m cls n m)"
proof -
  obtain i where i: "field_index cls n = Some i" "i < length cls" "f_repeated (cf_field (cls ! i))"
    "category_of (cf_type (cls ! i)) = CMessage" "cls' = cf_class (cls ! i)"
    using assms(2) field_index_Some by (fastforce simp: subs_class_def split: option.splits if_splits)
  moreover have "typed_field (cls ! i) (m ! i)" "length m = length cls" using assms(1) i by (simp_all add: typed_iff_nth)
  moreover have "normalise_subs c ms = map (normalise (cf_class c)) ms" for c ms by (induction ms) simp_all
  ultimately show ?thesis
    by (cases "m ! i") (auto simp: subs_m_def normalise_nth normalise_length)
qed

lemma get_opt_new [simp]: "single_type cls (''has_'' @ n) = Some FBool \<Longrightarrow> get_opt cls n u (new_message cls) = None"
  by (simp add: get_opt_def)

lemma get_opt_wire:
  assumes "typed cls m" "single_type cls n = Some t" "single_type cls (''has_'' @ n) = Some FBool"
  shows "get_opt cls n u (normalise cls m) = get_opt cls n (\<lambda>v. u (wired t v)) m"
proof -
  have "as_bool (wired FBool v) = as_bool v" for v by (cases v) (simp_all add: wired_def)
  then show ?thesis unfolding get_opt_def get_wire [OF assms(1,2)] get_wire [OF assms(1,3)] by simp
qed

definition unsigned_zero :: "u32 \<Rightarrow> u32" where
  "unsigned_zero f = (if f AND 0x7FFFFFFF \<noteq> 0 then f else 0)"

lemma wired_simps [simp]:
  "wired FFloat (W32 f) = W32 (unsigned_zero f)"
  "wired FBool (B b) = B b" "wired FString (S s) = S s" "wired FBytes (S s) = S s"
  "wired FUint32 (W32 w) = W32 w" "wired FInt32 (W32 w) = W32 w" "wired FSint32 (W32 w) = W32 w"
  "wired FEnum (W32 w) = W32 w" "wired FFixed32 (W32 w) = W32 w" "wired FSfixed32 (W32 w) = W32 w"
  "wired FUint64 (W64 x) = W64 x"
  by (simp_all add: wired_def unsigned_zero_def)

lemma elem_ok_simps [simp]:
  "elem_ok FFloat (W32 f)" "elem_ok FBool (B b)" "elem_ok FString (S s)" "elem_ok FBytes (S s)"
  "elem_ok FUint32 (W32 w)" "elem_ok FInt32 (W32 w)" "elem_ok FSint32 (W32 w)" "elem_ok FEnum (W32 w)"
  "elem_ok FFixed32 (W32 w)" "elem_ok FSfixed32 (W32 w)" "elem_ok FUint64 (W64 x)"
  by (simp_all add: elem_ok_def)

lemma wired_Str [simp]: "wired FString (Str s) = Str s" "elem_ok FString (Str s)"
  by (simp_all add: Str_def)

lemma typed_of_fields: "fits_fields cls fs \<Longrightarrow> typed cls (of_fields cls fs)"
  using typed_new_message(1) [of "ClassField f cls" for f]
  by (auto simp: typed_iff_nth of_fields_def fits_fields_def list_all_iff new_message_def split: option.splits)

lemma map_of_index:
  assumes "field_index cls n = Some i"
  shows "of_fields cls fs ! i = (case map_of fs n of None \<Rightarrow> new_member (cls ! i) | Some v \<Rightarrow> v)"
  using field_index_Some [OF assms] by (simp add: of_fields_def)

lemma get_fields_wire [simp]:
  assumes "single_type cls n = Some t" "fits_fields cls fs" "map_of fs n = Some (Single v)"
  shows "get_m cls n (normalise cls (of_fields cls fs)) = wired t v"
proof -
  obtain i where i: "field_index cls n = Some i" using assms(1) by (auto simp: single_type_def split: option.splits)
  then have "get_m cls n (of_fields cls fs) = v"
    using field_index_Some [OF i] map_of_index [OF i, of fs] assms(3) by (simp add: get_m_def of_fields_def)
  then show ?thesis using get_wire [OF typed_of_fields [OF assms(2)] assms(1)] by simp
qed

lemma list_fields_wire [simp]:
  assumes "list_type cls n = Some t" "fits_fields cls fs" "map_of fs n = Some (Repeated vs)"
  shows "list_m cls n (normalise cls (of_fields cls fs)) = vs"
proof -
  obtain i where i: "field_index cls n = Some i" using assms(1) by (auto simp: list_type_def split: option.splits)
  then have "list_m cls n (of_fields cls fs) = vs"
    using field_index_Some [OF i] map_of_index [OF i, of fs] assms(3) by (simp add: list_m_def of_fields_def)
  then show ?thesis using list_wire [OF typed_of_fields [OF assms(2)] assms(1)] by simp
qed

lemma subs_fields_wire [simp]:
  assumes "subs_class cls n = Some cls'" "fits_fields cls fs" "map_of fs n = Some (SubRepeated ms)"
  shows "subs_m cls n (normalise cls (of_fields cls fs)) = map (normalise cls') ms"
proof -
  obtain i where i: "field_index cls n = Some i" using assms(1) by (auto simp: subs_class_def split: option.splits)
  then have "subs_m cls n (of_fields cls fs) = ms"
    using field_index_Some [OF i] map_of_index [OF i, of fs] assms(3) by (simp add: subs_m_def of_fields_def)
  then show ?thesis using subs_wire [OF typed_of_fields [OF assms(2)] assms(1)] by simp
qed

text \<open>Typing of written messages, as rewrite rules.\<close>

lemma typed_set_simp: "typed cls m \<Longrightarrow> single_ok cls n v \<Longrightarrow> typed cls (set_m cls n v m)"
  by (auto simp: single_ok_def split: option.splits)

lemma typed_set_opt_simp:
  "typed cls m \<Longrightarrow> single_ok cls (''has_'' @ n) (B True) \<Longrightarrow> (\<And>v. single_ok cls n (w v)) \<Longrightarrow> typed cls (set_opt cls n w x m)"
  by (simp add: set_opt_def typed_set_simp split: option.splits)

lemmas typed_writes = typed_new typed_set_simp typed_set_opt_simp single_ok_def

text \<open>What the receiver of a serialised message holds.\<close>

definition transported :: "msg_class \<Rightarrow> message \<Rightarrow> message option" where
  "transported cls m = ParseFromArray cls (SerializeAsString cls m) (int (ByteSizeLong cls m)) (new_message cls)"

lemma transported_normalise:
  assumes "wf_class cls" "typed cls m" "ByteSizeLong cls m < 2 ^ 31"
  shows "transported cls m = Some (normalise cls m)"
proof -
  have "decodes cls m" using encode_decodes_all(1) [OF assms(2)] calculate_size_exact_all(1) [OF assms(2)] assms by (simp add: ByteSizeLong_def)
  then show ?thesis
    using decodes_self [OF _ assms(1,2)] calculate_size_exact_all(1) [OF assms(2)]
    by (simp add: transported_def ParseFromArray_def SerializeAsString_def ByteSizeLong_def)
qed

section \<open>A bound on sizes\<close>

fun elem_bound :: "elem \<Rightarrow> nat" where
  "elem_bound (S s) = 20 + length s"
| "elem_bound _ = 20"

fun member_bound :: "member \<Rightarrow> nat" where
  "member_bound (Single v) = elem_bound v"
| "member_bound (Repeated vs) = 20 + sum_list (map elem_bound vs)"
| "member_bound (Sub _ ms) = 20 + sum_list (map member_bound ms)"
| "member_bound (SubRepeated mss) = sum_list (map (\<lambda>ms. 20 + sum_list (map member_bound ms)) mss)"

lemma varint_size64_bound: "varint_size64 v \<le> 10"
  using length_leb128_u64 [of v] by (simp add: varint_size64_eq)

lemma tag_size_bound: "tag_size n \<le> 10"
  by (simp add: tag_size_def varint_size64_bound)

lemma element_bound: "tag_size n + value_size t v \<le> elem_bound v"
proof -
  have v: "varint_size64 w \<le> 10" for w by (rule varint_size64_bound)
  have "value_size t v + 10 \<le> elem_bound v"
    using v [of "varint_encode_expr t v"] v [of "of_nat k" for k]
    by (cases v; cases "category_of t") (auto simp: value_size_def intro: trans_le_add2 trans_le_add1)
  then show ?thesis using tag_size_bound [of n] by linarith
qed

lemma packed_size_bound: "packed_size t vs \<le> sum_list (map elem_bound vs)"
proof -
  have e: "20 \<le> elem_bound v" for v by (cases v) simp_all
  have "length vs * k \<le> sum_list (map elem_bound vs)" if "k \<le> 20" for k
    using that by (induction vs) (auto intro: add_mono order_trans [OF _ e])
  moreover have "sum_list (map (value_size t) vs) \<le> sum_list (map elem_bound vs)"
    using element_bound [of 0 t] by (intro sum_list_mono) (metis add_leE)
  ultimately show ?thesis by (simp add: packed_size_def split: category.splits)
qed

lemma size_bound:
  "calculate_size cs ms \<le> sum_list (map member_bound ms)"
  "size_field c m \<le> member_bound m"
  "size_subs c mss \<le> sum_list (map (\<lambda>ms. 20 + sum_list (map member_bound ms)) mss)"
proof (induction cs ms and c m and c mss rule: calculate_size_size_field_size_subs.induct)
  case (3 c v)
  then show ?case using element_bound by (simp add: size_single_def)
next
  case (4 c vs)
  have "sum_list (map (\<lambda>v. tag_size (cf_no c) + value_size (cf_type c) v) vs) \<le> sum_list (map elem_bound vs)"
    by (intro sum_list_mono element_bound)
  then show ?case
    using packed_size_bound [of "cf_type c" vs] tag_size_bound [of "cf_no c"] varint_size64_bound [of "of_nat (packed_size (cf_type c) vs)"]
    by (simp add: size_repeated_def Let_def)
next
  case (5 c present ms)
  then show ?case
    using tag_size_bound [of "cf_no c"] varint_size64_bound [of "of_nat (calculate_size (cf_class c) ms)"]
    by (cases present) (simp_all add: Let_def)
next
  case (8 c ms mss)
  then show ?case
    using tag_size_bound [of "cf_no c"] varint_size64_bound [of "of_nat (calculate_size (cf_class c) ms)"] by (simp add: Let_def)
qed simp_all

section \<open>Structs in messages\<close>

text \<open>
  The contract of a struct that travels in a message: the message that is built from it is typed by its class,
  and the reader gets the struct back, up to what the wire keeps of a zero.
\<close>

locale wire_message =
  fixes class_of :: "'r \<Rightarrow> msg_class"
    and build :: "'r \<Rightarrow> message"
    and read :: "'r \<Rightarrow> message \<Rightarrow> 's"
    and settled :: "'r \<Rightarrow> 's"
  assumes class_wf: "wf_class (class_of r)"
    and built_typed: "typed (class_of r) (build r)"
    and read_built: "read r (normalise (class_of r) (build r)) = settled r"
begin

lemma delivered:
  assumes "ByteSizeLong (class_of r) (build r) < 2 ^ 31"
  shows "map_option (read r) (transported (class_of r) (build r)) = Some (settled r)"
  using transported_normalise [OF class_wf built_typed assms] read_built by simp

end

end
