(* ===== verification/Api_Schema.thy ===== *)
theory Api_Schema
  imports Message_Fields
begin

text \<open>
  The messages of \<^verbatim>\<open>proto/api.proto\<close>: each class is the list of its fields in the order of their numbers, as the
  emitted code encodes them, and \<open>api_schema\<close> is the table behind the emitted registry (\<^verbatim>\<open>create_message\<close>,
  \<^verbatim>\<open>registry_contains\<close>): identifier, name, base class and fields of every message with an \<^verbatim>\<open>id\<close>.
\<close>

section \<open>Classes\<close>

definition hello_request :: msg_class where
  "hello_request = map mk_field
    [(One FString, ''client_info'', 1), (One FUint32, ''api_version_major'', 2),
     (One FUint32, ''api_version_minor'', 3)]"

definition hello_response :: msg_class where
  "hello_response = map mk_field
    [(One FUint32, ''api_version_major'', 1), (One FUint32, ''api_version_minor'', 2),
     (One FString, ''server_info'', 3), (One FString, ''name'', 4)]"

definition authentication_request :: msg_class where
  "authentication_request = map mk_field
    [(One FString, ''password'', 1)]"

definition authentication_response :: msg_class where
  "authentication_response = map mk_field
    [(One FBool, ''invalid_password'', 1)]"

definition disconnect_request :: msg_class where
  "disconnect_request = []"

definition disconnect_response :: msg_class where
  "disconnect_response = []"

definition ping_request :: msg_class where
  "ping_request = []"

definition ping_response :: msg_class where
  "ping_response = []"

definition device_info_request :: msg_class where
  "device_info_request = []"

definition area_info_class :: msg_class where
  "area_info_class = map mk_field
    [(One FUint32, ''area_id'', 1), (One FString, ''name'', 2)]"

definition device_info_class :: msg_class where
  "device_info_class = map mk_field
    [(One FUint32, ''device_id'', 1), (One FString, ''name'', 2), (One FUint32, ''area_id'', 3)]"

definition serial_proxy_info_class :: msg_class where
  "serial_proxy_info_class = map mk_field
    [(One FString, ''name'', 1), (One FEnum, ''port_type'', 2)]"

definition device_info_response :: msg_class where
  "device_info_response = map mk_field
    [(One FBool, ''uses_password'', 1), (One FString, ''name'', 2), (One FString, ''mac_address'', 3),
     (One FString, ''esphome_version'', 4), (One FString, ''compilation_time'', 5), (One FString, ''model'', 6),
     (One FBool, ''has_deep_sleep'', 7), (One FString, ''project_name'', 8), (One FString, ''project_version'', 9),
     (One FUint32, ''webserver_port'', 10), (One FUint32, ''legacy_bluetooth_proxy_version'', 11),
     (One FString, ''manufacturer'', 12), (One FString, ''friendly_name'', 13),
     (One FUint32, ''legacy_voice_assistant_version'', 14), (One FUint32, ''bluetooth_proxy_feature_flags'', 15),
     (One FString, ''suggested_area'', 16), (One FUint32, ''voice_assistant_feature_flags'', 17),
     (One FString, ''bluetooth_mac_address'', 18), (One FBool, ''api_encryption_supported'', 19),
     (Subs device_info_class, ''devices'', 20), (Subs area_info_class, ''areas'', 21),
     (OneSub area_info_class, ''area'', 22), (One FUint32, ''zwave_proxy_feature_flags'', 23),
     (One FUint32, ''zwave_home_id'', 24), (Subs serial_proxy_info_class, ''serial_proxies'', 25)]"

definition list_entities_request :: msg_class where
  "list_entities_request = []"

definition list_entities_done_response :: msg_class where
  "list_entities_done_response = []"

definition subscribe_states_request :: msg_class where
  "subscribe_states_request = []"

definition list_entities_binary_sensor_response :: msg_class where
  "list_entities_binary_sensor_response = map mk_field
    [(One FString, ''object_id'', 1), (One FFixed32, ''key'', 2), (One FString, ''name'', 3),
     (One FString, ''device_class'', 5), (One FBool, ''is_status_binary_sensor'', 6),
     (One FBool, ''disabled_by_default'', 7), (One FString, ''icon'', 8), (One FEnum, ''entity_category'', 9),
     (One FUint32, ''device_id'', 10)]"

definition binary_sensor_state_response :: msg_class where
  "binary_sensor_state_response = map mk_field
    [(One FFixed32, ''key'', 1), (One FBool, ''state'', 2), (One FBool, ''missing_state'', 3),
     (One FUint32, ''device_id'', 4)]"

definition list_entities_cover_response :: msg_class where
  "list_entities_cover_response = map mk_field
    [(One FString, ''object_id'', 1), (One FFixed32, ''key'', 2), (One FString, ''name'', 3),
     (One FBool, ''assumed_state'', 5), (One FBool, ''supports_position'', 6), (One FBool, ''supports_tilt'', 7),
     (One FString, ''device_class'', 8), (One FBool, ''disabled_by_default'', 9), (One FString, ''icon'', 10),
     (One FEnum, ''entity_category'', 11), (One FBool, ''supports_stop'', 12), (One FUint32, ''device_id'', 13)]"

definition cover_state_response :: msg_class where
  "cover_state_response = map mk_field
    [(One FFixed32, ''key'', 1), (One FEnum, ''legacy_state'', 2), (One FFloat, ''position'', 3),
     (One FFloat, ''tilt'', 4), (One FEnum, ''current_operation'', 5), (One FUint32, ''device_id'', 6)]"

definition cover_command_request :: msg_class where
  "cover_command_request = map mk_field
    [(One FFixed32, ''key'', 1), (One FBool, ''has_legacy_command'', 2), (One FEnum, ''legacy_command'', 3),
     (One FBool, ''has_position'', 4), (One FFloat, ''position'', 5), (One FBool, ''has_tilt'', 6),
     (One FFloat, ''tilt'', 7), (One FBool, ''stop'', 8), (One FUint32, ''device_id'', 9)]"

definition list_entities_fan_response :: msg_class where
  "list_entities_fan_response = map mk_field
    [(One FString, ''object_id'', 1), (One FFixed32, ''key'', 2), (One FString, ''name'', 3),
     (One FBool, ''supports_oscillation'', 5), (One FBool, ''supports_speed'', 6),
     (One FBool, ''supports_direction'', 7), (One FInt32, ''supported_speed_count'', 8),
     (One FBool, ''disabled_by_default'', 9), (One FString, ''icon'', 10), (One FEnum, ''entity_category'', 11),
     (Many FString, ''supported_preset_modes'', 12), (One FUint32, ''device_id'', 13)]"

definition fan_state_response :: msg_class where
  "fan_state_response = map mk_field
    [(One FFixed32, ''key'', 1), (One FBool, ''state'', 2), (One FBool, ''oscillating'', 3),
     (One FEnum, ''speed'', 4), (One FEnum, ''direction'', 5), (One FInt32, ''speed_level'', 6),
     (One FString, ''preset_mode'', 7), (One FUint32, ''device_id'', 8)]"

definition fan_command_request :: msg_class where
  "fan_command_request = map mk_field
    [(One FFixed32, ''key'', 1), (One FBool, ''has_state'', 2), (One FBool, ''state'', 3),
     (One FBool, ''has_speed'', 4), (One FEnum, ''speed'', 5), (One FBool, ''has_oscillating'', 6),
     (One FBool, ''oscillating'', 7), (One FBool, ''has_direction'', 8), (One FEnum, ''direction'', 9),
     (One FBool, ''has_speed_level'', 10), (One FInt32, ''speed_level'', 11), (One FBool, ''has_preset_mode'', 12),
     (One FString, ''preset_mode'', 13), (One FUint32, ''device_id'', 14)]"

definition list_entities_light_response :: msg_class where
  "list_entities_light_response = map mk_field
    [(One FString, ''object_id'', 1), (One FFixed32, ''key'', 2), (One FString, ''name'', 3),
     (One FBool, ''legacy_supports_brightness'', 5), (One FBool, ''legacy_supports_rgb'', 6),
     (One FBool, ''legacy_supports_white_value'', 7), (One FBool, ''legacy_supports_color_temperature'', 8),
     (One FFloat, ''min_mireds'', 9), (One FFloat, ''max_mireds'', 10), (Many FString, ''effects'', 11),
     (Many FEnum, ''supported_color_modes'', 12), (One FBool, ''disabled_by_default'', 13),
     (One FString, ''icon'', 14), (One FEnum, ''entity_category'', 15), (One FUint32, ''device_id'', 16)]"

definition light_state_response :: msg_class where
  "light_state_response = map mk_field
    [(One FFixed32, ''key'', 1), (One FBool, ''state'', 2), (One FFloat, ''brightness'', 3),
     (One FFloat, ''red'', 4), (One FFloat, ''green'', 5), (One FFloat, ''blue'', 6), (One FFloat, ''white'', 7),
     (One FFloat, ''color_temperature'', 8), (One FString, ''effect'', 9), (One FFloat, ''color_brightness'', 10),
     (One FEnum, ''color_mode'', 11), (One FFloat, ''cold_white'', 12), (One FFloat, ''warm_white'', 13),
     (One FUint32, ''device_id'', 14)]"

definition light_command_request :: msg_class where
  "light_command_request = map mk_field
    [(One FFixed32, ''key'', 1), (One FBool, ''has_state'', 2), (One FBool, ''state'', 3),
     (One FBool, ''has_brightness'', 4), (One FFloat, ''brightness'', 5), (One FBool, ''has_rgb'', 6),
     (One FFloat, ''red'', 7), (One FFloat, ''green'', 8), (One FFloat, ''blue'', 9), (One FBool, ''has_white'', 10),
     (One FFloat, ''white'', 11), (One FBool, ''has_color_temperature'', 12),
     (One FFloat, ''color_temperature'', 13), (One FBool, ''has_transition_length'', 14),
     (One FUint32, ''transition_length'', 15), (One FBool, ''has_flash_length'', 16),
     (One FUint32, ''flash_length'', 17), (One FBool, ''has_effect'', 18), (One FString, ''effect'', 19),
     (One FBool, ''has_color_brightness'', 20), (One FFloat, ''color_brightness'', 21),
     (One FBool, ''has_color_mode'', 22), (One FEnum, ''color_mode'', 23), (One FBool, ''has_cold_white'', 24),
     (One FFloat, ''cold_white'', 25), (One FBool, ''has_warm_white'', 26), (One FFloat, ''warm_white'', 27),
     (One FUint32, ''device_id'', 28)]"

definition list_entities_sensor_response :: msg_class where
  "list_entities_sensor_response = map mk_field
    [(One FString, ''object_id'', 1), (One FFixed32, ''key'', 2), (One FString, ''name'', 3),
     (One FString, ''icon'', 5), (One FString, ''unit_of_measurement'', 6), (One FInt32, ''accuracy_decimals'', 7),
     (One FBool, ''force_update'', 8), (One FString, ''device_class'', 9), (One FEnum, ''state_class'', 10),
     (One FEnum, ''legacy_last_reset_type'', 11), (One FBool, ''disabled_by_default'', 12),
     (One FEnum, ''entity_category'', 13), (One FUint32, ''device_id'', 14)]"

definition sensor_state_response :: msg_class where
  "sensor_state_response = map mk_field
    [(One FFixed32, ''key'', 1), (One FFloat, ''state'', 2), (One FBool, ''missing_state'', 3),
     (One FUint32, ''device_id'', 4)]"

definition list_entities_switch_response :: msg_class where
  "list_entities_switch_response = map mk_field
    [(One FString, ''object_id'', 1), (One FFixed32, ''key'', 2), (One FString, ''name'', 3),
     (One FString, ''icon'', 5), (One FBool, ''assumed_state'', 6), (One FBool, ''disabled_by_default'', 7),
     (One FEnum, ''entity_category'', 8), (One FString, ''device_class'', 9), (One FUint32, ''device_id'', 10)]"

definition switch_state_response :: msg_class where
  "switch_state_response = map mk_field
    [(One FFixed32, ''key'', 1), (One FBool, ''state'', 2), (One FUint32, ''device_id'', 3)]"

definition switch_command_request :: msg_class where
  "switch_command_request = map mk_field
    [(One FFixed32, ''key'', 1), (One FBool, ''state'', 2), (One FUint32, ''device_id'', 3)]"

definition list_entities_text_sensor_response :: msg_class where
  "list_entities_text_sensor_response = map mk_field
    [(One FString, ''object_id'', 1), (One FFixed32, ''key'', 2), (One FString, ''name'', 3),
     (One FString, ''icon'', 5), (One FBool, ''disabled_by_default'', 6), (One FEnum, ''entity_category'', 7),
     (One FString, ''device_class'', 8), (One FUint32, ''device_id'', 9)]"

definition text_sensor_state_response :: msg_class where
  "text_sensor_state_response = map mk_field
    [(One FFixed32, ''key'', 1), (One FString, ''state'', 2), (One FBool, ''missing_state'', 3),
     (One FUint32, ''device_id'', 4)]"

definition subscribe_logs_request :: msg_class where
  "subscribe_logs_request = map mk_field
    [(One FEnum, ''level'', 1), (One FBool, ''dump_config'', 2)]"

definition subscribe_logs_response :: msg_class where
  "subscribe_logs_response = map mk_field
    [(One FEnum, ''level'', 1), (One FBytes, ''message'', 3)]"

definition noise_encryption_set_key_request :: msg_class where
  "noise_encryption_set_key_request = map mk_field
    [(One FBytes, ''key'', 1)]"

definition noise_encryption_set_key_response :: msg_class where
  "noise_encryption_set_key_response = map mk_field
    [(One FBool, ''success'', 1)]"

definition subscribe_homeassistant_services_request :: msg_class where
  "subscribe_homeassistant_services_request = []"

definition homeassistant_service_map_class :: msg_class where
  "homeassistant_service_map_class = map mk_field
    [(One FString, ''key'', 1), (One FString, ''value'', 2)]"

definition homeassistant_action_request :: msg_class where
  "homeassistant_action_request = map mk_field
    [(One FString, ''service'', 1), (Subs homeassistant_service_map_class, ''data'', 2),
     (Subs homeassistant_service_map_class, ''data_template'', 3),
     (Subs homeassistant_service_map_class, ''variables'', 4), (One FBool, ''is_event'', 5),
     (One FUint32, ''call_id'', 6), (One FBool, ''wants_response'', 7), (One FString, ''response_template'', 8)]"

definition homeassistant_action_response :: msg_class where
  "homeassistant_action_response = map mk_field
    [(One FUint32, ''call_id'', 1), (One FBool, ''success'', 2), (One FString, ''error_message'', 3),
     (One FBytes, ''response_data'', 4)]"

definition subscribe_home_assistant_states_request :: msg_class where
  "subscribe_home_assistant_states_request = []"

definition subscribe_home_assistant_state_response :: msg_class where
  "subscribe_home_assistant_state_response = map mk_field
    [(One FString, ''entity_id'', 1), (One FString, ''attribute'', 2), (One FBool, ''once'', 3)]"

definition home_assistant_state_response :: msg_class where
  "home_assistant_state_response = map mk_field
    [(One FString, ''entity_id'', 1), (One FString, ''state'', 2), (One FString, ''attribute'', 3)]"

definition get_time_request :: msg_class where
  "get_time_request = []"

definition dst_rule_class :: msg_class where
  "dst_rule_class = map mk_field
    [(One FSint32, ''time_seconds'', 1), (One FUint32, ''day'', 2), (One FEnum, ''type'', 3),
     (One FUint32, ''month'', 4), (One FUint32, ''week'', 5), (One FUint32, ''day_of_week'', 6)]"

definition parsed_timezone_class :: msg_class where
  "parsed_timezone_class = map mk_field
    [(One FSint32, ''std_offset_seconds'', 1), (One FSint32, ''dst_offset_seconds'', 2),
     (OneSub dst_rule_class, ''dst_start'', 3), (OneSub dst_rule_class, ''dst_end'', 4)]"

definition get_time_response :: msg_class where
  "get_time_response = map mk_field
    [(One FFixed32, ''epoch_seconds'', 1), (One FString, ''timezone'', 2),
     (OneSub parsed_timezone_class, ''parsed_timezone'', 3)]"

definition list_entities_services_argument_class :: msg_class where
  "list_entities_services_argument_class = map mk_field
    [(One FString, ''name'', 1), (One FEnum, ''type'', 2)]"

definition list_entities_services_response :: msg_class where
  "list_entities_services_response = map mk_field
    [(One FString, ''name'', 1), (One FFixed32, ''key'', 2),
     (Subs list_entities_services_argument_class, ''args'', 3), (One FEnum, ''supports_response'', 4)]"

definition execute_service_argument_class :: msg_class where
  "execute_service_argument_class = map mk_field
    [(One FBool, ''bool_'', 1), (One FInt32, ''legacy_int'', 2), (One FFloat, ''float_'', 3),
     (One FString, ''string_'', 4), (One FSint32, ''int_'', 5), (Unpacked FBool, ''bool_array'', 6),
     (Unpacked FSint32, ''int_array'', 7), (Unpacked FFloat, ''float_array'', 8), (Many FString, ''string_array'', 9)]"

definition execute_service_request :: msg_class where
  "execute_service_request = map mk_field
    [(One FFixed32, ''key'', 1), (Subs execute_service_argument_class, ''args'', 2), (One FUint32, ''call_id'', 3),
     (One FBool, ''return_response'', 4)]"

definition execute_service_response :: msg_class where
  "execute_service_response = map mk_field
    [(One FUint32, ''call_id'', 1), (One FBool, ''success'', 2), (One FString, ''error_message'', 3),
     (One FBytes, ''response_data'', 4)]"

definition list_entities_camera_response :: msg_class where
  "list_entities_camera_response = map mk_field
    [(One FString, ''object_id'', 1), (One FFixed32, ''key'', 2), (One FString, ''name'', 3),
     (One FBool, ''disabled_by_default'', 5), (One FString, ''icon'', 6), (One FEnum, ''entity_category'', 7),
     (One FUint32, ''device_id'', 8)]"

definition camera_image_response :: msg_class where
  "camera_image_response = map mk_field
    [(One FFixed32, ''key'', 1), (One FBytes, ''data'', 2), (One FBool, ''done'', 3), (One FUint32, ''device_id'', 4)]"

definition camera_image_request :: msg_class where
  "camera_image_request = map mk_field
    [(One FBool, ''single'', 1), (One FBool, ''stream'', 2)]"

definition list_entities_climate_response :: msg_class where
  "list_entities_climate_response = map mk_field
    [(One FString, ''object_id'', 1), (One FFixed32, ''key'', 2), (One FString, ''name'', 3),
     (One FBool, ''supports_current_temperature'', 5), (One FBool, ''supports_two_point_target_temperature'', 6),
     (Many FEnum, ''supported_modes'', 7), (One FFloat, ''visual_min_temperature'', 8),
     (One FFloat, ''visual_max_temperature'', 9), (One FFloat, ''visual_target_temperature_step'', 10),
     (One FBool, ''legacy_supports_away'', 11), (One FBool, ''supports_action'', 12),
     (Many FEnum, ''supported_fan_modes'', 13), (Many FEnum, ''supported_swing_modes'', 14),
     (Many FString, ''supported_custom_fan_modes'', 15), (Many FEnum, ''supported_presets'', 16),
     (Many FString, ''supported_custom_presets'', 17), (One FBool, ''disabled_by_default'', 18),
     (One FString, ''icon'', 19), (One FEnum, ''entity_category'', 20),
     (One FFloat, ''visual_current_temperature_step'', 21), (One FBool, ''supports_current_humidity'', 22),
     (One FBool, ''supports_target_humidity'', 23), (One FFloat, ''visual_min_humidity'', 24),
     (One FFloat, ''visual_max_humidity'', 25), (One FUint32, ''device_id'', 26),
     (One FUint32, ''feature_flags'', 27), (One FEnum, ''temperature_unit'', 28)]"

definition climate_state_response :: msg_class where
  "climate_state_response = map mk_field
    [(One FFixed32, ''key'', 1), (One FEnum, ''mode'', 2), (One FFloat, ''current_temperature'', 3),
     (One FFloat, ''target_temperature'', 4), (One FFloat, ''target_temperature_low'', 5),
     (One FFloat, ''target_temperature_high'', 6), (One FBool, ''unused_legacy_away'', 7),
     (One FEnum, ''action'', 8), (One FEnum, ''fan_mode'', 9), (One FEnum, ''swing_mode'', 10),
     (One FString, ''custom_fan_mode'', 11), (One FEnum, ''preset'', 12), (One FString, ''custom_preset'', 13),
     (One FFloat, ''current_humidity'', 14), (One FFloat, ''target_humidity'', 15), (One FUint32, ''device_id'', 16)]"

definition climate_command_request :: msg_class where
  "climate_command_request = map mk_field
    [(One FFixed32, ''key'', 1), (One FBool, ''has_mode'', 2), (One FEnum, ''mode'', 3),
     (One FBool, ''has_target_temperature'', 4), (One FFloat, ''target_temperature'', 5),
     (One FBool, ''has_target_temperature_low'', 6), (One FFloat, ''target_temperature_low'', 7),
     (One FBool, ''has_target_temperature_high'', 8), (One FFloat, ''target_temperature_high'', 9),
     (One FBool, ''unused_has_legacy_away'', 10), (One FBool, ''unused_legacy_away'', 11),
     (One FBool, ''has_fan_mode'', 12), (One FEnum, ''fan_mode'', 13), (One FBool, ''has_swing_mode'', 14),
     (One FEnum, ''swing_mode'', 15), (One FBool, ''has_custom_fan_mode'', 16),
     (One FString, ''custom_fan_mode'', 17), (One FBool, ''has_preset'', 18), (One FEnum, ''preset'', 19),
     (One FBool, ''has_custom_preset'', 20), (One FString, ''custom_preset'', 21),
     (One FBool, ''has_target_humidity'', 22), (One FFloat, ''target_humidity'', 23), (One FUint32, ''device_id'', 24)]"

definition list_entities_water_heater_response :: msg_class where
  "list_entities_water_heater_response = map mk_field
    [(One FString, ''object_id'', 1), (One FFixed32, ''key'', 2), (One FString, ''name'', 3),
     (One FString, ''icon'', 4), (One FBool, ''disabled_by_default'', 5), (One FEnum, ''entity_category'', 6),
     (One FUint32, ''device_id'', 7), (One FFloat, ''min_temperature'', 8), (One FFloat, ''max_temperature'', 9),
     (One FFloat, ''target_temperature_step'', 10), (Many FEnum, ''supported_modes'', 11),
     (One FUint32, ''supported_features'', 12), (One FEnum, ''temperature_unit'', 13)]"

definition water_heater_state_response :: msg_class where
  "water_heater_state_response = map mk_field
    [(One FFixed32, ''key'', 1), (One FFloat, ''current_temperature'', 2), (One FFloat, ''target_temperature'', 3),
     (One FEnum, ''mode'', 4), (One FUint32, ''device_id'', 5), (One FUint32, ''state'', 6),
     (One FFloat, ''target_temperature_low'', 7), (One FFloat, ''target_temperature_high'', 8)]"

definition water_heater_command_request :: msg_class where
  "water_heater_command_request = map mk_field
    [(One FFixed32, ''key'', 1), (One FUint32, ''has_fields'', 2), (One FEnum, ''mode'', 3),
     (One FFloat, ''target_temperature'', 4), (One FUint32, ''device_id'', 5), (One FUint32, ''state'', 6),
     (One FFloat, ''target_temperature_low'', 7), (One FFloat, ''target_temperature_high'', 8)]"

definition list_entities_number_response :: msg_class where
  "list_entities_number_response = map mk_field
    [(One FString, ''object_id'', 1), (One FFixed32, ''key'', 2), (One FString, ''name'', 3),
     (One FString, ''icon'', 5), (One FFloat, ''min_value'', 6), (One FFloat, ''max_value'', 7),
     (One FFloat, ''step'', 8), (One FBool, ''disabled_by_default'', 9), (One FEnum, ''entity_category'', 10),
     (One FString, ''unit_of_measurement'', 11), (One FEnum, ''mode'', 12), (One FString, ''device_class'', 13),
     (One FUint32, ''device_id'', 14)]"

definition number_state_response :: msg_class where
  "number_state_response = map mk_field
    [(One FFixed32, ''key'', 1), (One FFloat, ''state'', 2), (One FBool, ''missing_state'', 3),
     (One FUint32, ''device_id'', 4)]"

definition number_command_request :: msg_class where
  "number_command_request = map mk_field
    [(One FFixed32, ''key'', 1), (One FFloat, ''state'', 2), (One FUint32, ''device_id'', 3)]"

definition list_entities_select_response :: msg_class where
  "list_entities_select_response = map mk_field
    [(One FString, ''object_id'', 1), (One FFixed32, ''key'', 2), (One FString, ''name'', 3),
     (One FString, ''icon'', 5), (Many FString, ''options'', 6), (One FBool, ''disabled_by_default'', 7),
     (One FEnum, ''entity_category'', 8), (One FUint32, ''device_id'', 9)]"

definition select_state_response :: msg_class where
  "select_state_response = map mk_field
    [(One FFixed32, ''key'', 1), (One FString, ''state'', 2), (One FBool, ''missing_state'', 3),
     (One FUint32, ''device_id'', 4)]"

definition select_command_request :: msg_class where
  "select_command_request = map mk_field
    [(One FFixed32, ''key'', 1), (One FString, ''state'', 2), (One FUint32, ''device_id'', 3)]"

definition list_entities_siren_response :: msg_class where
  "list_entities_siren_response = map mk_field
    [(One FString, ''object_id'', 1), (One FFixed32, ''key'', 2), (One FString, ''name'', 3),
     (One FString, ''icon'', 5), (One FBool, ''disabled_by_default'', 6), (Many FString, ''tones'', 7),
     (One FBool, ''supports_duration'', 8), (One FBool, ''supports_volume'', 9),
     (One FEnum, ''entity_category'', 10), (One FUint32, ''device_id'', 11)]"

definition siren_state_response :: msg_class where
  "siren_state_response = map mk_field
    [(One FFixed32, ''key'', 1), (One FBool, ''state'', 2), (One FUint32, ''device_id'', 3)]"

definition siren_command_request :: msg_class where
  "siren_command_request = map mk_field
    [(One FFixed32, ''key'', 1), (One FBool, ''has_state'', 2), (One FBool, ''state'', 3),
     (One FBool, ''has_tone'', 4), (One FString, ''tone'', 5), (One FBool, ''has_duration'', 6),
     (One FUint32, ''duration'', 7), (One FBool, ''has_volume'', 8), (One FFloat, ''volume'', 9),
     (One FUint32, ''device_id'', 10)]"

definition list_entities_lock_response :: msg_class where
  "list_entities_lock_response = map mk_field
    [(One FString, ''object_id'', 1), (One FFixed32, ''key'', 2), (One FString, ''name'', 3),
     (One FString, ''icon'', 5), (One FBool, ''disabled_by_default'', 6), (One FEnum, ''entity_category'', 7),
     (One FBool, ''assumed_state'', 8), (One FBool, ''supports_open'', 9), (One FBool, ''requires_code'', 10),
     (One FString, ''code_format'', 11), (One FUint32, ''device_id'', 12)]"

definition lock_state_response :: msg_class where
  "lock_state_response = map mk_field
    [(One FFixed32, ''key'', 1), (One FEnum, ''state'', 2), (One FUint32, ''device_id'', 3)]"

definition lock_command_request :: msg_class where
  "lock_command_request = map mk_field
    [(One FFixed32, ''key'', 1), (One FEnum, ''command'', 2), (One FBool, ''has_code'', 3),
     (One FString, ''code'', 4), (One FUint32, ''device_id'', 5)]"

definition list_entities_button_response :: msg_class where
  "list_entities_button_response = map mk_field
    [(One FString, ''object_id'', 1), (One FFixed32, ''key'', 2), (One FString, ''name'', 3),
     (One FString, ''icon'', 5), (One FBool, ''disabled_by_default'', 6), (One FEnum, ''entity_category'', 7),
     (One FString, ''device_class'', 8), (One FUint32, ''device_id'', 9)]"

definition button_command_request :: msg_class where
  "button_command_request = map mk_field
    [(One FFixed32, ''key'', 1), (One FUint32, ''device_id'', 2)]"

definition media_player_supported_format_class :: msg_class where
  "media_player_supported_format_class = map mk_field
    [(One FString, ''format'', 1), (One FUint32, ''sample_rate'', 2), (One FUint32, ''num_channels'', 3),
     (One FEnum, ''purpose'', 4), (One FUint32, ''sample_bytes'', 5)]"

definition list_entities_media_player_response :: msg_class where
  "list_entities_media_player_response = map mk_field
    [(One FString, ''object_id'', 1), (One FFixed32, ''key'', 2), (One FString, ''name'', 3),
     (One FString, ''icon'', 5), (One FBool, ''disabled_by_default'', 6), (One FEnum, ''entity_category'', 7),
     (One FBool, ''supports_pause'', 8), (Subs media_player_supported_format_class, ''supported_formats'', 9),
     (One FUint32, ''device_id'', 10), (One FUint32, ''feature_flags'', 11)]"

definition media_player_state_response :: msg_class where
  "media_player_state_response = map mk_field
    [(One FFixed32, ''key'', 1), (One FEnum, ''state'', 2), (One FFloat, ''volume'', 3), (One FBool, ''muted'', 4),
     (One FUint32, ''device_id'', 5)]"

definition media_player_command_request :: msg_class where
  "media_player_command_request = map mk_field
    [(One FFixed32, ''key'', 1), (One FBool, ''has_command'', 2), (One FEnum, ''command'', 3),
     (One FBool, ''has_volume'', 4), (One FFloat, ''volume'', 5), (One FBool, ''has_media_url'', 6),
     (One FString, ''media_url'', 7), (One FBool, ''has_announcement'', 8), (One FBool, ''announcement'', 9),
     (One FUint32, ''device_id'', 10)]"

definition subscribe_bluetooth_le_advertisements_request :: msg_class where
  "subscribe_bluetooth_le_advertisements_request = map mk_field
    [(One FUint32, ''flags'', 1)]"

definition bluetooth_service_data_class :: msg_class where
  "bluetooth_service_data_class = map mk_field
    [(One FString, ''uuid'', 1), (Many FUint32, ''legacy_data'', 2), (One FBytes, ''data'', 3)]"

definition bluetooth_le_advertisement_response :: msg_class where
  "bluetooth_le_advertisement_response = map mk_field
    [(One FUint64, ''address'', 1), (One FBytes, ''name'', 2), (One FSint32, ''rssi'', 3),
     (Many FString, ''service_uuids'', 4), (Subs bluetooth_service_data_class, ''service_data'', 5),
     (Subs bluetooth_service_data_class, ''manufacturer_data'', 6), (One FUint32, ''address_type'', 7)]"

definition bluetooth_le_raw_advertisement_class :: msg_class where
  "bluetooth_le_raw_advertisement_class = map mk_field
    [(One FUint64, ''address'', 1), (One FSint32, ''rssi'', 2), (One FUint32, ''address_type'', 3),
     (One FBytes, ''data'', 4)]"

definition bluetooth_le_raw_advertisements_response :: msg_class where
  "bluetooth_le_raw_advertisements_response = map mk_field
    [(Subs bluetooth_le_raw_advertisement_class, ''advertisements'', 1)]"

definition bluetooth_device_request :: msg_class where
  "bluetooth_device_request = map mk_field
    [(One FUint64, ''address'', 1), (One FEnum, ''request_type'', 2), (One FBool, ''has_address_type'', 3),
     (One FUint32, ''address_type'', 4)]"

definition bluetooth_device_connection_response :: msg_class where
  "bluetooth_device_connection_response = map mk_field
    [(One FUint64, ''address'', 1), (One FBool, ''connected'', 2), (One FUint32, ''mtu'', 3),
     (One FInt32, ''error'', 4)]"

definition bluetooth_gatt_get_services_request :: msg_class where
  "bluetooth_gatt_get_services_request = map mk_field
    [(One FUint64, ''address'', 1)]"

definition bluetooth_gatt_descriptor_class :: msg_class where
  "bluetooth_gatt_descriptor_class = map mk_field
    [(Many FUint64, ''uuid'', 1), (One FUint32, ''handle'', 2), (One FUint32, ''short_uuid'', 3)]"

definition bluetooth_gatt_characteristic_class :: msg_class where
  "bluetooth_gatt_characteristic_class = map mk_field
    [(Many FUint64, ''uuid'', 1), (One FUint32, ''handle'', 2), (One FUint32, ''properties'', 3),
     (Subs bluetooth_gatt_descriptor_class, ''descriptors'', 4), (One FUint32, ''short_uuid'', 5)]"

definition bluetooth_gatt_service_class :: msg_class where
  "bluetooth_gatt_service_class = map mk_field
    [(Many FUint64, ''uuid'', 1), (One FUint32, ''handle'', 2),
     (Subs bluetooth_gatt_characteristic_class, ''characteristics'', 3), (One FUint32, ''short_uuid'', 4)]"

definition bluetooth_gatt_get_services_response :: msg_class where
  "bluetooth_gatt_get_services_response = map mk_field
    [(One FUint64, ''address'', 1), (Subs bluetooth_gatt_service_class, ''services'', 2)]"

definition bluetooth_gatt_get_services_done_response :: msg_class where
  "bluetooth_gatt_get_services_done_response = map mk_field
    [(One FUint64, ''address'', 1)]"

definition bluetooth_gatt_read_request :: msg_class where
  "bluetooth_gatt_read_request = map mk_field
    [(One FUint64, ''address'', 1), (One FUint32, ''handle'', 2)]"

definition bluetooth_gatt_read_response :: msg_class where
  "bluetooth_gatt_read_response = map mk_field
    [(One FUint64, ''address'', 1), (One FUint32, ''handle'', 2), (One FBytes, ''data'', 3)]"

definition bluetooth_gatt_write_request :: msg_class where
  "bluetooth_gatt_write_request = map mk_field
    [(One FUint64, ''address'', 1), (One FUint32, ''handle'', 2), (One FBool, ''response'', 3),
     (One FBytes, ''data'', 4)]"

definition bluetooth_gatt_read_descriptor_request :: msg_class where
  "bluetooth_gatt_read_descriptor_request = map mk_field
    [(One FUint64, ''address'', 1), (One FUint32, ''handle'', 2)]"

definition bluetooth_gatt_write_descriptor_request :: msg_class where
  "bluetooth_gatt_write_descriptor_request = map mk_field
    [(One FUint64, ''address'', 1), (One FUint32, ''handle'', 2), (One FBytes, ''data'', 3)]"

definition bluetooth_gatt_notify_request :: msg_class where
  "bluetooth_gatt_notify_request = map mk_field
    [(One FUint64, ''address'', 1), (One FUint32, ''handle'', 2), (One FBool, ''enable'', 3)]"

definition bluetooth_gatt_notify_data_response :: msg_class where
  "bluetooth_gatt_notify_data_response = map mk_field
    [(One FUint64, ''address'', 1), (One FUint32, ''handle'', 2), (One FBytes, ''data'', 3)]"

definition subscribe_bluetooth_connections_free_request :: msg_class where
  "subscribe_bluetooth_connections_free_request = []"

definition bluetooth_connections_free_response :: msg_class where
  "bluetooth_connections_free_response = map mk_field
    [(One FUint32, ''free'', 1), (One FUint32, ''limit'', 2), (Many FUint64, ''allocated'', 3)]"

definition bluetooth_gatt_error_response :: msg_class where
  "bluetooth_gatt_error_response = map mk_field
    [(One FUint64, ''address'', 1), (One FUint32, ''handle'', 2), (One FInt32, ''error'', 3)]"

definition bluetooth_gatt_write_response :: msg_class where
  "bluetooth_gatt_write_response = map mk_field
    [(One FUint64, ''address'', 1), (One FUint32, ''handle'', 2)]"

definition bluetooth_gatt_notify_response :: msg_class where
  "bluetooth_gatt_notify_response = map mk_field
    [(One FUint64, ''address'', 1), (One FUint32, ''handle'', 2)]"

definition bluetooth_device_pairing_response :: msg_class where
  "bluetooth_device_pairing_response = map mk_field
    [(One FUint64, ''address'', 1), (One FBool, ''paired'', 2), (One FInt32, ''error'', 3)]"

definition bluetooth_device_unpairing_response :: msg_class where
  "bluetooth_device_unpairing_response = map mk_field
    [(One FUint64, ''address'', 1), (One FBool, ''success'', 2), (One FInt32, ''error'', 3)]"

definition unsubscribe_bluetooth_le_advertisements_request :: msg_class where
  "unsubscribe_bluetooth_le_advertisements_request = []"

definition bluetooth_device_clear_cache_response :: msg_class where
  "bluetooth_device_clear_cache_response = map mk_field
    [(One FUint64, ''address'', 1), (One FBool, ''success'', 2), (One FInt32, ''error'', 3)]"

definition bluetooth_scanner_state_response :: msg_class where
  "bluetooth_scanner_state_response = map mk_field
    [(One FEnum, ''state'', 1), (One FEnum, ''mode'', 2), (One FEnum, ''configured_mode'', 3)]"

definition bluetooth_scanner_set_mode_request :: msg_class where
  "bluetooth_scanner_set_mode_request = map mk_field
    [(One FEnum, ''mode'', 1)]"

definition subscribe_voice_assistant_request :: msg_class where
  "subscribe_voice_assistant_request = map mk_field
    [(One FBool, ''subscribe'', 1), (One FUint32, ''flags'', 2)]"

definition voice_assistant_audio_settings_class :: msg_class where
  "voice_assistant_audio_settings_class = map mk_field
    [(One FUint32, ''noise_suppression_level'', 1), (One FUint32, ''auto_gain'', 2),
     (One FFloat, ''volume_multiplier'', 3)]"

definition voice_assistant_request :: msg_class where
  "voice_assistant_request = map mk_field
    [(One FBool, ''start'', 1), (One FString, ''conversation_id'', 2), (One FUint32, ''flags'', 3),
     (OneSub voice_assistant_audio_settings_class, ''audio_settings'', 4), (One FString, ''wake_word_phrase'', 5)]"

definition voice_assistant_response :: msg_class where
  "voice_assistant_response = map mk_field
    [(One FUint32, ''port'', 1), (One FBool, ''error'', 2)]"

definition voice_assistant_event_data_class :: msg_class where
  "voice_assistant_event_data_class = map mk_field
    [(One FString, ''name'', 1), (One FString, ''value'', 2)]"

definition voice_assistant_event_response :: msg_class where
  "voice_assistant_event_response = map mk_field
    [(One FEnum, ''event_type'', 1), (Subs voice_assistant_event_data_class, ''data'', 2)]"

definition voice_assistant_audio :: msg_class where
  "voice_assistant_audio = map mk_field
    [(One FBytes, ''data'', 1), (One FBool, ''end'', 2), (One FBytes, ''data2'', 3)]"

definition voice_assistant_timer_event_response :: msg_class where
  "voice_assistant_timer_event_response = map mk_field
    [(One FEnum, ''event_type'', 1), (One FString, ''timer_id'', 2), (One FString, ''name'', 3),
     (One FUint32, ''total_seconds'', 4), (One FUint32, ''seconds_left'', 5), (One FBool, ''is_active'', 6)]"

definition voice_assistant_announce_request :: msg_class where
  "voice_assistant_announce_request = map mk_field
    [(One FString, ''media_id'', 1), (One FString, ''text'', 2), (One FString, ''preannounce_media_id'', 3),
     (One FBool, ''start_conversation'', 4)]"

definition voice_assistant_announce_finished :: msg_class where
  "voice_assistant_announce_finished = map mk_field
    [(One FBool, ''success'', 1)]"

definition voice_assistant_wake_word_class :: msg_class where
  "voice_assistant_wake_word_class = map mk_field
    [(One FString, ''id'', 1), (One FString, ''wake_word'', 2), (Many FString, ''trained_languages'', 3)]"

definition voice_assistant_external_wake_word_class :: msg_class where
  "voice_assistant_external_wake_word_class = map mk_field
    [(One FString, ''id'', 1), (One FString, ''wake_word'', 2), (Many FString, ''trained_languages'', 3),
     (One FString, ''model_type'', 4), (One FUint32, ''model_size'', 5), (One FString, ''model_hash'', 6),
     (One FString, ''url'', 7)]"

definition voice_assistant_configuration_request :: msg_class where
  "voice_assistant_configuration_request = map mk_field
    [(Subs voice_assistant_external_wake_word_class, ''external_wake_words'', 1)]"

definition voice_assistant_configuration_response :: msg_class where
  "voice_assistant_configuration_response = map mk_field
    [(Subs voice_assistant_wake_word_class, ''available_wake_words'', 1), (Many FString, ''active_wake_words'', 2),
     (One FUint32, ''max_active_wake_words'', 3)]"

definition voice_assistant_set_configuration :: msg_class where
  "voice_assistant_set_configuration = map mk_field
    [(Many FString, ''active_wake_words'', 1)]"

definition list_entities_alarm_control_panel_response :: msg_class where
  "list_entities_alarm_control_panel_response = map mk_field
    [(One FString, ''object_id'', 1), (One FFixed32, ''key'', 2), (One FString, ''name'', 3),
     (One FString, ''icon'', 5), (One FBool, ''disabled_by_default'', 6), (One FEnum, ''entity_category'', 7),
     (One FUint32, ''supported_features'', 8), (One FBool, ''requires_code'', 9),
     (One FBool, ''requires_code_to_arm'', 10), (One FUint32, ''device_id'', 11)]"

definition alarm_control_panel_state_response :: msg_class where
  "alarm_control_panel_state_response = map mk_field
    [(One FFixed32, ''key'', 1), (One FEnum, ''state'', 2), (One FUint32, ''device_id'', 3)]"

definition alarm_control_panel_command_request :: msg_class where
  "alarm_control_panel_command_request = map mk_field
    [(One FFixed32, ''key'', 1), (One FEnum, ''command'', 2), (One FString, ''code'', 3),
     (One FUint32, ''device_id'', 4)]"

definition list_entities_text_response :: msg_class where
  "list_entities_text_response = map mk_field
    [(One FString, ''object_id'', 1), (One FFixed32, ''key'', 2), (One FString, ''name'', 3),
     (One FString, ''icon'', 5), (One FBool, ''disabled_by_default'', 6), (One FEnum, ''entity_category'', 7),
     (One FUint32, ''min_length'', 8), (One FUint32, ''max_length'', 9), (One FString, ''pattern'', 10),
     (One FEnum, ''mode'', 11), (One FUint32, ''device_id'', 12)]"

definition text_state_response :: msg_class where
  "text_state_response = map mk_field
    [(One FFixed32, ''key'', 1), (One FString, ''state'', 2), (One FBool, ''missing_state'', 3),
     (One FUint32, ''device_id'', 4)]"

definition text_command_request :: msg_class where
  "text_command_request = map mk_field
    [(One FFixed32, ''key'', 1), (One FString, ''state'', 2), (One FUint32, ''device_id'', 3)]"

definition list_entities_date_response :: msg_class where
  "list_entities_date_response = map mk_field
    [(One FString, ''object_id'', 1), (One FFixed32, ''key'', 2), (One FString, ''name'', 3),
     (One FString, ''icon'', 5), (One FBool, ''disabled_by_default'', 6), (One FEnum, ''entity_category'', 7),
     (One FUint32, ''device_id'', 8)]"

definition date_state_response :: msg_class where
  "date_state_response = map mk_field
    [(One FFixed32, ''key'', 1), (One FBool, ''missing_state'', 2), (One FUint32, ''year'', 3),
     (One FUint32, ''month'', 4), (One FUint32, ''day'', 5), (One FUint32, ''device_id'', 6)]"

definition date_command_request :: msg_class where
  "date_command_request = map mk_field
    [(One FFixed32, ''key'', 1), (One FUint32, ''year'', 2), (One FUint32, ''month'', 3), (One FUint32, ''day'', 4),
     (One FUint32, ''device_id'', 5)]"

definition list_entities_time_response :: msg_class where
  "list_entities_time_response = map mk_field
    [(One FString, ''object_id'', 1), (One FFixed32, ''key'', 2), (One FString, ''name'', 3),
     (One FString, ''icon'', 5), (One FBool, ''disabled_by_default'', 6), (One FEnum, ''entity_category'', 7),
     (One FUint32, ''device_id'', 8)]"

definition time_state_response :: msg_class where
  "time_state_response = map mk_field
    [(One FFixed32, ''key'', 1), (One FBool, ''missing_state'', 2), (One FUint32, ''hour'', 3),
     (One FUint32, ''minute'', 4), (One FUint32, ''second'', 5), (One FUint32, ''device_id'', 6)]"

definition time_command_request :: msg_class where
  "time_command_request = map mk_field
    [(One FFixed32, ''key'', 1), (One FUint32, ''hour'', 2), (One FUint32, ''minute'', 3),
     (One FUint32, ''second'', 4), (One FUint32, ''device_id'', 5)]"

definition list_entities_event_response :: msg_class where
  "list_entities_event_response = map mk_field
    [(One FString, ''object_id'', 1), (One FFixed32, ''key'', 2), (One FString, ''name'', 3),
     (One FString, ''icon'', 5), (One FBool, ''disabled_by_default'', 6), (One FEnum, ''entity_category'', 7),
     (One FString, ''device_class'', 8), (Many FString, ''event_types'', 9), (One FUint32, ''device_id'', 10)]"

definition event_response :: msg_class where
  "event_response = map mk_field
    [(One FFixed32, ''key'', 1), (One FString, ''event_type'', 2), (One FUint32, ''device_id'', 3)]"

definition list_entities_valve_response :: msg_class where
  "list_entities_valve_response = map mk_field
    [(One FString, ''object_id'', 1), (One FFixed32, ''key'', 2), (One FString, ''name'', 3),
     (One FString, ''icon'', 5), (One FBool, ''disabled_by_default'', 6), (One FEnum, ''entity_category'', 7),
     (One FString, ''device_class'', 8), (One FBool, ''assumed_state'', 9), (One FBool, ''supports_position'', 10),
     (One FBool, ''supports_stop'', 11), (One FUint32, ''device_id'', 12)]"

definition valve_state_response :: msg_class where
  "valve_state_response = map mk_field
    [(One FFixed32, ''key'', 1), (One FFloat, ''position'', 2), (One FEnum, ''current_operation'', 3),
     (One FUint32, ''device_id'', 4)]"

definition valve_command_request :: msg_class where
  "valve_command_request = map mk_field
    [(One FFixed32, ''key'', 1), (One FBool, ''has_position'', 2), (One FFloat, ''position'', 3),
     (One FBool, ''stop'', 4), (One FUint32, ''device_id'', 5)]"

definition list_entities_date_time_response :: msg_class where
  "list_entities_date_time_response = map mk_field
    [(One FString, ''object_id'', 1), (One FFixed32, ''key'', 2), (One FString, ''name'', 3),
     (One FString, ''icon'', 5), (One FBool, ''disabled_by_default'', 6), (One FEnum, ''entity_category'', 7),
     (One FUint32, ''device_id'', 8)]"

definition date_time_state_response :: msg_class where
  "date_time_state_response = map mk_field
    [(One FFixed32, ''key'', 1), (One FBool, ''missing_state'', 2), (One FFixed32, ''epoch_seconds'', 3),
     (One FUint32, ''device_id'', 4)]"

definition date_time_command_request :: msg_class where
  "date_time_command_request = map mk_field
    [(One FFixed32, ''key'', 1), (One FFixed32, ''epoch_seconds'', 2), (One FUint32, ''device_id'', 3)]"

definition list_entities_update_response :: msg_class where
  "list_entities_update_response = map mk_field
    [(One FString, ''object_id'', 1), (One FFixed32, ''key'', 2), (One FString, ''name'', 3),
     (One FString, ''icon'', 5), (One FBool, ''disabled_by_default'', 6), (One FEnum, ''entity_category'', 7),
     (One FString, ''device_class'', 8), (One FUint32, ''device_id'', 9)]"

definition update_state_response :: msg_class where
  "update_state_response = map mk_field
    [(One FFixed32, ''key'', 1), (One FBool, ''missing_state'', 2), (One FBool, ''in_progress'', 3),
     (One FBool, ''has_progress'', 4), (One FFloat, ''progress'', 5), (One FString, ''current_version'', 6),
     (One FString, ''latest_version'', 7), (One FString, ''title'', 8), (One FString, ''release_summary'', 9),
     (One FString, ''release_url'', 10), (One FUint32, ''device_id'', 11)]"

definition update_command_request :: msg_class where
  "update_command_request = map mk_field
    [(One FFixed32, ''key'', 1), (One FEnum, ''command'', 2), (One FUint32, ''device_id'', 3)]"

definition z_wave_proxy_frame :: msg_class where
  "z_wave_proxy_frame = map mk_field
    [(One FBytes, ''data'', 1)]"

definition z_wave_proxy_request :: msg_class where
  "z_wave_proxy_request = map mk_field
    [(One FEnum, ''type'', 1), (One FBytes, ''data'', 2)]"

definition list_entities_infrared_response :: msg_class where
  "list_entities_infrared_response = map mk_field
    [(One FString, ''object_id'', 1), (One FFixed32, ''key'', 2), (One FString, ''name'', 3),
     (One FString, ''icon'', 4), (One FBool, ''disabled_by_default'', 5), (One FEnum, ''entity_category'', 6),
     (One FUint32, ''device_id'', 7), (One FUint32, ''capabilities'', 8), (One FUint32, ''receiver_frequency'', 9)]"

definition infrared_rf_transmit_raw_timings_request :: msg_class where
  "infrared_rf_transmit_raw_timings_request = map mk_field
    [(One FUint32, ''device_id'', 1), (One FFixed32, ''key'', 2), (One FUint32, ''carrier_frequency'', 3),
     (One FUint32, ''repeat_count'', 4), (Many FSint32, ''timings'', 5), (One FUint32, ''modulation'', 6)]"

definition infrared_rf_receive_event :: msg_class where
  "infrared_rf_receive_event = map mk_field
    [(One FUint32, ''device_id'', 1), (One FFixed32, ''key'', 2), (Many FSint32, ''timings'', 3)]"

definition list_entities_radio_frequency_response :: msg_class where
  "list_entities_radio_frequency_response = map mk_field
    [(One FString, ''object_id'', 1), (One FFixed32, ''key'', 2), (One FString, ''name'', 3),
     (One FString, ''icon'', 4), (One FBool, ''disabled_by_default'', 5), (One FEnum, ''entity_category'', 6),
     (One FUint32, ''device_id'', 7), (One FUint32, ''capabilities'', 8), (One FUint32, ''frequency_min'', 9),
     (One FUint32, ''frequency_max'', 10), (One FUint32, ''supported_modulations'', 11)]"

definition serial_proxy_configure_request :: msg_class where
  "serial_proxy_configure_request = map mk_field
    [(One FUint32, ''instance'', 1), (One FUint32, ''baudrate'', 2), (One FBool, ''flow_control'', 3),
     (One FEnum, ''parity'', 4), (One FUint32, ''stop_bits'', 5), (One FUint32, ''data_size'', 6)]"

definition serial_proxy_data_received :: msg_class where
  "serial_proxy_data_received = map mk_field
    [(One FUint32, ''instance'', 1), (One FBytes, ''data'', 2)]"

definition serial_proxy_write_request :: msg_class where
  "serial_proxy_write_request = map mk_field
    [(One FUint32, ''instance'', 1), (One FBytes, ''data'', 2)]"

definition serial_proxy_set_modem_pins_request :: msg_class where
  "serial_proxy_set_modem_pins_request = map mk_field
    [(One FUint32, ''instance'', 1), (One FUint32, ''line_states'', 2)]"

definition serial_proxy_get_modem_pins_request :: msg_class where
  "serial_proxy_get_modem_pins_request = map mk_field
    [(One FUint32, ''instance'', 1)]"

definition serial_proxy_get_modem_pins_response :: msg_class where
  "serial_proxy_get_modem_pins_response = map mk_field
    [(One FUint32, ''instance'', 1), (One FUint32, ''line_states'', 2)]"

definition serial_proxy_request :: msg_class where
  "serial_proxy_request = map mk_field
    [(One FUint32, ''instance'', 1), (One FEnum, ''type'', 2)]"

definition serial_proxy_request_response :: msg_class where
  "serial_proxy_request_response = map mk_field
    [(One FUint32, ''instance'', 1), (One FEnum, ''type'', 2), (One FEnum, ''status'', 3),
     (One FString, ''error_message'', 4)]"

definition bluetooth_set_connection_params_request :: msg_class where
  "bluetooth_set_connection_params_request = map mk_field
    [(One FUint64, ''address'', 1), (One FUint32, ''min_interval'', 2), (One FUint32, ''max_interval'', 3),
     (One FUint32, ''latency'', 4), (One FUint32, ''timeout'', 5)]"

definition bluetooth_set_connection_params_response :: msg_class where
  "bluetooth_set_connection_params_response = map mk_field
    [(One FUint64, ''address'', 1), (One FInt32, ''error'', 2)]"

text \<open>The labels of each emitted \<^verbatim>\<open>switch\<close> differ.\<close>

lemma hello_request_wf: "wf_class hello_request"
  by (simp add: hello_request_def wf_class_def mk_field_simps)

lemma hello_response_wf: "wf_class hello_response"
  by (simp add: hello_response_def wf_class_def mk_field_simps)

lemma authentication_request_wf: "wf_class authentication_request"
  by (simp add: authentication_request_def wf_class_def mk_field_simps)

lemma authentication_response_wf: "wf_class authentication_response"
  by (simp add: authentication_response_def wf_class_def mk_field_simps)

lemma disconnect_request_wf: "wf_class disconnect_request"
  by (simp add: disconnect_request_def wf_class_def mk_field_simps)

lemma disconnect_response_wf: "wf_class disconnect_response"
  by (simp add: disconnect_response_def wf_class_def mk_field_simps)

lemma ping_request_wf: "wf_class ping_request"
  by (simp add: ping_request_def wf_class_def mk_field_simps)

lemma ping_response_wf: "wf_class ping_response"
  by (simp add: ping_response_def wf_class_def mk_field_simps)

lemma device_info_request_wf: "wf_class device_info_request"
  by (simp add: device_info_request_def wf_class_def mk_field_simps)

lemma area_info_class_wf: "wf_class area_info_class"
  by (simp add: area_info_class_def wf_class_def mk_field_simps)

lemma device_info_class_wf: "wf_class device_info_class"
  by (simp add: device_info_class_def wf_class_def mk_field_simps)

lemma serial_proxy_info_class_wf: "wf_class serial_proxy_info_class"
  by (simp add: serial_proxy_info_class_def wf_class_def mk_field_simps)

lemma device_info_response_wf:
  "wf_class device_info_response"
  using area_info_class_wf device_info_class_wf serial_proxy_info_class_wf by (simp add: device_info_response_def wf_class_def mk_field_simps)

lemma list_entities_request_wf: "wf_class list_entities_request"
  by (simp add: list_entities_request_def wf_class_def mk_field_simps)

lemma list_entities_done_response_wf: "wf_class list_entities_done_response"
  by (simp add: list_entities_done_response_def wf_class_def mk_field_simps)

lemma subscribe_states_request_wf: "wf_class subscribe_states_request"
  by (simp add: subscribe_states_request_def wf_class_def mk_field_simps)

lemma list_entities_binary_sensor_response_wf: "wf_class list_entities_binary_sensor_response"
  by (simp add: list_entities_binary_sensor_response_def wf_class_def mk_field_simps)

lemma binary_sensor_state_response_wf: "wf_class binary_sensor_state_response"
  by (simp add: binary_sensor_state_response_def wf_class_def mk_field_simps)

lemma list_entities_cover_response_wf: "wf_class list_entities_cover_response"
  by (simp add: list_entities_cover_response_def wf_class_def mk_field_simps)

lemma cover_state_response_wf: "wf_class cover_state_response"
  by (simp add: cover_state_response_def wf_class_def mk_field_simps)

lemma cover_command_request_wf: "wf_class cover_command_request"
  by (simp add: cover_command_request_def wf_class_def mk_field_simps)

lemma list_entities_fan_response_wf: "wf_class list_entities_fan_response"
  by (simp add: list_entities_fan_response_def wf_class_def mk_field_simps)

lemma fan_state_response_wf: "wf_class fan_state_response"
  by (simp add: fan_state_response_def wf_class_def mk_field_simps)

lemma fan_command_request_wf: "wf_class fan_command_request"
  by (simp add: fan_command_request_def wf_class_def mk_field_simps)

lemma list_entities_light_response_wf: "wf_class list_entities_light_response"
  by (simp add: list_entities_light_response_def wf_class_def mk_field_simps)

lemma light_state_response_wf: "wf_class light_state_response"
  by (simp add: light_state_response_def wf_class_def mk_field_simps)

lemma light_command_request_wf: "wf_class light_command_request"
  by (simp add: light_command_request_def wf_class_def mk_field_simps)

lemma list_entities_sensor_response_wf: "wf_class list_entities_sensor_response"
  by (simp add: list_entities_sensor_response_def wf_class_def mk_field_simps)

lemma sensor_state_response_wf: "wf_class sensor_state_response"
  by (simp add: sensor_state_response_def wf_class_def mk_field_simps)

lemma list_entities_switch_response_wf: "wf_class list_entities_switch_response"
  by (simp add: list_entities_switch_response_def wf_class_def mk_field_simps)

lemma switch_state_response_wf: "wf_class switch_state_response"
  by (simp add: switch_state_response_def wf_class_def mk_field_simps)

lemma switch_command_request_wf: "wf_class switch_command_request"
  by (simp add: switch_command_request_def wf_class_def mk_field_simps)

lemma list_entities_text_sensor_response_wf: "wf_class list_entities_text_sensor_response"
  by (simp add: list_entities_text_sensor_response_def wf_class_def mk_field_simps)

lemma text_sensor_state_response_wf: "wf_class text_sensor_state_response"
  by (simp add: text_sensor_state_response_def wf_class_def mk_field_simps)

lemma subscribe_logs_request_wf: "wf_class subscribe_logs_request"
  by (simp add: subscribe_logs_request_def wf_class_def mk_field_simps)

lemma subscribe_logs_response_wf: "wf_class subscribe_logs_response"
  by (simp add: subscribe_logs_response_def wf_class_def mk_field_simps)

lemma noise_encryption_set_key_request_wf: "wf_class noise_encryption_set_key_request"
  by (simp add: noise_encryption_set_key_request_def wf_class_def mk_field_simps)

lemma noise_encryption_set_key_response_wf: "wf_class noise_encryption_set_key_response"
  by (simp add: noise_encryption_set_key_response_def wf_class_def mk_field_simps)

lemma subscribe_homeassistant_services_request_wf: "wf_class subscribe_homeassistant_services_request"
  by (simp add: subscribe_homeassistant_services_request_def wf_class_def mk_field_simps)

lemma homeassistant_service_map_class_wf: "wf_class homeassistant_service_map_class"
  by (simp add: homeassistant_service_map_class_def wf_class_def mk_field_simps)

lemma homeassistant_action_request_wf:
  "wf_class homeassistant_action_request"
  using homeassistant_service_map_class_wf by (simp add: homeassistant_action_request_def wf_class_def mk_field_simps)

lemma homeassistant_action_response_wf: "wf_class homeassistant_action_response"
  by (simp add: homeassistant_action_response_def wf_class_def mk_field_simps)

lemma subscribe_home_assistant_states_request_wf: "wf_class subscribe_home_assistant_states_request"
  by (simp add: subscribe_home_assistant_states_request_def wf_class_def mk_field_simps)

lemma subscribe_home_assistant_state_response_wf: "wf_class subscribe_home_assistant_state_response"
  by (simp add: subscribe_home_assistant_state_response_def wf_class_def mk_field_simps)

lemma home_assistant_state_response_wf: "wf_class home_assistant_state_response"
  by (simp add: home_assistant_state_response_def wf_class_def mk_field_simps)

lemma get_time_request_wf: "wf_class get_time_request"
  by (simp add: get_time_request_def wf_class_def mk_field_simps)

lemma dst_rule_class_wf: "wf_class dst_rule_class"
  by (simp add: dst_rule_class_def wf_class_def mk_field_simps)

lemma parsed_timezone_class_wf:
  "wf_class parsed_timezone_class"
  using dst_rule_class_wf by (simp add: parsed_timezone_class_def wf_class_def mk_field_simps)

lemma get_time_response_wf:
  "wf_class get_time_response"
  using parsed_timezone_class_wf by (simp add: get_time_response_def wf_class_def mk_field_simps)

lemma list_entities_services_argument_class_wf: "wf_class list_entities_services_argument_class"
  by (simp add: list_entities_services_argument_class_def wf_class_def mk_field_simps)

lemma list_entities_services_response_wf:
  "wf_class list_entities_services_response"
  using list_entities_services_argument_class_wf by (simp add: list_entities_services_response_def wf_class_def mk_field_simps)

lemma execute_service_argument_class_wf: "wf_class execute_service_argument_class"
  by (simp add: execute_service_argument_class_def wf_class_def mk_field_simps)

lemma execute_service_request_wf:
  "wf_class execute_service_request"
  using execute_service_argument_class_wf by (simp add: execute_service_request_def wf_class_def mk_field_simps)

lemma execute_service_response_wf: "wf_class execute_service_response"
  by (simp add: execute_service_response_def wf_class_def mk_field_simps)

lemma list_entities_camera_response_wf: "wf_class list_entities_camera_response"
  by (simp add: list_entities_camera_response_def wf_class_def mk_field_simps)

lemma camera_image_response_wf: "wf_class camera_image_response"
  by (simp add: camera_image_response_def wf_class_def mk_field_simps)

lemma camera_image_request_wf: "wf_class camera_image_request"
  by (simp add: camera_image_request_def wf_class_def mk_field_simps)

lemma list_entities_climate_response_wf: "wf_class list_entities_climate_response"
  by (simp add: list_entities_climate_response_def wf_class_def mk_field_simps)

lemma climate_state_response_wf: "wf_class climate_state_response"
  by (simp add: climate_state_response_def wf_class_def mk_field_simps)

lemma climate_command_request_wf: "wf_class climate_command_request"
  by (simp add: climate_command_request_def wf_class_def mk_field_simps)

lemma list_entities_water_heater_response_wf: "wf_class list_entities_water_heater_response"
  by (simp add: list_entities_water_heater_response_def wf_class_def mk_field_simps)

lemma water_heater_state_response_wf: "wf_class water_heater_state_response"
  by (simp add: water_heater_state_response_def wf_class_def mk_field_simps)

lemma water_heater_command_request_wf: "wf_class water_heater_command_request"
  by (simp add: water_heater_command_request_def wf_class_def mk_field_simps)

lemma list_entities_number_response_wf: "wf_class list_entities_number_response"
  by (simp add: list_entities_number_response_def wf_class_def mk_field_simps)

lemma number_state_response_wf: "wf_class number_state_response"
  by (simp add: number_state_response_def wf_class_def mk_field_simps)

lemma number_command_request_wf: "wf_class number_command_request"
  by (simp add: number_command_request_def wf_class_def mk_field_simps)

lemma list_entities_select_response_wf: "wf_class list_entities_select_response"
  by (simp add: list_entities_select_response_def wf_class_def mk_field_simps)

lemma select_state_response_wf: "wf_class select_state_response"
  by (simp add: select_state_response_def wf_class_def mk_field_simps)

lemma select_command_request_wf: "wf_class select_command_request"
  by (simp add: select_command_request_def wf_class_def mk_field_simps)

lemma list_entities_siren_response_wf: "wf_class list_entities_siren_response"
  by (simp add: list_entities_siren_response_def wf_class_def mk_field_simps)

lemma siren_state_response_wf: "wf_class siren_state_response"
  by (simp add: siren_state_response_def wf_class_def mk_field_simps)

lemma siren_command_request_wf: "wf_class siren_command_request"
  by (simp add: siren_command_request_def wf_class_def mk_field_simps)

lemma list_entities_lock_response_wf: "wf_class list_entities_lock_response"
  by (simp add: list_entities_lock_response_def wf_class_def mk_field_simps)

lemma lock_state_response_wf: "wf_class lock_state_response"
  by (simp add: lock_state_response_def wf_class_def mk_field_simps)

lemma lock_command_request_wf: "wf_class lock_command_request"
  by (simp add: lock_command_request_def wf_class_def mk_field_simps)

lemma list_entities_button_response_wf: "wf_class list_entities_button_response"
  by (simp add: list_entities_button_response_def wf_class_def mk_field_simps)

lemma button_command_request_wf: "wf_class button_command_request"
  by (simp add: button_command_request_def wf_class_def mk_field_simps)

lemma media_player_supported_format_class_wf: "wf_class media_player_supported_format_class"
  by (simp add: media_player_supported_format_class_def wf_class_def mk_field_simps)

lemma list_entities_media_player_response_wf:
  "wf_class list_entities_media_player_response"
  using media_player_supported_format_class_wf by (simp add: list_entities_media_player_response_def wf_class_def mk_field_simps)

lemma media_player_state_response_wf: "wf_class media_player_state_response"
  by (simp add: media_player_state_response_def wf_class_def mk_field_simps)

lemma media_player_command_request_wf: "wf_class media_player_command_request"
  by (simp add: media_player_command_request_def wf_class_def mk_field_simps)

lemma subscribe_bluetooth_le_advertisements_request_wf: "wf_class subscribe_bluetooth_le_advertisements_request"
  by (simp add: subscribe_bluetooth_le_advertisements_request_def wf_class_def mk_field_simps)

lemma bluetooth_service_data_class_wf: "wf_class bluetooth_service_data_class"
  by (simp add: bluetooth_service_data_class_def wf_class_def mk_field_simps)

lemma bluetooth_le_advertisement_response_wf:
  "wf_class bluetooth_le_advertisement_response"
  using bluetooth_service_data_class_wf by (simp add: bluetooth_le_advertisement_response_def wf_class_def mk_field_simps)

lemma bluetooth_le_raw_advertisement_class_wf: "wf_class bluetooth_le_raw_advertisement_class"
  by (simp add: bluetooth_le_raw_advertisement_class_def wf_class_def mk_field_simps)

lemma bluetooth_le_raw_advertisements_response_wf:
  "wf_class bluetooth_le_raw_advertisements_response"
  using bluetooth_le_raw_advertisement_class_wf by (simp add: bluetooth_le_raw_advertisements_response_def wf_class_def mk_field_simps)

lemma bluetooth_device_request_wf: "wf_class bluetooth_device_request"
  by (simp add: bluetooth_device_request_def wf_class_def mk_field_simps)

lemma bluetooth_device_connection_response_wf: "wf_class bluetooth_device_connection_response"
  by (simp add: bluetooth_device_connection_response_def wf_class_def mk_field_simps)

lemma bluetooth_gatt_get_services_request_wf: "wf_class bluetooth_gatt_get_services_request"
  by (simp add: bluetooth_gatt_get_services_request_def wf_class_def mk_field_simps)

lemma bluetooth_gatt_descriptor_class_wf: "wf_class bluetooth_gatt_descriptor_class"
  by (simp add: bluetooth_gatt_descriptor_class_def wf_class_def mk_field_simps)

lemma bluetooth_gatt_characteristic_class_wf:
  "wf_class bluetooth_gatt_characteristic_class"
  using bluetooth_gatt_descriptor_class_wf by (simp add: bluetooth_gatt_characteristic_class_def wf_class_def mk_field_simps)

lemma bluetooth_gatt_service_class_wf:
  "wf_class bluetooth_gatt_service_class"
  using bluetooth_gatt_characteristic_class_wf by (simp add: bluetooth_gatt_service_class_def wf_class_def mk_field_simps)

lemma bluetooth_gatt_get_services_response_wf:
  "wf_class bluetooth_gatt_get_services_response"
  using bluetooth_gatt_service_class_wf by (simp add: bluetooth_gatt_get_services_response_def wf_class_def mk_field_simps)

lemma bluetooth_gatt_get_services_done_response_wf: "wf_class bluetooth_gatt_get_services_done_response"
  by (simp add: bluetooth_gatt_get_services_done_response_def wf_class_def mk_field_simps)

lemma bluetooth_gatt_read_request_wf: "wf_class bluetooth_gatt_read_request"
  by (simp add: bluetooth_gatt_read_request_def wf_class_def mk_field_simps)

lemma bluetooth_gatt_read_response_wf: "wf_class bluetooth_gatt_read_response"
  by (simp add: bluetooth_gatt_read_response_def wf_class_def mk_field_simps)

lemma bluetooth_gatt_write_request_wf: "wf_class bluetooth_gatt_write_request"
  by (simp add: bluetooth_gatt_write_request_def wf_class_def mk_field_simps)

lemma bluetooth_gatt_read_descriptor_request_wf: "wf_class bluetooth_gatt_read_descriptor_request"
  by (simp add: bluetooth_gatt_read_descriptor_request_def wf_class_def mk_field_simps)

lemma bluetooth_gatt_write_descriptor_request_wf: "wf_class bluetooth_gatt_write_descriptor_request"
  by (simp add: bluetooth_gatt_write_descriptor_request_def wf_class_def mk_field_simps)

lemma bluetooth_gatt_notify_request_wf: "wf_class bluetooth_gatt_notify_request"
  by (simp add: bluetooth_gatt_notify_request_def wf_class_def mk_field_simps)

lemma bluetooth_gatt_notify_data_response_wf: "wf_class bluetooth_gatt_notify_data_response"
  by (simp add: bluetooth_gatt_notify_data_response_def wf_class_def mk_field_simps)

lemma subscribe_bluetooth_connections_free_request_wf: "wf_class subscribe_bluetooth_connections_free_request"
  by (simp add: subscribe_bluetooth_connections_free_request_def wf_class_def mk_field_simps)

lemma bluetooth_connections_free_response_wf: "wf_class bluetooth_connections_free_response"
  by (simp add: bluetooth_connections_free_response_def wf_class_def mk_field_simps)

lemma bluetooth_gatt_error_response_wf: "wf_class bluetooth_gatt_error_response"
  by (simp add: bluetooth_gatt_error_response_def wf_class_def mk_field_simps)

lemma bluetooth_gatt_write_response_wf: "wf_class bluetooth_gatt_write_response"
  by (simp add: bluetooth_gatt_write_response_def wf_class_def mk_field_simps)

lemma bluetooth_gatt_notify_response_wf: "wf_class bluetooth_gatt_notify_response"
  by (simp add: bluetooth_gatt_notify_response_def wf_class_def mk_field_simps)

lemma bluetooth_device_pairing_response_wf: "wf_class bluetooth_device_pairing_response"
  by (simp add: bluetooth_device_pairing_response_def wf_class_def mk_field_simps)

lemma bluetooth_device_unpairing_response_wf: "wf_class bluetooth_device_unpairing_response"
  by (simp add: bluetooth_device_unpairing_response_def wf_class_def mk_field_simps)

lemma unsubscribe_bluetooth_le_advertisements_request_wf: "wf_class unsubscribe_bluetooth_le_advertisements_request"
  by (simp add: unsubscribe_bluetooth_le_advertisements_request_def wf_class_def mk_field_simps)

lemma bluetooth_device_clear_cache_response_wf: "wf_class bluetooth_device_clear_cache_response"
  by (simp add: bluetooth_device_clear_cache_response_def wf_class_def mk_field_simps)

lemma bluetooth_scanner_state_response_wf: "wf_class bluetooth_scanner_state_response"
  by (simp add: bluetooth_scanner_state_response_def wf_class_def mk_field_simps)

lemma bluetooth_scanner_set_mode_request_wf: "wf_class bluetooth_scanner_set_mode_request"
  by (simp add: bluetooth_scanner_set_mode_request_def wf_class_def mk_field_simps)

lemma subscribe_voice_assistant_request_wf: "wf_class subscribe_voice_assistant_request"
  by (simp add: subscribe_voice_assistant_request_def wf_class_def mk_field_simps)

lemma voice_assistant_audio_settings_class_wf: "wf_class voice_assistant_audio_settings_class"
  by (simp add: voice_assistant_audio_settings_class_def wf_class_def mk_field_simps)

lemma voice_assistant_request_wf:
  "wf_class voice_assistant_request"
  using voice_assistant_audio_settings_class_wf by (simp add: voice_assistant_request_def wf_class_def mk_field_simps)

lemma voice_assistant_response_wf: "wf_class voice_assistant_response"
  by (simp add: voice_assistant_response_def wf_class_def mk_field_simps)

lemma voice_assistant_event_data_class_wf: "wf_class voice_assistant_event_data_class"
  by (simp add: voice_assistant_event_data_class_def wf_class_def mk_field_simps)

lemma voice_assistant_event_response_wf:
  "wf_class voice_assistant_event_response"
  using voice_assistant_event_data_class_wf by (simp add: voice_assistant_event_response_def wf_class_def mk_field_simps)

lemma voice_assistant_audio_wf: "wf_class voice_assistant_audio"
  by (simp add: voice_assistant_audio_def wf_class_def mk_field_simps)

lemma voice_assistant_timer_event_response_wf: "wf_class voice_assistant_timer_event_response"
  by (simp add: voice_assistant_timer_event_response_def wf_class_def mk_field_simps)

lemma voice_assistant_announce_request_wf: "wf_class voice_assistant_announce_request"
  by (simp add: voice_assistant_announce_request_def wf_class_def mk_field_simps)

lemma voice_assistant_announce_finished_wf: "wf_class voice_assistant_announce_finished"
  by (simp add: voice_assistant_announce_finished_def wf_class_def mk_field_simps)

lemma voice_assistant_wake_word_class_wf: "wf_class voice_assistant_wake_word_class"
  by (simp add: voice_assistant_wake_word_class_def wf_class_def mk_field_simps)

lemma voice_assistant_external_wake_word_class_wf: "wf_class voice_assistant_external_wake_word_class"
  by (simp add: voice_assistant_external_wake_word_class_def wf_class_def mk_field_simps)

lemma voice_assistant_configuration_request_wf:
  "wf_class voice_assistant_configuration_request"
  using voice_assistant_external_wake_word_class_wf by (simp add: voice_assistant_configuration_request_def wf_class_def mk_field_simps)

lemma voice_assistant_configuration_response_wf:
  "wf_class voice_assistant_configuration_response"
  using voice_assistant_wake_word_class_wf by (simp add: voice_assistant_configuration_response_def wf_class_def mk_field_simps)

lemma voice_assistant_set_configuration_wf: "wf_class voice_assistant_set_configuration"
  by (simp add: voice_assistant_set_configuration_def wf_class_def mk_field_simps)

lemma list_entities_alarm_control_panel_response_wf: "wf_class list_entities_alarm_control_panel_response"
  by (simp add: list_entities_alarm_control_panel_response_def wf_class_def mk_field_simps)

lemma alarm_control_panel_state_response_wf: "wf_class alarm_control_panel_state_response"
  by (simp add: alarm_control_panel_state_response_def wf_class_def mk_field_simps)

lemma alarm_control_panel_command_request_wf: "wf_class alarm_control_panel_command_request"
  by (simp add: alarm_control_panel_command_request_def wf_class_def mk_field_simps)

lemma list_entities_text_response_wf: "wf_class list_entities_text_response"
  by (simp add: list_entities_text_response_def wf_class_def mk_field_simps)

lemma text_state_response_wf: "wf_class text_state_response"
  by (simp add: text_state_response_def wf_class_def mk_field_simps)

lemma text_command_request_wf: "wf_class text_command_request"
  by (simp add: text_command_request_def wf_class_def mk_field_simps)

lemma list_entities_date_response_wf: "wf_class list_entities_date_response"
  by (simp add: list_entities_date_response_def wf_class_def mk_field_simps)

lemma date_state_response_wf: "wf_class date_state_response"
  by (simp add: date_state_response_def wf_class_def mk_field_simps)

lemma date_command_request_wf: "wf_class date_command_request"
  by (simp add: date_command_request_def wf_class_def mk_field_simps)

lemma list_entities_time_response_wf: "wf_class list_entities_time_response"
  by (simp add: list_entities_time_response_def wf_class_def mk_field_simps)

lemma time_state_response_wf: "wf_class time_state_response"
  by (simp add: time_state_response_def wf_class_def mk_field_simps)

lemma time_command_request_wf: "wf_class time_command_request"
  by (simp add: time_command_request_def wf_class_def mk_field_simps)

lemma list_entities_event_response_wf: "wf_class list_entities_event_response"
  by (simp add: list_entities_event_response_def wf_class_def mk_field_simps)

lemma event_response_wf: "wf_class event_response"
  by (simp add: event_response_def wf_class_def mk_field_simps)

lemma list_entities_valve_response_wf: "wf_class list_entities_valve_response"
  by (simp add: list_entities_valve_response_def wf_class_def mk_field_simps)

lemma valve_state_response_wf: "wf_class valve_state_response"
  by (simp add: valve_state_response_def wf_class_def mk_field_simps)

lemma valve_command_request_wf: "wf_class valve_command_request"
  by (simp add: valve_command_request_def wf_class_def mk_field_simps)

lemma list_entities_date_time_response_wf: "wf_class list_entities_date_time_response"
  by (simp add: list_entities_date_time_response_def wf_class_def mk_field_simps)

lemma date_time_state_response_wf: "wf_class date_time_state_response"
  by (simp add: date_time_state_response_def wf_class_def mk_field_simps)

lemma date_time_command_request_wf: "wf_class date_time_command_request"
  by (simp add: date_time_command_request_def wf_class_def mk_field_simps)

lemma list_entities_update_response_wf: "wf_class list_entities_update_response"
  by (simp add: list_entities_update_response_def wf_class_def mk_field_simps)

lemma update_state_response_wf: "wf_class update_state_response"
  by (simp add: update_state_response_def wf_class_def mk_field_simps)

lemma update_command_request_wf: "wf_class update_command_request"
  by (simp add: update_command_request_def wf_class_def mk_field_simps)

lemma z_wave_proxy_frame_wf: "wf_class z_wave_proxy_frame"
  by (simp add: z_wave_proxy_frame_def wf_class_def mk_field_simps)

lemma z_wave_proxy_request_wf: "wf_class z_wave_proxy_request"
  by (simp add: z_wave_proxy_request_def wf_class_def mk_field_simps)

lemma list_entities_infrared_response_wf: "wf_class list_entities_infrared_response"
  by (simp add: list_entities_infrared_response_def wf_class_def mk_field_simps)

lemma infrared_rf_transmit_raw_timings_request_wf: "wf_class infrared_rf_transmit_raw_timings_request"
  by (simp add: infrared_rf_transmit_raw_timings_request_def wf_class_def mk_field_simps)

lemma infrared_rf_receive_event_wf: "wf_class infrared_rf_receive_event"
  by (simp add: infrared_rf_receive_event_def wf_class_def mk_field_simps)

lemma list_entities_radio_frequency_response_wf: "wf_class list_entities_radio_frequency_response"
  by (simp add: list_entities_radio_frequency_response_def wf_class_def mk_field_simps)

lemma serial_proxy_configure_request_wf: "wf_class serial_proxy_configure_request"
  by (simp add: serial_proxy_configure_request_def wf_class_def mk_field_simps)

lemma serial_proxy_data_received_wf: "wf_class serial_proxy_data_received"
  by (simp add: serial_proxy_data_received_def wf_class_def mk_field_simps)

lemma serial_proxy_write_request_wf: "wf_class serial_proxy_write_request"
  by (simp add: serial_proxy_write_request_def wf_class_def mk_field_simps)

lemma serial_proxy_set_modem_pins_request_wf: "wf_class serial_proxy_set_modem_pins_request"
  by (simp add: serial_proxy_set_modem_pins_request_def wf_class_def mk_field_simps)

lemma serial_proxy_get_modem_pins_request_wf: "wf_class serial_proxy_get_modem_pins_request"
  by (simp add: serial_proxy_get_modem_pins_request_def wf_class_def mk_field_simps)

lemma serial_proxy_get_modem_pins_response_wf: "wf_class serial_proxy_get_modem_pins_response"
  by (simp add: serial_proxy_get_modem_pins_response_def wf_class_def mk_field_simps)

lemma serial_proxy_request_wf: "wf_class serial_proxy_request"
  by (simp add: serial_proxy_request_def wf_class_def mk_field_simps)

lemma serial_proxy_request_response_wf: "wf_class serial_proxy_request_response"
  by (simp add: serial_proxy_request_response_def wf_class_def mk_field_simps)

lemma bluetooth_set_connection_params_request_wf: "wf_class bluetooth_set_connection_params_request"
  by (simp add: bluetooth_set_connection_params_request_def wf_class_def mk_field_simps)

lemma bluetooth_set_connection_params_response_wf: "wf_class bluetooth_set_connection_params_response"
  by (simp add: bluetooth_set_connection_params_response_def wf_class_def mk_field_simps)

section \<open>The registry\<close>

datatype base_class = Plain_Class | Info_Class | State_Class

type_synonym schema_row = "u32 \<times> string \<times> base_class \<times> msg_class"

definition api_schema :: "schema_row list" where
  "api_schema =
    [(1, ''HelloRequest'', Plain_Class, hello_request),
     (2, ''HelloResponse'', Plain_Class, hello_response),
     (3, ''AuthenticationRequest'', Plain_Class, authentication_request),
     (4, ''AuthenticationResponse'', Plain_Class, authentication_response),
     (5, ''DisconnectRequest'', Plain_Class, disconnect_request),
     (6, ''DisconnectResponse'', Plain_Class, disconnect_response),
     (7, ''PingRequest'', Plain_Class, ping_request),
     (8, ''PingResponse'', Plain_Class, ping_response),
     (9, ''DeviceInfoRequest'', Plain_Class, device_info_request),
     (10, ''DeviceInfoResponse'', Plain_Class, device_info_response),
     (11, ''ListEntitiesRequest'', Plain_Class, list_entities_request),
     (12, ''ListEntitiesBinarySensorResponse'', Info_Class, list_entities_binary_sensor_response),
     (13, ''ListEntitiesCoverResponse'', Info_Class, list_entities_cover_response),
     (14, ''ListEntitiesFanResponse'', Info_Class, list_entities_fan_response),
     (15, ''ListEntitiesLightResponse'', Info_Class, list_entities_light_response),
     (16, ''ListEntitiesSensorResponse'', Info_Class, list_entities_sensor_response),
     (17, ''ListEntitiesSwitchResponse'', Info_Class, list_entities_switch_response),
     (18, ''ListEntitiesTextSensorResponse'', Info_Class, list_entities_text_sensor_response),
     (19, ''ListEntitiesDoneResponse'', Plain_Class, list_entities_done_response),
     (20, ''SubscribeStatesRequest'', Plain_Class, subscribe_states_request),
     (21, ''BinarySensorStateResponse'', State_Class, binary_sensor_state_response),
     (22, ''CoverStateResponse'', State_Class, cover_state_response),
     (23, ''FanStateResponse'', State_Class, fan_state_response),
     (24, ''LightStateResponse'', State_Class, light_state_response),
     (25, ''SensorStateResponse'', State_Class, sensor_state_response),
     (26, ''SwitchStateResponse'', State_Class, switch_state_response),
     (27, ''TextSensorStateResponse'', State_Class, text_sensor_state_response),
     (28, ''SubscribeLogsRequest'', Plain_Class, subscribe_logs_request),
     (29, ''SubscribeLogsResponse'', Plain_Class, subscribe_logs_response),
     (30, ''CoverCommandRequest'', Plain_Class, cover_command_request),
     (31, ''FanCommandRequest'', Plain_Class, fan_command_request),
     (32, ''LightCommandRequest'', Plain_Class, light_command_request),
     (33, ''SwitchCommandRequest'', Plain_Class, switch_command_request),
     (34, ''SubscribeHomeassistantServicesRequest'', Plain_Class, subscribe_homeassistant_services_request),
     (35, ''HomeassistantActionRequest'', Plain_Class, homeassistant_action_request),
     (36, ''GetTimeRequest'', Plain_Class, get_time_request),
     (37, ''GetTimeResponse'', Plain_Class, get_time_response),
     (38, ''SubscribeHomeAssistantStatesRequest'', Plain_Class, subscribe_home_assistant_states_request),
     (39, ''SubscribeHomeAssistantStateResponse'', Plain_Class, subscribe_home_assistant_state_response),
     (40, ''HomeAssistantStateResponse'', Plain_Class, home_assistant_state_response),
     (41, ''ListEntitiesServicesResponse'', Plain_Class, list_entities_services_response),
     (42, ''ExecuteServiceRequest'', Plain_Class, execute_service_request),
     (43, ''ListEntitiesCameraResponse'', Info_Class, list_entities_camera_response),
     (44, ''CameraImageResponse'', State_Class, camera_image_response),
     (45, ''CameraImageRequest'', Plain_Class, camera_image_request),
     (46, ''ListEntitiesClimateResponse'', Info_Class, list_entities_climate_response),
     (47, ''ClimateStateResponse'', State_Class, climate_state_response),
     (48, ''ClimateCommandRequest'', Plain_Class, climate_command_request),
     (49, ''ListEntitiesNumberResponse'', Info_Class, list_entities_number_response),
     (50, ''NumberStateResponse'', State_Class, number_state_response),
     (51, ''NumberCommandRequest'', Plain_Class, number_command_request),
     (52, ''ListEntitiesSelectResponse'', Info_Class, list_entities_select_response),
     (53, ''SelectStateResponse'', State_Class, select_state_response),
     (54, ''SelectCommandRequest'', Plain_Class, select_command_request),
     (55, ''ListEntitiesSirenResponse'', Info_Class, list_entities_siren_response),
     (56, ''SirenStateResponse'', State_Class, siren_state_response),
     (57, ''SirenCommandRequest'', Plain_Class, siren_command_request),
     (58, ''ListEntitiesLockResponse'', Info_Class, list_entities_lock_response),
     (59, ''LockStateResponse'', State_Class, lock_state_response),
     (60, ''LockCommandRequest'', Plain_Class, lock_command_request),
     (61, ''ListEntitiesButtonResponse'', Info_Class, list_entities_button_response),
     (62, ''ButtonCommandRequest'', Plain_Class, button_command_request),
     (63, ''ListEntitiesMediaPlayerResponse'', Info_Class, list_entities_media_player_response),
     (64, ''MediaPlayerStateResponse'', State_Class, media_player_state_response),
     (65, ''MediaPlayerCommandRequest'', Plain_Class, media_player_command_request),
     (66, ''SubscribeBluetoothLEAdvertisementsRequest'', Plain_Class, subscribe_bluetooth_le_advertisements_request),
     (67, ''BluetoothLEAdvertisementResponse'', Plain_Class, bluetooth_le_advertisement_response),
     (68, ''BluetoothDeviceRequest'', Plain_Class, bluetooth_device_request),
     (69, ''BluetoothDeviceConnectionResponse'', Plain_Class, bluetooth_device_connection_response),
     (70, ''BluetoothGATTGetServicesRequest'', Plain_Class, bluetooth_gatt_get_services_request),
     (71, ''BluetoothGATTGetServicesResponse'', Plain_Class, bluetooth_gatt_get_services_response),
     (72, ''BluetoothGATTGetServicesDoneResponse'', Plain_Class, bluetooth_gatt_get_services_done_response),
     (73, ''BluetoothGATTReadRequest'', Plain_Class, bluetooth_gatt_read_request),
     (74, ''BluetoothGATTReadResponse'', Plain_Class, bluetooth_gatt_read_response),
     (75, ''BluetoothGATTWriteRequest'', Plain_Class, bluetooth_gatt_write_request),
     (76, ''BluetoothGATTReadDescriptorRequest'', Plain_Class, bluetooth_gatt_read_descriptor_request),
     (77, ''BluetoothGATTWriteDescriptorRequest'', Plain_Class, bluetooth_gatt_write_descriptor_request),
     (78, ''BluetoothGATTNotifyRequest'', Plain_Class, bluetooth_gatt_notify_request),
     (79, ''BluetoothGATTNotifyDataResponse'', Plain_Class, bluetooth_gatt_notify_data_response),
     (80, ''SubscribeBluetoothConnectionsFreeRequest'', Plain_Class, subscribe_bluetooth_connections_free_request),
     (81, ''BluetoothConnectionsFreeResponse'', Plain_Class, bluetooth_connections_free_response),
     (82, ''BluetoothGATTErrorResponse'', Plain_Class, bluetooth_gatt_error_response),
     (83, ''BluetoothGATTWriteResponse'', Plain_Class, bluetooth_gatt_write_response),
     (84, ''BluetoothGATTNotifyResponse'', Plain_Class, bluetooth_gatt_notify_response),
     (85, ''BluetoothDevicePairingResponse'', Plain_Class, bluetooth_device_pairing_response),
     (86, ''BluetoothDeviceUnpairingResponse'', Plain_Class, bluetooth_device_unpairing_response),
     (87, ''UnsubscribeBluetoothLEAdvertisementsRequest'', Plain_Class, unsubscribe_bluetooth_le_advertisements_request),
     (88, ''BluetoothDeviceClearCacheResponse'', Plain_Class, bluetooth_device_clear_cache_response),
     (89, ''SubscribeVoiceAssistantRequest'', Plain_Class, subscribe_voice_assistant_request),
     (90, ''VoiceAssistantRequest'', Plain_Class, voice_assistant_request),
     (91, ''VoiceAssistantResponse'', Plain_Class, voice_assistant_response),
     (92, ''VoiceAssistantEventResponse'', Plain_Class, voice_assistant_event_response),
     (93, ''BluetoothLERawAdvertisementsResponse'', Plain_Class, bluetooth_le_raw_advertisements_response),
     (94, ''ListEntitiesAlarmControlPanelResponse'', Info_Class, list_entities_alarm_control_panel_response),
     (95, ''AlarmControlPanelStateResponse'', State_Class, alarm_control_panel_state_response),
     (96, ''AlarmControlPanelCommandRequest'', Plain_Class, alarm_control_panel_command_request),
     (97, ''ListEntitiesTextResponse'', Info_Class, list_entities_text_response),
     (98, ''TextStateResponse'', State_Class, text_state_response),
     (99, ''TextCommandRequest'', Plain_Class, text_command_request),
     (100, ''ListEntitiesDateResponse'', Info_Class, list_entities_date_response),
     (101, ''DateStateResponse'', State_Class, date_state_response),
     (102, ''DateCommandRequest'', Plain_Class, date_command_request),
     (103, ''ListEntitiesTimeResponse'', Info_Class, list_entities_time_response),
     (104, ''TimeStateResponse'', State_Class, time_state_response),
     (105, ''TimeCommandRequest'', Plain_Class, time_command_request),
     (106, ''VoiceAssistantAudio'', Plain_Class, voice_assistant_audio),
     (107, ''ListEntitiesEventResponse'', Info_Class, list_entities_event_response),
     (108, ''EventResponse'', State_Class, event_response),
     (109, ''ListEntitiesValveResponse'', Info_Class, list_entities_valve_response),
     (110, ''ValveStateResponse'', State_Class, valve_state_response),
     (111, ''ValveCommandRequest'', Plain_Class, valve_command_request),
     (112, ''ListEntitiesDateTimeResponse'', Info_Class, list_entities_date_time_response),
     (113, ''DateTimeStateResponse'', State_Class, date_time_state_response),
     (114, ''DateTimeCommandRequest'', Plain_Class, date_time_command_request),
     (115, ''VoiceAssistantTimerEventResponse'', Plain_Class, voice_assistant_timer_event_response),
     (116, ''ListEntitiesUpdateResponse'', Info_Class, list_entities_update_response),
     (117, ''UpdateStateResponse'', State_Class, update_state_response),
     (118, ''UpdateCommandRequest'', Plain_Class, update_command_request),
     (119, ''VoiceAssistantAnnounceRequest'', Plain_Class, voice_assistant_announce_request),
     (120, ''VoiceAssistantAnnounceFinished'', Plain_Class, voice_assistant_announce_finished),
     (121, ''VoiceAssistantConfigurationRequest'', Plain_Class, voice_assistant_configuration_request),
     (122, ''VoiceAssistantConfigurationResponse'', Plain_Class, voice_assistant_configuration_response),
     (123, ''VoiceAssistantSetConfiguration'', Plain_Class, voice_assistant_set_configuration),
     (124, ''NoiseEncryptionSetKeyRequest'', Plain_Class, noise_encryption_set_key_request),
     (125, ''NoiseEncryptionSetKeyResponse'', Plain_Class, noise_encryption_set_key_response),
     (126, ''BluetoothScannerStateResponse'', Plain_Class, bluetooth_scanner_state_response),
     (127, ''BluetoothScannerSetModeRequest'', Plain_Class, bluetooth_scanner_set_mode_request),
     (128, ''ZWaveProxyFrame'', Plain_Class, z_wave_proxy_frame),
     (129, ''ZWaveProxyRequest'', Plain_Class, z_wave_proxy_request),
     (130, ''HomeassistantActionResponse'', Plain_Class, homeassistant_action_response),
     (131, ''ExecuteServiceResponse'', Plain_Class, execute_service_response),
     (132, ''ListEntitiesWaterHeaterResponse'', Info_Class, list_entities_water_heater_response),
     (133, ''WaterHeaterStateResponse'', State_Class, water_heater_state_response),
     (134, ''WaterHeaterCommandRequest'', Plain_Class, water_heater_command_request),
     (135, ''ListEntitiesInfraredResponse'', Info_Class, list_entities_infrared_response),
     (136, ''InfraredRFTransmitRawTimingsRequest'', Plain_Class, infrared_rf_transmit_raw_timings_request),
     (137, ''InfraredRFReceiveEvent'', Plain_Class, infrared_rf_receive_event),
     (138, ''SerialProxyConfigureRequest'', Plain_Class, serial_proxy_configure_request),
     (139, ''SerialProxyDataReceived'', Plain_Class, serial_proxy_data_received),
     (140, ''SerialProxyWriteRequest'', Plain_Class, serial_proxy_write_request),
     (141, ''SerialProxySetModemPinsRequest'', Plain_Class, serial_proxy_set_modem_pins_request),
     (142, ''SerialProxyGetModemPinsRequest'', Plain_Class, serial_proxy_get_modem_pins_request),
     (143, ''SerialProxyGetModemPinsResponse'', Plain_Class, serial_proxy_get_modem_pins_response),
     (144, ''SerialProxyRequest'', Plain_Class, serial_proxy_request),
     (145, ''BluetoothSetConnectionParamsRequest'', Plain_Class, bluetooth_set_connection_params_request),
     (146, ''BluetoothSetConnectionParamsResponse'', Plain_Class, bluetooth_set_connection_params_response),
     (147, ''SerialProxyRequestResponse'', Plain_Class, serial_proxy_request_response),
     (148, ''ListEntitiesRadioFrequencyResponse'', Info_Class, list_entities_radio_frequency_response)]"

definition schema_row :: "u32 \<Rightarrow> schema_row option" where
  "schema_row i = map_option (Pair i) (map_of api_schema i)"

lemma api_schema_sorted: "sorted_wrt (<) (map (unat \<circ> fst) api_schema)"
proof -
  have "successively (<) (map (unat \<circ> fst) api_schema)" by (simp add: api_schema_def)
  then show ?thesis by (subst successively_iff_sorted_wrt_strong [symmetric]) auto
qed

lemma api_schema_distinct: "distinct (map fst api_schema)"
proof -
  have "distinct (map (unat \<circ> fst) api_schema)"
    using api_schema_sorted strict_sorted_iff by blast
  then show ?thesis by (metis distinct_map map_map)
qed

lemma schema_row_iff: "schema_row i = Some r \<longleftrightarrow> r \<in> set api_schema \<and> fst r = i"
  using map_of_eq_Some_iff [OF api_schema_distinct] by (cases r) (auto simp: schema_row_def)

lemma api_schema_wf: "r \<in> set api_schema \<Longrightarrow> wf_class (snd (snd (snd r)))"
  by (auto simp: api_schema_def hello_request_wf hello_response_wf authentication_request_wf authentication_response_wf
    disconnect_request_wf disconnect_response_wf ping_request_wf ping_response_wf
    device_info_request_wf device_info_response_wf list_entities_request_wf list_entities_binary_sensor_response_wf
    list_entities_cover_response_wf list_entities_fan_response_wf list_entities_light_response_wf list_entities_sensor_response_wf
    list_entities_switch_response_wf list_entities_text_sensor_response_wf list_entities_done_response_wf subscribe_states_request_wf
    binary_sensor_state_response_wf cover_state_response_wf fan_state_response_wf light_state_response_wf
    sensor_state_response_wf switch_state_response_wf text_sensor_state_response_wf subscribe_logs_request_wf
    subscribe_logs_response_wf cover_command_request_wf fan_command_request_wf light_command_request_wf
    switch_command_request_wf subscribe_homeassistant_services_request_wf homeassistant_action_request_wf get_time_request_wf
    get_time_response_wf subscribe_home_assistant_states_request_wf subscribe_home_assistant_state_response_wf home_assistant_state_response_wf
    list_entities_services_response_wf execute_service_request_wf list_entities_camera_response_wf camera_image_response_wf
    camera_image_request_wf list_entities_climate_response_wf climate_state_response_wf climate_command_request_wf
    list_entities_number_response_wf number_state_response_wf number_command_request_wf list_entities_select_response_wf
    select_state_response_wf select_command_request_wf list_entities_siren_response_wf siren_state_response_wf
    siren_command_request_wf list_entities_lock_response_wf lock_state_response_wf lock_command_request_wf
    list_entities_button_response_wf button_command_request_wf list_entities_media_player_response_wf media_player_state_response_wf
    media_player_command_request_wf subscribe_bluetooth_le_advertisements_request_wf bluetooth_le_advertisement_response_wf bluetooth_device_request_wf
    bluetooth_device_connection_response_wf bluetooth_gatt_get_services_request_wf bluetooth_gatt_get_services_response_wf bluetooth_gatt_get_services_done_response_wf
    bluetooth_gatt_read_request_wf bluetooth_gatt_read_response_wf bluetooth_gatt_write_request_wf bluetooth_gatt_read_descriptor_request_wf
    bluetooth_gatt_write_descriptor_request_wf bluetooth_gatt_notify_request_wf bluetooth_gatt_notify_data_response_wf subscribe_bluetooth_connections_free_request_wf
    bluetooth_connections_free_response_wf bluetooth_gatt_error_response_wf bluetooth_gatt_write_response_wf bluetooth_gatt_notify_response_wf
    bluetooth_device_pairing_response_wf bluetooth_device_unpairing_response_wf unsubscribe_bluetooth_le_advertisements_request_wf bluetooth_device_clear_cache_response_wf
    subscribe_voice_assistant_request_wf voice_assistant_request_wf voice_assistant_response_wf voice_assistant_event_response_wf
    bluetooth_le_raw_advertisements_response_wf list_entities_alarm_control_panel_response_wf alarm_control_panel_state_response_wf alarm_control_panel_command_request_wf
    list_entities_text_response_wf text_state_response_wf text_command_request_wf list_entities_date_response_wf
    date_state_response_wf date_command_request_wf list_entities_time_response_wf time_state_response_wf
    time_command_request_wf voice_assistant_audio_wf list_entities_event_response_wf event_response_wf
    list_entities_valve_response_wf valve_state_response_wf valve_command_request_wf list_entities_date_time_response_wf
    date_time_state_response_wf date_time_command_request_wf voice_assistant_timer_event_response_wf list_entities_update_response_wf
    update_state_response_wf update_command_request_wf voice_assistant_announce_request_wf voice_assistant_announce_finished_wf
    voice_assistant_configuration_request_wf voice_assistant_configuration_response_wf voice_assistant_set_configuration_wf noise_encryption_set_key_request_wf
    noise_encryption_set_key_response_wf bluetooth_scanner_state_response_wf bluetooth_scanner_set_mode_request_wf z_wave_proxy_frame_wf
    z_wave_proxy_request_wf homeassistant_action_response_wf execute_service_response_wf list_entities_water_heater_response_wf
    water_heater_state_response_wf water_heater_command_request_wf list_entities_infrared_response_wf infrared_rf_transmit_raw_timings_request_wf
    infrared_rf_receive_event_wf serial_proxy_configure_request_wf serial_proxy_data_received_wf serial_proxy_write_request_wf
    serial_proxy_set_modem_pins_request_wf serial_proxy_get_modem_pins_request_wf serial_proxy_get_modem_pins_response_wf serial_proxy_request_wf
    bluetooth_set_connection_params_request_wf bluetooth_set_connection_params_response_wf serial_proxy_request_response_wf list_entities_radio_frequency_response_wf)

end
