(* ===== verification/Api_Objects.thy ===== *)
theory Api_Objects
  imports Api_Schema Connection_Props
begin

text \<open>
  The generated message layer as the connection uses it: objects of the classes of \<open>api_schema\<close>, the registry of
  \<^verbatim>\<open>src/proto/message_registry.cpp\<close> over the emitted \<^verbatim>\<open>create_message\<close>, and the messages that the connection itself
  builds and reads.  This is the instance of the connection's parameter that the program runs with.
\<close>

section \<open>Objects\<close>

datatype api_object = Api_Object (obj_id: u32) (obj_fields: message)

definition obj_class :: "api_object \<Rightarrow> msg_class" where
  "obj_class x = (case schema_row (obj_id x) of None \<Rightarrow> [] | Some (_, _, _, cls) \<Rightarrow> cls)"

definition obj_name :: "api_object \<Rightarrow> string" where
  "obj_name x = (case schema_row (obj_id x) of None \<Rightarrow> [] | Some (_, n, _, _) \<Rightarrow> n)"

definition obj_base :: "api_object \<Rightarrow> base_class" where
  "obj_base x = (case schema_row (obj_id x) of None \<Rightarrow> Plain_Class | Some (_, _, b, _) \<Rightarrow> b)"

definition registry_create :: "u32 \<Rightarrow> api_object option" where
  "registry_create i = map_option (\<lambda>(_, _, _, cls). Api_Object i (new_message cls)) (schema_row i)"

definition object_parse :: "u32 \<Rightarrow> bytes \<Rightarrow> api_object option" where
  "object_parse i payload =
     (case registry_create i of
        None \<Rightarrow> None
      | Some x \<Rightarrow> map_option (Api_Object i) (ParseFromArray (obj_class x) payload (int (length payload)) (obj_fields x)))"

section \<open>The connection's own messages\<close>

definition hello_object :: "string \<Rightarrow> nat \<Rightarrow> nat \<Rightarrow> api_object" where
  "hello_object info major minor =
     Api_Object 1
       (let hello = new_message hello_request;
            hello = set_m hello_request ''client_info'' (Str info) hello;
            hello = set_m hello_request ''api_version_major'' (W32 (of_nat major)) hello
        in set_m hello_request ''api_version_minor'' (W32 (of_nat minor)) hello)"

definition auth_object :: "string option \<Rightarrow> api_object" where
  "auth_object pw =
     Api_Object 3
       (let auth = new_message authentication_request
        in case pw of None \<Rightarrow> auth | Some p \<Rightarrow> set_m authentication_request ''password'' (Str p) auth)"

definition hello_fields :: "api_object \<Rightarrow> u32 \<times> u32 \<times> string \<times> string" where
  "hello_fields x =
     (as_w32 (get_m hello_response ''api_version_major'' (obj_fields x)),
      as_w32 (get_m hello_response ''api_version_minor'' (obj_fields x)),
      as_str (get_m hello_response ''server_info'' (obj_fields x)),
      as_str (get_m hello_response ''name'' (obj_fields x)))"

definition api_registry :: "api_object registry" where
  "api_registry =
     \<lparr>rg_contains = (\<lambda>i. schema_row i \<noteq> None),
      rg_parse = object_parse,
      rg_id = obj_id,
      rg_size = (\<lambda>x. ByteSizeLong (obj_class x) (obj_fields x)),
      rg_encode = (\<lambda>x. SerializeAsString (obj_class x) (obj_fields x)),
      rg_hello_request = hello_object,
      rg_auth_request = auth_object,
      rg_disconnect_request = Api_Object 5 (new_message disconnect_request),
      rg_disconnect_response = Api_Object 6 (new_message disconnect_response),
      rg_ping_request = Api_Object 7 (new_message ping_request),
      rg_ping_response = Api_Object 8 (new_message ping_response),
      rg_hello_response = hello_fields,
      rg_invalid_password = (\<lambda>x. as_bool (get_m authentication_response ''invalid_password'' (obj_fields x)))\<rparr>"

section \<open>Objects on the wire\<close>

definition wire :: "api_object \<Rightarrow> u32 \<times> bytes" where
  "wire x = (obj_id x, SerializeAsString (obj_class x) (obj_fields x))"

definition well_typed :: "api_object \<Rightarrow> bool" where
  "well_typed x \<longleftrightarrow> schema_row (obj_id x) \<noteq> None \<and> typed (obj_class x) (obj_fields x)"

text \<open>What the receiver holds of an object that was sent.\<close>

definition received_object :: "api_object \<Rightarrow> api_object" where
  "received_object x = Api_Object (obj_id x) (normalise (obj_class x) (obj_fields x))"

lemma obj_received [simp]:
  "obj_id (received_object x) = obj_id x" "obj_class (received_object x) = obj_class x"
  "obj_name (received_object x) = obj_name x" "obj_base (received_object x) = obj_base x"
  "obj_fields (received_object x) = normalise (obj_class x) (obj_fields x)"
  by (simp_all add: received_object_def obj_class_def obj_name_def obj_base_def)

lemma fst_wire [simp]: "fst (wire x) = obj_id x"
  by (simp add: wire_def)

lemma obj_class_wf: "schema_row (obj_id x) \<noteq> None \<Longrightarrow> wf_class (obj_class x)"
  using api_schema_wf [of "the (schema_row (obj_id x))"] schema_row_iff [of "obj_id x" "the (schema_row (obj_id x))"]
  by (auto simp: obj_class_def)

lemma serialised_size: "well_typed x \<Longrightarrow> length (SerializeAsString (obj_class x) (obj_fields x)) = ByteSizeLong (obj_class x) (obj_fields x)"
  using calculate_size_exact_all(1) [of "obj_class x" "obj_fields x"]
  by (simp add: well_typed_def SerializeAsString_def ByteSizeLong_def)

lemma parse_wire:
  assumes "well_typed x" "length (snd (wire x)) < 2 ^ 31"
  shows "object_parse (obj_id x) (snd (wire x)) = Some (received_object x)"
proof -
  have s: "length (snd (wire x)) = ByteSizeLong (obj_class x) (obj_fields x)"
    using serialised_size [OF assms(1)] by (simp add: wire_def)
  then have "transported (obj_class x) (obj_fields x) = Some (normalise (obj_class x) (obj_fields x))"
    using assms obj_class_wf by (intro transported_normalise) (auto simp: well_typed_def)
  moreover have "registry_create (obj_id x) = Some (Api_Object (obj_id x) (new_message (obj_class x)))"
    using assms(1) by (auto simp: registry_create_def well_typed_def obj_class_def)
  moreover have "obj_class (Api_Object (obj_id x) m) = obj_class x" for m by (simp add: obj_class_def)
  ultimately show ?thesis
    using s by (simp add: object_parse_def transported_def wire_def received_object_def)
qed

lemma wire_app_message:
  assumes "well_typed x" "\<not> internal_id (obj_id x)" "length (snd (wire x)) < 2 ^ 31"
  shows "app_message api_registry (wire x)"
  using parse_wire [OF assms(1,3)] assms(2) by (simp add: app_message_def api_registry_def)

text \<open>What the handlers of a connection see of an object.\<close>

lemma dispatched_wire:
  assumes "well_typed x" "length (snd (wire x)) < 2 ^ 31"
  shows "dispatched api_registry c (wire x) =
     (if c_raw_handler c then [Eff_raw (obj_id x) (snd (wire x))] else []) @
     (if unat (obj_id x) < length (c_handlers c) \<and> c_handlers c ! unat (obj_id x)
      then [Eff_message (obj_id x) (received_object x)] else []) @
     (if c_any_handler c then [Eff_any (received_object x)] else [])"
  using parse_wire [OF assms] assms(1) by (simp add: dispatched_def api_registry_def well_typed_def)

text \<open>What a connection writes for an object: one frame.\<close>

lemma send_object:
  assumes "well_typed x" "ByteSizeLong (obj_class x) (obj_fields x) < 2 ^ 31"
  shows "send api_registry x c = (None, send_raw (obj_id x) (snd (wire x)) c)"
proof -
  have "SerializeAsString (obj_class x) (obj_fields x) = []" if "ByteSizeLong (obj_class x) (obj_fields x) = 0"
    using serialised_size [OF assms(1)] that by simp
  then show ?thesis
    using assms serialised_size [OF assms(1)] by (simp add: send_def serialize_def api_registry_def wire_def Let_def)
qed

section \<open>Streams of objects\<close>

text \<open>Chunks of bytes that carry messages to a frame helper, in plaintext or from a peer in step with its cipher.\<close>

definition carries :: "frame_helper \<Rightarrow> bytes list \<Rightarrow> (u32 \<times> bytes) list \<Rightarrow> bool" where
  "carries fh cs ms \<longleftrightarrow>
     (case fh of
        FHPlain st \<Rightarrow> plain_holds () st [] \<and> list_all plain_ok ms \<and>
          concat cs = concat (map (\<lambda>m. plain_encode (fst m) (snd m) []) ms)
      | FHNoise st \<Rightarrow> list_all noise_ok ms \<and>
          (\<exists>dev dev'. noise_holds dev st [] \<and> encode_all noise_enc dev ms = (concat cs, dev')))"

lemma carries_receive:
  assumes "carries fh cs ms"
  obtains fh' where "receive fh_feed fh_nxt (Suc (length ms)) cs fh = (ms, None, fh')" "handshake_done fh"
proof (cases fh)
  case (FHPlain st)
  then show ?thesis using assms plain_received [of st ms cs] that by (auto simp: carries_def)
next
  case (FHNoise st)
  then show ?thesis using assms noise_received [of _ st ms cs] that by (auto simp: carries_def noise_holds_def)
qed

lemma carries_short: "carries fh cs ms \<Longrightarrow> m \<in> set ms \<Longrightarrow> length (snd m) < 2 ^ 31"
  by (cases fh) (fastforce simp: carries_def list_all_iff plain_ok_def noise_ok_def max_frame_payload_def)+

end
