(* ===== verification/Entity_Commands.thy ===== *)
theory Entity_Commands
  imports Api_Schema
begin

text \<open>
  The commands of the 19 controllable entities: the structs of \<^verbatim>\<open>include/esphome/api/model/entities\<close>, the overloads
  of \<^verbatim>\<open>to_message\<close> in \<^verbatim>\<open>src/model/entities\<close>, and the senders of \<^verbatim>\<open>src/commands/command_builder.cpp\<close>.  Floats are
  bit patterns, mirrored enumerations their 32-bit values.  For each command there is the reader of the
  receiving side, which follows the comments of \<^verbatim>\<open>proto/api.proto\<close>: a field with a \<^verbatim>\<open>has_\<close> flag counts only when
  the flag is set.
\<close>

section \<open>Switch\<close>

record SwitchCommand =
  swtc_key :: "u32"
  swtc_state :: "bool"

definition new_SwitchCommand :: SwitchCommand where
  "new_SwitchCommand =
     \<lparr>swtc_key = 0, swtc_state = False\<rparr>"

definition switch_to_message :: "SwitchCommand \<Rightarrow> message" where
  "switch_to_message cmd =
     (let msg = new_message switch_command_request;
          msg = set_m switch_command_request ''key'' (W32 (swtc_key cmd)) msg
      in set_m switch_command_request ''state'' (B (swtc_state cmd)) msg)"

definition read_switch_command :: "message \<Rightarrow> SwitchCommand" where
  "read_switch_command msg =
     \<lparr>swtc_key = as_w32 (get_m switch_command_request ''key'' msg),
      swtc_state = as_bool (get_m switch_command_request ''state'' msg)\<rparr>"

lemma switch_command_request_types [simp]:
  "single_type switch_command_request ''key'' = Some FFixed32"
  "single_type switch_command_request ''state'' = Some FBool"
  "single_type switch_command_request ''device_id'' = Some FUint32"
  by (simp_all add: switch_command_request_def class_types)

lemma typed_switch_to_message: "typed switch_command_request (switch_to_message c)"
  by (simp add: switch_to_message_def Let_def typed_writes)

lemma read_switch_to_message:
  "read_switch_command (normalise switch_command_request (switch_to_message c)) = c"
  by (simp add: read_switch_command_def get_wire [OF typed_switch_to_message] get_opt_wire [OF typed_switch_to_message])
    (cases c, simp add: switch_to_message_def Let_def option.map_ident)

section \<open>Button\<close>

record ButtonCommand =
  btnc_key :: "u32"

definition new_ButtonCommand :: ButtonCommand where
  "new_ButtonCommand =
     \<lparr>btnc_key = 0\<rparr>"

definition button_to_message :: "ButtonCommand \<Rightarrow> message" where
  "button_to_message cmd =
     (let msg = new_message button_command_request
      in set_m button_command_request ''key'' (W32 (btnc_key cmd)) msg)"

definition read_button_command :: "message \<Rightarrow> ButtonCommand" where
  "read_button_command msg =
     \<lparr>btnc_key = as_w32 (get_m button_command_request ''key'' msg)\<rparr>"

lemma button_command_request_types [simp]:
  "single_type button_command_request ''key'' = Some FFixed32"
  "single_type button_command_request ''device_id'' = Some FUint32"
  by (simp_all add: button_command_request_def class_types)

lemma typed_button_to_message: "typed button_command_request (button_to_message c)"
  by (simp add: button_to_message_def Let_def typed_writes)

lemma read_button_to_message:
  "read_button_command (normalise button_command_request (button_to_message c)) = c"
  by (simp add: read_button_command_def get_wire [OF typed_button_to_message] get_opt_wire [OF typed_button_to_message])
    (cases c, simp add: button_to_message_def Let_def option.map_ident)

section \<open>Number\<close>

record NumberCommand =
  numc_key :: "u32"
  numc_state :: "u32"

definition new_NumberCommand :: NumberCommand where
  "new_NumberCommand =
     \<lparr>numc_key = 0, numc_state = 0\<rparr>"

definition number_to_message :: "NumberCommand \<Rightarrow> message" where
  "number_to_message cmd =
     (let msg = new_message number_command_request;
          msg = set_m number_command_request ''key'' (W32 (numc_key cmd)) msg
      in set_m number_command_request ''state'' (W32 (numc_state cmd)) msg)"

definition read_number_command :: "message \<Rightarrow> NumberCommand" where
  "read_number_command msg =
     \<lparr>numc_key = as_w32 (get_m number_command_request ''key'' msg),
      numc_state = as_w32 (get_m number_command_request ''state'' msg)\<rparr>"

definition settle_NumberCommand :: "NumberCommand \<Rightarrow> NumberCommand" where
  "settle_NumberCommand c =
     c\<lparr>numc_state := unsigned_zero (numc_state c)\<rparr>"

lemma number_command_request_types [simp]:
  "single_type number_command_request ''key'' = Some FFixed32"
  "single_type number_command_request ''state'' = Some FFloat"
  "single_type number_command_request ''device_id'' = Some FUint32"
  by (simp_all add: number_command_request_def class_types)

lemma typed_number_to_message: "typed number_command_request (number_to_message c)"
  by (simp add: number_to_message_def Let_def typed_writes)

lemma read_number_to_message:
  "read_number_command (normalise number_command_request (number_to_message c)) = settle_NumberCommand c"
  by (simp add: read_number_command_def get_wire [OF typed_number_to_message] get_opt_wire [OF typed_number_to_message])
    (cases c, simp add: number_to_message_def Let_def option.map_ident settle_NumberCommand_def)

section \<open>Select\<close>

record SelectCommand =
  selc_key :: "u32"
  selc_state :: "string"

definition new_SelectCommand :: SelectCommand where
  "new_SelectCommand =
     \<lparr>selc_key = 0, selc_state = []\<rparr>"

definition select_to_message :: "SelectCommand \<Rightarrow> message" where
  "select_to_message cmd =
     (let msg = new_message select_command_request;
          msg = set_m select_command_request ''key'' (W32 (selc_key cmd)) msg
      in set_m select_command_request ''state'' (Str (selc_state cmd)) msg)"

definition read_select_command :: "message \<Rightarrow> SelectCommand" where
  "read_select_command msg =
     \<lparr>selc_key = as_w32 (get_m select_command_request ''key'' msg),
      selc_state = as_str (get_m select_command_request ''state'' msg)\<rparr>"

lemma select_command_request_types [simp]:
  "single_type select_command_request ''key'' = Some FFixed32"
  "single_type select_command_request ''state'' = Some FString"
  "single_type select_command_request ''device_id'' = Some FUint32"
  by (simp_all add: select_command_request_def class_types)

lemma typed_select_to_message: "typed select_command_request (select_to_message c)"
  by (simp add: select_to_message_def Let_def typed_writes)

lemma read_select_to_message:
  "read_select_command (normalise select_command_request (select_to_message c)) = c"
  by (simp add: read_select_command_def get_wire [OF typed_select_to_message] get_opt_wire [OF typed_select_to_message])
    (cases c, simp add: select_to_message_def Let_def option.map_ident)

section \<open>Text\<close>

record TextCommand =
  txtc_key :: "u32"
  txtc_state :: "string"

definition new_TextCommand :: TextCommand where
  "new_TextCommand =
     \<lparr>txtc_key = 0, txtc_state = []\<rparr>"

definition text_to_message :: "TextCommand \<Rightarrow> message" where
  "text_to_message cmd =
     (let msg = new_message text_command_request;
          msg = set_m text_command_request ''key'' (W32 (txtc_key cmd)) msg
      in set_m text_command_request ''state'' (Str (txtc_state cmd)) msg)"

definition read_text_command :: "message \<Rightarrow> TextCommand" where
  "read_text_command msg =
     \<lparr>txtc_key = as_w32 (get_m text_command_request ''key'' msg),
      txtc_state = as_str (get_m text_command_request ''state'' msg)\<rparr>"

lemma text_command_request_types [simp]:
  "single_type text_command_request ''key'' = Some FFixed32"
  "single_type text_command_request ''state'' = Some FString"
  "single_type text_command_request ''device_id'' = Some FUint32"
  by (simp_all add: text_command_request_def class_types)

lemma typed_text_to_message: "typed text_command_request (text_to_message c)"
  by (simp add: text_to_message_def Let_def typed_writes)

lemma read_text_to_message:
  "read_text_command (normalise text_command_request (text_to_message c)) = c"
  by (simp add: read_text_command_def get_wire [OF typed_text_to_message] get_opt_wire [OF typed_text_to_message])
    (cases c, simp add: text_to_message_def Let_def option.map_ident)

section \<open>Light\<close>

record LightRgb =
  rgb_red :: "u32"
  rgb_green :: "u32"
  rgb_blue :: "u32"

record LightCommand =
  lgtc_key :: "u32"
  lgtc_state :: "bool option"
  lgtc_brightness :: "u32 option"
  lgtc_color_mode :: "u32 option"
  lgtc_color_brightness :: "u32 option"
  lgtc_rgb :: "LightRgb option"
  lgtc_white :: "u32 option"
  lgtc_color_temperature :: "u32 option"
  lgtc_cold_white :: "u32 option"
  lgtc_warm_white :: "u32 option"
  lgtc_transition_length :: "u32 option"
  lgtc_flash_length :: "u32 option"
  lgtc_effect :: "string option"

definition new_LightCommand :: LightCommand where
  "new_LightCommand =
     \<lparr>lgtc_key = 0, lgtc_state = None, lgtc_brightness = None, lgtc_color_mode = None,
      lgtc_color_brightness = None, lgtc_rgb = None, lgtc_white = None, lgtc_color_temperature = None,
      lgtc_cold_white = None, lgtc_warm_white = None, lgtc_transition_length = None, lgtc_flash_length = None,
      lgtc_effect = None\<rparr>"

definition set_rgb_block :: "LightRgb option \<Rightarrow> message \<Rightarrow> message" where
  "set_rgb_block rgb msg =
     (case rgb of
        None \<Rightarrow> msg
      | Some c \<Rightarrow>
          let msg = set_m light_command_request ''has_rgb'' (B True) msg;
              msg = set_m light_command_request ''red'' (W32 (rgb_red c)) msg;
              msg = set_m light_command_request ''green'' (W32 (rgb_green c)) msg
          in set_m light_command_request ''blue'' (W32 (rgb_blue c)) msg)"

definition light_to_message :: "LightCommand \<Rightarrow> message" where
  "light_to_message cmd =
     (let msg = new_message light_command_request;
          msg = set_m light_command_request ''key'' (W32 (lgtc_key cmd)) msg;
          msg = set_opt light_command_request ''state'' B (lgtc_state cmd) msg;
          msg = set_opt light_command_request ''brightness'' W32 (lgtc_brightness cmd) msg;
          msg = set_opt light_command_request ''color_mode'' W32 (lgtc_color_mode cmd) msg;
          msg = set_opt light_command_request ''color_brightness'' W32 (lgtc_color_brightness cmd) msg;
          msg = set_rgb_block (lgtc_rgb cmd) msg;
          msg = set_opt light_command_request ''white'' W32 (lgtc_white cmd) msg;
          msg = set_opt light_command_request ''color_temperature'' W32 (lgtc_color_temperature cmd) msg;
          msg = set_opt light_command_request ''cold_white'' W32 (lgtc_cold_white cmd) msg;
          msg = set_opt light_command_request ''warm_white'' W32 (lgtc_warm_white cmd) msg;
          msg = set_opt light_command_request ''transition_length'' W32 (lgtc_transition_length cmd) msg;
          msg = set_opt light_command_request ''flash_length'' W32 (lgtc_flash_length cmd) msg
      in set_opt light_command_request ''effect'' Str (lgtc_effect cmd) msg)"

definition read_light_command :: "message \<Rightarrow> LightCommand" where
  "read_light_command msg =
     \<lparr>lgtc_key = as_w32 (get_m light_command_request ''key'' msg),
      lgtc_state = get_opt light_command_request ''state'' as_bool msg,
      lgtc_brightness = get_opt light_command_request ''brightness'' as_w32 msg,
      lgtc_color_mode = get_opt light_command_request ''color_mode'' as_w32 msg,
      lgtc_color_brightness = get_opt light_command_request ''color_brightness'' as_w32 msg,
      lgtc_rgb = (if as_bool (get_m light_command_request ''has_rgb'' msg)
         then Some \<lparr>rgb_red = as_w32 (get_m light_command_request ''red'' msg),
           rgb_green = as_w32 (get_m light_command_request ''green'' msg),
           rgb_blue = as_w32 (get_m light_command_request ''blue'' msg)\<rparr>
         else None),
      lgtc_white = get_opt light_command_request ''white'' as_w32 msg,
      lgtc_color_temperature = get_opt light_command_request ''color_temperature'' as_w32 msg,
      lgtc_cold_white = get_opt light_command_request ''cold_white'' as_w32 msg,
      lgtc_warm_white = get_opt light_command_request ''warm_white'' as_w32 msg,
      lgtc_transition_length = get_opt light_command_request ''transition_length'' as_w32 msg,
      lgtc_flash_length = get_opt light_command_request ''flash_length'' as_w32 msg,
      lgtc_effect = get_opt light_command_request ''effect'' as_str msg\<rparr>"

definition settle_rgb :: "LightRgb \<Rightarrow> LightRgb" where
  "settle_rgb c = \<lparr>rgb_red = unsigned_zero (rgb_red c), rgb_green = unsigned_zero (rgb_green c), rgb_blue = unsigned_zero (rgb_blue c)\<rparr>"

definition settle_LightCommand :: "LightCommand \<Rightarrow> LightCommand" where
  "settle_LightCommand c =
     c\<lparr>lgtc_brightness := map_option unsigned_zero (lgtc_brightness c),
       lgtc_color_brightness := map_option unsigned_zero (lgtc_color_brightness c),
       lgtc_rgb := map_option settle_rgb (lgtc_rgb c),
       lgtc_white := map_option unsigned_zero (lgtc_white c),
       lgtc_color_temperature := map_option unsigned_zero (lgtc_color_temperature c),
       lgtc_cold_white := map_option unsigned_zero (lgtc_cold_white c),
       lgtc_warm_white := map_option unsigned_zero (lgtc_warm_white c)\<rparr>"

lemma light_command_request_types [simp]:
  "single_type light_command_request ''key'' = Some FFixed32"
  "single_type light_command_request ''has_state'' = Some FBool"
  "single_type light_command_request ''state'' = Some FBool"
  "single_type light_command_request ''has_brightness'' = Some FBool"
  "single_type light_command_request ''brightness'' = Some FFloat"
  "single_type light_command_request ''has_rgb'' = Some FBool"
  "single_type light_command_request ''red'' = Some FFloat"
  "single_type light_command_request ''green'' = Some FFloat"
  "single_type light_command_request ''blue'' = Some FFloat"
  "single_type light_command_request ''has_white'' = Some FBool"
  "single_type light_command_request ''white'' = Some FFloat"
  "single_type light_command_request ''has_color_temperature'' = Some FBool"
  "single_type light_command_request ''color_temperature'' = Some FFloat"
  "single_type light_command_request ''has_transition_length'' = Some FBool"
  "single_type light_command_request ''transition_length'' = Some FUint32"
  "single_type light_command_request ''has_flash_length'' = Some FBool"
  "single_type light_command_request ''flash_length'' = Some FUint32"
  "single_type light_command_request ''has_effect'' = Some FBool"
  "single_type light_command_request ''effect'' = Some FString"
  "single_type light_command_request ''has_color_brightness'' = Some FBool"
  "single_type light_command_request ''color_brightness'' = Some FFloat"
  "single_type light_command_request ''has_color_mode'' = Some FBool"
  "single_type light_command_request ''color_mode'' = Some FEnum"
  "single_type light_command_request ''has_cold_white'' = Some FBool"
  "single_type light_command_request ''cold_white'' = Some FFloat"
  "single_type light_command_request ''has_warm_white'' = Some FBool"
  "single_type light_command_request ''warm_white'' = Some FFloat"
  "single_type light_command_request ''device_id'' = Some FUint32"
  by (simp_all add: light_command_request_def class_types)

lemma length_rgb_block [simp]: "length (set_rgb_block rgb m) = length m"
  by (simp add: set_rgb_block_def Let_def split: option.splits)

lemma get_rgb_block_other [simp]:
  assumes "n \<notin> {''has_rgb'', ''red'', ''green'', ''blue''}"
  shows "get_m light_command_request n (set_rgb_block rgb m) = get_m light_command_request n m"
  using assms by (simp add: set_rgb_block_def Let_def split: option.splits)

lemma get_opt_rgb_block_other [simp]:
  assumes "n \<notin> {''has_rgb'', ''red'', ''green'', ''blue''}" "''has_'' @ n \<notin> {''has_rgb'', ''red'', ''green'', ''blue''}"
  shows "get_opt light_command_request n u (set_rgb_block rgb m) = get_opt light_command_request n u m"
  unfolding get_opt_def get_rgb_block_other [OF assms(1)] get_rgb_block_other [OF assms(2)] ..

lemma typed_rgb_block:
  "typed light_command_request m \<Longrightarrow> typed light_command_request (set_rgb_block rgb m)"
  by (simp add: set_rgb_block_def Let_def typed_writes split: option.splits)

lemma typed_light_to_message: "typed light_command_request (light_to_message c)"
  by (simp add: light_to_message_def Let_def typed_writes typed_rgb_block)

lemma read_light_to_message:
  "read_light_command (normalise light_command_request (light_to_message c)) = settle_LightCommand c"
  by (simp add: read_light_command_def get_wire [OF typed_light_to_message] get_opt_wire [OF typed_light_to_message])
    (cases c, simp add: light_to_message_def Let_def option.map_ident settle_LightCommand_def settle_rgb_def set_rgb_block_def split: option.splits)

section \<open>Fan\<close>

record FanCommand =
  fanc_key :: "u32"
  fanc_state :: "bool option"
  fanc_oscillating :: "bool option"
  fanc_direction :: "u32 option"
  fanc_speed_level :: "u32 option"
  fanc_preset_mode :: "string option"

definition new_FanCommand :: FanCommand where
  "new_FanCommand =
     \<lparr>fanc_key = 0, fanc_state = None, fanc_oscillating = None, fanc_direction = None, fanc_speed_level = None,
      fanc_preset_mode = None\<rparr>"

definition fan_to_message :: "FanCommand \<Rightarrow> message" where
  "fan_to_message cmd =
     (let msg = new_message fan_command_request;
          msg = set_m fan_command_request ''key'' (W32 (fanc_key cmd)) msg;
          msg = set_opt fan_command_request ''state'' B (fanc_state cmd) msg;
          msg = set_opt fan_command_request ''oscillating'' B (fanc_oscillating cmd) msg;
          msg = set_opt fan_command_request ''direction'' W32 (fanc_direction cmd) msg;
          msg = set_opt fan_command_request ''speed_level'' W32 (fanc_speed_level cmd) msg
      in set_opt fan_command_request ''preset_mode'' Str (fanc_preset_mode cmd) msg)"

definition read_fan_command :: "message \<Rightarrow> FanCommand" where
  "read_fan_command msg =
     \<lparr>fanc_key = as_w32 (get_m fan_command_request ''key'' msg),
      fanc_state = get_opt fan_command_request ''state'' as_bool msg,
      fanc_oscillating = get_opt fan_command_request ''oscillating'' as_bool msg,
      fanc_direction = get_opt fan_command_request ''direction'' as_w32 msg,
      fanc_speed_level = get_opt fan_command_request ''speed_level'' as_w32 msg,
      fanc_preset_mode = get_opt fan_command_request ''preset_mode'' as_str msg\<rparr>"

lemma fan_command_request_types [simp]:
  "single_type fan_command_request ''key'' = Some FFixed32"
  "single_type fan_command_request ''has_state'' = Some FBool"
  "single_type fan_command_request ''state'' = Some FBool"
  "single_type fan_command_request ''has_speed'' = Some FBool"
  "single_type fan_command_request ''speed'' = Some FEnum"
  "single_type fan_command_request ''has_oscillating'' = Some FBool"
  "single_type fan_command_request ''oscillating'' = Some FBool"
  "single_type fan_command_request ''has_direction'' = Some FBool"
  "single_type fan_command_request ''direction'' = Some FEnum"
  "single_type fan_command_request ''has_speed_level'' = Some FBool"
  "single_type fan_command_request ''speed_level'' = Some FInt32"
  "single_type fan_command_request ''has_preset_mode'' = Some FBool"
  "single_type fan_command_request ''preset_mode'' = Some FString"
  "single_type fan_command_request ''device_id'' = Some FUint32"
  by (simp_all add: fan_command_request_def class_types)

lemma typed_fan_to_message: "typed fan_command_request (fan_to_message c)"
  by (simp add: fan_to_message_def Let_def typed_writes)

lemma read_fan_to_message:
  "read_fan_command (normalise fan_command_request (fan_to_message c)) = c"
  by (simp add: read_fan_command_def get_wire [OF typed_fan_to_message] get_opt_wire [OF typed_fan_to_message])
    (cases c, simp add: fan_to_message_def Let_def option.map_ident)

section \<open>Cover\<close>

record CoverCommand =
  covc_key :: "u32"
  covc_position :: "u32 option"
  covc_tilt :: "u32 option"
  covc_stop :: "bool"

definition new_CoverCommand :: CoverCommand where
  "new_CoverCommand =
     \<lparr>covc_key = 0, covc_position = None, covc_tilt = None, covc_stop = False\<rparr>"

definition cover_to_message :: "CoverCommand \<Rightarrow> message" where
  "cover_to_message cmd =
     (let msg = new_message cover_command_request;
          msg = set_m cover_command_request ''key'' (W32 (covc_key cmd)) msg;
          msg = set_opt cover_command_request ''position'' W32 (covc_position cmd) msg;
          msg = set_opt cover_command_request ''tilt'' W32 (covc_tilt cmd) msg
      in set_m cover_command_request ''stop'' (B (covc_stop cmd)) msg)"

definition read_cover_command :: "message \<Rightarrow> CoverCommand" where
  "read_cover_command msg =
     \<lparr>covc_key = as_w32 (get_m cover_command_request ''key'' msg),
      covc_position = get_opt cover_command_request ''position'' as_w32 msg,
      covc_tilt = get_opt cover_command_request ''tilt'' as_w32 msg,
      covc_stop = as_bool (get_m cover_command_request ''stop'' msg)\<rparr>"

definition settle_CoverCommand :: "CoverCommand \<Rightarrow> CoverCommand" where
  "settle_CoverCommand c =
     c\<lparr>covc_position := map_option unsigned_zero (covc_position c),
       covc_tilt := map_option unsigned_zero (covc_tilt c)\<rparr>"

lemma cover_command_request_types [simp]:
  "single_type cover_command_request ''key'' = Some FFixed32"
  "single_type cover_command_request ''has_legacy_command'' = Some FBool"
  "single_type cover_command_request ''legacy_command'' = Some FEnum"
  "single_type cover_command_request ''has_position'' = Some FBool"
  "single_type cover_command_request ''position'' = Some FFloat"
  "single_type cover_command_request ''has_tilt'' = Some FBool"
  "single_type cover_command_request ''tilt'' = Some FFloat"
  "single_type cover_command_request ''stop'' = Some FBool"
  "single_type cover_command_request ''device_id'' = Some FUint32"
  by (simp_all add: cover_command_request_def class_types)

lemma typed_cover_to_message: "typed cover_command_request (cover_to_message c)"
  by (simp add: cover_to_message_def Let_def typed_writes)

lemma read_cover_to_message:
  "read_cover_command (normalise cover_command_request (cover_to_message c)) = settle_CoverCommand c"
  by (simp add: read_cover_command_def get_wire [OF typed_cover_to_message] get_opt_wire [OF typed_cover_to_message])
    (cases c, simp add: cover_to_message_def Let_def option.map_ident settle_CoverCommand_def)

section \<open>Valve\<close>

record ValveCommand =
  vlvc_key :: "u32"
  vlvc_position :: "u32 option"
  vlvc_stop :: "bool"

definition new_ValveCommand :: ValveCommand where
  "new_ValveCommand =
     \<lparr>vlvc_key = 0, vlvc_position = None, vlvc_stop = False\<rparr>"

definition valve_to_message :: "ValveCommand \<Rightarrow> message" where
  "valve_to_message cmd =
     (let msg = new_message valve_command_request;
          msg = set_m valve_command_request ''key'' (W32 (vlvc_key cmd)) msg;
          msg = set_opt valve_command_request ''position'' W32 (vlvc_position cmd) msg
      in set_m valve_command_request ''stop'' (B (vlvc_stop cmd)) msg)"

definition read_valve_command :: "message \<Rightarrow> ValveCommand" where
  "read_valve_command msg =
     \<lparr>vlvc_key = as_w32 (get_m valve_command_request ''key'' msg),
      vlvc_position = get_opt valve_command_request ''position'' as_w32 msg,
      vlvc_stop = as_bool (get_m valve_command_request ''stop'' msg)\<rparr>"

definition settle_ValveCommand :: "ValveCommand \<Rightarrow> ValveCommand" where
  "settle_ValveCommand c =
     c\<lparr>vlvc_position := map_option unsigned_zero (vlvc_position c)\<rparr>"

lemma valve_command_request_types [simp]:
  "single_type valve_command_request ''key'' = Some FFixed32"
  "single_type valve_command_request ''has_position'' = Some FBool"
  "single_type valve_command_request ''position'' = Some FFloat"
  "single_type valve_command_request ''stop'' = Some FBool"
  "single_type valve_command_request ''device_id'' = Some FUint32"
  by (simp_all add: valve_command_request_def class_types)

lemma typed_valve_to_message: "typed valve_command_request (valve_to_message c)"
  by (simp add: valve_to_message_def Let_def typed_writes)

lemma read_valve_to_message:
  "read_valve_command (normalise valve_command_request (valve_to_message c)) = settle_ValveCommand c"
  by (simp add: read_valve_command_def get_wire [OF typed_valve_to_message] get_opt_wire [OF typed_valve_to_message])
    (cases c, simp add: valve_to_message_def Let_def option.map_ident settle_ValveCommand_def)

section \<open>Lock\<close>

record LockCommandData =
  lckc_key :: "u32"
  lckc_command :: "u32"
  lckc_code :: "string option"

definition new_LockCommandData :: LockCommandData where
  "new_LockCommandData =
     \<lparr>lckc_key = 0, lckc_command = 0, lckc_code = None\<rparr>"

definition lock_to_message :: "LockCommandData \<Rightarrow> message" where
  "lock_to_message cmd =
     (let msg = new_message lock_command_request;
          msg = set_m lock_command_request ''key'' (W32 (lckc_key cmd)) msg;
          msg = set_m lock_command_request ''command'' (W32 (lckc_command cmd)) msg
      in set_opt lock_command_request ''code'' Str (lckc_code cmd) msg)"

definition read_lock_command :: "message \<Rightarrow> LockCommandData" where
  "read_lock_command msg =
     \<lparr>lckc_key = as_w32 (get_m lock_command_request ''key'' msg),
      lckc_command = as_w32 (get_m lock_command_request ''command'' msg),
      lckc_code = get_opt lock_command_request ''code'' as_str msg\<rparr>"

lemma lock_command_request_types [simp]:
  "single_type lock_command_request ''key'' = Some FFixed32"
  "single_type lock_command_request ''command'' = Some FEnum"
  "single_type lock_command_request ''has_code'' = Some FBool"
  "single_type lock_command_request ''code'' = Some FString"
  "single_type lock_command_request ''device_id'' = Some FUint32"
  by (simp_all add: lock_command_request_def class_types)

lemma typed_lock_to_message: "typed lock_command_request (lock_to_message c)"
  by (simp add: lock_to_message_def Let_def typed_writes)

lemma read_lock_to_message:
  "read_lock_command (normalise lock_command_request (lock_to_message c)) = c"
  by (simp add: read_lock_command_def get_wire [OF typed_lock_to_message] get_opt_wire [OF typed_lock_to_message])
    (cases c, simp add: lock_to_message_def Let_def option.map_ident)

section \<open>Siren\<close>

record SirenCommand =
  srnc_key :: "u32"
  srnc_state :: "bool option"
  srnc_tone :: "string option"
  srnc_duration :: "u32 option"
  srnc_volume :: "u32 option"

definition new_SirenCommand :: SirenCommand where
  "new_SirenCommand =
     \<lparr>srnc_key = 0, srnc_state = None, srnc_tone = None, srnc_duration = None, srnc_volume = None\<rparr>"

definition siren_to_message :: "SirenCommand \<Rightarrow> message" where
  "siren_to_message cmd =
     (let msg = new_message siren_command_request;
          msg = set_m siren_command_request ''key'' (W32 (srnc_key cmd)) msg;
          msg = set_opt siren_command_request ''state'' B (srnc_state cmd) msg;
          msg = set_opt siren_command_request ''tone'' Str (srnc_tone cmd) msg;
          msg = set_opt siren_command_request ''duration'' W32 (srnc_duration cmd) msg
      in set_opt siren_command_request ''volume'' W32 (srnc_volume cmd) msg)"

definition read_siren_command :: "message \<Rightarrow> SirenCommand" where
  "read_siren_command msg =
     \<lparr>srnc_key = as_w32 (get_m siren_command_request ''key'' msg),
      srnc_state = get_opt siren_command_request ''state'' as_bool msg,
      srnc_tone = get_opt siren_command_request ''tone'' as_str msg,
      srnc_duration = get_opt siren_command_request ''duration'' as_w32 msg,
      srnc_volume = get_opt siren_command_request ''volume'' as_w32 msg\<rparr>"

definition settle_SirenCommand :: "SirenCommand \<Rightarrow> SirenCommand" where
  "settle_SirenCommand c =
     c\<lparr>srnc_volume := map_option unsigned_zero (srnc_volume c)\<rparr>"

lemma siren_command_request_types [simp]:
  "single_type siren_command_request ''key'' = Some FFixed32"
  "single_type siren_command_request ''has_state'' = Some FBool"
  "single_type siren_command_request ''state'' = Some FBool"
  "single_type siren_command_request ''has_tone'' = Some FBool"
  "single_type siren_command_request ''tone'' = Some FString"
  "single_type siren_command_request ''has_duration'' = Some FBool"
  "single_type siren_command_request ''duration'' = Some FUint32"
  "single_type siren_command_request ''has_volume'' = Some FBool"
  "single_type siren_command_request ''volume'' = Some FFloat"
  "single_type siren_command_request ''device_id'' = Some FUint32"
  by (simp_all add: siren_command_request_def class_types)

lemma typed_siren_to_message: "typed siren_command_request (siren_to_message c)"
  by (simp add: siren_to_message_def Let_def typed_writes)

lemma read_siren_to_message:
  "read_siren_command (normalise siren_command_request (siren_to_message c)) = settle_SirenCommand c"
  by (simp add: read_siren_command_def get_wire [OF typed_siren_to_message] get_opt_wire [OF typed_siren_to_message])
    (cases c, simp add: siren_to_message_def Let_def option.map_ident settle_SirenCommand_def)

section \<open>Climate\<close>

record ClimateCommand =
  clmc_key :: "u32"
  clmc_mode :: "u32 option"
  clmc_target_temperature :: "u32 option"
  clmc_target_temperature_low :: "u32 option"
  clmc_target_temperature_high :: "u32 option"
  clmc_fan_mode :: "u32 option"
  clmc_swing_mode :: "u32 option"
  clmc_custom_fan_mode :: "string option"
  clmc_preset :: "u32 option"
  clmc_custom_preset :: "string option"
  clmc_target_humidity :: "u32 option"

definition new_ClimateCommand :: ClimateCommand where
  "new_ClimateCommand =
     \<lparr>clmc_key = 0, clmc_mode = None, clmc_target_temperature = None, clmc_target_temperature_low = None,
      clmc_target_temperature_high = None, clmc_fan_mode = None, clmc_swing_mode = None,
      clmc_custom_fan_mode = None, clmc_preset = None, clmc_custom_preset = None, clmc_target_humidity = None\<rparr>"

definition climate_to_message :: "ClimateCommand \<Rightarrow> message" where
  "climate_to_message cmd =
     (let msg = new_message climate_command_request;
          msg = set_m climate_command_request ''key'' (W32 (clmc_key cmd)) msg;
          msg = set_opt climate_command_request ''mode'' W32 (clmc_mode cmd) msg;
          msg = set_opt climate_command_request ''target_temperature'' W32 (clmc_target_temperature cmd) msg;
          msg = set_opt climate_command_request ''target_temperature_low'' W32 (clmc_target_temperature_low cmd) msg;
          msg = set_opt climate_command_request ''target_temperature_high'' W32 (clmc_target_temperature_high cmd) msg;
          msg = set_opt climate_command_request ''fan_mode'' W32 (clmc_fan_mode cmd) msg;
          msg = set_opt climate_command_request ''swing_mode'' W32 (clmc_swing_mode cmd) msg;
          msg = set_opt climate_command_request ''custom_fan_mode'' Str (clmc_custom_fan_mode cmd) msg;
          msg = set_opt climate_command_request ''preset'' W32 (clmc_preset cmd) msg;
          msg = set_opt climate_command_request ''custom_preset'' Str (clmc_custom_preset cmd) msg
      in set_opt climate_command_request ''target_humidity'' W32 (clmc_target_humidity cmd) msg)"

definition read_climate_command :: "message \<Rightarrow> ClimateCommand" where
  "read_climate_command msg =
     \<lparr>clmc_key = as_w32 (get_m climate_command_request ''key'' msg),
      clmc_mode = get_opt climate_command_request ''mode'' as_w32 msg,
      clmc_target_temperature = get_opt climate_command_request ''target_temperature'' as_w32 msg,
      clmc_target_temperature_low = get_opt climate_command_request ''target_temperature_low'' as_w32 msg,
      clmc_target_temperature_high = get_opt climate_command_request ''target_temperature_high'' as_w32 msg,
      clmc_fan_mode = get_opt climate_command_request ''fan_mode'' as_w32 msg,
      clmc_swing_mode = get_opt climate_command_request ''swing_mode'' as_w32 msg,
      clmc_custom_fan_mode = get_opt climate_command_request ''custom_fan_mode'' as_str msg,
      clmc_preset = get_opt climate_command_request ''preset'' as_w32 msg,
      clmc_custom_preset = get_opt climate_command_request ''custom_preset'' as_str msg,
      clmc_target_humidity = get_opt climate_command_request ''target_humidity'' as_w32 msg\<rparr>"

definition settle_ClimateCommand :: "ClimateCommand \<Rightarrow> ClimateCommand" where
  "settle_ClimateCommand c =
     c\<lparr>clmc_target_temperature := map_option unsigned_zero (clmc_target_temperature c),
       clmc_target_temperature_low := map_option unsigned_zero (clmc_target_temperature_low c),
       clmc_target_temperature_high := map_option unsigned_zero (clmc_target_temperature_high c),
       clmc_target_humidity := map_option unsigned_zero (clmc_target_humidity c)\<rparr>"

lemma climate_command_request_types [simp]:
  "single_type climate_command_request ''key'' = Some FFixed32"
  "single_type climate_command_request ''has_mode'' = Some FBool"
  "single_type climate_command_request ''mode'' = Some FEnum"
  "single_type climate_command_request ''has_target_temperature'' = Some FBool"
  "single_type climate_command_request ''target_temperature'' = Some FFloat"
  "single_type climate_command_request ''has_target_temperature_low'' = Some FBool"
  "single_type climate_command_request ''target_temperature_low'' = Some FFloat"
  "single_type climate_command_request ''has_target_temperature_high'' = Some FBool"
  "single_type climate_command_request ''target_temperature_high'' = Some FFloat"
  "single_type climate_command_request ''unused_has_legacy_away'' = Some FBool"
  "single_type climate_command_request ''unused_legacy_away'' = Some FBool"
  "single_type climate_command_request ''has_fan_mode'' = Some FBool"
  "single_type climate_command_request ''fan_mode'' = Some FEnum"
  "single_type climate_command_request ''has_swing_mode'' = Some FBool"
  "single_type climate_command_request ''swing_mode'' = Some FEnum"
  "single_type climate_command_request ''has_custom_fan_mode'' = Some FBool"
  "single_type climate_command_request ''custom_fan_mode'' = Some FString"
  "single_type climate_command_request ''has_preset'' = Some FBool"
  "single_type climate_command_request ''preset'' = Some FEnum"
  "single_type climate_command_request ''has_custom_preset'' = Some FBool"
  "single_type climate_command_request ''custom_preset'' = Some FString"
  "single_type climate_command_request ''has_target_humidity'' = Some FBool"
  "single_type climate_command_request ''target_humidity'' = Some FFloat"
  "single_type climate_command_request ''device_id'' = Some FUint32"
  by (simp_all add: climate_command_request_def class_types)

lemma typed_climate_to_message: "typed climate_command_request (climate_to_message c)"
  by (simp add: climate_to_message_def Let_def typed_writes)

lemma read_climate_to_message:
  "read_climate_command (normalise climate_command_request (climate_to_message c)) = settle_ClimateCommand c"
  by (simp add: read_climate_command_def get_wire [OF typed_climate_to_message] get_opt_wire [OF typed_climate_to_message])
    (cases c, simp add: climate_to_message_def Let_def option.map_ident settle_ClimateCommand_def)

section \<open>Water heater\<close>

record WaterHeaterCommand =
  whtc_key :: "u32"
  whtc_mode :: "u32 option"
  whtc_target_temperature :: "u32 option"
  whtc_target_temperature_low :: "u32 option"
  whtc_target_temperature_high :: "u32 option"
  whtc_on_state :: "bool option"
  whtc_away_state :: "bool option"

definition new_WaterHeaterCommand :: WaterHeaterCommand where
  "new_WaterHeaterCommand =
     \<lparr>whtc_key = 0, whtc_mode = None, whtc_target_temperature = None, whtc_target_temperature_low = None,
      whtc_target_temperature_high = None, whtc_on_state = None, whtc_away_state = None\<rparr>"

text \<open>The bits of \<^verbatim>\<open>enum WaterHeaterCommandHasField\<close>.\<close>

definition water_heater_has_fields :: "WaterHeaterCommand \<Rightarrow> u32" where
  "water_heater_has_fields cmd =
     (let h = 0;
          h = (if whtc_mode cmd \<noteq> None then h OR 1 else h);
          h = (if whtc_target_temperature cmd \<noteq> None then h OR 2 else h);
          h = (if whtc_target_temperature_low cmd \<noteq> None then h OR 8 else h);
          h = (if whtc_target_temperature_high cmd \<noteq> None then h OR 16 else h);
          h = (if whtc_on_state cmd \<noteq> None then h OR 32 else h);
          h = (if whtc_away_state cmd \<noteq> None then h OR 64 else h)
      in h)"

definition water_heater_state_bits :: "WaterHeaterCommand \<Rightarrow> u32" where
  "water_heater_state_bits cmd =
     (let s = 0;
          s = (if whtc_on_state cmd = Some True then s OR 2 else s);
          s = (if whtc_away_state cmd = Some True then s OR 1 else s)
      in s)"

definition set_some :: "string \<Rightarrow> u32 option \<Rightarrow> message \<Rightarrow> message" where
  "set_some n x m = (case x of None \<Rightarrow> m | Some v \<Rightarrow> set_m water_heater_command_request n (W32 v) m)"

definition water_heater_to_message :: "WaterHeaterCommand \<Rightarrow> message" where
  "water_heater_to_message cmd =
     (let msg = new_message water_heater_command_request;
          msg = set_m water_heater_command_request ''key'' (W32 (whtc_key cmd)) msg;
          msg = set_some ''mode'' (whtc_mode cmd) msg;
          msg = set_some ''target_temperature'' (whtc_target_temperature cmd) msg;
          msg = set_some ''target_temperature_low'' (whtc_target_temperature_low cmd) msg;
          msg = set_some ''target_temperature_high'' (whtc_target_temperature_high cmd) msg;
          msg = set_m water_heater_command_request ''has_fields'' (W32 (water_heater_has_fields cmd)) msg
      in set_m water_heater_command_request ''state'' (W32 (water_heater_state_bits cmd)) msg)"

definition read_some :: "u32 \<Rightarrow> (elem \<Rightarrow> 'a) \<Rightarrow> string \<Rightarrow> message \<Rightarrow> 'a option" where
  "read_some b u n msg =
     (if as_w32 (get_m water_heater_command_request ''has_fields'' msg) AND b \<noteq> 0
      then Some (u (get_m water_heater_command_request n msg)) else None)"

definition read_water_heater_command :: "message \<Rightarrow> WaterHeaterCommand" where
  "read_water_heater_command msg =
     \<lparr>whtc_key = as_w32 (get_m water_heater_command_request ''key'' msg),
      whtc_mode = read_some 1 as_w32 ''mode'' msg,
      whtc_target_temperature = read_some 2 as_w32 ''target_temperature'' msg,
      whtc_target_temperature_low = read_some 8 as_w32 ''target_temperature_low'' msg,
      whtc_target_temperature_high = read_some 16 as_w32 ''target_temperature_high'' msg,
      whtc_on_state = read_some 32 (\<lambda>v. as_w32 v AND 2 \<noteq> 0) ''state'' msg,
      whtc_away_state = read_some 64 (\<lambda>v. as_w32 v AND 1 \<noteq> 0) ''state'' msg\<rparr>"

definition settle_WaterHeaterCommand :: "WaterHeaterCommand \<Rightarrow> WaterHeaterCommand" where
  "settle_WaterHeaterCommand c =
     c\<lparr>whtc_target_temperature := map_option unsigned_zero (whtc_target_temperature c),
       whtc_target_temperature_low := map_option unsigned_zero (whtc_target_temperature_low c),
       whtc_target_temperature_high := map_option unsigned_zero (whtc_target_temperature_high c)\<rparr>"

lemma water_heater_command_request_types [simp]:
  "single_type water_heater_command_request ''key'' = Some FFixed32"
  "single_type water_heater_command_request ''has_fields'' = Some FUint32"
  "single_type water_heater_command_request ''mode'' = Some FEnum"
  "single_type water_heater_command_request ''target_temperature'' = Some FFloat"
  "single_type water_heater_command_request ''device_id'' = Some FUint32"
  "single_type water_heater_command_request ''state'' = Some FUint32"
  "single_type water_heater_command_request ''target_temperature_low'' = Some FFloat"
  "single_type water_heater_command_request ''target_temperature_high'' = Some FFloat"
  by (simp_all add: water_heater_command_request_def class_types)

lemma length_set_some [simp]: "length (set_some n x m) = length m"
  by (simp add: set_some_def split: option.splits)

lemma get_set_some [simp]:
  "length m = length water_heater_command_request \<Longrightarrow> single_type water_heater_command_request n \<noteq> None \<Longrightarrow>
   get_m water_heater_command_request n (set_some n x m) =
     (case x of None \<Rightarrow> get_m water_heater_command_request n m | Some v \<Rightarrow> W32 v)"
  "n \<noteq> n' \<Longrightarrow> get_m water_heater_command_request n (set_some n' x m) = get_m water_heater_command_request n m"
  by (simp_all add: set_some_def split: option.splits)

lemma typed_set_some:
  "typed water_heater_command_request m \<Longrightarrow> (\<And>v. single_ok water_heater_command_request n (W32 v)) \<Longrightarrow>
   typed water_heater_command_request (set_some n x m)"
  by (simp add: set_some_def typed_set_simp split: option.splits)

lemma water_heater_bits:
  "water_heater_has_fields c AND 1 \<noteq> 0 \<longleftrightarrow> whtc_mode c \<noteq> None"
  "water_heater_has_fields c AND 2 \<noteq> 0 \<longleftrightarrow> whtc_target_temperature c \<noteq> None"
  "water_heater_has_fields c AND 8 \<noteq> 0 \<longleftrightarrow> whtc_target_temperature_low c \<noteq> None"
  "water_heater_has_fields c AND 16 \<noteq> 0 \<longleftrightarrow> whtc_target_temperature_high c \<noteq> None"
  "water_heater_has_fields c AND 32 \<noteq> 0 \<longleftrightarrow> whtc_on_state c \<noteq> None"
  "water_heater_has_fields c AND 64 \<noteq> 0 \<longleftrightarrow> whtc_away_state c \<noteq> None"
  "water_heater_state_bits c AND 2 \<noteq> 0 \<longleftrightarrow> whtc_on_state c = Some True"
  "water_heater_state_bits c AND 1 \<noteq> 0 \<longleftrightarrow> whtc_away_state c = Some True"
  by (simp_all add: water_heater_has_fields_def water_heater_state_bits_def Let_def)

lemma typed_water_heater_to_message: "typed water_heater_command_request (water_heater_to_message c)"
  by (simp add: water_heater_to_message_def Let_def typed_writes typed_set_some)

lemma water_heater_message_fields:
  "get_m water_heater_command_request ''has_fields'' (water_heater_to_message c) = W32 (water_heater_has_fields c)"
  "get_m water_heater_command_request ''state'' (water_heater_to_message c) = W32 (water_heater_state_bits c)"
  "get_m water_heater_command_request ''key'' (water_heater_to_message c) = W32 (whtc_key c)"
  "get_m water_heater_command_request ''mode'' (water_heater_to_message c) =
     (case whtc_mode c of None \<Rightarrow> W32 0 | Some v \<Rightarrow> W32 v)"
  "get_m water_heater_command_request ''target_temperature'' (water_heater_to_message c) =
     (case whtc_target_temperature c of None \<Rightarrow> W32 0 | Some v \<Rightarrow> W32 v)"
  "get_m water_heater_command_request ''target_temperature_low'' (water_heater_to_message c) =
     (case whtc_target_temperature_low c of None \<Rightarrow> W32 0 | Some v \<Rightarrow> W32 v)"
  "get_m water_heater_command_request ''target_temperature_high'' (water_heater_to_message c) =
     (case whtc_target_temperature_high c of None \<Rightarrow> W32 0 | Some v \<Rightarrow> W32 v)"
  by (simp_all add: water_heater_to_message_def Let_def split: option.splits)

lemma read_some_flag:
  assumes "water_heater_has_fields c AND b \<noteq> 0 \<longleftrightarrow> P"
  shows "read_some b u n (normalise water_heater_command_request (water_heater_to_message c)) =
    (if P then Some (u (get_m water_heater_command_request n (normalise water_heater_command_request (water_heater_to_message c))))
     else None)"
  using assms by (simp add: read_some_def get_wire [OF typed_water_heater_to_message] water_heater_message_fields)

lemma read_water_heater_to_message:
  "read_water_heater_command (normalise water_heater_command_request (water_heater_to_message c)) = settle_WaterHeaterCommand c"
  unfolding read_water_heater_command_def water_heater_bits(1-6) [THEN read_some_flag]
  by (cases "whtc_on_state c"; cases "whtc_away_state c")
    (simp_all only: get_wire [OF typed_water_heater_to_message] water_heater_command_request_types water_heater_message_fields
      wired_simps as_w32.simps water_heater_bits(7,8) settle_WaterHeaterCommand_def,
     auto simp: unsigned_zero_def split: option.splits)

section \<open>Media player\<close>

record MediaPlayerControl =
  mplc_key :: "u32"
  mplc_command :: "u32 option"
  mplc_volume :: "u32 option"
  mplc_media_url :: "string option"
  mplc_announcement :: "bool option"

definition new_MediaPlayerControl :: MediaPlayerControl where
  "new_MediaPlayerControl =
     \<lparr>mplc_key = 0, mplc_command = None, mplc_volume = None, mplc_media_url = None, mplc_announcement = None\<rparr>"

definition media_player_to_message :: "MediaPlayerControl \<Rightarrow> message" where
  "media_player_to_message cmd =
     (let msg = new_message media_player_command_request;
          msg = set_m media_player_command_request ''key'' (W32 (mplc_key cmd)) msg;
          msg = set_opt media_player_command_request ''command'' W32 (mplc_command cmd) msg;
          msg = set_opt media_player_command_request ''volume'' W32 (mplc_volume cmd) msg;
          msg = set_opt media_player_command_request ''media_url'' Str (mplc_media_url cmd) msg
      in set_opt media_player_command_request ''announcement'' B (mplc_announcement cmd) msg)"

definition read_media_player_command :: "message \<Rightarrow> MediaPlayerControl" where
  "read_media_player_command msg =
     \<lparr>mplc_key = as_w32 (get_m media_player_command_request ''key'' msg),
      mplc_command = get_opt media_player_command_request ''command'' as_w32 msg,
      mplc_volume = get_opt media_player_command_request ''volume'' as_w32 msg,
      mplc_media_url = get_opt media_player_command_request ''media_url'' as_str msg,
      mplc_announcement = get_opt media_player_command_request ''announcement'' as_bool msg\<rparr>"

definition settle_MediaPlayerControl :: "MediaPlayerControl \<Rightarrow> MediaPlayerControl" where
  "settle_MediaPlayerControl c =
     c\<lparr>mplc_volume := map_option unsigned_zero (mplc_volume c)\<rparr>"

lemma media_player_command_request_types [simp]:
  "single_type media_player_command_request ''key'' = Some FFixed32"
  "single_type media_player_command_request ''has_command'' = Some FBool"
  "single_type media_player_command_request ''command'' = Some FEnum"
  "single_type media_player_command_request ''has_volume'' = Some FBool"
  "single_type media_player_command_request ''volume'' = Some FFloat"
  "single_type media_player_command_request ''has_media_url'' = Some FBool"
  "single_type media_player_command_request ''media_url'' = Some FString"
  "single_type media_player_command_request ''has_announcement'' = Some FBool"
  "single_type media_player_command_request ''announcement'' = Some FBool"
  "single_type media_player_command_request ''device_id'' = Some FUint32"
  by (simp_all add: media_player_command_request_def class_types)

lemma typed_media_player_to_message: "typed media_player_command_request (media_player_to_message c)"
  by (simp add: media_player_to_message_def Let_def typed_writes)

lemma read_media_player_to_message:
  "read_media_player_command (normalise media_player_command_request (media_player_to_message c)) = settle_MediaPlayerControl c"
  by (simp add: read_media_player_command_def get_wire [OF typed_media_player_to_message] get_opt_wire [OF typed_media_player_to_message])
    (cases c, simp add: media_player_to_message_def Let_def option.map_ident settle_MediaPlayerControl_def)

section \<open>Alarm control panel\<close>

record AlarmControlPanelCommand =
  acpc_key :: "u32"
  acpc_command :: "u32"
  acpc_code :: "string"

definition new_AlarmControlPanelCommand :: AlarmControlPanelCommand where
  "new_AlarmControlPanelCommand =
     \<lparr>acpc_key = 0, acpc_command = 0, acpc_code = []\<rparr>"

definition alarm_control_panel_to_message :: "AlarmControlPanelCommand \<Rightarrow> message" where
  "alarm_control_panel_to_message cmd =
     (let msg = new_message alarm_control_panel_command_request;
          msg = set_m alarm_control_panel_command_request ''key'' (W32 (acpc_key cmd)) msg;
          msg = set_m alarm_control_panel_command_request ''command'' (W32 (acpc_command cmd)) msg
      in set_m alarm_control_panel_command_request ''code'' (Str (acpc_code cmd)) msg)"

definition read_alarm_control_panel_command :: "message \<Rightarrow> AlarmControlPanelCommand" where
  "read_alarm_control_panel_command msg =
     \<lparr>acpc_key = as_w32 (get_m alarm_control_panel_command_request ''key'' msg),
      acpc_command = as_w32 (get_m alarm_control_panel_command_request ''command'' msg),
      acpc_code = as_str (get_m alarm_control_panel_command_request ''code'' msg)\<rparr>"

lemma alarm_control_panel_command_request_types [simp]:
  "single_type alarm_control_panel_command_request ''key'' = Some FFixed32"
  "single_type alarm_control_panel_command_request ''command'' = Some FEnum"
  "single_type alarm_control_panel_command_request ''code'' = Some FString"
  "single_type alarm_control_panel_command_request ''device_id'' = Some FUint32"
  by (simp_all add: alarm_control_panel_command_request_def class_types)

lemma typed_alarm_control_panel_to_message: "typed alarm_control_panel_command_request (alarm_control_panel_to_message c)"
  by (simp add: alarm_control_panel_to_message_def Let_def typed_writes)

lemma read_alarm_control_panel_to_message:
  "read_alarm_control_panel_command (normalise alarm_control_panel_command_request (alarm_control_panel_to_message c)) = c"
  by (simp add: read_alarm_control_panel_command_def get_wire [OF typed_alarm_control_panel_to_message] get_opt_wire [OF typed_alarm_control_panel_to_message])
    (cases c, simp add: alarm_control_panel_to_message_def Let_def option.map_ident)

section \<open>Date\<close>

record DateCommand =
  datc_key :: "u32"
  datc_year :: "u32"
  datc_month :: "u32"
  datc_day :: "u32"

definition new_DateCommand :: DateCommand where
  "new_DateCommand =
     \<lparr>datc_key = 0, datc_year = 0, datc_month = 0, datc_day = 0\<rparr>"

definition date_to_message :: "DateCommand \<Rightarrow> message" where
  "date_to_message cmd =
     (let msg = new_message date_command_request;
          msg = set_m date_command_request ''key'' (W32 (datc_key cmd)) msg;
          msg = set_m date_command_request ''year'' (W32 (datc_year cmd)) msg;
          msg = set_m date_command_request ''month'' (W32 (datc_month cmd)) msg
      in set_m date_command_request ''day'' (W32 (datc_day cmd)) msg)"

definition read_date_command :: "message \<Rightarrow> DateCommand" where
  "read_date_command msg =
     \<lparr>datc_key = as_w32 (get_m date_command_request ''key'' msg),
      datc_year = as_w32 (get_m date_command_request ''year'' msg),
      datc_month = as_w32 (get_m date_command_request ''month'' msg),
      datc_day = as_w32 (get_m date_command_request ''day'' msg)\<rparr>"

lemma date_command_request_types [simp]:
  "single_type date_command_request ''key'' = Some FFixed32"
  "single_type date_command_request ''year'' = Some FUint32"
  "single_type date_command_request ''month'' = Some FUint32"
  "single_type date_command_request ''day'' = Some FUint32"
  "single_type date_command_request ''device_id'' = Some FUint32"
  by (simp_all add: date_command_request_def class_types)

lemma typed_date_to_message: "typed date_command_request (date_to_message c)"
  by (simp add: date_to_message_def Let_def typed_writes)

lemma read_date_to_message:
  "read_date_command (normalise date_command_request (date_to_message c)) = c"
  by (simp add: read_date_command_def get_wire [OF typed_date_to_message] get_opt_wire [OF typed_date_to_message])
    (cases c, simp add: date_to_message_def Let_def option.map_ident)

section \<open>Time\<close>

record TimeCommand =
  timc_key :: "u32"
  timc_hour :: "u32"
  timc_minute :: "u32"
  timc_second :: "u32"

definition new_TimeCommand :: TimeCommand where
  "new_TimeCommand =
     \<lparr>timc_key = 0, timc_hour = 0, timc_minute = 0, timc_second = 0\<rparr>"

definition time_to_message :: "TimeCommand \<Rightarrow> message" where
  "time_to_message cmd =
     (let msg = new_message time_command_request;
          msg = set_m time_command_request ''key'' (W32 (timc_key cmd)) msg;
          msg = set_m time_command_request ''hour'' (W32 (timc_hour cmd)) msg;
          msg = set_m time_command_request ''minute'' (W32 (timc_minute cmd)) msg
      in set_m time_command_request ''second'' (W32 (timc_second cmd)) msg)"

definition read_time_command :: "message \<Rightarrow> TimeCommand" where
  "read_time_command msg =
     \<lparr>timc_key = as_w32 (get_m time_command_request ''key'' msg),
      timc_hour = as_w32 (get_m time_command_request ''hour'' msg),
      timc_minute = as_w32 (get_m time_command_request ''minute'' msg),
      timc_second = as_w32 (get_m time_command_request ''second'' msg)\<rparr>"

lemma time_command_request_types [simp]:
  "single_type time_command_request ''key'' = Some FFixed32"
  "single_type time_command_request ''hour'' = Some FUint32"
  "single_type time_command_request ''minute'' = Some FUint32"
  "single_type time_command_request ''second'' = Some FUint32"
  "single_type time_command_request ''device_id'' = Some FUint32"
  by (simp_all add: time_command_request_def class_types)

lemma typed_time_to_message: "typed time_command_request (time_to_message c)"
  by (simp add: time_to_message_def Let_def typed_writes)

lemma read_time_to_message:
  "read_time_command (normalise time_command_request (time_to_message c)) = c"
  by (simp add: read_time_command_def get_wire [OF typed_time_to_message] get_opt_wire [OF typed_time_to_message])
    (cases c, simp add: time_to_message_def Let_def option.map_ident)

section \<open>Date and time\<close>

record DateTimeCommand =
  dtmc_key :: "u32"
  dtmc_epoch_seconds :: "u32"

definition new_DateTimeCommand :: DateTimeCommand where
  "new_DateTimeCommand =
     \<lparr>dtmc_key = 0, dtmc_epoch_seconds = 0\<rparr>"

definition datetime_to_message :: "DateTimeCommand \<Rightarrow> message" where
  "datetime_to_message cmd =
     (let msg = new_message date_time_command_request;
          msg = set_m date_time_command_request ''key'' (W32 (dtmc_key cmd)) msg
      in set_m date_time_command_request ''epoch_seconds'' (W32 (dtmc_epoch_seconds cmd)) msg)"

definition read_datetime_command :: "message \<Rightarrow> DateTimeCommand" where
  "read_datetime_command msg =
     \<lparr>dtmc_key = as_w32 (get_m date_time_command_request ''key'' msg),
      dtmc_epoch_seconds = as_w32 (get_m date_time_command_request ''epoch_seconds'' msg)\<rparr>"

lemma date_time_command_request_types [simp]:
  "single_type date_time_command_request ''key'' = Some FFixed32"
  "single_type date_time_command_request ''epoch_seconds'' = Some FFixed32"
  "single_type date_time_command_request ''device_id'' = Some FUint32"
  by (simp_all add: date_time_command_request_def class_types)

lemma typed_datetime_to_message: "typed date_time_command_request (datetime_to_message c)"
  by (simp add: datetime_to_message_def Let_def typed_writes)

lemma read_datetime_to_message:
  "read_datetime_command (normalise date_time_command_request (datetime_to_message c)) = c"
  by (simp add: read_datetime_command_def get_wire [OF typed_datetime_to_message] get_opt_wire [OF typed_datetime_to_message])
    (cases c, simp add: datetime_to_message_def Let_def option.map_ident)

section \<open>Update\<close>

record UpdateControl =
  updc_key :: "u32"
  updc_command :: "u32"

definition new_UpdateControl :: UpdateControl where
  "new_UpdateControl =
     \<lparr>updc_key = 0, updc_command = 0\<rparr>"

definition update_to_message :: "UpdateControl \<Rightarrow> message" where
  "update_to_message cmd =
     (let msg = new_message update_command_request;
          msg = set_m update_command_request ''key'' (W32 (updc_key cmd)) msg
      in set_m update_command_request ''command'' (W32 (updc_command cmd)) msg)"

definition read_update_command :: "message \<Rightarrow> UpdateControl" where
  "read_update_command msg =
     \<lparr>updc_key = as_w32 (get_m update_command_request ''key'' msg),
      updc_command = as_w32 (get_m update_command_request ''command'' msg)\<rparr>"

lemma update_command_request_types [simp]:
  "single_type update_command_request ''key'' = Some FFixed32"
  "single_type update_command_request ''command'' = Some FEnum"
  "single_type update_command_request ''device_id'' = Some FUint32"
  by (simp_all add: update_command_request_def class_types)

lemma typed_update_to_message: "typed update_command_request (update_to_message c)"
  by (simp add: update_to_message_def Let_def typed_writes)

lemma read_update_to_message:
  "read_update_command (normalise update_command_request (update_to_message c)) = c"
  by (simp add: read_update_command_def get_wire [OF typed_update_to_message] get_opt_wire [OF typed_update_to_message])
    (cases c, simp add: update_to_message_def Let_def option.map_ident)

section \<open>All commands\<close>

text \<open>The argument of \<^verbatim>\<open>send_command\<close> and \<^verbatim>\<open>to_message\<close>: one alternative per overload.\<close>

datatype command =
    Cmd_Switch SwitchCommand
  | Cmd_Button ButtonCommand
  | Cmd_Number NumberCommand
  | Cmd_Select SelectCommand
  | Cmd_Text TextCommand
  | Cmd_Light LightCommand
  | Cmd_Fan FanCommand
  | Cmd_Cover CoverCommand
  | Cmd_Valve ValveCommand
  | Cmd_Lock LockCommandData
  | Cmd_Siren SirenCommand
  | Cmd_Climate ClimateCommand
  | Cmd_WaterHeater WaterHeaterCommand
  | Cmd_MediaPlayer MediaPlayerControl
  | Cmd_AlarmControlPanel AlarmControlPanelCommand
  | Cmd_Date DateCommand
  | Cmd_Time TimeCommand
  | Cmd_DateTime DateTimeCommand
  | Cmd_Update UpdateControl

fun to_message :: "command \<Rightarrow> message" where
  "to_message (Cmd_Switch c) = switch_to_message c"
| "to_message (Cmd_Button c) = button_to_message c"
| "to_message (Cmd_Number c) = number_to_message c"
| "to_message (Cmd_Select c) = select_to_message c"
| "to_message (Cmd_Text c) = text_to_message c"
| "to_message (Cmd_Light c) = light_to_message c"
| "to_message (Cmd_Fan c) = fan_to_message c"
| "to_message (Cmd_Cover c) = cover_to_message c"
| "to_message (Cmd_Valve c) = valve_to_message c"
| "to_message (Cmd_Lock c) = lock_to_message c"
| "to_message (Cmd_Siren c) = siren_to_message c"
| "to_message (Cmd_Climate c) = climate_to_message c"
| "to_message (Cmd_WaterHeater c) = water_heater_to_message c"
| "to_message (Cmd_MediaPlayer c) = media_player_to_message c"
| "to_message (Cmd_AlarmControlPanel c) = alarm_control_panel_to_message c"
| "to_message (Cmd_Date c) = date_to_message c"
| "to_message (Cmd_Time c) = time_to_message c"
| "to_message (Cmd_DateTime c) = datetime_to_message c"
| "to_message (Cmd_Update c) = update_to_message c"

fun request_class :: "command \<Rightarrow> msg_class" where
  "request_class (Cmd_Switch _) = switch_command_request"
| "request_class (Cmd_Button _) = button_command_request"
| "request_class (Cmd_Number _) = number_command_request"
| "request_class (Cmd_Select _) = select_command_request"
| "request_class (Cmd_Text _) = text_command_request"
| "request_class (Cmd_Light _) = light_command_request"
| "request_class (Cmd_Fan _) = fan_command_request"
| "request_class (Cmd_Cover _) = cover_command_request"
| "request_class (Cmd_Valve _) = valve_command_request"
| "request_class (Cmd_Lock _) = lock_command_request"
| "request_class (Cmd_Siren _) = siren_command_request"
| "request_class (Cmd_Climate _) = climate_command_request"
| "request_class (Cmd_WaterHeater _) = water_heater_command_request"
| "request_class (Cmd_MediaPlayer _) = media_player_command_request"
| "request_class (Cmd_AlarmControlPanel _) = alarm_control_panel_command_request"
| "request_class (Cmd_Date _) = date_command_request"
| "request_class (Cmd_Time _) = time_command_request"
| "request_class (Cmd_DateTime _) = date_time_command_request"
| "request_class (Cmd_Update _) = update_command_request"

fun request_name :: "command \<Rightarrow> string" where
  "request_name (Cmd_Switch _) = ''SwitchCommandRequest''"
| "request_name (Cmd_Button _) = ''ButtonCommandRequest''"
| "request_name (Cmd_Number _) = ''NumberCommandRequest''"
| "request_name (Cmd_Select _) = ''SelectCommandRequest''"
| "request_name (Cmd_Text _) = ''TextCommandRequest''"
| "request_name (Cmd_Light _) = ''LightCommandRequest''"
| "request_name (Cmd_Fan _) = ''FanCommandRequest''"
| "request_name (Cmd_Cover _) = ''CoverCommandRequest''"
| "request_name (Cmd_Valve _) = ''ValveCommandRequest''"
| "request_name (Cmd_Lock _) = ''LockCommandRequest''"
| "request_name (Cmd_Siren _) = ''SirenCommandRequest''"
| "request_name (Cmd_Climate _) = ''ClimateCommandRequest''"
| "request_name (Cmd_WaterHeater _) = ''WaterHeaterCommandRequest''"
| "request_name (Cmd_MediaPlayer _) = ''MediaPlayerCommandRequest''"
| "request_name (Cmd_AlarmControlPanel _) = ''AlarmControlPanelCommandRequest''"
| "request_name (Cmd_Date _) = ''DateCommandRequest''"
| "request_name (Cmd_Time _) = ''TimeCommandRequest''"
| "request_name (Cmd_DateTime _) = ''DateTimeCommandRequest''"
| "request_name (Cmd_Update _) = ''UpdateCommandRequest''"

fun request_id :: "command \<Rightarrow> u32" where
  "request_id (Cmd_Switch _) = 33"
| "request_id (Cmd_Button _) = 62"
| "request_id (Cmd_Number _) = 51"
| "request_id (Cmd_Select _) = 54"
| "request_id (Cmd_Text _) = 99"
| "request_id (Cmd_Light _) = 32"
| "request_id (Cmd_Fan _) = 31"
| "request_id (Cmd_Cover _) = 30"
| "request_id (Cmd_Valve _) = 111"
| "request_id (Cmd_Lock _) = 60"
| "request_id (Cmd_Siren _) = 57"
| "request_id (Cmd_Climate _) = 48"
| "request_id (Cmd_WaterHeater _) = 134"
| "request_id (Cmd_MediaPlayer _) = 65"
| "request_id (Cmd_AlarmControlPanel _) = 96"
| "request_id (Cmd_Date _) = 102"
| "request_id (Cmd_Time _) = 105"
| "request_id (Cmd_DateTime _) = 114"
| "request_id (Cmd_Update _) = 118"

fun command_key :: "command \<Rightarrow> u32" where
  "command_key (Cmd_Switch c) = swtc_key c"
| "command_key (Cmd_Button c) = btnc_key c"
| "command_key (Cmd_Number c) = numc_key c"
| "command_key (Cmd_Select c) = selc_key c"
| "command_key (Cmd_Text c) = txtc_key c"
| "command_key (Cmd_Light c) = lgtc_key c"
| "command_key (Cmd_Fan c) = fanc_key c"
| "command_key (Cmd_Cover c) = covc_key c"
| "command_key (Cmd_Valve c) = vlvc_key c"
| "command_key (Cmd_Lock c) = lckc_key c"
| "command_key (Cmd_Siren c) = srnc_key c"
| "command_key (Cmd_Climate c) = clmc_key c"
| "command_key (Cmd_WaterHeater c) = whtc_key c"
| "command_key (Cmd_MediaPlayer c) = mplc_key c"
| "command_key (Cmd_AlarmControlPanel c) = acpc_key c"
| "command_key (Cmd_Date c) = datc_key c"
| "command_key (Cmd_Time c) = timc_key c"
| "command_key (Cmd_DateTime c) = dtmc_key c"
| "command_key (Cmd_Update c) = updc_key c"

text \<open>The receiving side: the command that a message of an id stands for, and what it is for a command that was sent.\<close>

definition command_readers :: "(u32 \<times> (message \<Rightarrow> command)) list" where
  "command_readers =
     [(33, Cmd_Switch \<circ> read_switch_command),
      (62, Cmd_Button \<circ> read_button_command),
      (51, Cmd_Number \<circ> read_number_command),
      (54, Cmd_Select \<circ> read_select_command),
      (99, Cmd_Text \<circ> read_text_command),
      (32, Cmd_Light \<circ> read_light_command),
      (31, Cmd_Fan \<circ> read_fan_command),
      (30, Cmd_Cover \<circ> read_cover_command),
      (111, Cmd_Valve \<circ> read_valve_command),
      (60, Cmd_Lock \<circ> read_lock_command),
      (57, Cmd_Siren \<circ> read_siren_command),
      (48, Cmd_Climate \<circ> read_climate_command),
      (134, Cmd_WaterHeater \<circ> read_water_heater_command),
      (65, Cmd_MediaPlayer \<circ> read_media_player_command),
      (96, Cmd_AlarmControlPanel \<circ> read_alarm_control_panel_command),
      (102, Cmd_Date \<circ> read_date_command),
      (105, Cmd_Time \<circ> read_time_command),
      (114, Cmd_DateTime \<circ> read_datetime_command),
      (118, Cmd_Update \<circ> read_update_command)]"

definition read_command :: "u32 \<Rightarrow> message \<Rightarrow> command option" where
  "read_command i m = map_option (\<lambda>f. f m) (map_of command_readers i)"

fun settle :: "command \<Rightarrow> command" where
  "settle (Cmd_Switch c) = Cmd_Switch (c)"
| "settle (Cmd_Button c) = Cmd_Button (c)"
| "settle (Cmd_Number c) = Cmd_Number (settle_NumberCommand c)"
| "settle (Cmd_Select c) = Cmd_Select (c)"
| "settle (Cmd_Text c) = Cmd_Text (c)"
| "settle (Cmd_Light c) = Cmd_Light (settle_LightCommand c)"
| "settle (Cmd_Fan c) = Cmd_Fan (c)"
| "settle (Cmd_Cover c) = Cmd_Cover (settle_CoverCommand c)"
| "settle (Cmd_Valve c) = Cmd_Valve (settle_ValveCommand c)"
| "settle (Cmd_Lock c) = Cmd_Lock (c)"
| "settle (Cmd_Siren c) = Cmd_Siren (settle_SirenCommand c)"
| "settle (Cmd_Climate c) = Cmd_Climate (settle_ClimateCommand c)"
| "settle (Cmd_WaterHeater c) = Cmd_WaterHeater (settle_WaterHeaterCommand c)"
| "settle (Cmd_MediaPlayer c) = Cmd_MediaPlayer (settle_MediaPlayerControl c)"
| "settle (Cmd_AlarmControlPanel c) = Cmd_AlarmControlPanel (c)"
| "settle (Cmd_Date c) = Cmd_Date (c)"
| "settle (Cmd_Time c) = Cmd_Time (c)"
| "settle (Cmd_DateTime c) = Cmd_DateTime (c)"
| "settle (Cmd_Update c) = Cmd_Update (c)"

lemma typed_to_message: "typed (request_class c) (to_message c)"
  by (cases c) (simp_all add: typed_switch_to_message
    typed_button_to_message
    typed_number_to_message
    typed_select_to_message
    typed_text_to_message
    typed_light_to_message
    typed_fan_to_message
    typed_cover_to_message
    typed_valve_to_message
    typed_lock_to_message
    typed_siren_to_message
    typed_climate_to_message
    typed_water_heater_to_message
    typed_media_player_to_message
    typed_alarm_control_panel_to_message
    typed_date_to_message
    typed_time_to_message
    typed_datetime_to_message
    typed_update_to_message)

lemma request_class_wf [simp]: "wf_class (request_class c)"
  by (cases c) (simp_all add: switch_command_request_wf
    button_command_request_wf
    number_command_request_wf
    select_command_request_wf
    text_command_request_wf
    light_command_request_wf
    fan_command_request_wf
    cover_command_request_wf
    valve_command_request_wf
    lock_command_request_wf
    siren_command_request_wf
    climate_command_request_wf
    water_heater_command_request_wf
    media_player_command_request_wf
    alarm_control_panel_command_request_wf
    date_command_request_wf
    time_command_request_wf
    date_time_command_request_wf
    update_command_request_wf)

lemma read_to_message:
  "read_command (request_id c) (normalise (request_class c) (to_message c)) = Some (settle c)"
  by (cases c) (simp_all add: read_command_def command_readers_def
    read_switch_to_message
    read_button_to_message
    read_number_to_message
    read_select_to_message
    read_text_to_message
    read_light_to_message
    read_fan_to_message
    read_cover_to_message
    read_valve_to_message
    read_lock_to_message
    read_siren_to_message
    read_climate_to_message
    read_water_heater_to_message
    read_media_player_to_message
    read_alarm_control_panel_to_message
    read_date_to_message
    read_time_to_message
    read_datetime_to_message
    read_update_to_message)

lemma settle_key [simp]: "command_key (settle c) = command_key c"
  by (cases c) (simp_all add: settle_NumberCommand_def
    settle_LightCommand_def
    settle_CoverCommand_def
    settle_ValveCommand_def
    settle_SirenCommand_def
    settle_ClimateCommand_def
    settle_WaterHeaterCommand_def
    settle_MediaPlayerControl_def)

interpretation commands: wire_message request_class to_message "\<lambda>c. read_command (request_id c)" "\<lambda>c. Some (settle c)"
  by unfold_locales (simp_all add: typed_to_message read_to_message)

end
