(* ===== verification/Entity_States.thy ===== *)
theory Entity_States
  imports Api_Schema Entity_Store
begin

text \<open>
  The reported states of the 22 entities that have one: the structs of \<^verbatim>\<open>include/esphome/api/model/entities\<close> and the
  functions \<^verbatim>\<open>parse_*_state\<close> of \<^verbatim>\<open>src/model/entities\<close>.  Floats are bit patterns, mirrored enumerations their
  32-bit values.  The device's side is the list of fields that it fills for a state.
\<close>

section \<open>Binary sensor\<close>

record BinarySensorState =
  bsns_key :: "u32"
  bsns_state :: "bool"
  bsns_missing_state :: "bool"

definition new_BinarySensorState :: BinarySensorState where
  "new_BinarySensorState =
     \<lparr>bsns_key = 0, bsns_state = False, bsns_missing_state = False\<rparr>"

definition parse_binary_sensor_state :: "message \<Rightarrow> BinarySensorState" where
  "parse_binary_sensor_state msg =
     new_BinarySensorState\<lparr>bsns_key := as_w32 (get_m binary_sensor_state_response ''key'' msg),
       bsns_state := as_bool (get_m binary_sensor_state_response ''state'' msg),
       bsns_missing_state := as_bool (get_m binary_sensor_state_response ''missing_state'' msg)\<rparr>"

definition binary_sensor_state_response_report :: "BinarySensorState \<Rightarrow> (string \<times> member) list" where
  "binary_sensor_state_response_report s =
    [(''key'', Single (W32 (bsns_key s))),
     (''state'', Single (B (bsns_state s))),
     (''missing_state'', Single (B (bsns_missing_state s)))]"

lemma binary_sensor_state_response_types [simp]:
  "single_type binary_sensor_state_response ''key'' = Some FFixed32"
  "single_type binary_sensor_state_response ''state'' = Some FBool"
  "single_type binary_sensor_state_response ''missing_state'' = Some FBool"
  "single_type binary_sensor_state_response ''device_id'' = Some FUint32"
  by (simp_all add: binary_sensor_state_response_def class_types)

lemma binary_sensor_state_response_fits: "fits_fields binary_sensor_state_response (binary_sensor_state_response_report s)"
  by (simp add: binary_sensor_state_response_def binary_sensor_state_response_report_def fits_fields_def mk_field_simps)

lemma map_of_binary_sensor_state_response_report:
  "map_of (binary_sensor_state_response_report s) ''key'' = Some (Single (W32 (bsns_key s)))"
  "map_of (binary_sensor_state_response_report s) ''state'' = Some (Single (B (bsns_state s)))"
  "map_of (binary_sensor_state_response_report s) ''missing_state'' = Some (Single (B (bsns_missing_state s)))"
  by (simp_all add: binary_sensor_state_response_report_def)

lemma parse_binary_sensor_state_reported:
  "parse_binary_sensor_state (normalise binary_sensor_state_response (of_fields binary_sensor_state_response (binary_sensor_state_response_report s))) = s"
  by (simp add: parse_binary_sensor_state_def new_BinarySensorState_def get_fields_wire [OF _ binary_sensor_state_response_fits] map_of_binary_sensor_state_response_report)

section \<open>Sensor\<close>

record SensorState =
  snss_key :: "u32"
  snss_state :: "u32"
  snss_missing_state :: "bool"

definition new_SensorState :: SensorState where
  "new_SensorState =
     \<lparr>snss_key = 0, snss_state = 0, snss_missing_state = False\<rparr>"

definition parse_sensor_state :: "message \<Rightarrow> SensorState" where
  "parse_sensor_state msg =
     new_SensorState\<lparr>snss_key := as_w32 (get_m sensor_state_response ''key'' msg),
       snss_state := as_w32 (get_m sensor_state_response ''state'' msg),
       snss_missing_state := as_bool (get_m sensor_state_response ''missing_state'' msg)\<rparr>"

definition sensor_state_response_report :: "SensorState \<Rightarrow> (string \<times> member) list" where
  "sensor_state_response_report s =
    [(''key'', Single (W32 (snss_key s))),
     (''state'', Single (W32 (snss_state s))),
     (''missing_state'', Single (B (snss_missing_state s)))]"

definition settle_SensorState :: "SensorState \<Rightarrow> SensorState" where
  "settle_SensorState s =
     s\<lparr>snss_state := unsigned_zero (snss_state s)\<rparr>"

lemma sensor_state_response_types [simp]:
  "single_type sensor_state_response ''key'' = Some FFixed32"
  "single_type sensor_state_response ''state'' = Some FFloat"
  "single_type sensor_state_response ''missing_state'' = Some FBool"
  "single_type sensor_state_response ''device_id'' = Some FUint32"
  by (simp_all add: sensor_state_response_def class_types)

lemma sensor_state_response_fits: "fits_fields sensor_state_response (sensor_state_response_report s)"
  by (simp add: sensor_state_response_def sensor_state_response_report_def fits_fields_def mk_field_simps)

lemma map_of_sensor_state_response_report:
  "map_of (sensor_state_response_report s) ''key'' = Some (Single (W32 (snss_key s)))"
  "map_of (sensor_state_response_report s) ''state'' = Some (Single (W32 (snss_state s)))"
  "map_of (sensor_state_response_report s) ''missing_state'' = Some (Single (B (snss_missing_state s)))"
  by (simp_all add: sensor_state_response_report_def)

lemma parse_sensor_state_reported:
  "parse_sensor_state (normalise sensor_state_response (of_fields sensor_state_response (sensor_state_response_report s))) = settle_SensorState s"
  by (simp add: parse_sensor_state_def new_SensorState_def get_fields_wire [OF _ sensor_state_response_fits] map_of_sensor_state_response_report) (cases s, simp add: settle_SensorState_def)

section \<open>Text sensor\<close>

record TextSensorState =
  tsns_key :: "u32"
  tsns_state :: "string"
  tsns_missing_state :: "bool"

definition new_TextSensorState :: TextSensorState where
  "new_TextSensorState =
     \<lparr>tsns_key = 0, tsns_state = [], tsns_missing_state = False\<rparr>"

definition parse_text_sensor_state :: "message \<Rightarrow> TextSensorState" where
  "parse_text_sensor_state msg =
     new_TextSensorState\<lparr>tsns_key := as_w32 (get_m text_sensor_state_response ''key'' msg),
       tsns_state := as_str (get_m text_sensor_state_response ''state'' msg),
       tsns_missing_state := as_bool (get_m text_sensor_state_response ''missing_state'' msg)\<rparr>"

definition text_sensor_state_response_report :: "TextSensorState \<Rightarrow> (string \<times> member) list" where
  "text_sensor_state_response_report s =
    [(''key'', Single (W32 (tsns_key s))),
     (''state'', Single (Str (tsns_state s))),
     (''missing_state'', Single (B (tsns_missing_state s)))]"

lemma text_sensor_state_response_types [simp]:
  "single_type text_sensor_state_response ''key'' = Some FFixed32"
  "single_type text_sensor_state_response ''state'' = Some FString"
  "single_type text_sensor_state_response ''missing_state'' = Some FBool"
  "single_type text_sensor_state_response ''device_id'' = Some FUint32"
  by (simp_all add: text_sensor_state_response_def class_types)

lemma text_sensor_state_response_fits: "fits_fields text_sensor_state_response (text_sensor_state_response_report s)"
  by (simp add: text_sensor_state_response_def text_sensor_state_response_report_def fits_fields_def mk_field_simps)

lemma map_of_text_sensor_state_response_report:
  "map_of (text_sensor_state_response_report s) ''key'' = Some (Single (W32 (tsns_key s)))"
  "map_of (text_sensor_state_response_report s) ''state'' = Some (Single (Str (tsns_state s)))"
  "map_of (text_sensor_state_response_report s) ''missing_state'' = Some (Single (B (tsns_missing_state s)))"
  by (simp_all add: text_sensor_state_response_report_def)

lemma parse_text_sensor_state_reported:
  "parse_text_sensor_state (normalise text_sensor_state_response (of_fields text_sensor_state_response (text_sensor_state_response_report s))) = s"
  by (simp add: parse_text_sensor_state_def new_TextSensorState_def get_fields_wire [OF _ text_sensor_state_response_fits] map_of_text_sensor_state_response_report)

section \<open>Switch\<close>

record SwitchState =
  swts_key :: "u32"
  swts_state :: "bool"

definition new_SwitchState :: SwitchState where
  "new_SwitchState =
     \<lparr>swts_key = 0, swts_state = False\<rparr>"

definition parse_switch_state :: "message \<Rightarrow> SwitchState" where
  "parse_switch_state msg =
     new_SwitchState\<lparr>swts_key := as_w32 (get_m switch_state_response ''key'' msg),
       swts_state := as_bool (get_m switch_state_response ''state'' msg)\<rparr>"

definition switch_state_response_report :: "SwitchState \<Rightarrow> (string \<times> member) list" where
  "switch_state_response_report s =
    [(''key'', Single (W32 (swts_key s))),
     (''state'', Single (B (swts_state s)))]"

lemma switch_state_response_types [simp]:
  "single_type switch_state_response ''key'' = Some FFixed32"
  "single_type switch_state_response ''state'' = Some FBool"
  "single_type switch_state_response ''device_id'' = Some FUint32"
  by (simp_all add: switch_state_response_def class_types)

lemma switch_state_response_fits: "fits_fields switch_state_response (switch_state_response_report s)"
  by (simp add: switch_state_response_def switch_state_response_report_def fits_fields_def mk_field_simps)

lemma map_of_switch_state_response_report:
  "map_of (switch_state_response_report s) ''key'' = Some (Single (W32 (swts_key s)))"
  "map_of (switch_state_response_report s) ''state'' = Some (Single (B (swts_state s)))"
  by (simp_all add: switch_state_response_report_def)

lemma parse_switch_state_reported:
  "parse_switch_state (normalise switch_state_response (of_fields switch_state_response (switch_state_response_report s))) = s"
  by (simp add: parse_switch_state_def new_SwitchState_def get_fields_wire [OF _ switch_state_response_fits] map_of_switch_state_response_report)

section \<open>Light\<close>

record LightState =
  lgts_key :: "u32"
  lgts_state :: "bool"
  lgts_brightness :: "u32"
  lgts_color_mode :: "u32"
  lgts_color_brightness :: "u32"
  lgts_red :: "u32"
  lgts_green :: "u32"
  lgts_blue :: "u32"
  lgts_white :: "u32"
  lgts_color_temperature :: "u32"
  lgts_cold_white :: "u32"
  lgts_warm_white :: "u32"
  lgts_effect :: "string"

definition new_LightState :: LightState where
  "new_LightState =
     \<lparr>lgts_key = 0, lgts_state = False, lgts_brightness = 0, lgts_color_mode = 0, lgts_color_brightness = 0,
      lgts_red = 0, lgts_green = 0, lgts_blue = 0, lgts_white = 0, lgts_color_temperature = 0,
      lgts_cold_white = 0, lgts_warm_white = 0, lgts_effect = []\<rparr>"

definition parse_light_state :: "message \<Rightarrow> LightState" where
  "parse_light_state msg =
     new_LightState\<lparr>lgts_key := as_w32 (get_m light_state_response ''key'' msg),
       lgts_state := as_bool (get_m light_state_response ''state'' msg),
       lgts_brightness := as_w32 (get_m light_state_response ''brightness'' msg),
       lgts_color_mode := as_w32 (get_m light_state_response ''color_mode'' msg),
       lgts_color_brightness := as_w32 (get_m light_state_response ''color_brightness'' msg),
       lgts_red := as_w32 (get_m light_state_response ''red'' msg),
       lgts_green := as_w32 (get_m light_state_response ''green'' msg),
       lgts_blue := as_w32 (get_m light_state_response ''blue'' msg),
       lgts_white := as_w32 (get_m light_state_response ''white'' msg),
       lgts_color_temperature := as_w32 (get_m light_state_response ''color_temperature'' msg),
       lgts_cold_white := as_w32 (get_m light_state_response ''cold_white'' msg),
       lgts_warm_white := as_w32 (get_m light_state_response ''warm_white'' msg),
       lgts_effect := as_str (get_m light_state_response ''effect'' msg)\<rparr>"

definition light_state_response_report :: "LightState \<Rightarrow> (string \<times> member) list" where
  "light_state_response_report s =
    [(''key'', Single (W32 (lgts_key s))),
     (''state'', Single (B (lgts_state s))),
     (''brightness'', Single (W32 (lgts_brightness s))),
     (''color_mode'', Single (W32 (lgts_color_mode s))),
     (''color_brightness'', Single (W32 (lgts_color_brightness s))),
     (''red'', Single (W32 (lgts_red s))),
     (''green'', Single (W32 (lgts_green s))),
     (''blue'', Single (W32 (lgts_blue s))),
     (''white'', Single (W32 (lgts_white s))),
     (''color_temperature'', Single (W32 (lgts_color_temperature s))),
     (''cold_white'', Single (W32 (lgts_cold_white s))),
     (''warm_white'', Single (W32 (lgts_warm_white s))),
     (''effect'', Single (Str (lgts_effect s)))]"

definition settle_LightState :: "LightState \<Rightarrow> LightState" where
  "settle_LightState s =
     s\<lparr>lgts_brightness := unsigned_zero (lgts_brightness s),
       lgts_color_brightness := unsigned_zero (lgts_color_brightness s),
       lgts_red := unsigned_zero (lgts_red s),
       lgts_green := unsigned_zero (lgts_green s),
       lgts_blue := unsigned_zero (lgts_blue s),
       lgts_white := unsigned_zero (lgts_white s),
       lgts_color_temperature := unsigned_zero (lgts_color_temperature s),
       lgts_cold_white := unsigned_zero (lgts_cold_white s),
       lgts_warm_white := unsigned_zero (lgts_warm_white s)\<rparr>"

lemma light_state_response_types [simp]:
  "single_type light_state_response ''key'' = Some FFixed32"
  "single_type light_state_response ''state'' = Some FBool"
  "single_type light_state_response ''brightness'' = Some FFloat"
  "single_type light_state_response ''red'' = Some FFloat"
  "single_type light_state_response ''green'' = Some FFloat"
  "single_type light_state_response ''blue'' = Some FFloat"
  "single_type light_state_response ''white'' = Some FFloat"
  "single_type light_state_response ''color_temperature'' = Some FFloat"
  "single_type light_state_response ''effect'' = Some FString"
  "single_type light_state_response ''color_brightness'' = Some FFloat"
  "single_type light_state_response ''color_mode'' = Some FEnum"
  "single_type light_state_response ''cold_white'' = Some FFloat"
  "single_type light_state_response ''warm_white'' = Some FFloat"
  "single_type light_state_response ''device_id'' = Some FUint32"
  by (simp_all add: light_state_response_def class_types)

lemma light_state_response_fits: "fits_fields light_state_response (light_state_response_report s)"
  by (simp add: light_state_response_def light_state_response_report_def fits_fields_def mk_field_simps)

lemma map_of_light_state_response_report:
  "map_of (light_state_response_report s) ''key'' = Some (Single (W32 (lgts_key s)))"
  "map_of (light_state_response_report s) ''state'' = Some (Single (B (lgts_state s)))"
  "map_of (light_state_response_report s) ''brightness'' = Some (Single (W32 (lgts_brightness s)))"
  "map_of (light_state_response_report s) ''color_mode'' = Some (Single (W32 (lgts_color_mode s)))"
  "map_of (light_state_response_report s) ''color_brightness'' = Some (Single (W32 (lgts_color_brightness s)))"
  "map_of (light_state_response_report s) ''red'' = Some (Single (W32 (lgts_red s)))"
  "map_of (light_state_response_report s) ''green'' = Some (Single (W32 (lgts_green s)))"
  "map_of (light_state_response_report s) ''blue'' = Some (Single (W32 (lgts_blue s)))"
  "map_of (light_state_response_report s) ''white'' = Some (Single (W32 (lgts_white s)))"
  "map_of (light_state_response_report s) ''color_temperature'' = Some (Single (W32 (lgts_color_temperature s)))"
  "map_of (light_state_response_report s) ''cold_white'' = Some (Single (W32 (lgts_cold_white s)))"
  "map_of (light_state_response_report s) ''warm_white'' = Some (Single (W32 (lgts_warm_white s)))"
  "map_of (light_state_response_report s) ''effect'' = Some (Single (Str (lgts_effect s)))"
  by (simp_all add: light_state_response_report_def)

lemma parse_light_state_reported:
  "parse_light_state (normalise light_state_response (of_fields light_state_response (light_state_response_report s))) = settle_LightState s"
  by (simp add: parse_light_state_def new_LightState_def get_fields_wire [OF _ light_state_response_fits] map_of_light_state_response_report) (cases s, simp add: settle_LightState_def)

section \<open>Cover\<close>

record CoverState =
  covs_key :: "u32"
  covs_position :: "u32"
  covs_tilt :: "u32"
  covs_current_operation :: "u32"

definition new_CoverState :: CoverState where
  "new_CoverState =
     \<lparr>covs_key = 0, covs_position = 0, covs_tilt = 0, covs_current_operation = 0\<rparr>"

definition parse_cover_state :: "message \<Rightarrow> CoverState" where
  "parse_cover_state msg =
     new_CoverState\<lparr>covs_key := as_w32 (get_m cover_state_response ''key'' msg),
       covs_position := as_w32 (get_m cover_state_response ''position'' msg),
       covs_tilt := as_w32 (get_m cover_state_response ''tilt'' msg),
       covs_current_operation := as_w32 (get_m cover_state_response ''current_operation'' msg)\<rparr>"

definition cover_state_response_report :: "CoverState \<Rightarrow> (string \<times> member) list" where
  "cover_state_response_report s =
    [(''key'', Single (W32 (covs_key s))),
     (''position'', Single (W32 (covs_position s))),
     (''tilt'', Single (W32 (covs_tilt s))),
     (''current_operation'', Single (W32 (covs_current_operation s)))]"

definition settle_CoverState :: "CoverState \<Rightarrow> CoverState" where
  "settle_CoverState s =
     s\<lparr>covs_position := unsigned_zero (covs_position s),
       covs_tilt := unsigned_zero (covs_tilt s)\<rparr>"

lemma cover_state_response_types [simp]:
  "single_type cover_state_response ''key'' = Some FFixed32"
  "single_type cover_state_response ''legacy_state'' = Some FEnum"
  "single_type cover_state_response ''position'' = Some FFloat"
  "single_type cover_state_response ''tilt'' = Some FFloat"
  "single_type cover_state_response ''current_operation'' = Some FEnum"
  "single_type cover_state_response ''device_id'' = Some FUint32"
  by (simp_all add: cover_state_response_def class_types)

lemma cover_state_response_fits: "fits_fields cover_state_response (cover_state_response_report s)"
  by (simp add: cover_state_response_def cover_state_response_report_def fits_fields_def mk_field_simps)

lemma map_of_cover_state_response_report:
  "map_of (cover_state_response_report s) ''key'' = Some (Single (W32 (covs_key s)))"
  "map_of (cover_state_response_report s) ''position'' = Some (Single (W32 (covs_position s)))"
  "map_of (cover_state_response_report s) ''tilt'' = Some (Single (W32 (covs_tilt s)))"
  "map_of (cover_state_response_report s) ''current_operation'' = Some (Single (W32 (covs_current_operation s)))"
  by (simp_all add: cover_state_response_report_def)

lemma parse_cover_state_reported:
  "parse_cover_state (normalise cover_state_response (of_fields cover_state_response (cover_state_response_report s))) = settle_CoverState s"
  by (simp add: parse_cover_state_def new_CoverState_def get_fields_wire [OF _ cover_state_response_fits] map_of_cover_state_response_report) (cases s, simp add: settle_CoverState_def)

section \<open>Fan\<close>

record FanState =
  fans_key :: "u32"
  fans_state :: "bool"
  fans_oscillating :: "bool"
  fans_direction :: "u32"
  fans_speed_level :: "u32"
  fans_preset_mode :: "string"

definition new_FanState :: FanState where
  "new_FanState =
     \<lparr>fans_key = 0, fans_state = False, fans_oscillating = False, fans_direction = 0, fans_speed_level = 0,
      fans_preset_mode = []\<rparr>"

definition parse_fan_state :: "message \<Rightarrow> FanState" where
  "parse_fan_state msg =
     new_FanState\<lparr>fans_key := as_w32 (get_m fan_state_response ''key'' msg),
       fans_state := as_bool (get_m fan_state_response ''state'' msg),
       fans_oscillating := as_bool (get_m fan_state_response ''oscillating'' msg),
       fans_direction := as_w32 (get_m fan_state_response ''direction'' msg),
       fans_speed_level := as_w32 (get_m fan_state_response ''speed_level'' msg),
       fans_preset_mode := as_str (get_m fan_state_response ''preset_mode'' msg)\<rparr>"

definition fan_state_response_report :: "FanState \<Rightarrow> (string \<times> member) list" where
  "fan_state_response_report s =
    [(''key'', Single (W32 (fans_key s))),
     (''state'', Single (B (fans_state s))),
     (''oscillating'', Single (B (fans_oscillating s))),
     (''direction'', Single (W32 (fans_direction s))),
     (''speed_level'', Single (W32 (fans_speed_level s))),
     (''preset_mode'', Single (Str (fans_preset_mode s)))]"

lemma fan_state_response_types [simp]:
  "single_type fan_state_response ''key'' = Some FFixed32"
  "single_type fan_state_response ''state'' = Some FBool"
  "single_type fan_state_response ''oscillating'' = Some FBool"
  "single_type fan_state_response ''speed'' = Some FEnum"
  "single_type fan_state_response ''direction'' = Some FEnum"
  "single_type fan_state_response ''speed_level'' = Some FInt32"
  "single_type fan_state_response ''preset_mode'' = Some FString"
  "single_type fan_state_response ''device_id'' = Some FUint32"
  by (simp_all add: fan_state_response_def class_types)

lemma fan_state_response_fits: "fits_fields fan_state_response (fan_state_response_report s)"
  by (simp add: fan_state_response_def fan_state_response_report_def fits_fields_def mk_field_simps)

lemma map_of_fan_state_response_report:
  "map_of (fan_state_response_report s) ''key'' = Some (Single (W32 (fans_key s)))"
  "map_of (fan_state_response_report s) ''state'' = Some (Single (B (fans_state s)))"
  "map_of (fan_state_response_report s) ''oscillating'' = Some (Single (B (fans_oscillating s)))"
  "map_of (fan_state_response_report s) ''direction'' = Some (Single (W32 (fans_direction s)))"
  "map_of (fan_state_response_report s) ''speed_level'' = Some (Single (W32 (fans_speed_level s)))"
  "map_of (fan_state_response_report s) ''preset_mode'' = Some (Single (Str (fans_preset_mode s)))"
  by (simp_all add: fan_state_response_report_def)

lemma parse_fan_state_reported:
  "parse_fan_state (normalise fan_state_response (of_fields fan_state_response (fan_state_response_report s))) = s"
  by (simp add: parse_fan_state_def new_FanState_def get_fields_wire [OF _ fan_state_response_fits] map_of_fan_state_response_report)

section \<open>Climate\<close>

record ClimateState =
  clms_key :: "u32"
  clms_mode :: "u32"
  clms_current_temperature :: "u32"
  clms_target_temperature :: "u32"
  clms_target_temperature_low :: "u32"
  clms_target_temperature_high :: "u32"
  clms_action :: "u32"
  clms_fan_mode :: "u32"
  clms_swing_mode :: "u32"
  clms_custom_fan_mode :: "string"
  clms_preset :: "u32"
  clms_custom_preset :: "string"
  clms_current_humidity :: "u32"
  clms_target_humidity :: "u32"

definition new_ClimateState :: ClimateState where
  "new_ClimateState =
     \<lparr>clms_key = 0, clms_mode = 0, clms_current_temperature = 0, clms_target_temperature = 0,
      clms_target_temperature_low = 0, clms_target_temperature_high = 0, clms_action = 0, clms_fan_mode = 0,
      clms_swing_mode = 0, clms_custom_fan_mode = [], clms_preset = 0, clms_custom_preset = [],
      clms_current_humidity = 0, clms_target_humidity = 0\<rparr>"

definition parse_climate_state :: "message \<Rightarrow> ClimateState" where
  "parse_climate_state msg =
     new_ClimateState\<lparr>clms_key := as_w32 (get_m climate_state_response ''key'' msg),
       clms_mode := as_w32 (get_m climate_state_response ''mode'' msg),
       clms_current_temperature := as_w32 (get_m climate_state_response ''current_temperature'' msg),
       clms_target_temperature := as_w32 (get_m climate_state_response ''target_temperature'' msg),
       clms_target_temperature_low := as_w32 (get_m climate_state_response ''target_temperature_low'' msg),
       clms_target_temperature_high := as_w32 (get_m climate_state_response ''target_temperature_high'' msg),
       clms_action := as_w32 (get_m climate_state_response ''action'' msg),
       clms_fan_mode := as_w32 (get_m climate_state_response ''fan_mode'' msg),
       clms_swing_mode := as_w32 (get_m climate_state_response ''swing_mode'' msg),
       clms_custom_fan_mode := as_str (get_m climate_state_response ''custom_fan_mode'' msg),
       clms_preset := as_w32 (get_m climate_state_response ''preset'' msg),
       clms_custom_preset := as_str (get_m climate_state_response ''custom_preset'' msg),
       clms_current_humidity := as_w32 (get_m climate_state_response ''current_humidity'' msg),
       clms_target_humidity := as_w32 (get_m climate_state_response ''target_humidity'' msg)\<rparr>"

definition climate_state_response_report :: "ClimateState \<Rightarrow> (string \<times> member) list" where
  "climate_state_response_report s =
    [(''key'', Single (W32 (clms_key s))),
     (''mode'', Single (W32 (clms_mode s))),
     (''current_temperature'', Single (W32 (clms_current_temperature s))),
     (''target_temperature'', Single (W32 (clms_target_temperature s))),
     (''target_temperature_low'', Single (W32 (clms_target_temperature_low s))),
     (''target_temperature_high'', Single (W32 (clms_target_temperature_high s))),
     (''action'', Single (W32 (clms_action s))),
     (''fan_mode'', Single (W32 (clms_fan_mode s))),
     (''swing_mode'', Single (W32 (clms_swing_mode s))),
     (''custom_fan_mode'', Single (Str (clms_custom_fan_mode s))),
     (''preset'', Single (W32 (clms_preset s))),
     (''custom_preset'', Single (Str (clms_custom_preset s))),
     (''current_humidity'', Single (W32 (clms_current_humidity s))),
     (''target_humidity'', Single (W32 (clms_target_humidity s)))]"

definition settle_ClimateState :: "ClimateState \<Rightarrow> ClimateState" where
  "settle_ClimateState s =
     s\<lparr>clms_current_temperature := unsigned_zero (clms_current_temperature s),
       clms_target_temperature := unsigned_zero (clms_target_temperature s),
       clms_target_temperature_low := unsigned_zero (clms_target_temperature_low s),
       clms_target_temperature_high := unsigned_zero (clms_target_temperature_high s),
       clms_current_humidity := unsigned_zero (clms_current_humidity s),
       clms_target_humidity := unsigned_zero (clms_target_humidity s)\<rparr>"

lemma climate_state_response_types [simp]:
  "single_type climate_state_response ''key'' = Some FFixed32"
  "single_type climate_state_response ''mode'' = Some FEnum"
  "single_type climate_state_response ''current_temperature'' = Some FFloat"
  "single_type climate_state_response ''target_temperature'' = Some FFloat"
  "single_type climate_state_response ''target_temperature_low'' = Some FFloat"
  "single_type climate_state_response ''target_temperature_high'' = Some FFloat"
  "single_type climate_state_response ''unused_legacy_away'' = Some FBool"
  "single_type climate_state_response ''action'' = Some FEnum"
  "single_type climate_state_response ''fan_mode'' = Some FEnum"
  "single_type climate_state_response ''swing_mode'' = Some FEnum"
  "single_type climate_state_response ''custom_fan_mode'' = Some FString"
  "single_type climate_state_response ''preset'' = Some FEnum"
  "single_type climate_state_response ''custom_preset'' = Some FString"
  "single_type climate_state_response ''current_humidity'' = Some FFloat"
  "single_type climate_state_response ''target_humidity'' = Some FFloat"
  "single_type climate_state_response ''device_id'' = Some FUint32"
  by (simp_all add: climate_state_response_def class_types)

lemma climate_state_response_fits: "fits_fields climate_state_response (climate_state_response_report s)"
  by (simp add: climate_state_response_def climate_state_response_report_def fits_fields_def mk_field_simps)

lemma map_of_climate_state_response_report:
  "map_of (climate_state_response_report s) ''key'' = Some (Single (W32 (clms_key s)))"
  "map_of (climate_state_response_report s) ''mode'' = Some (Single (W32 (clms_mode s)))"
  "map_of (climate_state_response_report s) ''current_temperature'' = Some (Single (W32 (clms_current_temperature s)))"
  "map_of (climate_state_response_report s) ''target_temperature'' = Some (Single (W32 (clms_target_temperature s)))"
  "map_of (climate_state_response_report s) ''target_temperature_low'' = Some (Single (W32 (clms_target_temperature_low s)))"
  "map_of (climate_state_response_report s) ''target_temperature_high'' = Some (Single (W32 (clms_target_temperature_high s)))"
  "map_of (climate_state_response_report s) ''action'' = Some (Single (W32 (clms_action s)))"
  "map_of (climate_state_response_report s) ''fan_mode'' = Some (Single (W32 (clms_fan_mode s)))"
  "map_of (climate_state_response_report s) ''swing_mode'' = Some (Single (W32 (clms_swing_mode s)))"
  "map_of (climate_state_response_report s) ''custom_fan_mode'' = Some (Single (Str (clms_custom_fan_mode s)))"
  "map_of (climate_state_response_report s) ''preset'' = Some (Single (W32 (clms_preset s)))"
  "map_of (climate_state_response_report s) ''custom_preset'' = Some (Single (Str (clms_custom_preset s)))"
  "map_of (climate_state_response_report s) ''current_humidity'' = Some (Single (W32 (clms_current_humidity s)))"
  "map_of (climate_state_response_report s) ''target_humidity'' = Some (Single (W32 (clms_target_humidity s)))"
  by (simp_all add: climate_state_response_report_def)

lemma parse_climate_state_reported:
  "parse_climate_state (normalise climate_state_response (of_fields climate_state_response (climate_state_response_report s))) = settle_ClimateState s"
  by (simp add: parse_climate_state_def new_ClimateState_def get_fields_wire [OF _ climate_state_response_fits] map_of_climate_state_response_report) (cases s, simp add: settle_ClimateState_def)

section \<open>Number\<close>

record NumberState =
  nums_key :: "u32"
  nums_state :: "u32"
  nums_missing_state :: "bool"

definition new_NumberState :: NumberState where
  "new_NumberState =
     \<lparr>nums_key = 0, nums_state = 0, nums_missing_state = False\<rparr>"

definition parse_number_state :: "message \<Rightarrow> NumberState" where
  "parse_number_state msg =
     new_NumberState\<lparr>nums_key := as_w32 (get_m number_state_response ''key'' msg),
       nums_state := as_w32 (get_m number_state_response ''state'' msg),
       nums_missing_state := as_bool (get_m number_state_response ''missing_state'' msg)\<rparr>"

definition number_state_response_report :: "NumberState \<Rightarrow> (string \<times> member) list" where
  "number_state_response_report s =
    [(''key'', Single (W32 (nums_key s))),
     (''state'', Single (W32 (nums_state s))),
     (''missing_state'', Single (B (nums_missing_state s)))]"

definition settle_NumberState :: "NumberState \<Rightarrow> NumberState" where
  "settle_NumberState s =
     s\<lparr>nums_state := unsigned_zero (nums_state s)\<rparr>"

lemma number_state_response_types [simp]:
  "single_type number_state_response ''key'' = Some FFixed32"
  "single_type number_state_response ''state'' = Some FFloat"
  "single_type number_state_response ''missing_state'' = Some FBool"
  "single_type number_state_response ''device_id'' = Some FUint32"
  by (simp_all add: number_state_response_def class_types)

lemma number_state_response_fits: "fits_fields number_state_response (number_state_response_report s)"
  by (simp add: number_state_response_def number_state_response_report_def fits_fields_def mk_field_simps)

lemma map_of_number_state_response_report:
  "map_of (number_state_response_report s) ''key'' = Some (Single (W32 (nums_key s)))"
  "map_of (number_state_response_report s) ''state'' = Some (Single (W32 (nums_state s)))"
  "map_of (number_state_response_report s) ''missing_state'' = Some (Single (B (nums_missing_state s)))"
  by (simp_all add: number_state_response_report_def)

lemma parse_number_state_reported:
  "parse_number_state (normalise number_state_response (of_fields number_state_response (number_state_response_report s))) = settle_NumberState s"
  by (simp add: parse_number_state_def new_NumberState_def get_fields_wire [OF _ number_state_response_fits] map_of_number_state_response_report) (cases s, simp add: settle_NumberState_def)

section \<open>Select\<close>

record SelectState =
  sels_key :: "u32"
  sels_state :: "string"
  sels_missing_state :: "bool"

definition new_SelectState :: SelectState where
  "new_SelectState =
     \<lparr>sels_key = 0, sels_state = [], sels_missing_state = False\<rparr>"

definition parse_select_state :: "message \<Rightarrow> SelectState" where
  "parse_select_state msg =
     new_SelectState\<lparr>sels_key := as_w32 (get_m select_state_response ''key'' msg),
       sels_state := as_str (get_m select_state_response ''state'' msg),
       sels_missing_state := as_bool (get_m select_state_response ''missing_state'' msg)\<rparr>"

definition select_state_response_report :: "SelectState \<Rightarrow> (string \<times> member) list" where
  "select_state_response_report s =
    [(''key'', Single (W32 (sels_key s))),
     (''state'', Single (Str (sels_state s))),
     (''missing_state'', Single (B (sels_missing_state s)))]"

lemma select_state_response_types [simp]:
  "single_type select_state_response ''key'' = Some FFixed32"
  "single_type select_state_response ''state'' = Some FString"
  "single_type select_state_response ''missing_state'' = Some FBool"
  "single_type select_state_response ''device_id'' = Some FUint32"
  by (simp_all add: select_state_response_def class_types)

lemma select_state_response_fits: "fits_fields select_state_response (select_state_response_report s)"
  by (simp add: select_state_response_def select_state_response_report_def fits_fields_def mk_field_simps)

lemma map_of_select_state_response_report:
  "map_of (select_state_response_report s) ''key'' = Some (Single (W32 (sels_key s)))"
  "map_of (select_state_response_report s) ''state'' = Some (Single (Str (sels_state s)))"
  "map_of (select_state_response_report s) ''missing_state'' = Some (Single (B (sels_missing_state s)))"
  by (simp_all add: select_state_response_report_def)

lemma parse_select_state_reported:
  "parse_select_state (normalise select_state_response (of_fields select_state_response (select_state_response_report s))) = s"
  by (simp add: parse_select_state_def new_SelectState_def get_fields_wire [OF _ select_state_response_fits] map_of_select_state_response_report)

section \<open>Text\<close>

record TextState =
  txts_key :: "u32"
  txts_state :: "string"
  txts_missing_state :: "bool"

definition new_TextState :: TextState where
  "new_TextState =
     \<lparr>txts_key = 0, txts_state = [], txts_missing_state = False\<rparr>"

definition parse_text_state :: "message \<Rightarrow> TextState" where
  "parse_text_state msg =
     new_TextState\<lparr>txts_key := as_w32 (get_m text_state_response ''key'' msg),
       txts_state := as_str (get_m text_state_response ''state'' msg),
       txts_missing_state := as_bool (get_m text_state_response ''missing_state'' msg)\<rparr>"

definition text_state_response_report :: "TextState \<Rightarrow> (string \<times> member) list" where
  "text_state_response_report s =
    [(''key'', Single (W32 (txts_key s))),
     (''state'', Single (Str (txts_state s))),
     (''missing_state'', Single (B (txts_missing_state s)))]"

lemma text_state_response_types [simp]:
  "single_type text_state_response ''key'' = Some FFixed32"
  "single_type text_state_response ''state'' = Some FString"
  "single_type text_state_response ''missing_state'' = Some FBool"
  "single_type text_state_response ''device_id'' = Some FUint32"
  by (simp_all add: text_state_response_def class_types)

lemma text_state_response_fits: "fits_fields text_state_response (text_state_response_report s)"
  by (simp add: text_state_response_def text_state_response_report_def fits_fields_def mk_field_simps)

lemma map_of_text_state_response_report:
  "map_of (text_state_response_report s) ''key'' = Some (Single (W32 (txts_key s)))"
  "map_of (text_state_response_report s) ''state'' = Some (Single (Str (txts_state s)))"
  "map_of (text_state_response_report s) ''missing_state'' = Some (Single (B (txts_missing_state s)))"
  by (simp_all add: text_state_response_report_def)

lemma parse_text_state_reported:
  "parse_text_state (normalise text_state_response (of_fields text_state_response (text_state_response_report s))) = s"
  by (simp add: parse_text_state_def new_TextState_def get_fields_wire [OF _ text_state_response_fits] map_of_text_state_response_report)

section \<open>Lock\<close>

record LockEntityState =
  lcks_key :: "u32"
  lcks_state :: "u32"

definition new_LockEntityState :: LockEntityState where
  "new_LockEntityState =
     \<lparr>lcks_key = 0, lcks_state = 0\<rparr>"

definition parse_lock_state :: "message \<Rightarrow> LockEntityState" where
  "parse_lock_state msg =
     new_LockEntityState\<lparr>lcks_key := as_w32 (get_m lock_state_response ''key'' msg),
       lcks_state := as_w32 (get_m lock_state_response ''state'' msg)\<rparr>"

definition lock_state_response_report :: "LockEntityState \<Rightarrow> (string \<times> member) list" where
  "lock_state_response_report s =
    [(''key'', Single (W32 (lcks_key s))),
     (''state'', Single (W32 (lcks_state s)))]"

lemma lock_state_response_types [simp]:
  "single_type lock_state_response ''key'' = Some FFixed32"
  "single_type lock_state_response ''state'' = Some FEnum"
  "single_type lock_state_response ''device_id'' = Some FUint32"
  by (simp_all add: lock_state_response_def class_types)

lemma lock_state_response_fits: "fits_fields lock_state_response (lock_state_response_report s)"
  by (simp add: lock_state_response_def lock_state_response_report_def fits_fields_def mk_field_simps)

lemma map_of_lock_state_response_report:
  "map_of (lock_state_response_report s) ''key'' = Some (Single (W32 (lcks_key s)))"
  "map_of (lock_state_response_report s) ''state'' = Some (Single (W32 (lcks_state s)))"
  by (simp_all add: lock_state_response_report_def)

lemma parse_lock_state_reported:
  "parse_lock_state (normalise lock_state_response (of_fields lock_state_response (lock_state_response_report s))) = s"
  by (simp add: parse_lock_state_def new_LockEntityState_def get_fields_wire [OF _ lock_state_response_fits] map_of_lock_state_response_report)

section \<open>Media player\<close>

record MediaPlayerStatus =
  mpls_key :: "u32"
  mpls_state :: "u32"
  mpls_volume :: "u32"
  mpls_muted :: "bool"

definition new_MediaPlayerStatus :: MediaPlayerStatus where
  "new_MediaPlayerStatus =
     \<lparr>mpls_key = 0, mpls_state = 0, mpls_volume = 0, mpls_muted = False\<rparr>"

definition parse_media_player_state :: "message \<Rightarrow> MediaPlayerStatus" where
  "parse_media_player_state msg =
     new_MediaPlayerStatus\<lparr>mpls_key := as_w32 (get_m media_player_state_response ''key'' msg),
       mpls_state := as_w32 (get_m media_player_state_response ''state'' msg),
       mpls_volume := as_w32 (get_m media_player_state_response ''volume'' msg),
       mpls_muted := as_bool (get_m media_player_state_response ''muted'' msg)\<rparr>"

definition media_player_state_response_report :: "MediaPlayerStatus \<Rightarrow> (string \<times> member) list" where
  "media_player_state_response_report s =
    [(''key'', Single (W32 (mpls_key s))),
     (''state'', Single (W32 (mpls_state s))),
     (''volume'', Single (W32 (mpls_volume s))),
     (''muted'', Single (B (mpls_muted s)))]"

definition settle_MediaPlayerStatus :: "MediaPlayerStatus \<Rightarrow> MediaPlayerStatus" where
  "settle_MediaPlayerStatus s =
     s\<lparr>mpls_volume := unsigned_zero (mpls_volume s)\<rparr>"

lemma media_player_state_response_types [simp]:
  "single_type media_player_state_response ''key'' = Some FFixed32"
  "single_type media_player_state_response ''state'' = Some FEnum"
  "single_type media_player_state_response ''volume'' = Some FFloat"
  "single_type media_player_state_response ''muted'' = Some FBool"
  "single_type media_player_state_response ''device_id'' = Some FUint32"
  by (simp_all add: media_player_state_response_def class_types)

lemma media_player_state_response_fits: "fits_fields media_player_state_response (media_player_state_response_report s)"
  by (simp add: media_player_state_response_def media_player_state_response_report_def fits_fields_def mk_field_simps)

lemma map_of_media_player_state_response_report:
  "map_of (media_player_state_response_report s) ''key'' = Some (Single (W32 (mpls_key s)))"
  "map_of (media_player_state_response_report s) ''state'' = Some (Single (W32 (mpls_state s)))"
  "map_of (media_player_state_response_report s) ''volume'' = Some (Single (W32 (mpls_volume s)))"
  "map_of (media_player_state_response_report s) ''muted'' = Some (Single (B (mpls_muted s)))"
  by (simp_all add: media_player_state_response_report_def)

lemma parse_media_player_state_reported:
  "parse_media_player_state (normalise media_player_state_response (of_fields media_player_state_response (media_player_state_response_report s))) = settle_MediaPlayerStatus s"
  by (simp add: parse_media_player_state_def new_MediaPlayerStatus_def get_fields_wire [OF _ media_player_state_response_fits] map_of_media_player_state_response_report) (cases s, simp add: settle_MediaPlayerStatus_def)

section \<open>Siren\<close>

record SirenState =
  srns_key :: "u32"
  srns_state :: "bool"

definition new_SirenState :: SirenState where
  "new_SirenState =
     \<lparr>srns_key = 0, srns_state = False\<rparr>"

definition parse_siren_state :: "message \<Rightarrow> SirenState" where
  "parse_siren_state msg =
     new_SirenState\<lparr>srns_key := as_w32 (get_m siren_state_response ''key'' msg),
       srns_state := as_bool (get_m siren_state_response ''state'' msg)\<rparr>"

definition siren_state_response_report :: "SirenState \<Rightarrow> (string \<times> member) list" where
  "siren_state_response_report s =
    [(''key'', Single (W32 (srns_key s))),
     (''state'', Single (B (srns_state s)))]"

lemma siren_state_response_types [simp]:
  "single_type siren_state_response ''key'' = Some FFixed32"
  "single_type siren_state_response ''state'' = Some FBool"
  "single_type siren_state_response ''device_id'' = Some FUint32"
  by (simp_all add: siren_state_response_def class_types)

lemma siren_state_response_fits: "fits_fields siren_state_response (siren_state_response_report s)"
  by (simp add: siren_state_response_def siren_state_response_report_def fits_fields_def mk_field_simps)

lemma map_of_siren_state_response_report:
  "map_of (siren_state_response_report s) ''key'' = Some (Single (W32 (srns_key s)))"
  "map_of (siren_state_response_report s) ''state'' = Some (Single (B (srns_state s)))"
  by (simp_all add: siren_state_response_report_def)

lemma parse_siren_state_reported:
  "parse_siren_state (normalise siren_state_response (of_fields siren_state_response (siren_state_response_report s))) = s"
  by (simp add: parse_siren_state_def new_SirenState_def get_fields_wire [OF _ siren_state_response_fits] map_of_siren_state_response_report)

section \<open>Alarm control panel\<close>

record AlarmControlPanelStatus =
  acps_key :: "u32"
  acps_state :: "u32"

definition new_AlarmControlPanelStatus :: AlarmControlPanelStatus where
  "new_AlarmControlPanelStatus =
     \<lparr>acps_key = 0, acps_state = 0\<rparr>"

definition parse_alarm_control_panel_state :: "message \<Rightarrow> AlarmControlPanelStatus" where
  "parse_alarm_control_panel_state msg =
     new_AlarmControlPanelStatus\<lparr>acps_key := as_w32 (get_m alarm_control_panel_state_response ''key'' msg),
       acps_state := as_w32 (get_m alarm_control_panel_state_response ''state'' msg)\<rparr>"

definition alarm_control_panel_state_response_report :: "AlarmControlPanelStatus \<Rightarrow> (string \<times> member) list" where
  "alarm_control_panel_state_response_report s =
    [(''key'', Single (W32 (acps_key s))),
     (''state'', Single (W32 (acps_state s)))]"

lemma alarm_control_panel_state_response_types [simp]:
  "single_type alarm_control_panel_state_response ''key'' = Some FFixed32"
  "single_type alarm_control_panel_state_response ''state'' = Some FEnum"
  "single_type alarm_control_panel_state_response ''device_id'' = Some FUint32"
  by (simp_all add: alarm_control_panel_state_response_def class_types)

lemma alarm_control_panel_state_response_fits: "fits_fields alarm_control_panel_state_response (alarm_control_panel_state_response_report s)"
  by (simp add: alarm_control_panel_state_response_def alarm_control_panel_state_response_report_def fits_fields_def mk_field_simps)

lemma map_of_alarm_control_panel_state_response_report:
  "map_of (alarm_control_panel_state_response_report s) ''key'' = Some (Single (W32 (acps_key s)))"
  "map_of (alarm_control_panel_state_response_report s) ''state'' = Some (Single (W32 (acps_state s)))"
  by (simp_all add: alarm_control_panel_state_response_report_def)

lemma parse_alarm_control_panel_state_reported:
  "parse_alarm_control_panel_state (normalise alarm_control_panel_state_response (of_fields alarm_control_panel_state_response (alarm_control_panel_state_response_report s))) = s"
  by (simp add: parse_alarm_control_panel_state_def new_AlarmControlPanelStatus_def get_fields_wire [OF _ alarm_control_panel_state_response_fits] map_of_alarm_control_panel_state_response_report)

section \<open>Date\<close>

record DateState =
  dats_key :: "u32"
  dats_missing_state :: "bool"
  dats_year :: "u32"
  dats_month :: "u32"
  dats_day :: "u32"

definition new_DateState :: DateState where
  "new_DateState =
     \<lparr>dats_key = 0, dats_missing_state = False, dats_year = 0, dats_month = 0, dats_day = 0\<rparr>"

definition parse_date_state :: "message \<Rightarrow> DateState" where
  "parse_date_state msg =
     new_DateState\<lparr>dats_key := as_w32 (get_m date_state_response ''key'' msg),
       dats_missing_state := as_bool (get_m date_state_response ''missing_state'' msg),
       dats_year := as_w32 (get_m date_state_response ''year'' msg),
       dats_month := as_w32 (get_m date_state_response ''month'' msg),
       dats_day := as_w32 (get_m date_state_response ''day'' msg)\<rparr>"

definition date_state_response_report :: "DateState \<Rightarrow> (string \<times> member) list" where
  "date_state_response_report s =
    [(''key'', Single (W32 (dats_key s))),
     (''missing_state'', Single (B (dats_missing_state s))),
     (''year'', Single (W32 (dats_year s))),
     (''month'', Single (W32 (dats_month s))),
     (''day'', Single (W32 (dats_day s)))]"

lemma date_state_response_types [simp]:
  "single_type date_state_response ''key'' = Some FFixed32"
  "single_type date_state_response ''missing_state'' = Some FBool"
  "single_type date_state_response ''year'' = Some FUint32"
  "single_type date_state_response ''month'' = Some FUint32"
  "single_type date_state_response ''day'' = Some FUint32"
  "single_type date_state_response ''device_id'' = Some FUint32"
  by (simp_all add: date_state_response_def class_types)

lemma date_state_response_fits: "fits_fields date_state_response (date_state_response_report s)"
  by (simp add: date_state_response_def date_state_response_report_def fits_fields_def mk_field_simps)

lemma map_of_date_state_response_report:
  "map_of (date_state_response_report s) ''key'' = Some (Single (W32 (dats_key s)))"
  "map_of (date_state_response_report s) ''missing_state'' = Some (Single (B (dats_missing_state s)))"
  "map_of (date_state_response_report s) ''year'' = Some (Single (W32 (dats_year s)))"
  "map_of (date_state_response_report s) ''month'' = Some (Single (W32 (dats_month s)))"
  "map_of (date_state_response_report s) ''day'' = Some (Single (W32 (dats_day s)))"
  by (simp_all add: date_state_response_report_def)

lemma parse_date_state_reported:
  "parse_date_state (normalise date_state_response (of_fields date_state_response (date_state_response_report s))) = s"
  by (simp add: parse_date_state_def new_DateState_def get_fields_wire [OF _ date_state_response_fits] map_of_date_state_response_report)

section \<open>Time\<close>

record TimeState =
  tims_key :: "u32"
  tims_missing_state :: "bool"
  tims_hour :: "u32"
  tims_minute :: "u32"
  tims_second :: "u32"

definition new_TimeState :: TimeState where
  "new_TimeState =
     \<lparr>tims_key = 0, tims_missing_state = False, tims_hour = 0, tims_minute = 0, tims_second = 0\<rparr>"

definition parse_time_state :: "message \<Rightarrow> TimeState" where
  "parse_time_state msg =
     new_TimeState\<lparr>tims_key := as_w32 (get_m time_state_response ''key'' msg),
       tims_missing_state := as_bool (get_m time_state_response ''missing_state'' msg),
       tims_hour := as_w32 (get_m time_state_response ''hour'' msg),
       tims_minute := as_w32 (get_m time_state_response ''minute'' msg),
       tims_second := as_w32 (get_m time_state_response ''second'' msg)\<rparr>"

definition time_state_response_report :: "TimeState \<Rightarrow> (string \<times> member) list" where
  "time_state_response_report s =
    [(''key'', Single (W32 (tims_key s))),
     (''missing_state'', Single (B (tims_missing_state s))),
     (''hour'', Single (W32 (tims_hour s))),
     (''minute'', Single (W32 (tims_minute s))),
     (''second'', Single (W32 (tims_second s)))]"

lemma time_state_response_types [simp]:
  "single_type time_state_response ''key'' = Some FFixed32"
  "single_type time_state_response ''missing_state'' = Some FBool"
  "single_type time_state_response ''hour'' = Some FUint32"
  "single_type time_state_response ''minute'' = Some FUint32"
  "single_type time_state_response ''second'' = Some FUint32"
  "single_type time_state_response ''device_id'' = Some FUint32"
  by (simp_all add: time_state_response_def class_types)

lemma time_state_response_fits: "fits_fields time_state_response (time_state_response_report s)"
  by (simp add: time_state_response_def time_state_response_report_def fits_fields_def mk_field_simps)

lemma map_of_time_state_response_report:
  "map_of (time_state_response_report s) ''key'' = Some (Single (W32 (tims_key s)))"
  "map_of (time_state_response_report s) ''missing_state'' = Some (Single (B (tims_missing_state s)))"
  "map_of (time_state_response_report s) ''hour'' = Some (Single (W32 (tims_hour s)))"
  "map_of (time_state_response_report s) ''minute'' = Some (Single (W32 (tims_minute s)))"
  "map_of (time_state_response_report s) ''second'' = Some (Single (W32 (tims_second s)))"
  by (simp_all add: time_state_response_report_def)

lemma parse_time_state_reported:
  "parse_time_state (normalise time_state_response (of_fields time_state_response (time_state_response_report s))) = s"
  by (simp add: parse_time_state_def new_TimeState_def get_fields_wire [OF _ time_state_response_fits] map_of_time_state_response_report)

section \<open>Date and time\<close>

record DateTimeState =
  dtms_key :: "u32"
  dtms_missing_state :: "bool"
  dtms_epoch_seconds :: "u32"

definition new_DateTimeState :: DateTimeState where
  "new_DateTimeState =
     \<lparr>dtms_key = 0, dtms_missing_state = False, dtms_epoch_seconds = 0\<rparr>"

definition parse_datetime_state :: "message \<Rightarrow> DateTimeState" where
  "parse_datetime_state msg =
     new_DateTimeState\<lparr>dtms_key := as_w32 (get_m date_time_state_response ''key'' msg),
       dtms_missing_state := as_bool (get_m date_time_state_response ''missing_state'' msg),
       dtms_epoch_seconds := as_w32 (get_m date_time_state_response ''epoch_seconds'' msg)\<rparr>"

definition date_time_state_response_report :: "DateTimeState \<Rightarrow> (string \<times> member) list" where
  "date_time_state_response_report s =
    [(''key'', Single (W32 (dtms_key s))),
     (''missing_state'', Single (B (dtms_missing_state s))),
     (''epoch_seconds'', Single (W32 (dtms_epoch_seconds s)))]"

lemma date_time_state_response_types [simp]:
  "single_type date_time_state_response ''key'' = Some FFixed32"
  "single_type date_time_state_response ''missing_state'' = Some FBool"
  "single_type date_time_state_response ''epoch_seconds'' = Some FFixed32"
  "single_type date_time_state_response ''device_id'' = Some FUint32"
  by (simp_all add: date_time_state_response_def class_types)

lemma date_time_state_response_fits: "fits_fields date_time_state_response (date_time_state_response_report s)"
  by (simp add: date_time_state_response_def date_time_state_response_report_def fits_fields_def mk_field_simps)

lemma map_of_date_time_state_response_report:
  "map_of (date_time_state_response_report s) ''key'' = Some (Single (W32 (dtms_key s)))"
  "map_of (date_time_state_response_report s) ''missing_state'' = Some (Single (B (dtms_missing_state s)))"
  "map_of (date_time_state_response_report s) ''epoch_seconds'' = Some (Single (W32 (dtms_epoch_seconds s)))"
  by (simp_all add: date_time_state_response_report_def)

lemma parse_datetime_state_reported:
  "parse_datetime_state (normalise date_time_state_response (of_fields date_time_state_response (date_time_state_response_report s))) = s"
  by (simp add: parse_datetime_state_def new_DateTimeState_def get_fields_wire [OF _ date_time_state_response_fits] map_of_date_time_state_response_report)

section \<open>Valve\<close>

record ValveState =
  vlvs_key :: "u32"
  vlvs_position :: "u32"
  vlvs_current_operation :: "u32"

definition new_ValveState :: ValveState where
  "new_ValveState =
     \<lparr>vlvs_key = 0, vlvs_position = 0, vlvs_current_operation = 0\<rparr>"

definition parse_valve_state :: "message \<Rightarrow> ValveState" where
  "parse_valve_state msg =
     new_ValveState\<lparr>vlvs_key := as_w32 (get_m valve_state_response ''key'' msg),
       vlvs_position := as_w32 (get_m valve_state_response ''position'' msg),
       vlvs_current_operation := as_w32 (get_m valve_state_response ''current_operation'' msg)\<rparr>"

definition valve_state_response_report :: "ValveState \<Rightarrow> (string \<times> member) list" where
  "valve_state_response_report s =
    [(''key'', Single (W32 (vlvs_key s))),
     (''position'', Single (W32 (vlvs_position s))),
     (''current_operation'', Single (W32 (vlvs_current_operation s)))]"

definition settle_ValveState :: "ValveState \<Rightarrow> ValveState" where
  "settle_ValveState s =
     s\<lparr>vlvs_position := unsigned_zero (vlvs_position s)\<rparr>"

lemma valve_state_response_types [simp]:
  "single_type valve_state_response ''key'' = Some FFixed32"
  "single_type valve_state_response ''position'' = Some FFloat"
  "single_type valve_state_response ''current_operation'' = Some FEnum"
  "single_type valve_state_response ''device_id'' = Some FUint32"
  by (simp_all add: valve_state_response_def class_types)

lemma valve_state_response_fits: "fits_fields valve_state_response (valve_state_response_report s)"
  by (simp add: valve_state_response_def valve_state_response_report_def fits_fields_def mk_field_simps)

lemma map_of_valve_state_response_report:
  "map_of (valve_state_response_report s) ''key'' = Some (Single (W32 (vlvs_key s)))"
  "map_of (valve_state_response_report s) ''position'' = Some (Single (W32 (vlvs_position s)))"
  "map_of (valve_state_response_report s) ''current_operation'' = Some (Single (W32 (vlvs_current_operation s)))"
  by (simp_all add: valve_state_response_report_def)

lemma parse_valve_state_reported:
  "parse_valve_state (normalise valve_state_response (of_fields valve_state_response (valve_state_response_report s))) = settle_ValveState s"
  by (simp add: parse_valve_state_def new_ValveState_def get_fields_wire [OF _ valve_state_response_fits] map_of_valve_state_response_report) (cases s, simp add: settle_ValveState_def)

section \<open>Event\<close>

record EventState =
  evts_key :: "u32"
  evts_event_type :: "string"

definition new_EventState :: EventState where
  "new_EventState =
     \<lparr>evts_key = 0, evts_event_type = []\<rparr>"

definition parse_event_state :: "message \<Rightarrow> EventState" where
  "parse_event_state msg =
     new_EventState\<lparr>evts_key := as_w32 (get_m event_response ''key'' msg),
       evts_event_type := as_str (get_m event_response ''event_type'' msg)\<rparr>"

definition event_response_report :: "EventState \<Rightarrow> (string \<times> member) list" where
  "event_response_report s =
    [(''key'', Single (W32 (evts_key s))),
     (''event_type'', Single (Str (evts_event_type s)))]"

lemma event_response_types [simp]:
  "single_type event_response ''key'' = Some FFixed32"
  "single_type event_response ''event_type'' = Some FString"
  "single_type event_response ''device_id'' = Some FUint32"
  by (simp_all add: event_response_def class_types)

lemma event_response_fits: "fits_fields event_response (event_response_report s)"
  by (simp add: event_response_def event_response_report_def fits_fields_def mk_field_simps)

lemma map_of_event_response_report:
  "map_of (event_response_report s) ''key'' = Some (Single (W32 (evts_key s)))"
  "map_of (event_response_report s) ''event_type'' = Some (Single (Str (evts_event_type s)))"
  by (simp_all add: event_response_report_def)

lemma parse_event_state_reported:
  "parse_event_state (normalise event_response (of_fields event_response (event_response_report s))) = s"
  by (simp add: parse_event_state_def new_EventState_def get_fields_wire [OF _ event_response_fits] map_of_event_response_report)

section \<open>Update\<close>

record UpdateState =
  upds_key :: "u32"
  upds_missing_state :: "bool"
  upds_in_progress :: "bool"
  upds_has_progress :: "bool"
  upds_progress :: "u32"
  upds_current_version :: "string"
  upds_latest_version :: "string"
  upds_title :: "string"
  upds_release_summary :: "string"
  upds_release_url :: "string"

definition new_UpdateState :: UpdateState where
  "new_UpdateState =
     \<lparr>upds_key = 0, upds_missing_state = False, upds_in_progress = False, upds_has_progress = False,
      upds_progress = 0, upds_current_version = [], upds_latest_version = [], upds_title = [],
      upds_release_summary = [], upds_release_url = []\<rparr>"

definition parse_update_state :: "message \<Rightarrow> UpdateState" where
  "parse_update_state msg =
     new_UpdateState\<lparr>upds_key := as_w32 (get_m update_state_response ''key'' msg),
       upds_missing_state := as_bool (get_m update_state_response ''missing_state'' msg),
       upds_in_progress := as_bool (get_m update_state_response ''in_progress'' msg),
       upds_has_progress := as_bool (get_m update_state_response ''has_progress'' msg),
       upds_progress := as_w32 (get_m update_state_response ''progress'' msg),
       upds_current_version := as_str (get_m update_state_response ''current_version'' msg),
       upds_latest_version := as_str (get_m update_state_response ''latest_version'' msg),
       upds_title := as_str (get_m update_state_response ''title'' msg),
       upds_release_summary := as_str (get_m update_state_response ''release_summary'' msg),
       upds_release_url := as_str (get_m update_state_response ''release_url'' msg)\<rparr>"

definition update_state_response_report :: "UpdateState \<Rightarrow> (string \<times> member) list" where
  "update_state_response_report s =
    [(''key'', Single (W32 (upds_key s))),
     (''missing_state'', Single (B (upds_missing_state s))),
     (''in_progress'', Single (B (upds_in_progress s))),
     (''has_progress'', Single (B (upds_has_progress s))),
     (''progress'', Single (W32 (upds_progress s))),
     (''current_version'', Single (Str (upds_current_version s))),
     (''latest_version'', Single (Str (upds_latest_version s))),
     (''title'', Single (Str (upds_title s))),
     (''release_summary'', Single (Str (upds_release_summary s))),
     (''release_url'', Single (Str (upds_release_url s)))]"

definition settle_UpdateState :: "UpdateState \<Rightarrow> UpdateState" where
  "settle_UpdateState s =
     s\<lparr>upds_progress := unsigned_zero (upds_progress s)\<rparr>"

lemma update_state_response_types [simp]:
  "single_type update_state_response ''key'' = Some FFixed32"
  "single_type update_state_response ''missing_state'' = Some FBool"
  "single_type update_state_response ''in_progress'' = Some FBool"
  "single_type update_state_response ''has_progress'' = Some FBool"
  "single_type update_state_response ''progress'' = Some FFloat"
  "single_type update_state_response ''current_version'' = Some FString"
  "single_type update_state_response ''latest_version'' = Some FString"
  "single_type update_state_response ''title'' = Some FString"
  "single_type update_state_response ''release_summary'' = Some FString"
  "single_type update_state_response ''release_url'' = Some FString"
  "single_type update_state_response ''device_id'' = Some FUint32"
  by (simp_all add: update_state_response_def class_types)

lemma update_state_response_fits: "fits_fields update_state_response (update_state_response_report s)"
  by (simp add: update_state_response_def update_state_response_report_def fits_fields_def mk_field_simps)

lemma map_of_update_state_response_report:
  "map_of (update_state_response_report s) ''key'' = Some (Single (W32 (upds_key s)))"
  "map_of (update_state_response_report s) ''missing_state'' = Some (Single (B (upds_missing_state s)))"
  "map_of (update_state_response_report s) ''in_progress'' = Some (Single (B (upds_in_progress s)))"
  "map_of (update_state_response_report s) ''has_progress'' = Some (Single (B (upds_has_progress s)))"
  "map_of (update_state_response_report s) ''progress'' = Some (Single (W32 (upds_progress s)))"
  "map_of (update_state_response_report s) ''current_version'' = Some (Single (Str (upds_current_version s)))"
  "map_of (update_state_response_report s) ''latest_version'' = Some (Single (Str (upds_latest_version s)))"
  "map_of (update_state_response_report s) ''title'' = Some (Single (Str (upds_title s)))"
  "map_of (update_state_response_report s) ''release_summary'' = Some (Single (Str (upds_release_summary s)))"
  "map_of (update_state_response_report s) ''release_url'' = Some (Single (Str (upds_release_url s)))"
  by (simp_all add: update_state_response_report_def)

lemma parse_update_state_reported:
  "parse_update_state (normalise update_state_response (of_fields update_state_response (update_state_response_report s))) = settle_UpdateState s"
  by (simp add: parse_update_state_def new_UpdateState_def get_fields_wire [OF _ update_state_response_fits] map_of_update_state_response_report) (cases s, simp add: settle_UpdateState_def)

section \<open>Water heater\<close>

record WaterHeaterState =
  whts_key :: "u32"
  whts_current_temperature :: "u32"
  whts_target_temperature :: "u32"
  whts_mode :: "u32"
  whts_state :: "u32"
  whts_target_temperature_low :: "u32"
  whts_target_temperature_high :: "u32"

definition new_WaterHeaterState :: WaterHeaterState where
  "new_WaterHeaterState =
     \<lparr>whts_key = 0, whts_current_temperature = 0, whts_target_temperature = 0, whts_mode = 0, whts_state = 0,
      whts_target_temperature_low = 0, whts_target_temperature_high = 0\<rparr>"

definition parse_water_heater_state :: "message \<Rightarrow> WaterHeaterState" where
  "parse_water_heater_state msg =
     new_WaterHeaterState\<lparr>whts_key := as_w32 (get_m water_heater_state_response ''key'' msg),
       whts_current_temperature := as_w32 (get_m water_heater_state_response ''current_temperature'' msg),
       whts_target_temperature := as_w32 (get_m water_heater_state_response ''target_temperature'' msg),
       whts_mode := as_w32 (get_m water_heater_state_response ''mode'' msg),
       whts_state := as_w32 (get_m water_heater_state_response ''state'' msg),
       whts_target_temperature_low := as_w32 (get_m water_heater_state_response ''target_temperature_low'' msg),
       whts_target_temperature_high := as_w32 (get_m water_heater_state_response ''target_temperature_high'' msg)\<rparr>"

definition water_heater_state_response_report :: "WaterHeaterState \<Rightarrow> (string \<times> member) list" where
  "water_heater_state_response_report s =
    [(''key'', Single (W32 (whts_key s))),
     (''current_temperature'', Single (W32 (whts_current_temperature s))),
     (''target_temperature'', Single (W32 (whts_target_temperature s))),
     (''mode'', Single (W32 (whts_mode s))),
     (''state'', Single (W32 (whts_state s))),
     (''target_temperature_low'', Single (W32 (whts_target_temperature_low s))),
     (''target_temperature_high'', Single (W32 (whts_target_temperature_high s)))]"

definition settle_WaterHeaterState :: "WaterHeaterState \<Rightarrow> WaterHeaterState" where
  "settle_WaterHeaterState s =
     s\<lparr>whts_current_temperature := unsigned_zero (whts_current_temperature s),
       whts_target_temperature := unsigned_zero (whts_target_temperature s),
       whts_target_temperature_low := unsigned_zero (whts_target_temperature_low s),
       whts_target_temperature_high := unsigned_zero (whts_target_temperature_high s)\<rparr>"

lemma water_heater_state_response_types [simp]:
  "single_type water_heater_state_response ''key'' = Some FFixed32"
  "single_type water_heater_state_response ''current_temperature'' = Some FFloat"
  "single_type water_heater_state_response ''target_temperature'' = Some FFloat"
  "single_type water_heater_state_response ''mode'' = Some FEnum"
  "single_type water_heater_state_response ''device_id'' = Some FUint32"
  "single_type water_heater_state_response ''state'' = Some FUint32"
  "single_type water_heater_state_response ''target_temperature_low'' = Some FFloat"
  "single_type water_heater_state_response ''target_temperature_high'' = Some FFloat"
  by (simp_all add: water_heater_state_response_def class_types)

lemma water_heater_state_response_fits: "fits_fields water_heater_state_response (water_heater_state_response_report s)"
  by (simp add: water_heater_state_response_def water_heater_state_response_report_def fits_fields_def mk_field_simps)

lemma map_of_water_heater_state_response_report:
  "map_of (water_heater_state_response_report s) ''key'' = Some (Single (W32 (whts_key s)))"
  "map_of (water_heater_state_response_report s) ''current_temperature'' = Some (Single (W32 (whts_current_temperature s)))"
  "map_of (water_heater_state_response_report s) ''target_temperature'' = Some (Single (W32 (whts_target_temperature s)))"
  "map_of (water_heater_state_response_report s) ''mode'' = Some (Single (W32 (whts_mode s)))"
  "map_of (water_heater_state_response_report s) ''state'' = Some (Single (W32 (whts_state s)))"
  "map_of (water_heater_state_response_report s) ''target_temperature_low'' = Some (Single (W32 (whts_target_temperature_low s)))"
  "map_of (water_heater_state_response_report s) ''target_temperature_high'' = Some (Single (W32 (whts_target_temperature_high s)))"
  by (simp_all add: water_heater_state_response_report_def)

lemma parse_water_heater_state_reported:
  "parse_water_heater_state (normalise water_heater_state_response (of_fields water_heater_state_response (water_heater_state_response_report s))) = settle_WaterHeaterState s"
  by (simp add: parse_water_heater_state_def new_WaterHeaterState_def get_fields_wire [OF _ water_heater_state_response_fits] map_of_water_heater_state_response_report) (cases s, simp add: settle_WaterHeaterState_def)

section \<open>All states\<close>

datatype entity_state =
    St_BinarySensor BinarySensorState
  | St_Sensor SensorState
  | St_TextSensor TextSensorState
  | St_Switch SwitchState
  | St_Light LightState
  | St_Cover CoverState
  | St_Fan FanState
  | St_Climate ClimateState
  | St_Number NumberState
  | St_Select SelectState
  | St_Text TextState
  | St_Lock LockEntityState
  | St_MediaPlayer MediaPlayerStatus
  | St_Siren SirenState
  | St_AlarmControlPanel AlarmControlPanelStatus
  | St_Date DateState
  | St_Time TimeState
  | St_DateTime DateTimeState
  | St_Valve ValveState
  | St_Event EventState
  | St_Update UpdateState
  | St_WaterHeater WaterHeaterState

fun state_domain :: "entity_state \<Rightarrow> entity_type" where
  "state_domain (St_BinarySensor _) = BinarySensor"
| "state_domain (St_Sensor _) = Sensor"
| "state_domain (St_TextSensor _) = TextSensor"
| "state_domain (St_Switch _) = Switch"
| "state_domain (St_Light _) = Light"
| "state_domain (St_Cover _) = Cover"
| "state_domain (St_Fan _) = Fan"
| "state_domain (St_Climate _) = Climate"
| "state_domain (St_Number _) = Number"
| "state_domain (St_Select _) = Select"
| "state_domain (St_Text _) = Text"
| "state_domain (St_Lock _) = Lock"
| "state_domain (St_MediaPlayer _) = MediaPlayer"
| "state_domain (St_Siren _) = Siren"
| "state_domain (St_AlarmControlPanel _) = AlarmControlPanel"
| "state_domain (St_Date _) = Date"
| "state_domain (St_Time _) = Time"
| "state_domain (St_DateTime _) = DateTime"
| "state_domain (St_Valve _) = Valve"
| "state_domain (St_Event _) = Event"
| "state_domain (St_Update _) = Update"
| "state_domain (St_WaterHeater _) = WaterHeater"

fun state_class_of :: "entity_state \<Rightarrow> msg_class" where
  "state_class_of (St_BinarySensor _) = binary_sensor_state_response"
| "state_class_of (St_Sensor _) = sensor_state_response"
| "state_class_of (St_TextSensor _) = text_sensor_state_response"
| "state_class_of (St_Switch _) = switch_state_response"
| "state_class_of (St_Light _) = light_state_response"
| "state_class_of (St_Cover _) = cover_state_response"
| "state_class_of (St_Fan _) = fan_state_response"
| "state_class_of (St_Climate _) = climate_state_response"
| "state_class_of (St_Number _) = number_state_response"
| "state_class_of (St_Select _) = select_state_response"
| "state_class_of (St_Text _) = text_state_response"
| "state_class_of (St_Lock _) = lock_state_response"
| "state_class_of (St_MediaPlayer _) = media_player_state_response"
| "state_class_of (St_Siren _) = siren_state_response"
| "state_class_of (St_AlarmControlPanel _) = alarm_control_panel_state_response"
| "state_class_of (St_Date _) = date_state_response"
| "state_class_of (St_Time _) = time_state_response"
| "state_class_of (St_DateTime _) = date_time_state_response"
| "state_class_of (St_Valve _) = valve_state_response"
| "state_class_of (St_Event _) = event_response"
| "state_class_of (St_Update _) = update_state_response"
| "state_class_of (St_WaterHeater _) = water_heater_state_response"

fun state_id :: "entity_state \<Rightarrow> u32" where
  "state_id (St_BinarySensor _) = 21"
| "state_id (St_Sensor _) = 25"
| "state_id (St_TextSensor _) = 27"
| "state_id (St_Switch _) = 26"
| "state_id (St_Light _) = 24"
| "state_id (St_Cover _) = 22"
| "state_id (St_Fan _) = 23"
| "state_id (St_Climate _) = 47"
| "state_id (St_Number _) = 50"
| "state_id (St_Select _) = 53"
| "state_id (St_Text _) = 98"
| "state_id (St_Lock _) = 59"
| "state_id (St_MediaPlayer _) = 64"
| "state_id (St_Siren _) = 56"
| "state_id (St_AlarmControlPanel _) = 95"
| "state_id (St_Date _) = 101"
| "state_id (St_Time _) = 104"
| "state_id (St_DateTime _) = 113"
| "state_id (St_Valve _) = 110"
| "state_id (St_Event _) = 108"
| "state_id (St_Update _) = 117"
| "state_id (St_WaterHeater _) = 133"

fun state_report :: "entity_state \<Rightarrow> (string \<times> member) list" where
  "state_report (St_BinarySensor s) = binary_sensor_state_response_report s"
| "state_report (St_Sensor s) = sensor_state_response_report s"
| "state_report (St_TextSensor s) = text_sensor_state_response_report s"
| "state_report (St_Switch s) = switch_state_response_report s"
| "state_report (St_Light s) = light_state_response_report s"
| "state_report (St_Cover s) = cover_state_response_report s"
| "state_report (St_Fan s) = fan_state_response_report s"
| "state_report (St_Climate s) = climate_state_response_report s"
| "state_report (St_Number s) = number_state_response_report s"
| "state_report (St_Select s) = select_state_response_report s"
| "state_report (St_Text s) = text_state_response_report s"
| "state_report (St_Lock s) = lock_state_response_report s"
| "state_report (St_MediaPlayer s) = media_player_state_response_report s"
| "state_report (St_Siren s) = siren_state_response_report s"
| "state_report (St_AlarmControlPanel s) = alarm_control_panel_state_response_report s"
| "state_report (St_Date s) = date_state_response_report s"
| "state_report (St_Time s) = time_state_response_report s"
| "state_report (St_DateTime s) = date_time_state_response_report s"
| "state_report (St_Valve s) = valve_state_response_report s"
| "state_report (St_Event s) = event_response_report s"
| "state_report (St_Update s) = update_state_response_report s"
| "state_report (St_WaterHeater s) = water_heater_state_response_report s"

fun reported_key :: "entity_state \<Rightarrow> u32" where
  "reported_key (St_BinarySensor s) = bsns_key s"
| "reported_key (St_Sensor s) = snss_key s"
| "reported_key (St_TextSensor s) = tsns_key s"
| "reported_key (St_Switch s) = swts_key s"
| "reported_key (St_Light s) = lgts_key s"
| "reported_key (St_Cover s) = covs_key s"
| "reported_key (St_Fan s) = fans_key s"
| "reported_key (St_Climate s) = clms_key s"
| "reported_key (St_Number s) = nums_key s"
| "reported_key (St_Select s) = sels_key s"
| "reported_key (St_Text s) = txts_key s"
| "reported_key (St_Lock s) = lcks_key s"
| "reported_key (St_MediaPlayer s) = mpls_key s"
| "reported_key (St_Siren s) = srns_key s"
| "reported_key (St_AlarmControlPanel s) = acps_key s"
| "reported_key (St_Date s) = dats_key s"
| "reported_key (St_Time s) = tims_key s"
| "reported_key (St_DateTime s) = dtms_key s"
| "reported_key (St_Valve s) = vlvs_key s"
| "reported_key (St_Event s) = evts_key s"
| "reported_key (St_Update s) = upds_key s"
| "reported_key (St_WaterHeater s) = whts_key s"

fun settle_state :: "entity_state \<Rightarrow> entity_state" where
  "settle_state (St_BinarySensor s) = St_BinarySensor (s)"
| "settle_state (St_Sensor s) = St_Sensor (settle_SensorState s)"
| "settle_state (St_TextSensor s) = St_TextSensor (s)"
| "settle_state (St_Switch s) = St_Switch (s)"
| "settle_state (St_Light s) = St_Light (settle_LightState s)"
| "settle_state (St_Cover s) = St_Cover (settle_CoverState s)"
| "settle_state (St_Fan s) = St_Fan (s)"
| "settle_state (St_Climate s) = St_Climate (settle_ClimateState s)"
| "settle_state (St_Number s) = St_Number (settle_NumberState s)"
| "settle_state (St_Select s) = St_Select (s)"
| "settle_state (St_Text s) = St_Text (s)"
| "settle_state (St_Lock s) = St_Lock (s)"
| "settle_state (St_MediaPlayer s) = St_MediaPlayer (settle_MediaPlayerStatus s)"
| "settle_state (St_Siren s) = St_Siren (s)"
| "settle_state (St_AlarmControlPanel s) = St_AlarmControlPanel (s)"
| "settle_state (St_Date s) = St_Date (s)"
| "settle_state (St_Time s) = St_Time (s)"
| "settle_state (St_DateTime s) = St_DateTime (s)"
| "settle_state (St_Valve s) = St_Valve (settle_ValveState s)"
| "settle_state (St_Event s) = St_Event (s)"
| "settle_state (St_Update s) = St_Update (settle_UpdateState s)"
| "settle_state (St_WaterHeater s) = St_WaterHeater (settle_WaterHeaterState s)"

lemma state_class_wf [simp]: "wf_class (state_class_of s)"
  by (cases s) (simp_all add: binary_sensor_state_response_wf
    sensor_state_response_wf
    text_sensor_state_response_wf
    switch_state_response_wf
    light_state_response_wf
    cover_state_response_wf
    fan_state_response_wf
    climate_state_response_wf
    number_state_response_wf
    select_state_response_wf
    text_state_response_wf
    lock_state_response_wf
    media_player_state_response_wf
    siren_state_response_wf
    alarm_control_panel_state_response_wf
    date_state_response_wf
    time_state_response_wf
    date_time_state_response_wf
    valve_state_response_wf
    event_response_wf
    update_state_response_wf
    water_heater_state_response_wf)

lemma state_report_fits: "fits_fields (state_class_of s) (state_report s)"
  by (cases s) (simp_all add: binary_sensor_state_response_fits
    sensor_state_response_fits
    text_sensor_state_response_fits
    switch_state_response_fits
    light_state_response_fits
    cover_state_response_fits
    fan_state_response_fits
    climate_state_response_fits
    number_state_response_fits
    select_state_response_fits
    text_state_response_fits
    lock_state_response_fits
    media_player_state_response_fits
    siren_state_response_fits
    alarm_control_panel_state_response_fits
    date_state_response_fits
    time_state_response_fits
    date_time_state_response_fits
    valve_state_response_fits
    event_response_fits
    update_state_response_fits
    water_heater_state_response_fits)

text \<open>The parser of a domain's state messages.\<close>

definition parse_state :: "entity_type \<Rightarrow> message \<Rightarrow> entity_state option" where
  "parse_state ty m =
     (case ty of
        BinarySensor \<Rightarrow> Some (St_BinarySensor (parse_binary_sensor_state m))
      | Sensor \<Rightarrow> Some (St_Sensor (parse_sensor_state m))
      | TextSensor \<Rightarrow> Some (St_TextSensor (parse_text_sensor_state m))
      | Switch \<Rightarrow> Some (St_Switch (parse_switch_state m))
      | Light \<Rightarrow> Some (St_Light (parse_light_state m))
      | Cover \<Rightarrow> Some (St_Cover (parse_cover_state m))
      | Fan \<Rightarrow> Some (St_Fan (parse_fan_state m))
      | Climate \<Rightarrow> Some (St_Climate (parse_climate_state m))
      | Number \<Rightarrow> Some (St_Number (parse_number_state m))
      | Select \<Rightarrow> Some (St_Select (parse_select_state m))
      | Text \<Rightarrow> Some (St_Text (parse_text_state m))
      | Lock \<Rightarrow> Some (St_Lock (parse_lock_state m))
      | MediaPlayer \<Rightarrow> Some (St_MediaPlayer (parse_media_player_state m))
      | Siren \<Rightarrow> Some (St_Siren (parse_siren_state m))
      | AlarmControlPanel \<Rightarrow> Some (St_AlarmControlPanel (parse_alarm_control_panel_state m))
      | Date \<Rightarrow> Some (St_Date (parse_date_state m))
      | Time \<Rightarrow> Some (St_Time (parse_time_state m))
      | DateTime \<Rightarrow> Some (St_DateTime (parse_datetime_state m))
      | Valve \<Rightarrow> Some (St_Valve (parse_valve_state m))
      | Event \<Rightarrow> Some (St_Event (parse_event_state m))
      | Update \<Rightarrow> Some (St_Update (parse_update_state m))
      | WaterHeater \<Rightarrow> Some (St_WaterHeater (parse_water_heater_state m))
      | _ \<Rightarrow> None)"

lemma parse_state_reported:
  "parse_state (state_domain s) (normalise (state_class_of s) (of_fields (state_class_of s) (state_report s))) =
     Some (settle_state s)"
  by (cases s) (simp_all add: parse_state_def parse_binary_sensor_state_reported
    parse_sensor_state_reported
    parse_text_sensor_state_reported
    parse_switch_state_reported
    parse_light_state_reported
    parse_cover_state_reported
    parse_fan_state_reported
    parse_climate_state_reported
    parse_number_state_reported
    parse_select_state_reported
    parse_text_state_reported
    parse_lock_state_reported
    parse_media_player_state_reported
    parse_siren_state_reported
    parse_alarm_control_panel_state_reported
    parse_date_state_reported
    parse_time_state_reported
    parse_datetime_state_reported
    parse_valve_state_reported
    parse_event_state_reported
    parse_update_state_reported
    parse_water_heater_state_reported)

interpretation states: wire_message state_class_of "\<lambda>s. of_fields (state_class_of s) (state_report s)"
    "\<lambda>s. parse_state (state_domain s)" "\<lambda>s. Some (settle_state s)"
  by unfold_locales (simp_all add: typed_of_fields state_report_fits parse_state_reported)

text \<open>The key that the store reads through the base class.\<close>

lemma state_key_wire:
  "get_m (state_class_of s) ''key'' (normalise (state_class_of s) (of_fields (state_class_of s) (state_report s))) =
     W32 (reported_key s)"
  by (cases s) (simp_all add: get_fields_wire [OF _ binary_sensor_state_response_fits] map_of_binary_sensor_state_response_report(1)
    get_fields_wire [OF _ sensor_state_response_fits] map_of_sensor_state_response_report(1)
    get_fields_wire [OF _ text_sensor_state_response_fits] map_of_text_sensor_state_response_report(1)
    get_fields_wire [OF _ switch_state_response_fits] map_of_switch_state_response_report(1)
    get_fields_wire [OF _ light_state_response_fits] map_of_light_state_response_report(1)
    get_fields_wire [OF _ cover_state_response_fits] map_of_cover_state_response_report(1)
    get_fields_wire [OF _ fan_state_response_fits] map_of_fan_state_response_report(1)
    get_fields_wire [OF _ climate_state_response_fits] map_of_climate_state_response_report(1)
    get_fields_wire [OF _ number_state_response_fits] map_of_number_state_response_report(1)
    get_fields_wire [OF _ select_state_response_fits] map_of_select_state_response_report(1)
    get_fields_wire [OF _ text_state_response_fits] map_of_text_state_response_report(1)
    get_fields_wire [OF _ lock_state_response_fits] map_of_lock_state_response_report(1)
    get_fields_wire [OF _ media_player_state_response_fits] map_of_media_player_state_response_report(1)
    get_fields_wire [OF _ siren_state_response_fits] map_of_siren_state_response_report(1)
    get_fields_wire [OF _ alarm_control_panel_state_response_fits] map_of_alarm_control_panel_state_response_report(1)
    get_fields_wire [OF _ date_state_response_fits] map_of_date_state_response_report(1)
    get_fields_wire [OF _ time_state_response_fits] map_of_time_state_response_report(1)
    get_fields_wire [OF _ date_time_state_response_fits] map_of_date_time_state_response_report(1)
    get_fields_wire [OF _ valve_state_response_fits] map_of_valve_state_response_report(1)
    get_fields_wire [OF _ event_response_fits] map_of_event_response_report(1)
    get_fields_wire [OF _ update_state_response_fits] map_of_update_state_response_report(1)
    get_fields_wire [OF _ water_heater_state_response_fits] map_of_water_heater_state_response_report(1))

end
