(* ===== verification/Entity_Infos.thy ===== *)
theory Entity_Infos
  imports Api_Schema Entity_Store
begin

text \<open>
  The static descriptions of the 26 entities: the structs derived from \<^verbatim>\<open>EntityInfo\<close> in
  \<^verbatim>\<open>include/esphome/api/model/entities\<close>, \<^verbatim>\<open>fill_entity_info\<close> of \<^verbatim>\<open>src/model/entity_common.hpp\<close> and the functions
  \<^verbatim>\<open>parse_*_info\<close> of \<^verbatim>\<open>src/model/entities\<close>.  Floats are bit patterns, mirrored enumerations their 32-bit
  values.  The device's side is the list of fields that it fills for a description.
\<close>

section \<open>The common part\<close>

record EntityInfo =
  ei_key :: u32
  ei_object_id :: string
  ei_name :: string
  ei_icon :: string
  ei_disabled_by_default :: bool
  ei_entity_category :: u32
  ei_device_id :: u32

definition fill_entity_info :: "msg_class \<Rightarrow> 'a EntityInfo_scheme \<Rightarrow> message \<Rightarrow> 'a EntityInfo_scheme" where
  "fill_entity_info cls info msg =
     (let info = info\<lparr>ei_key := as_w32 (get_m cls ''key'' msg)\<rparr>;
          info = info\<lparr>ei_name := as_str (get_m cls ''name'' msg)\<rparr>;
          info = info\<lparr>ei_object_id := as_str (get_m cls ''object_id'' msg)\<rparr>;
          info = (if ei_object_id info = [] then info\<lparr>ei_object_id := object_id_from_name (ei_name info)\<rparr> else info);
          info = info\<lparr>ei_icon := as_str (get_m cls ''icon'' msg)\<rparr>;
          info = info\<lparr>ei_disabled_by_default := as_bool (get_m cls ''disabled_by_default'' msg)\<rparr>;
          info = info\<lparr>ei_entity_category := as_w32 (get_m cls ''entity_category'' msg)\<rparr>
      in info\<lparr>ei_device_id := as_w32 (get_m cls ''device_id'' msg)\<rparr>)"

definition entity_report :: "'a EntityInfo_scheme \<Rightarrow> (string \<times> member) list" where
  "entity_report i =
     [(''key'', Single (W32 (ei_key i))), (''name'', Single (Str (ei_name i))),
      (''object_id'', Single (Str (ei_object_id i))), (''icon'', Single (Str (ei_icon i))),
      (''disabled_by_default'', Single (B (ei_disabled_by_default i))),
      (''entity_category'', Single (W32 (ei_entity_category i))), (''device_id'', Single (W32 (ei_device_id i)))]"

text \<open>A device that sends no \<^verbatim>\<open>object_id\<close> gets the one derived from the name.\<close>

definition settle_entity_info :: "'a EntityInfo_scheme \<Rightarrow> 'a EntityInfo_scheme" where
  "settle_entity_info i =
     i\<lparr>ei_object_id := (if ei_object_id i = [] then object_id_from_name (ei_name i) else ei_object_id i)\<rparr>"

lemma map_of_entity_report:
  "map_of (entity_report i) ''key'' = Some (Single (W32 (ei_key i)))"
  "map_of (entity_report i) ''name'' = Some (Single (Str (ei_name i)))"
  "map_of (entity_report i) ''object_id'' = Some (Single (Str (ei_object_id i)))"
  "map_of (entity_report i) ''icon'' = Some (Single (Str (ei_icon i)))"
  "map_of (entity_report i) ''disabled_by_default'' = Some (Single (B (ei_disabled_by_default i)))"
  "map_of (entity_report i) ''entity_category'' = Some (Single (W32 (ei_entity_category i)))"
  "map_of (entity_report i) ''device_id'' = Some (Single (W32 (ei_device_id i)))"
  by (simp_all add: entity_report_def)

lemma map_of_entity_report_None:
  "n \<notin> {''key'', ''name'', ''object_id'', ''icon'', ''disabled_by_default'', ''entity_category'', ''device_id''} \<Longrightarrow>
   map_of (entity_report i) n = None"
  by (simp add: entity_report_def)

lemma map_as [simp]:
  "as_w32 \<circ> W32 = id" "as_str \<circ> Str = id"
  "list_all (elem_ok FEnum) (map W32 xs)" "list_all (elem_ok FString) (map Str ss)" "list_all (elem_ok FInt32) (map W32 xs)"
  "list_all (elem_ok FUint32) (map W32 xs)"
  by (simp_all add: fun_eq_iff list_all_iff)

section \<open>Binary sensor\<close>

record BinarySensorInfo = EntityInfo +
  bsni_device_class :: "string"
  bsni_is_status_binary_sensor :: "bool"

definition new_BinarySensorInfo :: BinarySensorInfo where
  "new_BinarySensorInfo =
     \<lparr>ei_key = 0, ei_object_id = [], ei_name = [], ei_icon = [], ei_disabled_by_default = False,
      ei_entity_category = 0, ei_device_id = 0, bsni_device_class = [], bsni_is_status_binary_sensor = False\<rparr>"

definition parse_binary_sensor_info :: "message \<Rightarrow> BinarySensorInfo" where
  "parse_binary_sensor_info msg =
     (fill_entity_info list_entities_binary_sensor_response new_BinarySensorInfo msg)
      \<lparr>bsni_device_class := as_str (get_m list_entities_binary_sensor_response ''device_class'' msg),
       bsni_is_status_binary_sensor := as_bool (get_m list_entities_binary_sensor_response ''is_status_binary_sensor'' msg)\<rparr>"

definition list_entities_binary_sensor_response_report :: "BinarySensorInfo \<Rightarrow> (string \<times> member) list" where
  "list_entities_binary_sensor_response_report i = entity_report i @
    [(''device_class'', Single (Str (bsni_device_class i))),
     (''is_status_binary_sensor'', Single (B (bsni_is_status_binary_sensor i)))]"

lemma list_entities_binary_sensor_response_types [simp]:
  "single_type list_entities_binary_sensor_response ''object_id'' = Some FString"
  "single_type list_entities_binary_sensor_response ''key'' = Some FFixed32"
  "single_type list_entities_binary_sensor_response ''name'' = Some FString"
  "single_type list_entities_binary_sensor_response ''device_class'' = Some FString"
  "single_type list_entities_binary_sensor_response ''is_status_binary_sensor'' = Some FBool"
  "single_type list_entities_binary_sensor_response ''disabled_by_default'' = Some FBool"
  "single_type list_entities_binary_sensor_response ''icon'' = Some FString"
  "single_type list_entities_binary_sensor_response ''entity_category'' = Some FEnum"
  "single_type list_entities_binary_sensor_response ''device_id'' = Some FUint32"
  by (simp_all add: list_entities_binary_sensor_response_def class_types)

lemma map_of_list_entities_binary_sensor_response_report:
  "map_of (list_entities_binary_sensor_response_report i) ''key'' = Some (Single (W32 (ei_key i)))"
  "map_of (list_entities_binary_sensor_response_report i) ''object_id'' = Some (Single (Str (ei_object_id i)))"
  "map_of (list_entities_binary_sensor_response_report i) ''name'' = Some (Single (Str (ei_name i)))"
  "map_of (list_entities_binary_sensor_response_report i) ''icon'' = Some (Single (Str (ei_icon i)))"
  "map_of (list_entities_binary_sensor_response_report i) ''disabled_by_default'' = Some (Single (B (ei_disabled_by_default i)))"
  "map_of (list_entities_binary_sensor_response_report i) ''entity_category'' = Some (Single (W32 (ei_entity_category i)))"
  "map_of (list_entities_binary_sensor_response_report i) ''device_id'' = Some (Single (W32 (ei_device_id i)))"
  "map_of (list_entities_binary_sensor_response_report i) ''device_class'' = Some (Single (Str (bsni_device_class i)))"
  "map_of (list_entities_binary_sensor_response_report i) ''is_status_binary_sensor'' = Some (Single (B (bsni_is_status_binary_sensor i)))"
  by (simp_all add: list_entities_binary_sensor_response_report_def map_of_entity_report map_of_entity_report_None map_add_def)

lemma list_entities_binary_sensor_response_fits: "fits_fields list_entities_binary_sensor_response (list_entities_binary_sensor_response_report i)"
  by (simp add: list_entities_binary_sensor_response_def list_entities_binary_sensor_response_report_def entity_report_def fits_fields_def mk_field_simps)

lemma parse_binary_sensor_info_reported:
  "parse_binary_sensor_info (normalise list_entities_binary_sensor_response (of_fields list_entities_binary_sensor_response (list_entities_binary_sensor_response_report i))) = settle_entity_info i"
  by (simp add: parse_binary_sensor_info_def fill_entity_info_def Let_def new_BinarySensorInfo_def map_of_list_entities_binary_sensor_response_report
      get_fields_wire [OF _ list_entities_binary_sensor_response_fits] list_fields_wire [OF _ list_entities_binary_sensor_response_fits])
    (cases i, simp add: settle_entity_info_def)

section \<open>Sensor\<close>

record SensorInfo = EntityInfo +
  snsi_unit_of_measurement :: "string"
  snsi_accuracy_decimals :: "u32"
  snsi_force_update :: "bool"
  snsi_device_class :: "string"
  snsi_state_class :: "u32"

definition new_SensorInfo :: SensorInfo where
  "new_SensorInfo =
     \<lparr>ei_key = 0, ei_object_id = [], ei_name = [], ei_icon = [], ei_disabled_by_default = False,
      ei_entity_category = 0, ei_device_id = 0, snsi_unit_of_measurement = [], snsi_accuracy_decimals = 0,
      snsi_force_update = False, snsi_device_class = [], snsi_state_class = 0\<rparr>"

definition parse_sensor_info :: "message \<Rightarrow> SensorInfo" where
  "parse_sensor_info msg =
     (fill_entity_info list_entities_sensor_response new_SensorInfo msg)
      \<lparr>snsi_unit_of_measurement := as_str (get_m list_entities_sensor_response ''unit_of_measurement'' msg),
       snsi_accuracy_decimals := as_w32 (get_m list_entities_sensor_response ''accuracy_decimals'' msg),
       snsi_force_update := as_bool (get_m list_entities_sensor_response ''force_update'' msg),
       snsi_device_class := as_str (get_m list_entities_sensor_response ''device_class'' msg),
       snsi_state_class := as_w32 (get_m list_entities_sensor_response ''state_class'' msg)\<rparr>"

definition list_entities_sensor_response_report :: "SensorInfo \<Rightarrow> (string \<times> member) list" where
  "list_entities_sensor_response_report i = entity_report i @
    [(''unit_of_measurement'', Single (Str (snsi_unit_of_measurement i))),
     (''accuracy_decimals'', Single (W32 (snsi_accuracy_decimals i))),
     (''force_update'', Single (B (snsi_force_update i))),
     (''device_class'', Single (Str (snsi_device_class i))),
     (''state_class'', Single (W32 (snsi_state_class i)))]"

lemma list_entities_sensor_response_types [simp]:
  "single_type list_entities_sensor_response ''object_id'' = Some FString"
  "single_type list_entities_sensor_response ''key'' = Some FFixed32"
  "single_type list_entities_sensor_response ''name'' = Some FString"
  "single_type list_entities_sensor_response ''icon'' = Some FString"
  "single_type list_entities_sensor_response ''unit_of_measurement'' = Some FString"
  "single_type list_entities_sensor_response ''accuracy_decimals'' = Some FInt32"
  "single_type list_entities_sensor_response ''force_update'' = Some FBool"
  "single_type list_entities_sensor_response ''device_class'' = Some FString"
  "single_type list_entities_sensor_response ''state_class'' = Some FEnum"
  "single_type list_entities_sensor_response ''legacy_last_reset_type'' = Some FEnum"
  "single_type list_entities_sensor_response ''disabled_by_default'' = Some FBool"
  "single_type list_entities_sensor_response ''entity_category'' = Some FEnum"
  "single_type list_entities_sensor_response ''device_id'' = Some FUint32"
  by (simp_all add: list_entities_sensor_response_def class_types)

lemma map_of_list_entities_sensor_response_report:
  "map_of (list_entities_sensor_response_report i) ''key'' = Some (Single (W32 (ei_key i)))"
  "map_of (list_entities_sensor_response_report i) ''object_id'' = Some (Single (Str (ei_object_id i)))"
  "map_of (list_entities_sensor_response_report i) ''name'' = Some (Single (Str (ei_name i)))"
  "map_of (list_entities_sensor_response_report i) ''icon'' = Some (Single (Str (ei_icon i)))"
  "map_of (list_entities_sensor_response_report i) ''disabled_by_default'' = Some (Single (B (ei_disabled_by_default i)))"
  "map_of (list_entities_sensor_response_report i) ''entity_category'' = Some (Single (W32 (ei_entity_category i)))"
  "map_of (list_entities_sensor_response_report i) ''device_id'' = Some (Single (W32 (ei_device_id i)))"
  "map_of (list_entities_sensor_response_report i) ''unit_of_measurement'' = Some (Single (Str (snsi_unit_of_measurement i)))"
  "map_of (list_entities_sensor_response_report i) ''accuracy_decimals'' = Some (Single (W32 (snsi_accuracy_decimals i)))"
  "map_of (list_entities_sensor_response_report i) ''force_update'' = Some (Single (B (snsi_force_update i)))"
  "map_of (list_entities_sensor_response_report i) ''device_class'' = Some (Single (Str (snsi_device_class i)))"
  "map_of (list_entities_sensor_response_report i) ''state_class'' = Some (Single (W32 (snsi_state_class i)))"
  by (simp_all add: list_entities_sensor_response_report_def map_of_entity_report map_of_entity_report_None map_add_def)

lemma list_entities_sensor_response_fits: "fits_fields list_entities_sensor_response (list_entities_sensor_response_report i)"
  by (simp add: list_entities_sensor_response_def list_entities_sensor_response_report_def entity_report_def fits_fields_def mk_field_simps)

lemma parse_sensor_info_reported:
  "parse_sensor_info (normalise list_entities_sensor_response (of_fields list_entities_sensor_response (list_entities_sensor_response_report i))) = settle_entity_info i"
  by (simp add: parse_sensor_info_def fill_entity_info_def Let_def new_SensorInfo_def map_of_list_entities_sensor_response_report
      get_fields_wire [OF _ list_entities_sensor_response_fits] list_fields_wire [OF _ list_entities_sensor_response_fits])
    (cases i, simp add: settle_entity_info_def)

section \<open>Text sensor\<close>

record TextSensorInfo = EntityInfo +
  tsni_device_class :: "string"

definition new_TextSensorInfo :: TextSensorInfo where
  "new_TextSensorInfo =
     \<lparr>ei_key = 0, ei_object_id = [], ei_name = [], ei_icon = [], ei_disabled_by_default = False,
      ei_entity_category = 0, ei_device_id = 0, tsni_device_class = []\<rparr>"

definition parse_text_sensor_info :: "message \<Rightarrow> TextSensorInfo" where
  "parse_text_sensor_info msg =
     (fill_entity_info list_entities_text_sensor_response new_TextSensorInfo msg)
      \<lparr>tsni_device_class := as_str (get_m list_entities_text_sensor_response ''device_class'' msg)\<rparr>"

definition list_entities_text_sensor_response_report :: "TextSensorInfo \<Rightarrow> (string \<times> member) list" where
  "list_entities_text_sensor_response_report i = entity_report i @
    [(''device_class'', Single (Str (tsni_device_class i)))]"

lemma list_entities_text_sensor_response_types [simp]:
  "single_type list_entities_text_sensor_response ''object_id'' = Some FString"
  "single_type list_entities_text_sensor_response ''key'' = Some FFixed32"
  "single_type list_entities_text_sensor_response ''name'' = Some FString"
  "single_type list_entities_text_sensor_response ''icon'' = Some FString"
  "single_type list_entities_text_sensor_response ''disabled_by_default'' = Some FBool"
  "single_type list_entities_text_sensor_response ''entity_category'' = Some FEnum"
  "single_type list_entities_text_sensor_response ''device_class'' = Some FString"
  "single_type list_entities_text_sensor_response ''device_id'' = Some FUint32"
  by (simp_all add: list_entities_text_sensor_response_def class_types)

lemma map_of_list_entities_text_sensor_response_report:
  "map_of (list_entities_text_sensor_response_report i) ''key'' = Some (Single (W32 (ei_key i)))"
  "map_of (list_entities_text_sensor_response_report i) ''object_id'' = Some (Single (Str (ei_object_id i)))"
  "map_of (list_entities_text_sensor_response_report i) ''name'' = Some (Single (Str (ei_name i)))"
  "map_of (list_entities_text_sensor_response_report i) ''icon'' = Some (Single (Str (ei_icon i)))"
  "map_of (list_entities_text_sensor_response_report i) ''disabled_by_default'' = Some (Single (B (ei_disabled_by_default i)))"
  "map_of (list_entities_text_sensor_response_report i) ''entity_category'' = Some (Single (W32 (ei_entity_category i)))"
  "map_of (list_entities_text_sensor_response_report i) ''device_id'' = Some (Single (W32 (ei_device_id i)))"
  "map_of (list_entities_text_sensor_response_report i) ''device_class'' = Some (Single (Str (tsni_device_class i)))"
  by (simp_all add: list_entities_text_sensor_response_report_def map_of_entity_report map_of_entity_report_None map_add_def)

lemma list_entities_text_sensor_response_fits: "fits_fields list_entities_text_sensor_response (list_entities_text_sensor_response_report i)"
  by (simp add: list_entities_text_sensor_response_def list_entities_text_sensor_response_report_def entity_report_def fits_fields_def mk_field_simps)

lemma parse_text_sensor_info_reported:
  "parse_text_sensor_info (normalise list_entities_text_sensor_response (of_fields list_entities_text_sensor_response (list_entities_text_sensor_response_report i))) = settle_entity_info i"
  by (simp add: parse_text_sensor_info_def fill_entity_info_def Let_def new_TextSensorInfo_def map_of_list_entities_text_sensor_response_report
      get_fields_wire [OF _ list_entities_text_sensor_response_fits] list_fields_wire [OF _ list_entities_text_sensor_response_fits])
    (cases i, simp add: settle_entity_info_def)

section \<open>Switch\<close>

record SwitchInfo = EntityInfo +
  swti_assumed_state :: "bool"
  swti_device_class :: "string"

definition new_SwitchInfo :: SwitchInfo where
  "new_SwitchInfo =
     \<lparr>ei_key = 0, ei_object_id = [], ei_name = [], ei_icon = [], ei_disabled_by_default = False,
      ei_entity_category = 0, ei_device_id = 0, swti_assumed_state = False, swti_device_class = []\<rparr>"

definition parse_switch_info :: "message \<Rightarrow> SwitchInfo" where
  "parse_switch_info msg =
     (fill_entity_info list_entities_switch_response new_SwitchInfo msg)
      \<lparr>swti_assumed_state := as_bool (get_m list_entities_switch_response ''assumed_state'' msg),
       swti_device_class := as_str (get_m list_entities_switch_response ''device_class'' msg)\<rparr>"

definition list_entities_switch_response_report :: "SwitchInfo \<Rightarrow> (string \<times> member) list" where
  "list_entities_switch_response_report i = entity_report i @
    [(''assumed_state'', Single (B (swti_assumed_state i))),
     (''device_class'', Single (Str (swti_device_class i)))]"

lemma list_entities_switch_response_types [simp]:
  "single_type list_entities_switch_response ''object_id'' = Some FString"
  "single_type list_entities_switch_response ''key'' = Some FFixed32"
  "single_type list_entities_switch_response ''name'' = Some FString"
  "single_type list_entities_switch_response ''icon'' = Some FString"
  "single_type list_entities_switch_response ''assumed_state'' = Some FBool"
  "single_type list_entities_switch_response ''disabled_by_default'' = Some FBool"
  "single_type list_entities_switch_response ''entity_category'' = Some FEnum"
  "single_type list_entities_switch_response ''device_class'' = Some FString"
  "single_type list_entities_switch_response ''device_id'' = Some FUint32"
  by (simp_all add: list_entities_switch_response_def class_types)

lemma map_of_list_entities_switch_response_report:
  "map_of (list_entities_switch_response_report i) ''key'' = Some (Single (W32 (ei_key i)))"
  "map_of (list_entities_switch_response_report i) ''object_id'' = Some (Single (Str (ei_object_id i)))"
  "map_of (list_entities_switch_response_report i) ''name'' = Some (Single (Str (ei_name i)))"
  "map_of (list_entities_switch_response_report i) ''icon'' = Some (Single (Str (ei_icon i)))"
  "map_of (list_entities_switch_response_report i) ''disabled_by_default'' = Some (Single (B (ei_disabled_by_default i)))"
  "map_of (list_entities_switch_response_report i) ''entity_category'' = Some (Single (W32 (ei_entity_category i)))"
  "map_of (list_entities_switch_response_report i) ''device_id'' = Some (Single (W32 (ei_device_id i)))"
  "map_of (list_entities_switch_response_report i) ''assumed_state'' = Some (Single (B (swti_assumed_state i)))"
  "map_of (list_entities_switch_response_report i) ''device_class'' = Some (Single (Str (swti_device_class i)))"
  by (simp_all add: list_entities_switch_response_report_def map_of_entity_report map_of_entity_report_None map_add_def)

lemma list_entities_switch_response_fits: "fits_fields list_entities_switch_response (list_entities_switch_response_report i)"
  by (simp add: list_entities_switch_response_def list_entities_switch_response_report_def entity_report_def fits_fields_def mk_field_simps)

lemma parse_switch_info_reported:
  "parse_switch_info (normalise list_entities_switch_response (of_fields list_entities_switch_response (list_entities_switch_response_report i))) = settle_entity_info i"
  by (simp add: parse_switch_info_def fill_entity_info_def Let_def new_SwitchInfo_def map_of_list_entities_switch_response_report
      get_fields_wire [OF _ list_entities_switch_response_fits] list_fields_wire [OF _ list_entities_switch_response_fits])
    (cases i, simp add: settle_entity_info_def)

section \<open>Light\<close>

record LightInfo = EntityInfo +
  lgti_supported_color_modes :: "u32 list"
  lgti_min_mireds :: "u32"
  lgti_max_mireds :: "u32"
  lgti_effects :: "string list"

definition new_LightInfo :: LightInfo where
  "new_LightInfo =
     \<lparr>ei_key = 0, ei_object_id = [], ei_name = [], ei_icon = [], ei_disabled_by_default = False,
      ei_entity_category = 0, ei_device_id = 0, lgti_supported_color_modes = [], lgti_min_mireds = 0,
      lgti_max_mireds = 0, lgti_effects = []\<rparr>"

definition parse_light_info :: "message \<Rightarrow> LightInfo" where
  "parse_light_info msg =
     (fill_entity_info list_entities_light_response new_LightInfo msg)
      \<lparr>lgti_supported_color_modes := map as_w32 (list_m list_entities_light_response ''supported_color_modes'' msg),
       lgti_min_mireds := as_w32 (get_m list_entities_light_response ''min_mireds'' msg),
       lgti_max_mireds := as_w32 (get_m list_entities_light_response ''max_mireds'' msg),
       lgti_effects := map as_str (list_m list_entities_light_response ''effects'' msg)\<rparr>"

definition list_entities_light_response_report :: "LightInfo \<Rightarrow> (string \<times> member) list" where
  "list_entities_light_response_report i = entity_report i @
    [(''supported_color_modes'', Repeated (map W32 (lgti_supported_color_modes i))),
     (''min_mireds'', Single (W32 (lgti_min_mireds i))),
     (''max_mireds'', Single (W32 (lgti_max_mireds i))),
     (''effects'', Repeated (map Str (lgti_effects i)))]"

definition settle_LightInfo :: "LightInfo \<Rightarrow> LightInfo" where
  "settle_LightInfo i =
     (settle_entity_info i)\<lparr>lgti_min_mireds := unsigned_zero (lgti_min_mireds i),
       lgti_max_mireds := unsigned_zero (lgti_max_mireds i)\<rparr>"

lemma list_entities_light_response_types [simp]:
  "single_type list_entities_light_response ''object_id'' = Some FString"
  "single_type list_entities_light_response ''key'' = Some FFixed32"
  "single_type list_entities_light_response ''name'' = Some FString"
  "single_type list_entities_light_response ''legacy_supports_brightness'' = Some FBool"
  "single_type list_entities_light_response ''legacy_supports_rgb'' = Some FBool"
  "single_type list_entities_light_response ''legacy_supports_white_value'' = Some FBool"
  "single_type list_entities_light_response ''legacy_supports_color_temperature'' = Some FBool"
  "single_type list_entities_light_response ''min_mireds'' = Some FFloat"
  "single_type list_entities_light_response ''max_mireds'' = Some FFloat"
  "list_type list_entities_light_response ''effects'' = Some FString"
  "list_type list_entities_light_response ''supported_color_modes'' = Some FEnum"
  "single_type list_entities_light_response ''disabled_by_default'' = Some FBool"
  "single_type list_entities_light_response ''icon'' = Some FString"
  "single_type list_entities_light_response ''entity_category'' = Some FEnum"
  "single_type list_entities_light_response ''device_id'' = Some FUint32"
  by (simp_all add: list_entities_light_response_def class_types)

lemma map_of_list_entities_light_response_report:
  "map_of (list_entities_light_response_report i) ''key'' = Some (Single (W32 (ei_key i)))"
  "map_of (list_entities_light_response_report i) ''object_id'' = Some (Single (Str (ei_object_id i)))"
  "map_of (list_entities_light_response_report i) ''name'' = Some (Single (Str (ei_name i)))"
  "map_of (list_entities_light_response_report i) ''icon'' = Some (Single (Str (ei_icon i)))"
  "map_of (list_entities_light_response_report i) ''disabled_by_default'' = Some (Single (B (ei_disabled_by_default i)))"
  "map_of (list_entities_light_response_report i) ''entity_category'' = Some (Single (W32 (ei_entity_category i)))"
  "map_of (list_entities_light_response_report i) ''device_id'' = Some (Single (W32 (ei_device_id i)))"
  "map_of (list_entities_light_response_report i) ''supported_color_modes'' = Some (Repeated (map W32 (lgti_supported_color_modes i)))"
  "map_of (list_entities_light_response_report i) ''min_mireds'' = Some (Single (W32 (lgti_min_mireds i)))"
  "map_of (list_entities_light_response_report i) ''max_mireds'' = Some (Single (W32 (lgti_max_mireds i)))"
  "map_of (list_entities_light_response_report i) ''effects'' = Some (Repeated (map Str (lgti_effects i)))"
  by (simp_all add: list_entities_light_response_report_def map_of_entity_report map_of_entity_report_None map_add_def)

lemma list_entities_light_response_fits: "fits_fields list_entities_light_response (list_entities_light_response_report i)"
  by (simp add: list_entities_light_response_def list_entities_light_response_report_def entity_report_def fits_fields_def mk_field_simps)

lemma parse_light_info_reported:
  "parse_light_info (normalise list_entities_light_response (of_fields list_entities_light_response (list_entities_light_response_report i))) = settle_LightInfo i"
  by (simp add: parse_light_info_def fill_entity_info_def Let_def new_LightInfo_def map_of_list_entities_light_response_report
      get_fields_wire [OF _ list_entities_light_response_fits] list_fields_wire [OF _ list_entities_light_response_fits])
    (cases i, simp add: settle_LightInfo_def settle_entity_info_def)

section \<open>Cover\<close>

record CoverInfo = EntityInfo +
  covi_assumed_state :: "bool"
  covi_supports_position :: "bool"
  covi_supports_tilt :: "bool"
  covi_device_class :: "string"
  covi_supports_stop :: "bool"

definition new_CoverInfo :: CoverInfo where
  "new_CoverInfo =
     \<lparr>ei_key = 0, ei_object_id = [], ei_name = [], ei_icon = [], ei_disabled_by_default = False,
      ei_entity_category = 0, ei_device_id = 0, covi_assumed_state = False, covi_supports_position = False,
      covi_supports_tilt = False, covi_device_class = [], covi_supports_stop = False\<rparr>"

definition parse_cover_info :: "message \<Rightarrow> CoverInfo" where
  "parse_cover_info msg =
     (fill_entity_info list_entities_cover_response new_CoverInfo msg)
      \<lparr>covi_assumed_state := as_bool (get_m list_entities_cover_response ''assumed_state'' msg),
       covi_supports_position := as_bool (get_m list_entities_cover_response ''supports_position'' msg),
       covi_supports_tilt := as_bool (get_m list_entities_cover_response ''supports_tilt'' msg),
       covi_device_class := as_str (get_m list_entities_cover_response ''device_class'' msg),
       covi_supports_stop := as_bool (get_m list_entities_cover_response ''supports_stop'' msg)\<rparr>"

definition list_entities_cover_response_report :: "CoverInfo \<Rightarrow> (string \<times> member) list" where
  "list_entities_cover_response_report i = entity_report i @
    [(''assumed_state'', Single (B (covi_assumed_state i))),
     (''supports_position'', Single (B (covi_supports_position i))),
     (''supports_tilt'', Single (B (covi_supports_tilt i))),
     (''device_class'', Single (Str (covi_device_class i))),
     (''supports_stop'', Single (B (covi_supports_stop i)))]"

lemma list_entities_cover_response_types [simp]:
  "single_type list_entities_cover_response ''object_id'' = Some FString"
  "single_type list_entities_cover_response ''key'' = Some FFixed32"
  "single_type list_entities_cover_response ''name'' = Some FString"
  "single_type list_entities_cover_response ''assumed_state'' = Some FBool"
  "single_type list_entities_cover_response ''supports_position'' = Some FBool"
  "single_type list_entities_cover_response ''supports_tilt'' = Some FBool"
  "single_type list_entities_cover_response ''device_class'' = Some FString"
  "single_type list_entities_cover_response ''disabled_by_default'' = Some FBool"
  "single_type list_entities_cover_response ''icon'' = Some FString"
  "single_type list_entities_cover_response ''entity_category'' = Some FEnum"
  "single_type list_entities_cover_response ''supports_stop'' = Some FBool"
  "single_type list_entities_cover_response ''device_id'' = Some FUint32"
  by (simp_all add: list_entities_cover_response_def class_types)

lemma map_of_list_entities_cover_response_report:
  "map_of (list_entities_cover_response_report i) ''key'' = Some (Single (W32 (ei_key i)))"
  "map_of (list_entities_cover_response_report i) ''object_id'' = Some (Single (Str (ei_object_id i)))"
  "map_of (list_entities_cover_response_report i) ''name'' = Some (Single (Str (ei_name i)))"
  "map_of (list_entities_cover_response_report i) ''icon'' = Some (Single (Str (ei_icon i)))"
  "map_of (list_entities_cover_response_report i) ''disabled_by_default'' = Some (Single (B (ei_disabled_by_default i)))"
  "map_of (list_entities_cover_response_report i) ''entity_category'' = Some (Single (W32 (ei_entity_category i)))"
  "map_of (list_entities_cover_response_report i) ''device_id'' = Some (Single (W32 (ei_device_id i)))"
  "map_of (list_entities_cover_response_report i) ''assumed_state'' = Some (Single (B (covi_assumed_state i)))"
  "map_of (list_entities_cover_response_report i) ''supports_position'' = Some (Single (B (covi_supports_position i)))"
  "map_of (list_entities_cover_response_report i) ''supports_tilt'' = Some (Single (B (covi_supports_tilt i)))"
  "map_of (list_entities_cover_response_report i) ''device_class'' = Some (Single (Str (covi_device_class i)))"
  "map_of (list_entities_cover_response_report i) ''supports_stop'' = Some (Single (B (covi_supports_stop i)))"
  by (simp_all add: list_entities_cover_response_report_def map_of_entity_report map_of_entity_report_None map_add_def)

lemma list_entities_cover_response_fits: "fits_fields list_entities_cover_response (list_entities_cover_response_report i)"
  by (simp add: list_entities_cover_response_def list_entities_cover_response_report_def entity_report_def fits_fields_def mk_field_simps)

lemma parse_cover_info_reported:
  "parse_cover_info (normalise list_entities_cover_response (of_fields list_entities_cover_response (list_entities_cover_response_report i))) = settle_entity_info i"
  by (simp add: parse_cover_info_def fill_entity_info_def Let_def new_CoverInfo_def map_of_list_entities_cover_response_report
      get_fields_wire [OF _ list_entities_cover_response_fits] list_fields_wire [OF _ list_entities_cover_response_fits])
    (cases i, simp add: settle_entity_info_def)

section \<open>Fan\<close>

record FanInfo = EntityInfo +
  fani_supports_oscillation :: "bool"
  fani_supports_speed :: "bool"
  fani_supports_direction :: "bool"
  fani_supported_speed_count :: "u32"
  fani_supported_preset_modes :: "string list"

definition new_FanInfo :: FanInfo where
  "new_FanInfo =
     \<lparr>ei_key = 0, ei_object_id = [], ei_name = [], ei_icon = [], ei_disabled_by_default = False,
      ei_entity_category = 0, ei_device_id = 0, fani_supports_oscillation = False, fani_supports_speed = False,
      fani_supports_direction = False, fani_supported_speed_count = 0, fani_supported_preset_modes = []\<rparr>"

definition parse_fan_info :: "message \<Rightarrow> FanInfo" where
  "parse_fan_info msg =
     (fill_entity_info list_entities_fan_response new_FanInfo msg)
      \<lparr>fani_supports_oscillation := as_bool (get_m list_entities_fan_response ''supports_oscillation'' msg),
       fani_supports_speed := as_bool (get_m list_entities_fan_response ''supports_speed'' msg),
       fani_supports_direction := as_bool (get_m list_entities_fan_response ''supports_direction'' msg),
       fani_supported_speed_count := as_w32 (get_m list_entities_fan_response ''supported_speed_count'' msg),
       fani_supported_preset_modes := map as_str (list_m list_entities_fan_response ''supported_preset_modes'' msg)\<rparr>"

definition list_entities_fan_response_report :: "FanInfo \<Rightarrow> (string \<times> member) list" where
  "list_entities_fan_response_report i = entity_report i @
    [(''supports_oscillation'', Single (B (fani_supports_oscillation i))),
     (''supports_speed'', Single (B (fani_supports_speed i))),
     (''supports_direction'', Single (B (fani_supports_direction i))),
     (''supported_speed_count'', Single (W32 (fani_supported_speed_count i))),
     (''supported_preset_modes'', Repeated (map Str (fani_supported_preset_modes i)))]"

lemma list_entities_fan_response_types [simp]:
  "single_type list_entities_fan_response ''object_id'' = Some FString"
  "single_type list_entities_fan_response ''key'' = Some FFixed32"
  "single_type list_entities_fan_response ''name'' = Some FString"
  "single_type list_entities_fan_response ''supports_oscillation'' = Some FBool"
  "single_type list_entities_fan_response ''supports_speed'' = Some FBool"
  "single_type list_entities_fan_response ''supports_direction'' = Some FBool"
  "single_type list_entities_fan_response ''supported_speed_count'' = Some FInt32"
  "single_type list_entities_fan_response ''disabled_by_default'' = Some FBool"
  "single_type list_entities_fan_response ''icon'' = Some FString"
  "single_type list_entities_fan_response ''entity_category'' = Some FEnum"
  "list_type list_entities_fan_response ''supported_preset_modes'' = Some FString"
  "single_type list_entities_fan_response ''device_id'' = Some FUint32"
  by (simp_all add: list_entities_fan_response_def class_types)

lemma map_of_list_entities_fan_response_report:
  "map_of (list_entities_fan_response_report i) ''key'' = Some (Single (W32 (ei_key i)))"
  "map_of (list_entities_fan_response_report i) ''object_id'' = Some (Single (Str (ei_object_id i)))"
  "map_of (list_entities_fan_response_report i) ''name'' = Some (Single (Str (ei_name i)))"
  "map_of (list_entities_fan_response_report i) ''icon'' = Some (Single (Str (ei_icon i)))"
  "map_of (list_entities_fan_response_report i) ''disabled_by_default'' = Some (Single (B (ei_disabled_by_default i)))"
  "map_of (list_entities_fan_response_report i) ''entity_category'' = Some (Single (W32 (ei_entity_category i)))"
  "map_of (list_entities_fan_response_report i) ''device_id'' = Some (Single (W32 (ei_device_id i)))"
  "map_of (list_entities_fan_response_report i) ''supports_oscillation'' = Some (Single (B (fani_supports_oscillation i)))"
  "map_of (list_entities_fan_response_report i) ''supports_speed'' = Some (Single (B (fani_supports_speed i)))"
  "map_of (list_entities_fan_response_report i) ''supports_direction'' = Some (Single (B (fani_supports_direction i)))"
  "map_of (list_entities_fan_response_report i) ''supported_speed_count'' = Some (Single (W32 (fani_supported_speed_count i)))"
  "map_of (list_entities_fan_response_report i) ''supported_preset_modes'' = Some (Repeated (map Str (fani_supported_preset_modes i)))"
  by (simp_all add: list_entities_fan_response_report_def map_of_entity_report map_of_entity_report_None map_add_def)

lemma list_entities_fan_response_fits: "fits_fields list_entities_fan_response (list_entities_fan_response_report i)"
  by (simp add: list_entities_fan_response_def list_entities_fan_response_report_def entity_report_def fits_fields_def mk_field_simps)

lemma parse_fan_info_reported:
  "parse_fan_info (normalise list_entities_fan_response (of_fields list_entities_fan_response (list_entities_fan_response_report i))) = settle_entity_info i"
  by (simp add: parse_fan_info_def fill_entity_info_def Let_def new_FanInfo_def map_of_list_entities_fan_response_report
      get_fields_wire [OF _ list_entities_fan_response_fits] list_fields_wire [OF _ list_entities_fan_response_fits])
    (cases i, simp add: settle_entity_info_def)

section \<open>Climate\<close>

record ClimateInfo = EntityInfo +
  clmi_supported_modes :: "u32 list"
  clmi_visual_min_temperature :: "u32"
  clmi_visual_max_temperature :: "u32"
  clmi_visual_target_temperature_step :: "u32"
  clmi_supported_fan_modes :: "u32 list"
  clmi_supported_swing_modes :: "u32 list"
  clmi_supported_custom_fan_modes :: "string list"
  clmi_supported_presets :: "u32 list"
  clmi_supported_custom_presets :: "string list"
  clmi_visual_current_temperature_step :: "u32"
  clmi_visual_min_humidity :: "u32"
  clmi_visual_max_humidity :: "u32"
  clmi_feature_flags :: "u32"
  clmi_temperature_unit :: "u32"

definition new_ClimateInfo :: ClimateInfo where
  "new_ClimateInfo =
     \<lparr>ei_key = 0, ei_object_id = [], ei_name = [], ei_icon = [], ei_disabled_by_default = False,
      ei_entity_category = 0, ei_device_id = 0, clmi_supported_modes = [], clmi_visual_min_temperature = 0,
      clmi_visual_max_temperature = 0, clmi_visual_target_temperature_step = 0, clmi_supported_fan_modes = [],
      clmi_supported_swing_modes = [], clmi_supported_custom_fan_modes = [], clmi_supported_presets = [],
      clmi_supported_custom_presets = [], clmi_visual_current_temperature_step = 0,
      clmi_visual_min_humidity = 0, clmi_visual_max_humidity = 0, clmi_feature_flags = 0,
      clmi_temperature_unit = 0\<rparr>"

definition parse_climate_info :: "message \<Rightarrow> ClimateInfo" where
  "parse_climate_info msg =
     (fill_entity_info list_entities_climate_response new_ClimateInfo msg)
      \<lparr>clmi_supported_modes := map as_w32 (list_m list_entities_climate_response ''supported_modes'' msg),
       clmi_visual_min_temperature := as_w32 (get_m list_entities_climate_response ''visual_min_temperature'' msg),
       clmi_visual_max_temperature := as_w32 (get_m list_entities_climate_response ''visual_max_temperature'' msg),
       clmi_visual_target_temperature_step := as_w32 (get_m list_entities_climate_response ''visual_target_temperature_step'' msg),
       clmi_supported_fan_modes := map as_w32 (list_m list_entities_climate_response ''supported_fan_modes'' msg),
       clmi_supported_swing_modes := map as_w32 (list_m list_entities_climate_response ''supported_swing_modes'' msg),
       clmi_supported_custom_fan_modes := map as_str (list_m list_entities_climate_response ''supported_custom_fan_modes'' msg),
       clmi_supported_presets := map as_w32 (list_m list_entities_climate_response ''supported_presets'' msg),
       clmi_supported_custom_presets := map as_str (list_m list_entities_climate_response ''supported_custom_presets'' msg),
       clmi_visual_current_temperature_step := as_w32 (get_m list_entities_climate_response ''visual_current_temperature_step'' msg),
       clmi_visual_min_humidity := as_w32 (get_m list_entities_climate_response ''visual_min_humidity'' msg),
       clmi_visual_max_humidity := as_w32 (get_m list_entities_climate_response ''visual_max_humidity'' msg),
       clmi_feature_flags := as_w32 (get_m list_entities_climate_response ''feature_flags'' msg),
       clmi_temperature_unit := as_w32 (get_m list_entities_climate_response ''temperature_unit'' msg)\<rparr>"

definition list_entities_climate_response_report :: "ClimateInfo \<Rightarrow> (string \<times> member) list" where
  "list_entities_climate_response_report i = entity_report i @
    [(''supported_modes'', Repeated (map W32 (clmi_supported_modes i))),
     (''visual_min_temperature'', Single (W32 (clmi_visual_min_temperature i))),
     (''visual_max_temperature'', Single (W32 (clmi_visual_max_temperature i))),
     (''visual_target_temperature_step'', Single (W32 (clmi_visual_target_temperature_step i))),
     (''supported_fan_modes'', Repeated (map W32 (clmi_supported_fan_modes i))),
     (''supported_swing_modes'', Repeated (map W32 (clmi_supported_swing_modes i))),
     (''supported_custom_fan_modes'', Repeated (map Str (clmi_supported_custom_fan_modes i))),
     (''supported_presets'', Repeated (map W32 (clmi_supported_presets i))),
     (''supported_custom_presets'', Repeated (map Str (clmi_supported_custom_presets i))),
     (''visual_current_temperature_step'', Single (W32 (clmi_visual_current_temperature_step i))),
     (''visual_min_humidity'', Single (W32 (clmi_visual_min_humidity i))),
     (''visual_max_humidity'', Single (W32 (clmi_visual_max_humidity i))),
     (''feature_flags'', Single (W32 (clmi_feature_flags i))),
     (''temperature_unit'', Single (W32 (clmi_temperature_unit i)))]"

definition settle_ClimateInfo :: "ClimateInfo \<Rightarrow> ClimateInfo" where
  "settle_ClimateInfo i =
     (settle_entity_info i)\<lparr>clmi_visual_min_temperature := unsigned_zero (clmi_visual_min_temperature i),
       clmi_visual_max_temperature := unsigned_zero (clmi_visual_max_temperature i),
       clmi_visual_target_temperature_step := unsigned_zero (clmi_visual_target_temperature_step i),
       clmi_visual_current_temperature_step := unsigned_zero (clmi_visual_current_temperature_step i),
       clmi_visual_min_humidity := unsigned_zero (clmi_visual_min_humidity i),
       clmi_visual_max_humidity := unsigned_zero (clmi_visual_max_humidity i)\<rparr>"

lemma list_entities_climate_response_types [simp]:
  "single_type list_entities_climate_response ''object_id'' = Some FString"
  "single_type list_entities_climate_response ''key'' = Some FFixed32"
  "single_type list_entities_climate_response ''name'' = Some FString"
  "single_type list_entities_climate_response ''supports_current_temperature'' = Some FBool"
  "single_type list_entities_climate_response ''supports_two_point_target_temperature'' = Some FBool"
  "list_type list_entities_climate_response ''supported_modes'' = Some FEnum"
  "single_type list_entities_climate_response ''visual_min_temperature'' = Some FFloat"
  "single_type list_entities_climate_response ''visual_max_temperature'' = Some FFloat"
  "single_type list_entities_climate_response ''visual_target_temperature_step'' = Some FFloat"
  "single_type list_entities_climate_response ''legacy_supports_away'' = Some FBool"
  "single_type list_entities_climate_response ''supports_action'' = Some FBool"
  "list_type list_entities_climate_response ''supported_fan_modes'' = Some FEnum"
  "list_type list_entities_climate_response ''supported_swing_modes'' = Some FEnum"
  "list_type list_entities_climate_response ''supported_custom_fan_modes'' = Some FString"
  "list_type list_entities_climate_response ''supported_presets'' = Some FEnum"
  "list_type list_entities_climate_response ''supported_custom_presets'' = Some FString"
  "single_type list_entities_climate_response ''disabled_by_default'' = Some FBool"
  "single_type list_entities_climate_response ''icon'' = Some FString"
  "single_type list_entities_climate_response ''entity_category'' = Some FEnum"
  "single_type list_entities_climate_response ''visual_current_temperature_step'' = Some FFloat"
  "single_type list_entities_climate_response ''supports_current_humidity'' = Some FBool"
  "single_type list_entities_climate_response ''supports_target_humidity'' = Some FBool"
  "single_type list_entities_climate_response ''visual_min_humidity'' = Some FFloat"
  "single_type list_entities_climate_response ''visual_max_humidity'' = Some FFloat"
  "single_type list_entities_climate_response ''device_id'' = Some FUint32"
  "single_type list_entities_climate_response ''feature_flags'' = Some FUint32"
  "single_type list_entities_climate_response ''temperature_unit'' = Some FEnum"
  by (simp_all add: list_entities_climate_response_def class_types)

lemma map_of_list_entities_climate_response_report:
  "map_of (list_entities_climate_response_report i) ''key'' = Some (Single (W32 (ei_key i)))"
  "map_of (list_entities_climate_response_report i) ''object_id'' = Some (Single (Str (ei_object_id i)))"
  "map_of (list_entities_climate_response_report i) ''name'' = Some (Single (Str (ei_name i)))"
  "map_of (list_entities_climate_response_report i) ''icon'' = Some (Single (Str (ei_icon i)))"
  "map_of (list_entities_climate_response_report i) ''disabled_by_default'' = Some (Single (B (ei_disabled_by_default i)))"
  "map_of (list_entities_climate_response_report i) ''entity_category'' = Some (Single (W32 (ei_entity_category i)))"
  "map_of (list_entities_climate_response_report i) ''device_id'' = Some (Single (W32 (ei_device_id i)))"
  "map_of (list_entities_climate_response_report i) ''supported_modes'' = Some (Repeated (map W32 (clmi_supported_modes i)))"
  "map_of (list_entities_climate_response_report i) ''visual_min_temperature'' = Some (Single (W32 (clmi_visual_min_temperature i)))"
  "map_of (list_entities_climate_response_report i) ''visual_max_temperature'' = Some (Single (W32 (clmi_visual_max_temperature i)))"
  "map_of (list_entities_climate_response_report i) ''visual_target_temperature_step'' = Some (Single (W32 (clmi_visual_target_temperature_step i)))"
  "map_of (list_entities_climate_response_report i) ''supported_fan_modes'' = Some (Repeated (map W32 (clmi_supported_fan_modes i)))"
  "map_of (list_entities_climate_response_report i) ''supported_swing_modes'' = Some (Repeated (map W32 (clmi_supported_swing_modes i)))"
  "map_of (list_entities_climate_response_report i) ''supported_custom_fan_modes'' = Some (Repeated (map Str (clmi_supported_custom_fan_modes i)))"
  "map_of (list_entities_climate_response_report i) ''supported_presets'' = Some (Repeated (map W32 (clmi_supported_presets i)))"
  "map_of (list_entities_climate_response_report i) ''supported_custom_presets'' = Some (Repeated (map Str (clmi_supported_custom_presets i)))"
  "map_of (list_entities_climate_response_report i) ''visual_current_temperature_step'' = Some (Single (W32 (clmi_visual_current_temperature_step i)))"
  "map_of (list_entities_climate_response_report i) ''visual_min_humidity'' = Some (Single (W32 (clmi_visual_min_humidity i)))"
  "map_of (list_entities_climate_response_report i) ''visual_max_humidity'' = Some (Single (W32 (clmi_visual_max_humidity i)))"
  "map_of (list_entities_climate_response_report i) ''feature_flags'' = Some (Single (W32 (clmi_feature_flags i)))"
  "map_of (list_entities_climate_response_report i) ''temperature_unit'' = Some (Single (W32 (clmi_temperature_unit i)))"
  by (simp_all add: list_entities_climate_response_report_def map_of_entity_report map_of_entity_report_None map_add_def)

lemma list_entities_climate_response_fits: "fits_fields list_entities_climate_response (list_entities_climate_response_report i)"
  by (simp add: list_entities_climate_response_def list_entities_climate_response_report_def entity_report_def fits_fields_def mk_field_simps)

lemma parse_climate_info_reported:
  "parse_climate_info (normalise list_entities_climate_response (of_fields list_entities_climate_response (list_entities_climate_response_report i))) = settle_ClimateInfo i"
  by (simp add: parse_climate_info_def fill_entity_info_def Let_def new_ClimateInfo_def map_of_list_entities_climate_response_report
      get_fields_wire [OF _ list_entities_climate_response_fits] list_fields_wire [OF _ list_entities_climate_response_fits])
    (cases i, simp add: settle_ClimateInfo_def settle_entity_info_def)

section \<open>Number\<close>

record NumberInfo = EntityInfo +
  numi_min_value :: "u32"
  numi_max_value :: "u32"
  numi_step :: "u32"
  numi_unit_of_measurement :: "string"
  numi_mode :: "u32"
  numi_device_class :: "string"

definition new_NumberInfo :: NumberInfo where
  "new_NumberInfo =
     \<lparr>ei_key = 0, ei_object_id = [], ei_name = [], ei_icon = [], ei_disabled_by_default = False,
      ei_entity_category = 0, ei_device_id = 0, numi_min_value = 0, numi_max_value = 0, numi_step = 0,
      numi_unit_of_measurement = [], numi_mode = 0, numi_device_class = []\<rparr>"

definition parse_number_info :: "message \<Rightarrow> NumberInfo" where
  "parse_number_info msg =
     (fill_entity_info list_entities_number_response new_NumberInfo msg)
      \<lparr>numi_min_value := as_w32 (get_m list_entities_number_response ''min_value'' msg),
       numi_max_value := as_w32 (get_m list_entities_number_response ''max_value'' msg),
       numi_step := as_w32 (get_m list_entities_number_response ''step'' msg),
       numi_unit_of_measurement := as_str (get_m list_entities_number_response ''unit_of_measurement'' msg),
       numi_mode := as_w32 (get_m list_entities_number_response ''mode'' msg),
       numi_device_class := as_str (get_m list_entities_number_response ''device_class'' msg)\<rparr>"

definition list_entities_number_response_report :: "NumberInfo \<Rightarrow> (string \<times> member) list" where
  "list_entities_number_response_report i = entity_report i @
    [(''min_value'', Single (W32 (numi_min_value i))),
     (''max_value'', Single (W32 (numi_max_value i))),
     (''step'', Single (W32 (numi_step i))),
     (''unit_of_measurement'', Single (Str (numi_unit_of_measurement i))),
     (''mode'', Single (W32 (numi_mode i))),
     (''device_class'', Single (Str (numi_device_class i)))]"

definition settle_NumberInfo :: "NumberInfo \<Rightarrow> NumberInfo" where
  "settle_NumberInfo i =
     (settle_entity_info i)\<lparr>numi_min_value := unsigned_zero (numi_min_value i),
       numi_max_value := unsigned_zero (numi_max_value i),
       numi_step := unsigned_zero (numi_step i)\<rparr>"

lemma list_entities_number_response_types [simp]:
  "single_type list_entities_number_response ''object_id'' = Some FString"
  "single_type list_entities_number_response ''key'' = Some FFixed32"
  "single_type list_entities_number_response ''name'' = Some FString"
  "single_type list_entities_number_response ''icon'' = Some FString"
  "single_type list_entities_number_response ''min_value'' = Some FFloat"
  "single_type list_entities_number_response ''max_value'' = Some FFloat"
  "single_type list_entities_number_response ''step'' = Some FFloat"
  "single_type list_entities_number_response ''disabled_by_default'' = Some FBool"
  "single_type list_entities_number_response ''entity_category'' = Some FEnum"
  "single_type list_entities_number_response ''unit_of_measurement'' = Some FString"
  "single_type list_entities_number_response ''mode'' = Some FEnum"
  "single_type list_entities_number_response ''device_class'' = Some FString"
  "single_type list_entities_number_response ''device_id'' = Some FUint32"
  by (simp_all add: list_entities_number_response_def class_types)

lemma map_of_list_entities_number_response_report:
  "map_of (list_entities_number_response_report i) ''key'' = Some (Single (W32 (ei_key i)))"
  "map_of (list_entities_number_response_report i) ''object_id'' = Some (Single (Str (ei_object_id i)))"
  "map_of (list_entities_number_response_report i) ''name'' = Some (Single (Str (ei_name i)))"
  "map_of (list_entities_number_response_report i) ''icon'' = Some (Single (Str (ei_icon i)))"
  "map_of (list_entities_number_response_report i) ''disabled_by_default'' = Some (Single (B (ei_disabled_by_default i)))"
  "map_of (list_entities_number_response_report i) ''entity_category'' = Some (Single (W32 (ei_entity_category i)))"
  "map_of (list_entities_number_response_report i) ''device_id'' = Some (Single (W32 (ei_device_id i)))"
  "map_of (list_entities_number_response_report i) ''min_value'' = Some (Single (W32 (numi_min_value i)))"
  "map_of (list_entities_number_response_report i) ''max_value'' = Some (Single (W32 (numi_max_value i)))"
  "map_of (list_entities_number_response_report i) ''step'' = Some (Single (W32 (numi_step i)))"
  "map_of (list_entities_number_response_report i) ''unit_of_measurement'' = Some (Single (Str (numi_unit_of_measurement i)))"
  "map_of (list_entities_number_response_report i) ''mode'' = Some (Single (W32 (numi_mode i)))"
  "map_of (list_entities_number_response_report i) ''device_class'' = Some (Single (Str (numi_device_class i)))"
  by (simp_all add: list_entities_number_response_report_def map_of_entity_report map_of_entity_report_None map_add_def)

lemma list_entities_number_response_fits: "fits_fields list_entities_number_response (list_entities_number_response_report i)"
  by (simp add: list_entities_number_response_def list_entities_number_response_report_def entity_report_def fits_fields_def mk_field_simps)

lemma parse_number_info_reported:
  "parse_number_info (normalise list_entities_number_response (of_fields list_entities_number_response (list_entities_number_response_report i))) = settle_NumberInfo i"
  by (simp add: parse_number_info_def fill_entity_info_def Let_def new_NumberInfo_def map_of_list_entities_number_response_report
      get_fields_wire [OF _ list_entities_number_response_fits] list_fields_wire [OF _ list_entities_number_response_fits])
    (cases i, simp add: settle_NumberInfo_def settle_entity_info_def)

section \<open>Select\<close>

record SelectInfo = EntityInfo +
  seli_options :: "string list"

definition new_SelectInfo :: SelectInfo where
  "new_SelectInfo =
     \<lparr>ei_key = 0, ei_object_id = [], ei_name = [], ei_icon = [], ei_disabled_by_default = False,
      ei_entity_category = 0, ei_device_id = 0, seli_options = []\<rparr>"

definition parse_select_info :: "message \<Rightarrow> SelectInfo" where
  "parse_select_info msg =
     (fill_entity_info list_entities_select_response new_SelectInfo msg)
      \<lparr>seli_options := map as_str (list_m list_entities_select_response ''options'' msg)\<rparr>"

definition list_entities_select_response_report :: "SelectInfo \<Rightarrow> (string \<times> member) list" where
  "list_entities_select_response_report i = entity_report i @
    [(''options'', Repeated (map Str (seli_options i)))]"

lemma list_entities_select_response_types [simp]:
  "single_type list_entities_select_response ''object_id'' = Some FString"
  "single_type list_entities_select_response ''key'' = Some FFixed32"
  "single_type list_entities_select_response ''name'' = Some FString"
  "single_type list_entities_select_response ''icon'' = Some FString"
  "list_type list_entities_select_response ''options'' = Some FString"
  "single_type list_entities_select_response ''disabled_by_default'' = Some FBool"
  "single_type list_entities_select_response ''entity_category'' = Some FEnum"
  "single_type list_entities_select_response ''device_id'' = Some FUint32"
  by (simp_all add: list_entities_select_response_def class_types)

lemma map_of_list_entities_select_response_report:
  "map_of (list_entities_select_response_report i) ''key'' = Some (Single (W32 (ei_key i)))"
  "map_of (list_entities_select_response_report i) ''object_id'' = Some (Single (Str (ei_object_id i)))"
  "map_of (list_entities_select_response_report i) ''name'' = Some (Single (Str (ei_name i)))"
  "map_of (list_entities_select_response_report i) ''icon'' = Some (Single (Str (ei_icon i)))"
  "map_of (list_entities_select_response_report i) ''disabled_by_default'' = Some (Single (B (ei_disabled_by_default i)))"
  "map_of (list_entities_select_response_report i) ''entity_category'' = Some (Single (W32 (ei_entity_category i)))"
  "map_of (list_entities_select_response_report i) ''device_id'' = Some (Single (W32 (ei_device_id i)))"
  "map_of (list_entities_select_response_report i) ''options'' = Some (Repeated (map Str (seli_options i)))"
  by (simp_all add: list_entities_select_response_report_def map_of_entity_report map_of_entity_report_None map_add_def)

lemma list_entities_select_response_fits: "fits_fields list_entities_select_response (list_entities_select_response_report i)"
  by (simp add: list_entities_select_response_def list_entities_select_response_report_def entity_report_def fits_fields_def mk_field_simps)

lemma parse_select_info_reported:
  "parse_select_info (normalise list_entities_select_response (of_fields list_entities_select_response (list_entities_select_response_report i))) = settle_entity_info i"
  by (simp add: parse_select_info_def fill_entity_info_def Let_def new_SelectInfo_def map_of_list_entities_select_response_report
      get_fields_wire [OF _ list_entities_select_response_fits] list_fields_wire [OF _ list_entities_select_response_fits])
    (cases i, simp add: settle_entity_info_def)

section \<open>Text\<close>

record TextInfo = EntityInfo +
  txti_min_length :: "u32"
  txti_max_length :: "u32"
  txti_pattern :: "string"
  txti_mode :: "u32"

definition new_TextInfo :: TextInfo where
  "new_TextInfo =
     \<lparr>ei_key = 0, ei_object_id = [], ei_name = [], ei_icon = [], ei_disabled_by_default = False,
      ei_entity_category = 0, ei_device_id = 0, txti_min_length = 0, txti_max_length = 0, txti_pattern = [],
      txti_mode = 0\<rparr>"

definition parse_text_info :: "message \<Rightarrow> TextInfo" where
  "parse_text_info msg =
     (fill_entity_info list_entities_text_response new_TextInfo msg)
      \<lparr>txti_min_length := as_w32 (get_m list_entities_text_response ''min_length'' msg),
       txti_max_length := as_w32 (get_m list_entities_text_response ''max_length'' msg),
       txti_pattern := as_str (get_m list_entities_text_response ''pattern'' msg),
       txti_mode := as_w32 (get_m list_entities_text_response ''mode'' msg)\<rparr>"

definition list_entities_text_response_report :: "TextInfo \<Rightarrow> (string \<times> member) list" where
  "list_entities_text_response_report i = entity_report i @
    [(''min_length'', Single (W32 (txti_min_length i))),
     (''max_length'', Single (W32 (txti_max_length i))),
     (''pattern'', Single (Str (txti_pattern i))),
     (''mode'', Single (W32 (txti_mode i)))]"

lemma list_entities_text_response_types [simp]:
  "single_type list_entities_text_response ''object_id'' = Some FString"
  "single_type list_entities_text_response ''key'' = Some FFixed32"
  "single_type list_entities_text_response ''name'' = Some FString"
  "single_type list_entities_text_response ''icon'' = Some FString"
  "single_type list_entities_text_response ''disabled_by_default'' = Some FBool"
  "single_type list_entities_text_response ''entity_category'' = Some FEnum"
  "single_type list_entities_text_response ''min_length'' = Some FUint32"
  "single_type list_entities_text_response ''max_length'' = Some FUint32"
  "single_type list_entities_text_response ''pattern'' = Some FString"
  "single_type list_entities_text_response ''mode'' = Some FEnum"
  "single_type list_entities_text_response ''device_id'' = Some FUint32"
  by (simp_all add: list_entities_text_response_def class_types)

lemma map_of_list_entities_text_response_report:
  "map_of (list_entities_text_response_report i) ''key'' = Some (Single (W32 (ei_key i)))"
  "map_of (list_entities_text_response_report i) ''object_id'' = Some (Single (Str (ei_object_id i)))"
  "map_of (list_entities_text_response_report i) ''name'' = Some (Single (Str (ei_name i)))"
  "map_of (list_entities_text_response_report i) ''icon'' = Some (Single (Str (ei_icon i)))"
  "map_of (list_entities_text_response_report i) ''disabled_by_default'' = Some (Single (B (ei_disabled_by_default i)))"
  "map_of (list_entities_text_response_report i) ''entity_category'' = Some (Single (W32 (ei_entity_category i)))"
  "map_of (list_entities_text_response_report i) ''device_id'' = Some (Single (W32 (ei_device_id i)))"
  "map_of (list_entities_text_response_report i) ''min_length'' = Some (Single (W32 (txti_min_length i)))"
  "map_of (list_entities_text_response_report i) ''max_length'' = Some (Single (W32 (txti_max_length i)))"
  "map_of (list_entities_text_response_report i) ''pattern'' = Some (Single (Str (txti_pattern i)))"
  "map_of (list_entities_text_response_report i) ''mode'' = Some (Single (W32 (txti_mode i)))"
  by (simp_all add: list_entities_text_response_report_def map_of_entity_report map_of_entity_report_None map_add_def)

lemma list_entities_text_response_fits: "fits_fields list_entities_text_response (list_entities_text_response_report i)"
  by (simp add: list_entities_text_response_def list_entities_text_response_report_def entity_report_def fits_fields_def mk_field_simps)

lemma parse_text_info_reported:
  "parse_text_info (normalise list_entities_text_response (of_fields list_entities_text_response (list_entities_text_response_report i))) = settle_entity_info i"
  by (simp add: parse_text_info_def fill_entity_info_def Let_def new_TextInfo_def map_of_list_entities_text_response_report
      get_fields_wire [OF _ list_entities_text_response_fits] list_fields_wire [OF _ list_entities_text_response_fits])
    (cases i, simp add: settle_entity_info_def)

section \<open>Button\<close>

record ButtonInfo = EntityInfo +
  btni_device_class :: "string"

definition new_ButtonInfo :: ButtonInfo where
  "new_ButtonInfo =
     \<lparr>ei_key = 0, ei_object_id = [], ei_name = [], ei_icon = [], ei_disabled_by_default = False,
      ei_entity_category = 0, ei_device_id = 0, btni_device_class = []\<rparr>"

definition parse_button_info :: "message \<Rightarrow> ButtonInfo" where
  "parse_button_info msg =
     (fill_entity_info list_entities_button_response new_ButtonInfo msg)
      \<lparr>btni_device_class := as_str (get_m list_entities_button_response ''device_class'' msg)\<rparr>"

definition list_entities_button_response_report :: "ButtonInfo \<Rightarrow> (string \<times> member) list" where
  "list_entities_button_response_report i = entity_report i @
    [(''device_class'', Single (Str (btni_device_class i)))]"

lemma list_entities_button_response_types [simp]:
  "single_type list_entities_button_response ''object_id'' = Some FString"
  "single_type list_entities_button_response ''key'' = Some FFixed32"
  "single_type list_entities_button_response ''name'' = Some FString"
  "single_type list_entities_button_response ''icon'' = Some FString"
  "single_type list_entities_button_response ''disabled_by_default'' = Some FBool"
  "single_type list_entities_button_response ''entity_category'' = Some FEnum"
  "single_type list_entities_button_response ''device_class'' = Some FString"
  "single_type list_entities_button_response ''device_id'' = Some FUint32"
  by (simp_all add: list_entities_button_response_def class_types)

lemma map_of_list_entities_button_response_report:
  "map_of (list_entities_button_response_report i) ''key'' = Some (Single (W32 (ei_key i)))"
  "map_of (list_entities_button_response_report i) ''object_id'' = Some (Single (Str (ei_object_id i)))"
  "map_of (list_entities_button_response_report i) ''name'' = Some (Single (Str (ei_name i)))"
  "map_of (list_entities_button_response_report i) ''icon'' = Some (Single (Str (ei_icon i)))"
  "map_of (list_entities_button_response_report i) ''disabled_by_default'' = Some (Single (B (ei_disabled_by_default i)))"
  "map_of (list_entities_button_response_report i) ''entity_category'' = Some (Single (W32 (ei_entity_category i)))"
  "map_of (list_entities_button_response_report i) ''device_id'' = Some (Single (W32 (ei_device_id i)))"
  "map_of (list_entities_button_response_report i) ''device_class'' = Some (Single (Str (btni_device_class i)))"
  by (simp_all add: list_entities_button_response_report_def map_of_entity_report map_of_entity_report_None map_add_def)

lemma list_entities_button_response_fits: "fits_fields list_entities_button_response (list_entities_button_response_report i)"
  by (simp add: list_entities_button_response_def list_entities_button_response_report_def entity_report_def fits_fields_def mk_field_simps)

lemma parse_button_info_reported:
  "parse_button_info (normalise list_entities_button_response (of_fields list_entities_button_response (list_entities_button_response_report i))) = settle_entity_info i"
  by (simp add: parse_button_info_def fill_entity_info_def Let_def new_ButtonInfo_def map_of_list_entities_button_response_report
      get_fields_wire [OF _ list_entities_button_response_fits] list_fields_wire [OF _ list_entities_button_response_fits])
    (cases i, simp add: settle_entity_info_def)

section \<open>Lock\<close>

record LockInfo = EntityInfo +
  lcki_assumed_state :: "bool"
  lcki_supports_open :: "bool"
  lcki_requires_code :: "bool"
  lcki_code_format :: "string"

definition new_LockInfo :: LockInfo where
  "new_LockInfo =
     \<lparr>ei_key = 0, ei_object_id = [], ei_name = [], ei_icon = [], ei_disabled_by_default = False,
      ei_entity_category = 0, ei_device_id = 0, lcki_assumed_state = False, lcki_supports_open = False,
      lcki_requires_code = False, lcki_code_format = []\<rparr>"

definition parse_lock_info :: "message \<Rightarrow> LockInfo" where
  "parse_lock_info msg =
     (fill_entity_info list_entities_lock_response new_LockInfo msg)
      \<lparr>lcki_assumed_state := as_bool (get_m list_entities_lock_response ''assumed_state'' msg),
       lcki_supports_open := as_bool (get_m list_entities_lock_response ''supports_open'' msg),
       lcki_requires_code := as_bool (get_m list_entities_lock_response ''requires_code'' msg),
       lcki_code_format := as_str (get_m list_entities_lock_response ''code_format'' msg)\<rparr>"

definition list_entities_lock_response_report :: "LockInfo \<Rightarrow> (string \<times> member) list" where
  "list_entities_lock_response_report i = entity_report i @
    [(''assumed_state'', Single (B (lcki_assumed_state i))),
     (''supports_open'', Single (B (lcki_supports_open i))),
     (''requires_code'', Single (B (lcki_requires_code i))),
     (''code_format'', Single (Str (lcki_code_format i)))]"

lemma list_entities_lock_response_types [simp]:
  "single_type list_entities_lock_response ''object_id'' = Some FString"
  "single_type list_entities_lock_response ''key'' = Some FFixed32"
  "single_type list_entities_lock_response ''name'' = Some FString"
  "single_type list_entities_lock_response ''icon'' = Some FString"
  "single_type list_entities_lock_response ''disabled_by_default'' = Some FBool"
  "single_type list_entities_lock_response ''entity_category'' = Some FEnum"
  "single_type list_entities_lock_response ''assumed_state'' = Some FBool"
  "single_type list_entities_lock_response ''supports_open'' = Some FBool"
  "single_type list_entities_lock_response ''requires_code'' = Some FBool"
  "single_type list_entities_lock_response ''code_format'' = Some FString"
  "single_type list_entities_lock_response ''device_id'' = Some FUint32"
  by (simp_all add: list_entities_lock_response_def class_types)

lemma map_of_list_entities_lock_response_report:
  "map_of (list_entities_lock_response_report i) ''key'' = Some (Single (W32 (ei_key i)))"
  "map_of (list_entities_lock_response_report i) ''object_id'' = Some (Single (Str (ei_object_id i)))"
  "map_of (list_entities_lock_response_report i) ''name'' = Some (Single (Str (ei_name i)))"
  "map_of (list_entities_lock_response_report i) ''icon'' = Some (Single (Str (ei_icon i)))"
  "map_of (list_entities_lock_response_report i) ''disabled_by_default'' = Some (Single (B (ei_disabled_by_default i)))"
  "map_of (list_entities_lock_response_report i) ''entity_category'' = Some (Single (W32 (ei_entity_category i)))"
  "map_of (list_entities_lock_response_report i) ''device_id'' = Some (Single (W32 (ei_device_id i)))"
  "map_of (list_entities_lock_response_report i) ''assumed_state'' = Some (Single (B (lcki_assumed_state i)))"
  "map_of (list_entities_lock_response_report i) ''supports_open'' = Some (Single (B (lcki_supports_open i)))"
  "map_of (list_entities_lock_response_report i) ''requires_code'' = Some (Single (B (lcki_requires_code i)))"
  "map_of (list_entities_lock_response_report i) ''code_format'' = Some (Single (Str (lcki_code_format i)))"
  by (simp_all add: list_entities_lock_response_report_def map_of_entity_report map_of_entity_report_None map_add_def)

lemma list_entities_lock_response_fits: "fits_fields list_entities_lock_response (list_entities_lock_response_report i)"
  by (simp add: list_entities_lock_response_def list_entities_lock_response_report_def entity_report_def fits_fields_def mk_field_simps)

lemma parse_lock_info_reported:
  "parse_lock_info (normalise list_entities_lock_response (of_fields list_entities_lock_response (list_entities_lock_response_report i))) = settle_entity_info i"
  by (simp add: parse_lock_info_def fill_entity_info_def Let_def new_LockInfo_def map_of_list_entities_lock_response_report
      get_fields_wire [OF _ list_entities_lock_response_fits] list_fields_wire [OF _ list_entities_lock_response_fits])
    (cases i, simp add: settle_entity_info_def)

section \<open>Media player\<close>

record MediaPlayerSupportedFormat =
  mpf_format :: "string"
  mpf_sample_rate :: "u32"
  mpf_num_channels :: "u32"
  mpf_purpose :: "u32"
  mpf_sample_bytes :: "u32"

definition parse_supported_format :: "message \<Rightarrow> MediaPlayerSupportedFormat" where
  "parse_supported_format fmt =
     \<lparr>mpf_format = as_str (get_m media_player_supported_format_class ''format'' fmt),
      mpf_sample_rate = as_w32 (get_m media_player_supported_format_class ''sample_rate'' fmt),
      mpf_num_channels = as_w32 (get_m media_player_supported_format_class ''num_channels'' fmt),
      mpf_purpose = as_w32 (get_m media_player_supported_format_class ''purpose'' fmt),
      mpf_sample_bytes = as_w32 (get_m media_player_supported_format_class ''sample_bytes'' fmt)\<rparr>"

definition format_report :: "MediaPlayerSupportedFormat \<Rightarrow> (string \<times> member) list" where
  "format_report f =
    [(''format'', Single (Str (mpf_format f))),
     (''sample_rate'', Single (W32 (mpf_sample_rate f))),
     (''num_channels'', Single (W32 (mpf_num_channels f))),
     (''purpose'', Single (W32 (mpf_purpose f))),
     (''sample_bytes'', Single (W32 (mpf_sample_bytes f)))]"

lemma media_player_supported_format_class_types [simp]:
  "single_type media_player_supported_format_class ''format'' = Some FString"
  "single_type media_player_supported_format_class ''sample_rate'' = Some FUint32"
  "single_type media_player_supported_format_class ''num_channels'' = Some FUint32"
  "single_type media_player_supported_format_class ''purpose'' = Some FEnum"
  "single_type media_player_supported_format_class ''sample_bytes'' = Some FUint32"
  by (simp_all add: media_player_supported_format_class_def class_types)

lemma format_fits: "fits_fields media_player_supported_format_class (format_report f)"
  by (simp add: media_player_supported_format_class_def format_report_def fits_fields_def mk_field_simps)

lemma map_of_format_report:
  "map_of (format_report f) ''format'' = Some (Single (Str (mpf_format f)))"
  "map_of (format_report f) ''sample_rate'' = Some (Single (W32 (mpf_sample_rate f)))"
  "map_of (format_report f) ''num_channels'' = Some (Single (W32 (mpf_num_channels f)))"
  "map_of (format_report f) ''purpose'' = Some (Single (W32 (mpf_purpose f)))"
  "map_of (format_report f) ''sample_bytes'' = Some (Single (W32 (mpf_sample_bytes f)))"
  by (simp_all add: format_report_def)

lemma parse_supported_format_reported [simp]:
  "parse_supported_format (normalise media_player_supported_format_class
     (of_fields media_player_supported_format_class (format_report f))) = f"
  by (simp add: parse_supported_format_def get_fields_wire [OF _ format_fits] map_of_format_report)

lemma typed_formats:
  assumes "cf_class c = media_player_supported_format_class"
  shows "typed_subs c (map (of_fields media_player_supported_format_class \<circ> format_report) fs)"
  using assms by (induction fs) (simp_all add: typed_of_fields format_fits)

record MediaPlayerInfo = EntityInfo +
  mpli_supports_pause :: "bool"
  mpli_supported_formats :: "MediaPlayerSupportedFormat list"

definition new_MediaPlayerInfo :: MediaPlayerInfo where
  "new_MediaPlayerInfo =
     \<lparr>ei_key = 0, ei_object_id = [], ei_name = [], ei_icon = [], ei_disabled_by_default = False,
      ei_entity_category = 0, ei_device_id = 0, mpli_supports_pause = False, mpli_supported_formats = []\<rparr>"

definition parse_media_player_info :: "message \<Rightarrow> MediaPlayerInfo" where
  "parse_media_player_info msg =
     (fill_entity_info list_entities_media_player_response new_MediaPlayerInfo msg)
      \<lparr>mpli_supports_pause := as_bool (get_m list_entities_media_player_response ''supports_pause'' msg),
       mpli_supported_formats := map parse_supported_format (subs_m list_entities_media_player_response ''supported_formats'' msg)\<rparr>"

definition list_entities_media_player_response_report :: "MediaPlayerInfo \<Rightarrow> (string \<times> member) list" where
  "list_entities_media_player_response_report i = entity_report i @
    [(''supports_pause'', Single (B (mpli_supports_pause i))),
     (''supported_formats'', SubRepeated (map (of_fields media_player_supported_format_class \<circ> format_report) (mpli_supported_formats i)))]"

lemma list_entities_media_player_response_types [simp]:
  "single_type list_entities_media_player_response ''object_id'' = Some FString"
  "single_type list_entities_media_player_response ''key'' = Some FFixed32"
  "single_type list_entities_media_player_response ''name'' = Some FString"
  "single_type list_entities_media_player_response ''icon'' = Some FString"
  "single_type list_entities_media_player_response ''disabled_by_default'' = Some FBool"
  "single_type list_entities_media_player_response ''entity_category'' = Some FEnum"
  "single_type list_entities_media_player_response ''supports_pause'' = Some FBool"
  "subs_class list_entities_media_player_response ''supported_formats'' = Some media_player_supported_format_class"
  "single_type list_entities_media_player_response ''device_id'' = Some FUint32"
  "single_type list_entities_media_player_response ''feature_flags'' = Some FUint32"
  by (simp_all add: list_entities_media_player_response_def class_types)

lemma map_of_list_entities_media_player_response_report:
  "map_of (list_entities_media_player_response_report i) ''key'' = Some (Single (W32 (ei_key i)))"
  "map_of (list_entities_media_player_response_report i) ''object_id'' = Some (Single (Str (ei_object_id i)))"
  "map_of (list_entities_media_player_response_report i) ''name'' = Some (Single (Str (ei_name i)))"
  "map_of (list_entities_media_player_response_report i) ''icon'' = Some (Single (Str (ei_icon i)))"
  "map_of (list_entities_media_player_response_report i) ''disabled_by_default'' = Some (Single (B (ei_disabled_by_default i)))"
  "map_of (list_entities_media_player_response_report i) ''entity_category'' = Some (Single (W32 (ei_entity_category i)))"
  "map_of (list_entities_media_player_response_report i) ''device_id'' = Some (Single (W32 (ei_device_id i)))"
  "map_of (list_entities_media_player_response_report i) ''supports_pause'' = Some (Single (B (mpli_supports_pause i)))"
  "map_of (list_entities_media_player_response_report i) ''supported_formats'' = Some (SubRepeated (map (of_fields media_player_supported_format_class \<circ> format_report) (mpli_supported_formats i)))"
  by (simp_all add: list_entities_media_player_response_report_def map_of_entity_report map_of_entity_report_None map_add_def)

lemma list_entities_media_player_response_fits: "fits_fields list_entities_media_player_response (list_entities_media_player_response_report i)"
  by (simp add: list_entities_media_player_response_def list_entities_media_player_response_report_def entity_report_def fits_fields_def mk_field_simps typed_formats)

lemma parse_media_player_info_reported:
  "parse_media_player_info (normalise list_entities_media_player_response (of_fields list_entities_media_player_response (list_entities_media_player_response_report i))) = settle_entity_info i"
  by (simp add: parse_media_player_info_def fill_entity_info_def Let_def new_MediaPlayerInfo_def map_of_list_entities_media_player_response_report
      get_fields_wire [OF _ list_entities_media_player_response_fits] list_fields_wire [OF _ list_entities_media_player_response_fits] subs_fields_wire [OF _ list_entities_media_player_response_fits] comp_def)
    (cases i, simp add: settle_entity_info_def)

section \<open>Camera\<close>

type_synonym CameraInfo = EntityInfo

definition new_CameraInfo :: CameraInfo where
  "new_CameraInfo =
     \<lparr>ei_key = 0, ei_object_id = [], ei_name = [], ei_icon = [], ei_disabled_by_default = False,
      ei_entity_category = 0, ei_device_id = 0\<rparr>"

definition parse_camera_info :: "message \<Rightarrow> CameraInfo" where
  "parse_camera_info msg = fill_entity_info list_entities_camera_response new_CameraInfo msg"

definition list_entities_camera_response_report :: "CameraInfo \<Rightarrow> (string \<times> member) list" where
  "list_entities_camera_response_report i = entity_report i"

lemma list_entities_camera_response_types [simp]:
  "single_type list_entities_camera_response ''object_id'' = Some FString"
  "single_type list_entities_camera_response ''key'' = Some FFixed32"
  "single_type list_entities_camera_response ''name'' = Some FString"
  "single_type list_entities_camera_response ''disabled_by_default'' = Some FBool"
  "single_type list_entities_camera_response ''icon'' = Some FString"
  "single_type list_entities_camera_response ''entity_category'' = Some FEnum"
  "single_type list_entities_camera_response ''device_id'' = Some FUint32"
  by (simp_all add: list_entities_camera_response_def class_types)

lemma map_of_list_entities_camera_response_report:
  "map_of (list_entities_camera_response_report i) ''key'' = Some (Single (W32 (ei_key i)))"
  "map_of (list_entities_camera_response_report i) ''object_id'' = Some (Single (Str (ei_object_id i)))"
  "map_of (list_entities_camera_response_report i) ''name'' = Some (Single (Str (ei_name i)))"
  "map_of (list_entities_camera_response_report i) ''icon'' = Some (Single (Str (ei_icon i)))"
  "map_of (list_entities_camera_response_report i) ''disabled_by_default'' = Some (Single (B (ei_disabled_by_default i)))"
  "map_of (list_entities_camera_response_report i) ''entity_category'' = Some (Single (W32 (ei_entity_category i)))"
  "map_of (list_entities_camera_response_report i) ''device_id'' = Some (Single (W32 (ei_device_id i)))"
  by (simp_all add: list_entities_camera_response_report_def map_of_entity_report map_of_entity_report_None map_add_def)

lemma list_entities_camera_response_fits: "fits_fields list_entities_camera_response (list_entities_camera_response_report i)"
  by (simp add: list_entities_camera_response_def list_entities_camera_response_report_def entity_report_def fits_fields_def mk_field_simps)

lemma parse_camera_info_reported:
  "parse_camera_info (normalise list_entities_camera_response (of_fields list_entities_camera_response (list_entities_camera_response_report i))) = settle_entity_info i"
  by (simp add: parse_camera_info_def fill_entity_info_def Let_def new_CameraInfo_def map_of_list_entities_camera_response_report
      get_fields_wire [OF _ list_entities_camera_response_fits] list_fields_wire [OF _ list_entities_camera_response_fits])
    (cases i, simp add: settle_entity_info_def)

section \<open>Siren\<close>

record SirenInfo = EntityInfo +
  srni_tones :: "string list"
  srni_supports_duration :: "bool"
  srni_supports_volume :: "bool"

definition new_SirenInfo :: SirenInfo where
  "new_SirenInfo =
     \<lparr>ei_key = 0, ei_object_id = [], ei_name = [], ei_icon = [], ei_disabled_by_default = False,
      ei_entity_category = 0, ei_device_id = 0, srni_tones = [], srni_supports_duration = False,
      srni_supports_volume = False\<rparr>"

definition parse_siren_info :: "message \<Rightarrow> SirenInfo" where
  "parse_siren_info msg =
     (fill_entity_info list_entities_siren_response new_SirenInfo msg)
      \<lparr>srni_tones := map as_str (list_m list_entities_siren_response ''tones'' msg),
       srni_supports_duration := as_bool (get_m list_entities_siren_response ''supports_duration'' msg),
       srni_supports_volume := as_bool (get_m list_entities_siren_response ''supports_volume'' msg)\<rparr>"

definition list_entities_siren_response_report :: "SirenInfo \<Rightarrow> (string \<times> member) list" where
  "list_entities_siren_response_report i = entity_report i @
    [(''tones'', Repeated (map Str (srni_tones i))),
     (''supports_duration'', Single (B (srni_supports_duration i))),
     (''supports_volume'', Single (B (srni_supports_volume i)))]"

lemma list_entities_siren_response_types [simp]:
  "single_type list_entities_siren_response ''object_id'' = Some FString"
  "single_type list_entities_siren_response ''key'' = Some FFixed32"
  "single_type list_entities_siren_response ''name'' = Some FString"
  "single_type list_entities_siren_response ''icon'' = Some FString"
  "single_type list_entities_siren_response ''disabled_by_default'' = Some FBool"
  "list_type list_entities_siren_response ''tones'' = Some FString"
  "single_type list_entities_siren_response ''supports_duration'' = Some FBool"
  "single_type list_entities_siren_response ''supports_volume'' = Some FBool"
  "single_type list_entities_siren_response ''entity_category'' = Some FEnum"
  "single_type list_entities_siren_response ''device_id'' = Some FUint32"
  by (simp_all add: list_entities_siren_response_def class_types)

lemma map_of_list_entities_siren_response_report:
  "map_of (list_entities_siren_response_report i) ''key'' = Some (Single (W32 (ei_key i)))"
  "map_of (list_entities_siren_response_report i) ''object_id'' = Some (Single (Str (ei_object_id i)))"
  "map_of (list_entities_siren_response_report i) ''name'' = Some (Single (Str (ei_name i)))"
  "map_of (list_entities_siren_response_report i) ''icon'' = Some (Single (Str (ei_icon i)))"
  "map_of (list_entities_siren_response_report i) ''disabled_by_default'' = Some (Single (B (ei_disabled_by_default i)))"
  "map_of (list_entities_siren_response_report i) ''entity_category'' = Some (Single (W32 (ei_entity_category i)))"
  "map_of (list_entities_siren_response_report i) ''device_id'' = Some (Single (W32 (ei_device_id i)))"
  "map_of (list_entities_siren_response_report i) ''tones'' = Some (Repeated (map Str (srni_tones i)))"
  "map_of (list_entities_siren_response_report i) ''supports_duration'' = Some (Single (B (srni_supports_duration i)))"
  "map_of (list_entities_siren_response_report i) ''supports_volume'' = Some (Single (B (srni_supports_volume i)))"
  by (simp_all add: list_entities_siren_response_report_def map_of_entity_report map_of_entity_report_None map_add_def)

lemma list_entities_siren_response_fits: "fits_fields list_entities_siren_response (list_entities_siren_response_report i)"
  by (simp add: list_entities_siren_response_def list_entities_siren_response_report_def entity_report_def fits_fields_def mk_field_simps)

lemma parse_siren_info_reported:
  "parse_siren_info (normalise list_entities_siren_response (of_fields list_entities_siren_response (list_entities_siren_response_report i))) = settle_entity_info i"
  by (simp add: parse_siren_info_def fill_entity_info_def Let_def new_SirenInfo_def map_of_list_entities_siren_response_report
      get_fields_wire [OF _ list_entities_siren_response_fits] list_fields_wire [OF _ list_entities_siren_response_fits])
    (cases i, simp add: settle_entity_info_def)

section \<open>Alarm control panel\<close>

record AlarmControlPanelInfo = EntityInfo +
  acpi_supported_features :: "u32"
  acpi_requires_code :: "bool"
  acpi_requires_code_to_arm :: "bool"

definition new_AlarmControlPanelInfo :: AlarmControlPanelInfo where
  "new_AlarmControlPanelInfo =
     \<lparr>ei_key = 0, ei_object_id = [], ei_name = [], ei_icon = [], ei_disabled_by_default = False,
      ei_entity_category = 0, ei_device_id = 0, acpi_supported_features = 0, acpi_requires_code = False,
      acpi_requires_code_to_arm = False\<rparr>"

definition parse_alarm_control_panel_info :: "message \<Rightarrow> AlarmControlPanelInfo" where
  "parse_alarm_control_panel_info msg =
     (fill_entity_info list_entities_alarm_control_panel_response new_AlarmControlPanelInfo msg)
      \<lparr>acpi_supported_features := as_w32 (get_m list_entities_alarm_control_panel_response ''supported_features'' msg),
       acpi_requires_code := as_bool (get_m list_entities_alarm_control_panel_response ''requires_code'' msg),
       acpi_requires_code_to_arm := as_bool (get_m list_entities_alarm_control_panel_response ''requires_code_to_arm'' msg)\<rparr>"

definition list_entities_alarm_control_panel_response_report :: "AlarmControlPanelInfo \<Rightarrow> (string \<times> member) list" where
  "list_entities_alarm_control_panel_response_report i = entity_report i @
    [(''supported_features'', Single (W32 (acpi_supported_features i))),
     (''requires_code'', Single (B (acpi_requires_code i))),
     (''requires_code_to_arm'', Single (B (acpi_requires_code_to_arm i)))]"

lemma list_entities_alarm_control_panel_response_types [simp]:
  "single_type list_entities_alarm_control_panel_response ''object_id'' = Some FString"
  "single_type list_entities_alarm_control_panel_response ''key'' = Some FFixed32"
  "single_type list_entities_alarm_control_panel_response ''name'' = Some FString"
  "single_type list_entities_alarm_control_panel_response ''icon'' = Some FString"
  "single_type list_entities_alarm_control_panel_response ''disabled_by_default'' = Some FBool"
  "single_type list_entities_alarm_control_panel_response ''entity_category'' = Some FEnum"
  "single_type list_entities_alarm_control_panel_response ''supported_features'' = Some FUint32"
  "single_type list_entities_alarm_control_panel_response ''requires_code'' = Some FBool"
  "single_type list_entities_alarm_control_panel_response ''requires_code_to_arm'' = Some FBool"
  "single_type list_entities_alarm_control_panel_response ''device_id'' = Some FUint32"
  by (simp_all add: list_entities_alarm_control_panel_response_def class_types)

lemma map_of_list_entities_alarm_control_panel_response_report:
  "map_of (list_entities_alarm_control_panel_response_report i) ''key'' = Some (Single (W32 (ei_key i)))"
  "map_of (list_entities_alarm_control_panel_response_report i) ''object_id'' = Some (Single (Str (ei_object_id i)))"
  "map_of (list_entities_alarm_control_panel_response_report i) ''name'' = Some (Single (Str (ei_name i)))"
  "map_of (list_entities_alarm_control_panel_response_report i) ''icon'' = Some (Single (Str (ei_icon i)))"
  "map_of (list_entities_alarm_control_panel_response_report i) ''disabled_by_default'' = Some (Single (B (ei_disabled_by_default i)))"
  "map_of (list_entities_alarm_control_panel_response_report i) ''entity_category'' = Some (Single (W32 (ei_entity_category i)))"
  "map_of (list_entities_alarm_control_panel_response_report i) ''device_id'' = Some (Single (W32 (ei_device_id i)))"
  "map_of (list_entities_alarm_control_panel_response_report i) ''supported_features'' = Some (Single (W32 (acpi_supported_features i)))"
  "map_of (list_entities_alarm_control_panel_response_report i) ''requires_code'' = Some (Single (B (acpi_requires_code i)))"
  "map_of (list_entities_alarm_control_panel_response_report i) ''requires_code_to_arm'' = Some (Single (B (acpi_requires_code_to_arm i)))"
  by (simp_all add: list_entities_alarm_control_panel_response_report_def map_of_entity_report map_of_entity_report_None map_add_def)

lemma list_entities_alarm_control_panel_response_fits: "fits_fields list_entities_alarm_control_panel_response (list_entities_alarm_control_panel_response_report i)"
  by (simp add: list_entities_alarm_control_panel_response_def list_entities_alarm_control_panel_response_report_def entity_report_def fits_fields_def mk_field_simps)

lemma parse_alarm_control_panel_info_reported:
  "parse_alarm_control_panel_info (normalise list_entities_alarm_control_panel_response (of_fields list_entities_alarm_control_panel_response (list_entities_alarm_control_panel_response_report i))) = settle_entity_info i"
  by (simp add: parse_alarm_control_panel_info_def fill_entity_info_def Let_def new_AlarmControlPanelInfo_def map_of_list_entities_alarm_control_panel_response_report
      get_fields_wire [OF _ list_entities_alarm_control_panel_response_fits] list_fields_wire [OF _ list_entities_alarm_control_panel_response_fits])
    (cases i, simp add: settle_entity_info_def)

section \<open>Date\<close>

type_synonym DateInfo = EntityInfo

definition new_DateInfo :: DateInfo where
  "new_DateInfo =
     \<lparr>ei_key = 0, ei_object_id = [], ei_name = [], ei_icon = [], ei_disabled_by_default = False,
      ei_entity_category = 0, ei_device_id = 0\<rparr>"

definition parse_date_info :: "message \<Rightarrow> DateInfo" where
  "parse_date_info msg = fill_entity_info list_entities_date_response new_DateInfo msg"

definition list_entities_date_response_report :: "DateInfo \<Rightarrow> (string \<times> member) list" where
  "list_entities_date_response_report i = entity_report i"

lemma list_entities_date_response_types [simp]:
  "single_type list_entities_date_response ''object_id'' = Some FString"
  "single_type list_entities_date_response ''key'' = Some FFixed32"
  "single_type list_entities_date_response ''name'' = Some FString"
  "single_type list_entities_date_response ''icon'' = Some FString"
  "single_type list_entities_date_response ''disabled_by_default'' = Some FBool"
  "single_type list_entities_date_response ''entity_category'' = Some FEnum"
  "single_type list_entities_date_response ''device_id'' = Some FUint32"
  by (simp_all add: list_entities_date_response_def class_types)

lemma map_of_list_entities_date_response_report:
  "map_of (list_entities_date_response_report i) ''key'' = Some (Single (W32 (ei_key i)))"
  "map_of (list_entities_date_response_report i) ''object_id'' = Some (Single (Str (ei_object_id i)))"
  "map_of (list_entities_date_response_report i) ''name'' = Some (Single (Str (ei_name i)))"
  "map_of (list_entities_date_response_report i) ''icon'' = Some (Single (Str (ei_icon i)))"
  "map_of (list_entities_date_response_report i) ''disabled_by_default'' = Some (Single (B (ei_disabled_by_default i)))"
  "map_of (list_entities_date_response_report i) ''entity_category'' = Some (Single (W32 (ei_entity_category i)))"
  "map_of (list_entities_date_response_report i) ''device_id'' = Some (Single (W32 (ei_device_id i)))"
  by (simp_all add: list_entities_date_response_report_def map_of_entity_report map_of_entity_report_None map_add_def)

lemma list_entities_date_response_fits: "fits_fields list_entities_date_response (list_entities_date_response_report i)"
  by (simp add: list_entities_date_response_def list_entities_date_response_report_def entity_report_def fits_fields_def mk_field_simps)

lemma parse_date_info_reported:
  "parse_date_info (normalise list_entities_date_response (of_fields list_entities_date_response (list_entities_date_response_report i))) = settle_entity_info i"
  by (simp add: parse_date_info_def fill_entity_info_def Let_def new_DateInfo_def map_of_list_entities_date_response_report
      get_fields_wire [OF _ list_entities_date_response_fits] list_fields_wire [OF _ list_entities_date_response_fits])
    (cases i, simp add: settle_entity_info_def)

section \<open>Time\<close>

type_synonym TimeInfo = EntityInfo

definition new_TimeInfo :: TimeInfo where
  "new_TimeInfo =
     \<lparr>ei_key = 0, ei_object_id = [], ei_name = [], ei_icon = [], ei_disabled_by_default = False,
      ei_entity_category = 0, ei_device_id = 0\<rparr>"

definition parse_time_info :: "message \<Rightarrow> TimeInfo" where
  "parse_time_info msg = fill_entity_info list_entities_time_response new_TimeInfo msg"

definition list_entities_time_response_report :: "TimeInfo \<Rightarrow> (string \<times> member) list" where
  "list_entities_time_response_report i = entity_report i"

lemma list_entities_time_response_types [simp]:
  "single_type list_entities_time_response ''object_id'' = Some FString"
  "single_type list_entities_time_response ''key'' = Some FFixed32"
  "single_type list_entities_time_response ''name'' = Some FString"
  "single_type list_entities_time_response ''icon'' = Some FString"
  "single_type list_entities_time_response ''disabled_by_default'' = Some FBool"
  "single_type list_entities_time_response ''entity_category'' = Some FEnum"
  "single_type list_entities_time_response ''device_id'' = Some FUint32"
  by (simp_all add: list_entities_time_response_def class_types)

lemma map_of_list_entities_time_response_report:
  "map_of (list_entities_time_response_report i) ''key'' = Some (Single (W32 (ei_key i)))"
  "map_of (list_entities_time_response_report i) ''object_id'' = Some (Single (Str (ei_object_id i)))"
  "map_of (list_entities_time_response_report i) ''name'' = Some (Single (Str (ei_name i)))"
  "map_of (list_entities_time_response_report i) ''icon'' = Some (Single (Str (ei_icon i)))"
  "map_of (list_entities_time_response_report i) ''disabled_by_default'' = Some (Single (B (ei_disabled_by_default i)))"
  "map_of (list_entities_time_response_report i) ''entity_category'' = Some (Single (W32 (ei_entity_category i)))"
  "map_of (list_entities_time_response_report i) ''device_id'' = Some (Single (W32 (ei_device_id i)))"
  by (simp_all add: list_entities_time_response_report_def map_of_entity_report map_of_entity_report_None map_add_def)

lemma list_entities_time_response_fits: "fits_fields list_entities_time_response (list_entities_time_response_report i)"
  by (simp add: list_entities_time_response_def list_entities_time_response_report_def entity_report_def fits_fields_def mk_field_simps)

lemma parse_time_info_reported:
  "parse_time_info (normalise list_entities_time_response (of_fields list_entities_time_response (list_entities_time_response_report i))) = settle_entity_info i"
  by (simp add: parse_time_info_def fill_entity_info_def Let_def new_TimeInfo_def map_of_list_entities_time_response_report
      get_fields_wire [OF _ list_entities_time_response_fits] list_fields_wire [OF _ list_entities_time_response_fits])
    (cases i, simp add: settle_entity_info_def)

section \<open>Date and time\<close>

type_synonym DateTimeInfo = EntityInfo

definition new_DateTimeInfo :: DateTimeInfo where
  "new_DateTimeInfo =
     \<lparr>ei_key = 0, ei_object_id = [], ei_name = [], ei_icon = [], ei_disabled_by_default = False,
      ei_entity_category = 0, ei_device_id = 0\<rparr>"

definition parse_datetime_info :: "message \<Rightarrow> DateTimeInfo" where
  "parse_datetime_info msg = fill_entity_info list_entities_date_time_response new_DateTimeInfo msg"

definition list_entities_date_time_response_report :: "DateTimeInfo \<Rightarrow> (string \<times> member) list" where
  "list_entities_date_time_response_report i = entity_report i"

lemma list_entities_date_time_response_types [simp]:
  "single_type list_entities_date_time_response ''object_id'' = Some FString"
  "single_type list_entities_date_time_response ''key'' = Some FFixed32"
  "single_type list_entities_date_time_response ''name'' = Some FString"
  "single_type list_entities_date_time_response ''icon'' = Some FString"
  "single_type list_entities_date_time_response ''disabled_by_default'' = Some FBool"
  "single_type list_entities_date_time_response ''entity_category'' = Some FEnum"
  "single_type list_entities_date_time_response ''device_id'' = Some FUint32"
  by (simp_all add: list_entities_date_time_response_def class_types)

lemma map_of_list_entities_date_time_response_report:
  "map_of (list_entities_date_time_response_report i) ''key'' = Some (Single (W32 (ei_key i)))"
  "map_of (list_entities_date_time_response_report i) ''object_id'' = Some (Single (Str (ei_object_id i)))"
  "map_of (list_entities_date_time_response_report i) ''name'' = Some (Single (Str (ei_name i)))"
  "map_of (list_entities_date_time_response_report i) ''icon'' = Some (Single (Str (ei_icon i)))"
  "map_of (list_entities_date_time_response_report i) ''disabled_by_default'' = Some (Single (B (ei_disabled_by_default i)))"
  "map_of (list_entities_date_time_response_report i) ''entity_category'' = Some (Single (W32 (ei_entity_category i)))"
  "map_of (list_entities_date_time_response_report i) ''device_id'' = Some (Single (W32 (ei_device_id i)))"
  by (simp_all add: list_entities_date_time_response_report_def map_of_entity_report map_of_entity_report_None map_add_def)

lemma list_entities_date_time_response_fits: "fits_fields list_entities_date_time_response (list_entities_date_time_response_report i)"
  by (simp add: list_entities_date_time_response_def list_entities_date_time_response_report_def entity_report_def fits_fields_def mk_field_simps)

lemma parse_datetime_info_reported:
  "parse_datetime_info (normalise list_entities_date_time_response (of_fields list_entities_date_time_response (list_entities_date_time_response_report i))) = settle_entity_info i"
  by (simp add: parse_datetime_info_def fill_entity_info_def Let_def new_DateTimeInfo_def map_of_list_entities_date_time_response_report
      get_fields_wire [OF _ list_entities_date_time_response_fits] list_fields_wire [OF _ list_entities_date_time_response_fits])
    (cases i, simp add: settle_entity_info_def)

section \<open>Valve\<close>

record ValveInfo = EntityInfo +
  vlvi_device_class :: "string"
  vlvi_assumed_state :: "bool"
  vlvi_supports_position :: "bool"
  vlvi_supports_stop :: "bool"

definition new_ValveInfo :: ValveInfo where
  "new_ValveInfo =
     \<lparr>ei_key = 0, ei_object_id = [], ei_name = [], ei_icon = [], ei_disabled_by_default = False,
      ei_entity_category = 0, ei_device_id = 0, vlvi_device_class = [], vlvi_assumed_state = False,
      vlvi_supports_position = False, vlvi_supports_stop = False\<rparr>"

definition parse_valve_info :: "message \<Rightarrow> ValveInfo" where
  "parse_valve_info msg =
     (fill_entity_info list_entities_valve_response new_ValveInfo msg)
      \<lparr>vlvi_device_class := as_str (get_m list_entities_valve_response ''device_class'' msg),
       vlvi_assumed_state := as_bool (get_m list_entities_valve_response ''assumed_state'' msg),
       vlvi_supports_position := as_bool (get_m list_entities_valve_response ''supports_position'' msg),
       vlvi_supports_stop := as_bool (get_m list_entities_valve_response ''supports_stop'' msg)\<rparr>"

definition list_entities_valve_response_report :: "ValveInfo \<Rightarrow> (string \<times> member) list" where
  "list_entities_valve_response_report i = entity_report i @
    [(''device_class'', Single (Str (vlvi_device_class i))),
     (''assumed_state'', Single (B (vlvi_assumed_state i))),
     (''supports_position'', Single (B (vlvi_supports_position i))),
     (''supports_stop'', Single (B (vlvi_supports_stop i)))]"

lemma list_entities_valve_response_types [simp]:
  "single_type list_entities_valve_response ''object_id'' = Some FString"
  "single_type list_entities_valve_response ''key'' = Some FFixed32"
  "single_type list_entities_valve_response ''name'' = Some FString"
  "single_type list_entities_valve_response ''icon'' = Some FString"
  "single_type list_entities_valve_response ''disabled_by_default'' = Some FBool"
  "single_type list_entities_valve_response ''entity_category'' = Some FEnum"
  "single_type list_entities_valve_response ''device_class'' = Some FString"
  "single_type list_entities_valve_response ''assumed_state'' = Some FBool"
  "single_type list_entities_valve_response ''supports_position'' = Some FBool"
  "single_type list_entities_valve_response ''supports_stop'' = Some FBool"
  "single_type list_entities_valve_response ''device_id'' = Some FUint32"
  by (simp_all add: list_entities_valve_response_def class_types)

lemma map_of_list_entities_valve_response_report:
  "map_of (list_entities_valve_response_report i) ''key'' = Some (Single (W32 (ei_key i)))"
  "map_of (list_entities_valve_response_report i) ''object_id'' = Some (Single (Str (ei_object_id i)))"
  "map_of (list_entities_valve_response_report i) ''name'' = Some (Single (Str (ei_name i)))"
  "map_of (list_entities_valve_response_report i) ''icon'' = Some (Single (Str (ei_icon i)))"
  "map_of (list_entities_valve_response_report i) ''disabled_by_default'' = Some (Single (B (ei_disabled_by_default i)))"
  "map_of (list_entities_valve_response_report i) ''entity_category'' = Some (Single (W32 (ei_entity_category i)))"
  "map_of (list_entities_valve_response_report i) ''device_id'' = Some (Single (W32 (ei_device_id i)))"
  "map_of (list_entities_valve_response_report i) ''device_class'' = Some (Single (Str (vlvi_device_class i)))"
  "map_of (list_entities_valve_response_report i) ''assumed_state'' = Some (Single (B (vlvi_assumed_state i)))"
  "map_of (list_entities_valve_response_report i) ''supports_position'' = Some (Single (B (vlvi_supports_position i)))"
  "map_of (list_entities_valve_response_report i) ''supports_stop'' = Some (Single (B (vlvi_supports_stop i)))"
  by (simp_all add: list_entities_valve_response_report_def map_of_entity_report map_of_entity_report_None map_add_def)

lemma list_entities_valve_response_fits: "fits_fields list_entities_valve_response (list_entities_valve_response_report i)"
  by (simp add: list_entities_valve_response_def list_entities_valve_response_report_def entity_report_def fits_fields_def mk_field_simps)

lemma parse_valve_info_reported:
  "parse_valve_info (normalise list_entities_valve_response (of_fields list_entities_valve_response (list_entities_valve_response_report i))) = settle_entity_info i"
  by (simp add: parse_valve_info_def fill_entity_info_def Let_def new_ValveInfo_def map_of_list_entities_valve_response_report
      get_fields_wire [OF _ list_entities_valve_response_fits] list_fields_wire [OF _ list_entities_valve_response_fits])
    (cases i, simp add: settle_entity_info_def)

section \<open>Event\<close>

record EventInfo = EntityInfo +
  evti_device_class :: "string"
  evti_event_types :: "string list"

definition new_EventInfo :: EventInfo where
  "new_EventInfo =
     \<lparr>ei_key = 0, ei_object_id = [], ei_name = [], ei_icon = [], ei_disabled_by_default = False,
      ei_entity_category = 0, ei_device_id = 0, evti_device_class = [], evti_event_types = []\<rparr>"

definition parse_event_info :: "message \<Rightarrow> EventInfo" where
  "parse_event_info msg =
     (fill_entity_info list_entities_event_response new_EventInfo msg)
      \<lparr>evti_device_class := as_str (get_m list_entities_event_response ''device_class'' msg),
       evti_event_types := map as_str (list_m list_entities_event_response ''event_types'' msg)\<rparr>"

definition list_entities_event_response_report :: "EventInfo \<Rightarrow> (string \<times> member) list" where
  "list_entities_event_response_report i = entity_report i @
    [(''device_class'', Single (Str (evti_device_class i))),
     (''event_types'', Repeated (map Str (evti_event_types i)))]"

lemma list_entities_event_response_types [simp]:
  "single_type list_entities_event_response ''object_id'' = Some FString"
  "single_type list_entities_event_response ''key'' = Some FFixed32"
  "single_type list_entities_event_response ''name'' = Some FString"
  "single_type list_entities_event_response ''icon'' = Some FString"
  "single_type list_entities_event_response ''disabled_by_default'' = Some FBool"
  "single_type list_entities_event_response ''entity_category'' = Some FEnum"
  "single_type list_entities_event_response ''device_class'' = Some FString"
  "list_type list_entities_event_response ''event_types'' = Some FString"
  "single_type list_entities_event_response ''device_id'' = Some FUint32"
  by (simp_all add: list_entities_event_response_def class_types)

lemma map_of_list_entities_event_response_report:
  "map_of (list_entities_event_response_report i) ''key'' = Some (Single (W32 (ei_key i)))"
  "map_of (list_entities_event_response_report i) ''object_id'' = Some (Single (Str (ei_object_id i)))"
  "map_of (list_entities_event_response_report i) ''name'' = Some (Single (Str (ei_name i)))"
  "map_of (list_entities_event_response_report i) ''icon'' = Some (Single (Str (ei_icon i)))"
  "map_of (list_entities_event_response_report i) ''disabled_by_default'' = Some (Single (B (ei_disabled_by_default i)))"
  "map_of (list_entities_event_response_report i) ''entity_category'' = Some (Single (W32 (ei_entity_category i)))"
  "map_of (list_entities_event_response_report i) ''device_id'' = Some (Single (W32 (ei_device_id i)))"
  "map_of (list_entities_event_response_report i) ''device_class'' = Some (Single (Str (evti_device_class i)))"
  "map_of (list_entities_event_response_report i) ''event_types'' = Some (Repeated (map Str (evti_event_types i)))"
  by (simp_all add: list_entities_event_response_report_def map_of_entity_report map_of_entity_report_None map_add_def)

lemma list_entities_event_response_fits: "fits_fields list_entities_event_response (list_entities_event_response_report i)"
  by (simp add: list_entities_event_response_def list_entities_event_response_report_def entity_report_def fits_fields_def mk_field_simps)

lemma parse_event_info_reported:
  "parse_event_info (normalise list_entities_event_response (of_fields list_entities_event_response (list_entities_event_response_report i))) = settle_entity_info i"
  by (simp add: parse_event_info_def fill_entity_info_def Let_def new_EventInfo_def map_of_list_entities_event_response_report
      get_fields_wire [OF _ list_entities_event_response_fits] list_fields_wire [OF _ list_entities_event_response_fits])
    (cases i, simp add: settle_entity_info_def)

section \<open>Update\<close>

record UpdateInfo = EntityInfo +
  updi_device_class :: "string"

definition new_UpdateInfo :: UpdateInfo where
  "new_UpdateInfo =
     \<lparr>ei_key = 0, ei_object_id = [], ei_name = [], ei_icon = [], ei_disabled_by_default = False,
      ei_entity_category = 0, ei_device_id = 0, updi_device_class = []\<rparr>"

definition parse_update_info :: "message \<Rightarrow> UpdateInfo" where
  "parse_update_info msg =
     (fill_entity_info list_entities_update_response new_UpdateInfo msg)
      \<lparr>updi_device_class := as_str (get_m list_entities_update_response ''device_class'' msg)\<rparr>"

definition list_entities_update_response_report :: "UpdateInfo \<Rightarrow> (string \<times> member) list" where
  "list_entities_update_response_report i = entity_report i @
    [(''device_class'', Single (Str (updi_device_class i)))]"

lemma list_entities_update_response_types [simp]:
  "single_type list_entities_update_response ''object_id'' = Some FString"
  "single_type list_entities_update_response ''key'' = Some FFixed32"
  "single_type list_entities_update_response ''name'' = Some FString"
  "single_type list_entities_update_response ''icon'' = Some FString"
  "single_type list_entities_update_response ''disabled_by_default'' = Some FBool"
  "single_type list_entities_update_response ''entity_category'' = Some FEnum"
  "single_type list_entities_update_response ''device_class'' = Some FString"
  "single_type list_entities_update_response ''device_id'' = Some FUint32"
  by (simp_all add: list_entities_update_response_def class_types)

lemma map_of_list_entities_update_response_report:
  "map_of (list_entities_update_response_report i) ''key'' = Some (Single (W32 (ei_key i)))"
  "map_of (list_entities_update_response_report i) ''object_id'' = Some (Single (Str (ei_object_id i)))"
  "map_of (list_entities_update_response_report i) ''name'' = Some (Single (Str (ei_name i)))"
  "map_of (list_entities_update_response_report i) ''icon'' = Some (Single (Str (ei_icon i)))"
  "map_of (list_entities_update_response_report i) ''disabled_by_default'' = Some (Single (B (ei_disabled_by_default i)))"
  "map_of (list_entities_update_response_report i) ''entity_category'' = Some (Single (W32 (ei_entity_category i)))"
  "map_of (list_entities_update_response_report i) ''device_id'' = Some (Single (W32 (ei_device_id i)))"
  "map_of (list_entities_update_response_report i) ''device_class'' = Some (Single (Str (updi_device_class i)))"
  by (simp_all add: list_entities_update_response_report_def map_of_entity_report map_of_entity_report_None map_add_def)

lemma list_entities_update_response_fits: "fits_fields list_entities_update_response (list_entities_update_response_report i)"
  by (simp add: list_entities_update_response_def list_entities_update_response_report_def entity_report_def fits_fields_def mk_field_simps)

lemma parse_update_info_reported:
  "parse_update_info (normalise list_entities_update_response (of_fields list_entities_update_response (list_entities_update_response_report i))) = settle_entity_info i"
  by (simp add: parse_update_info_def fill_entity_info_def Let_def new_UpdateInfo_def map_of_list_entities_update_response_report
      get_fields_wire [OF _ list_entities_update_response_fits] list_fields_wire [OF _ list_entities_update_response_fits])
    (cases i, simp add: settle_entity_info_def)

section \<open>Water heater\<close>

record WaterHeaterInfo = EntityInfo +
  whti_min_temperature :: "u32"
  whti_max_temperature :: "u32"
  whti_target_temperature_step :: "u32"
  whti_supported_modes :: "u32 list"
  whti_supported_features :: "u32"
  whti_temperature_unit :: "u32"

definition new_WaterHeaterInfo :: WaterHeaterInfo where
  "new_WaterHeaterInfo =
     \<lparr>ei_key = 0, ei_object_id = [], ei_name = [], ei_icon = [], ei_disabled_by_default = False,
      ei_entity_category = 0, ei_device_id = 0, whti_min_temperature = 0, whti_max_temperature = 0,
      whti_target_temperature_step = 0, whti_supported_modes = [], whti_supported_features = 0,
      whti_temperature_unit = 0\<rparr>"

definition parse_water_heater_info :: "message \<Rightarrow> WaterHeaterInfo" where
  "parse_water_heater_info msg =
     (fill_entity_info list_entities_water_heater_response new_WaterHeaterInfo msg)
      \<lparr>whti_min_temperature := as_w32 (get_m list_entities_water_heater_response ''min_temperature'' msg),
       whti_max_temperature := as_w32 (get_m list_entities_water_heater_response ''max_temperature'' msg),
       whti_target_temperature_step := as_w32 (get_m list_entities_water_heater_response ''target_temperature_step'' msg),
       whti_supported_modes := map as_w32 (list_m list_entities_water_heater_response ''supported_modes'' msg),
       whti_supported_features := as_w32 (get_m list_entities_water_heater_response ''supported_features'' msg),
       whti_temperature_unit := as_w32 (get_m list_entities_water_heater_response ''temperature_unit'' msg)\<rparr>"

definition list_entities_water_heater_response_report :: "WaterHeaterInfo \<Rightarrow> (string \<times> member) list" where
  "list_entities_water_heater_response_report i = entity_report i @
    [(''min_temperature'', Single (W32 (whti_min_temperature i))),
     (''max_temperature'', Single (W32 (whti_max_temperature i))),
     (''target_temperature_step'', Single (W32 (whti_target_temperature_step i))),
     (''supported_modes'', Repeated (map W32 (whti_supported_modes i))),
     (''supported_features'', Single (W32 (whti_supported_features i))),
     (''temperature_unit'', Single (W32 (whti_temperature_unit i)))]"

definition settle_WaterHeaterInfo :: "WaterHeaterInfo \<Rightarrow> WaterHeaterInfo" where
  "settle_WaterHeaterInfo i =
     (settle_entity_info i)\<lparr>whti_min_temperature := unsigned_zero (whti_min_temperature i),
       whti_max_temperature := unsigned_zero (whti_max_temperature i),
       whti_target_temperature_step := unsigned_zero (whti_target_temperature_step i)\<rparr>"

lemma list_entities_water_heater_response_types [simp]:
  "single_type list_entities_water_heater_response ''object_id'' = Some FString"
  "single_type list_entities_water_heater_response ''key'' = Some FFixed32"
  "single_type list_entities_water_heater_response ''name'' = Some FString"
  "single_type list_entities_water_heater_response ''icon'' = Some FString"
  "single_type list_entities_water_heater_response ''disabled_by_default'' = Some FBool"
  "single_type list_entities_water_heater_response ''entity_category'' = Some FEnum"
  "single_type list_entities_water_heater_response ''device_id'' = Some FUint32"
  "single_type list_entities_water_heater_response ''min_temperature'' = Some FFloat"
  "single_type list_entities_water_heater_response ''max_temperature'' = Some FFloat"
  "single_type list_entities_water_heater_response ''target_temperature_step'' = Some FFloat"
  "list_type list_entities_water_heater_response ''supported_modes'' = Some FEnum"
  "single_type list_entities_water_heater_response ''supported_features'' = Some FUint32"
  "single_type list_entities_water_heater_response ''temperature_unit'' = Some FEnum"
  by (simp_all add: list_entities_water_heater_response_def class_types)

lemma map_of_list_entities_water_heater_response_report:
  "map_of (list_entities_water_heater_response_report i) ''key'' = Some (Single (W32 (ei_key i)))"
  "map_of (list_entities_water_heater_response_report i) ''object_id'' = Some (Single (Str (ei_object_id i)))"
  "map_of (list_entities_water_heater_response_report i) ''name'' = Some (Single (Str (ei_name i)))"
  "map_of (list_entities_water_heater_response_report i) ''icon'' = Some (Single (Str (ei_icon i)))"
  "map_of (list_entities_water_heater_response_report i) ''disabled_by_default'' = Some (Single (B (ei_disabled_by_default i)))"
  "map_of (list_entities_water_heater_response_report i) ''entity_category'' = Some (Single (W32 (ei_entity_category i)))"
  "map_of (list_entities_water_heater_response_report i) ''device_id'' = Some (Single (W32 (ei_device_id i)))"
  "map_of (list_entities_water_heater_response_report i) ''min_temperature'' = Some (Single (W32 (whti_min_temperature i)))"
  "map_of (list_entities_water_heater_response_report i) ''max_temperature'' = Some (Single (W32 (whti_max_temperature i)))"
  "map_of (list_entities_water_heater_response_report i) ''target_temperature_step'' = Some (Single (W32 (whti_target_temperature_step i)))"
  "map_of (list_entities_water_heater_response_report i) ''supported_modes'' = Some (Repeated (map W32 (whti_supported_modes i)))"
  "map_of (list_entities_water_heater_response_report i) ''supported_features'' = Some (Single (W32 (whti_supported_features i)))"
  "map_of (list_entities_water_heater_response_report i) ''temperature_unit'' = Some (Single (W32 (whti_temperature_unit i)))"
  by (simp_all add: list_entities_water_heater_response_report_def map_of_entity_report map_of_entity_report_None map_add_def)

lemma list_entities_water_heater_response_fits: "fits_fields list_entities_water_heater_response (list_entities_water_heater_response_report i)"
  by (simp add: list_entities_water_heater_response_def list_entities_water_heater_response_report_def entity_report_def fits_fields_def mk_field_simps)

lemma parse_water_heater_info_reported:
  "parse_water_heater_info (normalise list_entities_water_heater_response (of_fields list_entities_water_heater_response (list_entities_water_heater_response_report i))) = settle_WaterHeaterInfo i"
  by (simp add: parse_water_heater_info_def fill_entity_info_def Let_def new_WaterHeaterInfo_def map_of_list_entities_water_heater_response_report
      get_fields_wire [OF _ list_entities_water_heater_response_fits] list_fields_wire [OF _ list_entities_water_heater_response_fits])
    (cases i, simp add: settle_WaterHeaterInfo_def settle_entity_info_def)

section \<open>Infrared\<close>

record InfraredInfo = EntityInfo +
  ifri_capabilities :: "u32"
  ifri_receiver_frequency :: "u32"

definition new_InfraredInfo :: InfraredInfo where
  "new_InfraredInfo =
     \<lparr>ei_key = 0, ei_object_id = [], ei_name = [], ei_icon = [], ei_disabled_by_default = False,
      ei_entity_category = 0, ei_device_id = 0, ifri_capabilities = 0, ifri_receiver_frequency = 0\<rparr>"

definition parse_infrared_info :: "message \<Rightarrow> InfraredInfo" where
  "parse_infrared_info msg =
     (fill_entity_info list_entities_infrared_response new_InfraredInfo msg)
      \<lparr>ifri_capabilities := as_w32 (get_m list_entities_infrared_response ''capabilities'' msg),
       ifri_receiver_frequency := as_w32 (get_m list_entities_infrared_response ''receiver_frequency'' msg)\<rparr>"

definition list_entities_infrared_response_report :: "InfraredInfo \<Rightarrow> (string \<times> member) list" where
  "list_entities_infrared_response_report i = entity_report i @
    [(''capabilities'', Single (W32 (ifri_capabilities i))),
     (''receiver_frequency'', Single (W32 (ifri_receiver_frequency i)))]"

lemma list_entities_infrared_response_types [simp]:
  "single_type list_entities_infrared_response ''object_id'' = Some FString"
  "single_type list_entities_infrared_response ''key'' = Some FFixed32"
  "single_type list_entities_infrared_response ''name'' = Some FString"
  "single_type list_entities_infrared_response ''icon'' = Some FString"
  "single_type list_entities_infrared_response ''disabled_by_default'' = Some FBool"
  "single_type list_entities_infrared_response ''entity_category'' = Some FEnum"
  "single_type list_entities_infrared_response ''device_id'' = Some FUint32"
  "single_type list_entities_infrared_response ''capabilities'' = Some FUint32"
  "single_type list_entities_infrared_response ''receiver_frequency'' = Some FUint32"
  by (simp_all add: list_entities_infrared_response_def class_types)

lemma map_of_list_entities_infrared_response_report:
  "map_of (list_entities_infrared_response_report i) ''key'' = Some (Single (W32 (ei_key i)))"
  "map_of (list_entities_infrared_response_report i) ''object_id'' = Some (Single (Str (ei_object_id i)))"
  "map_of (list_entities_infrared_response_report i) ''name'' = Some (Single (Str (ei_name i)))"
  "map_of (list_entities_infrared_response_report i) ''icon'' = Some (Single (Str (ei_icon i)))"
  "map_of (list_entities_infrared_response_report i) ''disabled_by_default'' = Some (Single (B (ei_disabled_by_default i)))"
  "map_of (list_entities_infrared_response_report i) ''entity_category'' = Some (Single (W32 (ei_entity_category i)))"
  "map_of (list_entities_infrared_response_report i) ''device_id'' = Some (Single (W32 (ei_device_id i)))"
  "map_of (list_entities_infrared_response_report i) ''capabilities'' = Some (Single (W32 (ifri_capabilities i)))"
  "map_of (list_entities_infrared_response_report i) ''receiver_frequency'' = Some (Single (W32 (ifri_receiver_frequency i)))"
  by (simp_all add: list_entities_infrared_response_report_def map_of_entity_report map_of_entity_report_None map_add_def)

lemma list_entities_infrared_response_fits: "fits_fields list_entities_infrared_response (list_entities_infrared_response_report i)"
  by (simp add: list_entities_infrared_response_def list_entities_infrared_response_report_def entity_report_def fits_fields_def mk_field_simps)

lemma parse_infrared_info_reported:
  "parse_infrared_info (normalise list_entities_infrared_response (of_fields list_entities_infrared_response (list_entities_infrared_response_report i))) = settle_entity_info i"
  by (simp add: parse_infrared_info_def fill_entity_info_def Let_def new_InfraredInfo_def map_of_list_entities_infrared_response_report
      get_fields_wire [OF _ list_entities_infrared_response_fits] list_fields_wire [OF _ list_entities_infrared_response_fits])
    (cases i, simp add: settle_entity_info_def)

section \<open>Radio frequency\<close>

record RadioFrequencyInfo = EntityInfo +
  rfqi_capabilities :: "u32"
  rfqi_frequency_min :: "u32"
  rfqi_frequency_max :: "u32"
  rfqi_supported_modulations :: "u32"

definition new_RadioFrequencyInfo :: RadioFrequencyInfo where
  "new_RadioFrequencyInfo =
     \<lparr>ei_key = 0, ei_object_id = [], ei_name = [], ei_icon = [], ei_disabled_by_default = False,
      ei_entity_category = 0, ei_device_id = 0, rfqi_capabilities = 0, rfqi_frequency_min = 0,
      rfqi_frequency_max = 0, rfqi_supported_modulations = 0\<rparr>"

definition parse_radio_frequency_info :: "message \<Rightarrow> RadioFrequencyInfo" where
  "parse_radio_frequency_info msg =
     (fill_entity_info list_entities_radio_frequency_response new_RadioFrequencyInfo msg)
      \<lparr>rfqi_capabilities := as_w32 (get_m list_entities_radio_frequency_response ''capabilities'' msg),
       rfqi_frequency_min := as_w32 (get_m list_entities_radio_frequency_response ''frequency_min'' msg),
       rfqi_frequency_max := as_w32 (get_m list_entities_radio_frequency_response ''frequency_max'' msg),
       rfqi_supported_modulations := as_w32 (get_m list_entities_radio_frequency_response ''supported_modulations'' msg)\<rparr>"

definition list_entities_radio_frequency_response_report :: "RadioFrequencyInfo \<Rightarrow> (string \<times> member) list" where
  "list_entities_radio_frequency_response_report i = entity_report i @
    [(''capabilities'', Single (W32 (rfqi_capabilities i))),
     (''frequency_min'', Single (W32 (rfqi_frequency_min i))),
     (''frequency_max'', Single (W32 (rfqi_frequency_max i))),
     (''supported_modulations'', Single (W32 (rfqi_supported_modulations i)))]"

lemma list_entities_radio_frequency_response_types [simp]:
  "single_type list_entities_radio_frequency_response ''object_id'' = Some FString"
  "single_type list_entities_radio_frequency_response ''key'' = Some FFixed32"
  "single_type list_entities_radio_frequency_response ''name'' = Some FString"
  "single_type list_entities_radio_frequency_response ''icon'' = Some FString"
  "single_type list_entities_radio_frequency_response ''disabled_by_default'' = Some FBool"
  "single_type list_entities_radio_frequency_response ''entity_category'' = Some FEnum"
  "single_type list_entities_radio_frequency_response ''device_id'' = Some FUint32"
  "single_type list_entities_radio_frequency_response ''capabilities'' = Some FUint32"
  "single_type list_entities_radio_frequency_response ''frequency_min'' = Some FUint32"
  "single_type list_entities_radio_frequency_response ''frequency_max'' = Some FUint32"
  "single_type list_entities_radio_frequency_response ''supported_modulations'' = Some FUint32"
  by (simp_all add: list_entities_radio_frequency_response_def class_types)

lemma map_of_list_entities_radio_frequency_response_report:
  "map_of (list_entities_radio_frequency_response_report i) ''key'' = Some (Single (W32 (ei_key i)))"
  "map_of (list_entities_radio_frequency_response_report i) ''object_id'' = Some (Single (Str (ei_object_id i)))"
  "map_of (list_entities_radio_frequency_response_report i) ''name'' = Some (Single (Str (ei_name i)))"
  "map_of (list_entities_radio_frequency_response_report i) ''icon'' = Some (Single (Str (ei_icon i)))"
  "map_of (list_entities_radio_frequency_response_report i) ''disabled_by_default'' = Some (Single (B (ei_disabled_by_default i)))"
  "map_of (list_entities_radio_frequency_response_report i) ''entity_category'' = Some (Single (W32 (ei_entity_category i)))"
  "map_of (list_entities_radio_frequency_response_report i) ''device_id'' = Some (Single (W32 (ei_device_id i)))"
  "map_of (list_entities_radio_frequency_response_report i) ''capabilities'' = Some (Single (W32 (rfqi_capabilities i)))"
  "map_of (list_entities_radio_frequency_response_report i) ''frequency_min'' = Some (Single (W32 (rfqi_frequency_min i)))"
  "map_of (list_entities_radio_frequency_response_report i) ''frequency_max'' = Some (Single (W32 (rfqi_frequency_max i)))"
  "map_of (list_entities_radio_frequency_response_report i) ''supported_modulations'' = Some (Single (W32 (rfqi_supported_modulations i)))"
  by (simp_all add: list_entities_radio_frequency_response_report_def map_of_entity_report map_of_entity_report_None map_add_def)

lemma list_entities_radio_frequency_response_fits: "fits_fields list_entities_radio_frequency_response (list_entities_radio_frequency_response_report i)"
  by (simp add: list_entities_radio_frequency_response_def list_entities_radio_frequency_response_report_def entity_report_def fits_fields_def mk_field_simps)

lemma parse_radio_frequency_info_reported:
  "parse_radio_frequency_info (normalise list_entities_radio_frequency_response (of_fields list_entities_radio_frequency_response (list_entities_radio_frequency_response_report i))) = settle_entity_info i"
  by (simp add: parse_radio_frequency_info_def fill_entity_info_def Let_def new_RadioFrequencyInfo_def map_of_list_entities_radio_frequency_response_report
      get_fields_wire [OF _ list_entities_radio_frequency_response_fits] list_fields_wire [OF _ list_entities_radio_frequency_response_fits])
    (cases i, simp add: settle_entity_info_def)

section \<open>All descriptions\<close>

datatype entity_info =
    Info_BinarySensor BinarySensorInfo
  | Info_Sensor SensorInfo
  | Info_TextSensor TextSensorInfo
  | Info_Switch SwitchInfo
  | Info_Light LightInfo
  | Info_Cover CoverInfo
  | Info_Fan FanInfo
  | Info_Climate ClimateInfo
  | Info_Number NumberInfo
  | Info_Select SelectInfo
  | Info_Text TextInfo
  | Info_Button ButtonInfo
  | Info_Lock LockInfo
  | Info_MediaPlayer MediaPlayerInfo
  | Info_Camera CameraInfo
  | Info_Siren SirenInfo
  | Info_AlarmControlPanel AlarmControlPanelInfo
  | Info_Date DateInfo
  | Info_Time TimeInfo
  | Info_DateTime DateTimeInfo
  | Info_Valve ValveInfo
  | Info_Event EventInfo
  | Info_Update UpdateInfo
  | Info_WaterHeater WaterHeaterInfo
  | Info_Infrared InfraredInfo
  | Info_RadioFrequency RadioFrequencyInfo

fun info_domain :: "entity_info \<Rightarrow> entity_type" where
  "info_domain (Info_BinarySensor _) = BinarySensor"
| "info_domain (Info_Sensor _) = Sensor"
| "info_domain (Info_TextSensor _) = TextSensor"
| "info_domain (Info_Switch _) = Switch"
| "info_domain (Info_Light _) = Light"
| "info_domain (Info_Cover _) = Cover"
| "info_domain (Info_Fan _) = Fan"
| "info_domain (Info_Climate _) = Climate"
| "info_domain (Info_Number _) = Number"
| "info_domain (Info_Select _) = Select"
| "info_domain (Info_Text _) = Text"
| "info_domain (Info_Button _) = Button"
| "info_domain (Info_Lock _) = Lock"
| "info_domain (Info_MediaPlayer _) = MediaPlayer"
| "info_domain (Info_Camera _) = Camera"
| "info_domain (Info_Siren _) = Siren"
| "info_domain (Info_AlarmControlPanel _) = AlarmControlPanel"
| "info_domain (Info_Date _) = Date"
| "info_domain (Info_Time _) = Time"
| "info_domain (Info_DateTime _) = DateTime"
| "info_domain (Info_Valve _) = Valve"
| "info_domain (Info_Event _) = Event"
| "info_domain (Info_Update _) = Update"
| "info_domain (Info_WaterHeater _) = WaterHeater"
| "info_domain (Info_Infrared _) = Infrared"
| "info_domain (Info_RadioFrequency _) = RadioFrequency"

fun info_class_of :: "entity_info \<Rightarrow> msg_class" where
  "info_class_of (Info_BinarySensor _) = list_entities_binary_sensor_response"
| "info_class_of (Info_Sensor _) = list_entities_sensor_response"
| "info_class_of (Info_TextSensor _) = list_entities_text_sensor_response"
| "info_class_of (Info_Switch _) = list_entities_switch_response"
| "info_class_of (Info_Light _) = list_entities_light_response"
| "info_class_of (Info_Cover _) = list_entities_cover_response"
| "info_class_of (Info_Fan _) = list_entities_fan_response"
| "info_class_of (Info_Climate _) = list_entities_climate_response"
| "info_class_of (Info_Number _) = list_entities_number_response"
| "info_class_of (Info_Select _) = list_entities_select_response"
| "info_class_of (Info_Text _) = list_entities_text_response"
| "info_class_of (Info_Button _) = list_entities_button_response"
| "info_class_of (Info_Lock _) = list_entities_lock_response"
| "info_class_of (Info_MediaPlayer _) = list_entities_media_player_response"
| "info_class_of (Info_Camera _) = list_entities_camera_response"
| "info_class_of (Info_Siren _) = list_entities_siren_response"
| "info_class_of (Info_AlarmControlPanel _) = list_entities_alarm_control_panel_response"
| "info_class_of (Info_Date _) = list_entities_date_response"
| "info_class_of (Info_Time _) = list_entities_time_response"
| "info_class_of (Info_DateTime _) = list_entities_date_time_response"
| "info_class_of (Info_Valve _) = list_entities_valve_response"
| "info_class_of (Info_Event _) = list_entities_event_response"
| "info_class_of (Info_Update _) = list_entities_update_response"
| "info_class_of (Info_WaterHeater _) = list_entities_water_heater_response"
| "info_class_of (Info_Infrared _) = list_entities_infrared_response"
| "info_class_of (Info_RadioFrequency _) = list_entities_radio_frequency_response"

fun info_id :: "entity_info \<Rightarrow> u32" where
  "info_id (Info_BinarySensor _) = 12"
| "info_id (Info_Sensor _) = 16"
| "info_id (Info_TextSensor _) = 18"
| "info_id (Info_Switch _) = 17"
| "info_id (Info_Light _) = 15"
| "info_id (Info_Cover _) = 13"
| "info_id (Info_Fan _) = 14"
| "info_id (Info_Climate _) = 46"
| "info_id (Info_Number _) = 49"
| "info_id (Info_Select _) = 52"
| "info_id (Info_Text _) = 97"
| "info_id (Info_Button _) = 61"
| "info_id (Info_Lock _) = 58"
| "info_id (Info_MediaPlayer _) = 63"
| "info_id (Info_Camera _) = 43"
| "info_id (Info_Siren _) = 55"
| "info_id (Info_AlarmControlPanel _) = 94"
| "info_id (Info_Date _) = 100"
| "info_id (Info_Time _) = 103"
| "info_id (Info_DateTime _) = 112"
| "info_id (Info_Valve _) = 109"
| "info_id (Info_Event _) = 107"
| "info_id (Info_Update _) = 116"
| "info_id (Info_WaterHeater _) = 132"
| "info_id (Info_Infrared _) = 135"
| "info_id (Info_RadioFrequency _) = 148"

fun info_report :: "entity_info \<Rightarrow> (string \<times> member) list" where
  "info_report (Info_BinarySensor i) = list_entities_binary_sensor_response_report i"
| "info_report (Info_Sensor i) = list_entities_sensor_response_report i"
| "info_report (Info_TextSensor i) = list_entities_text_sensor_response_report i"
| "info_report (Info_Switch i) = list_entities_switch_response_report i"
| "info_report (Info_Light i) = list_entities_light_response_report i"
| "info_report (Info_Cover i) = list_entities_cover_response_report i"
| "info_report (Info_Fan i) = list_entities_fan_response_report i"
| "info_report (Info_Climate i) = list_entities_climate_response_report i"
| "info_report (Info_Number i) = list_entities_number_response_report i"
| "info_report (Info_Select i) = list_entities_select_response_report i"
| "info_report (Info_Text i) = list_entities_text_response_report i"
| "info_report (Info_Button i) = list_entities_button_response_report i"
| "info_report (Info_Lock i) = list_entities_lock_response_report i"
| "info_report (Info_MediaPlayer i) = list_entities_media_player_response_report i"
| "info_report (Info_Camera i) = list_entities_camera_response_report i"
| "info_report (Info_Siren i) = list_entities_siren_response_report i"
| "info_report (Info_AlarmControlPanel i) = list_entities_alarm_control_panel_response_report i"
| "info_report (Info_Date i) = list_entities_date_response_report i"
| "info_report (Info_Time i) = list_entities_time_response_report i"
| "info_report (Info_DateTime i) = list_entities_date_time_response_report i"
| "info_report (Info_Valve i) = list_entities_valve_response_report i"
| "info_report (Info_Event i) = list_entities_event_response_report i"
| "info_report (Info_Update i) = list_entities_update_response_report i"
| "info_report (Info_WaterHeater i) = list_entities_water_heater_response_report i"
| "info_report (Info_Infrared i) = list_entities_infrared_response_report i"
| "info_report (Info_RadioFrequency i) = list_entities_radio_frequency_response_report i"

fun common_info :: "entity_info \<Rightarrow> EntityInfo" where
  "common_info (Info_BinarySensor i) = EntityInfo.truncate i"
| "common_info (Info_Sensor i) = EntityInfo.truncate i"
| "common_info (Info_TextSensor i) = EntityInfo.truncate i"
| "common_info (Info_Switch i) = EntityInfo.truncate i"
| "common_info (Info_Light i) = EntityInfo.truncate i"
| "common_info (Info_Cover i) = EntityInfo.truncate i"
| "common_info (Info_Fan i) = EntityInfo.truncate i"
| "common_info (Info_Climate i) = EntityInfo.truncate i"
| "common_info (Info_Number i) = EntityInfo.truncate i"
| "common_info (Info_Select i) = EntityInfo.truncate i"
| "common_info (Info_Text i) = EntityInfo.truncate i"
| "common_info (Info_Button i) = EntityInfo.truncate i"
| "common_info (Info_Lock i) = EntityInfo.truncate i"
| "common_info (Info_MediaPlayer i) = EntityInfo.truncate i"
| "common_info (Info_Camera i) = EntityInfo.truncate i"
| "common_info (Info_Siren i) = EntityInfo.truncate i"
| "common_info (Info_AlarmControlPanel i) = EntityInfo.truncate i"
| "common_info (Info_Date i) = EntityInfo.truncate i"
| "common_info (Info_Time i) = EntityInfo.truncate i"
| "common_info (Info_DateTime i) = EntityInfo.truncate i"
| "common_info (Info_Valve i) = EntityInfo.truncate i"
| "common_info (Info_Event i) = EntityInfo.truncate i"
| "common_info (Info_Update i) = EntityInfo.truncate i"
| "common_info (Info_WaterHeater i) = EntityInfo.truncate i"
| "common_info (Info_Infrared i) = EntityInfo.truncate i"
| "common_info (Info_RadioFrequency i) = EntityInfo.truncate i"

fun settle_info :: "entity_info \<Rightarrow> entity_info" where
  "settle_info (Info_BinarySensor i) = Info_BinarySensor (settle_entity_info i)"
| "settle_info (Info_Sensor i) = Info_Sensor (settle_entity_info i)"
| "settle_info (Info_TextSensor i) = Info_TextSensor (settle_entity_info i)"
| "settle_info (Info_Switch i) = Info_Switch (settle_entity_info i)"
| "settle_info (Info_Light i) = Info_Light (settle_LightInfo i)"
| "settle_info (Info_Cover i) = Info_Cover (settle_entity_info i)"
| "settle_info (Info_Fan i) = Info_Fan (settle_entity_info i)"
| "settle_info (Info_Climate i) = Info_Climate (settle_ClimateInfo i)"
| "settle_info (Info_Number i) = Info_Number (settle_NumberInfo i)"
| "settle_info (Info_Select i) = Info_Select (settle_entity_info i)"
| "settle_info (Info_Text i) = Info_Text (settle_entity_info i)"
| "settle_info (Info_Button i) = Info_Button (settle_entity_info i)"
| "settle_info (Info_Lock i) = Info_Lock (settle_entity_info i)"
| "settle_info (Info_MediaPlayer i) = Info_MediaPlayer (settle_entity_info i)"
| "settle_info (Info_Camera i) = Info_Camera (settle_entity_info i)"
| "settle_info (Info_Siren i) = Info_Siren (settle_entity_info i)"
| "settle_info (Info_AlarmControlPanel i) = Info_AlarmControlPanel (settle_entity_info i)"
| "settle_info (Info_Date i) = Info_Date (settle_entity_info i)"
| "settle_info (Info_Time i) = Info_Time (settle_entity_info i)"
| "settle_info (Info_DateTime i) = Info_DateTime (settle_entity_info i)"
| "settle_info (Info_Valve i) = Info_Valve (settle_entity_info i)"
| "settle_info (Info_Event i) = Info_Event (settle_entity_info i)"
| "settle_info (Info_Update i) = Info_Update (settle_entity_info i)"
| "settle_info (Info_WaterHeater i) = Info_WaterHeater (settle_WaterHeaterInfo i)"
| "settle_info (Info_Infrared i) = Info_Infrared (settle_entity_info i)"
| "settle_info (Info_RadioFrequency i) = Info_RadioFrequency (settle_entity_info i)"

lemma info_class_wf [simp]: "wf_class (info_class_of i)"
  by (cases i) (simp_all add: list_entities_binary_sensor_response_wf
    list_entities_sensor_response_wf
    list_entities_text_sensor_response_wf
    list_entities_switch_response_wf
    list_entities_light_response_wf
    list_entities_cover_response_wf
    list_entities_fan_response_wf
    list_entities_climate_response_wf
    list_entities_number_response_wf
    list_entities_select_response_wf
    list_entities_text_response_wf
    list_entities_button_response_wf
    list_entities_lock_response_wf
    list_entities_media_player_response_wf
    list_entities_camera_response_wf
    list_entities_siren_response_wf
    list_entities_alarm_control_panel_response_wf
    list_entities_date_response_wf
    list_entities_time_response_wf
    list_entities_date_time_response_wf
    list_entities_valve_response_wf
    list_entities_event_response_wf
    list_entities_update_response_wf
    list_entities_water_heater_response_wf
    list_entities_infrared_response_wf
    list_entities_radio_frequency_response_wf)

lemma info_report_fits: "fits_fields (info_class_of i) (info_report i)"
  by (cases i) (simp_all add: list_entities_binary_sensor_response_fits
    list_entities_sensor_response_fits
    list_entities_text_sensor_response_fits
    list_entities_switch_response_fits
    list_entities_light_response_fits
    list_entities_cover_response_fits
    list_entities_fan_response_fits
    list_entities_climate_response_fits
    list_entities_number_response_fits
    list_entities_select_response_fits
    list_entities_text_response_fits
    list_entities_button_response_fits
    list_entities_lock_response_fits
    list_entities_media_player_response_fits
    list_entities_camera_response_fits
    list_entities_siren_response_fits
    list_entities_alarm_control_panel_response_fits
    list_entities_date_response_fits
    list_entities_time_response_fits
    list_entities_date_time_response_fits
    list_entities_valve_response_fits
    list_entities_event_response_fits
    list_entities_update_response_fits
    list_entities_water_heater_response_fits
    list_entities_infrared_response_fits
    list_entities_radio_frequency_response_fits)

text \<open>The parser of a domain's list messages.\<close>

definition parse_info :: "entity_type \<Rightarrow> message \<Rightarrow> entity_info option" where
  "parse_info ty m =
     (case ty of
        BinarySensor \<Rightarrow> Some (Info_BinarySensor (parse_binary_sensor_info m))
      | Sensor \<Rightarrow> Some (Info_Sensor (parse_sensor_info m))
      | TextSensor \<Rightarrow> Some (Info_TextSensor (parse_text_sensor_info m))
      | Switch \<Rightarrow> Some (Info_Switch (parse_switch_info m))
      | Light \<Rightarrow> Some (Info_Light (parse_light_info m))
      | Cover \<Rightarrow> Some (Info_Cover (parse_cover_info m))
      | Fan \<Rightarrow> Some (Info_Fan (parse_fan_info m))
      | Climate \<Rightarrow> Some (Info_Climate (parse_climate_info m))
      | Number \<Rightarrow> Some (Info_Number (parse_number_info m))
      | Select \<Rightarrow> Some (Info_Select (parse_select_info m))
      | Text \<Rightarrow> Some (Info_Text (parse_text_info m))
      | Button \<Rightarrow> Some (Info_Button (parse_button_info m))
      | Lock \<Rightarrow> Some (Info_Lock (parse_lock_info m))
      | MediaPlayer \<Rightarrow> Some (Info_MediaPlayer (parse_media_player_info m))
      | Camera \<Rightarrow> Some (Info_Camera (parse_camera_info m))
      | Siren \<Rightarrow> Some (Info_Siren (parse_siren_info m))
      | AlarmControlPanel \<Rightarrow> Some (Info_AlarmControlPanel (parse_alarm_control_panel_info m))
      | Date \<Rightarrow> Some (Info_Date (parse_date_info m))
      | Time \<Rightarrow> Some (Info_Time (parse_time_info m))
      | DateTime \<Rightarrow> Some (Info_DateTime (parse_datetime_info m))
      | Valve \<Rightarrow> Some (Info_Valve (parse_valve_info m))
      | Event \<Rightarrow> Some (Info_Event (parse_event_info m))
      | Update \<Rightarrow> Some (Info_Update (parse_update_info m))
      | WaterHeater \<Rightarrow> Some (Info_WaterHeater (parse_water_heater_info m))
      | Infrared \<Rightarrow> Some (Info_Infrared (parse_infrared_info m))
      | RadioFrequency \<Rightarrow> Some (Info_RadioFrequency (parse_radio_frequency_info m))
      | Unknown \<Rightarrow> None)"

lemma parse_info_reported:
  "parse_info (info_domain i) (normalise (info_class_of i) (of_fields (info_class_of i) (info_report i))) =
     Some (settle_info i)"
  by (cases i) (simp_all add: parse_info_def parse_binary_sensor_info_reported
    parse_sensor_info_reported
    parse_text_sensor_info_reported
    parse_switch_info_reported
    parse_light_info_reported
    parse_cover_info_reported
    parse_fan_info_reported
    parse_climate_info_reported
    parse_number_info_reported
    parse_select_info_reported
    parse_text_info_reported
    parse_button_info_reported
    parse_lock_info_reported
    parse_media_player_info_reported
    parse_camera_info_reported
    parse_siren_info_reported
    parse_alarm_control_panel_info_reported
    parse_date_info_reported
    parse_time_info_reported
    parse_datetime_info_reported
    parse_valve_info_reported
    parse_event_info_reported
    parse_update_info_reported
    parse_water_heater_info_reported
    parse_infrared_info_reported
    parse_radio_frequency_info_reported)

interpretation infos: wire_message info_class_of "\<lambda>i. of_fields (info_class_of i) (info_report i)"
    "\<lambda>i. parse_info (info_domain i)" "\<lambda>i. Some (settle_info i)"
  by unfold_locales (simp_all add: typed_of_fields info_report_fits parse_info_reported)

text \<open>The fields that the store reads through the base class.\<close>

lemma info_base_wire:
  "get_m (info_class_of i) ''key'' (normalise (info_class_of i) (of_fields (info_class_of i) (info_report i))) =
     W32 (ei_key (common_info i))"
  "get_m (info_class_of i) ''name'' (normalise (info_class_of i) (of_fields (info_class_of i) (info_report i))) =
     Str (ei_name (common_info i))"
  "get_m (info_class_of i) ''object_id'' (normalise (info_class_of i) (of_fields (info_class_of i) (info_report i))) =
     Str (ei_object_id (common_info i))"
  by (cases i; simp add: EntityInfo.defs get_fields_wire [OF _ list_entities_binary_sensor_response_fits] map_of_list_entities_binary_sensor_response_report(1-3)
    get_fields_wire [OF _ list_entities_sensor_response_fits] map_of_list_entities_sensor_response_report(1-3)
    get_fields_wire [OF _ list_entities_text_sensor_response_fits] map_of_list_entities_text_sensor_response_report(1-3)
    get_fields_wire [OF _ list_entities_switch_response_fits] map_of_list_entities_switch_response_report(1-3)
    get_fields_wire [OF _ list_entities_light_response_fits] map_of_list_entities_light_response_report(1-3)
    get_fields_wire [OF _ list_entities_cover_response_fits] map_of_list_entities_cover_response_report(1-3)
    get_fields_wire [OF _ list_entities_fan_response_fits] map_of_list_entities_fan_response_report(1-3)
    get_fields_wire [OF _ list_entities_climate_response_fits] map_of_list_entities_climate_response_report(1-3)
    get_fields_wire [OF _ list_entities_number_response_fits] map_of_list_entities_number_response_report(1-3)
    get_fields_wire [OF _ list_entities_select_response_fits] map_of_list_entities_select_response_report(1-3)
    get_fields_wire [OF _ list_entities_text_response_fits] map_of_list_entities_text_response_report(1-3)
    get_fields_wire [OF _ list_entities_button_response_fits] map_of_list_entities_button_response_report(1-3)
    get_fields_wire [OF _ list_entities_lock_response_fits] map_of_list_entities_lock_response_report(1-3)
    get_fields_wire [OF _ list_entities_media_player_response_fits] map_of_list_entities_media_player_response_report(1-3)
    get_fields_wire [OF _ list_entities_camera_response_fits] map_of_list_entities_camera_response_report(1-3)
    get_fields_wire [OF _ list_entities_siren_response_fits] map_of_list_entities_siren_response_report(1-3)
    get_fields_wire [OF _ list_entities_alarm_control_panel_response_fits] map_of_list_entities_alarm_control_panel_response_report(1-3)
    get_fields_wire [OF _ list_entities_date_response_fits] map_of_list_entities_date_response_report(1-3)
    get_fields_wire [OF _ list_entities_time_response_fits] map_of_list_entities_time_response_report(1-3)
    get_fields_wire [OF _ list_entities_date_time_response_fits] map_of_list_entities_date_time_response_report(1-3)
    get_fields_wire [OF _ list_entities_valve_response_fits] map_of_list_entities_valve_response_report(1-3)
    get_fields_wire [OF _ list_entities_event_response_fits] map_of_list_entities_event_response_report(1-3)
    get_fields_wire [OF _ list_entities_update_response_fits] map_of_list_entities_update_response_report(1-3)
    get_fields_wire [OF _ list_entities_water_heater_response_fits] map_of_list_entities_water_heater_response_report(1-3)
    get_fields_wire [OF _ list_entities_infrared_response_fits] map_of_list_entities_infrared_response_report(1-3)
    get_fields_wire [OF _ list_entities_radio_frequency_response_fits] map_of_list_entities_radio_frequency_response_report(1-3))+

end
