(* ===== verification/Device_Info.thy ===== *)
theory Device_Info
  imports Api_Schema
begin

text \<open>
  \<^verbatim>\<open>DeviceInfo\<close> (\<^verbatim>\<open>src/model/device_info.cpp\<close>): what the client keeps of a \<^verbatim>\<open>DeviceInfoResponse\<close>.
\<close>

record SerialProxyPortInfo =
  port_name :: string
  port_type :: u32

record DeviceInfo =
  dev_name :: string
  dev_friendly_name :: string
  dev_mac_address :: string
  dev_bluetooth_mac_address :: string
  dev_esphome_version :: string
  dev_compilation_time :: string
  dev_model :: string
  dev_manufacturer :: string
  dev_project_name :: string
  dev_project_version :: string
  dev_suggested_area :: string
  dev_has_deep_sleep :: bool
  dev_webserver_port :: u32
  dev_api_encryption_supported :: bool
  dev_bluetooth_proxy_feature_flags :: u32
  dev_voice_assistant_feature_flags :: u32
  dev_zwave_proxy_feature_flags :: u32
  dev_zwave_home_id :: u32
  dev_serial_proxies :: "SerialProxyPortInfo list"

definition new_DeviceInfo :: DeviceInfo where
  "new_DeviceInfo =
     \<lparr>dev_name = [], dev_friendly_name = [], dev_mac_address = [], dev_bluetooth_mac_address = [],
      dev_esphome_version = [], dev_compilation_time = [], dev_model = [], dev_manufacturer = [],
      dev_project_name = [], dev_project_version = [], dev_suggested_area = [], dev_has_deep_sleep = False,
      dev_webserver_port = 0, dev_api_encryption_supported = False, dev_bluetooth_proxy_feature_flags = 0,
      dev_voice_assistant_feature_flags = 0, dev_zwave_proxy_feature_flags = 0, dev_zwave_home_id = 0,
      dev_serial_proxies = []\<rparr>"

definition port_from_proto :: "message \<Rightarrow> SerialProxyPortInfo" where
  "port_from_proto sp =
     \<lparr>port_name = as_str (get_m serial_proxy_info_class ''name'' sp), port_type = as_w32 (get_m serial_proxy_info_class ''port_type'' sp)\<rparr>"

definition from_proto :: "message \<Rightarrow> DeviceInfo" where
  "from_proto msg =
     new_DeviceInfo\<lparr>dev_name := as_str (get_m device_info_response ''name'' msg),
       dev_friendly_name := as_str (get_m device_info_response ''friendly_name'' msg),
       dev_mac_address := as_str (get_m device_info_response ''mac_address'' msg),
       dev_bluetooth_mac_address := as_str (get_m device_info_response ''bluetooth_mac_address'' msg),
       dev_esphome_version := as_str (get_m device_info_response ''esphome_version'' msg),
       dev_compilation_time := as_str (get_m device_info_response ''compilation_time'' msg),
       dev_model := as_str (get_m device_info_response ''model'' msg),
       dev_manufacturer := as_str (get_m device_info_response ''manufacturer'' msg),
       dev_project_name := as_str (get_m device_info_response ''project_name'' msg),
       dev_project_version := as_str (get_m device_info_response ''project_version'' msg),
       dev_suggested_area := as_str (get_m device_info_response ''suggested_area'' msg),
       dev_has_deep_sleep := as_bool (get_m device_info_response ''has_deep_sleep'' msg),
       dev_webserver_port := as_w32 (get_m device_info_response ''webserver_port'' msg),
       dev_api_encryption_supported := as_bool (get_m device_info_response ''api_encryption_supported'' msg),
       dev_bluetooth_proxy_feature_flags := as_w32 (get_m device_info_response ''bluetooth_proxy_feature_flags'' msg),
       dev_voice_assistant_feature_flags := as_w32 (get_m device_info_response ''voice_assistant_feature_flags'' msg),
       dev_zwave_proxy_feature_flags := as_w32 (get_m device_info_response ''zwave_proxy_feature_flags'' msg),
       dev_zwave_home_id := as_w32 (get_m device_info_response ''zwave_home_id'' msg),
       dev_serial_proxies := map port_from_proto (subs_m device_info_response ''serial_proxies'' msg)\<rparr>"

text \<open>The fields that a device fills.\<close>

definition port_report :: "SerialProxyPortInfo \<Rightarrow> (string \<times> member) list" where
  "port_report p = [(''name'', Single (Str (port_name p))), (''port_type'', Single (W32 (port_type p)))]"

definition device_report :: "DeviceInfo \<Rightarrow> (string \<times> member) list" where
  "device_report d =
    [(''name'', Single (Str (dev_name d))),
     (''friendly_name'', Single (Str (dev_friendly_name d))),
     (''mac_address'', Single (Str (dev_mac_address d))),
     (''bluetooth_mac_address'', Single (Str (dev_bluetooth_mac_address d))),
     (''esphome_version'', Single (Str (dev_esphome_version d))),
     (''compilation_time'', Single (Str (dev_compilation_time d))),
     (''model'', Single (Str (dev_model d))),
     (''manufacturer'', Single (Str (dev_manufacturer d))),
     (''project_name'', Single (Str (dev_project_name d))),
     (''project_version'', Single (Str (dev_project_version d))),
     (''suggested_area'', Single (Str (dev_suggested_area d))),
     (''has_deep_sleep'', Single (B (dev_has_deep_sleep d))),
     (''webserver_port'', Single (W32 (dev_webserver_port d))),
     (''api_encryption_supported'', Single (B (dev_api_encryption_supported d))),
     (''bluetooth_proxy_feature_flags'', Single (W32 (dev_bluetooth_proxy_feature_flags d))),
     (''voice_assistant_feature_flags'', Single (W32 (dev_voice_assistant_feature_flags d))),
     (''zwave_proxy_feature_flags'', Single (W32 (dev_zwave_proxy_feature_flags d))),
     (''zwave_home_id'', Single (W32 (dev_zwave_home_id d))),
     (''serial_proxies'', SubRepeated (map (of_fields serial_proxy_info_class \<circ> port_report) (dev_serial_proxies d)))]"

lemma serial_proxy_info_class_types [simp]:
  "single_type serial_proxy_info_class ''name'' = Some FString"
  "single_type serial_proxy_info_class ''port_type'' = Some FEnum"
  by (simp_all add: serial_proxy_info_class_def class_types)

lemma device_info_response_types [simp]:
  "single_type device_info_response ''uses_password'' = Some FBool"
  "single_type device_info_response ''name'' = Some FString"
  "single_type device_info_response ''mac_address'' = Some FString"
  "single_type device_info_response ''esphome_version'' = Some FString"
  "single_type device_info_response ''compilation_time'' = Some FString"
  "single_type device_info_response ''model'' = Some FString"
  "single_type device_info_response ''has_deep_sleep'' = Some FBool"
  "single_type device_info_response ''project_name'' = Some FString"
  "single_type device_info_response ''project_version'' = Some FString"
  "single_type device_info_response ''webserver_port'' = Some FUint32"
  "single_type device_info_response ''legacy_bluetooth_proxy_version'' = Some FUint32"
  "single_type device_info_response ''manufacturer'' = Some FString"
  "single_type device_info_response ''friendly_name'' = Some FString"
  "single_type device_info_response ''legacy_voice_assistant_version'' = Some FUint32"
  "single_type device_info_response ''bluetooth_proxy_feature_flags'' = Some FUint32"
  "single_type device_info_response ''suggested_area'' = Some FString"
  "single_type device_info_response ''voice_assistant_feature_flags'' = Some FUint32"
  "single_type device_info_response ''bluetooth_mac_address'' = Some FString"
  "single_type device_info_response ''api_encryption_supported'' = Some FBool"
  "subs_class device_info_response ''devices'' = Some device_info_class"
  "subs_class device_info_response ''areas'' = Some area_info_class"
  "single_type device_info_response ''zwave_proxy_feature_flags'' = Some FUint32"
  "single_type device_info_response ''zwave_home_id'' = Some FUint32"
  "subs_class device_info_response ''serial_proxies'' = Some serial_proxy_info_class"
  by (simp_all add: device_info_response_def class_types)

lemma port_fits: "fits_fields serial_proxy_info_class (port_report p)"
  by (simp add: serial_proxy_info_class_def port_report_def fits_fields_def mk_field_simps)

lemma map_of_port_report:
  "map_of (port_report p) ''name'' = Some (Single (Str (port_name p)))"
  "map_of (port_report p) ''port_type'' = Some (Single (W32 (port_type p)))"
  by (simp_all add: port_report_def)

lemma port_reported [simp]:
  "port_from_proto (normalise serial_proxy_info_class (of_fields serial_proxy_info_class (port_report p))) = p"
  by (simp add: port_from_proto_def get_fields_wire [OF _ port_fits] map_of_port_report)

lemma typed_ports: "cf_class c = serial_proxy_info_class \<Longrightarrow> typed_subs c (map (of_fields serial_proxy_info_class \<circ> port_report) ps)"
  by (induction ps) (simp_all add: typed_of_fields port_fits)

lemma device_fits: "fits_fields device_info_response (device_report d)"
  by (simp add: device_info_response_def device_report_def fits_fields_def mk_field_simps typed_ports)

lemma map_of_device_report:
  "map_of (device_report d) ''name'' = Some (Single (Str (dev_name d)))"
  "map_of (device_report d) ''friendly_name'' = Some (Single (Str (dev_friendly_name d)))"
  "map_of (device_report d) ''mac_address'' = Some (Single (Str (dev_mac_address d)))"
  "map_of (device_report d) ''bluetooth_mac_address'' = Some (Single (Str (dev_bluetooth_mac_address d)))"
  "map_of (device_report d) ''esphome_version'' = Some (Single (Str (dev_esphome_version d)))"
  "map_of (device_report d) ''compilation_time'' = Some (Single (Str (dev_compilation_time d)))"
  "map_of (device_report d) ''model'' = Some (Single (Str (dev_model d)))"
  "map_of (device_report d) ''manufacturer'' = Some (Single (Str (dev_manufacturer d)))"
  "map_of (device_report d) ''project_name'' = Some (Single (Str (dev_project_name d)))"
  "map_of (device_report d) ''project_version'' = Some (Single (Str (dev_project_version d)))"
  "map_of (device_report d) ''suggested_area'' = Some (Single (Str (dev_suggested_area d)))"
  "map_of (device_report d) ''has_deep_sleep'' = Some (Single (B (dev_has_deep_sleep d)))"
  "map_of (device_report d) ''webserver_port'' = Some (Single (W32 (dev_webserver_port d)))"
  "map_of (device_report d) ''api_encryption_supported'' = Some (Single (B (dev_api_encryption_supported d)))"
  "map_of (device_report d) ''bluetooth_proxy_feature_flags'' = Some (Single (W32 (dev_bluetooth_proxy_feature_flags d)))"
  "map_of (device_report d) ''voice_assistant_feature_flags'' = Some (Single (W32 (dev_voice_assistant_feature_flags d)))"
  "map_of (device_report d) ''zwave_proxy_feature_flags'' = Some (Single (W32 (dev_zwave_proxy_feature_flags d)))"
  "map_of (device_report d) ''zwave_home_id'' = Some (Single (W32 (dev_zwave_home_id d)))"
  "map_of (device_report d) ''serial_proxies'' =
     Some (SubRepeated (map (of_fields serial_proxy_info_class \<circ> port_report) (dev_serial_proxies d)))"
  by (simp_all add: device_report_def)

lemma device_reported:
  "from_proto (normalise device_info_response (of_fields device_info_response (device_report d))) = d"
  by (simp add: from_proto_def new_DeviceInfo_def map_of_device_report get_fields_wire [OF _ device_fits]
      subs_fields_wire [OF _ device_fits] comp_def)

interpretation device_info: wire_message "\<lambda>_. device_info_response" "\<lambda>d. of_fields device_info_response (device_report d)"
    "\<lambda>_. from_proto" "\<lambda>d. d"
  by unfold_locales (simp_all add: typed_of_fields device_fits device_reported device_info_response_wf)

end
