(* ===== verification/Client.thy ===== *)
theory Client
  imports Api_Objects Entity_Commands Entity_States Entity_Infos Device_Info Serial_Proxy
begin

text \<open>
  The facade of \<^verbatim>\<open>src/client.cpp\<close>: a connection over the real message layer whose catch-all handler feeds the entity
  store, keeps the device information and then calls the handlers of the application; the command senders
  of \<^verbatim>\<open>src/commands/command_builder.cpp\<close> on top of it.  What the handlers of the application are called with is the
  list of calls in the state.
\<close>

section \<open>Objects in the store\<close>

text \<open>What \<^verbatim>\<open>dynamic_cast\<close> of a generated object to the two base classes gives the store.\<close>

definition store_view :: "api_object \<Rightarrow> message proto_message" where
  "store_view x =
     \<lparr>message_name = obj_name x,
      base = (case obj_base x of
          Plain_Class \<Rightarrow> Plain_Base
        | Info_Class \<Rightarrow> Info_Base (as_w32 (get_m (obj_class x) ''key'' (obj_fields x)))
            (as_str (get_m (obj_class x) ''name'' (obj_fields x))) (as_str (get_m (obj_class x) ''object_id'' (obj_fields x)))
        | State_Class \<Rightarrow> State_Base (as_w32 (get_m (obj_class x) ''key'' (obj_fields x)))),
      payload = obj_fields x\<rparr>"

fun map_access :: "('a \<Rightarrow> 'b) \<Rightarrow> 'a access \<Rightarrow> 'b access" where
  "map_access f (Access x) = Access (f x)"
| "map_access f Nullopt = Nullopt"
| "map_access f Bad_Cast = Bad_Cast"

text \<open>The typed accessors of the store with the parsers they run.\<close>


definition stored_info :: "entity_type \<Rightarrow> message entity_store \<Rightarrow> u32 \<Rightarrow> entity_info access" where
  "stored_info ty s key =
     (case ty of
        BinarySensor \<Rightarrow> map_access Info_BinarySensor (binary_sensor_info parse_binary_sensor_info s key)
      | Sensor \<Rightarrow> map_access Info_Sensor (sensor_info parse_sensor_info s key)
      | TextSensor \<Rightarrow> map_access Info_TextSensor (text_sensor_info parse_text_sensor_info s key)
      | Switch \<Rightarrow> map_access Info_Switch (switch_info parse_switch_info s key)
      | Light \<Rightarrow> map_access Info_Light (light_info parse_light_info s key)
      | Cover \<Rightarrow> map_access Info_Cover (cover_info parse_cover_info s key)
      | Fan \<Rightarrow> map_access Info_Fan (fan_info parse_fan_info s key)
      | Climate \<Rightarrow> map_access Info_Climate (climate_info parse_climate_info s key)
      | Number \<Rightarrow> map_access Info_Number (number_info parse_number_info s key)
      | Select \<Rightarrow> map_access Info_Select (select_info parse_select_info s key)
      | Text \<Rightarrow> map_access Info_Text (text_info parse_text_info s key)
      | Button \<Rightarrow> map_access Info_Button (button_info parse_button_info s key)
      | Lock \<Rightarrow> map_access Info_Lock (lock_info parse_lock_info s key)
      | MediaPlayer \<Rightarrow> map_access Info_MediaPlayer (media_player_info parse_media_player_info s key)
      | Camera \<Rightarrow> map_access Info_Camera (camera_info parse_camera_info s key)
      | Siren \<Rightarrow> map_access Info_Siren (siren_info parse_siren_info s key)
      | AlarmControlPanel \<Rightarrow> map_access Info_AlarmControlPanel (alarm_control_panel_info parse_alarm_control_panel_info s key)
      | Date \<Rightarrow> map_access Info_Date (date_info parse_date_info s key)
      | Time \<Rightarrow> map_access Info_Time (time_info parse_time_info s key)
      | DateTime \<Rightarrow> map_access Info_DateTime (datetime_info parse_datetime_info s key)
      | Valve \<Rightarrow> map_access Info_Valve (valve_info parse_valve_info s key)
      | Event \<Rightarrow> map_access Info_Event (event_info parse_event_info s key)
      | Update \<Rightarrow> map_access Info_Update (update_info parse_update_info s key)
      | WaterHeater \<Rightarrow> map_access Info_WaterHeater (water_heater_info parse_water_heater_info s key)
      | Infrared \<Rightarrow> map_access Info_Infrared (infrared_info parse_infrared_info s key)
      | RadioFrequency \<Rightarrow> map_access Info_RadioFrequency (radio_frequency_info parse_radio_frequency_info s key)
      | Unknown \<Rightarrow> Nullopt)"

definition stored_state :: "entity_type \<Rightarrow> message entity_store \<Rightarrow> u32 \<Rightarrow> entity_state access" where
  "stored_state ty s key =
     (case ty of
        BinarySensor \<Rightarrow> map_access St_BinarySensor (binary_sensor_state parse_binary_sensor_state s key)
      | Sensor \<Rightarrow> map_access St_Sensor (sensor_state parse_sensor_state s key)
      | TextSensor \<Rightarrow> map_access St_TextSensor (text_sensor_state parse_text_sensor_state s key)
      | Switch \<Rightarrow> map_access St_Switch (switch_state parse_switch_state s key)
      | Light \<Rightarrow> map_access St_Light (light_state parse_light_state s key)
      | Cover \<Rightarrow> map_access St_Cover (cover_state parse_cover_state s key)
      | Fan \<Rightarrow> map_access St_Fan (fan_state parse_fan_state s key)
      | Climate \<Rightarrow> map_access St_Climate (climate_state parse_climate_state s key)
      | Number \<Rightarrow> map_access St_Number (number_state parse_number_state s key)
      | Select \<Rightarrow> map_access St_Select (select_state parse_select_state s key)
      | Text \<Rightarrow> map_access St_Text (text_state parse_text_state s key)
      | Lock \<Rightarrow> map_access St_Lock (lock_state parse_lock_state s key)
      | MediaPlayer \<Rightarrow> map_access St_MediaPlayer (media_player_state parse_media_player_state s key)
      | Siren \<Rightarrow> map_access St_Siren (siren_state parse_siren_state s key)
      | AlarmControlPanel \<Rightarrow> map_access St_AlarmControlPanel (alarm_control_panel_state parse_alarm_control_panel_state s key)
      | Date \<Rightarrow> map_access St_Date (date_state parse_date_state s key)
      | Time \<Rightarrow> map_access St_Time (time_state parse_time_state s key)
      | DateTime \<Rightarrow> map_access St_DateTime (datetime_state parse_datetime_state s key)
      | Valve \<Rightarrow> map_access St_Valve (valve_state parse_valve_state s key)
      | Event \<Rightarrow> map_access St_Event (event_state parse_event_state s key)
      | Update \<Rightarrow> map_access St_Update (update_state parse_update_state s key)
      | WaterHeater \<Rightarrow> map_access St_WaterHeater (water_heater_state parse_water_heater_state s key)
      | _ \<Rightarrow> Nullopt)"

section \<open>The client\<close>

datatype subsystem = Sub_Bluetooth | Sub_Logs | Sub_Home_Assistant | Sub_Voice | Sub_Zwave | Sub_Serial

datatype client_call = Conn_Effect "api_object effect" | State_Call entity_type u32 | Any_Call nat api_object

record client_options =
  co_host :: string
  co_port :: nat
  co_connection :: conn_options
  co_noise_psk :: string
  co_subscribe_on_connect :: bool

record client =
  cl_options :: client_options
  cl_conn :: "api_object conn"
  cl_store :: "message entity_store"
  cl_device_info :: DeviceInfo
  cl_device_info_loaded :: bool
  cl_any_handlers :: nat
  cl_subsystems :: "subsystem set"
  cl_calls :: "client_call list"

text \<open>The argument \<open>noise\<close> is the build option \<^verbatim>\<open>ESPHOME_API_HAS_NOISE\<close>.\<close>

definition make_frame_helper :: "bool \<Rightarrow> client_options \<Rightarrow> api_error + frame_helper" where
  "make_frame_helper noise opts =
     (if co_noise_psk opts = [] then Inr (FHPlain plain_init)
      else if noise then map_sum id FHNoise (noise_init (co_noise_psk opts) (op_expected_name (co_connection opts)))
      else Inl (ApiError ''a Noise PSK was provided but the library was built without Noise support (ESPHOME_API_WITH_NOISE=OFF)''))"

definition message_id_max :: nat where
  "message_id_max = unat (fst (last api_schema))"

definition client_init :: "bool \<Rightarrow> client_options \<Rightarrow> api_error + client" where
  "client_init noise opts =
     (case make_frame_helper noise opts of
        Inl e \<Rightarrow> Inl e
      | Inr fh \<Rightarrow> Inr
          \<lparr>cl_options = opts, cl_conn = on_any (conn_init message_id_max (co_connection opts) fh), cl_store = new_store,
           cl_device_info = new_DeviceInfo, cl_device_info_loaded = False, cl_any_handlers = 0, cl_subsystems = {},
           cl_calls = []\<rparr>)"

definition call_out :: "client_call list \<Rightarrow> client \<Rightarrow> client" where
  "call_out cs cl = cl\<lparr>cl_calls := cl_calls cl @ cs\<rparr>"

definition id_DeviceInfoResponse :: u32 where
  "id_DeviceInfoResponse = 10"

text \<open>The handler that the constructor installs with \<^verbatim>\<open>on_any\<close>.\<close>

definition client_on_any :: "api_object \<Rightarrow> client \<Rightarrow> client" where
  "client_on_any msg cl =
     (case ingest (cl_store cl) (store_view msg) of
        (_, st, calls) \<Rightarrow>
          let cl = call_out (map (\<lambda>(ty, key). State_Call ty key) calls) (cl\<lparr>cl_store := st\<rparr>);
              cl = (if obj_id msg = id_DeviceInfoResponse
                    then cl\<lparr>cl_device_info := from_proto (obj_fields msg), cl_device_info_loaded := True\<rparr> else cl)
          in call_out (map (\<lambda>i. Any_Call i msg) [0..<cl_any_handlers cl]) cl)"

text \<open>An operation of the connection: the catch-all handler runs the above, every other callback is the application's.\<close>

fun client_effect :: "api_object effect \<Rightarrow> client \<Rightarrow> client" where
  "client_effect (Eff_any msg) cl = client_on_any msg cl"
| "client_effect e cl = call_out [Conn_Effect e] cl"

definition client_act :: "api_object act \<Rightarrow> client \<Rightarrow> api_error option \<times> client" where
  "client_act a cl =
     (case a (cl_conn cl) of
        (e, c) \<Rightarrow> (e, fold client_effect (drop (length (c_out (cl_conn cl))) (c_out c)) (cl\<lparr>cl_conn := c\<rparr>)))"

definition client_read :: "bytes \<Rightarrow> client \<Rightarrow> client" where
  "client_read data cl = snd (client_act (on_bytes api_registry Ec_ok data) cl)"

definition client_read_all :: "bytes list \<Rightarrow> client \<Rightarrow> client" where
  "client_read_all cs cl = fold client_read cs cl"

definition async_connect :: "client \<Rightarrow> client" where
  "async_connect cl = snd (client_act (nothrow (start (co_host (cl_options cl)) (co_port (cl_options cl)))) cl)"

definition client_disconnect :: "client \<Rightarrow> api_error option \<times> client" where
  "client_disconnect cl = client_act (disconnect api_registry) cl"

definition client_state :: "client \<Rightarrow> conn_state" where
  "client_state cl = c_state (cl_conn cl)"

definition is_connected :: "client \<Rightarrow> bool" where
  "is_connected cl \<longleftrightarrow> c_state (cl_conn cl) = Connected"

definition client_send :: "api_object \<Rightarrow> client \<Rightarrow> api_error option \<times> client" where
  "client_send msg cl = client_act (send api_registry msg) cl"

definition client_send_raw :: "u32 \<Rightarrow> bytes \<Rightarrow> client \<Rightarrow> client" where
  "client_send_raw t data cl = snd (client_act (nothrow (send_raw t data)) cl)"

definition client_on :: "nat \<Rightarrow> client \<Rightarrow> client" where
  "client_on t cl = cl\<lparr>cl_conn := on_handler t (cl_conn cl)\<rparr>"

definition client_add_any :: "client \<Rightarrow> client" where
  "client_add_any cl = cl\<lparr>cl_any_handlers := cl_any_handlers cl + 1\<rparr>"

definition client_on_raw :: "client \<Rightarrow> client" where
  "client_on_raw cl = cl\<lparr>cl_conn := on_raw (cl_conn cl)\<rparr>"

definition client_on_state :: "client \<Rightarrow> client" where
  "client_on_state cl = cl\<lparr>cl_conn := on_state (cl_conn cl)\<rparr>"

definition client_on_error :: "client \<Rightarrow> client" where
  "client_on_error cl = cl\<lparr>cl_conn := on_error (cl_conn cl)\<rparr>"

definition request_entity_list :: "client \<Rightarrow> api_error option \<times> client" where
  "request_entity_list = client_send (Api_Object 11 (new_message list_entities_request))"

definition subscribe_to_states :: "client \<Rightarrow> api_error option \<times> client" where
  "subscribe_to_states = client_send (Api_Object 20 (new_message subscribe_states_request))"

text \<open>The subsystems are created on first access.\<close>

definition use_subsystem :: "subsystem \<Rightarrow> client \<Rightarrow> client" where
  "use_subsystem s cl = cl\<lparr>cl_subsystems := insert s (cl_subsystems cl)\<rparr>"

definition serial_proxy :: "u32 \<Rightarrow> client \<Rightarrow> u32 \<times> client" where
  "serial_proxy instance cl = (instance, use_subsystem Sub_Serial cl)"

fun find_port :: "string \<Rightarrow> nat \<Rightarrow> SerialProxyPortInfo list \<Rightarrow> nat option" where
  "find_port name i [] = None"
| "find_port name i (p # ps) = (if port_name p = name then Some i else find_port name (i + 1) ps)"

definition serial_proxy_by_name :: "string \<Rightarrow> client \<Rightarrow> (api_error + u32) \<times> client" where
  "serial_proxy_by_name name cl =
     (if \<not> cl_device_info_loaded cl
      then (Inl (ApiError (''serial_proxy('' @ [CHR 0x22] @ name @ [CHR 0x22] @ ''): device info not received yet '' @
        string_of_bytes [0xE2, 0x80, 0x94] @ '' call device_info() first'')), cl)
      else case find_port name 0 (dev_serial_proxies (cl_device_info cl)) of
        Some i \<Rightarrow> map_prod Inr id (serial_proxy (of_nat i) cl)
      | None \<Rightarrow> (Inl (ApiError (''no serial proxy named '' @ [CHR 0x27] @ name @ [CHR 0x27])), cl))"

section \<open>Sending commands\<close>

definition command_object :: "command \<Rightarrow> api_object" where
  "command_object cmd = Api_Object (request_id cmd) (to_message cmd)"

definition send_command :: "command \<Rightarrow> client \<Rightarrow> api_error option \<times> client" where
  "send_command cmd = client_send (command_object cmd)"

definition request_camera_image :: "bool \<Rightarrow> bool \<Rightarrow> client \<Rightarrow> api_error option \<times> client" where
  "request_camera_image single stream =
     client_send (Api_Object 45
       (let req = new_message camera_image_request;
            req = set_m camera_image_request ''single'' (B single) req
        in set_m camera_image_request ''stream'' (B stream) req))"

section \<open>Objects of the device\<close>

definition info_object :: "entity_info \<Rightarrow> api_object" where
  "info_object i = Api_Object (info_id i) (of_fields (info_class_of i) (info_report i))"

definition state_object :: "entity_state \<Rightarrow> api_object" where
  "state_object s = Api_Object (state_id s) (of_fields (state_class_of s) (state_report s))"

section \<open>The store behind the connection\<close>

fun info_key_of :: "entity_info \<Rightarrow> u32" where
  "info_key_of i = ei_key (common_info i)"

declare info_key_of.simps [simp del]

lemma obj_simps:
  assumes "(i, n, b, cls) \<in> set api_schema"
  shows "schema_row i = Some (i, n, b, cls)" "obj_class (Api_Object i m) = cls" "obj_name (Api_Object i m) = n"
    "obj_base (Api_Object i m) = b"
proof -
  show "schema_row i = Some (i, n, b, cls)" using assms by (simp add: schema_row_iff)
  then show "obj_class (Api_Object i m) = cls" "obj_name (Api_Object i m) = n" "obj_base (Api_Object i m) = b"
    by (simp_all add: obj_class_def obj_name_def obj_base_def)
qed

text \<open>The rows of the schema for the entities.\<close>

definition list_name :: "entity_type \<Rightarrow> string" where
  "list_name ty = ''ListEntities'' @ entity_type_name ty @ ''Response''"

lemma info_row: "(info_id i, list_name (info_domain i), Info_Class, info_class_of i) \<in> set api_schema"
  by (cases i) (simp_all add: api_schema_def list_name_def)

lemma state_row: "(state_id s, state_class (state_domain s), State_Class, state_class_of s) \<in> set api_schema"
  by (cases s) (simp_all add: api_schema_def state_class_def)

lemma request_row: "(request_id c, request_name c, Plain_Class, request_class c) \<in> set api_schema"
  by (cases c) (simp_all add: api_schema_def)

lemmas info_object_simps = info_row [THEN obj_simps(1)] info_row [THEN obj_simps(2)] info_row [THEN obj_simps(3)]
  info_row [THEN obj_simps(4)]

lemmas state_object_simps = state_row [THEN obj_simps(1)] state_row [THEN obj_simps(2)] state_row [THEN obj_simps(3)]
  state_row [THEN obj_simps(4)]

lemmas request_object_simps = request_row [THEN obj_simps(1)] request_row [THEN obj_simps(2)] request_row [THEN obj_simps(3)]
  request_row [THEN obj_simps(4)]

lemma well_typed_objects:
  "well_typed (info_object i)" "well_typed (state_object s)" "well_typed (command_object c)"
  by (simp_all add: well_typed_def info_object_def state_object_def command_object_def info_object_simps state_object_simps
      request_object_simps typed_of_fields info_report_fits state_report_fits typed_to_message)

section \<open>What the store keeps of the device's objects\<close>

lemma info_view:
  "store_view (received_object (info_object i)) =
     \<lparr>message_name = list_name (info_domain i),
      base = Info_Base (info_key_of i) (ei_name (common_info i)) (ei_object_id (common_info i)),
      payload = normalise (info_class_of i) (of_fields (info_class_of i) (info_report i))\<rparr>"
proof -
  have "obj_class (info_object i) = info_class_of i" "obj_name (info_object i) = list_name (info_domain i)"
    "obj_base (info_object i) = Info_Class" "obj_fields (info_object i) = of_fields (info_class_of i) (info_report i)"
    by (simp_all add: info_object_def info_object_simps)
  then show ?thesis by (simp add: store_view_def info_base_wire info_key_of.simps)
qed

lemma state_view:
  "store_view (received_object (state_object s)) =
     \<lparr>message_name = state_class (state_domain s), base = State_Base (reported_key s),
      payload = normalise (state_class_of s) (of_fields (state_class_of s) (state_report s))\<rparr>"
proof -
  have "obj_class (state_object s) = state_class_of s" "obj_name (state_object s) = state_class (state_domain s)"
    "obj_base (state_object s) = State_Class" "obj_fields (state_object s) = of_fields (state_class_of s) (state_report s)"
    by (simp_all add: state_object_def state_object_simps)
  then show ?thesis by (simp add: store_view_def state_key_wire)
qed

text \<open>The entry of an entity describes it; the entry reports a state.\<close>

definition describes :: "message entity_store \<Rightarrow> entity_info \<Rightarrow> bool" where
  "describes s i \<longleftrightarrow>
     (\<exists>e. entities s (info_key_of i) = Some e \<and> se_type e = info_domain i \<and>
        se_info e = Some (store_view (received_object (info_object i))))"

definition reports :: "message entity_store \<Rightarrow> entity_state \<Rightarrow> bool" where
  "reports s st \<longleftrightarrow>
     (\<exists>e. entities s (reported_key st) = Some e \<and> se_type e = state_domain st \<and>
        se_state e = Some (store_view (received_object (state_object st))))"

lemma info_domain_known: "info_domain i \<noteq> Unknown"
  by (cases i) simp_all

lemma list_name_token: "is_list_message (list_name ty) \<longleftrightarrow> True" "entity_type_from_token (list_token (list_name ty)) = ty"
  by (cases ty; simp add: list_name_def is_list_message_def ends_with_def list_token_def entity_type_from_token_def
      entity_type_tokens_def)+

lemma state_class_name: "\<not> is_list_message (state_class (state_domain s))" "is_state_message (state_class (state_domain s))"
  "entity_type_from_token (state_token (state_class (state_domain s))) = state_domain s"
  by (cases s; simp add: state_class_def is_list_message_def is_state_message_def is_event_message_def ends_with_def
      state_token_def entity_type_from_token_def entity_type_tokens_def)+

text \<open>The accessors, over the parser of the domain.\<close>

lemma stored_info_eq:
  assumes "ty \<noteq> Unknown" "entities s k = Some e" "se_type e = ty" "se_info e = Some m" "message_name m = list_name ty"
    "parse_info ty (payload m) = Some r"
  shows "stored_info ty s k = Access r"
  using assms by (cases ty) (simp_all add: stored_info_def info_accessor_defs typed_info_def cast_to_def parse_info_def list_name_def)

lemma stored_state_eq:
  assumes "entities s k = Some e" "se_type e = ty" "se_state e = Some m" "message_name m = state_class ty"
    "parse_state ty (payload m) = Some r"
  shows "stored_state ty s k = Access r"
  using assms
  by (cases ty) (simp_all add: stored_state_def state_accessor_defs typed_state_def cast_to_def parse_state_def state_class_def)

lemma describes_stored: "describes s i \<Longrightarrow> stored_info (info_domain i) s (info_key_of i) = Access (settle_info i)"
  by (auto simp: describes_def info_view parse_info_reported info_domain_known intro!: stored_info_eq)

lemma reports_stored: "reports s st \<Longrightarrow> stored_state (state_domain st) s (reported_key st) = Access (settle_state st)"
  by (auto simp: reports_def state_view parse_state_reported intro!: stored_state_eq)

text \<open>One object ingested.\<close>

definition feed :: "message entity_store \<Rightarrow> api_object \<Rightarrow> message entity_store" where
  "feed s x = fst (snd (ingest s (store_view (received_object x))))"

lemma feed_info:
  "\<exists>e. feed s (info_object i) = put s (info_key_of i) e \<and> se_type e = info_domain i \<and>
     se_info e = Some (store_view (received_object (info_object i))) \<and> se_state e = se_state (entry s (info_key_of i))"
  by (rule exI [of _ "info_update (store_view (received_object (info_object i))) (info_key_of i) (ei_name (common_info i))
        (ei_object_id (common_info i)) (entry s (info_key_of i))"])
    (simp add: feed_def ingest_def info_view list_name_token info_update_def)

lemma feed_state:
  "\<exists>e. feed s (state_object st) = put s (reported_key st) e \<and> se_info e = se_info (entry s (reported_key st)) \<and>
     se_state e = Some (store_view (received_object (state_object st))) \<and>
     (se_type (entry s (reported_key st)) \<noteq> Unknown \<longrightarrow> se_type e = se_type (entry s (reported_key st)))"
  by (rule exI [of _ "state_update (store_view (received_object (state_object st))) (reported_key st) (entry s (reported_key st))"])
    (simp add: feed_def ingest_def state_view state_class_name state_update_def Let_def)

lemma describes_feed:
  "describes (feed s (info_object i)) i"
  "info_key_of j \<noteq> info_key_of i \<Longrightarrow> describes s i \<Longrightarrow> describes (feed s (info_object j)) i"
  "describes s i \<Longrightarrow> describes (feed s (state_object st)) i"
proof -
  show "describes (feed s (info_object i)) i"
    using feed_info [of s i] by (auto simp: describes_def put_def)
  show "describes (feed s (info_object j)) i" if "info_key_of j \<noteq> info_key_of i" "describes s i"
    using feed_info [of s j] that by (auto simp: describes_def put_def)
  show "describes (feed s (state_object st)) i" if "describes s i"
    using feed_state [of s st] that info_domain_known [of i]
    by (cases "info_key_of i = reported_key st") (auto simp: describes_def put_def entry_def)
qed

lemma reports_feed:
  "describes s i \<Longrightarrow> info_key_of i = reported_key st \<Longrightarrow> info_domain i = state_domain st \<Longrightarrow> reports (feed s (state_object st)) st"
  "reported_key st' \<noteq> reported_key st \<Longrightarrow> reports s st \<Longrightarrow> reports (feed s (state_object st')) st"
proof -
  show "reports (feed s (state_object st)) st"
    if "describes s i" "info_key_of i = reported_key st" "info_domain i = state_domain st"
    using feed_state [of s st] that info_domain_known [of i] by (auto simp: describes_def reports_def put_def entry_def)
  show "reports (feed s (state_object st')) st" if "reported_key st' \<noteq> reported_key st" "reports s st"
    using feed_state [of s st'] that by (auto simp: reports_def put_def)
qed

lemma describes_fold_states: "describes s i \<Longrightarrow> describes (foldl feed s (map state_object sts)) i"
  by (induction sts arbitrary: s) (simp_all add: describes_feed(3))

lemma describes_fold_others:
  "info_key_of i \<notin> info_key_of ` set is \<Longrightarrow> describes s i \<Longrightarrow> describes (foldl feed s (map info_object is)) i"
  by (induction "is" arbitrary: s) (auto simp: describes_feed(2))

lemma describes_fold_infos:
  "distinct (map info_key_of is) \<Longrightarrow> i \<in> set is \<Longrightarrow> describes (foldl feed s (map info_object is)) i"
proof (induction "is" arbitrary: s)
  case (Cons j "is")
  show ?case
  proof (cases "i = j")
    case True
    then show ?thesis using Cons.prems(1) describes_fold_others [of i "is" "feed s (info_object i)"] describes_feed(1) by simp
  next
    case False
    then show ?thesis using Cons by simp
  qed
qed simp

lemma reports_fold_others:
  "reported_key st \<notin> reported_key ` set sts \<Longrightarrow> reports s st \<Longrightarrow> reports (foldl feed s (map state_object sts)) st"
  by (induction sts arbitrary: s) (auto simp: reports_feed(2))

lemma reports_fold_states:
  assumes "distinct (map reported_key sts)" "st \<in> set sts" "describes s i" "info_key_of i = reported_key st"
    and "info_domain i = state_domain st"
  shows "reports (foldl feed s (map state_object sts)) st"
  using assms
proof (induction sts arbitrary: s)
  case (Cons st' sts)
  show ?case
  proof (cases "st = st'")
    case True
    then show ?thesis using Cons.prems reports_feed(1) [OF Cons.prems(3-5)] reports_fold_others [of st sts] by simp
  next
    case False
    then show ?thesis using Cons describes_feed(3) by simp
  qed
qed simp

section \<open>Bytes to store\<close>

lemma client_effect_conn: "client_effect e (cl\<lparr>cl_conn := c\<rparr>) = (client_effect e cl)\<lparr>cl_conn := c\<rparr>"
  by (cases e) (simp_all add: client_on_any_def call_out_def Let_def split: prod.splits)

lemma fold_effect_conn: "fold client_effect es (cl\<lparr>cl_conn := c\<rparr>) = (fold client_effect es cl)\<lparr>cl_conn := c\<rparr>"
  by (induction es arbitrary: cl) (simp_all add: client_effect_conn)

lemma cl_store_call_out [simp]: "cl_store (call_out cs cl) = cl_store cl"
  by (simp add: call_out_def)

lemma cl_conn_effects [simp]: "cl_conn (fold client_effect es cl) = cl_conn cl"
proof -
  have "fold client_effect es cl = (fold client_effect es cl)\<lparr>cl_conn := cl_conn cl\<rparr>"
    using fold_effect_conn [where es = es and cl = cl and c = "cl_conn cl"] by simp
  then show ?thesis by (cases "fold client_effect es cl") simp
qed

lemma client_read_dispatches:
  assumes "handshake_done (c_frame (cl_conn cl))" "\<not> terminated (cl_conn cl)"
    and "receive fh_feed fh_nxt n cs (c_frame (cl_conn cl)) = (ms, None, fh)" "length ms < n" "list_all (app_message api_registry) ms"
    and "es = concat (map (dispatched api_registry (cl_conn cl)) ms)"
  shows "client_read_all cs cl =
    fold client_effect es (cl\<lparr>cl_conn := (cl_conn cl)\<lparr>c_frame := fh, c_out := c_out (cl_conn cl) @ es\<rparr>\<rparr>)"
  using assms
proof (induction cs arbitrary: cl ms es)
  case Nil
  then show ?case by (simp add: client_read_all_def)
next
  case (Cons d cs)
  let ?c = "cl_conn cl"
  obtain ms1 fh1 ms2 where p: "pump fh_nxt n (fh_feed d (c_frame ?c)) = (ms1, None, fh1)"
    and rest: "receive fh_feed fh_nxt n cs fh1 = (ms2, None, fh)" and ms: "ms = ms1 @ ms2"
    using Cons.prems(3) by (auto split: prod.splits option.splits)
  define es1 where "es1 = concat (map (dispatched api_registry ?c) ms1)"
  define es2 where "es2 = concat (map (dispatched api_registry ?c) ms2)"
  let ?c1 = "?c\<lparr>c_frame := fh1, c_out := c_out ?c @ es1\<rparr>"
  have b: "on_bytes api_registry Ec_ok d ?c = (None, ?c1)" "handshake_done fh1"
    using on_bytes_dispatches [OF Cons.prems(1,2) p, of api_registry] Cons.prems(4,5) by (simp_all add: ms es1_def)
  then have r: "client_read d cl = (fold client_effect es1 cl)\<lparr>cl_conn := ?c1\<rparr>"
    by (simp add: client_read_def client_act_def fold_effect_conn)
  have d: "dispatched api_registry ?c1 = dispatched api_registry ?c"
    by (simp add: dispatched_def fun_eq_iff split: option.split)
  have "client_read_all cs (client_read d cl) = fold client_effect es2
      ((client_read d cl)\<lparr>cl_conn := (cl_conn (client_read d cl))\<lparr>c_frame := fh, c_out := c_out (cl_conn (client_read d cl)) @ es2\<rparr>\<rparr>)"
    by (rule Cons.IH) (use b(2) rest Cons.prems(2,4,5) in \<open>simp_all add: r d ms es2_def terminated_def\<close>)
  then show ?case
    using Cons.prems(6) by (simp add: client_read_all_def r ms es1_def es2_def fold_effect_conn)
qed

text \<open>What the store becomes when objects arrive.\<close>

lemma store_effect:
  "cl_store (client_effect e cl) = (case e of Eff_any x \<Rightarrow> fst (snd (ingest (cl_store cl) (store_view x))) | _ \<Rightarrow> cl_store cl)"
  by (cases e) (simp_all add: client_on_any_def call_out_def Let_def split: prod.splits)

lemma store_dispatched:
  assumes "well_typed x" "length (snd (wire x)) < 2 ^ 31" "c_any_handler c"
  shows "cl_store (fold client_effect (dispatched api_registry c (wire x)) cl) = feed (cl_store cl) x"
  by (simp add: dispatched_wire [OF assms(1,2)] assms(3) store_effect [of "Eff_any _", simplified] feed_def)

lemma store_dispatched_all:
  assumes "\<forall>x \<in> set xs. well_typed x \<and> length (snd (wire x)) < 2 ^ 31" "c_any_handler c"
  shows "cl_store (fold client_effect (concat (map (dispatched api_registry c) (map wire xs))) cl) = foldl feed (cl_store cl) xs"
  using assms(1) by (induction xs arbitrary: cl) (simp_all add: store_dispatched assms(2))

lemma store_mirrors:
  assumes "\<not> terminated (cl_conn cl)" "c_any_handler (cl_conn cl)" "carries (c_frame (cl_conn cl)) cs (map wire xs)"
    and "\<forall>x \<in> set xs. well_typed x \<and> \<not> internal_id (obj_id x)"
  shows "cl_store (client_read_all cs cl) = foldl feed (cl_store cl) xs"
proof -
  have l: "\<forall>x \<in> set xs. well_typed x \<and> length (snd (wire x)) < 2 ^ 31"
    using assms(4) carries_short [OF assms(3)] by auto
  then have a: "list_all (app_message api_registry) (map wire xs)"
    using assms(4) by (auto simp: list_all_iff intro: wire_app_message)
  obtain fh where r: "receive fh_feed fh_nxt (Suc (length xs)) cs (c_frame (cl_conn cl)) = (map wire xs, None, fh)"
    and h: "handshake_done (c_frame (cl_conn cl))"
    using carries_receive [OF assms(3)] by auto
  show ?thesis
    using client_read_dispatches [OF h assms(1) r _ a refl] store_dispatched_all [OF l assms(2)]
    by (simp add: fold_effect_conn)
qed

section \<open>Commands to frames\<close>

text \<open>A frame helper and the one at the other end that decodes what it encodes, and the messages that fit in a frame.\<close>

fun in_step :: "frame_helper \<Rightarrow> frame_helper \<Rightarrow> bool" where
  "in_step (FHPlain _) (FHPlain d) = plain_holds () d []"
| "in_step (FHNoise s) (FHNoise d) = noise_holds s d []"
| "in_step _ _ = False"

fun frame_ok :: "frame_helper \<Rightarrow> u32 \<times> bytes \<Rightarrow> bool" where
  "frame_ok (FHPlain _) m = plain_ok m"
| "frame_ok (FHNoise _) m = noise_ok m"

definition fh_enc :: "frame_helper \<Rightarrow> u32 \<times> bytes \<Rightarrow> bytes \<times> frame_helper" where
  "fh_enc fh m = fh_encode (fst m) (snd m) [] fh"

text \<open>The bytes that a connection wrote.\<close>

definition written :: "'m effect list \<Rightarrow> bytes" where
  "written es = concat (map (\<lambda>e. case e of Eff_write w \<Rightarrow> w | _ \<Rightarrow> []) es)"

definition send_commands :: "command list \<Rightarrow> client \<Rightarrow> client" where
  "send_commands cmds cl = fold (\<lambda>cmd cl. snd (send_command cmd cl)) cmds cl"

lemma frame_ok_short: "frame_ok fh m \<Longrightarrow> length (snd m) < 2 ^ 31"
  by (cases fh) (simp_all add: plain_ok_def noise_ok_def max_frame_payload_def)

lemma written_append [simp]: "written (a @ b) = written a @ written b"
  by (simp add: written_def)

lemma frame_ok_enc: "frame_ok (snd (fh_enc fh m')) m = frame_ok fh m"
  by (cases fh) (simp_all add: fh_enc_def split: prod.splits)

lemma send_command_effect:
  assumes "frame_ok (c_frame (cl_conn cl)) (wire (command_object cmd))"
    and "fh_enc (c_frame (cl_conn cl)) (wire (command_object cmd)) = (w, fh)"
  shows "send_command cmd cl =
    (None, call_out [Conn_Effect (Eff_write w)] (cl\<lparr>cl_conn := (cl_conn cl)\<lparr>c_frame := fh, c_out := c_out (cl_conn cl) @ [Eff_write w]\<rparr>\<rparr>))"
proof -
  have "ByteSizeLong (obj_class (command_object cmd)) (obj_fields (command_object cmd)) < 2 ^ 31"
    using frame_ok_short [OF assms(1)] serialised_size [OF well_typed_objects(3), of cmd] by (simp add: wire_def)
  from send_object [OF well_typed_objects(3) this]
  show ?thesis
    using assms(2) by (simp add: send_command_def client_send_def client_act_def send_raw_def emit_def fh_enc_def)
qed

lemma send_commands_written:
  assumes "\<forall>cmd \<in> set cmds. frame_ok (c_frame (cl_conn cl)) (wire (command_object cmd))"
    and "encode_all fh_enc (c_frame (cl_conn cl)) (map (wire \<circ> command_object) cmds) = (w, fh)"
  shows "\<exists>es. c_out (cl_conn (send_commands cmds cl)) = c_out (cl_conn cl) @ es \<and> written es = w \<and>
    cl_calls (send_commands cmds cl) = cl_calls cl @ map Conn_Effect es \<and> length es = length cmds"
  using assms
proof (induction cmds arbitrary: cl w)
  case Nil
  then show ?case by (simp add: send_commands_def written_def)
next
  case (Cons cmd cmds)
  obtain w1 fh1 w2 where e: "fh_enc (c_frame (cl_conn cl)) (wire (command_object cmd)) = (w1, fh1)"
    "encode_all fh_enc fh1 (map (wire \<circ> command_object) cmds) = (w2, fh)" "w = w1 @ w2"
    using Cons.prems(2) by (auto simp: comp_def split: prod.splits)
  define cl1 where "cl1 = snd (send_command cmd cl)"
  have c: "c_frame (cl_conn cl1) = fh1" "c_out (cl_conn cl1) = c_out (cl_conn cl) @ [Eff_write w1]"
    "cl_calls cl1 = cl_calls cl @ [Conn_Effect (Eff_write w1)]"
    using send_command_effect [OF _ e(1)] Cons.prems(1) by (simp_all add: cl1_def call_out_def)
  have "\<forall>cmd \<in> set cmds. frame_ok (c_frame (cl_conn cl1)) (wire (command_object cmd))"
    using Cons.prems(1) frame_ok_enc [of "c_frame (cl_conn cl)" "wire (command_object cmd)"] e(1) c(1) by simp
  moreover have "encode_all fh_enc (c_frame (cl_conn cl1)) (map (wire \<circ> command_object) cmds) = (w2, fh)" using e(2) c(1) by simp
  ultimately obtain es where
    "c_out (cl_conn (send_commands cmds cl1)) = c_out (cl_conn cl1) @ es" "written es = w2"
    "cl_calls (send_commands cmds cl1) = cl_calls cl1 @ map Conn_Effect es" "length es = length cmds"
    using Cons.IH by blast
  then show ?case
    using c e(3) by (intro exI [of _ "Eff_write w1 # es"]) (simp add: send_commands_def cl1_def written_def)
qed

lemma encode_all_plain: "encode_all fh_enc (FHPlain st) ms = (concat (map (\<lambda>m. plain_encode (fst m) (snd m) []) ms), FHPlain st)"
  by (induction ms) (simp_all add: fh_enc_def)

lemma encode_all_noise: "encode_all fh_enc (FHNoise st) ms = (case encode_all noise_enc st ms of (w, st') \<Rightarrow> (w, FHNoise st'))"
  by (induction ms arbitrary: st) (simp_all add: fh_enc_def noise_enc_def split: prod.splits)

lemma in_step_receive:
  assumes "in_step fh dev" "\<forall>m \<in> set ms. frame_ok fh m" "fst (encode_all fh_enc fh ms) = concat cs"
  shows "\<exists>dev'. receive fh_feed fh_nxt (Suc (length ms)) cs dev = (ms, None, dev')"
proof (cases "(fh, dev)" rule: in_step.cases)
  case (1 st d)
  then show ?thesis using assms plain_received [of d ms cs] by (auto simp: encode_all_plain list_all_iff)
next
  case (2 s d)
  then show ?thesis using assms noise_received [of s d ms cs] by (fastforce simp: encode_all_noise list_all_iff split: prod.splits)
qed (use assms in simp_all)

section \<open>Looking a serial port up\<close>

lemma find_port_Some:
  "find_port name k ps = Some i \<longleftrightarrow>
     k \<le> i \<and> i - k < length ps \<and> port_name (ps ! (i - k)) = name \<and> (\<forall>j < i - k. port_name (ps ! j) \<noteq> name)"
proof (induction ps arbitrary: k)
  case (Cons p ps)
  show ?case
  proof (cases "port_name p = name")
    case True
    then show ?thesis by (cases "i - k") auto
  next
    case False
    then show ?thesis
      by (cases "i - k") (auto simp: Cons.IH Suc_diff_Suc less_Suc_eq_0_disj Suc_le_eq diff_Suc split: nat.splits)
  qed
qed simp

lemma find_port_None: "find_port name k ps = None \<longleftrightarrow> name \<notin> port_name ` set ps"
  by (induction ps arbitrary: k) auto

text \<open>The device describes itself.\<close>

definition device_object :: "DeviceInfo \<Rightarrow> api_object" where
  "device_object d = Api_Object 10 (of_fields device_info_response (device_report d))"

lemma device_row: "(10, ''DeviceInfoResponse'', Plain_Class, device_info_response) \<in> set api_schema"
  by (simp add: api_schema_def)

lemma device_object_simps:
  "well_typed (device_object d)" "obj_fields (received_object (device_object d)) = normalise device_info_response (of_fields device_info_response (device_report d))"
  "obj_id (device_object d) = 10" "\<not> internal_id (obj_id (device_object d))"
  by (simp_all add: device_object_def well_typed_def obj_simps [OF device_row] typed_of_fields device_fits internal_id_def
      id_HelloResponse_def id_AuthenticationResponse_def id_DisconnectRequest_def id_DisconnectResponse_def
      id_PingRequest_def id_PingResponse_def)

lemma device_dispatched:
  assumes "length (snd (wire (device_object d))) < 2 ^ 31" "c_any_handler c"
  shows "cl_device_info (fold client_effect (dispatched api_registry c (wire (device_object d))) cl) = d \<and>
    cl_device_info_loaded (fold client_effect (dispatched api_registry c (wire (device_object d))) cl)"
  by (simp add: dispatched_wire [OF device_object_simps(1) assms(1)] assms(2) client_on_any_def call_out_def Let_def
      device_object_simps(2,3) [unfolded obj_received] device_reported id_DeviceInfoResponse_def split: prod.splits)

section \<open>A device with one switch\<close>

definition demo_client :: client where
  "demo_client =
     \<lparr>cl_options = \<lparr>co_host = [], co_port = 6053, co_connection = demo_options, co_noise_psk = [], co_subscribe_on_connect = True\<rparr>,
      cl_conn = on_any (conn_init message_id_max demo_options (FHPlain plain_init)), cl_store = new_store,
      cl_device_info = new_DeviceInfo, cl_device_info_loaded = False, cl_any_handlers = 0, cl_subsystems = {}, cl_calls = []\<rparr>"

definition demo_info :: entity_info where
  "demo_info = Info_Switch (new_SwitchInfo\<lparr>ei_key := 7, ei_name := ''Main Relay''\<rparr>)"

definition demo_state :: entity_state where
  "demo_state = St_Switch (new_SwitchState\<lparr>swts_key := 7, swts_state := True\<rparr>)"

lemma demo_client_init: "client_init noise (cl_options demo_client) = Inr demo_client"
  by (simp add: client_init_def make_frame_helper_def demo_client_def)

lemma demo_client_conn: "c_frame (cl_conn demo_client) = FHPlain plain_init" "\<not> terminated (cl_conn demo_client)"
  "c_any_handler (cl_conn demo_client)" "c_out (cl_conn demo_client) = []"
  by (simp_all add: demo_client_def on_any_def conn_init_def terminated_def)

lemma plain_init_holds: "plain_holds () plain_init []"
  by (simp add: plain_holds_def plain_inv_def plain_pending_def plain_init_def)

lemma wire_fits:
  assumes "well_typed x" "unat (obj_id x) < 2 ^ 28" "sum_list (map member_bound (obj_fields x)) \<le> 16777216"
  shows "plain_ok (wire x)"
  using serialised_size [OF assms(1)] size_bound(1) [of "obj_class x" "obj_fields x"] assms(2,3)
  by (simp add: plain_ok_def wire_def ByteSizeLong_def max_frame_payload_def)

lemma demo_frames_fit: "plain_ok (wire (info_object demo_info))" "plain_ok (wire (state_object demo_state))"
  "plain_ok (wire (command_object (Cmd_Switch \<lparr>swtc_key = 7, swtc_state = True\<rparr>)))"
proof -
  show "plain_ok (wire (info_object demo_info))"
    by (rule wire_fits [OF well_typed_objects(1)])
      (simp_all add: info_object_def demo_info_def list_entities_switch_response_def list_entities_switch_response_report_def
        entity_report_def new_SwitchInfo_def of_fields_def mk_field_simps Str_def bytes_of_string_def)
  show "plain_ok (wire (state_object demo_state))"
    by (rule wire_fits [OF well_typed_objects(2)])
      (simp_all add: state_object_def demo_state_def switch_state_response_def switch_state_response_report_def new_SwitchState_def
        of_fields_def mk_field_simps new_member_cf)
  show "plain_ok (wire (command_object (Cmd_Switch \<lparr>swtc_key = 7, swtc_state = True\<rparr>)))"
    by (rule wire_fits [OF well_typed_objects(3)])
      (simp_all add: command_object_def switch_to_message_def Let_def switch_command_request_def set_m_def mk_field_simps
        new_message_def new_member_cf)
qed

lemma demo_settles:
  "settle_info demo_info = Info_Switch (new_SwitchInfo\<lparr>ei_key := 7, ei_name := ''Main Relay'', ei_object_id := ''main_relay''\<rparr>)"
  "settle_state demo_state = demo_state"
proof -
  have "object_id_from_name ''Main Relay'' = ''main_relay''" by code_simp
  then show "settle_info demo_info = Info_Switch (new_SwitchInfo\<lparr>ei_key := 7, ei_name := ''Main Relay'', ei_object_id := ''main_relay''\<rparr>)"
    by (simp add: demo_info_def settle_entity_info_def new_SwitchInfo_def del: object_id_from_name.simps)
  show "settle_state demo_state = demo_state" by (simp add: demo_state_def)
qed

section \<open>Properties\<close>

lemma entity_ids_external:
  "\<not> internal_id (info_id i)" "\<not> internal_id (state_id s)"
  by (cases i; simp add: internal_id_def id_HelloResponse_def id_AuthenticationResponse_def id_DisconnectRequest_def
      id_DisconnectResponse_def id_PingRequest_def id_PingResponse_def)
    (cases s; simp add: internal_id_def id_HelloResponse_def id_AuthenticationResponse_def id_DisconnectRequest_def
      id_DisconnectResponse_def id_PingRequest_def id_PingResponse_def)

text \<open>Once a device has described its entities and reported their states, the store holds both.\<close>

lemma store_of_device:
  assumes "\<not> terminated (cl_conn cl)" "c_any_handler (cl_conn cl)"
    and "carries (c_frame (cl_conn cl)) chunks (map wire (map info_object is @ map state_object sts))"
    and "distinct (map info_key_of is)" "distinct (map reported_key sts)"
    and "\<forall>st \<in> set sts. \<exists>i \<in> set is. info_key_of i = reported_key st \<and> info_domain i = state_domain st"
  shows "i \<in> set is \<Longrightarrow> describes (cl_store (client_read_all chunks cl)) i"
    and "st \<in> set sts \<Longrightarrow> reports (cl_store (client_read_all chunks cl)) st"
proof -
  let ?s = "foldl feed (cl_store cl) (map info_object is)"
  have s: "cl_store (client_read_all chunks cl) = foldl feed ?s (map state_object sts)"
    using store_mirrors [OF assms(1-3)] well_typed_objects entity_ids_external
    by (fastforce simp: info_object_def state_object_def)
  have d: "describes ?s i" if "i \<in> set is" for i
    using describes_fold_infos [OF assms(4) that] .
  then show "describes (cl_store (client_read_all chunks cl)) i" if "i \<in> set is"
    using that describes_fold_states by (simp add: s)
  show "reports (cl_store (client_read_all chunks cl)) st" if "st \<in> set sts"
    using assms(6) that d reports_fold_states [OF assms(5) that] by (metis s)
qed

text \<open>
  C3: The client mirrors the device.  However the frames of a device that describes its entities and then reports
  their states are cut into reads, in plaintext or encrypted, every typed accessor of the store then returns
  what the device holds: its description (with an object id derived from the name when the device sends
  none) and its state, up to the sign of floating-point zeros.
\<close>

theorem client_mirrors_device:
  assumes "\<not> terminated (cl_conn cl)" "c_any_handler (cl_conn cl)"
    and "carries (c_frame (cl_conn cl)) chunks (map wire (map info_object is @ map state_object sts))"
    and "distinct (map info_key_of is)" "distinct (map reported_key sts)"
    and "\<forall>st \<in> set sts. \<exists>i \<in> set is. info_key_of i = reported_key st \<and> info_domain i = state_domain st"
  shows "let s = cl_store (client_read_all chunks cl)
    in (\<forall>i \<in> set is. stored_info (info_domain i) s (info_key_of i) = Access (settle_info i)) \<and>
       (\<forall>st \<in> set sts. stored_state (state_domain st) s (reported_key st) = Access (settle_state st))"
  using store_of_device [OF assms] describes_stored reports_stored by (simp add: Let_def)

theorem client_mirrors_device_witness:
  "let s = cl_store (client_read_all [concat (map (\<lambda>m. plain_encode (fst m) (snd m) [])
         [wire (info_object demo_info), wire (state_object demo_state)])] demo_client)
   in stored_info Switch s 7 =
        Access (Info_Switch (new_SwitchInfo\<lparr>ei_key := 7, ei_name := ''Main Relay'', ei_object_id := ''main_relay''\<rparr>)) \<and>
      stored_state Switch s 7 = Access demo_state"
proof -
  have k: "info_key_of demo_info = 7" "info_domain demo_info = Switch" "reported_key demo_state = 7" "state_domain demo_state = Switch"
    by (simp_all add: demo_info_def demo_state_def info_key_of.simps EntityInfo.defs)
  show ?thesis
    using client_mirrors_device [OF demo_client_conn(2,3), of _ "[demo_info]" "[demo_state]"] demo_frames_fit demo_settles
    by (simp add: carries_def demo_client_conn plain_init_holds k Let_def)
qed

text \<open>What the device decodes of the commands that were sent: one request per command, from which it reads the command back.\<close>

lemma sent_commands_read:
  assumes "in_step (c_frame (cl_conn cl)) dev"
    and "\<forall>cmd \<in> set cmds. frame_ok (c_frame (cl_conn cl)) (wire (command_object cmd))"
    and "written (drop (length (c_out (cl_conn cl))) (c_out (cl_conn (send_commands cmds cl)))) = concat chunks"
  shows "\<exists>ms dev'. receive fh_feed fh_nxt (Suc (length cmds)) chunks dev = (ms, None, dev') \<and>
    map (\<lambda>(t, p). case object_parse t p of None \<Rightarrow> None | Some x \<Rightarrow> read_command t (obj_fields x)) ms = map (Some \<circ> settle) cmds"
proof -
  let ?ms = "map (wire \<circ> command_object) cmds"
  obtain w fh where e: "encode_all fh_enc (c_frame (cl_conn cl)) ?ms = (w, fh)" by force
  then have "w = concat chunks" using send_commands_written [OF assms(2) e] assms(3) by auto
  then obtain dev' where "receive fh_feed fh_nxt (Suc (length cmds)) chunks dev = (?ms, None, dev')"
    using in_step_receive [OF assms(1), of ?ms chunks] assms(2) e by auto
  moreover have "(case object_parse (obj_id (command_object cmd)) (snd (wire (command_object cmd))) of
      None \<Rightarrow> None | Some x \<Rightarrow> read_command (obj_id (command_object cmd)) (obj_fields x)) = Some (settle cmd)"
    if "cmd \<in> set cmds" for cmd
  proof -
    have "length (snd (wire (command_object cmd))) < 2 ^ 31" using assms(2) that frame_ok_short by blast
    from parse_wire [OF well_typed_objects(3) this] show ?thesis
      by (simp add: command_object_def request_object_simps read_to_message)
  qed
  ultimately show ?thesis by (auto simp: wire_def)
qed

text \<open>
  C4: Commands reach the device.  Whatever commands are sent over a plaintext or encrypted connection, and however
  the written bytes are cut, the device decodes exactly one request per command, in order, each of the
  right class, and reads back the command: engaged members with their values, disengaged ones as not set.
\<close>

theorem commands_delivered:
  assumes "in_step (c_frame (cl_conn cl)) dev"
    and "\<forall>cmd \<in> set cmds. frame_ok (c_frame (cl_conn cl)) (wire (command_object cmd))"
    and "written (drop (length (c_out (cl_conn cl))) (c_out (cl_conn (send_commands cmds cl)))) = concat chunks"
  shows "\<exists>ms dev'. receive fh_feed fh_nxt (Suc (length cmds)) chunks dev = (ms, None, dev') \<and>
    map (\<lambda>(t, p). case object_parse t p of None \<Rightarrow> None | Some x \<Rightarrow> read_command t (obj_fields x)) ms = map (Some \<circ> settle) cmds"
  by (rule sent_commands_read [OF assms])

theorem commands_delivered_witness:
  "\<exists>ms dev'. receive fh_feed fh_nxt 2
       [written (c_out (cl_conn (send_commands [Cmd_Switch \<lparr>swtc_key = 7, swtc_state = True\<rparr>] demo_client)))] (FHPlain plain_init) =
       (ms, None, dev') \<and>
     map (\<lambda>(t, p). case object_parse t p of None \<Rightarrow> None | Some x \<Rightarrow> read_command t (obj_fields x)) ms =
       [Some (Cmd_Switch \<lparr>swtc_key = 7, swtc_state = True\<rparr>)]"
  using commands_delivered [where cl = demo_client and dev = "FHPlain plain_init" and
      cmds = "[Cmd_Switch \<lparr>swtc_key = 7, swtc_state = True\<rparr>]" and
      chunks = "[written (c_out (cl_conn (send_commands [Cmd_Switch \<lparr>swtc_key = 7, swtc_state = True\<rparr>] demo_client)))]"] demo_frames_fit(3)
  by (simp add: demo_client_conn plain_init_holds numeral_2_eq_2)

text \<open>
  Serial ports by name.  Before the device has described itself the lookup throws; once its description has
  arrived, over either codec and however cut, the client holds exactly that description, a name yields the
  first port that bears it, and the lookup throws only for names that no port has.
\<close>

theorem serial_port_lookup:
  assumes "\<not> terminated (cl_conn cl)" "c_any_handler (cl_conn cl)" "carries (c_frame (cl_conn cl)) chunks [wire (device_object d)]"
    and "\<not> cl_device_info_loaded cl"
  shows "isl (fst (serial_proxy_by_name name cl)) \<and>
    cl_device_info (client_read_all chunks cl) = d \<and>
    (case fst (serial_proxy_by_name name (client_read_all chunks cl)) of
       Inl _ \<Rightarrow> name \<notin> port_name ` set (dev_serial_proxies d)
     | Inr n \<Rightarrow> \<exists>i < length (dev_serial_proxies d). n = of_nat i \<and> port_name (dev_serial_proxies d ! i) = name \<and>
         (\<forall>j < i. port_name (dev_serial_proxies d ! j) \<noteq> name))"
proof -
  have l: "length (snd (wire (device_object d))) < 2 ^ 31" using carries_short [OF assms(3)] by simp
  have a: "list_all (app_message api_registry) [wire (device_object d)]"
    using wire_app_message [OF device_object_simps(1,4) l] by simp
  obtain fh where r: "receive fh_feed fh_nxt 2 chunks (c_frame (cl_conn cl)) = ([wire (device_object d)], None, fh)"
    and h: "handshake_done (c_frame (cl_conn cl))"
    using carries_receive [OF assms(3)] by (auto simp: numeral_2_eq_2)
  have c: "cl_device_info (client_read_all chunks cl) = d" "cl_device_info_loaded (client_read_all chunks cl)"
    using client_read_dispatches [OF h assms(1) r _ a refl] device_dispatched [OF l assms(2)] by (simp_all add: fold_effect_conn)
  then show ?thesis
    using assms(4) find_port_None [of name 0 "dev_serial_proxies d"] find_port_Some [of name 0 "dev_serial_proxies d"]
    by (auto simp: serial_proxy_by_name_def serial_proxy_def split: option.splits)
qed

theorem serial_port_lookup_witness:
  "let d = new_DeviceInfo\<lparr>dev_serial_proxies := [\<lparr>port_name = ''uart'', port_type = 0\<rparr>, \<lparr>port_name = ''rs485'', port_type = 1\<rparr>]\<rparr>;
       cl = client_read_all [plain_encode 10 (snd (wire (device_object d))) []] demo_client
   in fst (serial_proxy_by_name ''rs485'' cl) = Inr 1"
proof -
  define d where "d = new_DeviceInfo\<lparr>dev_serial_proxies := [\<lparr>port_name = ''uart'', port_type = 0\<rparr>, \<lparr>port_name = ''rs485'', port_type = 1\<rparr>]\<rparr>"
  have "plain_ok (wire (device_object d))"
    by (rule wire_fits [OF device_object_simps(1)])
      (simp_all add: d_def device_object_def device_info_response_def device_report_def new_DeviceInfo_def of_fields_def
        mk_field_simps new_member_cf port_report_def serial_proxy_info_class_def Str_def bytes_of_string_def area_info_class_def)
  then have "carries (c_frame (cl_conn demo_client)) [plain_encode 10 (snd (wire (device_object d))) []] [wire (device_object d)]"
    by (simp add: carries_def demo_client_conn plain_init_holds device_object_simps)
  moreover have "\<not> cl_device_info_loaded demo_client" by (simp add: demo_client_def)
  ultimately have l: "case fst (serial_proxy_by_name ''rs485'' (client_read_all [plain_encode 10 (snd (wire (device_object d))) []] demo_client)) of
       Inl _ \<Rightarrow> ''rs485'' \<notin> port_name ` set (dev_serial_proxies d)
     | Inr n \<Rightarrow> \<exists>i < length (dev_serial_proxies d). n = of_nat i \<and> port_name (dev_serial_proxies d ! i) = ''rs485'' \<and>
         (\<forall>j < i. port_name (dev_serial_proxies d ! j) \<noteq> ''rs485'')"
    using serial_port_lookup [OF demo_client_conn(2,3), of _ d "''rs485''"] by blast
  have "dev_serial_proxies d = [\<lparr>port_name = ''uart'', port_type = 0\<rparr>, \<lparr>port_name = ''rs485'', port_type = 1\<rparr>]"
    by (simp add: d_def)
  with l have "fst (serial_proxy_by_name ''rs485'' (client_read_all [plain_encode 10 (snd (wire (device_object d))) []] demo_client)) = Inr 1"
    by (auto simp: less_Suc_eq split: sum.splits)
  then show ?thesis by (simp add: d_def Let_def)
qed

end
