(* ===== verification/Entity_Handles.thy ===== *)
theory Entity_Handles
  imports Client
begin

text \<open>
  The typed handles of \<^verbatim>\<open>include/esphome/api/model/entity_handles.hpp\<close>.  A handle is the identity of an entity; its
  pointer to the client is the argument \<open>cl\<close>.  A reader of a member looks the description or the state up in the
  store of the client and falls back to a default; a command helper sends one command with the key of the
  handle.  The base classes \<^verbatim>\<open>TypedEntity<Derived>\<close> and \<^verbatim>\<open>ToggleEntity<Derived>\<close> take what they call in the
  derived class as arguments.  \<open>Bad_Cast\<close> is what the store returns where the code casts to a wrong class.
\<close>

section \<open>Base classes\<close>

record entity =
  en_key :: u32
  en_object_id :: string
  en_name :: string

type_synonym sender = "client \<Rightarrow> api_error option \<times> client"

text \<open>\<^verbatim>\<open>x ? x->member : default\<close>.\<close>

fun field_or :: "('r \<Rightarrow> 'a) \<Rightarrow> 'a \<Rightarrow> 'r access \<Rightarrow> 'a access" where
  "field_or member dflt Nullopt = Access dflt"
| "field_or member dflt (Access x) = Access (member x)"
| "field_or member dflt Bad_Cast = Bad_Cast"

definition typed_entity_icon :: "'x EntityInfo_scheme access \<Rightarrow> string access" where
  "typed_entity_icon info = field_or ei_icon [] info"

definition typed_entity_disabled_by_default :: "'x EntityInfo_scheme access \<Rightarrow> bool access" where
  "typed_entity_disabled_by_default info = field_or ei_disabled_by_default False info"

definition entity_category_none :: u32 where
  "entity_category_none = 0"

definition typed_entity_entity_category :: "'x EntityInfo_scheme access \<Rightarrow> u32 access" where
  "typed_entity_entity_category info = field_or ei_entity_category entity_category_none info"

definition typed_entity_device_id :: "'x EntityInfo_scheme access \<Rightarrow> u32 access" where
  "typed_entity_device_id info = field_or ei_device_id 0 info"

definition toggle_entity_is_on :: "('s \<Rightarrow> bool) \<Rightarrow> 's access \<Rightarrow> bool access" where
  "toggle_entity_is_on member state = field_or member False state"

definition toggle_entity_turn_on :: "(bool \<Rightarrow> sender) \<Rightarrow> sender" where
  "toggle_entity_turn_on set_power = set_power True"

definition toggle_entity_turn_off :: "(bool \<Rightarrow> sender) \<Rightarrow> sender" where
  "toggle_entity_turn_off set_power = set_power False"

fun toggle_entity_toggle :: "(bool \<Rightarrow> sender) \<Rightarrow> bool access \<Rightarrow> client \<Rightarrow> (api_error option \<times> client) access" where
  "toggle_entity_toggle set_power (Access on) cl = Access (set_power (\<not> on) cl)"
| "toggle_entity_toggle set_power Nullopt cl = Nullopt"
| "toggle_entity_toggle set_power Bad_Cast cl = Bad_Cast"

text \<open>The bits of \<open>1.0F\<close>, and the constants that the helpers send.\<close>

definition one_f :: u32 where
  "one_f = 0x3F800000"

definition lock_command_lock :: u32 where "lock_command_lock = 1"

definition lock_command_unlock :: u32 where "lock_command_unlock = 0"

definition lock_command_open :: u32 where "lock_command_open = 2"

definition media_player_command_play :: u32 where "media_player_command_play = 0"

definition media_player_command_pause :: u32 where "media_player_command_pause = 1"

definition media_player_command_stop :: u32 where "media_player_command_stop = 2"

definition alarm_control_panel_state_command_disarm :: u32 where "alarm_control_panel_state_command_disarm = 0"

definition alarm_control_panel_state_command_arm_away :: u32 where "alarm_control_panel_state_command_arm_away = 1"

definition alarm_control_panel_state_command_arm_home :: u32 where "alarm_control_panel_state_command_arm_home = 2"

definition update_command_update :: u32 where "update_command_update = 1"

definition update_command_check :: u32 where "update_command_check = 2"

section \<open>BinarySensorEntity\<close>

definition binary_sensor_entity_info :: "entity \<Rightarrow> client \<Rightarrow> BinarySensorInfo access" where
  "binary_sensor_entity_info h cl = binary_sensor_info parse_binary_sensor_info (cl_store cl) (en_key h)"

definition binary_sensor_entity_state :: "entity \<Rightarrow> client \<Rightarrow> BinarySensorState access" where
  "binary_sensor_entity_state h cl = binary_sensor_state parse_binary_sensor_state (cl_store cl) (en_key h)"

definition binary_sensor_entity_device_class :: "entity \<Rightarrow> client \<Rightarrow> string access" where
  "binary_sensor_entity_device_class h cl = field_or bsni_device_class [] (binary_sensor_entity_info h cl)"

definition binary_sensor_entity_is_status_binary_sensor :: "entity \<Rightarrow> client \<Rightarrow> bool access" where
  "binary_sensor_entity_is_status_binary_sensor h cl = field_or bsni_is_status_binary_sensor False (binary_sensor_entity_info h cl)"

definition binary_sensor_entity_missing_state :: "entity \<Rightarrow> client \<Rightarrow> bool access" where
  "binary_sensor_entity_missing_state h cl = field_or bsns_missing_state False (binary_sensor_entity_state h cl)"

definition binary_sensor_entity_is_on :: "entity \<Rightarrow> client \<Rightarrow> bool access" where
  "binary_sensor_entity_is_on h cl = field_or bsns_state False (binary_sensor_entity_state h cl)"

section \<open>SensorEntity\<close>

definition sensor_entity_info :: "entity \<Rightarrow> client \<Rightarrow> SensorInfo access" where
  "sensor_entity_info h cl = sensor_info parse_sensor_info (cl_store cl) (en_key h)"

definition sensor_entity_state :: "entity \<Rightarrow> client \<Rightarrow> SensorState access" where
  "sensor_entity_state h cl = sensor_state parse_sensor_state (cl_store cl) (en_key h)"

definition sensor_entity_unit_of_measurement :: "entity \<Rightarrow> client \<Rightarrow> string access" where
  "sensor_entity_unit_of_measurement h cl = field_or snsi_unit_of_measurement [] (sensor_entity_info h cl)"

definition sensor_entity_accuracy_decimals :: "entity \<Rightarrow> client \<Rightarrow> u32 access" where
  "sensor_entity_accuracy_decimals h cl = field_or snsi_accuracy_decimals 0 (sensor_entity_info h cl)"

definition sensor_entity_force_update :: "entity \<Rightarrow> client \<Rightarrow> bool access" where
  "sensor_entity_force_update h cl = field_or snsi_force_update False (sensor_entity_info h cl)"

definition sensor_entity_device_class :: "entity \<Rightarrow> client \<Rightarrow> string access" where
  "sensor_entity_device_class h cl = field_or snsi_device_class [] (sensor_entity_info h cl)"

definition sensor_entity_state_class :: "entity \<Rightarrow> client \<Rightarrow> u32 access" where
  "sensor_entity_state_class h cl = field_or snsi_state_class 0 (sensor_entity_info h cl)"

definition sensor_entity_missing_state :: "entity \<Rightarrow> client \<Rightarrow> bool access" where
  "sensor_entity_missing_state h cl = field_or snss_missing_state False (sensor_entity_state h cl)"

definition sensor_entity_value :: "entity \<Rightarrow> client \<Rightarrow> u32 access" where
  "sensor_entity_value h cl = field_or snss_state 0 (sensor_entity_state h cl)"

definition sensor_entity_has_value :: "entity \<Rightarrow> client \<Rightarrow> bool access" where
  "sensor_entity_has_value h cl = field_or (\<lambda>s. \<not> snss_missing_state s) False (sensor_entity_state h cl)"

section \<open>TextSensorEntity\<close>

definition text_sensor_entity_info :: "entity \<Rightarrow> client \<Rightarrow> TextSensorInfo access" where
  "text_sensor_entity_info h cl = text_sensor_info parse_text_sensor_info (cl_store cl) (en_key h)"

definition text_sensor_entity_state :: "entity \<Rightarrow> client \<Rightarrow> TextSensorState access" where
  "text_sensor_entity_state h cl = text_sensor_state parse_text_sensor_state (cl_store cl) (en_key h)"

definition text_sensor_entity_device_class :: "entity \<Rightarrow> client \<Rightarrow> string access" where
  "text_sensor_entity_device_class h cl = field_or tsni_device_class [] (text_sensor_entity_info h cl)"

definition text_sensor_entity_missing_state :: "entity \<Rightarrow> client \<Rightarrow> bool access" where
  "text_sensor_entity_missing_state h cl = field_or tsns_missing_state False (text_sensor_entity_state h cl)"

definition text_sensor_entity_text :: "entity \<Rightarrow> client \<Rightarrow> string access" where
  "text_sensor_entity_text h cl = field_or tsns_state [] (text_sensor_entity_state h cl)"

section \<open>SwitchEntity\<close>

definition switch_entity_info :: "entity \<Rightarrow> client \<Rightarrow> SwitchInfo access" where
  "switch_entity_info h cl = switch_info parse_switch_info (cl_store cl) (en_key h)"

definition switch_entity_state :: "entity \<Rightarrow> client \<Rightarrow> SwitchState access" where
  "switch_entity_state h cl = switch_state parse_switch_state (cl_store cl) (en_key h)"

definition switch_entity_assumed_state :: "entity \<Rightarrow> client \<Rightarrow> bool access" where
  "switch_entity_assumed_state h cl = field_or swti_assumed_state False (switch_entity_info h cl)"

definition switch_entity_device_class :: "entity \<Rightarrow> client \<Rightarrow> string access" where
  "switch_entity_device_class h cl = field_or swti_device_class [] (switch_entity_info h cl)"

definition switch_entity_command :: "SwitchCommand \<Rightarrow> entity \<Rightarrow> sender" where
  "switch_entity_command c h = send_command (Cmd_Switch (c\<lparr>swtc_key := en_key h\<rparr>))"

definition switch_entity_set_power :: "bool \<Rightarrow> entity \<Rightarrow> sender" where
  "switch_entity_set_power on h = send_command (Cmd_Switch \<lparr>swtc_key = en_key h, swtc_state = on\<rparr>)"

section \<open>LightEntity\<close>

definition light_entity_info :: "entity \<Rightarrow> client \<Rightarrow> LightInfo access" where
  "light_entity_info h cl = light_info parse_light_info (cl_store cl) (en_key h)"

definition light_entity_state :: "entity \<Rightarrow> client \<Rightarrow> LightState access" where
  "light_entity_state h cl = light_state parse_light_state (cl_store cl) (en_key h)"

definition light_entity_supported_color_modes :: "entity \<Rightarrow> client \<Rightarrow> (u32 list) access" where
  "light_entity_supported_color_modes h cl = field_or lgti_supported_color_modes [] (light_entity_info h cl)"

definition light_entity_min_mireds :: "entity \<Rightarrow> client \<Rightarrow> u32 access" where
  "light_entity_min_mireds h cl = field_or lgti_min_mireds 0 (light_entity_info h cl)"

definition light_entity_max_mireds :: "entity \<Rightarrow> client \<Rightarrow> u32 access" where
  "light_entity_max_mireds h cl = field_or lgti_max_mireds 0 (light_entity_info h cl)"

definition light_entity_effects :: "entity \<Rightarrow> client \<Rightarrow> (string list) access" where
  "light_entity_effects h cl = field_or lgti_effects [] (light_entity_info h cl)"

definition light_entity_brightness :: "entity \<Rightarrow> client \<Rightarrow> u32 access" where
  "light_entity_brightness h cl = field_or lgts_brightness 0 (light_entity_state h cl)"

definition light_entity_color_mode :: "entity \<Rightarrow> client \<Rightarrow> u32 access" where
  "light_entity_color_mode h cl = field_or lgts_color_mode 0 (light_entity_state h cl)"

definition light_entity_color_brightness :: "entity \<Rightarrow> client \<Rightarrow> u32 access" where
  "light_entity_color_brightness h cl = field_or lgts_color_brightness 0 (light_entity_state h cl)"

definition light_entity_red :: "entity \<Rightarrow> client \<Rightarrow> u32 access" where
  "light_entity_red h cl = field_or lgts_red 0 (light_entity_state h cl)"

definition light_entity_green :: "entity \<Rightarrow> client \<Rightarrow> u32 access" where
  "light_entity_green h cl = field_or lgts_green 0 (light_entity_state h cl)"

definition light_entity_blue :: "entity \<Rightarrow> client \<Rightarrow> u32 access" where
  "light_entity_blue h cl = field_or lgts_blue 0 (light_entity_state h cl)"

definition light_entity_white :: "entity \<Rightarrow> client \<Rightarrow> u32 access" where
  "light_entity_white h cl = field_or lgts_white 0 (light_entity_state h cl)"

definition light_entity_color_temperature :: "entity \<Rightarrow> client \<Rightarrow> u32 access" where
  "light_entity_color_temperature h cl = field_or lgts_color_temperature 0 (light_entity_state h cl)"

definition light_entity_cold_white :: "entity \<Rightarrow> client \<Rightarrow> u32 access" where
  "light_entity_cold_white h cl = field_or lgts_cold_white 0 (light_entity_state h cl)"

definition light_entity_warm_white :: "entity \<Rightarrow> client \<Rightarrow> u32 access" where
  "light_entity_warm_white h cl = field_or lgts_warm_white 0 (light_entity_state h cl)"

definition light_entity_effect :: "entity \<Rightarrow> client \<Rightarrow> string access" where
  "light_entity_effect h cl = field_or lgts_effect [] (light_entity_state h cl)"

definition light_entity_command :: "LightCommand \<Rightarrow> entity \<Rightarrow> sender" where
  "light_entity_command c h = send_command (Cmd_Light (c\<lparr>lgtc_key := en_key h\<rparr>))"

definition light_entity_set_power :: "bool \<Rightarrow> entity \<Rightarrow> sender" where
  "light_entity_set_power on h = send_command (Cmd_Light (new_LightCommand\<lparr>lgtc_key := en_key h, lgtc_state := Some on\<rparr>))"

definition light_entity_set_brightness :: "u32 \<Rightarrow> entity \<Rightarrow> sender" where
  "light_entity_set_brightness b h = send_command (Cmd_Light (new_LightCommand\<lparr>lgtc_key := en_key h, lgtc_state := Some True, lgtc_brightness := Some b\<rparr>))"

definition light_entity_set_rgb :: "u32 \<Rightarrow> u32 \<Rightarrow> u32 \<Rightarrow> entity \<Rightarrow> sender" where
  "light_entity_set_rgb r g b h = send_command (Cmd_Light (new_LightCommand\<lparr>lgtc_key := en_key h, lgtc_state := Some True, lgtc_rgb := Some \<lparr>rgb_red = r, rgb_green = g, rgb_blue = b\<rparr>\<rparr>))"

section \<open>CoverEntity\<close>

definition cover_entity_info :: "entity \<Rightarrow> client \<Rightarrow> CoverInfo access" where
  "cover_entity_info h cl = cover_info parse_cover_info (cl_store cl) (en_key h)"

definition cover_entity_state :: "entity \<Rightarrow> client \<Rightarrow> CoverState access" where
  "cover_entity_state h cl = cover_state parse_cover_state (cl_store cl) (en_key h)"

definition cover_entity_assumed_state :: "entity \<Rightarrow> client \<Rightarrow> bool access" where
  "cover_entity_assumed_state h cl = field_or covi_assumed_state False (cover_entity_info h cl)"

definition cover_entity_supports_position :: "entity \<Rightarrow> client \<Rightarrow> bool access" where
  "cover_entity_supports_position h cl = field_or covi_supports_position False (cover_entity_info h cl)"

definition cover_entity_supports_tilt :: "entity \<Rightarrow> client \<Rightarrow> bool access" where
  "cover_entity_supports_tilt h cl = field_or covi_supports_tilt False (cover_entity_info h cl)"

definition cover_entity_device_class :: "entity \<Rightarrow> client \<Rightarrow> string access" where
  "cover_entity_device_class h cl = field_or covi_device_class [] (cover_entity_info h cl)"

definition cover_entity_supports_stop :: "entity \<Rightarrow> client \<Rightarrow> bool access" where
  "cover_entity_supports_stop h cl = field_or covi_supports_stop False (cover_entity_info h cl)"

definition cover_entity_position :: "entity \<Rightarrow> client \<Rightarrow> u32 access" where
  "cover_entity_position h cl = field_or covs_position 0 (cover_entity_state h cl)"

definition cover_entity_tilt :: "entity \<Rightarrow> client \<Rightarrow> u32 access" where
  "cover_entity_tilt h cl = field_or covs_tilt 0 (cover_entity_state h cl)"

definition cover_entity_current_operation :: "entity \<Rightarrow> client \<Rightarrow> u32 access" where
  "cover_entity_current_operation h cl = field_or covs_current_operation 0 (cover_entity_state h cl)"

definition cover_entity_command :: "CoverCommand \<Rightarrow> entity \<Rightarrow> sender" where
  "cover_entity_command c h = send_command (Cmd_Cover (c\<lparr>covc_key := en_key h\<rparr>))"

definition cover_entity_open :: "entity \<Rightarrow> sender" where
  "cover_entity_open h = send_command (Cmd_Cover (new_CoverCommand\<lparr>covc_key := en_key h, covc_position := Some one_f\<rparr>))"

definition cover_entity_close :: "entity \<Rightarrow> sender" where
  "cover_entity_close h = send_command (Cmd_Cover (new_CoverCommand\<lparr>covc_key := en_key h, covc_position := Some 0\<rparr>))"

definition cover_entity_stop :: "entity \<Rightarrow> sender" where
  "cover_entity_stop h = send_command (Cmd_Cover (new_CoverCommand\<lparr>covc_key := en_key h, covc_stop := True\<rparr>))"

definition cover_entity_set_position :: "u32 \<Rightarrow> entity \<Rightarrow> sender" where
  "cover_entity_set_position p h = send_command (Cmd_Cover (new_CoverCommand\<lparr>covc_key := en_key h, covc_position := Some p\<rparr>))"

section \<open>FanEntity\<close>

definition fan_entity_info :: "entity \<Rightarrow> client \<Rightarrow> FanInfo access" where
  "fan_entity_info h cl = fan_info parse_fan_info (cl_store cl) (en_key h)"

definition fan_entity_state :: "entity \<Rightarrow> client \<Rightarrow> FanState access" where
  "fan_entity_state h cl = fan_state parse_fan_state (cl_store cl) (en_key h)"

definition fan_entity_supports_oscillation :: "entity \<Rightarrow> client \<Rightarrow> bool access" where
  "fan_entity_supports_oscillation h cl = field_or fani_supports_oscillation False (fan_entity_info h cl)"

definition fan_entity_supports_speed :: "entity \<Rightarrow> client \<Rightarrow> bool access" where
  "fan_entity_supports_speed h cl = field_or fani_supports_speed False (fan_entity_info h cl)"

definition fan_entity_supports_direction :: "entity \<Rightarrow> client \<Rightarrow> bool access" where
  "fan_entity_supports_direction h cl = field_or fani_supports_direction False (fan_entity_info h cl)"

definition fan_entity_supported_speed_count :: "entity \<Rightarrow> client \<Rightarrow> u32 access" where
  "fan_entity_supported_speed_count h cl = field_or fani_supported_speed_count 0 (fan_entity_info h cl)"

definition fan_entity_supported_preset_modes :: "entity \<Rightarrow> client \<Rightarrow> (string list) access" where
  "fan_entity_supported_preset_modes h cl = field_or fani_supported_preset_modes [] (fan_entity_info h cl)"

definition fan_entity_oscillating :: "entity \<Rightarrow> client \<Rightarrow> bool access" where
  "fan_entity_oscillating h cl = field_or fans_oscillating False (fan_entity_state h cl)"

definition fan_entity_direction :: "entity \<Rightarrow> client \<Rightarrow> u32 access" where
  "fan_entity_direction h cl = field_or fans_direction 0 (fan_entity_state h cl)"

definition fan_entity_speed_level :: "entity \<Rightarrow> client \<Rightarrow> u32 access" where
  "fan_entity_speed_level h cl = field_or fans_speed_level 0 (fan_entity_state h cl)"

definition fan_entity_preset_mode :: "entity \<Rightarrow> client \<Rightarrow> string access" where
  "fan_entity_preset_mode h cl = field_or fans_preset_mode [] (fan_entity_state h cl)"

definition fan_entity_command :: "FanCommand \<Rightarrow> entity \<Rightarrow> sender" where
  "fan_entity_command c h = send_command (Cmd_Fan (c\<lparr>fanc_key := en_key h\<rparr>))"

definition fan_entity_set_power :: "bool \<Rightarrow> entity \<Rightarrow> sender" where
  "fan_entity_set_power on h = send_command (Cmd_Fan (new_FanCommand\<lparr>fanc_key := en_key h, fanc_state := Some on\<rparr>))"

definition fan_entity_set_speed :: "u32 \<Rightarrow> entity \<Rightarrow> sender" where
  "fan_entity_set_speed level h = send_command (Cmd_Fan (new_FanCommand\<lparr>fanc_key := en_key h, fanc_speed_level := Some level\<rparr>))"

section \<open>ClimateEntity\<close>

definition climate_entity_info :: "entity \<Rightarrow> client \<Rightarrow> ClimateInfo access" where
  "climate_entity_info h cl = climate_info parse_climate_info (cl_store cl) (en_key h)"

definition climate_entity_state :: "entity \<Rightarrow> client \<Rightarrow> ClimateState access" where
  "climate_entity_state h cl = climate_state parse_climate_state (cl_store cl) (en_key h)"

definition climate_entity_supported_modes :: "entity \<Rightarrow> client \<Rightarrow> (u32 list) access" where
  "climate_entity_supported_modes h cl = field_or clmi_supported_modes [] (climate_entity_info h cl)"

definition climate_entity_visual_min_temperature :: "entity \<Rightarrow> client \<Rightarrow> u32 access" where
  "climate_entity_visual_min_temperature h cl = field_or clmi_visual_min_temperature 0 (climate_entity_info h cl)"

definition climate_entity_visual_max_temperature :: "entity \<Rightarrow> client \<Rightarrow> u32 access" where
  "climate_entity_visual_max_temperature h cl = field_or clmi_visual_max_temperature 0 (climate_entity_info h cl)"

definition climate_entity_visual_target_temperature_step :: "entity \<Rightarrow> client \<Rightarrow> u32 access" where
  "climate_entity_visual_target_temperature_step h cl = field_or clmi_visual_target_temperature_step 0 (climate_entity_info h cl)"

definition climate_entity_supported_fan_modes :: "entity \<Rightarrow> client \<Rightarrow> (u32 list) access" where
  "climate_entity_supported_fan_modes h cl = field_or clmi_supported_fan_modes [] (climate_entity_info h cl)"

definition climate_entity_supported_swing_modes :: "entity \<Rightarrow> client \<Rightarrow> (u32 list) access" where
  "climate_entity_supported_swing_modes h cl = field_or clmi_supported_swing_modes [] (climate_entity_info h cl)"

definition climate_entity_supported_custom_fan_modes :: "entity \<Rightarrow> client \<Rightarrow> (string list) access" where
  "climate_entity_supported_custom_fan_modes h cl = field_or clmi_supported_custom_fan_modes [] (climate_entity_info h cl)"

definition climate_entity_supported_presets :: "entity \<Rightarrow> client \<Rightarrow> (u32 list) access" where
  "climate_entity_supported_presets h cl = field_or clmi_supported_presets [] (climate_entity_info h cl)"

definition climate_entity_supported_custom_presets :: "entity \<Rightarrow> client \<Rightarrow> (string list) access" where
  "climate_entity_supported_custom_presets h cl = field_or clmi_supported_custom_presets [] (climate_entity_info h cl)"

definition climate_entity_visual_current_temperature_step :: "entity \<Rightarrow> client \<Rightarrow> u32 access" where
  "climate_entity_visual_current_temperature_step h cl = field_or clmi_visual_current_temperature_step 0 (climate_entity_info h cl)"

definition climate_entity_visual_min_humidity :: "entity \<Rightarrow> client \<Rightarrow> u32 access" where
  "climate_entity_visual_min_humidity h cl = field_or clmi_visual_min_humidity 0 (climate_entity_info h cl)"

definition climate_entity_visual_max_humidity :: "entity \<Rightarrow> client \<Rightarrow> u32 access" where
  "climate_entity_visual_max_humidity h cl = field_or clmi_visual_max_humidity 0 (climate_entity_info h cl)"

definition climate_entity_feature_flags :: "entity \<Rightarrow> client \<Rightarrow> u32 access" where
  "climate_entity_feature_flags h cl = field_or clmi_feature_flags 0 (climate_entity_info h cl)"

definition climate_entity_temperature_unit :: "entity \<Rightarrow> client \<Rightarrow> u32 access" where
  "climate_entity_temperature_unit h cl = field_or clmi_temperature_unit 0 (climate_entity_info h cl)"

definition climate_entity_mode :: "entity \<Rightarrow> client \<Rightarrow> u32 access" where
  "climate_entity_mode h cl = field_or clms_mode 0 (climate_entity_state h cl)"

definition climate_entity_current_temperature :: "entity \<Rightarrow> client \<Rightarrow> u32 access" where
  "climate_entity_current_temperature h cl = field_or clms_current_temperature 0 (climate_entity_state h cl)"

definition climate_entity_target_temperature :: "entity \<Rightarrow> client \<Rightarrow> u32 access" where
  "climate_entity_target_temperature h cl = field_or clms_target_temperature 0 (climate_entity_state h cl)"

definition climate_entity_target_temperature_low :: "entity \<Rightarrow> client \<Rightarrow> u32 access" where
  "climate_entity_target_temperature_low h cl = field_or clms_target_temperature_low 0 (climate_entity_state h cl)"

definition climate_entity_target_temperature_high :: "entity \<Rightarrow> client \<Rightarrow> u32 access" where
  "climate_entity_target_temperature_high h cl = field_or clms_target_temperature_high 0 (climate_entity_state h cl)"

definition climate_entity_action :: "entity \<Rightarrow> client \<Rightarrow> u32 access" where
  "climate_entity_action h cl = field_or clms_action 0 (climate_entity_state h cl)"

definition climate_entity_fan_mode :: "entity \<Rightarrow> client \<Rightarrow> u32 access" where
  "climate_entity_fan_mode h cl = field_or clms_fan_mode 0 (climate_entity_state h cl)"

definition climate_entity_swing_mode :: "entity \<Rightarrow> client \<Rightarrow> u32 access" where
  "climate_entity_swing_mode h cl = field_or clms_swing_mode 0 (climate_entity_state h cl)"

definition climate_entity_custom_fan_mode :: "entity \<Rightarrow> client \<Rightarrow> string access" where
  "climate_entity_custom_fan_mode h cl = field_or clms_custom_fan_mode [] (climate_entity_state h cl)"

definition climate_entity_preset :: "entity \<Rightarrow> client \<Rightarrow> u32 access" where
  "climate_entity_preset h cl = field_or clms_preset 0 (climate_entity_state h cl)"

definition climate_entity_custom_preset :: "entity \<Rightarrow> client \<Rightarrow> string access" where
  "climate_entity_custom_preset h cl = field_or clms_custom_preset [] (climate_entity_state h cl)"

definition climate_entity_current_humidity :: "entity \<Rightarrow> client \<Rightarrow> u32 access" where
  "climate_entity_current_humidity h cl = field_or clms_current_humidity 0 (climate_entity_state h cl)"

definition climate_entity_target_humidity :: "entity \<Rightarrow> client \<Rightarrow> u32 access" where
  "climate_entity_target_humidity h cl = field_or clms_target_humidity 0 (climate_entity_state h cl)"

definition climate_entity_command :: "ClimateCommand \<Rightarrow> entity \<Rightarrow> sender" where
  "climate_entity_command c h = send_command (Cmd_Climate (c\<lparr>clmc_key := en_key h\<rparr>))"

definition climate_entity_set_mode :: "u32 \<Rightarrow> entity \<Rightarrow> sender" where
  "climate_entity_set_mode m h = send_command (Cmd_Climate (new_ClimateCommand\<lparr>clmc_key := en_key h, clmc_mode := Some m\<rparr>))"

definition climate_entity_set_target_temperature :: "u32 \<Rightarrow> entity \<Rightarrow> sender" where
  "climate_entity_set_target_temperature t h = send_command (Cmd_Climate (new_ClimateCommand\<lparr>clmc_key := en_key h, clmc_target_temperature := Some t\<rparr>))"

section \<open>NumberEntity\<close>

definition number_entity_info :: "entity \<Rightarrow> client \<Rightarrow> NumberInfo access" where
  "number_entity_info h cl = number_info parse_number_info (cl_store cl) (en_key h)"

definition number_entity_state :: "entity \<Rightarrow> client \<Rightarrow> NumberState access" where
  "number_entity_state h cl = number_state parse_number_state (cl_store cl) (en_key h)"

definition number_entity_min_value :: "entity \<Rightarrow> client \<Rightarrow> u32 access" where
  "number_entity_min_value h cl = field_or numi_min_value 0 (number_entity_info h cl)"

definition number_entity_max_value :: "entity \<Rightarrow> client \<Rightarrow> u32 access" where
  "number_entity_max_value h cl = field_or numi_max_value 0 (number_entity_info h cl)"

definition number_entity_step :: "entity \<Rightarrow> client \<Rightarrow> u32 access" where
  "number_entity_step h cl = field_or numi_step 0 (number_entity_info h cl)"

definition number_entity_unit_of_measurement :: "entity \<Rightarrow> client \<Rightarrow> string access" where
  "number_entity_unit_of_measurement h cl = field_or numi_unit_of_measurement [] (number_entity_info h cl)"

definition number_entity_mode :: "entity \<Rightarrow> client \<Rightarrow> u32 access" where
  "number_entity_mode h cl = field_or numi_mode 0 (number_entity_info h cl)"

definition number_entity_device_class :: "entity \<Rightarrow> client \<Rightarrow> string access" where
  "number_entity_device_class h cl = field_or numi_device_class [] (number_entity_info h cl)"

definition number_entity_missing_state :: "entity \<Rightarrow> client \<Rightarrow> bool access" where
  "number_entity_missing_state h cl = field_or nums_missing_state False (number_entity_state h cl)"

definition number_entity_command :: "NumberCommand \<Rightarrow> entity \<Rightarrow> sender" where
  "number_entity_command c h = send_command (Cmd_Number (c\<lparr>numc_key := en_key h\<rparr>))"

definition number_entity_set :: "u32 \<Rightarrow> entity \<Rightarrow> sender" where
  "number_entity_set v h = send_command (Cmd_Number \<lparr>numc_key = en_key h, numc_state = v\<rparr>)"

section \<open>SelectEntity\<close>

definition select_entity_info :: "entity \<Rightarrow> client \<Rightarrow> SelectInfo access" where
  "select_entity_info h cl = select_info parse_select_info (cl_store cl) (en_key h)"

definition select_entity_state :: "entity \<Rightarrow> client \<Rightarrow> SelectState access" where
  "select_entity_state h cl = select_state parse_select_state (cl_store cl) (en_key h)"

definition select_entity_options :: "entity \<Rightarrow> client \<Rightarrow> (string list) access" where
  "select_entity_options h cl = field_or seli_options [] (select_entity_info h cl)"

definition select_entity_missing_state :: "entity \<Rightarrow> client \<Rightarrow> bool access" where
  "select_entity_missing_state h cl = field_or sels_missing_state False (select_entity_state h cl)"

definition select_entity_command :: "SelectCommand \<Rightarrow> entity \<Rightarrow> sender" where
  "select_entity_command c h = send_command (Cmd_Select (c\<lparr>selc_key := en_key h\<rparr>))"

definition select_entity_set :: "string \<Rightarrow> entity \<Rightarrow> sender" where
  "select_entity_set v h = send_command (Cmd_Select \<lparr>selc_key = en_key h, selc_state = v\<rparr>)"

section \<open>TextEntity\<close>

definition text_entity_info :: "entity \<Rightarrow> client \<Rightarrow> TextInfo access" where
  "text_entity_info h cl = text_info parse_text_info (cl_store cl) (en_key h)"

definition text_entity_state :: "entity \<Rightarrow> client \<Rightarrow> TextState access" where
  "text_entity_state h cl = text_state parse_text_state (cl_store cl) (en_key h)"

definition text_entity_min_length :: "entity \<Rightarrow> client \<Rightarrow> u32 access" where
  "text_entity_min_length h cl = field_or txti_min_length 0 (text_entity_info h cl)"

definition text_entity_max_length :: "entity \<Rightarrow> client \<Rightarrow> u32 access" where
  "text_entity_max_length h cl = field_or txti_max_length 0 (text_entity_info h cl)"

definition text_entity_pattern :: "entity \<Rightarrow> client \<Rightarrow> string access" where
  "text_entity_pattern h cl = field_or txti_pattern [] (text_entity_info h cl)"

definition text_entity_mode :: "entity \<Rightarrow> client \<Rightarrow> u32 access" where
  "text_entity_mode h cl = field_or txti_mode 0 (text_entity_info h cl)"

definition text_entity_missing_state :: "entity \<Rightarrow> client \<Rightarrow> bool access" where
  "text_entity_missing_state h cl = field_or txts_missing_state False (text_entity_state h cl)"

definition text_entity_command :: "TextCommand \<Rightarrow> entity \<Rightarrow> sender" where
  "text_entity_command c h = send_command (Cmd_Text (c\<lparr>txtc_key := en_key h\<rparr>))"

definition text_entity_set :: "string \<Rightarrow> entity \<Rightarrow> sender" where
  "text_entity_set v h = send_command (Cmd_Text \<lparr>txtc_key = en_key h, txtc_state = v\<rparr>)"

section \<open>ButtonEntity\<close>

definition button_entity_info :: "entity \<Rightarrow> client \<Rightarrow> ButtonInfo access" where
  "button_entity_info h cl = button_info parse_button_info (cl_store cl) (en_key h)"

definition button_entity_device_class :: "entity \<Rightarrow> client \<Rightarrow> string access" where
  "button_entity_device_class h cl = field_or btni_device_class [] (button_entity_info h cl)"

definition button_entity_command :: "ButtonCommand \<Rightarrow> entity \<Rightarrow> sender" where
  "button_entity_command c h = send_command (Cmd_Button (c\<lparr>btnc_key := en_key h\<rparr>))"

definition button_entity_press :: "entity \<Rightarrow> sender" where
  "button_entity_press h = send_command (Cmd_Button \<lparr>btnc_key = en_key h\<rparr>)"

section \<open>LockEntity\<close>

definition lock_entity_info :: "entity \<Rightarrow> client \<Rightarrow> LockInfo access" where
  "lock_entity_info h cl = lock_info parse_lock_info (cl_store cl) (en_key h)"

definition lock_entity_state :: "entity \<Rightarrow> client \<Rightarrow> LockEntityState access" where
  "lock_entity_state h cl = lock_state parse_lock_state (cl_store cl) (en_key h)"

definition lock_entity_assumed_state :: "entity \<Rightarrow> client \<Rightarrow> bool access" where
  "lock_entity_assumed_state h cl = field_or lcki_assumed_state False (lock_entity_info h cl)"

definition lock_entity_supports_open :: "entity \<Rightarrow> client \<Rightarrow> bool access" where
  "lock_entity_supports_open h cl = field_or lcki_supports_open False (lock_entity_info h cl)"

definition lock_entity_requires_code :: "entity \<Rightarrow> client \<Rightarrow> bool access" where
  "lock_entity_requires_code h cl = field_or lcki_requires_code False (lock_entity_info h cl)"

definition lock_entity_code_format :: "entity \<Rightarrow> client \<Rightarrow> string access" where
  "lock_entity_code_format h cl = field_or lcki_code_format [] (lock_entity_info h cl)"

definition lock_entity_command :: "LockCommandData \<Rightarrow> entity \<Rightarrow> sender" where
  "lock_entity_command c h = send_command (Cmd_Lock (c\<lparr>lckc_key := en_key h\<rparr>))"

definition lock_entity_lock :: "entity \<Rightarrow> sender" where
  "lock_entity_lock h = send_command (Cmd_Lock (new_LockCommandData\<lparr>lckc_key := en_key h, lckc_command := lock_command_lock\<rparr>))"

definition lock_entity_unlock :: "entity \<Rightarrow> sender" where
  "lock_entity_unlock h = send_command (Cmd_Lock (new_LockCommandData\<lparr>lckc_key := en_key h, lckc_command := lock_command_unlock\<rparr>))"

definition lock_entity_open :: "entity \<Rightarrow> sender" where
  "lock_entity_open h = send_command (Cmd_Lock (new_LockCommandData\<lparr>lckc_key := en_key h, lckc_command := lock_command_open\<rparr>))"

section \<open>MediaPlayerEntity\<close>

definition media_player_entity_info :: "entity \<Rightarrow> client \<Rightarrow> MediaPlayerInfo access" where
  "media_player_entity_info h cl = media_player_info parse_media_player_info (cl_store cl) (en_key h)"

definition media_player_entity_state :: "entity \<Rightarrow> client \<Rightarrow> MediaPlayerStatus access" where
  "media_player_entity_state h cl = media_player_state parse_media_player_state (cl_store cl) (en_key h)"

definition media_player_entity_supports_pause :: "entity \<Rightarrow> client \<Rightarrow> bool access" where
  "media_player_entity_supports_pause h cl = field_or mpli_supports_pause False (media_player_entity_info h cl)"

definition media_player_entity_supported_formats :: "entity \<Rightarrow> client \<Rightarrow> (MediaPlayerSupportedFormat list) access" where
  "media_player_entity_supported_formats h cl = field_or mpli_supported_formats [] (media_player_entity_info h cl)"

definition media_player_entity_volume :: "entity \<Rightarrow> client \<Rightarrow> u32 access" where
  "media_player_entity_volume h cl = field_or mpls_volume 0 (media_player_entity_state h cl)"

definition media_player_entity_muted :: "entity \<Rightarrow> client \<Rightarrow> bool access" where
  "media_player_entity_muted h cl = field_or mpls_muted False (media_player_entity_state h cl)"

definition media_player_entity_command :: "MediaPlayerControl \<Rightarrow> entity \<Rightarrow> sender" where
  "media_player_entity_command c h = send_command (Cmd_MediaPlayer (c\<lparr>mplc_key := en_key h\<rparr>))"

definition media_player_entity_play :: "entity \<Rightarrow> sender" where
  "media_player_entity_play h = send_command (Cmd_MediaPlayer (new_MediaPlayerControl\<lparr>mplc_key := en_key h, mplc_command := Some media_player_command_play\<rparr>))"

definition media_player_entity_pause :: "entity \<Rightarrow> sender" where
  "media_player_entity_pause h = send_command (Cmd_MediaPlayer (new_MediaPlayerControl\<lparr>mplc_key := en_key h, mplc_command := Some media_player_command_pause\<rparr>))"

definition media_player_entity_stop :: "entity \<Rightarrow> sender" where
  "media_player_entity_stop h = send_command (Cmd_MediaPlayer (new_MediaPlayerControl\<lparr>mplc_key := en_key h, mplc_command := Some media_player_command_stop\<rparr>))"

definition media_player_entity_set_volume :: "u32 \<Rightarrow> entity \<Rightarrow> sender" where
  "media_player_entity_set_volume v h = send_command (Cmd_MediaPlayer (new_MediaPlayerControl\<lparr>mplc_key := en_key h, mplc_volume := Some v\<rparr>))"

section \<open>CameraEntity\<close>

definition camera_entity_info :: "entity \<Rightarrow> client \<Rightarrow> CameraInfo access" where
  "camera_entity_info h cl = camera_info parse_camera_info (cl_store cl) (en_key h)"

definition camera_entity_request_image :: "bool \<Rightarrow> bool \<Rightarrow> entity \<Rightarrow> sender" where
  "camera_entity_request_image single stream h = request_camera_image single stream"

section \<open>SirenEntity\<close>

definition siren_entity_info :: "entity \<Rightarrow> client \<Rightarrow> SirenInfo access" where
  "siren_entity_info h cl = siren_info parse_siren_info (cl_store cl) (en_key h)"

definition siren_entity_state :: "entity \<Rightarrow> client \<Rightarrow> SirenState access" where
  "siren_entity_state h cl = siren_state parse_siren_state (cl_store cl) (en_key h)"

definition siren_entity_tones :: "entity \<Rightarrow> client \<Rightarrow> (string list) access" where
  "siren_entity_tones h cl = field_or srni_tones [] (siren_entity_info h cl)"

definition siren_entity_supports_duration :: "entity \<Rightarrow> client \<Rightarrow> bool access" where
  "siren_entity_supports_duration h cl = field_or srni_supports_duration False (siren_entity_info h cl)"

definition siren_entity_supports_volume :: "entity \<Rightarrow> client \<Rightarrow> bool access" where
  "siren_entity_supports_volume h cl = field_or srni_supports_volume False (siren_entity_info h cl)"

definition siren_entity_command :: "SirenCommand \<Rightarrow> entity \<Rightarrow> sender" where
  "siren_entity_command c h = send_command (Cmd_Siren (c\<lparr>srnc_key := en_key h\<rparr>))"

definition siren_entity_set_power :: "bool \<Rightarrow> entity \<Rightarrow> sender" where
  "siren_entity_set_power on h = send_command (Cmd_Siren (new_SirenCommand\<lparr>srnc_key := en_key h, srnc_state := Some on\<rparr>))"

section \<open>AlarmControlPanelEntity\<close>

definition alarm_control_panel_entity_info :: "entity \<Rightarrow> client \<Rightarrow> AlarmControlPanelInfo access" where
  "alarm_control_panel_entity_info h cl = alarm_control_panel_info parse_alarm_control_panel_info (cl_store cl) (en_key h)"

definition alarm_control_panel_entity_state :: "entity \<Rightarrow> client \<Rightarrow> AlarmControlPanelStatus access" where
  "alarm_control_panel_entity_state h cl = alarm_control_panel_state parse_alarm_control_panel_state (cl_store cl) (en_key h)"

definition alarm_control_panel_entity_supported_features :: "entity \<Rightarrow> client \<Rightarrow> u32 access" where
  "alarm_control_panel_entity_supported_features h cl = field_or acpi_supported_features 0 (alarm_control_panel_entity_info h cl)"

definition alarm_control_panel_entity_requires_code :: "entity \<Rightarrow> client \<Rightarrow> bool access" where
  "alarm_control_panel_entity_requires_code h cl = field_or acpi_requires_code False (alarm_control_panel_entity_info h cl)"

definition alarm_control_panel_entity_requires_code_to_arm :: "entity \<Rightarrow> client \<Rightarrow> bool access" where
  "alarm_control_panel_entity_requires_code_to_arm h cl = field_or acpi_requires_code_to_arm False (alarm_control_panel_entity_info h cl)"

definition alarm_control_panel_entity_command :: "AlarmControlPanelCommand \<Rightarrow> entity \<Rightarrow> sender" where
  "alarm_control_panel_entity_command c h = send_command (Cmd_AlarmControlPanel (c\<lparr>acpc_key := en_key h\<rparr>))"

definition alarm_control_panel_entity_disarm :: "string \<Rightarrow> entity \<Rightarrow> sender" where
  "alarm_control_panel_entity_disarm code h = send_command (Cmd_AlarmControlPanel \<lparr>acpc_key = en_key h, acpc_command = alarm_control_panel_state_command_disarm, acpc_code = code\<rparr>)"

definition alarm_control_panel_entity_arm_away :: "string \<Rightarrow> entity \<Rightarrow> sender" where
  "alarm_control_panel_entity_arm_away code h = send_command (Cmd_AlarmControlPanel \<lparr>acpc_key = en_key h, acpc_command = alarm_control_panel_state_command_arm_away, acpc_code = code\<rparr>)"

definition alarm_control_panel_entity_arm_home :: "string \<Rightarrow> entity \<Rightarrow> sender" where
  "alarm_control_panel_entity_arm_home code h = send_command (Cmd_AlarmControlPanel \<lparr>acpc_key = en_key h, acpc_command = alarm_control_panel_state_command_arm_home, acpc_code = code\<rparr>)"

section \<open>DateEntity\<close>

definition date_entity_info :: "entity \<Rightarrow> client \<Rightarrow> DateInfo access" where
  "date_entity_info h cl = date_info parse_date_info (cl_store cl) (en_key h)"

definition date_entity_state :: "entity \<Rightarrow> client \<Rightarrow> DateState access" where
  "date_entity_state h cl = date_state parse_date_state (cl_store cl) (en_key h)"

definition date_entity_missing_state :: "entity \<Rightarrow> client \<Rightarrow> bool access" where
  "date_entity_missing_state h cl = field_or dats_missing_state False (date_entity_state h cl)"

definition date_entity_year :: "entity \<Rightarrow> client \<Rightarrow> u32 access" where
  "date_entity_year h cl = field_or dats_year 0 (date_entity_state h cl)"

definition date_entity_month :: "entity \<Rightarrow> client \<Rightarrow> u32 access" where
  "date_entity_month h cl = field_or dats_month 0 (date_entity_state h cl)"

definition date_entity_day :: "entity \<Rightarrow> client \<Rightarrow> u32 access" where
  "date_entity_day h cl = field_or dats_day 0 (date_entity_state h cl)"

definition date_entity_command :: "DateCommand \<Rightarrow> entity \<Rightarrow> sender" where
  "date_entity_command c h = send_command (Cmd_Date (c\<lparr>datc_key := en_key h\<rparr>))"

definition date_entity_set :: "u32 \<Rightarrow> u32 \<Rightarrow> u32 \<Rightarrow> entity \<Rightarrow> sender" where
  "date_entity_set year month day h = send_command (Cmd_Date \<lparr>datc_key = en_key h, datc_year = year, datc_month = month, datc_day = day\<rparr>)"

section \<open>TimeEntity\<close>

definition time_entity_info :: "entity \<Rightarrow> client \<Rightarrow> TimeInfo access" where
  "time_entity_info h cl = time_info parse_time_info (cl_store cl) (en_key h)"

definition time_entity_state :: "entity \<Rightarrow> client \<Rightarrow> TimeState access" where
  "time_entity_state h cl = time_state parse_time_state (cl_store cl) (en_key h)"

definition time_entity_missing_state :: "entity \<Rightarrow> client \<Rightarrow> bool access" where
  "time_entity_missing_state h cl = field_or tims_missing_state False (time_entity_state h cl)"

definition time_entity_hour :: "entity \<Rightarrow> client \<Rightarrow> u32 access" where
  "time_entity_hour h cl = field_or tims_hour 0 (time_entity_state h cl)"

definition time_entity_minute :: "entity \<Rightarrow> client \<Rightarrow> u32 access" where
  "time_entity_minute h cl = field_or tims_minute 0 (time_entity_state h cl)"

definition time_entity_second :: "entity \<Rightarrow> client \<Rightarrow> u32 access" where
  "time_entity_second h cl = field_or tims_second 0 (time_entity_state h cl)"

definition time_entity_command :: "TimeCommand \<Rightarrow> entity \<Rightarrow> sender" where
  "time_entity_command c h = send_command (Cmd_Time (c\<lparr>timc_key := en_key h\<rparr>))"

definition time_entity_set :: "u32 \<Rightarrow> u32 \<Rightarrow> u32 \<Rightarrow> entity \<Rightarrow> sender" where
  "time_entity_set hour minute second h = send_command (Cmd_Time \<lparr>timc_key = en_key h, timc_hour = hour, timc_minute = minute, timc_second = second\<rparr>)"

section \<open>DateTimeEntity\<close>

definition datetime_entity_info :: "entity \<Rightarrow> client \<Rightarrow> DateTimeInfo access" where
  "datetime_entity_info h cl = datetime_info parse_datetime_info (cl_store cl) (en_key h)"

definition datetime_entity_state :: "entity \<Rightarrow> client \<Rightarrow> DateTimeState access" where
  "datetime_entity_state h cl = datetime_state parse_datetime_state (cl_store cl) (en_key h)"

definition datetime_entity_missing_state :: "entity \<Rightarrow> client \<Rightarrow> bool access" where
  "datetime_entity_missing_state h cl = field_or dtms_missing_state False (datetime_entity_state h cl)"

definition datetime_entity_epoch_seconds :: "entity \<Rightarrow> client \<Rightarrow> u32 access" where
  "datetime_entity_epoch_seconds h cl = field_or dtms_epoch_seconds 0 (datetime_entity_state h cl)"

definition datetime_entity_command :: "DateTimeCommand \<Rightarrow> entity \<Rightarrow> sender" where
  "datetime_entity_command c h = send_command (Cmd_DateTime (c\<lparr>dtmc_key := en_key h\<rparr>))"

definition datetime_entity_set :: "u32 \<Rightarrow> entity \<Rightarrow> sender" where
  "datetime_entity_set epoch_seconds h = send_command (Cmd_DateTime \<lparr>dtmc_key = en_key h, dtmc_epoch_seconds = epoch_seconds\<rparr>)"

section \<open>ValveEntity\<close>

definition valve_entity_info :: "entity \<Rightarrow> client \<Rightarrow> ValveInfo access" where
  "valve_entity_info h cl = valve_info parse_valve_info (cl_store cl) (en_key h)"

definition valve_entity_state :: "entity \<Rightarrow> client \<Rightarrow> ValveState access" where
  "valve_entity_state h cl = valve_state parse_valve_state (cl_store cl) (en_key h)"

definition valve_entity_device_class :: "entity \<Rightarrow> client \<Rightarrow> string access" where
  "valve_entity_device_class h cl = field_or vlvi_device_class [] (valve_entity_info h cl)"

definition valve_entity_assumed_state :: "entity \<Rightarrow> client \<Rightarrow> bool access" where
  "valve_entity_assumed_state h cl = field_or vlvi_assumed_state False (valve_entity_info h cl)"

definition valve_entity_supports_position :: "entity \<Rightarrow> client \<Rightarrow> bool access" where
  "valve_entity_supports_position h cl = field_or vlvi_supports_position False (valve_entity_info h cl)"

definition valve_entity_supports_stop :: "entity \<Rightarrow> client \<Rightarrow> bool access" where
  "valve_entity_supports_stop h cl = field_or vlvi_supports_stop False (valve_entity_info h cl)"

definition valve_entity_position :: "entity \<Rightarrow> client \<Rightarrow> u32 access" where
  "valve_entity_position h cl = field_or vlvs_position 0 (valve_entity_state h cl)"

definition valve_entity_current_operation :: "entity \<Rightarrow> client \<Rightarrow> u32 access" where
  "valve_entity_current_operation h cl = field_or vlvs_current_operation 0 (valve_entity_state h cl)"

definition valve_entity_command :: "ValveCommand \<Rightarrow> entity \<Rightarrow> sender" where
  "valve_entity_command c h = send_command (Cmd_Valve (c\<lparr>vlvc_key := en_key h\<rparr>))"

definition valve_entity_open :: "entity \<Rightarrow> sender" where
  "valve_entity_open h = send_command (Cmd_Valve (new_ValveCommand\<lparr>vlvc_key := en_key h, vlvc_position := Some one_f\<rparr>))"

definition valve_entity_close :: "entity \<Rightarrow> sender" where
  "valve_entity_close h = send_command (Cmd_Valve (new_ValveCommand\<lparr>vlvc_key := en_key h, vlvc_position := Some 0\<rparr>))"

definition valve_entity_stop :: "entity \<Rightarrow> sender" where
  "valve_entity_stop h = send_command (Cmd_Valve (new_ValveCommand\<lparr>vlvc_key := en_key h, vlvc_stop := True\<rparr>))"

section \<open>EventEntity\<close>

definition event_entity_info :: "entity \<Rightarrow> client \<Rightarrow> EventInfo access" where
  "event_entity_info h cl = event_info parse_event_info (cl_store cl) (en_key h)"

definition event_entity_state :: "entity \<Rightarrow> client \<Rightarrow> EventState access" where
  "event_entity_state h cl = event_state parse_event_state (cl_store cl) (en_key h)"

definition event_entity_device_class :: "entity \<Rightarrow> client \<Rightarrow> string access" where
  "event_entity_device_class h cl = field_or evti_device_class [] (event_entity_info h cl)"

definition event_entity_event_types :: "entity \<Rightarrow> client \<Rightarrow> (string list) access" where
  "event_entity_event_types h cl = field_or evti_event_types [] (event_entity_info h cl)"

definition event_entity_event_type :: "entity \<Rightarrow> client \<Rightarrow> string access" where
  "event_entity_event_type h cl = field_or evts_event_type [] (event_entity_state h cl)"

section \<open>UpdateEntity\<close>

definition update_entity_info :: "entity \<Rightarrow> client \<Rightarrow> UpdateInfo access" where
  "update_entity_info h cl = update_info parse_update_info (cl_store cl) (en_key h)"

definition update_entity_state :: "entity \<Rightarrow> client \<Rightarrow> UpdateState access" where
  "update_entity_state h cl = update_state parse_update_state (cl_store cl) (en_key h)"

definition update_entity_device_class :: "entity \<Rightarrow> client \<Rightarrow> string access" where
  "update_entity_device_class h cl = field_or updi_device_class [] (update_entity_info h cl)"

definition update_entity_missing_state :: "entity \<Rightarrow> client \<Rightarrow> bool access" where
  "update_entity_missing_state h cl = field_or upds_missing_state False (update_entity_state h cl)"

definition update_entity_in_progress :: "entity \<Rightarrow> client \<Rightarrow> bool access" where
  "update_entity_in_progress h cl = field_or upds_in_progress False (update_entity_state h cl)"

definition update_entity_has_progress :: "entity \<Rightarrow> client \<Rightarrow> bool access" where
  "update_entity_has_progress h cl = field_or upds_has_progress False (update_entity_state h cl)"

definition update_entity_progress :: "entity \<Rightarrow> client \<Rightarrow> u32 access" where
  "update_entity_progress h cl = field_or upds_progress 0 (update_entity_state h cl)"

definition update_entity_current_version :: "entity \<Rightarrow> client \<Rightarrow> string access" where
  "update_entity_current_version h cl = field_or upds_current_version [] (update_entity_state h cl)"

definition update_entity_latest_version :: "entity \<Rightarrow> client \<Rightarrow> string access" where
  "update_entity_latest_version h cl = field_or upds_latest_version [] (update_entity_state h cl)"

definition update_entity_title :: "entity \<Rightarrow> client \<Rightarrow> string access" where
  "update_entity_title h cl = field_or upds_title [] (update_entity_state h cl)"

definition update_entity_release_summary :: "entity \<Rightarrow> client \<Rightarrow> string access" where
  "update_entity_release_summary h cl = field_or upds_release_summary [] (update_entity_state h cl)"

definition update_entity_release_url :: "entity \<Rightarrow> client \<Rightarrow> string access" where
  "update_entity_release_url h cl = field_or upds_release_url [] (update_entity_state h cl)"

definition update_entity_command :: "UpdateControl \<Rightarrow> entity \<Rightarrow> sender" where
  "update_entity_command c h = send_command (Cmd_Update (c\<lparr>updc_key := en_key h\<rparr>))"

definition update_entity_install :: "entity \<Rightarrow> sender" where
  "update_entity_install h = send_command (Cmd_Update \<lparr>updc_key = en_key h, updc_command = update_command_update\<rparr>)"

definition update_entity_check :: "entity \<Rightarrow> sender" where
  "update_entity_check h = send_command (Cmd_Update \<lparr>updc_key = en_key h, updc_command = update_command_check\<rparr>)"

section \<open>WaterHeaterEntity\<close>

definition water_heater_entity_info :: "entity \<Rightarrow> client \<Rightarrow> WaterHeaterInfo access" where
  "water_heater_entity_info h cl = water_heater_info parse_water_heater_info (cl_store cl) (en_key h)"

definition water_heater_entity_state :: "entity \<Rightarrow> client \<Rightarrow> WaterHeaterState access" where
  "water_heater_entity_state h cl = water_heater_state parse_water_heater_state (cl_store cl) (en_key h)"

definition water_heater_entity_min_temperature :: "entity \<Rightarrow> client \<Rightarrow> u32 access" where
  "water_heater_entity_min_temperature h cl = field_or whti_min_temperature 0 (water_heater_entity_info h cl)"

definition water_heater_entity_max_temperature :: "entity \<Rightarrow> client \<Rightarrow> u32 access" where
  "water_heater_entity_max_temperature h cl = field_or whti_max_temperature 0 (water_heater_entity_info h cl)"

definition water_heater_entity_target_temperature_step :: "entity \<Rightarrow> client \<Rightarrow> u32 access" where
  "water_heater_entity_target_temperature_step h cl = field_or whti_target_temperature_step 0 (water_heater_entity_info h cl)"

definition water_heater_entity_supported_modes :: "entity \<Rightarrow> client \<Rightarrow> (u32 list) access" where
  "water_heater_entity_supported_modes h cl = field_or whti_supported_modes [] (water_heater_entity_info h cl)"

definition water_heater_entity_supported_features :: "entity \<Rightarrow> client \<Rightarrow> u32 access" where
  "water_heater_entity_supported_features h cl = field_or whti_supported_features 0 (water_heater_entity_info h cl)"

definition water_heater_entity_temperature_unit :: "entity \<Rightarrow> client \<Rightarrow> u32 access" where
  "water_heater_entity_temperature_unit h cl = field_or whti_temperature_unit 0 (water_heater_entity_info h cl)"

definition water_heater_entity_current_temperature :: "entity \<Rightarrow> client \<Rightarrow> u32 access" where
  "water_heater_entity_current_temperature h cl = field_or whts_current_temperature 0 (water_heater_entity_state h cl)"

definition water_heater_entity_target_temperature :: "entity \<Rightarrow> client \<Rightarrow> u32 access" where
  "water_heater_entity_target_temperature h cl = field_or whts_target_temperature 0 (water_heater_entity_state h cl)"

definition water_heater_entity_mode :: "entity \<Rightarrow> client \<Rightarrow> u32 access" where
  "water_heater_entity_mode h cl = field_or whts_mode 0 (water_heater_entity_state h cl)"

definition water_heater_entity_target_temperature_low :: "entity \<Rightarrow> client \<Rightarrow> u32 access" where
  "water_heater_entity_target_temperature_low h cl = field_or whts_target_temperature_low 0 (water_heater_entity_state h cl)"

definition water_heater_entity_target_temperature_high :: "entity \<Rightarrow> client \<Rightarrow> u32 access" where
  "water_heater_entity_target_temperature_high h cl = field_or whts_target_temperature_high 0 (water_heater_entity_state h cl)"

definition water_heater_entity_command :: "WaterHeaterCommand \<Rightarrow> entity \<Rightarrow> sender" where
  "water_heater_entity_command c h = send_command (Cmd_WaterHeater (c\<lparr>whtc_key := en_key h\<rparr>))"

section \<open>InfraredEntity\<close>

definition infrared_entity_info :: "entity \<Rightarrow> client \<Rightarrow> InfraredInfo access" where
  "infrared_entity_info h cl = infrared_info parse_infrared_info (cl_store cl) (en_key h)"

definition infrared_entity_capabilities :: "entity \<Rightarrow> client \<Rightarrow> u32 access" where
  "infrared_entity_capabilities h cl = field_or ifri_capabilities 0 (infrared_entity_info h cl)"

definition infrared_entity_receiver_frequency :: "entity \<Rightarrow> client \<Rightarrow> u32 access" where
  "infrared_entity_receiver_frequency h cl = field_or ifri_receiver_frequency 0 (infrared_entity_info h cl)"

section \<open>RadioFrequencyEntity\<close>

definition radio_frequency_entity_info :: "entity \<Rightarrow> client \<Rightarrow> RadioFrequencyInfo access" where
  "radio_frequency_entity_info h cl = radio_frequency_info parse_radio_frequency_info (cl_store cl) (en_key h)"

definition radio_frequency_entity_capabilities :: "entity \<Rightarrow> client \<Rightarrow> u32 access" where
  "radio_frequency_entity_capabilities h cl = field_or rfqi_capabilities 0 (radio_frequency_entity_info h cl)"

definition radio_frequency_entity_frequency_min :: "entity \<Rightarrow> client \<Rightarrow> u32 access" where
  "radio_frequency_entity_frequency_min h cl = field_or rfqi_frequency_min 0 (radio_frequency_entity_info h cl)"

definition radio_frequency_entity_frequency_max :: "entity \<Rightarrow> client \<Rightarrow> u32 access" where
  "radio_frequency_entity_frequency_max h cl = field_or rfqi_frequency_max 0 (radio_frequency_entity_info h cl)"

definition radio_frequency_entity_supported_modulations :: "entity \<Rightarrow> client \<Rightarrow> u32 access" where
  "radio_frequency_entity_supported_modulations h cl = field_or rfqi_supported_modulations 0 (radio_frequency_entity_info h cl)"

section \<open>Switching on and off\<close>

text \<open>
  What \<^verbatim>\<open>ToggleEntity<Derived>\<close> requires of the derived class: a state with a power member, and a command that sets
  the power of the entity.
\<close>

locale toggle_handle =
  fixes state :: "entity \<Rightarrow> client \<Rightarrow> 's access"
    and member :: "'s \<Rightarrow> bool"
    and set_power :: "bool \<Rightarrow> entity \<Rightarrow> sender"
    and power_command :: "bool \<Rightarrow> u32 \<Rightarrow> command"
  assumes set_power_sends: "set_power on h = send_command (power_command on (en_key h))"
begin

lemma toggles_known:
  "toggle_entity_toggle (\<lambda>on. set_power on h) (toggle_entity_is_on member (Access s)) cl =
     Access (send_command (power_command (\<not> member s) (en_key h)) cl)"
  by (simp add: toggle_entity_is_on_def set_power_sends)

lemma toggles_unknown:
  "state h cl = Nullopt \<Longrightarrow>
   toggle_entity_toggle (\<lambda>on. set_power on h) (toggle_entity_is_on member (state h cl)) cl =
     Access (send_command (power_command True (en_key h)) cl)"
  by (simp add: toggle_entity_is_on_def set_power_sends)

lemma turns: "toggle_entity_turn_on (\<lambda>on. set_power on h) = send_command (power_command True (en_key h))"
  "toggle_entity_turn_off (\<lambda>on. set_power on h) = send_command (power_command False (en_key h))"
  by (simp_all add: toggle_entity_turn_on_def toggle_entity_turn_off_def set_power_sends)

end

fun power_command :: "entity_type \<Rightarrow> bool \<Rightarrow> u32 \<Rightarrow> command" where
  "power_command Light on key = Cmd_Light (new_LightCommand\<lparr>lgtc_key := key, lgtc_state := Some on\<rparr>)"
| "power_command Fan on key = Cmd_Fan (new_FanCommand\<lparr>fanc_key := key, fanc_state := Some on\<rparr>)"
| "power_command Siren on key = Cmd_Siren (new_SirenCommand\<lparr>srnc_key := key, srnc_state := Some on\<rparr>)"
| "power_command _ on key = Cmd_Switch \<lparr>swtc_key = key, swtc_state = on\<rparr>"

interpretation switch_toggle: toggle_handle switch_entity_state swts_state switch_entity_set_power "power_command Switch"
  by unfold_locales (simp add: switch_entity_set_power_def)

interpretation light_toggle: toggle_handle light_entity_state lgts_state light_entity_set_power "power_command Light"
  by unfold_locales (simp add: light_entity_set_power_def)

interpretation fan_toggle: toggle_handle fan_entity_state fans_state fan_entity_set_power "power_command Fan"
  by unfold_locales (simp add: fan_entity_set_power_def)

interpretation siren_toggle: toggle_handle siren_entity_state srns_state siren_entity_set_power "power_command Siren"
  by unfold_locales (simp add: siren_entity_set_power_def)

text \<open>The member \<^verbatim>\<open>toggle\<close> of the four classes that inherit it.\<close>

definition switch_entity_toggle :: "entity \<Rightarrow> client \<Rightarrow> (api_error option \<times> client) access" where
  "switch_entity_toggle h cl =
     toggle_entity_toggle (\<lambda>on. switch_entity_set_power on h) (toggle_entity_is_on swts_state (switch_entity_state h cl)) cl"

definition light_entity_toggle :: "entity \<Rightarrow> client \<Rightarrow> (api_error option \<times> client) access" where
  "light_entity_toggle h cl =
     toggle_entity_toggle (\<lambda>on. light_entity_set_power on h) (toggle_entity_is_on lgts_state (light_entity_state h cl)) cl"

definition fan_entity_toggle :: "entity \<Rightarrow> client \<Rightarrow> (api_error option \<times> client) access" where
  "fan_entity_toggle h cl =
     toggle_entity_toggle (\<lambda>on. fan_entity_set_power on h) (toggle_entity_is_on fans_state (fan_entity_state h cl)) cl"

definition siren_entity_toggle :: "entity \<Rightarrow> client \<Rightarrow> (api_error option \<times> client) access" where
  "siren_entity_toggle h cl =
     toggle_entity_toggle (\<lambda>on. siren_entity_set_power on h) (toggle_entity_is_on srns_state (siren_entity_state h cl)) cl"

text \<open>The power that a state reports, and \<^verbatim>\<open>toggle\<close> by domain.\<close>

fun power_of :: "entity_state \<Rightarrow> bool option" where
  "power_of (St_Switch s) = Some (swts_state s)"
| "power_of (St_Light s) = Some (lgts_state s)"
| "power_of (St_Fan s) = Some (fans_state s)"
| "power_of (St_Siren s) = Some (srns_state s)"
| "power_of _ = None"

definition domain_toggle :: "entity_type \<Rightarrow> entity \<Rightarrow> client \<Rightarrow> (api_error option \<times> client) access" where
  "domain_toggle ty h cl =
     (case ty of Switch \<Rightarrow> switch_entity_toggle h cl | Light \<Rightarrow> light_entity_toggle h cl
      | Fan \<Rightarrow> fan_entity_toggle h cl | Siren \<Rightarrow> siren_entity_toggle h cl | _ \<Rightarrow> Nullopt)"

lemma handle_states:
  "stored_state Switch (cl_store cl) (en_key h) = map_access St_Switch (switch_entity_state h cl)"
  "stored_state Light (cl_store cl) (en_key h) = map_access St_Light (light_entity_state h cl)"
  "stored_state Fan (cl_store cl) (en_key h) = map_access St_Fan (fan_entity_state h cl)"
  "stored_state Siren (cl_store cl) (en_key h) = map_access St_Siren (siren_entity_state h cl)"
  by (simp_all add: stored_state_def switch_entity_state_def light_entity_state_def fan_entity_state_def siren_entity_state_def)

lemma map_access_eq_Access: "map_access f x = Access y \<longleftrightarrow> (\<exists>z. x = Access z \<and> y = f z)"
  by (cases x) auto

lemma power_of_settled: "power_of (settle_state st) = power_of st"
  by (cases st) (simp_all add: settle_LightState_def)

lemma domain_toggle_known:
  assumes "stored_state (state_domain st) (cl_store cl) (en_key h) = Access (settle_state st)" "power_of st = Some on"
  shows "domain_toggle (state_domain st) h cl =
    Access (send_command (power_command (state_domain st) (\<not> on) (en_key h)) cl)"
  using assms
  by (cases st)
    (auto simp: domain_toggle_def handle_states map_access_eq_Access switch_entity_toggle_def light_entity_toggle_def
      fan_entity_toggle_def siren_entity_toggle_def settle_LightState_def
      switch_toggle.toggles_known light_toggle.toggles_known fan_toggle.toggles_known siren_toggle.toggles_known
      simp del: toggle_entity_toggle.simps power_command.simps)

section \<open>Everything that a handle can send\<close>

text \<open>One alternative per command helper of the 19 handles that have any, and what it runs.\<close>

datatype (plugins only:) handle_action =
    Do_Switch_command SwitchCommand
  | Do_Switch_set_power bool
  | Do_Light_command LightCommand
  | Do_Light_set_power bool
  | Do_Light_set_brightness u32
  | Do_Light_set_rgb u32 u32 u32
  | Do_Cover_command CoverCommand
  | Do_Cover_open
  | Do_Cover_close
  | Do_Cover_stop
  | Do_Cover_set_position u32
  | Do_Fan_command FanCommand
  | Do_Fan_set_power bool
  | Do_Fan_set_speed u32
  | Do_Climate_command ClimateCommand
  | Do_Climate_set_mode u32
  | Do_Climate_set_target_temperature u32
  | Do_Number_command NumberCommand
  | Do_Number_set u32
  | Do_Select_command SelectCommand
  | Do_Select_set string
  | Do_Text_command TextCommand
  | Do_Text_set string
  | Do_Button_command ButtonCommand
  | Do_Button_press
  | Do_Lock_command LockCommandData
  | Do_Lock_lock
  | Do_Lock_unlock
  | Do_Lock_open
  | Do_MediaPlayer_command MediaPlayerControl
  | Do_MediaPlayer_play
  | Do_MediaPlayer_pause
  | Do_MediaPlayer_stop
  | Do_MediaPlayer_set_volume u32
  | Do_Siren_command SirenCommand
  | Do_Siren_set_power bool
  | Do_AlarmControlPanel_command AlarmControlPanelCommand
  | Do_AlarmControlPanel_disarm string
  | Do_AlarmControlPanel_arm_away string
  | Do_AlarmControlPanel_arm_home string
  | Do_Date_command DateCommand
  | Do_Date_set u32 u32 u32
  | Do_Time_command TimeCommand
  | Do_Time_set u32 u32 u32
  | Do_DateTime_command DateTimeCommand
  | Do_DateTime_set u32
  | Do_Valve_command ValveCommand
  | Do_Valve_open
  | Do_Valve_close
  | Do_Valve_stop
  | Do_Update_command UpdateControl
  | Do_Update_install
  | Do_Update_check
  | Do_WaterHeater_command WaterHeaterCommand

fun perform :: "handle_action \<Rightarrow> entity \<Rightarrow> sender" where
  "perform (Do_Switch_command c) h = switch_entity_command c h"
| "perform (Do_Switch_set_power on) h = switch_entity_set_power on h"
| "perform (Do_Light_command c) h = light_entity_command c h"
| "perform (Do_Light_set_power on) h = light_entity_set_power on h"
| "perform (Do_Light_set_brightness b) h = light_entity_set_brightness b h"
| "perform (Do_Light_set_rgb r g b) h = light_entity_set_rgb r g b h"
| "perform (Do_Cover_command c) h = cover_entity_command c h"
| "perform Do_Cover_open h = cover_entity_open h"
| "perform Do_Cover_close h = cover_entity_close h"
| "perform Do_Cover_stop h = cover_entity_stop h"
| "perform (Do_Cover_set_position p) h = cover_entity_set_position p h"
| "perform (Do_Fan_command c) h = fan_entity_command c h"
| "perform (Do_Fan_set_power on) h = fan_entity_set_power on h"
| "perform (Do_Fan_set_speed level) h = fan_entity_set_speed level h"
| "perform (Do_Climate_command c) h = climate_entity_command c h"
| "perform (Do_Climate_set_mode m) h = climate_entity_set_mode m h"
| "perform (Do_Climate_set_target_temperature t) h = climate_entity_set_target_temperature t h"
| "perform (Do_Number_command c) h = number_entity_command c h"
| "perform (Do_Number_set v) h = number_entity_set v h"
| "perform (Do_Select_command c) h = select_entity_command c h"
| "perform (Do_Select_set v) h = select_entity_set v h"
| "perform (Do_Text_command c) h = text_entity_command c h"
| "perform (Do_Text_set v) h = text_entity_set v h"
| "perform (Do_Button_command c) h = button_entity_command c h"
| "perform Do_Button_press h = button_entity_press h"
| "perform (Do_Lock_command c) h = lock_entity_command c h"
| "perform Do_Lock_lock h = lock_entity_lock h"
| "perform Do_Lock_unlock h = lock_entity_unlock h"
| "perform Do_Lock_open h = lock_entity_open h"
| "perform (Do_MediaPlayer_command c) h = media_player_entity_command c h"
| "perform Do_MediaPlayer_play h = media_player_entity_play h"
| "perform Do_MediaPlayer_pause h = media_player_entity_pause h"
| "perform Do_MediaPlayer_stop h = media_player_entity_stop h"
| "perform (Do_MediaPlayer_set_volume v) h = media_player_entity_set_volume v h"
| "perform (Do_Siren_command c) h = siren_entity_command c h"
| "perform (Do_Siren_set_power on) h = siren_entity_set_power on h"
| "perform (Do_AlarmControlPanel_command c) h = alarm_control_panel_entity_command c h"
| "perform (Do_AlarmControlPanel_disarm code) h = alarm_control_panel_entity_disarm code h"
| "perform (Do_AlarmControlPanel_arm_away code) h = alarm_control_panel_entity_arm_away code h"
| "perform (Do_AlarmControlPanel_arm_home code) h = alarm_control_panel_entity_arm_home code h"
| "perform (Do_Date_command c) h = date_entity_command c h"
| "perform (Do_Date_set year month day) h = date_entity_set year month day h"
| "perform (Do_Time_command c) h = time_entity_command c h"
| "perform (Do_Time_set hour minute second) h = time_entity_set hour minute second h"
| "perform (Do_DateTime_command c) h = datetime_entity_command c h"
| "perform (Do_DateTime_set epoch_seconds) h = datetime_entity_set epoch_seconds h"
| "perform (Do_Valve_command c) h = valve_entity_command c h"
| "perform Do_Valve_open h = valve_entity_open h"
| "perform Do_Valve_close h = valve_entity_close h"
| "perform Do_Valve_stop h = valve_entity_stop h"
| "perform (Do_Update_command c) h = update_entity_command c h"
| "perform Do_Update_install h = update_entity_install h"
| "perform Do_Update_check h = update_entity_check h"
| "perform (Do_WaterHeater_command c) h = water_heater_entity_command c h"

fun action_command :: "handle_action \<Rightarrow> u32 \<Rightarrow> command" where
  "action_command (Do_Switch_command c) key = Cmd_Switch (c\<lparr>swtc_key := key\<rparr>)"
| "action_command (Do_Switch_set_power on) key = Cmd_Switch \<lparr>swtc_key = key, swtc_state = on\<rparr>"
| "action_command (Do_Light_command c) key = Cmd_Light (c\<lparr>lgtc_key := key\<rparr>)"
| "action_command (Do_Light_set_power on) key = Cmd_Light (new_LightCommand\<lparr>lgtc_key := key, lgtc_state := Some on\<rparr>)"
| "action_command (Do_Light_set_brightness b) key = Cmd_Light (new_LightCommand\<lparr>lgtc_key := key, lgtc_state := Some True, lgtc_brightness := Some b\<rparr>)"
| "action_command (Do_Light_set_rgb r g b) key = Cmd_Light (new_LightCommand\<lparr>lgtc_key := key, lgtc_state := Some True, lgtc_rgb := Some \<lparr>rgb_red = r, rgb_green = g, rgb_blue = b\<rparr>\<rparr>)"
| "action_command (Do_Cover_command c) key = Cmd_Cover (c\<lparr>covc_key := key\<rparr>)"
| "action_command Do_Cover_open key = Cmd_Cover (new_CoverCommand\<lparr>covc_key := key, covc_position := Some one_f\<rparr>)"
| "action_command Do_Cover_close key = Cmd_Cover (new_CoverCommand\<lparr>covc_key := key, covc_position := Some 0\<rparr>)"
| "action_command Do_Cover_stop key = Cmd_Cover (new_CoverCommand\<lparr>covc_key := key, covc_stop := True\<rparr>)"
| "action_command (Do_Cover_set_position p) key = Cmd_Cover (new_CoverCommand\<lparr>covc_key := key, covc_position := Some p\<rparr>)"
| "action_command (Do_Fan_command c) key = Cmd_Fan (c\<lparr>fanc_key := key\<rparr>)"
| "action_command (Do_Fan_set_power on) key = Cmd_Fan (new_FanCommand\<lparr>fanc_key := key, fanc_state := Some on\<rparr>)"
| "action_command (Do_Fan_set_speed level) key = Cmd_Fan (new_FanCommand\<lparr>fanc_key := key, fanc_speed_level := Some level\<rparr>)"
| "action_command (Do_Climate_command c) key = Cmd_Climate (c\<lparr>clmc_key := key\<rparr>)"
| "action_command (Do_Climate_set_mode m) key = Cmd_Climate (new_ClimateCommand\<lparr>clmc_key := key, clmc_mode := Some m\<rparr>)"
| "action_command (Do_Climate_set_target_temperature t) key = Cmd_Climate (new_ClimateCommand\<lparr>clmc_key := key, clmc_target_temperature := Some t\<rparr>)"
| "action_command (Do_Number_command c) key = Cmd_Number (c\<lparr>numc_key := key\<rparr>)"
| "action_command (Do_Number_set v) key = Cmd_Number \<lparr>numc_key = key, numc_state = v\<rparr>"
| "action_command (Do_Select_command c) key = Cmd_Select (c\<lparr>selc_key := key\<rparr>)"
| "action_command (Do_Select_set v) key = Cmd_Select \<lparr>selc_key = key, selc_state = v\<rparr>"
| "action_command (Do_Text_command c) key = Cmd_Text (c\<lparr>txtc_key := key\<rparr>)"
| "action_command (Do_Text_set v) key = Cmd_Text \<lparr>txtc_key = key, txtc_state = v\<rparr>"
| "action_command (Do_Button_command c) key = Cmd_Button (c\<lparr>btnc_key := key\<rparr>)"
| "action_command Do_Button_press key = Cmd_Button \<lparr>btnc_key = key\<rparr>"
| "action_command (Do_Lock_command c) key = Cmd_Lock (c\<lparr>lckc_key := key\<rparr>)"
| "action_command Do_Lock_lock key = Cmd_Lock (new_LockCommandData\<lparr>lckc_key := key, lckc_command := lock_command_lock\<rparr>)"
| "action_command Do_Lock_unlock key = Cmd_Lock (new_LockCommandData\<lparr>lckc_key := key, lckc_command := lock_command_unlock\<rparr>)"
| "action_command Do_Lock_open key = Cmd_Lock (new_LockCommandData\<lparr>lckc_key := key, lckc_command := lock_command_open\<rparr>)"
| "action_command (Do_MediaPlayer_command c) key = Cmd_MediaPlayer (c\<lparr>mplc_key := key\<rparr>)"
| "action_command Do_MediaPlayer_play key = Cmd_MediaPlayer (new_MediaPlayerControl\<lparr>mplc_key := key, mplc_command := Some media_player_command_play\<rparr>)"
| "action_command Do_MediaPlayer_pause key = Cmd_MediaPlayer (new_MediaPlayerControl\<lparr>mplc_key := key, mplc_command := Some media_player_command_pause\<rparr>)"
| "action_command Do_MediaPlayer_stop key = Cmd_MediaPlayer (new_MediaPlayerControl\<lparr>mplc_key := key, mplc_command := Some media_player_command_stop\<rparr>)"
| "action_command (Do_MediaPlayer_set_volume v) key = Cmd_MediaPlayer (new_MediaPlayerControl\<lparr>mplc_key := key, mplc_volume := Some v\<rparr>)"
| "action_command (Do_Siren_command c) key = Cmd_Siren (c\<lparr>srnc_key := key\<rparr>)"
| "action_command (Do_Siren_set_power on) key = Cmd_Siren (new_SirenCommand\<lparr>srnc_key := key, srnc_state := Some on\<rparr>)"
| "action_command (Do_AlarmControlPanel_command c) key = Cmd_AlarmControlPanel (c\<lparr>acpc_key := key\<rparr>)"
| "action_command (Do_AlarmControlPanel_disarm code) key = Cmd_AlarmControlPanel \<lparr>acpc_key = key, acpc_command = alarm_control_panel_state_command_disarm, acpc_code = code\<rparr>"
| "action_command (Do_AlarmControlPanel_arm_away code) key = Cmd_AlarmControlPanel \<lparr>acpc_key = key, acpc_command = alarm_control_panel_state_command_arm_away, acpc_code = code\<rparr>"
| "action_command (Do_AlarmControlPanel_arm_home code) key = Cmd_AlarmControlPanel \<lparr>acpc_key = key, acpc_command = alarm_control_panel_state_command_arm_home, acpc_code = code\<rparr>"
| "action_command (Do_Date_command c) key = Cmd_Date (c\<lparr>datc_key := key\<rparr>)"
| "action_command (Do_Date_set year month day) key = Cmd_Date \<lparr>datc_key = key, datc_year = year, datc_month = month, datc_day = day\<rparr>"
| "action_command (Do_Time_command c) key = Cmd_Time (c\<lparr>timc_key := key\<rparr>)"
| "action_command (Do_Time_set hour minute second) key = Cmd_Time \<lparr>timc_key = key, timc_hour = hour, timc_minute = minute, timc_second = second\<rparr>"
| "action_command (Do_DateTime_command c) key = Cmd_DateTime (c\<lparr>dtmc_key := key\<rparr>)"
| "action_command (Do_DateTime_set epoch_seconds) key = Cmd_DateTime \<lparr>dtmc_key = key, dtmc_epoch_seconds = epoch_seconds\<rparr>"
| "action_command (Do_Valve_command c) key = Cmd_Valve (c\<lparr>vlvc_key := key\<rparr>)"
| "action_command Do_Valve_open key = Cmd_Valve (new_ValveCommand\<lparr>vlvc_key := key, vlvc_position := Some one_f\<rparr>)"
| "action_command Do_Valve_close key = Cmd_Valve (new_ValveCommand\<lparr>vlvc_key := key, vlvc_position := Some 0\<rparr>)"
| "action_command Do_Valve_stop key = Cmd_Valve (new_ValveCommand\<lparr>vlvc_key := key, vlvc_stop := True\<rparr>)"
| "action_command (Do_Update_command c) key = Cmd_Update (c\<lparr>updc_key := key\<rparr>)"
| "action_command Do_Update_install key = Cmd_Update \<lparr>updc_key = key, updc_command = update_command_update\<rparr>"
| "action_command Do_Update_check key = Cmd_Update \<lparr>updc_key = key, updc_command = update_command_check\<rparr>"
| "action_command (Do_WaterHeater_command c) key = Cmd_WaterHeater (c\<lparr>whtc_key := key\<rparr>)"

fun action_domain :: "handle_action \<Rightarrow> entity_type" where
  "action_domain (Do_Switch_command _) = Switch"
| "action_domain (Do_Switch_set_power _) = Switch"
| "action_domain (Do_Light_command _) = Light"
| "action_domain (Do_Light_set_power _) = Light"
| "action_domain (Do_Light_set_brightness _) = Light"
| "action_domain (Do_Light_set_rgb _ _ _) = Light"
| "action_domain (Do_Cover_command _) = Cover"
| "action_domain Do_Cover_open = Cover"
| "action_domain Do_Cover_close = Cover"
| "action_domain Do_Cover_stop = Cover"
| "action_domain (Do_Cover_set_position _) = Cover"
| "action_domain (Do_Fan_command _) = Fan"
| "action_domain (Do_Fan_set_power _) = Fan"
| "action_domain (Do_Fan_set_speed _) = Fan"
| "action_domain (Do_Climate_command _) = Climate"
| "action_domain (Do_Climate_set_mode _) = Climate"
| "action_domain (Do_Climate_set_target_temperature _) = Climate"
| "action_domain (Do_Number_command _) = Number"
| "action_domain (Do_Number_set _) = Number"
| "action_domain (Do_Select_command _) = Select"
| "action_domain (Do_Select_set _) = Select"
| "action_domain (Do_Text_command _) = Text"
| "action_domain (Do_Text_set _) = Text"
| "action_domain (Do_Button_command _) = Button"
| "action_domain Do_Button_press = Button"
| "action_domain (Do_Lock_command _) = Lock"
| "action_domain Do_Lock_lock = Lock"
| "action_domain Do_Lock_unlock = Lock"
| "action_domain Do_Lock_open = Lock"
| "action_domain (Do_MediaPlayer_command _) = MediaPlayer"
| "action_domain Do_MediaPlayer_play = MediaPlayer"
| "action_domain Do_MediaPlayer_pause = MediaPlayer"
| "action_domain Do_MediaPlayer_stop = MediaPlayer"
| "action_domain (Do_MediaPlayer_set_volume _) = MediaPlayer"
| "action_domain (Do_Siren_command _) = Siren"
| "action_domain (Do_Siren_set_power _) = Siren"
| "action_domain (Do_AlarmControlPanel_command _) = AlarmControlPanel"
| "action_domain (Do_AlarmControlPanel_disarm _) = AlarmControlPanel"
| "action_domain (Do_AlarmControlPanel_arm_away _) = AlarmControlPanel"
| "action_domain (Do_AlarmControlPanel_arm_home _) = AlarmControlPanel"
| "action_domain (Do_Date_command _) = Date"
| "action_domain (Do_Date_set _ _ _) = Date"
| "action_domain (Do_Time_command _) = Time"
| "action_domain (Do_Time_set _ _ _) = Time"
| "action_domain (Do_DateTime_command _) = DateTime"
| "action_domain (Do_DateTime_set _) = DateTime"
| "action_domain (Do_Valve_command _) = Valve"
| "action_domain Do_Valve_open = Valve"
| "action_domain Do_Valve_close = Valve"
| "action_domain Do_Valve_stop = Valve"
| "action_domain (Do_Update_command _) = Update"
| "action_domain Do_Update_install = Update"
| "action_domain Do_Update_check = Update"
| "action_domain (Do_WaterHeater_command _) = WaterHeater"

fun command_key :: "command \<Rightarrow> u32" where
  "command_key (Cmd_Switch c) = swtc_key c"
| "command_key (Cmd_Button c) = btnc_key c"
| "command_key (Cmd_Number c) = numc_key c"
| "command_key (Cmd_Select c) = selc_key c"
| "command_key (Cmd_Text c) = txtc_key c"
| "command_key (Cmd_Light c) = lgtc_key c"
| "command_key (Cmd_Fan c) = fanc_key c"
| "command_key (Cmd_Cover c) = covc_key c"
| "command_key (Cmd_Valve c) = vlvc_key c"
| "command_key (Cmd_Lock c) = lckc_key c"
| "command_key (Cmd_Siren c) = srnc_key c"
| "command_key (Cmd_Climate c) = clmc_key c"
| "command_key (Cmd_WaterHeater c) = whtc_key c"
| "command_key (Cmd_MediaPlayer c) = mplc_key c"
| "command_key (Cmd_AlarmControlPanel c) = acpc_key c"
| "command_key (Cmd_Date c) = datc_key c"
| "command_key (Cmd_Time c) = timc_key c"
| "command_key (Cmd_DateTime c) = dtmc_key c"
| "command_key (Cmd_Update c) = updc_key c"

fun command_domain :: "command \<Rightarrow> entity_type" where
  "command_domain (Cmd_Switch _) = Switch"
| "command_domain (Cmd_Button _) = Button"
| "command_domain (Cmd_Number _) = Number"
| "command_domain (Cmd_Select _) = Select"
| "command_domain (Cmd_Text _) = Text"
| "command_domain (Cmd_Light _) = Light"
| "command_domain (Cmd_Fan _) = Fan"
| "command_domain (Cmd_Cover _) = Cover"
| "command_domain (Cmd_Valve _) = Valve"
| "command_domain (Cmd_Lock _) = Lock"
| "command_domain (Cmd_Siren _) = Siren"
| "command_domain (Cmd_Climate _) = Climate"
| "command_domain (Cmd_WaterHeater _) = WaterHeater"
| "command_domain (Cmd_MediaPlayer _) = MediaPlayer"
| "command_domain (Cmd_AlarmControlPanel _) = AlarmControlPanel"
| "command_domain (Cmd_Date _) = Date"
| "command_domain (Cmd_Time _) = Time"
| "command_domain (Cmd_DateTime _) = DateTime"
| "command_domain (Cmd_Update _) = Update"

lemma perform_sends: "perform a h = send_command (action_command a (en_key h))"
  by (cases a; simp only: perform.simps action_command.simps switch_entity_command_def switch_entity_set_power_def light_entity_command_def light_entity_set_power_def
    light_entity_set_brightness_def light_entity_set_rgb_def cover_entity_command_def cover_entity_open_def
    cover_entity_close_def cover_entity_stop_def cover_entity_set_position_def fan_entity_command_def
    fan_entity_set_power_def fan_entity_set_speed_def climate_entity_command_def climate_entity_set_mode_def
    climate_entity_set_target_temperature_def number_entity_command_def number_entity_set_def
    select_entity_command_def select_entity_set_def text_entity_command_def text_entity_set_def
    button_entity_command_def button_entity_press_def lock_entity_command_def lock_entity_lock_def
    lock_entity_unlock_def lock_entity_open_def media_player_entity_command_def media_player_entity_play_def
    media_player_entity_pause_def media_player_entity_stop_def media_player_entity_set_volume_def
    siren_entity_command_def siren_entity_set_power_def alarm_control_panel_entity_command_def
    alarm_control_panel_entity_disarm_def alarm_control_panel_entity_arm_away_def
    alarm_control_panel_entity_arm_home_def date_entity_command_def date_entity_set_def time_entity_command_def
    time_entity_set_def datetime_entity_command_def datetime_entity_set_def valve_entity_command_def
    valve_entity_open_def valve_entity_close_def valve_entity_stop_def update_entity_command_def
    update_entity_install_def update_entity_check_def water_heater_entity_command_def)

lemma action_addresses: "command_key (action_command a key) = key" "command_domain (action_command a key) = action_domain a"
  by (cases a; simp)+

lemma settle_addresses: "command_key (settle c) = command_key c" "command_domain (settle c) = command_domain c"
  by (cases c; simp add: settle_NumberCommand_def settle_LightCommand_def settle_CoverCommand_def settle_ValveCommand_def settle_SirenCommand_def settle_ClimateCommand_def settle_WaterHeaterCommand_def settle_MediaPlayerControl_def)+

definition perform_all :: "(handle_action \<times> entity) list \<Rightarrow> client \<Rightarrow> client" where
  "perform_all acts cl = fold (\<lambda>(a, h) cl. snd (perform a h cl)) acts cl"

lemma perform_all_sends: "perform_all acts cl = send_commands (map (\<lambda>(a, h). action_command a (en_key h)) acts) cl"
  by (induction acts arbitrary: cl) (auto simp: perform_all_def send_commands_def perform_sends)

end
