(* ===== verification/Entity_Registry.thy ===== *)
theory Entity_Registry
  imports Entity_Handles
begin

text \<open>
  The registry of \<^verbatim>\<open>include/esphome/api/model/entity_registry.hpp\<close>: snapshot lists of handles of one domain, and lookups by
  key and by object id over the store of a client.  The order in which the store enumerates its entries is the
  argument \<open>iter\<close>, as in \<open>Entity_Store\<close>.  What it shows holds in every state that a client can reach.
\<close>

section \<open>Lists of handles\<close>

definition items_size :: "entity list \<Rightarrow> nat" where
  "items_size items = length items"

definition items_empty :: "entity list \<Rightarrow> bool" where
  "items_empty items \<longleftrightarrow> items = []"

text \<open>\<^verbatim>\<open>at\<close> throws \<^verbatim>\<open>std::out_of_range\<close>.\<close>

definition items_at :: "nat \<Rightarrow> entity list \<Rightarrow> entity option" where
  "items_at i items = (if i < length items then Some (items ! i) else None)"

fun list_find_key :: "u32 \<Rightarrow> entity list \<Rightarrow> entity option" where
  "list_find_key key [] = None"
| "list_find_key key (e # es) = (if en_key e = key then Some e else list_find_key key es)"

fun list_find_object_id :: "string \<Rightarrow> entity list \<Rightarrow> entity option" where
  "list_find_object_id oid [] = None"
| "list_find_object_id oid (e # es) = (if en_object_id e = oid then Some e else list_find_object_id oid es)"

section \<open>The registry\<close>

definition entities_total :: "client \<Rightarrow> nat" where
  "entities_total cl = card (dom (entities (cl_store cl)))"

definition handle_of :: "'b stored_entity \<Rightarrow> entity" where
  "handle_of e = \<lparr>en_key = se_key e, en_object_id = se_object_id e, en_name = se_name e\<rparr>"

definition collect :: "message iteration \<Rightarrow> entity_type \<Rightarrow> client \<Rightarrow> entity list" where
  "collect iter ty cl = map handle_of (filter (\<lambda>e. se_type e = ty) (all_entities iter (cl_store cl)))"

definition one :: "entity_type \<Rightarrow> 'b stored_entity option \<Rightarrow> entity option" where
  "one ty e = (case e of None \<Rightarrow> None | Some e \<Rightarrow> if se_type e \<noteq> ty then None else Some (handle_of e))"

definition all_binary_sensors :: "message iteration \<Rightarrow> client \<Rightarrow> entity list" where
  "all_binary_sensors iter = collect iter BinarySensor"

definition binary_sensor_by_key :: "u32 \<Rightarrow> client \<Rightarrow> entity option" where
  "binary_sensor_by_key key cl = one BinarySensor (store_find (cl_store cl) key)"

definition binary_sensor_by_object_id :: "message iteration \<Rightarrow> string \<Rightarrow> client \<Rightarrow> entity option" where
  "binary_sensor_by_object_id iter oid cl = one BinarySensor (find_by_object_id iter (cl_store cl) oid)"

definition all_sensors :: "message iteration \<Rightarrow> client \<Rightarrow> entity list" where
  "all_sensors iter = collect iter Sensor"

definition sensor_by_key :: "u32 \<Rightarrow> client \<Rightarrow> entity option" where
  "sensor_by_key key cl = one Sensor (store_find (cl_store cl) key)"

definition sensor_by_object_id :: "message iteration \<Rightarrow> string \<Rightarrow> client \<Rightarrow> entity option" where
  "sensor_by_object_id iter oid cl = one Sensor (find_by_object_id iter (cl_store cl) oid)"

definition all_text_sensors :: "message iteration \<Rightarrow> client \<Rightarrow> entity list" where
  "all_text_sensors iter = collect iter TextSensor"

definition text_sensor_by_key :: "u32 \<Rightarrow> client \<Rightarrow> entity option" where
  "text_sensor_by_key key cl = one TextSensor (store_find (cl_store cl) key)"

definition text_sensor_by_object_id :: "message iteration \<Rightarrow> string \<Rightarrow> client \<Rightarrow> entity option" where
  "text_sensor_by_object_id iter oid cl = one TextSensor (find_by_object_id iter (cl_store cl) oid)"

definition all_switches :: "message iteration \<Rightarrow> client \<Rightarrow> entity list" where
  "all_switches iter = collect iter Switch"

definition switch_by_key :: "u32 \<Rightarrow> client \<Rightarrow> entity option" where
  "switch_by_key key cl = one Switch (store_find (cl_store cl) key)"

definition switch_by_object_id :: "message iteration \<Rightarrow> string \<Rightarrow> client \<Rightarrow> entity option" where
  "switch_by_object_id iter oid cl = one Switch (find_by_object_id iter (cl_store cl) oid)"

definition all_lights :: "message iteration \<Rightarrow> client \<Rightarrow> entity list" where
  "all_lights iter = collect iter Light"

definition light_by_key :: "u32 \<Rightarrow> client \<Rightarrow> entity option" where
  "light_by_key key cl = one Light (store_find (cl_store cl) key)"

definition light_by_object_id :: "message iteration \<Rightarrow> string \<Rightarrow> client \<Rightarrow> entity option" where
  "light_by_object_id iter oid cl = one Light (find_by_object_id iter (cl_store cl) oid)"

definition all_covers :: "message iteration \<Rightarrow> client \<Rightarrow> entity list" where
  "all_covers iter = collect iter Cover"

definition cover_by_key :: "u32 \<Rightarrow> client \<Rightarrow> entity option" where
  "cover_by_key key cl = one Cover (store_find (cl_store cl) key)"

definition cover_by_object_id :: "message iteration \<Rightarrow> string \<Rightarrow> client \<Rightarrow> entity option" where
  "cover_by_object_id iter oid cl = one Cover (find_by_object_id iter (cl_store cl) oid)"

definition all_fans :: "message iteration \<Rightarrow> client \<Rightarrow> entity list" where
  "all_fans iter = collect iter Fan"

definition fan_by_key :: "u32 \<Rightarrow> client \<Rightarrow> entity option" where
  "fan_by_key key cl = one Fan (store_find (cl_store cl) key)"

definition fan_by_object_id :: "message iteration \<Rightarrow> string \<Rightarrow> client \<Rightarrow> entity option" where
  "fan_by_object_id iter oid cl = one Fan (find_by_object_id iter (cl_store cl) oid)"

definition all_climates :: "message iteration \<Rightarrow> client \<Rightarrow> entity list" where
  "all_climates iter = collect iter Climate"

definition climate_by_key :: "u32 \<Rightarrow> client \<Rightarrow> entity option" where
  "climate_by_key key cl = one Climate (store_find (cl_store cl) key)"

definition climate_by_object_id :: "message iteration \<Rightarrow> string \<Rightarrow> client \<Rightarrow> entity option" where
  "climate_by_object_id iter oid cl = one Climate (find_by_object_id iter (cl_store cl) oid)"

definition all_numbers :: "message iteration \<Rightarrow> client \<Rightarrow> entity list" where
  "all_numbers iter = collect iter Number"

definition number_by_key :: "u32 \<Rightarrow> client \<Rightarrow> entity option" where
  "number_by_key key cl = one Number (store_find (cl_store cl) key)"

definition number_by_object_id :: "message iteration \<Rightarrow> string \<Rightarrow> client \<Rightarrow> entity option" where
  "number_by_object_id iter oid cl = one Number (find_by_object_id iter (cl_store cl) oid)"

definition all_selects :: "message iteration \<Rightarrow> client \<Rightarrow> entity list" where
  "all_selects iter = collect iter Select"

definition select_by_key :: "u32 \<Rightarrow> client \<Rightarrow> entity option" where
  "select_by_key key cl = one Select (store_find (cl_store cl) key)"

definition select_by_object_id :: "message iteration \<Rightarrow> string \<Rightarrow> client \<Rightarrow> entity option" where
  "select_by_object_id iter oid cl = one Select (find_by_object_id iter (cl_store cl) oid)"

definition all_texts :: "message iteration \<Rightarrow> client \<Rightarrow> entity list" where
  "all_texts iter = collect iter Text"

definition text_by_key :: "u32 \<Rightarrow> client \<Rightarrow> entity option" where
  "text_by_key key cl = one Text (store_find (cl_store cl) key)"

definition text_by_object_id :: "message iteration \<Rightarrow> string \<Rightarrow> client \<Rightarrow> entity option" where
  "text_by_object_id iter oid cl = one Text (find_by_object_id iter (cl_store cl) oid)"

definition all_buttons :: "message iteration \<Rightarrow> client \<Rightarrow> entity list" where
  "all_buttons iter = collect iter Button"

definition button_by_key :: "u32 \<Rightarrow> client \<Rightarrow> entity option" where
  "button_by_key key cl = one Button (store_find (cl_store cl) key)"

definition button_by_object_id :: "message iteration \<Rightarrow> string \<Rightarrow> client \<Rightarrow> entity option" where
  "button_by_object_id iter oid cl = one Button (find_by_object_id iter (cl_store cl) oid)"

definition all_locks :: "message iteration \<Rightarrow> client \<Rightarrow> entity list" where
  "all_locks iter = collect iter Lock"

definition lock_by_key :: "u32 \<Rightarrow> client \<Rightarrow> entity option" where
  "lock_by_key key cl = one Lock (store_find (cl_store cl) key)"

definition lock_by_object_id :: "message iteration \<Rightarrow> string \<Rightarrow> client \<Rightarrow> entity option" where
  "lock_by_object_id iter oid cl = one Lock (find_by_object_id iter (cl_store cl) oid)"

definition all_media_players :: "message iteration \<Rightarrow> client \<Rightarrow> entity list" where
  "all_media_players iter = collect iter MediaPlayer"

definition media_player_by_key :: "u32 \<Rightarrow> client \<Rightarrow> entity option" where
  "media_player_by_key key cl = one MediaPlayer (store_find (cl_store cl) key)"

definition media_player_by_object_id :: "message iteration \<Rightarrow> string \<Rightarrow> client \<Rightarrow> entity option" where
  "media_player_by_object_id iter oid cl = one MediaPlayer (find_by_object_id iter (cl_store cl) oid)"

definition all_cameras :: "message iteration \<Rightarrow> client \<Rightarrow> entity list" where
  "all_cameras iter = collect iter Camera"

definition camera_by_key :: "u32 \<Rightarrow> client \<Rightarrow> entity option" where
  "camera_by_key key cl = one Camera (store_find (cl_store cl) key)"

definition camera_by_object_id :: "message iteration \<Rightarrow> string \<Rightarrow> client \<Rightarrow> entity option" where
  "camera_by_object_id iter oid cl = one Camera (find_by_object_id iter (cl_store cl) oid)"

definition all_sirens :: "message iteration \<Rightarrow> client \<Rightarrow> entity list" where
  "all_sirens iter = collect iter Siren"

definition siren_by_key :: "u32 \<Rightarrow> client \<Rightarrow> entity option" where
  "siren_by_key key cl = one Siren (store_find (cl_store cl) key)"

definition siren_by_object_id :: "message iteration \<Rightarrow> string \<Rightarrow> client \<Rightarrow> entity option" where
  "siren_by_object_id iter oid cl = one Siren (find_by_object_id iter (cl_store cl) oid)"

definition all_alarm_control_panels :: "message iteration \<Rightarrow> client \<Rightarrow> entity list" where
  "all_alarm_control_panels iter = collect iter AlarmControlPanel"

definition alarm_control_panel_by_key :: "u32 \<Rightarrow> client \<Rightarrow> entity option" where
  "alarm_control_panel_by_key key cl = one AlarmControlPanel (store_find (cl_store cl) key)"

definition alarm_control_panel_by_object_id :: "message iteration \<Rightarrow> string \<Rightarrow> client \<Rightarrow> entity option" where
  "alarm_control_panel_by_object_id iter oid cl = one AlarmControlPanel (find_by_object_id iter (cl_store cl) oid)"

definition all_dates :: "message iteration \<Rightarrow> client \<Rightarrow> entity list" where
  "all_dates iter = collect iter Date"

definition date_by_key :: "u32 \<Rightarrow> client \<Rightarrow> entity option" where
  "date_by_key key cl = one Date (store_find (cl_store cl) key)"

definition date_by_object_id :: "message iteration \<Rightarrow> string \<Rightarrow> client \<Rightarrow> entity option" where
  "date_by_object_id iter oid cl = one Date (find_by_object_id iter (cl_store cl) oid)"

definition all_times :: "message iteration \<Rightarrow> client \<Rightarrow> entity list" where
  "all_times iter = collect iter Time"

definition time_by_key :: "u32 \<Rightarrow> client \<Rightarrow> entity option" where
  "time_by_key key cl = one Time (store_find (cl_store cl) key)"

definition time_by_object_id :: "message iteration \<Rightarrow> string \<Rightarrow> client \<Rightarrow> entity option" where
  "time_by_object_id iter oid cl = one Time (find_by_object_id iter (cl_store cl) oid)"

definition all_datetimes :: "message iteration \<Rightarrow> client \<Rightarrow> entity list" where
  "all_datetimes iter = collect iter DateTime"

definition datetime_by_key :: "u32 \<Rightarrow> client \<Rightarrow> entity option" where
  "datetime_by_key key cl = one DateTime (store_find (cl_store cl) key)"

definition datetime_by_object_id :: "message iteration \<Rightarrow> string \<Rightarrow> client \<Rightarrow> entity option" where
  "datetime_by_object_id iter oid cl = one DateTime (find_by_object_id iter (cl_store cl) oid)"

definition all_valves :: "message iteration \<Rightarrow> client \<Rightarrow> entity list" where
  "all_valves iter = collect iter Valve"

definition valve_by_key :: "u32 \<Rightarrow> client \<Rightarrow> entity option" where
  "valve_by_key key cl = one Valve (store_find (cl_store cl) key)"

definition valve_by_object_id :: "message iteration \<Rightarrow> string \<Rightarrow> client \<Rightarrow> entity option" where
  "valve_by_object_id iter oid cl = one Valve (find_by_object_id iter (cl_store cl) oid)"

definition all_events :: "message iteration \<Rightarrow> client \<Rightarrow> entity list" where
  "all_events iter = collect iter Event"

definition event_by_key :: "u32 \<Rightarrow> client \<Rightarrow> entity option" where
  "event_by_key key cl = one Event (store_find (cl_store cl) key)"

definition event_by_object_id :: "message iteration \<Rightarrow> string \<Rightarrow> client \<Rightarrow> entity option" where
  "event_by_object_id iter oid cl = one Event (find_by_object_id iter (cl_store cl) oid)"

definition all_updates :: "message iteration \<Rightarrow> client \<Rightarrow> entity list" where
  "all_updates iter = collect iter Update"

definition update_by_key :: "u32 \<Rightarrow> client \<Rightarrow> entity option" where
  "update_by_key key cl = one Update (store_find (cl_store cl) key)"

definition update_by_object_id :: "message iteration \<Rightarrow> string \<Rightarrow> client \<Rightarrow> entity option" where
  "update_by_object_id iter oid cl = one Update (find_by_object_id iter (cl_store cl) oid)"

definition all_water_heaters :: "message iteration \<Rightarrow> client \<Rightarrow> entity list" where
  "all_water_heaters iter = collect iter WaterHeater"

definition water_heater_by_key :: "u32 \<Rightarrow> client \<Rightarrow> entity option" where
  "water_heater_by_key key cl = one WaterHeater (store_find (cl_store cl) key)"

definition water_heater_by_object_id :: "message iteration \<Rightarrow> string \<Rightarrow> client \<Rightarrow> entity option" where
  "water_heater_by_object_id iter oid cl = one WaterHeater (find_by_object_id iter (cl_store cl) oid)"

definition all_infrareds :: "message iteration \<Rightarrow> client \<Rightarrow> entity list" where
  "all_infrareds iter = collect iter Infrared"

definition infrared_by_key :: "u32 \<Rightarrow> client \<Rightarrow> entity option" where
  "infrared_by_key key cl = one Infrared (store_find (cl_store cl) key)"

definition infrared_by_object_id :: "message iteration \<Rightarrow> string \<Rightarrow> client \<Rightarrow> entity option" where
  "infrared_by_object_id iter oid cl = one Infrared (find_by_object_id iter (cl_store cl) oid)"

definition all_radio_frequencys :: "message iteration \<Rightarrow> client \<Rightarrow> entity list" where
  "all_radio_frequencys iter = collect iter RadioFrequency"

definition radio_frequency_by_key :: "u32 \<Rightarrow> client \<Rightarrow> entity option" where
  "radio_frequency_by_key key cl = one RadioFrequency (store_find (cl_store cl) key)"

definition radio_frequency_by_object_id :: "message iteration \<Rightarrow> string \<Rightarrow> client \<Rightarrow> entity option" where
  "radio_frequency_by_object_id iter oid cl = one RadioFrequency (find_by_object_id iter (cl_store cl) oid)"

section \<open>Sessions of a client\<close>

text \<open>
  Everything that happens to a client: operations of its connection (connecting, bytes, timers, sending), of its
  configuration, and of its store.
\<close>

inductive client_session :: "bool \<Rightarrow> client_options \<Rightarrow> client \<Rightarrow> bool" for noise opts where
  session_init: "client_init noise opts = Inr cl \<Longrightarrow> client_session noise opts cl"
| session_act: "client_session noise opts cl \<Longrightarrow> client_session noise opts (snd (client_act a cl))"
| session_setup: "client_session noise opts cl \<Longrightarrow>
    f \<in> {client_add_any, client_on_raw, client_on_state, client_on_error} \<union> range client_on \<union> range use_subsystem \<Longrightarrow>
    client_session noise opts (f cl)"
| session_store: "client_session noise opts cl \<Longrightarrow> op \<in> {Clear, On_State} \<Longrightarrow>
    client_session noise opts (cl\<lparr>cl_store := apply_op op (cl_store cl)\<rparr>)"

text \<open>The messages that reach the store are objects of generated classes: every list message names a domain.\<close>

lemma schema_lists_known:
  "list_all (\<lambda>n. is_list_message n \<longrightarrow> entity_type_from_token (list_token n) \<noteq> Unknown) (map (\<lambda>(_, n, _). n) api_schema)"
  unfolding api_schema_def list.map prod.case by code_simp

lemma store_view_known: "known_lists [Ingest (store_view x)]"
proof (cases "schema_row (obj_id x)")
  case None
  then show ?thesis by (simp add: known_lists_def store_view_def obj_name_def is_list_message_def)
next
  case (Some r)
  then have "r \<in> set api_schema" by (simp add: schema_row_iff)
  with schema_lists_known Some show ?thesis
    by (cases r) (auto simp: known_lists_def store_view_def obj_name_def msg_type_def list_all_iff)
qed

lemma store_run_snoc: "store_run (ops @ [op]) = apply_op op (store_run ops)"
  by (simp add: store_run_def)

definition store_built :: "message entity_store \<Rightarrow> bool" where
  "store_built s \<longleftrightarrow> (\<exists>ops. s = store_run ops \<and> known_lists ops)"

lemma store_built_op: "store_built s \<Longrightarrow> known_lists [op] \<Longrightarrow> store_built (apply_op op s)"
  unfolding store_built_def
proof (elim exE conjE)
  fix ops assume "s = store_run ops" "known_lists ops" "known_lists [op]"
  then show "\<exists>ops'. apply_op op s = store_run ops' \<and> known_lists ops'"
    by (intro exI [of _ "ops @ [op]"]) (auto simp: store_run_snoc known_lists_def)
qed

lemma store_built_effects: "store_built (cl_store cl) \<Longrightarrow> store_built (cl_store (fold client_effect es cl))"
proof (induction es arbitrary: cl)
  case (Cons e es)
  have "store_built (cl_store (client_effect e cl))"
  proof (cases e)
    case (Eff_any x)
    then show ?thesis
      using store_built_op [OF Cons.prems store_view_known [of x]] by (simp only: Eff_any store_effect effect.case apply_op.simps)
  qed (use Cons.prems in \<open>simp_all add: store_effect\<close>)
  then show ?case using Cons.IH by simp
qed simp

lemma session_store_built: "client_session noise opts cl \<Longrightarrow> store_built (cl_store cl)"
proof (induction rule: client_session.induct)
  case (session_init cl)
  then have "cl_store cl = store_run []" by (auto simp: client_init_def store_run_def split: sum.splits)
  then show ?case unfolding store_built_def by (intro exI [of _ "[]"]) (simp add: known_lists_def)
next
  case (session_act cl a)
  obtain e c where a: "a (cl_conn cl) = (e, c)" by force
  show ?case using store_built_effects [of "cl\<lparr>cl_conn := c\<rparr>"] session_act.IH by (simp add: client_act_def a)
next
  case (session_setup cl f)
  then show ?case
    by (auto simp: client_add_any_def client_on_raw_def client_on_state_def client_on_error_def client_on_def use_subsystem_def)
next
  case (session_store cl op)
  then show ?case using store_built_op [of "cl_store cl" op] by (auto simp: known_lists_def)
qed

lemma session_store_facts:
  assumes "client_session noise opts cl"
  shows "finite (dom (entities (cl_store cl)))" "all_entries entity_ok (cl_store cl)" "all_entries typed_by_list (cl_store cl)"
  using session_store_built [OF assms] finite_store_run entity_ok_run typed_by_list_run by (auto simp: store_built_def)

lemma session_read_all: "client_session noise opts cl \<Longrightarrow> client_session noise opts (client_read_all chunks cl)"
  by (induction chunks arbitrary: cl) (simp_all add: client_read_all_def client_read_def session_act)

section \<open>What the registry returns\<close>

lemma session_entry:
  assumes "client_session noise opts cl" "entities (cl_store cl) key = Some e"
  shows "se_key e = key"
  using session_store_facts(2) [OF assms(1)] assms(2) by (auto simp: all_entries_def entity_ok_def)

lemma collected:
  assumes "iterates iter" "client_session noise opts cl"
  shows "h \<in> set (collect iter ty cl) \<longleftrightarrow> one ty (store_find (cl_store cl) (en_key h)) = Some h"
    and "map en_key (collect iter ty cl) = filter (\<lambda>k. se_type (the (entities (cl_store cl) k)) = ty) (iter (entities (cl_store cl)))"
proof -
  let ?m = "entities (cl_store cl)"
  have s: "set (iter ?m) = dom ?m" using assms(1) session_store_facts(1) [OF assms(2)] by (simp add: iterates_def)
  show "map en_key (collect iter ty cl) = filter (\<lambda>k. se_type (the (?m k)) = ty) (iter ?m)"
  proof -
    have "map (en_key \<circ> handle_of) (filter (\<lambda>e. se_type e = ty) (map (\<lambda>k. the (?m k)) ks)) =
        filter (\<lambda>k. se_type (the (?m k)) = ty) ks" if "set ks \<subseteq> dom ?m" for ks
      using that by (induction ks) (auto simp: handle_of_def session_entry [OF assms(2)])
    then show ?thesis using s by (simp add: collect_def all_entities_def)
  qed
  have "set (all_entities iter (cl_store cl)) = ran ?m"
    using s by (force simp: all_entities_def ran_def dom_def)
  then have "h \<in> set (collect iter ty cl) \<longleftrightarrow> (\<exists>k e. ?m k = Some e \<and> se_type e = ty \<and> h = handle_of e)"
    by (auto simp: collect_def ran_def)
  also have "\<dots> \<longleftrightarrow> (\<exists>e. ?m (en_key h) = Some e \<and> se_type e = ty \<and> h = handle_of e)"
    using session_entry [OF assms(2)] by (auto simp: handle_of_def)
  also have "\<dots> \<longleftrightarrow> one ty (store_find (cl_store cl) (en_key h)) = Some h"
  proof (cases "?m (en_key h)")
    case (Some e)
    then show ?thesis by (simp add: one_def store_find_def) blast
  qed (simp add: one_def store_find_def)
  finally show "h \<in> set (collect iter ty cl) \<longleftrightarrow> one ty (store_find (cl_store cl) (en_key h)) = Some h" .
qed

lemma collect_distinct:
  assumes "iterates iter" "client_session noise opts cl"
  shows "distinct (map en_key (collect iter ty cl))"
  using collected(2) [OF assms] session_store_facts(1) [OF assms(2)] assms(1) by (simp add: iterates_def)

lemma list_find_key_iff:
  "distinct (map en_key hs) \<Longrightarrow> list_find_key key hs = Some h \<longleftrightarrow> h \<in> set hs \<and> en_key h = key"
  by (induction hs) auto

lemma list_find_object_id_iff: "(\<exists>h. list_find_object_id oid hs = Some h) \<longleftrightarrow> oid \<in> en_object_id ` set hs"
  by (induction hs) auto

lemma map_access_Bad_Cast [simp]: "map_access f x = Bad_Cast \<longleftrightarrow> x = Bad_Cast"
  by (cases x) auto

lemma stored_info_safe: "all_entries typed_by_list s \<Longrightarrow> stored_info ty s key \<noteq> Bad_Cast"
  by (cases ty) (simp_all add: stored_info_def info_accessor_defs typed_info_safe)

lemma found_by_object_id:
  assumes "iterates iter" "client_session noise opts cl" "one ty (find_by_object_id iter (cl_store cl) oid) = Some h"
  shows "h \<in> set (collect iter ty cl) \<and> en_object_id h = oid"
proof -
  obtain e where e: "find_by_object_id iter (cl_store cl) oid = Some e" "se_type e = ty" "h = handle_of e"
    using assms(3) by (auto simp: one_def split: option.splits if_splits)
  obtain k where k: "se_object_id e = oid" "entities (cl_store cl) k = Some e"
    using find_by_object_id_Some [OF assms(1) session_store_facts(1) [OF assms(2)] e(1)] by blast
  have "en_key h = k" using session_entry [OF assms(2) k(2)] e(3) by (simp add: handle_of_def)
  then show ?thesis
    using collected(1) [OF assms(1,2), of h ty] e k by (simp add: one_def store_find_def) (simp add: handle_of_def)
qed

lemma missed_by_object_id:
  assumes "iterates iter" "client_session noise opts cl"
    and "one ty (find_by_object_id iter (cl_store cl) oid) = None" "list_find_object_id oid (collect iter ty cl) \<noteq> None"
  shows "\<exists>key e. store_find (cl_store cl) key = Some e \<and> se_object_id e = oid \<and> se_type e \<noteq> ty"
proof -
  note fin = session_store_facts(1) [OF assms(2)]
  obtain h where "h \<in> set (collect iter ty cl)" "en_object_id h = oid"
    using assms(4) list_find_object_id_iff [of oid "collect iter ty cl"] by auto
  then have "\<exists>k e. entities (cl_store cl) k = Some e \<and> se_object_id e = oid"
    using collected(1) [OF assms(1,2), of h ty]
    by (auto simp: one_def store_find_def handle_of_def split: option.splits if_splits) blast
  then obtain e where e: "find_by_object_id iter (cl_store cl) oid = Some e"
    using find_by_object_id_None [OF assms(1) fin, of oid] by fastforce
  then show ?thesis
    using find_by_object_id_Some [OF assms(1) fin e] assms(3) by (auto simp: one_def store_find_def split: if_splits)
qed

lemma one_key:
  assumes "client_session noise opts cl" "one ty (store_find (cl_store cl) key) = Some h"
  shows "en_key h = key"
  using assms(2) session_entry [OF assms(1)] by (auto simp: one_def store_find_def handle_of_def split: option.splits if_splits)

section \<open>Two entities with one object id\<close>

text \<open>
  A light and a number that bear the same object id, as devices with equally named entities in two domains have: the
  registry's lookup by object id asks the store for any entry with the id and only then compares the domain.
\<close>

definition twins :: "message store_op list" where
  "twins = [Ingest (store_view (received_object (info_object (Info_Light (new_LightInfo\<lparr>ei_key := 1, ei_object_id := ''lamp''\<rparr>))))),
            Ingest (store_view (received_object (info_object (Info_Number (new_NumberInfo\<lparr>ei_key := 2, ei_object_id := ''lamp''\<rparr>)))))]"

lemma twins_entries:
  "\<exists>m n. entities (store_run twins) =
     [1 \<mapsto> \<lparr>se_type = Light, se_key = 1, se_object_id = ''lamp'', se_name = [], se_info = Some m, se_state = None\<rparr>,
      2 \<mapsto> \<lparr>se_type = Number, se_key = 2, se_object_id = ''lamp'', se_name = [], se_info = Some n, se_state = None\<rparr>]"
  unfolding twins_def store_run_def
  by (simp add: info_view ingest_def list_name_token info_key_of.simps Let_def entry_def put_def new_store_def
      new_entity_def new_LightInfo_def new_NumberInfo_def EntityInfo.defs) (rule exI, rule exI, rule refl)

text \<open>For every order of the container, one of the two is not found by its object id, although both lists contain it.\<close>

theorem object_id_shadowed:
  assumes "iterates iter" "cl_store cl = store_run twins"
  shows "(light_by_object_id iter ''lamp'' cl = None \<or> number_by_object_id iter ''lamp'' cl = None) \<and>
    list_find_object_id ''lamp'' (all_lights iter cl) \<noteq> None \<and> list_find_object_id ''lamp'' (all_numbers iter cl) \<noteq> None"
proof -
  obtain m n where e: "entities (store_run twins) =
     [1 \<mapsto> \<lparr>se_type = Light, se_key = 1, se_object_id = ''lamp'', se_name = [], se_info = Some m, se_state = None\<rparr>,
      2 \<mapsto> \<lparr>se_type = Number, se_key = 2, se_object_id = ''lamp'', se_name = [], se_info = Some n, se_state = None\<rparr>]"
    using twins_entries by blast
  define ks where "ks = iter (entities (store_run twins))"
  have "set ks = {1, 2}" "distinct ks" using assms(1) by (auto simp: ks_def iterates_def e)
  then have "length ks = 2" using distinct_card [of ks] by simp
  then obtain a b where "ks = [a, b]" by (auto simp: numeral_2_eq_2 length_Suc_conv)
  then have ks: "ks = [1, 2] \<or> ks = [2, 1]" using \<open>set ks = {1, 2}\<close> by (auto simp: doubleton_eq_iff)
  have "all_entities iter (cl_store cl) = map (\<lambda>k. the (entities (store_run twins) k)) ks"
    by (simp add: all_entities_def assms(2) ks_def)
  then show ?thesis
    using ks by (elim disjE) (simp_all add: light_by_object_id_def number_by_object_id_def all_lights_def all_numbers_def
        one_def find_by_object_id_def collect_def e handle_of_def)
qed

section \<open>Properties\<close>

text \<open>
  C9: The registry is exact.  In every state that a client can reach, and for every order in which the store enumerates
  its entries, the handles of a domain are in bijection with the entries of that domain; looking one up by key
  in the list or in the registry is the same; no handle of the registry can make its description be
  cast to a wrong class.  A lookup by object id returns a handle of the list with that id, and misses one only if an
  entity of another domain bears the same id.
\<close>

theorem registry_exact:
  assumes "iterates iter" "client_session noise opts cl"
  shows "let hs = collect iter ty cl; found = \<lambda>oid. one ty (find_by_object_id iter (cl_store cl) oid)
    in distinct (map en_key hs) \<and>
       (\<forall>key. list_find_key key hs = one ty (store_find (cl_store cl) key)) \<and>
       (\<forall>h \<in> set hs. stored_info ty (cl_store cl) (en_key h) \<noteq> Bad_Cast) \<and>
       (\<forall>oid h. found oid = Some h \<longrightarrow> h \<in> set hs \<and> en_object_id h = oid) \<and>
       (\<forall>oid. found oid = None \<and> list_find_object_id oid hs \<noteq> None \<longrightarrow>
          (\<exists>key e. store_find (cl_store cl) key = Some e \<and> se_object_id e = oid \<and> se_type e \<noteq> ty))"
proof -
  note fin = session_store_facts(1) [OF assms(2)] and member = collected(1) [OF assms]
  let ?hs = "collect iter ty cl"
  have "list_find_key key ?hs = Some h \<longleftrightarrow> one ty (store_find (cl_store cl) key) = Some h" for key h
    using list_find_key_iff [OF collect_distinct [OF assms], of key ty h] member [of h ty] one_key [OF assms(2), of ty key h] by auto
  then have "list_find_key key ?hs = one ty (store_find (cl_store cl) key)" for key by (metis not_Some_eq)
  moreover have "stored_info ty (cl_store cl) key \<noteq> Bad_Cast" for key
    by (rule stored_info_safe [OF session_store_facts(3) [OF assms(2)]])
  moreover have "h \<in> set ?hs \<and> en_object_id h = oid" if "one ty (find_by_object_id iter (cl_store cl) oid) = Some h" for oid h
    using found_by_object_id [OF assms that] .
  moreover have "\<exists>key e. store_find (cl_store cl) key = Some e \<and> se_object_id e = oid \<and> se_type e \<noteq> ty"
    if "one ty (find_by_object_id iter (cl_store cl) oid) = None" "list_find_object_id oid ?hs \<noteq> None" for oid
    using missed_by_object_id [OF assms that] .
  ultimately show ?thesis using collect_distinct [OF assms] by (simp add: Let_def)
qed

theorem registry_exact_witness:
  "collect (\<lambda>m. sorted_list_of_set (dom m)) Switch demo_client = [] \<and>
   list_find_key 7 (collect (\<lambda>m. sorted_list_of_set (dom m)) Switch demo_client) = one Switch (store_find (cl_store demo_client) 7)"
  using registry_exact [OF iterates_sorted session_init [OF demo_client_init], of Switch]
  by (simp add: Let_def) (simp add: demo_client_def collect_def all_entities_def new_store_def)

text \<open>
  C6: Toggling.  After a device has described its entities and reported their states, over either codec and however
  cut, the handle that the registry gives for a switch, light, fan or siren toggles what the device
  reported: it sends one command to the key of that entity, with the opposite of the power last reported.
\<close>

theorem toggle_flips_reported:
  assumes "client_session noise opts cl" "\<not> terminated (cl_conn cl)" "c_any_handler (cl_conn cl)"
    and "carries (c_frame (cl_conn cl)) chunks (map wire (map info_object is @ map state_object sts))"
    and "distinct (map info_key_of is)" "distinct (map reported_key sts)"
    and "\<forall>st \<in> set sts. \<exists>i \<in> set is. info_key_of i = reported_key st \<and> info_domain i = state_domain st"
    and "st \<in> set sts" "power_of st = Some on"
  shows "let cl' = client_read_all chunks cl
    in \<exists>h. one (state_domain st) (store_find (cl_store cl') (reported_key st)) = Some h \<and>
         domain_toggle (state_domain st) h cl' =
           Access (send_command (power_command (state_domain st) (\<not> on) (reported_key st)) cl')"
proof -
  let ?cl = "client_read_all chunks cl"
  have r: "reports (cl_store ?cl) st" using store_of_device(2) [OF assms(2-8)] .
  then obtain e where e: "store_find (cl_store ?cl) (reported_key st) = Some e" "se_type e = state_domain st"
    by (auto simp: reports_def store_find_def)
  then have h: "one (state_domain st) (store_find (cl_store ?cl) (reported_key st)) = Some (handle_of e)"
    by (simp add: one_def)
  then have "en_key (handle_of e) = reported_key st" by (rule one_key [OF session_read_all [OF assms(1)]])
  then show ?thesis
    using h domain_toggle_known [of st ?cl "handle_of e" on] reports_stored [OF r] assms(9) by (auto simp: Let_def)
qed

theorem toggle_flips_reported_witness:
  "let cl = client_read_all [concat (map (\<lambda>m. plain_encode (fst m) (snd m) [])
         [wire (info_object demo_info), wire (state_object demo_state)])] demo_client
   in \<exists>h. switch_by_key 7 cl = Some h \<and>
        switch_entity_toggle h cl = Access (send_command (Cmd_Switch \<lparr>swtc_key = 7, swtc_state = False\<rparr>) cl)"
proof -
  have k: "info_key_of demo_info = 7" "info_domain demo_info = Switch" "reported_key demo_state = 7" "state_domain demo_state = Switch"
    "power_of demo_state = Some True"
    by (simp_all add: demo_info_def demo_state_def info_key_of.simps EntityInfo.defs)
  show ?thesis
    using toggle_flips_reported [OF session_init [OF demo_client_init] demo_client_conn(2,3), of _ "[demo_info]" "[demo_state]"
        demo_state True] demo_frames_fit
    by (simp add: carries_def demo_client_conn plain_init_holds k Let_def domain_toggle_def switch_by_key_def)
qed



end
