(* ===== verification/Device_Streams.thy ===== *)
theory Device_Streams
  imports Client
begin

text \<open>
  The subsystems that turn one kind of message into one kind of callback: the log stream (\<^verbatim>\<open>src/subsystems/log_stream.cpp\<close>),
  the Z-Wave proxy (\<^verbatim>\<open>zwave_proxy.cpp\<close>) and the voice assistant (\<^verbatim>\<open>voice_assistant.cpp\<close>), over the client: each
  subscription stores a handler, installs a message handler on the connection and, in some cases, sends a
  request.  A callback is a number; an empty \<^verbatim>\<open>std::function\<close> is \<open>None\<close>.
\<close>

section \<open>Singular messages inside messages\<close>

definition sub_m :: "msg_class \<Rightarrow> string \<Rightarrow> message \<Rightarrow> message" where
  "sub_m cls n m =
     (case field_index cls n of
        None \<Rightarrow> []
      | Some i \<Rightarrow> (if i < length m then (case m ! i of Sub _ ms \<Rightarrow> ms | _ \<Rightarrow> []) else []))"

definition sub_class :: "msg_class \<Rightarrow> string \<Rightarrow> msg_class option" where
  "sub_class cls n =
     (case field_index cls n of
        None \<Rightarrow> None
      | Some i \<Rightarrow> (if \<not> f_repeated (cf_field (cls ! i)) \<and> category_of (cf_type (cls ! i)) = CMessage
                   then Some (cf_class (cls ! i)) else None))"

lemma sub_class_types:
  "sub_class (mk_field (One t, n', k) # cls) n =
     (if n' = n \<and> category_of t = CMessage then Some [] else if n' = n then None else sub_class cls n)"
  "sub_class (mk_field (OneSub c, n', k) # cls) n = (if n' = n then Some c else sub_class cls n)"
  by (auto simp: mk_field.simps sub_class_def cf_type_def new_proto_field_def split: option.splits)

lemma sub_fields_wire:
  assumes "sub_class cls n = Some cls'" "fits_fields cls fs" "map_of fs n = Some (Sub True ms)"
  shows "sub_m cls n (normalise cls (of_fields cls fs)) = normalise cls' ms"
proof -
  obtain i where i: "field_index cls n = Some i" "cls' = cf_class (cls ! i)"
    using assms(1) by (auto simp: sub_class_def split: option.splits if_splits)
  then have "i < length cls" using field_index_Some by blast
  then show ?thesis
    using i map_of_index [OF i(1), of fs] assms(3) by (simp add: sub_m_def normalise_nth normalise_length of_fields_def)
qed

section \<open>What the handlers are called with\<close>

record LogEntry =
  le_level :: u32
  le_message :: string

record ZWaveProxyFrame =
  zf_data :: string

record VoiceAudioSettings =
  vas_noise_suppression_level :: u32
  vas_auto_gain :: u32
  vas_volume_multiplier :: u32

record VoiceRequest =
  vr_start :: bool
  vr_conversation_id :: string
  vr_flags :: u32
  vr_audio_settings :: VoiceAudioSettings
  vr_wake_word_phrase :: string

record VoiceEvent =
  ve_event_type :: u32
  ve_data :: "(string \<times> string) list"

record VoiceAudio =
  vau_data :: bytes
  vau_end :: bool

record VoiceTimerEvent =
  vt_event_type :: u32
  vt_timer_id :: string
  vt_name :: string
  vt_total_seconds :: u32
  vt_seconds_left :: u32
  vt_is_active :: bool

record VoiceWakeWord =
  vw_id :: string
  vw_wake_word :: string
  vw_trained_languages :: "string list"

record VoiceConfiguration =
  vc_available_wake_words :: "VoiceWakeWord list"
  vc_active_wake_words :: "string list"
  vc_max_active_wake_words :: u32

text \<open>The bodies of the message handlers: from the message to the argument of the callback.\<close>

definition log_entry_of :: "message \<Rightarrow> LogEntry" where
  "log_entry_of resp =
     \<lparr>le_level = as_w32 (get_m subscribe_logs_response ''level'' resp),
      le_message = as_str (get_m subscribe_logs_response ''message'' resp)\<rparr>"

definition zwave_frame_of :: "message \<Rightarrow> ZWaveProxyFrame" where
  "zwave_frame_of frame = \<lparr>zf_data = as_str (get_m z_wave_proxy_frame ''data'' frame)\<rparr>"

definition audio_settings_of :: "message \<Rightarrow> VoiceAudioSettings" where
  "audio_settings_of s =
     \<lparr>vas_noise_suppression_level = as_w32 (get_m voice_assistant_audio_settings_class ''noise_suppression_level'' s),
      vas_auto_gain = as_w32 (get_m voice_assistant_audio_settings_class ''auto_gain'' s),
      vas_volume_multiplier = as_w32 (get_m voice_assistant_audio_settings_class ''volume_multiplier'' s)\<rparr>"

definition voice_request_of :: "message \<Rightarrow> VoiceRequest" where
  "voice_request_of resp =
     \<lparr>vr_start = as_bool (get_m voice_assistant_request ''start'' resp),
      vr_conversation_id = as_str (get_m voice_assistant_request ''conversation_id'' resp),
      vr_flags = as_w32 (get_m voice_assistant_request ''flags'' resp),
      vr_audio_settings = audio_settings_of (sub_m voice_assistant_request ''audio_settings'' resp),
      vr_wake_word_phrase = as_str (get_m voice_assistant_request ''wake_word_phrase'' resp)\<rparr>"

definition event_datum_of :: "message \<Rightarrow> string \<times> string" where
  "event_datum_of d =
     (as_str (get_m voice_assistant_event_data_class ''name'' d), as_str (get_m voice_assistant_event_data_class ''value'' d))"

definition voice_event_of :: "message \<Rightarrow> VoiceEvent" where
  "voice_event_of resp =
     \<lparr>ve_event_type = as_w32 (get_m voice_assistant_event_response ''event_type'' resp),
      ve_data = map event_datum_of (subs_m voice_assistant_event_response ''data'' resp)\<rparr>"

definition voice_audio_of :: "message \<Rightarrow> VoiceAudio" where
  "voice_audio_of resp =
     \<lparr>vau_data = bytes_of_string (as_str (get_m voice_assistant_audio ''data'' resp)),
      vau_end = as_bool (get_m voice_assistant_audio ''end'' resp)\<rparr>"

definition announce_success_of :: "message \<Rightarrow> bool" where
  "announce_success_of resp = as_bool (get_m voice_assistant_announce_finished ''success'' resp)"

definition wake_word_of :: "message \<Rightarrow> VoiceWakeWord" where
  "wake_word_of src =
     \<lparr>vw_id = as_str (get_m voice_assistant_wake_word_class ''id'' src),
      vw_wake_word = as_str (get_m voice_assistant_wake_word_class ''wake_word'' src),
      vw_trained_languages = map as_str (list_m voice_assistant_wake_word_class ''trained_languages'' src)\<rparr>"

definition voice_configuration_of :: "message \<Rightarrow> VoiceConfiguration" where
  "voice_configuration_of resp =
     \<lparr>vc_available_wake_words = map wake_word_of (subs_m voice_assistant_configuration_response ''available_wake_words'' resp),
      vc_active_wake_words = map as_str (list_m voice_assistant_configuration_response ''active_wake_words'' resp),
      vc_max_active_wake_words = as_w32 (get_m voice_assistant_configuration_response ''max_active_wake_words'' resp)\<rparr>"

definition voice_timer_of :: "message \<Rightarrow> VoiceTimerEvent" where
  "voice_timer_of resp =
     \<lparr>vt_event_type = as_w32 (get_m voice_assistant_timer_event_response ''event_type'' resp),
      vt_timer_id = as_str (get_m voice_assistant_timer_event_response ''timer_id'' resp),
      vt_name = as_str (get_m voice_assistant_timer_event_response ''name'' resp),
      vt_total_seconds = as_w32 (get_m voice_assistant_timer_event_response ''total_seconds'' resp),
      vt_seconds_left = as_w32 (get_m voice_assistant_timer_event_response ''seconds_left'' resp),
      vt_is_active = as_bool (get_m voice_assistant_timer_event_response ''is_active'' resp)\<rparr>"

datatype stream_event =
    Log_Line LogEntry
  | Zwave_Frame ZWaveProxyFrame
  | Voice_Request VoiceRequest
  | Voice_Event VoiceEvent
  | Voice_Audio VoiceAudio
  | Announce_Finished bool
  | Voice_Configuration VoiceConfiguration
  | Voice_Timer VoiceTimerEvent

section \<open>The subsystems\<close>

record log_stream =
  log_handler :: "callback option"
  log_registered :: bool

record zwave_proxy =
  zw_frame_handler :: "callback option"
  zw_registered :: bool

record voice_assistant =
  vo_request_handler :: "callback option"
  vo_event_handler :: "callback option"
  vo_audio_handler :: "callback option"
  vo_announce_finished_handler :: "callback option"
  vo_configuration_handler :: "callback option"
  vo_timer_event_handler :: "callback option"
  vo_registered :: "nat set"

definition new_log_stream :: log_stream where
  "new_log_stream = \<lparr>log_handler = None, log_registered = False\<rparr>"

definition new_zwave_proxy :: zwave_proxy where
  "new_zwave_proxy = \<lparr>zw_frame_handler = None, zw_registered = False\<rparr>"

definition new_voice_assistant :: voice_assistant where
  "new_voice_assistant =
     \<lparr>vo_request_handler = None, vo_event_handler = None, vo_audio_handler = None, vo_announce_finished_handler = None,
      vo_configuration_handler = None, vo_timer_event_handler = None, vo_registered = {}\<rparr>"

text \<open>The requests.\<close>

definition logs_request :: "u32 \<Rightarrow> bool \<Rightarrow> api_object" where
  "logs_request level dump_config =
     Api_Object 28
       (let req = new_message subscribe_logs_request;
            req = set_m subscribe_logs_request ''level'' (W32 level) req
        in set_m subscribe_logs_request ''dump_config'' (B dump_config) req)"

definition zwave_frame_request :: "string \<Rightarrow> api_object" where
  "zwave_frame_request data =
     Api_Object 128 (set_m z_wave_proxy_frame ''data'' (Str data) (new_message z_wave_proxy_frame))"

definition zwave_control_request :: "u32 \<Rightarrow> string \<Rightarrow> api_object" where
  "zwave_control_request type data =
     Api_Object 129
       (let req = new_message z_wave_proxy_request;
            req = set_m z_wave_proxy_request ''type'' (W32 type) req
        in set_m z_wave_proxy_request ''data'' (Str data) req)"

definition voice_subscribe_request :: "u32 \<Rightarrow> bool \<Rightarrow> api_object" where
  "voice_subscribe_request flags subscribe =
     Api_Object 89
       (let req = new_message subscribe_voice_assistant_request;
            req = set_m subscribe_voice_assistant_request ''subscribe'' (B subscribe) req
        in set_m subscribe_voice_assistant_request ''flags'' (W32 flags) req)"

definition voice_response :: "u32 \<Rightarrow> bool \<Rightarrow> api_object" where
  "voice_response port error =
     Api_Object 91
       (let resp = new_message voice_assistant_response;
            resp = set_m voice_assistant_response ''port'' (W32 port) resp
        in set_m voice_assistant_response ''error'' (B error) resp)"

definition voice_audio_message :: "bytes \<Rightarrow> bool \<Rightarrow> api_object" where
  "voice_audio_message data end_of =
     Api_Object 106
       (let audio = new_message voice_assistant_audio;
            audio = set_m voice_assistant_audio ''data'' (Str (string_of_bytes data)) audio
        in set_m voice_assistant_audio ''end'' (B end_of) audio)"

definition voice_announce_request :: "string \<Rightarrow> string \<Rightarrow> string \<Rightarrow> bool \<Rightarrow> api_object" where
  "voice_announce_request media_id txt preannounce start_conversation =
     Api_Object 119
       (let req = new_message voice_assistant_announce_request;
            req = set_m voice_assistant_announce_request ''media_id'' (Str media_id) req;
            req = set_m voice_assistant_announce_request ''text'' (Str txt) req;
            req = set_m voice_assistant_announce_request ''preannounce_media_id'' (Str preannounce) req
        in set_m voice_assistant_announce_request ''start_conversation'' (B start_conversation) req)"

definition voice_set_configuration :: "string list \<Rightarrow> api_object" where
  "voice_set_configuration words =
     Api_Object 123
       (fold (\<lambda>word. add_m voice_assistant_set_configuration ''active_wake_words'' (Str word)) words
         (new_message voice_assistant_set_configuration))"

definition voice_configuration_request :: api_object where
  "voice_configuration_request = Api_Object 121 (new_message voice_assistant_configuration_request)"

text \<open>The operations: the subsystem, the client with the new handler slot, and what \<^verbatim>\<open>send\<close> throws.\<close>

definition log_subscribe :: "u32 \<Rightarrow> callback option \<Rightarrow> bool \<Rightarrow> log_stream \<times> client \<Rightarrow> api_error option \<times> log_stream \<times> client" where
  "log_subscribe level handler dump_config = (\<lambda>(s, cl).
     let s = s\<lparr>log_handler := handler, log_registered := True\<rparr>;
         (e, cl) = client_send (logs_request level dump_config) (client_on 29 cl)
     in (e, s, cl))"

definition zwave_on_frame :: "callback option \<Rightarrow> zwave_proxy \<times> client \<Rightarrow> zwave_proxy \<times> client" where
  "zwave_on_frame handler = (\<lambda>(s, cl). (s\<lparr>zw_frame_handler := handler, zw_registered := True\<rparr>, client_on 128 cl))"

definition zwave_send_frame :: "string \<Rightarrow> client \<Rightarrow> api_error option \<times> client" where
  "zwave_send_frame data = client_send (zwave_frame_request data)"

definition zwave_request :: "u32 \<Rightarrow> string \<Rightarrow> client \<Rightarrow> api_error option \<times> client" where
  "zwave_request type data = client_send (zwave_control_request type data)"

definition voice_register :: "nat \<Rightarrow> voice_assistant \<Rightarrow> voice_assistant" where
  "voice_register msg_id s = s\<lparr>vo_registered := insert msg_id (vo_registered s)\<rparr>"

definition voice_subscribe ::
  "u32 \<Rightarrow> callback option \<Rightarrow> bool \<Rightarrow> voice_assistant \<times> client \<Rightarrow> api_error option \<times> voice_assistant \<times> client" where
  "voice_subscribe flags handler subscribe = (\<lambda>(s, cl).
     let s = voice_register 90 (s\<lparr>vo_request_handler := handler\<rparr>);
         (e, cl) = client_send (voice_subscribe_request flags subscribe) (client_on 90 cl)
     in (e, s, cl))"

definition voice_on_event :: "callback option \<Rightarrow> voice_assistant \<times> client \<Rightarrow> voice_assistant \<times> client" where
  "voice_on_event handler = (\<lambda>(s, cl). (voice_register 92 (s\<lparr>vo_event_handler := handler\<rparr>), client_on 92 cl))"

definition voice_send_response :: "u32 \<Rightarrow> bool \<Rightarrow> client \<Rightarrow> api_error option \<times> client" where
  "voice_send_response port error = client_send (voice_response port error)"

definition voice_on_audio :: "callback option \<Rightarrow> voice_assistant \<times> client \<Rightarrow> voice_assistant \<times> client" where
  "voice_on_audio handler = (\<lambda>(s, cl). (voice_register 106 (s\<lparr>vo_audio_handler := handler\<rparr>), client_on 106 cl))"

definition voice_send_audio :: "bytes \<Rightarrow> bool \<Rightarrow> client \<Rightarrow> api_error option \<times> client" where
  "voice_send_audio data end_of = client_send (voice_audio_message data end_of)"

definition voice_announce :: "string \<Rightarrow> string \<Rightarrow> string \<Rightarrow> bool \<Rightarrow> client \<Rightarrow> api_error option \<times> client" where
  "voice_announce media_id txt preannounce start_conversation =
     client_send (voice_announce_request media_id txt preannounce start_conversation)"

definition voice_on_announce_finished :: "callback option \<Rightarrow> voice_assistant \<times> client \<Rightarrow> voice_assistant \<times> client" where
  "voice_on_announce_finished handler = (\<lambda>(s, cl).
     (voice_register 120 (s\<lparr>vo_announce_finished_handler := handler\<rparr>), client_on 120 cl))"

definition voice_request_configuration ::
  "callback option \<Rightarrow> voice_assistant \<times> client \<Rightarrow> api_error option \<times> voice_assistant \<times> client" where
  "voice_request_configuration handler = (\<lambda>(s, cl).
     let s = voice_register 122 (s\<lparr>vo_configuration_handler := handler\<rparr>);
         (e, cl) = client_send voice_configuration_request (client_on 122 cl)
     in (e, s, cl))"

definition voice_send_configuration :: "string list \<Rightarrow> client \<Rightarrow> api_error option \<times> client" where
  "voice_send_configuration words = client_send (voice_set_configuration words)"

definition voice_on_timer_event :: "callback option \<Rightarrow> voice_assistant \<times> client \<Rightarrow> voice_assistant \<times> client" where
  "voice_on_timer_event handler = (\<lambda>(s, cl). (voice_register 115 (s\<lparr>vo_timer_event_handler := handler\<rparr>), client_on 115 cl))"

text \<open>The installed message handlers: the callback that runs, if any, and its argument.\<close>

definition call_with :: "callback option \<Rightarrow> stream_event \<Rightarrow> (callback \<times> stream_event) list" where
  "call_with handler arg = (case handler of None \<Rightarrow> [] | Some cb \<Rightarrow> [(cb, arg)])"

definition log_on_message :: "message \<Rightarrow> log_stream \<Rightarrow> (callback \<times> stream_event) list" where
  "log_on_message msg s = (if log_registered s then call_with (log_handler s) (Log_Line (log_entry_of msg)) else [])"

definition zwave_on_message :: "message \<Rightarrow> zwave_proxy \<Rightarrow> (callback \<times> stream_event) list" where
  "zwave_on_message msg s = (if zw_registered s then call_with (zw_frame_handler s) (Zwave_Frame (zwave_frame_of msg)) else [])"

definition voice_on_message :: "u32 \<Rightarrow> message \<Rightarrow> voice_assistant \<Rightarrow> (callback \<times> stream_event) list" where
  "voice_on_message t msg s =
     (if unat t \<notin> vo_registered s then []
      else if t = 90 then call_with (vo_request_handler s) (Voice_Request (voice_request_of msg))
      else if t = 92 then call_with (vo_event_handler s) (Voice_Event (voice_event_of msg))
      else if t = 106 then call_with (vo_audio_handler s) (Voice_Audio (voice_audio_of msg))
      else if t = 120 then call_with (vo_announce_finished_handler s) (Announce_Finished (announce_success_of msg))
      else if t = 122 then call_with (vo_configuration_handler s) (Voice_Configuration (voice_configuration_of msg))
      else if t = 115 then call_with (vo_timer_event_handler s) (Voice_Timer (voice_timer_of msg))
      else [])"

text \<open>The three subsystems of a client, and what a call of a message handler runs.\<close>

record streams =
  st_logs :: log_stream
  st_zwave :: zwave_proxy
  st_voice :: voice_assistant

definition stream_message :: "streams \<Rightarrow> client_call \<Rightarrow> (callback \<times> stream_event) list" where
  "stream_message s c =
     (case c of
        Conn_Effect (Eff_message t x) \<Rightarrow>
          (if t = 29 then log_on_message (obj_fields x) (st_logs s)
           else if t = 128 then zwave_on_message (obj_fields x) (st_zwave s)
           else voice_on_message t (obj_fields x) (st_voice s))
      | _ \<Rightarrow> [])"

definition stream_messages :: "streams \<Rightarrow> client_call list \<Rightarrow> (callback \<times> stream_event) list" where
  "stream_messages s cs = concat (map (stream_message s) cs)"

text \<open>The subscriptions of an application, in any order.\<close>

datatype subscription =
    Sub_logs u32 "callback option" bool
  | Sub_frames "callback option"
  | Sub_requests u32 "callback option" bool
  | Sub_events "callback option"
  | Sub_audio "callback option"
  | Sub_announced "callback option"
  | Sub_configuration "callback option"
  | Sub_timers "callback option"

fun subscribe_to :: "subscription \<Rightarrow> streams \<times> client \<Rightarrow> streams \<times> client" where
  "subscribe_to (Sub_logs level h dump) (s, cl) =
     (case log_subscribe level h dump (st_logs s, cl) of (_, l, cl) \<Rightarrow> (s\<lparr>st_logs := l\<rparr>, cl))"
| "subscribe_to (Sub_frames h) (s, cl) = (case zwave_on_frame h (st_zwave s, cl) of (z, cl) \<Rightarrow> (s\<lparr>st_zwave := z\<rparr>, cl))"
| "subscribe_to (Sub_requests flags h sub) (s, cl) =
     (case voice_subscribe flags h sub (st_voice s, cl) of (_, v, cl) \<Rightarrow> (s\<lparr>st_voice := v\<rparr>, cl))"
| "subscribe_to (Sub_events h) (s, cl) = (case voice_on_event h (st_voice s, cl) of (v, cl) \<Rightarrow> (s\<lparr>st_voice := v\<rparr>, cl))"
| "subscribe_to (Sub_audio h) (s, cl) = (case voice_on_audio h (st_voice s, cl) of (v, cl) \<Rightarrow> (s\<lparr>st_voice := v\<rparr>, cl))"
| "subscribe_to (Sub_announced h) (s, cl) =
     (case voice_on_announce_finished h (st_voice s, cl) of (v, cl) \<Rightarrow> (s\<lparr>st_voice := v\<rparr>, cl))"
| "subscribe_to (Sub_configuration h) (s, cl) =
     (case voice_request_configuration h (st_voice s, cl) of (_, v, cl) \<Rightarrow> (s\<lparr>st_voice := v\<rparr>, cl))"
| "subscribe_to (Sub_timers h) (s, cl) = (case voice_on_timer_event h (st_voice s, cl) of (v, cl) \<Rightarrow> (s\<lparr>st_voice := v\<rparr>, cl))"

definition new_streams :: streams where
  "new_streams = \<lparr>st_logs = new_log_stream, st_zwave = new_zwave_proxy, st_voice = new_voice_assistant\<rparr>"

definition subscribe_all :: "subscription list \<Rightarrow> client \<Rightarrow> streams \<times> client" where
  "subscribe_all subs cl = fold subscribe_to subs (new_streams, cl)"

section \<open>What a device sends\<close>

fun event_id :: "stream_event \<Rightarrow> u32" where
  "event_id (Log_Line _) = 29"
| "event_id (Zwave_Frame _) = 128"
| "event_id (Voice_Request _) = 90"
| "event_id (Voice_Event _) = 92"
| "event_id (Voice_Audio _) = 106"
| "event_id (Announce_Finished _) = 120"
| "event_id (Voice_Configuration _) = 122"
| "event_id (Voice_Timer _) = 115"

fun event_class :: "stream_event \<Rightarrow> msg_class" where
  "event_class (Log_Line _) = subscribe_logs_response"
| "event_class (Zwave_Frame _) = z_wave_proxy_frame"
| "event_class (Voice_Request _) = voice_assistant_request"
| "event_class (Voice_Event _) = voice_assistant_event_response"
| "event_class (Voice_Audio _) = voice_assistant_audio"
| "event_class (Announce_Finished _) = voice_assistant_announce_finished"
| "event_class (Voice_Configuration _) = voice_assistant_configuration_response"
| "event_class (Voice_Timer _) = voice_assistant_timer_event_response"

definition settings_report :: "VoiceAudioSettings \<Rightarrow> (string \<times> member) list" where
  "settings_report s =
     [(''noise_suppression_level'', Single (W32 (vas_noise_suppression_level s))),
      (''auto_gain'', Single (W32 (vas_auto_gain s))),
      (''volume_multiplier'', Single (W32 (vas_volume_multiplier s)))]"

definition datum_report :: "string \<times> string \<Rightarrow> (string \<times> member) list" where
  "datum_report d = [(''name'', Single (Str (fst d))), (''value'', Single (Str (snd d)))]"

definition word_report :: "VoiceWakeWord \<Rightarrow> (string \<times> member) list" where
  "word_report w =
     [(''id'', Single (Str (vw_id w))), (''wake_word'', Single (Str (vw_wake_word w))),
      (''trained_languages'', Repeated (map Str (vw_trained_languages w)))]"

fun event_report :: "stream_event \<Rightarrow> (string \<times> member) list" where
  "event_report (Log_Line e) = [(''level'', Single (W32 (le_level e))), (''message'', Single (Str (le_message e)))]"
| "event_report (Zwave_Frame f) = [(''data'', Single (Str (zf_data f)))]"
| "event_report (Voice_Request r) =
     [(''start'', Single (B (vr_start r))), (''conversation_id'', Single (Str (vr_conversation_id r))),
      (''flags'', Single (W32 (vr_flags r))),
      (''audio_settings'', Sub True (of_fields voice_assistant_audio_settings_class (settings_report (vr_audio_settings r)))),
      (''wake_word_phrase'', Single (Str (vr_wake_word_phrase r)))]"
| "event_report (Voice_Event e) =
     [(''event_type'', Single (W32 (ve_event_type e))),
      (''data'', SubRepeated (map (of_fields voice_assistant_event_data_class \<circ> datum_report) (ve_data e)))]"
| "event_report (Voice_Audio a) = [(''data'', Single (Str (string_of_bytes (vau_data a)))), (''end'', Single (B (vau_end a)))]"
| "event_report (Announce_Finished b) = [(''success'', Single (B b))]"
| "event_report (Voice_Configuration c) =
     [(''available_wake_words'', SubRepeated (map (of_fields voice_assistant_wake_word_class \<circ> word_report) (vc_available_wake_words c))),
      (''active_wake_words'', Repeated (map Str (vc_active_wake_words c))),
      (''max_active_wake_words'', Single (W32 (vc_max_active_wake_words c)))]"
| "event_report (Voice_Timer t) =
     [(''event_type'', Single (W32 (vt_event_type t))), (''timer_id'', Single (Str (vt_timer_id t))),
      (''name'', Single (Str (vt_name t))), (''total_seconds'', Single (W32 (vt_total_seconds t))),
      (''seconds_left'', Single (W32 (vt_seconds_left t))), (''is_active'', Single (B (vt_is_active t)))]"

text \<open>What arrives: a zero of the volume multiplier loses its sign.\<close>

fun settle_event :: "stream_event \<Rightarrow> stream_event" where
  "settle_event (Voice_Request r) =
     Voice_Request (r\<lparr>vr_audio_settings := (vr_audio_settings r)
       \<lparr>vas_volume_multiplier := unsigned_zero (vas_volume_multiplier (vr_audio_settings r))\<rparr>\<rparr>)"
| "settle_event e = e"

definition event_object :: "stream_event \<Rightarrow> api_object" where
  "event_object e = Api_Object (event_id e) (of_fields (event_class e) (event_report e))"

fun read_event :: "u32 \<Rightarrow> message \<Rightarrow> stream_event option" where
  "read_event t m =
     (if t = 29 then Some (Log_Line (log_entry_of m))
      else if t = 128 then Some (Zwave_Frame (zwave_frame_of m))
      else if t = 90 then Some (Voice_Request (voice_request_of m))
      else if t = 92 then Some (Voice_Event (voice_event_of m))
      else if t = 106 then Some (Voice_Audio (voice_audio_of m))
      else if t = 120 then Some (Announce_Finished (announce_success_of m))
      else if t = 122 then Some (Voice_Configuration (voice_configuration_of m))
      else if t = 115 then Some (Voice_Timer (voice_timer_of m)) else None)"

section \<open>Over the wire\<close>

lemma stream_class_types [simp]:
  "single_type subscribe_logs_request ''level'' = Some FEnum"
  "single_type subscribe_logs_request ''dump_config'' = Some FBool"
  "single_type subscribe_logs_response ''level'' = Some FEnum"
  "single_type subscribe_logs_response ''message'' = Some FBytes"
  "single_type z_wave_proxy_frame ''data'' = Some FBytes"
  "single_type z_wave_proxy_request ''type'' = Some FEnum"
  "single_type z_wave_proxy_request ''data'' = Some FBytes"
  "single_type subscribe_voice_assistant_request ''subscribe'' = Some FBool"
  "single_type subscribe_voice_assistant_request ''flags'' = Some FUint32"
  "single_type voice_assistant_audio_settings_class ''noise_suppression_level'' = Some FUint32"
  "single_type voice_assistant_audio_settings_class ''auto_gain'' = Some FUint32"
  "single_type voice_assistant_audio_settings_class ''volume_multiplier'' = Some FFloat"
  "single_type voice_assistant_request ''start'' = Some FBool"
  "single_type voice_assistant_request ''conversation_id'' = Some FString"
  "single_type voice_assistant_request ''flags'' = Some FUint32"
  "sub_class voice_assistant_request ''audio_settings'' = Some voice_assistant_audio_settings_class"
  "single_type voice_assistant_request ''wake_word_phrase'' = Some FString"
  "single_type voice_assistant_response ''port'' = Some FUint32"
  "single_type voice_assistant_response ''error'' = Some FBool"
  "single_type voice_assistant_event_data_class ''name'' = Some FString"
  "single_type voice_assistant_event_data_class ''value'' = Some FString"
  "single_type voice_assistant_event_response ''event_type'' = Some FEnum"
  "subs_class voice_assistant_event_response ''data'' = Some voice_assistant_event_data_class"
  "single_type voice_assistant_audio ''data'' = Some FBytes"
  "single_type voice_assistant_audio ''end'' = Some FBool"
  "single_type voice_assistant_audio ''data2'' = Some FBytes"
  "single_type voice_assistant_announce_finished ''success'' = Some FBool"
  "single_type voice_assistant_announce_request ''media_id'' = Some FString"
  "single_type voice_assistant_announce_request ''text'' = Some FString"
  "single_type voice_assistant_announce_request ''preannounce_media_id'' = Some FString"
  "single_type voice_assistant_announce_request ''start_conversation'' = Some FBool"
  "single_type voice_assistant_wake_word_class ''id'' = Some FString"
  "single_type voice_assistant_wake_word_class ''wake_word'' = Some FString"
  "list_type voice_assistant_wake_word_class ''trained_languages'' = Some FString"
  "subs_class voice_assistant_configuration_response ''available_wake_words'' = Some voice_assistant_wake_word_class"
  "list_type voice_assistant_configuration_response ''active_wake_words'' = Some FString"
  "single_type voice_assistant_configuration_response ''max_active_wake_words'' = Some FUint32"
  "list_type voice_assistant_set_configuration ''active_wake_words'' = Some FString"
  "single_type voice_assistant_timer_event_response ''event_type'' = Some FEnum"
  "single_type voice_assistant_timer_event_response ''timer_id'' = Some FString"
  "single_type voice_assistant_timer_event_response ''name'' = Some FString"
  "single_type voice_assistant_timer_event_response ''total_seconds'' = Some FUint32"
  "single_type voice_assistant_timer_event_response ''seconds_left'' = Some FUint32"
  "single_type voice_assistant_timer_event_response ''is_active'' = Some FBool"
  by (simp_all add: class_types sub_class_types subscribe_logs_request_def subscribe_logs_response_def z_wave_proxy_frame_def z_wave_proxy_request_def subscribe_voice_assistant_request_def voice_assistant_audio_settings_class_def voice_assistant_request_def voice_assistant_response_def voice_assistant_event_data_class_def voice_assistant_event_response_def voice_assistant_audio_def voice_assistant_announce_finished_def voice_assistant_announce_request_def voice_assistant_wake_word_class_def voice_assistant_configuration_response_def voice_assistant_set_configuration_def voice_assistant_timer_event_response_def)

lemma wired_bytes [simp]: "wired FBytes (Str s) = Str s" "elem_ok FBytes (Str s)"
  by (simp_all add: Str_def)

lemma part_fits:
  "fits_fields voice_assistant_audio_settings_class (settings_report s)"
  "fits_fields voice_assistant_event_data_class (datum_report d)"
  "fits_fields voice_assistant_wake_word_class (word_report w)"
  by (simp_all add: fits_fields_def mk_field_simps settings_report_def datum_report_def word_report_def list_all_iff
      voice_assistant_audio_settings_class_def voice_assistant_event_data_class_def voice_assistant_wake_word_class_def)

lemma typed_parts:
  "cf_class c = voice_assistant_event_data_class \<Longrightarrow> typed_subs c (map (of_fields voice_assistant_event_data_class \<circ> datum_report) ds)"
  "cf_class c = voice_assistant_wake_word_class \<Longrightarrow> typed_subs c (map (of_fields voice_assistant_wake_word_class \<circ> word_report) ws)"
  by (induction ds; simp add: typed_of_fields part_fits) (induction ws; simp add: typed_of_fields part_fits)

lemma event_fits: "fits_fields (event_class e) (event_report e)"
  by (cases e) (simp_all add: fits_fields_def mk_field_simps list_all_iff typed_of_fields [OF part_fits(1)] typed_parts
      subscribe_logs_response_def z_wave_proxy_frame_def voice_assistant_request_def voice_assistant_event_response_def
      voice_assistant_audio_def voice_assistant_announce_finished_def voice_assistant_configuration_response_def
      voice_assistant_timer_event_response_def)

lemma parts_read:
  "audio_settings_of (normalise voice_assistant_audio_settings_class
     (of_fields voice_assistant_audio_settings_class (settings_report s))) =
     s\<lparr>vas_volume_multiplier := unsigned_zero (vas_volume_multiplier s)\<rparr>"
  "event_datum_of (normalise voice_assistant_event_data_class (of_fields voice_assistant_event_data_class (datum_report d))) = d"
  "wake_word_of (normalise voice_assistant_wake_word_class (of_fields voice_assistant_wake_word_class (word_report w))) = w"
proof -
  have s: "map_of (settings_report s) ''noise_suppression_level'' = Some (Single (W32 (vas_noise_suppression_level s)))"
    "map_of (settings_report s) ''auto_gain'' = Some (Single (W32 (vas_auto_gain s)))"
    "map_of (settings_report s) ''volume_multiplier'' = Some (Single (W32 (vas_volume_multiplier s)))"
    by (simp_all add: settings_report_def)
  show "audio_settings_of (normalise voice_assistant_audio_settings_class
     (of_fields voice_assistant_audio_settings_class (settings_report s))) =
     s\<lparr>vas_volume_multiplier := unsigned_zero (vas_volume_multiplier s)\<rparr>"
    by (simp add: audio_settings_of_def get_fields_wire [OF _ part_fits(1)] s)
  have d: "map_of (datum_report d) ''name'' = Some (Single (Str (fst d)))" "map_of (datum_report d) ''value'' = Some (Single (Str (snd d)))"
    by (simp_all add: datum_report_def)
  show "event_datum_of (normalise voice_assistant_event_data_class (of_fields voice_assistant_event_data_class (datum_report d))) = d"
    by (simp add: event_datum_of_def get_fields_wire [OF _ part_fits(2)] d)
  have w: "map_of (word_report w) ''id'' = Some (Single (Str (vw_id w)))"
    "map_of (word_report w) ''wake_word'' = Some (Single (Str (vw_wake_word w)))"
    "map_of (word_report w) ''trained_languages'' = Some (Repeated (map Str (vw_trained_languages w)))"
    by (simp_all add: word_report_def)
  show "wake_word_of (normalise voice_assistant_wake_word_class (of_fields voice_assistant_wake_word_class (word_report w))) = w"
    by (simp add: wake_word_of_def get_fields_wire [OF _ part_fits(3)] list_fields_wire [OF _ part_fits(3)] w)
qed

lemmas event_reads = log_entry_of_def zwave_frame_of_def voice_request_of_def voice_event_of_def voice_audio_of_def
  announce_success_of_def voice_configuration_of_def voice_timer_of_def

lemma read_reported:
  "read_event (event_id e) (normalise (event_class e) (of_fields (event_class e) (event_report e))) = Some (settle_event e)"
proof -
  note fits = event_fits [of e]
  show ?thesis
    using fits
    by (cases e) (simp_all add: event_reads sub_fields_wire parts_read comp_def)
qed

interpretation stream_events: wire_message event_class "\<lambda>e. of_fields (event_class e) (event_report e)"
    "\<lambda>e. read_event (event_id e)" "\<lambda>e. Some (settle_event e)"
proof unfold_locales
  fix e
  show "wf_class (event_class e)"
    by (cases e) (simp_all add: subscribe_logs_response_wf z_wave_proxy_frame_wf voice_assistant_request_wf voice_assistant_event_response_wf
        voice_assistant_audio_wf voice_assistant_announce_finished_wf voice_assistant_configuration_response_wf
        voice_assistant_timer_event_response_wf)
  show "typed (event_class e) (of_fields (event_class e) (event_report e))" by (rule typed_of_fields [OF event_fits])
  show "read_event (event_id e) (normalise (event_class e) (of_fields (event_class e) (event_report e))) = Some (settle_event e)"
    by (rule read_reported)
qed

section \<open>Handlers that are called\<close>

definition event_name :: "stream_event \<Rightarrow> string" where
  "event_name e =
     (case e of Log_Line _ \<Rightarrow> ''SubscribeLogsResponse'' | Zwave_Frame _ \<Rightarrow> ''ZWaveProxyFrame''
      | Voice_Request _ \<Rightarrow> ''VoiceAssistantRequest'' | Voice_Event _ \<Rightarrow> ''VoiceAssistantEventResponse''
      | Voice_Audio _ \<Rightarrow> ''VoiceAssistantAudio'' | Announce_Finished _ \<Rightarrow> ''VoiceAssistantAnnounceFinished''
      | Voice_Configuration _ \<Rightarrow> ''VoiceAssistantConfigurationResponse''
      | Voice_Timer _ \<Rightarrow> ''VoiceAssistantTimerEventResponse'')"

lemma event_row: "(event_id e, event_name e, Plain_Class, event_class e) \<in> set api_schema"
  by (cases e) (simp_all add: api_schema_def event_name_def)

lemma event_object_simps:
  "obj_id (event_object e) = event_id e" "obj_class (event_object e) = event_class e"
  "obj_fields (event_object e) = of_fields (event_class e) (event_report e)" "well_typed (event_object e)"
  using event_row [of e, THEN obj_simps(1)] event_row [of e, THEN obj_simps(2)]
  by (simp_all add: event_object_def well_typed_def typed_of_fields event_fits)

lemma event_external: "\<not> internal_id (event_id e)"
  by (cases e) (simp_all add: internal_id_def id_HelloResponse_def id_AuthenticationResponse_def id_DisconnectRequest_def
      id_DisconnectResponse_def id_PingRequest_def id_PingResponse_def)

text \<open>The callback that an event goes to.\<close>

fun stream_handler :: "streams \<Rightarrow> stream_event \<Rightarrow> callback option" where
  "stream_handler s (Log_Line _) = log_handler (st_logs s)"
| "stream_handler s (Zwave_Frame _) = zw_frame_handler (st_zwave s)"
| "stream_handler s (Voice_Request _) = vo_request_handler (st_voice s)"
| "stream_handler s (Voice_Event _) = vo_event_handler (st_voice s)"
| "stream_handler s (Voice_Audio _) = vo_audio_handler (st_voice s)"
| "stream_handler s (Announce_Finished _) = vo_announce_finished_handler (st_voice s)"
| "stream_handler s (Voice_Configuration _) = vo_configuration_handler (st_voice s)"
| "stream_handler s (Voice_Timer _) = vo_timer_event_handler (st_voice s)"

definition stream_registered :: "streams \<Rightarrow> u32 \<Rightarrow> bool" where
  "stream_registered s t \<longleftrightarrow>
     (if t = 29 then log_registered (st_logs s) else if t = 128 then zw_registered (st_zwave s)
      else unat t \<in> vo_registered (st_voice s))"

definition stream_ids :: "u32 set" where
  "stream_ids = {29, 128, 90, 92, 106, 120, 122, 115}"

lemma event_id_stream: "event_id e \<in> stream_ids"
  by (cases e) (simp_all add: stream_ids_def)

lemma stream_message_event:
  "stream_message s (Conn_Effect (Eff_message (event_id e) (received_object (event_object e)))) =
     (if stream_registered s (event_id e) then call_with (stream_handler s e) (settle_event e) else [])"
proof -
  have "read_event (event_id e) (obj_fields (received_object (event_object e))) = Some (settle_event e)"
    using read_reported [of e] by (simp add: event_object_simps)
  then show ?thesis
    by (cases e) (simp_all add: stream_message_def stream_registered_def log_on_message_def zwave_on_message_def voice_on_message_def)
qed

lemma stream_message_other:
  assumes "t \<notin> stream_ids"
  shows "stream_message s (Conn_Effect (Eff_message t x)) = []"
  using assms by (simp add: stream_message_def stream_ids_def voice_on_message_def)

text \<open>Subscribing keeps handler slots and handlers in step.\<close>

definition stream_slot :: "client \<Rightarrow> u32 \<Rightarrow> bool" where
  "stream_slot cl t \<longleftrightarrow> unat t < length (c_handlers (cl_conn cl)) \<and> c_handlers (cl_conn cl) ! unat t"

definition in_step_streams :: "streams \<times> client \<Rightarrow> bool" where
  "in_step_streams = (\<lambda>(s, cl). message_id_max < length (c_handlers (cl_conn cl)) \<and>
     (\<forall>e. (stream_registered s (event_id e) \<longrightarrow> stream_slot cl (event_id e)) \<and>
        (stream_handler s e \<noteq> None \<longrightarrow> stream_registered s (event_id e))))"

lemma message_id_max_eq: "message_id_max = 148"
  by (simp add: message_id_max_def api_schema_def)

lemma client_send_keeps:
  "c_handlers (cl_conn (snd (client_send x cl))) = c_handlers (cl_conn cl)"
  "c_any_handler (cl_conn (snd (client_send x cl))) = c_any_handler (cl_conn cl)"
  "c_state (cl_conn (snd (client_send x cl))) = c_state (cl_conn cl)"
  by (simp_all add: client_send_def client_act_def send_def send_raw_def emit_def split: sum.splits prod.splits)

lemma client_on_slots:
  "length (c_handlers (cl_conn (client_on i cl))) = length (c_handlers (cl_conn cl))"
  "c_any_handler (cl_conn (client_on i cl)) = c_any_handler (cl_conn cl)"
  "c_state (cl_conn (client_on i cl)) = c_state (cl_conn cl)"
  "stream_slot (client_on i cl) t \<longleftrightarrow> stream_slot cl t \<or> unat t = i \<and> i < length (c_handlers (cl_conn cl))"
  by (auto simp: client_on_def on_handler_def stream_slot_def nth_list_update)

definition event_in_step :: "stream_event \<Rightarrow> streams \<times> client \<Rightarrow> bool" where
  "event_in_step e = (\<lambda>(s, cl). message_id_max < length (c_handlers (cl_conn cl)) \<and>
     (stream_registered s (event_id e) \<longrightarrow> stream_slot cl (event_id e)) \<and>
     (stream_handler s e \<noteq> None \<longrightarrow> stream_registered s (event_id e)))"

lemma stream_slot_send: "stream_slot (snd (client_send x cl)) t = stream_slot cl t"
  by (simp add: stream_slot_def client_send_keeps)

lemmas subscriptions = log_subscribe_def zwave_on_frame_def voice_subscribe_def voice_on_event_def voice_on_audio_def
  voice_on_announce_finished_def voice_request_configuration_def voice_on_timer_event_def voice_register_def

lemma subscribe_event_in_step: "event_in_step e p \<Longrightarrow> event_in_step e (subscribe_to sub p)"
  by (cases p; cases sub; cases e; simp add: event_in_step_def subscriptions Let_def case_prod_unfold stream_slot_send
      client_send_keeps client_on_slots stream_registered_def message_id_max_eq)

lemma subscribe_keeps:
  "c_any_handler (cl_conn (snd (subscribe_to sub p))) = c_any_handler (cl_conn (snd p))"
  "c_state (cl_conn (snd (subscribe_to sub p))) = c_state (cl_conn (snd p))"
  by (cases p; cases sub; simp add: subscriptions Let_def case_prod_unfold client_send_keeps client_on_slots)+

lemma subscribe_all_in_step:
  assumes "message_id_max < length (c_handlers (cl_conn cl))"
  shows "event_in_step e (subscribe_all subs cl)"
proof -
  have "event_in_step e (new_streams, cl)"
    using assms by (cases e) (simp_all add: event_in_step_def new_streams_def stream_registered_def new_log_stream_def
        new_zwave_proxy_def new_voice_assistant_def)
  then have "event_in_step e (fold subscribe_to subs p)" if "event_in_step e p" for p
    using that by (induction subs arbitrary: p) (simp_all add: subscribe_event_in_step)
  with \<open>event_in_step e (new_streams, cl)\<close> show ?thesis by (simp add: subscribe_all_def)
qed

lemma subscribe_all_keeps:
  "c_any_handler (cl_conn (snd (subscribe_all subs cl))) = c_any_handler (cl_conn cl)"
  "c_state (cl_conn (snd (subscribe_all subs cl))) = c_state (cl_conn cl)"
proof -
  have "c_any_handler (cl_conn (snd (fold subscribe_to subs p))) = c_any_handler (cl_conn (snd p)) \<and>
    c_state (cl_conn (snd (fold subscribe_to subs p))) = c_state (cl_conn (snd p))" for p
    by (induction subs arbitrary: p) (simp_all add: subscribe_keeps)
  then show "c_any_handler (cl_conn (snd (subscribe_all subs cl))) = c_any_handler (cl_conn cl)"
    "c_state (cl_conn (snd (subscribe_all subs cl))) = c_state (cl_conn cl)"
    by (simp_all add: subscribe_all_def)
qed

text \<open>What the calls of one effect run.\<close>

lemma stream_effect:
  "\<exists>cs. cl_calls (client_effect e cl) = cl_calls cl @ cs \<and> stream_messages s cs = stream_message s (Conn_Effect e)"
proof (cases e)
  case (Eff_any x)
  have "stream_messages s (map (\<lambda>(ty, key). State_Call ty key) ss @ map (\<lambda>i. Any_Call i y) is) = []" for ss "is" y
    by (simp add: stream_messages_def stream_message_def case_prod_unfold comp_def)
  then show ?thesis
    using Eff_any by (auto simp: client_on_any_def call_out_def Let_def stream_messages_def stream_message_def split: prod.splits)
qed (auto simp: call_out_def stream_messages_def)

lemma stream_effects:
  "\<exists>cs. cl_calls (fold client_effect es cl) = cl_calls cl @ cs \<and>
     stream_messages s cs = concat (map (stream_message s \<circ> Conn_Effect) es)"
proof (induction es arbitrary: cl)
  case (Cons e es)
  obtain cs where "cl_calls (client_effect e cl) = cl_calls cl @ cs" "stream_messages s cs = stream_message s (Conn_Effect e)"
    using stream_effect by blast
  moreover obtain cs' where "cl_calls (fold client_effect es (client_effect e cl)) = cl_calls (client_effect e cl) @ cs'"
    "stream_messages s cs' = concat (map (stream_message s \<circ> Conn_Effect) es)"
    using Cons.IH by blast
  ultimately show ?case by (intro exI [of _ "cs @ cs'"]) (simp add: stream_messages_def comp_def)
qed (simp add: stream_messages_def)

text \<open>What a device interleaves: events of the streams and other messages.\<close>

definition sent_object :: "stream_event + api_object \<Rightarrow> api_object" where
  "sent_object y = (case y of Inl e \<Rightarrow> event_object e | Inr x \<Rightarrow> x)"

definition calls_for :: "streams \<Rightarrow> stream_event + api_object \<Rightarrow> (callback \<times> stream_event) list" where
  "calls_for s y = (case y of Inl e \<Rightarrow> call_with (stream_handler s e) (settle_event e) | Inr x \<Rightarrow> [])"

lemma stream_dispatched:
  assumes "\<And>e. event_in_step e (s, cl)" "c = cl_conn cl" "length (snd (wire (sent_object y))) < 2 ^ 31"
    and "\<And>x. y = Inr x \<Longrightarrow> well_typed x \<and> obj_id x \<notin> stream_ids"
  shows "concat (map (stream_message s \<circ> Conn_Effect) (dispatched api_registry c (wire (sent_object y)))) = calls_for s y"
proof -
  have quiet: "stream_message s (Conn_Effect (Eff_raw t b)) = []" "stream_message s (Conn_Effect (Eff_any o1)) = []" for t b o1
    by (simp_all add: stream_message_def)
  show ?thesis
  proof (cases y)
    case (Inl e)
    have slot: "stream_handler s e = None \<or> stream_registered s (event_id e)"
      "stream_registered s (event_id e) \<Longrightarrow> stream_slot cl (event_id e)"
      using assms(1) [of e] by (auto simp: event_in_step_def)
    have "call_with None arg = []" for arg by (simp add: call_with_def)
    then show ?thesis
      using dispatched_wire [OF event_object_simps(4) assms(3) [unfolded Inl sent_object_def sum.case], of c] slot
      by (auto simp: Inl sent_object_def calls_for_def event_object_simps(1) quiet assms(2) stream_slot_def stream_message_event)
  next
    case (Inr x)
    then have x: "well_typed x" "obj_id x \<notin> stream_ids" using assms(4) by auto
    then show ?thesis
      using dispatched_wire [OF x(1) assms(3) [unfolded Inr sent_object_def sum.case], of c]
      by (auto simp: Inr sent_object_def calls_for_def stream_message_other quiet)
  qed
qed

section \<open>Properties\<close>

text \<open>
  C7: Streams are delivered.  An application subscribes to logs, Z-Wave frames and voice events in any order and any
  number of times; then whatever the device sends, interleaved with other messages, encrypted or not and
  however cut into reads, each event whose callback is set runs the callback that was set last, exactly
  once, in the order sent, with the values that the device sent (up to the sign of a zero volume multiplier); nothing
  else runs them.
\<close>

theorem streams_delivered:
  assumes "message_id_max < length (c_handlers (cl_conn cl0))" "c_any_handler (cl_conn cl0)" "\<not> terminated (cl_conn cl0)"
    and "subscribe_all subs cl0 = (s, cl)"
    and "carries (c_frame (cl_conn cl)) chunks (map (wire \<circ> sent_object) ys)"
    and "\<forall>x. Inr x \<in> set ys \<longrightarrow> well_typed x \<and> \<not> internal_id (obj_id x) \<and> obj_id x \<notin> stream_ids"
  shows "stream_messages s (drop (length (cl_calls cl)) (cl_calls (client_read_all chunks cl))) = concat (map (calls_for s) ys)"
proof -
  have t: "\<not> terminated (cl_conn cl)"
    using subscribe_all_keeps(2) [of subs cl0] assms(3,4) by (simp add: terminated_def)
  have st: "event_in_step e (s, cl)" for e using subscribe_all_in_step [OF assms(1), of e subs] assms(4) by simp
  have l: "\<forall>y \<in> set ys. length (snd (wire (sent_object y))) < 2 ^ 31" using carries_short [OF assms(5)] by auto
  have a: "list_all (app_message api_registry) (map (wire \<circ> sent_object) ys)"
    using l assms(6) by (auto simp: list_all_iff sent_object_def event_object_simps event_external
        intro!: wire_app_message split: sum.splits)
  obtain fh where r: "receive fh_feed fh_nxt (Suc (length ys)) chunks (c_frame (cl_conn cl)) = (map (wire \<circ> sent_object) ys, None, fh)"
    and h: "handshake_done (c_frame (cl_conn cl))"
    using carries_receive [OF assms(5)] by auto
  let ?es = "concat (map (dispatched api_registry (cl_conn cl)) (map (wire \<circ> sent_object) ys))"
  have "\<exists>cs. cl_calls (client_read_all chunks cl) = cl_calls cl @ cs \<and>
      stream_messages s cs = concat (map (stream_message s \<circ> Conn_Effect) ?es)"
    using client_read_dispatches [OF h t r _ a refl] stream_effects [of ?es cl s] by (simp add: fold_effect_conn)
  moreover have "concat (map (stream_message s \<circ> Conn_Effect) ?es) = concat (map (calls_for s) ys)"
    using stream_dispatched [OF st refl] l assms(6) by (induction ys) auto
  ultimately show ?thesis by auto
qed

theorem streams_delivered_witness:
  "case subscribe_all [Sub_logs 5 (Some 4) True] demo_client of (s, cl) \<Rightarrow>
     stream_messages s (drop (length (cl_calls cl)) (cl_calls (client_read_all
       [plain_encode 29 (snd (wire (event_object (Log_Line \<lparr>le_level = 3, le_message = ''boot''\<rparr>)))) []] cl))) =
     [(4, Log_Line \<lparr>le_level = 3, le_message = ''boot''\<rparr>)]"
proof -
  let ?e = "Log_Line \<lparr>le_level = 3, le_message = ''boot''\<rparr>"
  obtain s cl where sub: "subscribe_all [Sub_logs 5 (Some 4) True] demo_client = (s, cl)" by force
  have f: "c_frame (cl_conn cl) = FHPlain plain_init" "stream_handler s ?e = Some 4"
    using sub by (auto simp: subscribe_all_def subscriptions Let_def case_prod_unfold client_send_def client_act_def send_def
        send_raw_def emit_def client_on_def on_handler_def demo_client_conn call_out_def split: sum.splits)
  have "plain_ok (wire (event_object ?e))"
    by (rule wire_fits [OF event_object_simps(4)])
      (simp_all add: event_object_def subscribe_logs_response_def of_fields_def mk_field_simps new_member_cf Str_def bytes_of_string_def)
  then have c: "carries (c_frame (cl_conn cl)) [plain_encode 29 (snd (wire (event_object ?e))) []] (map (wire \<circ> sent_object) [Inl ?e])"
    by (simp add: carries_def f(1) plain_init_holds sent_object_def event_object_simps(1))
  have n: "message_id_max < length (c_handlers (cl_conn demo_client))"
    by (simp add: demo_client_def on_any_def conn_init_def)
  show ?thesis
    using streams_delivered [OF n demo_client_conn(3,2) sub c] f(2) by (simp add: sub calls_for_def call_with_def)
qed

end
