(* ===== verification/Sync_Client.thy ===== *)
theory Sync_Client
  imports Client
begin

text \<open>
  The blocking facade \<^verbatim>\<open>SyncClient\<close> (\<^verbatim>\<open>src/sync_client.cpp\<close>): every call pumps the event loop in slices until what it waits for has
  happened or its deadline has passed.  What the loop does in a slice (reads, timers, completions) and the clock that
  the code reads after it are the environment, a list of slices; a result \<open>None\<close> means that the call still
  blocks when the list is used up.  The local variables that a message handler captures end with the call;
  \<open>sc_stale\<close> holds the message types whose slot still has such a handler.
\<close>

section \<open>State\<close>

record loop_slice =
  sl_acts :: "api_object act list"
  sl_clock :: nat

record sync_client =
  sc_client :: client
  sc_now :: nat
  sc_slices :: "loop_slice list"
  sc_subscribe_on_connect :: bool
  sc_request_timeout :: nat
  sc_connect_pump_timeout :: nat
  sc_stale :: "nat set"
  sc_connect_stale :: bool

type_synonym 'a sync_result = "(api_error + 'a) option"

text \<open>\<open>connect_timeout\<close> is \<^verbatim>\<open>options.connection.connect_timeout\<close>, in milliseconds.\<close>

definition sync_init :: "nat \<Rightarrow> nat \<Rightarrow> loop_slice list \<Rightarrow> client_options \<Rightarrow> client \<Rightarrow> sync_client" where
  "sync_init connect_timeout now slices opts cl =
     \<lparr>sc_client = cl, sc_now = now, sc_slices = slices, sc_subscribe_on_connect = co_subscribe_on_connect opts,
      sc_request_timeout = 30000, sc_connect_pump_timeout = connect_timeout + 5000,
      sc_stale = {}, sc_connect_stale = False\<rparr>"

definition set_request_timeout :: "nat \<Rightarrow> sync_client \<Rightarrow> sync_client" where
  "set_request_timeout timeout s = s\<lparr>sc_request_timeout := timeout\<rparr>"

section \<open>Pumping\<close>

text \<open>A slice of the loop; an exception of a handler leaves \<^verbatim>\<open>run_for\<close>.\<close>

fun run_slice :: "api_object act list \<Rightarrow> client \<Rightarrow> api_error option \<times> client" where
  "run_slice [] cl = (None, cl)"
| "run_slice (a # as) cl =
     (case client_act a cl of
        (Some e, cl) \<Rightarrow> (Some e, cl)
      | (None, cl) \<Rightarrow> run_slice as cl)"

definition timed_out :: "nat \<Rightarrow> api_error" where
  "timed_out timeout = TimeoutError (''operation timed out after '' @ to_string_nat timeout @ ''ms'')"

fun pump_loop ::
  "(client \<Rightarrow> bool) \<Rightarrow> nat \<Rightarrow> nat \<Rightarrow> nat \<Rightarrow> loop_slice list \<Rightarrow> client \<Rightarrow> unit sync_result \<times> nat \<times> loop_slice list \<times> client" where
  "pump_loop pred deadline timeout now ss cl =
     (if pred cl then (Some (Inr ()), now, ss, cl)
      else if deadline \<le> now then (Some (Inl (timed_out timeout)), now, ss, cl)
      else case ss of
             [] \<Rightarrow> (None, now, [], cl)
           | s # ss \<Rightarrow>
               (case run_slice (sl_acts s) cl of
                  (Some e, cl) \<Rightarrow> (Some (Inl e), sl_clock s, ss, cl)
                | (None, cl) \<Rightarrow> pump_loop pred deadline timeout (sl_clock s) ss cl))"

declare pump_loop.simps [simp del]

definition pump_until :: "(client \<Rightarrow> bool) \<Rightarrow> nat \<Rightarrow> sync_client \<Rightarrow> unit sync_result \<times> sync_client" where
  "pump_until pred timeout s =
     (case pump_loop pred (sc_now s + timeout) timeout (sc_now s) (sc_slices s) (sc_client s) of
        (r, now, ss, cl) \<Rightarrow> (r, s\<lparr>sc_client := cl, sc_now := now, sc_slices := ss\<rparr>))"

section \<open>Requests\<close>

text \<open>A handler over locals is installed (\<open>own_slot\<close>), removed with \<^verbatim>\<open>on(id, nullptr)\<close> (\<open>free_slot\<close>) or left behind.\<close>

definition client_off :: "nat \<Rightarrow> client \<Rightarrow> client" where
  "client_off t cl = cl\<lparr>cl_conn := (cl_conn cl)\<lparr>c_handlers := (c_handlers (cl_conn cl))[t := False]\<rparr>\<rparr>"

definition own_slot :: "nat \<Rightarrow> sync_client \<Rightarrow> sync_client" where
  "own_slot t s = s\<lparr>sc_client := client_on t (sc_client s), sc_stale := sc_stale s - {t}\<rparr>"

definition free_slot :: "nat \<Rightarrow> sync_client \<Rightarrow> sync_client" where
  "free_slot t s = s\<lparr>sc_client := client_off t (sc_client s), sc_stale := sc_stale s - {t}\<rparr>"

definition leave_slot :: "nat \<Rightarrow> sync_client \<Rightarrow> sync_client" where
  "leave_slot t s = s\<lparr>sc_stale := insert t (sc_stale s)\<rparr>"

text \<open>The messages that a handler installed when \<open>n\<close> calls had been made has been called with.\<close>

definition seen :: "nat \<Rightarrow> u32 \<Rightarrow> client \<Rightarrow> api_object list" where
  "seen n t cl = concat (map (\<lambda>c. case c of Conn_Effect (Eff_message t' x) \<Rightarrow> if t' = t then [x] else [] | _ \<Rightarrow> [])
     (drop n (cl_calls cl)))"

text \<open>What \<^verbatim>\<open>list_entities\<close> and \<^verbatim>\<open>device_info\<close> share: install, send, pump, remove.\<close>

definition request_and_wait :: "u32 \<Rightarrow> api_object \<Rightarrow> sync_client \<Rightarrow> api_object list sync_result \<times> sync_client" where
  "request_and_wait t req s =
     (let s = own_slot (unat t) s;
          n = length (cl_calls (sc_client s))
      in case client_send req (sc_client s) of
           (Some e, cl) \<Rightarrow> (Some (Inl e), leave_slot (unat t) (s\<lparr>sc_client := cl\<rparr>))
         | (None, cl) \<Rightarrow>
             (case pump_until (\<lambda>cl. seen n t cl \<noteq> []) (sc_request_timeout s) (s\<lparr>sc_client := cl\<rparr>) of
                (None, s) \<Rightarrow> (None, s)
              | (Some (Inl e), s) \<Rightarrow> (Some (Inl e), leave_slot (unat t) s)
              | (Some (Inr _), s) \<Rightarrow> (Some (Inr (seen n t (sc_client s))), free_slot (unat t) s)))"

definition sync_list_entities :: "sync_client \<Rightarrow> unit sync_result \<times> sync_client" where
  "sync_list_entities s =
     (if \<not> is_connected (sc_client s) then (Some (Inl (ApiError ''list_entities() called while not connected'')), s)
      else map_prod (map_option (map_sum id (\<lambda>_. ()))) id
        (request_and_wait 19 (Api_Object 11 (new_message list_entities_request)) s))"

definition sync_device_info :: "sync_client \<Rightarrow> DeviceInfo sync_result \<times> sync_client" where
  "sync_device_info s =
     (if \<not> is_connected (sc_client s) then (Some (Inl (ApiError ''device_info() called while not connected'')), s)
      else map_prod (map_option (map_sum id (\<lambda>xs. from_proto (obj_fields (last xs))))) id
        (request_and_wait id_DeviceInfoResponse (Api_Object 9 (new_message device_info_request)) s))"

definition sync_subscribe_states :: "sync_client \<Rightarrow> unit sync_result \<times> sync_client" where
  "sync_subscribe_states s =
     (if \<not> is_connected (sc_client s) then (Some (Inl (ApiError ''subscribe_states() called while not connected'')), s)
      else case subscribe_to_states (sc_client s) of
             (Some e, cl) \<Rightarrow> (Some (Inl e), s\<lparr>sc_client := cl\<rparr>)
           | (None, cl) \<Rightarrow> (Some (Inr ()), s\<lparr>sc_client := cl\<rparr>))"

text \<open>The codes that the completion handler of \<^verbatim>\<open>async_connect\<close> has been called with.\<close>

definition done_codes :: "nat \<Rightarrow> client \<Rightarrow> error_code list" where
  "done_codes n cl = concat (map (\<lambda>c. case c of Conn_Effect (Eff_done ec) \<Rightarrow> [ec] | _ \<Rightarrow> []) (drop n (cl_calls cl)))"

text \<open>The text of an error code is the standard library's: the argument \<open>message_of\<close>.\<close>

definition sync_connect :: "(error_code \<Rightarrow> string) \<Rightarrow> sync_client \<Rightarrow> unit sync_result \<times> sync_client" where
  "sync_connect message_of s =
     (let n = length (cl_calls (sc_client s));
          s = s\<lparr>sc_client := async_connect (sc_client s), sc_connect_stale := False\<rparr>
      in case pump_until (\<lambda>cl. done_codes n cl \<noteq> []) (sc_connect_pump_timeout s) s of
           (None, s) \<Rightarrow> (None, s)
         | (Some (Inl e), s) \<Rightarrow> (Some (Inl e), s\<lparr>sc_connect_stale := True\<rparr>)
         | (Some (Inr _), s) \<Rightarrow>
             (let ec = last (done_codes n (sc_client s))
              in if ec \<noteq> Ec_ok
                 then (case c_last_error (cl_conn (sc_client s)) of
                         Some e \<Rightarrow> (Some (Inl e), s)
                       | None \<Rightarrow> (Some (Inl (ConnectionError (''connect failed: '' @ message_of ec))), s))
                 else if sc_subscribe_on_connect s
                 then (case sync_subscribe_states s of
                         (Some (Inr _), s) \<Rightarrow> sync_list_entities s
                       | r \<Rightarrow> r)
                 else (Some (Inr ()), s)))"

definition sync_disconnect :: "sync_client \<Rightarrow> unit sync_result \<times> sync_client" where
  "sync_disconnect s =
     (if client_state (sc_client s) \<noteq> Connected \<and> client_state (sc_client s) \<noteq> HelloSent then (Some (Inr ()), s)
      else case client_disconnect (sc_client s) of
             (Some e, cl) \<Rightarrow> (Some (Inl e), s\<lparr>sc_client := cl\<rparr>)
           | (None, cl) \<Rightarrow>
               (case pump_until (\<lambda>cl. client_state cl \<in> {Closed, Failed, Disconnected}) 5000 (s\<lparr>sc_client := cl\<rparr>) of
                  (Some (Inl (TimeoutError w)), s) \<Rightarrow> (Some (Inr ()), s)
                | r \<Rightarrow> r))"

definition sync_serial_proxy :: "u32 \<Rightarrow> sync_client \<Rightarrow> u32 \<times> sync_client" where
  "sync_serial_proxy instance s = (case serial_proxy instance (sc_client s) of (p, cl) \<Rightarrow> (p, s\<lparr>sc_client := cl\<rparr>))"

definition sync_serial_proxy_by_name :: "string \<Rightarrow> sync_client \<Rightarrow> u32 sync_result \<times> sync_client" where
  "sync_serial_proxy_by_name name s =
     (case (if cl_device_info_loaded (sc_client s) then (Some (Inr ()), s)
            else map_prod (map_option (map_sum id (\<lambda>_. ()))) id (sync_device_info s)) of
        (None, s) \<Rightarrow> (None, s)
      | (Some (Inl e), s) \<Rightarrow> (Some (Inl e), s)
      | (Some (Inr _), s) \<Rightarrow>
          (case serial_proxy_by_name name (sc_client s) of (r, cl) \<Rightarrow> (Some r, s\<lparr>sc_client := cl\<rparr>)))"

section \<open>Pumping ends\<close>

lemma pump_loop_end:
  "pred cl \<Longrightarrow> pump_loop pred deadline timeout now ss cl = (Some (Inr ()), now, ss, cl)"
  "\<not> pred cl \<Longrightarrow> deadline \<le> now \<Longrightarrow> pump_loop pred deadline timeout now ss cl = (Some (Inl (timed_out timeout)), now, ss, cl)"
  "\<not> pred cl \<Longrightarrow> now < deadline \<Longrightarrow> pump_loop pred deadline timeout now [] cl = (None, now, [], cl)"
  by (simp_all add: pump_loop.simps [of pred deadline timeout now])

lemma pump_loop_slice:
  "\<not> pred cl \<Longrightarrow> now < deadline \<Longrightarrow> pump_loop pred deadline timeout now (s # ss) cl =
     (case run_slice (sl_acts s) cl of
        (Some e, cl) \<Rightarrow> (Some (Inl e), sl_clock s, ss, cl)
      | (None, cl) \<Rightarrow> pump_loop pred deadline timeout (sl_clock s) ss cl)"
  by (simp add: pump_loop.simps [of pred deadline timeout now])

text \<open>The slices that are used: only the last of them can reach the deadline or raise.\<close>

lemma pump_loop_outcome:
  assumes "pump_loop pred deadline timeout now ss cl = (r, now', ss', cl')"
  shows "\<exists>used. ss = used @ ss' \<and> now' = last (now # map sl_clock used) \<and>
    (\<forall>c \<in> set (butlast (now # map sl_clock used)). c < deadline) \<and>
    (case r of
       None \<Rightarrow> \<not> pred cl' \<and> now' < deadline \<and> ss' = []
     | Some (Inr _) \<Rightarrow> pred cl'
     | Some (Inl e) \<Rightarrow> e = timed_out timeout \<and> \<not> pred cl' \<and> deadline \<le> now' \<or>
         (\<exists>s cl0. s \<in> set used \<and> run_slice (sl_acts s) cl0 = (Some e, cl')))"
  using assms
proof (induction ss arbitrary: now cl)
  case Nil
  then show ?case
    by (cases "pred cl"; cases "deadline \<le> now") (auto simp: pump_loop_end not_le)
next
  case (Cons s ss)
  consider "pred cl" | "\<not> pred cl" "deadline \<le> now" | "\<not> pred cl" "now < deadline" by fastforce
  then show ?case
  proof cases
    case 3
    obtain e cl1 where s: "run_slice (sl_acts s) cl = (e, cl1)" by force
    show ?thesis
    proof (cases e)
      case (Some e')
      with Cons.prems 3 s have "r = Some (Inl e')" "now' = sl_clock s" "ss' = ss" "cl' = cl1"
        by (simp_all add: pump_loop_slice)
      then show ?thesis using s Some 3 by (intro exI [of _ "[s]"]) auto
    next
      case None
      with Cons.prems 3 s have "pump_loop pred deadline timeout (sl_clock s) ss cl1 = (r, now', ss', cl')"
        by (simp add: pump_loop_slice)
      from Cons.IH [OF this] obtain used where u: "ss = used @ ss'" "now' = last (sl_clock s # map sl_clock used)"
        "\<forall>c \<in> set (butlast (sl_clock s # map sl_clock used)). c < deadline"
        "case r of
           None \<Rightarrow> \<not> pred cl' \<and> now' < deadline \<and> ss' = []
         | Some (Inr _) \<Rightarrow> pred cl'
         | Some (Inl e) \<Rightarrow> e = timed_out timeout \<and> \<not> pred cl' \<and> deadline \<le> now' \<or>
             (\<exists>s cl0. s \<in> set used \<and> run_slice (sl_acts s) cl0 = (Some e, cl'))" by blast
      show ?thesis using u 3
        by (intro exI [of _ "s # used"]) (auto split: option.splits sum.splits)
    qed
  qed (use Cons.prems in \<open>auto simp: pump_loop_end intro: exI [of _ "[]"]\<close>)
qed

lemma pump_loop_ends:
  assumes "\<exists>s \<in> set ss. deadline \<le> sl_clock s"
  shows "fst (pump_loop pred deadline timeout now ss cl) \<noteq> None"
  using assms
proof (induction ss arbitrary: now cl)
  case Nil
  then show ?case by simp
next
  case (Cons s ss)
  consider "pred cl" | "\<not> pred cl" "deadline \<le> now" | "\<not> pred cl" "now < deadline" by fastforce
  then show ?case
  proof cases
    case 3
    obtain e cl1 where s: "run_slice (sl_acts s) cl = (e, cl1)" by force
    show ?thesis
    proof (cases "deadline \<le> sl_clock s")
      case True
      then show ?thesis using 3 s
        by (cases "pred cl1") (auto simp: pump_loop_slice pump_loop_end(1,2) split: option.split)
    next
      case False
      then show ?thesis using 3 s Cons by (auto simp: pump_loop_slice split: option.split)
    qed
  qed (auto simp: pump_loop_end)
qed

section \<open>A request is answered\<close>

text \<open>The handler of the slot is called with the messages of its type, in order.\<close>

definition messages_of :: "u32 \<Rightarrow> api_object effect list \<Rightarrow> api_object list" where
  "messages_of t es = concat (map (\<lambda>e. case e of Eff_message t' x \<Rightarrow> if t' = t then [x] else [] | _ \<Rightarrow> []) es)"

lemma cl_calls_effect:
  "\<exists>ds. cl_calls (client_effect e cl) = cl_calls cl @ ds \<and>
    concat (map (\<lambda>c. case c of Conn_Effect (Eff_message t' x) \<Rightarrow> if t' = t then [x] else [] | _ \<Rightarrow> []) ds) = messages_of t [e]"
  by (cases e) (auto simp: client_on_any_def call_out_def messages_of_def Let_def split: prod.split)

lemma seen_effects:
  assumes "n \<le> length (cl_calls cl)"
  shows "seen n t (fold client_effect es cl) = seen n t cl @ messages_of t es \<and> n \<le> length (cl_calls (fold client_effect es cl))"
  using assms
proof (induction es arbitrary: cl)
  case Nil
  then show ?case by (simp add: messages_of_def)
next
  case (Cons e es)
  obtain ds where ds: "cl_calls (client_effect e cl) = cl_calls cl @ ds"
    "concat (map (\<lambda>c. case c of Conn_Effect (Eff_message t' x) \<Rightarrow> if t' = t then [x] else [] | _ \<Rightarrow> []) ds) = messages_of t [e]"
    using cl_calls_effect by blast
  then have "seen n t (client_effect e cl) = seen n t cl @ messages_of t [e]" using Cons.prems by (simp add: seen_def)
  with Cons.IH [of "client_effect e cl"] Cons.prems ds(1) show ?case by (simp add: messages_of_def)
qed

lemma seen_conn [simp]: "seen n t (cl\<lparr>cl_conn := c\<rparr>) = seen n t cl"
  by (simp add: seen_def)

lemma receive_append:
  assumes "receive fd nxt n (cs1 @ cs2) d = (ms, None, d')"
  obtains ms1 d1 ms2 where "receive fd nxt n cs1 d = (ms1, None, d1)" "receive fd nxt n cs2 d1 = (ms2, None, d')" "ms = ms1 @ ms2"
proof -
  have "\<exists>ms1 d1 ms2. receive fd nxt n cs1 d = (ms1, None, d1) \<and> receive fd nxt n cs2 d1 = (ms2, None, d') \<and> ms = ms1 @ ms2"
    using assms
  proof (induction cs1 arbitrary: d ms)
    case (Cons c cs1)
    then show ?case by (fastforce split: prod.splits option.splits)
  qed simp
  then show ?thesis using that by blast
qed

lemma receive_glue:
  assumes "receive fd nxt n cs1 d = (ms1, None, d1)" "receive fd nxt n cs2 d1 = (ms2, None, d')"
  shows "receive fd nxt n (cs1 @ cs2) d = (ms1 @ ms2, None, d')"
  using assms by (induction cs1 arbitrary: d ms1) (fastforce split: prod.splits option.splits)+

lemma messages_dispatched:
  assumes "\<forall>x \<in> set xs. well_typed x \<and> length (snd (wire x)) < 2 ^ 31"
    and "unat t < length (c_handlers c)" "c_handlers c ! unat t"
  shows "messages_of t (concat (map (dispatched api_registry c) (map wire xs))) = map received_object (filter (\<lambda>x. obj_id x = t) xs)"
  using assms(1)
proof (induction xs)
  case (Cons x xs)
  then show ?case using assms(2,3) dispatched_wire [of x c] by (auto simp: messages_of_def)
qed (simp add: messages_of_def)

text \<open>Reads that arrive in one slice.\<close>

definition reads :: "bytes list \<Rightarrow> api_object act list" where
  "reads cs = map (on_bytes api_registry Ec_ok) cs"

lemma run_reads:
  assumes "handshake_done (c_frame (cl_conn cl))" "\<not> terminated (cl_conn cl)"
    and "receive fh_feed fh_nxt n cs (c_frame (cl_conn cl)) = (ms, None, fh)" "length ms < n" "list_all (app_message api_registry) ms"
  shows "run_slice (reads cs) cl = (None, client_read_all cs cl) \<and>
    cl_conn (client_read_all cs cl) =
      (cl_conn cl)\<lparr>c_frame := fh, c_out := c_out (cl_conn cl) @ concat (map (dispatched api_registry (cl_conn cl)) ms)\<rparr> \<and>
    handshake_done fh"
  using assms
proof (induction cs arbitrary: cl ms)
  case Nil
  then show ?case by (simp add: reads_def client_read_all_def)
next
  case (Cons d cs)
  let ?c = "cl_conn cl"
  obtain ms1 fh1 ms2 where p: "pump fh_nxt n (fh_feed d (c_frame ?c)) = (ms1, None, fh1)"
    and rest: "receive fh_feed fh_nxt n cs fh1 = (ms2, None, fh)" and ms: "ms = ms1 @ ms2"
    using Cons.prems(3) by (auto split: prod.splits option.splits)
  let ?c1 = "?c\<lparr>c_frame := fh1, c_out := c_out ?c @ concat (map (dispatched api_registry ?c) ms1)\<rparr>"
  have b: "on_bytes api_registry Ec_ok d ?c = (None, ?c1)" "handshake_done fh1"
    using on_bytes_dispatches [OF Cons.prems(1,2) p, of api_registry] Cons.prems(4,5) by (simp_all add: ms)
  then have r: "client_act (on_bytes api_registry Ec_ok d) cl = (None, client_read d cl)" "cl_conn (client_read d cl) = ?c1"
    by (simp_all add: client_read_def client_act_def)
  have d: "dispatched api_registry ?c1 = dispatched api_registry ?c" by (simp add: dispatched_def fun_eq_iff split: option.split)
  have "run_slice (reads cs) (client_read d cl) = (None, client_read_all cs (client_read d cl)) \<and>
    cl_conn (client_read_all cs (client_read d cl)) =
      ?c1\<lparr>c_frame := fh, c_out := c_out ?c1 @ concat (map (dispatched api_registry ?c1) ms2)\<rparr> \<and> handshake_done fh"
    using Cons.IH [of "client_read d cl" ms2] b(2) rest Cons.prems(2,4,5) by (simp add: r ms terminated_def)
  then show ?case by (simp add: reads_def r client_read_all_def d ms)
qed

lemma pump_receives:
  assumes "handshake_done (c_frame (cl_conn cl))" "\<not> terminated (cl_conn cl)"
    and "receive fh_feed fh_nxt k (concat css) (c_frame (cl_conn cl)) = (map wire (ys @ [x]), None, fh)" "length (ys @ [x]) < k"
    and "\<forall>y \<in> set (ys @ [x]). well_typed y \<and> \<not> internal_id (obj_id y) \<and> length (snd (wire y)) < 2 ^ 31"
    and "obj_id x = t" "\<forall>y \<in> set ys. obj_id y \<noteq> t"
    and "unat t < length (c_handlers (cl_conn cl))" "c_handlers (cl_conn cl) ! unat t"
    and "seen n t cl = []" "n \<le> length (cl_calls cl)"
    and "now < deadline" "\<forall>c \<in> set clocks. c < deadline" "length clocks = length css"
  shows "\<exists>cs now' ss' cl'. pump_loop (\<lambda>cl. seen n t cl \<noteq> []) deadline timeout now
      (map2 (\<lambda>cs c. \<lparr>sl_acts = reads cs, sl_clock = c\<rparr>) css clocks @ rest) cl = (Some (Inr ()), now', ss', cl') \<and>
    cl' = client_read_all cs cl \<and> seen n t cl' = [received_object x] \<and>
    (\<exists>fh'. receive fh_feed fh_nxt k cs (c_frame (cl_conn cl)) = (map wire (ys @ [x]), None, fh'))"
  using assms
proof (induction css arbitrary: cl ys now clocks)
  case Nil
  then show ?case by simp
next
  case (Cons cs css)
  obtain c cls where cl: "clocks = c # cls" using Cons.prems(14) by (cases clocks) auto
  obtain ms1 fh1 ms2 where r: "receive fh_feed fh_nxt k cs (c_frame (cl_conn cl)) = (ms1, None, fh1)"
    "receive fh_feed fh_nxt k (concat css) fh1 = (ms2, None, fh)" "map wire (ys @ [x]) = ms1 @ ms2"
    using Cons.prems(3) by (auto elim: receive_append)
  obtain xs1 xs2 where xs: "ys @ [x] = xs1 @ xs2" "ms1 = map wire xs1" "ms2 = map wire xs2"
    using r(3) unfolding map_eq_append_conv by blast
  have k: "length xs1 < k" "length xs2 < k" using Cons.prems(4) xs(1) by (metis add_lessD1 length_append add.commute)+
  have ok: "\<forall>y \<in> set xs1. well_typed y \<and> \<not> internal_id (obj_id y) \<and> length (snd (wire y)) < 2 ^ 31"
    "\<forall>y \<in> set xs2. well_typed y \<and> \<not> internal_id (obj_id y) \<and> length (snd (wire y)) < 2 ^ 31"
    using Cons.prems(5) xs(1) by (metis UnCI set_append)+
  have a: "list_all (app_message api_registry) ms1" using ok(1) by (auto simp: xs(2) list_all_iff intro: wire_app_message)
  define cl1 where "cl1 = client_read_all cs cl"
  note run = run_reads [OF Cons.prems(1,2) r(1) _ a, folded cl1_def]
  have run: "run_slice (reads cs) cl = (None, cl1)" "handshake_done fh1"
    "cl_conn cl1 = (cl_conn cl)\<lparr>c_frame := fh1, c_out := c_out (cl_conn cl) @ concat (map (dispatched api_registry (cl_conn cl)) ms1)\<rparr>"
    using run k(1) by (simp_all add: xs(2))
  have s1: "seen n t cl1 = map received_object (filter (\<lambda>y. obj_id y = t) xs1)" "n \<le> length (cl_calls cl1)"
    using client_read_dispatches [OF Cons.prems(1,2) r(1) _ a refl] k(1) Cons.prems(10,11) ok(1)
      messages_dispatched [of xs1 t "cl_conn cl"] Cons.prems(8,9)
    by (simp_all add: cl1_def xs(2) fold_effect_conn seen_effects)
  let ?loop = "pump_loop (\<lambda>cl. seen n t cl \<noteq> []) deadline timeout"
  let ?ss = "map2 (\<lambda>cs c. \<lparr>sl_acts = reads cs, sl_clock = c\<rparr>) css cls @ rest"
  have step: "?loop now (map2 (\<lambda>cs c. \<lparr>sl_acts = reads cs, sl_clock = c\<rparr>) (cs # css) clocks @ rest) cl = ?loop c ?ss cl1"
    using Cons.prems(10,12) run(1) by (simp add: cl pump_loop_slice)
  show ?case
  proof (cases "xs2 = []")
    case True
    then have "xs1 = ys @ [x]" using xs(1) by simp
    then have "seen n t cl1 = [received_object x]" using s1(1) Cons.prems(6,7) by simp
    then show ?thesis using r(1) \<open>xs1 = _\<close> by (auto simp: step pump_loop_end(1) xs(2) cl1_def)
  next
    case False
    then obtain ys2 where ys2: "xs2 = ys2 @ [x]" "ys = xs1 @ ys2" using xs(1) by (cases xs2 rule: rev_cases) auto
    have "seen n t cl1 = []" using s1(1) Cons.prems(7) by (simp add: ys2(2))
    have "\<exists>cs now' ss' cl'. ?loop c ?ss cl1 = (Some (Inr ()), now', ss', cl') \<and>
      cl' = client_read_all cs cl1 \<and> seen n t cl' = [received_object x] \<and>
      (\<exists>fh'. receive fh_feed fh_nxt k cs (c_frame (cl_conn cl1)) = (map wire (ys2 @ [x]), None, fh'))"
      by (rule Cons.IH)
        (use run(2,3) Cons.prems(2,6-9,13,14) r(2) k(2) ok(2) s1(2) \<open>seen n t cl1 = []\<close> in \<open>simp_all add: terminated_def xs(3) ys2 cl\<close>)
    then obtain cs2 now' ss' cl' fh' where i: "?loop c ?ss cl1 = (Some (Inr ()), now', ss', cl')" "cl' = client_read_all cs2 cl1"
      "seen n t cl' = [received_object x]" "receive fh_feed fh_nxt k cs2 fh1 = (map wire (ys2 @ [x]), None, fh')"
      using run(3) by auto
    have "receive fh_feed fh_nxt k (cs @ cs2) (c_frame (cl_conn cl)) = (map wire (ys @ [x]), None, fh')"
      using receive_glue [OF r(1) i(4)] by (simp add: xs(2) ys2)
    moreover have "cl' = client_read_all (cs @ cs2) cl" by (simp add: i(2) client_read_all_def cl1_def)
    ultimately show ?thesis using i(1,3) step by (intro exI conjI) auto
  qed
qed

lemma send_effect:
  assumes "well_typed req" "length (snd (wire req)) < 2 ^ 31" "fh_enc (c_frame (cl_conn cl)) (wire req) = (w, fh)"
  shows "client_send req cl =
    (None, call_out [Conn_Effect (Eff_write w)] (cl\<lparr>cl_conn := (cl_conn cl)\<lparr>c_frame := fh, c_out := c_out (cl_conn cl) @ [Eff_write w]\<rparr>\<rparr>))"
proof -
  have "ByteSizeLong (obj_class req) (obj_fields req) < 2 ^ 31"
    using assms(2) serialised_size [OF assms(1)] by (simp add: wire_def)
  from send_object [OF assms(1) this] show ?thesis
    using assms(3) by (simp add: client_send_def client_act_def send_raw_def emit_def fh_enc_def)
qed

text \<open>The slices in which the reads arrive, with the clock after each.\<close>

definition read_slices :: "bytes list list \<Rightarrow> nat list \<Rightarrow> loop_slice list" where
  "read_slices css clocks = map2 (\<lambda>cs c. \<lparr>sl_acts = reads cs, sl_clock = c\<rparr>) css clocks"

lemma request_answered:
  assumes "well_typed req" "length (snd (wire req)) < 2 ^ 31" "fh_enc (c_frame (cl_conn (sc_client s))) (wire req) = (w, fh)"
    and "\<not> terminated (cl_conn (sc_client s))" "c_any_handler (cl_conn (sc_client s))"
    and "carries fh (concat css) (map wire (ys @ [x]))"
    and "\<forall>y \<in> set (ys @ [x]). well_typed y \<and> \<not> internal_id (obj_id y)" "obj_id x = t" "\<forall>y \<in> set ys. obj_id y \<noteq> t"
    and "unat t < length (c_handlers (cl_conn (sc_client s)))"
    and "sc_slices s = read_slices css clocks @ rest" "length clocks = length css"
    and "0 < sc_request_timeout s" "\<forall>c \<in> set clocks. c < sc_now s + sc_request_timeout s"
  shows "\<exists>s' cl'. request_and_wait t req s = (Some (Inr [received_object x]), s') \<and> sc_client s' = client_off (unat t) cl' \<and>
    sc_stale s' = sc_stale s - {unat t} \<and> cl_store cl' = foldl feed (cl_store (sc_client s)) (ys @ [x])"
proof -
  let ?s0 = "own_slot (unat t) s"
  let ?n = "length (cl_calls (sc_client ?s0))"
  let ?cl0 = "sc_client ?s0"
  let ?cl1 = "call_out [Conn_Effect (Eff_write w)]
    (?cl0\<lparr>cl_conn := (cl_conn ?cl0)\<lparr>c_frame := fh, c_out := c_out (cl_conn ?cl0) @ [Eff_write w]\<rparr>\<rparr>)"
  have own: "c_frame (cl_conn ?cl0) = c_frame (cl_conn (sc_client s))" "terminated (cl_conn ?cl0) = terminated (cl_conn (sc_client s))"
    "c_any_handler (cl_conn ?cl0) = c_any_handler (cl_conn (sc_client s))" "cl_store ?cl0 = cl_store (sc_client s)"
    "unat t < length (c_handlers (cl_conn ?cl0))" "c_handlers (cl_conn ?cl0) ! unat t"
    using assms(10) by (simp_all add: own_slot_def client_on_def on_handler_def terminated_def)
  have send: "client_send req ?cl0 = (None, ?cl1)" using send_effect [OF assms(1,2)] assms(3) by (simp add: own)
  have seen0: "seen ?n t ?cl1 = []" by (simp add: seen_def call_out_def)
  obtain fh' where r: "receive fh_feed fh_nxt (Suc (length (map wire (ys @ [x])))) (concat css) fh = (map wire (ys @ [x]), None, fh')"
    and h: "handshake_done fh" using carries_receive [OF assms(6)] by auto
  have l: "\<forall>y \<in> set (ys @ [x]). well_typed y \<and> \<not> internal_id (obj_id y) \<and> length (snd (wire y)) < 2 ^ 31"
    using assms(7) carries_short [OF assms(6)] by (metis image_eqI set_map)
  have "\<exists>cs now' ss' cl'. pump_loop (\<lambda>cl. seen ?n t cl \<noteq> []) (sc_now s + sc_request_timeout s) (sc_request_timeout s) (sc_now s)
      (map2 (\<lambda>cs c. \<lparr>sl_acts = reads cs, sl_clock = c\<rparr>) css clocks @ rest) ?cl1 = (Some (Inr ()), now', ss', cl') \<and>
    cl' = client_read_all cs ?cl1 \<and> seen ?n t cl' = [received_object x] \<and>
    (\<exists>fh'. receive fh_feed fh_nxt (Suc (length (map wire (ys @ [x])))) cs (c_frame (cl_conn ?cl1)) = (map wire (ys @ [x]), None, fh'))"
    by (rule pump_receives) (use h r l own assms(4,8,9,12-14) seen0 in \<open>simp_all add: call_out_def terminated_def\<close>)
  then obtain cs now' ss' cl' fh2 where p: "pump_loop (\<lambda>cl. seen ?n t cl \<noteq> []) (sc_now s + sc_request_timeout s) (sc_request_timeout s) (sc_now s)
      (read_slices css clocks @ rest) ?cl1 = (Some (Inr ()), now', ss', cl')"
    "cl' = client_read_all cs ?cl1" "seen ?n t cl' = [received_object x]"
    "receive fh_feed fh_nxt (Suc (length (map wire (ys @ [x])))) cs (c_frame (cl_conn ?cl1)) = (map wire (ys @ [x]), None, fh2)"
    unfolding read_slices_def by blast
  have a: "list_all (app_message api_registry) (map wire (ys @ [x]))"
    using l by (auto simp: list_all_iff intro: wire_app_message)
  have "cl_store cl' = foldl feed (cl_store ?cl1) (ys @ [x])"
    using client_read_dispatches [OF _ _ p(4) _ a refl] store_dispatched_all [of "ys @ [x]" "cl_conn ?cl1"] l h own assms(4,5)
    by (simp add: p(2) fold_effect_conn terminated_def call_out_def)
  then have store: "cl_store cl' = foldl feed (cl_store (sc_client s)) (ys @ [x])" by (simp add: own)
  define s2 where "s2 = ?s0\<lparr>sc_client := cl', sc_now := now', sc_slices := ss'\<rparr>"
  have "pump_until (\<lambda>cl. seen ?n t cl \<noteq> []) (sc_request_timeout ?s0) (?s0\<lparr>sc_client := ?cl1\<rparr>) = (Some (Inr ()), s2)"
    using p(1) assms(11) by (simp add: pump_until_def s2_def own_slot_def)
  then have "request_and_wait t req s = (Some (Inr [received_object x]), free_slot (unat t) s2)"
    using send p(3) by (simp add: request_and_wait_def Let_def s2_def)
  then show ?thesis using store by (intro exI conjI) (assumption, simp_all add: free_slot_def s2_def own_slot_def)
qed

section \<open>Properties\<close>

text \<open>
  C11: Blocking calls end.  As soon as one slice of the event loop returns at or after the deadline, \<^verbatim>\<open>pump_until\<close> has
  returned or thrown: it returns only when the predicate holds, times out only when it does not hold and the
  deadline has passed, and every other exception is one that a handler threw in a slice; no slice is
  started after the deadline.
\<close>

theorem pump_until_ends:
  assumes "\<exists>sl \<in> set (sc_slices s). sc_now s + timeout \<le> sl_clock sl"
  shows "\<exists>r s' used. pump_until pred timeout s = (Some r, s') \<and> sc_slices s = used @ sc_slices s' \<and>
    (\<forall>c \<in> set (butlast (sc_now s # map sl_clock used)). c < sc_now s + timeout) \<and>
    (case r of
       Inr _ \<Rightarrow> pred (sc_client s')
     | Inl e \<Rightarrow> e = timed_out timeout \<and> \<not> pred (sc_client s') \<and> sc_now s + timeout \<le> sc_now s' \<or>
         (\<exists>sl cl. sl \<in> set used \<and> run_slice (sl_acts sl) cl = (Some e, sc_client s')))"
proof -
  obtain r now ss cl where p:
    "pump_loop pred (sc_now s + timeout) timeout (sc_now s) (sc_slices s) (sc_client s) = (r, now, ss, cl)"
    by (cases "pump_loop pred (sc_now s + timeout) timeout (sc_now s) (sc_slices s) (sc_client s)") auto
  with pump_loop_ends [OF assms, of pred timeout "sc_now s" "sc_client s"] obtain x where "r = Some x" by auto
  with p pump_loop_outcome [OF p] show ?thesis
    by (fastforce simp: pump_until_def split: sum.splits)
qed

theorem pump_until_ends_witness:
  "fst (pump_until (\<lambda>_. False) 40
     (sync_init 10000 0 [\<lparr>sl_acts = [], sl_clock = 20\<rparr>, \<lparr>sl_acts = [], sl_clock = 45\<rparr>] (cl_options demo_client) demo_client)) =
   Some (Inl (TimeoutError ''operation timed out after 40ms''))"
proof -
  let ?s = "sync_init 10000 0 [\<lparr>sl_acts = [], sl_clock = 20\<rparr>, \<lparr>sl_acts = [], sl_clock = 45\<rparr>] (cl_options demo_client) demo_client"
  have "\<exists>sl \<in> set (sc_slices ?s). sc_now ?s + 40 \<le> sl_clock sl" by (simp add: sync_init_def)
  from pump_until_ends [OF this, of "\<lambda>_. False"] obtain r s' used where u: "pump_until (\<lambda>_. False) 40 ?s = (Some r, s')"
    "sc_slices ?s = used @ sc_slices s'"
    "case r of
       Inr _ \<Rightarrow> False
     | Inl e \<Rightarrow> e = timed_out 40 \<and> \<not> False \<and> sc_now ?s + 40 \<le> sc_now s' \<or>
         (\<exists>sl cl. sl \<in> set used \<and> run_slice (sl_acts sl) cl = (Some e, sc_client s'))"
    by blast
  have "sl_acts sl = []" if "sl \<in> set used" for sl
  proof -
    have "sl \<in> set (sc_slices ?s)" using that u(2) by simp
    then show ?thesis by (auto simp: sync_init_def)
  qed
  moreover have "timed_out 40 = TimeoutError ''operation timed out after 40ms''" by code_simp
  ultimately show ?thesis using u(1,3) by (cases r) fastforce+
qed

definition has_handler :: "nat \<Rightarrow> client \<Rightarrow> bool" where
  "has_handler t cl \<longleftrightarrow> t < length (c_handlers (cl_conn cl)) \<and> c_handlers (cl_conn cl) ! t"

definition list_done :: api_object where
  "list_done = Api_Object 19 (new_message list_entities_done_response)"

lemma list_rows:
  "(19, ''ListEntitiesDoneResponse'', Plain_Class, list_entities_done_response) \<in> set api_schema"
  "(11, ''ListEntitiesRequest'', Plain_Class, list_entities_request) \<in> set api_schema"
  "(9, ''DeviceInfoRequest'', Plain_Class, device_info_request) \<in> set api_schema"
  by (simp_all add: api_schema_def)

lemma list_done_simps:
  "well_typed list_done" "obj_id list_done = 19" "\<not> internal_id 19" "obj_base list_done = Plain_Class"
  by (simp_all add: list_done_def well_typed_def obj_simps [OF list_rows(1)] internal_id_def list_entities_done_response_def new_message_def
      id_HelloResponse_def id_AuthenticationResponse_def id_DisconnectRequest_def id_DisconnectResponse_def
      id_PingRequest_def id_PingResponse_def)

lemma feed_list_done: "feed s list_done = s"
  by (simp add: feed_def store_view_def list_done_simps ingest_def Let_def)

lemma empty_requests:
  "well_typed (Api_Object 11 (new_message list_entities_request))" "wire (Api_Object 11 (new_message list_entities_request)) = (11, [])"
  "well_typed (Api_Object 9 (new_message device_info_request))" "wire (Api_Object 9 (new_message device_info_request)) = (9, [])"
  by (simp_all add: well_typed_def wire_def obj_simps [OF list_rows(2)] obj_simps [OF list_rows(3)] list_entities_request_def
      device_info_request_def new_message_def SerializeAsString_def)


text \<open>
  C10: The entity list.  After \<^verbatim>\<open>list_entities\<close> has returned the store is complete: when the device answers with the
  descriptions of its entities and then the end of the list, behind whatever else it was sending, encrypted
  or not, cut into any reads and spread over any slices before the deadline, the call returns, every typed
  accessor holds the description, and the slot of the end message has no handler any more.
\<close>

theorem list_entities_complete:
  assumes "is_connected (sc_client s)" "c_any_handler (cl_conn (sc_client s))" "19 < length (c_handlers (cl_conn (sc_client s)))"
    and "fh_enc (c_frame (cl_conn (sc_client s))) (11, []) = (w, fh)"
    and "carries fh (concat css) (map wire (ys @ map info_object is @ [list_done]))"
    and "\<forall>y \<in> set ys. well_typed y \<and> \<not> internal_id (obj_id y) \<and> obj_id y \<noteq> 19" "distinct (map info_key_of is)"
    and "sc_slices s = read_slices css clocks @ rest" "length clocks = length css"
    and "0 < sc_request_timeout s" "\<forall>c \<in> set clocks. c < sc_now s + sc_request_timeout s"
  shows "\<exists>s'. sync_list_entities s = (Some (Inr ()), s') \<and>
    (\<forall>i \<in> set is. stored_info (info_domain i) (cl_store (sc_client s')) (info_key_of i) = Access (settle_info i)) \<and>
    \<not> has_handler 19 (sc_client s') \<and> 19 \<notin> sc_stale s'"
proof -
  have ids: "obj_id (info_object i) \<noteq> 19" "\<not> internal_id (obj_id (info_object i))" for i
    by (cases i; simp add: info_object_def) (simp add: info_object_def entity_ids_external)
  have t: "\<not> terminated (cl_conn (sc_client s))" using assms(1) by (simp add: is_connected_def terminated_def)
  have "\<exists>s' cl'. request_and_wait 19 (Api_Object 11 (new_message list_entities_request)) s = (Some (Inr [received_object list_done]), s') \<and>
    sc_client s' = client_off (unat (19 :: u32)) cl' \<and> sc_stale s' = sc_stale s - {unat (19 :: u32)} \<and>
    cl_store cl' = foldl feed (cl_store (sc_client s)) ((ys @ map info_object is) @ [list_done])"
    by (rule request_answered [of _ _ w fh css _ _ _ clocks rest])
      (use assms t in \<open>auto simp: empty_requests list_done_simps well_typed_objects ids\<close>)
  then obtain s' cl' where r: "request_and_wait 19 (Api_Object 11 (new_message list_entities_request)) s = (Some (Inr [received_object list_done]), s')"
    "sc_client s' = client_off 19 cl'" "sc_stale s' = sc_stale s - {19}"
    "cl_store cl' = foldl feed (foldl feed (cl_store (sc_client s)) ys) (map info_object is)"
    by (auto simp: feed_list_done)
  have "cl_store (sc_client s') = cl_store cl'" by (simp add: r(2) client_off_def)
  then have "describes (cl_store (sc_client s')) i" if "i \<in> set is" for i
    using describes_fold_infos [OF assms(7) that] r(4) by simp
  moreover have "\<not> has_handler 19 (sc_client s')" by (simp add: r(2) client_off_def has_handler_def)
  ultimately show ?thesis using assms(1) r(1,3) describes_stored by (simp add: sync_list_entities_def)
qed

text \<open>A connected client of the device with one switch.\<close>

definition demo_online :: client where
  "demo_online = demo_client\<lparr>cl_conn := (cl_conn demo_client)\<lparr>c_state := Connected\<rparr>\<rparr>"

definition demo_sync :: "bytes list list \<Rightarrow> nat list \<Rightarrow> sync_client" where
  "demo_sync css clocks = sync_init 10000 0 (read_slices css clocks) (cl_options demo_client) demo_online"

lemma demo_sync_simps:
  "is_connected (sc_client (demo_sync css clocks))" "c_any_handler (cl_conn (sc_client (demo_sync css clocks)))"
  "c_frame (cl_conn (sc_client (demo_sync css clocks))) = FHPlain plain_init"
  "length (c_handlers (cl_conn (sc_client (demo_sync css clocks)))) = message_id_max + 1"
  "sc_slices (demo_sync css clocks) = read_slices css clocks @ []" "sc_now (demo_sync css clocks) = 0"
  "sc_request_timeout (demo_sync css clocks) = 30000"
  using demo_client_conn
  by (simp_all add: demo_sync_def sync_init_def demo_online_def is_connected_def demo_client_def on_any_def conn_init_def)

lemma demo_fh_enc:
  "fh_enc (c_frame (cl_conn (sc_client (demo_sync css clocks)))) (t, []) = (plain_encode t [] [], FHPlain plain_init)"
  by (simp add: demo_sync_simps(3) fh_enc_def)

lemma message_ids: "9 < message_id_max" "18 < message_id_max"
  by (simp_all add: message_id_max_def api_schema_def)

lemma list_done_fits: "plain_ok (wire list_done)"
  by (rule wire_fits [OF list_done_simps(1)]) (simp_all add: list_done_simps list_done_def list_entities_done_response_def new_message_def)

theorem list_entities_complete_witness:
  "\<exists>s'. sync_list_entities (demo_sync
       [[plain_encode 17 (snd (wire (info_object demo_info))) []], [plain_encode 19 (snd (wire list_done)) []]] [20, 40]) =
       (Some (Inr ()), s') \<and>
     stored_info Switch (cl_store (sc_client s')) 7 =
       Access (Info_Switch (new_SwitchInfo\<lparr>ei_key := 7, ei_name := ''Main Relay'', ei_object_id := ''main_relay''\<rparr>))"
proof -
  have k: "info_key_of demo_info = 7" "info_domain demo_info = Switch" "obj_id (info_object demo_info) = 17"
    by (simp_all add: demo_info_def info_key_of.simps EntityInfo.defs info_object_def)
  have c: "carries (FHPlain plain_init)
      (concat [[plain_encode 17 (snd (wire (info_object demo_info))) []], [plain_encode 19 (snd (wire list_done)) []]])
      (map wire ([] @ map info_object [demo_info] @ [list_done]))"
    using demo_frames_fit(1) list_done_fits by (simp add: carries_def plain_init_holds k list_done_simps)
  have "\<exists>s'. sync_list_entities (demo_sync
       [[plain_encode 17 (snd (wire (info_object demo_info))) []], [plain_encode 19 (snd (wire list_done)) []]] [20, 40]) =
       (Some (Inr ()), s') \<and>
    (\<forall>i \<in> set [demo_info]. stored_info (info_domain i) (cl_store (sc_client s')) (info_key_of i) = Access (settle_info i)) \<and>
    \<not> has_handler 19 (sc_client s') \<and> 19 \<notin> sc_stale s'"
    by (rule list_entities_complete [OF demo_sync_simps(1,2) _ demo_fh_enc c _ _ demo_sync_simps(5)])
      (simp_all add: demo_sync_simps(4,6,7) message_ids)
  then show ?thesis using demo_settles(1) by (simp add: k) blast
qed

text \<open>
  The device information.  A blocking \<^verbatim>\<open>device_info\<close> returns exactly what the device describes of itself, behind whatever
  else it was sending, encrypted or not, cut into any reads and spread over any slices before the deadline.
\<close>

theorem device_info_answered:
  assumes "is_connected (sc_client s)" "c_any_handler (cl_conn (sc_client s))" "10 < length (c_handlers (cl_conn (sc_client s)))"
    and "fh_enc (c_frame (cl_conn (sc_client s))) (9, []) = (w, fh)"
    and "carries fh (concat css) (map wire (ys @ [device_object d]))"
    and "\<forall>y \<in> set ys. well_typed y \<and> \<not> internal_id (obj_id y) \<and> obj_id y \<noteq> 10"
    and "sc_slices s = read_slices css clocks @ rest" "length clocks = length css"
    and "0 < sc_request_timeout s" "\<forall>c \<in> set clocks. c < sc_now s + sc_request_timeout s"
  shows "\<exists>s'. sync_device_info s = (Some (Inr d), s') \<and> \<not> has_handler 10 (sc_client s') \<and> 10 \<notin> sc_stale s'"
proof -
  have t: "\<not> terminated (cl_conn (sc_client s))" using assms(1) by (simp add: is_connected_def terminated_def)
  have "\<exists>s' cl'. request_and_wait 10 (Api_Object 9 (new_message device_info_request)) s = (Some (Inr [received_object (device_object d)]), s') \<and>
    sc_client s' = client_off (unat (10 :: u32)) cl' \<and> sc_stale s' = sc_stale s - {unat (10 :: u32)} \<and>
    cl_store cl' = foldl feed (cl_store (sc_client s)) (ys @ [device_object d])"
    by (rule request_answered [of _ _ w fh css _ _ _ clocks rest])
      (use assms t device_object_simps in \<open>auto simp: empty_requests\<close>)
  then show ?thesis
    using assms(1) by (auto simp: sync_device_info_def id_DeviceInfoResponse_def device_object_simps(2) [unfolded obj_received]
        device_reported client_off_def has_handler_def)
qed

theorem device_info_answered_witness:
  "\<exists>s'. sync_device_info (demo_sync [[], [plain_encode 10 (snd (wire (device_object new_DeviceInfo))) []]] [20, 40]) =
     (Some (Inr new_DeviceInfo), s')"
proof -
  have "plain_ok (wire (device_object new_DeviceInfo))"
    by (rule wire_fits [OF device_object_simps(1)])
      (simp_all add: device_object_def device_info_response_def device_report_def new_DeviceInfo_def of_fields_def
        mk_field_simps new_member_cf Str_def bytes_of_string_def area_info_class_def)
  then have c: "carries (FHPlain plain_init)
      (concat [[], [plain_encode 10 (snd (wire (device_object new_DeviceInfo))) []]]) (map wire ([] @ [device_object new_DeviceInfo]))"
    by (simp add: carries_def plain_init_holds device_object_simps)
  have "\<exists>s'. sync_device_info (demo_sync [[], [plain_encode 10 (snd (wire (device_object new_DeviceInfo))) []]] [20, 40]) =
      (Some (Inr new_DeviceInfo), s') \<and> \<not> has_handler 10 (sc_client s') \<and> 10 \<notin> sc_stale s'"
    by (rule device_info_answered [OF demo_sync_simps(1,2) _ demo_fh_enc c _ demo_sync_simps(5)])
      (simp_all add: demo_sync_simps(4,6,7) message_ids)
  then show ?thesis by blast
qed

text \<open>
  A timed out request leaves its handler behind: the end message, when it arrives late, is still dispatched to the
  handler over the locals of the call that has returned.
\<close>

theorem timed_out_handler_stays:
  assumes "is_connected (sc_client s)" "19 < length (c_handlers (cl_conn (sc_client s)))"
    and "fh_enc (c_frame (cl_conn (sc_client s))) (11, []) = (w, fh)"
    and "sc_slices s = [\<lparr>sl_acts = [], sl_clock = c\<rparr>]" "0 < sc_request_timeout s" "sc_now s + sc_request_timeout s \<le> c"
  shows "\<exists>s'. sync_list_entities s = (Some (Inl (timed_out (sc_request_timeout s))), s') \<and>
    has_handler 19 (sc_client s') \<and> 19 \<in> sc_stale s' \<and>
    Eff_message 19 (received_object list_done) \<in> set (dispatched api_registry (cl_conn (sc_client s')) (wire list_done))"
proof -
  let ?s0 = "own_slot 19 s"
  let ?cl0 = "sc_client ?s0"
  let ?cl1 = "call_out [Conn_Effect (Eff_write w)]
    (?cl0\<lparr>cl_conn := (cl_conn ?cl0)\<lparr>c_frame := fh, c_out := c_out (cl_conn ?cl0) @ [Eff_write w]\<rparr>\<rparr>)"
  have own: "c_frame (cl_conn ?cl0) = c_frame (cl_conn (sc_client s))" "has_handler 19 ?cl1"
    using assms(2) by (simp_all add: own_slot_def client_on_def on_handler_def has_handler_def call_out_def)
  have send: "client_send (Api_Object 11 (new_message list_entities_request)) ?cl0 = (None, ?cl1)"
    using send_effect [OF empty_requests(1)] assms(3) by (simp add: own empty_requests)
  have seen0: "seen (length (cl_calls ?cl0)) 19 ?cl1 = []" by (simp add: seen_def call_out_def)
  define s1 where "s1 = ?s0\<lparr>sc_client := ?cl1, sc_now := c, sc_slices := []\<rparr>"
  have "pump_until (\<lambda>cl. seen (length (cl_calls ?cl0)) 19 cl \<noteq> []) (sc_request_timeout ?s0) (?s0\<lparr>sc_client := ?cl1\<rparr>) =
      (Some (Inl (timed_out (sc_request_timeout s))), s1)"
    using seen0 assms(4-6) by (simp add: pump_until_def s1_def pump_loop_slice pump_loop_end(2) own_slot_def)
  then have "sync_list_entities s = (Some (Inl (timed_out (sc_request_timeout s))), leave_slot 19 s1)"
    using assms(1) send by (simp add: sync_list_entities_def request_and_wait_def Let_def)
  moreover have "has_handler 19 (sc_client (leave_slot 19 s1))" using own(2) by (simp add: leave_slot_def s1_def)
  moreover have "length (snd (wire list_done)) < 2 ^ 31"
    by (simp add: wire_def list_done_def obj_simps [OF list_rows(1)] list_entities_done_response_def new_message_def SerializeAsString_def)
  ultimately show ?thesis
    by (intro exI conjI) (assumption, assumption, simp add: leave_slot_def,
      simp add: dispatched_wire [OF list_done_simps(1)] has_handler_def list_done_simps(2))
qed

end
