(* ===== verification/Tcp_Transport.thy ===== *)
theory Tcp_Transport
  imports Connection One_Shot
begin

text \<open>
  \<^verbatim>\<open>TcpTransport\<close> (\<^verbatim>\<open>src/transport/tcp_transport.cpp\<close>): the queue that serialises writes, the read pump and the connect sequence
  over an Asio socket.  The socket is the environment: a step relation delivers the completions of the operations
  that are outstanding.  What the callbacks do is the argument \<open>react\<close>; they may call the transport again.
  Fields after the comment are history: what was submitted, completed, transferred and called.
\<close>

section \<open>State and operations\<close>

record pending_write =
  pw_data :: bytes
  pw_handler :: "callback option"

datatype connect_phase = Conn_idle | Resolving callback | Connecting callback

datatype tcp_call =
    Write_handler callback error_code
  | Read_handler callback error_code bytes
  | Connect_handler callback error_code

datatype tcp_op =
    Op_connect callback
  | Op_start_read callback
  | Op_write bytes "callback option"
  | Op_close

record tcp_transport =
  t_open :: bool
  t_phase :: connect_phase
  t_no_delay :: bool
  t_read_handler :: "callback option"
  t_reads :: nat
  t_write_queue :: "pending_write list"
  t_writing :: bool
  t_in_flight :: "bytes list"
  \<comment> \<open>history\<close>
  t_submitted :: "pending_write list"
  t_completed :: "(pending_write \<times> error_code) list"
  t_broken :: bool
  t_sent :: bytes
  t_calls :: "tcp_call list"

definition tcp_init :: tcp_transport where
  "tcp_init =
     \<lparr>t_open = False, t_phase = Conn_idle, t_no_delay = False, t_read_handler = None, t_reads = 0, t_write_queue = [],
      t_writing = False, t_in_flight = [], t_submitted = [], t_completed = [], t_broken = False, t_sent = [], t_calls = []\<rparr>"

definition tcp_is_open :: "tcp_transport \<Rightarrow> bool" where
  "tcp_is_open s = t_open s"

text \<open>\<^verbatim>\<open>async_connect\<close> starts to resolve; the socket opens when the connection is attempted.\<close>

definition tcp_async_connect :: "callback \<Rightarrow> tcp_transport \<Rightarrow> tcp_transport" where
  "tcp_async_connect handler s = s\<lparr>t_phase := Resolving handler\<rparr>"

definition do_read :: "tcp_transport \<Rightarrow> tcp_transport" where
  "do_read s = s\<lparr>t_reads := t_reads s + 1\<rparr>"

definition start_read :: "callback \<Rightarrow> tcp_transport \<Rightarrow> tcp_transport" where
  "start_read on_read s = do_read (s\<lparr>t_read_handler := Some on_read\<rparr>)"

definition do_write :: "tcp_transport \<Rightarrow> tcp_transport" where
  "do_write s =
     (case t_write_queue s of
        [] \<Rightarrow> s\<lparr>t_writing := False\<rparr>
      | w # _ \<Rightarrow> s\<lparr>t_writing := True, t_in_flight := t_in_flight s @ [pw_data w]\<rparr>)"

definition async_write :: "bytes \<Rightarrow> callback option \<Rightarrow> tcp_transport \<Rightarrow> tcp_transport" where
  "async_write data handler s =
     (let w = \<lparr>pw_data = data, pw_handler = handler\<rparr>;
          s = s\<lparr>t_write_queue := t_write_queue s @ [w], t_submitted := t_submitted s @ [w]\<rparr>
      in if \<not> t_writing s then do_write s else s)"

text \<open>\<^verbatim>\<open>close\<close>: what is outstanding completes with an error, by later events.\<close>

definition tcp_close :: "tcp_transport \<Rightarrow> tcp_transport" where
  "tcp_close s = (if t_open s then s\<lparr>t_open := False\<rparr> else s)"

fun tcp_do :: "tcp_op \<Rightarrow> tcp_transport \<Rightarrow> tcp_transport" where
  "tcp_do (Op_connect h) s = tcp_async_connect h s"
| "tcp_do (Op_start_read h) s = start_read h s"
| "tcp_do (Op_write data h) s = async_write data h s"
| "tcp_do Op_close s = tcp_close s"

type_synonym reaction = "tcp_call list \<Rightarrow> tcp_op list"

text \<open>A callback runs: it is recorded and calls the transport.\<close>

definition tcp_call :: "reaction \<Rightarrow> tcp_call \<Rightarrow> tcp_transport \<Rightarrow> tcp_transport" where
  "tcp_call react c s = (let s = s\<lparr>t_calls := t_calls s @ [c]\<rparr> in fold tcp_do (react (t_calls s)) s)"

section \<open>Completions\<close>

text \<open>The completion of \<^verbatim>\<open>asio::async_write\<close> after \<open>n\<close> bytes.\<close>

definition write_done :: "reaction \<Rightarrow> error_code \<Rightarrow> nat \<Rightarrow> tcp_transport \<Rightarrow> tcp_transport" where
  "write_done react ec n s =
     (let w = hd (t_write_queue s);
          s = s\<lparr>t_write_queue := tl (t_write_queue s), t_in_flight := tl (t_in_flight s),
                t_completed := t_completed s @ [(w, ec)], t_sent := t_sent s @ take n (pw_data w),
                t_broken := (t_broken s \<or> ec \<noteq> Ec_ok)\<rparr>;
          s = (case pw_handler w of None \<Rightarrow> s | Some cb \<Rightarrow> tcp_call react (Write_handler cb ec) s)
      in if ec \<noteq> Ec_ok then s\<lparr>t_writing := False\<rparr> else do_write s)"

text \<open>The completion of \<^verbatim>\<open>async_read_some\<close>.\<close>

definition read_done :: "reaction \<Rightarrow> error_code \<Rightarrow> bytes \<Rightarrow> tcp_transport \<Rightarrow> tcp_transport" where
  "read_done react ec data s =
     (let s = s\<lparr>t_reads := t_reads s - 1\<rparr>
      in case t_read_handler s of
           None \<Rightarrow> s
         | Some cb \<Rightarrow>
             if ec \<noteq> Ec_ok then tcp_call react (Read_handler cb ec []) s
             else let s = tcp_call react (Read_handler cb Ec_ok data) s
                  in if t_open s \<and> t_read_handler s \<noteq> None then do_read s else s)"

definition resolved :: "reaction \<Rightarrow> error_code \<Rightarrow> tcp_transport \<Rightarrow> tcp_transport" where
  "resolved react ec s =
     (case t_phase s of
        Resolving cb \<Rightarrow>
          (if ec \<noteq> Ec_ok then tcp_call react (Connect_handler cb ec) (s\<lparr>t_phase := Conn_idle\<rparr>)
           else s\<lparr>t_phase := Connecting cb, t_open := True\<rparr>)
      | _ \<Rightarrow> s)"

definition connected :: "reaction \<Rightarrow> error_code \<Rightarrow> tcp_transport \<Rightarrow> tcp_transport" where
  "connected react ec s =
     (case t_phase s of
        Connecting cb \<Rightarrow>
          (let s = s\<lparr>t_phase := Conn_idle, t_no_delay := (t_no_delay s \<or> ec = Ec_ok)\<rparr>
           in tcp_call react (Connect_handler cb ec) s)
      | _ \<Rightarrow> s)"

section \<open>Executions\<close>

text \<open>
  The documented behaviour of the socket: a write that succeeds transfers all its bytes, one that fails some of
  them; after a failure the stream is broken and no later write succeeds or transfers anything.
\<close>

inductive tcp_step :: "reaction \<Rightarrow> tcp_transport \<Rightarrow> tcp_transport \<Rightarrow> bool" for react where
  step_op: "tcp_step react s (tcp_do op s)"
| step_write_done: "t_in_flight s = d # ds \<Longrightarrow> n \<le> length d \<Longrightarrow> (ec = Ec_ok \<longrightarrow> n = length d) \<Longrightarrow>
    (t_broken s \<longrightarrow> ec \<noteq> Ec_ok \<and> n = 0) \<Longrightarrow> tcp_step react s (write_done react ec n s)"
| step_read_done: "0 < t_reads s \<Longrightarrow> length data \<le> 16384 \<Longrightarrow> tcp_step react s (read_done react ec data s)"
| step_resolved: "t_phase s = Resolving cb \<Longrightarrow> tcp_step react s (resolved react ec s)"
| step_connected: "t_phase s = Connecting cb \<Longrightarrow> tcp_step react s (connected react ec s)"

inductive tcp_reachable :: "reaction \<Rightarrow> tcp_transport \<Rightarrow> bool" for react where
  reach_init: "tcp_reachable react tcp_init"
| reach_step: "tcp_reachable react s \<Longrightarrow> tcp_step react s s' \<Longrightarrow> tcp_reachable react s'"

section \<open>The invariant\<close>

text \<open>At most one write is outstanding: the front of the queue.  During its completion there is none.\<close>

definition one_in_flight :: "tcp_transport \<Rightarrow> bool" where
  "one_in_flight s \<longleftrightarrow>
     t_in_flight s = (if t_writing s then [pw_data (hd (t_write_queue s))] else []) \<and>
     (t_writing s \<longrightarrow> t_write_queue s \<noteq> [])"

definition completing :: "tcp_transport \<Rightarrow> bool" where
  "completing s \<longleftrightarrow> t_in_flight s = [] \<and> t_writing s"

text \<open>The history: completions in the order of submission, what they transferred, and their handlers.\<close>

definition handler_calls :: "pending_write \<times> error_code \<Rightarrow> tcp_call list" where
  "handler_calls p = (case pw_handler (fst p) of None \<Rightarrow> [] | Some cb \<Rightarrow> [Write_handler cb (snd p)])"

fun is_write_call :: "tcp_call \<Rightarrow> bool" where
  "is_write_call (Write_handler _ _) = True"
| "is_write_call _ = False"

definition completed_bytes :: "tcp_transport \<Rightarrow> bytes" where
  "completed_bytes s = concat (map (pw_data \<circ> fst) (t_completed s))"

definition tcp_past :: "tcp_transport \<Rightarrow> bool" where
  "tcp_past s \<longleftrightarrow>
     t_submitted s = map fst (t_completed s) @ t_write_queue s \<and>
     filter is_write_call (t_calls s) = concat (map handler_calls (t_completed s)) \<and>
     prefix (t_sent s) (completed_bytes s) \<and> (\<not> t_broken s \<longrightarrow> t_sent s = completed_bytes s) \<and>
     (t_broken s \<longleftrightarrow> (\<exists>p \<in> set (t_completed s). snd p \<noteq> Ec_ok))"

definition tcp_moving :: "tcp_transport \<Rightarrow> bool" where
  "tcp_moving s \<longleftrightarrow> (\<not> t_broken s \<longrightarrow> t_write_queue s \<noteq> [] \<longrightarrow> t_writing s)"

definition tcp_inv :: "tcp_transport \<Rightarrow> bool" where
  "tcp_inv s \<longleftrightarrow> one_in_flight s \<and> tcp_past s \<and> tcp_moving s"

lemmas tcp_op_defs = tcp_async_connect_def start_read_def do_read_def async_write_def do_write_def tcp_close_def Let_def

lemma tcp_do_past: "tcp_past s \<Longrightarrow> tcp_past (tcp_do op s)"
  by (cases op) (auto simp: tcp_op_defs tcp_past_def completed_bytes_def split: list.split)

lemma tcp_do_one: "one_in_flight s \<Longrightarrow> one_in_flight (tcp_do op s)"
  by (cases op) (auto simp: tcp_op_defs one_in_flight_def hd_append split: list.split)

lemma tcp_do_completing: "completing s \<Longrightarrow> completing (tcp_do op s)"
  by (cases op) (auto simp: tcp_op_defs completing_def)

lemma tcp_do_moving: "tcp_moving s \<Longrightarrow> tcp_moving (tcp_do op s)"
  by (cases op) (auto simp: tcp_op_defs tcp_moving_def split: list.split)

lemma tcp_do_broken: "t_broken (tcp_do op s) = t_broken s"
  by (cases op) (auto simp: tcp_op_defs split: list.split)

lemma tcp_ops:
  "tcp_past s \<Longrightarrow> tcp_past (fold tcp_do ops s)" "one_in_flight s \<Longrightarrow> one_in_flight (fold tcp_do ops s)"
  "completing s \<Longrightarrow> completing (fold tcp_do ops s)" "tcp_moving s \<Longrightarrow> tcp_moving (fold tcp_do ops s)"
  "t_broken (fold tcp_do ops s) = t_broken s"
  by (induction ops arbitrary: s)
    (simp_all add: tcp_do_past tcp_do_one tcp_do_completing tcp_do_moving tcp_do_broken)

lemma tcp_inv_do: "tcp_inv s \<Longrightarrow> tcp_inv (tcp_do op s)"
  by (simp add: tcp_inv_def tcp_do_past tcp_do_one tcp_do_moving)

text \<open>A callback other than that of a write.\<close>

lemma tcp_inv_call:
  assumes "tcp_inv s" "\<not> is_write_call c"
  shows "tcp_inv (tcp_call react c s)"
proof -
  have "tcp_inv (s\<lparr>t_calls := t_calls s @ [c]\<rparr>)"
    using assms by (simp add: tcp_inv_def one_in_flight_def tcp_past_def tcp_moving_def completed_bytes_def)
  then show ?thesis by (simp add: tcp_call_def Let_def tcp_inv_def tcp_ops)
qed

lemma tcp_inv_fields: "tcp_inv (s\<lparr>t_reads := r\<rparr>) = tcp_inv s" "tcp_inv (s\<lparr>t_phase := p\<rparr>) = tcp_inv s"
  "tcp_inv (s\<lparr>t_phase := p, t_open := b\<rparr>) = tcp_inv s" "tcp_inv (s\<lparr>t_phase := p, t_no_delay := b\<rparr>) = tcp_inv s"
  by (simp_all add: tcp_inv_def one_in_flight_def tcp_past_def tcp_moving_def completed_bytes_def)

lemma tcp_inv_read_done: "tcp_inv s \<Longrightarrow> tcp_inv (read_done react ec data s)"
  by (auto simp: read_done_def Let_def do_read_def tcp_inv_fields split: option.split intro!: tcp_inv_call)

lemma tcp_inv_resolved: "tcp_inv s \<Longrightarrow> tcp_inv (resolved react ec s)"
  by (auto simp: resolved_def tcp_inv_fields split: connect_phase.split intro!: tcp_inv_call)

lemma tcp_inv_connected: "tcp_inv s \<Longrightarrow> tcp_inv (connected react ec s)"
  by (auto simp: connected_def Let_def tcp_inv_fields split: connect_phase.split intro!: tcp_inv_call)

lemma tcp_inv_write_done:
  assumes "tcp_inv s" "t_in_flight s = d # ds" "n \<le> length d" "ec = Ec_ok \<longrightarrow> n = length d" "t_broken s \<longrightarrow> ec \<noteq> Ec_ok \<and> n = 0"
  shows "tcp_inv (write_done react ec n s)"
proof -
  obtain w q where q: "t_writing s" "t_write_queue s = w # q" "d = pw_data w" "ds = []"
    using assms(1,2) by (cases "t_write_queue s") (auto simp: tcp_inv_def one_in_flight_def split: if_splits)
  let ?s1 = "s\<lparr>t_write_queue := q, t_in_flight := [], t_completed := t_completed s @ [(w, ec)],
      t_sent := t_sent s @ take n (pw_data w), t_broken := (t_broken s \<or> ec \<noteq> Ec_ok)\<rparr>"
  let ?s2 = "?s1\<lparr>t_calls := t_calls s @ handler_calls (w, ec)\<rparr>"
  have past: "tcp_past s" using assms(1) by (simp add: tcp_inv_def)
  then have sent: "prefix (t_sent s @ take n d) (completed_bytes s @ d)"
  proof (cases "t_broken s")
    case True
    with assms(5) past show ?thesis by (simp add: tcp_past_def)
  next
    case False
    with past have "t_sent s = completed_bytes s" by (simp add: tcp_past_def)
    then show ?thesis by (simp add: take_is_prefix)
  qed
  have two: "tcp_past ?s2" "completing ?s2" "tcp_moving ?s2" "t_broken ?s2 = (t_broken s \<or> ec \<noteq> Ec_ok)"
    using past sent assms(4,5)
    by (auto simp: tcp_past_def completed_bytes_def completing_def tcp_moving_def handler_calls_def q split: option.splits)
  have "\<exists>ops. write_done react ec n s =
      (let s3 = fold tcp_do ops ?s2 in if ec \<noteq> Ec_ok then s3\<lparr>t_writing := False\<rparr> else do_write s3)"
  proof (cases "pw_handler w")
    case None
    then show ?thesis
      by (intro exI [of _ "[]"]) (simp add: write_done_def Let_def q assms(2) handler_calls_def)
  next
    case (Some cb)
    then show ?thesis
      by (intro exI [of _ "react (t_calls ?s2)"]) (simp add: write_done_def Let_def q assms(2) handler_calls_def tcp_call_def)
  qed
  then obtain ops where r: "write_done react ec n s =
      (let s3 = fold tcp_do ops ?s2 in if ec \<noteq> Ec_ok then s3\<lparr>t_writing := False\<rparr> else do_write s3)" ..
  define s3 where "s3 = fold tcp_do ops ?s2"
  have three: "tcp_past s3" "completing s3" "t_broken s3 = (t_broken s \<or> ec \<noteq> Ec_ok)"
    using two by (simp_all only: s3_def tcp_ops)
  show ?thesis
  proof (cases "ec = Ec_ok")
    case True
    then have "write_done react ec n s = do_write s3" using r by (simp add: Let_def s3_def)
    with three show ?thesis
      by (auto simp: do_write_def tcp_inv_def one_in_flight_def tcp_past_def completed_bytes_def tcp_moving_def completing_def
          split: list.splits)
  next
    case False
    then have "write_done react ec n s = s3\<lparr>t_writing := False\<rparr>" using r by (simp add: Let_def s3_def)
    with three False show ?thesis
      by (simp add: tcp_inv_def one_in_flight_def tcp_past_def completed_bytes_def tcp_moving_def completing_def)
  qed
qed

lemma tcp_inv_reachable: "tcp_reachable react s \<Longrightarrow> tcp_inv s"
proof (induction rule: tcp_reachable.induct)
  case reach_init
  show ?case
    by (simp add: tcp_inv_def tcp_init_def one_in_flight_def tcp_past_def completed_bytes_def tcp_moving_def)
next
  case (reach_step s s')
  from reach_step.hyps(2) reach_step.IH show ?case
    by cases (simp_all add: tcp_inv_do tcp_inv_write_done tcp_inv_read_done tcp_inv_resolved tcp_inv_connected)
qed

section \<open>Properties\<close>

text \<open>
  C12: The write queue.  In every execution, with callbacks that call the transport again, at most one write is
  outstanding and it is the oldest that has not completed; the stream carries the submitted bytes in the order of
  submission without gap or repetition (all completed ones, until the stream breaks); handlers of writes run
  once, in that order, with the outcome of their write; and until the stream breaks, a non-empty queue
  is being written.
\<close>

theorem tcp_writes_ordered:
  assumes "tcp_reachable react s"
  shows "t_in_flight s = (if t_writing s then [pw_data (t_submitted s ! length (t_completed s))] else []) \<and>
    prefix (map fst (t_completed s)) (t_submitted s) \<and>
    prefix (t_sent s) (concat (map pw_data (t_submitted s))) \<and>
    filter is_write_call (t_calls s) = concat (map handler_calls (t_completed s)) \<and>
    (\<not> (\<exists>p \<in> set (t_completed s). snd p \<noteq> Ec_ok) \<longrightarrow>
       t_sent s = concat (map (pw_data \<circ> fst) (t_completed s)) \<and>
       (length (t_completed s) < length (t_submitted s) \<longrightarrow> t_writing s))"
proof -
  have i: "one_in_flight s" "tcp_past s" "tcp_moving s" using tcp_inv_reachable [OF assms] by (simp_all add: tcp_inv_def)
  have sub: "t_submitted s = map fst (t_completed s) @ t_write_queue s" using i(2) by (simp add: tcp_past_def)
  then have "concat (map pw_data (t_submitted s)) = completed_bytes s @ concat (map pw_data (t_write_queue s))"
    by (simp add: completed_bytes_def)
  then have "prefix (t_sent s) (concat (map pw_data (t_submitted s)))"
    using i(2) by (simp add: tcp_past_def prefix_order.trans)
  moreover have "t_in_flight s = (if t_writing s then [pw_data (t_submitted s ! length (t_completed s))] else [])"
    using i(1) by (simp add: one_in_flight_def sub nth_append hd_conv_nth)
  moreover have "prefix (map fst (t_completed s)) (t_submitted s)" by (simp add: sub)
  moreover have "filter is_write_call (t_calls s) = concat (map handler_calls (t_completed s))"
    using i(2) by (simp add: tcp_past_def)
  moreover have "t_sent s = concat (map (pw_data \<circ> fst) (t_completed s)) \<and> (length (t_completed s) < length (t_submitted s) \<longrightarrow> t_writing s)"
    if "\<not> (\<exists>p \<in> set (t_completed s). snd p \<noteq> Ec_ok)"
  proof -
    have "\<not> t_broken s" using i(2) that by (simp add: tcp_past_def)
    then show ?thesis using i(2,3) sub by (simp add: tcp_past_def tcp_moving_def completed_bytes_def)
  qed
  ultimately show ?thesis by blast
qed

theorem tcp_writes_ordered_witness:
  "t_in_flight (tcp_do (Op_write [2] (Some 7)) (tcp_do (Op_write [1] None) tcp_init)) = [[1]]"
proof -
  let ?s = "tcp_do (Op_write [2] (Some 7)) (tcp_do (Op_write [1] None) tcp_init)"
  have "tcp_reachable (\<lambda>_. []) ?s" by (rule reach_step [OF reach_step [OF reach_init step_op] step_op])
  from tcp_writes_ordered [OF this] show ?thesis
    by (simp add: async_write_def do_write_def tcp_init_def Let_def)
qed

text \<open>
  After a failure the handlers of the writes queued behind it do not run: the documentation of
  \<^verbatim>\<open>Transport::async_write\<close> says that they fire on completion, and \<^verbatim>\<open>Connection::disconnect\<close> waits for one to close.
\<close>

theorem queued_handler_stranded:
  "\<exists>s. tcp_reachable (\<lambda>_. []) s \<and> map snd (t_completed s) = [Ec_transport 104] \<and> t_in_flight s = [] \<and>
     map pw_handler (t_write_queue s) = [Some 7] \<and> t_calls s = []"
proof -
  let ?s1 = "tcp_do (Op_write [1] None) tcp_init" and ?r = "\<lambda>_. [] :: tcp_op list"
  let ?s2 = "tcp_do (Op_write [2] (Some 7)) ?s1"
  have "tcp_reachable ?r ?s1" by (rule reach_step [OF reach_init step_op])
  then have "tcp_reachable ?r ?s2" by (rule reach_step [OF _ step_op])
  moreover have "t_in_flight ?s2 = [[1]]"
    by (simp add: async_write_def do_write_def tcp_init_def Let_def)
  then have "tcp_step ?r ?s2 (write_done ?r (Ec_transport 104) 0 ?s2)" by (rule step_write_done) simp_all
  ultimately have "tcp_reachable ?r (write_done ?r (Ec_transport 104) 0 ?s2)" by (rule reach_step)
  then show ?thesis
    by (intro exI conjI) (assumption, simp_all add: write_done_def async_write_def do_write_def tcp_init_def Let_def)
qed

end
