(* ===== verification/Random_Source.thy ===== *)
theory Random_Source
  imports ESP_Prelude
begin

text \<open>
  The random source \<^verbatim>\<open>src/crypto/detail/random.cpp\<close> in its three variants.  The operating system is a script of answers
  to its calls; a result \<open>None\<close> means that the script is used up while the code still asks.  What the
  system writes never exceeds the part of the buffer that the call names.
\<close>

section \<open>Linux\<close>

datatype sys_errno = EINTR | ENOSYS | Other_Errno

datatype sys_answer = Got bytes | Opened | Sys_Error sys_errno

type_synonym random_result = "(api_error + bytes) option"

text \<open>\<open>acc\<close> is the part of the buffer that is filled.\<close>

fun read_loop :: "sys_answer list \<Rightarrow> nat \<Rightarrow> bytes \<Rightarrow> random_result" where
  "read_loop as len acc =
     (if len \<le> length acc then Some (Inr acc)
      else case as of
             [] \<Rightarrow> None
           | Sys_Error EINTR # as \<Rightarrow> read_loop as len acc
           | Sys_Error _ # as \<Rightarrow> Some (Inl (EncryptionError ''reading /dev/urandom failed''))
           | Got [] # as \<Rightarrow> Some (Inl (EncryptionError ''unexpected EOF on /dev/urandom''))
           | Got bs # as \<Rightarrow> read_loop as len (acc @ take (len - length acc) bs)
           | Opened # as \<Rightarrow> None)"

declare read_loop.simps [simp del]

fun read_urandom :: "sys_answer list \<Rightarrow> nat \<Rightarrow> random_result" where
  "read_urandom [] len = None"
| "read_urandom (Sys_Error EINTR # as) len = read_urandom as len"
| "read_urandom (Sys_Error _ # as) len = Some (Inl (EncryptionError ''opening /dev/urandom failed''))"
| "read_urandom (Opened # as) len = read_loop as len []"
| "read_urandom (Got _ # as) len = None"

fun getrandom_loop :: "sys_answer list \<Rightarrow> nat \<Rightarrow> bytes \<Rightarrow> random_result" where
  "getrandom_loop as len acc =
     (if len \<le> length acc then Some (Inr acc)
      else case as of
             [] \<Rightarrow> None
           | Sys_Error EINTR # as \<Rightarrow> getrandom_loop as len acc
           | Sys_Error ENOSYS # as \<Rightarrow> map_option (map_sum (\<lambda>e. e) (\<lambda>bs. acc @ bs)) (read_urandom as (len - length acc))
           | Sys_Error _ # as \<Rightarrow> Some (Inl (EncryptionError ''getrandom failed''))
           | Got bs # as \<Rightarrow> getrandom_loop as len (acc @ take (len - length acc) bs)
           | Opened # as \<Rightarrow> None)"

declare getrandom_loop.simps [simp del]

definition secure_random :: "sys_answer list \<Rightarrow> nat \<Rightarrow> random_result" where
  "secure_random as len = getrandom_loop as len []"

section \<open>Windows and macOS\<close>

text \<open>An answer is the bytes of a call that succeeds or the failure of the call.\<close>

fun chunk_loop :: "nat \<Rightarrow> string \<Rightarrow> bytes option list \<Rightarrow> nat \<Rightarrow> random_result" where
  "chunk_loop most what as 0 = Some (Inr [])"
| "chunk_loop most what [] (Suc n) = None"
| "chunk_loop most what (None # as) (Suc n) = Some (Inl (EncryptionError what))"
| "chunk_loop most what (Some bs # as) (Suc n) =
     (let chunk = min (Suc n) most
      in map_option (map_sum (\<lambda>e. e) (\<lambda>rest. take chunk bs @ rest)) (chunk_loop most what as (Suc n - chunk)))"

definition secure_random_windows :: "bytes option list \<Rightarrow> nat \<Rightarrow> random_result" where
  "secure_random_windows = chunk_loop 0xFFFFFFFF ''BCryptGenRandom failed''"

definition secure_random_macos :: "bytes option list \<Rightarrow> nat \<Rightarrow> random_result" where
  "secure_random_macos = chunk_loop 256 ''getentropy failed''"

section \<open>The buffer is filled or an error is thrown\<close>

definition fails_closed :: "nat \<Rightarrow> random_result \<Rightarrow> bool" where
  "fails_closed len r \<longleftrightarrow>
     (case r of None \<Rightarrow> True | Some (Inl e) \<Rightarrow> (\<exists>what. e = EncryptionError what) | Some (Inr bs) \<Rightarrow> length bs = len)"

lemma read_loop_closed: "length acc \<le> len \<Longrightarrow> fails_closed len (read_loop as len acc)"
proof (induction as arbitrary: acc)
  case Nil
  then show ?case by (subst read_loop.simps) (simp add: fails_closed_def)
next
  case (Cons a as)
  show ?case
  proof (cases "len \<le> length acc")
    case True
    then show ?thesis using Cons.prems by (subst read_loop.simps) (simp add: fails_closed_def)
  next
    case False
    then show ?thesis using Cons
      by (subst read_loop.simps) (auto simp: fails_closed_def split: sys_answer.split sys_errno.split list.split)
  qed
qed

lemma read_urandom_closed: "fails_closed len (read_urandom as len)"
  by (induction as len rule: read_urandom.induct) (simp_all add: fails_closed_def read_loop_closed [unfolded fails_closed_def])

lemma fails_closed_prefix:
  "fails_closed (len - length acc) r \<Longrightarrow> length acc \<le> len \<Longrightarrow> fails_closed len (map_option (map_sum (\<lambda>e. e) (\<lambda>bs. acc @ bs)) r)"
  by (auto simp: fails_closed_def split: option.splits sum.splits)

lemma secure_random_closed: "fails_closed len (secure_random as len)"
proof -
  have "fails_closed len (getrandom_loop as len acc)" if "length acc \<le> len" for acc
    using that
  proof (induction as arbitrary: acc)
    case Nil
    then show ?case by (subst getrandom_loop.simps) (simp add: fails_closed_def)
  next
    case (Cons a as)
    show ?case
    proof (cases "len \<le> length acc")
      case True
      then show ?thesis using Cons.prems by (subst getrandom_loop.simps) (simp add: fails_closed_def)
    next
      case False
      have "fails_closed len (map_option (map_sum (\<lambda>e. e) (\<lambda>bs. acc @ bs)) (read_urandom as (len - length acc)))"
        by (rule fails_closed_prefix [OF read_urandom_closed Cons.prems])
      moreover have "fails_closed len None" "fails_closed len (Some (Inl (EncryptionError what)))" for what
        by (simp_all add: fails_closed_def)
      ultimately show ?thesis using False Cons
        by (subst getrandom_loop.simps) (auto split: sys_answer.split sys_errno.split)
    qed
  qed
  then show ?thesis by (simp add: secure_random_def)
qed

text \<open>A successful call of the two other systems writes the whole chunk.\<close>

lemma chunk_loop_closed:
  "0 < most \<Longrightarrow> \<forall>bs \<in> set as. \<forall>b. bs = Some b \<longrightarrow> most \<le> length b \<Longrightarrow> fails_closed len (chunk_loop most what as len)"
proof (induction most what as len rule: chunk_loop.induct)
  case (4 most what bs as n)
  let ?c = "min (Suc n) most"
  have "fails_closed (Suc n - ?c) (chunk_loop most what as (Suc n - ?c))" using 4 by simp
  moreover have "length (take ?c bs) = ?c" using 4(3) by (simp add: min_def)
  ultimately show ?case using fails_closed_prefix [of "Suc n" "take ?c bs"] by (simp add: Let_def)
qed (simp_all add: fails_closed_def)

end
