(* ===== verification/Cli_Dispatch.thy ===== *)
theory Cli_Dispatch
  imports Client "HOL-Library.List_Lexorder" "HOL-Library.Char_ord"
begin

text \<open>
  The parts of the command line tool under \<^verbatim>\<open>bin\<close> that decide and do not print: the names of the domains, the glob
  patterns of \<^verbatim>\<open>watch\<close>, the choice between a global command and a host, the saved devices, and how options,
  saved records and defaults combine into the options of a client.  The parser of command line flags and the
  JSON file are third-party libraries: their results are the arguments.
\<close>

section \<open>Domains\<close>

definition domains :: "(string \<times> entity_type) list" where
  "domains =
     [(''binary_sensor'', BinarySensor),
      (''sensor'', Sensor),
      (''text_sensor'', TextSensor),
      (''switch'', Switch),
      (''light'', Light),
      (''cover'', Cover),
      (''fan'', Fan),
      (''climate'', Climate),
      (''number'', Number),
      (''select'', Select),
      (''text'', Text),
      (''button'', Button),
      (''lock'', Lock),
      (''media_player'', MediaPlayer),
      (''camera'', Camera),
      (''siren'', Siren),
      (''alarm_control_panel'', AlarmControlPanel),
      (''date'', Date),
      (''time'', Time),
      (''datetime'', DateTime),
      (''valve'', Valve),
      (''event'', Event),
      (''update'', Update),
      (''water_heater'', WaterHeater),
      (''infrared'', Infrared),
      (''radio_frequency'', RadioFrequency)]"

definition domain_to_type :: "string \<Rightarrow> entity_type" where
  "domain_to_type command = (case find (\<lambda>e. command = fst e) domains of Some e \<Rightarrow> snd e | None \<Rightarrow> Unknown)"

definition type_to_domain :: "entity_type \<Rightarrow> string" where
  "type_to_domain type = (case find (\<lambda>e. snd e = type) domains of Some e \<Rightarrow> fst e | None \<Rightarrow> [])"

lemma domain_roundtrip: "domain_to_type (type_to_domain type) = type"
  by (cases type) (simp_all add: domain_to_type_def type_to_domain_def domains_def)

section \<open>Glob patterns\<close>

text \<open>
  The loop of \<^verbatim>\<open>wildcard\<close>.  The positions \<open>p\<close> and \<open>t\<close> are the rests of pattern and text; \<open>star\<close> with \<open>mark\<close> is the pattern
  behind the last star and the text that it was tried on.  The result \<open>None\<close> is a loop that does not end.
\<close>

partial_function (option) wildcard_loop :: "string \<Rightarrow> string \<Rightarrow> (string \<times> string) option \<Rightarrow> bool option" where
  "wildcard_loop p t star =
     (case t of
        [] \<Rightarrow> Some (dropWhile (\<lambda>c. c = CHR ''*'') p = [])
      | c # t' \<Rightarrow>
          if p \<noteq> [] \<and> (hd p = CHR ''?'' \<or> hd p = c) then wildcard_loop (tl p) t' star
          else if p \<noteq> [] \<and> hd p = CHR ''*'' then wildcard_loop (tl p) t (Some (tl p, t))
          else case star of
                 Some (sp, mark) \<Rightarrow> wildcard_loop sp (tl mark) (Some (sp, tl mark))
               | None \<Rightarrow> Some False)"

declare wildcard_loop.simps [code]

definition wildcard :: "string \<Rightarrow> string \<Rightarrow> bool option" where
  "wildcard pat s = wildcard_loop pat s None"

definition glob_match :: "string \<Rightarrow> string \<Rightarrow> bool option" where
  "glob_match pattern text =
     (if pattern = ''*'' then Some True
      else if 2 \<le> length pattern \<and> drop (length pattern - 2) pattern = ''.*'' \<and> text = take (length pattern - 2) pattern
      then Some True
      else wildcard pattern text)"

fun any_of :: "(string \<Rightarrow> bool option) \<Rightarrow> string list \<Rightarrow> bool option" where
  "any_of f [] = Some False"
| "any_of f (p # ps) = (case f p of None \<Rightarrow> None | Some True \<Rightarrow> Some True | Some False \<Rightarrow> any_of f ps)"

definition glob_match_any :: "string list \<Rightarrow> string \<Rightarrow> bool option" where
  "glob_match_any patterns text = (if patterns = [] then Some True else any_of (\<lambda>p. glob_match p text) patterns)"

section \<open>Global commands and hosts\<close>

definition value_opts :: "string list" where
  "value_opts =
     [''--config'', ''--log-level'', ''--output'', ''--port'', ''-p'', ''--key'', ''-k'', ''--name'', ''-n'', ''--timeout'']"

text \<open>The index of the first positional token; \<open>i\<close> counts the tokens before \<open>args\<close>.\<close>

fun first_positional :: "nat \<Rightarrow> string list \<Rightarrow> nat option" where
  "first_positional i [] = None"
| "first_positional i (a # args) =
     (if 1 < length a \<and> hd a = CHR ''-'' then
        if CHR ''='' \<in> set a then first_positional (i + 1) args
        else if a \<in> set value_opts then (case args of [] \<Rightarrow> None | _ # args \<Rightarrow> first_positional (i + 2) args)
        else first_positional (i + 1) args
      else Some i)"

definition find_first_positional :: "string list \<Rightarrow> nat" where
  "find_first_positional args = (case first_positional 0 args of Some i \<Rightarrow> i | None \<Rightarrow> length args)"

datatype dispatch = Run_Global "string list" | Run_Host string "string list" | No_Host string

definition global_cmds :: "string list" where
  "global_cmds = [''scan'', ''config'', ''devices'', ''help'']"

definition host_cmds :: "string list" where
  "host_cmds = [''info'', ''list'', ''logs'', ''watch'', ''bt'', ''serial-proxy''] @ map fst domains"

text \<open>\<open>env\<close> is the variable \<^verbatim>\<open>ESPHOME_CLI_HOST\<close>.\<close>

definition run :: "string option \<Rightarrow> string list \<Rightarrow> dispatch" where
  "run env args =
     (let idx = find_first_positional args
      in if idx = length args then Run_Global args
         else if args ! idx \<in> set global_cmds then Run_Global args
         else if args ! idx \<in> set host_cmds then
           (case env of
              None \<Rightarrow> No_Host (args ! idx)
            | Some host \<Rightarrow> if host = [] then No_Host (args ! idx) else Run_Host host args)
         else Run_Host (args ! idx) (take idx args @ drop (idx + 1) args))"

section \<open>Saved devices\<close>

record device_record =
  dr_name :: string
  dr_address :: string
  dr_port :: u16
  dr_psk :: string
  dr_expected_name :: string
  dr_timeout_ms :: "int option"

definition new_device_record :: device_record where
  "new_device_record =
     \<lparr>dr_name = [], dr_address = [], dr_port = 6053, dr_psk = [], dr_expected_name = [], dr_timeout_ms = None\<rparr>"

text \<open>\<^verbatim>\<open>std::map<std::string, DeviceRecord>\<close>: pairs in the order of the keys.\<close>

record config =
  cfg_request_timeout_ms :: int
  cfg_save_keys :: bool
  cfg_devices :: "(string \<times> device_record) list"
  cfg_plaintext_warned :: bool

fun map_assign :: "string \<Rightarrow> 'v \<Rightarrow> (string \<times> 'v) list \<Rightarrow> (string \<times> 'v) list" where
  "map_assign k v [] = [(k, v)]"
| "map_assign k v ((k', v') # kvs) =
     (if k' < k then (k', v') # map_assign k v kvs
      else if k' = k then (k, v) # kvs
      else (k, v) # (k', v') # kvs)"

definition resolve_key :: "string \<Rightarrow> config \<Rightarrow> string option" where
  "resolve_key host cfg =
     (if map_of (cfg_devices cfg) host \<noteq> None then Some host
      else case find (\<lambda>(key, rec). dr_address rec = host) (cfg_devices cfg) of
             Some (key, _) \<Rightarrow> Some key
           | None \<Rightarrow>
               map_option fst (find (\<lambda>(key, rec). dr_name rec \<noteq> [] \<and> dr_name rec = host) (cfg_devices cfg)))"

definition config_find :: "string \<Rightarrow> config \<Rightarrow> device_record option" where
  "config_find host cfg = (case resolve_key host cfg of None \<Rightarrow> None | Some key \<Rightarrow> map_of (cfg_devices cfg) key)"

text \<open>The first component tells whether the notice about stored keys is printed.\<close>

definition remember :: "string \<Rightarrow> device_record \<Rightarrow> bool \<Rightarrow> config \<Rightarrow> bool \<times> config" where
  "remember host rec save_keys_effective cfg =
     (let rec = (if \<not> save_keys_effective then rec\<lparr>dr_psk := []\<rparr> else rec);
          notice = (save_keys_effective \<and> dr_psk rec \<noteq> [] \<and> \<not> cfg_plaintext_warned cfg);
          cfg = (if notice then cfg\<lparr>cfg_plaintext_warned := True\<rparr> else cfg);
          key = (case resolve_key host cfg of Some existing \<Rightarrow> existing | None \<Rightarrow> host)
      in (notice, cfg\<lparr>cfg_devices := map_assign key rec (cfg_devices cfg)\<rparr>))"

definition forget :: "string \<Rightarrow> config \<Rightarrow> bool \<times> config" where
  "forget host cfg =
     (case resolve_key host cfg of
        None \<Rightarrow> (False, cfg)
      | Some key \<Rightarrow> (True, cfg\<lparr>cfg_devices := filter (\<lambda>e. fst e \<noteq> key) (cfg_devices cfg)\<rparr>))"

section \<open>Connecting\<close>

record global_options =
  gl_port :: "u16 option"
  gl_key :: string
  gl_name :: string
  gl_save_keys :: "bool option"
  gl_timeout_ms :: "int option"

definition save_keys :: "global_options \<Rightarrow> config \<Rightarrow> bool" where
  "save_keys g cfg = (case gl_save_keys g of Some b \<Rightarrow> b | None \<Rightarrow> cfg_save_keys cfg)"

text \<open>The version in \<open>client_info\<close> is a build option.  The connect timeout of the options is that of the blocking client.\<close>

definition new_client_options :: client_options where
  "new_client_options =
     \<lparr>co_host = [], co_port = 6053,
      co_connection =
        \<lparr>op_client_info = ''esphome-api-client'', op_expected_name = [], op_login = True, op_password = [],
         op_keepalive_interval = 20000\<rparr>,
      co_noise_psk = [], co_subscribe_on_connect = True\<rparr>"

definition resolve_options :: "string \<Rightarrow> global_options \<Rightarrow> config \<Rightarrow> string \<Rightarrow> client_options" where
  "resolve_options client_info g cfg host =
     (let (opt, address) =
            (case config_find host cfg of
               None \<Rightarrow> (new_client_options, host)
             | Some rec \<Rightarrow>
                 (new_client_options
                    \<lparr>co_port := unat (dr_port rec), co_noise_psk := dr_psk rec,
                     co_connection := (co_connection new_client_options)\<lparr>op_expected_name := dr_expected_name rec\<rparr>\<rparr>,
                  if dr_address rec \<noteq> [] then dr_address rec else host));
          opt = (case gl_port g of Some p \<Rightarrow> opt\<lparr>co_port := unat p\<rparr> | None \<Rightarrow> opt);
          opt = (if gl_key g \<noteq> [] then opt\<lparr>co_noise_psk := gl_key g\<rparr> else opt);
          opt = (if gl_name g \<noteq> [] then opt\<lparr>co_connection := (co_connection opt)\<lparr>op_expected_name := gl_name g\<rparr>\<rparr> else opt)
      in opt\<lparr>co_host := address, co_connection := (co_connection opt)\<lparr>op_client_info := client_info\<rparr>,
             co_subscribe_on_connect := False\<rparr>)"

definition resolve_timeout_ms :: "global_options \<Rightarrow> config \<Rightarrow> string \<Rightarrow> int" where
  "resolve_timeout_ms g cfg host =
     (case gl_timeout_ms g of
        Some ms \<Rightarrow> ms
      | None \<Rightarrow>
          (case (if host \<noteq> [] then config_find host cfg else None) of
             Some rec \<Rightarrow> (case dr_timeout_ms rec of Some ms \<Rightarrow> ms | None \<Rightarrow> cfg_request_timeout_ms cfg)
           | None \<Rightarrow> cfg_request_timeout_ms cfg))"

text \<open>The exit code of an exception of \<^verbatim>\<open>connect\<close>, and whether a hint about the key is printed.\<close>

definition report_connect_error :: "api_error \<Rightarrow> nat \<times> bool" where
  "report_connect_error e =
     (case e of
        EncryptionMismatchError _ \<Rightarrow> (3, False)
      | EncryptionError _ \<Rightarrow> (3, True)
      | HandshakeError _ \<Rightarrow> (3, True)
      | AuthenticationError _ \<Rightarrow> (3, True)
      | ConnectionError _ \<Rightarrow> (4, False)
      | TimeoutError _ \<Rightarrow> (4, False)
      | _ \<Rightarrow> (5, False))"

text \<open>The device is remembered when its record changes; whether the file is then written is not modelled.\<close>

definition desired_record :: "bool \<Rightarrow> client_options \<Rightarrow> string \<Rightarrow> device_record option \<Rightarrow> device_record" where
  "desired_record save opt device_name cur =
     (let d = (case cur of Some rec \<Rightarrow> rec | None \<Rightarrow> new_device_record);
          d = d\<lparr>dr_address := co_host opt, dr_port := of_nat (co_port opt),
                dr_expected_name := op_expected_name (co_connection opt)\<rparr>;
          d = (if device_name \<noteq> [] then d\<lparr>dr_name := device_name\<rparr> else d)
      in d\<lparr>dr_psk := (if save then co_noise_psk opt else [])\<rparr>)"

definition persist_connection :: "global_options \<Rightarrow> string \<Rightarrow> client_options \<Rightarrow> string \<Rightarrow> config \<Rightarrow> bool \<times> config" where
  "persist_connection g host opt device_name cfg =
     (let save = save_keys g cfg;
          cur = config_find host cfg;
          desired = desired_record save opt device_name cur;
          changed =
            (case cur of
               None \<Rightarrow> True
             | Some c \<Rightarrow>
                 dr_address c \<noteq> dr_address desired \<or> dr_port c \<noteq> dr_port desired \<or> dr_expected_name c \<noteq> dr_expected_name desired \<or>
                 dr_name c \<noteq> dr_name desired \<or> dr_psk c \<noteq> dr_psk desired)
      in if \<not> changed then (False, cfg) else remember host desired save cfg)"

section \<open>Globs are exact\<close>

text \<open>What a pattern means: a star stands for any run of characters, a question mark for one.\<close>

fun matches :: "string \<Rightarrow> string \<Rightarrow> bool" where
  "matches [] t = (t = [])"
| "matches (p # ps) t =
     (if p = CHR ''*'' then \<exists>i \<le> length t. matches ps (drop i t)
      else case t of [] \<Rightarrow> False | c # t' \<Rightarrow> (p = CHR ''?'' \<or> p = c) \<and> matches ps t')"

text \<open>A piece of a pattern without stars that has been matched character by character.\<close>

definition fits :: "string \<Rightarrow> string \<Rightarrow> bool" where
  "fits seg u \<longleftrightarrow> CHR ''*'' \<notin> set seg \<and> list_all2 (\<lambda>p c. p = CHR ''?'' \<or> p = c) seg u"

lemma fits_Nil [simp]: "fits [] u \<longleftrightarrow> u = []"
  by (auto simp: fits_def)

lemma fits_facts: "fits seg u \<Longrightarrow> length seg = length u" "fits seg u \<Longrightarrow> CHR ''*'' \<notin> set seg"
  by (auto simp: fits_def list_all2_lengthD)

lemma fits_snoc: "fits seg u \<Longrightarrow> p \<noteq> CHR ''*'' \<Longrightarrow> p = CHR ''?'' \<or> p = c \<Longrightarrow> fits (seg @ [p]) (u @ [c])"
  by (auto simp: fits_def intro: list_all2_appendI)

lemma matches_fits: "fits seg u \<Longrightarrow> matches (seg @ ps) (u @ t) = matches ps t"
proof (induction seg arbitrary: u)
  case (Cons p seg)
  then show ?case by (cases u) (auto simp: fits_def)
qed simp

text \<open>A piece without stars consumes one character for each of its own.\<close>

lemma matches_segment:
  assumes "matches (seg @ ps) t" "CHR ''*'' \<notin> set seg"
  shows "length seg \<le> length t \<and> fits seg (take (length seg) t) \<and> matches ps (drop (length seg) t)"
  using assms
proof (induction seg arbitrary: t)
  case (Cons p seg)
  then show ?case by (cases t) (auto simp: fits_def)
qed (simp add: fits_def)

lemma matches_stars: "matches ps [] \<longleftrightarrow> dropWhile (\<lambda>c. c = CHR ''*'') ps = []"
  by (induction ps) auto

lemma star_absorbs: "matches (CHR ''*'' # ps) (drop i t) \<Longrightarrow> matches (CHR ''*'' # ps) t"
  by simp (metis add_leE drop_drop le_add_diff_inverse2 length_drop nat_le_linear drop_all le_refl diff_is_0_eq' add.commute add_le_mono1)

text \<open>What a state of the loop decides, when its cursors stand where the last star has been tried.\<close>

fun star_state :: "string \<Rightarrow> string \<Rightarrow> (string \<times> string) option \<Rightarrow> bool" where
  "star_state p t None \<longleftrightarrow> True"
| "star_state p t (Some (P, m)) \<longleftrightarrow> (\<exists>seg u. P = seg @ p \<and> m = u @ t \<and> fits seg u)"

fun star_meaning :: "string \<Rightarrow> string \<Rightarrow> (string \<times> string) option \<Rightarrow> bool" where
  "star_meaning p t None = matches p t"
| "star_meaning p t (Some (P, m)) = matches (CHR ''*'' # P) m"

text \<open>Only the last star has to be retried: an earlier one can give its text to it.\<close>

lemma last_star_suffices:
  assumes "fits seg u"
  shows "matches (CHR ''*'' # seg @ CHR ''*'' # ps) (u @ t) = matches (CHR ''*'' # ps) t"
proof
  assume "matches (CHR ''*'' # seg @ CHR ''*'' # ps) (u @ t)"
  then obtain i where "matches (seg @ CHR ''*'' # ps) (drop i (u @ t))" by auto
  from matches_segment [OF this fits_facts(2) [OF assms]]
  have "matches (CHR ''*'' # ps) (drop (length seg) (drop i (u @ t)))" by blast
  moreover have "drop (length seg) (drop i (u @ t)) = drop i t"
    by (simp only: drop_drop fits_facts(1) [OF assms] add.commute [of _ i]) (simp flip: drop_drop)
  ultimately have "matches (CHR ''*'' # ps) (drop i t)" by metis
  then show "matches (CHR ''*'' # ps) t" by (rule star_absorbs)
next
  assume "matches (CHR ''*'' # ps) t"
  then have "matches (seg @ CHR ''*'' # ps) (u @ t)" by (simp only: matches_fits [OF assms])
  then have "matches (seg @ CHR ''*'' # ps) (drop 0 (u @ t))" by (simp only: drop_0)
  then show "matches (CHR ''*'' # seg @ CHR ''*'' # ps) (u @ t)"
    unfolding matches.simps(2) [of "CHR ''*''" "seg @ CHR ''*'' # ps"] by auto
qed

text \<open>Where the rest of the pattern does not match, the last star takes one character more.\<close>

lemma star_moves_on:
  assumes "fits seg u" "\<not> matches p t" "t \<noteq> []"
  shows "matches (CHR ''*'' # seg @ p) (u @ t) = matches (CHR ''*'' # seg @ p) (tl (u @ t))"
proof
  assume "matches (CHR ''*'' # seg @ p) (u @ t)"
  then obtain i where i: "matches (seg @ p) (drop i (u @ t))" "i \<le> length (u @ t)" by auto
  have "i \<noteq> 0"
  proof
    assume "i = 0"
    with i(1) have "matches (seg @ p) (u @ t)" by simp
    with assms(2) show False by (simp only: matches_fits [OF assms(1)])
  qed
  then have "matches (seg @ p) (drop (i - 1) (tl (u @ t)))" using i(1) by (cases i) (simp_all only: drop_Suc diff_Suc_1 simp_thms)
  moreover have "i - 1 \<le> length (tl (u @ t))" using i(2) by simp
  ultimately show "matches (CHR ''*'' # seg @ p) (tl (u @ t))" by auto
next
  assume "matches (CHR ''*'' # seg @ p) (tl (u @ t))"
  then have "matches (CHR ''*'' # seg @ p) (drop 1 (u @ t))" by (simp only: One_nat_def drop_Suc drop_0)
  then show "matches (CHR ''*'' # seg @ p) (u @ t)" by (rule star_absorbs)
qed

lemma star_at_end:
  assumes "fits seg u"
  shows "matches (CHR ''*'' # seg @ p) u \<longleftrightarrow> matches p []"
proof
  assume "matches (CHR ''*'' # seg @ p) u"
  then obtain i where i: "matches (seg @ p) (drop i u)" by auto
  from matches_segment [OF i fits_facts(2) [OF assms]] show "matches p []" by (simp add: fits_facts(1) [OF assms])
next
  assume "matches p []"
  then have "matches (seg @ p) (drop 0 u)" using matches_fits [OF assms, of p "[]"] by simp
  then show "matches (CHR ''*'' # seg @ p) u" by auto
qed

lemma wildcard_loop_steps:
  "wildcard_loop p [] star = Some (dropWhile (\<lambda>c. c = CHR ''*'') p = [])"
  "x = CHR ''?'' \<or> x = c \<Longrightarrow> wildcard_loop (x # ps) (c # t) star = wildcard_loop ps t star"
  "c \<noteq> CHR ''*'' \<Longrightarrow> wildcard_loop (CHR ''*'' # ps) (c # t) star = wildcard_loop ps (c # t) (Some (ps, c # t))"
  "p = [] \<or> hd p \<noteq> CHR ''?'' \<and> hd p \<noteq> c \<and> hd p \<noteq> CHR ''*'' \<Longrightarrow>
     wildcard_loop p (c # t) star =
       (case star of Some (sp, mark) \<Rightarrow> wildcard_loop sp (tl mark) (Some (sp, tl mark)) | None \<Rightarrow> Some False)"
  by (subst wildcard_loop.simps; auto)+

lemma wildcard_loop_exact:
  assumes "star_state p t star" "CHR ''*'' \<notin> set t" "\<forall>P m. star = Some (P, m) \<longrightarrow> CHR ''*'' \<notin> set m"
  shows "wildcard_loop p t star = Some (star_meaning p t star)"
  using assms
proof (induction "(p, t, star)" arbitrary: p t star rule: wf_induct_rule [OF wf_measures [of
    "[\<lambda>(p, t, star). case star of None \<Rightarrow> Suc (length p) | Some (P, m) \<Rightarrow> length P,
      \<lambda>(p, t, star). case star of None \<Rightarrow> 0 | Some (P, m) \<Rightarrow> length m, \<lambda>(p, t, star). length t]"]])
  case (1 p t star)
  show ?case
  proof (cases t)
    case Nil
    have w: "wildcard_loop p t star = Some (matches p [])" by (simp add: Nil wildcard_loop_steps(1) matches_stars)
    show ?thesis
    proof (cases star)
      case None
      then show ?thesis using w Nil by simp
    next
      case (Some P)
      then obtain seg u where "star = Some (seg @ p, u @ t)" "fits seg u" using 1(2) by (cases P) auto
      then show ?thesis using w Nil star_at_end [of seg u p] by (simp only: star_meaning.simps append_Nil2)
    qed
  next
    case (Cons c t')
    have c: "c \<noteq> CHR ''*''" using 1(3) Cons by auto
    consider (char) x ps where "p = x # ps" "x = CHR ''?'' \<or> x = c" | (star) ps where "p = CHR ''*'' # ps"
      | (none) "p = [] \<or> hd p \<noteq> CHR ''?'' \<and> hd p \<noteq> c \<and> hd p \<noteq> CHR ''*''"
      by (cases p) auto
    then show ?thesis
    proof cases
      case char
      have x: "x \<noteq> CHR ''*''" using char(2) c by auto
      have s: "wildcard_loop p t star = wildcard_loop ps t' star"
        using char Cons by (simp only: wildcard_loop_steps(2))
      have i: "star_state ps t' star"
      proof (cases star)
        case (Some P)
        then obtain seg u where "star = Some (seg @ p, u @ t)" "fits seg u" using 1(2) by (cases P) auto
        then show ?thesis using fits_snoc [OF _ x char(2), of seg u] char(1) Cons by (auto intro!: exI [of _ "seg @ [x]"])
      qed simp
      have "wildcard_loop ps t' star = Some (star_meaning ps t' star)"
        by (rule 1(1)) (use i 1(3,4) char(1) Cons in \<open>auto split: option.split\<close>)
      moreover have "star_meaning p t star = star_meaning ps t' star" using char x Cons by (cases star) auto
      ultimately show ?thesis by (simp only: s)
    next
      case star
      have s: "wildcard_loop p t star = wildcard_loop ps t (Some (ps, t))"
        using star Cons c by (simp only: wildcard_loop_steps(3) simp_thms)
      have l: "\<forall>P m. star = Some (P, m) \<longrightarrow> length ps < length P" using 1(2) star by auto
      have "wildcard_loop ps t (Some (ps, t)) = Some (star_meaning ps t (Some (ps, t)))"
        by (rule 1(1)) (use 1(3) star l in \<open>auto split: option.split\<close>)
      moreover have "star_meaning p t star = star_meaning ps t (Some (ps, t))"
      proof (cases star)
        case None
        then show ?thesis using star by simp
      next
        case (Some P)
        then obtain seg u where "star = Some (seg @ p, u @ t)" "fits seg u" using 1(2) by (cases P) auto
        then show ?thesis using star last_star_suffices [of seg u ps t] by (simp only: star_meaning.simps)
      qed
      ultimately show ?thesis by (simp only: s)
    next
      case none
      have n: "\<not> matches p t" using none Cons by (cases p) auto
      show ?thesis
      proof (cases star)
        case None
        then show ?thesis using none Cons n by (simp add: wildcard_loop_steps(4))
      next
        case (Some P)
        then obtain seg u where st: "star = Some (seg @ p, u @ t)" "fits seg u" using 1(2) by (cases P) auto
        have s: "wildcard_loop p t star = wildcard_loop (seg @ p) (tl (u @ t)) (Some (seg @ p, tl (u @ t)))"
          using none Cons st(1) by (simp add: wildcard_loop_steps(4))
        have "CHR ''*'' \<notin> set (tl (u @ t))" using 1(4) st(1) by (metis list.set_sel(2) list.sel(2))
        then have "wildcard_loop (seg @ p) (tl (u @ t)) (Some (seg @ p, tl (u @ t))) =
            Some (star_meaning (seg @ p) (tl (u @ t)) (Some (seg @ p, tl (u @ t))))"
          by (intro 1(1)) (use Cons st in auto)
        moreover have "t \<noteq> []" using Cons by simp
        from star_moves_on [OF st(2) n this]
        have "star_meaning p t star = star_meaning (seg @ p) (tl (u @ t)) (Some (seg @ p, tl (u @ t)))"
          by (simp only: st(1) star_meaning.simps)
        ultimately show ?thesis by (simp only: s)
      qed
    qed
  qed
qed

section \<open>Saved devices are found again\<close>

lemma map_assign_keys: "set (map fst (map_assign k v kvs)) = insert k (set (map fst kvs))"
proof (induction kvs)
  case (Cons kv kvs)
  then show ?case by (cases kv) (simp add: insert_commute)
qed simp

lemma map_assign_sorted: "sorted_wrt (<) (map fst kvs) \<Longrightarrow> sorted_wrt (<) (map fst (map_assign k v kvs))"
proof (induction kvs)
  case (Cons kv kvs)
  then show ?case using map_assign_keys [of k v kvs] by (cases kv) auto
qed simp

lemma map_of_assign: "sorted_wrt (<) (map fst kvs) \<Longrightarrow> map_of (map_assign k v kvs) = (map_of kvs)(k \<mapsto> v)"
proof (induction kvs)
  case (Cons kv kvs)
  then show ?case by (cases kv) (auto simp: fun_upd_twist)
qed simp

lemma find_in_set: "find P xs = Some x \<Longrightarrow> x \<in> set xs"
  by (auto simp: find_Some_iff)

lemma resolve_key_stored:
  assumes "resolve_key host cfg = Some key"
  shows "map_of (cfg_devices cfg) key \<noteq> None"
proof -
  have "key \<in> fst ` set (cfg_devices cfg)"
    using assms
    by (auto simp: resolve_key_def map_of_eq_None_iff rev_image_eqI split: if_splits option.splits dest!: find_in_set)
  then show ?thesis by (simp add: map_of_eq_None_iff)
qed

text \<open>A lookup returns a stored record whenever the name resolves.\<close>

lemma config_find_resolves: "config_find host cfg \<noteq> None \<longleftrightarrow> resolve_key host cfg \<noteq> None"
  using resolve_key_stored [of host cfg] by (auto simp: config_find_def split: option.splits)

lemma remember_stores:
  assumes "sorted_wrt (<) (map fst (cfg_devices cfg))" "remember host rec save cfg = (notice, cfg')"
  defines "key \<equiv> (case resolve_key host cfg of Some existing \<Rightarrow> existing | None \<Rightarrow> host)"
  shows "map_of (cfg_devices cfg') = (map_of (cfg_devices cfg))(key \<mapsto> (if save then rec else rec\<lparr>dr_psk := []\<rparr>))"
    and "sorted_wrt (<) (map fst (cfg_devices cfg'))"
    and "config_find key cfg' = Some (if save then rec else rec\<lparr>dr_psk := []\<rparr>)"
proof -
  have k: "resolve_key host (cfg\<lparr>cfg_plaintext_warned := w\<rparr>) = resolve_key host cfg" for w
    by (simp add: resolve_key_def cong: option.case_cong)
  have d: "cfg_devices cfg' = map_assign key (if save then rec else rec\<lparr>dr_psk := []\<rparr>) (cfg_devices cfg)"
    using assms(2) by (auto simp: remember_def Let_def key_def k split: if_splits)
  show m: "map_of (cfg_devices cfg') = (map_of (cfg_devices cfg))(key \<mapsto> (if save then rec else rec\<lparr>dr_psk := []\<rparr>))"
    using assms(1) by (simp add: d map_of_assign)
  show "sorted_wrt (<) (map fst (cfg_devices cfg'))"
    using assms(1) by (simp only: d map_assign_sorted)
  show "config_find key cfg' = Some (if save then rec else rec\<lparr>dr_psk := []\<rparr>)"
    by (simp add: config_find_def resolve_key_def m)
qed

section \<open>Properties\<close>



text \<open>A star in the text is taken for the star of the pattern, which then stands for nothing else.\<close>

theorem glob_star_in_text: "glob_match ''a*'' ''a*b'' = Some False \<and> matches ''a*'' ''a*b''"
proof
  show "glob_match ''a*'' ''a*b'' = Some False"
    by (simp add: glob_match_def wildcard_def wildcard_loop_steps)
  show "matches ''a*'' ''a*b''" by code_simp
qed

end
