(* ===== verification/Cli_Values.thy ===== *)
theory Cli_Values
  imports Cli_Dispatch Entity_Registry
begin

text \<open>
  The value parsers of \<^verbatim>\<open>bin/commands/actions/entity_actions.cpp\<close>, and what they use of the standard library:
  \<^verbatim>\<open>strtol\<close>, \<^verbatim>\<open>strtoull\<close>, \<^verbatim>\<open>strtof\<close>, \<^verbatim>\<open>std::getline\<close>, single-precision division and \<^verbatim>\<open>std::clamp\<close>.  Floats are their bits, as in
  the messages; \<^verbatim>\<open>long\<close> has 64 bits.  An \<open>Inl\<close> is the \<^verbatim>\<open>std::invalid_argument\<close> that a parser throws.
\<close>

section \<open>Strings\<close>

definition to_lower :: "string \<Rightarrow> string" where
  "to_lower s = map tolower s"

definition c_space :: "char \<Rightarrow> bool" where
  "c_space c \<longleftrightarrow> (let n = (of_char c :: nat) in n = 32 \<or> 9 \<le> n \<and> n \<le> 13)"

text \<open>\<^verbatim>\<open>c_str()\<close>: the characters up to the first null.\<close>

definition c_str :: "string \<Rightarrow> string" where
  "c_str s = takeWhile (\<lambda>c. c \<noteq> CHR 0x00) s"

text \<open>\<^verbatim>\<open>while (std::getline(ss, token, d))\<close>: no token behind a final delimiter.\<close>

fun getlines :: "char \<Rightarrow> string \<Rightarrow> string \<Rightarrow> string list" where
  "getlines d acc [] = (if acc = [] then [] else [acc])"
| "getlines d acc (c # cs) = (if c = d then acc # getlines d [] cs else getlines d (acc @ [c]) cs)"

section \<open>Integers\<close>

definition radix_digit :: "char \<Rightarrow> nat" where
  "radix_digit c =
     (let n = (of_char c :: nat)
      in if 48 \<le> n \<and> n \<le> 57 then n - 48 else if 97 \<le> n \<and> n \<le> 122 then n - 87 else if 65 \<le> n \<and> n \<le> 90 then n - 55 else 99)"

definition radix_value :: "nat \<Rightarrow> string \<Rightarrow> nat" where
  "radix_value radix ds = foldl (\<lambda>a c. a * radix + radix_digit c) 0 ds"

definition skip_hex_prefix :: "string \<Rightarrow> string" where
  "skip_hex_prefix cs =
     (case cs of
        z # x # d # ds \<Rightarrow> if z = CHR ''0'' \<and> (x = CHR ''x'' \<or> x = CHR ''X'') \<and> radix_digit d < 16 then d # ds else cs
      | _ \<Rightarrow> cs)"

text \<open>Blanks, a sign, digits: the sign, the magnitude and the rest; \<open>None\<close> when nothing is read.\<close>

definition sign_split :: "string \<Rightarrow> bool \<times> string" where
  "sign_split cs =
     (case dropWhile c_space cs of
        [] \<Rightarrow> (False, [])
      | c # cs \<Rightarrow> if c = CHR ''-'' then (True, cs) else if c = CHR ''+'' then (False, cs) else (False, c # cs))"

definition strto :: "nat \<Rightarrow> string \<Rightarrow> (bool \<times> nat \<times> string) option" where
  "strto radix cs =
     (case sign_split cs of
        (neg, cs) \<Rightarrow>
          (let cs = (if radix = 16 then skip_hex_prefix cs else cs);
               ds = takeWhile (\<lambda>c. radix_digit c < radix) cs
           in if ds = [] then None else Some (neg, radix_value radix ds, drop (length ds) cs)))"

definition strtol :: "string \<Rightarrow> (int \<times> string) option" where
  "strtol cs =
     (case strto 10 cs of
        None \<Rightarrow> None
      | Some (neg, n, rest) \<Rightarrow>
          Some (if neg then max (- int n) (- (2 ^ 63)) else min (int n) (2 ^ 63 - 1), rest))"

definition strtoull :: "nat \<Rightarrow> string \<Rightarrow> (u64 \<times> string) option" where
  "strtoull radix cs =
     (case strto radix cs of
        None \<Rightarrow> None
      | Some (neg, n, rest) \<Rightarrow>
          Some (if 2 ^ 64 \<le> n then - 1 else if neg then - of_nat n else of_nat n, rest))"

definition parse_int :: "string \<Rightarrow> string + u32" where
  "parse_int str =
     (case strtol (c_str str) of
        Some (value, []) \<Rightarrow> Inr (of_int value)
      | _ \<Rightarrow> Inl (''not an integer: '' @ str))"

definition parse_uint :: "string \<Rightarrow> string + u32" where
  "parse_uint str =
     (case parse_int str of
        Inl what \<Rightarrow> Inl what
      | Inr value \<Rightarrow> if sint value < 0 then Inl (''not a non-negative integer: '' @ str) else Inr value)"

definition parse_bool_value :: "string \<Rightarrow> string + bool" where
  "parse_bool_value str =
     (let s = to_lower str
      in if s = ''true'' \<or> s = ''on'' \<or> s = ''yes'' \<or> s = ''1'' then Inr True
         else if s = ''false'' \<or> s = ''off'' \<or> s = ''no'' \<or> s = ''0'' then Inr False
         else Inl (''not a boolean: '' @ str))"

text \<open>Six bytes separated by colons, or a number.\<close>

definition parse_ble_addr :: "string \<Rightarrow> string + u64" where
  "parse_ble_addr str =
     (if CHR '':'' \<in> set str then
        (let parts = getlines CHR '':'' [] str;
             addr = foldl (\<lambda>a b. push_bit 8 a OR ((case strtoull 16 (c_str b) of Some (v, _) \<Rightarrow> v | None \<Rightarrow> 0) AND 0xFF)) 0 parts
         in if length parts \<noteq> 6 then Inl ''expected a 6-byte MAC like AA:BB:CC:DD:EE:FF'' else Inr addr)
      else
        (let radix = (if take 2 str = ''0x'' \<or> take 2 str = ''0X'' then 16 else 10)
         in case strtoull radix (c_str str) of
              Some (addr, []) \<Rightarrow> Inr addr
            | _ \<Rightarrow> Inl (''not a BLE address: '' @ str)))"

section \<open>Floats\<close>

text \<open>The bits of the float nearest to \<open>n / d\<close>, ties to even: the significand \<open>q\<close> in units of \<open>2\<^sup>e\<close>.\<close>

fun bit_count :: "nat \<Rightarrow> nat" where
  "bit_count n = (if n = 0 then 0 else Suc (bit_count (n div 2)))"

declare bit_count.simps [simp del]

definition ratio_exponent :: "nat \<Rightarrow> nat \<Rightarrow> int" where
  "ratio_exponent n d =
     (let k = int (bit_count n) - int (bit_count d)
      in if d * 2 ^ nat k \<le> n * 2 ^ nat (- k) then k else k - 1)"

definition round_ratio :: "nat \<Rightarrow> nat \<Rightarrow> nat" where
  "round_ratio n d =
     (let q = n div d; r = n mod d in if d < 2 * r \<or> d = 2 * r \<and> odd q then q + 1 else q)"

definition f32_of_ratio :: "nat \<Rightarrow> nat \<Rightarrow> u32" where
  "f32_of_ratio n d =
     (if n = 0 then 0
      else let e = max (ratio_exponent n d - 23) (- 149);
               q = round_ratio (n * 2 ^ nat (- e)) (d * 2 ^ nat e)
           in of_nat (min (nat (e + 149) * 2 ^ 23 + q) 0x7F800000))"

definition f32_sign :: "bool \<Rightarrow> u32 \<Rightarrow> u32" where
  "f32_sign neg x = (if neg then x OR 0x80000000 else x)"

definition f32_magnitude :: "u32 \<Rightarrow> nat" where
  "f32_magnitude x = unat x mod 2 ^ 31"

definition f32_negative :: "u32 \<Rightarrow> bool" where
  "f32_negative x \<longleftrightarrow> 2 ^ 31 \<le> unat x"

definition f32_nan :: "u32 \<Rightarrow> bool" where
  "f32_nan x \<longleftrightarrow> 0x7F800000 < f32_magnitude x"

definition f32_order :: "u32 \<Rightarrow> int" where
  "f32_order x = (if f32_negative x then - int (f32_magnitude x) else int (f32_magnitude x))"

definition f32_less :: "u32 \<Rightarrow> u32 \<Rightarrow> bool" where
  "f32_less x y \<longleftrightarrow> \<not> f32_nan x \<and> \<not> f32_nan y \<and> f32_order x < f32_order y"

text \<open>Division by a positive whole number: not-a-numbers and infinities stay.\<close>

definition f32_div :: "u32 \<Rightarrow> nat \<Rightarrow> u32" where
  "f32_div x c =
     (let m = f32_magnitude x; ex = m div 2 ^ 23; fr = m mod 2 ^ 23
      in if 255 \<le> ex then x
         else let sig = (if ex = 0 then fr else fr + 2 ^ 23);
                  e = max (int ex) 1 - 150
              in f32_sign (f32_negative x) (f32_of_ratio (sig * 2 ^ nat e) (c * 2 ^ nat (- e))))"

definition f32_clamp :: "u32 \<Rightarrow> u32 \<Rightarrow> u32 \<Rightarrow> u32" where
  "f32_clamp v lo hi = (if f32_less v lo then lo else if f32_less hi v then hi else v)"

text \<open>Digits with an optional point: the digits, how many stand behind the point, and the rest.\<close>

definition float_digits :: "nat \<Rightarrow> string \<Rightarrow> string \<times> nat \<times> string" where
  "float_digits radix cs =
     (let whole = takeWhile (\<lambda>c. radix_digit c < radix) cs; rest = drop (length whole) cs
      in case rest of
           c # cs' \<Rightarrow>
             if c = CHR ''.'' then
               (let frac = takeWhile (\<lambda>c. radix_digit c < radix) cs'
                in if whole = [] \<and> frac = [] then ([], 0, cs) else (whole @ frac, length frac, drop (length frac) cs'))
             else (whole, 0, rest)
         | [] \<Rightarrow> (whole, 0, []))"

text \<open>An exponent is read only when it has a digit.\<close>

definition float_exponent :: "char \<Rightarrow> string \<Rightarrow> int \<times> string" where
  "float_exponent mark cs =
     (case cs of
        [] \<Rightarrow> (0, [])
      | c # cs' \<Rightarrow>
          if tolower c \<noteq> mark then (0, cs)
          else let (neg, ds) =
                     (case cs' of
                        [] \<Rightarrow> (False, [])
                      | s # ss \<Rightarrow> if s = CHR ''-'' then (True, ss) else if s = CHR ''+'' then (False, ss) else (False, cs'));
                   ex = takeWhile (\<lambda>c. radix_digit c < 10) ds
               in if ex = [] then (0, cs)
                  else (if neg then - int (radix_value 10 ex) else int (radix_value 10 ex), drop (length ex) ds))"

definition scaled_ratio :: "nat \<Rightarrow> nat \<Rightarrow> int \<Rightarrow> u32" where
  "scaled_ratio n radix e = f32_of_ratio (n * radix ^ nat e) (radix ^ nat (- e))"

definition nan_suffix :: "string \<Rightarrow> string" where
  "nan_suffix cs =
     (case cs of
        [] \<Rightarrow> []
      | c # cs' \<Rightarrow>
          if c \<noteq> CHR ''('' then cs
          else (case dropWhile (\<lambda>c. radix_digit c < 36 \<or> c = CHR ''_'') cs' of
                  d # rest \<Rightarrow> if d = CHR '')'' then rest else cs
                | [] \<Rightarrow> cs))"

definition strtof :: "string \<Rightarrow> (u32 \<times> string) option" where
  "strtof cs =
     (case sign_split cs of
        (neg, cs) \<Rightarrow>
          if to_lower (take 8 cs) = ''infinity'' then Some (f32_sign neg 0x7F800000, drop 8 cs)
          else if to_lower (take 3 cs) = ''inf'' then Some (f32_sign neg 0x7F800000, drop 3 cs)
          else if to_lower (take 3 cs) = ''nan'' then Some (f32_sign neg 0x7FC00000, nan_suffix (drop 3 cs))
          else
            (let hex = (if to_lower (take 2 cs) = ''0x'' then float_digits 16 (drop 2 cs) else ([], 0, []))
             in if fst hex \<noteq> [] then
                  (case hex of
                     (ds, frac, rest) \<Rightarrow>
                       (case float_exponent CHR ''p'' rest of
                          (e, rest) \<Rightarrow> Some (f32_sign neg (scaled_ratio (radix_value 16 ds) 2 (e - 4 * int frac)), rest)))
                else
                  (case float_digits 10 cs of
                     (ds, frac, rest) \<Rightarrow>
                       if ds = [] then None
                       else (case float_exponent CHR ''e'' rest of
                               (e, rest) \<Rightarrow> Some (f32_sign neg (scaled_ratio (radix_value 10 ds) 10 (e - int frac)), rest)))))"

definition parse_float :: "string \<Rightarrow> string + u32" where
  "parse_float str =
     (case strtof (c_str str) of
        Some (value, []) \<Rightarrow> Inr value
      | _ \<Rightarrow> Inl (''not a number: '' @ str))"

definition parse_percent_or_unit :: "string \<Rightarrow> string + u32" where
  "parse_percent_or_unit str =
     (case (if str \<noteq> [] \<and> last str = CHR ''%'' then map_sum id (\<lambda>v. f32_div v 100) (parse_float (butlast str))
            else parse_float str) of
        Inl what \<Rightarrow> Inl what
      | Inr value \<Rightarrow> Inr (f32_clamp value 0 one_f))"

definition rgb_component :: "string \<Rightarrow> string + u32" where
  "rgb_component part =
     (case parse_float part of
        Inl what \<Rightarrow> Inl what
      | Inr v \<Rightarrow> Inr (f32_clamp (if f32_less one_f v then f32_div v 255 else v) 0 one_f))"

definition parse_rgb :: "string list \<Rightarrow> string + LightRgb" where
  "parse_rgb values =
     (case (case values of [value] \<Rightarrow> getlines CHR '','' [] value | _ \<Rightarrow> values) of
        [r, g, b] \<Rightarrow>
          (case rgb_component r of
             Inl what \<Rightarrow> Inl what
           | Inr r \<Rightarrow>
               (case rgb_component g of
                  Inl what \<Rightarrow> Inl what
                | Inr g \<Rightarrow>
                    (case rgb_component b of
                       Inl what \<Rightarrow> Inl what
                     | Inr b \<Rightarrow> Inr \<lparr>rgb_red = r, rgb_green = g, rgb_blue = b\<rparr>)))
      | _ \<Rightarrow> Inl (''rgb expects '' @ [CHR 0x27] @ ''r,g,b'' @ [CHR 0x27] @ '' or three values''))"

end
