(* ===== verification/Cli_Actions.thy ===== *)
theory Cli_Actions
  imports Cli_Values
begin

text \<open>
  The actions of the command line tool, \<^verbatim>\<open>bin/commands/actions/entity_actions.cpp\<close>: the table from a domain and a verb to a
  function that resolves the entity, parses the values and runs one helper of its handle.  A thrown exception is an
  outcome; \<open>Cast_Error\<close> is where the store of the code casts a state to a wrong class.  Arguments of a call are
  evaluated from left to right, which the language leaves open.
\<close>

section \<open>Outcomes\<close>

datatype action_outcome = Action_Result bool string | Bad_Argument string | Client_Error api_error | Cast_Error

type_synonym action_fn = "message iteration \<Rightarrow> string \<Rightarrow> string list \<Rightarrow> client \<Rightarrow> action_outcome \<times> client"

text \<open>The macro \<^verbatim>\<open>CLI_NEED\<close>, the check for a missing value, a parser that may throw, and the result of a helper.\<close>

definition need :: "entity option \<Rightarrow> string \<Rightarrow> string \<Rightarrow> client \<Rightarrow> (entity \<Rightarrow> action_outcome \<times> client) \<Rightarrow> action_outcome \<times> client" where
  "need handle label oid cl k =
     (case handle of
        None \<Rightarrow> (Action_Result False (''no such '' @ label @ '' entity: '' @ oid), cl)
      | Some h \<Rightarrow> k h)"

definition need_value :: "string list \<Rightarrow> string \<Rightarrow> client \<Rightarrow> (string \<Rightarrow> action_outcome \<times> client) \<Rightarrow> action_outcome \<times> client" where
  "need_value v message cl k = (case v of [] \<Rightarrow> (Action_Result False message, cl) | x # _ \<Rightarrow> k x)"

definition arg :: "string + 'a \<Rightarrow> client \<Rightarrow> ('a \<Rightarrow> action_outcome \<times> client) \<Rightarrow> action_outcome \<times> client" where
  "arg parsed cl k = (case parsed of Inl what \<Rightarrow> (Bad_Argument what, cl) | Inr x \<Rightarrow> k x)"

definition acted :: "string \<Rightarrow> api_error option \<times> client \<Rightarrow> action_outcome \<times> client" where
  "acted name r = (case r of (None, cl) \<Rightarrow> (Action_Result True name, cl) | (Some e, cl) \<Rightarrow> (Client_Error e, cl))"

definition acted_access :: "string \<Rightarrow> client \<Rightarrow> (api_error option \<times> client) access \<Rightarrow> action_outcome \<times> client" where
  "acted_access name cl r = (case r of Access p \<Rightarrow> acted name p | _ \<Rightarrow> (Cast_Error, cl))"

section \<open>Commands with fields\<close>

definition parse_climate_mode :: "string \<Rightarrow> string + u32" where
  "parse_climate_mode str =
     (let s = to_lower str
      in if s = ''off'' then Inr 0
         else if s = ''heat_cool'' \<or> s = ''heatcool'' \<or> s = ''auto_heat_cool'' then Inr 1
         else if s = ''cool'' then Inr 2
         else if s = ''heat'' then Inr 3
         else if s = ''fan_only'' \<or> s = ''fan'' then Inr 4
         else if s = ''dry'' then Inr 5
         else if s = ''auto'' then Inr 6
         else Inl (''unknown climate mode: '' @ str))"

definition split_kv :: "string \<Rightarrow> string + string \<times> string" where
  "split_kv token =
     (if CHR ''='' \<in> set token
      then Inr (takeWhile (\<lambda>c. c \<noteq> CHR ''='') token, tl (dropWhile (\<lambda>c. c \<noteq> CHR ''='') token))
      else Inl (''expected key=value, got: '' @ token))"

text \<open>The command with one more field, the exception of a parser, or the failure for an unknown key.\<close>

definition light_field :: "string \<Rightarrow> string \<Rightarrow> LightCommand \<Rightarrow> action_outcome + LightCommand" where
  "light_field key value cmd =
     (let set = (\<lambda>f r. map_sum Bad_Argument f r)
      in if key = ''state'' then map_sum Bad_Argument (\<lambda>x. cmd\<lparr>lgtc_state := Some x\<rparr>) (parse_bool_value value)
         else if key = ''brightness'' then set (\<lambda>x. cmd\<lparr>lgtc_brightness := Some x\<rparr>) (parse_percent_or_unit value)
         else if key = ''color_brightness'' then set (\<lambda>x. cmd\<lparr>lgtc_color_brightness := Some x\<rparr>) (parse_percent_or_unit value)
         else if key = ''rgb'' then map_sum Bad_Argument (\<lambda>x. cmd\<lparr>lgtc_rgb := Some x\<rparr>) (parse_rgb [value])
         else if key = ''white'' then set (\<lambda>x. cmd\<lparr>lgtc_white := Some x\<rparr>) (parse_percent_or_unit value)
         else if key = ''color_temperature'' then set (\<lambda>x. cmd\<lparr>lgtc_color_temperature := Some x\<rparr>) (parse_float value)
         else if key = ''cold_white'' then set (\<lambda>x. cmd\<lparr>lgtc_cold_white := Some x\<rparr>) (parse_percent_or_unit value)
         else if key = ''warm_white'' then set (\<lambda>x. cmd\<lparr>lgtc_warm_white := Some x\<rparr>) (parse_percent_or_unit value)
         else if key = ''transition'' \<or> key = ''transition_length''
         then set (\<lambda>x. cmd\<lparr>lgtc_transition_length := Some x\<rparr>) (parse_uint value)
         else if key = ''flash'' \<or> key = ''flash_length'' then set (\<lambda>x. cmd\<lparr>lgtc_flash_length := Some x\<rparr>) (parse_uint value)
         else if key = ''effect'' then Inr (cmd\<lparr>lgtc_effect := Some value\<rparr>)
         else Inl (Action_Result False (''unknown light command field: '' @ key)))"

definition climate_field :: "string \<Rightarrow> string \<Rightarrow> ClimateCommand \<Rightarrow> action_outcome + ClimateCommand" where
  "climate_field key value cmd =
     (if key = ''mode'' then map_sum Bad_Argument (\<lambda>x. cmd\<lparr>clmc_mode := Some x\<rparr>) (parse_climate_mode value)
      else if key = ''target_temperature'' \<or> key = ''temperature''
      then map_sum Bad_Argument (\<lambda>x. cmd\<lparr>clmc_target_temperature := Some x\<rparr>) (parse_float value)
      else if key = ''target_temperature_low''
      then map_sum Bad_Argument (\<lambda>x. cmd\<lparr>clmc_target_temperature_low := Some x\<rparr>) (parse_float value)
      else if key = ''target_temperature_high''
      then map_sum Bad_Argument (\<lambda>x. cmd\<lparr>clmc_target_temperature_high := Some x\<rparr>) (parse_float value)
      else if key = ''target_humidity'' \<or> key = ''humidity''
      then map_sum Bad_Argument (\<lambda>x. cmd\<lparr>clmc_target_humidity := Some x\<rparr>) (parse_float value)
      else Inl (Action_Result False (''unknown climate command field: '' @ key)))"

fun command_fields :: "(string \<Rightarrow> string \<Rightarrow> 'c \<Rightarrow> action_outcome + 'c) \<Rightarrow> string list \<Rightarrow> 'c \<Rightarrow> action_outcome + 'c" where
  "command_fields field [] cmd = Inr cmd"
| "command_fields field (token # tokens) cmd =
     (case split_kv token of
        Inl what \<Rightarrow> Inl (Bad_Argument what)
      | Inr (key, value) \<Rightarrow>
          (case field key value cmd of
             Inl r \<Rightarrow> Inl r
           | Inr cmd \<Rightarrow> command_fields field tokens cmd))"

definition light_command :: action_fn where
  "light_command iter oid v cl =
     need (light_by_object_id iter oid cl) ''light'' oid cl (\<lambda>h.
       case command_fields light_field v new_LightCommand of
         Inl r \<Rightarrow> (r, cl)
       | Inr cmd \<Rightarrow> acted ''command'' (light_entity_command cmd h cl))"

definition climate_command :: action_fn where
  "climate_command iter oid v cl =
     need (climate_by_object_id iter oid cl) ''climate'' oid cl (\<lambda>h.
       case command_fields climate_field v new_ClimateCommand of
         Inl r \<Rightarrow> (r, cl)
       | Inr cmd \<Rightarrow> acted ''command'' (climate_entity_command cmd h cl))"

section \<open>The table\<close>

definition cli_switch_turn_on :: action_fn where
  "cli_switch_turn_on iter oid v cl =
     need (switch_by_object_id iter oid cl) ''switch'' oid cl (\<lambda>h. acted ''turn_on'' (toggle_entity_turn_on (\<lambda>on. switch_entity_set_power on h) cl))"

definition cli_switch_turn_off :: action_fn where
  "cli_switch_turn_off iter oid v cl =
     need (switch_by_object_id iter oid cl) ''switch'' oid cl (\<lambda>h. acted ''turn_off'' (toggle_entity_turn_off (\<lambda>on. switch_entity_set_power on h) cl))"

definition cli_switch_toggle :: action_fn where
  "cli_switch_toggle iter oid v cl =
     need (switch_by_object_id iter oid cl) ''switch'' oid cl (\<lambda>h. acted_access ''toggle'' cl (switch_entity_toggle h cl))"

definition cli_switch_set :: action_fn where
  "cli_switch_set iter oid v cl =
     need (switch_by_object_id iter oid cl) ''switch'' oid cl (\<lambda>h. need_value v ''set requires a boolean value'' cl (\<lambda>x. arg (parse_bool_value x) cl (\<lambda>x. acted ''set'' (switch_entity_set_power x h cl))))"

definition cli_light_turn_on :: action_fn where
  "cli_light_turn_on iter oid v cl =
     need (light_by_object_id iter oid cl) ''light'' oid cl (\<lambda>h. if v \<noteq> [] then arg (parse_percent_or_unit (hd v)) cl (\<lambda>x. acted ''turn_on'' (light_entity_set_brightness x h cl))
       else acted ''turn_on'' (toggle_entity_turn_on (\<lambda>on. light_entity_set_power on h) cl))"

definition cli_light_turn_off :: action_fn where
  "cli_light_turn_off iter oid v cl =
     need (light_by_object_id iter oid cl) ''light'' oid cl (\<lambda>h. acted ''turn_off'' (toggle_entity_turn_off (\<lambda>on. light_entity_set_power on h) cl))"

definition cli_light_toggle :: action_fn where
  "cli_light_toggle iter oid v cl =
     need (light_by_object_id iter oid cl) ''light'' oid cl (\<lambda>h. acted_access ''toggle'' cl (light_entity_toggle h cl))"

definition cli_light_set_brightness :: action_fn where
  "cli_light_set_brightness iter oid v cl =
     need (light_by_object_id iter oid cl) ''light'' oid cl (\<lambda>h. need_value v ''set_brightness requires a level (e.g. 50% or 0.5)'' cl (\<lambda>x. arg (parse_percent_or_unit x) cl (\<lambda>x. acted ''set_brightness'' (light_entity_set_brightness x h cl))))"

definition cli_light_set_rgb :: action_fn where
  "cli_light_set_rgb iter oid v cl =
     need (light_by_object_id iter oid cl) ''light'' oid cl (\<lambda>h. arg (parse_rgb v) cl (\<lambda>c. acted ''set_rgb'' (light_entity_set_rgb (rgb_red c) (rgb_green c) (rgb_blue c) h cl)))"

definition cli_fan_turn_on :: action_fn where
  "cli_fan_turn_on iter oid v cl =
     need (fan_by_object_id iter oid cl) ''fan'' oid cl (\<lambda>h. acted ''turn_on'' (toggle_entity_turn_on (\<lambda>on. fan_entity_set_power on h) cl))"

definition cli_fan_turn_off :: action_fn where
  "cli_fan_turn_off iter oid v cl =
     need (fan_by_object_id iter oid cl) ''fan'' oid cl (\<lambda>h. acted ''turn_off'' (toggle_entity_turn_off (\<lambda>on. fan_entity_set_power on h) cl))"

definition cli_fan_toggle :: action_fn where
  "cli_fan_toggle iter oid v cl =
     need (fan_by_object_id iter oid cl) ''fan'' oid cl (\<lambda>h. acted_access ''toggle'' cl (fan_entity_toggle h cl))"

definition cli_fan_set_speed :: action_fn where
  "cli_fan_set_speed iter oid v cl =
     need (fan_by_object_id iter oid cl) ''fan'' oid cl (\<lambda>h. need_value v ''set_speed requires a level'' cl (\<lambda>x. arg (parse_int x) cl (\<lambda>x. acted ''set_speed'' (fan_entity_set_speed x h cl))))"

definition cli_cover_open :: action_fn where
  "cli_cover_open iter oid v cl =
     need (cover_by_object_id iter oid cl) ''cover'' oid cl (\<lambda>h. acted ''open'' (cover_entity_open h cl))"

definition cli_cover_close :: action_fn where
  "cli_cover_close iter oid v cl =
     need (cover_by_object_id iter oid cl) ''cover'' oid cl (\<lambda>h. acted ''close'' (cover_entity_close h cl))"

definition cli_cover_stop :: action_fn where
  "cli_cover_stop iter oid v cl =
     need (cover_by_object_id iter oid cl) ''cover'' oid cl (\<lambda>h. acted ''stop'' (cover_entity_stop h cl))"

definition cli_cover_set_position :: action_fn where
  "cli_cover_set_position iter oid v cl =
     need (cover_by_object_id iter oid cl) ''cover'' oid cl (\<lambda>h. need_value v ''set_position requires a position (e.g. 50% or 0.5)'' cl (\<lambda>x. arg (parse_percent_or_unit x) cl (\<lambda>x. acted ''set_position'' (cover_entity_set_position x h cl))))"

definition cli_valve_open :: action_fn where
  "cli_valve_open iter oid v cl =
     need (valve_by_object_id iter oid cl) ''valve'' oid cl (\<lambda>h. acted ''open'' (valve_entity_open h cl))"

definition cli_valve_close :: action_fn where
  "cli_valve_close iter oid v cl =
     need (valve_by_object_id iter oid cl) ''valve'' oid cl (\<lambda>h. acted ''close'' (valve_entity_close h cl))"

definition cli_valve_stop :: action_fn where
  "cli_valve_stop iter oid v cl =
     need (valve_by_object_id iter oid cl) ''valve'' oid cl (\<lambda>h. acted ''stop'' (valve_entity_stop h cl))"

definition cli_valve_set_position :: action_fn where
  "cli_valve_set_position iter oid v cl =
     need (valve_by_object_id iter oid cl) ''valve'' oid cl (\<lambda>h. need_value v ''set_position requires a position'' cl (\<lambda>x. arg (parse_percent_or_unit x) cl (\<lambda>x. acted ''set_position'' ((\<lambda>p. valve_entity_command (new_ValveCommand\<lparr>vlvc_position := Some p\<rparr>)) x h cl))))"

definition cli_climate_set_mode :: action_fn where
  "cli_climate_set_mode iter oid v cl =
     need (climate_by_object_id iter oid cl) ''climate'' oid cl (\<lambda>h. need_value v ''set_mode requires a mode'' cl (\<lambda>x. arg (parse_climate_mode x) cl (\<lambda>x. acted ''set_mode'' (climate_entity_set_mode x h cl))))"

definition cli_climate_set_target_temperature :: action_fn where
  "cli_climate_set_target_temperature iter oid v cl =
     need (climate_by_object_id iter oid cl) ''climate'' oid cl (\<lambda>h. need_value v ''set_target_temperature requires a value'' cl (\<lambda>x. arg (parse_float x) cl (\<lambda>x. acted ''set_target_temperature'' (climate_entity_set_target_temperature x h cl))))"

definition cli_number_set :: action_fn where
  "cli_number_set iter oid v cl =
     need (number_by_object_id iter oid cl) ''number'' oid cl (\<lambda>h. need_value v ''set requires a value'' cl (\<lambda>x. arg (parse_float x) cl (\<lambda>x. acted ''set'' (number_entity_set x h cl))))"

definition cli_select_set :: action_fn where
  "cli_select_set iter oid v cl =
     need (select_by_object_id iter oid cl) ''select'' oid cl (\<lambda>h. need_value v ''set requires an option'' cl (\<lambda>x. acted ''set'' (select_entity_set x h cl)))"

definition cli_text_set :: action_fn where
  "cli_text_set iter oid v cl =
     need (text_by_object_id iter oid cl) ''text'' oid cl (\<lambda>h. need_value v ''set requires a value'' cl (\<lambda>x. acted ''set'' (text_entity_set x h cl)))"

definition cli_button_press :: action_fn where
  "cli_button_press iter oid v cl =
     need (button_by_object_id iter oid cl) ''button'' oid cl (\<lambda>h. acted ''press'' (button_entity_press h cl))"

definition cli_lock_lock :: action_fn where
  "cli_lock_lock iter oid v cl =
     need (lock_by_object_id iter oid cl) ''lock'' oid cl (\<lambda>h. acted ''lock'' (lock_entity_lock h cl))"

definition cli_lock_unlock :: action_fn where
  "cli_lock_unlock iter oid v cl =
     need (lock_by_object_id iter oid cl) ''lock'' oid cl (\<lambda>h. acted ''unlock'' (lock_entity_unlock h cl))"

definition cli_lock_open :: action_fn where
  "cli_lock_open iter oid v cl =
     need (lock_by_object_id iter oid cl) ''lock'' oid cl (\<lambda>h. acted ''open'' (lock_entity_open h cl))"

definition cli_media_player_play :: action_fn where
  "cli_media_player_play iter oid v cl =
     need (media_player_by_object_id iter oid cl) ''media_player'' oid cl (\<lambda>h. acted ''play'' (media_player_entity_play h cl))"

definition cli_media_player_pause :: action_fn where
  "cli_media_player_pause iter oid v cl =
     need (media_player_by_object_id iter oid cl) ''media_player'' oid cl (\<lambda>h. acted ''pause'' (media_player_entity_pause h cl))"

definition cli_media_player_stop :: action_fn where
  "cli_media_player_stop iter oid v cl =
     need (media_player_by_object_id iter oid cl) ''media_player'' oid cl (\<lambda>h. acted ''stop'' (media_player_entity_stop h cl))"

definition cli_media_player_set_volume :: action_fn where
  "cli_media_player_set_volume iter oid v cl =
     need (media_player_by_object_id iter oid cl) ''media_player'' oid cl (\<lambda>h. need_value v ''set_volume requires a level (e.g. 50% or 0.5)'' cl (\<lambda>x. arg (parse_percent_or_unit x) cl (\<lambda>x. acted ''set_volume'' (media_player_entity_set_volume x h cl))))"

definition cli_siren_turn_on :: action_fn where
  "cli_siren_turn_on iter oid v cl =
     need (siren_by_object_id iter oid cl) ''siren'' oid cl (\<lambda>h. acted ''turn_on'' (toggle_entity_turn_on (\<lambda>on. siren_entity_set_power on h) cl))"

definition cli_siren_turn_off :: action_fn where
  "cli_siren_turn_off iter oid v cl =
     need (siren_by_object_id iter oid cl) ''siren'' oid cl (\<lambda>h. acted ''turn_off'' (toggle_entity_turn_off (\<lambda>on. siren_entity_set_power on h) cl))"

definition cli_siren_toggle :: action_fn where
  "cli_siren_toggle iter oid v cl =
     need (siren_by_object_id iter oid cl) ''siren'' oid cl (\<lambda>h. acted_access ''toggle'' cl (siren_entity_toggle h cl))"

definition cli_alarm_control_panel_arm_away :: action_fn where
  "cli_alarm_control_panel_arm_away iter oid v cl =
     need (alarm_control_panel_by_object_id iter oid cl) ''alarm_control_panel'' oid cl (\<lambda>h. acted ''arm_away'' (alarm_control_panel_entity_arm_away (if v = [] then [] else hd v) h cl))"

definition cli_alarm_control_panel_arm_home :: action_fn where
  "cli_alarm_control_panel_arm_home iter oid v cl =
     need (alarm_control_panel_by_object_id iter oid cl) ''alarm_control_panel'' oid cl (\<lambda>h. acted ''arm_home'' (alarm_control_panel_entity_arm_home (if v = [] then [] else hd v) h cl))"

definition cli_alarm_control_panel_disarm :: action_fn where
  "cli_alarm_control_panel_disarm iter oid v cl =
     need (alarm_control_panel_by_object_id iter oid cl) ''alarm_control_panel'' oid cl (\<lambda>h. acted ''disarm'' (alarm_control_panel_entity_disarm (if v = [] then [] else hd v) h cl))"

definition cli_date_set :: action_fn where
  "cli_date_set iter oid v cl =
     need (date_by_object_id iter oid cl) ''date'' oid cl (\<lambda>h. need_value v ''set requires a date (YYYY-MM-DD)'' cl (\<lambda>x.
       case getlines CHR ''-'' [] x of
         [y, m, d] \<Rightarrow>
           arg (parse_uint y) cl (\<lambda>y. arg (parse_uint m) cl (\<lambda>m. arg (parse_uint d) cl (\<lambda>d. acted ''set'' (date_entity_set y m d h cl))))
       | _ \<Rightarrow> (Action_Result False ''date must be YYYY-MM-DD'', cl)))"

definition cli_time_set :: action_fn where
  "cli_time_set iter oid v cl =
     need (time_by_object_id iter oid cl) ''time'' oid cl (\<lambda>h. need_value v ''set requires a time (HH:MM[:SS])'' cl (\<lambda>x.
       case getlines CHR '':'' [] x of
         hour # minute # rest \<Rightarrow>
           arg (parse_uint hour) cl (\<lambda>hour. arg (parse_uint minute) cl (\<lambda>minute.
             arg (if rest \<noteq> [] then parse_uint (hd rest) else Inr 0) cl (\<lambda>second. acted ''set'' (time_entity_set hour minute second h cl))))
       | _ \<Rightarrow> (Action_Result False ''time must be HH:MM[:SS]'', cl)))"

definition cli_datetime_set :: action_fn where
  "cli_datetime_set iter oid v cl =
     need (datetime_by_object_id iter oid cl) ''datetime'' oid cl (\<lambda>h. need_value v ''set requires an epoch-seconds value'' cl (\<lambda>x. arg (parse_uint x) cl (\<lambda>x. acted ''set'' (datetime_entity_set x h cl))))"

definition cli_update_install :: action_fn where
  "cli_update_install iter oid v cl =
     need (update_by_object_id iter oid cl) ''update'' oid cl (\<lambda>h. acted ''install'' (update_entity_install h cl))"

definition cli_update_check :: action_fn where
  "cli_update_check iter oid v cl =
     need (update_by_object_id iter oid cl) ''update'' oid cl (\<lambda>h. acted ''check'' (update_entity_check h cl))"

definition cli_camera_request_image :: action_fn where
  "cli_camera_request_image iter oid v cl =
     need (camera_by_object_id iter oid cl) ''camera'' oid cl (\<lambda>h. acted ''request_image'' (camera_entity_request_image True False h cl))"

fun build_table :: "entity_type \<Rightarrow> (string \<times> action_fn) list" where
  "build_table Switch =
     [(''turn_on'', cli_switch_turn_on),
      (''turn_off'', cli_switch_turn_off),
      (''toggle'', cli_switch_toggle),
      (''set'', cli_switch_set)]"
| "build_table Light =
     [(''turn_on'', cli_light_turn_on),
      (''turn_off'', cli_light_turn_off),
      (''toggle'', cli_light_toggle),
      (''set_brightness'', cli_light_set_brightness),
      (''set_rgb'', cli_light_set_rgb),
      (''command'', light_command)]"
| "build_table Fan =
     [(''turn_on'', cli_fan_turn_on),
      (''turn_off'', cli_fan_turn_off),
      (''toggle'', cli_fan_toggle),
      (''set_speed'', cli_fan_set_speed)]"
| "build_table Cover =
     [(''open'', cli_cover_open),
      (''close'', cli_cover_close),
      (''stop'', cli_cover_stop),
      (''set_position'', cli_cover_set_position)]"
| "build_table Valve =
     [(''open'', cli_valve_open),
      (''close'', cli_valve_close),
      (''stop'', cli_valve_stop),
      (''set_position'', cli_valve_set_position)]"
| "build_table Climate =
     [(''set_mode'', cli_climate_set_mode),
      (''set_target_temperature'', cli_climate_set_target_temperature),
      (''command'', climate_command)]"
| "build_table Number =
     [(''set'', cli_number_set)]"
| "build_table Select =
     [(''set'', cli_select_set)]"
| "build_table Text =
     [(''set'', cli_text_set)]"
| "build_table Button =
     [(''press'', cli_button_press)]"
| "build_table Lock =
     [(''lock'', cli_lock_lock),
      (''unlock'', cli_lock_unlock),
      (''open'', cli_lock_open)]"
| "build_table MediaPlayer =
     [(''play'', cli_media_player_play),
      (''pause'', cli_media_player_pause),
      (''stop'', cli_media_player_stop),
      (''set_volume'', cli_media_player_set_volume)]"
| "build_table Siren =
     [(''turn_on'', cli_siren_turn_on),
      (''turn_off'', cli_siren_turn_off),
      (''toggle'', cli_siren_toggle)]"
| "build_table AlarmControlPanel =
     [(''arm_away'', cli_alarm_control_panel_arm_away),
      (''arm_home'', cli_alarm_control_panel_arm_home),
      (''disarm'', cli_alarm_control_panel_disarm)]"
| "build_table Date =
     [(''set'', cli_date_set)]"
| "build_table Time =
     [(''set'', cli_time_set)]"
| "build_table DateTime =
     [(''set'', cli_datetime_set)]"
| "build_table Update =
     [(''install'', cli_update_install),
      (''check'', cli_update_check)]"
| "build_table Camera =
     [(''request_image'', cli_camera_request_image)]"
| "build_table _ = []"

text \<open>\<^verbatim>\<open>std::map\<close> keeps the verbs of a domain sorted.\<close>

definition find_action :: "entity_type \<Rightarrow> string \<Rightarrow> action_fn option" where
  "find_action type action = map_of (build_table type) action"

definition actions_for :: "entity_type \<Rightarrow> string list" where
  "actions_for type = sort (map fst (build_table type))"

definition available_actions :: "entity_type \<Rightarrow> string list" where
  "available_actions type = sort (actions_for type @ [''info'', ''state''])"

section \<open>What an action does\<close>

text \<open>
  An action that succeeds has sent one command of its domain to the entity; one that fails has sent nothing; an
  exception of the client is that of sending the command.
\<close>

definition one_command :: "entity_type \<Rightarrow> message iteration \<Rightarrow> string \<Rightarrow> client \<Rightarrow> api_error option \<times> client \<Rightarrow> bool" where
  "one_command ty iter oid cl sent \<longleftrightarrow>
     (\<exists>h. one ty (find_by_object_id iter (cl_store cl) oid) = Some h \<and>
       (if ty = Camera then sent = request_camera_image True False cl
        else \<exists>cmd. command_key cmd = en_key h \<and> command_domain cmd = ty \<and> sent = send_command cmd cl))"

definition action_effect :: "entity_type \<Rightarrow> string \<Rightarrow> message iteration \<Rightarrow> string \<Rightarrow> client \<Rightarrow> action_outcome \<times> client \<Rightarrow> bool" where
  "action_effect ty name iter oid cl r \<longleftrightarrow>
     (case r of
        (Action_Result True message, cl') \<Rightarrow> message = name \<and> one_command ty iter oid cl (None, cl')
      | (Client_Error e, cl') \<Rightarrow> one_command ty iter oid cl (Some e, cl')
      | (_, cl') \<Rightarrow> cl' = cl)"

named_theorems effect_rules

lemma effect_need [effect_rules]:
  "(\<And>h. handle = Some h \<Longrightarrow> action_effect ty name iter oid cl (k h)) \<Longrightarrow> action_effect ty name iter oid cl (need handle label oid' cl k)"
  by (cases handle) (simp_all add: need_def action_effect_def)

lemma effect_need_value [effect_rules]:
  "(\<And>x. action_effect ty name iter oid cl (k x)) \<Longrightarrow> action_effect ty name iter oid cl (need_value v message cl k)"
  by (cases v) (simp_all add: need_value_def action_effect_def)

lemma effect_arg [effect_rules]:
  "(\<And>x. action_effect ty name iter oid cl (k x)) \<Longrightarrow> action_effect ty name iter oid cl (arg parsed cl k)"
  by (cases parsed) (simp_all add: arg_def action_effect_def)

lemma effect_failure [effect_rules]: "action_effect ty name iter oid cl (Action_Result False message, cl)"
  by (simp add: action_effect_def)

lemma effect_acted:
  "one_command ty iter oid cl sent \<Longrightarrow> action_effect ty name iter oid cl (acted name sent)"
  by (cases sent; cases "fst sent") (auto simp: acted_def action_effect_def)

lemma effect_command:
  assumes "one ty (find_by_object_id iter (cl_store cl) oid) = Some h" "command_key cmd = en_key h" "command_domain cmd = ty" "ty \<noteq> Camera"
  shows "action_effect ty name iter oid cl (acted name (send_command cmd cl))"
  using assms by (intro effect_acted) (auto simp: one_command_def)

lemma effect_perform:
  assumes "one (action_domain a) (find_by_object_id iter (cl_store cl) oid) = Some h"
  shows "action_effect (action_domain a) name iter oid cl (acted name (perform a h cl))"
  unfolding perform_sends by (rule effect_command) (use assms in \<open>simp_all add: action_addresses, cases a, simp_all\<close>)


lemma effect_performed [effect_rules]:
  assumes "one ty (find_by_object_id iter (cl_store cl) oid) = Some h" "action_domain a = ty"
  shows "action_effect ty name iter oid cl (acted name (perform a h cl))"
  using effect_perform [of a iter cl oid h name] assms by simp

lemma effect_toggle [effect_rules]:
  "(\<And>on. action_effect ty name iter oid cl (acted name (set_power on cl))) \<Longrightarrow>
    action_effect ty name iter oid cl (acted_access name cl (toggle_entity_toggle set_power on cl))"
  by (cases on) (simp_all add: acted_access_def action_effect_def)

lemma effect_fields [effect_rules]:
  assumes "\<And>key value cmd r. field key value cmd = Inl r \<Longrightarrow> action_effect ty name iter oid cl (r, cl)"
    and "\<And>cmd. action_effect ty name iter oid cl (k cmd)"
  shows "action_effect ty name iter oid cl (case command_fields field v cmd of Inl r \<Rightarrow> (r, cl) | Inr cmd \<Rightarrow> k cmd)"
proof (induction v arbitrary: cmd)
  case Nil
  then show ?case using assms(2) by simp
next
  case (Cons token v)
  have "action_effect ty name iter oid cl (Bad_Argument what, cl)" for what by (simp add: action_effect_def)
  then show ?case using Cons.IH assms(1)
    by (cases "split_kv token"; cases "field (fst (projr (split_kv token))) (snd (projr (split_kv token))) cmd") auto
qed

lemma effect_if [effect_rules]:
  "(b \<Longrightarrow> action_effect ty name iter oid cl x) \<Longrightarrow> (\<not> b \<Longrightarrow> action_effect ty name iter oid cl y) \<Longrightarrow>
    action_effect ty name iter oid cl (if b then x else y)"
  by simp

lemma map_sum_Bad: "map_sum Bad_Argument f p = Inl r \<Longrightarrow> \<exists>what. r = Bad_Argument what"
  by (cases p) auto

lemma if_Inl: "(if b then x else y) = Inl r \<Longrightarrow> (x = Inl r \<Longrightarrow> P) \<Longrightarrow> (y = Inl r \<Longrightarrow> P) \<Longrightarrow> P"
  by (cases b) auto

lemma field_failures:
  assumes "\<And>what. P (Bad_Argument what)" "\<And>what. P (Action_Result False what)"
  shows "light_field key value c = Inl r \<Longrightarrow> P r" "climate_field key value c' = Inl r \<Longrightarrow> P r"
proof -
  show "light_field key value c = Inl r \<Longrightarrow> P r"
    unfolding light_field_def Let_def using assms by (elim if_Inl) (auto dest!: map_sum_Bad)
  show "climate_field key value c' = Inl r \<Longrightarrow> P r"
    unfolding climate_field_def using assms by (elim if_Inl) (auto dest!: map_sum_Bad)
qed

text \<open>The helpers as actions of handles, and the lookups of the registry.\<close>

lemmas as_actions = perform.simps [symmetric] toggle_entity_turn_on_def toggle_entity_turn_off_def
  switch_entity_toggle_def light_entity_toggle_def fan_entity_toggle_def siren_entity_toggle_def

lemmas registry_lookups = switch_by_object_id_def light_by_object_id_def fan_by_object_id_def cover_by_object_id_def
  valve_by_object_id_def climate_by_object_id_def number_by_object_id_def select_by_object_id_def text_by_object_id_def
  button_by_object_id_def lock_by_object_id_def media_player_by_object_id_def siren_by_object_id_def
  alarm_control_panel_by_object_id_def date_by_object_id_def time_by_object_id_def datetime_by_object_id_def
  update_by_object_id_def camera_by_object_id_def

lemmas cli_defs = cli_switch_turn_on_def cli_switch_turn_off_def cli_switch_toggle_def cli_switch_set_def cli_light_turn_on_def
  cli_light_turn_off_def cli_light_toggle_def cli_light_set_brightness_def cli_light_set_rgb_def cli_fan_turn_on_def
  cli_fan_turn_off_def cli_fan_toggle_def cli_fan_set_speed_def cli_cover_open_def cli_cover_close_def cli_cover_stop_def
  cli_cover_set_position_def cli_valve_open_def cli_valve_close_def cli_valve_stop_def cli_valve_set_position_def
  cli_climate_set_mode_def cli_climate_set_target_temperature_def cli_number_set_def cli_select_set_def cli_text_set_def
  cli_button_press_def cli_lock_lock_def cli_lock_unlock_def cli_lock_open_def cli_media_player_play_def
  cli_media_player_pause_def cli_media_player_stop_def cli_media_player_set_volume_def cli_siren_turn_on_def
  cli_siren_turn_off_def cli_siren_toggle_def cli_alarm_control_panel_arm_away_def cli_alarm_control_panel_arm_home_def
  cli_alarm_control_panel_disarm_def cli_date_set_def cli_time_set_def cli_datetime_set_def cli_update_install_def
  cli_update_check_def cli_camera_request_image_def
  light_command_def climate_command_def

lemma effect_field [effect_rules]:
  "light_field key value c = Inl r \<Longrightarrow> action_effect ty name iter oid cl (r, cl)"
  "climate_field key value c' = Inl r \<Longrightarrow> action_effect ty name iter oid cl (r, cl)"
  by (erule field_failures [rotated 2]; simp add: action_effect_def)+

lemma effect_list [effect_rules]:
  "(xs = [] \<Longrightarrow> action_effect ty name iter oid cl x) \<Longrightarrow> (\<And>y ys. action_effect ty name iter oid cl (f y ys)) \<Longrightarrow>
    action_effect ty name iter oid cl (case xs of [] \<Rightarrow> x | y # ys \<Rightarrow> f y ys)"
  by (cases xs) simp_all

lemma effect_image [effect_rules]:
  "one Camera (find_by_object_id iter (cl_store cl) oid) = Some h \<Longrightarrow>
    action_effect Camera name iter oid cl (acted name (camera_entity_request_image True False h cl))"
  by (intro effect_acted) (simp add: one_command_def camera_entity_request_image_def)

lemma table_effects:
  assumes "(name, fn) \<in> set (build_table ty)"
  shows "action_effect ty name iter oid cl (fn iter oid v cl)"
  using assms
  by (cases ty; simp only: build_table.simps list.set insert_iff empty_iff prod.inject; elim disjE conjE FalseE;
    simp only: cli_defs as_actions registry_lookups; (intro effect_rules; simp))

section \<open>Properties\<close>

text \<open>The verbs of a domain are sorted and are exactly those that have an action.\<close>

lemma actions_sorted: "sorted (available_actions ty)"
  by (simp add: available_actions_def)

lemma verbs_of_domain: "action \<in> set (actions_for ty) \<longleftrightarrow> find_action ty action \<noteq> None"
  by (simp add: actions_for_def find_action_def map_of_eq_None_iff)

lemma verbs_distinct: "distinct (actions_for ty)"
  by (cases ty) (simp_all add: actions_for_def)


definition demo_house :: client where
  "demo_house = demo_client\<lparr>cl_store := new_store\<lparr>entities :=
     [7 \<mapsto> \<lparr>se_type = Switch, se_key = 7, se_object_id = ''relay'', se_name = [], se_info = None, se_state = None\<rparr>]\<rparr>\<rparr>"


text \<open>Numbers beyond 32 bits wrap: a valid unsigned value is refused, and a value too large is taken for a small one.\<close>

theorem parse_uint_wraps:
  "parse_uint ''4294967297'' = Inr 1 \<and> isl (parse_uint ''2147483648'')"
  by (simp add: parse_uint_def parse_int_def strtol_def strto_def sign_split_def c_str_def c_space_def radix_digit_def radix_value_def)

text \<open>A level that is not a number passes the clamp to the unit interval.\<close>

theorem nan_passes_clamp: "parse_percent_or_unit ''nan'' = Inr 0x7FC00000"
proof -
  have t: "to_lower ''nan'' = ''nan''" by code_simp
  have "parse_float ''nan'' = Inr 0x7FC00000"
    by (simp add: parse_float_def strtof_def sign_split_def c_str_def c_space_def t f32_sign_def nan_suffix_def)
  then show ?thesis
    by (simp add: parse_percent_or_unit_def f32_clamp_def f32_less_def f32_nan_def f32_magnitude_def)
qed

text \<open>Otherwise the level is in the unit interval.\<close>

lemma level_in_unit:
  assumes "parse_percent_or_unit str = Inr v" "\<not> f32_nan v"
  shows "0 \<le> f32_order v \<and> f32_order v \<le> f32_order one_f"
proof -
  have o: "f32_order 0 = 0" "f32_order one_f = 0x3F800000" "\<not> f32_nan 0" "\<not> f32_nan one_f"
    by (simp_all add: f32_order_def f32_nan_def f32_magnitude_def f32_negative_def one_f_def)
  obtain x where "v = f32_clamp x 0 one_f"
    using assms(1) by (auto simp: parse_percent_or_unit_def split: sum.splits if_splits)
  then show ?thesis using assms(2) o by (auto simp: f32_clamp_def f32_less_def split: if_splits)
qed

end
